(* ===== verification/Prelude.thy ===== *)
theory Prelude
  imports Main "HOL-Library.Word" "HOL-Library.Monad_Syntax"
begin

text \<open>
  What every component theory shares: the names of the machine types, the C arithmetic that
  HOL writes differently (truncating division, the check for a 64-bit result), the option
  monad in which a C expression without a defined value is \<open>None\<close>, and the lemma
  collections that carry the component proofs.

  Conventions. An \<open>intN_t\<close> or \<open>uintN_t\<close> is an \<open>N word\<close>; a signed read is \<open>sint\<close>, an unsigned
  one \<open>unat\<close> or \<open>uint\<close>; a C cast between the two signednesses is the identity on the word.
  The result \<open>None\<close> of a modelled function means that the C code reached undefined behaviour
  (a table read out of bounds or a signed 64-bit overflow); every error the code reports itself
  is a status value inside \<open>Some\<close>.
\<close>

unbundle bit_operations_syntax

type_synonym u8 = "8 word"
type_synonym u16 = "16 word"
type_synonym s16 = "16 word"
type_synonym u32 = "32 word"
type_synonym s32 = "32 word"

named_theorems frame_simps \<open>what an operation leaves unchanged\<close>
named_theorems op_defs \<open>the definitions of the operations of a component\<close>
named_theorems inv_intros \<open>the operations keep the component's invariant\<close>

subsection \<open>C arithmetic\<close>

text \<open>C divides towards zero; \<open>div\<close> on \<open>int\<close> rounds down.\<close>

definition c_div :: "int \<Rightarrow> int \<Rightarrow> int" where
  "c_div a b = sgn a * sgn b * (\<bar>a\<bar> div \<bar>b\<bar>)"

definition int64_ok :: "int \<Rightarrow> bool" where
  "int64_ok x \<longleftrightarrow> - (2 ^ 63) \<le> x \<and> x < 2 ^ 63"

text \<open>A signed 64-bit operation: its value, or undefined behaviour.\<close>

definition int64 :: "int \<Rightarrow> int option" where
  "int64 x = (if int64_ok x then Some x else None)"

lemma int64_Some [simp]: "int64_ok x \<Longrightarrow> int64 x = Some x"
  by (simp add: int64_def)

lemma int64_eq_Some [simp]: "int64 x = Some y \<longleftrightarrow> y = x \<and> int64_ok x"
  by (auto simp: int64_def)

lemma int64_okI: "\<bar>x\<bar> < 2 ^ 63 \<Longrightarrow> int64_ok x"
  by (auto simp: int64_ok_def)

lemma c_div_nonneg: "0 \<le> a \<Longrightarrow> 0 < b \<Longrightarrow> c_div a b = a div b"
  by (cases "a = 0") (auto simp: c_div_def)

lemma c_div_neg: "a < 0 \<Longrightarrow> 0 < b \<Longrightarrow> c_div a b = - ((- a) div b)"
  by (simp add: c_div_def)

lemma c_div_abs_le: "0 < b \<Longrightarrow> \<bar>c_div a b\<bar> \<le> \<bar>a\<bar>"
proof (cases "0 \<le> a")
  case True
  assume "0 < b"
  have "a div b \<le> a"
    using True \<open>0 < b\<close> by (metis div_by_1 zdiv_mono2 int_one_le_iff_zero_less zero_less_one)
  then show ?thesis
    using True \<open>0 < b\<close> by (simp add: c_div_nonneg pos_imp_zdiv_nonneg_iff)
next
  case False
  assume "0 < b"
  have "(- a) div b \<le> - a"
    using False \<open>0 < b\<close>
    by (metis div_by_1 zdiv_mono2 int_one_le_iff_zero_less zero_less_one linear neg_0_le_iff_le)
  then show ?thesis
    using False \<open>0 < b\<close> by (simp add: c_div_neg pos_imp_zdiv_nonneg_iff)
qed

lemma c_div_mono: "a \<le> a' \<Longrightarrow> 0 < b \<Longrightarrow> c_div a b \<le> c_div a' b"
proof -
  assume le: "a \<le> a'" and b: "0 < b"
  consider "0 \<le> a" | "a < 0" "0 \<le> a'" | "a' < 0" using le by linarith
  then show ?thesis
  proof cases
    case 1
    then show ?thesis using le b by (simp add: c_div_nonneg zdiv_mono1)
  next
    case 2
    have "0 \<le> (- a) div b" and "0 \<le> a' div b"
      using 2 b by (simp_all add: pos_imp_zdiv_nonneg_iff)
    then show ?thesis using 2 b by (simp add: c_div_nonneg c_div_neg)
  next
    case 3
    then show ?thesis using le b by (simp add: c_div_neg zdiv_mono1)
  qed
qed

subsection \<open>Error numbers\<close>

abbreviation (input) ENOENT :: int where "ENOENT \<equiv> 2"
abbreviation (input) EIO :: int where "EIO \<equiv> 5"
abbreviation (input) EAGAIN :: int where "EAGAIN \<equiv> 11"
abbreviation (input) ENOMEM :: int where "ENOMEM \<equiv> 12"
abbreviation (input) ENODEV :: int where "ENODEV \<equiv> 19"
abbreviation (input) EINVAL :: int where "EINVAL \<equiv> 22"
abbreviation (input) ENOTSUP :: int where "ENOTSUP \<equiv> 134"

subsection \<open>Words\<close>

lemma sint16_range: "- 32768 \<le> sint (w :: 16 word) \<and> sint w \<le> 32767"
  using sint_ge [of w] sint_lt [of w] by simp

lemma sint32_range: "- 2147483648 \<le> sint (w :: 32 word) \<and> sint w \<le> 2147483647"
  using sint_ge [of w] sint_lt [of w] by simp

lemma uint16_range: "0 \<le> uint (w :: 16 word) \<and> uint w \<le> 65535"
  using uint_lt2p [of w] by simp

lemma sint_word_of_int16: "- 32768 \<le> x \<Longrightarrow> x \<le> 32767 \<Longrightarrow> sint (word_of_int x :: 16 word) = x"
  by (simp add: signed_of_int signed_take_bit_int_eq_self)

lemma sint_add16:
  "- 32768 \<le> sint a + sint b \<Longrightarrow> sint a + sint b \<le> 32767 \<Longrightarrow> sint (a + b :: 16 word) = sint a + sint b"
  by (simp add: sint_word_ariths signed_take_bit_int_eq_self)

lemma sint_sub16:
  "- 32768 \<le> sint a - sint b \<Longrightarrow> sint a - sint b \<le> 32767 \<Longrightarrow> sint (a - b :: 16 word) = sint a - sint b"
  by (simp add: sint_word_ariths signed_take_bit_int_eq_self)

subsection \<open>Lists\<close>

lemma list_all2_list_all:
  "list_all2 P xs ys \<Longrightarrow> (\<And>x y. P x y \<Longrightarrow> Q y) \<Longrightarrow> list_all Q ys"
  by (induction rule: list_all2_induct) auto

end
