(* ===== verification/Vc_Types.thy ===== *)
theory Vc_Types
  imports Prelude
begin

text \<open>
  The data of \<open>include/voltage_control/vc_types.h\<close>, the capability flags of
  \<open>dt-bindings/voltage_control/capabilities.h\<close> and the build configuration of
  \<open>lib/voltage_control/Kconfig\<close>.

  An enum whose values are only ever written by the firmware is a plain \<open>datatype\<close>. An enum
  that the code fills by casting a wire register has one more constructor, \<open>..._OTHER v\<close>, for
  a register value that names no enumerator: the cast is \<open>..._of_u16\<close>, the cast back
  \<open>u16_of_...\<close>, and a round trip loses nothing.
\<close>

subsection \<open>Capabilities and fault causes\<close>

abbreviation CH_CAP_OUTPUT_ENABLE :: u16 where "CH_CAP_OUTPUT_ENABLE \<equiv> 0x0001"
abbreviation CH_CAP_RAW_OUTPUT_DRIVE :: u16 where "CH_CAP_RAW_OUTPUT_DRIVE \<equiv> 0x0002"
abbreviation CH_CAP_VOLTAGE_MEASUREMENT :: u16 where "CH_CAP_VOLTAGE_MEASUREMENT \<equiv> 0x0004"
abbreviation CH_CAP_CURRENT_MEASUREMENT :: u16 where "CH_CAP_CURRENT_MEASUREMENT \<equiv> 0x0008"
abbreviation CH_CAP_HARDWARE_STATUS :: u16 where "CH_CAP_HARDWARE_STATUS \<equiv> 0x0010"

abbreviation VC_FAULT_CURRENT :: u16 where "VC_FAULT_CURRENT \<equiv> 0x0002"
abbreviation VC_FAULT_MEASUREMENT :: u16 where "VC_FAULT_MEASUREMENT \<equiv> 0x0004"
abbreviation VC_FAULT_HARDWARE :: u16 where "VC_FAULT_HARDWARE \<equiv> 0x0008"
abbreviation VC_FAULT_INTERLOCK :: u16 where "VC_FAULT_INTERLOCK \<equiv> 0x0010"
abbreviation VC_FAULT_RETRY_EXHAUST :: u16 where "VC_FAULT_RETRY_EXHAUST \<equiv> 0x0020"
abbreviation VC_FAULT_CFG_INVALID :: u16 where "VC_FAULT_CFG_INVALID \<equiv> 0x0040"
abbreviation VC_FAULT_STALE :: u16 where "VC_FAULT_STALE \<equiv> 0x0080"

subsection \<open>Enumerations\<close>

datatype vc_status =
  VC_OK
| VC_ERR_UNSUPPORTED_CHANNEL
| VC_ERR_INVALID_VALUE
| VC_ERR_INVALID_COMMAND
| VC_ERR_UNSAFE_STATE
| VC_ERR_STORAGE
| VC_ERR_UNSUPPORTED_CAPABILITY

fun vc_status_code :: "vc_status \<Rightarrow> int" where
  "vc_status_code VC_OK = 0"
| "vc_status_code VC_ERR_UNSUPPORTED_CHANNEL = -1"
| "vc_status_code VC_ERR_INVALID_VALUE = -2"
| "vc_status_code VC_ERR_INVALID_COMMAND = -3"
| "vc_status_code VC_ERR_UNSAFE_STATE = -4"
| "vc_status_code VC_ERR_STORAGE = -5"
| "vc_status_code VC_ERR_UNSUPPORTED_CAPABILITY = -6"

text \<open>Statuses are compared as the integers they are: every error is below \<open>VC_OK\<close>.\<close>

instantiation vc_status :: linorder
begin

definition less_eq_vc_status :: "vc_status \<Rightarrow> vc_status \<Rightarrow> bool" where
  "less_eq_vc_status a b \<longleftrightarrow> vc_status_code a \<le> vc_status_code b"

definition less_vc_status :: "vc_status \<Rightarrow> vc_status \<Rightarrow> bool" where
  "less_vc_status a b \<longleftrightarrow> vc_status_code a < vc_status_code b"

instance
proof
  fix a b :: vc_status
  show "a \<le> b \<Longrightarrow> b \<le> a \<Longrightarrow> a = b"
    by (cases a; cases b) (simp_all add: less_eq_vc_status_def)
qed (auto simp: less_eq_vc_status_def less_vc_status_def)

end

lemma vc_status_error_iff: "st < VC_OK \<longleftrightarrow> st \<noteq> VC_OK"
  by (cases st) (simp_all add: less_vc_status_def)

datatype vc_operating_mode =
  VC_OPERATING_MODE_NORMAL
| VC_OPERATING_MODE_AUTOMATIC
| VC_OPERATING_MODE_CALIBRATION
| VC_OPERATING_MODE_OTHER u16

definition vc_operating_mode_of_u16 :: "u16 \<Rightarrow> vc_operating_mode" where
  "vc_operating_mode_of_u16 v =
     (if v = 0 then VC_OPERATING_MODE_NORMAL
      else if v = 1 then VC_OPERATING_MODE_AUTOMATIC
      else if v = 2 then VC_OPERATING_MODE_CALIBRATION
      else VC_OPERATING_MODE_OTHER v)"

fun u16_of_vc_operating_mode :: "vc_operating_mode \<Rightarrow> u16" where
  "u16_of_vc_operating_mode VC_OPERATING_MODE_NORMAL = 0"
| "u16_of_vc_operating_mode VC_OPERATING_MODE_AUTOMATIC = 1"
| "u16_of_vc_operating_mode VC_OPERATING_MODE_CALIBRATION = 2"
| "u16_of_vc_operating_mode (VC_OPERATING_MODE_OTHER v) = v"

datatype vc_output_action =
  VC_OUTPUT_ACTION_NONE
| VC_OUTPUT_ACTION_ENABLE
| VC_OUTPUT_ACTION_DISABLE_GRACEFUL
| VC_OUTPUT_ACTION_DISABLE_IMMEDIATE
| VC_OUTPUT_ACTION_DISABLE_FORCE
| VC_OUTPUT_ACTION_OTHER u16

definition vc_output_action_of_u16 :: "u16 \<Rightarrow> vc_output_action" where
  "vc_output_action_of_u16 v =
     (if v = 0 then VC_OUTPUT_ACTION_NONE
      else if v = 1 then VC_OUTPUT_ACTION_ENABLE
      else if v = 2 then VC_OUTPUT_ACTION_DISABLE_GRACEFUL
      else if v = 3 then VC_OUTPUT_ACTION_DISABLE_IMMEDIATE
      else if v = 4 then VC_OUTPUT_ACTION_DISABLE_FORCE
      else VC_OUTPUT_ACTION_OTHER v)"

fun u16_of_vc_output_action :: "vc_output_action \<Rightarrow> u16" where
  "u16_of_vc_output_action VC_OUTPUT_ACTION_NONE = 0"
| "u16_of_vc_output_action VC_OUTPUT_ACTION_ENABLE = 1"
| "u16_of_vc_output_action VC_OUTPUT_ACTION_DISABLE_GRACEFUL = 2"
| "u16_of_vc_output_action VC_OUTPUT_ACTION_DISABLE_IMMEDIATE = 3"
| "u16_of_vc_output_action VC_OUTPUT_ACTION_DISABLE_FORCE = 4"
| "u16_of_vc_output_action (VC_OUTPUT_ACTION_OTHER v) = v"

datatype vc_channel_fault_command =
  VC_CHANNEL_FAULT_COMMAND_NONE
| VC_CHANNEL_FAULT_COMMAND_CLEAR_ACTIVE
| VC_CHANNEL_FAULT_COMMAND_CLEAR_HISTORY
| VC_CHANNEL_FAULT_COMMAND_OTHER u16

definition vc_channel_fault_command_of_u16 :: "u16 \<Rightarrow> vc_channel_fault_command" where
  "vc_channel_fault_command_of_u16 v =
     (if v = 0 then VC_CHANNEL_FAULT_COMMAND_NONE
      else if v = 1 then VC_CHANNEL_FAULT_COMMAND_CLEAR_ACTIVE
      else if v = 2 then VC_CHANNEL_FAULT_COMMAND_CLEAR_HISTORY
      else VC_CHANNEL_FAULT_COMMAND_OTHER v)"

fun u16_of_vc_channel_fault_command :: "vc_channel_fault_command \<Rightarrow> u16" where
  "u16_of_vc_channel_fault_command VC_CHANNEL_FAULT_COMMAND_NONE = 0"
| "u16_of_vc_channel_fault_command VC_CHANNEL_FAULT_COMMAND_CLEAR_ACTIVE = 1"
| "u16_of_vc_channel_fault_command VC_CHANNEL_FAULT_COMMAND_CLEAR_HISTORY = 2"
| "u16_of_vc_channel_fault_command (VC_CHANNEL_FAULT_COMMAND_OTHER v) = v"

datatype vc_protection_mode =
  VC_PROTECTION_MODE_DISABLED
| VC_PROTECTION_MODE_FLAG_ONLY
| VC_PROTECTION_MODE_APPLY_OUTPUT_ACTION
| VC_PROTECTION_MODE_OTHER u16

definition vc_protection_mode_of_u16 :: "u16 \<Rightarrow> vc_protection_mode" where
  "vc_protection_mode_of_u16 v =
     (if v = 0 then VC_PROTECTION_MODE_DISABLED
      else if v = 1 then VC_PROTECTION_MODE_FLAG_ONLY
      else if v = 2 then VC_PROTECTION_MODE_APPLY_OUTPUT_ACTION
      else VC_PROTECTION_MODE_OTHER v)"

fun u16_of_vc_protection_mode :: "vc_protection_mode \<Rightarrow> u16" where
  "u16_of_vc_protection_mode VC_PROTECTION_MODE_DISABLED = 0"
| "u16_of_vc_protection_mode VC_PROTECTION_MODE_FLAG_ONLY = 1"
| "u16_of_vc_protection_mode VC_PROTECTION_MODE_APPLY_OUTPUT_ACTION = 2"
| "u16_of_vc_protection_mode (VC_PROTECTION_MODE_OTHER v) = v"

datatype vc_recovery_policy_mode =
  VC_RECOVERY_MANUAL_LATCH
| VC_RECOVERY_AUTO_RETRY
| VC_RECOVERY_AUTO_DERATE_RETRY
| VC_RECOVERY_NEVER_RETRY
| VC_RECOVERY_OTHER u16

definition vc_recovery_policy_mode_of_u16 :: "u16 \<Rightarrow> vc_recovery_policy_mode" where
  "vc_recovery_policy_mode_of_u16 v =
     (if v = 0 then VC_RECOVERY_MANUAL_LATCH
      else if v = 1 then VC_RECOVERY_AUTO_RETRY
      else if v = 2 then VC_RECOVERY_AUTO_DERATE_RETRY
      else if v = 3 then VC_RECOVERY_NEVER_RETRY
      else VC_RECOVERY_OTHER v)"

fun u16_of_vc_recovery_policy_mode :: "vc_recovery_policy_mode \<Rightarrow> u16" where
  "u16_of_vc_recovery_policy_mode VC_RECOVERY_MANUAL_LATCH = 0"
| "u16_of_vc_recovery_policy_mode VC_RECOVERY_AUTO_RETRY = 1"
| "u16_of_vc_recovery_policy_mode VC_RECOVERY_AUTO_DERATE_RETRY = 2"
| "u16_of_vc_recovery_policy_mode VC_RECOVERY_NEVER_RETRY = 3"
| "u16_of_vc_recovery_policy_mode (VC_RECOVERY_OTHER v) = v"

datatype vc_param_action =
  VC_PARAM_ACTION_NONE
| VC_PARAM_ACTION_SAVE
| VC_PARAM_ACTION_LOAD
| VC_PARAM_ACTION_FACTORY_RESET
| VC_PARAM_ACTION_OTHER u16

definition vc_param_action_of_u16 :: "u16 \<Rightarrow> vc_param_action" where
  "vc_param_action_of_u16 v =
     (if v = 0 then VC_PARAM_ACTION_NONE
      else if v = 1 then VC_PARAM_ACTION_SAVE
      else if v = 2 then VC_PARAM_ACTION_LOAD
      else if v = 3 then VC_PARAM_ACTION_FACTORY_RESET
      else VC_PARAM_ACTION_OTHER v)"

lemma u16_of_vc_operating_mode_of_u16 [simp]:
  "u16_of_vc_operating_mode (vc_operating_mode_of_u16 v) = v"
  by (simp add: vc_operating_mode_of_u16_def)

lemma u16_of_vc_output_action_of_u16 [simp]:
  "u16_of_vc_output_action (vc_output_action_of_u16 v) = v"
  by (simp add: vc_output_action_of_u16_def)

lemma u16_of_vc_channel_fault_command_of_u16 [simp]:
  "u16_of_vc_channel_fault_command (vc_channel_fault_command_of_u16 v) = v"
  by (simp add: vc_channel_fault_command_of_u16_def)

lemma u16_of_vc_protection_mode_of_u16 [simp]:
  "u16_of_vc_protection_mode (vc_protection_mode_of_u16 v) = v"
  by (simp add: vc_protection_mode_of_u16_def)

lemma u16_of_vc_recovery_policy_mode_of_u16 [simp]:
  "u16_of_vc_recovery_policy_mode (vc_recovery_policy_mode_of_u16 v) = v"
  by (simp add: vc_recovery_policy_mode_of_u16_def)

datatype vc_cal_field =
  VC_CAL_FIELD_OUTPUT_K
| VC_CAL_FIELD_OUTPUT_B
| VC_CAL_FIELD_MEASURED_V_K
| VC_CAL_FIELD_MEASURED_V_B
| VC_CAL_FIELD_MEASURED_I_K
| VC_CAL_FIELD_MEASURED_I_B
| VC_CAL_FIELD_OUTPUT_K_EXP
| VC_CAL_FIELD_MEASURED_V_K_EXP
| VC_CAL_FIELD_MEASURED_I_K_EXP

datatype vc_config_field =
  VC_FIELD_OPERATING_MODE
| VC_FIELD_STARTUP_CHANNEL_POLICY
| VC_FIELD_CONFIGURED_TARGET_VOLTAGE
| VC_FIELD_CONFIGURED_OUTPUT_ENABLED
| VC_FIELD_RAMP_UP_STEP
| VC_FIELD_RAMP_UP_INTERVAL
| VC_FIELD_RAMP_DOWN_STEP
| VC_FIELD_RAMP_DOWN_INTERVAL
| VC_FIELD_RECOVERY_POLICY_MODE
| VC_FIELD_AUTO_RETRY_DELAY
| VC_FIELD_AUTO_RETRY_MAX_COUNT
| VC_FIELD_AUTO_RETRY_WINDOW
| VC_FIELD_CURRENT_SAFE_BAND_PCT
| VC_FIELD_CURRENT_PROTECTION_MODE
| VC_FIELD_CURRENT_PROT_OUT_ACTION
| VC_FIELD_CURRENT_LIMIT_THRESHOLD
| VC_FIELD_AUTO_DERATE_STEP

subsection \<open>Configurations\<close>

record vc_system_config =
  sys_operating_mode :: vc_operating_mode
  startup_channel_policy :: u16

record vc_channel_config =
  configured_target_voltage :: s16
  configured_output_enabled :: bool
  ramp_up_step :: u16
  ramp_up_interval :: u16
  ramp_down_step :: u16
  ramp_down_interval :: u16
  recovery_policy_mode :: vc_recovery_policy_mode
  auto_retry_delay :: u16
  auto_retry_max_count :: u16
  auto_retry_window :: u16
  current_safe_band_pct :: u16
  current_protection_mode :: vc_protection_mode
  current_protection_output_action :: vc_output_action
  current_limit_threshold :: s16
  auto_derate_step :: u16

record vc_channel_cal_config =
  output_calib_k :: u16
  output_calib_b :: s16
  measured_voltage_calib_k :: u16
  measured_voltage_calib_b :: s16
  measured_current_calib_k :: u16
  measured_current_calib_b :: s16
  output_calib_k_exp :: s16
  measured_voltage_calib_k_exp :: s16
  measured_current_calib_k_exp :: s16

subsection \<open>Snapshots\<close>

record vc_channel_snapshot =
  snap_measured_voltage :: s16
  snap_measured_current :: s16
  snap_operational_target_voltage :: s16
  snap_status_bits :: u16
  snap_active_fault_cause :: u16
  snap_fault_history_cause :: u16
  snap_last_protection_output_action :: vc_output_action
  snap_auto_retry_count :: u16
  snap_auto_cooldown_remaining :: u16
  snap_last_fault_timestamp :: u32
  snap_channel_capability_flags :: u16
  snap_raw_adc_voltage :: s32
  snap_raw_adc_current :: s32
  snap_raw_dac_readback :: u16
  snap_cal_output_enabled :: u16

record vc_system_snapshot =
  snap_protocol_major :: u16
  snap_protocol_minor :: u16
  snap_variant_id :: u16
  snap_system_capability_flags :: u16
  snap_supported_channel_count :: u16
  snap_active_channel_mask :: u16
  snap_active_operating_mode :: vc_operating_mode
  snap_system_status :: u16
  snap_system_fault_cause :: u16
  snap_cal_watchdog_remaining_ms :: u32

subsection \<open>Build configuration\<close>

text \<open>The \<open>CONFIG_VC_...\<close> options of Kconfig that the code reads, and their ranges.\<close>

record kconfig =
  CONFIG_VC_DEFAULT_OPERATING_MODE :: u16
  CONFIG_VC_VARIANT_ID :: int
  CONFIG_VC_BOARD_HW_REVISION :: int
  CONFIG_VC_CURRENT_UNIT_EXP :: int
  CONFIG_VC_CAL_MAX_RAW_DAC :: int
  CONFIG_VC_DEFAULT_OUTPUT_CAL_K :: int
  CONFIG_VC_DEFAULT_OUTPUT_CAL_K_EXP :: int
  CONFIG_VC_DEFAULT_MEASURED_V_CAL_K :: int
  CONFIG_VC_DEFAULT_MEASURED_V_CAL_K_EXP :: int
  CONFIG_VC_DEFAULT_MEASURED_I_CAL_K :: int
  CONFIG_VC_DEFAULT_MEASURED_I_CAL_K_EXP :: int
  CONFIG_VC_MAX_TARGET_VOLTAGE :: int
  CONFIG_VC_DEFAULT_CURRENT_LIMIT :: int
  CONFIG_VC_DEFAULT_RAMP_STEP :: int
  CONFIG_VC_DEFAULT_OUTPUT_ENABLED :: bool
  CONFIG_VC_DEFAULT_CURRENT_SAFE_BAND_PCT :: int
  CONFIG_VC_MAX_RETRY_HISTORY :: nat
  CONFIG_VC_CAL_WATCHDOG_TIMEOUT_S :: int
  CONFIG_VC_RUNTIME_COMMAND_QUEUE_DEPTH :: nat
  CONFIG_VC_CAL_SAMPLE_TIMEOUT_MS :: int

definition kconfig_in_range :: "kconfig \<Rightarrow> bool" where
  "kconfig_in_range K \<longleftrightarrow>
     CONFIG_VC_DEFAULT_OPERATING_MODE K \<le> 2 \<and>
     1 \<le> CONFIG_VC_VARIANT_ID K \<and> CONFIG_VC_VARIANT_ID K \<le> 255 \<and>
     0 \<le> CONFIG_VC_BOARD_HW_REVISION K \<and> CONFIG_VC_BOARD_HW_REVISION K \<le> 65535 \<and>
     - 15 \<le> CONFIG_VC_CURRENT_UNIT_EXP K \<and> CONFIG_VC_CURRENT_UNIT_EXP K \<le> 0 \<and>
     1 \<le> CONFIG_VC_CAL_MAX_RAW_DAC K \<and> CONFIG_VC_CAL_MAX_RAW_DAC K \<le> 65535 \<and>
     1 \<le> CONFIG_VC_DEFAULT_OUTPUT_CAL_K K \<and> CONFIG_VC_DEFAULT_OUTPUT_CAL_K K \<le> 65535 \<and>
     - 9 \<le> CONFIG_VC_DEFAULT_OUTPUT_CAL_K_EXP K \<and> CONFIG_VC_DEFAULT_OUTPUT_CAL_K_EXP K \<le> 4 \<and>
     1 \<le> CONFIG_VC_DEFAULT_MEASURED_V_CAL_K K \<and> CONFIG_VC_DEFAULT_MEASURED_V_CAL_K K \<le> 65535 \<and>
     - 9 \<le> CONFIG_VC_DEFAULT_MEASURED_V_CAL_K_EXP K \<and>
     CONFIG_VC_DEFAULT_MEASURED_V_CAL_K_EXP K \<le> 4 \<and>
     1 \<le> CONFIG_VC_DEFAULT_MEASURED_I_CAL_K K \<and> CONFIG_VC_DEFAULT_MEASURED_I_CAL_K K \<le> 65535 \<and>
     - 9 \<le> CONFIG_VC_DEFAULT_MEASURED_I_CAL_K_EXP K \<and>
     CONFIG_VC_DEFAULT_MEASURED_I_CAL_K_EXP K \<le> 4 \<and>
     1 \<le> CONFIG_VC_MAX_TARGET_VOLTAGE K \<and> CONFIG_VC_MAX_TARGET_VOLTAGE K \<le> 32767 \<and>
     1 \<le> CONFIG_VC_DEFAULT_CURRENT_LIMIT K \<and> CONFIG_VC_DEFAULT_CURRENT_LIMIT K \<le> 32767 \<and>
     1 \<le> CONFIG_VC_DEFAULT_RAMP_STEP K \<and> CONFIG_VC_DEFAULT_RAMP_STEP K \<le> 65535 \<and>
     0 \<le> CONFIG_VC_DEFAULT_CURRENT_SAFE_BAND_PCT K \<and>
     CONFIG_VC_DEFAULT_CURRENT_SAFE_BAND_PCT K \<le> 100 \<and>
     1 \<le> CONFIG_VC_MAX_RETRY_HISTORY K \<and> CONFIG_VC_MAX_RETRY_HISTORY K \<le> 32 \<and>
     1 \<le> CONFIG_VC_CAL_WATCHDOG_TIMEOUT_S K \<and> CONFIG_VC_CAL_WATCHDOG_TIMEOUT_S K \<le> 3600 \<and>
     1 \<le> CONFIG_VC_RUNTIME_COMMAND_QUEUE_DEPTH K \<and> CONFIG_VC_RUNTIME_COMMAND_QUEUE_DEPTH K \<le> 64 \<and>
     1 \<le> CONFIG_VC_CAL_SAMPLE_TIMEOUT_MS K \<and> CONFIG_VC_CAL_SAMPLE_TIMEOUT_MS K \<le> 60000"

text \<open>The defaults of Kconfig.\<close>

definition kconfig_defaults :: kconfig where
  "kconfig_defaults =
    \<lparr> CONFIG_VC_DEFAULT_OPERATING_MODE = 0,
      CONFIG_VC_VARIANT_ID = 1,
      CONFIG_VC_BOARD_HW_REVISION = 0,
      CONFIG_VC_CURRENT_UNIT_EXP = - 10,
      CONFIG_VC_CAL_MAX_RAW_DAC = 65535,
      CONFIG_VC_DEFAULT_OUTPUT_CAL_K = 32768,
      CONFIG_VC_DEFAULT_OUTPUT_CAL_K_EXP = - 4,
      CONFIG_VC_DEFAULT_MEASURED_V_CAL_K = 1,
      CONFIG_VC_DEFAULT_MEASURED_V_CAL_K_EXP = - 6,
      CONFIG_VC_DEFAULT_MEASURED_I_CAL_K = 1,
      CONFIG_VC_DEFAULT_MEASURED_I_CAL_K_EXP = - 6,
      CONFIG_VC_MAX_TARGET_VOLTAGE = 20000,
      CONFIG_VC_DEFAULT_CURRENT_LIMIT = 10000,
      CONFIG_VC_DEFAULT_RAMP_STEP = 150,
      CONFIG_VC_DEFAULT_OUTPUT_ENABLED = False,
      CONFIG_VC_DEFAULT_CURRENT_SAFE_BAND_PCT = 10,
      CONFIG_VC_MAX_RETRY_HISTORY = 8,
      CONFIG_VC_CAL_WATCHDOG_TIMEOUT_S = 300,
      CONFIG_VC_RUNTIME_COMMAND_QUEUE_DEPTH = 8,
      CONFIG_VC_CAL_SAMPLE_TIMEOUT_MS = 1000 \<rparr>"

lemma kconfig_defaults_in_range: "kconfig_in_range kconfig_defaults"
  by (simp add: kconfig_in_range_def kconfig_defaults_def)

end
