(* ===== verification/Vc_Channel_Api.thy ===== *)
theory Vc_Channel_Api
  imports Vc_Types
begin

text \<open>
  The driver interface of \<open>include/voltage_control/vc_channel_api.h\<close>: the vtable with its
  optional entries, the device that carries it, and the measurement buffer a driver publishes
  into. The driver's private state is the type parameter \<open>'d\<close>; an entry takes it and returns
  its return code with the new state.

  The buffer's spinlock makes each publish and each read one atomic step, so a buffer is the
  record of its four values and the functions below are those steps.
\<close>

record 'd vc_channel_api =
  set_output :: "('d \<Rightarrow> u16 \<Rightarrow> int \<times> 'd) option"
  set_enable :: "('d \<Rightarrow> bool \<Rightarrow> int \<times> 'd) option"
  start_sampling :: "('d \<Rightarrow> int \<times> 'd) option"
  stop_sampling :: "('d \<Rightarrow> int \<times> 'd) option"
  get_capabilities :: "('d \<Rightarrow> u16) option"
  set_meas_callback :: "('d \<Rightarrow> int \<times> 'd) option"
  get_dt_defaults :: "('d \<Rightarrow> vc_channel_config \<Rightarrow> vc_channel_cal_config
                        \<Rightarrow> int \<times> vc_channel_config \<times> vc_channel_cal_config) option"

record 'd device =
  dev_api :: "'d vc_channel_api option"
  dev_data :: 'd

record vc_channel_buffer =
  channel_id :: u8
  buf_raw_voltage :: s32
  voltage_timestamp_ms :: u32
  buf_raw_current :: s32
  current_timestamp_ms :: u32

definition vc_channel_buffer_publish_voltage ::
    "vc_channel_buffer \<Rightarrow> s32 \<Rightarrow> u32 \<Rightarrow> vc_channel_buffer" where
  "vc_channel_buffer_publish_voltage buffer raw timestamp_ms =
     buffer\<lparr>buf_raw_voltage := raw, voltage_timestamp_ms := timestamp_ms\<rparr>"

definition vc_channel_buffer_publish_current ::
    "vc_channel_buffer \<Rightarrow> s32 \<Rightarrow> u32 \<Rightarrow> vc_channel_buffer" where
  "vc_channel_buffer_publish_current buffer raw timestamp_ms =
     buffer\<lparr>buf_raw_current := raw, current_timestamp_ms := timestamp_ms\<rparr>"

definition vc_channel_buffer_read :: "vc_channel_buffer \<Rightarrow> s32 \<times> u32 \<times> s32 \<times> u32" where
  "vc_channel_buffer_read buffer =
     (buf_raw_voltage buffer, voltage_timestamp_ms buffer,
      buf_raw_current buffer, current_timestamp_ms buffer)"

text \<open>
  What the channel relies on when it commands a driver: \<open>set_enable\<close> leaves the enable line at
  the commanded level and \<open>set_output\<close> does not move it. \<open>ready\<close> is the driver's own condition
  for that (its device initialised).
\<close>

locale vc_channel_driver =
  fixes set_out :: "'d \<Rightarrow> u16 \<Rightarrow> int \<times> 'd"
    and set_en :: "'d \<Rightarrow> bool \<Rightarrow> int \<times> 'd"
    and enable_line :: "'d \<Rightarrow> bool"
    and ready :: "'d \<Rightarrow> bool"
  assumes enable_line_set_en: "ready d \<Longrightarrow> enable_line (snd (set_en d e)) = e"
    and enable_line_set_out: "ready d \<Longrightarrow> enable_line (snd (set_out d c)) = enable_line d"
    and ready_set_en: "ready d \<Longrightarrow> ready (snd (set_en d e))"
    and ready_set_out: "ready d \<Longrightarrow> ready (snd (set_out d c))"
begin

lemma line_after_command:
  assumes "ready d"
  shows "enable_line (snd (set_en (snd (set_out d c)) e)) = e"
    and "ready (snd (set_en (snd (set_out d c)) e))"
  using assms by (simp_all add: enable_line_set_en ready_set_out ready_set_en)

end

end
