(* ===== verification/Vc_Gain.thy ===== *)
theory Vc_Gain
  imports Vc_Channel_Api
begin

text \<open>
  The calibration arithmetic of \<open>lib/voltage_control/vc_channel.c\<close>: the decimal gain
  \<open>raw * mantissa * 10^exp\<close> in \<open>int64_t\<close>, the saturation to \<open>int16_t\<close>, and the range of exponents
  that the write path admits. The lemmas show that inside that range the C expression is always
  defined (the table index is in bounds and no product leaves \<open>int64_t\<close>), monotone, and equal to
  the exact product truncated towards zero.
\<close>

definition vc_pow10_table :: "int list" where
  "vc_pow10_table =
     [1, 10, 100, 1000, 10000, 100000, 1000000, 10000000, 100000000, 1000000000]"

text \<open>A read of the table: undefined behaviour when the index is out of bounds.\<close>

definition pow10_at :: "int \<Rightarrow> int option" where
  "pow10_at i =
     (if 0 \<le> i \<and> i < int (length vc_pow10_table) then Some (vc_pow10_table ! nat i) else None)"

definition apply_gain :: "int \<Rightarrow> u16 \<Rightarrow> s16 \<Rightarrow> int option" where
  "apply_gain raw mantissa exp =
     do {
       scaled \<leftarrow> int64 (raw * uint mantissa);
       if 0 < sint exp then do {
         p \<leftarrow> pow10_at (sint exp);
         int64 (scaled * p)
       } else if sint exp < 0 then do {
         p \<leftarrow> pow10_at (- sint exp);
         Some (c_div scaled p)
       } else Some scaled
     }"

definition clamp_int16 :: "int \<Rightarrow> s16" where
  "clamp_int16 value =
     (if 32767 < value then 32767
      else if value < - 32768 then - 32768
      else word_of_int value)"

definition cal_k_exp_in_range :: "s16 \<Rightarrow> bool" where
  "cal_k_exp_in_range exp \<longleftrightarrow> - 9 \<le> sint exp \<and> sint exp \<le> 4"

subsection \<open>The table\<close>

lemma pow10_at_pow:
  assumes "0 \<le> i" and "i \<le> 9"
  shows "pow10_at i = Some (10 ^ nat i)"
proof -
  from assms have "i = 0 \<or> i = 1 \<or> i = 2 \<or> i = 3 \<or> i = 4 \<or> i = 5 \<or> i = 6 \<or> i = 7 \<or> i = 8 \<or> i = 9"
    by arith
  then show ?thesis by (auto simp: pow10_at_def vc_pow10_table_def)
qed

lemma pow10_at_None: "9 < i \<Longrightarrow> pow10_at i = None"
  by (simp add: pow10_at_def vc_pow10_table_def)

subsection \<open>The exact value of the gain\<close>

text \<open>The specification: the product with the decimal factor, truncated towards zero.\<close>

definition exact_gain :: "int \<Rightarrow> int \<Rightarrow> int \<Rightarrow> int" where
  "exact_gain raw k e =
     (if 0 \<le> e then raw * k * 10 ^ nat e else c_div (raw * k) (10 ^ nat (- e)))"

lemma exact_gain_mono: "raw \<le> raw' \<Longrightarrow> 0 \<le> k \<Longrightarrow> exact_gain raw k e \<le> exact_gain raw' k e"
  by (auto simp: exact_gain_def intro!: c_div_mono mult_right_mono)

lemma exact_gain_zero [simp]: "exact_gain 0 k e = 0"
  by (simp add: exact_gain_def c_div_def)

text \<open>The largest magnitude the gain reaches for a 32-bit raw value and an admitted exponent.\<close>

lemma exact_gain_bound:
  assumes raw: "\<bar>raw\<bar> \<le> 2 ^ 31" and k: "0 \<le> k" "k < 2 ^ 16" and e: "e \<le> 4"
  shows "\<bar>exact_gain raw k e\<bar> \<le> 2 ^ 47 * 10 ^ 4"
proof -
  have rk: "\<bar>raw * k\<bar> \<le> 2 ^ 47"
  proof -
    have "\<bar>raw * k\<bar> = \<bar>raw\<bar> * k" using k by (simp add: abs_mult)
    also have "\<dots> \<le> 2 ^ 31 * 2 ^ 16" using raw k by (intro mult_mono) auto
    finally show ?thesis by simp
  qed
  show ?thesis
  proof (cases "0 \<le> e")
    case True
    have p: "(10::int) ^ nat e \<le> 10 ^ 4"
      using e by (intro power_increasing) auto
    have "\<bar>raw * k * 10 ^ nat e\<bar> = \<bar>raw * k\<bar> * 10 ^ nat e" by (simp add: abs_mult)
    also have "\<dots> \<le> 2 ^ 47 * 10 ^ 4" using rk p by (intro mult_mono) auto
    finally show ?thesis using True by (simp add: exact_gain_def)
  next
    case False
    have "\<bar>c_div (raw * k) (10 ^ nat (- e))\<bar> \<le> \<bar>raw * k\<bar>" by (rule c_div_abs_le) simp
    then show ?thesis using rk False by (simp add: exact_gain_def)
  qed
qed

lemma apply_gain_exact:
  assumes raw: "\<bar>raw\<bar> \<le> 2 ^ 31" and e: "cal_k_exp_in_range e"
  shows "apply_gain raw k e = Some (exact_gain raw (uint k) (sint e))"
proof -
  have k: "0 \<le> uint k" "uint k < 2 ^ 16" using uint16_range [of k] by simp_all
  have e': "- 9 \<le> sint e" "sint e \<le> 4" using e by (simp_all add: cal_k_exp_in_range_def)
  have ok: "int64_ok (exact_gain raw (uint k) (sint e))"
    using exact_gain_bound [OF raw k e'(2)] by (intro int64_okI) simp
  have "int64_ok (raw * uint k)"
    using exact_gain_bound [OF raw k, of 0] by (intro int64_okI) (simp add: exact_gain_def)
  then show ?thesis
    using ok e' by (auto simp: apply_gain_def exact_gain_def pow10_at_pow mult.assoc)
qed

lemma clamp_int16_sint: "sint (clamp_int16 v) = max (- 32768) (min 32767 v)"
  by (auto simp: clamp_int16_def sint_word_of_int16)

end
