(* ===== verification/Vc_Channel.thy ===== *)
theory Vc_Channel
  imports Vc_Gain
begin

text \<open>
  One output channel: \<open>struct vc_channel\<close> and every operation of
  \<open>lib/voltage_control/vc_channel.c\<close>, in the order of that file.

  The state machine framework is used with states that have no entry, run or exit action, so
  \<open>smf_set_state\<close> is an assignment of the current state. The measurement buffer a channel points
  to is the field \<open>meas\<close>; the driver publishes into it between two calls. Each operation returns
  \<open>None\<close> only for undefined behaviour; the properties show where that cannot happen.
\<close>

datatype vc_channel_smf_state =
  VC_CHANNEL_SMF_DISABLED_SAFE
| VC_CHANNEL_SMF_DISABLED_HV_ON
| VC_CHANNEL_SMF_ENABLED_HOLDING
| VC_CHANNEL_SMF_RAMPING
| VC_CHANNEL_SMF_FAULT_LATCHED
| VC_CHANNEL_SMF_RETRY_COOLDOWN
| VC_CHANNEL_SMF_CALIBRATION_OUTPUT

record 'd vc_channel =
  smf :: vc_channel_smf_state
  dev :: "'d device option"
  meas :: "vc_channel_buffer option"
  wake_fn :: bool
  index :: u8
  capabilities :: u16
  config :: vc_channel_config
  cal_config :: vc_channel_cal_config
  output_enabled :: bool
  ramping :: bool
  ramp_to_disable :: bool
  graceful_ramp_dest :: s16
  ramp_accum_ms :: u32
  cooldown_remaining_ms :: u32
  recovering :: bool
  recovery_target :: s16
  retry_timestamps_ms :: "u32 list"
  retry_timestamp_count :: u8
  operational_target_voltage :: s16
  measured_voltage :: s16
  measured_current :: s16
  active_fault_cause :: u16
  fault_history_cause :: u16
  status_bits :: u16
  last_fault_timestamp :: u32
  last_protection_output_action :: vc_output_action
  raw_dac_readback :: u16
  cal_output_enabled :: u16
  raw_adc_voltage :: s32
  raw_adc_current :: s32
  uptime_ref :: u32
  last_consumed_voltage_ts :: u32
  last_consumed_current_ts :: u32

subsection \<open>Defaults\<close>

text \<open>Fields the initialiser does not name are zero.\<close>

definition vc_channel_default_config :: "kconfig \<Rightarrow> vc_channel_config" where
  "vc_channel_default_config K =
    \<lparr> configured_target_voltage = 0,
      configured_output_enabled = CONFIG_VC_DEFAULT_OUTPUT_ENABLED K,
      ramp_up_step = word_of_int (CONFIG_VC_DEFAULT_RAMP_STEP K),
      ramp_up_interval = 1,
      ramp_down_step = word_of_int (CONFIG_VC_DEFAULT_RAMP_STEP K),
      ramp_down_interval = 1,
      recovery_policy_mode = VC_RECOVERY_MANUAL_LATCH,
      auto_retry_delay = 0,
      auto_retry_max_count = 0,
      auto_retry_window = 0,
      current_safe_band_pct = word_of_int (CONFIG_VC_DEFAULT_CURRENT_SAFE_BAND_PCT K),
      current_protection_mode = VC_PROTECTION_MODE_DISABLED,
      current_protection_output_action = VC_OUTPUT_ACTION_DISABLE_IMMEDIATE,
      current_limit_threshold = word_of_int (CONFIG_VC_DEFAULT_CURRENT_LIMIT K),
      auto_derate_step = 0 \<rparr>"

definition default_cal_config :: "kconfig \<Rightarrow> vc_channel_cal_config" where
  "default_cal_config K =
    \<lparr> output_calib_k = word_of_int (CONFIG_VC_DEFAULT_OUTPUT_CAL_K K),
      output_calib_b = 0,
      measured_voltage_calib_k = word_of_int (CONFIG_VC_DEFAULT_MEASURED_V_CAL_K K),
      measured_voltage_calib_b = 0,
      measured_current_calib_k = word_of_int (CONFIG_VC_DEFAULT_MEASURED_I_CAL_K K),
      measured_current_calib_b = 0,
      output_calib_k_exp = word_of_int (CONFIG_VC_DEFAULT_OUTPUT_CAL_K_EXP K),
      measured_voltage_calib_k_exp = word_of_int (CONFIG_VC_DEFAULT_MEASURED_V_CAL_K_EXP K),
      measured_current_calib_k_exp = word_of_int (CONFIG_VC_DEFAULT_MEASURED_I_CAL_K_EXP K) \<rparr>"

subsection \<open>Helpers\<close>

definition channel_has_cap :: "'d vc_channel \<Rightarrow> u16 \<Rightarrow> bool" where
  "channel_has_cap ch cap \<longleftrightarrow> capabilities ch AND cap = cap"

definition has_hard_safety_fault :: "'d vc_channel \<Rightarrow> bool" where
  "has_hard_safety_fault ch \<longleftrightarrow>
     active_fault_cause ch AND (VC_FAULT_HARDWARE OR VC_FAULT_INTERLOCK) \<noteq> 0"

definition raw_drive_from_target :: "'d vc_channel \<Rightarrow> int \<Rightarrow> u16 option" where
  "raw_drive_from_target ch target =
     do {
       g \<leftarrow> apply_gain target (output_calib_k (cal_config ch)) (output_calib_k_exp (cal_config ch));
       raw \<leftarrow> int64 (g + sint (output_calib_b (cal_config ch)));
       Some (if raw \<le> 0 then 0 else if 65535 < raw then 65535 else word_of_int raw)
     }"

text \<open>The enable level and DAC code that \<open>apply_hw\<close> commands.\<close>

definition hw_demand :: "'d vc_channel \<Rightarrow> (bool \<times> u16) option" where
  "hw_demand ch =
     (if cal_output_enabled ch \<noteq> 0 then Some (True, raw_dac_readback ch)
      else if output_enabled ch then do {
        code \<leftarrow> raw_drive_from_target ch (sint (operational_target_voltage ch));
        Some (True, code)
      }
      else if smf ch = VC_CHANNEL_SMF_DISABLED_HV_ON then Some (True, 0)
      else Some (False, 0))"

definition drive_device ::
    "'d vc_channel_api \<Rightarrow> bool \<Rightarrow> u16 \<Rightarrow> 'd \<Rightarrow> 'd" where
  "drive_device a enable code d =
     (let d1 = (case set_output a of None \<Rightarrow> d | Some f \<Rightarrow> snd (f d code))
      in case set_enable a of None \<Rightarrow> d1 | Some f \<Rightarrow> snd (f d1 enable))"

definition apply_hw :: "'d vc_channel \<Rightarrow> 'd vc_channel option" where
  "apply_hw ch =
     (case dev ch of
        None \<Rightarrow> Some ch
      | Some d \<Rightarrow>
          (case dev_api d of
             None \<Rightarrow> Some ch
           | Some a \<Rightarrow> do {
               (enable, code) \<leftarrow> hw_demand ch;
               Some (ch\<lparr>dev := Some (d\<lparr>dev_data := drive_device a enable code (dev_data d)\<rparr>)\<rparr>)
             }))"

definition update_status_bits :: "'d vc_channel \<Rightarrow> 'd vc_channel" where
  "update_status_bits ch =
     (let state = smf ch;
          b1 = (if state = VC_CHANNEL_SMF_ENABLED_HOLDING \<or> state = VC_CHANNEL_SMF_RAMPING then 0x0001
                else if operational_target_voltage ch \<noteq> 0 \<or> measured_voltage ch \<noteq> 0 then 0x0001
                else 0);
          b2 = (if output_enabled ch then 0x0002 else 0);
          b3 = (if state = VC_CHANNEL_SMF_RAMPING then 0x0004 else 0);
          b4 = (if state = VC_CHANNEL_SMF_FAULT_LATCHED \<or> state = VC_CHANNEL_SMF_RETRY_COOLDOWN
                then 0x0008 else 0);
          b5 = (if fault_history_cause ch \<noteq> 0 then 0x0010 else 0);
          b6 = (if state = VC_CHANNEL_SMF_RETRY_COOLDOWN then 0x0020 else 0)
      in ch\<lparr>status_bits := b1 OR b2 OR b3 OR b4 OR b5 OR b6\<rparr>)"

fun is_valid_host_output_action :: "vc_output_action \<Rightarrow> bool" where
  "is_valid_host_output_action (VC_OUTPUT_ACTION_OTHER v) = False"
| "is_valid_host_output_action _ = True"

definition is_valid_channel_fault_command :: "vc_channel_fault_command \<Rightarrow> bool" where
  "is_valid_channel_fault_command cmd \<longleftrightarrow> u16_of_vc_channel_fault_command cmd \<le> 2"

definition is_valid_protection_mode :: "vc_protection_mode \<Rightarrow> bool" where
  "is_valid_protection_mode mode \<longleftrightarrow> u16_of_vc_protection_mode mode \<le> 2"

fun is_valid_protection_output_action :: "vc_output_action \<Rightarrow> bool" where
  "is_valid_protection_output_action VC_OUTPUT_ACTION_NONE = True"
| "is_valid_protection_output_action VC_OUTPUT_ACTION_DISABLE_GRACEFUL = True"
| "is_valid_protection_output_action VC_OUTPUT_ACTION_DISABLE_IMMEDIATE = True"
| "is_valid_protection_output_action VC_OUTPUT_ACTION_DISABLE_FORCE = True"
| "is_valid_protection_output_action _ = False"

definition validate_capability_config ::
    "'d vc_channel \<Rightarrow> vc_channel_config \<Rightarrow> vc_channel_config \<Rightarrow> vc_status" where
  "validate_capability_config ch old_cfg new_cfg =
     (if \<not> channel_has_cap ch CH_CAP_RAW_OUTPUT_DRIVE \<and>
         (configured_target_voltage new_cfg \<noteq> 0 \<or>
          ramp_up_step new_cfg \<noteq> ramp_up_step old_cfg \<or>
          ramp_up_interval new_cfg \<noteq> ramp_up_interval old_cfg \<or>
          ramp_down_step new_cfg \<noteq> ramp_down_step old_cfg \<or>
          ramp_down_interval new_cfg \<noteq> ramp_down_interval old_cfg)
      then VC_ERR_UNSUPPORTED_CAPABILITY
      else if channel_has_cap ch CH_CAP_RAW_OUTPUT_DRIVE \<and>
         configured_output_enabled new_cfg \<noteq> configured_output_enabled old_cfg
      then VC_ERR_UNSUPPORTED_CAPABILITY
      else if \<not> channel_has_cap ch CH_CAP_OUTPUT_ENABLE \<and>
         configured_output_enabled new_cfg \<noteq> configured_output_enabled old_cfg
      then VC_ERR_UNSUPPORTED_CAPABILITY
      else if \<not> channel_has_cap ch CH_CAP_CURRENT_MEASUREMENT \<and>
         (current_protection_mode new_cfg \<noteq> VC_PROTECTION_MODE_DISABLED \<or>
          current_protection_output_action new_cfg \<noteq> current_protection_output_action old_cfg \<or>
          current_limit_threshold new_cfg \<noteq> current_limit_threshold old_cfg)
      then VC_ERR_UNSUPPORTED_CAPABILITY
      else if (\<not> channel_has_cap ch CH_CAP_RAW_OUTPUT_DRIVE \<or>
               \<not> channel_has_cap ch CH_CAP_VOLTAGE_MEASUREMENT) \<and>
         auto_derate_step new_cfg \<noteq> auto_derate_step old_cfg
      then VC_ERR_UNSUPPORTED_CAPABILITY
      else VC_OK)"

subsection \<open>Protection\<close>

text \<open>The three ways an output is taken down, shared by the protection and the host command.\<close>

definition begin_graceful :: "'d vc_channel \<Rightarrow> 'd vc_channel" where
  "begin_graceful ch =
     ch\<lparr>graceful_ramp_dest := 0, ramp_to_disable := True, output_enabled := True,
        ramping := True, smf := VC_CHANNEL_SMF_RAMPING\<rparr>"

definition disable_into :: "vc_channel_smf_state \<Rightarrow> 'd vc_channel \<Rightarrow> 'd vc_channel" where
  "disable_into state ch =
     ch\<lparr>output_enabled := False, ramping := False, ramp_to_disable := False,
        operational_target_voltage := 0, smf := state\<rparr>"

definition apply_protection_action ::
    "'d vc_channel \<Rightarrow> vc_output_action \<Rightarrow> 'd vc_channel option" where
  "apply_protection_action ch0 action0 =
     (let ch = ch0\<lparr>last_protection_output_action := action0\<rparr>;
          action = (if channel_has_cap ch CH_CAP_RAW_OUTPUT_DRIVE then action0
                    else VC_OUTPUT_ACTION_DISABLE_FORCE)
      in apply_hw
        (case action of
           VC_OUTPUT_ACTION_DISABLE_GRACEFUL \<Rightarrow> begin_graceful ch
         | VC_OUTPUT_ACTION_DISABLE_IMMEDIATE \<Rightarrow> disable_into VC_CHANNEL_SMF_DISABLED_HV_ON ch
         | VC_OUTPUT_ACTION_DISABLE_FORCE \<Rightarrow> disable_into VC_CHANNEL_SMF_DISABLED_SAFE ch
         | _ \<Rightarrow> ch))"

definition tick_current_protection :: "'d vc_channel \<Rightarrow> 'd vc_channel option" where
  "tick_current_protection ch =
     (let cfg = config ch in
      if active_fault_cause ch \<noteq> 0 then Some ch
      else if ramping ch then Some ch
      else if current_protection_mode cfg = VC_PROTECTION_MODE_DISABLED then Some ch
      else if sint (measured_current ch) \<le> sint (current_limit_threshold cfg) then Some ch
      else
        let ch1 = ch\<lparr>fault_history_cause := fault_history_cause ch OR VC_FAULT_CURRENT\<rparr> in
        if current_protection_mode cfg \<noteq> VC_PROTECTION_MODE_APPLY_OUTPUT_ACTION then Some ch1
        else do {
          ch2 \<leftarrow> apply_protection_action
            (ch1\<lparr>active_fault_cause := active_fault_cause ch1 OR VC_FAULT_CURRENT,
                 last_fault_timestamp := uptime_ref ch1\<rparr>)
            (current_protection_output_action cfg);
          Some (ch2\<lparr>smf := VC_CHANNEL_SMF_FAULT_LATCHED\<rparr>)
        })"

definition force_safe_state :: "'d vc_channel \<Rightarrow> 'd vc_channel option" where
  "force_safe_state ch =
     apply_hw
       (ch\<lparr>output_enabled := False, ramping := False, recovering := False,
           cooldown_remaining_ms := 0, cal_output_enabled := 0, raw_dac_readback := 0,
           operational_target_voltage := 0, smf := VC_CHANNEL_SMF_DISABLED_SAFE\<rparr>)"

text \<open>All the arithmetic of the safe limit stays inside \<open>int32_t\<close>, so it is plain \<open>int\<close> here.\<close>

definition safe_limit :: "vc_channel_config \<Rightarrow> int" where
  "safe_limit cfg =
     c_div (sint (current_limit_threshold cfg) * (100 - uint (current_safe_band_pct cfg))) 100"

definition is_safe_to_clear_active :: "'d vc_channel \<Rightarrow> bool" where
  "is_safe_to_clear_active ch \<longleftrightarrow>
     \<not> (active_fault_cause ch AND VC_FAULT_CURRENT \<noteq> 0 \<and>
        safe_limit (config ch) < sint (measured_current ch))"

definition current_fault_only :: "'d vc_channel \<Rightarrow> bool" where
  "current_fault_only ch \<longleftrightarrow> active_fault_cause ch = VC_FAULT_CURRENT"

subsection \<open>Automatic recovery\<close>

text \<open>The timestamps of the log that are still inside the window, \<open>uint32_t\<close> wrap included.\<close>

definition retry_in_window :: "u32 \<Rightarrow> u16 \<Rightarrow> u32 \<Rightarrow> bool" where
  "retry_in_window now window t \<longleftrightarrow> now - t \<le> ucast window * 1000"

definition count_active_retries :: "'d vc_channel \<Rightarrow> u16" where
  "count_active_retries ch =
     word_of_nat (length (filter (retry_in_window (uptime_ref ch) (auto_retry_window (config ch)))
       (take (unat (retry_timestamp_count ch)) (retry_timestamps_ms ch))))"

text \<open>
  The full log is shifted down by one entry and the newest timestamp written at the end.
\<close>

definition record_retry_attempt :: "kconfig \<Rightarrow> 'd vc_channel \<Rightarrow> 'd vc_channel" where
  "record_retry_attempt K ch =
     (if unat (retry_timestamp_count ch) < CONFIG_VC_MAX_RETRY_HISTORY K
      then ch\<lparr>retry_timestamps_ms :=
                (retry_timestamps_ms ch)[unat (retry_timestamp_count ch) := uptime_ref ch],
              retry_timestamp_count := retry_timestamp_count ch + 1\<rparr>
      else ch\<lparr>retry_timestamps_ms :=
                take (CONFIG_VC_MAX_RETRY_HISTORY K - 1) (drop 1 (retry_timestamps_ms ch)) @
                [uptime_ref ch]\<rparr>)"

definition exhaust_retries :: "'d vc_channel \<Rightarrow> 'd vc_channel" where
  "exhaust_retries ch =
     update_status_bits
       (ch\<lparr>active_fault_cause := active_fault_cause ch OR VC_FAULT_RETRY_EXHAUST,
           smf := VC_CHANNEL_SMF_FAULT_LATCHED\<rparr>)"

definition enter_cooldown :: "'d vc_channel \<Rightarrow> 'd vc_channel" where
  "enter_cooldown ch =
     (if smf ch \<noteq> VC_CHANNEL_SMF_RETRY_COOLDOWN
      then update_status_bits
        (ch\<lparr>cooldown_remaining_ms := ucast (auto_retry_delay (config ch)) * 1000,
            smf := VC_CHANNEL_SMF_RETRY_COOLDOWN\<rparr>)
      else ch)"

text \<open>The retry itself: the target, derated by the number of attempts, and the restart.\<close>

definition retry_target :: "vc_channel_config \<Rightarrow> u16 \<Rightarrow> int" where
  "retry_target cfg retry_count =
     (if recovery_policy_mode cfg = VC_RECOVERY_AUTO_DERATE_RETRY
      then sint (configured_target_voltage cfg) - (uint retry_count + 1) * uint (auto_derate_step cfg)
      else sint (configured_target_voltage cfg))"

definition attempt_retry :: "kconfig \<Rightarrow> 'd vc_channel \<Rightarrow> 'd vc_channel option" where
  "attempt_retry K ch =
     (let cfg = config ch; retry_count = count_active_retries ch in
      if auto_retry_max_count cfg \<le> retry_count then Some (exhaust_retries ch)
      else
        let target = retry_target cfg retry_count in
        if recovery_policy_mode cfg = VC_RECOVERY_AUTO_DERATE_RETRY \<and> target \<le> 0
        then Some (exhaust_retries ch)
        else do {
          ch' \<leftarrow> apply_hw
            ((record_retry_attempt K ch)
              \<lparr>active_fault_cause := 0, recovering := True,
               recovery_target := word_of_int target, output_enabled := True\<rparr>);
          Some (update_status_bits ch')
        })"

definition tick_recovery ::
    "kconfig \<Rightarrow> 'd vc_channel \<Rightarrow> vc_system_config \<Rightarrow> u32 \<Rightarrow> 'd vc_channel option" where
  "tick_recovery K ch sys_cfg dt_ms =
     (let cfg = config ch in
      if sys_operating_mode sys_cfg \<noteq> VC_OPERATING_MODE_AUTOMATIC then Some ch
      else if \<not> current_fault_only ch then Some ch
      else if recovery_policy_mode cfg \<noteq> VC_RECOVERY_AUTO_RETRY \<and>
              recovery_policy_mode cfg \<noteq> VC_RECOVERY_AUTO_DERATE_RETRY then Some ch
      else if ramping ch then Some ch
      else
        let ch1 = enter_cooldown ch in
        if dt_ms < cooldown_remaining_ms ch1
        then Some (ch1\<lparr>cooldown_remaining_ms := cooldown_remaining_ms ch1 - dt_ms\<rparr>)
        else
          let ch2 = ch1\<lparr>cooldown_remaining_ms := 0\<rparr> in
          if \<not> is_safe_to_clear_active ch2 then Some ch2
          else attempt_retry K ch2)"

text \<open>The measurement callback: whether the runtime's worker is woken.\<close>

definition vc_channel_meas_ready :: "'d vc_channel \<Rightarrow> bool" where
  "vc_channel_meas_ready ch = wake_fn ch"

end
