(* ===== verification/Vc_Channel_Ops.thy ===== *)
theory Vc_Channel_Ops
  imports Vc_Channel
begin

text \<open>
  The public operations of a channel (\<open>lib/voltage_control/vc_channel.c\<close> from
  \<open>vc_channel_init\<close> on): construction, one scheduler run, configuration writes, the host's output
  and fault commands, the measurement path, the voltage ramp and the calibration session.

  An operation that reports a status returns it with the new channel; an early return leaves the
  channel as it was.
\<close>

subsection \<open>Construction\<close>

definition blank_channel :: "kconfig \<Rightarrow> 'd vc_channel" where
  "blank_channel K =
    \<lparr> smf = VC_CHANNEL_SMF_DISABLED_SAFE, dev = None, meas = None, wake_fn = False, index = 0,
      capabilities = 0, config = vc_channel_default_config K, cal_config = default_cal_config K,
      output_enabled = False, ramping = False, ramp_to_disable = False, graceful_ramp_dest = 0,
      ramp_accum_ms = 0, cooldown_remaining_ms = 0, recovering = False, recovery_target = 0,
      retry_timestamps_ms = replicate (CONFIG_VC_MAX_RETRY_HISTORY K) 0,
      retry_timestamp_count = 0, operational_target_voltage = 0, measured_voltage = 0,
      measured_current = 0, active_fault_cause = 0, fault_history_cause = 0, status_bits = 0,
      last_fault_timestamp = 0, last_protection_output_action = VC_OUTPUT_ACTION_NONE,
      raw_dac_readback = 0, cal_output_enabled = 0, raw_adc_voltage = 0, raw_adc_current = 0,
      uptime_ref = 0, last_consumed_voltage_ts = 0, last_consumed_current_ts = 0 \<rparr>"

definition install_device :: "'d vc_channel_api \<Rightarrow> 'd device \<Rightarrow> 'd vc_channel \<Rightarrow> 'd vc_channel" where
  "install_device a d ch =
     (let d1 = (case set_meas_callback a of
                  None \<Rightarrow> d | Some f \<Rightarrow> d\<lparr>dev_data := snd (f (dev_data d))\<rparr>)
      in case get_dt_defaults a of
           None \<Rightarrow> ch\<lparr>dev := Some d1\<rparr>
         | Some f \<Rightarrow>
             (case f (dev_data d1) (config ch) (cal_config ch) of
                (_, cfg, cal) \<Rightarrow> ch\<lparr>dev := Some d1, config := cfg, cal_config := cal\<rparr>))"

definition vc_channel_init ::
    "kconfig \<Rightarrow> 'd device option \<Rightarrow> u8 \<Rightarrow> u16 \<Rightarrow> vc_channel_buffer option \<Rightarrow> bool \<Rightarrow> 'd vc_channel" where
  "vc_channel_init K device idx caps buffer wake =
     (let ch = (blank_channel K)
            \<lparr>dev := device, index := idx, capabilities := caps, meas := buffer, wake_fn := wake\<rparr>
      in case device of
           None \<Rightarrow> ch
         | Some d \<Rightarrow>
             (case dev_api d of None \<Rightarrow> ch | Some a \<Rightarrow> install_device a d ch))"

subsection \<open>Measurements\<close>

definition vc_channel_consume_voltage :: "'d vc_channel \<Rightarrow> s32 \<Rightarrow> 'd vc_channel option" where
  "vc_channel_consume_voltage ch raw_voltage =
     do {
       g \<leftarrow> apply_gain (sint raw_voltage) (measured_voltage_calib_k (cal_config ch))
              (measured_voltage_calib_k_exp (cal_config ch));
       v \<leftarrow> int64 (g + sint (measured_voltage_calib_b (cal_config ch)));
       Some (update_status_bits
         (ch\<lparr>raw_adc_voltage := raw_voltage, measured_voltage := clamp_int16 v\<rparr>))
     }"

definition vc_channel_consume_current :: "'d vc_channel \<Rightarrow> s32 \<Rightarrow> 'd vc_channel option" where
  "vc_channel_consume_current ch raw_current =
     do {
       g \<leftarrow> apply_gain (sint raw_current) (measured_current_calib_k (cal_config ch))
              (measured_current_calib_k_exp (cal_config ch));
       i \<leftarrow> int64 (g + sint (measured_current_calib_b (cal_config ch)));
       let ch1 = ch\<lparr>raw_adc_current := raw_current, measured_current := clamp_int16 i\<rparr>;
       ch2 \<leftarrow> (if \<not> ramping ch1 then tick_current_protection ch1 else Some ch1);
       Some (update_status_bits ch2)
     }"

definition vc_channel_consume_fault :: "'d vc_channel \<Rightarrow> u16 \<Rightarrow> 'd vc_channel option" where
  "vc_channel_consume_fault ch fault_cause =
     do {
       ch1 \<leftarrow> force_safe_state
         (ch\<lparr>active_fault_cause := active_fault_cause ch OR fault_cause,
             fault_history_cause := fault_history_cause ch OR fault_cause\<rparr>);
       Some (update_status_bits ch1)
     }"

subsection \<open>The ramp\<close>

definition ramp_target :: "'d vc_channel \<Rightarrow> s16" where
  "ramp_target ch =
     (if ramp_to_disable ch then graceful_ramp_dest ch
      else if recovering ch then recovery_target ch
      else configured_target_voltage (config ch))"

text \<open>The end of a ramp: the output goes off after a graceful disable and holds otherwise.\<close>

definition finish_ramp :: "'d vc_channel \<Rightarrow> 'd vc_channel" where
  "finish_ramp ch =
     (if ramp_to_disable ch
      then ch\<lparr>ramping := False, ramp_to_disable := False, output_enabled := False,
              smf := VC_CHANNEL_SMF_DISABLED_SAFE\<rparr>
      else ch\<lparr>ramping := False, recovering := False, smf := VC_CHANNEL_SMF_ENABLED_HOLDING\<rparr>)"

text \<open>One step of the voltage: \<open>int16_t\<close> addition wraps, then the target is not overrun.\<close>

definition ramp_step :: "u16 \<Rightarrow> s16 \<Rightarrow> s16 \<Rightarrow> s16" where
  "ramp_step step target current =
     (if sint current < sint target
      then (let c = current + step in if sint target < sint c then target else c)
      else (let c = current - step in if sint c < sint target then target else c))"

text \<open>
  The \<open>while\<close> loop of the ramp. Its caller has returned early for an interval of 0, so the guard
  \<open>interval_ms \<noteq> 0\<close> never cuts a loop short; it is what makes the recursion well-founded.
\<close>

function ramp_loop :: "u16 \<Rightarrow> u32 \<Rightarrow> s16 \<Rightarrow> u32 \<Rightarrow> s16 \<Rightarrow> u32 \<times> s16" where
  "ramp_loop step interval_ms target accum current =
     (if interval_ms \<noteq> 0 \<and> interval_ms \<le> accum \<and> current \<noteq> target
      then ramp_loop step interval_ms target (accum - interval_ms) (ramp_step step target current)
      else (accum, current))"
  by pat_completeness auto
termination
proof (relation "measure (\<lambda>(step, interval_ms, target, accum, current). unat accum)", goal_cases)
  case 1
  show ?case by simp
next
  case (2 step interval_ms target accum current)
  then have "unat (accum - interval_ms) = unat accum - unat interval_ms"
    and "0 < unat interval_ms" and "unat interval_ms \<le> unat accum"
    by (simp_all add: unat_sub word_le_nat_alt unat_gt_0)
  then show ?case by simp
qed

declare ramp_loop.simps [simp del]

definition vc_channel_tick_ramp ::
    "'d vc_channel \<Rightarrow> u32 \<Rightarrow> vc_system_config \<Rightarrow> 'd vc_channel option" where
  "vc_channel_tick_ramp ch dt_ms sys_cfg =
     (let cfg = config ch;
          target = ramp_target ch;
          current = operational_target_voltage ch in
      if \<not> output_enabled ch then Some ch
      else if active_fault_cause ch \<noteq> 0 \<and> \<not> ramp_to_disable ch then Some ch
      else if current = target then
        (if ramping ch
         then (if ramp_to_disable ch
               then do {
                 ch1 \<leftarrow> apply_hw (finish_ramp ch);
                 Some (update_status_bits ch1)
               }
               else Some (finish_ramp ch))
         else Some ch)
      else
        let step = (if sint current < sint target then ramp_up_step cfg else ramp_down_step cfg);
            interval = (if sint current < sint target then ramp_up_interval cfg
                        else ramp_down_interval cfg) in
        if step = 0 \<or> interval = 0
        then do {
          ch1 \<leftarrow> apply_hw
            (finish_ramp (ch\<lparr>ramping := True, operational_target_voltage := target\<rparr>));
          Some (update_status_bits ch1)
        }
        else
          (case ramp_loop step (ucast interval * 1000) target (ramp_accum_ms ch + dt_ms) current of
             (accum, reached) \<Rightarrow>
               let ch1 = ch\<lparr>ramping := True, ramp_accum_ms := accum,
                            operational_target_voltage := reached\<rparr> in
               do {
                 ch2 \<leftarrow> apply_hw (if reached = target then finish_ramp ch1 else ch1);
                 Some (update_status_bits ch2)
               }))"

subsection \<open>One run of a channel\<close>

definition consume_if_new_voltage ::
    "'d vc_channel \<Rightarrow> s32 \<Rightarrow> u32 \<Rightarrow> 'd vc_channel option" where
  "consume_if_new_voltage ch raw ts =
     (if ts \<noteq> last_consumed_voltage_ts ch
      then do {
        ch1 \<leftarrow> vc_channel_consume_voltage ch raw;
        Some (ch1\<lparr>last_consumed_voltage_ts := ts\<rparr>)
      }
      else Some ch)"

definition consume_if_new_current ::
    "'d vc_channel \<Rightarrow> s32 \<Rightarrow> u32 \<Rightarrow> 'd vc_channel option" where
  "consume_if_new_current ch raw ts =
     (if ts \<noteq> last_consumed_current_ts ch
      then do {
        ch1 \<leftarrow> vc_channel_consume_current ch raw;
        Some (ch1\<lparr>last_consumed_current_ts := ts\<rparr>)
      }
      else Some ch)"

definition consume_measurements :: "'d vc_channel \<Rightarrow> 'd vc_channel option" where
  "consume_measurements ch =
     (case meas ch of
        None \<Rightarrow> Some ch
      | Some buffer \<Rightarrow>
          (case vc_channel_buffer_read buffer of
             (raw_voltage, voltage_ts, raw_current, current_ts) \<Rightarrow> do {
               ch1 \<leftarrow> consume_if_new_voltage ch raw_voltage voltage_ts;
               consume_if_new_current ch1 raw_current current_ts
             }))"

definition vc_channel_run ::
    "kconfig \<Rightarrow> 'd vc_channel \<Rightarrow> u32 \<Rightarrow> vc_system_config \<Rightarrow> 'd vc_channel option" where
  "vc_channel_run K ch dt_ms sys_cfg =
     do {
       ch1 \<leftarrow> consume_measurements (ch\<lparr>uptime_ref := uptime_ref ch + dt_ms\<rparr>);
       ch2 \<leftarrow> vc_channel_tick_ramp ch1 dt_ms sys_cfg;
       tick_recovery K ch2 sys_cfg dt_ms
     }"

definition vc_channel_get_smf_state :: "'d vc_channel \<Rightarrow> vc_channel_smf_state" where
  "vc_channel_get_smf_state ch = smf ch"

subsection \<open>Configuration\<close>

definition vc_channel_get_config :: "'d vc_channel \<Rightarrow> vc_channel_config" where
  "vc_channel_get_config ch = config ch"

text \<open>The common tail of a configuration write.\<close>

definition commit_channel :: "'d vc_channel \<Rightarrow> (vc_status \<times> 'd vc_channel) option" where
  "commit_channel ch =
     do {
       ch1 \<leftarrow> apply_hw ch;
       Some (VC_OK, update_status_bits ch1)
     }"

definition vc_channel_set_config ::
    "kconfig \<Rightarrow> 'd vc_channel \<Rightarrow> vc_channel_config \<Rightarrow> (vc_status \<times> 'd vc_channel) option" where
  "vc_channel_set_config K ch cfg =
     (let st = validate_capability_config ch (config ch) cfg in
      if st \<noteq> VC_OK then Some (st, ch)
      else if CONFIG_VC_MAX_TARGET_VOLTAGE K < sint (configured_target_voltage cfg) \<or>
              sint (configured_target_voltage cfg) < 0 then Some (VC_ERR_INVALID_VALUE, ch)
      else if sint (current_limit_threshold cfg) < 0 then Some (VC_ERR_INVALID_VALUE, ch)
      else if \<not> is_valid_protection_mode (current_protection_mode cfg) \<or>
              \<not> is_valid_protection_output_action (current_protection_output_action cfg)
      then Some (VC_ERR_INVALID_VALUE, ch)
      else commit_channel (ch\<lparr>config := cfg\<rparr>))"

definition ramp_field ::
    "'d vc_channel \<Rightarrow> (vc_channel_config \<Rightarrow> vc_channel_config) \<Rightarrow> (vc_status \<times> 'd vc_channel) option"
  where
  "ramp_field ch upd =
     (if \<not> channel_has_cap ch CH_CAP_RAW_OUTPUT_DRIVE
      then Some (VC_ERR_UNSUPPORTED_CAPABILITY, ch)
      else commit_channel (ch\<lparr>config := upd (config ch)\<rparr>))"

fun vc_channel_set_field ::
    "kconfig \<Rightarrow> 'd vc_channel \<Rightarrow> vc_config_field \<Rightarrow> u16 \<Rightarrow> (vc_status \<times> 'd vc_channel) option" where
  "vc_channel_set_field K ch VC_FIELD_CONFIGURED_TARGET_VOLTAGE v =
     (if \<not> channel_has_cap ch CH_CAP_RAW_OUTPUT_DRIVE
      then Some (VC_ERR_UNSUPPORTED_CAPABILITY, ch)
      else if CONFIG_VC_MAX_TARGET_VOLTAGE K < sint v \<or> sint v < 0
      then Some (VC_ERR_INVALID_VALUE, ch)
      else commit_channel (ch\<lparr>config := (config ch)\<lparr>configured_target_voltage := v\<rparr>\<rparr>))"
| "vc_channel_set_field K ch VC_FIELD_CONFIGURED_OUTPUT_ENABLED v =
     (if channel_has_cap ch CH_CAP_RAW_OUTPUT_DRIVE \<or> \<not> channel_has_cap ch CH_CAP_OUTPUT_ENABLE
      then Some (VC_ERR_UNSUPPORTED_CAPABILITY, ch)
      else commit_channel (ch\<lparr>config := (config ch)\<lparr>configured_output_enabled := (v \<noteq> 0)\<rparr>\<rparr>))"
| "vc_channel_set_field K ch VC_FIELD_RAMP_UP_STEP v =
     ramp_field ch (\<lambda>cfg. cfg\<lparr>ramp_up_step := v\<rparr>)"
| "vc_channel_set_field K ch VC_FIELD_RAMP_UP_INTERVAL v =
     ramp_field ch (\<lambda>cfg. cfg\<lparr>ramp_up_interval := v\<rparr>)"
| "vc_channel_set_field K ch VC_FIELD_RAMP_DOWN_STEP v =
     ramp_field ch (\<lambda>cfg. cfg\<lparr>ramp_down_step := v\<rparr>)"
| "vc_channel_set_field K ch VC_FIELD_RAMP_DOWN_INTERVAL v =
     ramp_field ch (\<lambda>cfg. cfg\<lparr>ramp_down_interval := v\<rparr>)"
| "vc_channel_set_field K ch VC_FIELD_RECOVERY_POLICY_MODE v =
     commit_channel (ch\<lparr>config := (config ch)
       \<lparr>recovery_policy_mode := vc_recovery_policy_mode_of_u16 v\<rparr>\<rparr>)"
| "vc_channel_set_field K ch VC_FIELD_AUTO_RETRY_DELAY v =
     commit_channel (ch\<lparr>config := (config ch)\<lparr>auto_retry_delay := v\<rparr>\<rparr>)"
| "vc_channel_set_field K ch VC_FIELD_AUTO_RETRY_MAX_COUNT v =
     (if CONFIG_VC_MAX_RETRY_HISTORY K < unat v then Some (VC_ERR_INVALID_VALUE, ch)
      else commit_channel (ch\<lparr>config := (config ch)\<lparr>auto_retry_max_count := v\<rparr>\<rparr>))"
| "vc_channel_set_field K ch VC_FIELD_AUTO_RETRY_WINDOW v =
     commit_channel (ch\<lparr>config := (config ch)\<lparr>auto_retry_window := v\<rparr>\<rparr>)"
| "vc_channel_set_field K ch VC_FIELD_CURRENT_SAFE_BAND_PCT v =
     commit_channel (ch\<lparr>config := (config ch)\<lparr>current_safe_band_pct := v\<rparr>\<rparr>)"
| "vc_channel_set_field K ch VC_FIELD_CURRENT_PROTECTION_MODE v =
     (if \<not> channel_has_cap ch CH_CAP_CURRENT_MEASUREMENT
      then Some (VC_ERR_UNSUPPORTED_CAPABILITY, ch)
      else if \<not> is_valid_protection_mode (vc_protection_mode_of_u16 v)
      then Some (VC_ERR_INVALID_VALUE, ch)
      else commit_channel (ch\<lparr>config := (config ch)
        \<lparr>current_protection_mode := vc_protection_mode_of_u16 v\<rparr>\<rparr>))"
| "vc_channel_set_field K ch VC_FIELD_CURRENT_PROT_OUT_ACTION v =
     (if \<not> channel_has_cap ch CH_CAP_CURRENT_MEASUREMENT
      then Some (VC_ERR_UNSUPPORTED_CAPABILITY, ch)
      else if \<not> is_valid_protection_output_action (vc_output_action_of_u16 v)
      then Some (VC_ERR_INVALID_VALUE, ch)
      else commit_channel (ch\<lparr>config := (config ch)
        \<lparr>current_protection_output_action := vc_output_action_of_u16 v\<rparr>\<rparr>))"
| "vc_channel_set_field K ch VC_FIELD_CURRENT_LIMIT_THRESHOLD v =
     (if \<not> channel_has_cap ch CH_CAP_CURRENT_MEASUREMENT
      then Some (VC_ERR_UNSUPPORTED_CAPABILITY, ch)
      else if sint v < 0 then Some (VC_ERR_INVALID_VALUE, ch)
      else commit_channel (ch\<lparr>config := (config ch)\<lparr>current_limit_threshold := v\<rparr>\<rparr>))"
| "vc_channel_set_field K ch VC_FIELD_AUTO_DERATE_STEP v =
     (if \<not> channel_has_cap ch CH_CAP_RAW_OUTPUT_DRIVE \<or>
         \<not> channel_has_cap ch CH_CAP_VOLTAGE_MEASUREMENT
      then Some (VC_ERR_UNSUPPORTED_CAPABILITY, ch)
      else commit_channel (ch\<lparr>config := (config ch)\<lparr>auto_derate_step := v\<rparr>\<rparr>))"
| "vc_channel_set_field K ch VC_FIELD_OPERATING_MODE v = Some (VC_ERR_INVALID_VALUE, ch)"
| "vc_channel_set_field K ch VC_FIELD_STARTUP_CHANNEL_POLICY v = Some (VC_ERR_INVALID_VALUE, ch)"

definition vc_channel_get_snapshot :: "'d vc_channel \<Rightarrow> vc_channel_snapshot" where
  "vc_channel_get_snapshot ch =
    \<lparr> snap_measured_voltage = measured_voltage ch,
      snap_measured_current = measured_current ch,
      snap_operational_target_voltage = operational_target_voltage ch,
      snap_status_bits = status_bits ch,
      snap_active_fault_cause = active_fault_cause ch,
      snap_fault_history_cause = fault_history_cause ch,
      snap_last_protection_output_action = last_protection_output_action ch,
      snap_auto_retry_count = count_active_retries ch,
      snap_auto_cooldown_remaining = ucast (cooldown_remaining_ms ch div 1000),
      snap_last_fault_timestamp = last_fault_timestamp ch,
      snap_channel_capability_flags = capabilities ch,
      snap_raw_adc_voltage = raw_adc_voltage ch,
      snap_raw_adc_current = raw_adc_current ch,
      snap_raw_dac_readback = raw_dac_readback ch,
      snap_cal_output_enabled = cal_output_enabled ch \<rparr>"

subsection \<open>Host commands\<close>

definition effective_action :: "'d vc_channel \<Rightarrow> vc_output_action \<Rightarrow> vc_output_action" where
  "effective_action ch action =
     (if \<not> channel_has_cap ch CH_CAP_RAW_OUTPUT_DRIVE \<and>
         (action = VC_OUTPUT_ACTION_DISABLE_GRACEFUL \<or> action = VC_OUTPUT_ACTION_DISABLE_IMMEDIATE)
      then VC_OUTPUT_ACTION_DISABLE_FORCE else action)"

fun is_disable_action :: "vc_output_action \<Rightarrow> bool" where
  "is_disable_action VC_OUTPUT_ACTION_DISABLE_GRACEFUL = True"
| "is_disable_action VC_OUTPUT_ACTION_DISABLE_IMMEDIATE = True"
| "is_disable_action VC_OUTPUT_ACTION_DISABLE_FORCE = True"
| "is_disable_action _ = False"

definition vc_channel_output_action ::
    "'d vc_channel \<Rightarrow> vc_output_action \<Rightarrow> (vc_status \<times> 'd vc_channel) option" where
  "vc_channel_output_action ch action0 =
     (let action = effective_action ch action0 in
      if \<not> is_valid_host_output_action action0 then Some (VC_ERR_INVALID_COMMAND, ch)
      else if \<not> channel_has_cap ch CH_CAP_OUTPUT_ENABLE \<and> is_disable_action action
      then Some (VC_ERR_UNSUPPORTED_CAPABILITY, ch)
      else (case action of
        VC_OUTPUT_ACTION_ENABLE \<Rightarrow>
          if active_fault_cause ch \<noteq> 0 then Some (VC_ERR_UNSAFE_STATE, ch)
          else commit_channel
            (ch\<lparr>output_enabled := True, ramping := True, ramp_to_disable := False,
                smf := VC_CHANNEL_SMF_RAMPING\<rparr>)
      | VC_OUTPUT_ACTION_DISABLE_GRACEFUL \<Rightarrow>
          commit_channel ((begin_graceful ch)\<lparr>cooldown_remaining_ms := 0\<rparr>)
      | VC_OUTPUT_ACTION_DISABLE_IMMEDIATE \<Rightarrow>
          commit_channel (disable_into VC_CHANNEL_SMF_DISABLED_HV_ON ch)
      | VC_OUTPUT_ACTION_DISABLE_FORCE \<Rightarrow>
          commit_channel (disable_into VC_CHANNEL_SMF_DISABLED_SAFE ch)
      | _ \<Rightarrow> Some (VC_OK, ch)))"

definition vc_channel_fault_command ::
    "'d vc_channel \<Rightarrow> vc_channel_fault_command \<Rightarrow> vc_status \<times> 'd vc_channel" where
  "vc_channel_fault_command ch cmd =
     (if \<not> is_valid_channel_fault_command cmd then (VC_ERR_INVALID_COMMAND, ch)
      else case cmd of
        VC_CHANNEL_FAULT_COMMAND_CLEAR_ACTIVE \<Rightarrow>
          if active_fault_cause ch = 0 then (VC_OK, update_status_bits ch)
          else if \<not> is_safe_to_clear_active ch then (VC_ERR_UNSAFE_STATE, ch)
          else (VC_OK, update_status_bits
                  (ch\<lparr>active_fault_cause := 0, smf := VC_CHANNEL_SMF_DISABLED_SAFE\<rparr>))
      | VC_CHANNEL_FAULT_COMMAND_CLEAR_HISTORY \<Rightarrow>
          (VC_OK, update_status_bits (ch\<lparr>fault_history_cause := 0\<rparr>))
      | _ \<Rightarrow> (VC_OK, update_status_bits ch))"

subsection \<open>Calibration session\<close>

definition vc_channel_reset_calibration :: "'d vc_channel \<Rightarrow> bool \<Rightarrow> 'd vc_channel option" where
  "vc_channel_reset_calibration ch entering =
     do {
       ch1 \<leftarrow> apply_hw
         (ch\<lparr>output_enabled := False, ramping := False, ramp_accum_ms := 0,
             cooldown_remaining_ms := 0, operational_target_voltage := 0,
             measured_voltage := 0, measured_current := 0, raw_dac_readback := 0,
             cal_output_enabled := 0, raw_adc_voltage := 0, raw_adc_current := 0,
             smf := (if entering then VC_CHANNEL_SMF_CALIBRATION_OUTPUT
                     else VC_CHANNEL_SMF_DISABLED_SAFE)\<rparr>);
       Some (update_status_bits ch1)
     }"

definition vc_channel_cal_set_output_enable ::
    "'d vc_channel \<Rightarrow> bool \<Rightarrow> (vc_status \<times> 'd vc_channel) option" where
  "vc_channel_cal_set_output_enable ch enable =
     (if \<not> channel_has_cap ch CH_CAP_RAW_OUTPUT_DRIVE
      then Some (VC_ERR_UNSUPPORTED_CAPABILITY, ch)
      else if enable \<and> has_hard_safety_fault ch then Some (VC_ERR_UNSAFE_STATE, ch)
      else do {
        ch1 \<leftarrow> apply_hw
          (if enable then ch\<lparr>cal_output_enabled := 1\<rparr>
           else ch\<lparr>cal_output_enabled := 0, raw_dac_readback := 0,
                   raw_adc_voltage := 0, raw_adc_current := 0\<rparr>);
        Some (VC_OK, ch1)
      })"

definition vc_channel_cal_set_raw_dac ::
    "kconfig \<Rightarrow> 'd vc_channel \<Rightarrow> u32 \<Rightarrow> (vc_status \<times> 'd vc_channel) option" where
  "vc_channel_cal_set_raw_dac K ch code =
     (if \<not> channel_has_cap ch CH_CAP_RAW_OUTPUT_DRIVE
      then Some (VC_ERR_UNSUPPORTED_CAPABILITY, ch)
      else if CONFIG_VC_CAL_MAX_RAW_DAC K < uint code then Some (VC_ERR_INVALID_VALUE, ch)
      else if code \<noteq> 0 \<and> has_hard_safety_fault ch then Some (VC_ERR_UNSAFE_STATE, ch)
      else if code \<noteq> 0 \<and> cal_output_enabled ch = 0 then Some (VC_ERR_UNSAFE_STATE, ch)
      else do {
        ch1 \<leftarrow> apply_hw (ch\<lparr>raw_dac_readback := ucast code\<rparr>);
        Some (VC_OK, ch1)
      })"

definition vc_channel_cal_sample :: "'d vc_channel \<Rightarrow> vc_status \<times> 'd vc_channel" where
  "vc_channel_cal_sample ch =
     (let has_voltage = channel_has_cap ch CH_CAP_VOLTAGE_MEASUREMENT;
          has_current = channel_has_cap ch CH_CAP_CURRENT_MEASUREMENT;
          (raw_voltage, raw_current) =
            (case meas ch of
               None \<Rightarrow> (0, 0)
             | Some buffer \<Rightarrow>
                 (case vc_channel_buffer_read buffer of (v, _, i, _) \<Rightarrow> (v, i)));
          ch1 = (if has_voltage then ch\<lparr>raw_adc_voltage := raw_voltage\<rparr> else ch);
          ch2 = (if has_current then ch1\<lparr>raw_adc_current := raw_current\<rparr> else ch1)
      in if \<not> has_voltage \<and> \<not> has_current then (VC_ERR_UNSUPPORTED_CAPABILITY, ch)
         else (VC_OK, ch2))"

definition vc_channel_cal_commit :: "'d vc_channel \<Rightarrow> vc_status" where
  "vc_channel_cal_commit ch =
     (if cal_output_enabled ch \<noteq> 0 \<or> raw_dac_readback ch \<noteq> 0 \<or> has_hard_safety_fault ch
      then VC_ERR_UNSAFE_STATE else VC_OK)"

subsection \<open>Calibration coefficients\<close>

definition vc_channel_get_cal_config :: "'d vc_channel \<Rightarrow> vc_channel_cal_config" where
  "vc_channel_get_cal_config ch = cal_config ch"

definition store_cal ::
    "'d vc_channel \<Rightarrow> vc_channel_cal_config \<Rightarrow> (vc_status \<times> 'd vc_channel) option" where
  "store_cal ch cal =
     do {
       ch1 \<leftarrow> apply_hw (ch\<lparr>cal_config := cal\<rparr>);
       Some (VC_OK, ch1)
     }"

fun vc_channel_set_cal_field ::
    "'d vc_channel \<Rightarrow> vc_cal_field \<Rightarrow> u16 \<Rightarrow> (vc_status \<times> 'd vc_channel) option" where
  "vc_channel_set_cal_field ch VC_CAL_FIELD_OUTPUT_K v =
     store_cal ch ((cal_config ch)\<lparr>output_calib_k := v\<rparr>)"
| "vc_channel_set_cal_field ch VC_CAL_FIELD_OUTPUT_B v =
     store_cal ch ((cal_config ch)\<lparr>output_calib_b := v\<rparr>)"
| "vc_channel_set_cal_field ch VC_CAL_FIELD_OUTPUT_K_EXP v =
     (if \<not> cal_k_exp_in_range v then Some (VC_ERR_INVALID_VALUE, ch)
      else store_cal ch ((cal_config ch)\<lparr>output_calib_k_exp := v\<rparr>))"
| "vc_channel_set_cal_field ch VC_CAL_FIELD_MEASURED_V_K v =
     store_cal ch ((cal_config ch)\<lparr>measured_voltage_calib_k := v\<rparr>)"
| "vc_channel_set_cal_field ch VC_CAL_FIELD_MEASURED_V_B v =
     store_cal ch ((cal_config ch)\<lparr>measured_voltage_calib_b := v\<rparr>)"
| "vc_channel_set_cal_field ch VC_CAL_FIELD_MEASURED_V_K_EXP v =
     (if \<not> cal_k_exp_in_range v then Some (VC_ERR_INVALID_VALUE, ch)
      else store_cal ch ((cal_config ch)\<lparr>measured_voltage_calib_k_exp := v\<rparr>))"
| "vc_channel_set_cal_field ch VC_CAL_FIELD_MEASURED_I_K v =
     store_cal ch ((cal_config ch)\<lparr>measured_current_calib_k := v\<rparr>)"
| "vc_channel_set_cal_field ch VC_CAL_FIELD_MEASURED_I_B v =
     store_cal ch ((cal_config ch)\<lparr>measured_current_calib_b := v\<rparr>)"
| "vc_channel_set_cal_field ch VC_CAL_FIELD_MEASURED_I_K_EXP v =
     (if \<not> cal_k_exp_in_range v then Some (VC_ERR_INVALID_VALUE, ch)
      else store_cal ch ((cal_config ch)\<lparr>measured_current_calib_k_exp := v\<rparr>))"

definition vc_channel_load_cal ::
    "'d vc_channel \<Rightarrow> vc_channel_cal_config \<Rightarrow> 'd vc_channel option" where
  "vc_channel_load_cal ch cal = apply_hw (ch\<lparr>cal_config := cal\<rparr>)"

end
