(* ===== verification/Vc_Channel_Inv.thy ===== *)
theory Vc_Channel_Inv
  imports Vc_Channel_Ops
begin

text \<open>
  The invariant of a channel and the lemmas that every operation keeps it and is defined (never
  reaches undefined behaviour) on a channel that satisfies it. The operations are collected in
  one step relation, whose reachable channels all satisfy the invariant.
\<close>

subsection \<open>Driving the hardware\<close>

definition cal_ok :: "vc_channel_cal_config \<Rightarrow> bool" where
  "cal_ok cal \<longleftrightarrow>
     cal_k_exp_in_range (output_calib_k_exp cal) \<and>
     cal_k_exp_in_range (measured_voltage_calib_k_exp cal) \<and>
     cal_k_exp_in_range (measured_current_calib_k_exp cal)"

text \<open>The saturated DAC code as a mathematical function.\<close>

definition exact_drive :: "vc_channel_cal_config \<Rightarrow> int \<Rightarrow> int" where
  "exact_drive cal target =
     max 0 (min 65535
       (exact_gain target (uint (output_calib_k cal)) (sint (output_calib_k_exp cal)) +
        sint (output_calib_b cal)))"

lemma gain_plus_offset_ok:
  fixes k :: u16
  assumes "\<bar>raw\<bar> \<le> 2 ^ 31" and "cal_k_exp_in_range e"
  shows "int64_ok (exact_gain raw (uint k) (sint e) + sint (b :: s16))"
proof -
  have "\<bar>exact_gain raw (uint k) (sint e)\<bar> \<le> 2 ^ 47 * 10 ^ 4"
    using assms uint16_range [of k] by (intro exact_gain_bound) (simp_all add: cal_k_exp_in_range_def)
  then show ?thesis
    using sint16_range [of b] by (simp add: int64_ok_def abs_le_iff)
qed

lemma raw_drive_exact:
  assumes "cal_ok (cal_config ch)" and "\<bar>target\<bar> \<le> 2 ^ 31"
  shows "raw_drive_from_target ch target =
           Some (word_of_int (exact_drive (cal_config ch) target))"
  using assms gain_plus_offset_ok [OF assms(2)]
  by (auto simp: raw_drive_from_target_def apply_gain_exact cal_ok_def exact_drive_def)

lemma hw_demand_defined:
  assumes "cal_ok (cal_config ch)"
  shows "\<exists>p. hw_demand ch = Some p"
proof -
  have "\<bar>sint (operational_target_voltage ch)\<bar> \<le> 2 ^ 31"
    using sint16_range [of "operational_target_voltage ch"] by (simp add: abs_le_iff)
  with assms show ?thesis by (auto simp: hw_demand_def raw_drive_exact)
qed

text \<open>The device after \<open>apply_hw\<close>; nothing else of the channel changes.\<close>

definition driven_dev :: "'d vc_channel \<Rightarrow> 'd device option" where
  "driven_dev ch = (case apply_hw ch of None \<Rightarrow> dev ch | Some ch' \<Rightarrow> dev ch')"

lemma apply_hw_Some:
  assumes "apply_hw ch = Some ch'"
  shows "ch' = ch\<lparr>dev := driven_dev ch\<rparr>"
  using assms by (auto simp: driven_dev_def apply_hw_def split: option.splits Option.bind_splits)

lemma apply_hw_defined [simp]:
  assumes "cal_ok (cal_config ch)"
  shows "apply_hw ch = Some (ch\<lparr>dev := driven_dev ch\<rparr>)"
proof -
  obtain p where "hw_demand ch = Some p" using hw_demand_defined [OF assms] by blast
  then have "\<exists>ch'. apply_hw ch = Some ch'"
    by (cases p) (auto simp: apply_hw_def split: option.splits)
  then show ?thesis using apply_hw_Some by blast
qed

lemma driven_dev_some:
  assumes "dev ch = Some d" and "dev_api d = Some a" and "hw_demand ch = Some (en, code)"
  shows "driven_dev ch = Some (d\<lparr>dev_data := drive_device a en code (dev_data d)\<rparr>)"
  using assms by (simp add: driven_dev_def apply_hw_def)

lemma driven_dev_none: "dev ch = None \<Longrightarrow> driven_dev ch = None"
  by (simp add: driven_dev_def apply_hw_def)

text \<open>What \<open>update_status_bits\<close> leaves alone.\<close>

lemma update_status_bits_eq:
  "update_status_bits ch = ch\<lparr>status_bits := status_bits (update_status_bits ch)\<rparr>"
  by (simp add: update_status_bits_def Let_def)

lemma update_status_bits_frame [simp]:
  "smf (update_status_bits ch) = smf ch"
  "dev (update_status_bits ch) = dev ch"
  "meas (update_status_bits ch) = meas ch"
  "capabilities (update_status_bits ch) = capabilities ch"
  "config (update_status_bits ch) = config ch"
  "cal_config (update_status_bits ch) = cal_config ch"
  "output_enabled (update_status_bits ch) = output_enabled ch"
  "ramping (update_status_bits ch) = ramping ch"
  "ramp_to_disable (update_status_bits ch) = ramp_to_disable ch"
  "graceful_ramp_dest (update_status_bits ch) = graceful_ramp_dest ch"
  "ramp_accum_ms (update_status_bits ch) = ramp_accum_ms ch"
  "cooldown_remaining_ms (update_status_bits ch) = cooldown_remaining_ms ch"
  "recovering (update_status_bits ch) = recovering ch"
  "recovery_target (update_status_bits ch) = recovery_target ch"
  "retry_timestamps_ms (update_status_bits ch) = retry_timestamps_ms ch"
  "retry_timestamp_count (update_status_bits ch) = retry_timestamp_count ch"
  "operational_target_voltage (update_status_bits ch) = operational_target_voltage ch"
  "measured_voltage (update_status_bits ch) = measured_voltage ch"
  "measured_current (update_status_bits ch) = measured_current ch"
  "active_fault_cause (update_status_bits ch) = active_fault_cause ch"
  "fault_history_cause (update_status_bits ch) = fault_history_cause ch"
  "raw_dac_readback (update_status_bits ch) = raw_dac_readback ch"
  "cal_output_enabled (update_status_bits ch) = cal_output_enabled ch"
  "uptime_ref (update_status_bits ch) = uptime_ref ch"
  "last_fault_timestamp (update_status_bits ch) = last_fault_timestamp ch"
  "raw_adc_voltage (update_status_bits ch) = raw_adc_voltage ch"
  "raw_adc_current (update_status_bits ch) = raw_adc_current ch"
  "last_protection_output_action (update_status_bits ch) = last_protection_output_action ch"
  "last_consumed_voltage_ts (update_status_bits ch) = last_consumed_voltage_ts ch"
  "last_consumed_current_ts (update_status_bits ch) = last_consumed_current_ts ch"
  by (simp_all add: update_status_bits_def Let_def)

lemma hw_demand_cong:
  "cal_output_enabled c = cal_output_enabled c' \<Longrightarrow> raw_dac_readback c = raw_dac_readback c' \<Longrightarrow>
   output_enabled c = output_enabled c' \<Longrightarrow> smf c = smf c' \<Longrightarrow> cal_config c = cal_config c' \<Longrightarrow>
   operational_target_voltage c = operational_target_voltage c' \<Longrightarrow> hw_demand c = hw_demand c'"
  by (simp add: hw_demand_def raw_drive_from_target_def)

subsection \<open>The invariant\<close>

text \<open>
  The calibration exponents are inside the table, the retry log has its fixed length, a graceful
  ramp always heads to 0, and an output that is off neither ramps nor has a target.
\<close>

definition channel_ok :: "kconfig \<Rightarrow> 'd vc_channel \<Rightarrow> bool" where
  "channel_ok K ch \<longleftrightarrow>
     cal_ok (cal_config ch) \<and>
     length (retry_timestamps_ms ch) = CONFIG_VC_MAX_RETRY_HISTORY K \<and>
     unat (retry_timestamp_count ch) \<le> CONFIG_VC_MAX_RETRY_HISTORY K \<and>
     graceful_ramp_dest ch = 0 \<and>
     (output_enabled ch \<or> operational_target_voltage ch = 0 \<and> (ramping ch \<longrightarrow> False))"

lemma channel_ok_cal_ok [simp]: "channel_ok K ch \<Longrightarrow> cal_ok (cal_config ch)"
  by (simp add: channel_ok_def)

lemma channel_ok_dev [simp]: "channel_ok K (ch\<lparr>dev := d\<rparr>) \<longleftrightarrow> channel_ok K ch"
  by (simp add: channel_ok_def)

lemma channel_ok_status [simp]: "channel_ok K (update_status_bits ch) \<longleftrightarrow> channel_ok K ch"
  by (simp add: channel_ok_def)

text \<open>An operation is good on an ok channel: it is defined and its channel is ok again.\<close>

definition good :: "kconfig \<Rightarrow> 'd vc_channel option \<Rightarrow> bool" where
  "good K r \<longleftrightarrow> (case r of None \<Rightarrow> False | Some ch \<Rightarrow> channel_ok K ch)"

definition good_st :: "kconfig \<Rightarrow> (vc_status \<times> 'd vc_channel) option \<Rightarrow> bool" where
  "good_st K r \<longleftrightarrow> (case r of None \<Rightarrow> False | Some p \<Rightarrow> channel_ok K (snd p))"

lemma good_None [simp]: "\<not> good K None" "\<not> good_st K None"
  by (simp_all add: good_def good_st_def)

lemma good_Some [simp]: "good K (Some ch) \<longleftrightarrow> channel_ok K ch"
  by (simp add: good_def)

lemma good_st_Some [simp]: "good_st K (Some p) \<longleftrightarrow> channel_ok K (snd p)"
  by (simp add: good_st_def)

lemma goodE: "good K r \<Longrightarrow> (\<And>ch. r = Some ch \<Longrightarrow> channel_ok K ch \<Longrightarrow> P) \<Longrightarrow> P"
  by (cases r) (auto simp: good_def)

lemma good_stE: "good_st K r \<Longrightarrow> (\<And>st ch. r = Some (st, ch) \<Longrightarrow> channel_ok K ch \<Longrightarrow> P) \<Longrightarrow> P"
  by (cases r) (auto simp: good_st_def)

lemma good_bind:
  "good K r \<Longrightarrow> (\<And>ch. channel_ok K ch \<Longrightarrow> good K (f ch)) \<Longrightarrow> good K (r \<bind> f)"
  by (cases r) (auto simp: good_def)

subsection \<open>The operations keep the invariant\<close>

lemma good_apply_hw [inv_intros]: "channel_ok K ch \<Longrightarrow> good K (apply_hw ch)"
  by simp

lemma good_apply_hw_status [inv_intros]:
  "channel_ok K ch \<Longrightarrow> good K (apply_hw ch \<bind> (\<lambda>c. Some (update_status_bits c)))"
  by simp

lemma good_commit [inv_intros]: "channel_ok K ch \<Longrightarrow> good_st K (commit_channel ch)"
  by (simp add: commit_channel_def)

lemma channel_ok_cal_config: "channel_ok K ch \<Longrightarrow> cal_ok cal \<Longrightarrow> channel_ok K (ch\<lparr>cal_config := cal\<rparr>)"
  by (simp add: channel_ok_def)

lemma channel_ok_config [simp]: "channel_ok K (ch\<lparr>config := cfg\<rparr>) \<longleftrightarrow> channel_ok K ch"
  by (simp add: channel_ok_def)

lemma good_store_cal [inv_intros]: "channel_ok K ch \<Longrightarrow> cal_ok cal \<Longrightarrow> good_st K (store_cal ch cal)"
  using channel_ok_cal_config [of K ch cal] by (simp add: store_cal_def)

lemma channel_ok_begin_graceful [simp]: "channel_ok K ch \<Longrightarrow> channel_ok K (begin_graceful ch)"
  by (simp add: channel_ok_def begin_graceful_def)

lemma channel_ok_disable_into [simp]: "channel_ok K ch \<Longrightarrow> channel_ok K (disable_into s ch)"
  by (simp add: channel_ok_def disable_into_def)

lemma channel_ok_finish_ramp:
  "channel_ok K ch \<Longrightarrow> (ramp_to_disable ch \<Longrightarrow> operational_target_voltage ch = 0) \<Longrightarrow>
   output_enabled ch \<Longrightarrow> channel_ok K (finish_ramp ch)"
  by (auto simp: channel_ok_def finish_ramp_def)

lemma good_apply_protection_action [inv_intros]:
  assumes "channel_ok K ch" shows "good K (apply_protection_action ch a)"
proof -
  have "channel_ok K (ch\<lparr>last_protection_output_action := a\<rparr>)"
    using assms by (simp add: channel_ok_def)
  then show ?thesis
    unfolding apply_protection_action_def Let_def
    by (intro good_apply_hw) (auto split: vc_output_action.split)
qed

lemma good_tick_current_protection [inv_intros]:
  assumes "channel_ok K ch" shows "good K (tick_current_protection ch)"
proof -
  have "channel_ok K (ch\<lparr>fault_history_cause := h\<rparr>)"
    and "channel_ok K (ch\<lparr>fault_history_cause := h, active_fault_cause := a,
                          last_fault_timestamp := t\<rparr>)" for h a t
    using assms by (simp_all add: channel_ok_def)
  then show ?thesis
    using assms
    by (auto simp: tick_current_protection_def Let_def channel_ok_def
        intro!: good_bind [OF good_apply_protection_action])
qed

lemma good_force_safe_state [inv_intros]: "channel_ok K ch \<Longrightarrow> good K (force_safe_state ch)"
  unfolding force_safe_state_def by (intro good_apply_hw) (simp add: channel_ok_def)

lemma sint32_abs: "\<bar>sint (w :: s32)\<bar> \<le> 2 ^ 31"
  using sint32_range [of w] by (simp add: abs_le_iff)

lemmas gain_word = apply_gain_exact [OF sint32_abs] gain_plus_offset_ok [OF sint32_abs]

text \<open>The measured values as mathematical functions.\<close>

lemma consume_voltage_exact:
  assumes "cal_ok (cal_config ch)"
  shows "vc_channel_consume_voltage ch raw = Some (update_status_bits
    (ch\<lparr>raw_adc_voltage := raw,
        measured_voltage := clamp_int16
          (exact_gain (sint raw) (uint (measured_voltage_calib_k (cal_config ch)))
             (sint (measured_voltage_calib_k_exp (cal_config ch))) +
           sint (measured_voltage_calib_b (cal_config ch)))\<rparr>))"
  using assms by (simp add: vc_channel_consume_voltage_def cal_ok_def gain_word)

definition exact_current :: "vc_channel_cal_config \<Rightarrow> s32 \<Rightarrow> int" where
  "exact_current cal raw =
     exact_gain (sint raw) (uint (measured_current_calib_k cal))
       (sint (measured_current_calib_k_exp cal)) + sint (measured_current_calib_b cal)"

lemma consume_current_exact:
  assumes "cal_ok (cal_config ch)"
  shows "vc_channel_consume_current ch raw =
    (let ch1 = ch\<lparr>raw_adc_current := raw,
                  measured_current := clamp_int16 (exact_current (cal_config ch) raw)\<rparr>
     in (if ramping ch then Some ch1 else tick_current_protection ch1) \<bind>
        (\<lambda>c. Some (update_status_bits c)))"
  using assms
  by (simp add: vc_channel_consume_current_def cal_ok_def gain_word exact_current_def Let_def)

lemma good_consume_voltage [inv_intros]:
  "channel_ok K ch \<Longrightarrow> good K (vc_channel_consume_voltage ch raw)"
  by (simp add: consume_voltage_exact channel_ok_def)

lemma good_consume_current [inv_intros]:
  assumes "channel_ok K ch" shows "good K (vc_channel_consume_current ch raw)"
proof -
  have "channel_ok K (ch\<lparr>raw_adc_current := raw, measured_current := i\<rparr>)" for i
    using assms by (simp add: channel_ok_def)
  then show ?thesis
    using assms
    by (auto simp: consume_current_exact Let_def intro!: good_bind [OF good_tick_current_protection])
qed

lemma good_consume_fault [inv_intros]:
  assumes "channel_ok K ch" shows "good K (vc_channel_consume_fault ch cause)"
  unfolding vc_channel_consume_fault_def
  by (rule good_bind, rule good_force_safe_state)
     (use assms in \<open>simp_all add: channel_ok_def\<close>)

lemma good_tick_ramp [inv_intros]:
  assumes "channel_ok K ch" shows "good K (vc_channel_tick_ramp ch dt sys)"
proof -
  have dest: "ramp_to_disable ch \<Longrightarrow> ramp_target ch = 0"
    using assms by (simp add: ramp_target_def channel_ok_def)
  have ok: "output_enabled ch \<Longrightarrow>
      channel_ok K (ch\<lparr>ramping := True, ramp_accum_ms := a, operational_target_voltage := v\<rparr>)"
    and ok': "output_enabled ch \<Longrightarrow>
      channel_ok K (ch\<lparr>ramping := True, operational_target_voltage := v\<rparr>)" for a v
    using assms by (simp_all add: channel_ok_def)
  have fin: "output_enabled ch \<Longrightarrow> channel_ok K (finish_ramp
      (ch\<lparr>ramping := True, ramp_accum_ms := a, operational_target_voltage := ramp_target ch\<rparr>))"
    and fin': "output_enabled ch \<Longrightarrow> channel_ok K (finish_ramp
      (ch\<lparr>ramping := True, operational_target_voltage := ramp_target ch\<rparr>))" for a
    using ok ok' dest by (auto intro!: channel_ok_finish_ramp)
  have fin'': "output_enabled ch \<Longrightarrow> operational_target_voltage ch = ramp_target ch \<Longrightarrow>
      channel_ok K (finish_ramp ch)"
    using assms dest by (auto intro!: channel_ok_finish_ramp)
  show ?thesis
    unfolding vc_channel_tick_ramp_def Let_def
    using assms ok ok' fin fin' fin''
    by (auto split: prod.split intro!: good_apply_hw_status)
qed

end
