(* ===== verification/Vc_Channel_Steps.thy ===== *)
theory Vc_Channel_Steps
  imports Vc_Channel_Inv
begin

text \<open>
  The remaining operations keep the channel invariant, and the step relation of a channel: what
  its owner, its driver and the passage of time can do to it. Every reachable channel satisfies
  the invariant, and no step is ever undefined there.
\<close>

subsection \<open>Recovery\<close>

lemma channel_ok_record_retry:
  assumes K: "kconfig_in_range K" and ch: "channel_ok K ch"
  shows "channel_ok K (record_retry_attempt K ch)"
proof -
  have n: "1 \<le> CONFIG_VC_MAX_RETRY_HISTORY K" "CONFIG_VC_MAX_RETRY_HISTORY K \<le> 32"
    using K by (simp_all add: kconfig_in_range_def)
  have "unat (retry_timestamp_count ch + 1) = unat (retry_timestamp_count ch) + 1"
    if "unat (retry_timestamp_count ch) < CONFIG_VC_MAX_RETRY_HISTORY K"
    using that n by (simp add: unat_word_ariths)
  then show ?thesis
    using n ch by (auto simp: channel_ok_def record_retry_attempt_def)
qed

lemma record_retry_frame [simp]:
  "output_enabled (record_retry_attempt K ch) = output_enabled ch"
  "ramping (record_retry_attempt K ch) = ramping ch"
  "operational_target_voltage (record_retry_attempt K ch) = operational_target_voltage ch"
  "graceful_ramp_dest (record_retry_attempt K ch) = graceful_ramp_dest ch"
  "ramp_to_disable (record_retry_attempt K ch) = ramp_to_disable ch"
  "config (record_retry_attempt K ch) = config ch"
  "cal_config (record_retry_attempt K ch) = cal_config ch"
  "smf (record_retry_attempt K ch) = smf ch"
  "dev (record_retry_attempt K ch) = dev ch"
  "uptime_ref (record_retry_attempt K ch) = uptime_ref ch"
  "active_fault_cause (record_retry_attempt K ch) = active_fault_cause ch"
  "fault_history_cause (record_retry_attempt K ch) = fault_history_cause ch"
  "capabilities (record_retry_attempt K ch) = capabilities ch"
  "cal_output_enabled (record_retry_attempt K ch) = cal_output_enabled ch"
  "raw_dac_readback (record_retry_attempt K ch) = raw_dac_readback ch"
  by (simp_all add: record_retry_attempt_def)

lemma channel_ok_exhaust [simp]: "channel_ok K (exhaust_retries ch) \<longleftrightarrow> channel_ok K ch"
  by (simp add: exhaust_retries_def) (simp add: channel_ok_def)

lemma channel_ok_cooldown_ms [simp]:
  "channel_ok K (ch\<lparr>cooldown_remaining_ms := n\<rparr>) \<longleftrightarrow> channel_ok K ch"
  by (simp add: channel_ok_def)

lemma channel_ok_enter_cooldown [simp]: "channel_ok K (enter_cooldown ch) \<longleftrightarrow> channel_ok K ch"
  by (simp add: enter_cooldown_def) (simp add: channel_ok_def)

lemma good_attempt_retry [inv_intros]:
  assumes K: "kconfig_in_range K" and ch: "channel_ok K ch"
  shows "good K (attempt_retry K ch)"
proof -
  have "channel_ok K ((record_retry_attempt K ch)
      \<lparr>active_fault_cause := 0, recovering := True, recovery_target := t, output_enabled := True\<rparr>)" for t
    using channel_ok_record_retry [OF assms] by (simp add: channel_ok_def)
  from good_apply_hw_status [OF this] show ?thesis
    using ch by (auto simp: attempt_retry_def Let_def)
qed

lemma good_tick_recovery [inv_intros]:
  assumes "kconfig_in_range K" and "channel_ok K ch"
  shows "good K (tick_recovery K ch sys dt)"
  using assms by (auto simp: tick_recovery_def Let_def intro!: good_attempt_retry)

subsection \<open>A whole run\<close>

lemma good_if_new_voltage [inv_intros]:
  "channel_ok K ch \<Longrightarrow> good K (consume_if_new_voltage ch raw ts)"
  using good_consume_voltage [of K ch raw]
  by (auto simp: consume_if_new_voltage_def channel_ok_def elim!: goodE)

lemma good_if_new_current [inv_intros]:
  "channel_ok K ch \<Longrightarrow> good K (consume_if_new_current ch raw ts)"
  using good_consume_current [of K ch raw]
  by (auto simp: consume_if_new_current_def channel_ok_def elim!: goodE)

lemma good_consume_measurements [inv_intros]:
  "channel_ok K ch \<Longrightarrow> good K (consume_measurements ch)"
  by (auto simp: consume_measurements_def split: option.split prod.split
      intro!: good_bind good_if_new_voltage good_if_new_current)

lemma good_run [inv_intros]:
  assumes "kconfig_in_range K" and "channel_ok K ch"
  shows "good K (vc_channel_run K ch dt sys)"
proof -
  have "channel_ok K (ch\<lparr>uptime_ref := uptime_ref ch + dt\<rparr>)"
    using assms by (simp add: channel_ok_def)
  then show ?thesis
    unfolding vc_channel_run_def
    by (intro good_bind good_consume_measurements good_tick_ramp good_tick_recovery [OF assms(1)])
qed

subsection \<open>Host writes and commands\<close>

lemma good_set_config [inv_intros]:
  "channel_ok K ch \<Longrightarrow> good_st K (vc_channel_set_config K ch cfg)"
  by (auto simp: vc_channel_set_config_def Let_def intro!: good_commit)

lemma good_ramp_field: "channel_ok K ch \<Longrightarrow> good_st K (ramp_field ch f)"
  by (auto simp: ramp_field_def intro!: good_commit)

lemma good_set_field [inv_intros]:
  "channel_ok K ch \<Longrightarrow> good_st K (vc_channel_set_field K ch fld v)"
  by (cases fld) (auto intro!: good_commit good_ramp_field)

lemma good_output_action [inv_intros]:
  assumes "channel_ok K ch" shows "good_st K (vc_channel_output_action ch a)"
proof -
  have "channel_ok K (ch\<lparr>output_enabled := True, ramping := True, ramp_to_disable := False,
      smf := VC_CHANNEL_SMF_RAMPING\<rparr>)"
    using assms by (simp add: channel_ok_def)
  then show ?thesis
    using assms
    by (auto simp: vc_channel_output_action_def Let_def split: vc_output_action.split
        intro!: good_commit)
qed

lemma ok_fault_command [inv_intros]:
  assumes "channel_ok K ch" shows "channel_ok K (snd (vc_channel_fault_command ch cmd))"
proof -
  have "channel_ok K (ch\<lparr>active_fault_cause := 0, smf := s\<rparr>)"
    and "channel_ok K (ch\<lparr>fault_history_cause := 0\<rparr>)" for s
    using assms by (simp_all add: channel_ok_def)
  then show ?thesis
    using assms
    by (auto simp: vc_channel_fault_command_def split: vc_channel_fault_command.split)
qed

lemma good_reset_calibration [inv_intros]:
  "channel_ok K ch \<Longrightarrow> good K (vc_channel_reset_calibration ch e)"
  unfolding vc_channel_reset_calibration_def
  by (rule good_apply_hw_status) (simp add: channel_ok_def)

lemma good_cal_set_output_enable [inv_intros]:
  assumes "channel_ok K ch" shows "good_st K (vc_channel_cal_set_output_enable ch en)"
proof -
  have "channel_ok K (if en then ch\<lparr>cal_output_enabled := 1\<rparr>
     else ch\<lparr>cal_output_enabled := 0, raw_dac_readback := 0, raw_adc_voltage := 0,
             raw_adc_current := 0\<rparr>)"
    using assms by (simp add: channel_ok_def)
  from good_apply_hw [OF this] show ?thesis
    using assms by (auto simp: vc_channel_cal_set_output_enable_def elim!: goodE)
qed

lemma good_cal_set_raw_dac [inv_intros]:
  assumes "channel_ok K ch" shows "good_st K (vc_channel_cal_set_raw_dac K ch code)"
proof -
  have "channel_ok K (ch\<lparr>raw_dac_readback := c\<rparr>)" for c
    using assms by (simp add: channel_ok_def)
  from good_apply_hw [OF this] show ?thesis
    using assms by (auto simp: vc_channel_cal_set_raw_dac_def elim!: goodE)
qed

lemma channel_ok_raw_adc [simp]:
  "channel_ok K (ch\<lparr>raw_adc_voltage := v\<rparr>) \<longleftrightarrow> channel_ok K ch"
  "channel_ok K (ch\<lparr>raw_adc_current := i\<rparr>) \<longleftrightarrow> channel_ok K ch"
  by (simp_all add: channel_ok_def)

lemma ok_cal_sample [inv_intros]:
  "channel_ok K ch \<Longrightarrow> channel_ok K (snd (vc_channel_cal_sample ch))"
  by (simp add: vc_channel_cal_sample_def Let_def split_beta)

lemma good_set_cal_field [inv_intros]:
  assumes "channel_ok K ch" shows "good_st K (vc_channel_set_cal_field ch fld v)"
proof -
  have "cal_ok (cal_config ch)" using assms by simp
  then show ?thesis
    using assms by (cases fld) (auto simp: cal_ok_def intro!: good_store_cal)
qed

lemma good_load_cal [inv_intros]:
  "channel_ok K ch \<Longrightarrow> cal_ok cal \<Longrightarrow> good K (vc_channel_load_cal ch cal)"
  unfolding vc_channel_load_cal_def by (intro good_apply_hw channel_ok_cal_config)

subsection \<open>The step relation of a channel\<close>

text \<open>
  Everything that happens to a channel after its construction: a run of the scheduler, the
  driver publishing a sample or changing its own state, a fault reported by the driver, and each
  host operation. \<open>Ev_Load_Cal\<close> is the controller loading stored coefficients.
\<close>

datatype 'd channel_event =
  Ev_Run u32 vc_system_config
| Ev_Publish_Voltage s32 u32
| Ev_Publish_Current s32 u32
| Ev_Driver "'d \<Rightarrow> 'd"
| Ev_Fault u16
| Ev_Force_Safe
| Ev_Set_Config vc_channel_config
| Ev_Set_Field vc_config_field u16
| Ev_Output_Action vc_output_action
| Ev_Fault_Command vc_channel_fault_command
| Ev_Reset_Calibration bool
| Ev_Cal_Output_Enable bool
| Ev_Cal_Raw_Dac u32
| Ev_Cal_Sample
| Ev_Set_Cal_Field vc_cal_field u16
| Ev_Load_Cal vc_channel_cal_config

definition status_channel :: "(vc_status \<times> 'd vc_channel) option \<Rightarrow> 'd vc_channel option" where
  "status_channel r = map_option snd r"

fun channel_exec :: "kconfig \<Rightarrow> 'd channel_event \<Rightarrow> 'd vc_channel \<Rightarrow> 'd vc_channel option" where
  "channel_exec K (Ev_Run dt sys) ch = vc_channel_run K ch dt sys"
| "channel_exec K (Ev_Publish_Voltage raw ts) ch =
     Some (ch\<lparr>meas := map_option (\<lambda>b. vc_channel_buffer_publish_voltage b raw ts) (meas ch)\<rparr>)"
| "channel_exec K (Ev_Publish_Current raw ts) ch =
     Some (ch\<lparr>meas := map_option (\<lambda>b. vc_channel_buffer_publish_current b raw ts) (meas ch)\<rparr>)"
| "channel_exec K (Ev_Driver f) ch =
     Some (ch\<lparr>dev := map_option (\<lambda>d. d\<lparr>dev_data := f (dev_data d)\<rparr>) (dev ch)\<rparr>)"
| "channel_exec K (Ev_Fault cause) ch = vc_channel_consume_fault ch cause"
| "channel_exec K Ev_Force_Safe ch = force_safe_state ch"
| "channel_exec K (Ev_Set_Config cfg) ch = status_channel (vc_channel_set_config K ch cfg)"
| "channel_exec K (Ev_Set_Field fld v) ch = status_channel (vc_channel_set_field K ch fld v)"
| "channel_exec K (Ev_Output_Action a) ch = status_channel (vc_channel_output_action ch a)"
| "channel_exec K (Ev_Fault_Command c) ch = Some (snd (vc_channel_fault_command ch c))"
| "channel_exec K (Ev_Reset_Calibration e) ch = vc_channel_reset_calibration ch e"
| "channel_exec K (Ev_Cal_Output_Enable e) ch = status_channel (vc_channel_cal_set_output_enable ch e)"
| "channel_exec K (Ev_Cal_Raw_Dac c) ch = status_channel (vc_channel_cal_set_raw_dac K ch c)"
| "channel_exec K Ev_Cal_Sample ch = Some (snd (vc_channel_cal_sample ch))"
| "channel_exec K (Ev_Set_Cal_Field fld v) ch = status_channel (vc_channel_set_cal_field ch fld v)"
| "channel_exec K (Ev_Load_Cal cal) ch = vc_channel_load_cal ch cal"

fun channel_execs ::
    "kconfig \<Rightarrow> 'd channel_event list \<Rightarrow> 'd vc_channel \<Rightarrow> 'd vc_channel option" where
  "channel_execs K [] ch = Some ch"
| "channel_execs K (e # es) ch = channel_exec K e ch \<bind> channel_execs K es"

text \<open>Loading is the one operation that does not check the exponents itself.\<close>

fun event_ok :: "'d channel_event \<Rightarrow> bool" where
  "event_ok (Ev_Load_Cal cal) \<longleftrightarrow> cal_ok cal"
| "event_ok _ \<longleftrightarrow> True"

lemma good_status_channel: "good_st K r \<Longrightarrow> good K (status_channel r)"
  by (cases r) (auto simp: status_channel_def)

lemma channel_ok_meas [simp]: "channel_ok K (ch\<lparr>meas := m\<rparr>) \<longleftrightarrow> channel_ok K ch"
  by (simp add: channel_ok_def)

lemma good_channel_exec:
  assumes "kconfig_in_range K" and "channel_ok K ch" and "event_ok e"
  shows "good K (channel_exec K e ch)"
  using assms by (cases e) (auto intro: inv_intros good_status_channel)

lemma good_channel_execs:
  assumes "kconfig_in_range K"
  shows "channel_ok K ch \<Longrightarrow> list_all event_ok es \<Longrightarrow> good K (channel_execs K es ch)"
  by (induction es arbitrary: ch) (auto intro!: good_bind good_channel_exec [OF assms])

inductive channel_step :: "kconfig \<Rightarrow> 'd vc_channel \<Rightarrow> 'd vc_channel \<Rightarrow> bool" for K where
  exec: "event_ok e \<Longrightarrow> channel_exec K e ch = Some ch' \<Longrightarrow> channel_step K ch ch'"

inductive_cases channel_stepE: "channel_step K ch ch'"

text \<open>A channel starts from \<open>vc_channel_init\<close>, with whatever defaults its driver supplies.\<close>

definition data_after_callback :: "'d vc_channel_api \<Rightarrow> 'd device \<Rightarrow> 'd" where
  "data_after_callback a d =
     (case set_meas_callback a of None \<Rightarrow> dev_data d | Some f \<Rightarrow> snd (f (dev_data d)))"

definition driver_defaults_ok :: "kconfig \<Rightarrow> 'd device option \<Rightarrow> bool" where
  "driver_defaults_ok K device \<longleftrightarrow>
     (case device of None \<Rightarrow> True | Some d \<Rightarrow>
       (case dev_api d of None \<Rightarrow> True | Some a \<Rightarrow>
         (case get_dt_defaults a of None \<Rightarrow> True | Some f \<Rightarrow>
           cal_ok (snd (snd (f (data_after_callback a d) (vc_channel_default_config K)
                               (default_cal_config K)))))))"

inductive channel_reachable :: "kconfig \<Rightarrow> 'd vc_channel \<Rightarrow> bool" for K where
  init: "driver_defaults_ok K device \<Longrightarrow>
    channel_reachable K (vc_channel_init K device idx caps buffer wake)"
| step: "channel_reachable K ch \<Longrightarrow> channel_step K ch ch' \<Longrightarrow> channel_reachable K ch'"

lemma cal_ok_default: "kconfig_in_range K \<Longrightarrow> cal_ok (default_cal_config K)"
  by (simp add: kconfig_in_range_def cal_ok_def default_cal_config_def cal_k_exp_in_range_def
      sint_word_of_int16)

lemma channel_ok_blank: "kconfig_in_range K \<Longrightarrow> channel_ok K (blank_channel K)"
  by (simp add: channel_ok_def blank_channel_def cal_ok_default)

lemma install_device_eq:
  "install_device a d ch =
     (case get_dt_defaults a of
        None \<Rightarrow> ch\<lparr>dev := Some (d\<lparr>dev_data := data_after_callback a d\<rparr>)\<rparr>
      | Some f \<Rightarrow> (case f (data_after_callback a d) (config ch) (cal_config ch) of
          (_, cfg, cal) \<Rightarrow> ch\<lparr>dev := Some (d\<lparr>dev_data := data_after_callback a d\<rparr>),
                             config := cfg, cal_config := cal\<rparr>))"
  by (cases "set_meas_callback a"; cases "get_dt_defaults a")
     (simp_all add: install_device_def data_after_callback_def)

lemma channel_ok_install:
  assumes "channel_ok K ch"
    and "\<And>f. get_dt_defaults a = Some f \<Longrightarrow>
           cal_ok (snd (snd (f (data_after_callback a d) (config ch) (cal_config ch))))"
  shows "channel_ok K (install_device a d ch)"
  using assms
  by (cases "get_dt_defaults a")
     (auto simp: install_device_eq split_beta intro: channel_ok_cal_config)

lemma channel_ok_init:
  assumes K: "kconfig_in_range K" and d: "driver_defaults_ok K device"
  shows "channel_ok K (vc_channel_init K device idx caps buffer wake)"
proof -
  let ?ch = "(blank_channel K)
      \<lparr>dev := device, index := idx, capabilities := caps, meas := buffer, wake_fn := wake\<rparr>"
  have ok: "channel_ok K ?ch" using channel_ok_blank [OF K] by (simp add: channel_ok_def)
  have cfg: "config (blank_channel K) = vc_channel_default_config K"
    "cal_config (blank_channel K) = default_cal_config K"
    by (simp_all add: blank_channel_def)
  have "channel_ok K (install_device a e ?ch)" if "device = Some e" "dev_api e = Some a" for a e
    using d that by (intro channel_ok_install ok) (simp add: cfg driver_defaults_ok_def)
  then show ?thesis
    using ok by (cases device) (auto simp: vc_channel_init_def Let_def split: option.split)
qed

lemma reachable_channel_ok:
  assumes "kconfig_in_range K"
  shows "channel_reachable K ch \<Longrightarrow> channel_ok K ch"
proof (induction rule: channel_reachable.induct)
  case init
  then show ?case by (rule channel_ok_init [OF assms])
next
  case (step ch ch')
  then show ?case
    using good_channel_exec [OF assms step.IH] by (fastforce elim!: channel_stepE)
qed

end
