(* ===== verification/Vc_Channel_Ramp.thy ===== *)
theory Vc_Channel_Ramp
  imports Vc_Channel_Steps
begin

text \<open>
  The voltage ramp. The \<open>while\<close> loop of \<open>vc_channel_tick_ramp\<close> is compared with a reference on
  integers, which moves a value towards the target by a fixed step and never past it; from that
  follow its closed form, the range of the operational target and the termination of a ramp.
\<close>

subsection \<open>The reference: one step towards a target\<close>

definition toward :: "int \<Rightarrow> int \<Rightarrow> int \<Rightarrow> int" where
  "toward t s c = (if c < t then min t (c + s) else max t (c - s))"

definition steps_needed :: "int \<Rightarrow> int \<Rightarrow> int \<Rightarrow> nat" where
  "steps_needed t s c = nat ((\<bar>t - c\<bar> + s - 1) div s)"

lemma toward_same [simp]: "0 \<le> s \<Longrightarrow> toward t s t = t"
  by (simp add: toward_def)

lemma toward_pow_up: "0 < s \<Longrightarrow> c \<le> t \<Longrightarrow> (toward t s ^^ n) c = min t (c + int n * s)"
  by (induction n) (auto simp: toward_def min_def algebra_simps)

lemma toward_pow_down: "0 < s \<Longrightarrow> t \<le> c \<Longrightarrow> (toward t s ^^ n) c = max t (c - int n * s)"
  by (induction n) (auto simp: toward_def max_def algebra_simps)

lemma steps_needed_same [simp]: "0 < s \<Longrightarrow> steps_needed t s t = 0"
  by (simp add: steps_needed_def)

lemma ceil_div_step:
  assumes "0 < s" and "0 < d"
  shows "nat ((d + s - 1) div s) = Suc (nat ((max 0 (d - s) + s - 1) div s))"
proof (cases "s \<le> d")
  case True
  have "(d + s - 1) div s = (d - 1) div s + 1"
    using assms by (metis add.commute add_diff_eq diff_add_eq div_add_self1 less_irrefl add.left_commute)
  moreover have "0 \<le> (d - 1) div s" using assms by (simp add: pos_imp_zdiv_nonneg_iff)
  ultimately show ?thesis using True by (simp add: max_def algebra_simps nat_add_distrib)
next
  case False
  have "(d + s - 1) div s = 1"
    using assms False by (intro div_pos_geq [THEN trans]) (auto simp: div_pos_pos_trivial)
  then show ?thesis using assms False by (simp add: div_pos_pos_trivial)
qed

lemma steps_needed_Suc:
  assumes "0 < s" and "c \<noteq> t"
  shows "steps_needed t s c = Suc (steps_needed t s (toward t s c))"
proof -
  have "\<bar>t - toward t s c\<bar> = max 0 (\<bar>t - c\<bar> - s)"
    using assms by (auto simp: toward_def)
  then show ?thesis
    using ceil_div_step [of s "\<bar>t - c\<bar>"] assms by (simp add: steps_needed_def)
qed

lemma toward_pow_needed:
  assumes "0 < s" shows "(toward t s ^^ steps_needed t s c) c = t"
proof -
  have "(toward t s ^^ n) c = t" if "n = steps_needed t s c" for n
    using that
  proof (induction n arbitrary: c)
    case 0
    then have "c = t" using steps_needed_Suc [OF assms, of c t] by (cases "c = t") auto
    then show ?case by simp
  next
    case (Suc n)
    then have "c \<noteq> t" using assms by auto
    then have "n = steps_needed t s (toward t s c)"
      using Suc.prems steps_needed_Suc [OF assms] by simp
    then show ?case using Suc.IH [of "toward t s c"] by (simp only: funpow_Suc_right comp_apply)
  qed
  then show ?thesis by simp
qed

lemma toward_pow_short:
  assumes "0 < s" shows "n < steps_needed t s c \<Longrightarrow> (toward t s ^^ n) c \<noteq> t"
proof (induction n arbitrary: c)
  case 0
  then show ?case using assms by auto
next
  case (Suc n)
  then have "c \<noteq> t" using assms by auto
  then have "n < steps_needed t s (toward t s c)"
    using Suc.prems steps_needed_Suc [OF assms] by simp
  then show ?case
    using Suc.IH [of "toward t s c"] by (simp del: funpow.simps add: funpow_Suc_right)
qed

lemma steps_needed_pow:
  assumes "0 < s"
  shows "n \<le> steps_needed t s c \<Longrightarrow> steps_needed t s ((toward t s ^^ n) c) = steps_needed t s c - n"
proof (induction n arbitrary: c)
  case 0
  then show ?case by simp
next
  case (Suc n)
  then have "c \<noteq> t" using assms by auto
  then have "steps_needed t s c = Suc (steps_needed t s (toward t s c))"
    by (rule steps_needed_Suc [OF assms])
  then show ?case
    using Suc.IH [of "toward t s c"] Suc.prems by (simp only: funpow_Suc_right comp_apply)
qed

subsection \<open>The C step is the reference step when it does not wrap\<close>

definition ramp_fits :: "int \<Rightarrow> int \<Rightarrow> int \<Rightarrow> bool" where
  "ramp_fits t s c \<longleftrightarrow>
     0 < s \<and> s \<le> 32767 \<and> (if c < t then t + s \<le> 32767 else - 32768 \<le> t - s)"

lemma ramp_fits_toward: "ramp_fits t s c \<Longrightarrow> c \<noteq> t \<Longrightarrow> toward t s c \<noteq> t \<Longrightarrow> ramp_fits t s (toward t s c)"
  by (auto simp: ramp_fits_def toward_def split: if_splits)

lemma sint_eq_uint16: "uint w \<le> 32767 \<Longrightarrow> sint (w :: 16 word) = uint w"
  using sint_word_of_int16 [of "uint w"] uint16_range [of w] by simp

lemma ramp_step_toward:
  assumes "ramp_fits (sint target) (uint step) (sint current)" and "current \<noteq> target"
  shows "sint (ramp_step step target current) = toward (sint target) (uint step) (sint current)"
proof -
  have s: "sint step = uint step" using assms by (simp add: ramp_fits_def sint_eq_uint16)
  show ?thesis
  proof (cases "sint current < sint target")
    case True
    then have "sint (current + step) = sint current + uint step"
      using assms s sint16_range [of current] by (simp add: ramp_fits_def sint_add16)
    then show ?thesis using True by (auto simp: ramp_step_def toward_def Let_def)
  next
    case False
    then have "sint (current - step) = sint current - uint step"
      using assms s sint16_range [of current] sint16_range [of target]
      by (simp add: ramp_fits_def sint_sub16)
    then show ?thesis using False by (auto simp: ramp_step_def toward_def Let_def)
  qed
qed

text \<open>The number of steps the loop takes: what the time pays for, at most what is needed.\<close>

definition loop_steps :: "u16 \<Rightarrow> u32 \<Rightarrow> s16 \<Rightarrow> u32 \<Rightarrow> s16 \<Rightarrow> nat" where
  "loop_steps step interval target accum current =
     min (unat accum div unat interval)
         (steps_needed (sint target) (uint step) (sint current))"

lemma ramp_loop_reference:
  assumes "interval \<noteq> 0"
  shows "current \<noteq> target \<longrightarrow> ramp_fits (sint target) (uint step) (sint current) \<Longrightarrow> 0 < uint step \<Longrightarrow>
    ramp_loop step interval target accum current =
      (accum - of_nat (loop_steps step interval target accum current) * interval,
       word_of_int ((toward (sint target) (uint step) ^^
                     loop_steps step interval target accum current) (sint current)))"
  using assms
proof (induction step interval target accum current rule: ramp_loop.induct)
  case (1 step interval target accum current)
  show ?case
  proof (cases "interval \<le> accum \<and> current \<noteq> target")
    case False
    then have "loop_steps step interval target accum current = 0"
      using 1(3) by (auto simp: loop_steps_def word_le_nat_alt)
    then show ?thesis
      using False by (subst ramp_loop.simps) auto
  next
    case True
    let ?c = "ramp_step step target current"
    have c: "sint ?c = toward (sint target) (uint step) (sint current)"
      using 1(2) True by (intro ramp_step_toward) auto
    have fits: "?c \<noteq> target \<longrightarrow> ramp_fits (sint target) (uint step) (sint ?c)"
      using 1(2) True ramp_fits_toward by (metis c signed_word_eqI)
    have "unat (accum - interval) = unat accum - unat interval"
      using True by (simp add: unat_sub word_le_nat_alt)
    moreover have "unat accum div unat interval = Suc ((unat accum - unat interval) div unat interval)"
      using True 1(4) by (simp add: le_div_geq word_le_nat_alt unat_gt_0)
    moreover have "steps_needed (sint target) (uint step) (sint current) =
        Suc (steps_needed (sint target) (uint step) (sint ?c))"
      using c True 1(3) steps_needed_Suc by (metis signed_word_eqI)
    ultimately have n: "loop_steps step interval target accum current =
        Suc (loop_steps step interval target (accum - interval) ?c)"
      by (simp add: loop_steps_def)
    have "ramp_loop step interval target accum current =
        ramp_loop step interval target (accum - interval) ?c"
      using True 1(4) by (subst ramp_loop.simps) simp
    then show ?thesis
      using "1.IH" True 1(3,4) fits n c
      by (simp del: funpow.simps add: funpow_Suc_right algebra_simps)
  qed
qed

end
