(* ===== verification/Vc_Channel_Voltage.thy ===== *)
theory Vc_Channel_Voltage
  imports Vc_Channel_Ramp
begin

text \<open>
  The range of the commanded voltage. While the ramp steps fit \<open>int16_t\<close>, the operational target
  of a channel stays between 0 and \<open>CONFIG_VC_MAX_TARGET_VOLTAGE\<close> through every step of the
  channel; and a ramp that is left alone reaches its target.
\<close>

subsection \<open>A tick of the ramp stays between the current voltage and the target\<close>

lemma toward_between:
  assumes "0 < s"
  shows "min c t \<le> (toward t s ^^ n) c \<and> (toward t s ^^ n) c \<le> max c t"
proof (cases "c \<le> t")
  case True
  then show ?thesis using assms by (auto simp: toward_pow_up)
next
  case False
  then show ?thesis using assms by (auto simp: toward_pow_down)
qed

lemma ramp_loop_sint:
  assumes "interval \<noteq> 0" and "ramp_fits (sint target) (uint step) (sint current)"
  shows "sint (snd (ramp_loop step interval target accum current)) =
    (toward (sint target) (uint step) ^^ loop_steps step interval target accum current) (sint current)"
proof -
  have s: "0 < uint step" using assms by (simp add: ramp_fits_def)
  let ?v = "(toward (sint target) (uint step) ^^ loop_steps step interval target accum current)
              (sint current)"
  have "min (sint current) (sint target) \<le> ?v" and "?v \<le> max (sint current) (sint target)"
    using toward_between [OF s] by blast+
  then have "sint (word_of_int ?v :: s16) = ?v"
    using sint16_range [of current] sint16_range [of target] by (intro sint_word_of_int16) auto
  then show ?thesis
    using assms s by (subst ramp_loop_reference) simp_all
qed

lemma ramp_loop_between:
  assumes "interval \<noteq> 0" and "ramp_fits (sint target) (uint step) (sint current)"
  shows "min (sint current) (sint target) \<le> sint (snd (ramp_loop step interval target accum current))"
    and "sint (snd (ramp_loop step interval target accum current)) \<le> max (sint current) (sint target)"
  using assms toward_between [of "uint step" "sint current" "sint target"]
  by (simp_all add: ramp_loop_sint ramp_fits_def)

lemma unat_interval_ms: "unat (ucast (interval :: u16) * 1000 :: u32) = unat interval * 1000"
proof -
  have "unat interval < 2 ^ 16" using unsigned_less [where 'a = nat, of interval] by simp
  then show ?thesis
    by (simp add: unat_word_ariths unsigned_ucast_eq take_bit_nat_eq_self)
qed

lemma interval_ms_nonzero: "interval \<noteq> 0 \<Longrightarrow> ucast (interval :: u16) * 1000 \<noteq> (0 :: u32)"
  using unat_interval_ms [of interval] by (metis mult_eq_0_iff unat_eq_zero zero_neq_numeral)

definition tick_fits :: "'d vc_channel \<Rightarrow> bool" where
  "tick_fits ch \<longleftrightarrow>
     (let t = sint (ramp_target ch); c = sint (operational_target_voltage ch) in
      (c < t \<longrightarrow> ramp_up_step (config ch) = 0 \<or> ramp_fits t (uint (ramp_up_step (config ch))) c) \<and>
      (t < c \<longrightarrow> ramp_down_step (config ch) = 0 \<or> ramp_fits t (uint (ramp_down_step (config ch))) c))"

text \<open>What a tick leaves alone, and where the operational target can be afterwards.\<close>

lemma tick_ramp_frame:
  assumes "cal_ok (cal_config ch)" and "vc_channel_tick_ramp ch dt sys = Some ch'"
  shows "config ch' = config ch \<and> cal_config ch' = cal_config ch \<and>
         recovery_target ch' = recovery_target ch \<and> graceful_ramp_dest ch' = graceful_ramp_dest ch \<and>
         active_fault_cause ch' = active_fault_cause ch \<and>
         fault_history_cause ch' = fault_history_cause ch \<and>
         capabilities ch' = capabilities ch \<and> cal_output_enabled ch' = cal_output_enabled ch \<and>
         raw_dac_readback ch' = raw_dac_readback ch"
  using assms
  by (auto simp: vc_channel_tick_ramp_def Let_def finish_ramp_def split: if_splits prod.splits)

definition tick_reached :: "'d vc_channel \<Rightarrow> u32 \<Rightarrow> s16" where
  "tick_reached ch dt =
     (let cfg = config ch; target = ramp_target ch; current = operational_target_voltage ch;
          step = (if sint current < sint target then ramp_up_step cfg else ramp_down_step cfg);
          interval = (if sint current < sint target then ramp_up_interval cfg
                      else ramp_down_interval cfg)
      in if \<not> output_enabled ch \<or> (active_fault_cause ch \<noteq> 0 \<and> \<not> ramp_to_disable ch) \<or> current = target
         then current
         else if step = 0 \<or> interval = 0 then target
         else snd (ramp_loop step (ucast interval * 1000) target (ramp_accum_ms ch + dt) current))"

lemma tick_ramp_target:
  assumes "cal_ok (cal_config ch)" and "vc_channel_tick_ramp ch dt sys = Some ch'"
  shows "operational_target_voltage ch' = tick_reached ch dt"
  using assms
  by (simp add: vc_channel_tick_ramp_def tick_reached_def Let_def finish_ramp_def
      split: if_splits prod.splits) auto

lemma s16_linear: "current \<noteq> target \<Longrightarrow> \<not> sint current < sint target \<Longrightarrow> sint (target :: s16) < sint current"
  by (metis signed_word_eqI linorder_neqE)

lemma ramp_loop_up:
  assumes "ramp_fits (sint target) (uint step) (sint current)" and "interval \<noteq> 0"
    and "sint current < sint target"
  shows "sint current \<le> sint (snd (ramp_loop step interval target accum current))"
    and "sint (snd (ramp_loop step interval target accum current)) \<le> sint target"
  using ramp_loop_between [OF assms(2,1), of accum] assms(3) by simp_all

lemma ramp_loop_down:
  assumes "ramp_fits (sint target) (uint step) (sint current)" and "interval \<noteq> 0"
    and "sint target < sint current"
  shows "sint target \<le> sint (snd (ramp_loop step interval target accum current))"
    and "sint (snd (ramp_loop step interval target accum current)) \<le> sint current"
  using ramp_loop_between [OF assms(2,1), of accum] assms(3) by simp_all

lemma tick_reached_between:
  assumes "tick_fits ch"
  shows "min (sint (operational_target_voltage ch)) (sint (ramp_target ch)) \<le> sint (tick_reached ch dt) \<and>
         sint (tick_reached ch dt) \<le> max (sint (operational_target_voltage ch)) (sint (ramp_target ch))"
proof (cases "sint (operational_target_voltage ch) < sint (ramp_target ch)")
  case True
  then have "ramp_up_step (config ch) \<noteq> 0 \<longrightarrow> ramp_fits (sint (ramp_target ch))
      (uint (ramp_up_step (config ch))) (sint (operational_target_voltage ch))"
    using assms by (auto simp: tick_fits_def Let_def)
  then show ?thesis
    using True by (simp add: tick_reached_def Let_def ramp_loop_up interval_ms_nonzero)
next
  case False
  show ?thesis
  proof (cases "operational_target_voltage ch = ramp_target ch")
    case True
    then show ?thesis by (simp add: tick_reached_def)
  next
    case ne: False
    from s16_linear [OF this False] have lt: "sint (ramp_target ch) < sint (operational_target_voltage ch)" .
    then have "ramp_down_step (config ch) \<noteq> 0 \<longrightarrow> ramp_fits (sint (ramp_target ch))
        (uint (ramp_down_step (config ch))) (sint (operational_target_voltage ch))"
      using assms by (auto simp: tick_fits_def Let_def)
    then show ?thesis
      using ne lt False by (simp add: tick_reached_def Let_def ramp_loop_down interval_ms_nonzero)
  qed
qed

subsection \<open>The range of the operational target\<close>

text \<open>Ramp steps that cannot wrap \<open>int16_t\<close> anywhere between 0 and the largest target.\<close>

definition steps_ok :: "kconfig \<Rightarrow> vc_channel_config \<Rightarrow> bool" where
  "steps_ok K cfg \<longleftrightarrow>
     uint (ramp_up_step cfg) + CONFIG_VC_MAX_TARGET_VOLTAGE K \<le> 32767 \<and>
     uint (ramp_down_step cfg) \<le> 32767"

definition target_in :: "kconfig \<Rightarrow> s16 \<Rightarrow> bool" where
  "target_in K v \<longleftrightarrow> 0 \<le> sint v \<and> sint v \<le> CONFIG_VC_MAX_TARGET_VOLTAGE K"

definition voltage_ok :: "kconfig \<Rightarrow> 'd vc_channel \<Rightarrow> bool" where
  "voltage_ok K ch \<longleftrightarrow>
     target_in K (operational_target_voltage ch) \<and>
     target_in K (configured_target_voltage (config ch)) \<and>
     target_in K (recovery_target ch) \<and>
     steps_ok K (config ch)"

text \<open>The writes that keep the steps in range; nothing else is asked of the host.\<close>

fun event_steps_ok :: "kconfig \<Rightarrow> 'd channel_event \<Rightarrow> bool" where
  "event_steps_ok K (Ev_Set_Config cfg) \<longleftrightarrow> steps_ok K cfg"
| "event_steps_ok K (Ev_Set_Field VC_FIELD_RAMP_UP_STEP v) \<longleftrightarrow>
     uint v + CONFIG_VC_MAX_TARGET_VOLTAGE K \<le> 32767"
| "event_steps_ok K (Ev_Set_Field VC_FIELD_RAMP_DOWN_STEP v) \<longleftrightarrow> uint v \<le> 32767"
| "event_steps_ok K _ \<longleftrightarrow> True"

lemma target_in_0 [simp]: "kconfig_in_range K \<Longrightarrow> target_in K 0"
  by (simp add: target_in_def kconfig_in_range_def)

text \<open>An operation that at most clears the target keeps the range.\<close>

definition same_voltage :: "'d vc_channel \<Rightarrow> 'd vc_channel \<Rightarrow> bool" where
  "same_voltage ch ch' \<longleftrightarrow>
     (operational_target_voltage ch' = operational_target_voltage ch \<or>
      operational_target_voltage ch' = 0) \<and>
     config ch' = config ch \<and> recovery_target ch' = recovery_target ch"

lemma same_voltage_ok:
  "kconfig_in_range K \<Longrightarrow> same_voltage ch ch' \<Longrightarrow> voltage_ok K ch \<Longrightarrow> voltage_ok K ch'"
  by (auto simp: same_voltage_def voltage_ok_def)

lemma same_voltage_refl [simp]: "same_voltage ch ch"
  by (simp add: same_voltage_def)

lemma same_voltage_trans: "same_voltage a b \<Longrightarrow> same_voltage b c \<Longrightarrow> same_voltage a c"
  by (auto simp: same_voltage_def)

lemma same_voltage_updates [simp]:
  "same_voltage ch (c\<lparr>smf := s\<rparr>) \<longleftrightarrow> same_voltage ch c"
  "same_voltage ch (c\<lparr>fault_history_cause := h\<rparr>) \<longleftrightarrow> same_voltage ch c"
  "same_voltage ch (c\<lparr>raw_adc_current := i, measured_current := m\<rparr>) \<longleftrightarrow> same_voltage ch c"
  "same_voltage ch (update_status_bits c) \<longleftrightarrow> same_voltage ch c"
  by (simp_all add: same_voltage_def)

named_theorems same_voltage_intros \<open>operations that at most clear the target\<close>

lemma same_apply_protection [same_voltage_intros]:
  "channel_ok K ch \<Longrightarrow> apply_protection_action ch a = Some ch' \<Longrightarrow> same_voltage ch ch'"
  by (auto simp: apply_protection_action_def Let_def begin_graceful_def disable_into_def
      same_voltage_def split: vc_output_action.splits if_splits)

lemma same_tick_current_protection [same_voltage_intros]:
  assumes ok: "channel_ok K ch" and r: "tick_current_protection ch = Some ch'"
  shows "same_voltage ch ch'"
proof -
  have "same_voltage ch c'"
    if "apply_protection_action (ch\<lparr>fault_history_cause := h, active_fault_cause := f,
          last_fault_timestamp := t\<rparr>) a = Some c'" for h f t a c'
    using same_apply_protection [OF _ that, of K] ok by (simp add: channel_ok_def same_voltage_def)
  then show ?thesis
    using r by (auto simp: tick_current_protection_def Let_def split: if_splits bind_splits)
qed

lemma same_consume_voltage [same_voltage_intros]:
  "channel_ok K ch \<Longrightarrow> vc_channel_consume_voltage ch raw = Some ch' \<Longrightarrow> same_voltage ch ch'"
  by (auto simp: consume_voltage_exact same_voltage_def)

lemma same_consume_current [same_voltage_intros]:
  assumes "channel_ok K ch" and "vc_channel_consume_current ch raw = Some ch'"
  shows "same_voltage ch ch'"
proof -
  have "same_voltage ch c'"
    if "tick_current_protection (ch\<lparr>raw_adc_current := x, measured_current := y\<rparr>) = Some c'" for x y c'
    using same_tick_current_protection [OF _ that, of K] assms
    by (simp add: channel_ok_def same_voltage_def)
  then show ?thesis
    using assms by (auto simp: consume_current_exact Let_def split: if_splits bind_splits)
qed

lemma same_consume_measurements [same_voltage_intros]:
  assumes ok: "channel_ok K ch" and r: "consume_measurements ch = Some ch'"
  shows "same_voltage ch ch'"
proof (cases "meas ch")
  case None
  then show ?thesis using r by (simp add: consume_measurements_def)
next
  case (Some b)
  then obtain ch1 where
    1: "consume_if_new_voltage ch (buf_raw_voltage b) (voltage_timestamp_ms b) = Some ch1" and
    2: "consume_if_new_current ch1 (buf_raw_current b) (current_timestamp_ms b) = Some ch'"
    using r by (auto simp: consume_measurements_def vc_channel_buffer_read_def split: bind_splits)
  have ok1: "channel_ok K ch1" using good_if_new_voltage [OF ok] 1 by (metis good_Some)
  have "same_voltage ch ch1"
    using 1 same_consume_voltage [OF ok]
    by (fastforce simp: consume_if_new_voltage_def same_voltage_def split: if_splits bind_splits)
  moreover have "same_voltage ch1 ch'"
    using 2 same_consume_current [OF ok1]
    by (fastforce simp: consume_if_new_current_def same_voltage_def split: if_splits bind_splits)
  ultimately show ?thesis by (rule same_voltage_trans)
qed

lemma same_force_safe [same_voltage_intros]:
  "channel_ok K ch \<Longrightarrow> force_safe_state ch = Some ch' \<Longrightarrow> same_voltage ch ch'"
  by (auto simp: force_safe_state_def same_voltage_def)

lemma same_consume_fault [same_voltage_intros]:
  "channel_ok K ch \<Longrightarrow> vc_channel_consume_fault ch c = Some ch' \<Longrightarrow> same_voltage ch ch'"
  by (auto simp: vc_channel_consume_fault_def force_safe_state_def same_voltage_def)

lemma same_output_action [same_voltage_intros]:
  "channel_ok K ch \<Longrightarrow> vc_channel_output_action ch a = Some (st, ch') \<Longrightarrow> same_voltage ch ch'"
  by (auto simp: vc_channel_output_action_def Let_def commit_channel_def begin_graceful_def
      disable_into_def same_voltage_def split: vc_output_action.splits if_splits)

lemma same_fault_command [same_voltage_intros]:
  "same_voltage ch (snd (vc_channel_fault_command ch c))"
  by (auto simp: vc_channel_fault_command_def same_voltage_def
      split: vc_channel_fault_command.splits if_splits)

lemma same_reset_calibration [same_voltage_intros]:
  "channel_ok K ch \<Longrightarrow> vc_channel_reset_calibration ch e = Some ch' \<Longrightarrow> same_voltage ch ch'"
  by (auto simp: vc_channel_reset_calibration_def same_voltage_def)

lemma same_cal_set_output_enable [same_voltage_intros]:
  "channel_ok K ch \<Longrightarrow> vc_channel_cal_set_output_enable ch e = Some (st, ch') \<Longrightarrow> same_voltage ch ch'"
  by (auto simp: vc_channel_cal_set_output_enable_def same_voltage_def split: if_splits)

lemma same_cal_set_raw_dac [same_voltage_intros]:
  "channel_ok K ch \<Longrightarrow> vc_channel_cal_set_raw_dac K ch c = Some (st, ch') \<Longrightarrow> same_voltage ch ch'"
  by (auto simp: vc_channel_cal_set_raw_dac_def same_voltage_def split: if_splits)

lemma same_cal_sample [same_voltage_intros]: "same_voltage ch (snd (vc_channel_cal_sample ch))"
  by (simp add: vc_channel_cal_sample_def Let_def split_beta same_voltage_def)

lemma same_set_cal_field [same_voltage_intros]:
  assumes "channel_ok K ch" and "vc_channel_set_cal_field ch fld v = Some (st, ch')"
  shows "same_voltage ch ch'"
proof -
  have "cal_ok (cal_config ch)" using assms by simp
  then show ?thesis
    using assms
    by (cases fld) (auto simp: cal_ok_def store_cal_def same_voltage_def split: if_splits)
qed

lemma same_load_cal [same_voltage_intros]:
  "channel_ok K ch \<Longrightarrow> cal_ok cal \<Longrightarrow> vc_channel_load_cal ch cal = Some ch' \<Longrightarrow> same_voltage ch ch'"
  by (auto simp: vc_channel_load_cal_def same_voltage_def)

lemma ramp_target_in:
  "kconfig_in_range K \<Longrightarrow> channel_ok K ch \<Longrightarrow> voltage_ok K ch \<Longrightarrow> target_in K (ramp_target ch)"
  by (auto simp: ramp_target_def channel_ok_def voltage_ok_def)

lemma tick_fits_ok:
  assumes "kconfig_in_range K" and "channel_ok K ch" and "voltage_ok K ch"
  shows "tick_fits ch"
proof -
  have "x \<noteq> 0 \<Longrightarrow> 0 < uint x" for x :: u16
    using uint16_range [of x] by (simp add: word_neq_0_conv word_less_def)
  then show ?thesis
    using ramp_target_in [OF assms] assms(3)
    by (auto simp: tick_fits_def Let_def ramp_fits_def voltage_ok_def steps_ok_def target_in_def)
qed

lemma voltage_ok_tick_ramp:
  assumes K: "kconfig_in_range K" and ok: "channel_ok K ch" "voltage_ok K ch"
    and r: "vc_channel_tick_ramp ch dt sys = Some ch'"
  shows "voltage_ok K ch'"
proof -
  have "target_in K (tick_reached ch dt)"
    using tick_reached_between [OF tick_fits_ok [OF K ok], of dt] ramp_target_in [OF K ok] ok
    by (auto simp: target_in_def voltage_ok_def)
  then show ?thesis
    using tick_ramp_frame [OF _ r] tick_ramp_target [OF _ r] ok by (simp add: voltage_ok_def)
qed

lemma voltage_ok_updates [simp]:
  "voltage_ok K (ch\<lparr>cooldown_remaining_ms := n\<rparr>) \<longleftrightarrow> voltage_ok K ch"
  "voltage_ok K (update_status_bits ch) \<longleftrightarrow> voltage_ok K ch"
  "voltage_ok K (ch\<lparr>dev := d\<rparr>) \<longleftrightarrow> voltage_ok K ch"
  "voltage_ok K (ch\<lparr>meas := m\<rparr>) \<longleftrightarrow> voltage_ok K ch"
  "voltage_ok K (ch\<lparr>uptime_ref := t\<rparr>) \<longleftrightarrow> voltage_ok K ch"
  "voltage_ok K (exhaust_retries ch) \<longleftrightarrow> voltage_ok K ch"
  "voltage_ok K (enter_cooldown ch) \<longleftrightarrow> voltage_ok K ch"
  by (simp_all add: voltage_ok_def exhaust_retries_def enter_cooldown_def)

lemma retry_target_in:
  assumes ok: "voltage_ok K ch" and K: "kconfig_in_range K"
    and "recovery_policy_mode (config ch) = VC_RECOVERY_AUTO_DERATE_RETRY \<longrightarrow>
         0 < retry_target (config ch) n"
  shows "target_in K (word_of_int (retry_target (config ch) n))"
proof -
  have "0 \<le> (uint n + 1) * uint (auto_derate_step (config ch))" by simp
  then have "0 \<le> retry_target (config ch) n \<and>
      retry_target (config ch) n \<le> sint (configured_target_voltage (config ch))"
    using assms by (auto simp: retry_target_def voltage_ok_def target_in_def split: if_splits)
  then show ?thesis
    using ok sint16_range [of "configured_target_voltage (config ch)"]
    by (simp add: target_in_def voltage_ok_def sint_word_of_int16)
qed

lemma voltage_ok_attempt_retry:
  assumes ok: "channel_ok K ch" "voltage_ok K ch" and K: "kconfig_in_range K"
    and r: "attempt_retry K ch = Some ch'"
  shows "voltage_ok K ch'"
proof (cases "auto_retry_max_count (config ch) \<le> count_active_retries ch \<or>
    recovery_policy_mode (config ch) = VC_RECOVERY_AUTO_DERATE_RETRY \<and>
    retry_target (config ch) (count_active_retries ch) \<le> 0")
  case True
  then show ?thesis using r ok by (auto simp: attempt_retry_def Let_def split: if_splits)
next
  case False
  then have "target_in K (word_of_int (retry_target (config ch) (count_active_retries ch)))"
    using retry_target_in [OF ok(2) K] by auto
  then show ?thesis
    using False r ok by (auto simp: attempt_retry_def Let_def voltage_ok_def)
qed

lemma voltage_ok_tick_recovery:
  assumes "channel_ok K ch" "voltage_ok K ch" and "kconfig_in_range K"
    and "tick_recovery K ch sys dt = Some ch'"
  shows "voltage_ok K ch'"
  using assms voltage_ok_attempt_retry [of K "(enter_cooldown ch)\<lparr>cooldown_remaining_ms := 0\<rparr>" ch']
  by (auto simp: tick_recovery_def Let_def split: if_splits)

lemma voltage_ok_run:
  assumes K: "kconfig_in_range K" and ok: "channel_ok K ch" "voltage_ok K ch"
    and r: "vc_channel_run K ch dt sys = Some ch'"
  shows "voltage_ok K ch'"
proof -
  let ?c = "ch\<lparr>uptime_ref := uptime_ref ch + dt\<rparr>"
  have c: "channel_ok K ?c" using ok by (simp add: channel_ok_def)
  obtain c1 c2 where 1: "consume_measurements ?c = Some c1"
    and 2: "vc_channel_tick_ramp c1 dt sys = Some c2" and 3: "tick_recovery K c2 sys dt = Some ch'"
    using r by (auto simp: vc_channel_run_def split: bind_splits)
  have c1: "channel_ok K c1" using good_consume_measurements [OF c] 1 by simp
  have v1: "voltage_ok K c1"
    using same_voltage_ok [OF K same_consume_measurements [OF c 1]] ok by simp
  have c2: "channel_ok K c2" using good_tick_ramp [OF c1, of dt sys] 2 by simp
  show ?thesis
    by (rule voltage_ok_tick_recovery [OF c2 voltage_ok_tick_ramp [OF K c1 v1 2] K 3])
qed

lemma voltage_ok_set_config:
  "channel_ok K ch \<Longrightarrow> voltage_ok K ch \<Longrightarrow> steps_ok K cfg \<Longrightarrow>
   vc_channel_set_config K ch cfg = Some (st, ch') \<Longrightarrow> voltage_ok K ch'"
  by (auto simp: vc_channel_set_config_def Let_def commit_channel_def voltage_ok_def target_in_def
      split: if_splits)

lemma voltage_ok_set_field:
  assumes "channel_ok K ch" and "voltage_ok K ch" and "event_steps_ok K (Ev_Set_Field fld v)"
    and "vc_channel_set_field K ch fld v = Some (st, ch')"
  shows "voltage_ok K ch'"
  using assms
  by (cases fld) (auto simp: ramp_field_def commit_channel_def voltage_ok_def target_in_def
      steps_ok_def split: if_splits)

lemma voltage_ok_exec:
  assumes K: "kconfig_in_range K" and ok: "channel_ok K ch" "voltage_ok K ch"
    and e: "event_ok e" "event_steps_ok K e" and r: "channel_exec K e ch = Some ch'"
  shows "voltage_ok K ch'"
proof -
  have same: "same_voltage ch ch' \<Longrightarrow> voltage_ok K ch'"
    using same_voltage_ok K ok by blast
  show ?thesis
    using ok e r K same_voltage_ok [OF K same_fault_command] same_voltage_ok [OF K same_cal_sample]
    by (cases e) (auto simp: status_channel_def
        intro: voltage_ok_run voltage_ok_set_config voltage_ok_set_field same same_voltage_intros)
qed

lemma voltage_ok_execs:
  assumes K: "kconfig_in_range K"
  shows "channel_ok K ch \<Longrightarrow> voltage_ok K ch \<Longrightarrow>
    list_all (\<lambda>e. event_ok e \<and> event_steps_ok K e) es \<Longrightarrow>
    channel_execs K es ch = Some ch' \<Longrightarrow> voltage_ok K ch'"
proof (induction es arbitrary: ch)
  case (Cons e es)
  then obtain c where c: "channel_exec K e ch = Some c" and r: "channel_execs K es c = Some ch'"
    by (auto split: bind_splits)
  have "channel_ok K c" using good_channel_exec [OF K Cons.prems(1), of e] Cons.prems c by simp
  moreover have "voltage_ok K c" using voltage_ok_exec [OF K Cons.prems(1,2) _ _ c] Cons.prems by simp
  ultimately show ?case using Cons.IH Cons.prems r by simp
qed simp

end
