(* ===== verification/Vc_Channel_Live.thy ===== *)
theory Vc_Channel_Live
  imports Vc_Channel_Voltage
begin

text \<open>
  A ramp that is left alone ends. The measure is the time still to pay: the steps needed times
  the interval, less the time already accumulated; every tick of \<open>dt\<close> milliseconds that does not
  finish the ramp lowers it by exactly \<open>dt\<close>.
\<close>

definition ramp_s :: "'d vc_channel \<Rightarrow> u16" where
  "ramp_s ch =
     (if sint (operational_target_voltage ch) < sint (ramp_target ch)
      then ramp_up_step (config ch) else ramp_down_step (config ch))"

definition ramp_i :: "'d vc_channel \<Rightarrow> u16" where
  "ramp_i ch =
     (if sint (operational_target_voltage ch) < sint (ramp_target ch)
      then ramp_up_interval (config ch) else ramp_down_interval (config ch))"

definition ramp_needed :: "'d vc_channel \<Rightarrow> nat" where
  "ramp_needed ch =
     steps_needed (sint (ramp_target ch)) (uint (ramp_s ch)) (sint (operational_target_voltage ch))"

definition time_left :: "'d vc_channel \<Rightarrow> int" where
  "time_left ch = int (ramp_needed ch * (unat (ramp_i ch) * 1000)) - int (unat (ramp_accum_ms ch))"

text \<open>A channel whose ramp runs: powered, not held back by a fault, with steps that fit.\<close>

definition ramp_runs :: "'d vc_channel \<Rightarrow> bool" where
  "ramp_runs ch \<longleftrightarrow>
     cal_ok (cal_config ch) \<and> output_enabled ch \<and>
     (active_fault_cause ch = 0 \<or> ramp_to_disable ch) \<and> tick_fits ch"

lemma tick_fits_step:
  assumes "tick_fits ch" and "operational_target_voltage ch \<noteq> ramp_target ch" and "ramp_s ch \<noteq> 0"
  shows "ramp_fits (sint (ramp_target ch)) (uint (ramp_s ch)) (sint (operational_target_voltage ch))"
  using assms s16_linear [of "operational_target_voltage ch" "ramp_target ch"]
  by (auto simp: tick_fits_def ramp_s_def Let_def)

lemma finish_ramp_frame [simp]:
  "ramping (finish_ramp ch) = False"
  "operational_target_voltage (finish_ramp ch) = operational_target_voltage ch"
  by (simp_all add: finish_ramp_def)

lemma unat_minus_div:
  "unat (a - of_nat (unat a div unat b) * b) = unat a mod unat (b :: u32)"
  by (metis minus_div_mult_eq_mod unat_mod word_arith_nat_div)

text \<open>A tick without a step or an interval to pace it jumps to the target.\<close>

lemma tick_jump:
  assumes "ramp_runs ch" and "operational_target_voltage ch \<noteq> ramp_target ch"
    and "ramp_s ch = 0 \<or> ramp_i ch = 0"
  obtains ch' where "vc_channel_tick_ramp ch dt sys = Some ch'"
    and "operational_target_voltage ch' = ramp_target ch" and "\<not> ramping ch'"
proof -
  let ?c = "finish_ramp (ch\<lparr>ramping := True, operational_target_voltage := ramp_target ch\<rparr>)"
  have "vc_channel_tick_ramp ch dt sys = apply_hw ?c \<bind> (\<lambda>c. Some (update_status_bits c))"
    using assms
    by (simp only: vc_channel_tick_ramp_def Let_def ramp_s_def ramp_i_def ramp_runs_def) auto
  moreover have "cal_ok (cal_config ?c)" using assms by (simp add: ramp_runs_def finish_ramp_def)
  ultimately have r: "vc_channel_tick_ramp ch dt sys =
      Some (update_status_bits (?c\<lparr>dev := driven_dev ?c\<rparr>))" by simp
  from that [OF r] show thesis by simp
qed

lemma tick_ramp_paced_eq:
  assumes "ramp_runs ch" and "operational_target_voltage ch \<noteq> ramp_target ch"
    and "ramp_s ch \<noteq> 0" and "ramp_i ch \<noteq> 0"
  shows "vc_channel_tick_ramp ch dt sys =
     (case ramp_loop (ramp_s ch) (ucast (ramp_i ch) * 1000) (ramp_target ch)
             (ramp_accum_ms ch + dt) (operational_target_voltage ch) of
        (accum, reached) \<Rightarrow>
          let ch1 = ch\<lparr>ramping := True, ramp_accum_ms := accum,
                       operational_target_voltage := reached\<rparr> in
          do {
            ch2 \<leftarrow> apply_hw (if reached = ramp_target ch then finish_ramp ch1 else ch1);
            Some (update_status_bits ch2)
          })"
  using assms
  by (simp only: vc_channel_tick_ramp_def Let_def ramp_s_def ramp_i_def ramp_runs_def) auto

lemma tick_paced:
  assumes runs: "ramp_runs ch" and ne: "operational_target_voltage ch \<noteq> ramp_target ch"
    and s: "ramp_s ch \<noteq> 0" and i: "ramp_i ch \<noteq> 0"
    and loop: "ramp_loop (ramp_s ch) (ucast (ramp_i ch) * 1000) (ramp_target ch)
                 (ramp_accum_ms ch + dt) (operational_target_voltage ch) = (accum, reached)"
  obtains ch' where "vc_channel_tick_ramp ch dt sys = Some ch'"
    and "operational_target_voltage ch' = reached"
    and "reached = ramp_target ch \<Longrightarrow> \<not> ramping ch'"
    and "reached \<noteq> ramp_target ch \<Longrightarrow> ramping ch' \<and> output_enabled ch' \<and> ramp_accum_ms ch' = accum \<and>
           config ch' = config ch \<and> cal_config ch' = cal_config ch \<and>
           active_fault_cause ch' = active_fault_cause ch \<and>
           ramp_to_disable ch' = ramp_to_disable ch \<and> ramp_target ch' = ramp_target ch"
proof -
  have f: "\<not> (active_fault_cause ch \<noteq> 0 \<and> \<not> ramp_to_disable ch)" "output_enabled ch"
    using runs by (auto simp: ramp_runs_def)
  have ok: "cal_ok (cal_config ch)" using runs by (simp add: ramp_runs_def)
  let ?c = "ch\<lparr>ramping := True, ramp_accum_ms := accum, operational_target_voltage := reached\<rparr>"
  let ?d = "if reached = ramp_target ch then finish_ramp ?c else ?c"
  have "vc_channel_tick_ramp ch dt sys = Some (update_status_bits (?d\<lparr>dev := driven_dev ?d\<rparr>))"
    using tick_ramp_paced_eq [OF runs ne s i, of dt sys] loop ok
    by (cases "reached = ramp_target ch") (simp_all add: finish_ramp_def Let_def)
  then have r: "vc_channel_tick_ramp ch dt sys =
      Some (update_status_bits (?d\<lparr>dev := driven_dev ?d\<rparr>))" .
  show thesis
  proof (cases "reached = ramp_target ch")
    case True
    from that [OF r] show thesis using True by simp
  next
    case False
    from that [OF r] show thesis using False f by (simp add: ramp_target_def)
  qed
qed

text \<open>One paced tick: it ends the ramp, or the ramp runs on with \<open>dt\<close> less to pay.\<close>

lemma tick_progress:
  assumes runs: "ramp_runs ch" and ne: "operational_target_voltage ch \<noteq> ramp_target ch"
    and s: "ramp_s ch \<noteq> 0" and i: "ramp_i ch \<noteq> 0"
    and acc: "unat (ramp_accum_ms ch) + unat dt < 2 ^ 32"
  obtains ch' where "vc_channel_tick_ramp ch dt sys = Some ch'"
    and "operational_target_voltage ch' = ramp_target ch" and "\<not> ramping ch'"
  | ch' where "vc_channel_tick_ramp ch dt sys = Some ch'"
    and "ramp_runs ch'" and "ramp_target ch' = ramp_target ch"
    and "operational_target_voltage ch' \<noteq> ramp_target ch'" and "ramp_s ch' \<noteq> 0" and "ramp_i ch' \<noteq> 0"
    and "unat (ramp_accum_ms ch') < 65535 * 1000"
    and "time_left ch' = time_left ch - int (unat dt)" and "0 < time_left ch'"
proof -
  let ?s = "ramp_s ch" let ?I = "ucast (ramp_i ch) * 1000 :: u32"
  let ?t = "ramp_target ch" let ?c = "operational_target_voltage ch"
  let ?a = "ramp_accum_ms ch + dt"
  define n where "n = loop_steps ?s ?I ?t ?a ?c"
  obtain accum reached where loop: "ramp_loop ?s ?I ?t ?a ?c = (accum, reached)" by fastforce
  have fits: "ramp_fits (sint ?t) (uint ?s) (sint ?c)"
    using tick_fits_step [OF _ ne s] runs by (simp add: ramp_runs_def)
  have s0: "0 < uint ?s" using fits by (simp add: ramp_fits_def)
  have I: "unat ?I = unat (ramp_i ch) * 1000" by (rule unat_interval_ms)
  have I0: "?I \<noteq> 0" using interval_ms_nonzero i by blast
  have a: "unat ?a = unat (ramp_accum_ms ch) + unat dt"
    using acc by (simp add: unat_word_ariths)
  have r: "sint reached = (toward (sint ?t) (uint ?s) ^^ n) (sint ?c)"
    using ramp_loop_sint [OF I0 fits, of ?a] loop by (simp add: n_def)
  have accum: "accum = ?a - of_nat n * ?I"
    using ramp_loop_reference [OF I0, of ?c ?t ?s ?a] fits s0 loop by (simp add: n_def)
  obtain ch' where
    t: "vc_channel_tick_ramp ch dt sys = Some ch'" "operational_target_voltage ch' = reached"
    and fin: "reached = ?t \<Longrightarrow> \<not> ramping ch'"
    and cont: "reached \<noteq> ?t \<Longrightarrow> ramping ch' \<and> output_enabled ch' \<and> ramp_accum_ms ch' = accum \<and>
           config ch' = config ch \<and> cal_config ch' = cal_config ch \<and>
           active_fault_cause ch' = active_fault_cause ch \<and>
           ramp_to_disable ch' = ramp_to_disable ch \<and> ramp_target ch' = ramp_target ch"
    by (rule tick_paced [OF runs ne s i loop, of sys], rule that)
  show thesis
  proof (cases "reached = ?t")
    case True
    then show thesis using that(1) t fin by simp
  next
    case False
    note n' = cont [OF False]
    have lt: "n < steps_needed (sint ?t) (uint ?s) (sint ?c)"
    proof (rule ccontr)
      assume "\<not> ?thesis"
      then have "n = steps_needed (sint ?t) (uint ?s) (sint ?c)" by (simp add: n_def loop_steps_def)
      then show False using r toward_pow_needed [OF s0] False by (metis signed_word_eqI)
    qed
    then have nd: "n = unat ?a div unat ?I" by (simp add: n_def loop_steps_def)
    let ?m = "unat ?a mod unat ?I"
    have Ipos: "0 < unat ?I" using I0 by (simp add: unat_gt_0)
    have sp: "unat ?a = n * unat ?I + ?m" by (simp add: nd div_mult_mod_eq)
    have m: "unat accum = ?m" using accum nd by (simp only: unat_minus_div)
    have ne': "sint reached \<noteq> sint ?t" and ne2: "sint ?c \<noteq> sint ?t"
      using False ne by (auto dest: signed_word_eqI)
    have side: "(sint reached < sint ?t) = (sint ?c < sint ?t)"
      using r ne' ne2 toward_between [OF s0, of "sint ?c" "sint ?t" n]
      by (auto simp: min_def max_def split: if_splits)
    have eqs: "ramp_s ch' = ?s" "ramp_i ch' = ramp_i ch"
      using n' t side by (simp_all add: ramp_s_def ramp_i_def)
    have "ramp_needed ch' = ramp_needed ch - n"
      using eqs n' t r steps_needed_pow [OF s0, of n "sint ?t" "sint ?c"] lt
      by (simp add: ramp_needed_def)
    moreover have "n < ramp_needed ch" using lt by (simp add: ramp_needed_def)
    ultimately obtain k where k: "ramp_needed ch = n + k" "ramp_needed ch' = k" "0 < k"
      by (intro that [of "ramp_needed ch - n"]) simp_all
    have left: "time_left ch' = int k * int (unat ?I) - int ?m"
      using n' eqs k m by (simp add: time_left_def I)
    have "int (unat ?a) = int n * int (unat ?I) + int ?m" 
      using arg_cong [OF sp, of int] by (simp only: of_nat_add of_nat_mult)
    moreover have "time_left ch = int (ramp_needed ch) * int (unat ?I) - int (unat (ramp_accum_ms ch))"
      by (simp add: time_left_def I)
    moreover have "int (unat ?a) = int (unat (ramp_accum_ms ch)) + int (unat dt)"
      by (simp only: a of_nat_add)
    ultimately have "time_left ch' = time_left ch - int (unat dt)"
      unfolding left k of_nat_add distrib_right by linarith
    moreover have "0 < time_left ch'"
    proof -
      have "int ?m < int (unat ?I)" using Ipos by (simp only: of_nat_less_iff mod_less_divisor)
      also have "\<dots> \<le> int k * int (unat ?I)"
        using k mult_right_mono [of 1 "int k" "int (unat ?I)"] by simp
      finally show ?thesis using left by simp
    qed
    moreover have "tick_fits ch'"
    proof -
      have "tick_fits ch" using runs by (simp add: ramp_runs_def)
      then show ?thesis
        unfolding tick_fits_def Let_def
        using n' t side ne' ne2 by (simp add: ramp_fits_def) linarith
    qed
    moreover have "unat (ramp_accum_ms ch') < 65535 * 1000"
    proof -
      have "?m < unat ?I" using Ipos by simp
      also have "\<dots> \<le> 65535 * 1000" using unsigned_less [where 'a = nat, of "ramp_i ch"] by (simp add: I)
      finally show ?thesis using n' m by simp
    qed
    ultimately show thesis
      using that(2) [OF t(1)] n' t eqs s i False runs by (simp add: ramp_runs_def)
  qed
qed

fun tick_ramps ::
    "nat \<Rightarrow> u32 \<Rightarrow> vc_system_config \<Rightarrow> 'd vc_channel \<Rightarrow> 'd vc_channel option" where
  "tick_ramps 0 dt sys ch = Some ch"
| "tick_ramps (Suc n) dt sys ch = vc_channel_tick_ramp ch dt sys \<bind> tick_ramps n dt sys"

lemma paced_ramp_ends:
  assumes "0 < unat dt" and "unat dt \<le> 2 ^ 31"
  shows "ramp_runs ch \<Longrightarrow> operational_target_voltage ch \<noteq> ramp_target ch \<Longrightarrow> ramp_s ch \<noteq> 0 \<Longrightarrow>
    ramp_i ch \<noteq> 0 \<Longrightarrow> unat (ramp_accum_ms ch) + unat dt < 2 ^ 32 \<Longrightarrow>
    time_left ch \<le> int n * int (unat dt) \<Longrightarrow>
    \<exists>k ch'. k \<le> Suc n \<and> tick_ramps k dt sys ch = Some ch' \<and>
      operational_target_voltage ch' = ramp_target ch \<and> \<not> ramping ch'"
proof (induction n arbitrary: ch)
  case 0
  from tick_progress [OF 0(1-5), of sys] show ?case
  proof cases
    case (1 ch')
    then show ?thesis by (intro exI [of _ 1] exI [of _ ch']) simp
  next
    case (2 ch')
    then show ?thesis using 0(6) of_nat_0_le_iff [of "unat dt"] by linarith
  qed
next
  case (Suc n)
  from tick_progress [OF Suc.prems(1-5), of sys] show ?case
  proof cases
    case (1 ch')
    then show ?thesis by (intro exI [of _ 1] exI [of _ ch']) simp
  next
    case (2 ch')
    then have "time_left ch' \<le> int n * int (unat dt)"
      using Suc.prems(6) by (simp add: algebra_simps)
    moreover have "unat (ramp_accum_ms ch') + unat dt < 2 ^ 32" using 2(7) assms(2) by simp
    ultimately obtain k c where "k \<le> Suc n" "tick_ramps k dt sys ch' = Some c"
      "operational_target_voltage c = ramp_target ch'" "\<not> ramping c"
      using Suc.IH 2(2,4-6) by blast
    then show ?thesis using 2(1,3) by (intro exI [of _ "Suc k"] exI [of _ c]) simp
  qed
qed

end
