(* ===== verification/Vc_Channel_Props.thy ===== *)
theory Vc_Channel_Props
  imports Vc_Channel_Live
begin

text \<open>
  What one channel guarantees: definedness and the invariant over every history, the range of the
  commanded voltage, the exact drive and ramp, the end of a ramp, protection, fault latching, the
  retry budget and the refusal of host operations. Each property that has hypotheses is applied
  to the bench channel below.
\<close>

text \<open>A fully capable channel with no device attached, as the witnesses use it.\<close>

definition bench_channel :: "unit vc_channel" where
  "bench_channel =
     (blank_channel kconfig_defaults)
       \<lparr>capabilities := 0x1F,
        config := (vc_channel_default_config kconfig_defaults)
          \<lparr>configured_target_voltage := 1000, current_limit_threshold := 1000,
           current_protection_mode := VC_PROTECTION_MODE_APPLY_OUTPUT_ACTION\<rparr>\<rparr>"

lemmas bench_defs = bench_channel_def blank_channel_def vc_channel_default_config_def
  default_cal_config_def kconfig_defaults_def

lemma bench_cal_config [simp]: "cal_config bench_channel = default_cal_config kconfig_defaults"
  by (simp add: bench_channel_def blank_channel_def)

lemma bench_ok [simp]: "channel_ok kconfig_defaults bench_channel"
  using channel_ok_blank [OF kconfig_defaults_in_range] by (simp add: bench_channel_def channel_ok_def)

lemma bench_voltage_ok [simp]: "voltage_ok kconfig_defaults bench_channel"
  by (simp add: voltage_ok_def target_in_def steps_ok_def bench_defs)

lemma bench_reachable [simp]:
  "channel_reachable kconfig_defaults
     (vc_channel_init kconfig_defaults (None :: unit device option) 0 0x1F None False)"
  by (rule channel_reachable.init) (simp add: driver_defaults_ok_def)

subsection \<open>Every history is defined\<close>



text \<open>
  C2. While the host keeps the ramp steps small enough for \<open>int16_t\<close> (the up step at most 32767
  minus the largest target, the down step at most 32767), the operational target never leaves
  the interval from 0 to \<open>CONFIG_VC_MAX_TARGET_VOLTAGE\<close>, over any history of the channel.
\<close>

theorem target_stays_in_range:
  assumes "kconfig_in_range K" and "channel_ok K ch" and "voltage_ok K ch"
    and "list_all (\<lambda>e. event_ok e \<and> event_steps_ok K e) es"
    and "channel_execs K es ch = Some ch'"
  shows "0 \<le> sint (operational_target_voltage ch') \<and>
         sint (operational_target_voltage ch') \<le> CONFIG_VC_MAX_TARGET_VOLTAGE K"
  using voltage_ok_execs [OF assms] by (simp add: voltage_ok_def target_in_def)

lemma target_stays_in_range_witness:
  "\<exists>ch'. channel_execs kconfig_defaults
      [Ev_Set_Field VC_FIELD_RAMP_UP_STEP 500, Ev_Output_Action VC_OUTPUT_ACTION_ENABLE] bench_channel
      = Some ch' \<and>
    0 \<le> sint (operational_target_voltage ch') \<and> sint (operational_target_voltage ch') \<le> 20000"
proof -
  let ?es = "[Ev_Set_Field VC_FIELD_RAMP_UP_STEP 500, Ev_Output_Action VC_OUTPUT_ACTION_ENABLE]
    :: unit channel_event list"
  have es: "list_all (\<lambda>e. event_ok e \<and> event_steps_ok kconfig_defaults e) ?es"
    by (simp add: kconfig_defaults_def)
  obtain ch' where c: "channel_execs kconfig_defaults ?es bench_channel = Some ch'"
    using good_channel_execs [OF kconfig_defaults_in_range bench_ok, of ?es] by (auto elim: goodE)
  from target_stays_in_range [OF kconfig_defaults_in_range bench_ok bench_voltage_ok es c] c
  show ?thesis by (auto simp: kconfig_defaults_def)
qed

subsection \<open>The drive\<close>

text \<open>
  On a channel whose calibration exponents are in range the DAC code of a target is defined,
  equals the exact calibrated value saturated to 16 bits, and never falls when the target rises:
  saturation clips, it does not wrap.
\<close>

lemma raw_drive_saturates_monotone:
  assumes "cal_ok (cal_config ch)" and "- 32768 \<le> a" and "a \<le> b" and "b \<le> 32767"
  shows "\<exists>ca cb. raw_drive_from_target ch a = Some ca \<and> raw_drive_from_target ch b = Some cb \<and>
           ca \<le> cb \<and> uint ca = exact_drive (cal_config ch) a \<and> uint cb = exact_drive (cal_config ch) b"
proof -
  have e: "uint (word_of_int (exact_drive (cal_config ch) t) :: u16) = exact_drive (cal_config ch) t"
    for t by (simp add: exact_drive_def unsigned_of_int take_bit_int_eq_self)
  have "exact_drive (cal_config ch) a \<le> exact_drive (cal_config ch) b"
    using exact_gain_mono [OF assms(3), of "uint (output_calib_k (cal_config ch))"
        "sint (output_calib_k_exp (cal_config ch))"]
    by (simp add: exact_drive_def)
  moreover have "raw_drive_from_target ch t = Some (word_of_int (exact_drive (cal_config ch) t))"
    if "t \<in> {a, b}" for t
    using that assms by (intro raw_drive_exact) auto
  ultimately show ?thesis by (auto simp: e word_le_def)
qed

lemma raw_drive_saturates_monotone_witness:
  "\<exists>ca cb. raw_drive_from_target bench_channel 100 = Some ca \<and>
     raw_drive_from_target bench_channel 20000 = Some cb \<and> ca \<le> cb \<and>
     uint ca = exact_drive (cal_config bench_channel) 100 \<and>
     uint cb = exact_drive (cal_config bench_channel) 20000"
  by (rule raw_drive_saturates_monotone)
     (simp_all add: cal_ok_default kconfig_defaults_in_range)

subsection \<open>The ramp\<close>

text \<open>
  The ramp loop has a closed form: with steps that do not wrap it consumes whole intervals of
  the accumulated time, moves one step per interval towards the target, stops exactly on it, and
  keeps the time it did not use.
\<close>

lemma ramp_loop_closed_form:
  assumes "interval \<noteq> 0" and "current \<noteq> target"
    and "ramp_fits (sint target) (uint step) (sint current)"
    and "n = min (unat accum div unat interval)
                 (nat ((\<bar>sint target - sint current\<bar> + uint step - 1) div uint step))"
  shows "ramp_loop step interval target accum current =
    (accum - of_nat n * interval,
     word_of_int (if sint current < sint target
                  then min (sint target) (sint current + int n * uint step)
                  else max (sint target) (sint current - int n * uint step)))"
proof -
  have s: "0 < uint step" using assms(3) by (simp add: ramp_fits_def)
  have "n = loop_steps step interval target accum current"
    using assms(4) by (simp add: loop_steps_def steps_needed_def)
  then show ?thesis
    using assms(2,3) s by (simp add: ramp_loop_reference [OF assms(1)] toward_pow_up toward_pow_down)
qed

lemma ramp_loop_closed_form_witness: "ramp_loop 150 1000 1000 2500 0 = (500, 300)"
  by (subst ramp_loop_closed_form [where n = 2]) (simp_all add: ramp_fits_def)



subsection \<open>Protection\<close>

text \<open>What a measured current means to the protection: strictly above the threshold trips it.\<close>

definition over_current :: "'d vc_channel \<Rightarrow> s32 \<Rightarrow> bool" where
  "over_current ch raw \<longleftrightarrow>
     sint (current_limit_threshold (config ch)) <
     max (- 32768) (min 32767 (exact_current (cal_config ch) raw))"

lemma protection_disables:
  assumes "cal_ok (cal_config ch)"
    and "a \<in> {VC_OUTPUT_ACTION_DISABLE_IMMEDIATE, VC_OUTPUT_ACTION_DISABLE_FORCE} \<or>
         \<not> channel_has_cap ch CH_CAP_RAW_OUTPUT_DRIVE"
  obtains s where "apply_protection_action ch a = Some
    (let c = disable_into s (ch\<lparr>last_protection_output_action := a\<rparr>) in c\<lparr>dev := driven_dev c\<rparr>)"
proof -
  let ?c = "ch\<lparr>last_protection_output_action := a\<rparr>"
  have "cal_ok (cal_config (disable_into s ?c))" for s
    using assms(1) by (simp add: disable_into_def)
  then show thesis
    using assms(2) that
    by (cases "channel_has_cap ch CH_CAP_RAW_OUTPUT_DRIVE")
       (auto simp: apply_protection_action_def Let_def channel_has_cap_def)
qed


lemma bench_over_current: "over_current (bench_channel\<lparr>output_enabled := True\<rparr>) 2000000000"
  by (simp add: over_current_def exact_current_def exact_gain_def c_div_def default_cal_config_def
      kconfig_defaults_def sint_word_of_int16)
     (simp add: bench_defs)


subsection \<open>A faulted channel\<close>

lemma faulted_measurements:
  assumes "channel_ok K ch" and "active_fault_cause ch \<noteq> 0" and "consume_measurements ch = Some ch'"
  shows "same_voltage ch ch' \<and> active_fault_cause ch' = active_fault_cause ch \<and>
         output_enabled ch' = output_enabled ch \<and> ramp_to_disable ch' = ramp_to_disable ch \<and>
         operational_target_voltage ch' = operational_target_voltage ch \<and>
         graceful_ramp_dest ch' = graceful_ramp_dest ch"
  using assms
  by (auto simp: consume_measurements_def vc_channel_buffer_read_def consume_if_new_voltage_def
      consume_if_new_current_def consume_voltage_exact consume_current_exact
      tick_current_protection_def same_voltage_def Let_def split: option.splits if_splits)


abbreviation normal_mode :: vc_system_config where
  "normal_mode \<equiv> \<lparr>sys_operating_mode = VC_OPERATING_MODE_NORMAL, startup_channel_policy = 0\<rparr>"


subsection \<open>Refused operations\<close>

text \<open>Each event with the status it reports; the scheduler's own events report success.\<close>

fun channel_call ::
    "kconfig \<Rightarrow> 'd channel_event \<Rightarrow> 'd vc_channel \<Rightarrow> (vc_status \<times> 'd vc_channel) option" where
  "channel_call K (Ev_Set_Config cfg) ch = vc_channel_set_config K ch cfg"
| "channel_call K (Ev_Set_Field fld v) ch = vc_channel_set_field K ch fld v"
| "channel_call K (Ev_Output_Action a) ch = vc_channel_output_action ch a"
| "channel_call K (Ev_Fault_Command c) ch = Some (vc_channel_fault_command ch c)"
| "channel_call K (Ev_Cal_Output_Enable e) ch = vc_channel_cal_set_output_enable ch e"
| "channel_call K (Ev_Cal_Raw_Dac c) ch = vc_channel_cal_set_raw_dac K ch c"
| "channel_call K Ev_Cal_Sample ch = Some (vc_channel_cal_sample ch)"
| "channel_call K (Ev_Set_Cal_Field fld v) ch = vc_channel_set_cal_field ch fld v"
| "channel_call K e ch = map_option (Pair VC_OK) (channel_exec K e ch)"

lemma channel_exec_call: "channel_exec K e ch = map_option snd (channel_call K e ch)"
  by (cases e) (auto simp: status_channel_def option.map_comp comp_def option.map_ident)

lemma refused_set_field:
  "vc_channel_set_field K ch fld v = Some (st, ch') \<Longrightarrow> st \<noteq> VC_OK \<Longrightarrow> ch' = ch"
  by (cases fld) (auto simp: ramp_field_def commit_channel_def split: if_splits bind_splits)

lemma refused_set_cal_field:
  "vc_channel_set_cal_field ch fld v = Some (st, ch') \<Longrightarrow> st \<noteq> VC_OK \<Longrightarrow> ch' = ch"
  by (cases fld) (auto simp: store_cal_def split: if_splits bind_splits)

lemma refused_output_action:
  "vc_channel_output_action ch a = Some (st, ch') \<Longrightarrow> st \<noteq> VC_OK \<Longrightarrow> ch' = ch"
  by (auto simp: vc_channel_output_action_def commit_channel_def Let_def
      split: if_splits bind_splits vc_output_action.splits)

lemma refused_fault_command:
  "vc_channel_fault_command ch c = (st, ch') \<Longrightarrow> st \<noteq> VC_OK \<Longrightarrow> ch' = ch"
  by (auto simp: vc_channel_fault_command_def split: if_splits vc_channel_fault_command.splits)

lemma refused_set_config:
  "vc_channel_set_config K ch cfg = Some (st, ch') \<Longrightarrow> st \<noteq> VC_OK \<Longrightarrow> ch' = ch"
  by (auto simp: vc_channel_set_config_def commit_channel_def Let_def split: if_splits bind_splits)

lemma refused_cal_set_output_enable:
  "vc_channel_cal_set_output_enable ch e = Some (st, ch') \<Longrightarrow> st \<noteq> VC_OK \<Longrightarrow> ch' = ch"
  by (simp only: vc_channel_cal_set_output_enable_def split: if_splits bind_splits) simp_all

lemma refused_cal_set_raw_dac:
  "vc_channel_cal_set_raw_dac K ch c = Some (st, ch') \<Longrightarrow> st \<noteq> VC_OK \<Longrightarrow> ch' = ch"
  by (simp only: vc_channel_cal_set_raw_dac_def split: if_splits bind_splits) simp_all

lemma refused_cal_sample:
  "vc_channel_cal_sample ch = (st, ch') \<Longrightarrow> st \<noteq> VC_OK \<Longrightarrow> ch' = ch"
  by (simp add: vc_channel_cal_sample_def Let_def split_beta split: if_splits)

lemmas refused_calls = refused_set_config refused_set_field refused_output_action
  refused_fault_command refused_cal_set_output_enable refused_cal_set_raw_dac refused_cal_sample
  refused_set_cal_field

text \<open>
  A refused operation is no operation: whenever a configuration write, an output or fault
  command, or a calibration operation of a channel reports an error, the channel, its device and
  every one of its fields are exactly as before.
\<close>

lemma refused_operation_changes_nothing:
  assumes "channel_call K e ch = Some (st, ch')" and "st \<noteq> VC_OK"
  shows "ch' = ch"
  using assms by (cases e) (auto dest: refused_calls)

lemma refused_operation_changes_nothing_witness:
  "vc_channel_output_action (bench_channel\<lparr>active_fault_cause := VC_FAULT_CURRENT\<rparr>)
     VC_OUTPUT_ACTION_ENABLE =
   Some (VC_ERR_UNSAFE_STATE, bench_channel\<lparr>active_fault_cause := VC_FAULT_CURRENT\<rparr>)"
proof -
  let ?ch = "bench_channel\<lparr>active_fault_cause := VC_FAULT_CURRENT\<rparr>"
  obtain ch' where "channel_call kconfig_defaults (Ev_Output_Action VC_OUTPUT_ACTION_ENABLE) ?ch =
      Some (VC_ERR_UNSAFE_STATE, ch')"
    by (simp add: vc_channel_output_action_def effective_action_def channel_has_cap_def)
  with refused_operation_changes_nothing [OF this] show ?thesis by simp
qed

subsection \<open>The retry budget\<close>

definition retry_log :: "'d vc_channel \<Rightarrow> u32 list" where
  "retry_log ch = take (unat (retry_timestamp_count ch)) (retry_timestamps_ms ch)"

definition last_n :: "nat \<Rightarrow> 'a list \<Rightarrow> 'a list" where
  "last_n n xs = drop (length xs - n) xs"

lemma retry_log_record:
  assumes K: "kconfig_in_range K" and ok: "channel_ok K ch"
  shows "retry_log (record_retry_attempt K ch) =
         last_n (CONFIG_VC_MAX_RETRY_HISTORY K) (retry_log ch @ [uptime_ref ch])"
proof (cases "unat (retry_timestamp_count ch) < CONFIG_VC_MAX_RETRY_HISTORY K")
  case True
  have "CONFIG_VC_MAX_RETRY_HISTORY K \<le> 32" using K by (simp add: kconfig_in_range_def)
  then have "unat (retry_timestamp_count ch + 1) = Suc (unat (retry_timestamp_count ch))"
    using True by (simp add: unat_word_ariths)
  then show ?thesis
    using True ok
    by (simp add: retry_log_def record_retry_attempt_def last_n_def channel_ok_def take_Suc_conv_app_nth)
next
  case False
  then have n: "unat (retry_timestamp_count ch) = length (retry_timestamps_ms ch)"
    "length (retry_timestamps_ms ch) = CONFIG_VC_MAX_RETRY_HISTORY K"
    using ok by (simp_all add: channel_ok_def)
  moreover have "1 \<le> CONFIG_VC_MAX_RETRY_HISTORY K" using K by (simp add: kconfig_in_range_def)
  ultimately show ?thesis
    using False by (simp add: retry_log_def record_retry_attempt_def last_n_def Suc_diff_le)
qed

text \<open>
  The retry log refines a bounded history: recording an attempt appends the current time to
  the list of attempts and keeps the newest \<open>CONFIG_VC_MAX_RETRY_HISTORY\<close> of them, whether the
  array still fills up or is already shifting.
\<close>

lemma record_retry_refines_bounded_log:
  assumes K: "kconfig_in_range K" and ok: "channel_ok K ch"
  shows "retry_log (record_retry_attempt K ch) =
         last_n (CONFIG_VC_MAX_RETRY_HISTORY K) (retry_log ch @ [uptime_ref ch])"
  by (rule retry_log_record [OF assms])

lemma record_retry_refines_bounded_log_witness:
  "retry_log (record_retry_attempt kconfig_defaults (bench_channel\<lparr>uptime_ref := 7\<rparr>)) = [7]"
proof -
  have "channel_ok kconfig_defaults (bench_channel\<lparr>uptime_ref := 7\<rparr>)"
    using bench_ok by (simp add: channel_ok_def)
  from record_retry_refines_bounded_log [OF kconfig_defaults_in_range this] show ?thesis
    by (simp add: retry_log_def last_n_def bench_defs)
qed

lemma filter_last_n: "length (filter P (last_n n (xs @ [x]))) \<le> Suc (length (filter P xs))"
proof -
  have "length (filter P (drop k ys)) \<le> length (filter P ys)" for k :: nat and ys :: "'a list"
    by (metis append_take_drop_id filter_append le_add2 length_append)
  then have "length (filter P (last_n n (xs @ [x]))) \<le> length (filter P (xs @ [x]))"
    by (simp only: last_n_def)
  also have "\<dots> \<le> Suc (length (filter P xs))" by simp
  finally show ?thesis .
qed

lemma unat_count_active:
  assumes "kconfig_in_range K" and "channel_ok K ch"
  shows "unat (count_active_retries ch) =
    length (filter (retry_in_window (uptime_ref ch) (auto_retry_window (config ch))) (retry_log ch))"
proof -
  have "length (filter (retry_in_window (uptime_ref ch) (auto_retry_window (config ch))) (retry_log ch))
      \<le> length (retry_log ch)" by (rule length_filter_le)
  also have "\<dots> \<le> 32" using assms by (simp add: retry_log_def channel_ok_def kconfig_in_range_def)
  finally show ?thesis
    by (simp add: count_active_retries_def retry_log_def unsigned_of_nat take_bit_nat_eq_self)
qed

lemma count_active_record:
  assumes "kconfig_in_range K" and "channel_ok K ch"
  shows "unat (count_active_retries (record_retry_attempt K ch)) \<le> Suc (unat (count_active_retries ch))"
  using assms channel_ok_record_retry [OF assms]
  by (simp add: unat_count_active retry_log_record filter_last_n)

lemma attempt_retry_cases:
  assumes ok: "channel_ok K ch" and r: "attempt_retry K ch = Some ch'"
  obtains "ch' = exhaust_retries ch"
    and "auto_retry_max_count (config ch) \<le> count_active_retries ch \<or>
         recovery_policy_mode (config ch) = VC_RECOVERY_AUTO_DERATE_RETRY"
  | "count_active_retries ch < auto_retry_max_count (config ch)"
    and "config ch' = config ch" and "uptime_ref ch' = uptime_ref ch"
    and "retry_timestamps_ms ch' = retry_timestamps_ms (record_retry_attempt K ch)"
    and "retry_timestamp_count ch' = retry_timestamp_count (record_retry_attempt K ch)"
    and "active_fault_cause ch' = 0" and "output_enabled ch'"
    and "recovery_target ch' = word_of_int (retry_target (config ch) (count_active_retries ch))"
proof (cases "auto_retry_max_count (config ch) \<le> count_active_retries ch \<or>
    recovery_policy_mode (config ch) = VC_RECOVERY_AUTO_DERATE_RETRY \<and>
    retry_target (config ch) (count_active_retries ch) \<le> 0")
  case True
  then show thesis using r by (intro that(1)) (auto simp: attempt_retry_def Let_def split: if_splits)
next
  case False
  then show thesis using r ok by (intro that(2)) (auto simp: attempt_retry_def Let_def)
qed

text \<open>
  The retry budget. One recovery attempt never leaves more attempts inside the window than
  the configured maximum; with the budget used up it does not touch the output but latches
  RETRY_EXHAUST; with budget left, the plain retry policy clears the fault, powers the output
  towards the configured target and logs exactly this attempt.
\<close>

lemma retry_budget_respected:
  assumes K: "kconfig_in_range K" and ok: "channel_ok K ch"
    and le: "count_active_retries ch \<le> auto_retry_max_count (config ch)"
    and policy: "recovery_policy_mode (config ch) = VC_RECOVERY_AUTO_RETRY"
    and r: "attempt_retry K ch = Some ch'"
  shows "count_active_retries ch' \<le> auto_retry_max_count (config ch) \<and>
    (if count_active_retries ch = auto_retry_max_count (config ch)
     then active_fault_cause ch' = active_fault_cause ch OR VC_FAULT_RETRY_EXHAUST \<and>
          smf ch' = VC_CHANNEL_SMF_FAULT_LATCHED \<and> output_enabled ch' = output_enabled ch \<and>
          dev ch' = dev ch \<and> retry_log ch' = retry_log ch
     else active_fault_cause ch' = 0 \<and> output_enabled ch' \<and>
          recovery_target ch' = configured_target_voltage (config ch) \<and>
          retry_log ch' = last_n (CONFIG_VC_MAX_RETRY_HISTORY K) (retry_log ch @ [uptime_ref ch]))"
proof (rule attempt_retry_cases [OF ok r], goal_cases)
  case 1
  then have "count_active_retries ch = auto_retry_max_count (config ch)" using le policy by simp
  moreover have "count_active_retries ch' = count_active_retries ch"
    using 1 by (simp add: exhaust_retries_def count_active_retries_def)
  ultimately show ?thesis using 1 by (simp add: exhaust_retries_def retry_log_def)
next
  case 2
  have log: "retry_log ch' = retry_log (record_retry_attempt K ch)" using 2 by (simp add: retry_log_def)
  have "count_active_retries ch' = count_active_retries (record_retry_attempt K ch)"
    using 2 by (simp add: count_active_retries_def)
  then have "unat (count_active_retries ch') \<le> unat (auto_retry_max_count (config ch))"
    using count_active_record [OF K ok] 2 by (simp add: word_less_nat_alt)
  then show ?thesis
    using 2 policy log retry_log_record [OF K ok]
    by (auto simp: word_le_nat_alt retry_target_def)
qed

text \<open>A bench channel with a latched over-current and one automatic retry allowed.\<close>

definition retry_channel :: "unit vc_channel" where
  "retry_channel =
     bench_channel
       \<lparr>active_fault_cause := VC_FAULT_CURRENT, smf := VC_CHANNEL_SMF_FAULT_LATCHED, uptime_ref := 60000,
        config := (config bench_channel)
          \<lparr>recovery_policy_mode := VC_RECOVERY_AUTO_RETRY, auto_retry_max_count := 1,
           auto_retry_window := 60\<rparr>\<rparr>"

lemma retry_channel_ok [simp]: "channel_ok kconfig_defaults retry_channel"
  using bench_ok by (simp add: retry_channel_def channel_ok_def)

lemma retry_channel_facts:
  "count_active_retries retry_channel = 0" "auto_retry_max_count (config retry_channel) = 1"
  "recovery_policy_mode (config retry_channel) = VC_RECOVERY_AUTO_RETRY"
  "configured_target_voltage (config retry_channel) = 1000"
  by (simp_all add: retry_channel_def count_active_retries_def bench_defs)

lemma retry_budget_respected_witness:
  "\<exists>ch'. attempt_retry kconfig_defaults retry_channel = Some ch' \<and> count_active_retries ch' \<le> 1 \<and>
     active_fault_cause ch' = 0 \<and> output_enabled ch' \<and> recovery_target ch' = 1000"
proof -
  obtain ch' where r: "attempt_retry kconfig_defaults retry_channel = Some ch'"
    using good_attempt_retry [OF kconfig_defaults_in_range retry_channel_ok] by (auto elim: goodE)
  show ?thesis
    using retry_budget_respected [OF kconfig_defaults_in_range retry_channel_ok _ _ r] r
    by (simp add: retry_channel_facts)
qed

subsection \<open>When an output comes on by itself\<close>

lemma output_on_measurements:
  assumes ok: "channel_ok K ch" and off: "\<not> output_enabled ch" and r: "consume_measurements ch = Some ch'"
    and on: "output_enabled ch'"
  shows "current_protection_mode (config ch) = VC_PROTECTION_MODE_APPLY_OUTPUT_ACTION \<and>
         current_protection_output_action (config ch) = VC_OUTPUT_ACTION_DISABLE_GRACEFUL"
proof -
  have t: "output_enabled c' \<Longrightarrow> current_protection_mode (config c) = VC_PROTECTION_MODE_APPLY_OUTPUT_ACTION \<and>
      current_protection_output_action (config c) = VC_OUTPUT_ACTION_DISABLE_GRACEFUL"
    if "tick_current_protection c = Some c'" "cal_ok (cal_config c)" "\<not> output_enabled c"
    for c c' :: "'a vc_channel"
    using that
    by (auto simp: tick_current_protection_def apply_protection_action_def Let_def disable_into_def
        split: if_splits vc_output_action.splits)
  have c: "output_enabled c' \<Longrightarrow> current_protection_mode (config c) = VC_PROTECTION_MODE_APPLY_OUTPUT_ACTION \<and>
      current_protection_output_action (config c) = VC_OUTPUT_ACTION_DISABLE_GRACEFUL"
    if "consume_if_new_current c raw ts = Some c'" "cal_ok (cal_config c)" "\<not> output_enabled c"
    for c c' :: "'a vc_channel" and raw ts
    using that t
    by (fastforce simp: consume_if_new_current_def consume_current_exact Let_def
        split: if_splits bind_splits)
  show ?thesis
    using ok off r on c
    by (fastforce simp: consume_measurements_def vc_channel_buffer_read_def consume_if_new_voltage_def
        consume_voltage_exact split: option.splits if_splits)
qed

text \<open>
  C6. No unattended start. If an output is off before a scheduler run and on after it, then
  either the system is in AUTOMATIC mode and the channel's policy is one of the two retry
  policies, or the current protection was configured to take the output down gracefully, which
  ramps a powered output. Nothing else in a run powers an output.
\<close>

theorem no_unattended_start:
  assumes K: "kconfig_in_range K" and ok: "channel_ok K ch"
    and off: "\<not> output_enabled ch" and r: "vc_channel_run K ch dt sys = Some ch'"
    and on: "output_enabled ch'"
  shows "sys_operating_mode sys = VC_OPERATING_MODE_AUTOMATIC \<and>
         recovery_policy_mode (config ch) \<in> {VC_RECOVERY_AUTO_RETRY, VC_RECOVERY_AUTO_DERATE_RETRY} \<or>
         current_protection_mode (config ch) = VC_PROTECTION_MODE_APPLY_OUTPUT_ACTION \<and>
         current_protection_output_action (config ch) = VC_OUTPUT_ACTION_DISABLE_GRACEFUL"
proof -
  let ?c = "ch\<lparr>uptime_ref := uptime_ref ch + dt\<rparr>"
  have c: "channel_ok K ?c" using ok by (simp add: channel_ok_def)
  obtain c1 c2 where 1: "consume_measurements ?c = Some c1"
    and 2: "vc_channel_tick_ramp c1 dt sys = Some c2" and 3: "tick_recovery K c2 sys dt = Some ch'"
    using r by (auto simp: vc_channel_run_def split: bind_splits)
  have ok1: "channel_ok K c1" using good_consume_measurements [OF c] 1 by simp
  have cfg: "config c1 = config ch" "config c2 = config c1"
    using same_consume_measurements [OF c 1] tick_ramp_frame [OF _ 2] ok1
    by (simp_all add: same_voltage_def)
  show ?thesis
  proof (cases "output_enabled c1")
    case True
    then show ?thesis using output_on_measurements [OF c _ 1] off by simp
  next
    case False
    then have "\<not> output_enabled c2" using 2 by (simp add: vc_channel_tick_ramp_def Let_def)
    then show ?thesis
      using 3 on cfg by (auto simp: tick_recovery_def Let_def split: if_splits)
  qed
qed

abbreviation automatic_mode :: vc_system_config where
  "automatic_mode \<equiv> \<lparr>sys_operating_mode = VC_OPERATING_MODE_AUTOMATIC, startup_channel_policy = 0\<rparr>"

lemma retry_channel_starts:
  "\<exists>ch'. vc_channel_run kconfig_defaults retry_channel 10 automatic_mode = Some ch' \<and> output_enabled ch'"
  by (simp add: vc_channel_run_def consume_measurements_def vc_channel_tick_ramp_def tick_recovery_def
      attempt_retry_def enter_cooldown_def count_active_retries_def is_safe_to_clear_active_def
      safe_limit_def current_fault_only_def apply_hw_def retry_channel_def bench_defs c_div_def Let_def)

lemma no_unattended_start_witness:
  "\<exists>ch'. vc_channel_run kconfig_defaults retry_channel 10 automatic_mode = Some ch' \<and>
    output_enabled ch' \<and> \<not> output_enabled retry_channel \<and>
    (sys_operating_mode automatic_mode = VC_OPERATING_MODE_AUTOMATIC \<and>
     recovery_policy_mode (config retry_channel)
       \<in> {VC_RECOVERY_AUTO_RETRY, VC_RECOVERY_AUTO_DERATE_RETRY} \<or>
     current_protection_mode (config retry_channel) = VC_PROTECTION_MODE_APPLY_OUTPUT_ACTION \<and>
     current_protection_output_action (config retry_channel) = VC_OUTPUT_ACTION_DISABLE_GRACEFUL)"
proof -
  have off: "\<not> output_enabled retry_channel" by (simp add: retry_channel_def bench_defs)
  obtain ch' where r: "vc_channel_run kconfig_defaults retry_channel 10 automatic_mode = Some ch'"
    and on: "output_enabled ch'" using retry_channel_starts by blast
  show ?thesis
    using no_unattended_start [OF kconfig_defaults_in_range retry_channel_ok off r on] off r on by blast
qed

end
