(* ===== verification/Vc_Storage.thy ===== *)
theory Vc_Storage
  imports Vc_Channel_Inv
begin

text \<open>
  Persistence: the backend interface of \<open>include/voltage_control/vc_storage.h\<close> and its
  implementation on the Zephyr settings subsystem, \<open>lib/voltage_control/vc_storage_settings.c\<close>.

  The settings subsystem is not part of the repository, so its three functions are the fields of
  \<open>settings_api\<close>, a parameter; \<open>zephyr_settings\<close> states the documented behaviour the backend
  relies on. The contract of a backend is the locale \<open>vc_storage\<close>: what was saved is what is
  loaded. The settings backend satisfies it over every settings implementation that behaves as
  documented.

  A value is stored as the bytes of the C struct; the datatype \<open>stored\<close> keeps the struct and its
  size. A load that finds no value does not write the buffer: its result carries \<open>None\<close>.
\<close>

record 's vc_storage_backend =
  save_system_config :: "(vc_system_config \<Rightarrow> 's \<Rightarrow> int \<times> 's) option"
  load_system_config :: "('s \<Rightarrow> int \<times> vc_system_config option) option"
  save_channel_config :: "(u8 \<Rightarrow> vc_channel_config \<Rightarrow> 's \<Rightarrow> int \<times> 's) option"
  load_channel_config :: "(u8 \<Rightarrow> 's \<Rightarrow> int \<times> vc_channel_config option) option"
  save_channel_cal :: "(u8 \<Rightarrow> vc_channel_cal_config \<Rightarrow> 's \<Rightarrow> int \<times> 's) option"
  load_channel_cal :: "(u8 \<Rightarrow> 's \<Rightarrow> int \<times> vc_channel_cal_config option) option"
  erase_all :: "('s \<Rightarrow> int \<times> 's) option"

subsection \<open>The settings backend\<close>

datatype stored =
  Stored_Sys vc_system_config
| Stored_Cfg vc_channel_config
| Stored_Cal vc_channel_cal_config
| Stored_Mb u16 u16

text \<open>
  \<open>sizeof\<close> of the structs, with 4-byte enums. The last one is the record of the Modbus adapter, which
  shares the settings subsystem: its slave address and its baud rate code.
\<close>

fun sizeof_stored :: "stored \<Rightarrow> nat" where
  "sizeof_stored (Stored_Sys _) = 8"
| "sizeof_stored (Stored_Cfg _) = 36"
| "sizeof_stored (Stored_Cal _) = 18"
| "sizeof_stored (Stored_Mb _ _) = 4"

record settings_read_ctx =
  dst :: "stored option"
  ctx_len :: nat
  found :: bool

text \<open>
  \<open>read_cb\<close> is the reader a settings entry hands to the callback: its return code and the bytes
  it wrote to the destination.
\<close>

definition settings_direct_loader ::
    "nat \<Rightarrow> int \<times> stored \<Rightarrow> settings_read_ctx \<Rightarrow> int \<times> settings_read_ctx" where
  "settings_direct_loader len read_cb ctx =
     (if len \<noteq> ctx_len ctx then (- EINVAL, ctx)
      else if fst read_cb < 0 then (- EIO, ctx\<lparr>dst := Some (snd read_cb)\<rparr>)
      else (0, ctx\<lparr>dst := Some (snd read_cb), found := True\<rparr>))"

record 's settings_api =
  settings_save_one :: "string \<Rightarrow> stored \<Rightarrow> 's \<Rightarrow> int \<times> 's"
  settings_delete :: "string \<Rightarrow> 's \<Rightarrow> int \<times> 's"
  settings_load_subtree_direct ::
    "string \<Rightarrow> (nat \<Rightarrow> int \<times> stored \<Rightarrow> settings_read_ctx \<Rightarrow> int \<times> settings_read_ctx) \<Rightarrow>
     settings_read_ctx \<Rightarrow> 's \<Rightarrow> int \<times> settings_read_ctx"

definition settings_load_key :: "'s settings_api \<Rightarrow> string \<Rightarrow> nat \<Rightarrow> 's \<Rightarrow> int \<times> stored option" where
  "settings_load_key z key len s =
     (case settings_load_subtree_direct z key settings_direct_loader
             \<lparr>dst = None, ctx_len = len, found = False\<rparr> s of
        (rc, ctx) \<Rightarrow> (if rc < 0 then (rc, dst ctx)
                      else (if found ctx then 0 else - ENOENT, dst ctx)))"

text \<open>\<open>snprintk\<close> into a 16-byte key; a channel number has at most three digits, so it fits.\<close>

definition digit :: "nat \<Rightarrow> char" where
  "digit n = char_of (48 + n mod 10)"

definition decimal_u8 :: "u8 \<Rightarrow> string" where
  "decimal_u8 c =
     (let n = unat c in
      if n < 10 then [digit n]
      else if n < 100 then [digit (n div 10), digit n]
      else [digit (n div 100), digit (n div 10), digit n])"

definition cfg_key :: "u8 \<Rightarrow> string" where
  "cfg_key ch = ''vc/ch'' @ decimal_u8 ch @ ''/cfg''"

definition cal_key :: "u8 \<Rightarrow> string" where
  "cal_key ch = ''vc/ch'' @ decimal_u8 ch @ ''/cal''"

definition settings_save_sys :: "'s settings_api \<Rightarrow> vc_system_config \<Rightarrow> 's \<Rightarrow> int \<times> 's" where
  "settings_save_sys z cfg s = settings_save_one z ''vc/sys'' (Stored_Sys cfg) s"

definition settings_load_sys :: "'s settings_api \<Rightarrow> 's \<Rightarrow> int \<times> vc_system_config option" where
  "settings_load_sys z s =
     (case settings_load_key z ''vc/sys'' 8 s of
        (rc, v) \<Rightarrow> (rc, case v of Some (Stored_Sys cfg) \<Rightarrow> Some cfg | _ \<Rightarrow> None))"

definition settings_save_ch_cfg ::
    "'s settings_api \<Rightarrow> u8 \<Rightarrow> vc_channel_config \<Rightarrow> 's \<Rightarrow> int \<times> 's" where
  "settings_save_ch_cfg z ch cfg s = settings_save_one z (cfg_key ch) (Stored_Cfg cfg) s"

definition settings_load_ch_cfg ::
    "'s settings_api \<Rightarrow> u8 \<Rightarrow> 's \<Rightarrow> int \<times> vc_channel_config option" where
  "settings_load_ch_cfg z ch s =
     (case settings_load_key z (cfg_key ch) 36 s of
        (rc, v) \<Rightarrow> (rc, case v of Some (Stored_Cfg cfg) \<Rightarrow> Some cfg | _ \<Rightarrow> None))"

definition settings_save_ch_cal ::
    "'s settings_api \<Rightarrow> u8 \<Rightarrow> vc_channel_cal_config \<Rightarrow> 's \<Rightarrow> int \<times> 's" where
  "settings_save_ch_cal z ch cal s = settings_save_one z (cal_key ch) (Stored_Cal cal) s"

definition settings_load_ch_cal ::
    "'s settings_api \<Rightarrow> u8 \<Rightarrow> 's \<Rightarrow> int \<times> vc_channel_cal_config option" where
  "settings_load_ch_cal z ch s =
     (case settings_load_key z (cal_key ch) 18 s of
        (rc, v) \<Rightarrow> (rc, case v of Some (Stored_Cal cal) \<Rightarrow> Some cal | _ \<Rightarrow> None))"

text \<open>The erase loop over the \<open>uint8_t\<close> channel numbers below \<open>max_channels\<close>.\<close>

fun erase_channels :: "'s settings_api \<Rightarrow> nat \<Rightarrow> nat \<Rightarrow> 's \<Rightarrow> 's" where
  "erase_channels z ch 0 s = s"
| "erase_channels z ch (Suc n) s =
     (let s1 = snd (settings_delete z (cfg_key (word_of_nat ch)) s);
          s2 = snd (settings_delete z (cal_key (word_of_nat ch)) s1)
      in erase_channels z (Suc ch) n s2)"

definition settings_erase :: "'s settings_api \<Rightarrow> nat \<Rightarrow> 's \<Rightarrow> int \<times> 's" where
  "settings_erase z max_channels s =
     (0, erase_channels z 0 max_channels (snd (settings_delete z ''vc/sys'' s)))"

definition vc_settings_storage :: "'s settings_api \<Rightarrow> nat \<Rightarrow> 's vc_storage_backend" where
  "vc_settings_storage z max_channels =
    \<lparr> save_system_config = Some (settings_save_sys z),
      load_system_config = Some (settings_load_sys z),
      save_channel_config = Some (settings_save_ch_cfg z),
      load_channel_config = Some (settings_load_ch_cfg z),
      save_channel_cal = Some (settings_save_ch_cal z),
      load_channel_cal = Some (settings_load_ch_cal z),
      erase_all = Some (settings_erase z max_channels) \<rparr>"

subsection \<open>Keys\<close>

definition undecimal :: "string \<Rightarrow> nat" where
  "undecimal xs = foldl (\<lambda>n c. 10 * n + (of_char c - 48)) 0 xs"

lemma of_char_digit [simp]: "(of_char (digit n) :: nat) = 48 + n mod 10"
proof -
  have "n mod 10 < 10" by (rule mod_less_divisor) simp
  then have "48 + n mod 10 < 256" by (rule less_trans [OF add_strict_left_mono]) simp
  then show ?thesis by (simp only: digit_def of_char_of mod_less)
qed

lemma undecimal_decimal: "undecimal (decimal_u8 c) = unat c"
proof -
  have top: "unat c div 100 < 10" using unsigned_less [where 'a = nat, of c] by simp
  have three: "10 * (10 * (unat c div 100) + unat c div 10 mod 10) + unat c mod 10 = unat c"
    by (simp only: div_mult2_eq [of "unat c" 10 10, simplified] mult_div_mod_eq)
  have two: "10 * (unat c div 10) + unat c mod 10 = unat c" by (rule mult_div_mod_eq)
  show ?thesis
    using top three two by (auto simp: decimal_u8_def undecimal_def Let_def)
qed

lemma decimal_u8_inj: "decimal_u8 a = decimal_u8 b \<Longrightarrow> a = b"
  by (metis undecimal_decimal word_unat_eq_iff)

lemma cfg_key_inj [simp]: "cfg_key a = cfg_key b \<longleftrightarrow> a = b"
  using decimal_u8_inj by (auto simp: cfg_key_def)

lemma cal_key_inj [simp]: "cal_key a = cal_key b \<longleftrightarrow> a = b"
  using decimal_u8_inj by (auto simp: cal_key_def)

lemma cfg_cal_keys [simp]: "cfg_key a \<noteq> cal_key b" "cal_key b \<noteq> cfg_key a"
proof -
  have "last (cfg_key a) \<noteq> last (cal_key b)" by (simp add: cfg_key_def cal_key_def)
  then show "cfg_key a \<noteq> cal_key b" "cal_key b \<noteq> cfg_key a" by auto
qed

lemma sys_keys [simp]:
  "cfg_key a \<noteq> ''vc/sys''" "''vc/sys'' \<noteq> cfg_key a"
  "cal_key a \<noteq> ''vc/sys''" "''vc/sys'' \<noteq> cal_key a"
  by (auto simp: cfg_key_def cal_key_def)

subsection \<open>The contract of a storage backend\<close>

text \<open>
  A store is seen through three lookups. A save that reports success makes exactly its own entry
  what was saved; a load of a present entry returns it and of an absent one fails; erasing brings no entry
  into being. (It does not promise to remove them all: a delete that fails is not reported.)
\<close>

locale vc_storage =
  fixes save_sys :: "vc_system_config \<Rightarrow> 's \<Rightarrow> int \<times> 's"
    and load_sys :: "'s \<Rightarrow> int \<times> vc_system_config option"
    and save_cfg :: "u8 \<Rightarrow> vc_channel_config \<Rightarrow> 's \<Rightarrow> int \<times> 's"
    and load_cfg :: "u8 \<Rightarrow> 's \<Rightarrow> int \<times> vc_channel_config option"
    and save_cal :: "u8 \<Rightarrow> vc_channel_cal_config \<Rightarrow> 's \<Rightarrow> int \<times> 's"
    and load_cal :: "u8 \<Rightarrow> 's \<Rightarrow> int \<times> vc_channel_cal_config option"
    and sys_at :: "'s \<Rightarrow> vc_system_config option"
    and cfg_at :: "u8 \<Rightarrow> 's \<Rightarrow> vc_channel_config option"
    and cal_at :: "u8 \<Rightarrow> 's \<Rightarrow> vc_channel_cal_config option"
    and erase :: "'s \<Rightarrow> int \<times> 's"
  assumes load_sys_some: "sys_at s = Some c \<Longrightarrow> load_sys s = (0, Some c)"
    and load_cfg_some: "cfg_at ch s = Some v \<Longrightarrow> load_cfg ch s = (0, Some v)"
    and load_cal_some: "cal_at ch s = Some w \<Longrightarrow> load_cal ch s = (0, Some w)"
    and load_sys_none: "sys_at s = None \<Longrightarrow> fst (load_sys s) < 0"
    and load_cfg_none: "cfg_at ch s = None \<Longrightarrow> fst (load_cfg ch s) < 0"
    and load_cal_none: "cal_at ch s = None \<Longrightarrow> fst (load_cal ch s) < 0"
    and save_sys: "save_sys c s = (rc, s') \<Longrightarrow> 0 \<le> rc \<Longrightarrow> sys_at s' = Some c"
    and save_cfg: "save_cfg ch v s = (rc, s') \<Longrightarrow> 0 \<le> rc \<Longrightarrow> cfg_at ch s' = Some v"
    and save_cal: "save_cal ch w s = (rc, s') \<Longrightarrow> 0 \<le> rc \<Longrightarrow> cal_at ch s' = Some w"
    and save_sys_frame: "save_sys c s = (rc, s') \<Longrightarrow> cfg_at n s' = cfg_at n s \<and> cal_at n s' = cal_at n s"
    and save_failed: "save_cal ch w s = (rc, s') \<Longrightarrow> rc < 0 \<Longrightarrow> cal_at ch s' = cal_at ch s"
    and save_cfg_frame: "save_cfg ch v s = (rc, s') \<Longrightarrow>
      sys_at s' = sys_at s \<and> (n \<noteq> ch \<longrightarrow> cfg_at n s' = cfg_at n s) \<and> cal_at n s' = cal_at n s"
    and save_cal_frame: "save_cal ch w s = (rc, s') \<Longrightarrow>
      sys_at s' = sys_at s \<and> cfg_at n s' = cfg_at n s \<and> (n \<noteq> ch \<longrightarrow> cal_at n s' = cal_at n s)"
    and erase_cal: "cal_at ch (snd (erase s)) = Some w \<Longrightarrow> cal_at ch s = Some w"
    and erase_cfg: "cfg_at ch (snd (erase s)) = Some v \<Longrightarrow> cfg_at ch s = Some v"
begin

lemma sys_round_trip: "save_sys c s = (rc, s') \<Longrightarrow> 0 \<le> rc \<Longrightarrow> load_sys s' = (0, Some c)"
  by (simp add: load_sys_some save_sys)

lemma cfg_round_trip: "save_cfg ch v s = (rc, s') \<Longrightarrow> 0 \<le> rc \<Longrightarrow> load_cfg ch s' = (0, Some v)"
  by (simp add: load_cfg_some save_cfg)

lemma cal_round_trip: "save_cal ch w s = (rc, s') \<Longrightarrow> 0 \<le> rc \<Longrightarrow> load_cal ch s' = (0, Some w)"
  by (simp add: load_cal_some save_cal)

text \<open>A load that reports success delivers what the store holds.\<close>

lemma load_sys_ok: "load_sys s = (rc, v) \<Longrightarrow> 0 \<le> rc \<Longrightarrow> \<exists>c. v = Some c \<and> sys_at s = Some c"
  by (metis fst_conv not_le option.exhaust prod.inject load_sys_some load_sys_none)

lemma load_cfg_ok: "load_cfg ch s = (rc, v) \<Longrightarrow> 0 \<le> rc \<Longrightarrow> \<exists>c. v = Some c \<and> cfg_at ch s = Some c"
  by (metis fst_conv not_le option.exhaust prod.inject load_cfg_some load_cfg_none)

lemma load_cal_ok: "load_cal ch s = (rc, v) \<Longrightarrow> 0 \<le> rc \<Longrightarrow> \<exists>c. v = Some c \<and> cal_at ch s = Some c"
  by (metis fst_conv not_le option.exhaust prod.inject load_cal_some load_cal_none)

end

subsection \<open>What the settings subsystem documents\<close>

text \<open>
  \<open>settings_save_one\<close> stores the bytes under the key or fails and changes nothing;
  \<open>settings_delete\<close> removes the key or fails; a direct load of a key without children calls the
  callback once with the stored length and a reader that returns the bytes, or not at all when the
  key is absent. Whether an error of the callback is passed on is left open.
\<close>

locale zephyr_settings =
  fixes z :: "'s settings_api"
    and lookup :: "'s \<Rightarrow> string \<Rightarrow> stored option"
  assumes save_one: "settings_save_one z key v s = (rc, s') \<Longrightarrow>
      lookup s' = (if 0 \<le> rc then (lookup s)(key \<mapsto> v) else lookup s)"
    and delete_one: "settings_delete z key s = (rc, s') \<Longrightarrow>
      lookup s' = (if 0 \<le> rc then (lookup s)(key := None) else lookup s)"
    and load_absent: "lookup s key = None \<Longrightarrow> snd (settings_load_subtree_direct z key cb ctx s) = ctx"
    and load_present: "lookup s key = Some v \<Longrightarrow>
      cb (sizeof_stored v) (int (sizeof_stored v), v) ctx = (ret, ctx') \<Longrightarrow>
      snd (settings_load_subtree_direct z key cb ctx s) = ctx' \<and>
      (ret = 0 \<longrightarrow> fst (settings_load_subtree_direct z key cb ctx s) = 0)"
begin

lemma load_key:
  "lookup s key = Some v \<Longrightarrow> sizeof_stored v = len \<Longrightarrow> settings_load_key z key len s = (0, Some v)"
  using load_present [of s key v settings_direct_loader "\<lparr>dst = None, ctx_len = len, found = False\<rparr>"]
  by (auto simp: settings_load_key_def settings_direct_loader_def split: prod.split)

lemma load_key_fails:
  assumes "\<And>v. lookup s key = Some v \<Longrightarrow> sizeof_stored v \<noteq> len"
  shows "fst (settings_load_key z key len s) < 0"
proof -
  let ?ctx = "\<lparr>dst = None, ctx_len = len, found = False\<rparr>"
  have "snd (settings_load_subtree_direct z key settings_direct_loader ?ctx s) = ?ctx"
    using assms load_absent [of s key settings_direct_loader ?ctx]
      load_present [of s key _ settings_direct_loader ?ctx]
    by (cases "lookup s key") (auto simp: settings_direct_loader_def)
  then show ?thesis by (auto simp: settings_load_key_def split: prod.split)
qed

end

text \<open>The three views of a settings store that only holds values of the right kind.\<close>

definition sys_of :: "stored option \<Rightarrow> vc_system_config option" where
  "sys_of v = (case v of Some (Stored_Sys c) \<Rightarrow> Some c | _ \<Rightarrow> None)"

definition cfg_of :: "stored option \<Rightarrow> vc_channel_config option" where
  "cfg_of v = (case v of Some (Stored_Cfg c) \<Rightarrow> Some c | _ \<Rightarrow> None)"

definition cal_of :: "stored option \<Rightarrow> vc_channel_cal_config option" where
  "cal_of v = (case v of Some (Stored_Cal c) \<Rightarrow> Some c | _ \<Rightarrow> None)"

context zephyr_settings
begin

lemma deleted: "lookup (snd (settings_delete z key s)) k = Some v \<Longrightarrow> lookup s k = Some v"
  using delete_one [of key s "fst (settings_delete z key s)" "snd (settings_delete z key s)"]
  by (simp split: if_splits)

lemma erase_channels_shrinks: "lookup (erase_channels z c n s) k = Some v \<Longrightarrow> lookup s k = Some v"
  by (induction n arbitrary: c s) (auto simp: Let_def dest: deleted)

lemma erase_shrinks: "lookup (snd (settings_erase z m s)) k = Some v \<Longrightarrow> lookup s k = Some v"
  by (auto simp: settings_erase_def dest: erase_channels_shrinks deleted)

text \<open>When no delete fails, every key of the firmware is gone after an erase.\<close>

lemma erase_channels_lookup:
  assumes d: "\<And>key s. 0 \<le> fst (settings_delete z key s)"
  shows "lookup (erase_channels z c n s) =
     (\<lambda>key. if key \<in> (\<lambda>k. cfg_key (word_of_nat k)) ` {c..<c + n} \<union>
                        (\<lambda>k. cal_key (word_of_nat k)) ` {c..<c + n}
            then None else lookup s key)"
proof (induction n arbitrary: c s)
  case (Suc n)
  have one: "lookup (snd (settings_delete z key s)) = (lookup s)(key := None)" for key s
    using delete_one [of key s "fst (settings_delete z key s)"] d [of key s] by simp
  have "{c..<c + Suc n} = insert c {Suc c..<Suc c + n}" by auto
  then show ?case
    by (simp only: erase_channels.simps Let_def Suc.IH one) (rule ext, simp)
qed simp

lemma erase_lookup_channel:
  assumes "\<And>key s. 0 \<le> fst (settings_delete z key s)" and "unat ch < m"
  shows "lookup (snd (settings_erase z m s)) (cfg_key ch) = None"
    and "lookup (snd (settings_erase z m s)) (cal_key ch) = None"
proof -
  have "ch \<in> word_of_nat ` {0..<m}"
    using assms(2) by (intro image_eqI [of _ _ "unat ch"]) simp_all
  then show "lookup (snd (settings_erase z m s)) (cfg_key ch) = None"
    and "lookup (snd (settings_erase z m s)) (cal_key ch) = None"
    by (auto simp: settings_erase_def erase_channels_lookup [OF assms(1)] image_iff)
qed

end

text \<open>The settings backend keeps the contract of a storage backend.\<close>

sublocale zephyr_settings \<subseteq> storage: vc_storage
  "settings_save_sys z" "settings_load_sys z" "settings_save_ch_cfg z" "settings_load_ch_cfg z"
  "settings_save_ch_cal z" "settings_load_ch_cal z"
  "\<lambda>s. sys_of (lookup s ''vc/sys'')" "\<lambda>ch s. cfg_of (lookup s (cfg_key ch))"
  "\<lambda>ch s. cal_of (lookup s (cal_key ch))" "settings_erase z m" for m
proof (unfold_locales, goal_cases)
  case (1 s c)
  then show ?case by (auto simp: settings_load_sys_def load_key sys_of_def split: option.splits stored.splits)
next
  case (2 ch s v)
  then show ?case by (auto simp: settings_load_ch_cfg_def load_key cfg_of_def split: option.splits stored.splits)
next
  case (3 ch s w)
  then show ?case by (auto simp: settings_load_ch_cal_def load_key cal_of_def split: option.splits stored.splits)
next
  case (4 s)
  then have "fst (settings_load_key z ''vc/sys'' 8 s) < 0"
    by (intro load_key_fails) (auto simp: sys_of_def split: stored.splits)
  then show ?case by (auto simp: settings_load_sys_def split: prod.split)
next
  case (5 ch s)
  then have "fst (settings_load_key z (cfg_key ch) 36 s) < 0"
    by (intro load_key_fails) (auto simp: cfg_of_def split: stored.splits)
  then show ?case by (auto simp: settings_load_ch_cfg_def split: prod.split)
next
  case (6 ch s)
  then have "fst (settings_load_key z (cal_key ch) 18 s) < 0"
    by (intro load_key_fails) (auto simp: cal_of_def split: stored.splits)
  then show ?case by (auto simp: settings_load_ch_cal_def split: prod.split)
next
  case (14 ch s w)
  then show ?case
    by (auto simp: cal_of_def split: option.splits stored.splits dest: erase_shrinks)
next
  case (15 ch s v)
  then show ?case
    by (auto simp: cfg_of_def split: option.splits stored.splits dest: erase_shrinks)
qed (auto simp: settings_save_sys_def settings_save_ch_cfg_def settings_save_ch_cal_def
      sys_of_def cfg_of_def cal_of_def dest!: save_one split: if_splits)

subsection \<open>A settings store as a map\<close>

text \<open>
  The reference implementation of the settings subsystem on a map from keys to values: the
  documented behaviour can be met, and the backend of the firmware runs on it.
\<close>

type_synonym nvs = "string \<Rightarrow> stored option"

definition map_settings :: "nvs settings_api" where
  "map_settings =
    \<lparr> settings_save_one = (\<lambda>key v s. (0, s(key \<mapsto> v))),
      settings_delete = (\<lambda>key s. (0, s(key := None))),
      settings_load_subtree_direct = (\<lambda>key cb ctx s.
        case s key of None \<Rightarrow> (0, ctx)
        | Some v \<Rightarrow> cb (sizeof_stored v) (int (sizeof_stored v), v) ctx) \<rparr>"

interpretation nvs: zephyr_settings map_settings "\<lambda>s. s"
  by unfold_locales (auto simp: map_settings_def split: option.split)

end
