(* ===== verification/Vc_Controller.thy ===== *)
theory Vc_Controller
  imports Vc_Storage Vc_Channel_Steps
begin

text \<open>
  The system controller, \<open>lib/voltage_control/vc_controller.c\<close> with
  \<open>include/voltage_control/vc_controller.h\<close>: the operating modes and their collective transitions,
  the calibration unlock sequence and watchdog, the parameter actions and the cross-channel check
  of a calibration session.

  The array of channels has as many slots as the devicetree has channel nodes, so
  \<open>channel_count\<close> is its length after \<open>vc_controller_init\<close>; an access past the end is undefined
  behaviour (\<open>None\<close>). The store behind the storage backend is the field \<open>nvs_state\<close>.
\<close>

abbreviation VC_PROTOCOL_MAJOR :: u16 where "VC_PROTOCOL_MAJOR \<equiv> 3"
abbreviation VC_PROTOCOL_MINOR :: u16 where "VC_PROTOCOL_MINOR \<equiv> 3"
abbreviation SYS_CAP_AUTOMATIC_MODE :: u16 where "SYS_CAP_AUTOMATIC_MODE \<equiv> 0x0001"
abbreviation SYS_CAP_ENV_SENSOR :: u16 where "SYS_CAP_ENV_SENSOR \<equiv> 0x0002"
abbreviation SYS_CAP_CALIBRATION_MODE :: u16 where "SYS_CAP_CALIBRATION_MODE \<equiv> 0x0004"
abbreviation CAL_UNLOCK_STEP1 :: u16 where "CAL_UNLOCK_STEP1 \<equiv> 0xCA1B"
abbreviation CAL_UNLOCK_STEP2 :: u16 where "CAL_UNLOCK_STEP2 \<equiv> 0xA11B"

record ('d, 's) vc_controller =
  channels :: "'d vc_channel list"
  channel_count :: nat
  meas_index :: "vc_channel_buffer option list"
  operating_mode :: vc_operating_mode
  pre_cal_mode :: vc_operating_mode
  cal_watchdog_ms :: u32
  cal_unlock_step :: u8
  cal_unlocked :: bool
  storage :: "'s vc_storage_backend option"
  sys_cfg :: vc_system_config
  nvs_state :: 's

definition VC_CAL_WATCHDOG_MS :: "kconfig \<Rightarrow> u32" where
  "VC_CAL_WATCHDOG_MS K = word_of_int (CONFIG_VC_CAL_WATCHDOG_TIMEOUT_S K) * 1000"

definition cal_watchdog_reset :: "kconfig \<Rightarrow> ('d, 's) vc_controller \<Rightarrow> ('d, 's) vc_controller" where
  "cal_watchdog_reset K ctrl = ctrl\<lparr>cal_watchdog_ms := VC_CAL_WATCHDOG_MS K\<rparr>"

definition vc_controller_cal_heartbeat ::
    "kconfig \<Rightarrow> ('d, 's) vc_controller \<Rightarrow> ('d, 's) vc_controller" where
  "vc_controller_cal_heartbeat K ctrl =
     (if operating_mode ctrl = VC_OPERATING_MODE_CALIBRATION then cal_watchdog_reset K ctrl else ctrl)"

definition default_system_config :: "kconfig \<Rightarrow> vc_system_config" where
  "default_system_config K =
    \<lparr> sys_operating_mode = vc_operating_mode_of_u16 (CONFIG_VC_DEFAULT_OPERATING_MODE K),
      startup_channel_policy = 0 \<rparr>"

definition channel_valid :: "('d, 's) vc_controller \<Rightarrow> u8 \<Rightarrow> bool" where
  "channel_valid ctrl ch \<longleftrightarrow> unat ch < channel_count ctrl"

subsection \<open>Access to the channels\<close>

text \<open>An operation on one slot of the array, and on the first \<open>n\<close> slots in order.\<close>

definition on_channel ::
    "('d, 's) vc_controller \<Rightarrow> u8 \<Rightarrow> ('d vc_channel \<Rightarrow> (vc_status \<times> 'd vc_channel) option) \<Rightarrow>
     (vc_status \<times> ('d, 's) vc_controller) option" where
  "on_channel ctrl ch f =
     (if length (channels ctrl) \<le> unat ch then None
      else do {
        (st, c) \<leftarrow> f (channels ctrl ! unat ch);
        Some (st, ctrl\<lparr>channels := (channels ctrl)[unat ch := c]\<rparr>)
      })"

fun each_channel ::
    "('d vc_channel \<Rightarrow> 'd vc_channel option) \<Rightarrow> nat \<Rightarrow> 'd vc_channel list \<Rightarrow> 'd vc_channel list option" where
  "each_channel f 0 chs = Some chs"
| "each_channel f (Suc n) [] = None"
| "each_channel f (Suc n) (c # cs) = do {
     c' \<leftarrow> f c;
     cs' \<leftarrow> each_channel f n cs;
     Some (c' # cs')
   }"

definition all_channels ::
    "('d vc_channel \<Rightarrow> 'd vc_channel option) \<Rightarrow> ('d, 's) vc_controller \<Rightarrow>
     ('d, 's) vc_controller option" where
  "all_channels f ctrl = do {
     chs \<leftarrow> each_channel f (channel_count ctrl) (channels ctrl);
     Some (ctrl\<lparr>channels := chs\<rparr>)
   }"

subsection \<open>Construction\<close>

text \<open>The controller is a zeroed static; a channel node of the devicetree fills one slot.\<close>

definition zero_channel :: "kconfig \<Rightarrow> 'd vc_channel" where
  "zero_channel K =
     (blank_channel K)
       \<lparr>config :=
         \<lparr> configured_target_voltage = 0, configured_output_enabled = False, ramp_up_step = 0,
           ramp_up_interval = 0, ramp_down_step = 0, ramp_down_interval = 0,
           recovery_policy_mode = VC_RECOVERY_MANUAL_LATCH, auto_retry_delay = 0,
           auto_retry_max_count = 0, auto_retry_window = 0, current_safe_band_pct = 0,
           current_protection_mode = VC_PROTECTION_MODE_DISABLED,
           current_protection_output_action = VC_OUTPUT_ACTION_NONE,
           current_limit_threshold = 0, auto_derate_step = 0 \<rparr>,
        cal_config :=
         \<lparr> output_calib_k = 0, output_calib_b = 0, measured_voltage_calib_k = 0,
           measured_voltage_calib_b = 0, measured_current_calib_k = 0, measured_current_calib_b = 0,
           output_calib_k_exp = 0, measured_voltage_calib_k_exp = 0,
           measured_current_calib_k_exp = 0 \<rparr>\<rparr>"

record 'd dt_channel =
  dt_reg :: u8
  dt_device :: "'d device"
  dt_capabilities :: u16

definition build_meas_index :: "nat \<Rightarrow> vc_channel_buffer list \<Rightarrow> vc_channel_buffer option list" where
  "build_meas_index n buffers =
     fold (\<lambda>entry idx. if unat (channel_id entry) < n then idx[unat (channel_id entry) := Some entry] else idx)
       buffers (replicate n None)"

fun init_channels ::
    "kconfig \<Rightarrow> vc_channel_buffer option list \<Rightarrow> bool \<Rightarrow> 'd dt_channel list \<Rightarrow> 'd vc_channel list \<Rightarrow>
     'd vc_channel list option" where
  "init_channels K idx wake [] chs = Some chs"
| "init_channels K idx wake (d # ds) chs =
     (if length chs \<le> unat (dt_reg d) then None
      else init_channels K idx wake ds
        (chs[unat (dt_reg d) :=
           vc_channel_init K (Some (dt_device d)) (dt_reg d) (dt_capabilities d)
             (idx ! unat (dt_reg d)) wake]))"

definition vc_controller_init ::
    "kconfig \<Rightarrow> 'd dt_channel list \<Rightarrow> vc_channel_buffer list \<Rightarrow> bool \<Rightarrow> 's \<Rightarrow>
     ('d, 's) vc_controller option" where
  "vc_controller_init K nodes buffers wake s =
     (let idx = build_meas_index (length nodes) buffers in do {
        chs \<leftarrow> init_channels K idx wake nodes (replicate (length nodes) (zero_channel K));
        Some \<lparr> channels = chs, channel_count = length nodes, meas_index = idx,
               operating_mode = VC_OPERATING_MODE_NORMAL, pre_cal_mode = VC_OPERATING_MODE_NORMAL,
               cal_watchdog_ms = 0, cal_unlock_step = 0, cal_unlocked = False, storage = None,
               sys_cfg = default_system_config K, nvs_state = s \<rparr>
      })"

subsection \<open>Operating mode\<close>

definition any_fault :: "('d, 's) vc_controller \<Rightarrow> bool" where
  "any_fault ctrl \<longleftrightarrow>
     list_ex (\<lambda>c. active_fault_cause c \<noteq> 0) (take (channel_count ctrl) (channels ctrl))"

definition wants_output :: "'d vc_channel \<Rightarrow> bool" where
  "wants_output ch \<longleftrightarrow>
     (if capabilities ch AND CH_CAP_RAW_OUTPUT_DRIVE \<noteq> 0
      then configured_target_voltage (config ch) \<noteq> 0
      else configured_output_enabled (config ch))"

definition auto_enable :: "'d vc_channel \<Rightarrow> 'd vc_channel option" where
  "auto_enable ch =
     (if wants_output ch \<and> active_fault_cause ch = 0
      then map_option snd (vc_channel_output_action ch VC_OUTPUT_ACTION_ENABLE)
      else Some ch)"

text \<open>A loop that runs when its condition holds.\<close>

definition when_all ::
    "bool \<Rightarrow> ('d vc_channel \<Rightarrow> 'd vc_channel option) \<Rightarrow> ('d, 's) vc_controller \<Rightarrow>
     ('d, 's) vc_controller option" where
  "when_all b f ctrl = (if b then all_channels f ctrl else Some ctrl)"

definition mode_refusal ::
    "('d, 's) vc_controller \<Rightarrow> vc_operating_mode \<Rightarrow> vc_status" where
  "mode_refusal ctrl mode =
     (if mode \<noteq> VC_OPERATING_MODE_NORMAL \<and> mode \<noteq> VC_OPERATING_MODE_AUTOMATIC \<and>
         mode \<noteq> VC_OPERATING_MODE_CALIBRATION
      then VC_ERR_INVALID_VALUE
      else if operating_mode ctrl \<noteq> VC_OPERATING_MODE_CALIBRATION \<and>
              mode = VC_OPERATING_MODE_CALIBRATION \<and> \<not> cal_unlocked ctrl
      then VC_ERR_INVALID_COMMAND
      else VC_OK)"

definition enter_mode ::
    "kconfig \<Rightarrow> ('d, 's) vc_controller \<Rightarrow> vc_operating_mode \<Rightarrow> ('d, 's) vc_controller option" where
  "enter_mode K ctrl mode =
     (let old = operating_mode ctrl in do {
        c1 \<leftarrow> when_all (old = VC_OPERATING_MODE_CALIBRATION)
                (\<lambda>ch. vc_channel_reset_calibration ch False) ctrl;
        c2 \<leftarrow> when_all (mode = VC_OPERATING_MODE_NORMAL \<and> old = VC_OPERATING_MODE_AUTOMATIC)
                (\<lambda>ch. map_option snd
                   (vc_channel_output_action ch VC_OUTPUT_ACTION_DISABLE_GRACEFUL)) c1;
        c3 \<leftarrow> when_all (mode = VC_OPERATING_MODE_AUTOMATIC) auto_enable c2;
        c4 \<leftarrow> when_all (mode = VC_OPERATING_MODE_CALIBRATION)
                (\<lambda>ch. vc_channel_reset_calibration ch True)
                (if mode = VC_OPERATING_MODE_CALIBRATION
                 then cal_watchdog_reset K (c3\<lparr>pre_cal_mode := old\<rparr>) else c3);
        let c5 = c4\<lparr>operating_mode := mode\<rparr>;
        Some (if mode \<noteq> VC_OPERATING_MODE_CALIBRATION
              then c5\<lparr>sys_cfg := (sys_cfg c5)\<lparr>sys_operating_mode := mode\<rparr>\<rparr>
              else c5\<lparr>cal_unlock_step := 0, cal_unlocked := False\<rparr>)
      })"

definition vc_controller_set_operating_mode ::
    "kconfig \<Rightarrow> ('d, 's) vc_controller \<Rightarrow> vc_operating_mode \<Rightarrow>
     (vc_status \<times> ('d, 's) vc_controller) option" where
  "vc_controller_set_operating_mode K ctrl mode =
     (let st = mode_refusal ctrl mode in
      if st \<noteq> VC_OK then Some (st, ctrl)
      else if mode = operating_mode ctrl
      then Some (VC_OK, if mode = VC_OPERATING_MODE_CALIBRATION then cal_watchdog_reset K ctrl else ctrl)
      else if mode = VC_OPERATING_MODE_AUTOMATIC \<and> operating_mode ctrl = VC_OPERATING_MODE_NORMAL \<and>
              any_fault ctrl
      then Some (VC_ERR_UNSAFE_STATE, ctrl)
      else map_option (Pair VC_OK) (enter_mode K ctrl mode))"

definition vc_controller_get_operating_mode :: "('d, 's) vc_controller \<Rightarrow> vc_operating_mode" where
  "vc_controller_get_operating_mode ctrl = operating_mode ctrl"

definition vc_controller_calibration_unlock ::
    "('d, 's) vc_controller \<Rightarrow> u16 \<Rightarrow> vc_status \<times> ('d, 's) vc_controller" where
  "vc_controller_calibration_unlock ctrl v =
     (if v = CAL_UNLOCK_STEP1 then (VC_OK, ctrl\<lparr>cal_unlock_step := 1, cal_unlocked := False\<rparr>)
      else if v = CAL_UNLOCK_STEP2 \<and> cal_unlock_step ctrl = 1
      then (VC_OK, ctrl\<lparr>cal_unlock_step := 0, cal_unlocked := True\<rparr>)
      else (VC_ERR_INVALID_COMMAND, ctrl\<lparr>cal_unlock_step := 0, cal_unlocked := False\<rparr>))"

definition vc_controller_cal_exit ::
    "kconfig \<Rightarrow> ('d, 's) vc_controller \<Rightarrow> (vc_status \<times> ('d, 's) vc_controller) option" where
  "vc_controller_cal_exit K ctrl =
     (if operating_mode ctrl \<noteq> VC_OPERATING_MODE_CALIBRATION then Some (VC_ERR_INVALID_COMMAND, ctrl)
      else vc_controller_set_operating_mode K ctrl (pre_cal_mode ctrl))"

subsection \<open>Channel commands\<close>

definition vc_controller_channel_output_action ::
    "('d, 's) vc_controller \<Rightarrow> u8 \<Rightarrow> vc_output_action \<Rightarrow>
     (vc_status \<times> ('d, 's) vc_controller) option" where
  "vc_controller_channel_output_action ctrl ch action =
     (if \<not> channel_valid ctrl ch then Some (VC_ERR_UNSUPPORTED_CHANNEL, ctrl)
      else if operating_mode ctrl = VC_OPERATING_MODE_CALIBRATION
      then Some (VC_ERR_INVALID_COMMAND, ctrl)
      else on_channel ctrl ch (\<lambda>c. vc_channel_output_action c action))"

definition vc_controller_channel_fault_command ::
    "('d, 's) vc_controller \<Rightarrow> u8 \<Rightarrow> vc_channel_fault_command \<Rightarrow>
     (vc_status \<times> ('d, 's) vc_controller) option" where
  "vc_controller_channel_fault_command ctrl ch cmd =
     (if \<not> channel_valid ctrl ch then Some (VC_ERR_UNSUPPORTED_CHANNEL, ctrl)
      else on_channel ctrl ch (\<lambda>c. Some (vc_channel_fault_command c cmd)))"

definition vc_controller_channel_set_field ::
    "kconfig \<Rightarrow> ('d, 's) vc_controller \<Rightarrow> u8 \<Rightarrow> vc_config_field \<Rightarrow> u16 \<Rightarrow>
     (vc_status \<times> ('d, 's) vc_controller) option" where
  "vc_controller_channel_set_field K ctrl ch field v =
     (if \<not> channel_valid ctrl ch then Some (VC_ERR_UNSUPPORTED_CHANNEL, ctrl)
      else on_channel ctrl ch (\<lambda>c. do {
        (st, c1) \<leftarrow> vc_channel_set_field K c field v;
        if st = VC_OK \<and> field = VC_FIELD_CONFIGURED_TARGET_VOLTAGE \<and>
           operating_mode ctrl = VC_OPERATING_MODE_AUTOMATIC \<and> v \<noteq> 0 \<and> active_fault_cause c1 = 0
        then do {
          (_, c2) \<leftarrow> vc_channel_output_action c1 VC_OUTPUT_ACTION_ENABLE;
          Some (st, c2)
        }
        else Some (st, c1)
      }))"

definition vc_controller_tick ::
    "kconfig \<Rightarrow> ('d, 's) vc_controller \<Rightarrow> u32 \<Rightarrow> ('d, 's) vc_controller option" where
  "vc_controller_tick K ctrl dt_ms =
     (if operating_mode ctrl = VC_OPERATING_MODE_CALIBRATION
      then (if cal_watchdog_ms ctrl \<le> dt_ms
            then map_option snd (vc_controller_cal_exit K ctrl)
            else Some (ctrl\<lparr>cal_watchdog_ms := cal_watchdog_ms ctrl - dt_ms\<rparr>))
      else all_channels (\<lambda>ch. vc_channel_run K ch dt_ms (sys_cfg ctrl)) ctrl)"

subsection \<open>System configuration\<close>

definition vc_controller_get_system_config :: "('d, 's) vc_controller \<Rightarrow> vc_system_config" where
  "vc_controller_get_system_config ctrl = sys_cfg ctrl"

definition vc_controller_set_system_config ::
    "kconfig \<Rightarrow> ('d, 's) vc_controller \<Rightarrow> vc_system_config \<Rightarrow>
     (vc_status \<times> ('d, 's) vc_controller) option" where
  "vc_controller_set_system_config K ctrl cfg =
     (let old_cfg_mode = sys_operating_mode (sys_cfg ctrl);
          c1 = ctrl\<lparr>sys_cfg :=
            (if sys_operating_mode cfg = VC_OPERATING_MODE_CALIBRATION
             then cfg\<lparr>sys_operating_mode := old_cfg_mode\<rparr> else cfg)\<rparr>
      in if sys_operating_mode cfg \<noteq> operating_mode c1
         then vc_controller_set_operating_mode K c1 (sys_operating_mode cfg)
         else Some (VC_OK, c1))"

fun vc_controller_set_system_field ::
    "kconfig \<Rightarrow> ('d, 's) vc_controller \<Rightarrow> vc_config_field \<Rightarrow> u16 \<Rightarrow>
     (vc_status \<times> ('d, 's) vc_controller) option" where
  "vc_controller_set_system_field K ctrl VC_FIELD_OPERATING_MODE v =
     vc_controller_set_operating_mode K ctrl (vc_operating_mode_of_u16 v)"
| "vc_controller_set_system_field K ctrl VC_FIELD_STARTUP_CHANNEL_POLICY v =
     vc_controller_set_system_config K ctrl ((sys_cfg ctrl)\<lparr>startup_channel_policy := v\<rparr>)"
| "vc_controller_set_system_field K ctrl _ v = Some (VC_ERR_INVALID_VALUE, ctrl)"

subsection \<open>Snapshots\<close>

definition vc_controller_get_system_snapshot ::
    "kconfig \<Rightarrow> ('d, 's) vc_controller \<Rightarrow> vc_system_snapshot" where
  "vc_controller_get_system_snapshot K ctrl =
    \<lparr> snap_protocol_major = VC_PROTOCOL_MAJOR,
      snap_protocol_minor = VC_PROTOCOL_MINOR,
      snap_variant_id = word_of_int (CONFIG_VC_VARIANT_ID K),
      snap_system_capability_flags = SYS_CAP_AUTOMATIC_MODE OR SYS_CAP_CALIBRATION_MODE,
      snap_supported_channel_count = word_of_nat (channel_count ctrl),
      snap_active_channel_mask = ucast ((push_bit (channel_count ctrl) 1 :: u32) - 1),
      snap_active_operating_mode = operating_mode ctrl,
      snap_system_status = 0,
      snap_system_fault_cause = 0,
      snap_cal_watchdog_remaining_ms = cal_watchdog_ms ctrl \<rparr>"

definition vc_controller_get_channel_snapshot ::
    "('d, 's) vc_controller \<Rightarrow> u8 \<Rightarrow> (vc_status + vc_channel_snapshot) option" where
  "vc_controller_get_channel_snapshot ctrl ch =
     (if \<not> channel_valid ctrl ch then Some (Inl VC_ERR_UNSUPPORTED_CHANNEL)
      else if length (channels ctrl) \<le> unat ch then None
      else Some (Inr (vc_channel_get_snapshot (channels ctrl ! unat ch))))"

definition vc_controller_get_channel_config ::
    "('d, 's) vc_controller \<Rightarrow> u8 \<Rightarrow> (vc_status + vc_channel_config) option" where
  "vc_controller_get_channel_config ctrl ch =
     (if \<not> channel_valid ctrl ch then Some (Inl VC_ERR_UNSUPPORTED_CHANNEL)
      else if length (channels ctrl) \<le> unat ch then None
      else Some (Inr (vc_channel_get_config (channels ctrl ! unat ch))))"

definition vc_controller_get_channel_cal_config ::
    "('d, 's) vc_controller \<Rightarrow> u8 \<Rightarrow> (vc_status + vc_channel_cal_config) option" where
  "vc_controller_get_channel_cal_config ctrl ch =
     (if \<not> channel_valid ctrl ch then Some (Inl VC_ERR_UNSUPPORTED_CHANNEL)
      else if length (channels ctrl) \<le> unat ch then None
      else Some (Inr (vc_channel_get_cal_config (channels ctrl ! unat ch))))"

end
