(* ===== verification/Vc_Controller_Ops.thy ===== *)
theory Vc_Controller_Ops
  imports Vc_Controller
begin

text \<open>
  The rest of \<open>lib/voltage_control/vc_controller.c\<close>: calibration coefficients, the storage backend
  and the parameter actions, the calibration session with its cross-channel check, and the start
  of sampling.
\<close>

subsection \<open>Calibration coefficients\<close>

text \<open>A calibration operation that succeeds restarts the watchdog.\<close>

definition watchdog_on_ok ::
    "kconfig \<Rightarrow> (vc_status \<times> ('d, 's) vc_controller) option \<Rightarrow>
     (vc_status \<times> ('d, 's) vc_controller) option" where
  "watchdog_on_ok K r = do {
     (st, ctrl) \<leftarrow> r;
     Some (st, if st = VC_OK then cal_watchdog_reset K ctrl else ctrl)
   }"

definition vc_controller_channel_set_cal_field ::
    "kconfig \<Rightarrow> ('d, 's) vc_controller \<Rightarrow> u8 \<Rightarrow> vc_cal_field \<Rightarrow> u16 \<Rightarrow>
     (vc_status \<times> ('d, 's) vc_controller) option" where
  "vc_controller_channel_set_cal_field K ctrl ch field v =
     (if \<not> channel_valid ctrl ch then Some (VC_ERR_UNSUPPORTED_CHANNEL, ctrl)
      else if operating_mode ctrl \<noteq> VC_OPERATING_MODE_CALIBRATION
      then Some (VC_ERR_INVALID_COMMAND, ctrl)
      else watchdog_on_ok K (on_channel ctrl ch (\<lambda>c. vc_channel_set_cal_field c field v)))"

subsection \<open>Storage\<close>

definition vc_controller_set_storage_backend ::
    "('d, 's) vc_controller \<Rightarrow> 's vc_storage_backend option \<Rightarrow> ('d, 's) vc_controller" where
  "vc_controller_set_storage_backend ctrl backend = ctrl\<lparr>storage := backend\<rparr>"

definition vc_controller_channel_count :: "('d, 's) vc_controller \<Rightarrow> nat" where
  "vc_controller_channel_count ctrl = channel_count ctrl"

text \<open>A backend entry: absent when there is no backend or the backend lacks it.\<close>

definition backend_op ::
    "('s vc_storage_backend \<Rightarrow> 'f option) \<Rightarrow> ('d, 's) vc_controller \<Rightarrow> 'f option" where
  "backend_op sel ctrl = (case storage ctrl of None \<Rightarrow> None | Some b \<Rightarrow> sel b)"

definition run_save ::
    "('s \<Rightarrow> int \<times> 's) \<Rightarrow> ('d, 's) vc_controller \<Rightarrow> vc_status \<times> ('d, 's) vc_controller" where
  "run_save save ctrl =
     (case save (nvs_state ctrl) of
        (rc, s) \<Rightarrow> (if rc < 0 then VC_ERR_STORAGE else VC_OK, ctrl\<lparr>nvs_state := s\<rparr>))"

fun vc_controller_system_param_action ::
    "kconfig \<Rightarrow> ('d, 's) vc_controller \<Rightarrow> vc_param_action \<Rightarrow>
     (vc_status \<times> ('d, 's) vc_controller) option" where
  "vc_controller_system_param_action K ctrl VC_PARAM_ACTION_NONE = Some (VC_OK, ctrl)"
| "vc_controller_system_param_action K ctrl VC_PARAM_ACTION_SAVE =
     (case backend_op save_system_config ctrl of
        None \<Rightarrow> Some (VC_ERR_STORAGE, ctrl)
      | Some save \<Rightarrow> Some (run_save (save (sys_cfg ctrl)) ctrl))"
| "vc_controller_system_param_action K ctrl VC_PARAM_ACTION_LOAD =
     (case backend_op load_system_config ctrl of
        None \<Rightarrow> Some (VC_ERR_STORAGE, ctrl)
      | Some load \<Rightarrow>
          (case load (nvs_state ctrl) of
             (ret, loaded) \<Rightarrow>
               if ret = - ENOENT then Some (VC_OK, ctrl)
               else if ret < 0 then Some (VC_ERR_STORAGE, ctrl)
               else (case loaded of
                       None \<Rightarrow> None
                     | Some cfg \<Rightarrow> vc_controller_set_system_config K ctrl cfg)))"
| "vc_controller_system_param_action K ctrl VC_PARAM_ACTION_FACTORY_RESET =
     (let c1 = (case backend_op erase_all ctrl of
                  None \<Rightarrow> ctrl
                | Some erase \<Rightarrow> ctrl\<lparr>nvs_state := snd (erase (nvs_state ctrl))\<rparr>)
      in Some (VC_OK, c1\<lparr>sys_cfg := default_system_config K,
                         operating_mode := VC_OPERATING_MODE_NORMAL\<rparr>))"
| "vc_controller_system_param_action K ctrl (VC_PARAM_ACTION_OTHER v) =
     Some (VC_ERR_INVALID_VALUE, ctrl)"

text \<open>The stored coefficients, loaded over the current ones when the load returns 0.\<close>

definition load_stored_cal ::
    "('d, 's) vc_controller \<Rightarrow> u8 \<Rightarrow> 'd vc_channel \<Rightarrow> 'd vc_channel option" where
  "load_stored_cal ctrl ch c =
     (case backend_op load_channel_cal ctrl of
        None \<Rightarrow> Some c
      | Some load \<Rightarrow>
          (case load ch (nvs_state ctrl) of
             (ret, loaded) \<Rightarrow>
               if ret = 0
               then vc_channel_load_cal c
                 (case loaded of None \<Rightarrow> vc_channel_get_cal_config c | Some cal \<Rightarrow> cal)
               else Some c))"

definition load_channel ::
    "kconfig \<Rightarrow> ('d, 's) vc_controller \<Rightarrow> u8 \<Rightarrow> int \<times> vc_channel_config option \<Rightarrow> 'd vc_channel \<Rightarrow>
     (vc_status \<times> 'd vc_channel) option" where
  "load_channel K ctrl ch result c =
     (if fst result < 0 \<and> fst result \<noteq> - ENOENT then Some (VC_ERR_STORAGE, c)
      else do {
        (st, c1) \<leftarrow> (if fst result = 0
          then vc_channel_set_config K c
                 (case snd result of None \<Rightarrow> vc_channel_get_config c | Some cfg \<Rightarrow> cfg)
          else Some (VC_OK, c));
        if st \<noteq> VC_OK then Some (st, c1)
        else map_option (Pair VC_OK) (load_stored_cal ctrl ch c1)
      })"

definition factory_reset_channel ::
    "kconfig \<Rightarrow> ('d, 's) vc_controller \<Rightarrow> u8 \<Rightarrow> 'd vc_channel \<Rightarrow> (vc_status \<times> 'd vc_channel) option" where
  "factory_reset_channel K ctrl ch c = do {
     (st, c1) \<leftarrow> vc_channel_set_config K c (vc_channel_default_config K);
     if st \<noteq> VC_OK then Some (st, c1)
     else map_option (Pair VC_OK) (load_stored_cal ctrl ch c1)
   }"

definition vc_controller_channel_param_action ::
    "kconfig \<Rightarrow> ('d, 's) vc_controller \<Rightarrow> u8 \<Rightarrow> vc_param_action \<Rightarrow>
     (vc_status \<times> ('d, 's) vc_controller) option" where
  "vc_controller_channel_param_action K ctrl ch action =
     (if \<not> channel_valid ctrl ch then Some (VC_ERR_UNSUPPORTED_CHANNEL, ctrl)
      else case action of
        VC_PARAM_ACTION_NONE \<Rightarrow> Some (VC_OK, ctrl)
      | VC_PARAM_ACTION_SAVE \<Rightarrow>
          (case backend_op save_channel_config ctrl of
             None \<Rightarrow> Some (VC_ERR_STORAGE, ctrl)
           | Some save \<Rightarrow>
               if length (channels ctrl) \<le> unat ch then None
               else Some (run_save (save ch (vc_channel_get_config (channels ctrl ! unat ch))) ctrl))
      | VC_PARAM_ACTION_LOAD \<Rightarrow>
          (case backend_op load_channel_config ctrl of
             None \<Rightarrow> Some (VC_ERR_STORAGE, ctrl)
           | Some load \<Rightarrow> on_channel ctrl ch (load_channel K ctrl ch (load ch (nvs_state ctrl))))
      | VC_PARAM_ACTION_FACTORY_RESET \<Rightarrow> on_channel ctrl ch (factory_reset_channel K ctrl ch)
      | VC_PARAM_ACTION_OTHER v \<Rightarrow> Some (VC_ERR_INVALID_VALUE, ctrl))"

subsection \<open>Calibration session\<close>

text \<open>Another channel still has its calibration output on or a code on its DAC.\<close>

definition other_channel_active :: "('d, 's) vc_controller \<Rightarrow> u8 \<Rightarrow> bool" where
  "other_channel_active ctrl ch \<longleftrightarrow>
     list_ex (\<lambda>i. i \<noteq> unat ch \<and>
       (cal_output_enabled (channels ctrl ! i) \<noteq> 0 \<or> raw_dac_readback (channels ctrl ! i) \<noteq> 0))
       [0..<channel_count ctrl]"

definition vc_controller_channel_cal_output_enable ::
    "kconfig \<Rightarrow> ('d, 's) vc_controller \<Rightarrow> u8 \<Rightarrow> bool \<Rightarrow> (vc_status \<times> ('d, 's) vc_controller) option" where
  "vc_controller_channel_cal_output_enable K ctrl ch enable =
     (if \<not> channel_valid ctrl ch then Some (VC_ERR_UNSUPPORTED_CHANNEL, ctrl)
      else if operating_mode ctrl \<noteq> VC_OPERATING_MODE_CALIBRATION
      then Some (VC_ERR_INVALID_COMMAND, ctrl)
      else if enable \<and> other_channel_active ctrl ch then Some (VC_ERR_UNSAFE_STATE, ctrl)
      else watchdog_on_ok K (on_channel ctrl ch (\<lambda>c. vc_channel_cal_set_output_enable c enable)))"

definition vc_controller_channel_cal_raw_dac ::
    "kconfig \<Rightarrow> ('d, 's) vc_controller \<Rightarrow> u8 \<Rightarrow> u32 \<Rightarrow> (vc_status \<times> ('d, 's) vc_controller) option" where
  "vc_controller_channel_cal_raw_dac K ctrl ch code =
     (if \<not> channel_valid ctrl ch then Some (VC_ERR_UNSUPPORTED_CHANNEL, ctrl)
      else if operating_mode ctrl \<noteq> VC_OPERATING_MODE_CALIBRATION
      then Some (VC_ERR_INVALID_COMMAND, ctrl)
      else watchdog_on_ok K (on_channel ctrl ch (\<lambda>c. vc_channel_cal_set_raw_dac K c code)))"

definition vc_controller_channel_cal_sample ::
    "kconfig \<Rightarrow> ('d, 's) vc_controller \<Rightarrow> u8 \<Rightarrow> (vc_status \<times> ('d, 's) vc_controller) option" where
  "vc_controller_channel_cal_sample K ctrl ch =
     (if \<not> channel_valid ctrl ch then Some (VC_ERR_UNSUPPORTED_CHANNEL, ctrl)
      else if operating_mode ctrl \<noteq> VC_OPERATING_MODE_CALIBRATION
      then Some (VC_ERR_INVALID_COMMAND, ctrl)
      else watchdog_on_ok K (on_channel ctrl ch (\<lambda>c. Some (vc_channel_cal_sample c))))"

definition vc_controller_channel_cal_commit ::
    "kconfig \<Rightarrow> ('d, 's) vc_controller \<Rightarrow> u8 \<Rightarrow> (vc_status \<times> ('d, 's) vc_controller) option" where
  "vc_controller_channel_cal_commit K ctrl ch =
     (if \<not> channel_valid ctrl ch then Some (VC_ERR_UNSUPPORTED_CHANNEL, ctrl)
      else if operating_mode ctrl \<noteq> VC_OPERATING_MODE_CALIBRATION
      then Some (VC_ERR_INVALID_COMMAND, ctrl)
      else if length (channels ctrl) \<le> unat ch then None
      else
        let c = channels ctrl ! unat ch; ret = vc_channel_cal_commit c in
        if ret \<noteq> VC_OK then Some (ret, ctrl)
        else
          let c1 = cal_watchdog_reset K ctrl in
          (case backend_op save_channel_cal c1 of
             None \<Rightarrow> Some (VC_OK, c1)
           | Some save \<Rightarrow> Some (run_save (save ch (vc_channel_get_cal_config c)) c1)))"

subsection \<open>Start of sampling\<close>

text \<open>One channel's driver is started; \<open>Inl\<close> stops the loop with an error.\<close>

definition start_channel :: "'d vc_channel \<Rightarrow> ('d vc_channel + 'd vc_channel)" where
  "start_channel c =
     (case dev c of
        None \<Rightarrow> Inr c
      | Some d \<Rightarrow>
          (case dev_api d of
             None \<Rightarrow> Inr c
           | Some a \<Rightarrow>
               (case start_sampling a of
                  None \<Rightarrow> Inr c
                | Some f \<Rightarrow>
                    (case f (dev_data d) of
                       (ret, d') \<Rightarrow>
                         let c' = c\<lparr>dev := Some (d\<lparr>dev_data := d'\<rparr>)\<rparr> in
                         if ret < 0 \<and> ret \<noteq> - ENOTSUP then Inl c' else Inr c'))))"

fun start_channels :: "nat \<Rightarrow> 'd vc_channel list \<Rightarrow> (vc_status \<times> 'd vc_channel list) option" where
  "start_channels 0 chs = Some (VC_OK, chs)"
| "start_channels (Suc n) [] = None"
| "start_channels (Suc n) (c # cs) =
     (case start_channel c of
        Inl c' \<Rightarrow> Some (VC_ERR_UNSAFE_STATE, c' # cs)
      | Inr c' \<Rightarrow> do {
          (st, cs') \<leftarrow> start_channels n cs;
          Some (st, c' # cs')
        })"

definition vc_controller_start_sampling ::
    "('d, 's) vc_controller \<Rightarrow> (vc_status \<times> ('d, 's) vc_controller) option" where
  "vc_controller_start_sampling ctrl = do {
     (st, chs) \<leftarrow> start_channels (channel_count ctrl) (channels ctrl);
     Some (st, ctrl\<lparr>channels := chs\<rparr>)
   }"

end
