(* ===== verification/Vc_Controller_Inv.thy ===== *)
theory Vc_Controller_Inv
  imports Vc_Controller_Ops Vc_Channel_Voltage
begin

text \<open>
  The invariants of the controller and its step relation. \<open>controller_ok\<close>: the channel array has
  \<open>channel_count\<close> slots, each with a channel that satisfies its own invariant. \<open>one_energised\<close>:
  at most one channel has a calibration output on or a code on its DAC. \<open>cal_confined\<close>: outside
  CALIBRATION mode no channel has.
\<close>

subsection \<open>Channel operations and the calibration output\<close>

definition energised :: "'d vc_channel \<Rightarrow> bool" where
  "energised ch \<longleftrightarrow> cal_output_enabled ch \<noteq> 0 \<or> raw_dac_readback ch \<noteq> 0"

text \<open>An operation cools a channel when it cannot energise it.\<close>

definition cools :: "'d vc_channel \<Rightarrow> 'd vc_channel \<Rightarrow> bool" where
  "cools ch ch' \<longleftrightarrow> energised ch' \<le> energised ch"

lemma coolsI: "(energised ch' \<Longrightarrow> energised ch) \<Longrightarrow> cools ch ch'"
  by (auto simp: cools_def)

lemma cools_refl [simp]: "cools ch ch"
  by (simp add: cools_def)

lemma cools_trans: "cools a b \<Longrightarrow> cools b c \<Longrightarrow> cools a c"
  by (auto simp: cools_def)

lemma cools_updates [simp]:
  "cools ch (update_status_bits c) \<longleftrightarrow> cools ch c"
  "cools ch (c\<lparr>dev := d\<rparr>) \<longleftrightarrow> cools ch c"
  "cools ch (c\<lparr>smf := s\<rparr>) \<longleftrightarrow> cools ch c"
  "cools ch (c\<lparr>config := cfg\<rparr>) \<longleftrightarrow> cools ch c"
  "cools ch (c\<lparr>cal_config := cal\<rparr>) \<longleftrightarrow> cools ch c"
  "cools ch (c\<lparr>uptime_ref := t\<rparr>) \<longleftrightarrow> cools ch c"
  "cools ch (c\<lparr>last_consumed_voltage_ts := t\<rparr>) \<longleftrightarrow> cools ch c"
  "cools ch (c\<lparr>last_consumed_current_ts := t\<rparr>) \<longleftrightarrow> cools ch c"
  "cools ch (c\<lparr>fault_history_cause := f\<rparr>) \<longleftrightarrow> cools ch c"
  "cools ch (c\<lparr>raw_adc_current := i, measured_current := m\<rparr>) \<longleftrightarrow> cools ch c"
  "cools (c\<lparr>uptime_ref := t\<rparr>) ch \<longleftrightarrow> cools c ch"
  "cools (c\<lparr>raw_adc_current := i, measured_current := m\<rparr>) ch \<longleftrightarrow> cools c ch"
  by (simp_all add: cools_def energised_def)

named_theorems cools_intros \<open>operations that cannot energise a calibration output\<close>

lemma cools_apply_protection:
  "cal_ok (cal_config ch) \<Longrightarrow> apply_protection_action ch a = Some ch' \<Longrightarrow> cools ch ch'"
  by (auto simp: apply_protection_action_def Let_def begin_graceful_def disable_into_def
      cools_def energised_def split: vc_output_action.splits if_splits)

lemma cools_tick_current_protection:
  assumes ok: "cal_ok (cal_config ch)" and r: "tick_current_protection ch = Some ch'"
  shows "cools ch ch'"
proof -
  have "cools ch c'"
    if "apply_protection_action (ch\<lparr>fault_history_cause := h, active_fault_cause := f,
          last_fault_timestamp := t\<rparr>) a = Some c'" for h f t a c'
    using cools_apply_protection [OF _ that] ok by (simp add: cools_def energised_def)
  then show ?thesis
    using r by (auto simp: tick_current_protection_def Let_def split: if_splits bind_splits)
qed

lemma cools_consume_current:
  assumes "cal_ok (cal_config ch)" and "vc_channel_consume_current ch raw = Some ch'"
  shows "cools ch ch'"
proof -
  have "cools ch c'"
    if "tick_current_protection (ch\<lparr>raw_adc_current := x, measured_current := y\<rparr>) = Some c'" for x y c'
    using cools_tick_current_protection [OF _ that] assms by simp
  then show ?thesis
    using assms by (auto simp: consume_current_exact Let_def split: if_splits bind_splits)
qed

lemma cools_consume_measurements:
  assumes ok: "channel_ok K ch" and r: "consume_measurements ch = Some ch'"
  shows "cools ch ch'"
proof (cases "meas ch")
  case None
  then show ?thesis using r by (simp add: consume_measurements_def)
next
  case (Some b)
  then obtain ch1 where
    1: "consume_if_new_voltage ch (buf_raw_voltage b) (voltage_timestamp_ms b) = Some ch1" and
    2: "consume_if_new_current ch1 (buf_raw_current b) (current_timestamp_ms b) = Some ch'"
    using r by (auto simp: consume_measurements_def vc_channel_buffer_read_def split: bind_splits)
  have ok1: "channel_ok K ch1" using good_if_new_voltage [OF ok] 1 by (metis good_Some)
  have "cools ch ch1"
    using 1 ok by (auto simp: consume_if_new_voltage_def consume_voltage_exact cools_def energised_def
        split: if_splits)
  moreover have "cools ch1 ch'"
    using 2 cools_consume_current [of ch1] ok1
    by (auto simp: consume_if_new_current_def split: if_splits bind_splits)
  ultimately show ?thesis by (rule cools_trans)
qed

lemma cools_tick_ramp:
  "channel_ok K ch \<Longrightarrow> vc_channel_tick_ramp ch dt sys = Some ch' \<Longrightarrow> cools ch ch'"
  using tick_ramp_frame [of ch dt sys ch']
  by (simp add: cools_def energised_def)

lemma cools_attempt_retry:
  "channel_ok K ch \<Longrightarrow> attempt_retry K ch = Some ch' \<Longrightarrow> cools ch ch'"
  by (auto simp: attempt_retry_def exhaust_retries_def cools_def energised_def Let_def split: if_splits)

lemma cools_tick_recovery:
  assumes "channel_ok K ch" and "tick_recovery K ch sys dt = Some ch'"
  shows "cools ch ch'"
proof -
  have e: "energised (enter_cooldown ch) = energised ch"
    by (simp add: enter_cooldown_def energised_def)
  then show ?thesis
    using assms cools_attempt_retry [of K "(enter_cooldown ch)\<lparr>cooldown_remaining_ms := 0\<rparr>" ch']
    by (auto simp: tick_recovery_def Let_def cools_def energised_def split: if_splits)
qed

lemma cools_run [cools_intros]:
  assumes ok: "channel_ok K ch" and r: "vc_channel_run K ch dt sys = Some ch'"
  shows "cools ch ch'"
proof -
  let ?c = "ch\<lparr>uptime_ref := uptime_ref ch + dt\<rparr>"
  have c: "channel_ok K ?c" using ok by (simp add: channel_ok_def)
  obtain c1 c2 where 1: "consume_measurements ?c = Some c1"
    and 2: "vc_channel_tick_ramp c1 dt sys = Some c2" and 3: "tick_recovery K c2 sys dt = Some ch'"
    using r by (auto simp: vc_channel_run_def split: bind_splits)
  have c1: "channel_ok K c1" using good_consume_measurements [OF c] 1 by simp
  have c2: "channel_ok K c2" using good_tick_ramp [OF c1, of dt sys] 2 by simp
  show ?thesis
    using cools_trans [OF cools_consume_measurements [OF c 1]
        cools_trans [OF cools_tick_ramp [OF c1 2] cools_tick_recovery [OF c2 3]]] by simp
qed

lemma cools_output_action [cools_intros]:
  "channel_ok K ch \<Longrightarrow> vc_channel_output_action ch a = Some (st, ch') \<Longrightarrow> cools ch ch'"
  by (auto simp: vc_channel_output_action_def Let_def commit_channel_def begin_graceful_def
      disable_into_def cools_def energised_def split: vc_output_action.splits if_splits)

lemma cools_set_config [cools_intros]:
  "channel_ok K ch \<Longrightarrow> vc_channel_set_config K ch cfg = Some (st, ch') \<Longrightarrow> cools ch ch'"
  by (auto simp: vc_channel_set_config_def Let_def commit_channel_def split: if_splits)

lemma cools_set_field [cools_intros]:
  "channel_ok K ch \<Longrightarrow> vc_channel_set_field K ch fld v = Some (st, ch') \<Longrightarrow> cools ch ch'"
  by (cases fld) (auto simp: ramp_field_def commit_channel_def split: if_splits)

lemma cools_fault_command [cools_intros]: "cools ch (snd (vc_channel_fault_command ch c))"
  by (auto simp: vc_channel_fault_command_def cools_def energised_def
      split: vc_channel_fault_command.splits if_splits)

lemma reset_calibration_cold:
  "channel_ok K ch \<Longrightarrow> vc_channel_reset_calibration ch e = Some ch' \<Longrightarrow> \<not> energised ch'"
  by (auto simp: vc_channel_reset_calibration_def energised_def)

lemma cools_cal_disable [cools_intros]:
  "channel_ok K ch \<Longrightarrow> vc_channel_cal_set_output_enable ch False = Some (st, ch') \<Longrightarrow> cools ch ch'"
  by (auto simp: vc_channel_cal_set_output_enable_def cools_def energised_def split: if_splits)

lemma cools_cal_set_raw_dac [cools_intros]:
  "channel_ok K ch \<Longrightarrow> vc_channel_cal_set_raw_dac K ch c = Some (st, ch') \<Longrightarrow> cools ch ch'"
  by (auto simp: vc_channel_cal_set_raw_dac_def cools_def energised_def split: if_splits)

lemma cools_cal_sample [cools_intros]: "cools ch (snd (vc_channel_cal_sample ch))"
  by (simp add: vc_channel_cal_sample_def Let_def split_beta cools_def energised_def)

lemma cools_set_cal_field [cools_intros]:
  assumes "channel_ok K ch" and "vc_channel_set_cal_field ch fld v = Some (st, ch')"
  shows "cools ch ch'"
proof -
  have "cal_ok (cal_config ch)" using assms by simp
  then show ?thesis
    using assms by (cases fld) (auto simp: cal_ok_def store_cal_def split: if_splits)
qed

lemma cools_load_cal [cools_intros]:
  "channel_ok K ch \<Longrightarrow> cal_ok cal \<Longrightarrow> vc_channel_load_cal ch cal = Some ch' \<Longrightarrow> cools ch ch'"
  by (auto simp: vc_channel_load_cal_def)

subsection \<open>The invariant of the controller\<close>

definition controller_ok :: "kconfig \<Rightarrow> ('d, 's) vc_controller \<Rightarrow> bool" where
  "controller_ok K ctrl \<longleftrightarrow>
     length (channels ctrl) = channel_count ctrl \<and> list_all (channel_ok K) (channels ctrl) \<and>
     operating_mode ctrl \<in> {VC_OPERATING_MODE_NORMAL, VC_OPERATING_MODE_AUTOMATIC,
                            VC_OPERATING_MODE_CALIBRATION} \<and>
     pre_cal_mode ctrl \<in> {VC_OPERATING_MODE_NORMAL, VC_OPERATING_MODE_AUTOMATIC}"

text \<open>What the backend loads: coefficients inside the table, and a buffer filled on success.\<close>

definition loads_ok :: "('d, 's) vc_controller \<Rightarrow> bool" where
  "loads_ok ctrl \<longleftrightarrow>
     (case backend_op load_channel_cal ctrl of
        None \<Rightarrow> True
      | Some load \<Rightarrow> \<forall>ch cal. load ch (nvs_state ctrl) = (0, Some cal) \<longrightarrow> cal_ok cal) \<and>
     (case backend_op load_system_config ctrl of
        None \<Rightarrow> True
      | Some load \<Rightarrow> \<forall>rc. load (nvs_state ctrl) = (rc, None) \<longrightarrow> rc < 0)"

definition good_ctl :: "kconfig \<Rightarrow> (vc_status \<times> ('d, 's) vc_controller) option \<Rightarrow> bool" where
  "good_ctl K r \<longleftrightarrow> (case r of None \<Rightarrow> False | Some p \<Rightarrow> controller_ok K (snd p))"

lemma good_ctl_simps [simp]:
  "\<not> good_ctl K None" "good_ctl K (Some p) \<longleftrightarrow> controller_ok K (snd p)"
  by (simp_all add: good_ctl_def)

lemma good_ctlE:
  "good_ctl K r \<Longrightarrow> (\<And>st ctrl. r = Some (st, ctrl) \<Longrightarrow> controller_ok K ctrl \<Longrightarrow> P) \<Longrightarrow> P"
  by (cases r) auto

lemma controller_ok_updates [simp]:
  "controller_ok K (ctrl\<lparr>cal_watchdog_ms := t\<rparr>) \<longleftrightarrow> controller_ok K ctrl"
  "controller_ok K (ctrl\<lparr>sys_cfg := cfg\<rparr>) \<longleftrightarrow> controller_ok K ctrl"
  "controller_ok K (ctrl\<lparr>nvs_state := s\<rparr>) \<longleftrightarrow> controller_ok K ctrl"
  "controller_ok K (ctrl\<lparr>storage := b\<rparr>) \<longleftrightarrow> controller_ok K ctrl"
  "controller_ok K (ctrl\<lparr>cal_unlock_step := u, cal_unlocked := l\<rparr>) \<longleftrightarrow> controller_ok K ctrl"
  "controller_ok K (cal_watchdog_reset K' ctrl) \<longleftrightarrow> controller_ok K ctrl"
  by (simp_all add: controller_ok_def cal_watchdog_reset_def)

subsection \<open>Operations on one channel and on all\<close>

lemma good_on_channel:
  assumes "controller_ok K ctrl" and "channel_valid ctrl ch"
    and "\<And>c. channel_ok K c \<Longrightarrow> good_st K (f c)"
  shows "good_ctl K (on_channel ctrl ch f)"
proof -
  have i: "unat ch < length (channels ctrl)" and cs: "list_all (channel_ok K) (channels ctrl)"
    using assms by (simp_all add: controller_ok_def channel_valid_def)
  then have "channel_ok K (channels ctrl ! unat ch)" by (simp add: list_all_length)
  from assms(3) [OF this] obtain st c where c: "f (channels ctrl ! unat ch) = Some (st, c)" "channel_ok K c"
    by (rule good_stE)
  have "list_all (channel_ok K) ((channels ctrl)[unat ch := c])"
    using cs c(2) set_update_subset_insert [of "channels ctrl" "unat ch" c]
    by (auto simp: list_all_iff)
  then show ?thesis using i c assms(1) by (simp add: on_channel_def controller_ok_def)
qed

lemma each_channel_all2:
  "each_channel f (length cs) cs = Some cs' \<Longrightarrow> list_all2 (\<lambda>c c'. f c = Some c') cs cs'"
  by (induction cs arbitrary: cs') (auto split: bind_splits)

lemma each_channel_defined:
  "list_all P cs \<Longrightarrow> (\<And>c. P c \<Longrightarrow> f c \<noteq> None) \<Longrightarrow> each_channel f (length cs) cs \<noteq> None"
  by (induction cs) (fastforce split: bind_splits)+

lemma all_channels_ok:
  assumes ok: "controller_ok K ctrl" and f: "\<And>c. channel_ok K c \<Longrightarrow> good K (f c)"
  obtains cs where "all_channels f ctrl = Some (ctrl\<lparr>channels := cs\<rparr>)"
    and "controller_ok K (ctrl\<lparr>channels := cs\<rparr>)"
    and "list_all2 (\<lambda>c c'. f c = Some c' \<and> channel_ok K c \<and> channel_ok K c') (channels ctrl) cs"
proof -
  have cs: "list_all (channel_ok K) (channels ctrl)" and n: "channel_count ctrl = length (channels ctrl)"
    using ok by (simp_all add: controller_ok_def)
  have "each_channel f (length (channels ctrl)) (channels ctrl) \<noteq> None"
    using each_channel_defined [OF cs, of f] f by fastforce
  then obtain cs' where e: "each_channel f (length (channels ctrl)) (channels ctrl) = Some cs'" by auto
  have 2: "list_all2 (\<lambda>c c'. f c = Some c') (channels ctrl) cs'" by (rule each_channel_all2 [OF e])
  then have 3: "list_all2 (\<lambda>c c'. f c = Some c' \<and> channel_ok K c \<and> channel_ok K c') (channels ctrl) cs'"
    using cs f good_Some by (auto simp: list_all2_conv_all_nth list_all_length) (metis good_Some)
  then have "list_all (channel_ok K) cs'" and "length cs' = length (channels ctrl)"
    by (auto simp: list_all2_conv_all_nth list_all_length)
  then show thesis using e n 3 ok by (intro that [of cs']) (simp_all add: all_channels_def controller_ok_def)
qed

lemma good_auto_enable: "channel_ok K c \<Longrightarrow> good K (auto_enable c)"
  using good_output_action [of K c VC_OUTPUT_ACTION_ENABLE]
  by (auto simp: auto_enable_def elim!: good_stE)

lemma good_graceful: "channel_ok K c \<Longrightarrow>
  good K (map_option snd (vc_channel_output_action c VC_OUTPUT_ACTION_DISABLE_GRACEFUL))"
  using good_output_action [of K c VC_OUTPUT_ACTION_DISABLE_GRACEFUL] by (auto elim!: good_stE)

subsection \<open>Mode changes\<close>

lemma when_all_ok:
  assumes ok: "controller_ok K ctrl" and f: "\<And>c. channel_ok K c \<Longrightarrow> good K (f c)"
  obtains cs where "when_all b f ctrl = Some (ctrl\<lparr>channels := cs\<rparr>)"
    and "controller_ok K (ctrl\<lparr>channels := cs\<rparr>)"
    and "list_all2 (\<lambda>c c'. channel_ok K c \<and> channel_ok K c' \<and> (if b then f c = Some c' else c' = c))
           (channels ctrl) cs"
proof (cases b)
  case True
  obtain cs where "all_channels f ctrl = Some (ctrl\<lparr>channels := cs\<rparr>)"
    and "controller_ok K (ctrl\<lparr>channels := cs\<rparr>)"
    and "list_all2 (\<lambda>c c'. f c = Some c' \<and> channel_ok K c \<and> channel_ok K c') (channels ctrl) cs"
    by (rule all_channels_ok [OF ok f]) auto
  then show thesis using True by (intro that [of cs]) (auto simp: when_all_def elim: list_all2_mono)
next
  case False
  then show thesis
    using ok by (intro that [of "channels ctrl"])
      (auto simp: when_all_def controller_ok_def list_all2_same list_all_iff)
qed

text \<open>What a mode change does to one channel: the loops of the transition, in their order.\<close>

definition change_channel ::
    "vc_operating_mode \<Rightarrow> vc_operating_mode \<Rightarrow> 'd vc_channel \<Rightarrow> 'd vc_channel option" where
  "change_channel old mode c = do {
     c1 \<leftarrow> (if old = VC_OPERATING_MODE_CALIBRATION then vc_channel_reset_calibration c False else Some c);
     c2 \<leftarrow> (if mode = VC_OPERATING_MODE_NORMAL \<and> old = VC_OPERATING_MODE_AUTOMATIC
            then map_option snd (vc_channel_output_action c1 VC_OUTPUT_ACTION_DISABLE_GRACEFUL)
            else Some c1);
     c3 \<leftarrow> (if mode = VC_OPERATING_MODE_AUTOMATIC then auto_enable c2 else Some c2);
     (if mode = VC_OPERATING_MODE_CALIBRATION then vc_channel_reset_calibration c3 True else Some c3)
   }"

lemma enter_mode_ok:
  assumes ok: "controller_ok K ctrl"
    and m: "mode \<in> {VC_OPERATING_MODE_NORMAL, VC_OPERATING_MODE_AUTOMATIC, VC_OPERATING_MODE_CALIBRATION}"
    and ne: "mode \<noteq> operating_mode ctrl"
  obtains cs where
    "enter_mode K ctrl mode = Some (ctrl
       \<lparr>channels := cs, operating_mode := mode,
        pre_cal_mode := (if mode = VC_OPERATING_MODE_CALIBRATION then operating_mode ctrl
                         else pre_cal_mode ctrl),
        cal_watchdog_ms := (if mode = VC_OPERATING_MODE_CALIBRATION then VC_CAL_WATCHDOG_MS K
                            else cal_watchdog_ms ctrl),
        sys_cfg := (if mode = VC_OPERATING_MODE_CALIBRATION then sys_cfg ctrl
                    else (sys_cfg ctrl)\<lparr>sys_operating_mode := mode\<rparr>),
        cal_unlock_step := (if mode = VC_OPERATING_MODE_CALIBRATION then 0 else cal_unlock_step ctrl),
        cal_unlocked := (if mode = VC_OPERATING_MODE_CALIBRATION then False else cal_unlocked ctrl)\<rparr>)"
    and "list_all (channel_ok K) cs" and "length cs = length (channels ctrl)"
    and "list_all2 (\<lambda>c c'. channel_ok K c \<and> change_channel (operating_mode ctrl) mode c = Some c')
           (channels ctrl) cs"
proof -
  let ?old = "operating_mode ctrl" let ?cal = "mode = VC_OPERATING_MODE_CALIBRATION"
  obtain a where a: "when_all (?old = VC_OPERATING_MODE_CALIBRATION)
      (\<lambda>ch. vc_channel_reset_calibration ch False) ctrl = Some (ctrl\<lparr>channels := a\<rparr>)"
    and ao: "controller_ok K (ctrl\<lparr>channels := a\<rparr>)"
    and a2: "list_all2 (\<lambda>c c'. channel_ok K c \<and> channel_ok K c' \<and>
      (if ?old = VC_OPERATING_MODE_CALIBRATION then vc_channel_reset_calibration c False = Some c'
       else c' = c)) (channels ctrl) a"
    by (rule when_all_ok [OF ok good_reset_calibration])
  obtain b where b: "when_all (mode = VC_OPERATING_MODE_NORMAL \<and> ?old = VC_OPERATING_MODE_AUTOMATIC)
      (\<lambda>ch. map_option snd (vc_channel_output_action ch VC_OUTPUT_ACTION_DISABLE_GRACEFUL))
      (ctrl\<lparr>channels := a\<rparr>) = Some (ctrl\<lparr>channels := a, channels := b\<rparr>)"
    and bo: "controller_ok K (ctrl\<lparr>channels := a, channels := b\<rparr>)"
    and b2: "list_all2 (\<lambda>c c'. channel_ok K c \<and> channel_ok K c' \<and>
      (if mode = VC_OPERATING_MODE_NORMAL \<and> ?old = VC_OPERATING_MODE_AUTOMATIC
       then map_option snd (vc_channel_output_action c VC_OUTPUT_ACTION_DISABLE_GRACEFUL) = Some c'
       else c' = c)) (channels (ctrl\<lparr>channels := a\<rparr>)) b"
    by (rule when_all_ok [OF ao good_graceful])
  obtain e where e: "when_all (mode = VC_OPERATING_MODE_AUTOMATIC) auto_enable
      (ctrl\<lparr>channels := a, channels := b\<rparr>) = Some (ctrl\<lparr>channels := a, channels := b, channels := e\<rparr>)"
    and eo: "controller_ok K (ctrl\<lparr>channels := a, channels := b, channels := e\<rparr>)"
    and e2: "list_all2 (\<lambda>c c'. channel_ok K c \<and> channel_ok K c' \<and>
      (if mode = VC_OPERATING_MODE_AUTOMATIC then auto_enable c = Some c' else c' = c))
      (channels (ctrl\<lparr>channels := a, channels := b\<rparr>)) e"
    by (rule when_all_ok [OF bo good_auto_enable])
  let ?c3 = "ctrl\<lparr>channels := a, channels := b, channels := e\<rparr>"
  let ?c3' = "if ?cal then cal_watchdog_reset K (?c3\<lparr>pre_cal_mode := ?old\<rparr>) else ?c3"
  have "controller_ok K ?c3'" using eo m ne by (auto simp: controller_ok_def cal_watchdog_reset_def)
  then obtain f where f: "when_all ?cal (\<lambda>ch. vc_channel_reset_calibration ch True) ?c3' =
      Some (?c3'\<lparr>channels := f\<rparr>)"
    and fo: "controller_ok K (?c3'\<lparr>channels := f\<rparr>)"
    and f2: "list_all2 (\<lambda>c c'. channel_ok K c \<and> channel_ok K c' \<and>
      (if ?cal then vc_channel_reset_calibration c True = Some c' else c' = c)) (channels ?c3') f"
    by (rule when_all_ok [OF _ good_reset_calibration])
  have "enter_mode K ctrl mode = Some (let c5 = (?c3'\<lparr>channels := f\<rparr>)\<lparr>operating_mode := mode\<rparr> in
      if mode \<noteq> VC_OPERATING_MODE_CALIBRATION
      then c5\<lparr>sys_cfg := (sys_cfg c5)\<lparr>sys_operating_mode := mode\<rparr>\<rparr>
      else c5\<lparr>cal_unlock_step := 0, cal_unlocked := False\<rparr>)"
    by (simp only: enter_mode_def Let_def a b e f bind.bind_lunit)
  moreover have "length f = length (channels ctrl)" "list_all (channel_ok K) f"
    using fo ok by (auto simp: controller_ok_def cal_watchdog_reset_def split: if_splits)
  moreover have "list_all2 (\<lambda>c c'. channel_ok K c \<and> change_channel ?old mode c = Some c') (channels ctrl) f"
  proof (rule list_all2_all_nthI)
    show "length (channels ctrl) = length f" using calculation by simp
    fix n assume n: "n < length (channels ctrl)"
    have la: "length a = length (channels ctrl)" "length b = length a" "length e = length b"
      using a2 b2 e2 by (auto dest: list_all2_lengthD)
    have ch3: "channels ?c3' = e" by (simp add: cal_watchdog_reset_def)
    show "channel_ok K (channels ctrl ! n) \<and> change_channel ?old mode (channels ctrl ! n) = Some (f ! n)"
      using list_all2_nthD [OF a2 n] list_all2_nthD [OF b2, of n] list_all2_nthD [OF e2, of n]
        list_all2_nthD [OF f2, of n] n la
      unfolding ch3 by (auto simp: change_channel_def split: if_splits)
  qed
  ultimately show thesis
    by (intro that [of f]) (auto simp: Let_def cal_watchdog_reset_def)
qed

lemma mode_refusal_ok:
  "mode_refusal ctrl mode = VC_OK \<Longrightarrow>
   mode \<in> {VC_OPERATING_MODE_NORMAL, VC_OPERATING_MODE_AUTOMATIC, VC_OPERATING_MODE_CALIBRATION}"
  by (auto simp: mode_refusal_def split: if_splits)

lemma good_enter_mode:
  assumes ok: "controller_ok K ctrl"
    and m: "mode \<in> {VC_OPERATING_MODE_NORMAL, VC_OPERATING_MODE_AUTOMATIC, VC_OPERATING_MODE_CALIBRATION}"
    and ne: "mode \<noteq> operating_mode ctrl"
  shows "good_ctl K (map_option (Pair VC_OK) (enter_mode K ctrl mode))"
  by (rule enter_mode_ok [OF assms]) (use assms in \<open>auto simp: controller_ok_def\<close>)

lemma good_set_operating_mode [inv_intros]:
  assumes "controller_ok K ctrl"
  shows "good_ctl K (vc_controller_set_operating_mode K ctrl mode)"
  using assms mode_refusal_ok [of ctrl mode]
  by (auto simp: vc_controller_set_operating_mode_def Let_def intro!: good_enter_mode)

lemma good_cal_exit [inv_intros]:
  "controller_ok K ctrl \<Longrightarrow> good_ctl K (vc_controller_cal_exit K ctrl)"
  by (simp add: vc_controller_cal_exit_def good_set_operating_mode)

lemma good_set_system_config [inv_intros]:
  "controller_ok K ctrl \<Longrightarrow> good_ctl K (vc_controller_set_system_config K ctrl cfg)"
  by (simp add: vc_controller_set_system_config_def Let_def good_set_operating_mode)

lemma good_set_system_field [inv_intros]:
  "controller_ok K ctrl \<Longrightarrow> good_ctl K (vc_controller_set_system_field K ctrl field v)"
  by (cases field) (simp_all add: good_set_operating_mode good_set_system_config)

lemma ok_calibration_unlock [inv_intros]:
  "controller_ok K ctrl \<Longrightarrow> controller_ok K (snd (vc_controller_calibration_unlock ctrl v))"
  by (simp add: vc_controller_calibration_unlock_def)

subsection \<open>The other operations\<close>

lemma good_channel_output_action [inv_intros]:
  "controller_ok K ctrl \<Longrightarrow> good_ctl K (vc_controller_channel_output_action ctrl ch a)"
  by (auto simp: vc_controller_channel_output_action_def intro!: good_on_channel good_output_action)

lemma good_channel_fault_command [inv_intros]:
  "controller_ok K ctrl \<Longrightarrow> good_ctl K (vc_controller_channel_fault_command ctrl ch c)"
  by (auto simp: vc_controller_channel_fault_command_def intro!: good_on_channel ok_fault_command)

lemma good_set_field_enable:
  assumes "channel_ok K c"
  shows "good_st K (do {
        (st, c1) \<leftarrow> vc_channel_set_field K c field v;
        if P st c1
        then do { (_, c2) \<leftarrow> vc_channel_output_action c1 VC_OUTPUT_ACTION_ENABLE; Some (st, c2) }
        else Some (st, c1) })"
proof -
  obtain st c1 where 1: "vc_channel_set_field K c field v = Some (st, c1)" "channel_ok K c1"
    by (rule good_stE [OF good_set_field [OF assms]])
  obtain st' c2 where "vc_channel_output_action c1 VC_OUTPUT_ACTION_ENABLE = Some (st', c2)" "channel_ok K c2"
    by (rule good_stE [OF good_output_action [OF 1(2)]])
  with 1 show ?thesis by simp
qed

lemma good_channel_set_field [inv_intros]:
  "controller_ok K ctrl \<Longrightarrow> good_ctl K (vc_controller_channel_set_field K ctrl ch field v)"
  unfolding vc_controller_channel_set_field_def
  by (auto intro!: good_on_channel good_set_field_enable)

lemma good_tick [inv_intros]:
  assumes K: "kconfig_in_range K" and ok: "controller_ok K ctrl"
  shows "\<exists>ctrl'. vc_controller_tick K ctrl dt = Some ctrl' \<and> controller_ok K ctrl'"
proof (cases "operating_mode ctrl = VC_OPERATING_MODE_CALIBRATION")
  case True
  then show ?thesis
    using ok by (auto simp: vc_controller_tick_def intro: good_ctlE [OF good_cal_exit [OF ok]])
next
  case False
  obtain cs where "all_channels (\<lambda>ch. vc_channel_run K ch dt (sys_cfg ctrl)) ctrl =
      Some (ctrl\<lparr>channels := cs\<rparr>)" "controller_ok K (ctrl\<lparr>channels := cs\<rparr>)"
    by (rule all_channels_ok [OF ok good_run [OF K]])
  then show ?thesis using False by (simp add: vc_controller_tick_def)
qed

lemma good_watchdog_on_ok: "good_ctl K r \<Longrightarrow> good_ctl K (watchdog_on_ok K' r)"
  by (cases r) (auto simp: watchdog_on_ok_def)

lemma good_ctl_set_cal_field [inv_intros]:
  "controller_ok K ctrl \<Longrightarrow> good_ctl K (vc_controller_channel_set_cal_field K ctrl ch field v)"
  by (auto simp: vc_controller_channel_set_cal_field_def
      intro!: good_watchdog_on_ok good_on_channel good_set_cal_field)

lemma good_ctl_cal_output_enable [inv_intros]:
  "controller_ok K ctrl \<Longrightarrow> good_ctl K (vc_controller_channel_cal_output_enable K ctrl ch e)"
  by (auto simp: vc_controller_channel_cal_output_enable_def
      intro!: good_watchdog_on_ok good_on_channel good_cal_set_output_enable)

lemma good_ctl_cal_raw_dac [inv_intros]:
  "controller_ok K ctrl \<Longrightarrow> good_ctl K (vc_controller_channel_cal_raw_dac K ctrl ch code)"
  by (auto simp: vc_controller_channel_cal_raw_dac_def
      intro!: good_watchdog_on_ok good_on_channel good_cal_set_raw_dac)

lemma good_ctl_cal_sample [inv_intros]:
  "controller_ok K ctrl \<Longrightarrow> good_ctl K (vc_controller_channel_cal_sample K ctrl ch)"
  by (auto simp: vc_controller_channel_cal_sample_def
      intro!: good_watchdog_on_ok good_on_channel ok_cal_sample)

lemma run_save_ok [simp]: "controller_ok K ctrl \<Longrightarrow> controller_ok K (snd (run_save f ctrl))"
  by (simp add: run_save_def split: prod.split)

lemma channel_index: "controller_ok K ctrl \<Longrightarrow> channel_valid ctrl ch \<Longrightarrow> unat ch < length (channels ctrl)"
  by (simp add: controller_ok_def channel_valid_def)

lemma good_ctl_cal_commit [inv_intros]:
  "controller_ok K ctrl \<Longrightarrow> good_ctl K (vc_controller_channel_cal_commit K ctrl ch)"
  using channel_index [of K ctrl ch]
  by (auto simp: vc_controller_channel_cal_commit_def Let_def split: option.split)

lemma good_load_stored_cal:
  assumes l: "loads_ok ctrl" and c: "channel_ok K c"
  shows "good K (load_stored_cal ctrl ch c)"
proof -
  have "load ch (nvs_state ctrl) = (0, Some cal) \<Longrightarrow> cal_ok cal"
    if "backend_op load_channel_cal ctrl = Some load" for load cal
    using l that by (auto simp: loads_ok_def)
  then show ?thesis
    using c by (auto simp: load_stored_cal_def vc_channel_get_cal_config_def
        split: option.split prod.split intro!: good_load_cal)
qed

lemma good_load_channel:
  assumes l: "loads_ok ctrl" and c: "channel_ok K c"
  shows "good_st K (load_channel K ctrl ch r c)"
proof -
  let ?cfg = "case snd r of None \<Rightarrow> vc_channel_get_config c | Some cfg \<Rightarrow> cfg"
  obtain st c1 where 1: "vc_channel_set_config K c ?cfg = Some (st, c1)" "channel_ok K c1"
    by (rule good_stE [OF good_set_config [OF c]])
  obtain c2 where 2: "load_stored_cal ctrl ch c1 = Some c2" "channel_ok K c2"
    by (rule goodE [OF good_load_stored_cal [OF l 1(2)]])
  obtain c3 where 3: "load_stored_cal ctrl ch c = Some c3" "channel_ok K c3"
    by (rule goodE [OF good_load_stored_cal [OF l c]])
  show ?thesis using 1 2 3 c by (simp add: load_channel_def)
qed

lemma good_factory_reset_channel:
  assumes l: "loads_ok ctrl" and c: "channel_ok K c"
  shows "good_st K (factory_reset_channel K ctrl ch c)"
proof -
  obtain st c1 where 1: "vc_channel_set_config K c (vc_channel_default_config K) = Some (st, c1)"
    "channel_ok K c1"
    by (rule good_stE [OF good_set_config [OF c]])
  obtain c2 where 2: "load_stored_cal ctrl ch c1 = Some c2" "channel_ok K c2"
    by (rule goodE [OF good_load_stored_cal [OF l 1(2)]])
  show ?thesis using 1 2 by (simp add: factory_reset_channel_def)
qed

lemma good_channel_param_action [inv_intros]:
  assumes ok: "controller_ok K ctrl" and l: "loads_ok ctrl"
  shows "good_ctl K (vc_controller_channel_param_action K ctrl ch a)"
  using ok channel_index [OF ok, of ch]
  by (auto simp: vc_controller_channel_param_action_def Let_def split: vc_param_action.split option.split
      intro!: good_on_channel good_load_channel [OF l] good_factory_reset_channel [OF l])

lemma good_system_param_action [inv_intros]:
  assumes ok: "controller_ok K ctrl" and l: "loads_ok ctrl"
  shows "good_ctl K (vc_controller_system_param_action K ctrl a)"
proof (cases a)
  case VC_PARAM_ACTION_LOAD
  have "load (nvs_state ctrl) = (rc, None) \<Longrightarrow> rc < 0"
    if "backend_op load_system_config ctrl = Some load" for load rc
    using l that by (auto simp: loads_ok_def split: option.splits)
  then show ?thesis
    using VC_PARAM_ACTION_LOAD ok good_set_system_config [OF ok]
    by (auto split: option.split prod.split)
next
  case VC_PARAM_ACTION_FACTORY_RESET
  then show ?thesis
    using ok by (auto simp: Let_def controller_ok_def split: option.split)
qed (use ok in \<open>auto split: option.split\<close>)

end
