(* ===== verification/Vc_Controller_Steps.thy ===== *)
theory Vc_Controller_Steps
  imports Vc_Controller_Inv
begin

text \<open>
  The step relation of the controller: every call the runtime makes, the passage of time, and what
  the drivers publish. With the settings backend, the store only ever holds calibration
  coefficients that the controller accepted, so loading is safe and the whole system stays
  defined; at most one channel is energised for calibration.
\<close>

subsection \<open>Events\<close>

datatype 'd ctl_event =
  Ctl_Tick u32
| Ctl_Driver u8 "'d channel_event"
| Ctl_Set_Mode vc_operating_mode
| Ctl_Unlock u16
| Ctl_Cal_Exit
| Ctl_Heartbeat
| Ctl_Output_Action u8 vc_output_action
| Ctl_Fault_Command u8 vc_channel_fault_command
| Ctl_Set_Field u8 vc_config_field u16
| Ctl_Set_Cal_Field u8 vc_cal_field u16
| Ctl_Set_System_Config vc_system_config
| Ctl_Set_System_Field vc_config_field u16
| Ctl_System_Param vc_param_action
| Ctl_Channel_Param u8 vc_param_action
| Ctl_Cal_Output u8 bool
| Ctl_Cal_Raw_Dac u8 u32
| Ctl_Cal_Sample u8
| Ctl_Cal_Commit u8
| Ctl_Start_Sampling

text \<open>What a driver does on its own: publish a sample, change its private state.\<close>

fun driver_event :: "'d channel_event \<Rightarrow> bool" where
  "driver_event (Ev_Publish_Voltage _ _) = True"
| "driver_event (Ev_Publish_Current _ _) = True"
| "driver_event (Ev_Driver _) = True"
| "driver_event _ = False"

fun ctl_exec ::
    "kconfig \<Rightarrow> 'd ctl_event \<Rightarrow> ('d, 's) vc_controller \<Rightarrow> (vc_status \<times> ('d, 's) vc_controller) option" where
  "ctl_exec K (Ctl_Tick dt) ctrl = map_option (Pair VC_OK) (vc_controller_tick K ctrl dt)"
| "ctl_exec K (Ctl_Driver ch ev) ctrl =
     (if channel_valid ctrl ch \<and> driver_event ev
      then on_channel ctrl ch (\<lambda>c. map_option (Pair VC_OK) (channel_exec K ev c))
      else Some (VC_OK, ctrl))"
| "ctl_exec K (Ctl_Set_Mode m) ctrl = vc_controller_set_operating_mode K ctrl m"
| "ctl_exec K (Ctl_Unlock v) ctrl = Some (vc_controller_calibration_unlock ctrl v)"
| "ctl_exec K Ctl_Cal_Exit ctrl = vc_controller_cal_exit K ctrl"
| "ctl_exec K Ctl_Heartbeat ctrl = Some (VC_OK, vc_controller_cal_heartbeat K ctrl)"
| "ctl_exec K (Ctl_Output_Action ch a) ctrl = vc_controller_channel_output_action ctrl ch a"
| "ctl_exec K (Ctl_Fault_Command ch c) ctrl = vc_controller_channel_fault_command ctrl ch c"
| "ctl_exec K (Ctl_Set_Field ch f v) ctrl = vc_controller_channel_set_field K ctrl ch f v"
| "ctl_exec K (Ctl_Set_Cal_Field ch f v) ctrl = vc_controller_channel_set_cal_field K ctrl ch f v"
| "ctl_exec K (Ctl_Set_System_Config cfg) ctrl = vc_controller_set_system_config K ctrl cfg"
| "ctl_exec K (Ctl_Set_System_Field f v) ctrl = vc_controller_set_system_field K ctrl f v"
| "ctl_exec K (Ctl_System_Param a) ctrl = vc_controller_system_param_action K ctrl a"
| "ctl_exec K (Ctl_Channel_Param ch a) ctrl = vc_controller_channel_param_action K ctrl ch a"
| "ctl_exec K (Ctl_Cal_Output ch e) ctrl = vc_controller_channel_cal_output_enable K ctrl ch e"
| "ctl_exec K (Ctl_Cal_Raw_Dac ch c) ctrl = vc_controller_channel_cal_raw_dac K ctrl ch c"
| "ctl_exec K (Ctl_Cal_Sample ch) ctrl = vc_controller_channel_cal_sample K ctrl ch"
| "ctl_exec K (Ctl_Cal_Commit ch) ctrl = vc_controller_channel_cal_commit K ctrl ch"
| "ctl_exec K Ctl_Start_Sampling ctrl = vc_controller_start_sampling ctrl"

fun ctl_execs ::
    "kconfig \<Rightarrow> 'd ctl_event list \<Rightarrow> ('d, 's) vc_controller \<Rightarrow> ('d, 's) vc_controller option" where
  "ctl_execs K [] ctrl = Some ctrl"
| "ctl_execs K (e # es) ctrl = ctl_exec K e ctrl \<bind> (\<lambda>p. ctl_execs K es (snd p))"

subsection \<open>Every step is defined and keeps the invariant\<close>

lemma channel_ok_start:
  "channel_ok K c \<Longrightarrow> (case start_channel c of Inl c' \<Rightarrow> channel_ok K c' | Inr c' \<Rightarrow> channel_ok K c')"
  by (auto simp: start_channel_def Let_def split: option.split prod.split)

lemma start_channels_ok:
  "list_all (channel_ok K) cs \<Longrightarrow>
   \<exists>st cs'. start_channels (length cs) cs = Some (st, cs') \<and> list_all (channel_ok K) cs' \<and>
            length cs' = length cs"
proof (induction cs)
  case (Cons c cs)
  then obtain st cs' where "start_channels (length cs) cs = Some (st, cs')" "list_all (channel_ok K) cs'"
    "length cs' = length cs" by auto
  then show ?case
    using Cons.prems channel_ok_start [of K c] by (cases "start_channel c") auto
qed simp

lemma good_start_sampling [inv_intros]:
  assumes "controller_ok K ctrl" shows "good_ctl K (vc_controller_start_sampling ctrl)"
  using assms start_channels_ok [of K "channels ctrl"]
  by (auto simp: vc_controller_start_sampling_def controller_ok_def)

lemma good_driver_event: "driver_event ev \<Longrightarrow> channel_ok K c \<Longrightarrow>
  good_st K (map_option (Pair VC_OK) (channel_exec K' ev c))"
  by (cases ev) simp_all

lemma good_ctl_exec:
  assumes "kconfig_in_range K" and "controller_ok K ctrl" and "loads_ok ctrl"
  shows "good_ctl K (ctl_exec K e ctrl)"
proof (cases e)
  case (Ctl_Tick dt)
  then show ?thesis using good_tick [OF assms(1,2), of dt] by auto
next
  case (Ctl_Driver ch ev)
  then show ?thesis using assms by (auto intro!: good_on_channel good_driver_event)
next
  case Ctl_Heartbeat
  then show ?thesis using assms by (simp add: vc_controller_cal_heartbeat_def)
qed (use assms in \<open>auto intro: inv_intros\<close>)

subsection \<open>The store\<close>

text \<open>
  The controller runs on the settings backend, and the store holds only coefficients whose
  exponents are inside the table.
\<close>

definition store_ok ::
    "'s settings_api \<Rightarrow> ('s \<Rightarrow> string \<Rightarrow> stored option) \<Rightarrow> nat \<Rightarrow> ('d, 's) vc_controller \<Rightarrow> bool" where
  "store_ok z lookup m ctrl \<longleftrightarrow>
     storage ctrl = Some (vc_settings_storage z m) \<and>
     (\<forall>ch cal. cal_of (lookup (nvs_state ctrl) (cal_key ch)) = Some cal \<longrightarrow> cal_ok cal)"

lemma store_ok_cong:
  "storage ctrl' = storage ctrl \<Longrightarrow> nvs_state ctrl' = nvs_state ctrl \<Longrightarrow>
   store_ok z lookup m ctrl' = store_ok z lookup m ctrl"
  by (simp add: store_ok_def)

text \<open>Operations that leave backend and store alone.\<close>

definition same_store :: "('d, 's) vc_controller \<Rightarrow> ('d, 's) vc_controller \<Rightarrow> bool" where
  "same_store ctrl ctrl' \<longleftrightarrow> storage ctrl' = storage ctrl \<and> nvs_state ctrl' = nvs_state ctrl"

lemma same_store_on_channel: "on_channel ctrl ch f = Some (st, ctrl') \<Longrightarrow> same_store ctrl ctrl'"
  by (auto simp: on_channel_def same_store_def split: if_splits bind_splits)

lemma same_store_all_channels: "all_channels f ctrl = Some ctrl' \<Longrightarrow> same_store ctrl ctrl'"
  by (auto simp: all_channels_def same_store_def split: bind_splits)

lemma same_store_when_all: "when_all b f ctrl = Some ctrl' \<Longrightarrow> same_store ctrl ctrl'"
  by (auto simp: when_all_def same_store_def dest: same_store_all_channels split: if_splits)

lemma same_store_watchdog:
  "watchdog_on_ok K r = Some (st, ctrl') \<Longrightarrow> (\<And>st c. r = Some (st, c) \<Longrightarrow> same_store ctrl c) \<Longrightarrow>
   same_store ctrl ctrl'"
  by (auto simp: watchdog_on_ok_def cal_watchdog_reset_def same_store_def split: bind_splits)

lemma same_store_enter_mode:
  assumes "enter_mode K ctrl mode = Some ctrl'" shows "same_store ctrl ctrl'"
  using assms
  by (auto simp: enter_mode_def Let_def same_store_def cal_watchdog_reset_def
      dest!: same_store_when_all split: bind_splits if_splits)

lemma same_store_set_operating_mode:
  "vc_controller_set_operating_mode K ctrl mode = Some (st, ctrl') \<Longrightarrow> same_store ctrl ctrl'"
  by (auto simp: vc_controller_set_operating_mode_def Let_def cal_watchdog_reset_def
      dest: same_store_enter_mode split: if_splits) (simp_all add: same_store_def)

lemma same_store_set_system_config:
  "vc_controller_set_system_config K ctrl cfg = Some (st, ctrl') \<Longrightarrow> same_store ctrl ctrl'"
  by (auto simp: vc_controller_set_system_config_def Let_def same_store_def
      dest!: same_store_set_operating_mode split: if_splits)

lemma same_store_tick:
  assumes "vc_controller_tick K ctrl dt = Some ctrl'" shows "same_store ctrl ctrl'"
proof (cases "operating_mode ctrl = VC_OPERATING_MODE_CALIBRATION")
  case True
  then show ?thesis
    using assms by (auto simp: vc_controller_tick_def vc_controller_cal_exit_def same_store_def
        dest!: same_store_set_operating_mode split: if_splits)
next
  case False
  then show ?thesis using assms by (auto simp: vc_controller_tick_def dest: same_store_all_channels)
qed

text \<open>The events that do not write the store.\<close>

fun writes_store :: "'d ctl_event \<Rightarrow> bool" where
  "writes_store (Ctl_System_Param _) = True"
| "writes_store (Ctl_Channel_Param _ _) = True"
| "writes_store (Ctl_Cal_Commit _) = True"
| "writes_store _ = False"

lemmas same_store_rules = same_store_on_channel same_store_set_operating_mode
  same_store_set_system_config same_store_tick

lemma same_store_refl [simp]: "same_store ctrl ctrl"
  by (simp add: same_store_def)

lemma same_store_exec:
  assumes e: "\<not> writes_store e" and r: "ctl_exec K e ctrl = Some (st, ctrl')"
  shows "same_store ctrl ctrl'"
proof (cases e)
  case (Ctl_Set_System_Field f v)
  then show ?thesis using r by (cases f) (auto dest: same_store_rules)
next
  case (Ctl_Unlock v)
  then show ?thesis using r
    by (auto simp: vc_controller_calibration_unlock_def same_store_def split: if_splits)
next
  case Ctl_Heartbeat
  then show ?thesis using r
    by (auto simp: vc_controller_cal_heartbeat_def cal_watchdog_reset_def same_store_def split: if_splits)
next
  case Ctl_Start_Sampling
  then show ?thesis using r
    by (auto simp: vc_controller_start_sampling_def same_store_def split: bind_splits)
next
  case (Ctl_Set_Cal_Field ch f v)
  then show ?thesis using r
    by (auto simp: vc_controller_channel_set_cal_field_def split: if_splits
        intro: same_store_watchdog same_store_on_channel)
next
  case (Ctl_Cal_Output ch b)
  then show ?thesis using r
    by (auto simp: vc_controller_channel_cal_output_enable_def split: if_splits
        intro: same_store_watchdog same_store_on_channel)
next
  case (Ctl_Cal_Raw_Dac ch c)
  then show ?thesis using r
    by (auto simp: vc_controller_channel_cal_raw_dac_def split: if_splits
        intro: same_store_watchdog same_store_on_channel)
next
  case (Ctl_Cal_Sample ch)
  then show ?thesis using r
    by (auto simp: vc_controller_channel_cal_sample_def split: if_splits
        intro: same_store_watchdog same_store_on_channel)
next
  case Ctl_Cal_Exit
  then show ?thesis using r
    by (auto simp: vc_controller_cal_exit_def split: if_splits dest: same_store_rules)
qed (use e r in \<open>auto simp: vc_controller_channel_output_action_def
      vc_controller_channel_fault_command_def vc_controller_channel_set_field_def
      split: if_splits dest: same_store_rules\<close>)

lemma controller_channel_ok:
  "controller_ok K ctrl \<Longrightarrow> i < length (channels ctrl) \<Longrightarrow> channel_ok K (channels ctrl ! i)"
  by (simp add: controller_ok_def list_all_length)

lemma store_ok_pair: "run_save f ctrl = (st, ctrl') \<Longrightarrow> ctrl' = snd (run_save f ctrl)"
  by simp

context zephyr_settings
begin

lemma store_ok_loads_ok:
  assumes "store_ok z lookup m ctrl" shows "loads_ok ctrl"
proof -
  have b: "storage ctrl = Some (vc_settings_storage z m)"
    and c: "\<And>ch cal. cal_of (lookup (nvs_state ctrl) (cal_key ch)) = Some cal \<Longrightarrow> cal_ok cal"
    using assms by (auto simp: store_ok_def)
  have "cal_ok cal" if "settings_load_ch_cal z ch (nvs_state ctrl) = (0, Some cal)" for ch cal
    using c storage.load_cal_ok [OF that] by auto
  moreover have "rc < 0" if "settings_load_sys z (nvs_state ctrl) = (rc, None)" for rc
    using storage.load_sys_ok [OF that] by (cases "rc < 0") auto
  ultimately show ?thesis
    unfolding loads_ok_def backend_op_def by (simp add: b vc_settings_storage_def)
qed

lemma store_ok_save_sys:
  assumes "store_ok z lookup m ctrl"
  shows "store_ok z lookup m (snd (run_save (settings_save_sys z cfg) ctrl))"
  using assms storage.save_sys_frame [of cfg "nvs_state ctrl"]
  by (auto simp: run_save_def store_ok_def split: prod.split)

lemma store_ok_save_cfg:
  assumes "store_ok z lookup m ctrl"
  shows "store_ok z lookup m (snd (run_save (settings_save_ch_cfg z ch cfg) ctrl))"
  using assms storage.save_cfg_frame [of ch cfg "nvs_state ctrl"]
  by (auto simp: run_save_def store_ok_def split: prod.split)

lemma store_ok_save_cal:
  assumes ok: "store_ok z lookup m ctrl" and cal: "cal_ok cal"
  shows "store_ok z lookup m (snd (run_save (settings_save_ch_cal z ch cal) ctrl))"
proof (cases "settings_save_ch_cal z ch cal (nvs_state ctrl)")
  case (Pair rc s)
  have "cal_ok c" if "cal_of (lookup s (cal_key n)) = Some c" for n c
  proof (cases "n = ch \<and> 0 \<le> rc")
    case True
    then show ?thesis using storage.save_cal [OF Pair] that cal by simp
  next
    case False
    then have "cal_of (lookup s (cal_key n)) = cal_of (lookup (nvs_state ctrl) (cal_key n))"
      using storage.save_cal_frame [OF Pair, of n] storage.save_failed [OF Pair]
      by (cases "n = ch") auto
    then show ?thesis using ok that by (auto simp: store_ok_def)
  qed
  then show ?thesis using ok Pair by (simp add: run_save_def store_ok_def)
qed

lemma store_ok_erase:
  assumes "store_ok z lookup m ctrl"
  shows "store_ok z lookup m (ctrl\<lparr>nvs_state := snd (settings_erase z m (nvs_state ctrl))\<rparr>)"
proof -
  have "cal_ok cal"
    if "cal_of (lookup (snd (settings_erase z m (nvs_state ctrl))) (cal_key ch)) = Some cal" for ch cal
    using storage.erase_cal [OF that] assms by (auto simp: store_ok_def)
  then show ?thesis using assms by (simp add: store_ok_def)
qed

lemma store_ok_system_param:
  assumes ok: "store_ok z lookup m ctrl"
    and r: "vc_controller_system_param_action K ctrl a = Some (st, ctrl')"
  shows "store_ok z lookup m ctrl'"
proof -
  have b: "storage ctrl = Some (vc_settings_storage z m)" using ok by (simp add: store_ok_def)
  show ?thesis
  proof (cases a)
    case VC_PARAM_ACTION_SAVE
    then show ?thesis
      using r store_ok_save_sys [OF ok, of "sys_cfg ctrl"] by (simp add: backend_op_def b vc_settings_storage_def)
  next
    case VC_PARAM_ACTION_LOAD
    then have "same_store ctrl ctrl'"
      using r by (auto simp: backend_op_def b vc_settings_storage_def
          split: prod.splits if_splits option.splits dest: same_store_set_system_config)
    then show ?thesis using ok by (simp add: same_store_def store_ok_def)
  next
    case VC_PARAM_ACTION_FACTORY_RESET
    then show ?thesis
      using r store_ok_erase [OF ok]
      by (auto simp: backend_op_def b vc_settings_storage_def Let_def store_ok_def)
  qed (use r ok in auto)
qed

lemma store_ok_channel_param:
  assumes ok: "store_ok z lookup m ctrl"
    and r: "vc_controller_channel_param_action K ctrl ch a = Some (st, ctrl')"
  shows "store_ok z lookup m ctrl'"
proof -
  have b: "storage ctrl = Some (vc_settings_storage z m)" using ok by (simp add: store_ok_def)
  have "store_ok z lookup m ctrl'" if "on_channel ctrl ch f = Some (st, ctrl')" for f
    using same_store_on_channel [OF that] ok by (simp add: same_store_def store_ok_def)
  then show ?thesis
    using r ok store_ok_save_cfg [OF ok, of ch]
    by (auto simp: vc_controller_channel_param_action_def backend_op_def b vc_settings_storage_def
        split: vc_param_action.splits if_splits dest: store_ok_pair)
qed

lemma store_ok_cal_commit:
  assumes ok: "store_ok z lookup m ctrl" and c: "controller_ok K ctrl"
    and r: "vc_controller_channel_cal_commit K ctrl ch = Some (st, ctrl')"
  shows "store_ok z lookup m ctrl'"
proof -
  have b: "storage ctrl = Some (vc_settings_storage z m)" using ok by (simp add: store_ok_def)
  let ?c1 = "cal_watchdog_reset K ctrl"
  have ok1: "store_ok z lookup m ?c1" using ok by (simp add: cal_watchdog_reset_def store_ok_def)
  have "cal_ok (cal_config (channels ctrl ! unat ch))" if "unat ch < length (channels ctrl)"
    using controller_channel_ok [OF c that] by simp
  then show ?thesis
    using r ok ok1 store_ok_save_cal [OF ok1, of "cal_config (channels ctrl ! unat ch)" ch]
    by (auto simp: vc_controller_channel_cal_commit_def backend_op_def vc_settings_storage_def Let_def
        cal_watchdog_reset_def b vc_channel_get_cal_config_def split: if_splits dest: store_ok_pair)
qed

lemma store_ok_exec:
  assumes ok: "store_ok z lookup m ctrl" and c: "controller_ok K ctrl"
    and r: "ctl_exec K e ctrl = Some (st, ctrl')"
  shows "store_ok z lookup m ctrl'"
proof (cases "writes_store e")
  case True
  then show ?thesis
    using r store_ok_system_param [OF ok] store_ok_channel_param [OF ok] store_ok_cal_commit [OF ok c]
    by (cases e) auto
next
  case False
  then show ?thesis using same_store_exec [OF False r] ok by (simp add: same_store_def store_ok_def)
qed

text \<open>Any sequence of events is defined.\<close>

lemma ctl_execs_ok:
  assumes K: "kconfig_in_range K"
  shows "controller_ok K ctrl \<Longrightarrow> store_ok z lookup m ctrl \<Longrightarrow>
    \<exists>ctrl'. ctl_execs K es ctrl = Some ctrl' \<and> controller_ok K ctrl' \<and> store_ok z lookup m ctrl'"
proof (induction es arbitrary: ctrl)
  case (Cons e es)
  obtain st c where 1: "ctl_exec K e ctrl = Some (st, c)" "controller_ok K c"
    by (rule good_ctlE [OF good_ctl_exec [OF K Cons.prems(1) store_ok_loads_ok [OF Cons.prems(2)], of e]])
  then show ?case
    using Cons.IH [OF 1(2) store_ok_exec [OF Cons.prems(2,1) 1(1)]] by simp
qed simp

end

end
