(* ===== verification/Vc_Controller_Hot.thy ===== *)
theory Vc_Controller_Hot
  imports Vc_Controller_Steps
begin

text \<open>
  Which channels a calibration session has energised. Only enabling a calibration output can add
  a channel to that set, and it does so only when no other channel is in it; every other step
  keeps the set or shrinks it, and leaving CALIBRATION mode empties it.
\<close>

definition hot :: "('d, 's) vc_controller \<Rightarrow> nat set" where
  "hot ctrl = {i. i < length (channels ctrl) \<and> energised (channels ctrl ! i)}"

lemma hot_updates [simp]:
  "hot (ctrl\<lparr>cal_watchdog_ms := t\<rparr>) = hot ctrl"
  "hot (ctrl\<lparr>sys_cfg := cfg\<rparr>) = hot ctrl"
  "hot (ctrl\<lparr>nvs_state := s\<rparr>) = hot ctrl"
  "hot (cal_watchdog_reset K ctrl) = hot ctrl"
  "hot (snd (run_save f ctrl)) = hot ctrl"
  by (simp_all add: hot_def cal_watchdog_reset_def run_save_def split: prod.split)

lemma hot_run_save: "run_save f ctrl = (st, ctrl') \<Longrightarrow> hot ctrl' = hot ctrl"
  by (metis hot_updates(5) snd_conv)

lemma hot_on_channel:
  assumes ok: "controller_ok K ctrl" and r: "on_channel ctrl ch f = Some (st, ctrl')"
    and f: "\<And>c st c'. channel_ok K c \<Longrightarrow> f c = Some (st, c') \<Longrightarrow> cools c c'"
  shows "hot ctrl' \<subseteq> hot ctrl"
proof -
  let ?c = "channels ctrl ! unat ch"
  have i: "unat ch < length (channels ctrl)" using r by (simp add: on_channel_def split: if_splits)
  obtain c' where c': "f ?c = Some (st, c')" and e: "ctrl' = ctrl\<lparr>channels := (channels ctrl)[unat ch := c']\<rparr>"
    using r i by (auto simp: on_channel_def split: bind_splits)
  have "cools ?c c'" by (rule f [OF controller_channel_ok [OF ok i] c'])
  then show ?thesis
    using i by (auto simp: e hot_def cools_def nth_list_update split: if_splits)
qed

lemma hot_list_all2:
  assumes "list_all2 (\<lambda>c c'. cools c c') (channels ctrl) cs" and "channels ctrl' = cs"
  shows "hot ctrl' \<subseteq> hot ctrl"
  using assms by (auto simp: hot_def list_all2_conv_all_nth cools_def)

lemma cools_auto_enable: "channel_ok K c \<Longrightarrow> auto_enable c = Some c' \<Longrightarrow> cools c c'"
  by (auto simp: auto_enable_def split: if_splits intro: cools_output_action)

lemma cools_reset: "channel_ok K c \<Longrightarrow> vc_channel_reset_calibration c e = Some c' \<Longrightarrow> cools c c'"
  using reset_calibration_cold [of K c e c'] by (simp add: cools_def)

lemma change_channel_steps:
  assumes "channel_ok K c" and "change_channel old mode c = Some c'"
  shows "cools c c'" and "old = VC_OPERATING_MODE_CALIBRATION \<or> mode = VC_OPERATING_MODE_CALIBRATION \<Longrightarrow> \<not> energised c'"
proof -
  let ?f1 = "if old = VC_OPERATING_MODE_CALIBRATION then vc_channel_reset_calibration c False else Some c"
  have "good K ?f1" using assms(1) by (simp add: good_reset_calibration)
  then obtain c1 where 1: "?f1 = Some c1" and o1: "channel_ok K c1" by (rule goodE)
  let ?f2 = "if mode = VC_OPERATING_MODE_NORMAL \<and> old = VC_OPERATING_MODE_AUTOMATIC
      then map_option snd (vc_channel_output_action c1 VC_OUTPUT_ACTION_DISABLE_GRACEFUL) else Some c1"
  have "good K ?f2" using o1 by (simp add: good_graceful)
  then obtain c2 where 2: "?f2 = Some c2" and o2: "channel_ok K c2" by (rule goodE)
  let ?f3 = "if mode = VC_OPERATING_MODE_AUTOMATIC then auto_enable c2 else Some c2"
  have "good K ?f3" using o2 by (simp add: good_auto_enable)
  then obtain c3 where 3: "?f3 = Some c3" and o3: "channel_ok K c3" by (rule goodE)
  have 4: "(if mode = VC_OPERATING_MODE_CALIBRATION then vc_channel_reset_calibration c3 True
      else Some c3) = Some c'"
    using assms(2) unfolding change_channel_def by (simp only: 1 2 3 bind.bind_lunit)
  have k1: "cools c c1" using 1 assms(1) cools_reset [of K c False c1] by (auto split: if_splits)
  have k2: "cools c1 c2" using 2 o1 by (auto split: if_splits intro: cools_output_action)
  have k3: "cools c2 c3" using 3 o2 cools_auto_enable [of K c2 c3] by (auto split: if_splits)
  have k4: "cools c3 c'" using 4 o3 cools_reset [of K c3 True c'] by (auto split: if_splits)
  show "cools c c'" by (rule cools_trans [OF k1 cools_trans [OF k2 cools_trans [OF k3 k4]]])
  show "\<not> energised c'" if "old = VC_OPERATING_MODE_CALIBRATION \<or> mode = VC_OPERATING_MODE_CALIBRATION"
  proof (cases "mode = VC_OPERATING_MODE_CALIBRATION")
    case True
    then show ?thesis using 4 o3 reset_calibration_cold [of K c3 True c'] by simp
  next
    case False
    then have "\<not> energised c1"
      using that 1 assms(1) reset_calibration_cold [of K c False c1] by simp
    then show ?thesis using k2 k3 k4 by (simp add: cools_def)
  qed
qed

lemma hot_enter_mode:
  assumes ok: "controller_ok K ctrl"
    and m: "mode \<in> {VC_OPERATING_MODE_NORMAL, VC_OPERATING_MODE_AUTOMATIC, VC_OPERATING_MODE_CALIBRATION}"
    and ne: "mode \<noteq> operating_mode ctrl" and r: "enter_mode K ctrl mode = Some ctrl'"
  shows "hot ctrl' \<subseteq> hot ctrl"
    and "operating_mode ctrl = VC_OPERATING_MODE_CALIBRATION \<or> mode = VC_OPERATING_MODE_CALIBRATION \<Longrightarrow>
         hot ctrl' = {}"
    and "operating_mode ctrl' = mode"
proof -
  obtain cs where cs: "channels ctrl' = cs" and "operating_mode ctrl' = mode"
    and 2: "list_all2 (\<lambda>c c'. channel_ok K c \<and> change_channel (operating_mode ctrl) mode c = Some c')
           (channels ctrl) cs"
    by (rule enter_mode_ok [OF ok m ne]) (use r in auto)
  then show "operating_mode ctrl' = mode" by simp
  have "list_all2 cools (channels ctrl) cs"
    using 2 by (rule list_all2_mono) (auto intro: change_channel_steps(1))
  then show "hot ctrl' \<subseteq> hot ctrl" by (rule hot_list_all2) (rule cs)
  show "hot ctrl' = {}"
    if "operating_mode ctrl = VC_OPERATING_MODE_CALIBRATION \<or> mode = VC_OPERATING_MODE_CALIBRATION"
    using 2 change_channel_steps(2) [OF _ _ that]
    by (fastforce simp: hot_def cs list_all2_conv_all_nth)
qed

lemma hot_set_operating_mode:
  assumes ok: "controller_ok K ctrl" and r: "vc_controller_set_operating_mode K ctrl mode = Some (st, ctrl')"
  shows "hot ctrl' \<subseteq> hot ctrl"
    and "operating_mode ctrl' \<noteq> VC_OPERATING_MODE_CALIBRATION \<Longrightarrow>
         operating_mode ctrl \<noteq> VC_OPERATING_MODE_CALIBRATION \<or> hot ctrl' = {}"
proof -
  consider "hot ctrl' = hot ctrl" "operating_mode ctrl' = operating_mode ctrl"
    | "mode_refusal ctrl mode = VC_OK" "mode \<noteq> operating_mode ctrl" "enter_mode K ctrl mode = Some ctrl'"
    using r by (auto simp: vc_controller_set_operating_mode_def Let_def cal_watchdog_reset_def hot_def
        split: if_splits)
  then have "hot ctrl' \<subseteq> hot ctrl \<and> (operating_mode ctrl' \<noteq> VC_OPERATING_MODE_CALIBRATION \<longrightarrow>
         operating_mode ctrl \<noteq> VC_OPERATING_MODE_CALIBRATION \<or> hot ctrl' = {})"
  proof cases
    case 1
    then show ?thesis by auto
  next
    case 2
    show ?thesis using hot_enter_mode [OF ok mode_refusal_ok [OF 2(1)] 2(2,3)] by auto
  qed
  then show "hot ctrl' \<subseteq> hot ctrl"
    and "operating_mode ctrl' \<noteq> VC_OPERATING_MODE_CALIBRATION \<Longrightarrow>
         operating_mode ctrl \<noteq> VC_OPERATING_MODE_CALIBRATION \<or> hot ctrl' = {}" by auto
qed

text \<open>
  How a step changes the set: \<open>calm\<close> steps shrink it, and empty it when they leave CALIBRATION.
\<close>

definition calm :: "('d, 's) vc_controller \<Rightarrow> ('d, 's) vc_controller \<Rightarrow> bool" where
  "calm ctrl ctrl' \<longleftrightarrow>
     hot ctrl' \<subseteq> hot ctrl \<and>
     (operating_mode ctrl = VC_OPERATING_MODE_CALIBRATION \<and>
      operating_mode ctrl' \<noteq> VC_OPERATING_MODE_CALIBRATION \<longrightarrow> hot ctrl' = {})"

lemma calm_set_operating_mode:
  "controller_ok K ctrl \<Longrightarrow> vc_controller_set_operating_mode K ctrl mode = Some (st, ctrl') \<Longrightarrow>
   calm ctrl ctrl'"
  using hot_set_operating_mode [of K ctrl mode st ctrl'] by (auto simp only: calm_def)

lemma calm_same_mode: "hot ctrl' \<subseteq> hot ctrl \<Longrightarrow> operating_mode ctrl' = operating_mode ctrl \<Longrightarrow> calm ctrl ctrl'"
  by (simp add: calm_def)

lemma calm_refl [simp]: "calm ctrl ctrl"
  by (simp add: calm_def)

lemma on_channel_mode: "on_channel ctrl ch f = Some (st, ctrl') \<Longrightarrow> operating_mode ctrl' = operating_mode ctrl"
  by (auto simp: on_channel_def split: if_splits bind_splits)

lemma calm_on_channel:
  assumes "controller_ok K ctrl" and "on_channel ctrl ch f = Some (st, ctrl')"
    and "\<And>c st c'. channel_ok K c \<Longrightarrow> f c = Some (st, c') \<Longrightarrow> cools c c'"
  shows "calm ctrl ctrl'"
  using hot_on_channel [OF assms] on_channel_mode [OF assms(2)] by (rule calm_same_mode)

lemma calm_watchdog:
  assumes "watchdog_on_ok K r = Some (st, ctrl')" and "\<And>st c. r = Some (st, c) \<Longrightarrow> calm ctrl c"
  shows "calm ctrl ctrl'"
  using assms by (auto simp: watchdog_on_ok_def cal_watchdog_reset_def calm_def hot_def
      split: bind_splits if_splits)

lemma calm_set_system_config:
  assumes ok: "controller_ok K ctrl" and r: "vc_controller_set_system_config K ctrl cfg = Some (st, ctrl')"
  shows "calm ctrl ctrl'"
proof -
  let ?c1 = "ctrl\<lparr>sys_cfg := (if sys_operating_mode cfg = VC_OPERATING_MODE_CALIBRATION
      then cfg\<lparr>sys_operating_mode := sys_operating_mode (sys_cfg ctrl)\<rparr> else cfg)\<rparr>"
  have e: "calm ?c1 c \<longleftrightarrow> calm ctrl c" for c by (simp add: calm_def hot_def)
  show ?thesis
  proof (cases "sys_operating_mode cfg = operating_mode ctrl")
    case True
    then have c: "ctrl' = ?c1" using r by (simp add: vc_controller_set_system_config_def Let_def)
    show ?thesis unfolding c by (rule e [THEN iffD1]) (rule calm_refl)
  next
    case False
    then have "vc_controller_set_operating_mode K ?c1 (sys_operating_mode cfg) = Some (st, ctrl')"
      using r by (simp add: vc_controller_set_system_config_def Let_def)
    then have "calm ?c1 ctrl'" using ok by (intro calm_set_operating_mode [of K]) simp_all
    then show ?thesis using e by simp
  qed
qed

lemma calm_tick:
  assumes K: "kconfig_in_range K" and ok: "controller_ok K ctrl" and r: "vc_controller_tick K ctrl dt = Some ctrl'"
  shows "calm ctrl ctrl'"
proof (cases "operating_mode ctrl = VC_OPERATING_MODE_CALIBRATION")
  case True
  then show ?thesis
    using r calm_set_operating_mode [OF ok]
    by (auto simp: vc_controller_tick_def vc_controller_cal_exit_def calm_def hot_def split: if_splits)
next
  case False
  obtain cs where c: "all_channels (\<lambda>ch. vc_channel_run K ch dt (sys_cfg ctrl)) ctrl =
      Some (ctrl\<lparr>channels := cs\<rparr>)"
    and 2: "list_all2 (\<lambda>c c'. vc_channel_run K c dt (sys_cfg ctrl) = Some c' \<and> channel_ok K c \<and> channel_ok K c')
      (channels ctrl) cs"
    by (rule all_channels_ok [OF ok good_run [OF K]])
  have "list_all2 cools (channels ctrl) cs"
    using 2 by (rule list_all2_mono) (auto intro: cools_run)
  then have "hot (ctrl\<lparr>channels := cs\<rparr>) \<subseteq> hot ctrl" by (rule hot_list_all2) simp
  then show ?thesis using False c r by (simp add: vc_controller_tick_def calm_def)
qed

lemma start_channels_hot:
  "start_channels n cs = Some (st, cs') \<Longrightarrow> list_all2 cools cs cs'"
proof (induction n cs arbitrary: st cs' rule: start_channels.induct)
  case (1 cs)
  then show ?case by (simp add: list_all2_same)
next
  case (3 n c cs)
  have "case start_channel c of Inl c' \<Rightarrow> cools c c' | Inr c' \<Rightarrow> cools c c'"
    by (auto simp: start_channel_def Let_def split: option.split prod.split)
  then show ?case
    using "3.IH" "3.prems"
    by (cases "start_channel c") (auto simp: list_all2_same split: bind_splits)
qed simp

lemma calm_load_stored_cal:
  assumes l: "loads_ok ctrl" and c: "channel_ok K c" and r: "load_stored_cal ctrl ch c = Some c'"
  shows "cools c c'"
proof -
  have "load ch (nvs_state ctrl) = (0, Some cal) \<Longrightarrow> cal_ok cal"
    if "backend_op load_channel_cal ctrl = Some load" for load cal
    using l that by (auto simp: loads_ok_def)
  then show ?thesis
    using c r
    by (auto simp: load_stored_cal_def vc_channel_get_cal_config_def
        split: option.splits prod.splits if_splits
        dest: cools_load_cal [OF c channel_ok_cal_ok [OF c]] intro: cools_load_cal [OF c])
qed

lemma cools_load_channel:
  assumes l: "loads_ok ctrl" and c: "channel_ok K c" and r: "load_channel K ctrl ch res c = Some (st, c')"
  shows "cools c c'"
proof -
  let ?cfg = "case snd res of None \<Rightarrow> vc_channel_get_config c | Some cfg \<Rightarrow> cfg"
  obtain s1 c1 where 1: "vc_channel_set_config K c ?cfg = Some (s1, c1)" "channel_ok K c1"
    by (rule good_stE [OF good_set_config [OF c]])
  have k1: "cools c c1" by (rule cools_set_config [OF c 1(1)])
  have k2: "load_stored_cal ctrl ch c1 = Some c2 \<Longrightarrow> cools c c2" for c2
    using cools_trans [OF k1 calm_load_stored_cal [OF l 1(2)]] by blast
  show ?thesis
    using r 1 k1 k2 calm_load_stored_cal [OF l c]
    by (auto simp: load_channel_def split: if_splits)
qed

lemma cools_factory_reset:
  assumes l: "loads_ok ctrl" and c: "channel_ok K c" and r: "factory_reset_channel K ctrl ch c = Some (st, c')"
  shows "cools c c'"
proof -
  obtain s1 c1 where 1: "vc_channel_set_config K c (vc_channel_default_config K) = Some (s1, c1)"
    "channel_ok K c1"
    by (rule good_stE [OF good_set_config [OF c]])
  have k1: "cools c c1" by (rule cools_set_config [OF c 1(1)])
  show ?thesis
    using r 1 k1 cools_trans [OF k1 calm_load_stored_cal [OF l 1(2)]]
    by (auto simp: factory_reset_channel_def split: if_splits)
qed

text \<open>The two events that are not calm.\<close>

fun calm_event :: "'d ctl_event \<Rightarrow> bool" where
  "calm_event (Ctl_Cal_Output ch e) = (\<not> e)"
| "calm_event (Ctl_System_Param a) = (a \<noteq> VC_PARAM_ACTION_FACTORY_RESET)"
| "calm_event _ = True"

lemma cools_set_field_enable:
  assumes c: "channel_ok K c"
    and r: "do {
        (st, c1) \<leftarrow> vc_channel_set_field K c field v;
        if P st c1
        then do { (_, c2) \<leftarrow> vc_channel_output_action c1 VC_OUTPUT_ACTION_ENABLE; Some (st, c2) }
        else Some (st, c1) } = Some (st', c')"
  shows "cools c c'"
proof -
  obtain st c1 where 1: "vc_channel_set_field K c field v = Some (st, c1)" "channel_ok K c1"
    by (rule good_stE [OF good_set_field [OF c]])
  have k: "cools c c1" by (rule cools_set_field [OF c 1(1)])
  show ?thesis
    using r 1 k cools_trans [OF k cools_output_action [OF 1(2)]]
    by (auto split: if_splits bind_splits)
qed

lemma calm_exec:
  assumes K: "kconfig_in_range K" and ok: "controller_ok K ctrl" and l: "loads_ok ctrl"
    and e: "calm_event e" and r: "ctl_exec K e ctrl = Some (st, ctrl')"
  shows "calm ctrl ctrl'"
proof (cases e)
  case (Ctl_Tick dt)
  then show ?thesis using r calm_tick [OF K ok] by auto
next
  case (Ctl_Driver ch ev)
  have "cools c c'" if "driver_event ev" "map_option (Pair VC_OK) (channel_exec K ev c) = Some (st, c')"
    for c c' st
    using that by (cases ev) (auto simp: cools_def energised_def)
  then show ?thesis using Ctl_Driver r by (auto split: if_splits intro: calm_on_channel [OF ok])
next
  case (Ctl_Set_Mode m)
  then show ?thesis using r calm_set_operating_mode [OF ok] by auto
next
  case (Ctl_Unlock v)
  then show ?thesis using r
    by (auto simp: vc_controller_calibration_unlock_def calm_def hot_def split: if_splits)
next
  case Ctl_Cal_Exit
  then show ?thesis using r calm_set_operating_mode [OF ok]
    by (auto simp: vc_controller_cal_exit_def split: if_splits)
next
  case Ctl_Heartbeat
  then show ?thesis using r
    by (auto simp: vc_controller_cal_heartbeat_def cal_watchdog_reset_def calm_def hot_def split: if_splits)
next
  case (Ctl_Output_Action ch a)
  then show ?thesis using r
    by (auto simp: vc_controller_channel_output_action_def split: if_splits
        intro: calm_on_channel [OF ok] cools_output_action)
next
  case (Ctl_Fault_Command ch c)
  have "vc_channel_fault_command x c = (s, y) \<Longrightarrow> cools x y" for x y :: "'a vc_channel" and s
    using cools_fault_command [of x c] by simp
  then show ?thesis using Ctl_Fault_Command r
    by (auto simp: vc_controller_channel_fault_command_def split: if_splits
        intro: calm_on_channel [OF ok])
next
  case (Ctl_Set_Field ch f v)
  then show ?thesis using r
    by (auto simp: vc_controller_channel_set_field_def split: if_splits
        intro: calm_on_channel [OF ok] cools_set_field_enable)
next
  case (Ctl_Set_Cal_Field ch f v)
  then show ?thesis using r
    by (auto simp: vc_controller_channel_set_cal_field_def split: if_splits
        intro: calm_watchdog calm_on_channel [OF ok] cools_set_cal_field)
next
  case (Ctl_Set_System_Config cfg)
  then show ?thesis using r calm_set_system_config [OF ok] by auto
next
  case (Ctl_Set_System_Field f v)
  then show ?thesis using r calm_set_system_config [OF ok] calm_set_operating_mode [OF ok]
    by (cases f) auto
next
  case (Ctl_System_Param a)
  then show ?thesis using r e calm_set_system_config [OF ok]
    by (cases a) (auto split: option.splits prod.splits if_splits simp: run_save_def calm_def hot_def)
next
  case (Ctl_Channel_Param ch a)
  then show ?thesis using r
    by (cases a) (auto simp: vc_controller_channel_param_action_def run_save_def calm_def [of _ "_\<lparr>nvs_state := _\<rparr>"]
        split: option.splits prod.splits if_splits
        intro: calm_on_channel [OF ok] cools_load_channel [OF l] cools_factory_reset [OF l])
next
  case (Ctl_Cal_Output ch b)
  then show ?thesis using r e
    by (auto simp: vc_controller_channel_cal_output_enable_def split: if_splits
        intro: calm_watchdog calm_on_channel [OF ok] cools_cal_disable)
next
  case (Ctl_Cal_Raw_Dac ch c)
  then show ?thesis using r
    by (auto simp: vc_controller_channel_cal_raw_dac_def split: if_splits
        intro: calm_watchdog calm_on_channel [OF ok] cools_cal_set_raw_dac)
next
  case (Ctl_Cal_Sample ch)
  have "vc_channel_cal_sample x = (s, y) \<Longrightarrow> cools x y" for x y :: "'a vc_channel" and s
    using cools_cal_sample [of x] by simp
  then have "calm ctrl y" if "on_channel ctrl ch (\<lambda>c. Some (vc_channel_cal_sample c)) = Some (s, y)" for s y
    using that by (rule_tac calm_on_channel [OF ok that]) auto
  then show ?thesis using Ctl_Cal_Sample r
    by (auto simp: vc_controller_channel_cal_sample_def split: if_splits intro: calm_watchdog)
next
  case (Ctl_Cal_Commit ch)
  then show ?thesis using r
    by (auto simp: vc_controller_channel_cal_commit_def Let_def run_save_def cal_watchdog_reset_def
        calm_def hot_def split: option.splits prod.splits if_splits)
next
  case Ctl_Start_Sampling
  then obtain cs where "start_channels (channel_count ctrl) (channels ctrl) = Some (st, cs)"
    "ctrl' = ctrl\<lparr>channels := cs\<rparr>"
    using r by (auto simp: vc_controller_start_sampling_def split: bind_splits)
  then show ?thesis
    using hot_list_all2 [of ctrl cs ctrl'] start_channels_hot by (auto simp: calm_def)
qed

lemma other_channel_activeD:
  assumes "controller_ok K ctrl" and "\<not> other_channel_active ctrl ch"
  shows "hot ctrl \<subseteq> {unat ch}"
  using assms
  by (auto simp: other_channel_active_def list_ex_iff hot_def energised_def controller_ok_def)

lemma hot_cal_output:
  assumes ok: "controller_ok K ctrl"
    and r: "vc_controller_channel_cal_output_enable K ctrl ch e = Some (st, ctrl')"
  shows "operating_mode ctrl' = operating_mode ctrl \<and>
    (hot ctrl' \<subseteq> hot ctrl \<or> hot ctrl' \<subseteq> {unat ch} \<and> operating_mode ctrl = VC_OPERATING_MODE_CALIBRATION)"
proof (cases "channel_valid ctrl ch \<and> operating_mode ctrl = VC_OPERATING_MODE_CALIBRATION \<and>
    \<not> (e \<and> other_channel_active ctrl ch)")
  case True
  then obtain st' c where c: "on_channel ctrl ch (\<lambda>c. vc_channel_cal_set_output_enable c e) = Some (st', c)"
    and h: "hot ctrl' = hot c" "operating_mode ctrl' = operating_mode c"
    using r by (auto simp: vc_controller_channel_cal_output_enable_def watchdog_on_ok_def
        cal_watchdog_reset_def hot_def split: bind_splits if_splits)
  have m: "operating_mode c = operating_mode ctrl" by (rule on_channel_mode [OF c])
  show ?thesis
  proof (cases e)
    case False
    then have "hot c \<subseteq> hot ctrl"
      using hot_on_channel [OF ok c] cools_cal_disable by auto
    then show ?thesis using h m by simp
  next
    case e: True
    then have "hot ctrl \<subseteq> {unat ch}" using True other_channel_activeD [OF ok] by blast
    moreover have "hot c \<subseteq> insert (unat ch) (hot ctrl)"
      using c by (auto simp: on_channel_def hot_def nth_list_update split: if_splits bind_splits)
    ultimately show ?thesis using h m True by auto
  qed
next
  case False
  then have "ctrl' = ctrl" using r by (auto simp: vc_controller_channel_cal_output_enable_def split: if_splits)
  then show ?thesis by simp
qed

end
