(* ===== verification/Vc_Controller_Props.thy ===== *)
theory Vc_Controller_Props
  imports Vc_Controller_Hot Vc_Channel_Props
begin

text \<open>
  What the controller guarantees: the whole system stays defined on the settings backend, one
  energised channel at most, the calibration session (unlock, entry, exit, watchdog), the mode
  transitions, and persistence.
\<close>

subsection \<open>Construction\<close>

lemma zero_channel_ok: "kconfig_in_range K \<Longrightarrow> channel_ok K (zero_channel K)"
  using channel_ok_blank [of K]
  by (simp add: zero_channel_def channel_ok_def cal_ok_def cal_k_exp_in_range_def blank_channel_def)

lemma init_channels_ok:
  assumes K: "kconfig_in_range K"
  shows "list_all (channel_ok K) chs \<Longrightarrow> list_all (\<lambda>d. driver_defaults_ok K (Some (dt_device d))) ds \<Longrightarrow>
    init_channels K idx wake ds chs = Some chs' \<Longrightarrow>
    list_all (channel_ok K) chs' \<and> length chs' = length chs"
proof (induction ds arbitrary: chs)
  case (Cons d ds)
  let ?c = "vc_channel_init K (Some (dt_device d)) (dt_reg d) (dt_capabilities d) (idx ! unat (dt_reg d)) wake"
  have "channel_ok K ?c" using Cons.prems by (intro channel_ok_init [OF K]) simp
  then have "list_all (channel_ok K) (chs[unat (dt_reg d) := ?c])"
    using Cons.prems(1) set_update_subset_insert [of chs "unat (dt_reg d)" ?c] by (auto simp: list_all_iff)
  then show ?case using Cons.IH [of "chs[unat (dt_reg d) := ?c]"] Cons.prems by (auto split: if_splits)
qed simp

lemma init_channel_cold: "\<not> energised (vc_channel_init K device i caps b w)"
  by (auto simp: vc_channel_init_def install_device_eq blank_channel_def energised_def Let_def
      split: option.split prod.split)

lemma init_channels_cold:
  "list_all (\<lambda>c. \<not> energised c) chs \<Longrightarrow> init_channels K idx wake ds chs = Some chs' \<Longrightarrow>
   list_all (\<lambda>c. \<not> energised c) chs'"
proof (induction ds arbitrary: chs)
  case (Cons d ds)
  let ?c = "vc_channel_init K (Some (dt_device d)) (dt_reg d) (dt_capabilities d) (idx ! unat (dt_reg d)) wake"
  have "\<not> energised ?c" by (rule init_channel_cold)
  then have "list_all (\<lambda>c. \<not> energised c) (chs[unat (dt_reg d) := ?c])"
    using Cons.prems(1) set_update_subset_insert [of chs "unat (dt_reg d)" ?c]
    unfolding list_all_iff by blast
  then show ?case using Cons.IH Cons.prems by (auto split: if_splits)
qed simp

text \<open>A controller as the firmware brings it up: initialised, then given the settings backend.\<close>

inductive booted ::
    "kconfig \<Rightarrow> 's settings_api \<Rightarrow> ('s \<Rightarrow> string \<Rightarrow> stored option) \<Rightarrow> ('d, 's) vc_controller \<Rightarrow> bool"
  for K z lookup where
  boot: "vc_controller_init K nodes buffers wake s = Some ctrl0 \<Longrightarrow>
    list_all (\<lambda>d. driver_defaults_ok K (Some (dt_device d))) nodes \<Longrightarrow>
    (\<And>ch cal. cal_of (lookup s (cal_key ch)) = Some cal \<Longrightarrow> cal_ok cal) \<Longrightarrow>
    booted K z lookup (vc_controller_set_storage_backend ctrl0 (Some (vc_settings_storage z m)))"

lemma zero_channel_cold: "\<not> energised (zero_channel K)"
  by (simp add: zero_channel_def blank_channel_def energised_def)

lemma booted_ok:
  assumes K: "kconfig_in_range K" and b: "booted K z lookup ctrl"
  obtains m where "controller_ok K ctrl" and "store_ok z lookup m ctrl" and "hot ctrl = {}"
    and "operating_mode ctrl = VC_OPERATING_MODE_NORMAL"
  using b
proof (cases rule: booted.cases)
  case (boot nodes buffers wake s ctrl0 m)
  note i = boot(2) and d = boot(3) and st = boot(4) and ctrl = boot(1)
  let ?zs = "replicate (length nodes) (zero_channel K)"
  obtain chs where c: "init_channels K (build_meas_index (length nodes) buffers) wake nodes ?zs = Some chs"
    and ctrl0: "channels ctrl0 = chs" "channel_count ctrl0 = length nodes" "nvs_state ctrl0 = s"
      "operating_mode ctrl0 = VC_OPERATING_MODE_NORMAL" "pre_cal_mode ctrl0 = VC_OPERATING_MODE_NORMAL"
    using i by (auto simp: vc_controller_init_def Let_def split: bind_splits)
  have zs: "list_all (channel_ok K) ?zs" "list_all (\<lambda>c. \<not> energised c) ?zs"
    by (simp_all add: list_all_iff zero_channel_ok [OF K] zero_channel_cold)
  have "list_all (channel_ok K) chs \<and> length chs = length nodes"
    using init_channels_ok [OF K zs(1) d c] by simp
  then have "controller_ok K ctrl"
    by (simp add: ctrl controller_ok_def vc_controller_set_storage_backend_def ctrl0)
  moreover have "store_ok z lookup m ctrl"
    using st by (simp add: store_ok_def ctrl vc_controller_set_storage_backend_def ctrl0)
  moreover have "hot ctrl = {}"
    using init_channels_cold [OF zs(2) c]
    by (auto simp: hot_def ctrl vc_controller_set_storage_backend_def ctrl0 list_all_length)
  ultimately show ?thesis
    by (intro that) (simp_all add: ctrl vc_controller_set_storage_backend_def ctrl0)
qed

text \<open>Two fully capable channels without a driver API, on an empty store.\<close>

definition bench_node :: "u8 \<Rightarrow> unit dt_channel" where
  "bench_node i = \<lparr> dt_reg = i, dt_device = \<lparr> dev_api = None, dev_data = () \<rparr>, dt_capabilities = 0x1F \<rparr>"

definition empty_nvs :: nvs where
  "empty_nvs = (\<lambda>_. None)"

definition bench_controller :: "(unit, nvs) vc_controller" where
  "bench_controller =
     (case vc_controller_init kconfig_defaults [bench_node 0, bench_node 1] [] False empty_nvs of
        Some ctrl \<Rightarrow> vc_controller_set_storage_backend ctrl (Some (vc_settings_storage map_settings 2))
      | None \<Rightarrow> undefined)"

lemma bench_booted: "booted kconfig_defaults map_settings (\<lambda>s. s) bench_controller"
proof -
  have "\<exists>ctrl0. vc_controller_init kconfig_defaults [bench_node 0, bench_node 1] [] False empty_nvs = Some ctrl0"
    by (simp add: vc_controller_init_def bench_node_def Let_def)
  then obtain ctrl0 where i: "vc_controller_init kconfig_defaults [bench_node 0, bench_node 1] [] False
      empty_nvs = Some ctrl0" by blast
  have "booted kconfig_defaults map_settings (\<lambda>s. s)
      (vc_controller_set_storage_backend ctrl0 (Some (vc_settings_storage map_settings 2)))"
    by (rule booted.boot [OF i]) (simp_all add: bench_node_def driver_defaults_ok_def cal_of_def empty_nvs_def)
  then show ?thesis by (simp add: bench_controller_def i)
qed

subsection \<open>Every history of the system is defined\<close>

text \<open>
  On a settings subsystem that behaves as documented and starts with sane coefficients, no
  sequence of calls, ticks and driver events, saving and loading of parameters included, ever
  drives the controller into undefined behaviour: what the store can hold is only what the
  controller accepted, so the loads that do not check are safe.
\<close>

lemma system_never_undefined:
  assumes "kconfig_in_range K" and "zephyr_settings z lookup" and "booted K z lookup ctrl"
  shows "\<exists>ctrl'. ctl_execs K es ctrl = Some ctrl' \<and> controller_ok K ctrl' \<and> loads_ok ctrl'"
proof -
  obtain m where "controller_ok K ctrl" and "store_ok z lookup m ctrl"
    by (rule booted_ok [OF assms(1,3)])
  then show ?thesis
    using zephyr_settings.ctl_execs_ok [OF assms(2,1)] zephyr_settings.store_ok_loads_ok [OF assms(2)]
    by blast
qed

lemma system_never_undefined_witness:
  "\<exists>ctrl'. ctl_execs kconfig_defaults
      [Ctl_Channel_Param 0 VC_PARAM_ACTION_SAVE, Ctl_System_Param VC_PARAM_ACTION_FACTORY_RESET,
       Ctl_Channel_Param 0 VC_PARAM_ACTION_LOAD, Ctl_Tick 10] bench_controller = Some ctrl' \<and>
     controller_ok kconfig_defaults ctrl' \<and> loads_ok ctrl'"
  by (rule system_never_undefined [OF kconfig_defaults_in_range nvs.zephyr_settings_axioms bench_booted])

subsection \<open>The calibration session\<close>

lemma execs_hot:
  assumes K: "kconfig_in_range K" and z: "zephyr_settings z lookup"
  shows "controller_ok K ctrl \<Longrightarrow> store_ok z lookup m ctrl \<Longrightarrow> (\<forall>i\<in>hot ctrl. \<forall>j\<in>hot ctrl. i = j) \<Longrightarrow>
    ctl_execs K es ctrl = Some ctrl' \<Longrightarrow> \<forall>i\<in>hot ctrl'. \<forall>j\<in>hot ctrl'. i = j"
proof (induction es arbitrary: ctrl)
  case (Cons e es)
  obtain st c where x: "ctl_exec K e ctrl = Some (st, c)" and r: "ctl_execs K es c = Some ctrl'"
    using Cons.prems(4) by (auto split: bind_splits)
  note l = zephyr_settings.store_ok_loads_ok [OF z Cons.prems(2)]
  have ok: "controller_ok K c" using good_ctl_exec [OF K Cons.prems(1) l, of e] x by simp
  have st': "store_ok z lookup m c" by (rule zephyr_settings.store_ok_exec [OF z Cons.prems(2,1) x])
  have "\<forall>i\<in>hot c. \<forall>j\<in>hot c. i = j"
  proof (cases "calm_event e")
    case True
    then have "hot c \<subseteq> hot ctrl" using calm_exec [OF K Cons.prems(1) l True x] by (simp add: calm_def)
    then show ?thesis using Cons.prems(3) by blast
  next
    case False
    then consider ch b where "e = Ctl_Cal_Output ch b" | "e = Ctl_System_Param VC_PARAM_ACTION_FACTORY_RESET"
      by (cases e) auto
    then show ?thesis
    proof cases
      case (1 ch b)
      then have "hot c \<subseteq> hot ctrl \<or> hot c \<subseteq> {unat ch}"
        using hot_cal_output [OF Cons.prems(1), of ch b st c] x by auto
      then show ?thesis using Cons.prems(3) by blast
    next
      case 2
      then have "hot c = hot ctrl"
        using x by (auto simp: Let_def hot_def split: option.splits)
      then show ?thesis using Cons.prems(3) by simp
    qed
  qed
  then show ?case using Cons.IH [OF ok st' _ r] by blast
qed simp

text \<open>
  C7. At most one channel is energised. Over every history of the booted system, at any moment
  at most one channel has its calibration output switched on or a code on its DAC.
\<close>

theorem at_most_one_channel_energised:
  assumes "kconfig_in_range K" and "zephyr_settings z lookup" and "booted K z lookup ctrl"
    and "ctl_execs K es ctrl = Some ctrl'"
    and "i < length (channels ctrl')" and "energised (channels ctrl' ! i)"
    and "j < length (channels ctrl')" and "energised (channels ctrl' ! j)"
  shows "i = j"
proof -
  obtain m where "controller_ok K ctrl" and "store_ok z lookup m ctrl" and "hot ctrl = {}"
    by (rule booted_ok [OF assms(1,3)])
  then have "\<forall>i\<in>hot ctrl'. \<forall>j\<in>hot ctrl'. i = j"
    using execs_hot [OF assms(1,2) _ _ _ assms(4)] by simp
  then show ?thesis using assms(5-8) by (simp add: hot_def)
qed

definition cal_session :: "unit ctl_event list" where
  "cal_session =
     [Ctl_Unlock CAL_UNLOCK_STEP1, Ctl_Unlock CAL_UNLOCK_STEP2,
      Ctl_Set_Mode VC_OPERATING_MODE_CALIBRATION, Ctl_Cal_Output 0 True]"

lemmas eval_defs = bench_controller_def vc_controller_init_def bench_node_def
  vc_controller_set_storage_backend_def vc_channel_init_def install_device_def
  vc_controller_calibration_unlock_def vc_controller_set_operating_mode_def mode_refusal_def
  enter_mode_def when_all_def all_channels_def cal_watchdog_reset_def
  vc_channel_reset_calibration_def apply_hw_def
  vc_controller_channel_cal_output_enable_def channel_valid_def other_channel_active_def
  on_channel_def watchdog_on_ok_def vc_channel_cal_set_output_enable_def channel_has_cap_def
  has_hard_safety_fault_def

lemma bench_session:
  "\<exists>ctrl. ctl_execs kconfig_defaults cal_session bench_controller = Some ctrl \<and>
     length (channels ctrl) = 2 \<and> energised (channels ctrl ! 0) \<and>
     operating_mode ctrl = VC_OPERATING_MODE_CALIBRATION"
  by (simp add: cal_session_def eval_defs Let_def update_status_bits_def energised_def)
     (simp add: blank_channel_def)

lemma at_most_one_channel_energised_witness:
  "\<exists>ctrl. ctl_execs kconfig_defaults cal_session bench_controller = Some ctrl \<and>
     energised (channels ctrl ! 0) \<and> \<not> energised (channels ctrl ! 1)"
proof -
  obtain ctrl where c: "ctl_execs kconfig_defaults cal_session bench_controller = Some ctrl"
    "length (channels ctrl) = 2" "energised (channels ctrl ! 0)"
    using bench_session by blast
  have "\<not> energised (channels ctrl ! 1)"
    using at_most_one_channel_energised [OF kconfig_defaults_in_range nvs.zephyr_settings_axioms
        bench_booted c(1), of 0 1] c by auto
  with c show ?thesis by blast
qed

definition confined :: "('d, 's) vc_controller \<Rightarrow> bool" where
  "confined ctrl \<longleftrightarrow> operating_mode ctrl = VC_OPERATING_MODE_CALIBRATION \<or> hot ctrl = {}"

lemma confined_exec:
  assumes K: "kconfig_in_range K" and ok: "controller_ok K ctrl" and l: "loads_ok ctrl"
    and e: "e \<noteq> Ctl_System_Param VC_PARAM_ACTION_FACTORY_RESET" and c: "confined ctrl"
    and r: "ctl_exec K e ctrl = Some (st, ctrl')"
  shows "confined ctrl'"
proof (cases "calm_event e")
  case True
  then show ?thesis using calm_exec [OF K ok l True r] c by (auto simp: confined_def calm_def)
next
  case False
  then obtain ch b where "e = Ctl_Cal_Output ch b" using e by (cases e) auto
  then show ?thesis using hot_cal_output [OF ok, of ch b st ctrl'] r c by (auto simp: confined_def)
qed

text \<open>
  C8. Calibration power is confined to calibration. As long as the system is not factory reset
  in the middle of a session, a history of the booted system that is not in CALIBRATION mode has
  no channel energised: leaving the mode, by command, by a configuration or by the watchdog,
  always switches the calibration outputs off.
\<close>

theorem calibration_power_confined:
  assumes K: "kconfig_in_range K" and z: "zephyr_settings z lookup" and b: "booted K z lookup ctrl"
    and e: "Ctl_System_Param VC_PARAM_ACTION_FACTORY_RESET \<notin> set es"
    and r: "ctl_execs K es ctrl = Some ctrl'"
    and m: "operating_mode ctrl' \<noteq> VC_OPERATING_MODE_CALIBRATION"
    and i: "i < length (channels ctrl')"
  shows "cal_output_enabled (channels ctrl' ! i) = 0 \<and> raw_dac_readback (channels ctrl' ! i) = 0"
proof -
  have step: "confined ctrl'"
    if "controller_ok K c" "store_ok z lookup m c" "confined c" "ctl_execs K es c = Some ctrl'"
      "Ctl_System_Param VC_PARAM_ACTION_FACTORY_RESET \<notin> set es" for c es m
    using that
  proof (induction es arbitrary: c)
    case (Cons e es)
    obtain st c1 where x: "ctl_exec K e c = Some (st, c1)" and r: "ctl_execs K es c1 = Some ctrl'"
      using Cons.prems(4) by (auto split: bind_splits)
    note l = zephyr_settings.store_ok_loads_ok [OF z Cons.prems(2)]
    have ok: "controller_ok K c1" using good_ctl_exec [OF K Cons.prems(1) l, of e] x by simp
    have st': "store_ok z lookup m c1" by (rule zephyr_settings.store_ok_exec [OF z Cons.prems(2,1) x])
    have "e \<noteq> Ctl_System_Param VC_PARAM_ACTION_FACTORY_RESET" using Cons.prems(5) by auto
    then have "confined c1" by (rule confined_exec [OF K Cons.prems(1) l _ Cons.prems(3) x])
    then show ?case using Cons.IH [OF ok st' _ r] Cons.prems(5) by simp
  qed simp
  obtain m where "controller_ok K ctrl" "store_ok z lookup m ctrl" "hot ctrl = {}"
    by (rule booted_ok [OF K b])
  then have "hot ctrl' = {}" using step [OF _ _ _ r e] m by (auto simp: confined_def)
  then show ?thesis using i by (auto simp: hot_def energised_def)
qed

lemma bench_session_exit:
  "\<exists>ctrl. ctl_execs kconfig_defaults (cal_session @ [Ctl_Cal_Exit]) bench_controller = Some ctrl \<and>
     length (channels ctrl) = 2 \<and> operating_mode ctrl = VC_OPERATING_MODE_NORMAL"
  by (simp add: cal_session_def eval_defs Let_def update_status_bits_def vc_controller_cal_exit_def)

lemma calibration_power_confined_witness:
  "\<exists>ctrl. ctl_execs kconfig_defaults (cal_session @ [Ctl_Cal_Exit]) bench_controller = Some ctrl \<and>
     cal_output_enabled (channels ctrl ! 0) = 0 \<and> raw_dac_readback (channels ctrl ! 0) = 0"
proof -
  obtain ctrl where c: "ctl_execs kconfig_defaults (cal_session @ [Ctl_Cal_Exit]) bench_controller = Some ctrl"
    "length (channels ctrl) = 2" "operating_mode ctrl = VC_OPERATING_MODE_NORMAL"
    using bench_session_exit by blast
  show ?thesis
    using calibration_power_confined [OF kconfig_defaults_in_range nvs.zephyr_settings_axioms
        bench_booted _ c(1), of 0] c by (simp add: cal_session_def)
qed

text \<open>
  The unlock sequence. Whatever was written before, calibration is unlocked exactly when the
  last two writes to the unlock register were the first and then the second unlock word.
\<close>

lemma calibration_unlock_exact:
  "cal_unlocked (foldl (\<lambda>c v. snd (vc_controller_calibration_unlock c v)) ctrl (vs @ [a, b])) \<longleftrightarrow>
   a = CAL_UNLOCK_STEP1 \<and> b = CAL_UNLOCK_STEP2"
  by (simp add: vc_controller_calibration_unlock_def)

text \<open>A channel that commands nothing: off, target 0, enable line low and DAC code 0.\<close>

definition powered_down :: "'d vc_channel \<Rightarrow> bool" where
  "powered_down ch \<longleftrightarrow>
     \<not> output_enabled ch \<and> \<not> ramping ch \<and> operational_target_voltage ch = 0 \<and>
     \<not> energised ch \<and> hw_demand ch = Some (False, 0)"

lemma reset_powered_down:
  "channel_ok K c \<Longrightarrow> vc_channel_reset_calibration c e = Some c' \<Longrightarrow>
   powered_down c' \<and> smf c' = (if e then VC_CHANNEL_SMF_CALIBRATION_OUTPUT else VC_CHANNEL_SMF_DISABLED_SAFE) \<and>
   config c' = config c \<and> cal_config c' = cal_config c \<and> active_fault_cause c' = active_fault_cause c"
  by (auto simp: vc_channel_reset_calibration_def powered_down_def energised_def hw_demand_def)

text \<open>
  Entering CALIBRATION. From NORMAL or AUTOMATIC the request is refused without an unlock and
  then changes nothing; with one it succeeds, consumes the unlock, remembers the mode to return
  to, starts the full watchdog and powers every channel down.
\<close>

lemma calibration_entry:
  assumes ok: "controller_ok K ctrl" and m: "operating_mode ctrl \<noteq> VC_OPERATING_MODE_CALIBRATION"
  shows "\<exists>ctrl'. vc_controller_set_operating_mode K ctrl VC_OPERATING_MODE_CALIBRATION =
      Some (if cal_unlocked ctrl then VC_OK else VC_ERR_INVALID_COMMAND, ctrl') \<and>
    (if cal_unlocked ctrl
     then operating_mode ctrl' = VC_OPERATING_MODE_CALIBRATION \<and>
          pre_cal_mode ctrl' = operating_mode ctrl \<and> \<not> cal_unlocked ctrl' \<and>
          cal_watchdog_ms ctrl' = VC_CAL_WATCHDOG_MS K \<and> sys_cfg ctrl' = sys_cfg ctrl \<and>
          list_all (\<lambda>c. powered_down c \<and> smf c = VC_CHANNEL_SMF_CALIBRATION_OUTPUT) (channels ctrl')
     else ctrl' = ctrl)"
proof (cases "cal_unlocked ctrl")
  case False
  then show ?thesis using m by (simp add: vc_controller_set_operating_mode_def mode_refusal_def)
next
  case True
  let ?m = VC_OPERATING_MODE_CALIBRATION
  obtain cs where e: "enter_mode K ctrl ?m = Some (ctrl
       \<lparr>channels := cs, operating_mode := ?m, pre_cal_mode := operating_mode ctrl,
        cal_watchdog_ms := VC_CAL_WATCHDOG_MS K, sys_cfg := sys_cfg ctrl, cal_unlock_step := 0,
        cal_unlocked := False\<rparr>)"
    and 2: "list_all2 (\<lambda>c c'. channel_ok K c \<and> change_channel (operating_mode ctrl) ?m c = Some c')
           (channels ctrl) cs"
    by (rule enter_mode_ok [OF ok, of ?m]) (use m in auto)
  have "list_all (\<lambda>c. powered_down c \<and> smf c = VC_CHANNEL_SMF_CALIBRATION_OUTPUT) cs"
  proof (rule list_all2_list_all [OF 2])
    fix c c' assume "channel_ok K c \<and> change_channel (operating_mode ctrl) ?m c = Some c'"
    then show "powered_down c' \<and> smf c' = VC_CHANNEL_SMF_CALIBRATION_OUTPUT"
      using m reset_powered_down [of K c True c'] by (simp add: change_channel_def)
  qed
  then show ?thesis
    using True m e by (simp add: vc_controller_set_operating_mode_def mode_refusal_def)
qed

lemma bench_ok2: "controller_ok kconfig_defaults bench_controller"
  "operating_mode bench_controller = VC_OPERATING_MODE_NORMAL"
  by (auto intro: booted_ok [OF kconfig_defaults_in_range bench_booted])

lemma default_watchdog: "VC_CAL_WATCHDOG_MS kconfig_defaults = 300000"
  by (simp add: VC_CAL_WATCHDOG_MS_def kconfig_defaults_def)

lemma calibration_entry_witness:
  "\<exists>ctrl'. vc_controller_set_operating_mode kconfig_defaults (bench_controller\<lparr>cal_unlocked := True\<rparr>)
      VC_OPERATING_MODE_CALIBRATION = Some (VC_OK, ctrl') \<and>
    operating_mode ctrl' = VC_OPERATING_MODE_CALIBRATION \<and> cal_watchdog_ms ctrl' = 300000 \<and>
    list_all (\<lambda>c. powered_down c \<and> smf c = VC_CHANNEL_SMF_CALIBRATION_OUTPUT) (channels ctrl')"
proof -
  have "controller_ok kconfig_defaults (bench_controller\<lparr>cal_unlocked := True\<rparr>)"
    using bench_ok2 by (simp add: controller_ok_def)
  from calibration_entry [OF this] bench_ok2(2) show ?thesis by (simp add: default_watchdog) blast
qed

lemma auto_enable_spec:
  "channel_ok K c \<Longrightarrow> auto_enable c = Some c' \<Longrightarrow>
   (if wants_output c \<and> active_fault_cause c = 0
    then output_enabled c' \<and> ramping c' \<and> smf c' = VC_CHANNEL_SMF_RAMPING \<and> config c' = config c
    else c' = c)"
  by (auto simp: auto_enable_def vc_channel_output_action_def effective_action_def commit_channel_def
      split: if_splits)

lemma set_mode_enter:
  assumes ok: "controller_ok K ctrl" and ne: "mode \<noteq> operating_mode ctrl"
    and m: "mode = VC_OPERATING_MODE_NORMAL \<or>
            mode = VC_OPERATING_MODE_AUTOMATIC \<and>
            \<not> (operating_mode ctrl = VC_OPERATING_MODE_NORMAL \<and> any_fault ctrl)"
  obtains ctrl' where "vc_controller_set_operating_mode K ctrl mode = Some (VC_OK, ctrl')"
    and "operating_mode ctrl' = mode" and "controller_ok K ctrl'"
    and "list_all2 (\<lambda>c c'. channel_ok K c \<and> change_channel (operating_mode ctrl) mode c = Some c')
           (channels ctrl) (channels ctrl')"
    and "sys_operating_mode (sys_cfg ctrl') = mode" and "pre_cal_mode ctrl' = pre_cal_mode ctrl"
proof -
  have m': "mode \<in> {VC_OPERATING_MODE_NORMAL, VC_OPERATING_MODE_AUTOMATIC, VC_OPERATING_MODE_CALIBRATION}"
    "mode \<noteq> VC_OPERATING_MODE_CALIBRATION" using m by auto
  obtain cs where e: "enter_mode K ctrl mode = Some (ctrl
       \<lparr>channels := cs, operating_mode := mode, pre_cal_mode := pre_cal_mode ctrl,
        cal_watchdog_ms := cal_watchdog_ms ctrl, sys_cfg := (sys_cfg ctrl)\<lparr>sys_operating_mode := mode\<rparr>,
        cal_unlock_step := cal_unlock_step ctrl, cal_unlocked := cal_unlocked ctrl\<rparr>)"
    and ch: "list_all (channel_ok K) cs" "length cs = length (channels ctrl)"
    and 2: "list_all2 (\<lambda>c c'. channel_ok K c \<and> change_channel (operating_mode ctrl) mode c = Some c')
           (channels ctrl) cs"
    by (rule enter_mode_ok [OF ok m'(1) ne]) (use m'(2) in auto)
  let ?ctrl' = "ctrl\<lparr>channels := cs, operating_mode := mode, pre_cal_mode := pre_cal_mode ctrl,
        cal_watchdog_ms := cal_watchdog_ms ctrl, sys_cfg := (sys_cfg ctrl)\<lparr>sys_operating_mode := mode\<rparr>,
        cal_unlock_step := cal_unlock_step ctrl, cal_unlocked := cal_unlocked ctrl\<rparr>"
  have "vc_controller_set_operating_mode K ctrl mode = Some (VC_OK, ?ctrl')"
    using ne m e by (auto simp: vc_controller_set_operating_mode_def mode_refusal_def Let_def)
  moreover have "controller_ok K ?ctrl'"
    using ok ch m' by (auto simp: controller_ok_def)
  ultimately show thesis using that [of ?ctrl'] 2 by simp
qed

text \<open>
  Entering AUTOMATIC. From NORMAL it is refused, without any change, exactly when a channel
  has an active fault. Otherwise, from NORMAL or from CALIBRATION, it succeeds: a channel that
  wants output and has no fault is powered and starts to ramp, every other channel is left alone,
  or powered down when a calibration session ends.
\<close>

lemma automatic_entry:
  assumes ok: "controller_ok K ctrl" and m: "operating_mode ctrl \<noteq> VC_OPERATING_MODE_AUTOMATIC"
  shows "if operating_mode ctrl = VC_OPERATING_MODE_NORMAL \<and> any_fault ctrl
    then vc_controller_set_operating_mode K ctrl VC_OPERATING_MODE_AUTOMATIC =
           Some (VC_ERR_UNSAFE_STATE, ctrl)
    else \<exists>ctrl'. vc_controller_set_operating_mode K ctrl VC_OPERATING_MODE_AUTOMATIC =
           Some (VC_OK, ctrl') \<and> operating_mode ctrl' = VC_OPERATING_MODE_AUTOMATIC \<and>
         list_all2 (\<lambda>c c'. if wants_output c \<and> active_fault_cause c = 0
             then output_enabled c' \<and> ramping c' \<and> smf c' = VC_CHANNEL_SMF_RAMPING
             else if operating_mode ctrl = VC_OPERATING_MODE_CALIBRATION then powered_down c'
             else c' = c) (channels ctrl) (channels ctrl')"
proof (cases "operating_mode ctrl = VC_OPERATING_MODE_NORMAL \<and> any_fault ctrl")
  case True
  then show ?thesis by (simp add: vc_controller_set_operating_mode_def mode_refusal_def)
next
  case False
  let ?m = VC_OPERATING_MODE_AUTOMATIC
  obtain ctrl' where r: "vc_controller_set_operating_mode K ctrl ?m = Some (VC_OK, ctrl')"
    "operating_mode ctrl' = ?m"
    and 2: "list_all2 (\<lambda>c c'. channel_ok K c \<and> change_channel (operating_mode ctrl) ?m c = Some c')
           (channels ctrl) (channels ctrl')"
    by (rule set_mode_enter [OF ok, of ?m]) (use m False in auto)
  have "if wants_output c \<and> active_fault_cause c = 0
      then output_enabled c' \<and> ramping c' \<and> smf c' = VC_CHANNEL_SMF_RAMPING
      else if operating_mode ctrl = VC_OPERATING_MODE_CALIBRATION then powered_down c' else c' = c"
    if c: "channel_ok K c" and x: "change_channel (operating_mode ctrl) ?m c = Some c'" for c c'
  proof (cases "operating_mode ctrl = VC_OPERATING_MODE_CALIBRATION")
    case True
    obtain c1 where 1: "vc_channel_reset_calibration c False = Some c1" "channel_ok K c1"
      by (rule goodE [OF good_reset_calibration [OF c]])
    have a: "auto_enable c1 = Some c'" using x True 1 by (simp add: change_channel_def)
    have "capabilities c1 = capabilities c" using 1 c by (auto simp: vc_channel_reset_calibration_def)
    then have "wants_output c1 = wants_output c"
      using reset_powered_down [OF c 1(1)] by (simp add: wants_output_def)
    then show ?thesis
      using auto_enable_spec [OF 1(2) a] reset_powered_down [OF c 1(1)] True by (auto split: if_splits)
  next
    case False
    then show ?thesis
      using x m auto_enable_spec [OF c, of c'] by (auto simp: change_channel_def split: if_splits)
  qed
  then have "list_all2 (\<lambda>c c'. if wants_output c \<and> active_fault_cause c = 0
             then output_enabled c' \<and> ramping c' \<and> smf c' = VC_CHANNEL_SMF_RAMPING
             else if operating_mode ctrl = VC_OPERATING_MODE_CALIBRATION then powered_down c'
             else c' = c) (channels ctrl) (channels ctrl')"
    using 2 by (elim list_all2_mono) blast
  with r show ?thesis unfolding if_not_P [OF False] by blast
qed

lemma automatic_entry_witness:
  "\<exists>ctrl'. vc_controller_set_operating_mode kconfig_defaults bench_controller VC_OPERATING_MODE_AUTOMATIC =
       Some (VC_OK, ctrl') \<and> operating_mode ctrl' = VC_OPERATING_MODE_AUTOMATIC"
proof -
  have "\<not> any_fault bench_controller"
    by (simp add: any_fault_def eval_defs Let_def blank_channel_def)
  then show ?thesis using automatic_entry [OF bench_ok2(1)] bench_ok2(2) by auto
qed

subsection \<open>The watchdog\<close>

lemma tick_mode:
  assumes K: "kconfig_in_range K" and ok: "controller_ok K ctrl"
  obtains ctrl' where "vc_controller_tick K ctrl dt = Some ctrl'" and "controller_ok K ctrl'"
    and "pre_cal_mode ctrl' = pre_cal_mode ctrl"
    and "operating_mode ctrl \<noteq> VC_OPERATING_MODE_CALIBRATION \<Longrightarrow> operating_mode ctrl' = operating_mode ctrl"
    and "operating_mode ctrl = VC_OPERATING_MODE_CALIBRATION \<Longrightarrow>
      (if cal_watchdog_ms ctrl \<le> dt then operating_mode ctrl' = pre_cal_mode ctrl
       else operating_mode ctrl' = VC_OPERATING_MODE_CALIBRATION \<and>
            cal_watchdog_ms ctrl' = cal_watchdog_ms ctrl - dt)"
proof (cases "operating_mode ctrl = VC_OPERATING_MODE_CALIBRATION")
  case False
  obtain cs where "all_channels (\<lambda>ch. vc_channel_run K ch dt (sys_cfg ctrl)) ctrl =
      Some (ctrl\<lparr>channels := cs\<rparr>)" "controller_ok K (ctrl\<lparr>channels := cs\<rparr>)"
    by (rule all_channels_ok [OF ok good_run [OF K]])
  then show thesis using False by (intro that [of "ctrl\<lparr>channels := cs\<rparr>"]) (simp_all add: vc_controller_tick_def)
next
  case True
  show thesis
  proof (cases "cal_watchdog_ms ctrl \<le> dt")
    case exp: True
    have p: "pre_cal_mode ctrl \<in> {VC_OPERATING_MODE_NORMAL, VC_OPERATING_MODE_AUTOMATIC}"
      using ok by (simp add: controller_ok_def)
    obtain ctrl' where "vc_controller_set_operating_mode K ctrl (pre_cal_mode ctrl) = Some (VC_OK, ctrl')"
      "operating_mode ctrl' = pre_cal_mode ctrl" "controller_ok K ctrl'"
      "pre_cal_mode ctrl' = pre_cal_mode ctrl"
      by (rule set_mode_enter [OF ok, of "pre_cal_mode ctrl"]) (use p True in auto)
    then show thesis
      using True exp by (intro that) (simp_all add: vc_controller_tick_def vc_controller_cal_exit_def)
  next
    case False
    then show thesis
      using True ok
      by (intro that [of "ctrl\<lparr>cal_watchdog_ms := cal_watchdog_ms ctrl - dt\<rparr>"])
        (auto simp: vc_controller_tick_def controller_ok_def)
  qed
qed

lemma ticks_outside:
  assumes K: "kconfig_in_range K"
  shows "controller_ok K ctrl \<Longrightarrow> operating_mode ctrl \<noteq> VC_OPERATING_MODE_CALIBRATION \<Longrightarrow>
    \<exists>ctrl'. ctl_execs K (map Ctl_Tick dts) ctrl = Some ctrl' \<and> operating_mode ctrl' = operating_mode ctrl"
proof (induction dts arbitrary: ctrl)
  case (Cons dt dts)
  obtain c where "vc_controller_tick K ctrl dt = Some c" "controller_ok K c"
    "operating_mode c = operating_mode ctrl"
    by (rule tick_mode [OF K Cons.prems(1), of dt]) (use Cons.prems(2) in auto)
  then show ?case using Cons.IH [of c] Cons.prems(2) by auto
qed simp

text \<open>
  C10. The calibration watchdog fires, and not early. A session that receives no calibration
  command is over as soon as the ticks add up to the time left on the watchdog: the system is back
  in the mode it came from. Until then it stays in CALIBRATION.
\<close>

theorem watchdog_ends_session:
  assumes K: "kconfig_in_range K" and ok: "controller_ok K ctrl"
    and m: "operating_mode ctrl = VC_OPERATING_MODE_CALIBRATION" and ne: "dts \<noteq> []"
  shows "\<exists>ctrl'. ctl_execs K (map Ctl_Tick dts) ctrl = Some ctrl' \<and>
    operating_mode ctrl' =
      (if unat (cal_watchdog_ms ctrl) \<le> sum_list (map unat dts) then pre_cal_mode ctrl
       else VC_OPERATING_MODE_CALIBRATION)"
  using ok m ne
proof (induction dts arbitrary: ctrl)
  case (Cons dt dts)
  obtain c where c: "vc_controller_tick K ctrl dt = Some c" "controller_ok K c"
      "pre_cal_mode c = pre_cal_mode ctrl"
    and w: "if cal_watchdog_ms ctrl \<le> dt then operating_mode c = pre_cal_mode ctrl
       else operating_mode c = VC_OPERATING_MODE_CALIBRATION \<and> cal_watchdog_ms c = cal_watchdog_ms ctrl - dt"
    by (rule tick_mode [OF K Cons.prems(1), of dt]) (use Cons.prems(2) in auto)
  have p: "pre_cal_mode ctrl \<noteq> VC_OPERATING_MODE_CALIBRATION"
    using Cons.prems(1) by (auto simp: controller_ok_def)
  show ?case
  proof (cases "cal_watchdog_ms ctrl \<le> dt")
    case True
    then have "operating_mode c = pre_cal_mode ctrl" using w by simp
    moreover have "unat (cal_watchdog_ms ctrl) \<le> unat dt" using True by (simp add: word_le_nat_alt)
    ultimately show ?thesis using ticks_outside [OF K c(2), of dts] c(1) p by auto
  next
    case False
    then have w': "operating_mode c = VC_OPERATING_MODE_CALIBRATION"
      "unat (cal_watchdog_ms c) = unat (cal_watchdog_ms ctrl) - unat dt" "unat dt < unat (cal_watchdog_ms ctrl)"
      using w by (simp_all add: unat_sub word_le_nat_alt)
    show ?thesis
    proof (cases "dts = []")
      case True
      then show ?thesis using c w' by simp
    next
      case False
      then show ?thesis using Cons.IH [OF c(2) w'(1)] c(1,3) w' by auto
    qed
  qed
qed simp

lemma watchdog_ends_session_witness:
  "\<exists>ctrl'. ctl_execs kconfig_defaults (map Ctl_Tick [200000, 200000])
      (bench_controller\<lparr>operating_mode := VC_OPERATING_MODE_CALIBRATION, cal_watchdog_ms := 300000\<rparr>) =
      Some ctrl' \<and> operating_mode ctrl' = VC_OPERATING_MODE_NORMAL"
proof -
  let ?c = "bench_controller\<lparr>operating_mode := VC_OPERATING_MODE_CALIBRATION, cal_watchdog_ms := 300000\<rparr>"
  have "controller_ok kconfig_defaults ?c" using bench_ok2(1) by (simp add: controller_ok_def)
  moreover have "pre_cal_mode ?c = VC_OPERATING_MODE_NORMAL" by (simp add: eval_defs Let_def)
  ultimately show ?thesis
    using watchdog_ends_session [OF kconfig_defaults_in_range, of ?c "[200000, 200000]"] by simp
qed

subsection \<open>Persistence\<close>

text \<open>Events that leave the stored configuration of channel \<open>ch\<close> alone.\<close>

fun keeps_cfg :: "u8 \<Rightarrow> 'd ctl_event \<Rightarrow> bool" where
  "keeps_cfg ch (Ctl_Channel_Param n VC_PARAM_ACTION_SAVE) = (n \<noteq> ch)"
| "keeps_cfg ch (Ctl_System_Param VC_PARAM_ACTION_FACTORY_RESET) = False"
| "keeps_cfg ch _ = True"

context zephyr_settings
begin

abbreviation cfg_stored :: "u8 \<Rightarrow> ('d, 's) vc_controller \<Rightarrow> vc_channel_config option" where
  "cfg_stored ch ctrl \<equiv> cfg_of (lookup (nvs_state ctrl) (cfg_key ch))"

lemma same_store_cfg: "same_store ctrl ctrl' \<Longrightarrow> cfg_stored ch ctrl' = cfg_stored ch ctrl"
  by (simp add: same_store_def)

lemma keeps_cfg_system_param:
  assumes b: "storage ctrl = Some (vc_settings_storage z m)"
    and e: "a \<noteq> VC_PARAM_ACTION_FACTORY_RESET"
    and r: "vc_controller_system_param_action K ctrl a = Some (st, ctrl')"
  shows "cfg_stored ch ctrl' = cfg_stored ch ctrl"
proof (cases a)
  case VC_PARAM_ACTION_SAVE
  then show ?thesis
    using r storage.save_sys_frame [of "sys_cfg ctrl" "nvs_state ctrl"]
    by (auto simp: backend_op_def b vc_settings_storage_def run_save_def split: prod.splits)
next
  case VC_PARAM_ACTION_LOAD
  then have "same_store ctrl ctrl'"
    using r by (auto simp: backend_op_def b vc_settings_storage_def
        split: prod.splits if_splits option.splits dest: same_store_set_system_config)
  then show ?thesis by (rule same_store_cfg)
qed (use r e in auto)

lemma keeps_cfg_exec:
  assumes b: "storage ctrl = Some (vc_settings_storage z m)" and e: "keeps_cfg ch ev"
    and r: "ctl_exec K ev ctrl = Some (st, ctrl')"
  shows "cfg_stored ch ctrl' = cfg_stored ch ctrl"
proof (cases "writes_store ev")
  case False
  then show ?thesis using r by (intro same_store_cfg same_store_exec)
next
  case True
  show ?thesis
  proof (cases ev)
    case (Ctl_System_Param a)
    have "a \<noteq> VC_PARAM_ACTION_FACTORY_RESET" using e Ctl_System_Param by auto
    then show ?thesis using r Ctl_System_Param by (intro keeps_cfg_system_param [OF b]) simp_all
  next
    case (Ctl_Channel_Param n a)
    then have "same_store ctrl ctrl' \<or>
        (a = VC_PARAM_ACTION_SAVE \<and>
         (st, ctrl') = run_save (settings_save_ch_cfg z n (config (channels ctrl ! unat n))) ctrl)"
      using r by (auto simp: vc_controller_channel_param_action_def backend_op_def b
          vc_settings_storage_def vc_channel_get_config_def
          split: vc_param_action.splits if_splits dest: same_store_on_channel)
    then show ?thesis
      using e Ctl_Channel_Param
        storage.save_cfg_frame [of n "config (channels ctrl ! unat n)" "nvs_state ctrl" _ _ ch]
      by (auto simp: run_save_def dest: same_store_cfg split: prod.splits)
  next
    case (Ctl_Cal_Commit n)
    then show ?thesis
      using r storage.save_cal_frame [of n "cal_config (channels ctrl ! unat n)" "nvs_state ctrl" _ _ ch]
      by (auto simp: vc_controller_channel_cal_commit_def backend_op_def b vc_settings_storage_def
          Let_def cal_watchdog_reset_def vc_channel_get_cal_config_def run_save_def
          split: if_splits prod.splits)
  qed (use True in auto)
qed

lemma keeps_cfg_execs:
  assumes K: "kconfig_in_range K"
  shows "controller_ok K ctrl \<Longrightarrow> store_ok z lookup m ctrl \<Longrightarrow> list_all (keeps_cfg ch) es \<Longrightarrow>
    ctl_execs K es ctrl = Some ctrl' \<Longrightarrow> cfg_stored ch ctrl' = cfg_stored ch ctrl"
proof (induction es arbitrary: ctrl)
  case (Cons e es)
  obtain st c where 1: "ctl_exec K e ctrl = Some (st, c)" "controller_ok K c"
    by (rule good_ctlE [OF good_ctl_exec [OF K Cons.prems(1) store_ok_loads_ok [OF Cons.prems(2)], of e]])
  have s: "store_ok z lookup m c" by (rule store_ok_exec [OF Cons.prems(2,1) 1(1)])
  have "cfg_stored ch c = cfg_stored ch ctrl"
    using Cons.prems(2,3) 1(1) by (intro keeps_cfg_exec [of ctrl m ch e K st c]) (auto simp: store_ok_def)
  then show ?case using Cons.IH [OF 1(2) s] Cons.prems(3,4) 1(1) by simp
qed simp

text \<open>A LOAD that reports success leaves the stored configuration in the channel.\<close>

lemma load_delivers:
  assumes ok: "controller_ok K ctrl" and s: "store_ok z lookup m ctrl"
    and v: "channel_valid ctrl ch" and cfg: "cfg_stored ch ctrl = Some cfg"
    and r: "vc_controller_channel_param_action K ctrl ch VC_PARAM_ACTION_LOAD = Some (VC_OK, ctrl')"
  shows "config (channels ctrl' ! unat ch) = cfg"
proof -
  have b: "storage ctrl = Some (vc_settings_storage z m)" using s by (simp add: store_ok_def)
  have i: "unat ch < length (channels ctrl)" using v ok by (simp add: channel_valid_def controller_ok_def)
  let ?c = "channels ctrl ! unat ch"
  obtain c' where l: "load_channel K ctrl ch (0, Some cfg) ?c = Some (VC_OK, c')"
    and ctrl': "ctrl' = ctrl\<lparr>channels := (channels ctrl)[unat ch := c']\<rparr>"
    using r v i storage.load_cfg_some [OF cfg]
    by (auto simp: vc_controller_channel_param_action_def backend_op_def b vc_settings_storage_def
        on_channel_def split: bind_splits)
  obtain c1 where c1: "vc_channel_set_config K ?c cfg = Some (VC_OK, c1)"
    and c2: "load_stored_cal ctrl ch c1 = Some c'"
    using l by (auto simp: load_channel_def split: bind_splits if_splits)
  have "config c1 = cfg"
    using c1 by (auto simp: vc_channel_set_config_def Let_def commit_channel_def update_status_bits_def
        dest!: apply_hw_Some split: if_splits bind_splits)
  moreover have "config c' = config c1"
    using c2 by (auto simp: load_stored_cal_def vc_channel_load_cal_def dest!: apply_hw_Some
        split: option.splits prod.splits if_splits)
  ultimately show ?thesis by (simp add: ctrl' i)
qed

lemma save_stores:
  assumes ok: "controller_ok K ctrl" and s: "store_ok z lookup m ctrl"
    and r: "vc_controller_channel_param_action K ctrl ch VC_PARAM_ACTION_SAVE = Some (VC_OK, saved)"
  shows "cfg_stored ch saved = Some (config (channels ctrl ! unat ch))" and "controller_ok K saved"
proof -
  have b: "storage ctrl = Some (vc_settings_storage z m)" using s by (simp add: store_ok_def)
  obtain rc t where w: "settings_save_ch_cfg z ch (config (channels ctrl ! unat ch)) (nvs_state ctrl) = (rc, t)"
    and "0 \<le> rc" and saved: "saved = ctrl\<lparr>nvs_state := t\<rparr>"
    using r by (auto simp: vc_controller_channel_param_action_def backend_op_def b
        vc_settings_storage_def vc_channel_get_config_def run_save_def split: if_splits prod.splits)
  then show "cfg_stored ch saved = Some (config (channels ctrl ! unat ch))"
    using storage.save_cfg [OF w] by simp
  show "controller_ok K saved" using ok by (simp add: saved controller_ok_def)
qed

lemma config_round_trip:
  assumes K: "kconfig_in_range K" and ok: "controller_ok K ctrl" and s: "store_ok z lookup m ctrl"
    and save: "vc_controller_channel_param_action K ctrl ch VC_PARAM_ACTION_SAVE = Some (VC_OK, saved)"
    and es: "list_all (keeps_cfg ch) es" "ctl_execs K es saved = Some later"
    and load: "vc_controller_channel_param_action K later ch VC_PARAM_ACTION_LOAD = Some (VC_OK, loaded)"
  shows "config (channels loaded ! unat ch) = config (channels ctrl ! unat ch)"
proof -
  have s1: "store_ok z lookup m saved"
    by (rule store_ok_channel_param [OF s save])
  have l: "controller_ok K later" "store_ok z lookup m later"
    using ctl_execs_ok [OF K save_stores(2) [OF ok s save] s1, of es] es(2) by auto
  have "channel_valid later ch"
    using load by (auto simp: vc_controller_channel_param_action_def split: if_splits)
  then show ?thesis
    using keeps_cfg_execs [OF K save_stores(2) [OF ok s save] s1 es] save_stores(1) [OF ok s save]
    by (intro load_delivers [OF l _ _ load]) simp_all
qed

end

text \<open>
  Saved is what is loaded. After a channel's configuration was saved without an error, whatever
  happens then, other than another SAVE of that channel or a system factory reset, a LOAD of the
  channel that reports success leaves it with exactly the configuration it was saved with.
\<close>

lemma channel_config_round_trip:
  assumes "kconfig_in_range K" and z: "zephyr_settings z lookup"
    and "controller_ok K ctrl" and "store_ok z lookup m ctrl"
    and "vc_controller_channel_param_action K ctrl ch VC_PARAM_ACTION_SAVE = Some (VC_OK, saved)"
    and "list_all (keeps_cfg ch) es" and "ctl_execs K es saved = Some later"
    and "vc_controller_channel_param_action K later ch VC_PARAM_ACTION_LOAD = Some (VC_OK, loaded)"
  shows "config (channels loaded ! unat ch) = config (channels ctrl ! unat ch)"
  using assms(1,3-8) by (rule zephyr_settings.config_round_trip [OF z])

lemmas store_eval_defs = vc_controller_channel_param_action_def backend_op_def vc_settings_storage_def
  settings_save_ch_cfg_def map_settings_def run_save_def vc_controller_channel_set_field_def
  commit_channel_def settings_load_ch_cfg_def settings_load_key_def settings_direct_loader_def
  vc_channel_get_config_def load_channel_def vc_channel_set_config_def validate_capability_config_def
  load_stored_cal_def settings_load_ch_cal_def empty_nvs_def vc_channel_default_config_def
  vc_channel_get_cal_config_def

lemma bench_save_load:
  "\<exists>saved later loaded.
    vc_controller_channel_param_action kconfig_defaults bench_controller 1 VC_PARAM_ACTION_SAVE = Some (VC_OK, saved) \<and>
    ctl_execs kconfig_defaults [Ctl_Set_Field 1 VC_FIELD_CONFIGURED_TARGET_VOLTAGE 7] saved = Some later \<and>
    configured_target_voltage (config (channels later ! 1)) = 7 \<and>
    vc_controller_channel_param_action kconfig_defaults later 1 VC_PARAM_ACTION_LOAD = Some (VC_OK, loaded)"
  by (simp add: eval_defs store_eval_defs Let_def update_status_bits_def)
     (simp add: blank_channel_def vc_channel_default_config_def kconfig_defaults_def
       is_valid_protection_mode_def)

lemma channel_config_round_trip_witness:
  "\<exists>saved later loaded.
    vc_controller_channel_param_action kconfig_defaults bench_controller 1 VC_PARAM_ACTION_SAVE = Some (VC_OK, saved) \<and>
    ctl_execs kconfig_defaults [Ctl_Set_Field 1 VC_FIELD_CONFIGURED_TARGET_VOLTAGE 7] saved = Some later \<and>
    configured_target_voltage (config (channels later ! 1)) = 7 \<and>
    vc_controller_channel_param_action kconfig_defaults later 1 VC_PARAM_ACTION_LOAD = Some (VC_OK, loaded) \<and>
    config (channels loaded ! 1) = config (channels bench_controller ! 1)"
proof -
  obtain m where "controller_ok kconfig_defaults bench_controller"
    and s: "store_ok map_settings (\<lambda>s. s) m bench_controller"
    by (rule booted_ok [OF kconfig_defaults_in_range bench_booted])
  obtain saved later loaded where 1:
    "vc_controller_channel_param_action kconfig_defaults bench_controller 1 VC_PARAM_ACTION_SAVE = Some (VC_OK, saved)"
    "ctl_execs kconfig_defaults [Ctl_Set_Field 1 VC_FIELD_CONFIGURED_TARGET_VOLTAGE 7] saved = Some later"
    "configured_target_voltage (config (channels later ! 1)) = 7"
    "vc_controller_channel_param_action kconfig_defaults later 1 VC_PARAM_ACTION_LOAD = Some (VC_OK, loaded)"
    using bench_save_load by blast
  have "config (channels loaded ! unat (1 :: u8)) = config (channels bench_controller ! unat (1 :: u8))"
    by (rule channel_config_round_trip [OF kconfig_defaults_in_range nvs.zephyr_settings_axioms
          bench_ok2(1) s 1(1) _ 1(2,4)]) simp
  then show ?thesis using 1 by auto
qed

end
