(* ===== verification/Vc_Controller_Errors.thy ===== *)
theory Vc_Controller_Errors
  imports Vc_Controller_Props
begin

text \<open>
  The end of a calibration session, what a refused request leaves behind, and the places where the
  controller does something else than its comments say, each with a run that shows it.
\<close>

subsection \<open>Leaving calibration\<close>

lemma leave_calibration:
  assumes c: "channel_ok K c" and x: "change_channel VC_OPERATING_MODE_CALIBRATION mode c = Some c'"
    and m: "mode \<in> {VC_OPERATING_MODE_NORMAL, VC_OPERATING_MODE_AUTOMATIC}"
  shows "(if mode = VC_OPERATING_MODE_AUTOMATIC \<and> wants_output c \<and> active_fault_cause c = 0
          then output_enabled c' \<and> ramping c' \<and> smf c' = VC_CHANNEL_SMF_RAMPING
          else powered_down c' \<and> smf c' = VC_CHANNEL_SMF_DISABLED_SAFE) \<and>
    \<not> energised c' \<and> config c' = config c \<and> cal_config c' = cal_config c"
proof -
  obtain c1 where 1: "vc_channel_reset_calibration c False = Some c1" "channel_ok K c1"
    by (rule goodE [OF good_reset_calibration [OF c]])
  note down = reset_powered_down [OF c 1(1)]
  have "capabilities c1 = capabilities c" using 1 c by (auto simp: vc_channel_reset_calibration_def)
  then have w: "wants_output c1 = wants_output c" using down by (simp add: wants_output_def)
  show ?thesis
  proof (cases "mode = VC_OPERATING_MODE_AUTOMATIC")
    case True
    then have a: "auto_enable c1 = Some c'" using x 1 by (simp add: change_channel_def)
    have "cal_config c' = cal_config c1 \<and> (energised c' \<longrightarrow> energised c1)"
      using a 1(2) by (auto simp: auto_enable_def vc_channel_output_action_def effective_action_def
          commit_channel_def energised_def split: if_splits)
    then show ?thesis
      using auto_enable_spec [OF 1(2) a] down True w by (auto simp: powered_down_def split: if_splits)
  next
    case False
    then have "c' = c1" using x 1 m by (auto simp: change_channel_def)
    then show ?thesis using False down by (simp add: powered_down_def)
  qed
qed

text \<open>
  C9. Leaving CALIBRATION. The exit command always succeeds and returns to the mode the session
  came from, which is also the mode the system configuration then names. No channel keeps a
  calibration drive; every one is powered down, apart from those that AUTOMATIC mode starts again
  because they want output and have no fault. Configuration and coefficients are kept.
\<close>

theorem calibration_exit:
  assumes ok: "controller_ok K ctrl" and m: "operating_mode ctrl = VC_OPERATING_MODE_CALIBRATION"
  shows "\<exists>ctrl'. vc_controller_cal_exit K ctrl = Some (VC_OK, ctrl') \<and>
    operating_mode ctrl' = pre_cal_mode ctrl \<and> sys_operating_mode (sys_cfg ctrl') = pre_cal_mode ctrl \<and>
    list_all2 (\<lambda>c c'.
      (if pre_cal_mode ctrl = VC_OPERATING_MODE_AUTOMATIC \<and> wants_output c \<and> active_fault_cause c = 0
       then output_enabled c' \<and> ramping c' \<and> smf c' = VC_CHANNEL_SMF_RAMPING
       else powered_down c' \<and> smf c' = VC_CHANNEL_SMF_DISABLED_SAFE) \<and>
      \<not> energised c' \<and> config c' = config c \<and> cal_config c' = cal_config c)
      (channels ctrl) (channels ctrl')"
proof -
  have p: "pre_cal_mode ctrl \<in> {VC_OPERATING_MODE_NORMAL, VC_OPERATING_MODE_AUTOMATIC}"
    using ok by (simp add: controller_ok_def)
  obtain ctrl' where r: "vc_controller_set_operating_mode K ctrl (pre_cal_mode ctrl) = Some (VC_OK, ctrl')"
    "operating_mode ctrl' = pre_cal_mode ctrl" "sys_operating_mode (sys_cfg ctrl') = pre_cal_mode ctrl"
    and 2: "list_all2 (\<lambda>c c'. channel_ok K c \<and>
        change_channel (operating_mode ctrl) (pre_cal_mode ctrl) c = Some c') (channels ctrl) (channels ctrl')"
    by (rule set_mode_enter [OF ok, of "pre_cal_mode ctrl"]) (use p m in auto)
  have "list_all2 (\<lambda>c c'.
      (if pre_cal_mode ctrl = VC_OPERATING_MODE_AUTOMATIC \<and> wants_output c \<and> active_fault_cause c = 0
       then output_enabled c' \<and> ramping c' \<and> smf c' = VC_CHANNEL_SMF_RAMPING
       else powered_down c' \<and> smf c' = VC_CHANNEL_SMF_DISABLED_SAFE) \<and>
      \<not> energised c' \<and> config c' = config c \<and> cal_config c' = cal_config c)
      (channels ctrl) (channels ctrl')"
    using 2 unfolding m by (elim list_all2_mono, elim conjE) (rule leave_calibration [OF _ _ p])
  then show ?thesis using r m by (simp add: vc_controller_cal_exit_def)
qed

lemma calibration_exit_witness:
  "\<exists>ctrl ctrl'. ctl_execs kconfig_defaults cal_session bench_controller = Some ctrl \<and>
     energised (channels ctrl ! 0) \<and> vc_controller_cal_exit kconfig_defaults ctrl = Some (VC_OK, ctrl') \<and>
     \<not> energised (channels ctrl' ! 0)"
proof -
  obtain ctrl where c: "ctl_execs kconfig_defaults cal_session bench_controller = Some ctrl"
    "length (channels ctrl) = 2" "energised (channels ctrl ! 0)"
    "operating_mode ctrl = VC_OPERATING_MODE_CALIBRATION"
    using bench_session by blast
  obtain m where "controller_ok kconfig_defaults bench_controller"
    "store_ok map_settings (\<lambda>s. s) m bench_controller"
    by (rule booted_ok [OF kconfig_defaults_in_range bench_booted])
  then have "controller_ok kconfig_defaults ctrl"
    using nvs.ctl_execs_ok [OF kconfig_defaults_in_range, of bench_controller m cal_session] c(1) by auto
  from calibration_exit [OF this c(4)] obtain ctrl' where
    x: "vc_controller_cal_exit kconfig_defaults ctrl = Some (VC_OK, ctrl')"
    and l: "list_all2 (\<lambda>c c'.
      (if pre_cal_mode ctrl = VC_OPERATING_MODE_AUTOMATIC \<and> wants_output c \<and> active_fault_cause c = 0
       then output_enabled c' \<and> ramping c' \<and> smf c' = VC_CHANNEL_SMF_RAMPING
       else powered_down c' \<and> smf c' = VC_CHANNEL_SMF_DISABLED_SAFE) \<and>
      \<not> energised c' \<and> config c' = config c \<and> cal_config c' = cal_config c)
      (channels ctrl) (channels ctrl')" by blast
  have "\<not> energised (channels ctrl' ! 0)" using list_all2_nthD [OF l, of 0] c(2) by simp
  with c x show ?thesis by blast
qed

subsection \<open>Refused requests\<close>

text \<open>
  The requests that check before they act. The others are the unlock register, whose wrong words
  are meant to clear the sequence, the writes to the store, whose failure the store decides, the
  system configuration (see below) and the start of sampling.
\<close>

fun checks_first :: "'d ctl_event \<Rightarrow> bool" where
  "checks_first (Ctl_Unlock _) = False"
| "checks_first (Ctl_Set_System_Config _) = False"
| "checks_first (Ctl_Set_System_Field f _) = (f \<noteq> VC_FIELD_STARTUP_CHANNEL_POLICY)"
| "checks_first (Ctl_System_Param a) = (a \<noteq> VC_PARAM_ACTION_SAVE \<and> a \<noteq> VC_PARAM_ACTION_LOAD)"
| "checks_first (Ctl_Channel_Param _ a) = (a \<noteq> VC_PARAM_ACTION_SAVE)"
| "checks_first (Ctl_Cal_Commit _) = False"
| "checks_first Ctl_Start_Sampling = False"
| "checks_first _ = True"

lemma refused_on_channel:
  assumes "on_channel ctrl ch f = Some (st, ctrl')" and "st \<noteq> VC_OK"
    and "\<And>c st c'. f c = Some (st, c') \<Longrightarrow> st \<noteq> VC_OK \<Longrightarrow> c' = c"
  shows "ctrl' = ctrl"
  using assms(1,2) by (auto simp: on_channel_def split: if_splits bind_splits dest: assms(3))

lemma refused_set_mode:
  "vc_controller_set_operating_mode K ctrl mode = Some (st, ctrl') \<Longrightarrow> st \<noteq> VC_OK \<Longrightarrow> ctrl' = ctrl"
  by (auto simp: vc_controller_set_operating_mode_def Let_def split: if_splits)

lemma refused_watchdog:
  assumes "watchdog_on_ok K (on_channel ctrl ch f) = Some (st, ctrl')" and "st \<noteq> VC_OK"
    and "\<And>c st c'. f c = Some (st, c') \<Longrightarrow> st \<noteq> VC_OK \<Longrightarrow> c' = c"
  shows "ctrl' = ctrl"
  using assms(1,2) by (auto simp: watchdog_on_ok_def split: bind_splits if_splits
      dest: refused_on_channel [OF _ _ assms(3)])

lemma refused_load_channel:
  "load_channel K ctrl ch r c = Some (st, c') \<Longrightarrow> st \<noteq> VC_OK \<Longrightarrow> c' = c"
  by (auto simp: load_channel_def split: if_splits bind_splits dest: refused_set_config)

lemma refused_factory_reset_channel:
  "factory_reset_channel K ctrl ch c = Some (st, c') \<Longrightarrow> st \<noteq> VC_OK \<Longrightarrow> c' = c"
  by (auto simp: factory_reset_channel_def split: if_splits bind_splits dest: refused_set_config)

text \<open>
  C11. A refused request is no request: when a controller request that checks before it acts
  reports an error, the whole system, channels, devices, modes, watchdog and store, is exactly as
  it was.
\<close>

theorem refused_request_changes_nothing:
  assumes r: "ctl_exec K e ctrl = Some (st, ctrl')" and st: "st \<noteq> VC_OK" and e: "checks_first e"
  shows "ctrl' = ctrl"
proof (cases e)
  case (Ctl_Set_System_Field f v)
  then show ?thesis using r st e by (cases f) (auto dest: refused_set_mode)
next
  case (Ctl_System_Param a)
  then show ?thesis using r st e by (cases a) (auto simp: Let_def)
next
  case (Ctl_Channel_Param ch a)
  then show ?thesis
    using r st e by (auto simp: vc_controller_channel_param_action_def
        split: if_splits option.splits vc_param_action.splits
        dest: refused_on_channel [OF _ _ refused_load_channel]
          refused_on_channel [OF _ _ refused_factory_reset_channel])
next
  case (Ctl_Set_Field ch f v)
  have "c' = c"
    if "(do {
        (st, c1) \<leftarrow> vc_channel_set_field K c f v;
        if st = VC_OK \<and> f = VC_FIELD_CONFIGURED_TARGET_VOLTAGE \<and>
           operating_mode ctrl = VC_OPERATING_MODE_AUTOMATIC \<and> v \<noteq> 0 \<and> active_fault_cause c1 = 0
        then do {
          (_, c2) \<leftarrow> vc_channel_output_action c1 VC_OUTPUT_ACTION_ENABLE;
          Some (st, c2)
        }
        else Some (st, c1)
      }) = Some (st', c')" "st' \<noteq> VC_OK" for c st' c'
    using that by (auto split: if_splits bind_splits dest: refused_set_field)
  then show ?thesis
    using r st Ctl_Set_Field
    by (auto simp: vc_controller_channel_set_field_def split: if_splits elim!: refused_on_channel)
next
  case (Ctl_Fault_Command ch c)
  then show ?thesis
    using r st by (auto simp: vc_controller_channel_fault_command_def split: if_splits
        dest: refused_fault_command elim!: refused_on_channel)
qed (use r st e in \<open>auto simp: vc_controller_channel_output_action_def vc_controller_cal_exit_def
      vc_controller_channel_set_cal_field_def vc_controller_channel_cal_output_enable_def
      vc_controller_channel_cal_raw_dac_def vc_controller_channel_cal_sample_def
      split: if_splits bind_splits
      dest: refused_set_mode refused_on_channel [OF _ _ refused_output_action]
        refused_watchdog [OF _ _ refused_set_cal_field] refused_watchdog [OF _ _ refused_cal_set_output_enable]
        refused_watchdog [OF _ _ refused_cal_set_raw_dac] refused_watchdog [OF _ _ refused_cal_sample]\<close>)

lemma refused_request_changes_nothing_witness:
  "vc_controller_channel_cal_raw_dac kconfig_defaults bench_controller 0 1000 =
   Some (VC_ERR_INVALID_COMMAND, bench_controller)"
proof -
  have "channel_valid bench_controller 0" by (simp add: eval_defs Let_def)
  then obtain ctrl' where r: "ctl_exec kconfig_defaults (Ctl_Cal_Raw_Dac 0 1000) bench_controller =
      Some (VC_ERR_INVALID_COMMAND, ctrl')"
    using bench_ok2(2) by (simp add: vc_controller_channel_cal_raw_dac_def)
  from refused_request_changes_nothing [OF r] r show ?thesis by simp
qed

subsection \<open>Where the code departs from its comments\<close>

text \<open>
  A step beyond the \<open>int16_t\<close> range wraps: a channel asked to ramp from 0 to 100 with a step of
  40000 jumps to a negative target.
\<close>

lemma ramp_step_wraps: "sint (ramp_step 40000 100 0) = - 25536"
  by (simp add: ramp_step_def)

text \<open>
  A protection trip on a channel whose output is off: the graceful action switches the output on
  to ramp it down, and the fault is latched with the output enabled.
\<close>

lemma graceful_trip_powers_a_disabled_output:
  "\<exists>ch'. tick_current_protection
      (bench_channel\<lparr>measured_current := 2000,
         config := (config bench_channel)
           \<lparr>current_protection_output_action := VC_OUTPUT_ACTION_DISABLE_GRACEFUL\<rparr>\<rparr>) = Some ch' \<and>
    \<not> output_enabled bench_channel \<and> output_enabled ch' \<and> smf ch' = VC_CHANNEL_SMF_FAULT_LATCHED"
  by (simp add: tick_current_protection_def apply_protection_action_def begin_graceful_def
      apply_hw_def channel_has_cap_def bench_defs)

text \<open>
  Clearing the active fault reports DISABLED_SAFE, with the output on when the protective action
  had left it on.
\<close>

lemma clear_active_keeps_output_on:
  "\<exists>ch'. vc_channel_fault_command
      (bench_channel\<lparr>output_enabled := True, operational_target_voltage := 1000,
         active_fault_cause := VC_FAULT_CURRENT, smf := VC_CHANNEL_SMF_FAULT_LATCHED\<rparr>)
      VC_CHANNEL_FAULT_COMMAND_CLEAR_ACTIVE = (VC_OK, ch') \<and>
    smf ch' = VC_CHANNEL_SMF_DISABLED_SAFE \<and> output_enabled ch' \<and> operational_target_voltage ch' = 1000"
  by (simp add: vc_channel_fault_command_def is_valid_channel_fault_command_def
      is_safe_to_clear_active_def safe_limit_def bench_defs update_status_bits_def Let_def c_div_def)

text \<open>
  A system factory reset in CALIBRATION only overwrites the mode: the code on the DAC stays, and
  the watchdog, which runs in CALIBRATION only, no longer takes it away.
\<close>

lemma factory_reset_leaves_calibration_drive:
  "\<exists>ctrl. ctl_execs kconfig_defaults
      (cal_session @ [Ctl_Cal_Raw_Dac 0 1000, Ctl_System_Param VC_PARAM_ACTION_FACTORY_RESET])
      bench_controller = Some ctrl \<and>
    operating_mode ctrl = VC_OPERATING_MODE_NORMAL \<and> energised (channels ctrl ! 0)"
  by (simp add: cal_session_def eval_defs Let_def update_status_bits_def energised_def
      vc_controller_channel_cal_raw_dac_def vc_channel_cal_set_raw_dac_def store_eval_defs)
    (simp add: blank_channel_def)

definition faulted_bench :: "(unit, nvs) vc_controller" where
  "faulted_bench = bench_controller
     \<lparr>channels := (channels bench_controller)
        [0 := (channels bench_controller ! 0)\<lparr>active_fault_cause := VC_FAULT_CURRENT\<rparr>]\<rparr>"

text \<open>
  A fault latched in NORMAL mode keeps the controller out of AUTOMATIC, but not on the way through
  CALIBRATION.
\<close>

lemma fault_rides_into_automatic:
  "vc_controller_set_operating_mode kconfig_defaults faulted_bench VC_OPERATING_MODE_AUTOMATIC =
     Some (VC_ERR_UNSAFE_STATE, faulted_bench) \<and>
   (\<exists>ctrl. ctl_execs kconfig_defaults
      [Ctl_Unlock CAL_UNLOCK_STEP1, Ctl_Unlock CAL_UNLOCK_STEP2,
       Ctl_Set_Mode VC_OPERATING_MODE_CALIBRATION, Ctl_Set_Mode VC_OPERATING_MODE_AUTOMATIC]
      faulted_bench = Some ctrl \<and>
    operating_mode ctrl = VC_OPERATING_MODE_AUTOMATIC \<and>
    active_fault_cause (channels ctrl ! 0) = VC_FAULT_CURRENT)"
  apply (rule conjI)
  subgoal by (simp add: faulted_bench_def eval_defs Let_def any_fault_def)
  subgoal
    by (simp add: faulted_bench_def eval_defs Let_def any_fault_def auto_enable_def wants_output_def
        update_status_bits_def)
      (simp add: blank_channel_def vc_channel_default_config_def kconfig_defaults_def)
  done

text \<open>
  A system configuration whose mode switch is refused is kept all the same: the call reports an
  error and the stored mode differs from the one in force.
\<close>

lemma refused_system_config_is_kept:
  "\<exists>ctrl. vc_controller_set_system_config kconfig_defaults faulted_bench
      \<lparr>sys_operating_mode = VC_OPERATING_MODE_AUTOMATIC, startup_channel_policy = 5\<rparr> =
      Some (VC_ERR_UNSAFE_STATE, ctrl) \<and>
    operating_mode ctrl = VC_OPERATING_MODE_NORMAL \<and>
    sys_cfg ctrl = \<lparr>sys_operating_mode = VC_OPERATING_MODE_AUTOMATIC, startup_channel_policy = 5\<rparr>"
  by (simp add: faulted_bench_def eval_defs Let_def any_fault_def vc_controller_set_system_config_def)

text \<open>Coefficients read from a corrupt store index the table of powers out of its bounds.\<close>

lemma corrupt_coefficients_are_undefined:
  "apply_gain 1000 1 9 \<noteq> None \<and> apply_gain 1000 1 200 = None"
  by (simp add: apply_gain_def pow10_at_def int64_def int64_ok_def vc_pow10_table_def)

end
