(* ===== verification/Reg_Catalog.thy ===== *)
theory Reg_Catalog
  imports Prelude
begin

text \<open>
  The register catalog: \<open>include/reg_store/reg_catalog.h\<close> and \<open>lib/reg_store/reg_catalog.c\<close>. A
  semantic register is a descriptor with an id, a type, an access right, an optional pointer to
  the variable that holds its value and an optional owner with a read and a write function. The
  state that the pointers and owners reach is the type parameter \<open>'s\<close>: a value pointer is the
  function that reads the variable, an owner function takes and returns the state. The timeout a
  write carries is the parameter \<open>'t\<close>; the catalog only hands it on.

  The owner functions of the C code receive the descriptor itself; here they receive its fields
  other than the owner (\<open>reg_view\<close>).
\<close>

type_synonym reg_id_t = u32

definition REG_ID :: "u32 \<Rightarrow> u32 \<Rightarrow> u32 \<Rightarrow> reg_id_t" where
  "REG_ID m inst field =
     push_bit 24 (m AND 0xff) OR push_bit 16 (inst AND 0xff) OR (field AND 0xffff)"

definition REG_ID_MODULE :: "reg_id_t \<Rightarrow> u32" where
  "REG_ID_MODULE i = drop_bit 24 i AND 0xff"

definition REG_ID_INSTANCE :: "reg_id_t \<Rightarrow> u32" where
  "REG_ID_INSTANCE i = drop_bit 16 i AND 0xff"

definition REG_ID_FIELD :: "reg_id_t \<Rightarrow> u32" where
  "REG_ID_FIELD i = i AND 0xffff"

datatype reg_type = REG_U16 | REG_S16 | REG_U32 | REG_S32 | REG_BOOL | REG_ENUM

datatype reg_access = REG_RO | REG_RW | REG_WO

datatype reg_category =
  REG_MEASUREMENT_RAW | REG_MEASUREMENT_DERIVED | REG_RUNTIME_STATE | REG_FIXED | REG_CONFIG | REG_COMMAND

datatype reg_status =
  REG_OK
| REG_NOT_FOUND
| REG_INVALID_ARGUMENT
| REG_INVALID_VALUE
| REG_READ_ONLY
| REG_WRITE_ONLY
| REG_UNSUPPORTED
| REG_BUSY
| REG_IO_ERROR

text \<open>
  \<open>union reg_value\<close> is its four bytes as a word. Every writer starts from a zeroed union, so a
  16-bit member fills the low half; a 16-bit read takes it.
\<close>

type_synonym reg_value = u32

definition value_of_u16 :: "u16 \<Rightarrow> reg_value" where "value_of_u16 v = ucast v"
definition value_u16 :: "reg_value \<Rightarrow> u16" where "value_u16 v = ucast v"
definition value_of_bool :: "bool \<Rightarrow> reg_value" where "value_of_bool b = (if b then 1 else 0)"

record 's reg_view =
  desc_id :: reg_id_t
  desc_type :: reg_type
  desc_access :: reg_access
  desc_category :: reg_category
  desc_value :: "('s \<Rightarrow> reg_value) option"

text \<open>An owner function is undefined (\<open>None\<close>) where the C code would read out of bounds.\<close>

record ('s, 't) reg_owner =
  owner_read :: "('s reg_view \<Rightarrow> 's \<Rightarrow> (reg_status \<times> reg_value) option) option"
  owner_write :: "('s reg_view \<Rightarrow> reg_value \<Rightarrow> 't \<Rightarrow> 's \<Rightarrow> (reg_status \<times> 's) option) option"

record ('s, 't) reg_descriptor = "'s reg_view" +
  desc_owner :: "('s, 't) reg_owner option"

definition reg_describe ::
    "('s, 't) reg_descriptor list \<Rightarrow> reg_id_t \<Rightarrow> ('s, 't) reg_descriptor option" where
  "reg_describe catalog i = find (\<lambda>desc. desc_id desc = i) catalog"

text \<open>The access through the value pointer at the descriptor's type.\<close>

definition reg_read_bound_value :: "'s reg_view \<Rightarrow> 's \<Rightarrow> reg_status \<times> reg_value" where
  "reg_read_bound_value desc s =
     (case desc_value desc of
        None \<Rightarrow> (REG_INVALID_ARGUMENT, 0)
      | Some p \<Rightarrow>
          (case desc_type desc of
             REG_U16 \<Rightarrow> (REG_OK, value_of_u16 (value_u16 (p s)))
           | REG_ENUM \<Rightarrow> (REG_OK, value_of_u16 (value_u16 (p s)))
           | REG_S16 \<Rightarrow> (REG_OK, value_of_u16 (value_u16 (p s)))
           | REG_U32 \<Rightarrow> (REG_OK, p s)
           | REG_S32 \<Rightarrow> (REG_OK, p s)
           | REG_BOOL \<Rightarrow> (REG_OK, value_of_bool (p s \<noteq> 0))))"

definition view_of :: "('s, 't) reg_descriptor \<Rightarrow> 's reg_view" where
  "view_of desc = reg_view.truncate desc"

definition reg_read_descriptor ::
    "('s, 't) reg_descriptor option \<Rightarrow> 's \<Rightarrow> (reg_status \<times> reg_value) option" where
  "reg_read_descriptor d s =
     (case d of
        None \<Rightarrow> Some (REG_INVALID_ARGUMENT, 0)
      | Some desc \<Rightarrow>
          if desc_access desc = REG_WO then Some (REG_WRITE_ONLY, 0)
          else
            (case Option.bind (desc_owner desc) owner_read of
               Some rd \<Rightarrow> rd (view_of desc) s
             | None \<Rightarrow> Some (reg_read_bound_value (view_of desc) s)))"

definition reg_read ::
    "('s, 't) reg_descriptor list \<Rightarrow> reg_id_t \<Rightarrow> 's \<Rightarrow> (reg_status \<times> reg_value) option" where
  "reg_read catalog i s =
     (case reg_describe catalog i of
        None \<Rightarrow> Some (REG_NOT_FOUND, 0)
      | Some desc \<Rightarrow> reg_read_descriptor (Some desc) s)"

definition reg_write_descriptor ::
    "('s, 't) reg_descriptor option \<Rightarrow> reg_value \<Rightarrow> 't \<Rightarrow> 's \<Rightarrow> (reg_status \<times> 's) option" where
  "reg_write_descriptor d v t s =
     (case d of
        None \<Rightarrow> Some (REG_INVALID_ARGUMENT, s)
      | Some desc \<Rightarrow>
          if desc_access desc = REG_RO then Some (REG_READ_ONLY, s)
          else
            (case Option.bind (desc_owner desc) owner_write of
               None \<Rightarrow> Some (REG_UNSUPPORTED, s)
             | Some wr \<Rightarrow> wr (view_of desc) v t s))"

definition reg_write ::
    "('s, 't) reg_descriptor list \<Rightarrow> reg_id_t \<Rightarrow> reg_value \<Rightarrow> 't \<Rightarrow> 's \<Rightarrow> (reg_status \<times> 's) option" where
  "reg_write catalog i v t s =
     (case reg_describe catalog i of
        None \<Rightarrow> Some (REG_NOT_FOUND, s)
      | Some desc \<Rightarrow> reg_write_descriptor (Some desc) v t s)"

definition reg_handle_read ::
    "('s, 't) reg_descriptor option \<Rightarrow> 's \<Rightarrow> (reg_status \<times> reg_value) option" where
  "reg_handle_read handle s = reg_read_descriptor handle s"

definition reg_handle_write ::
    "('s, 't) reg_descriptor option \<Rightarrow> reg_value \<Rightarrow> 't \<Rightarrow> 's \<Rightarrow> (reg_status \<times> 's) option" where
  "reg_handle_write handle v t s = reg_write_descriptor handle v t s"

subsection \<open>Values and ids\<close>

lemma value_u16_of_u16 [simp]: "value_u16 (value_of_u16 v) = v"
  unfolding value_u16_def value_of_u16_def by (rule bit_word_eqI) (simp add: bit_simps)

lemma view_of_simps [simp]:
  "desc_id (view_of d) = desc_id d" "desc_type (view_of d) = desc_type d"
  "desc_access (view_of d) = desc_access d" "desc_category (view_of d) = desc_category d"
  "desc_value (view_of d) = desc_value d"
  by (simp_all add: view_of_def reg_view.truncate_def)

lemma reg_describe_Some:
  "reg_describe catalog i = Some d \<Longrightarrow> d \<in> set catalog \<and> desc_id d = i"
  by (auto simp: reg_describe_def find_Some_iff in_set_conv_nth)

text \<open>A lookup finds any descriptor of the catalog when the ids are distinct.\<close>

lemma reg_describe_eq:
  assumes "distinct (map desc_id catalog)" and "d \<in> set catalog"
  shows "reg_describe catalog (desc_id d) = Some d"
  using assms by (induction catalog) (auto simp: reg_describe_def)

lemma REG_ID_fields [simp]:
  "REG_ID_MODULE (REG_ID m i f) = m AND 0xff"
  "REG_ID_INSTANCE (REG_ID m i f) = i AND 0xff"
  "REG_ID_FIELD (REG_ID m i f) = f AND 0xffff"
proof -
  have 255: "(0xff :: u32) = mask 8" and 65535: "(0xffff :: u32) = mask 16" by (simp_all add: mask_eq_exp_minus_1)
  show "REG_ID_MODULE (REG_ID m i f) = m AND 0xff"
    unfolding REG_ID_def REG_ID_MODULE_def 255 65535
    by (rule bit_word_eqI) (auto simp: bit_simps)
  show "REG_ID_INSTANCE (REG_ID m i f) = i AND 0xff"
    unfolding REG_ID_def REG_ID_INSTANCE_def 255 65535
    by (rule bit_word_eqI) (auto simp: bit_simps)
  show "REG_ID_FIELD (REG_ID m i f) = f AND 0xffff"
    unfolding REG_ID_def REG_ID_FIELD_def 255 65535
    by (rule bit_word_eqI) (auto simp: bit_simps)
qed

end
