(* ===== verification/Reg_Schema.thy ===== *)
theory Reg_Schema
  imports Reg_Catalog
begin

text \<open>
  The semantic register schema: \<open>include/reg_store/reg_schema.h\<close> with the register lists it
  includes (\<open>vc_regs.def\<close>, \<open>vc_global_regs.def\<close>, \<open>sys_status_regs.def\<close>,
  \<open>modbus_regs.def\<close>), and the constants of \<open>include/reg_store/reg_map.h\<close>. A list of the code that an
  X-macro expands is a list here, in the same order; a field number is an abbreviation, and the
  ordinal of a register is its position in the list.
\<close>

datatype reg_module_id =
  REG_MODULE_INVALID | REG_MODULE_SYSTEM_STATUS | REG_MODULE_VOLTAGE_CONTROL | REG_MODULE_MODBUS_ADAPTER

fun module_number :: "reg_module_id \<Rightarrow> u32" where
  "module_number REG_MODULE_INVALID = 0"
| "module_number REG_MODULE_SYSTEM_STATUS = 1"
| "module_number REG_MODULE_VOLTAGE_CONTROL = 2"
| "module_number REG_MODULE_MODBUS_ADAPTER = 3"

abbreviation (input) REG_GLOBAL_INSTANCE :: u8 where "REG_GLOBAL_INSTANCE \<equiv> 0xff"

text \<open>A row of a list: field, type, access, category.\<close>

type_synonym reg_row = "u16 \<times> reg_type \<times> reg_access \<times> reg_category"

subsection \<open>Channel registers\<close>

abbreviation (input) REG_VC_FIELD_STATUS_BITS :: u16 where "REG_VC_FIELD_STATUS_BITS \<equiv> 0x0001"
abbreviation (input) REG_VC_FIELD_ACTIVE_FAULT_CAUSE :: u16 where "REG_VC_FIELD_ACTIVE_FAULT_CAUSE \<equiv> 0x0002"
abbreviation (input) REG_VC_FIELD_FAULT_HISTORY_CAUSE :: u16 where "REG_VC_FIELD_FAULT_HISTORY_CAUSE \<equiv> 0x0003"
abbreviation (input) REG_VC_FIELD_LAST_PROT_OUT_ACTION :: u16 where "REG_VC_FIELD_LAST_PROT_OUT_ACTION \<equiv> 0x0004"
abbreviation (input) REG_VC_FIELD_AUTO_RETRY_COUNT :: u16 where "REG_VC_FIELD_AUTO_RETRY_COUNT \<equiv> 0x0005"
abbreviation (input) REG_VC_FIELD_AUTO_COOLDOWN_REMAINING :: u16 where "REG_VC_FIELD_AUTO_COOLDOWN_REMAINING \<equiv> 0x0006"
abbreviation (input) REG_VC_FIELD_LAST_FAULT_TIMESTAMP :: u16 where "REG_VC_FIELD_LAST_FAULT_TIMESTAMP \<equiv> 0x0007"
abbreviation (input) REG_VC_FIELD_OPER_TARGET_VOLTAGE :: u16 where "REG_VC_FIELD_OPER_TARGET_VOLTAGE \<equiv> 0x0008"
abbreviation (input) REG_VC_FIELD_CAPABILITY_FLAGS :: u16 where "REG_VC_FIELD_CAPABILITY_FLAGS \<equiv> 0x0009"
abbreviation (input) REG_VC_FIELD_MEASURED_VOLTAGE :: u16 where "REG_VC_FIELD_MEASURED_VOLTAGE \<equiv> 0x000a"
abbreviation (input) REG_VC_FIELD_MEASURED_CURRENT :: u16 where "REG_VC_FIELD_MEASURED_CURRENT \<equiv> 0x000b"
abbreviation (input) REG_VC_FIELD_RAW_ADC_VOLTAGE :: u16 where "REG_VC_FIELD_RAW_ADC_VOLTAGE \<equiv> 0x000c"
abbreviation (input) REG_VC_FIELD_RAW_ADC_CURRENT :: u16 where "REG_VC_FIELD_RAW_ADC_CURRENT \<equiv> 0x000d"
abbreviation (input) REG_VC_FIELD_OUTPUT_ACTION :: u16 where "REG_VC_FIELD_OUTPUT_ACTION \<equiv> 0x0201"
abbreviation (input) REG_VC_FIELD_FAULT_CMD :: u16 where "REG_VC_FIELD_FAULT_CMD \<equiv> 0x0202"
abbreviation (input) REG_VC_FIELD_PARAM_ACTION :: u16 where "REG_VC_FIELD_PARAM_ACTION \<equiv> 0x0203"
abbreviation (input) REG_VC_FIELD_CFG_TARGET_VOLTAGE :: u16 where "REG_VC_FIELD_CFG_TARGET_VOLTAGE \<equiv> 0x0101"
abbreviation (input) REG_VC_FIELD_CFG_OUTPUT_ENABLED :: u16 where "REG_VC_FIELD_CFG_OUTPUT_ENABLED \<equiv> 0x010f"
abbreviation (input) REG_VC_FIELD_RAMP_UP_STEP :: u16 where "REG_VC_FIELD_RAMP_UP_STEP \<equiv> 0x0102"
abbreviation (input) REG_VC_FIELD_RAMP_UP_INTERVAL :: u16 where "REG_VC_FIELD_RAMP_UP_INTERVAL \<equiv> 0x0103"
abbreviation (input) REG_VC_FIELD_RAMP_DOWN_STEP :: u16 where "REG_VC_FIELD_RAMP_DOWN_STEP \<equiv> 0x0104"
abbreviation (input) REG_VC_FIELD_RAMP_DOWN_INTERVAL :: u16 where "REG_VC_FIELD_RAMP_DOWN_INTERVAL \<equiv> 0x0105"
abbreviation (input) REG_VC_FIELD_RECOVERY_POLICY_MODE :: u16 where "REG_VC_FIELD_RECOVERY_POLICY_MODE \<equiv> 0x0106"
abbreviation (input) REG_VC_FIELD_AUTO_RETRY_DELAY :: u16 where "REG_VC_FIELD_AUTO_RETRY_DELAY \<equiv> 0x0107"
abbreviation (input) REG_VC_FIELD_AUTO_RETRY_MAX_COUNT :: u16 where "REG_VC_FIELD_AUTO_RETRY_MAX_COUNT \<equiv> 0x0108"
abbreviation (input) REG_VC_FIELD_AUTO_RETRY_WINDOW :: u16 where "REG_VC_FIELD_AUTO_RETRY_WINDOW \<equiv> 0x0109"
abbreviation (input) REG_VC_FIELD_CURRENT_SAFE_BAND_PCT :: u16 where "REG_VC_FIELD_CURRENT_SAFE_BAND_PCT \<equiv> 0x010a"
abbreviation (input) REG_VC_FIELD_CURRENT_PROTECTION_MODE :: u16 where "REG_VC_FIELD_CURRENT_PROTECTION_MODE \<equiv> 0x010b"
abbreviation (input) REG_VC_FIELD_CURRENT_PROT_OUT_ACTION :: u16 where "REG_VC_FIELD_CURRENT_PROT_OUT_ACTION \<equiv> 0x010c"
abbreviation (input) REG_VC_FIELD_CURRENT_LIMIT_THRESHOLD :: u16 where "REG_VC_FIELD_CURRENT_LIMIT_THRESHOLD \<equiv> 0x010d"
abbreviation (input) REG_VC_FIELD_AUTO_DERATE_STEP :: u16 where "REG_VC_FIELD_AUTO_DERATE_STEP \<equiv> 0x010e"
abbreviation (input) REG_VC_FIELD_OUTPUT_CAL_K :: u16 where "REG_VC_FIELD_OUTPUT_CAL_K \<equiv> 0x0114"
abbreviation (input) REG_VC_FIELD_OUTPUT_CAL_B :: u16 where "REG_VC_FIELD_OUTPUT_CAL_B \<equiv> 0x0115"
abbreviation (input) REG_VC_FIELD_MEASURED_V_CAL_K :: u16 where "REG_VC_FIELD_MEASURED_V_CAL_K \<equiv> 0x0116"
abbreviation (input) REG_VC_FIELD_MEASURED_V_CAL_B :: u16 where "REG_VC_FIELD_MEASURED_V_CAL_B \<equiv> 0x0117"
abbreviation (input) REG_VC_FIELD_MEASURED_I_CAL_K :: u16 where "REG_VC_FIELD_MEASURED_I_CAL_K \<equiv> 0x0118"
abbreviation (input) REG_VC_FIELD_MEASURED_I_CAL_B :: u16 where "REG_VC_FIELD_MEASURED_I_CAL_B \<equiv> 0x0119"
abbreviation (input) REG_VC_FIELD_OUTPUT_CAL_K_EXP :: u16 where "REG_VC_FIELD_OUTPUT_CAL_K_EXP \<equiv> 0x011a"
abbreviation (input) REG_VC_FIELD_MEASURED_V_CAL_K_EXP :: u16 where "REG_VC_FIELD_MEASURED_V_CAL_K_EXP \<equiv> 0x011b"
abbreviation (input) REG_VC_FIELD_MEASURED_I_CAL_K_EXP :: u16 where "REG_VC_FIELD_MEASURED_I_CAL_K_EXP \<equiv> 0x011c"
abbreviation (input) REG_VC_FIELD_CAL_OUTPUT_ENABLE :: u16 where "REG_VC_FIELD_CAL_OUTPUT_ENABLE \<equiv> 0x021e"
abbreviation (input) REG_VC_FIELD_CAL_DAC_CODE :: u16 where "REG_VC_FIELD_CAL_DAC_CODE \<equiv> 0x021f"
abbreviation (input) REG_VC_FIELD_CAL_SAMPLE_CMD :: u16 where "REG_VC_FIELD_CAL_SAMPLE_CMD \<equiv> 0x0220"
abbreviation (input) REG_VC_FIELD_CAL_COMMIT_CMD :: u16 where "REG_VC_FIELD_CAL_COMMIT_CMD \<equiv> 0x0221"

definition vc_regs :: "reg_row list" where
  "vc_regs =
    [(REG_VC_FIELD_STATUS_BITS, REG_U16, REG_RO, REG_RUNTIME_STATE),
     (REG_VC_FIELD_ACTIVE_FAULT_CAUSE, REG_U16, REG_RO, REG_RUNTIME_STATE),
     (REG_VC_FIELD_FAULT_HISTORY_CAUSE, REG_U16, REG_RO, REG_RUNTIME_STATE),
     (REG_VC_FIELD_LAST_PROT_OUT_ACTION, REG_ENUM, REG_RO, REG_RUNTIME_STATE),
     (REG_VC_FIELD_AUTO_RETRY_COUNT, REG_U16, REG_RO, REG_RUNTIME_STATE),
     (REG_VC_FIELD_AUTO_COOLDOWN_REMAINING, REG_U16, REG_RO, REG_RUNTIME_STATE),
     (REG_VC_FIELD_LAST_FAULT_TIMESTAMP, REG_U32, REG_RO, REG_RUNTIME_STATE),
     (REG_VC_FIELD_OPER_TARGET_VOLTAGE, REG_S16, REG_RO, REG_RUNTIME_STATE),
     (REG_VC_FIELD_CAPABILITY_FLAGS, REG_U16, REG_RO, REG_FIXED),
     (REG_VC_FIELD_MEASURED_VOLTAGE, REG_S16, REG_RO, REG_MEASUREMENT_DERIVED),
     (REG_VC_FIELD_MEASURED_CURRENT, REG_S16, REG_RO, REG_MEASUREMENT_DERIVED),
     (REG_VC_FIELD_RAW_ADC_VOLTAGE, REG_S32, REG_RO, REG_MEASUREMENT_RAW),
     (REG_VC_FIELD_RAW_ADC_CURRENT, REG_S32, REG_RO, REG_MEASUREMENT_RAW),
     (REG_VC_FIELD_OUTPUT_ACTION, REG_ENUM, REG_WO, REG_COMMAND),
     (REG_VC_FIELD_FAULT_CMD, REG_ENUM, REG_WO, REG_COMMAND),
     (REG_VC_FIELD_PARAM_ACTION, REG_ENUM, REG_WO, REG_COMMAND),
     (REG_VC_FIELD_CFG_TARGET_VOLTAGE, REG_S16, REG_RW, REG_CONFIG),
     (REG_VC_FIELD_CFG_OUTPUT_ENABLED, REG_U16, REG_RW, REG_CONFIG),
     (REG_VC_FIELD_RAMP_UP_STEP, REG_U16, REG_RW, REG_CONFIG),
     (REG_VC_FIELD_RAMP_UP_INTERVAL, REG_U16, REG_RW, REG_CONFIG),
     (REG_VC_FIELD_RAMP_DOWN_STEP, REG_U16, REG_RW, REG_CONFIG),
     (REG_VC_FIELD_RAMP_DOWN_INTERVAL, REG_U16, REG_RW, REG_CONFIG),
     (REG_VC_FIELD_RECOVERY_POLICY_MODE, REG_ENUM, REG_RW, REG_CONFIG),
     (REG_VC_FIELD_AUTO_RETRY_DELAY, REG_U16, REG_RW, REG_CONFIG),
     (REG_VC_FIELD_AUTO_RETRY_MAX_COUNT, REG_U16, REG_RW, REG_CONFIG),
     (REG_VC_FIELD_AUTO_RETRY_WINDOW, REG_U16, REG_RW, REG_CONFIG),
     (REG_VC_FIELD_CURRENT_SAFE_BAND_PCT, REG_U16, REG_RW, REG_CONFIG),
     (REG_VC_FIELD_CURRENT_PROTECTION_MODE, REG_ENUM, REG_RW, REG_CONFIG),
     (REG_VC_FIELD_CURRENT_PROT_OUT_ACTION, REG_ENUM, REG_RW, REG_CONFIG),
     (REG_VC_FIELD_CURRENT_LIMIT_THRESHOLD, REG_S16, REG_RW, REG_CONFIG),
     (REG_VC_FIELD_AUTO_DERATE_STEP, REG_U16, REG_RW, REG_CONFIG),
     (REG_VC_FIELD_OUTPUT_CAL_K, REG_U16, REG_RW, REG_CONFIG),
     (REG_VC_FIELD_OUTPUT_CAL_B, REG_S16, REG_RW, REG_CONFIG),
     (REG_VC_FIELD_MEASURED_V_CAL_K, REG_U16, REG_RW, REG_CONFIG),
     (REG_VC_FIELD_MEASURED_V_CAL_B, REG_S16, REG_RW, REG_CONFIG),
     (REG_VC_FIELD_MEASURED_I_CAL_K, REG_U16, REG_RW, REG_CONFIG),
     (REG_VC_FIELD_MEASURED_I_CAL_B, REG_S16, REG_RW, REG_CONFIG),
     (REG_VC_FIELD_OUTPUT_CAL_K_EXP, REG_S16, REG_RW, REG_CONFIG),
     (REG_VC_FIELD_MEASURED_V_CAL_K_EXP, REG_S16, REG_RW, REG_CONFIG),
     (REG_VC_FIELD_MEASURED_I_CAL_K_EXP, REG_S16, REG_RW, REG_CONFIG),
     (REG_VC_FIELD_CAL_OUTPUT_ENABLE, REG_U16, REG_RW, REG_COMMAND),
     (REG_VC_FIELD_CAL_DAC_CODE, REG_U16, REG_RW, REG_RUNTIME_STATE),
     (REG_VC_FIELD_CAL_SAMPLE_CMD, REG_U16, REG_WO, REG_COMMAND),
     (REG_VC_FIELD_CAL_COMMIT_CMD, REG_U16, REG_WO, REG_COMMAND)]"

subsection \<open>Global registers\<close>

abbreviation (input) REG_VC_GLOBAL_FIELD_VARIANT_ID :: u16 where "REG_VC_GLOBAL_FIELD_VARIANT_ID \<equiv> 0x0001"
abbreviation (input) REG_VC_GLOBAL_FIELD_CAPABILITY_FLAGS :: u16 where "REG_VC_GLOBAL_FIELD_CAPABILITY_FLAGS \<equiv> 0x0002"
abbreviation (input) REG_VC_GLOBAL_FIELD_SUPPORTED_CHANNELS :: u16 where "REG_VC_GLOBAL_FIELD_SUPPORTED_CHANNELS \<equiv> 0x0003"
abbreviation (input) REG_VC_GLOBAL_FIELD_ACTIVE_CHANNEL_MASK :: u16 where "REG_VC_GLOBAL_FIELD_ACTIVE_CHANNEL_MASK \<equiv> 0x0004"
abbreviation (input) REG_VC_GLOBAL_FIELD_ACTIVE_OPERATING_MODE :: u16 where "REG_VC_GLOBAL_FIELD_ACTIVE_OPERATING_MODE \<equiv> 0x0005"
abbreviation (input) REG_VC_GLOBAL_FIELD_STATUS :: u16 where "REG_VC_GLOBAL_FIELD_STATUS \<equiv> 0x0006"
abbreviation (input) REG_VC_GLOBAL_FIELD_FAULT_CAUSE :: u16 where "REG_VC_GLOBAL_FIELD_FAULT_CAUSE \<equiv> 0x0007"
abbreviation (input) REG_VC_GLOBAL_FIELD_CAL_WATCHDOG_REMAINING_S :: u16 where "REG_VC_GLOBAL_FIELD_CAL_WATCHDOG_REMAINING_S \<equiv> 0x0008"
abbreviation (input) REG_VC_GLOBAL_FIELD_CURRENT_UNIT_EXP :: u16 where "REG_VC_GLOBAL_FIELD_CURRENT_UNIT_EXP \<equiv> 0x0009"
abbreviation (input) REG_VC_GLOBAL_FIELD_BOARD_HW_REVISION :: u16 where "REG_VC_GLOBAL_FIELD_BOARD_HW_REVISION \<equiv> 0x000A"
abbreviation (input) REG_VC_GLOBAL_FIELD_OPERATING_MODE :: u16 where "REG_VC_GLOBAL_FIELD_OPERATING_MODE \<equiv> 0x0101"
abbreviation (input) REG_VC_GLOBAL_FIELD_STARTUP_CHANNEL_POLICY :: u16 where "REG_VC_GLOBAL_FIELD_STARTUP_CHANNEL_POLICY \<equiv> 0x0102"
abbreviation (input) REG_VC_GLOBAL_FIELD_PARAM_ACTION :: u16 where "REG_VC_GLOBAL_FIELD_PARAM_ACTION \<equiv> 0x0201"
abbreviation (input) REG_VC_GLOBAL_FIELD_CAL_UNLOCK :: u16 where "REG_VC_GLOBAL_FIELD_CAL_UNLOCK \<equiv> 0x0202"
abbreviation (input) REG_VC_GLOBAL_FIELD_CAL_EXIT :: u16 where "REG_VC_GLOBAL_FIELD_CAL_EXIT \<equiv> 0x0203"

definition vc_global_regs :: "reg_row list" where
  "vc_global_regs =
    [(REG_VC_GLOBAL_FIELD_VARIANT_ID, REG_U16, REG_RO, REG_FIXED),
     (REG_VC_GLOBAL_FIELD_CAPABILITY_FLAGS, REG_U16, REG_RO, REG_FIXED),
     (REG_VC_GLOBAL_FIELD_SUPPORTED_CHANNELS, REG_U16, REG_RO, REG_FIXED),
     (REG_VC_GLOBAL_FIELD_ACTIVE_CHANNEL_MASK, REG_U16, REG_RO, REG_FIXED),
     (REG_VC_GLOBAL_FIELD_ACTIVE_OPERATING_MODE, REG_ENUM, REG_RO, REG_RUNTIME_STATE),
     (REG_VC_GLOBAL_FIELD_STATUS, REG_U16, REG_RO, REG_RUNTIME_STATE),
     (REG_VC_GLOBAL_FIELD_FAULT_CAUSE, REG_U16, REG_RO, REG_RUNTIME_STATE),
     (REG_VC_GLOBAL_FIELD_CAL_WATCHDOG_REMAINING_S, REG_U16, REG_RO, REG_RUNTIME_STATE),
     (REG_VC_GLOBAL_FIELD_CURRENT_UNIT_EXP, REG_S16, REG_RO, REG_FIXED),
     (REG_VC_GLOBAL_FIELD_BOARD_HW_REVISION, REG_U16, REG_RO, REG_FIXED),
     (REG_VC_GLOBAL_FIELD_OPERATING_MODE, REG_ENUM, REG_RW, REG_CONFIG),
     (REG_VC_GLOBAL_FIELD_STARTUP_CHANNEL_POLICY, REG_U16, REG_RW, REG_CONFIG),
     (REG_VC_GLOBAL_FIELD_PARAM_ACTION, REG_U16, REG_WO, REG_COMMAND),
     (REG_VC_GLOBAL_FIELD_CAL_UNLOCK, REG_U16, REG_WO, REG_COMMAND),
     (REG_VC_GLOBAL_FIELD_CAL_EXIT, REG_U16, REG_WO, REG_COMMAND)]"

subsection \<open>Registers of the other modules\<close>

abbreviation (input) REG_SYS_STATUS_FIELD_BOARD_TEMPERATURE :: u16 where "REG_SYS_STATUS_FIELD_BOARD_TEMPERATURE \<equiv> 0x0001"
abbreviation (input) REG_SYS_STATUS_FIELD_BOARD_HUMIDITY :: u16 where "REG_SYS_STATUS_FIELD_BOARD_HUMIDITY \<equiv> 0x0002"
abbreviation (input) REG_SYS_STATUS_FIELD_UPTIME :: u16 where "REG_SYS_STATUS_FIELD_UPTIME \<equiv> 0x0003"
abbreviation (input) REG_SYS_STATUS_FIELD_FW_VERSION :: u16 where "REG_SYS_STATUS_FIELD_FW_VERSION \<equiv> 0x0004"
abbreviation (input) REG_SYS_STATUS_FIELD_RESET :: u16 where "REG_SYS_STATUS_FIELD_RESET \<equiv> 0x0201"

definition sys_status_regs :: "reg_row list" where
  "sys_status_regs =
    [(REG_SYS_STATUS_FIELD_BOARD_TEMPERATURE, REG_S16, REG_RO, REG_MEASUREMENT_RAW),
     (REG_SYS_STATUS_FIELD_BOARD_HUMIDITY, REG_U16, REG_RO, REG_MEASUREMENT_RAW),
     (REG_SYS_STATUS_FIELD_UPTIME, REG_U32, REG_RO, REG_RUNTIME_STATE),
     (REG_SYS_STATUS_FIELD_FW_VERSION, REG_U32, REG_RO, REG_FIXED),
     (REG_SYS_STATUS_FIELD_RESET, REG_U16, REG_WO, REG_COMMAND)]"

abbreviation (input) REG_MODBUS_FIELD_PROTOCOL_MAJOR :: u16 where "REG_MODBUS_FIELD_PROTOCOL_MAJOR \<equiv> 0x0001"
abbreviation (input) REG_MODBUS_FIELD_PROTOCOL_MINOR :: u16 where "REG_MODBUS_FIELD_PROTOCOL_MINOR \<equiv> 0x0002"
abbreviation (input) REG_MODBUS_FIELD_ACTIVE_SLAVE_ADDRESS :: u16 where "REG_MODBUS_FIELD_ACTIVE_SLAVE_ADDRESS \<equiv> 0x0101"
abbreviation (input) REG_MODBUS_FIELD_ACTIVE_BAUD_RATE_CODE :: u16 where "REG_MODBUS_FIELD_ACTIVE_BAUD_RATE_CODE \<equiv> 0x0102"
abbreviation (input) REG_MODBUS_FIELD_NEXT_BOOT_SLAVE_ADDRESS :: u16 where "REG_MODBUS_FIELD_NEXT_BOOT_SLAVE_ADDRESS \<equiv> 0x0103"
abbreviation (input) REG_MODBUS_FIELD_NEXT_BOOT_BAUD_RATE_CODE :: u16 where "REG_MODBUS_FIELD_NEXT_BOOT_BAUD_RATE_CODE \<equiv> 0x0104"
abbreviation (input) REG_MODBUS_FIELD_CONFIG_SAVE :: u16 where "REG_MODBUS_FIELD_CONFIG_SAVE \<equiv> 0x0201"
abbreviation (input) REG_MODBUS_FIELD_CONFIG_LOAD :: u16 where "REG_MODBUS_FIELD_CONFIG_LOAD \<equiv> 0x0202"
abbreviation (input) REG_MODBUS_FIELD_CONFIG_FACTORY :: u16 where "REG_MODBUS_FIELD_CONFIG_FACTORY \<equiv> 0x0203"

definition modbus_regs :: "reg_row list" where
  "modbus_regs =
    [(REG_MODBUS_FIELD_PROTOCOL_MAJOR, REG_U16, REG_RO, REG_FIXED),
     (REG_MODBUS_FIELD_PROTOCOL_MINOR, REG_U16, REG_RO, REG_FIXED),
     (REG_MODBUS_FIELD_ACTIVE_SLAVE_ADDRESS, REG_U16, REG_RW, REG_CONFIG),
     (REG_MODBUS_FIELD_ACTIVE_BAUD_RATE_CODE, REG_U16, REG_RW, REG_CONFIG),
     (REG_MODBUS_FIELD_NEXT_BOOT_SLAVE_ADDRESS, REG_U16, REG_RW, REG_CONFIG),
     (REG_MODBUS_FIELD_NEXT_BOOT_BAUD_RATE_CODE, REG_U16, REG_RW, REG_CONFIG),
     (REG_MODBUS_FIELD_CONFIG_SAVE, REG_U16, REG_WO, REG_COMMAND),
     (REG_MODBUS_FIELD_CONFIG_LOAD, REG_U16, REG_WO, REG_COMMAND),
     (REG_MODBUS_FIELD_CONFIG_FACTORY, REG_U16, REG_WO, REG_COMMAND)]"

subsection \<open>Ids and ordinals\<close>

definition REG_VC_ID :: "u8 \<Rightarrow> u16 \<Rightarrow> reg_id_t" where
  "REG_VC_ID channel field = REG_ID (module_number REG_MODULE_VOLTAGE_CONTROL) (ucast channel) (ucast field)"

definition REG_VC_GLOBAL_ID :: "u16 \<Rightarrow> reg_id_t" where
  "REG_VC_GLOBAL_ID field =
     REG_ID (module_number REG_MODULE_VOLTAGE_CONTROL) (ucast REG_GLOBAL_INSTANCE) (ucast field)"

definition REG_SYS_STATUS_ID :: "u16 \<Rightarrow> reg_id_t" where
  "REG_SYS_STATUS_ID field = REG_ID (module_number REG_MODULE_SYSTEM_STATUS) 0 (ucast field)"

definition REG_MODBUS_ID :: "u16 \<Rightarrow> reg_id_t" where
  "REG_MODBUS_ID field = REG_ID (module_number REG_MODULE_MODBUS_ADAPTER) 0 (ucast field)"

definition REG_VC_ORD :: "u16 \<Rightarrow> nat" where
  "REG_VC_ORD field = length (takeWhile (\<lambda>r. fst r \<noteq> field) vc_regs)"

definition REG_VC_ORD_COUNT :: nat where "REG_VC_ORD_COUNT = length vc_regs"

definition REG_VC_GLOBAL_ORD :: "u16 \<Rightarrow> nat" where
  "REG_VC_GLOBAL_ORD field = length (takeWhile (\<lambda>r. fst r \<noteq> field) vc_global_regs)"

definition REG_VC_GLOBAL_ORD_COUNT :: nat where "REG_VC_GLOBAL_ORD_COUNT = length vc_global_regs"

subsection \<open>Protocol constants\<close>

abbreviation (input) VC_PROTOCOL_MAX_CHANNELS :: nat where "VC_PROTOCOL_MAX_CHANNELS \<equiv> 16"
abbreviation (input) CAL_COMMAND_NONE :: u16 where "CAL_COMMAND_NONE \<equiv> 0"
abbreviation (input) CAL_COMMAND_EXECUTE :: u16 where "CAL_COMMAND_EXECUTE \<equiv> 1"
abbreviation (input) SYS_PARAM_ACTION_SOFTWARE_RESET :: u16 where "SYS_PARAM_ACTION_SOFTWARE_RESET \<equiv> 255"

subsection \<open>Numbers of the schema\<close>

lemma vc_regs_distinct: "distinct (map fst vc_regs)"
  by (simp add: vc_regs_def)

lemma vc_global_regs_distinct: "distinct (map fst vc_global_regs)"
  by (simp add: vc_global_regs_def)

lemma length_vc_regs [simp]: "length vc_regs = 44"
  by (simp add: vc_regs_def)

lemma ucast_low_byte [simp]: "ucast (ucast (x :: u8) AND (0xff :: u32)) = x"
proof -
  have "ucast (ucast x AND (mask 8 :: u32)) = x" by (rule bit_word_eqI) (simp add: bit_simps)
  then show ?thesis by (simp add: mask_eq_exp_minus_1)
qed

lemma ucast_low_half [simp]: "ucast (ucast (x :: u16) AND (0xffff :: u32)) = x"
proof -
  have "ucast (ucast x AND (mask 16 :: u32)) = x" by (rule bit_word_eqI) (simp add: bit_simps)
  then show ?thesis by (simp add: mask_eq_exp_minus_1)
qed

lemma REG_VC_ID_fields [simp]:
  "REG_ID_MODULE (REG_VC_ID ch f) = 2" "ucast (REG_ID_INSTANCE (REG_VC_ID ch f)) = ch"
  "ucast (REG_ID_FIELD (REG_VC_ID ch f)) = f"
  "REG_ID_MODULE (REG_VC_GLOBAL_ID f) = 2" "ucast (REG_ID_INSTANCE (REG_VC_GLOBAL_ID f)) = REG_GLOBAL_INSTANCE"
  "ucast (REG_ID_FIELD (REG_VC_GLOBAL_ID f)) = f"
  by (simp_all add: REG_VC_ID_def REG_VC_GLOBAL_ID_def)

lemma REG_VC_ID_inject [simp]: "REG_VC_ID ch f = REG_VC_ID ch' f' \<longleftrightarrow> ch = ch' \<and> f = f'"
  by (metis REG_VC_ID_fields(2,3))

end
