(* ===== verification/Vc_Runtime.thy ===== *)
theory Vc_Runtime
  imports Vc_Controller_Steps
begin

text \<open>
  The runtime service, \<open>lib/voltage_control/vc_runtime.c\<close> with
  \<open>include/voltage_control/vc_runtime.h\<close>: the command queue, the worker thread that owns the
  controller, the calibration sample that waits for a fresh measurement, and the boot sequence.

  Threads interleave as explicit events. The worker is a program counter (\<open>rt_phase\<close>) and one
  event \<open>Rt_Worker now\<close> is its next step at uptime \<open>now\<close>; other threads submit commands, drivers
  publish measurements, and the runtime is told to stop. The mutex around a dispatch and around a
  tick makes each of them one step; the wait inside a calibration sample is not one step, and only
  drivers can get in between. A submitted command carries a ticket that stands for the
  result word and the semaphore on the submitter's stack.
\<close>

subsection \<open>Commands\<close>

datatype vc_runtime_command =
  VC_RUNTIME_CMD_SET_OPERATING_MODE vc_operating_mode
| VC_RUNTIME_CMD_OUTPUT_ACTION u8 vc_output_action
| VC_RUNTIME_CMD_FAULT_COMMAND u8 vc_channel_fault_command
| VC_RUNTIME_CMD_CALIBRATION_UNLOCK u16
| VC_RUNTIME_CMD_CALIBRATION_OUTPUT_ENABLE u8 bool
| VC_RUNTIME_CMD_CALIBRATION_RAW_DAC u8 u32
| VC_RUNTIME_CMD_CALIBRATION_SAMPLE u8
| VC_RUNTIME_CMD_CALIBRATION_COMMIT u8
| VC_RUNTIME_CMD_CALIBRATION_EXIT
| VC_RUNTIME_CMD_SYSTEM_PARAM_ACTION vc_param_action
| VC_RUNTIME_CMD_CHANNEL_PARAM_ACTION u8 vc_param_action
| VC_RUNTIME_CMD_SET_SYSTEM_FIELD vc_config_field u16
| VC_RUNTIME_CMD_SET_CHANNEL_FIELD u8 vc_config_field u16
| VC_RUNTIME_CMD_SET_CHANNEL_CAL_FIELD u8 vc_cal_field u16

subsection \<open>The calibration sample\<close>

text \<open>What the wait remembers: the kinds it waits for, their timestamps at the call, its deadline.\<close>

record sample_wait =
  wait_channel :: u8
  want_voltage :: bool
  want_current :: bool
  voltage_ts_before :: u32
  current_ts_before :: u32
  wait_deadline :: int

text \<open>A dispatched command is answered at once, or waits, or is about to latch its sample.\<close>

datatype ('d, 's) dispatch =
  Dispatch_Done vc_status "('d, 's) vc_controller"
| Dispatch_Wait sample_wait
| Dispatch_Latch u8

definition begin_wait :: "kconfig \<Rightarrow> u8 \<Rightarrow> u16 \<Rightarrow> vc_channel_buffer \<Rightarrow> int \<Rightarrow> sample_wait" where
  "begin_wait K ch caps buffer now =
     (case vc_channel_buffer_read buffer of (_, v_ts, _, c_ts) \<Rightarrow>
       \<lparr> wait_channel = ch,
         want_voltage = (caps AND CH_CAP_VOLTAGE_MEASUREMENT \<noteq> 0 \<and> v_ts \<noteq> 0),
         want_current = (caps AND CH_CAP_CURRENT_MEASUREMENT \<noteq> 0 \<and> c_ts \<noteq> 0),
         voltage_ts_before = v_ts, current_ts_before = c_ts,
         wait_deadline = now + CONFIG_VC_CAL_SAMPLE_TIMEOUT_MS K \<rparr>)"

definition sample_is_fresh :: "sample_wait \<Rightarrow> vc_channel_buffer \<Rightarrow> bool" where
  "sample_is_fresh w buffer =
     (case vc_channel_buffer_read buffer of (_, v_ts, _, c_ts) \<Rightarrow>
       (\<not> want_voltage w \<or> v_ts \<noteq> voltage_ts_before w) \<and>
       (\<not> want_current w \<or> c_ts \<noteq> current_ts_before w))"

definition vc_runtime_cal_sample_fresh ::
    "kconfig \<Rightarrow> ('d, 's) vc_controller \<Rightarrow> u8 \<Rightarrow> int \<Rightarrow> ('d, 's) dispatch option" where
  "vc_runtime_cal_sample_fresh K ctrl ch now =
     (if \<not> channel_valid ctrl ch then Some (Dispatch_Done VC_ERR_UNSUPPORTED_CHANNEL ctrl)
      else if operating_mode ctrl \<noteq> VC_OPERATING_MODE_CALIBRATION
      then Some (Dispatch_Done VC_ERR_INVALID_COMMAND ctrl)
      else if length (channels ctrl) \<le> unat ch then None
      else
        let c = channels ctrl ! unat ch in
        Some (case meas c of
                None \<Rightarrow> Dispatch_Latch ch
              | Some buffer \<Rightarrow> Dispatch_Wait (begin_wait K ch (capabilities c) buffer now)))"

subsection \<open>Dispatch\<close>

definition dispatched :: "(vc_status \<times> ('d, 's) vc_controller) option \<Rightarrow> ('d, 's) dispatch option" where
  "dispatched r = map_option (\<lambda>(st, ctrl). Dispatch_Done st ctrl) r"

fun vc_runtime_dispatch_command ::
    "kconfig \<Rightarrow> ('d, 's) vc_controller \<Rightarrow> vc_runtime_command \<Rightarrow> int \<Rightarrow> ('d, 's) dispatch option" where
  "vc_runtime_dispatch_command K ctrl (VC_RUNTIME_CMD_SET_OPERATING_MODE mode) now =
     dispatched (vc_controller_set_operating_mode K ctrl mode)"
| "vc_runtime_dispatch_command K ctrl (VC_RUNTIME_CMD_OUTPUT_ACTION ch a) now =
     dispatched (vc_controller_channel_output_action ctrl ch a)"
| "vc_runtime_dispatch_command K ctrl (VC_RUNTIME_CMD_FAULT_COMMAND ch c) now =
     dispatched (vc_controller_channel_fault_command ctrl ch c)"
| "vc_runtime_dispatch_command K ctrl (VC_RUNTIME_CMD_CALIBRATION_UNLOCK v) now =
     dispatched (Some (vc_controller_calibration_unlock ctrl v))"
| "vc_runtime_dispatch_command K ctrl (VC_RUNTIME_CMD_CALIBRATION_OUTPUT_ENABLE ch e) now =
     dispatched (vc_controller_channel_cal_output_enable K ctrl ch e)"
| "vc_runtime_dispatch_command K ctrl (VC_RUNTIME_CMD_CALIBRATION_RAW_DAC ch code) now =
     dispatched (vc_controller_channel_cal_raw_dac K ctrl ch code)"
| "vc_runtime_dispatch_command K ctrl (VC_RUNTIME_CMD_CALIBRATION_SAMPLE ch) now =
     vc_runtime_cal_sample_fresh K ctrl ch now"
| "vc_runtime_dispatch_command K ctrl (VC_RUNTIME_CMD_CALIBRATION_COMMIT ch) now =
     dispatched (vc_controller_channel_cal_commit K ctrl ch)"
| "vc_runtime_dispatch_command K ctrl VC_RUNTIME_CMD_CALIBRATION_EXIT now =
     dispatched (vc_controller_cal_exit K ctrl)"
| "vc_runtime_dispatch_command K ctrl (VC_RUNTIME_CMD_SYSTEM_PARAM_ACTION a) now =
     dispatched (vc_controller_system_param_action K ctrl a)"
| "vc_runtime_dispatch_command K ctrl (VC_RUNTIME_CMD_CHANNEL_PARAM_ACTION ch a) now =
     dispatched (vc_controller_channel_param_action K ctrl ch a)"
| "vc_runtime_dispatch_command K ctrl (VC_RUNTIME_CMD_SET_SYSTEM_FIELD f v) now =
     dispatched (vc_controller_set_system_field K ctrl f v)"
| "vc_runtime_dispatch_command K ctrl (VC_RUNTIME_CMD_SET_CHANNEL_FIELD ch f v) now =
     dispatched (vc_controller_channel_set_field K ctrl ch f v)"
| "vc_runtime_dispatch_command K ctrl (VC_RUNTIME_CMD_SET_CHANNEL_CAL_FIELD ch f v) now =
     dispatched (vc_controller_channel_set_cal_field K ctrl ch f v)"

subsection \<open>The worker\<close>

datatype rt_phase =
  Worker_Waiting
| Worker_Draining
| Worker_Sampling nat sample_wait
| Worker_Latching nat u8
| Worker_Stopped

record ('d, 's) vc_runtime =
  rt_ctrl :: "('d, 's) vc_controller"
  command_queue :: "(nat \<times> vc_runtime_command) list"
  rt_results :: "nat \<Rightarrow> vc_status option"
  rt_tickets :: nat
  rt_phase :: rt_phase
  last_tick :: u32
  stop_requested :: bool

text \<open>The result is written and the semaphore given in one step for the submitter.\<close>

definition answer :: "nat \<Rightarrow> vc_status \<Rightarrow> ('d, 's) vc_runtime \<Rightarrow> ('d, 's) vc_runtime" where
  "answer t st rt = rt\<lparr>rt_results := (rt_results rt)(t \<mapsto> st), rt_phase := Worker_Draining\<rparr>"

definition worker_tick :: "kconfig \<Rightarrow> int \<Rightarrow> ('d, 's) vc_runtime \<Rightarrow> ('d, 's) vc_runtime option" where
  "worker_tick K now rt =
     (let now32 = word_of_int now; dt_ms = now32 - last_tick rt in do {
        ctrl \<leftarrow> vc_controller_tick K (rt_ctrl rt) dt_ms;
        Some (rt\<lparr>rt_ctrl := ctrl, last_tick := now32,
                 rt_phase := if stop_requested rt then Worker_Stopped else Worker_Waiting\<rparr>)
      })"

definition vc_runtime_worker ::
    "kconfig \<Rightarrow> int \<Rightarrow> ('d, 's) vc_runtime \<Rightarrow> ('d, 's) vc_runtime option" where
  "vc_runtime_worker K now rt =
     (case rt_phase rt of
        Worker_Waiting \<Rightarrow> Some (rt\<lparr>rt_phase := Worker_Draining\<rparr>)
      | Worker_Draining \<Rightarrow>
          (case command_queue rt of
             [] \<Rightarrow> worker_tick K now rt
           | (t, cmd) # rest \<Rightarrow> do {
               d \<leftarrow> vc_runtime_dispatch_command K (rt_ctrl rt) cmd now;
               let rt1 = rt\<lparr>command_queue := rest\<rparr>;
               Some (case d of
                       Dispatch_Done st ctrl \<Rightarrow> answer t st (rt1\<lparr>rt_ctrl := ctrl\<rparr>)
                     | Dispatch_Wait w \<Rightarrow> rt1\<lparr>rt_phase := Worker_Sampling t w\<rparr>
                     | Dispatch_Latch ch \<Rightarrow> rt1\<lparr>rt_phase := Worker_Latching t ch\<rparr>)
             })
      | Worker_Sampling t w \<Rightarrow>
          if length (channels (rt_ctrl rt)) \<le> unat (wait_channel w) then None
          else
            (case meas (channels (rt_ctrl rt) ! unat (wait_channel w)) of
               None \<Rightarrow> None
             | Some buffer \<Rightarrow>
                 Some (if sample_is_fresh w buffer \<or> wait_deadline w - now \<le> 0
                       then rt\<lparr>rt_phase := Worker_Latching t (wait_channel w)\<rparr>
                       else rt))
      | Worker_Latching t ch \<Rightarrow> do {
          (st, ctrl) \<leftarrow> vc_controller_channel_cal_sample K (rt_ctrl rt) ch;
          Some (answer t st (rt\<lparr>rt_ctrl := ctrl\<rparr>))
        }
      | Worker_Stopped \<Rightarrow> Some rt)"

subsection \<open>The other threads\<close>

definition msgq_put ::
    "kconfig \<Rightarrow> vc_runtime_command \<Rightarrow> ('d, 's) vc_runtime \<Rightarrow> ('d, 's) vc_runtime option" where
  "msgq_put K cmd rt =
     (if length (command_queue rt) < CONFIG_VC_RUNTIME_COMMAND_QUEUE_DEPTH K
      then Some (rt\<lparr>command_queue := command_queue rt @ [(rt_tickets rt, cmd)],
                    rt_tickets := Suc (rt_tickets rt)\<rparr>)
      else None)"

datatype 'd rt_event =
  Rt_Worker int
| Rt_Submit vc_runtime_command
| Rt_Driver u8 "'d channel_event"
| Rt_Start_Sampling
| Rt_Stop

definition vc_runtime_start_sampling ::
    "('d, 's) vc_runtime \<Rightarrow> (vc_status \<times> ('d, 's) vc_runtime) option" where
  "vc_runtime_start_sampling rt = do {
     (st, ctrl) \<leftarrow> vc_controller_start_sampling (rt_ctrl rt);
     Some (st, rt\<lparr>rt_ctrl := ctrl\<rparr>)
   }"

fun rt_exec :: "kconfig \<Rightarrow> 'd rt_event \<Rightarrow> ('d, 's) vc_runtime \<Rightarrow> ('d, 's) vc_runtime option" where
  "rt_exec K (Rt_Worker now) rt = vc_runtime_worker K now rt"
| "rt_exec K (Rt_Submit cmd) rt =
     Some (case msgq_put K cmd rt of None \<Rightarrow> rt | Some rt' \<Rightarrow> rt')"
| "rt_exec K (Rt_Driver ch ev) rt = do {
     (st, ctrl) \<leftarrow> ctl_exec K (Ctl_Driver ch ev) (rt_ctrl rt);
     Some (rt\<lparr>rt_ctrl := ctrl\<rparr>)
   }"
| "rt_exec K Rt_Start_Sampling rt = map_option snd (vc_runtime_start_sampling rt)"
| "rt_exec K Rt_Stop rt = Some (rt\<lparr>stop_requested := True\<rparr>)"

fun rt_execs :: "kconfig \<Rightarrow> 'd rt_event list \<Rightarrow> ('d, 's) vc_runtime \<Rightarrow> ('d, 's) vc_runtime option" where
  "rt_execs K [] rt = Some rt"
| "rt_execs K (e # es) rt = rt_exec K e rt \<bind> rt_execs K es"

subsection \<open>Submitting a command\<close>

text \<open>
  What happens around a submission: the put fails within the timeout, or it finds room after the
  events \<open>before\<close> and the caller then sleeps through the events \<open>after\<close> until its command is
  answered. Where the events do not bring the call to its end the result is \<open>None\<close>: the caller
  is still blocked.
\<close>

datatype 'd k_wait =
  Wait_Timeout
| Wait_Events "'d rt_event list" "'d rt_event list"

definition vc_runtime_submit_command ::
    "kconfig \<Rightarrow> ('d, 's) vc_runtime \<Rightarrow> vc_runtime_command \<Rightarrow> 'd k_wait \<Rightarrow>
     (vc_status \<times> ('d, 's) vc_runtime) option" where
  "vc_runtime_submit_command K rt cmd wait =
     (case wait of
        Wait_Timeout \<Rightarrow> Some (VC_ERR_UNSAFE_STATE, rt)
      | Wait_Events before after \<Rightarrow> do {
          rt1 \<leftarrow> rt_execs K before rt;
          rt2 \<leftarrow> msgq_put K cmd rt1;
          rt3 \<leftarrow> rt_execs K after rt2;
          st \<leftarrow> rt_results rt3 (rt_tickets rt1);
          Some (st, rt3)
        })"

definition vc_runtime_set_operating_mode ::
    "kconfig \<Rightarrow> ('d, 's) vc_runtime \<Rightarrow> vc_operating_mode \<Rightarrow> 'd k_wait \<Rightarrow>
     (vc_status \<times> ('d, 's) vc_runtime) option" where
  "vc_runtime_set_operating_mode K rt mode wait =
     vc_runtime_submit_command K rt (VC_RUNTIME_CMD_SET_OPERATING_MODE mode) wait"

definition vc_runtime_set_system_field ::
    "kconfig \<Rightarrow> ('d, 's) vc_runtime \<Rightarrow> vc_config_field \<Rightarrow> u16 \<Rightarrow> 'd k_wait \<Rightarrow>
     (vc_status \<times> ('d, 's) vc_runtime) option" where
  "vc_runtime_set_system_field K rt field v wait =
     vc_runtime_submit_command K rt (VC_RUNTIME_CMD_SET_SYSTEM_FIELD field v) wait"

definition vc_runtime_set_channel_field ::
    "kconfig \<Rightarrow> ('d, 's) vc_runtime \<Rightarrow> u8 \<Rightarrow> vc_config_field \<Rightarrow> u16 \<Rightarrow> 'd k_wait \<Rightarrow>
     (vc_status \<times> ('d, 's) vc_runtime) option" where
  "vc_runtime_set_channel_field K rt ch field v wait =
     vc_runtime_submit_command K rt (VC_RUNTIME_CMD_SET_CHANNEL_FIELD ch field v) wait"

definition vc_runtime_set_channel_cal_field ::
    "kconfig \<Rightarrow> ('d, 's) vc_runtime \<Rightarrow> u8 \<Rightarrow> vc_cal_field \<Rightarrow> u16 \<Rightarrow> 'd k_wait \<Rightarrow>
     (vc_status \<times> ('d, 's) vc_runtime) option" where
  "vc_runtime_set_channel_cal_field K rt ch field v wait =
     vc_runtime_submit_command K rt (VC_RUNTIME_CMD_SET_CHANNEL_CAL_FIELD ch field v) wait"

subsection \<open>Boot\<close>

text \<open>The boot loop over the channel numbers, whose statuses are ignored.\<close>

fun load_channels ::
    "kconfig \<Rightarrow> vc_param_action \<Rightarrow> nat list \<Rightarrow> ('d, 's) vc_controller \<Rightarrow> ('d, 's) vc_controller option"
  where
  "load_channels K a [] ctrl = Some ctrl"
| "load_channels K a (i # is) ctrl = do {
     (_, ctrl1) \<leftarrow> vc_controller_channel_param_action K ctrl (word_of_nat i) a;
     load_channels K a is ctrl1
   }"

definition stored_system_config ::
    "'s vc_storage_backend \<Rightarrow> ('d, 's) vc_controller \<Rightarrow> vc_system_config option" where
  "stored_system_config backend ctrl =
     (case load_system_config backend of
        None \<Rightarrow> None
      | Some load \<Rightarrow>
          (case load (nvs_state ctrl) of
             (_, None) \<Rightarrow> Some (vc_controller_get_system_config ctrl)
           | (_, Some cfg) \<Rightarrow> Some cfg))"

definition vc_runtime_auto_load ::
    "kconfig \<Rightarrow> 's vc_storage_backend option \<Rightarrow> ('d, 's) vc_controller \<Rightarrow> ('d, 's) vc_controller option" where
  "vc_runtime_auto_load K persistence ctrl =
     (case persistence of
        None \<Rightarrow> Some ctrl
      | Some backend \<Rightarrow>
          let ctrl0 = vc_controller_set_storage_backend ctrl (Some backend) in do {
            cfg \<leftarrow> stored_system_config backend ctrl0;
            let op_action = (if startup_channel_policy cfg \<noteq> 0
                             then VC_PARAM_ACTION_FACTORY_RESET else VC_PARAM_ACTION_LOAD);
            ctrl1 \<leftarrow> load_channels K op_action [0..<vc_controller_channel_count ctrl0] ctrl0;
            (_, ctrl2) \<leftarrow> vc_controller_set_system_config K ctrl1 cfg;
            Some ctrl2
          })"

definition vc_runtime_create_static ::
    "kconfig \<Rightarrow> 'd dt_channel list \<Rightarrow> vc_channel_buffer list \<Rightarrow> 's vc_storage_backend option \<Rightarrow>
     's \<Rightarrow> int \<Rightarrow> ('d, 's) vc_runtime option" where
  "vc_runtime_create_static K nodes buffers persistence s now = do {
     ctrl \<leftarrow> vc_controller_init K nodes buffers True s;
     ctrl1 \<leftarrow> vc_runtime_auto_load K persistence ctrl;
     Some \<lparr> rt_ctrl = ctrl1, command_queue = [], rt_results = (\<lambda>_. None), rt_tickets = 0,
            rt_phase = Worker_Waiting, last_tick = word_of_int now, stop_requested = False \<rparr>
   }"

end
