(* ===== verification/Vc_Catalog.thy ===== *)
theory Vc_Catalog
  imports Reg_Schema Vc_Runtime
begin

unbundle bit_operations_syntax

text \<open>
  The voltage-control registers of the catalog: the register half of
  \<open>lib/voltage_control/vc_runtime.c\<close>. The lifecycle word, the count of running catalog operations,
  the quiesce semaphore and the runtime pointer stand beside the static memory of the runtime; every
  read and write of a register acquires the runtime, and releases it on each way out.

  A C \<open>switch\<close> over field numbers is a list of the cases here, read with \<open>map_of\<close>. The functions
  are written over any extension of the state (\<open>'z\<close>), so that the catalog can be composed with the
  state of other modules.
\<close>

datatype vc_catalog_lifecycle =
  VC_CATALOG_STOPPED | VC_CATALOG_STARTING | VC_CATALOG_RUNNING | VC_CATALOG_STOPPING

record ('d, 's) vc_system =
  catalog_lifecycle :: vc_catalog_lifecycle
  catalog_active_operations :: u32
  catalog_quiesced :: bool
  catalog_runtime :: bool
  vc_memory :: "('d, 's) vc_runtime"

text \<open>
  A read or write that the C code would perform through a null channel pointer is undefined
  (\<open>None\<close>); only a descriptor of another module could bring that about.
\<close>

text \<open>What the build fixes: the options, another module's option, and the number of channel nodes.\<close>

record catalog_build =
  kconf :: kconfig
  CONFIG_SYS_STATUS :: bool
  VC_MAX_CHANNELS :: nat

subsection \<open>Acquire and release\<close>

definition vc_catalog_release :: "('d, 's, 'z) vc_system_scheme \<Rightarrow> ('d, 's, 'z) vc_system_scheme" where
  "vc_catalog_release s =
     (let s1 = s\<lparr>catalog_active_operations := catalog_active_operations s - 1\<rparr> in
      if catalog_active_operations s = 1 \<and> catalog_lifecycle s1 = VC_CATALOG_STOPPING
      then s1\<lparr>catalog_quiesced := True\<rparr> else s1)"

definition vc_catalog_acquire ::
    "('d, 's, 'z) vc_system_scheme \<Rightarrow> bool \<times> ('d, 's, 'z) vc_system_scheme" where
  "vc_catalog_acquire s =
     (if catalog_lifecycle s \<noteq> VC_CATALOG_RUNNING then (False, s)
      else
        let s1 = s\<lparr>catalog_active_operations := catalog_active_operations s + 1\<rparr> in
        if catalog_lifecycle s1 \<noteq> VC_CATALOG_RUNNING then (False, vc_catalog_release s1)
        else if \<not> catalog_runtime s1 then (False, vc_catalog_release s1)
        else (True, s1))"

fun vc_status_to_reg :: "vc_status \<Rightarrow> reg_status" where
  "vc_status_to_reg VC_OK = REG_OK"
| "vc_status_to_reg VC_ERR_INVALID_VALUE = REG_INVALID_VALUE"
| "vc_status_to_reg VC_ERR_INVALID_COMMAND = REG_INVALID_VALUE"
| "vc_status_to_reg VC_ERR_UNSAFE_STATE = REG_INVALID_VALUE"
| "vc_status_to_reg VC_ERR_UNSUPPORTED_CHANNEL = REG_UNSUPPORTED"
| "vc_status_to_reg VC_ERR_UNSUPPORTED_CAPABILITY = REG_UNSUPPORTED"
| "vc_status_to_reg VC_ERR_STORAGE = REG_IO_ERROR"

subsection \<open>The capability gate\<close>

definition vc_catalog_supported :: "u16 \<Rightarrow> u16 \<Rightarrow> bool" where
  "vc_catalog_supported field caps =
     (if field \<in> set [
           REG_VC_FIELD_MEASURED_VOLTAGE, REG_VC_FIELD_RAW_ADC_VOLTAGE,
           REG_VC_FIELD_MEASURED_V_CAL_K, REG_VC_FIELD_MEASURED_V_CAL_B,
           REG_VC_FIELD_MEASURED_V_CAL_K_EXP]
      then caps AND CH_CAP_VOLTAGE_MEASUREMENT \<noteq> 0
      else if field \<in> set [
           REG_VC_FIELD_MEASURED_CURRENT, REG_VC_FIELD_RAW_ADC_CURRENT,
           REG_VC_FIELD_MEASURED_I_CAL_K, REG_VC_FIELD_MEASURED_I_CAL_B,
           REG_VC_FIELD_MEASURED_I_CAL_K_EXP, REG_VC_FIELD_CURRENT_PROTECTION_MODE,
           REG_VC_FIELD_CURRENT_PROT_OUT_ACTION, REG_VC_FIELD_CURRENT_LIMIT_THRESHOLD]
      then caps AND CH_CAP_CURRENT_MEASUREMENT \<noteq> 0
      else if field \<in> set [
           REG_VC_FIELD_CFG_TARGET_VOLTAGE, REG_VC_FIELD_RAMP_UP_STEP,
           REG_VC_FIELD_RAMP_UP_INTERVAL, REG_VC_FIELD_RAMP_DOWN_STEP,
           REG_VC_FIELD_RAMP_DOWN_INTERVAL, REG_VC_FIELD_OUTPUT_CAL_K, REG_VC_FIELD_OUTPUT_CAL_B,
           REG_VC_FIELD_OUTPUT_CAL_K_EXP, REG_VC_FIELD_CAL_OUTPUT_ENABLE, REG_VC_FIELD_CAL_DAC_CODE]
      then caps AND CH_CAP_RAW_OUTPUT_DRIVE \<noteq> 0
      else if field \<in> set [
           REG_VC_FIELD_AUTO_DERATE_STEP]
      then caps AND (CH_CAP_RAW_OUTPUT_DRIVE OR CH_CAP_VOLTAGE_MEASUREMENT) =
          CH_CAP_RAW_OUTPUT_DRIVE OR CH_CAP_VOLTAGE_MEASUREMENT
      else if field \<in> set [
           REG_VC_FIELD_CFG_OUTPUT_ENABLED]
      then caps AND CH_CAP_RAW_OUTPUT_DRIVE = 0 \<and> caps AND CH_CAP_OUTPUT_ENABLE \<noteq> 0
      else if field \<in> set [
           REG_VC_FIELD_CAL_SAMPLE_CMD]
      then caps AND (CH_CAP_VOLTAGE_MEASUREMENT OR CH_CAP_CURRENT_MEASUREMENT) \<noteq> 0
      else if field \<in> set [
           REG_VC_FIELD_CAL_COMMIT_CMD]
      then caps AND (CH_CAP_RAW_OUTPUT_DRIVE OR CH_CAP_VOLTAGE_MEASUREMENT OR CH_CAP_CURRENT_MEASUREMENT) \<noteq> 0
      else True)"

subsection \<open>Reading\<close>

definition vc_read_switch :: "(u16 \<times> ('d vc_channel \<Rightarrow> reg_value)) list" where
  "vc_read_switch =
    [(REG_VC_FIELD_STATUS_BITS, \<lambda>ch. value_of_u16 (status_bits ch)),
     (REG_VC_FIELD_ACTIVE_FAULT_CAUSE, \<lambda>ch. value_of_u16 (active_fault_cause ch)),
     (REG_VC_FIELD_FAULT_HISTORY_CAUSE, \<lambda>ch. value_of_u16 (fault_history_cause ch)),
     (REG_VC_FIELD_LAST_PROT_OUT_ACTION, \<lambda>ch. value_of_u16 (u16_of_vc_output_action (last_protection_output_action ch))),
     (REG_VC_FIELD_AUTO_RETRY_COUNT, \<lambda>_. 0),
     (REG_VC_FIELD_AUTO_COOLDOWN_REMAINING, \<lambda>ch. value_of_u16 (ucast (cooldown_remaining_ms ch div 1000))),
     (REG_VC_FIELD_LAST_FAULT_TIMESTAMP, \<lambda>ch. last_fault_timestamp ch),
     (REG_VC_FIELD_OPER_TARGET_VOLTAGE, \<lambda>ch. value_of_u16 (operational_target_voltage ch)),
     (REG_VC_FIELD_CAPABILITY_FLAGS, \<lambda>ch. value_of_u16 (capabilities ch)),
     (REG_VC_FIELD_MEASURED_VOLTAGE, \<lambda>ch. value_of_u16 (measured_voltage ch)),
     (REG_VC_FIELD_MEASURED_CURRENT, \<lambda>ch. value_of_u16 (measured_current ch)),
     (REG_VC_FIELD_RAW_ADC_VOLTAGE, \<lambda>ch. case meas ch of Some b \<Rightarrow> fst (vc_channel_buffer_read b) | None \<Rightarrow> raw_adc_voltage ch),
     (REG_VC_FIELD_RAW_ADC_CURRENT, \<lambda>ch. case meas ch of Some b \<Rightarrow> fst (snd (snd (vc_channel_buffer_read b)))
        | None \<Rightarrow> raw_adc_current ch),
     (REG_VC_FIELD_CFG_TARGET_VOLTAGE, \<lambda>ch. value_of_u16 (configured_target_voltage (config ch))),
     (REG_VC_FIELD_CFG_OUTPUT_ENABLED, \<lambda>ch. value_of_bool (configured_output_enabled (config ch))),
     (REG_VC_FIELD_RAMP_UP_STEP, \<lambda>ch. value_of_u16 (ramp_up_step (config ch))),
     (REG_VC_FIELD_RAMP_UP_INTERVAL, \<lambda>ch. value_of_u16 (ramp_up_interval (config ch))),
     (REG_VC_FIELD_RAMP_DOWN_STEP, \<lambda>ch. value_of_u16 (ramp_down_step (config ch))),
     (REG_VC_FIELD_RAMP_DOWN_INTERVAL, \<lambda>ch. value_of_u16 (ramp_down_interval (config ch))),
     (REG_VC_FIELD_RECOVERY_POLICY_MODE, \<lambda>ch. value_of_u16 (u16_of_vc_recovery_policy_mode (recovery_policy_mode (config ch)))),
     (REG_VC_FIELD_AUTO_RETRY_DELAY, \<lambda>ch. value_of_u16 (auto_retry_delay (config ch))),
     (REG_VC_FIELD_AUTO_RETRY_MAX_COUNT, \<lambda>ch. value_of_u16 (auto_retry_max_count (config ch))),
     (REG_VC_FIELD_AUTO_RETRY_WINDOW, \<lambda>ch. value_of_u16 (auto_retry_window (config ch))),
     (REG_VC_FIELD_CURRENT_SAFE_BAND_PCT, \<lambda>ch. value_of_u16 (current_safe_band_pct (config ch))),
     (REG_VC_FIELD_CURRENT_PROTECTION_MODE, \<lambda>ch. value_of_u16 (u16_of_vc_protection_mode (current_protection_mode (config ch)))),
     (REG_VC_FIELD_CURRENT_PROT_OUT_ACTION, \<lambda>ch. value_of_u16 (u16_of_vc_output_action (current_protection_output_action (config ch)))),
     (REG_VC_FIELD_CURRENT_LIMIT_THRESHOLD, \<lambda>ch. value_of_u16 (current_limit_threshold (config ch))),
     (REG_VC_FIELD_AUTO_DERATE_STEP, \<lambda>ch. value_of_u16 (auto_derate_step (config ch))),
     (REG_VC_FIELD_OUTPUT_CAL_K, \<lambda>ch. value_of_u16 (output_calib_k (cal_config ch))),
     (REG_VC_FIELD_OUTPUT_CAL_B, \<lambda>ch. value_of_u16 (output_calib_b (cal_config ch))),
     (REG_VC_FIELD_MEASURED_V_CAL_K, \<lambda>ch. value_of_u16 (measured_voltage_calib_k (cal_config ch))),
     (REG_VC_FIELD_MEASURED_V_CAL_B, \<lambda>ch. value_of_u16 (measured_voltage_calib_b (cal_config ch))),
     (REG_VC_FIELD_MEASURED_I_CAL_K, \<lambda>ch. value_of_u16 (measured_current_calib_k (cal_config ch))),
     (REG_VC_FIELD_MEASURED_I_CAL_B, \<lambda>ch. value_of_u16 (measured_current_calib_b (cal_config ch))),
     (REG_VC_FIELD_OUTPUT_CAL_K_EXP, \<lambda>ch. value_of_u16 (output_calib_k_exp (cal_config ch))),
     (REG_VC_FIELD_MEASURED_V_CAL_K_EXP, \<lambda>ch. value_of_u16 (measured_voltage_calib_k_exp (cal_config ch))),
     (REG_VC_FIELD_MEASURED_I_CAL_K_EXP, \<lambda>ch. value_of_u16 (measured_current_calib_k_exp (cal_config ch))),
     (REG_VC_FIELD_CAL_OUTPUT_ENABLE, \<lambda>ch. value_of_u16 (cal_output_enabled ch)),
     (REG_VC_FIELD_CAL_DAC_CODE, \<lambda>ch. value_of_u16 (raw_dac_readback ch))]"

definition vc_read_global_switch :: "(u16 \<times> (('d, 's) vc_controller \<Rightarrow> reg_value)) list" where
  "vc_read_global_switch =
    [(REG_VC_GLOBAL_FIELD_ACTIVE_OPERATING_MODE,
        \<lambda>ctrl. value_of_u16 (u16_of_vc_operating_mode (operating_mode ctrl))),
     (REG_VC_GLOBAL_FIELD_STATUS, \<lambda>_. 0),
     (REG_VC_GLOBAL_FIELD_FAULT_CAUSE, \<lambda>_. 0),
     (REG_VC_GLOBAL_FIELD_CAL_WATCHDOG_REMAINING_S,
        \<lambda>ctrl. value_of_u16 (ucast ((cal_watchdog_ms ctrl + 999) div 1000))),
     (REG_VC_GLOBAL_FIELD_OPERATING_MODE,
        \<lambda>ctrl. value_of_u16 (u16_of_vc_operating_mode (sys_operating_mode (sys_cfg ctrl)))),
     (REG_VC_GLOBAL_FIELD_STARTUP_CHANNEL_POLICY,
        \<lambda>ctrl. value_of_u16 (startup_channel_policy (sys_cfg ctrl)))]"

definition is_global :: "'s reg_view \<Rightarrow> bool" where
  "is_global desc \<longleftrightarrow>
     REG_ID_MODULE (desc_id desc) = module_number REG_MODULE_VOLTAGE_CONTROL \<and>
     (ucast (REG_ID_INSTANCE (desc_id desc)) :: u8) = REG_GLOBAL_INSTANCE"

definition vc_catalog_read ::
    "('d, 's, 'z) vc_system_scheme reg_view \<Rightarrow> ('d, 's, 'z) vc_system_scheme \<Rightarrow>
     (reg_status \<times> reg_value) option" where
  "vc_catalog_read desc s =
     (let (acquired, s1) = vc_catalog_acquire s;
          field = (ucast (REG_ID_FIELD (desc_id desc)) :: u16);
          channel = (ucast (REG_ID_INSTANCE (desc_id desc)) :: u8);
          ctrl = rt_ctrl (vc_memory s1)
      in
      if \<not> acquired then Some (REG_BUSY, 0)
      else if is_global desc then
        (case desc_value desc of
           Some _ \<Rightarrow> Some (reg_read_bound_value desc s1)
         | None \<Rightarrow>
             (case map_of vc_read_global_switch field of
                None \<Rightarrow> Some (REG_WRITE_ONLY, 0)
              | Some rd \<Rightarrow> Some (REG_OK, rd ctrl)))
      else if REG_ID_MODULE (desc_id desc) \<noteq> module_number REG_MODULE_VOLTAGE_CONTROL then
        (case desc_value desc of
           Some _ \<Rightarrow> Some (reg_read_bound_value desc s1)
         | None \<Rightarrow> if map_of vc_read_switch field = (None :: ('d vc_channel \<Rightarrow> reg_value) option)
                   then Some (REG_WRITE_ONLY, 0) else None)
      else if channel_count ctrl \<le> unat channel then Some (REG_UNSUPPORTED, 0)
      else if length (channels ctrl) \<le> unat channel then None
      else
        let ch = channels ctrl ! unat channel in
        if \<not> vc_catalog_supported field (capabilities ch) then Some (REG_UNSUPPORTED, 0)
        else
          (case desc_value desc of
             Some _ \<Rightarrow> Some (reg_read_bound_value desc s1)
           | None \<Rightarrow>
               (case map_of vc_read_switch field of
                  None \<Rightarrow> Some (REG_WRITE_ONLY, 0)
                | Some rd \<Rightarrow> Some (REG_OK, rd ch))))"

subsection \<open>Writing\<close>

definition vc_catalog_field :: "u16 \<Rightarrow> vc_config_field option" where
  "vc_catalog_field field =
     map_of
       [(REG_VC_FIELD_CFG_TARGET_VOLTAGE, VC_FIELD_CONFIGURED_TARGET_VOLTAGE),
        (REG_VC_FIELD_CFG_OUTPUT_ENABLED, VC_FIELD_CONFIGURED_OUTPUT_ENABLED),
        (REG_VC_FIELD_RAMP_UP_STEP, VC_FIELD_RAMP_UP_STEP),
        (REG_VC_FIELD_RAMP_UP_INTERVAL, VC_FIELD_RAMP_UP_INTERVAL),
        (REG_VC_FIELD_RAMP_DOWN_STEP, VC_FIELD_RAMP_DOWN_STEP),
        (REG_VC_FIELD_RAMP_DOWN_INTERVAL, VC_FIELD_RAMP_DOWN_INTERVAL),
        (REG_VC_FIELD_RECOVERY_POLICY_MODE, VC_FIELD_RECOVERY_POLICY_MODE),
        (REG_VC_FIELD_AUTO_RETRY_DELAY, VC_FIELD_AUTO_RETRY_DELAY),
        (REG_VC_FIELD_AUTO_RETRY_MAX_COUNT, VC_FIELD_AUTO_RETRY_MAX_COUNT),
        (REG_VC_FIELD_AUTO_RETRY_WINDOW, VC_FIELD_AUTO_RETRY_WINDOW),
        (REG_VC_FIELD_CURRENT_SAFE_BAND_PCT, VC_FIELD_CURRENT_SAFE_BAND_PCT),
        (REG_VC_FIELD_CURRENT_PROTECTION_MODE, VC_FIELD_CURRENT_PROTECTION_MODE),
        (REG_VC_FIELD_CURRENT_PROT_OUT_ACTION, VC_FIELD_CURRENT_PROT_OUT_ACTION),
        (REG_VC_FIELD_CURRENT_LIMIT_THRESHOLD, VC_FIELD_CURRENT_LIMIT_THRESHOLD),
        (REG_VC_FIELD_AUTO_DERATE_STEP, VC_FIELD_AUTO_DERATE_STEP)] field"

definition vc_catalog_cal_field :: "u16 \<Rightarrow> vc_cal_field option" where
  "vc_catalog_cal_field field =
     map_of
       [(REG_VC_FIELD_OUTPUT_CAL_K, VC_CAL_FIELD_OUTPUT_K),
        (REG_VC_FIELD_OUTPUT_CAL_B, VC_CAL_FIELD_OUTPUT_B),
        (REG_VC_FIELD_MEASURED_V_CAL_K, VC_CAL_FIELD_MEASURED_V_K),
        (REG_VC_FIELD_MEASURED_V_CAL_B, VC_CAL_FIELD_MEASURED_V_B),
        (REG_VC_FIELD_MEASURED_I_CAL_K, VC_CAL_FIELD_MEASURED_I_K),
        (REG_VC_FIELD_MEASURED_I_CAL_B, VC_CAL_FIELD_MEASURED_I_B),
        (REG_VC_FIELD_OUTPUT_CAL_K_EXP, VC_CAL_FIELD_OUTPUT_K_EXP),
        (REG_VC_FIELD_MEASURED_V_CAL_K_EXP, VC_CAL_FIELD_MEASURED_V_K_EXP),
        (REG_VC_FIELD_MEASURED_I_CAL_K_EXP, VC_CAL_FIELD_MEASURED_I_K_EXP)] field"

text \<open>What a write asks of the runtime: nothing (\<open>Inl\<close> the status) or a command.\<close>

definition vc_global_write_command :: "u16 \<Rightarrow> u16 \<Rightarrow> reg_status + vc_runtime_command" where
  "vc_global_write_command field v =
     (if field = REG_VC_GLOBAL_FIELD_OPERATING_MODE
      then Inr (VC_RUNTIME_CMD_SET_OPERATING_MODE (vc_operating_mode_of_u16 v))
      else if field = REG_VC_GLOBAL_FIELD_STARTUP_CHANNEL_POLICY
      then Inr (VC_RUNTIME_CMD_SET_SYSTEM_FIELD VC_FIELD_STARTUP_CHANNEL_POLICY v)
      else if field = REG_VC_GLOBAL_FIELD_PARAM_ACTION
      then Inr (VC_RUNTIME_CMD_SYSTEM_PARAM_ACTION (vc_param_action_of_u16 v))
      else if field = REG_VC_GLOBAL_FIELD_CAL_UNLOCK
      then Inr (VC_RUNTIME_CMD_CALIBRATION_UNLOCK v)
      else if field = REG_VC_GLOBAL_FIELD_CAL_EXIT
      then (if v \<noteq> 1 then Inl REG_INVALID_VALUE else Inr VC_RUNTIME_CMD_CALIBRATION_EXIT)
      else Inl REG_UNSUPPORTED)"

definition vc_channel_write_command :: "u8 \<Rightarrow> u16 \<Rightarrow> u16 \<Rightarrow> reg_status + vc_runtime_command" where
  "vc_channel_write_command channel field v =
     (case vc_catalog_field field of
        Some config_field \<Rightarrow> Inr (VC_RUNTIME_CMD_SET_CHANNEL_FIELD channel config_field v)
      | None \<Rightarrow>
        (case vc_catalog_cal_field field of
           Some cal_field \<Rightarrow> Inr (VC_RUNTIME_CMD_SET_CHANNEL_CAL_FIELD channel cal_field v)
         | None \<Rightarrow>
           if field = REG_VC_FIELD_OUTPUT_ACTION
           then Inr (VC_RUNTIME_CMD_OUTPUT_ACTION channel (vc_output_action_of_u16 v))
           else if field = REG_VC_FIELD_FAULT_CMD
           then Inr (VC_RUNTIME_CMD_FAULT_COMMAND channel (vc_channel_fault_command_of_u16 v))
           else if field = REG_VC_FIELD_PARAM_ACTION
           then Inr (VC_RUNTIME_CMD_CHANNEL_PARAM_ACTION channel (vc_param_action_of_u16 v))
           else if field = REG_VC_FIELD_CAL_OUTPUT_ENABLE
           then (if 1 < v then Inl REG_INVALID_VALUE
                 else Inr (VC_RUNTIME_CMD_CALIBRATION_OUTPUT_ENABLE channel (v \<noteq> 0)))
           else if field = REG_VC_FIELD_CAL_DAC_CODE
           then Inr (VC_RUNTIME_CMD_CALIBRATION_RAW_DAC channel (ucast v))
           else if field = REG_VC_FIELD_CAL_SAMPLE_CMD
           then (if v = CAL_COMMAND_NONE then Inl REG_OK
                 else if v \<noteq> CAL_COMMAND_EXECUTE then Inl REG_INVALID_VALUE
                 else Inr (VC_RUNTIME_CMD_CALIBRATION_SAMPLE channel))
           else if field = REG_VC_FIELD_CAL_COMMIT_CMD
           then (if v = CAL_COMMAND_NONE then Inl REG_OK
                 else if v \<noteq> CAL_COMMAND_EXECUTE then Inl REG_INVALID_VALUE
                 else Inr (VC_RUNTIME_CMD_CALIBRATION_COMMIT channel))
           else Inl REG_UNSUPPORTED))"

definition vc_catalog_write ::
    "kconfig \<Rightarrow> ('d, 's, 'z) vc_system_scheme reg_view \<Rightarrow> reg_value \<Rightarrow> 'd k_wait \<Rightarrow>
     ('d, 's, 'z) vc_system_scheme \<Rightarrow> (reg_status \<times> ('d, 's, 'z) vc_system_scheme) option" where
  "vc_catalog_write K desc v wait s =
     (let (acquired, s1) = vc_catalog_acquire s;
          field = (ucast (REG_ID_FIELD (desc_id desc)) :: u16);
          channel = (ucast (REG_ID_INSTANCE (desc_id desc)) :: u8);
          ctrl = rt_ctrl (vc_memory s1);
          submit = (\<lambda>todo.
            case todo of
              Inl st \<Rightarrow> Some (st, vc_catalog_release s1)
            | Inr cmd \<Rightarrow> do {
                (st, rt) \<leftarrow> vc_runtime_submit_command K (vc_memory s1) cmd wait;
                Some (vc_status_to_reg st, vc_catalog_release (s1\<lparr>vc_memory := rt\<rparr>))
              })
      in
      if \<not> acquired then Some (REG_BUSY, s1)
      else if is_global desc then submit (vc_global_write_command field (value_u16 v))
      else if REG_ID_MODULE (desc_id desc) = module_number REG_MODULE_VOLTAGE_CONTROL then
        (if channel_count ctrl \<le> unat channel then Some (REG_UNSUPPORTED, vc_catalog_release s1)
         else if length (channels ctrl) \<le> unat channel then None
         else if \<not> vc_catalog_supported field (capabilities (channels ctrl ! unat channel))
         then Some (REG_UNSUPPORTED, vc_catalog_release s1)
         else submit (vc_channel_write_command channel field (value_u16 v)))
      else submit (vc_channel_write_command channel field (value_u16 v)))"

definition vc_catalog_owner ::
    "kconfig \<Rightarrow> (('d, 's, 'z) vc_system_scheme, 'd k_wait) reg_owner" where
  "vc_catalog_owner K =
    \<lparr> owner_read = Some vc_catalog_read, owner_write = Some (vc_catalog_write K) \<rparr>"

subsection \<open>The descriptors\<close>

text \<open>The value pointers of the channel registers; a register without an entry has a null pointer.\<close>

definition VC_VALUE :: "(u16 \<times> ('d vc_channel \<Rightarrow> reg_value)) list" where
  "VC_VALUE =
    [(REG_VC_FIELD_STATUS_BITS, \<lambda>ch. value_of_u16 (status_bits ch)),
     (REG_VC_FIELD_ACTIVE_FAULT_CAUSE, \<lambda>ch. value_of_u16 (active_fault_cause ch)),
     (REG_VC_FIELD_FAULT_HISTORY_CAUSE, \<lambda>ch. value_of_u16 (fault_history_cause ch)),
     (REG_VC_FIELD_LAST_FAULT_TIMESTAMP, \<lambda>ch. last_fault_timestamp ch),
     (REG_VC_FIELD_OPER_TARGET_VOLTAGE, \<lambda>ch. value_of_u16 (operational_target_voltage ch)),
     (REG_VC_FIELD_CAPABILITY_FLAGS, \<lambda>ch. value_of_u16 (capabilities ch)),
     (REG_VC_FIELD_MEASURED_VOLTAGE, \<lambda>ch. value_of_u16 (measured_voltage ch)),
     (REG_VC_FIELD_MEASURED_CURRENT, \<lambda>ch. value_of_u16 (measured_current ch)),
     (REG_VC_FIELD_CFG_TARGET_VOLTAGE, \<lambda>ch. value_of_u16 (configured_target_voltage (config ch))),
     (REG_VC_FIELD_RAMP_UP_STEP, \<lambda>ch. value_of_u16 (ramp_up_step (config ch))),
     (REG_VC_FIELD_RAMP_UP_INTERVAL, \<lambda>ch. value_of_u16 (ramp_up_interval (config ch))),
     (REG_VC_FIELD_RAMP_DOWN_STEP, \<lambda>ch. value_of_u16 (ramp_down_step (config ch))),
     (REG_VC_FIELD_RAMP_DOWN_INTERVAL, \<lambda>ch. value_of_u16 (ramp_down_interval (config ch))),
     (REG_VC_FIELD_AUTO_RETRY_DELAY, \<lambda>ch. value_of_u16 (auto_retry_delay (config ch))),
     (REG_VC_FIELD_AUTO_RETRY_MAX_COUNT, \<lambda>ch. value_of_u16 (auto_retry_max_count (config ch))),
     (REG_VC_FIELD_AUTO_RETRY_WINDOW, \<lambda>ch. value_of_u16 (auto_retry_window (config ch))),
     (REG_VC_FIELD_CURRENT_SAFE_BAND_PCT, \<lambda>ch. value_of_u16 (current_safe_band_pct (config ch))),
     (REG_VC_FIELD_CURRENT_LIMIT_THRESHOLD, \<lambda>ch. value_of_u16 (current_limit_threshold (config ch))),
     (REG_VC_FIELD_AUTO_DERATE_STEP, \<lambda>ch. value_of_u16 (auto_derate_step (config ch))),
     (REG_VC_FIELD_OUTPUT_CAL_K, \<lambda>ch. value_of_u16 (output_calib_k (cal_config ch))),
     (REG_VC_FIELD_OUTPUT_CAL_B, \<lambda>ch. value_of_u16 (output_calib_b (cal_config ch))),
     (REG_VC_FIELD_MEASURED_V_CAL_K, \<lambda>ch. value_of_u16 (measured_voltage_calib_k (cal_config ch))),
     (REG_VC_FIELD_MEASURED_V_CAL_B, \<lambda>ch. value_of_u16 (measured_voltage_calib_b (cal_config ch))),
     (REG_VC_FIELD_MEASURED_I_CAL_K, \<lambda>ch. value_of_u16 (measured_current_calib_k (cal_config ch))),
     (REG_VC_FIELD_MEASURED_I_CAL_B, \<lambda>ch. value_of_u16 (measured_current_calib_b (cal_config ch))),
     (REG_VC_FIELD_OUTPUT_CAL_K_EXP, \<lambda>ch. value_of_u16 (output_calib_k_exp (cal_config ch))),
     (REG_VC_FIELD_MEASURED_V_CAL_K_EXP, \<lambda>ch. value_of_u16 (measured_voltage_calib_k_exp (cal_config ch))),
     (REG_VC_FIELD_MEASURED_I_CAL_K_EXP, \<lambda>ch. value_of_u16 (measured_current_calib_k_exp (cal_config ch))),
     (REG_VC_FIELD_CAL_OUTPUT_ENABLE, \<lambda>ch. value_of_u16 (cal_output_enabled ch)),
     (REG_VC_FIELD_CAL_DAC_CODE, \<lambda>ch. value_of_u16 (raw_dac_readback ch))]"

definition VC_DESC_INIT ::
    "kconfig \<Rightarrow> u8 \<Rightarrow> reg_row \<Rightarrow> (('d, 's, 'z) vc_system_scheme, 'd k_wait) reg_descriptor" where
  "VC_DESC_INIT K ch row =
     (case row of (field, type, access, category) \<Rightarrow>
      \<lparr> desc_id = REG_VC_ID ch field, desc_type = type, desc_access = access, desc_category = category,
        desc_value = map_option (\<lambda>rd s. rd (channels (rt_ctrl (vc_memory s)) ! unat ch))
                       (map_of VC_VALUE field),
        desc_owner = Some (vc_catalog_owner K) \<rparr>)"

definition vc_catalog_channel_regs ::
    "catalog_build \<Rightarrow> (('d, 's, 'z) vc_system_scheme, 'd k_wait) reg_descriptor list" where
  "vc_catalog_channel_regs B =
     concat (map (\<lambda>row. map (\<lambda>ch. VC_DESC_INIT (kconf B) (word_of_nat ch) row) [0..<VC_MAX_CHANNELS B])
       vc_regs)"

definition vc_capability_flags :: "catalog_build \<Rightarrow> u16" where
  "vc_capability_flags B =
     SYS_CAP_AUTOMATIC_MODE OR SYS_CAP_CALIBRATION_MODE OR
     (if CONFIG_SYS_STATUS B then SYS_CAP_ENV_SENSOR else 0)"

definition vc_active_channel_mask :: "catalog_build \<Rightarrow> u16" where
  "vc_active_channel_mask B = word_of_int (2 ^ VC_MAX_CHANNELS B - 1)"

definition VC_GLOBAL_VALUE ::
    "catalog_build \<Rightarrow> (u16 \<times> (('d, 's, 'z) vc_system_scheme \<Rightarrow> reg_value)) list" where
  "VC_GLOBAL_VALUE B =
    [(REG_VC_GLOBAL_FIELD_VARIANT_ID, \<lambda>_. value_of_u16 (word_of_int (CONFIG_VC_VARIANT_ID (kconf B)))),
     (REG_VC_GLOBAL_FIELD_CAPABILITY_FLAGS, \<lambda>_. value_of_u16 (vc_capability_flags B)),
     (REG_VC_GLOBAL_FIELD_SUPPORTED_CHANNELS, \<lambda>_. value_of_u16 (word_of_nat (VC_MAX_CHANNELS B))),
     (REG_VC_GLOBAL_FIELD_ACTIVE_CHANNEL_MASK, \<lambda>_. value_of_u16 (vc_active_channel_mask B)),
     (REG_VC_GLOBAL_FIELD_CURRENT_UNIT_EXP,
        \<lambda>_. value_of_u16 (word_of_int (CONFIG_VC_CURRENT_UNIT_EXP (kconf B)))),
     (REG_VC_GLOBAL_FIELD_BOARD_HW_REVISION,
        \<lambda>_. value_of_u16 (word_of_int (CONFIG_VC_BOARD_HW_REVISION (kconf B)))),
     (REG_VC_GLOBAL_FIELD_STARTUP_CHANNEL_POLICY,
        \<lambda>s. value_of_u16 (startup_channel_policy (sys_cfg (rt_ctrl (vc_memory s)))))]"

definition VC_GLOBAL_DESC_INIT ::
    "catalog_build \<Rightarrow> reg_row \<Rightarrow> (('d, 's, 'z) vc_system_scheme, 'd k_wait) reg_descriptor" where
  "VC_GLOBAL_DESC_INIT B row =
     (case row of (field, type, access, category) \<Rightarrow>
      \<lparr> desc_id = REG_VC_GLOBAL_ID field, desc_type = type, desc_access = access,
        desc_category = category, desc_value = map_of (VC_GLOBAL_VALUE B) field,
        desc_owner = Some (vc_catalog_owner (kconf B)) \<rparr>)"

definition vc_catalog_global_regs ::
    "catalog_build \<Rightarrow> (('d, 's, 'z) vc_system_scheme, 'd k_wait) reg_descriptor list" where
  "vc_catalog_global_regs B = map (VC_GLOBAL_DESC_INIT B) vc_global_regs"

definition reg_vc_channel_handle ::
    "catalog_build \<Rightarrow> u8 \<Rightarrow> nat \<Rightarrow> (('d, 's, 'z) vc_system_scheme, 'd k_wait) reg_descriptor option"
  where
  "reg_vc_channel_handle B channel ordinal =
     (if VC_MAX_CHANNELS B \<le> unat channel \<or> REG_VC_ORD_COUNT \<le> ordinal then None
      else Some (vc_catalog_channel_regs B ! (ordinal * VC_MAX_CHANNELS B + unat channel)))"

definition reg_vc_global_handle ::
    "catalog_build \<Rightarrow> nat \<Rightarrow> (('d, 's, 'z) vc_system_scheme, 'd k_wait) reg_descriptor option" where
  "reg_vc_global_handle B ordinal =
     (if REG_VC_GLOBAL_ORD_COUNT \<le> ordinal then None
      else Some (vc_catalog_global_regs B ! ordinal))"

end
