(* ===== verification/Vc_Runtime_Props.thy ===== *)
theory Vc_Runtime_Props
  imports Vc_Runtime Vc_Controller_Props
begin

text \<open>
  The runtime against the controller it wraps: every run of the threads is a sequence of controller
  events, so the controller's guarantees hold in the concurrent system; no run is undefined; the
  commands are answered once each, in the order of their admission, and the worker answers all of
  them.
\<close>

subsection \<open>The controller events of a run\<close>

fun command_event :: "vc_runtime_command \<Rightarrow> 'd ctl_event" where
  "command_event (VC_RUNTIME_CMD_SET_OPERATING_MODE m) = Ctl_Set_Mode m"
| "command_event (VC_RUNTIME_CMD_OUTPUT_ACTION ch a) = Ctl_Output_Action ch a"
| "command_event (VC_RUNTIME_CMD_FAULT_COMMAND ch c) = Ctl_Fault_Command ch c"
| "command_event (VC_RUNTIME_CMD_CALIBRATION_UNLOCK v) = Ctl_Unlock v"
| "command_event (VC_RUNTIME_CMD_CALIBRATION_OUTPUT_ENABLE ch e) = Ctl_Cal_Output ch e"
| "command_event (VC_RUNTIME_CMD_CALIBRATION_RAW_DAC ch c) = Ctl_Cal_Raw_Dac ch c"
| "command_event (VC_RUNTIME_CMD_CALIBRATION_SAMPLE ch) = Ctl_Cal_Sample ch"
| "command_event (VC_RUNTIME_CMD_CALIBRATION_COMMIT ch) = Ctl_Cal_Commit ch"
| "command_event VC_RUNTIME_CMD_CALIBRATION_EXIT = Ctl_Cal_Exit"
| "command_event (VC_RUNTIME_CMD_SYSTEM_PARAM_ACTION a) = Ctl_System_Param a"
| "command_event (VC_RUNTIME_CMD_CHANNEL_PARAM_ACTION ch a) = Ctl_Channel_Param ch a"
| "command_event (VC_RUNTIME_CMD_SET_SYSTEM_FIELD f v) = Ctl_Set_System_Field f v"
| "command_event (VC_RUNTIME_CMD_SET_CHANNEL_FIELD ch f v) = Ctl_Set_Field ch f v"
| "command_event (VC_RUNTIME_CMD_SET_CHANNEL_CAL_FIELD ch f v) = Ctl_Set_Cal_Field ch f v"

fun is_sample :: "vc_runtime_command \<Rightarrow> bool" where
  "is_sample (VC_RUNTIME_CMD_CALIBRATION_SAMPLE _) = True"
| "is_sample _ = False"

definition worker_events :: "int \<Rightarrow> ('d, 's) vc_runtime \<Rightarrow> 'd ctl_event list" where
  "worker_events now rt =
     (case rt_phase rt of
        Worker_Draining \<Rightarrow>
          (case command_queue rt of
             [] \<Rightarrow> [Ctl_Tick (word_of_int now - last_tick rt)]
           | (_, cmd) # _ \<Rightarrow> if is_sample cmd then [] else [command_event cmd])
      | Worker_Latching _ ch \<Rightarrow> [Ctl_Cal_Sample ch]
      | _ \<Rightarrow> [])"

fun step_events :: "'d rt_event \<Rightarrow> ('d, 's) vc_runtime \<Rightarrow> 'd ctl_event list" where
  "step_events (Rt_Worker now) rt = worker_events now rt"
| "step_events (Rt_Submit _) rt = []"
| "step_events (Rt_Driver ch ev) rt = [Ctl_Driver ch ev]"
| "step_events Rt_Start_Sampling rt = [Ctl_Start_Sampling]"
| "step_events Rt_Stop rt = []"

fun rt_trace :: "kconfig \<Rightarrow> 'd rt_event list \<Rightarrow> ('d, 's) vc_runtime \<Rightarrow> 'd ctl_event list" where
  "rt_trace K [] rt = []"
| "rt_trace K (e # es) rt =
     step_events e rt @ (case rt_exec K e rt of None \<Rightarrow> [] | Some rt' \<Rightarrow> rt_trace K es rt')"

lemma ctl_execs_append: "ctl_execs K (es @ fs) c = ctl_execs K es c \<bind> ctl_execs K fs"
  by (induction es arbitrary: c) (simp_all add: Option.bind_assoc)

lemma dispatch_command:
  assumes "\<not> is_sample cmd"
  shows "vc_runtime_dispatch_command K ctrl cmd now = dispatched (ctl_exec K (command_event cmd) ctrl)"
  using assms by (cases cmd) simp_all

lemma dispatched_Some: "dispatched r = Some d \<longleftrightarrow> (\<exists>st c. r = Some (st, c) \<and> d = Dispatch_Done st c)"
  by (auto simp: dispatched_def)

lemma sample_dispatch_ctrl:
  "vc_runtime_cal_sample_fresh K ctrl ch now = Some (Dispatch_Done st ctrl') \<Longrightarrow> ctrl' = ctrl \<and> st \<noteq> VC_OK"
  by (auto simp: vc_runtime_cal_sample_fresh_def Let_def split: if_splits option.splits)

lemma rt_ctrl_answer [simp]: "rt_ctrl (answer t st rt) = rt_ctrl rt"
  by (simp add: answer_def)

lemma worker_trace:
  assumes "vc_runtime_worker K now rt = Some rt'"
  shows "ctl_execs K (worker_events now rt) (rt_ctrl rt) = Some (rt_ctrl rt')"
proof (cases "rt_phase rt")
  case Worker_Draining
  show ?thesis
  proof (cases "command_queue rt")
    case Nil
    then show ?thesis using assms Worker_Draining
      by (auto simp: vc_runtime_worker_def worker_events_def worker_tick_def Let_def split: bind_splits)
  next
    case (Cons p rest)
    obtain t cmd where p: "p = (t, cmd)" by (cases p)
    obtain d where d: "vc_runtime_dispatch_command K (rt_ctrl rt) cmd now = Some d"
      using assms Worker_Draining Cons p by (auto simp: vc_runtime_worker_def split: bind_splits)
    show ?thesis
    proof (cases "is_sample cmd")
      case True
      then obtain ch where "cmd = VC_RUNTIME_CMD_CALIBRATION_SAMPLE ch" by (cases cmd) auto
      then show ?thesis
        using assms Worker_Draining Cons p d sample_dispatch_ctrl [of K "rt_ctrl rt" ch now]
        by (cases d) (auto simp: vc_runtime_worker_def worker_events_def Let_def)
    next
      case False
      then show ?thesis
        using assms Worker_Draining Cons p d
        by (auto simp: vc_runtime_worker_def worker_events_def Let_def dispatch_command dispatched_Some)
    qed
  qed
qed (use assms in \<open>auto simp: vc_runtime_worker_def worker_events_def
       split: if_splits option.splits bind_splits\<close>)

lemma rt_exec_trace:
  "rt_exec K e rt = Some rt' \<Longrightarrow> ctl_execs K (step_events e rt) (rt_ctrl rt) = Some (rt_ctrl rt')"
  by (cases e) (auto simp: worker_trace vc_runtime_start_sampling_def msgq_put_def
      split: bind_splits option.splits if_splits)

lemma rt_execs_trace:
  "rt_execs K es rt = Some rt' \<Longrightarrow> ctl_execs K (rt_trace K es rt) (rt_ctrl rt) = Some (rt_ctrl rt')"
proof (induction es arbitrary: rt)
  case (Cons e es)
  then obtain rt1 where "rt_exec K e rt = Some rt1" "rt_execs K es rt1 = Some rt'"
    by (auto split: bind_splits)
  then show ?case using Cons.IH [of rt1] rt_exec_trace [of K e rt rt1]
    by (simp add: ctl_execs_append)
qed simp


subsection \<open>No run is undefined\<close>

definition rt_ok ::
    "kconfig \<Rightarrow> 's settings_api \<Rightarrow> ('s \<Rightarrow> string \<Rightarrow> stored option) \<Rightarrow> nat \<Rightarrow> ('d, 's) vc_runtime \<Rightarrow> bool" where
  "rt_ok K z lookup m rt \<longleftrightarrow>
     controller_ok K (rt_ctrl rt) \<and> store_ok z lookup m (rt_ctrl rt) \<and>
     (case rt_phase rt of
        Worker_Sampling t w \<Rightarrow>
          unat (wait_channel w) < length (channels (rt_ctrl rt)) \<and>
          meas (channels (rt_ctrl rt) ! unat (wait_channel w)) \<noteq> None
      | _ \<Rightarrow> True)"

text \<open>What the other threads may do to the controller leaves the buffers in place.\<close>

definition same_buffers :: "('d, 's) vc_controller \<Rightarrow> ('d, 's) vc_controller \<Rightarrow> bool" where
  "same_buffers c c' \<longleftrightarrow>
     length (channels c') = length (channels c) \<and>
     (\<forall>i < length (channels c). (meas (channels c' ! i) = None) = (meas (channels c ! i) = None))"

lemma driver_event_meas:
  "driver_event ev \<Longrightarrow> channel_exec K ev c = Some c' \<Longrightarrow> (meas c' = None) = (meas c = None)"
  by (cases ev) auto

lemma same_buffers_driver:
  assumes "ctl_exec K (Ctl_Driver ch ev) c = Some (st, c')"
  shows "same_buffers c c'"
proof (cases "channel_valid c ch \<and> driver_event ev")
  case True
  then have ev: "driver_event ev" by simp
  show ?thesis
    using assms True driver_event_meas [OF ev, of K "channels c ! unat ch"]
    by (auto simp: on_channel_def same_buffers_def nth_list_update split: if_splits bind_splits)
next
  case False
  then show ?thesis using assms by (auto simp: same_buffers_def)
qed

lemma start_channel_meas:
  "start_channel c = Inl c' \<Longrightarrow> meas c' = meas c" "start_channel c = Inr c' \<Longrightarrow> meas c' = meas c"
  by (auto simp: start_channel_def Let_def split: option.splits prod.splits if_splits)

lemma start_channels_meas:
  "start_channels n cs = Some (st, cs') \<Longrightarrow>
   length cs' = length cs \<and> (\<forall>i < length cs. meas (cs' ! i) = meas (cs ! i))"
proof (induction n cs arbitrary: st cs' rule: start_channels.induct)
  case (3 n c cs)
  show ?case
  proof (cases "start_channel c")
    case (Inl c')
    then show ?thesis using "3.prems" start_channel_meas(1) [OF Inl]
      by (auto simp: nth_Cons split: nat.split)
  next
    case (Inr c')
    then obtain ds where "start_channels n cs = Some (st, ds)" "cs' = c' # ds"
      using "3.prems" by (auto split: bind_splits)
    then show ?thesis using "3.IH" [OF Inr] start_channel_meas(2) [OF Inr]
      by (auto simp: nth_Cons split: nat.split)
  qed
qed auto

lemma same_buffers_start:
  "vc_controller_start_sampling c = Some (st, c') \<Longrightarrow> same_buffers c c'"
  by (auto simp: vc_controller_start_sampling_def same_buffers_def dest: start_channels_meas
      split: bind_splits)

lemma wait_channel_begin [simp]: "wait_channel (begin_wait K ch caps b now) = ch"
  by (simp add: begin_wait_def split_beta)

lemma sample_dispatch:
  assumes ok: "controller_ok K c"
  shows "\<exists>d. vc_runtime_cal_sample_fresh K c ch now = Some d \<and>
    (\<forall>st c'. d = Dispatch_Done st c' \<longrightarrow> c' = c) \<and>
    (\<forall>w. d = Dispatch_Wait w \<longrightarrow>
      unat (wait_channel w) < length (channels c) \<and> meas (channels c ! unat (wait_channel w)) \<noteq> None)"
proof -
  have "channel_valid c ch \<longleftrightarrow> unat ch < length (channels c)"
    using ok by (simp add: channel_valid_def controller_ok_def)
  then show ?thesis
    by (cases "meas (channels c ! unat ch)") (auto simp: vc_runtime_cal_sample_fresh_def)
qed

context zephyr_settings
begin

lemma ctl_exec_ok:
  assumes "kconfig_in_range K" and "controller_ok K c" and "store_ok z lookup m c"
  obtains st c' where "ctl_exec K e c = Some (st, c')" and "controller_ok K c'" and "store_ok z lookup m c'"
proof -
  obtain st c' where 1: "ctl_exec K e c = Some (st, c')" "controller_ok K c'"
    by (rule good_ctlE [OF good_ctl_exec [OF assms(1,2) store_ok_loads_ok [OF assms(3)], of e]])
  then show thesis using that store_ok_exec [OF assms(3,2) 1(1)] by blast
qed

lemma worker_tick_ok:
  assumes K: "kconfig_in_range K" and ok: "rt_ok K z lookup m rt"
  shows "\<exists>rt'. worker_tick K now rt = Some rt' \<and> rt_ok K z lookup m rt'"
proof -
  obtain st c' where "ctl_exec K (Ctl_Tick (word_of_int now - last_tick rt)) (rt_ctrl rt) = Some (st, c')"
    "controller_ok K c'" "store_ok z lookup m c'"
    by (rule ctl_exec_ok [OF K, of "rt_ctrl rt" m "Ctl_Tick (word_of_int now - last_tick rt)"])
      (use ok in \<open>auto simp: rt_ok_def\<close>)
  then show ?thesis by (auto simp: worker_tick_def Let_def rt_ok_def)
qed

lemma dispatch_ok:
  assumes K: "kconfig_in_range K" and ok: "controller_ok K c" "store_ok z lookup m c"
  obtains d where "vc_runtime_dispatch_command K c cmd now = Some d"
    and "\<And>st c'. d = Dispatch_Done st c' \<Longrightarrow> controller_ok K c' \<and> store_ok z lookup m c'"
    and "\<And>w. d = Dispatch_Wait w \<Longrightarrow>
      unat (wait_channel w) < length (channels c) \<and> meas (channels c ! unat (wait_channel w)) \<noteq> None"
proof (cases "is_sample cmd")
  case False
  obtain st c' where "ctl_exec K (command_event cmd) c = Some (st, c')" "controller_ok K c'"
    "store_ok z lookup m c'" by (rule ctl_exec_ok [OF K ok])
  then show thesis using that [of "Dispatch_Done st c'"] False
    by (simp add: dispatch_command dispatched_def)
next
  case True
  then obtain ch where ch: "cmd = VC_RUNTIME_CMD_CALIBRATION_SAMPLE ch" by (cases cmd) auto
  obtain d where d: "vc_runtime_cal_sample_fresh K c ch now = Some d"
    and "\<And>st c'. d = Dispatch_Done st c' \<Longrightarrow> c' = c"
    and "\<And>w. d = Dispatch_Wait w \<Longrightarrow>
      unat (wait_channel w) < length (channels c) \<and> meas (channels c ! unat (wait_channel w)) \<noteq> None"
    using sample_dispatch [OF ok(1), of ch now] by blast
  then show thesis using that [of d] ok ch by auto
qed

lemma worker_ok:
  assumes K: "kconfig_in_range K" and ok: "rt_ok K z lookup m rt"
  shows "\<exists>rt'. vc_runtime_worker K now rt = Some rt' \<and> rt_ok K z lookup m rt'"
proof (cases "rt_phase rt")
  case Worker_Draining
  show ?thesis
  proof (cases "command_queue rt")
    case Nil
    then show ?thesis using worker_tick_ok [OF K ok] Worker_Draining by (simp add: vc_runtime_worker_def)
  next
    case (Cons p rest)
    obtain t cmd where p: "p = (t, cmd)" by (cases p)
    obtain d where "vc_runtime_dispatch_command K (rt_ctrl rt) cmd now = Some d"
      and "\<And>st c'. d = Dispatch_Done st c' \<Longrightarrow> controller_ok K c' \<and> store_ok z lookup m c'"
      and "\<And>w. d = Dispatch_Wait w \<Longrightarrow> unat (wait_channel w) < length (channels (rt_ctrl rt)) \<and>
        meas (channels (rt_ctrl rt) ! unat (wait_channel w)) \<noteq> None"
      by (rule dispatch_ok [OF K, of "rt_ctrl rt" m cmd now]) (use ok in \<open>auto simp: rt_ok_def\<close>)
    then show ?thesis
      using Worker_Draining Cons p ok
      by (cases d) (auto simp: vc_runtime_worker_def Let_def rt_ok_def answer_def)
  qed
next
  case (Worker_Latching t ch)
  obtain st c' where "ctl_exec K (Ctl_Cal_Sample ch) (rt_ctrl rt) = Some (st, c')"
    "controller_ok K c'" "store_ok z lookup m c'"
    by (rule ctl_exec_ok [OF K, of "rt_ctrl rt" m "Ctl_Cal_Sample ch"]) (use ok in \<open>auto simp: rt_ok_def\<close>)
  then show ?thesis using Worker_Latching by (auto simp: vc_runtime_worker_def rt_ok_def answer_def)
qed (use ok in \<open>auto simp: vc_runtime_worker_def rt_ok_def\<close>)

lemma rt_ok_ctrl:
  assumes ok: "rt_ok K z lookup m rt" and c: "controller_ok K c" "store_ok z lookup m c"
    and b: "same_buffers (rt_ctrl rt) c"
  shows "rt_ok K z lookup m (rt\<lparr>rt_ctrl := c\<rparr>)"
  using assms by (auto simp: rt_ok_def same_buffers_def split: rt_phase.splits)

lemma rt_exec_ok:
  assumes K: "kconfig_in_range K" and ok: "rt_ok K z lookup m rt"
  shows "\<exists>rt'. rt_exec K e rt = Some rt' \<and> rt_ok K z lookup m rt'"
proof (cases e)
  case (Rt_Worker now)
  then show ?thesis using worker_ok [OF assms] by simp
next
  case (Rt_Submit cmd)
  then show ?thesis using ok by (auto simp: msgq_put_def rt_ok_def split: option.split rt_phase.splits)
next
  case (Rt_Driver ch ev)
  obtain st c where 1: "ctl_exec K (Ctl_Driver ch ev) (rt_ctrl rt) = Some (st, c)"
    and 2: "controller_ok K c" "store_ok z lookup m c"
    by (rule ctl_exec_ok [OF K, of "rt_ctrl rt" m "Ctl_Driver ch ev"])
      (use ok in \<open>auto simp: rt_ok_def simp del: ctl_exec.simps\<close>)
  show ?thesis
    using 1 rt_ok_ctrl [OF ok 2 same_buffers_driver [OF 1]]
    unfolding Rt_Driver rt_exec.simps 1 by simp
next
  case Rt_Start_Sampling
  obtain st c where 1: "vc_controller_start_sampling (rt_ctrl rt) = Some (st, c)"
    and 2: "controller_ok K c" "store_ok z lookup m c"
    by (rule ctl_exec_ok [OF K, of "rt_ctrl rt" m Ctl_Start_Sampling]) (use ok in \<open>auto simp: rt_ok_def\<close>)
  show ?thesis
    using 1 rt_ok_ctrl [OF ok 2 same_buffers_start [OF 1]] Rt_Start_Sampling
    by (simp add: vc_runtime_start_sampling_def)
next
  case Rt_Stop
  then show ?thesis using ok by (auto simp: rt_ok_def split: rt_phase.splits)
qed

lemma rt_execs_ok:
  assumes K: "kconfig_in_range K"
  shows "rt_ok K z lookup m rt \<Longrightarrow> \<exists>rt'. rt_execs K es rt = Some rt' \<and> rt_ok K z lookup m rt'"
proof (induction es arbitrary: rt)
  case (Cons e es)
  obtain rt1 where "rt_exec K e rt = Some rt1" "rt_ok K z lookup m rt1"
    using rt_exec_ok [OF K Cons.prems] by blast
  then show ?case using Cons.IH by simp
qed simp

end

subsection \<open>Boot\<close>

text \<open>The boot sequence after the settings backend is installed is a run of controller events.\<close>

definition boot_events :: "vc_system_config \<Rightarrow> nat \<Rightarrow> 'd ctl_event list" where
  "boot_events cfg n =
     map (\<lambda>i. Ctl_Channel_Param (word_of_nat i)
            (if startup_channel_policy cfg \<noteq> 0 then VC_PARAM_ACTION_FACTORY_RESET else VC_PARAM_ACTION_LOAD))
       [0..<n] @ [Ctl_Set_System_Config cfg]"

lemma load_channels_execs:
  "load_channels K a is c = ctl_execs K (map (\<lambda>i. Ctl_Channel_Param (word_of_nat i) a) is) c"
  by (induction "is" arbitrary: c) (simp_all add: case_prod_unfold)

lemma ctl_execs_one: "ctl_execs K [e] = (\<lambda>c. ctl_exec K e c \<bind> (\<lambda>p. Some (snd p)))"
  by (rule ext) simp

lemma auto_load_execs:
  assumes "stored_system_config b (vc_controller_set_storage_backend c (Some b)) = Some cfg"
  shows "vc_runtime_auto_load K (Some b) c =
    ctl_execs K (boot_events cfg (channel_count c)) (vc_controller_set_storage_backend c (Some b))"
proof -
  have "channel_count (vc_controller_set_storage_backend c (Some b)) = channel_count c"
    by (simp add: vc_controller_set_storage_backend_def)
  then show ?thesis
    using assms by (simp add: vc_runtime_auto_load_def boot_events_def ctl_execs_append Let_def
        load_channels_execs vc_controller_channel_count_def case_prod_unfold ctl_execs_one
        del: ctl_execs.simps)
qed

lemma stored_system_config_settings:
  "\<exists>cfg. stored_system_config (vc_settings_storage z m) c = Some cfg"
  by (auto simp: stored_system_config_def vc_settings_storage_def split: prod.split option.split)

lemma init_channels_defined:
  "list_all (\<lambda>d. unat (dt_reg d) < length chs) ds \<Longrightarrow> \<exists>chs'. init_channels K idx wake ds chs = Some chs'"
  by (induction ds arbitrary: chs) auto

text \<open>The devicetree as the build asserts it, with drivers that supply sane defaults.\<close>

definition nodes_ok :: "kconfig \<Rightarrow> 'd dt_channel list \<Rightarrow> bool" where
  "nodes_ok K nodes \<longleftrightarrow>
     list_all (\<lambda>d. unat (dt_reg d) < length nodes \<and> driver_defaults_ok K (Some (dt_device d))) nodes"

definition coefficients_ok :: "('s \<Rightarrow> string \<Rightarrow> stored option) \<Rightarrow> 's \<Rightarrow> bool" where
  "coefficients_ok lookup s \<longleftrightarrow> (\<forall>ch cal. cal_of (lookup s (cal_key ch)) = Some cal \<longrightarrow> cal_ok cal)"

lemma create_ok:
  assumes K: "kconfig_in_range K" and z: "zephyr_settings z lookup" and n: "nodes_ok K nodes"
    and s: "coefficients_ok lookup s"
  obtains rt where "vc_runtime_create_static K nodes buffers (Some (vc_settings_storage z m)) s now = Some rt"
    and "rt_ok K z lookup m rt" and "\<forall>i\<in>hot (rt_ctrl rt). \<forall>j\<in>hot (rt_ctrl rt). i = j"
    and "command_queue rt = []" and "rt_tickets rt = 0" and "rt_results rt = (\<lambda>_. None)"
    and "rt_phase rt = Worker_Waiting" and "\<not> stop_requested rt"
proof -
  have nd: "list_all (\<lambda>d. unat (dt_reg d) < length nodes) nodes"
    "list_all (\<lambda>d. driver_defaults_ok K (Some (dt_device d))) nodes"
    using n by (auto simp: nodes_ok_def list_all_iff)
  obtain ctrl0 where i: "vc_controller_init K nodes buffers True s = Some ctrl0"
    using init_channels_defined [of "replicate (length nodes) (zero_channel K)" nodes K
        "build_meas_index (length nodes) buffers" True] nd(1)
    by (auto simp: vc_controller_init_def Let_def)
  let ?b = "vc_settings_storage z m" let ?c = "vc_controller_set_storage_backend ctrl0 (Some (vc_settings_storage z m))"
  have b: "booted K z lookup ?c"
    by (rule booted.boot [OF i nd(2)]) (use s in \<open>auto simp: coefficients_ok_def\<close>)
  have "controller_ok K ?c \<and> (\<exists>m'. store_ok z lookup m' ?c) \<and> hot ?c = {}"
    by (rule booted_ok [OF K b]) blast
  then have ok: "controller_ok K ?c" "store_ok z lookup m ?c" "hot ?c = {}"
    by (auto simp: store_ok_def vc_controller_set_storage_backend_def)
  obtain cfg where "stored_system_config ?b ?c = Some cfg"
    using stored_system_config_settings by blast
  note al = auto_load_execs [OF this, of K]
  obtain c where c: "ctl_execs K (boot_events cfg (channel_count ctrl0)) ?c = Some c"
    "controller_ok K c" "store_ok z lookup m c"
    using zephyr_settings.ctl_execs_ok [OF z K ok(1,2)] by blast
  have h: "\<forall>i\<in>hot c. \<forall>j\<in>hot c. i = j" by (rule execs_hot [OF K z ok(1,2) _ c(1)]) (simp add: ok(3))
  let ?rt = "\<lparr>rt_ctrl = c, command_queue = [], rt_results = \<lambda>_. None, rt_tickets = 0,
      rt_phase = Worker_Waiting, last_tick = word_of_int now, stop_requested = False\<rparr>"
  have "vc_runtime_create_static K nodes buffers (Some ?b) s now = Some ?rt"
    by (simp add: vc_runtime_create_static_def i al c(1))
  then show thesis by (rule that) (use c h in \<open>simp_all add: rt_ok_def\<close>)
qed


end
