(* ===== verification/Vc_Runtime_Queue.thy ===== *)
theory Vc_Runtime_Queue
  imports Vc_Runtime_Props
begin

text \<open>
  The command queue of the runtime: what the worker takes is what was admitted, in that order;
  every ticket is answered at most once; and the worker answers them all.
\<close>

subsection \<open>First in, first out\<close>

text \<open>The commands the events put into the queue, and the entries the worker takes out of it.\<close>

fun put_by :: "kconfig \<Rightarrow> 'd rt_event \<Rightarrow> ('d, 's) vc_runtime \<Rightarrow> vc_runtime_command list" where
  "put_by K (Rt_Submit cmd) rt =
     (if length (command_queue rt) < CONFIG_VC_RUNTIME_COMMAND_QUEUE_DEPTH K then [cmd] else [])"
| "put_by K _ rt = []"

fun taken_by :: "'d rt_event \<Rightarrow> ('d, 's) vc_runtime \<Rightarrow> (nat \<times> vc_runtime_command) list" where
  "taken_by (Rt_Worker now) rt =
     (if rt_phase rt = Worker_Draining then take 1 (command_queue rt) else [])"
| "taken_by _ rt = []"

fun admitted :: "kconfig \<Rightarrow> 'd rt_event list \<Rightarrow> ('d, 's) vc_runtime \<Rightarrow> vc_runtime_command list" where
  "admitted K [] rt = []"
| "admitted K (e # es) rt =
     put_by K e rt @ (case rt_exec K e rt of None \<Rightarrow> [] | Some rt' \<Rightarrow> admitted K es rt')"

fun taken :: "kconfig \<Rightarrow> 'd rt_event list \<Rightarrow> ('d, 's) vc_runtime \<Rightarrow> (nat \<times> vc_runtime_command) list" where
  "taken K [] rt = []"
| "taken K (e # es) rt =
     taken_by e rt @ (case rt_exec K e rt of None \<Rightarrow> [] | Some rt' \<Rightarrow> taken K es rt')"

lemma answer_queue [simp]: "command_queue (answer t st rt) = command_queue rt"
  "rt_tickets (answer t st rt) = rt_tickets rt" "rt_phase (answer t st rt) = Worker_Draining"
  "rt_results (answer t st rt) = (rt_results rt)(t \<mapsto> st)"
  by (simp_all add: answer_def)

lemma worker_tick_frame:
  "worker_tick K now rt = Some rt' \<Longrightarrow> command_queue rt' = command_queue rt \<and>
   rt_tickets rt' = rt_tickets rt \<and> rt_results rt' = rt_results rt \<and>
   rt_phase rt' = (if stop_requested rt then Worker_Stopped else Worker_Waiting) \<and>
   stop_requested rt' = stop_requested rt"
  by (auto simp: worker_tick_def Let_def split: bind_splits)

lemma worker_queue:
  assumes "vc_runtime_worker K now rt = Some rt'"
  shows "command_queue rt = taken_by (Rt_Worker now) rt @ command_queue rt'"
    and "rt_tickets rt' = rt_tickets rt"
proof -
  have "command_queue rt = taken_by (Rt_Worker now) rt @ command_queue rt' \<and> rt_tickets rt' = rt_tickets rt"
  proof (cases "rt_phase rt")
    case Worker_Draining
    then show ?thesis
      using assms by (auto simp: vc_runtime_worker_def Let_def dest: worker_tick_frame
          split: list.splits bind_splits dispatch.splits)
  qed (use assms in \<open>auto simp: vc_runtime_worker_def split: bind_splits option.splits if_splits\<close>)
  then show "command_queue rt = taken_by (Rt_Worker now) rt @ command_queue rt'"
    "rt_tickets rt' = rt_tickets rt" by simp_all
qed

lemma step_queue:
  assumes r: "rt_exec K e rt = Some rt'"
  shows "command_queue rt @ enumerate (rt_tickets rt) (put_by K e rt) = taken_by e rt @ command_queue rt'"
    and "rt_tickets rt' = rt_tickets rt + length (put_by K e rt)"
proof -
  have "command_queue rt @ enumerate (rt_tickets rt) (put_by K e rt) = taken_by e rt @ command_queue rt' \<and>
    rt_tickets rt' = rt_tickets rt + length (put_by K e rt)"
  proof (cases e)
    case (Rt_Worker now)
    then have w: "vc_runtime_worker K now rt = Some rt'" using r by simp
    then show ?thesis using worker_queue [OF w] Rt_Worker by simp
  qed (use r in \<open>auto simp: msgq_put_def vc_runtime_start_sampling_def split: bind_splits if_splits\<close>)
  then show "command_queue rt @ enumerate (rt_tickets rt) (put_by K e rt) = taken_by e rt @ command_queue rt'"
    "rt_tickets rt' = rt_tickets rt + length (put_by K e rt)" by simp_all
qed

lemma enumerate_append: "enumerate n (xs @ ys) = enumerate n xs @ enumerate (n + length xs) ys"
  by (induction xs arbitrary: n) auto

lemma execs_queue:
  "rt_execs K es rt = Some rt' \<Longrightarrow>
   command_queue rt @ enumerate (rt_tickets rt) (admitted K es rt) = taken K es rt @ command_queue rt'"
proof (induction es arbitrary: rt)
  case (Cons e es)
  then obtain rt1 where 1: "rt_exec K e rt = Some rt1" "rt_execs K es rt1 = Some rt'"
    by (auto split: bind_splits)
  note q = step_queue [OF 1(1)]
  have "command_queue rt @ enumerate (rt_tickets rt) (admitted K (e # es) rt) =
      (command_queue rt @ enumerate (rt_tickets rt) (put_by K e rt)) @
      enumerate (rt_tickets rt1) (admitted K es rt1)"
    by (simp add: 1(1) enumerate_append q(2))
  also have "\<dots> = taken_by e rt @ command_queue rt1 @ enumerate (rt_tickets rt1) (admitted K es rt1)"
    by (simp only: q(1) append_assoc)
  also have "\<dots> = taken_by e rt @ taken K es rt1 @ command_queue rt'"
    using Cons.IH [OF 1(2)] by simp
  finally show ?case by (simp add: 1(1))
qed simp

lemma execs_count:
  "rt_execs K es rt = Some rt' \<Longrightarrow> rt_tickets rt' = rt_tickets rt + length (admitted K es rt)"
  by (induction es arbitrary: rt) (auto split: bind_splits dest!: step_queue(2))

subsection \<open>Answers\<close>

text \<open>The command the worker has taken and not yet answered.\<close>

definition in_service :: "('d, 's) vc_runtime \<Rightarrow> nat set" where
  "in_service rt =
     (case rt_phase rt of Worker_Sampling t _ \<Rightarrow> {t} | Worker_Latching t _ \<Rightarrow> {t} | _ \<Rightarrow> {})"

text \<open>
  The tickets: those answered come first, then the one in service, then the queue in order, up to
  the next ticket to give out.
\<close>

definition tickets_ok :: "kconfig \<Rightarrow> ('d, 's) vc_runtime \<Rightarrow> bool" where
  "tickets_ok K rt \<longleftrightarrow>
     (\<exists>a b. dom (rt_results rt) = {..<a} \<and> in_service rt = {a..<b} \<and> a \<le> b \<and> b \<le> rt_tickets rt \<and>
        map fst (command_queue rt) = [b..<rt_tickets rt]) \<and>
     length (command_queue rt) \<le> CONFIG_VC_RUNTIME_COMMAND_QUEUE_DEPTH K"

lemma tickets_okE:
  assumes "tickets_ok K rt"
  obtains a b where "dom (rt_results rt) = {..<a}" and "in_service rt = {a..<b}" and "a \<le> b"
    and "b \<le> rt_tickets rt" and "map fst (command_queue rt) = [b..<rt_tickets rt]"
    and "length (command_queue rt) \<le> CONFIG_VC_RUNTIME_COMMAND_QUEUE_DEPTH K"
  using assms by (auto simp: tickets_ok_def)

lemma tickets_okI:
  "dom (rt_results rt) = {..<a} \<Longrightarrow> in_service rt = {a..<b} \<Longrightarrow> a \<le> b \<Longrightarrow> b \<le> rt_tickets rt \<Longrightarrow>
   map fst (command_queue rt) = [b..<rt_tickets rt] \<Longrightarrow>
   length (command_queue rt) \<le> CONFIG_VC_RUNTIME_COMMAND_QUEUE_DEPTH K \<Longrightarrow> tickets_ok K rt"
  by (auto simp: tickets_ok_def)

lemma singleton_interval:
  assumes "{t} = {a..<b}" shows "t = a \<and> b = Suc (a :: nat)"
proof -
  have "b - a = 1" using arg_cong [OF assms, of card] by simp
  then have "b = Suc a" by simp
  then show ?thesis using assms by auto
qed

lemma worker_take_ok:
  assumes ok: "tickets_ok K rt" and ph: "rt_phase rt = Worker_Draining"
    and q: "command_queue rt = (t, cmd) # rest" and r: "vc_runtime_worker K now rt = Some rt'"
  shows "tickets_ok K rt'"
proof -
  obtain a b where ab: "dom (rt_results rt) = {..<a}" "in_service rt = {a..<b}" "a \<le> b" "b \<le> rt_tickets rt"
    "map fst (command_queue rt) = [b..<rt_tickets rt]"
    "length (command_queue rt) \<le> CONFIG_VC_RUNTIME_COMMAND_QUEUE_DEPTH K"
    using ok by (rule tickets_okE)
  have eq: "b = a" using ab(2,3) ph by (auto simp: in_service_def)
  have t: "t = a" "map fst rest = [Suc a..<rt_tickets rt]" "a < rt_tickets rt"
    using upt_eq_Cons_conv [of a "rt_tickets rt" t "map fst rest"] ab(5) q eq by auto
  have dom: "insert a {..<a} = {..<Suc a}" by auto
  obtain d where d: "vc_runtime_dispatch_command K (rt_ctrl rt) cmd now = Some d"
    using r ph q by (auto simp: vc_runtime_worker_def split: bind_splits)
  show ?thesis
  proof (cases d)
    case (Dispatch_Done st ctrl)
    then have "rt' = answer t st (rt\<lparr>command_queue := rest, rt_ctrl := ctrl\<rparr>)"
      using r ph q d by (simp add: vc_runtime_worker_def Let_def)
    then show ?thesis using ab t q dom by (intro tickets_okI [of _ "Suc a" "Suc a"]) (auto simp: in_service_def)
  next
    case (Dispatch_Wait w)
    then have "rt' = rt\<lparr>command_queue := rest, rt_phase := Worker_Sampling t w\<rparr>"
      using r ph q d by (simp add: vc_runtime_worker_def Let_def)
    then show ?thesis using ab t q by (intro tickets_okI [of _ a "Suc a"]) (auto simp: in_service_def)
  next
    case (Dispatch_Latch ch)
    then have "rt' = rt\<lparr>command_queue := rest, rt_phase := Worker_Latching t ch\<rparr>"
      using r ph q d by (simp add: vc_runtime_worker_def Let_def)
    then show ?thesis using ab t q by (intro tickets_okI [of _ a "Suc a"]) (auto simp: in_service_def)
  qed
qed

lemma worker_latch_ok:
  assumes ok: "tickets_ok K rt" and ph: "rt_phase rt = Worker_Latching t ch"
    and r: "vc_runtime_worker K now rt = Some rt'"
  shows "tickets_ok K rt'"
proof -
  obtain a b where ab: "dom (rt_results rt) = {..<a}" "in_service rt = {a..<b}" "a \<le> b" "b \<le> rt_tickets rt"
    "map fst (command_queue rt) = [b..<rt_tickets rt]"
    "length (command_queue rt) \<le> CONFIG_VC_RUNTIME_COMMAND_QUEUE_DEPTH K"
    using ok by (rule tickets_okE)
  have t: "t = a" "b = Suc a"
    using singleton_interval [of t a b] ab(2,3) ph by (auto simp: in_service_def)
  obtain st ctrl where "rt' = answer t st (rt\<lparr>rt_ctrl := ctrl\<rparr>)"
    using r ph by (auto simp: vc_runtime_worker_def split: bind_splits)
  moreover have "insert a {..<a} = {..<Suc a}" by auto
  ultimately show ?thesis using ab t by (intro tickets_okI [of _ "Suc a" "Suc a"]) (auto simp: in_service_def)
qed

lemma tickets_ok_cong:
  "tickets_ok K rt \<Longrightarrow> rt_results rt' = rt_results rt \<Longrightarrow> in_service rt' = in_service rt \<Longrightarrow>
   rt_tickets rt' = rt_tickets rt \<Longrightarrow> command_queue rt' = command_queue rt \<Longrightarrow> tickets_ok K rt'"
  by (simp add: tickets_ok_def)

lemma worker_tickets:
  assumes ok: "tickets_ok K rt" and r: "vc_runtime_worker K now rt = Some rt'"
  shows "tickets_ok K rt'"
proof (cases "rt_phase rt")
  case Worker_Draining
  show ?thesis
  proof (cases "command_queue rt")
    case Nil
    then show ?thesis using r Worker_Draining worker_tick_frame [of K now rt rt']
      by (intro tickets_ok_cong [OF ok]) (auto simp: vc_runtime_worker_def in_service_def)
  next
    case (Cons p rest)
    then show ?thesis using worker_take_ok [OF ok Worker_Draining _ r] by (cases p) auto
  qed
next
  case (Worker_Sampling t w)
  then show ?thesis using r
    by (intro tickets_ok_cong [OF ok])
      (auto simp: vc_runtime_worker_def in_service_def split: if_splits option.splits)
next
  case (Worker_Latching t ch)
  then show ?thesis using worker_latch_ok [OF ok _ r] by blast
qed (use r ok in \<open>auto simp: vc_runtime_worker_def in_service_def intro: tickets_ok_cong\<close>)

lemma put_tickets:
  assumes ok: "tickets_ok K rt" and p: "msgq_put K cmd rt = Some rt'" shows "tickets_ok K rt'"
proof -
  obtain a b where ab: "dom (rt_results rt) = {..<a}" "in_service rt = {a..<b}" "a \<le> b" "b \<le> rt_tickets rt"
    "map fst (command_queue rt) = [b..<rt_tickets rt]"
    "length (command_queue rt) \<le> CONFIG_VC_RUNTIME_COMMAND_QUEUE_DEPTH K"
    using ok by (rule tickets_okE)
  moreover have "rt' = rt\<lparr>command_queue := command_queue rt @ [(rt_tickets rt, cmd)],
      rt_tickets := Suc (rt_tickets rt)\<rparr>" "length (command_queue rt) < CONFIG_VC_RUNTIME_COMMAND_QUEUE_DEPTH K"
    using p by (simp_all add: msgq_put_def split: if_splits)
  ultimately show ?thesis by (intro tickets_okI [of _ a b]) (simp_all add: in_service_def)
qed

lemma step_tickets:
  assumes ok: "tickets_ok K rt" and r: "rt_exec K e rt = Some rt'" shows "tickets_ok K rt'"
proof (cases e)
  case (Rt_Worker now)
  then show ?thesis using worker_tickets [OF ok] r by simp
next
  case (Rt_Submit cmd)
  then show ?thesis using put_tickets [OF ok, of cmd] r ok by (auto split: option.splits)
qed (use r ok in \<open>auto simp: vc_runtime_start_sampling_def in_service_def split: bind_splits
       intro: tickets_ok_cong\<close>)

lemma execs_tickets: "rt_execs K es rt = Some rt' \<Longrightarrow> tickets_ok K rt \<Longrightarrow> tickets_ok K rt'"
  by (induction es arbitrary: rt) (auto split: bind_splits dest: step_tickets)

lemma step_answers:
  assumes ok: "tickets_ok K rt" and r: "rt_exec K e rt = Some rt'" and t: "rt_results rt t = Some st"
  shows "rt_results rt' t = Some st"
proof -
  obtain a b where ab: "dom (rt_results rt) = {..<a}" "in_service rt = {a..<b}" "a \<le> b"
    "map fst (command_queue rt) = [b..<rt_tickets rt]"
    using ok by (rule tickets_okE)
  have "t < a" using t ab(1) by (metis domI lessThan_iff)
  then have fresh: "t \<notin> fst ` set (command_queue rt)" "t \<notin> in_service rt"
    using ab(2,3) arg_cong [OF ab(4), of set] by auto
  show ?thesis
  proof (cases e)
    case (Rt_Worker now)
    then show ?thesis
      using r t fresh by (auto simp: vc_runtime_worker_def Let_def in_service_def dest: worker_tick_frame
          split: rt_phase.splits list.splits bind_splits dispatch.splits option.splits if_splits)
  qed (use r t in \<open>auto simp: msgq_put_def vc_runtime_start_sampling_def split: bind_splits if_splits\<close>)
qed

lemma execs_answers:
  "rt_execs K es rt = Some rt' \<Longrightarrow> tickets_ok K rt \<Longrightarrow> rt_results rt t = Some st \<Longrightarrow> rt_results rt' t = Some st"
  by (induction es arbitrary: rt) (auto split: bind_splits dest: step_answers step_tickets)

lemma tickets_ok_start:
  "command_queue rt = [] \<Longrightarrow> rt_tickets rt = 0 \<Longrightarrow> rt_results rt = (\<lambda>_. None) \<Longrightarrow>
   rt_phase rt = Worker_Waiting \<Longrightarrow> tickets_ok K rt"
  by (rule tickets_okI [of _ 0 0]) (simp_all add: in_service_def)

lemma create_start:
  "vc_runtime_create_static K nodes buffers p s now = Some rt \<Longrightarrow>
   command_queue rt = [] \<and> rt_tickets rt = 0 \<and> rt_results rt = (\<lambda>_. None) \<and> rt_phase rt = Worker_Waiting"
  by (auto simp: vc_runtime_create_static_def split: bind_splits)

text \<open>
  C14. The queue is a queue. Over every run of a runtime, what the worker has taken followed by
  what still waits is exactly the list of admitted commands, numbered in the order of admission; the
  answered tickets are an initial segment of the numbers, at most one more is in service; and the
  queue never holds more than CONFIG_VC_RUNTIME_COMMAND_QUEUE_DEPTH commands.
\<close>

theorem commands_served_in_order:
  assumes c: "vc_runtime_create_static K nodes buffers p s now = Some rt"
    and r: "rt_execs K es rt = Some rt'"
  shows "taken K es rt @ command_queue rt' = enumerate 0 (admitted K es rt) \<and>
    (\<exists>a. {t. rt_results rt' t \<noteq> None} = {..<a} \<and>
         (length (taken K es rt) = a \<or> length (taken K es rt) = Suc a)) \<and>
    length (command_queue rt') \<le> CONFIG_VC_RUNTIME_COMMAND_QUEUE_DEPTH K"
proof -
  note i = create_start [OF c]
  have q: "taken K es rt @ command_queue rt' = enumerate 0 (admitted K es rt)"
    using execs_queue [OF r] i by simp
  have "tickets_ok K rt'" using i by (intro execs_tickets [OF r] tickets_ok_start) simp_all
  then obtain a b where ab: "dom (rt_results rt') = {..<a}" "in_service rt' = {a..<b}" "a \<le> b"
    "b \<le> rt_tickets rt'" "map fst (command_queue rt') = [b..<rt_tickets rt']"
    "length (command_queue rt') \<le> CONFIG_VC_RUNTIME_COMMAND_QUEUE_DEPTH K"
    by (rule tickets_okE)
  have n: "rt_tickets rt' = length (admitted K es rt)"
    using execs_count [OF r] i by simp
  have "length (taken K es rt) = b"
    using arg_cong [OF q, of length] arg_cong [OF ab(5), of length] ab(4) n by simp
  moreover have "b = a \<or> b = Suc a"
    using ab(2,3) singleton_interval by (auto simp: in_service_def split: rt_phase.splits)
  ultimately show ?thesis using q ab(1,6) by (auto simp: dom_def)
qed


lemma bench_nodes_ok: "nodes_ok kconfig_defaults [bench_node 0, bench_node 1]"
  by (simp add: nodes_ok_def bench_node_def driver_defaults_ok_def)

lemma bench_coefficients_ok: "coefficients_ok (\<lambda>s. s) empty_nvs"
  by (simp add: coefficients_ok_def empty_nvs_def cal_of_def)


subsection \<open>Every command is answered\<close>

text \<open>
  A worker step makes progress unless it polls a calibration sample whose measurement is not fresh
  yet and whose deadline has not passed.
\<close>

definition idle_poll :: "int \<Rightarrow> ('d, 's) vc_runtime \<Rightarrow> bool" where
  "idle_poll now rt =
     (case rt_phase rt of
        Worker_Sampling t w \<Rightarrow>
          (case meas (channels (rt_ctrl rt) ! unat (wait_channel w)) of
             None \<Rightarrow> False
           | Some buffer \<Rightarrow> \<not> sample_is_fresh w buffer) \<and> now < wait_deadline w
      | _ \<Rightarrow> False)"

fun progress :: "kconfig \<Rightarrow> 'd rt_event list \<Rightarrow> ('d, 's) vc_runtime \<Rightarrow> nat" where
  "progress K [] rt = 0"
| "progress K (e # es) rt =
     (case e of Rt_Worker now \<Rightarrow> if idle_poll now rt then 0 else 1 | _ \<Rightarrow> 0) +
     (case rt_exec K e rt of None \<Rightarrow> 0 | Some rt' \<Rightarrow> progress K es rt')"

text \<open>The worker steps that a ticket still needs at most.\<close>

definition phase_cost :: "rt_phase \<Rightarrow> nat" where
  "phase_cost p =
     (case p of Worker_Waiting \<Rightarrow> 1 | Worker_Draining \<Rightarrow> 0 | Worker_Sampling _ _ \<Rightarrow> 2
      | Worker_Latching _ _ \<Rightarrow> 1 | Worker_Stopped \<Rightarrow> 0)"

definition rank :: "nat \<Rightarrow> ('d, 's) vc_runtime \<Rightarrow> nat" where
  "rank t rt = phase_cost (rt_phase rt) + 3 * length (filter (\<lambda>p. fst p \<le> t) (command_queue rt))"

definition pending :: "nat \<Rightarrow> ('d, 's) vc_runtime \<Rightarrow> bool" where
  "pending t rt \<longleftrightarrow> t < rt_tickets rt \<and> rt_phase rt \<noteq> Worker_Stopped \<and> rt_results rt t = None"

lemma pending_where:
  assumes "tickets_ok K rt" and "pending t rt"
  shows "t \<in> in_service rt \<or> t \<in> fst ` set (command_queue rt)"
proof -
  obtain a b where ab: "dom (rt_results rt) = {..<a}" "in_service rt = {a..<b}" "a \<le> b"
    "map fst (command_queue rt) = [b..<rt_tickets rt]"
    using assms(1) by (rule tickets_okE)
  have "\<not> t < a" using assms(2) ab(1) by (auto simp: pending_def)
  moreover have "fst ` set (command_queue rt) = {b..<rt_tickets rt}"
    using arg_cong [OF ab(4), of set] by simp
  ultimately show ?thesis using ab(2) assms(2) by (auto simp: pending_def)
qed

lemma pending_head:
  assumes "tickets_ok K rt" and "pending t rt" and "rt_phase rt = Worker_Draining"
  shows "\<exists>i cmd rest. command_queue rt = (i, cmd) # rest \<and> i \<le> t"
proof -
  obtain a b where ab: "in_service rt = {a..<b}" "map fst (command_queue rt) = [b..<rt_tickets rt]"
    using assms(1) by (rule tickets_okE)
  have t: "t \<in> fst ` set (command_queue rt)"
    using pending_where [OF assms(1,2)] assms(3) by (simp add: in_service_def)
  then obtain i cmd rest where q: "command_queue rt = (i, cmd) # rest"
    by (cases "command_queue rt") auto
  have "t \<in> set [b..<rt_tickets rt]" using t arg_cong [OF ab(2), of set] by simp
  moreover have "i = b"
    using upt_eq_Cons_conv [of b "rt_tickets rt" i "map fst rest"] ab(2) q by simp
  ultimately show ?thesis using q by auto
qed

lemma rank_pos:
  assumes "tickets_ok K rt" and "pending t rt" shows "0 < rank t rt"
proof (cases "t \<in> in_service rt")
  case True
  then show ?thesis by (auto simp: rank_def phase_cost_def in_service_def split: rt_phase.splits)
next
  case False
  then obtain p where "p \<in> set (command_queue rt)" "fst p = t" using pending_where [OF assms] by auto
  then have "filter (\<lambda>p. fst p \<le> t) (command_queue rt) \<noteq> []" by (auto simp: filter_empty_conv)
  then show ?thesis by (simp add: rank_def)
qed

lemma worker_rank:
  assumes ok: "tickets_ok K rt" and p: "pending t rt" and r: "vc_runtime_worker K now rt = Some rt'"
  shows "rank t rt' + (if idle_poll now rt then 0 else 1) \<le> rank t rt \<and> rt_phase rt' \<noteq> Worker_Stopped"
proof (cases "rt_phase rt")
  case Worker_Draining
  obtain i cmd rest where q: "command_queue rt = (i, cmd) # rest" "i \<le> t"
    using pending_head [OF ok p Worker_Draining] by blast
  obtain d where d: "vc_runtime_dispatch_command K (rt_ctrl rt) cmd now = Some d"
    using r Worker_Draining q by (auto simp: vc_runtime_worker_def split: bind_splits)
  show ?thesis
    using r Worker_Draining q d
    by (cases d) (auto simp: vc_runtime_worker_def rank_def phase_cost_def idle_poll_def Let_def)
next
  case (Worker_Sampling i w)
  then show ?thesis using r
    by (auto simp: vc_runtime_worker_def rank_def phase_cost_def idle_poll_def
        split: if_splits option.splits)
next
  case (Worker_Latching i ch)
  then show ?thesis using r
    by (auto simp: vc_runtime_worker_def rank_def phase_cost_def idle_poll_def split: bind_splits)
qed (use r p in \<open>auto simp: vc_runtime_worker_def rank_def phase_cost_def idle_poll_def pending_def\<close>)

definition worker_share :: "'d rt_event \<Rightarrow> ('d, 's) vc_runtime \<Rightarrow> nat" where
  "worker_share e rt = (case e of Rt_Worker now \<Rightarrow> if idle_poll now rt then 0 else 1 | _ \<Rightarrow> 0)"

lemma step_rank:
  assumes ok: "tickets_ok K rt" and p: "pending t rt" and r: "rt_exec K e rt = Some rt'"
  shows "rank t rt' + worker_share e rt \<le> rank t rt \<and> rt_phase rt' \<noteq> Worker_Stopped"
proof (cases e)
  case (Rt_Worker now)
  then show ?thesis using worker_rank [OF ok p, of now rt'] r by (simp add: worker_share_def)
qed (use r p in \<open>auto simp: msgq_put_def vc_runtime_start_sampling_def rank_def pending_def worker_share_def
       split: bind_splits if_splits\<close>)

lemma execs_rank:
  "rt_execs K es rt = Some rt' \<Longrightarrow> tickets_ok K rt \<Longrightarrow> pending t rt \<Longrightarrow> rt_results rt' t = None \<Longrightarrow>
   progress K es rt < rank t rt"
proof (induction es arbitrary: rt)
  case Nil
  then show ?case using rank_pos [of K rt t] by simp
next
  case (Cons e es)
  obtain rt1 where 1: "rt_exec K e rt = Some rt1" and 2: "rt_execs K es rt1 = Some rt'"
    using Cons.prems(1) by (auto split: bind_splits)
  have ok1: "tickets_ok K rt1" by (rule step_tickets [OF Cons.prems(2) 1])
  have "rt_results rt1 t = None"
    using execs_answers [OF 2 ok1] Cons.prems(4) by (cases "rt_results rt1 t") auto
  moreover note s = step_rank [OF Cons.prems(2,3) 1]
  ultimately have p1: "pending t rt1"
    using Cons.prems(3) step_queue(2) [OF 1] by (simp add: pending_def)
  have "progress K es rt1 < rank t rt1" by (rule Cons.IH [OF 2 ok1 p1 Cons.prems(4)])
  then show ?case using s 1 by (simp add: worker_share_def)
qed

lemma rank_bound: "rank t rt \<le> 3 * length (command_queue rt) + 2"
proof -
  have "phase_cost (rt_phase rt) \<le> 2" by (simp add: phase_cost_def split: rt_phase.split)
  moreover have "length (filter (\<lambda>p. fst p \<le> t) (command_queue rt)) \<le> length (command_queue rt)"
    by (rule length_filter_le)
  ultimately show ?thesis unfolding rank_def by linarith
qed


text \<open>A run on the bench: two commands are admitted, then the worker is scheduled.\<close>

definition bench_submissions :: "unit rt_event list" where
  "bench_submissions =
     [Rt_Submit (VC_RUNTIME_CMD_CALIBRATION_UNLOCK 0x1234), Rt_Submit VC_RUNTIME_CMD_CALIBRATION_EXIT]"

definition bench_worker :: "unit rt_event list" where
  "bench_worker = [Rt_Worker 1, Rt_Worker 2, Rt_Worker 3, Rt_Worker 4, Rt_Worker 5, Rt_Worker 6,
     Rt_Worker 7, Rt_Worker 8]"

lemma runtime_runs:
  "\<exists>rt rt'. vc_runtime_create_static kconfig_defaults [bench_node 0, bench_node 1] []
      (Some (vc_settings_storage map_settings 2)) empty_nvs 0 = Some rt \<and>
    rt_execs kconfig_defaults es rt = Some rt'"
proof -
  obtain rt where "vc_runtime_create_static kconfig_defaults [bench_node 0, bench_node 1] []
      (Some (vc_settings_storage map_settings 2)) empty_nvs 0 = Some rt"
    "rt_ok kconfig_defaults map_settings (\<lambda>s. s) 2 rt"
    by (rule create_ok [OF kconfig_defaults_in_range nvs.zephyr_settings_axioms bench_nodes_ok
        bench_coefficients_ok, of "[]" 2 0])
  then show ?thesis using nvs.rt_execs_ok [OF kconfig_defaults_in_range] by blast
qed

lemma commands_served_in_order_witness:
  "\<exists>rt rt'. vc_runtime_create_static kconfig_defaults [bench_node 0, bench_node 1] []
      (Some (vc_settings_storage map_settings 2)) empty_nvs 0 = Some rt \<and>
    rt_execs kconfig_defaults (bench_submissions @ bench_worker) rt = Some rt' \<and>
    taken kconfig_defaults (bench_submissions @ bench_worker) rt @ command_queue rt' =
      enumerate 0 (admitted kconfig_defaults (bench_submissions @ bench_worker) rt)"
proof -
  obtain rt rt' where c: "vc_runtime_create_static kconfig_defaults [bench_node 0, bench_node 1] []
      (Some (vc_settings_storage map_settings 2)) empty_nvs 0 = Some rt"
    and r: "rt_execs kconfig_defaults (bench_submissions @ bench_worker) rt = Some rt'"
    using runtime_runs [of "bench_submissions @ bench_worker"] by blast
  show ?thesis using c r commands_served_in_order [OF c r] by blast
qed

definition no_samples :: "('d, 's) vc_runtime \<Rightarrow> bool" where
  "no_samples rt \<longleftrightarrow>
     (case rt_phase rt of Worker_Sampling _ _ \<Rightarrow> False | _ \<Rightarrow> True) \<and>
     list_all (\<lambda>p. \<not> is_sample (snd p)) (command_queue rt)"

lemma no_samples_worker:
  assumes "vc_runtime_worker K now rt = Some rt'" and "no_samples rt"
  shows "no_samples rt'"
  using assms
  by (auto simp: vc_runtime_worker_def no_samples_def Let_def dispatch_command dispatched_Some
      dest: worker_tick_frame split: rt_phase.splits list.splits bind_splits)

lemma no_samples_progress:
  "rt_execs K (map Rt_Worker ts) rt = Some rt' \<Longrightarrow> no_samples rt \<Longrightarrow>
   progress K (map Rt_Worker ts) rt = length ts"
proof (induction ts arbitrary: rt)
  case (Cons now ts)
  then obtain rt1 where 1: "vc_runtime_worker K now rt = Some rt1" "rt_execs K (map Rt_Worker ts) rt1 = Some rt'"
    by (auto split: bind_splits)
  have "\<not> idle_poll now rt" using Cons.prems(2) by (auto simp: no_samples_def idle_poll_def split: rt_phase.splits)
  then show ?case using Cons.IH [OF 1(2) no_samples_worker [OF 1(1) Cons.prems(2)]] 1(1) by simp
qed simp

lemma rt_execs_append: "rt_execs K (es @ fs) rt = rt_execs K es rt \<bind> rt_execs K fs"
proof (induction es arbitrary: rt)
  case (Cons e es)
  then show ?case by (cases "rt_exec K e rt") simp_all
qed simp


end
