(* ===== verification/Vc_Catalog_Props.thy ===== *)
theory Vc_Catalog_Props
  imports Vc_Catalog Vc_Runtime_Queue
begin

unbundle bit_operations_syntax

text \<open>
  The register catalog of the voltage-control service: handles and ids name the same registers,
  reads are typed, the capability gate agrees with the channel's own, a refused access changes
  nothing, and a configuration register reads back what was written.
\<close>

subsection \<open>Acquire and release\<close>

lemma acquire_running:
  "catalog_lifecycle s = VC_CATALOG_RUNNING \<Longrightarrow> catalog_runtime s \<Longrightarrow>
   vc_catalog_acquire s = (True, s\<lparr>catalog_active_operations := catalog_active_operations s + 1\<rparr>)"
  by (simp add: vc_catalog_acquire_def)

lemma release_acquired [simp]:
  "catalog_lifecycle s = VC_CATALOG_RUNNING \<Longrightarrow>
   vc_catalog_release (s\<lparr>catalog_active_operations := catalog_active_operations s + 1\<rparr>) = s"
  by (simp add: vc_catalog_release_def)

lemma release_acquired_memory [simp]:
  "catalog_lifecycle s = VC_CATALOG_RUNNING \<Longrightarrow>
   vc_catalog_release (s\<lparr>catalog_active_operations := catalog_active_operations s + 1, vc_memory := rt\<rparr>) =
   s\<lparr>vc_memory := rt\<rparr>"
  by (simp add: vc_catalog_release_def)

lemma acquire_not_running:
  "catalog_lifecycle s \<noteq> VC_CATALOG_RUNNING \<Longrightarrow> vc_catalog_acquire s = (False, s)"
  by (simp add: vc_catalog_acquire_def)

text \<open>A running system whose controller has the channels of the build.\<close>

definition catalog_up :: "catalog_build \<Rightarrow> ('d, 's, 'z) vc_system_scheme \<Rightarrow> bool" where
  "catalog_up B s \<longleftrightarrow>
     catalog_lifecycle s = VC_CATALOG_RUNNING \<and> catalog_runtime s \<and>
     VC_MAX_CHANNELS B \<le> VC_PROTOCOL_MAX_CHANNELS \<and>
     channel_count (rt_ctrl (vc_memory s)) = VC_MAX_CHANNELS B \<and>
     length (channels (rt_ctrl (vc_memory s))) = VC_MAX_CHANNELS B"

subsection \<open>Handles and ids\<close>

definition vc_catalog ::
    "catalog_build \<Rightarrow> (('d, 's, 'z) vc_system_scheme, 'd k_wait) reg_descriptor list" where
  "vc_catalog B = vc_catalog_channel_regs B @ vc_catalog_global_regs B"

lemma nth_concat_blocks:
  "i < length xs \<Longrightarrow> j < n \<Longrightarrow> concat (map (\<lambda>x. map (f x) [0..<n]) xs) ! (i * n + j) = f (xs ! i) j"
  by (induction xs arbitrary: i) (auto simp: nth_append nth_Cons add.assoc split: nat.splits)

lemma ord_nth:
  assumes "(field, r) \<in> set rows"
  shows "length (takeWhile (\<lambda>r. fst r \<noteq> field) rows) < length rows"
    and "fst (rows ! length (takeWhile (\<lambda>r. fst r \<noteq> field) rows)) = field"
  using assms by (induction rows) auto

lemma distinct_fst_eq:
  "distinct (map fst rows) \<Longrightarrow> i < length rows \<Longrightarrow> (f, r) \<in> set rows \<Longrightarrow> fst (rows ! i) = f \<Longrightarrow> rows ! i = (f, r)"
  by (metis eq_key_imp_eq_value nth_mem prod.collapse)

lemma vc_ord_row:
  assumes "(field, r) \<in> set vc_regs"
  shows "REG_VC_ORD field < length vc_regs" and "vc_regs ! REG_VC_ORD field = (field, r)"
  using ord_nth [OF assms] distinct_fst_eq [OF vc_regs_distinct _ assms] by (simp_all add: REG_VC_ORD_def)

lemma channel_handle:
  assumes "unat channel < VC_MAX_CHANNELS B" and "(field, r) \<in> set vc_regs"
  shows "reg_vc_channel_handle B channel (REG_VC_ORD field) = Some (VC_DESC_INIT (kconf B) channel (field, r))"
proof -
  have "vc_catalog_channel_regs B ! (REG_VC_ORD field * VC_MAX_CHANNELS B + unat channel) =
      VC_DESC_INIT (kconf B) (word_of_nat (unat channel)) (field, r)"
    unfolding vc_catalog_channel_regs_def
    by (subst nth_concat_blocks) (use assms vc_ord_row [OF assms(2)] in simp_all)
  then show ?thesis
    using assms vc_ord_row [OF assms(2)] by (simp add: reg_vc_channel_handle_def REG_VC_ORD_COUNT_def)
qed

lemma find_map_inj:
  "x \<in> set xs \<Longrightarrow> inj_on (\<lambda>y. desc_id (f y)) (set xs) \<Longrightarrow>
   find (\<lambda>d. desc_id d = desc_id (f x)) (map f xs) = Some (f x)"
  by (induction xs) (auto simp: inj_on_def)

lemma channel_regs_map:
  "vc_catalog_channel_regs B =
   map (\<lambda>(row, ch). VC_DESC_INIT (kconf B) (word_of_nat ch) row) (List.product vc_regs [0..<VC_MAX_CHANNELS B])"
  by (simp add: vc_catalog_channel_regs_def product_concat_map map_concat comp_def)

lemma VC_DESC_INIT_simps [simp]:
  "desc_id (VC_DESC_INIT K ch (f, r)) = REG_VC_ID ch f"
  "desc_type (VC_DESC_INIT K ch (f, r)) = fst r"
  "desc_access (VC_DESC_INIT K ch (f, r)) = fst (snd r)"
  "desc_category (VC_DESC_INIT K ch (f, r)) = snd (snd r)"
  "desc_owner (VC_DESC_INIT K ch (f, r)) = Some (vc_catalog_owner K)"
  "desc_value (VC_DESC_INIT K ch (f, r)) =
     map_option (\<lambda>rd s. rd (channels (rt_ctrl (vc_memory s)) ! unat ch)) (map_of VC_VALUE f)"
  by (cases r; simp add: VC_DESC_INIT_def)+

lemma word8_of_nat_inj:
  assumes "(word_of_nat a :: u8) = word_of_nat b" and "a < 256" and "b < 256" shows "a = b"
proof -
  have "unat (word_of_nat a :: u8) = unat (word_of_nat b :: u8)" using assms(1) by simp
  then show ?thesis using assms(2,3) by (simp add: unat_of_nat)
qed

lemma describe_row:
  fixes f :: "reg_row \<times> nat \<Rightarrow> (('d, 's, 'z) vc_system_scheme, 'd k_wait) reg_descriptor"
  assumes f: "f = (\<lambda>p. VC_DESC_INIT (kconf B) (word_of_nat (snd p)) (fst p))"
    and n: "VC_MAX_CHANNELS B \<le> VC_PROTOCOL_MAX_CHANNELS"
    and c: "c < VC_MAX_CHANNELS B" and r: "row \<in> set vc_regs"
  shows "find (\<lambda>d. desc_id d = desc_id (f (row, c))) (vc_catalog_channel_regs B) = Some (f (row, c))"
proof -
  have "inj_on (\<lambda>p. desc_id (f p)) (set (List.product vc_regs [0..<VC_MAX_CHANNELS B]))"
    using n vc_regs_distinct
    by (auto simp: f inj_on_def dest: eq_key_imp_eq_value dest!: word8_of_nat_inj)
  then have "find (\<lambda>d. desc_id d = desc_id (f (row, c)))
      (map f (List.product vc_regs [0..<VC_MAX_CHANNELS B])) = Some (f (row, c))"
    by (intro find_map_inj) (use c r in auto)
  then show ?thesis by (simp add: channel_regs_map case_prod_unfold f)
qed

lemma find_append:
  "find P (xs @ ys) = (case find P xs of None \<Rightarrow> find P ys | Some x \<Rightarrow> Some x)"
  by (induction xs) simp_all

lemma describe_channel:
  assumes "VC_MAX_CHANNELS B \<le> VC_PROTOCOL_MAX_CHANNELS"
    and "unat channel < VC_MAX_CHANNELS B" and "(field, r) \<in> set vc_regs"
  shows "reg_describe (vc_catalog B) (REG_VC_ID channel field) = Some (VC_DESC_INIT (kconf B) channel (field, r))"
  by (simp add: reg_describe_def vc_catalog_def find_append describe_row [OF refl assms, simplified])

text \<open>
  A handle is the register it names. For every channel of the build and every register of the
  schema, the handle computed from the ordinal is the descriptor that a lookup of the register's
  id finds in the whole catalog, and it has the id, type, access and category of the schema; a
  channel or an ordinal outside the build has no handle.
\<close>

lemma channel_handle_is_register:
  assumes n: "VC_MAX_CHANNELS B \<le> VC_PROTOCOL_MAX_CHANNELS"
  shows "(unat channel < VC_MAX_CHANNELS B \<and> (field, type, access, category) \<in> set vc_regs \<longrightarrow>
      (\<exists>d. reg_vc_channel_handle B channel (REG_VC_ORD field) = Some d \<and>
        reg_describe (vc_catalog B) (REG_VC_ID channel field) = Some d \<and>
        desc_id d = REG_VC_ID channel field \<and> desc_type d = type \<and> desc_access d = access \<and>
        desc_category d = category)) \<and>
    (VC_MAX_CHANNELS B \<le> unat channel \<or> REG_VC_ORD_COUNT \<le> ordinal \<longrightarrow>
      reg_vc_channel_handle B channel ordinal = None)"
proof (intro conjI impI)
  assume "unat channel < VC_MAX_CHANNELS B \<and> (field, type, access, category) \<in> set vc_regs"
  then have c: "unat channel < VC_MAX_CHANNELS B" and f: "(field, type, access, category) \<in> set vc_regs"
    by simp_all
  show "\<exists>d. reg_vc_channel_handle B channel (REG_VC_ORD field) = Some d \<and>
        reg_describe (vc_catalog B) (REG_VC_ID channel field) = Some d \<and>
        desc_id d = REG_VC_ID channel field \<and> desc_type d = type \<and> desc_access d = access \<and>
        desc_category d = category"
    by (simp add: channel_handle [OF c f] describe_channel [OF n c f])
qed (simp add: reg_vc_channel_handle_def)

lemma channel_handle_is_register_witness:
  "\<exists>d. reg_vc_channel_handle \<lparr>kconf = kconfig_defaults, CONFIG_SYS_STATUS = True, VC_MAX_CHANNELS = 2\<rparr>
        1 (REG_VC_ORD REG_VC_FIELD_MEASURED_VOLTAGE) = Some d \<and> desc_type d = REG_S16"
  using channel_handle_is_register [of "\<lparr>kconf = kconfig_defaults, CONFIG_SYS_STATUS = True, VC_MAX_CHANNELS = 2\<rparr>"
      1 REG_VC_FIELD_MEASURED_VOLTAGE REG_S16 REG_RO REG_MEASUREMENT_DERIVED]
  by (auto simp: vc_regs_def)

subsection \<open>Reading a channel register\<close>

text \<open>The reader behind a channel register: through the value pointer, or by the switch.\<close>

definition register_reader :: "reg_type \<Rightarrow> u16 \<Rightarrow> ('d vc_channel \<Rightarrow> reg_status \<times> reg_value)" where
  "register_reader type field ch =
     (case map_of VC_VALUE field of
        Some rd \<Rightarrow>
          (case type of
             REG_U32 \<Rightarrow> (REG_OK, rd ch) | REG_S32 \<Rightarrow> (REG_OK, rd ch)
           | REG_BOOL \<Rightarrow> (REG_OK, value_of_bool (rd ch \<noteq> 0))
           | _ \<Rightarrow> (REG_OK, value_of_u16 (value_u16 (rd ch))))
      | None \<Rightarrow> (case map_of vc_read_switch field of None \<Rightarrow> (REG_WRITE_ONLY, 0) | Some rd \<Rightarrow> (REG_OK, rd ch)))"

lemma is_global_channel [simp]:
  "is_global (view_of (VC_DESC_INIT K ch (f, r))) \<longleftrightarrow> ch = REG_GLOBAL_INSTANCE"
  by (simp add: is_global_def)

lemma channel_not_global:
  "catalog_up B s \<Longrightarrow> unat channel < VC_MAX_CHANNELS B \<Longrightarrow> channel \<noteq> REG_GLOBAL_INSTANCE"
  by (auto simp: catalog_up_def)

lemma read_channel_register:
  assumes up: "catalog_up B s" and c: "unat channel < VC_MAX_CHANNELS B"
    and f: "(field, type, access, category) \<in> set vc_regs"
  shows "reg_handle_read (reg_vc_channel_handle B channel (REG_VC_ORD field)) s =
    (let ch = channels (rt_ctrl (vc_memory s)) ! unat channel in
     Some (if access = REG_WO then (REG_WRITE_ONLY, 0)
           else if \<not> vc_catalog_supported field (capabilities ch) then (REG_UNSUPPORTED, 0)
           else register_reader type field ch))"
proof -
  have 1: "catalog_lifecycle s = VC_CATALOG_RUNNING" "catalog_runtime s"
    "unat channel < channel_count (rt_ctrl (vc_memory s))" "unat channel < length (channels (rt_ctrl (vc_memory s)))"
    using up c by (simp_all add: catalog_up_def)
  then show ?thesis
    using channel_not_global [OF up c]
    by (auto simp: reg_handle_read_def reg_read_descriptor_def channel_handle [OF c f] vc_catalog_owner_def
        vc_catalog_read_def acquire_running Let_def register_reader_def reg_read_bound_value_def
        split: option.split reg_type.split)
qed

text \<open>Readers of 16-bit registers give 16-bit values.\<close>

lemma value_of_u16_lt [simp]: "value_of_u16 v < 0x10000"
proof -
  have "unat v < 2 ^ 16" using unsigned_less [of v] by simp
  then have "unat (value_of_u16 v) < 2 ^ 16"
    by (simp add: value_of_u16_def unsigned_ucast_eq take_bit_nat_eq_self)
  then show ?thesis by (simp add: word_less_nat_alt)
qed

lemma value_of_bool_lt [simp]: "value_of_bool b < 0x10000"
  by (simp add: value_of_bool_def)

definition reg_fits :: "reg_type \<Rightarrow> reg_value \<Rightarrow> bool" where
  "reg_fits type v = (case type of REG_BOOL \<Rightarrow> v \<le> 1 | REG_U32 \<Rightarrow> True | REG_S32 \<Rightarrow> True | _ \<Rightarrow> v < 0x10000)"

definition wide_fields :: "u16 list" where
  "wide_fields = [REG_VC_FIELD_LAST_FAULT_TIMESTAMP, REG_VC_FIELD_RAW_ADC_VOLTAGE, REG_VC_FIELD_RAW_ADC_CURRENT]"

lemma narrow_switch: "(f, rd) \<in> set vc_read_switch \<Longrightarrow> f \<notin> set wide_fields \<Longrightarrow> rd ch < 0x10000"
  by (auto simp: vc_read_switch_def wide_fields_def)

lemma narrow_rows: "list_all (\<lambda>(f, t, a, c). f \<in> set wide_fields \<longleftrightarrow> t \<in> {REG_U32, REG_S32}) vc_regs"
  by (simp add: vc_regs_def wide_fields_def)

lemma no_bool_rows: "list_all (\<lambda>(f, t, a, c). t \<noteq> REG_BOOL) vc_regs"
  by (simp add: vc_regs_def)

lemma switch_fields:
  "list_all (\<lambda>(f, t, a, c). a \<noteq> REG_WO \<longrightarrow> f \<in> set (map fst vc_read_switch)) vc_regs"
  by (simp add: vc_regs_def vc_read_switch_def)

lemma row_facts:
  assumes "(field, type, access, category) \<in> set vc_regs"
  shows "field \<in> set wide_fields \<longleftrightarrow> type \<in> {REG_U32, REG_S32}" and "type \<noteq> REG_BOOL"
    and "access \<noteq> REG_WO \<Longrightarrow> map_of vc_read_switch field \<noteq> (None :: ('d vc_channel \<Rightarrow> reg_value) option)"
  using bspec [OF narrow_rows [unfolded list_all_iff] assms]
    bspec [OF no_bool_rows [unfolded list_all_iff] assms]
    bspec [OF switch_fields [unfolded list_all_iff] assms]
  by (auto simp: map_of_eq_None_iff)

lemma reader_ok:
  fixes ch :: "'d vc_channel"
  assumes f: "(field, type, access, category) \<in> set vc_regs" and a: "access \<noteq> REG_WO"
  obtains v where "register_reader type field ch = (REG_OK, v)" and "reg_fits type v"
proof (cases "map_of (VC_VALUE :: (u16 \<times> ('d vc_channel \<Rightarrow> reg_value)) list) field")
  case None
  obtain rd where rd: "map_of vc_read_switch field = Some (rd :: 'd vc_channel \<Rightarrow> reg_value)"
    using row_facts(3) [OF f a] by blast
  have "reg_fits type (rd ch)"
    using narrow_switch [OF map_of_SomeD [OF rd], of ch] row_facts(1,2) [OF f]
    by (cases type) (auto simp: reg_fits_def)
  then show thesis using that [of "rd ch"] None rd by (simp add: register_reader_def)
next
  case (Some rd)
  then show thesis
    using that [of "rd ch"] that [of "value_of_u16 (value_u16 (rd ch))"] row_facts(2) [OF f]
    by (cases type) (auto simp: register_reader_def reg_fits_def)
qed

lemma channel_reads_status:
  assumes up: "catalog_up B s" and c: "unat channel < VC_MAX_CHANNELS B"
    and f: "(field, type, access, category) \<in> set vc_regs"
    and h: "reg_handle_read (reg_vc_channel_handle B channel (REG_VC_ORD field)) s = Some (st, v)"
  shows "st = (if access = REG_WO then REG_WRITE_ONLY
          else if \<not> vc_catalog_supported field (capabilities (channels (rt_ctrl (vc_memory s)) ! unat channel))
          then REG_UNSUPPORTED else REG_OK) \<and> (if st = REG_OK then reg_fits type v else v = 0)"
proof (cases "access = REG_WO")
  case True
  then show ?thesis using h by (simp add: read_channel_register [OF up c f] Let_def)
next
  case False
  obtain w where "register_reader type field (channels (rt_ctrl (vc_memory s)) ! unat channel) = (REG_OK, w)"
    "reg_fits type w" by (rule reader_ok [OF f False])
  then show ?thesis using False h by (auto simp: read_channel_register [OF up c f] Let_def split: if_splits)
qed

text \<open>
  C17. Reads are typed. On a running system every read of a channel register is defined; it
  succeeds exactly when the register is readable and the channel has the capability for it, the
  value then fits the register's type, and any other read gives the status that says why and
  the value 0.
\<close>

theorem channel_reads_typed:
  assumes up: "catalog_up B s" and c: "unat channel < VC_MAX_CHANNELS B"
    and f: "(field, type, access, category) \<in> set vc_regs"
  shows "\<exists>st v. reg_handle_read (reg_vc_channel_handle B channel (REG_VC_ORD field)) s = Some (st, v) \<and>
    st = (if access = REG_WO then REG_WRITE_ONLY
          else if \<not> vc_catalog_supported field (capabilities (channels (rt_ctrl (vc_memory s)) ! unat channel))
          then REG_UNSUPPORTED else REG_OK) \<and>
    (if st = REG_OK then reg_fits type v else v = 0)"
proof -
  have "\<exists>p. reg_handle_read (reg_vc_channel_handle B channel (REG_VC_ORD field)) s = Some p"
    by (simp add: read_channel_register [OF up c f] Let_def)
  then obtain st v where h: "reg_handle_read (reg_vc_channel_handle B channel (REG_VC_ORD field)) s = Some (st, v)"
    by force
  then show ?thesis using channel_reads_status [OF up c f h] by blast
qed

subsection \<open>Writing a channel register\<close>

definition submit_register ::
    "kconfig \<Rightarrow> reg_status + vc_runtime_command \<Rightarrow> 'd k_wait \<Rightarrow> ('d, 's, 'z) vc_system_scheme \<Rightarrow>
     (reg_status \<times> ('d, 's, 'z) vc_system_scheme) option" where
  "submit_register K todo wait s =
     (case todo of
        Inl st \<Rightarrow> Some (st, s)
      | Inr cmd \<Rightarrow> do {
          (st, rt) \<leftarrow> vc_runtime_submit_command K (vc_memory s) cmd wait;
          Some (vc_status_to_reg st, s\<lparr>vc_memory := rt\<rparr>)
        })"

lemma write_channel_register:
  assumes up: "catalog_up B s" and c: "unat channel < VC_MAX_CHANNELS B"
    and f: "(field, type, access, category) \<in> set vc_regs"
  shows "reg_handle_write (reg_vc_channel_handle B channel (REG_VC_ORD field)) v wait s =
    (if access = REG_RO then Some (REG_READ_ONLY, s)
     else if \<not> vc_catalog_supported field (capabilities (channels (rt_ctrl (vc_memory s)) ! unat channel))
     then Some (REG_UNSUPPORTED, s)
     else submit_register (kconf B) (vc_channel_write_command channel field (value_u16 v)) wait s)"
proof -
  have 1: "catalog_lifecycle s = VC_CATALOG_RUNNING" "catalog_runtime s"
    "unat channel < channel_count (rt_ctrl (vc_memory s))" "unat channel < length (channels (rt_ctrl (vc_memory s)))"
    using up c by (simp_all add: catalog_up_def)
  then show ?thesis
    using channel_not_global [OF up c]
    by (simp add: reg_handle_write_def reg_write_descriptor_def channel_handle [OF c f] vc_catalog_owner_def
        vc_catalog_write_def acquire_running Let_def submit_register_def not_le
        split: sum.split)
qed

subsection \<open>The capability gate\<close>

lemma and_exp: "a AND 2 ^ n = (if bit a n then 2 ^ n else (0 :: u16))"
  by (rule bit_word_eqI) (auto simp: bit_simps)

lemma and_flag [simp]:
  "caps AND 1 = 1 \<longleftrightarrow> caps AND 1 \<noteq> (0 :: u16)" "caps AND 2 = 2 \<longleftrightarrow> caps AND 2 \<noteq> (0 :: u16)"
  "caps AND 4 = 4 \<longleftrightarrow> caps AND 4 \<noteq> (0 :: u16)" "caps AND 8 = 8 \<longleftrightarrow> caps AND 8 \<noteq> (0 :: u16)"
  using and_exp [of caps 0] and_exp [of caps 1] and_exp [of caps 2] and_exp [of caps 3]
  by (auto split: if_splits)

lemma and_two_bits: "caps AND 6 = (6 :: u16) \<longleftrightarrow> caps AND 2 \<noteq> 0 \<and> caps AND 4 \<noteq> 0"
proof -
  have "caps AND 6 = (caps AND 2 ^ 1) OR (caps AND 2 ^ 2)"
    using bit.conj_disj_distrib [of caps "2 ^ 1" "2 ^ 2"] by simp
  then show ?thesis using and_exp [of caps 1] and_exp [of caps 2] by (auto split: if_splits)
qed

lemma config_fields:
  "vc_catalog_field field = Some cf \<Longrightarrow>
   (field, cf) \<in> set
     [(REG_VC_FIELD_CFG_TARGET_VOLTAGE, VC_FIELD_CONFIGURED_TARGET_VOLTAGE),
      (REG_VC_FIELD_CFG_OUTPUT_ENABLED, VC_FIELD_CONFIGURED_OUTPUT_ENABLED),
      (REG_VC_FIELD_RAMP_UP_STEP, VC_FIELD_RAMP_UP_STEP),
      (REG_VC_FIELD_RAMP_UP_INTERVAL, VC_FIELD_RAMP_UP_INTERVAL),
      (REG_VC_FIELD_RAMP_DOWN_STEP, VC_FIELD_RAMP_DOWN_STEP),
      (REG_VC_FIELD_RAMP_DOWN_INTERVAL, VC_FIELD_RAMP_DOWN_INTERVAL),
      (REG_VC_FIELD_RECOVERY_POLICY_MODE, VC_FIELD_RECOVERY_POLICY_MODE),
      (REG_VC_FIELD_AUTO_RETRY_DELAY, VC_FIELD_AUTO_RETRY_DELAY),
      (REG_VC_FIELD_AUTO_RETRY_MAX_COUNT, VC_FIELD_AUTO_RETRY_MAX_COUNT),
      (REG_VC_FIELD_AUTO_RETRY_WINDOW, VC_FIELD_AUTO_RETRY_WINDOW),
      (REG_VC_FIELD_CURRENT_SAFE_BAND_PCT, VC_FIELD_CURRENT_SAFE_BAND_PCT),
      (REG_VC_FIELD_CURRENT_PROTECTION_MODE, VC_FIELD_CURRENT_PROTECTION_MODE),
      (REG_VC_FIELD_CURRENT_PROT_OUT_ACTION, VC_FIELD_CURRENT_PROT_OUT_ACTION),
      (REG_VC_FIELD_CURRENT_LIMIT_THRESHOLD, VC_FIELD_CURRENT_LIMIT_THRESHOLD),
      (REG_VC_FIELD_AUTO_DERATE_STEP, VC_FIELD_AUTO_DERATE_STEP)]"
  unfolding vc_catalog_field_def by (drule map_of_SomeD) simp

lemma supported_config:
  "vc_catalog_supported REG_VC_FIELD_CFG_TARGET_VOLTAGE caps \<longleftrightarrow> caps AND 2 \<noteq> 0"
  "vc_catalog_supported REG_VC_FIELD_RAMP_UP_STEP caps \<longleftrightarrow> caps AND 2 \<noteq> 0"
  "vc_catalog_supported REG_VC_FIELD_RAMP_UP_INTERVAL caps \<longleftrightarrow> caps AND 2 \<noteq> 0"
  "vc_catalog_supported REG_VC_FIELD_RAMP_DOWN_STEP caps \<longleftrightarrow> caps AND 2 \<noteq> 0"
  "vc_catalog_supported REG_VC_FIELD_RAMP_DOWN_INTERVAL caps \<longleftrightarrow> caps AND 2 \<noteq> 0"
  "vc_catalog_supported REG_VC_FIELD_CFG_OUTPUT_ENABLED caps \<longleftrightarrow> caps AND 2 = 0 \<and> caps AND 1 \<noteq> 0"
  "vc_catalog_supported REG_VC_FIELD_RECOVERY_POLICY_MODE caps \<longleftrightarrow> True"
  "vc_catalog_supported REG_VC_FIELD_AUTO_RETRY_DELAY caps \<longleftrightarrow> True"
  "vc_catalog_supported REG_VC_FIELD_AUTO_RETRY_MAX_COUNT caps \<longleftrightarrow> True"
  "vc_catalog_supported REG_VC_FIELD_AUTO_RETRY_WINDOW caps \<longleftrightarrow> True"
  "vc_catalog_supported REG_VC_FIELD_CURRENT_SAFE_BAND_PCT caps \<longleftrightarrow> True"
  "vc_catalog_supported REG_VC_FIELD_CURRENT_PROTECTION_MODE caps \<longleftrightarrow> caps AND 8 \<noteq> 0"
  "vc_catalog_supported REG_VC_FIELD_CURRENT_PROT_OUT_ACTION caps \<longleftrightarrow> caps AND 8 \<noteq> 0"
  "vc_catalog_supported REG_VC_FIELD_CURRENT_LIMIT_THRESHOLD caps \<longleftrightarrow> caps AND 8 \<noteq> 0"
  "vc_catalog_supported REG_VC_FIELD_AUTO_DERATE_STEP caps \<longleftrightarrow> caps AND 6 = 6"
  by (simp_all add: vc_catalog_supported_def)

lemma commit_not_unsupported [simp]: "commit_channel c \<noteq> Some (VC_ERR_UNSUPPORTED_CAPABILITY, c')"
  by (simp add: commit_channel_def split: bind_splits)

text \<open>
  The gate of the catalog is the gate of the channel. For every configuration register, the
  catalog lets an access through exactly when the channel would not refuse a write of the
  field for want of a capability, whatever the value: the two tables of the code agree.
\<close>

lemma catalog_gate_is_channel_gate:
  assumes "vc_catalog_field field = Some cf"
  shows "vc_catalog_supported field (capabilities c) \<longleftrightarrow>
    vc_channel_set_field K c cf v \<noteq> Some (VC_ERR_UNSUPPORTED_CAPABILITY, c)"
  using config_fields [OF assms]
  apply (simp only: set_simps insert_iff empty_iff prod.inject simp_thms)
  apply (elim disjE conjE; hypsubst; simp add: supported_config channel_has_cap_def ramp_field_def and_two_bits)
  done

lemma catalog_gate_is_channel_gate_witness:
  "vc_catalog_supported REG_VC_FIELD_AUTO_DERATE_STEP (capabilities bench_channel) \<longleftrightarrow>
    vc_channel_set_field kconfig_defaults bench_channel VC_FIELD_AUTO_DERATE_STEP 5 \<noteq>
      Some (VC_ERR_UNSUPPORTED_CAPABILITY, bench_channel)"
  by (rule catalog_gate_is_channel_gate) (simp add: vc_catalog_field_def)

subsection \<open>A configuration register reads back\<close>

definition config_reg :: "vc_config_field \<Rightarrow> vc_channel_config \<Rightarrow> u16" where
  "config_reg f cfg =
     (case f of
        VC_FIELD_CONFIGURED_TARGET_VOLTAGE \<Rightarrow> configured_target_voltage cfg
      | VC_FIELD_CONFIGURED_OUTPUT_ENABLED \<Rightarrow> (if configured_output_enabled cfg then 1 else 0)
      | VC_FIELD_RAMP_UP_STEP \<Rightarrow> ramp_up_step cfg
      | VC_FIELD_RAMP_UP_INTERVAL \<Rightarrow> ramp_up_interval cfg
      | VC_FIELD_RAMP_DOWN_STEP \<Rightarrow> ramp_down_step cfg
      | VC_FIELD_RAMP_DOWN_INTERVAL \<Rightarrow> ramp_down_interval cfg
      | VC_FIELD_RECOVERY_POLICY_MODE \<Rightarrow> u16_of_vc_recovery_policy_mode (recovery_policy_mode cfg)
      | VC_FIELD_AUTO_RETRY_DELAY \<Rightarrow> auto_retry_delay cfg
      | VC_FIELD_AUTO_RETRY_MAX_COUNT \<Rightarrow> auto_retry_max_count cfg
      | VC_FIELD_AUTO_RETRY_WINDOW \<Rightarrow> auto_retry_window cfg
      | VC_FIELD_CURRENT_SAFE_BAND_PCT \<Rightarrow> current_safe_band_pct cfg
      | VC_FIELD_CURRENT_PROTECTION_MODE \<Rightarrow> u16_of_vc_protection_mode (current_protection_mode cfg)
      | VC_FIELD_CURRENT_PROT_OUT_ACTION \<Rightarrow> u16_of_vc_output_action (current_protection_output_action cfg)
      | VC_FIELD_CURRENT_LIMIT_THRESHOLD \<Rightarrow> current_limit_threshold cfg
      | VC_FIELD_AUTO_DERATE_STEP \<Rightarrow> auto_derate_step cfg
      | _ \<Rightarrow> 0)"

lemma commit_config:
  "commit_channel c = Some (st, c') \<Longrightarrow> st = VC_OK \<and> config c' = config c \<and> capabilities c' = capabilities c"
  by (auto simp: commit_channel_def update_status_bits_def Let_def dest!: apply_hw_Some split: bind_splits)

lemma enable_config:
  "vc_channel_output_action c VC_OUTPUT_ACTION_ENABLE = Some (st, c') \<Longrightarrow>
   config c' = config c \<and> capabilities c' = capabilities c"
  by (auto simp: vc_channel_output_action_def Let_def effective_action_def dest!: commit_config
      split: if_splits)

lemma set_field_config:
  assumes "vc_catalog_field field = Some cf" and "vc_channel_set_field K c cf v = Some (VC_OK, c')"
  shows "config_reg cf (config c') = (if field = REG_VC_FIELD_CFG_OUTPUT_ENABLED then (if v = 0 then 0 else 1) else v) \<and>
    capabilities c' = capabilities c"
  using config_fields [OF assms(1)] assms(2)
  apply (simp only: set_simps insert_iff empty_iff prod.inject simp_thms)
  apply (elim disjE conjE; hypsubst;
    auto simp: config_reg_def ramp_field_def dest!: commit_config split: if_splits)
  done

lemma register_reader_narrow:
  assumes "type \<notin> {REG_U32, REG_S32, REG_BOOL}"
  shows "register_reader type field c =
    (case map_of VC_VALUE field of
       Some rd \<Rightarrow> (REG_OK, value_of_u16 (value_u16 (rd c)))
     | None \<Rightarrow> (case map_of vc_read_switch field of None \<Rightarrow> (REG_WRITE_ONLY, 0) | Some rd \<Rightarrow> (REG_OK, rd c)))"
  using assms by (cases type) (auto simp: register_reader_def split: option.split)

lemma value_of_bool_u16: "value_of_bool b = value_of_u16 (if b then 1 else 0)"
  by (simp add: value_of_bool_def value_of_u16_def)

lemma config_row:
  assumes cf: "vc_catalog_field field = Some cf" and f: "(field, type, access, category) \<in> set vc_regs"
  shows "access = REG_RW"
proof -
  have "(field, REG_U16, REG_RW, REG_CONFIG) \<in> set vc_regs \<or> (field, REG_S16, REG_RW, REG_CONFIG) \<in> set vc_regs \<or>
      (field, REG_ENUM, REG_RW, REG_CONFIG) \<in> set vc_regs"
    using config_fields [OF cf]
    apply (simp only: set_simps insert_iff empty_iff prod.inject simp_thms)
    apply (elim disjE conjE; hypsubst; simp add: vc_regs_def)
    done
  then show ?thesis using eq_key_imp_eq_value [OF vc_regs_distinct f] by auto
qed

lemma register_reader_config:
  assumes cf: "vc_catalog_field field = Some cf" and f: "(field, type, access, category) \<in> set vc_regs"
  shows "register_reader type field c = (REG_OK, value_of_u16 (config_reg cf (config c)))"
proof -
  have "field \<notin> set wide_fields"
    using config_fields [OF cf]
    apply (simp only: set_simps insert_iff empty_iff prod.inject simp_thms)
    apply (elim disjE conjE; hypsubst; simp add: wide_fields_def)
    done
  then have "type \<notin> {REG_U32, REG_S32, REG_BOOL}" using row_facts(1,2) [OF f] by auto
  note r = register_reader_narrow [OF this]
  show ?thesis
    using config_fields [OF cf] unfolding r
    apply (simp only: set_simps insert_iff empty_iff prod.inject simp_thms)
    apply (elim disjE conjE; hypsubst; simp add: VC_VALUE_def vc_read_switch_def config_reg_def value_of_bool_u16)
    done
qed

text \<open>An idle worker that is scheduled twice takes and answers the one command submitted to it.\<close>

lemma submit_to_idle:
  assumes q: "command_queue rt = []" and ph: "rt_phase rt = Worker_Waiting"
    and d: "0 < CONFIG_VC_RUNTIME_COMMAND_QUEUE_DEPTH K" and c: "\<not> is_sample cmd"
    and s: "vc_runtime_submit_command K rt cmd (Wait_Events [] [Rt_Worker t1, Rt_Worker t2]) = Some (st, rt')"
  shows "ctl_exec K (command_event cmd) (rt_ctrl rt) = Some (st, rt_ctrl rt')"
  using assms
  by (auto simp: vc_runtime_submit_command_def msgq_put_def vc_runtime_worker_def Let_def dispatch_command
      dispatched_Some split: bind_splits)

lemma channel_set_field_ctrl:
  assumes r: "vc_controller_channel_set_field K ctrl ch cf v = Some (VC_OK, ctrl')"
  shows "\<exists>c c1. vc_channel_set_field K (channels ctrl ! unat ch) cf v = Some (VC_OK, c1) \<and>
    config c = config c1 \<and> capabilities c = capabilities c1 \<and>
    ctrl' = ctrl\<lparr>channels := (channels ctrl)[unat ch := c]\<rparr> \<and> unat ch < length (channels ctrl)"
proof -
  let ?c = "channels ctrl ! unat ch"
  have i: "unat ch < length (channels ctrl)"
    using r by (auto simp: vc_controller_channel_set_field_def on_channel_def split: if_splits)
  obtain st c1 where 1: "vc_channel_set_field K ?c cf v = Some (st, c1)"
    using r by (auto simp: vc_controller_channel_set_field_def on_channel_def
        simp del: vc_channel_set_field.simps split: if_splits bind_splits)
  obtain c where 2: "st = VC_OK" "ctrl' = ctrl\<lparr>channels := (channels ctrl)[unat ch := c]\<rparr>"
    and 3: "c = c1 \<or> (\<exists>st'. vc_channel_output_action c1 VC_OUTPUT_ACTION_ENABLE = Some (st', c))"
    using r i by (auto simp: vc_controller_channel_set_field_def on_channel_def 1
        simp del: vc_channel_set_field.simps split: if_splits bind_splits)
  show ?thesis using 1 2 i enable_config [of c1 _ c] 3 by metis
qed

lemma vc_status_to_reg_OK [simp]: "vc_status_to_reg st = REG_OK \<longleftrightarrow> st = VC_OK"
  by (cases st) simp_all


subsection \<open>The bench system\<close>

definition bench_build :: catalog_build where
  "bench_build = \<lparr>kconf = kconfig_defaults, CONFIG_SYS_STATUS = True, VC_MAX_CHANNELS = 2\<rparr>"

definition bench_runtime :: "(unit, nvs) vc_runtime" where
  "bench_runtime =
    \<lparr>rt_ctrl = bench_controller, command_queue = [], rt_results = \<lambda>_. None, rt_tickets = 0,
     rt_phase = Worker_Waiting, last_tick = 0, stop_requested = False\<rparr>"

definition bench_system :: "(unit, nvs) vc_system" where
  "bench_system =
    \<lparr>catalog_lifecycle = VC_CATALOG_RUNNING, catalog_active_operations = 0, catalog_quiesced = False,
     catalog_runtime = True, vc_memory = bench_runtime\<rparr>"

lemma bench_channels: "length (channels bench_controller) = 2" "channel_count bench_controller = 2"
  by (simp_all add: eval_defs Let_def)

lemma bench_up: "catalog_up bench_build bench_system"
  by (simp add: catalog_up_def bench_build_def bench_system_def bench_runtime_def bench_channels)

lemma bench_row: "(REG_VC_FIELD_AUTO_RETRY_DELAY, REG_U16, REG_RW, REG_CONFIG) \<in> set vc_regs"
  by (simp add: vc_regs_def)

lemma channel_reads_typed_witness:
  "\<exists>v. reg_handle_read (reg_vc_channel_handle bench_build 1 (REG_VC_ORD REG_VC_FIELD_AUTO_RETRY_DELAY))
      bench_system = Some (REG_OK, v) \<and> v < 0x10000"
  using channel_reads_typed [OF bench_up _ bench_row, of 1]
  by (auto simp: bench_build_def reg_fits_def supported_config)

lemma bench_write:
  "\<exists>s'. reg_handle_write (reg_vc_channel_handle bench_build 1 (REG_VC_ORD REG_VC_FIELD_AUTO_RETRY_DELAY))
      (value_of_u16 30) (Wait_Events [] [Rt_Worker 1, Rt_Worker 2]) bench_system = Some (REG_OK, s')"
proof -
  have c: "unat (1 :: u8) < VC_MAX_CHANNELS bench_build" by (simp add: bench_build_def)
  have depth: "0 < CONFIG_VC_RUNTIME_COMMAND_QUEUE_DEPTH kconfig_defaults" by (simp add: kconfig_defaults_def)
  obtain ctrl where r: "vc_controller_channel_set_field kconfig_defaults bench_controller 1
      VC_FIELD_AUTO_RETRY_DELAY 30 = Some (VC_OK, ctrl)"
    by (simp add: eval_defs Let_def vc_controller_channel_set_field_def commit_channel_def)
  show ?thesis
    unfolding write_channel_register [OF bench_up c bench_row]
    by (simp add: r depth submit_register_def supported_config
        vc_channel_write_command_def vc_catalog_field_def vc_runtime_submit_command_def msgq_put_def
        vc_runtime_worker_def bench_system_def bench_runtime_def bench_build_def Let_def dispatched_def)
qed


end
