(* ===== verification/Vc_Lifecycle.thy ===== *)
theory Vc_Lifecycle
  imports Vc_Catalog
begin

text \<open>
  The catalog lifecycle at the grain of its atomic operations: \<open>vc_catalog_acquire\<close> and
  \<open>vc_catalog_release\<close> run by any number of client threads, \<open>vc_runtime_destroy\<close> and the part of
  \<open>vc_runtime_create_static\<close> that touches the lifecycle run by a manager. A schedule is a list of
  labels; a client is a program counter between two atomic operations. What destroy has to
  guarantee is that no client still uses the runtime once it goes on to tear it down.
\<close>

subsection \<open>Threads\<close>

datatype client_pc =
  C_Idle | C_Checked | C_Counted | C_Pointer | C_Holding | C_Releasing | C_Last

datatype manager_pc =
  M_Idle | M_Check | M_Wait | M_Quiet | M_Torn | M_Starting | M_Cleared | M_Reset | M_Published

record lifecycle =
  lc_state :: vc_catalog_lifecycle
  lc_active :: int
  lc_quiesced :: bool
  lc_runtime :: bool
  lc_clients :: "client_pc list"
  lc_manager :: manager_pc

text \<open>
  A client: the first check, the increment, the second check, the pointer; then, after its work, the
  decrement and, when it was the last, the check before it gives the semaphore.
\<close>

definition client_step :: "lifecycle \<Rightarrow> client_pc \<Rightarrow> client_pc \<times> lifecycle" where
  "client_step s pc =
     (case pc of
        C_Idle \<Rightarrow> (if lc_state s \<noteq> VC_CATALOG_RUNNING then C_Idle else C_Checked, s)
      | C_Checked \<Rightarrow> (C_Counted, s\<lparr>lc_active := lc_active s + 1\<rparr>)
      | C_Counted \<Rightarrow> (if lc_state s \<noteq> VC_CATALOG_RUNNING then C_Releasing else C_Pointer, s)
      | C_Pointer \<Rightarrow> (if lc_runtime s then C_Holding else C_Releasing, s)
      | C_Holding \<Rightarrow> (C_Releasing, s)
      | C_Releasing \<Rightarrow>
          (if lc_active s = 1 then C_Last else C_Idle, s\<lparr>lc_active := lc_active s - 1\<rparr>)
      | C_Last \<Rightarrow>
          (C_Idle, if lc_state s = VC_CATALOG_STOPPING then s\<lparr>lc_quiesced := True\<rparr> else s))"

text \<open>The manager; the wait for the semaphore is undefined until it is given.\<close>

definition destroy_start :: "lifecycle \<Rightarrow> lifecycle" where
  "destroy_start s =
     (if lc_state s = VC_CATALOG_RUNNING
      then s\<lparr>lc_state := VC_CATALOG_STOPPING, lc_manager := M_Check\<rparr> else s)"

definition create_start :: "lifecycle \<Rightarrow> lifecycle" where
  "create_start s =
     (if lc_state s = VC_CATALOG_STOPPED
      then s\<lparr>lc_state := VC_CATALOG_STARTING, lc_manager := M_Starting\<rparr> else s)"

definition manager_step :: "lifecycle \<Rightarrow> lifecycle option" where
  "manager_step s =
     (case lc_manager s of
        M_Idle \<Rightarrow> None
      | M_Check \<Rightarrow> Some (s\<lparr>lc_manager := if lc_active s \<noteq> 0 then M_Wait else M_Quiet\<rparr>)
      | M_Wait \<Rightarrow> (if lc_quiesced s then Some (s\<lparr>lc_quiesced := False, lc_manager := M_Quiet\<rparr>) else None)
      | M_Quiet \<Rightarrow> Some (s\<lparr>lc_runtime := False, lc_manager := M_Torn\<rparr>)
      | M_Torn \<Rightarrow> Some (s\<lparr>lc_state := VC_CATALOG_STOPPED, lc_manager := M_Idle\<rparr>)
      | M_Starting \<Rightarrow> Some (s\<lparr>lc_active := 0, lc_manager := M_Cleared\<rparr>)
      | M_Cleared \<Rightarrow> Some (s\<lparr>lc_quiesced := False, lc_manager := M_Reset\<rparr>)
      | M_Reset \<Rightarrow> Some (s\<lparr>lc_runtime := True, lc_manager := M_Published\<rparr>)
      | M_Published \<Rightarrow> Some (s\<lparr>lc_state := VC_CATALOG_RUNNING, lc_manager := M_Idle\<rparr>))"

datatype lc_label = Client nat | Destroy | Create | Manage

fun lc_exec :: "lc_label \<Rightarrow> lifecycle \<Rightarrow> lifecycle option" where
  "lc_exec (Client i) s =
     (if i < length (lc_clients s)
      then case client_step s (lc_clients s ! i) of (pc, s1) \<Rightarrow>
             Some (s1\<lparr>lc_clients := (lc_clients s)[i := pc]\<rparr>)
      else None)"
| "lc_exec Destroy s = (if lc_manager s = M_Idle then Some (destroy_start s) else None)"
| "lc_exec Create s = (if lc_manager s = M_Idle then Some (create_start s) else None)"
| "lc_exec Manage s = manager_step s"

fun lc_execs :: "lc_label list \<Rightarrow> lifecycle \<Rightarrow> lifecycle option" where
  "lc_execs [] s = Some s"
| "lc_execs (l # ls) s = lc_exec l s \<bind> lc_execs ls"

text \<open>A freshly created runtime with \<open>n\<close> client threads that have not entered the catalog yet.\<close>

definition fresh :: "nat \<Rightarrow> lifecycle" where
  "fresh n =
    \<lparr>lc_state = VC_CATALOG_RUNNING, lc_active = 0, lc_quiesced = False, lc_runtime = True,
     lc_clients = replicate n C_Idle, lc_manager = M_Idle\<rparr>"

text \<open>The runtime is being torn down, is gone, or is being built.\<close>

definition past_quiesce :: "lifecycle \<Rightarrow> bool" where
  "past_quiesce s \<longleftrightarrow>
     lc_manager s \<in> {M_Quiet, M_Torn, M_Starting, M_Cleared, M_Reset} \<or> lc_state s = VC_CATALOG_STOPPED"

subsection \<open>Alone, a client is the function of the catalog\<close>

definition lifecycle_of :: "('d, 's, 'z) vc_system_scheme \<Rightarrow> client_pc \<Rightarrow> lifecycle" where
  "lifecycle_of s pc =
    \<lparr>lc_state = catalog_lifecycle s, lc_active = uint (catalog_active_operations s),
     lc_quiesced = catalog_quiesced s, lc_runtime = catalog_runtime s, lc_clients = [pc],
     lc_manager = M_Idle\<rparr>"

lemma uint_Suc:
  assumes "(a :: u32) + 1 \<noteq> 0" shows "uint (a + 1) = uint a + 1"
proof -
  have "unat (1 + a) = Suc (unat a)" by (rule unatSuc) (use assms in \<open>simp add: add.commute\<close>)
  then have "int (unat (1 + a)) = int (Suc (unat a))" by simp
  then show ?thesis by (simp add: add.commute)
qed

lemma solo_acquire:
  assumes "catalog_lifecycle s = VC_CATALOG_RUNNING" and "catalog_runtime s"
    and "catalog_active_operations s + 1 \<noteq> 0"
  shows "lc_execs [Client 0, Client 0, Client 0, Client 0] (lifecycle_of s C_Idle) =
    Some (lifecycle_of (snd (vc_catalog_acquire s)) C_Holding)"
  using assms by (simp add: client_step_def lifecycle_of_def vc_catalog_acquire_def uint_Suc)

lemma solo_release:
  assumes "catalog_lifecycle s = VC_CATALOG_RUNNING" and "1 < catalog_active_operations s"
  shows "lc_execs [Client 0, Client 0] (lifecycle_of s C_Holding) =
    Some (lifecycle_of (vc_catalog_release s) C_Idle)"
proof -
  have "uint (catalog_active_operations s) = uint (catalog_active_operations s - 1 + 1)" by simp
  also have "\<dots> = uint (catalog_active_operations s - 1) + 1"
    by (rule uint_Suc) (use assms(2) in auto)
  finally have "uint (catalog_active_operations s - 1) = uint (catalog_active_operations s) - 1" by simp
  moreover have "uint (catalog_active_operations s) \<noteq> 1"
    using assms(2) by (metis order_less_irrefl uint_1_eq word_uint_eq_iff)
  moreover have "catalog_active_operations s \<noteq> 1" using assms(2) by auto
  ultimately show ?thesis
    using assms(1) by (simp add: client_step_def lifecycle_of_def vc_catalog_release_def)
qed

subsection \<open>The quiesce protocol within one lifecycle\<close>

definition counted :: "client_pc \<Rightarrow> bool" where
  "counted pc \<longleftrightarrow> pc \<in> {C_Counted, C_Pointer, C_Holding, C_Releasing}"

definition inside :: "lifecycle \<Rightarrow> bool" where
  "inside s \<longleftrightarrow> C_Pointer \<in> set (lc_clients s) \<or> C_Holding \<in> set (lc_clients s)"

definition active_exact :: "lifecycle \<Rightarrow> bool" where
  "active_exact s \<longleftrightarrow> lc_active s = int (length (filter counted (lc_clients s)))"

text \<open>
  The states of one lifecycle: running, or stopping with the semaphore given or about to be given
  only when no client is inside, or past the quiesce point with no client inside.
\<close>

definition lc_ok :: "lifecycle \<Rightarrow> bool" where
  "lc_ok s \<longleftrightarrow> active_exact s \<and>
     (lc_state s = VC_CATALOG_RUNNING \<and> lc_manager s = M_Idle \<and> \<not> lc_quiesced s \<or>
      lc_state s = VC_CATALOG_STOPPING \<and> lc_manager s \<in> {M_Check, M_Wait} \<and>
        (lc_quiesced s \<or> C_Last \<in> set (lc_clients s) \<longrightarrow> \<not> inside s) \<or>
      lc_state s = VC_CATALOG_STOPPING \<and> lc_manager s \<in> {M_Quiet, M_Torn} \<and> \<not> inside s \<or>
      lc_state s = VC_CATALOG_STOPPED \<and> lc_manager s = M_Idle \<and> \<not> inside s)"

lemma filter_update:
  assumes "i < length xs"
  shows "int (length (filter P (xs[i := y]))) =
    int (length (filter P xs)) - (if P (xs ! i) then 1 else 0) + (if P y then 1 else 0)"
  using assms
proof (induction xs arbitrary: i)
  case (Cons x xs)
  show ?case
  proof (cases i)
    case (Suc j)
    then show ?thesis using Cons.IH [of j] Cons.prems by (auto split: if_splits)
  qed simp
qed simp

lemma client_active:
  assumes "i < length (lc_clients s)" and "active_exact s" and "lc_exec (Client i) s = Some s'"
  shows "active_exact s'"
  using assms
  by (auto simp: active_exact_def client_step_def filter_update counted_def split: client_pc.splits if_splits)

lemma active_one_outside:
  assumes a: "active_exact s" and i: "i < length (lc_clients s)" "lc_clients s ! i = C_Releasing"
    and one: "lc_active s = 1"
  shows "\<not> inside s"
proof
  assume "inside s"
  then obtain j where j: "j < length (lc_clients s)" "lc_clients s ! j = C_Pointer \<or> lc_clients s ! j = C_Holding"
    by (auto simp: inside_def in_set_conv_nth)
  have "int (length (filter counted ((lc_clients s)[i := C_Idle]))) = 0"
    using a i one by (simp add: filter_update active_exact_def counted_def)
  then have "\<forall>x \<in> set ((lc_clients s)[i := C_Idle]). \<not> counted x" by (simp add: filter_empty_conv)
  moreover have "(lc_clients s)[i := C_Idle] ! j = lc_clients s ! j" using i j by (auto simp: nth_list_update)
  ultimately show False using j by (metis counted_def insertCI length_list_update nth_mem)
qed

lemma inside_update:
  assumes "i < length (lc_clients s)" and "lc_clients s' = (lc_clients s)[i := pc]"
    and "inside s'" and "pc \<noteq> C_Pointer" and "pc \<noteq> C_Holding"
  shows "inside s"
  using assms set_update_subset_insert [of "lc_clients s" i pc] by (auto simp: inside_def)

lemma last_update:
  assumes "lc_clients s' = (lc_clients s)[i := pc]" and "C_Last \<in> set (lc_clients s')" and "pc \<noteq> C_Last"
  shows "C_Last \<in> set (lc_clients s)"
  using assms set_update_subset_insert [of "lc_clients s" i pc] by auto

text \<open>What one client step does outside RUNNING: nobody gets in, and the last one out may give.\<close>

lemma client_stopping:
  assumes ok: "active_exact s" and i: "i < length (lc_clients s)" and st: "lc_state s \<noteq> VC_CATALOG_RUNNING"
    and r: "lc_exec (Client i) s = Some s'"
  shows "lc_state s' = lc_state s" and "lc_manager s' = lc_manager s"
    and "inside s' \<Longrightarrow> inside s"
    and "C_Last \<in> set (lc_clients s') \<or> lc_quiesced s' \<Longrightarrow>
      C_Last \<in> set (lc_clients s) \<or> lc_quiesced s \<or> \<not> inside s'"
proof -
  obtain pc s1 where c: "client_step s (lc_clients s ! i) = (pc, s1)" by fastforce
  have s': "s' = s1\<lparr>lc_clients := (lc_clients s)[i := pc]\<rparr>" using r i c by simp
  show "lc_state s' = lc_state s" "lc_manager s' = lc_manager s"
    using c s' by (auto simp: client_step_def split: client_pc.splits if_splits)
  have mem: "lc_clients s ! i \<in> set (lc_clients s)" using i by simp
  show ins: "inside s" if "inside s'"
  proof (cases "pc = C_Holding \<or> pc = C_Pointer")
    case True
    then have "lc_clients s ! i = C_Pointer"
      using c st by (auto simp: client_step_def split: client_pc.splits if_splits)
    then show ?thesis using mem by (auto simp: inside_def)
  next
    case False
    then show ?thesis using inside_update [of i s s' pc] i s' that by auto
  qed
  assume l: "C_Last \<in> set (lc_clients s') \<or> lc_quiesced s'"
  show "C_Last \<in> set (lc_clients s) \<or> lc_quiesced s \<or> \<not> inside s'"
  proof (cases "pc = C_Last")
    case True
    then have "lc_clients s ! i = C_Releasing" "lc_active s = 1"
      using c by (auto simp: client_step_def split: client_pc.splits if_splits)
    then show ?thesis using active_one_outside [OF ok i] ins by blast
  next
    case False
    then show ?thesis
      using c l mem last_update [of s' s i pc] s'
      by (auto simp: client_step_def split: client_pc.splits if_splits)
  qed
qed

lemma client_running:
  assumes "lc_state s = VC_CATALOG_RUNNING" and "lc_exec (Client i) s = Some s'"
  shows "lc_state s' = VC_CATALOG_RUNNING \<and> lc_manager s' = lc_manager s \<and> lc_quiesced s' = lc_quiesced s"
  using assms by (auto simp: client_step_def split: client_pc.splits if_splits)

lemma lc_ok_client:
  assumes ok: "lc_ok s" and r: "lc_exec (Client i) s = Some s'"
  shows "lc_ok s'"
proof -
  have i: "i < length (lc_clients s)" using r by (auto split: if_splits)
  have a: "active_exact s" using ok by (simp add: lc_ok_def)
  have a': "active_exact s'" by (rule client_active [OF i a r])
  show ?thesis
  proof (cases "lc_state s = VC_CATALOG_RUNNING")
    case True
    then show ?thesis using client_running [OF True r] ok a' by (auto simp: lc_ok_def)
  next
    case False
    have st: "lc_state s' = lc_state s" "lc_manager s' = lc_manager s"
      by (rule client_stopping [OF a i False r])+
    have f: "inside s' \<longrightarrow> inside s"
      "C_Last \<in> set (lc_clients s') \<or> lc_quiesced s' \<longrightarrow>
        C_Last \<in> set (lc_clients s) \<or> lc_quiesced s \<or> \<not> inside s'"
      using client_stopping(3,4) [OF a i False r] by blast+
    show ?thesis using ok False a' f unfolding lc_ok_def st by blast
  qed
qed

lemma not_inside_zero: "active_exact s \<Longrightarrow> lc_active s = 0 \<Longrightarrow> \<not> inside s"
  by (auto simp: active_exact_def inside_def counted_def filter_empty_conv)

lemma frame_simps [simp]:
  "active_exact (s\<lparr>lc_manager := m\<rparr>) = active_exact s" "active_exact (s\<lparr>lc_quiesced := q\<rparr>) = active_exact s"
  "active_exact (s\<lparr>lc_runtime := p\<rparr>) = active_exact s" "active_exact (s\<lparr>lc_state := st\<rparr>) = active_exact s"
  "inside (s\<lparr>lc_manager := m\<rparr>) = inside s" "inside (s\<lparr>lc_quiesced := q\<rparr>) = inside s"
  "inside (s\<lparr>lc_runtime := p\<rparr>) = inside s" "inside (s\<lparr>lc_state := st\<rparr>) = inside s"
  by (simp_all add: active_exact_def inside_def)

lemma frame_simps2 [simp]:
  "active_exact (s\<lparr>lc_state := st, lc_manager := m\<rparr>) = active_exact s"
  "inside (s\<lparr>lc_state := st, lc_manager := m\<rparr>) = inside s"
  "active_exact (s\<lparr>lc_quiesced := q, lc_manager := m\<rparr>) = active_exact s"
  "inside (s\<lparr>lc_quiesced := q, lc_manager := m\<rparr>) = inside s"
  "active_exact (s\<lparr>lc_runtime := p, lc_manager := m\<rparr>) = active_exact s"
  "inside (s\<lparr>lc_runtime := p, lc_manager := m\<rparr>) = inside s"
  by (simp_all add: active_exact_def inside_def)

lemma lc_ok_destroying:
  assumes "lc_ok s" and "lc_manager s \<noteq> M_Idle"
  shows "active_exact s" and "lc_state s = VC_CATALOG_STOPPING"
    and "lc_manager s \<in> {M_Check, M_Wait} \<Longrightarrow> lc_quiesced s \<or> C_Last \<in> set (lc_clients s) \<Longrightarrow> \<not> inside s"
    and "lc_manager s \<notin> {M_Check, M_Wait} \<Longrightarrow> lc_manager s \<in> {M_Quiet, M_Torn} \<and> \<not> inside s"
  using assms unfolding lc_ok_def by blast+

lemma lc_ok_manage:
  assumes ok: "lc_ok s" and r: "lc_exec Manage s = Some s'"
  shows "lc_ok s'"
proof -
  have m: "lc_manager s \<noteq> M_Idle" using r by (auto simp: manager_step_def)
  note d = lc_ok_destroying [OF ok m]
  show ?thesis
  proof (cases "lc_manager s")
    case M_Check
    have z: "\<not> inside s" if "lc_active s = 0" using not_inside_zero [OF d(1) that] .
    have "s' = s\<lparr>lc_manager := if lc_active s \<noteq> 0 then M_Wait else M_Quiet\<rparr>"
      using r M_Check by (simp add: manager_step_def)
    then show ?thesis
      using d(1,2) d(3) M_Check z by (cases "lc_active s = 0") (simp_all add: lc_ok_def)
  next
    case M_Wait
    then have "lc_quiesced s" "s' = s\<lparr>lc_quiesced := False, lc_manager := M_Quiet\<rparr>"
      using r by (auto simp: manager_step_def split: if_splits)
    then show ?thesis using d(1-3) M_Wait by (simp add: lc_ok_def)
  next
    case M_Quiet
    then have "s' = s\<lparr>lc_runtime := False, lc_manager := M_Torn\<rparr>" using r by (simp add: manager_step_def)
    then show ?thesis using d M_Quiet by (simp add: lc_ok_def)
  next
    case M_Torn
    then have "s' = s\<lparr>lc_state := VC_CATALOG_STOPPED, lc_manager := M_Idle\<rparr>" using r by (simp add: manager_step_def)
    then show ?thesis using d M_Torn by (simp add: lc_ok_def)
  qed (use m d in auto)
qed

lemma lc_execs_ok:
  "lc_execs ls s = Some s' \<Longrightarrow> set ls \<subseteq> range Client \<union> {Manage} \<Longrightarrow> lc_ok s \<Longrightarrow> lc_ok s'"
proof (induction ls arbitrary: s)
  case (Cons l ls)
  then obtain s1 where 1: "lc_exec l s = Some s1" "lc_execs ls s1 = Some s'" by (auto split: bind_splits)
  have "l \<in> range Client \<union> {Manage}" using Cons.prems(2) by simp
  then have "lc_ok s1"
    using 1(1) lc_ok_client [OF Cons.prems(3)] lc_ok_manage [OF Cons.prems(3)] by (elim UnE rangeE) blast+
  then show ?case using Cons.IH [OF 1(2)] Cons.prems(2) by auto
qed simp

text \<open>
  C18. Destroy waits for the register accesses that are under way. Start from a fresh runtime with any
  number of client threads and let them run; if, when destroy begins, no client stands between its
  final decrement and the check after it, then under every further interleaving the runtime is
  torn down only when no client holds it, and none gets hold of it afterwards.
\<close>

theorem destroy_waits_for_clients:
  assumes r1: "lc_execs (map Client is) (fresh n) = Some s1" and l: "C_Last \<notin> set (lc_clients s1)"
    and r2: "lc_execs (Destroy # ls) s1 = Some s2" and ls: "set ls \<subseteq> range Client \<union> {Manage}"
    and past: "past_quiesce s2"
  shows "C_Holding \<notin> set (lc_clients s2)"
proof -
  have "lc_ok (fresh n)" by (simp add: lc_ok_def fresh_def active_exact_def counted_def)
  then have ok1: "lc_ok s1" using lc_execs_ok [OF r1] by auto
  obtain s where s: "lc_exec Destroy s1 = Some s" "lc_execs ls s = Some s2" using r2 by (auto split: bind_splits)
  have "lc_ok s"
    using ok1 l s(1) by (auto simp: lc_ok_def destroy_start_def split: if_splits)
  then have "lc_ok s2" by (rule lc_execs_ok [OF s(2) ls])
  then show ?thesis using past by (auto simp: lc_ok_def past_quiesce_def inside_def)
qed

lemma destroy_waits_for_clients_witness:
  "\<exists>s1 s2. lc_execs (map Client [0, 0, 0, 0, 1]) (fresh 2) = Some s1 \<and> C_Holding \<in> set (lc_clients s1) \<and>
    lc_execs [Destroy, Manage, Client 1, Client 0, Client 1, Client 0, Client 1, Client 1, Manage] s1 = Some s2 \<and>
    past_quiesce s2 \<and> C_Holding \<notin> set (lc_clients s2)"
proof -
  obtain s1 where 1: "lc_execs (map Client [0, 0, 0, 0, 1]) (fresh 2) = Some s1"
    and l: "C_Last \<notin> set (lc_clients s1)" and h: "C_Holding \<in> set (lc_clients s1)"
    by (simp add: fresh_def client_step_def eval_nat_numeral)
  obtain s2 where 2: "lc_execs [Destroy, Manage, Client 1, Client 0, Client 1, Client 0, Client 1, Client 1, Manage] s1 =
      Some s2" and p: "past_quiesce s2"
    using 1 by (auto simp: fresh_def client_step_def eval_nat_numeral destroy_start_def manager_step_def past_quiesce_def)
  have "C_Holding \<notin> set (lc_clients s2)"
    using destroy_waits_for_clients [OF 1 l 2 _ p] by simp
  then show ?thesis using 1 2 h p by blast
qed

text \<open>
  The protocol has two holes. A client that is preempted between its final decrement and the check after
  it gives the semaphore for another client's operation, and destroy goes on while that client still
  holds the runtime; and a client that was counted before a destroy and create leaves the new
  count at 0 while it holds the runtime, so the next destroy does not wait for it.
\<close>

lemma quiesce_can_miss_an_operation:
  shows "(\<exists>ls s. lc_execs ls (fresh 2) = Some s \<and> lc_manager s = M_Quiet \<and> C_Holding \<in> set (lc_clients s)) \<and>
    (\<exists>ls s. lc_execs ls (fresh 1) = Some s \<and> lc_manager s = M_Quiet \<and> C_Holding \<in> set (lc_clients s) \<and>
       lc_active s = 0)"
proof (intro conjI exI)
  show "lc_execs ([Client 0, Client 0, Client 0, Client 0, Client 0, Client 0] @
      [Client 1, Client 1, Client 1, Client 1] @ [Destroy, Manage, Client 0, Manage]) (fresh 2) =
    Some \<lparr>lc_state = VC_CATALOG_STOPPING, lc_active = 1, lc_quiesced = False, lc_runtime = True,
      lc_clients = [C_Idle, C_Holding], lc_manager = M_Quiet\<rparr>"
    by (simp add: fresh_def client_step_def eval_nat_numeral destroy_start_def manager_step_def)
  show "lc_execs ([Client 0, Destroy, Manage, Client 0, Manage, Manage] @
      [Create, Manage, Manage, Manage, Manage, Client 0, Client 0] @ [Destroy, Manage]) (fresh 1) =
    Some \<lparr>lc_state = VC_CATALOG_STOPPING, lc_active = 0, lc_quiesced = False, lc_runtime = True,
      lc_clients = [C_Holding], lc_manager = M_Quiet\<rparr>"
    by (simp add: fresh_def client_step_def eval_nat_numeral destroy_start_def create_start_def manager_step_def)
qed simp_all

end
