(* ===== verification/Sys_Status.thy ===== *)
theory Sys_Status
  imports Vc_Catalog
begin

text \<open>
  The state of the whole firmware around the voltage-control system, and the system status module:
  \<open>lib/sys_status/sys_status.c\<close>, \<open>sys_uptime.c\<close> and \<open>sys_reset.c\<close>. The sensor and the firmware version
  that the build writes are parameters; a fetch of the sensor is its two return codes and the values
  the driver then reports.
\<close>

subsection \<open>The firmware\<close>

record mb_adapter_config =
  slave_address :: u16
  baud_rate_code :: u16

record vc_mb_adapter =
  active_cfg :: mb_adapter_config
  boot_cfg :: mb_adapter_config

record word_latch =
  latch_id :: reg_id_t
  latch_value :: u32
  latch_valid :: bool

text \<open>
  The static variables of the modules beside the voltage-control system: the pointer \<open>mb\<close> and the
  adapter it points to once set, the Modbus interface index, the word latch of the register view,
  the atomics of the environment, the status thread's counter and LED, the pending reset work. \<open>'m\<close>
  is the state of the Modbus subsystem, which is not part of the repository.
\<close>

record ('d, 's, 'm) firmware = "('d, 's) vc_system" +
  uptime_ms :: int
  mb :: bool
  adapter :: vc_mb_adapter
  mb_iface :: int
  modbus_state :: 'm
  word_latch :: word_latch
  env_temperature :: u32
  env_humidity :: u32
  status_tick_count :: u32
  sys_run :: bool
  reset_work :: "int option"

text \<open>The options of the build beyond those of the catalog.\<close>

record fw_build =
  cat :: catalog_build
  CONFIG_SETTINGS :: bool
  CONFIG_MODBUS :: bool
  CONFIG_SYS_RESET :: bool
  CONFIG_SYS_RESET_DELAY_MS :: int
  CONFIG_SYS_STATUS_HEARTBEAT_INTERVAL_MS :: u32
  CONFIG_SYS_STATUS_SENSOR_INTERVAL_MS :: u32
  CONFIG_VC_MODBUS_UNIT_ID :: u16
  CONFIG_VC_MODBUS_BAUD_RATE :: int
  FW_VERSION_MAJOR :: u32
  FW_VERSION_MINOR :: u32
  FW_VERSION_PATCH :: u32

type_synonym ('d, 's, 'm) fw_descriptor = "(('d, 's, 'm) firmware, 'd k_wait) reg_descriptor"

definition REG_DESCRIPTOR_DEFINE ::
    "reg_id_t \<Rightarrow> reg_type \<Rightarrow> reg_access \<Rightarrow> reg_category \<Rightarrow> (('d, 's, 'm) firmware \<Rightarrow> reg_value) option \<Rightarrow>
     (('d, 's, 'm) firmware, 'd k_wait) reg_owner option \<Rightarrow> ('d, 's, 'm) fw_descriptor" where
  "REG_DESCRIPTOR_DEFINE i type access category value_ptr owner =
    \<lparr> desc_id = i, desc_type = type, desc_access = access, desc_category = category,
      desc_value = value_ptr, desc_owner = owner \<rparr>"

subsection \<open>Uptime and firmware version\<close>

definition firmware_version :: "fw_build \<Rightarrow> u32" where
  "firmware_version B =
     push_bit 24 (FW_VERSION_MAJOR B AND 0xff) OR push_bit 16 (FW_VERSION_MINOR B AND 0xff) OR
     (FW_VERSION_PATCH B AND 0xffff)"

definition sys_uptime_reg_read ::
    "('d, 's, 'm) firmware reg_view \<Rightarrow> ('d, 's, 'm) firmware \<Rightarrow> (reg_status \<times> reg_value) option" where
  "sys_uptime_reg_read desc s =
     Some (if ucast (REG_ID_FIELD (desc_id desc)) = REG_SYS_STATUS_FIELD_UPTIME
           then (REG_OK, word_of_int (uptime_ms s div 1000))
           else (REG_NOT_FOUND, 0))"

definition sys_status_uptime_reg :: "('d, 's, 'm) fw_descriptor" where
  "sys_status_uptime_reg =
     REG_DESCRIPTOR_DEFINE (REG_SYS_STATUS_ID REG_SYS_STATUS_FIELD_UPTIME) REG_U32 REG_RO REG_RUNTIME_STATE
       None (Some \<lparr>owner_read = Some sys_uptime_reg_read, owner_write = None\<rparr>)"

definition sys_status_firmware_version_reg :: "fw_build \<Rightarrow> ('d, 's, 'm) fw_descriptor" where
  "sys_status_firmware_version_reg B =
     REG_DESCRIPTOR_DEFINE (REG_SYS_STATUS_ID REG_SYS_STATUS_FIELD_FW_VERSION) REG_U32 REG_RO REG_FIXED
       (Some (\<lambda>_. firmware_version B)) None"

subsection \<open>Environment\<close>

abbreviation (input) SYS_STATUS_TEMP_SENTINEL :: u32 where "SYS_STATUS_TEMP_SENTINEL \<equiv> - 32768"
abbreviation (input) SYS_STATUS_HUMID_SENTINEL :: u32 where "SYS_STATUS_HUMID_SENTINEL \<equiv> 0xffff"

definition sys_status_reg_read ::
    "('d, 's, 'm) firmware reg_view \<Rightarrow> ('d, 's, 'm) firmware \<Rightarrow> (reg_status \<times> reg_value) option" where
  "sys_status_reg_read desc s =
     Some (let field = (ucast (REG_ID_FIELD (desc_id desc)) :: u16) in
       if field = REG_SYS_STATUS_FIELD_BOARD_TEMPERATURE
       then (REG_OK, value_of_u16 (ucast (env_temperature s)))
       else if field = REG_SYS_STATUS_FIELD_BOARD_HUMIDITY
       then (REG_OK, value_of_u16 (ucast (env_humidity s)))
       else (REG_NOT_FOUND, 0))"

definition sys_status_reg_owner :: "(('d, 's, 'm) firmware, 'd k_wait) reg_owner" where
  "sys_status_reg_owner = \<lparr>owner_read = Some sys_status_reg_read, owner_write = None\<rparr>"

definition sys_status_temperature_reg :: "('d, 's, 'm) fw_descriptor" where
  "sys_status_temperature_reg =
     REG_DESCRIPTOR_DEFINE (REG_SYS_STATUS_ID REG_SYS_STATUS_FIELD_BOARD_TEMPERATURE) REG_S16 REG_RO
       REG_MEASUREMENT_RAW None (Some sys_status_reg_owner)"

definition sys_status_humidity_reg :: "('d, 's, 'm) fw_descriptor" where
  "sys_status_humidity_reg =
     REG_DESCRIPTOR_DEFINE (REG_SYS_STATUS_ID REG_SYS_STATUS_FIELD_BOARD_HUMIDITY) REG_U16 REG_RO
       REG_MEASUREMENT_RAW None (Some sys_status_reg_owner)"

text \<open>What the sensor answers: present and ready, the two fetches, and \<open>val1\<close>, \<open>val2\<close> of each quantity.\<close>

record sht3x =
  sht31_ready :: bool
  first_fetch :: int
  second_fetch :: int
  temp_val :: "int \<times> int"
  hum_val :: "int \<times> int"

text \<open>A sensor value in tenths, with the division of C that truncates towards zero.\<close>

definition tenths :: "int \<times> int \<Rightarrow> u32" where
  "tenths v = word_of_int (fst v * 10 + sgn (snd v) * (\<bar>snd v\<bar> div 100000))"

definition read_environment :: "sht3x \<Rightarrow> ('d, 's, 'm) firmware \<Rightarrow> ('d, 's, 'm) firmware" where
  "read_environment e s =
     (if \<not> sht31_ready e then s
      else
        let ret = (if first_fetch e < 0 then second_fetch e else first_fetch e) in
        if ret < 0
        then s\<lparr>env_temperature := SYS_STATUS_TEMP_SENTINEL, env_humidity := SYS_STATUS_HUMID_SENTINEL\<rparr>
        else s\<lparr>env_temperature := tenths (temp_val e), env_humidity := tenths (hum_val e)\<rparr>)"

text \<open>One pass of the status thread's loop, after its timer has given the semaphore.\<close>

definition sys_status_worker :: "fw_build \<Rightarrow> sht3x \<Rightarrow> ('d, 's, 'm) firmware \<Rightarrow> ('d, 's, 'm) firmware" where
  "sys_status_worker B e s =
     (let ticks = CONFIG_SYS_STATUS_SENSOR_INTERVAL_MS B div CONFIG_SYS_STATUS_HEARTBEAT_INTERVAL_MS B;
          sensor_ticks = (if ticks = 0 then 1 else ticks);
          s1 = s\<lparr>sys_run := \<not> sys_run s, status_tick_count := status_tick_count s + 1\<rparr>
      in if status_tick_count s1 mod sensor_ticks = 0 then read_environment e s1 else s1)"

subsection \<open>Reset\<close>

text \<open>The delayable work item is rescheduled: only the last deadline counts.\<close>

definition sys_status_request_reset :: "fw_build \<Rightarrow> ('d, 's, 'm) firmware \<Rightarrow> int \<times> ('d, 's, 'm) firmware" where
  "sys_status_request_reset B s = (0, s\<lparr>reset_work := Some (uptime_ms s + CONFIG_SYS_RESET_DELAY_MS B)\<rparr>)"

definition reset_reg_write ::
    "fw_build \<Rightarrow> ('d, 's, 'm) firmware reg_view \<Rightarrow> reg_value \<Rightarrow> 'd k_wait \<Rightarrow> ('d, 's, 'm) firmware \<Rightarrow>
     (reg_status \<times> ('d, 's, 'm) firmware) option" where
  "reset_reg_write B desc v t s =
     Some (if value_u16 v \<noteq> 1 then (REG_INVALID_VALUE, s)
           else case sys_status_request_reset B s of (rc, s1) \<Rightarrow>
             (if rc = 0 then REG_OK else REG_IO_ERROR, s1))"

definition sys_status_reset_reg :: "fw_build \<Rightarrow> ('d, 's, 'm) fw_descriptor" where
  "sys_status_reset_reg B =
     REG_DESCRIPTOR_DEFINE (REG_SYS_STATUS_ID REG_SYS_STATUS_FIELD_RESET) REG_U16 REG_WO REG_COMMAND
       None (Some \<lparr>owner_read = None, owner_write = Some (reset_reg_write B)\<rparr>)"

text \<open>The descriptors of the module that a build contains.\<close>

definition sys_status_catalog :: "fw_build \<Rightarrow> ('d, 's, 'm) fw_descriptor list" where
  "sys_status_catalog B =
     [sys_status_uptime_reg, sys_status_firmware_version_reg B] @
     (if CONFIG_SYS_STATUS (cat B) then [sys_status_temperature_reg, sys_status_humidity_reg] else []) @
     (if CONFIG_SYS_RESET B then [sys_status_reset_reg B] else [])"

end
