(* ===== verification/Modbus_Config.thy ===== *)
theory Modbus_Config
  imports Sys_Status
begin

text \<open>
  The configuration half of \<open>lib/modbus_adapter/modbus_adapter.c\<close> with
  \<open>include/modbus_adapter/modbus_adapter.h\<close>: the active and the next-boot settings of the serial
  line, their registers, their place in the settings subsystem, and the start of the Modbus server.
  The mutex of the adapter makes each operation one step.

  The Zephyr Modbus subsystem is a parameter (\<open>modbus_api\<close>), as are the settings functions.
\<close>

abbreviation (input) VC_BAUD_RATE_115200 :: u16 where "VC_BAUD_RATE_115200 \<equiv> 0"
abbreviation (input) VC_BAUD_RATE_9600 :: u16 where "VC_BAUD_RATE_9600 \<equiv> 1"
abbreviation (input) VC_BAUD_RATE_19200 :: u16 where "VC_BAUD_RATE_19200 \<equiv> 2"
abbreviation (input) VC_BAUD_RATE_38400 :: u16 where "VC_BAUD_RATE_38400 \<equiv> 3"

record 'm modbus_api =
  modbus_disable :: "int \<Rightarrow> 'm \<Rightarrow> int \<times> 'm"
  modbus_init_server :: "int \<Rightarrow> u8 \<Rightarrow> u32 \<Rightarrow> 'm \<Rightarrow> int \<times> 'm"
  modbus_iface_get_by_name :: "'m \<Rightarrow> int"

definition errno_to_reg_status :: "int \<Rightarrow> reg_status" where
  "errno_to_reg_status ret =
     (if ret = 0 then REG_OK
      else if ret = - EINVAL then REG_INVALID_VALUE
      else if ret = - ENOTSUP \<or> ret = - ENODEV then REG_UNSUPPORTED
      else REG_IO_ERROR)"

definition baud_code_to_rate :: "u16 \<Rightarrow> u32" where
  "baud_code_to_rate code =
     (if code = VC_BAUD_RATE_9600 then 9600
      else if code = VC_BAUD_RATE_19200 then 19200
      else if code = VC_BAUD_RATE_38400 then 38400
      else 115200)"

definition baud_rate_to_code :: "int \<Rightarrow> u16" where
  "baud_rate_to_code rate =
     (if rate = 9600 then VC_BAUD_RATE_9600
      else if rate = 19200 then VC_BAUD_RATE_19200
      else if rate = 38400 then VC_BAUD_RATE_38400
      else VC_BAUD_RATE_115200)"

definition adapter_default_config :: "fw_build \<Rightarrow> mb_adapter_config" where
  "adapter_default_config B =
    \<lparr> slave_address = CONFIG_VC_MODBUS_UNIT_ID B,
      baud_rate_code = baud_rate_to_code (CONFIG_VC_MODBUS_BAUD_RATE B) \<rparr>"

definition adapter_config_valid :: "mb_adapter_config \<Rightarrow> bool" where
  "adapter_config_valid cfg \<longleftrightarrow>
     1 \<le> slave_address cfg \<and> slave_address cfg \<le> 247 \<and>
     (baud_rate_code cfg = VC_BAUD_RATE_115200 \<or> baud_rate_code cfg = VC_BAUD_RATE_9600 \<or>
      baud_rate_code cfg = VC_BAUD_RATE_19200 \<or> baud_rate_code cfg = VC_BAUD_RATE_38400)"

subsection \<open>Persistence\<close>

text \<open>The settings live in the state that the storage backend of the controller reaches.\<close>

definition fw_nvs :: "('d, 's, 'm) firmware \<Rightarrow> 's" where
  "fw_nvs s = nvs_state (rt_ctrl (vc_memory s))"

definition set_fw_nvs :: "'s \<Rightarrow> ('d, 's, 'm) firmware \<Rightarrow> ('d, 's, 'm) firmware" where
  "set_fw_nvs n s =
     s\<lparr>vc_memory := (vc_memory s)\<lparr>rt_ctrl := (rt_ctrl (vc_memory s))\<lparr>nvs_state := n\<rparr>\<rparr>\<rparr>"

definition adapter_save_config ::
    "'s settings_api \<Rightarrow> mb_adapter_config \<Rightarrow> ('d, 's, 'm) firmware \<Rightarrow> int \<times> ('d, 's, 'm) firmware" where
  "adapter_save_config z cfg s =
     (case settings_save_one z ''mb/cfg'' (Stored_Mb (slave_address cfg) (baud_rate_code cfg)) (fw_nvs s) of
        (rc, n) \<Rightarrow> (rc, set_fw_nvs n s))"

text \<open>
  The loader of the adapter is the function \<open>settings_direct_loader\<close> with another name. The buffer
  keeps its contents \<open>cfg\<close> unless the loader fills it.
\<close>

definition adapter_load_config ::
    "fw_build \<Rightarrow> 's settings_api \<Rightarrow> mb_adapter_config \<Rightarrow> ('d, 's, 'm) firmware \<Rightarrow> int \<times> mb_adapter_config" where
  "adapter_load_config B z cfg s =
     (if CONFIG_SETTINGS B then
        (case settings_load_key z ''mb/cfg'' 4 (fw_nvs s) of
           (rc, v) \<Rightarrow> (rc, case v of Some (Stored_Mb a b) \<Rightarrow> \<lparr>slave_address = a, baud_rate_code = b\<rparr> | _ \<Rightarrow> cfg))
      else (- ENOENT, cfg))"

definition adapter_write_next_boot_field ::
    "fw_build \<Rightarrow> 's settings_api \<Rightarrow> u16 \<Rightarrow> u16 \<Rightarrow> ('d, 's, 'm) firmware \<Rightarrow> int \<times> ('d, 's, 'm) firmware" where
  "adapter_write_next_boot_field B z field v s =
     (if \<not> CONFIG_SETTINGS B then (- ENOTSUP, s)
      else if \<not> mb s then (- ENODEV, s)
      else
        let candidate =
          (if field = REG_MODBUS_FIELD_NEXT_BOOT_SLAVE_ADDRESS
           then Some ((boot_cfg (adapter s))\<lparr>slave_address := v\<rparr>)
           else if field = REG_MODBUS_FIELD_NEXT_BOOT_BAUD_RATE_CODE
           then Some ((boot_cfg (adapter s))\<lparr>baud_rate_code := v\<rparr>)
           else None)
        in case candidate of
             None \<Rightarrow> (- EINVAL, s)
           | Some cfg \<Rightarrow>
               if \<not> adapter_config_valid cfg then (- EINVAL, s)
               else case adapter_save_config z cfg s of
                 (ret, s1) \<Rightarrow>
                   (ret, if ret = 0 then s1\<lparr>adapter := (adapter s1)\<lparr>boot_cfg := cfg\<rparr>\<rparr> else s1))"

subsection \<open>The serial line\<close>

definition modbus_server_start ::
    "'m modbus_api \<Rightarrow> u8 \<Rightarrow> u32 \<Rightarrow> ('d, 's, 'm) firmware \<Rightarrow> int \<times> ('d, 's, 'm) firmware" where
  "modbus_server_start A unit_id baud s =
     (case modbus_init_server A (mb_iface s) unit_id baud (modbus_state s) of
        (rc, m) \<Rightarrow> (rc, s\<lparr>modbus_state := m\<rparr>))"

definition start_with :: "'m modbus_api \<Rightarrow> mb_adapter_config \<Rightarrow> ('d, 's, 'm) firmware \<Rightarrow>
     int \<times> ('d, 's, 'm) firmware" where
  "start_with A cfg s =
     modbus_server_start A (ucast (slave_address cfg)) (baud_code_to_rate (baud_rate_code cfg)) s"

definition set_active :: "mb_adapter_config \<Rightarrow> ('d, 's, 'm) firmware \<Rightarrow> ('d, 's, 'm) firmware" where
  "set_active cfg s = s\<lparr>adapter := (adapter s)\<lparr>active_cfg := cfg\<rparr>\<rparr>"

definition set_boot :: "mb_adapter_config \<Rightarrow> ('d, 's, 'm) firmware \<Rightarrow> ('d, 's, 'm) firmware" where
  "set_boot cfg s = s\<lparr>adapter := (adapter s)\<lparr>boot_cfg := cfg\<rparr>\<rparr>"

definition modbus_adapter_apply_config ::
    "'m modbus_api \<Rightarrow> mb_adapter_config \<Rightarrow> ('d, 's, 'm) firmware \<Rightarrow> int \<times> ('d, 's, 'm) firmware" where
  "modbus_adapter_apply_config A cfg s =
     (if \<not> mb s then (- ENODEV, s)
      else if mb_iface s < 0 then (0, set_active cfg s)
      else
        let previous = active_cfg (adapter s);
            s1 = s\<lparr>modbus_state := snd (modbus_disable A (mb_iface s) (modbus_state s))\<rparr>;
            (ret, s2) = start_with A cfg s1
        in if ret < 0 then (ret, snd (start_with A previous s2)) else (0, set_active cfg s2))"

text \<open>Without the Modbus subsystem in the build, only the record changes.\<close>

definition modbus_adapter_set_slave_address ::
    "fw_build \<Rightarrow> 'm modbus_api \<Rightarrow> u16 \<Rightarrow> ('d, 's, 'm) firmware \<Rightarrow> int \<times> ('d, 's, 'm) firmware" where
  "modbus_adapter_set_slave_address B A addr s =
     (if \<not> mb s then (- ENODEV, s)
      else if addr < 1 \<or> 247 < addr then (- EINVAL, s)
      else
        let candidate = (active_cfg (adapter s))\<lparr>slave_address := addr\<rparr> in
        if CONFIG_MODBUS B then modbus_adapter_apply_config A candidate s
        else (0, set_active candidate s))"

definition modbus_adapter_set_baud_rate_code ::
    "fw_build \<Rightarrow> 'm modbus_api \<Rightarrow> u16 \<Rightarrow> ('d, 's, 'm) firmware \<Rightarrow> int \<times> ('d, 's, 'm) firmware" where
  "modbus_adapter_set_baud_rate_code B A code s =
     (if \<not> mb s then (- ENODEV, s)
      else if VC_BAUD_RATE_38400 < code then (- EINVAL, s)
      else
        let candidate = (active_cfg (adapter s))\<lparr>baud_rate_code := code\<rparr> in
        if CONFIG_MODBUS B then modbus_adapter_apply_config A candidate s
        else (0, set_active candidate s))"

definition modbus_adapter_config_save ::
    "fw_build \<Rightarrow> 's settings_api \<Rightarrow> ('d, 's, 'm) firmware \<Rightarrow> int \<times> ('d, 's, 'm) firmware" where
  "modbus_adapter_config_save B z s =
     (if \<not> CONFIG_MODBUS B then (- ENODEV, s)
      else if \<not> mb s then (- ENODEV, s)
      else if \<not> CONFIG_SETTINGS B then (- ENOTSUP, s)
      else
        let (ret, s1) = adapter_save_config z (active_cfg (adapter s)) s
        in (ret, if ret = 0 then set_boot (active_cfg (adapter s1)) s1 else s1))"

definition modbus_adapter_config_load ::
    "fw_build \<Rightarrow> 's settings_api \<Rightarrow> 'm modbus_api \<Rightarrow> mb_adapter_config \<Rightarrow> ('d, 's, 'm) firmware \<Rightarrow>
     int \<times> ('d, 's, 'm) firmware" where
  "modbus_adapter_config_load B z A garbage s =
     (if \<not> CONFIG_MODBUS B then (- ENODEV, s)
      else if \<not> mb s then (- ENODEV, s)
      else
        let (ret, candidate) = adapter_load_config B z garbage s in
        if ret < 0 then (ret, s)
        else if \<not> adapter_config_valid candidate then (- EINVAL, s)
        else
          let (ret1, s1) = modbus_adapter_apply_config A candidate s
          in (ret1, if ret1 = 0 then set_boot candidate s1 else s1))"

definition modbus_adapter_config_factory ::
    "fw_build \<Rightarrow> 's settings_api \<Rightarrow> 'm modbus_api \<Rightarrow> ('d, 's, 'm) firmware \<Rightarrow> int \<times> ('d, 's, 'm) firmware" where
  "modbus_adapter_config_factory B z A s =
     (let defaults = adapter_default_config B in
      if \<not> mb s then (- ENODEV, s)
      else if \<not> CONFIG_MODBUS B then (0, set_active defaults s)
      else if CONFIG_SETTINGS B then
        let (ret, s1) = adapter_save_config z defaults s in
        if ret < 0 then (ret, s1)
        else modbus_adapter_apply_config A defaults (set_boot defaults s1)
      else modbus_adapter_apply_config A defaults s)"

subsection \<open>The registers of the adapter\<close>

definition modbus_reg_read ::
    "('d, 's, 'm) firmware reg_view \<Rightarrow> ('d, 's, 'm) firmware \<Rightarrow> (reg_status \<times> reg_value) option" where
  "modbus_reg_read desc s =
     Some (let field = (ucast (REG_ID_FIELD (desc_id desc)) :: u16) in
       if \<not> mb s then (REG_BUSY, 0)
       else if field = REG_MODBUS_FIELD_ACTIVE_SLAVE_ADDRESS
       then (REG_OK, value_of_u16 (slave_address (active_cfg (adapter s))))
       else if field = REG_MODBUS_FIELD_ACTIVE_BAUD_RATE_CODE
       then (REG_OK, value_of_u16 (baud_rate_code (active_cfg (adapter s))))
       else if field = REG_MODBUS_FIELD_NEXT_BOOT_SLAVE_ADDRESS
       then (REG_OK, value_of_u16 (slave_address (boot_cfg (adapter s))))
       else if field = REG_MODBUS_FIELD_NEXT_BOOT_BAUD_RATE_CODE
       then (REG_OK, value_of_u16 (baud_rate_code (boot_cfg (adapter s))))
       else (REG_NOT_FOUND, 0))"

definition answer_errno :: "int \<times> ('d, 's, 'm) firmware \<Rightarrow> reg_status \<times> ('d, 's, 'm) firmware" where
  "answer_errno r = (errno_to_reg_status (fst r), snd r)"

definition modbus_reg_write ::
    "fw_build \<Rightarrow> 's settings_api \<Rightarrow> 'm modbus_api \<Rightarrow> ('d, 's, 'm) firmware reg_view \<Rightarrow> reg_value \<Rightarrow> 'd k_wait \<Rightarrow>
     ('d, 's, 'm) firmware \<Rightarrow> (reg_status \<times> ('d, 's, 'm) firmware) option" where
  "modbus_reg_write B z A desc v t s =
     Some (let field = (ucast (REG_ID_FIELD (desc_id desc)) :: u16); w = value_u16 v in
       if field = REG_MODBUS_FIELD_ACTIVE_SLAVE_ADDRESS
       then answer_errno (modbus_adapter_set_slave_address B A w s)
       else if field = REG_MODBUS_FIELD_ACTIVE_BAUD_RATE_CODE
       then answer_errno (modbus_adapter_set_baud_rate_code B A w s)
       else if field = REG_MODBUS_FIELD_NEXT_BOOT_SLAVE_ADDRESS \<or>
               field = REG_MODBUS_FIELD_NEXT_BOOT_BAUD_RATE_CODE
       then answer_errno (adapter_write_next_boot_field B z field w s)
       else if field = REG_MODBUS_FIELD_CONFIG_SAVE
       then (if w = 1 then answer_errno (modbus_adapter_config_save B z s) else (REG_INVALID_VALUE, s))
       else if field = REG_MODBUS_FIELD_CONFIG_LOAD
       then (if w = 1 then answer_errno (modbus_adapter_config_load B z A (active_cfg (adapter s)) s)
             else (REG_INVALID_VALUE, s))
       else if field = REG_MODBUS_FIELD_CONFIG_FACTORY
       then (if w = 1 then answer_errno (modbus_adapter_config_factory B z A s) else (REG_INVALID_VALUE, s))
       else (REG_UNSUPPORTED, s))"

definition modbus_reg_owner ::
    "fw_build \<Rightarrow> 's settings_api \<Rightarrow> 'm modbus_api \<Rightarrow> (('d, 's, 'm) firmware, 'd k_wait) reg_owner" where
  "modbus_reg_owner B z A = \<lparr>owner_read = Some modbus_reg_read, owner_write = Some (modbus_reg_write B z A)\<rparr>"

definition modbus_protocol_major_reg :: "('d, 's, 'm) fw_descriptor" where
  "modbus_protocol_major_reg =
     REG_DESCRIPTOR_DEFINE (REG_MODBUS_ID REG_MODBUS_FIELD_PROTOCOL_MAJOR) REG_U16 REG_RO REG_FIXED
       (Some (\<lambda>_. value_of_u16 VC_PROTOCOL_MAJOR)) None"

definition modbus_protocol_minor_reg :: "('d, 's, 'm) fw_descriptor" where
  "modbus_protocol_minor_reg =
     REG_DESCRIPTOR_DEFINE (REG_MODBUS_ID REG_MODBUS_FIELD_PROTOCOL_MINOR) REG_U16 REG_RO REG_FIXED
       (Some (\<lambda>_. value_of_u16 VC_PROTOCOL_MINOR)) None"

definition MODBUS_CONFIG_DESCRIPTOR ::
    "fw_build \<Rightarrow> 's settings_api \<Rightarrow> 'm modbus_api \<Rightarrow> u16 \<Rightarrow> reg_access \<Rightarrow> reg_category \<Rightarrow>
     ('d, 's, 'm) fw_descriptor" where
  "MODBUS_CONFIG_DESCRIPTOR B z A field access category =
     REG_DESCRIPTOR_DEFINE (REG_MODBUS_ID field) REG_U16 access category None (Some (modbus_reg_owner B z A))"

definition modbus_catalog ::
    "fw_build \<Rightarrow> 's settings_api \<Rightarrow> 'm modbus_api \<Rightarrow> ('d, 's, 'm) fw_descriptor list" where
  "modbus_catalog B z A =
     [modbus_protocol_major_reg, modbus_protocol_minor_reg,
      MODBUS_CONFIG_DESCRIPTOR B z A REG_MODBUS_FIELD_ACTIVE_SLAVE_ADDRESS REG_RW REG_CONFIG,
      MODBUS_CONFIG_DESCRIPTOR B z A REG_MODBUS_FIELD_ACTIVE_BAUD_RATE_CODE REG_RW REG_CONFIG,
      MODBUS_CONFIG_DESCRIPTOR B z A REG_MODBUS_FIELD_NEXT_BOOT_SLAVE_ADDRESS REG_RW REG_CONFIG,
      MODBUS_CONFIG_DESCRIPTOR B z A REG_MODBUS_FIELD_NEXT_BOOT_BAUD_RATE_CODE REG_RW REG_CONFIG,
      MODBUS_CONFIG_DESCRIPTOR B z A REG_MODBUS_FIELD_CONFIG_SAVE REG_WO REG_COMMAND,
      MODBUS_CONFIG_DESCRIPTOR B z A REG_MODBUS_FIELD_CONFIG_LOAD REG_WO REG_COMMAND,
      MODBUS_CONFIG_DESCRIPTOR B z A REG_MODBUS_FIELD_CONFIG_FACTORY REG_WO REG_COMMAND]"

subsection \<open>Start\<close>

text \<open>The result is whether the adapter pointer is returned; \<open>mb\<close> is set in either case.\<close>

definition vc_mb_adapter_create ::
    "fw_build \<Rightarrow> 's settings_api \<Rightarrow> ('d, 's, 'm) firmware \<Rightarrow> bool \<times> ('d, 's, 'm) firmware" where
  "vc_mb_adapter_create B z s =
     (let defaults = adapter_default_config B;
          s1 = set_boot defaults (s\<lparr>mb := True\<rparr>);
          (rc, cfg) = adapter_load_config B z defaults s1
      in
      if rc < 0 \<or> \<not> adapter_config_valid cfg then
        let s2 = set_boot defaults s1 in
        if CONFIG_SETTINGS B then
          let (ret, s3) = adapter_save_config z defaults s2 in
          if ret < 0 then (False, s3) else (True, set_active defaults s3)
        else (True, set_active defaults s2)
      else (True, set_active cfg (set_boot cfg s1)))"

definition modbus_adapter_init ::
    "fw_build \<Rightarrow> 's settings_api \<Rightarrow> 'm modbus_api \<Rightarrow> ('d, 's, 'm) firmware \<Rightarrow> int \<times> ('d, 's, 'm) firmware" where
  "modbus_adapter_init B z A s =
     (case vc_mb_adapter_create B z s of
        (created, s1) \<Rightarrow>
          if \<not> created then (- ENOMEM, s1\<lparr>mb := False\<rparr>)
          else
            let s2 = s1\<lparr>mb_iface := modbus_iface_get_by_name A (modbus_state s1)\<rparr> in
            if mb_iface s2 < 0 then (mb_iface s2, s2)
            else case start_with A (active_cfg (adapter s2)) s2 of
              (ret, s3) \<Rightarrow> (if ret < 0 then ret else 0, s3))"

end
