(* ===== verification/Modbus_Register.thy ===== *)
theory Modbus_Register
  imports Modbus_Config
begin

unbundle bit_operations_syntax

text \<open>
  The register view of Modbus, \<open>lib/modbus_adapter/modbus_register.c\<close> with
  \<open>include/reg_store/modbus_view.def\<close>: wire offsets of the system block and of a channel block mapped to
  descriptors of the catalog, the latch that makes the two words of a 32-bit register one value, and the
  guards on channel registers.

  A view of the code is an array of 40 entries; here it is the list of its mapped entries. The out
  parameter of a read is \<open>None\<close> where the code leaves it as it was.
\<close>

abbreviation (input) SYS_PROTOCOL_MAJOR :: u16 where "SYS_PROTOCOL_MAJOR \<equiv> 0"
abbreviation (input) SYS_PROTOCOL_MINOR :: u16 where "SYS_PROTOCOL_MINOR \<equiv> 1"
abbreviation (input) SYS_VARIANT_ID :: u16 where "SYS_VARIANT_ID \<equiv> 2"
abbreviation (input) SYS_CAPABILITY_FLAGS :: u16 where "SYS_CAPABILITY_FLAGS \<equiv> 3"
abbreviation (input) SYS_SUPPORTED_CHANNELS :: u16 where "SYS_SUPPORTED_CHANNELS \<equiv> 4"
abbreviation (input) SYS_ACTIVE_CHANNEL_MASK :: u16 where "SYS_ACTIVE_CHANNEL_MASK \<equiv> 5"
abbreviation (input) SYS_BOARD_TEMPERATURE :: u16 where "SYS_BOARD_TEMPERATURE \<equiv> 6"
abbreviation (input) SYS_BOARD_HUMIDITY :: u16 where "SYS_BOARD_HUMIDITY \<equiv> 7"
abbreviation (input) SYS_UPTIME_HI :: u16 where "SYS_UPTIME_HI \<equiv> 8"
abbreviation (input) SYS_UPTIME_LO :: u16 where "SYS_UPTIME_LO \<equiv> 9"
abbreviation (input) SYS_FW_VERSION_HI :: u16 where "SYS_FW_VERSION_HI \<equiv> 10"
abbreviation (input) SYS_FW_VERSION_LO :: u16 where "SYS_FW_VERSION_LO \<equiv> 11"
abbreviation (input) SYS_ACTIVE_OPERATING_MODE :: u16 where "SYS_ACTIVE_OPERATING_MODE \<equiv> 12"
abbreviation (input) SYS_STATUS :: u16 where "SYS_STATUS \<equiv> 13"
abbreviation (input) SYS_FAULT_CAUSE :: u16 where "SYS_FAULT_CAUSE \<equiv> 14"
abbreviation (input) SYS_CURRENT_UNIT_EXP :: u16 where "SYS_CURRENT_UNIT_EXP \<equiv> 15"
abbreviation (input) SYS_BOARD_HW_REVISION :: u16 where "SYS_BOARD_HW_REVISION \<equiv> 16"
abbreviation (input) SYS_OPERATING_MODE :: u16 where "SYS_OPERATING_MODE \<equiv> 0"
abbreviation (input) SYS_STARTUP_CHANNEL_POLICY :: u16 where "SYS_STARTUP_CHANNEL_POLICY \<equiv> 1"
abbreviation (input) SYS_SLAVE_ADDRESS :: u16 where "SYS_SLAVE_ADDRESS \<equiv> 2"
abbreviation (input) SYS_BAUD_RATE_CODE :: u16 where "SYS_BAUD_RATE_CODE \<equiv> 3"
abbreviation (input) SYS_PARAM_ACTION :: u16 where "SYS_PARAM_ACTION \<equiv> 39"
abbreviation (input) CH_STATUS_BITS :: u16 where "CH_STATUS_BITS \<equiv> 0"
abbreviation (input) CH_ACTIVE_FAULT_CAUSE :: u16 where "CH_ACTIVE_FAULT_CAUSE \<equiv> 1"
abbreviation (input) CH_FAULT_HISTORY_CAUSE :: u16 where "CH_FAULT_HISTORY_CAUSE \<equiv> 2"
abbreviation (input) CH_LAST_PROT_OUT_ACTION :: u16 where "CH_LAST_PROT_OUT_ACTION \<equiv> 3"
abbreviation (input) CH_AUTO_RETRY_COUNT :: u16 where "CH_AUTO_RETRY_COUNT \<equiv> 4"
abbreviation (input) CH_AUTO_COOLDOWN_REMAINING :: u16 where "CH_AUTO_COOLDOWN_REMAINING \<equiv> 5"
abbreviation (input) CH_LAST_FAULT_TIMESTAMP_HI :: u16 where "CH_LAST_FAULT_TIMESTAMP_HI \<equiv> 6"
abbreviation (input) CH_LAST_FAULT_TIMESTAMP_LO :: u16 where "CH_LAST_FAULT_TIMESTAMP_LO \<equiv> 7"
abbreviation (input) CH_OPER_TARGET_VOLTAGE :: u16 where "CH_OPER_TARGET_VOLTAGE \<equiv> 8"
abbreviation (input) CH_CAPABILITY_FLAGS :: u16 where "CH_CAPABILITY_FLAGS \<equiv> 9"
abbreviation (input) CH_MEASURED_VOLTAGE :: u16 where "CH_MEASURED_VOLTAGE \<equiv> 10"
abbreviation (input) CH_MEASURED_CURRENT :: u16 where "CH_MEASURED_CURRENT \<equiv> 11"
abbreviation (input) CH_RAW_ADC_VOLTAGE_HI :: u16 where "CH_RAW_ADC_VOLTAGE_HI \<equiv> 12"
abbreviation (input) CH_RAW_ADC_VOLTAGE_LO :: u16 where "CH_RAW_ADC_VOLTAGE_LO \<equiv> 13"
abbreviation (input) CH_RAW_ADC_CURRENT_HI :: u16 where "CH_RAW_ADC_CURRENT_HI \<equiv> 14"
abbreviation (input) CH_RAW_ADC_CURRENT_LO :: u16 where "CH_RAW_ADC_CURRENT_LO \<equiv> 15"
abbreviation (input) CH_OUTPUT_ACTION :: u16 where "CH_OUTPUT_ACTION \<equiv> 0"
abbreviation (input) CH_FAULT_CMD :: u16 where "CH_FAULT_CMD \<equiv> 1"
abbreviation (input) CH_PARAM_ACTION :: u16 where "CH_PARAM_ACTION \<equiv> 2"
abbreviation (input) CH_CFG_TARGET_VOLTAGE :: u16 where "CH_CFG_TARGET_VOLTAGE \<equiv> 3"
abbreviation (input) CH_RAMP_UP_STEP :: u16 where "CH_RAMP_UP_STEP \<equiv> 4"
abbreviation (input) CH_RAMP_UP_INTERVAL :: u16 where "CH_RAMP_UP_INTERVAL \<equiv> 5"
abbreviation (input) CH_RAMP_DOWN_STEP :: u16 where "CH_RAMP_DOWN_STEP \<equiv> 6"
abbreviation (input) CH_RAMP_DOWN_INTERVAL :: u16 where "CH_RAMP_DOWN_INTERVAL \<equiv> 7"
abbreviation (input) CH_RECOVERY_POLICY_MODE :: u16 where "CH_RECOVERY_POLICY_MODE \<equiv> 8"
abbreviation (input) CH_AUTO_RETRY_DELAY :: u16 where "CH_AUTO_RETRY_DELAY \<equiv> 9"
abbreviation (input) CH_AUTO_RETRY_MAX_COUNT :: u16 where "CH_AUTO_RETRY_MAX_COUNT \<equiv> 10"
abbreviation (input) CH_AUTO_RETRY_WINDOW :: u16 where "CH_AUTO_RETRY_WINDOW \<equiv> 11"
abbreviation (input) CH_CURRENT_SAFE_BAND_PCT :: u16 where "CH_CURRENT_SAFE_BAND_PCT \<equiv> 12"
abbreviation (input) CH_CURRENT_PROTECTION_MODE :: u16 where "CH_CURRENT_PROTECTION_MODE \<equiv> 13"
abbreviation (input) CH_CURRENT_PROT_OUT_ACTION :: u16 where "CH_CURRENT_PROT_OUT_ACTION \<equiv> 14"
abbreviation (input) CH_CURRENT_LIMIT_THRESHOLD :: u16 where "CH_CURRENT_LIMIT_THRESHOLD \<equiv> 15"
abbreviation (input) CH_AUTO_DERATE_STEP :: u16 where "CH_AUTO_DERATE_STEP \<equiv> 16"
abbreviation (input) CH_CFG_OUTPUT_ENABLED :: u16 where "CH_CFG_OUTPUT_ENABLED \<equiv> 17"
abbreviation (input) CH_OUTPUT_CAL_K :: u16 where "CH_OUTPUT_CAL_K \<equiv> 20"
abbreviation (input) CH_OUTPUT_CAL_B :: u16 where "CH_OUTPUT_CAL_B \<equiv> 21"
abbreviation (input) CH_MEASURED_V_CAL_K :: u16 where "CH_MEASURED_V_CAL_K \<equiv> 22"
abbreviation (input) CH_MEASURED_V_CAL_B :: u16 where "CH_MEASURED_V_CAL_B \<equiv> 23"
abbreviation (input) CH_MEASURED_I_CAL_K :: u16 where "CH_MEASURED_I_CAL_K \<equiv> 24"
abbreviation (input) CH_MEASURED_I_CAL_B :: u16 where "CH_MEASURED_I_CAL_B \<equiv> 25"
abbreviation (input) CH_OUTPUT_CAL_K_EXP :: u16 where "CH_OUTPUT_CAL_K_EXP \<equiv> 26"
abbreviation (input) CH_MEASURED_V_CAL_K_EXP :: u16 where "CH_MEASURED_V_CAL_K_EXP \<equiv> 27"
abbreviation (input) CH_MEASURED_I_CAL_K_EXP :: u16 where "CH_MEASURED_I_CAL_K_EXP \<equiv> 28"
abbreviation (input) CH_CAL_OUTPUT_ENABLE :: u16 where "CH_CAL_OUTPUT_ENABLE \<equiv> 30"
abbreviation (input) CH_CAL_DAC_CODE :: u16 where "CH_CAL_DAC_CODE \<equiv> 31"
abbreviation (input) CH_CAL_SAMPLE_CMD :: u16 where "CH_CAL_SAMPLE_CMD \<equiv> 32"
abbreviation (input) CH_CAL_COMMIT_CMD :: u16 where "CH_CAL_COMMIT_CMD \<equiv> 33"

abbreviation (input) CH_BLOCK_SIZE :: u16 where "CH_BLOCK_SIZE \<equiv> 40"
abbreviation (input) EXT_CAL_UNLOCK :: u16 where "EXT_CAL_UNLOCK \<equiv> 0"
abbreviation (input) EXT_CAL_EXIT :: u16 where "EXT_CAL_EXIT \<equiv> 1"

subsection \<open>Guards\<close>

definition caps_any :: "u16 \<Rightarrow> u16 \<Rightarrow> bool" where
  "caps_any caps m \<longleftrightarrow> caps AND m \<noteq> 0"

definition caps_all :: "u16 \<Rightarrow> u16 \<Rightarrow> bool" where
  "caps_all caps m \<longleftrightarrow> caps AND m = m"

definition is_ch_cal_input_reg :: "u16 \<Rightarrow> bool" where
  "is_ch_cal_input_reg off \<longleftrightarrow> CH_RAW_ADC_VOLTAGE_HI \<le> off \<and> off \<le> CH_RAW_ADC_CURRENT_LO"

definition is_ch_cal_holding_reg :: "u16 \<Rightarrow> bool" where
  "is_ch_cal_holding_reg off \<longleftrightarrow> CH_CAL_OUTPUT_ENABLE \<le> off \<and> off \<le> CH_CAL_COMMIT_CMD"

definition is_ch_calibration_coefficient_reg :: "u16 \<Rightarrow> bool" where
  "is_ch_calibration_coefficient_reg off \<longleftrightarrow> CH_OUTPUT_CAL_K \<le> off \<and> off \<le> CH_MEASURED_I_CAL_B"

definition ch_input_supported :: "u16 \<Rightarrow> u16 \<Rightarrow> bool" where
  "ch_input_supported caps off =
     (if off \<in> set [CH_STATUS_BITS, CH_ACTIVE_FAULT_CAUSE, CH_FAULT_HISTORY_CAUSE, CH_LAST_PROT_OUT_ACTION,
           CH_AUTO_RETRY_COUNT, CH_AUTO_COOLDOWN_REMAINING, CH_LAST_FAULT_TIMESTAMP_HI,
           CH_LAST_FAULT_TIMESTAMP_LO, CH_OPER_TARGET_VOLTAGE, CH_CAPABILITY_FLAGS]
      then True
      else if off \<in> set [CH_MEASURED_VOLTAGE, CH_RAW_ADC_VOLTAGE_HI, CH_RAW_ADC_VOLTAGE_LO]
      then caps_all caps CH_CAP_VOLTAGE_MEASUREMENT
      else if off \<in> set [CH_MEASURED_CURRENT, CH_RAW_ADC_CURRENT_HI, CH_RAW_ADC_CURRENT_LO]
      then caps_all caps CH_CAP_CURRENT_MEASUREMENT
      else off < CH_BLOCK_SIZE)"

definition ch_holding_supported :: "u16 \<Rightarrow> u16 \<Rightarrow> bool" where
  "ch_holding_supported caps off =
     (if off \<in> set [CH_OUTPUT_ACTION, CH_FAULT_CMD, CH_PARAM_ACTION]
      then True
      else if off \<in> set [CH_CFG_TARGET_VOLTAGE, CH_RAMP_UP_STEP, CH_RAMP_UP_INTERVAL, CH_RAMP_DOWN_STEP,
           CH_RAMP_DOWN_INTERVAL]
      then caps_all caps CH_CAP_RAW_OUTPUT_DRIVE
      else if off \<in> set [CH_RECOVERY_POLICY_MODE, CH_AUTO_RETRY_DELAY, CH_AUTO_RETRY_MAX_COUNT,
           CH_AUTO_RETRY_WINDOW, CH_CURRENT_SAFE_BAND_PCT]
      then True
      else if off \<in> set [CH_CURRENT_PROTECTION_MODE, CH_CURRENT_PROT_OUT_ACTION, CH_CURRENT_LIMIT_THRESHOLD]
      then caps_all caps CH_CAP_CURRENT_MEASUREMENT
      else if off = CH_AUTO_DERATE_STEP
      then caps_all caps (CH_CAP_RAW_OUTPUT_DRIVE OR CH_CAP_VOLTAGE_MEASUREMENT)
      else if off \<in> set [CH_OUTPUT_CAL_K, CH_OUTPUT_CAL_B, CH_CAL_OUTPUT_ENABLE, CH_CAL_DAC_CODE]
      then caps_all caps CH_CAP_RAW_OUTPUT_DRIVE
      else if off \<in> set [CH_MEASURED_V_CAL_K, CH_MEASURED_V_CAL_B]
      then caps_all caps CH_CAP_VOLTAGE_MEASUREMENT
      else if off \<in> set [CH_MEASURED_I_CAL_K, CH_MEASURED_I_CAL_B]
      then caps_all caps CH_CAP_CURRENT_MEASUREMENT
      else if off = CH_CAL_SAMPLE_CMD
      then caps_any caps (CH_CAP_VOLTAGE_MEASUREMENT OR CH_CAP_CURRENT_MEASUREMENT)
      else if off = CH_CAL_COMMIT_CMD
      then caps_any caps (CH_CAP_RAW_OUTPUT_DRIVE OR CH_CAP_VOLTAGE_MEASUREMENT OR CH_CAP_CURRENT_MEASUREMENT)
      else off < CH_BLOCK_SIZE)"

subsection \<open>Wire views\<close>

record ('d, 's, 'm) wire_reg =
  wire_handle :: "('d, 's, 'm) fw_descriptor option"
  wire_ordinal :: nat
  wire_word :: nat
  wire_mapped :: bool

definition unmapped_wire :: "('d, 's, 'm) wire_reg" where
  "unmapped_wire = \<lparr>wire_handle = None, wire_ordinal = 0, wire_word = 0, wire_mapped = False\<rparr>"

definition sys_wire :: "('d, 's, 'm) fw_descriptor option \<Rightarrow> nat \<Rightarrow> ('d, 's, 'm) wire_reg" where
  "sys_wire h w = \<lparr>wire_handle = h, wire_ordinal = 0, wire_word = w, wire_mapped = True\<rparr>"

definition ch_wire :: "u16 \<times> nat \<Rightarrow> ('d, 's, 'm) wire_reg" where
  "ch_wire p = \<lparr>wire_handle = None, wire_ordinal = REG_VC_ORD (fst p), wire_word = snd p, wire_mapped = True\<rparr>"

definition VC_GLOBAL_HANDLE :: "fw_build \<Rightarrow> u16 \<Rightarrow> ('d, 's, 'm) fw_descriptor option" where
  "VC_GLOBAL_HANDLE B field = Some (vc_catalog_global_regs (cat B) ! REG_VC_GLOBAL_ORD field)"

definition SYS_STATUS_HANDLE :: "fw_build \<Rightarrow> ('d, 's, 'm) fw_descriptor \<Rightarrow> ('d, 's, 'm) fw_descriptor option" where
  "SYS_STATUS_HANDLE B reg = (if CONFIG_SYS_STATUS (cat B) then Some reg else None)"

definition sys_input_view ::
    "fw_build \<Rightarrow> (u16 \<times> ('d, 's, 'm) wire_reg) list" where
  "sys_input_view B =
    [(SYS_PROTOCOL_MAJOR, sys_wire (Some modbus_protocol_major_reg) 0),
     (SYS_PROTOCOL_MINOR, sys_wire (Some modbus_protocol_minor_reg) 0),
     (SYS_VARIANT_ID, sys_wire (VC_GLOBAL_HANDLE B REG_VC_GLOBAL_FIELD_VARIANT_ID) 0),
     (SYS_CAPABILITY_FLAGS, sys_wire (VC_GLOBAL_HANDLE B REG_VC_GLOBAL_FIELD_CAPABILITY_FLAGS) 0),
     (SYS_SUPPORTED_CHANNELS, sys_wire (VC_GLOBAL_HANDLE B REG_VC_GLOBAL_FIELD_SUPPORTED_CHANNELS) 0),
     (SYS_ACTIVE_CHANNEL_MASK, sys_wire (VC_GLOBAL_HANDLE B REG_VC_GLOBAL_FIELD_ACTIVE_CHANNEL_MASK) 0),
     (SYS_BOARD_TEMPERATURE, sys_wire (SYS_STATUS_HANDLE B sys_status_temperature_reg) 0),
     (SYS_BOARD_HUMIDITY, sys_wire (SYS_STATUS_HANDLE B sys_status_humidity_reg) 0),
     (SYS_UPTIME_HI, sys_wire (Some sys_status_uptime_reg) 0),
     (SYS_UPTIME_LO, sys_wire (Some sys_status_uptime_reg) 1),
     (SYS_FW_VERSION_HI, sys_wire (Some (sys_status_firmware_version_reg B)) 0),
     (SYS_FW_VERSION_LO, sys_wire (Some (sys_status_firmware_version_reg B)) 1),
     (SYS_ACTIVE_OPERATING_MODE, sys_wire (VC_GLOBAL_HANDLE B REG_VC_GLOBAL_FIELD_ACTIVE_OPERATING_MODE) 0),
     (SYS_STATUS, sys_wire (VC_GLOBAL_HANDLE B REG_VC_GLOBAL_FIELD_STATUS) 0),
     (SYS_FAULT_CAUSE, sys_wire (VC_GLOBAL_HANDLE B REG_VC_GLOBAL_FIELD_FAULT_CAUSE) 0),
     (SYS_CURRENT_UNIT_EXP, sys_wire (VC_GLOBAL_HANDLE B REG_VC_GLOBAL_FIELD_CURRENT_UNIT_EXP) 0),
     (SYS_BOARD_HW_REVISION, sys_wire (VC_GLOBAL_HANDLE B REG_VC_GLOBAL_FIELD_BOARD_HW_REVISION) 0)]"

definition sys_holding_view ::
    "fw_build \<Rightarrow> 's settings_api \<Rightarrow> 'm modbus_api \<Rightarrow> (u16 \<times> ('d, 's, 'm) wire_reg) list" where
  "sys_holding_view B z A =
    [(SYS_OPERATING_MODE, sys_wire (VC_GLOBAL_HANDLE B REG_VC_GLOBAL_FIELD_OPERATING_MODE) 0),
     (SYS_STARTUP_CHANNEL_POLICY, sys_wire (VC_GLOBAL_HANDLE B REG_VC_GLOBAL_FIELD_STARTUP_CHANNEL_POLICY) 0),
     (SYS_SLAVE_ADDRESS, sys_wire (Some (MODBUS_CONFIG_DESCRIPTOR B z A REG_MODBUS_FIELD_NEXT_BOOT_SLAVE_ADDRESS REG_RW REG_CONFIG)) 0),
     (SYS_BAUD_RATE_CODE, sys_wire (Some (MODBUS_CONFIG_DESCRIPTOR B z A REG_MODBUS_FIELD_NEXT_BOOT_BAUD_RATE_CODE REG_RW REG_CONFIG)) 0),
     (SYS_PARAM_ACTION, sys_wire (VC_GLOBAL_HANDLE B REG_VC_GLOBAL_FIELD_PARAM_ACTION) 0)]"

text \<open>The channel views: offset, field of the register whose ordinal the entry holds, word.\<close>

definition ch_input_view :: "(u16 \<times> u16 \<times> nat) list" where
  "ch_input_view =
    [(CH_STATUS_BITS, REG_VC_FIELD_STATUS_BITS, 0),
     (CH_ACTIVE_FAULT_CAUSE, REG_VC_FIELD_ACTIVE_FAULT_CAUSE, 0),
     (CH_FAULT_HISTORY_CAUSE, REG_VC_FIELD_FAULT_HISTORY_CAUSE, 0),
     (CH_LAST_PROT_OUT_ACTION, REG_VC_FIELD_LAST_PROT_OUT_ACTION, 0),
     (CH_AUTO_RETRY_COUNT, REG_VC_FIELD_AUTO_RETRY_COUNT, 0),
     (CH_AUTO_COOLDOWN_REMAINING, REG_VC_FIELD_AUTO_COOLDOWN_REMAINING, 0),
     (CH_LAST_FAULT_TIMESTAMP_HI, REG_VC_FIELD_LAST_FAULT_TIMESTAMP, 0),
     (CH_LAST_FAULT_TIMESTAMP_LO, REG_VC_FIELD_LAST_FAULT_TIMESTAMP, 1),
     (CH_OPER_TARGET_VOLTAGE, REG_VC_FIELD_OPER_TARGET_VOLTAGE, 0),
     (CH_CAPABILITY_FLAGS, REG_VC_FIELD_CAPABILITY_FLAGS, 0),
     (CH_MEASURED_VOLTAGE, REG_VC_FIELD_MEASURED_VOLTAGE, 0),
     (CH_MEASURED_CURRENT, REG_VC_FIELD_MEASURED_CURRENT, 0),
     (CH_RAW_ADC_VOLTAGE_HI, REG_VC_FIELD_RAW_ADC_VOLTAGE, 0),
     (CH_RAW_ADC_VOLTAGE_LO, REG_VC_FIELD_RAW_ADC_VOLTAGE, 1),
     (CH_RAW_ADC_CURRENT_HI, REG_VC_FIELD_RAW_ADC_CURRENT, 0),
     (CH_RAW_ADC_CURRENT_LO, REG_VC_FIELD_RAW_ADC_CURRENT, 1)]"

definition ch_holding_view :: "(u16 \<times> u16 \<times> nat) list" where
  "ch_holding_view =
    [(CH_OUTPUT_ACTION, REG_VC_FIELD_OUTPUT_ACTION, 0),
     (CH_FAULT_CMD, REG_VC_FIELD_FAULT_CMD, 0),
     (CH_PARAM_ACTION, REG_VC_FIELD_PARAM_ACTION, 0),
     (CH_CFG_TARGET_VOLTAGE, REG_VC_FIELD_CFG_TARGET_VOLTAGE, 0),
     (CH_RAMP_UP_STEP, REG_VC_FIELD_RAMP_UP_STEP, 0),
     (CH_RAMP_UP_INTERVAL, REG_VC_FIELD_RAMP_UP_INTERVAL, 0),
     (CH_RAMP_DOWN_STEP, REG_VC_FIELD_RAMP_DOWN_STEP, 0),
     (CH_RAMP_DOWN_INTERVAL, REG_VC_FIELD_RAMP_DOWN_INTERVAL, 0),
     (CH_RECOVERY_POLICY_MODE, REG_VC_FIELD_RECOVERY_POLICY_MODE, 0),
     (CH_AUTO_RETRY_DELAY, REG_VC_FIELD_AUTO_RETRY_DELAY, 0),
     (CH_AUTO_RETRY_MAX_COUNT, REG_VC_FIELD_AUTO_RETRY_MAX_COUNT, 0),
     (CH_AUTO_RETRY_WINDOW, REG_VC_FIELD_AUTO_RETRY_WINDOW, 0),
     (CH_CURRENT_SAFE_BAND_PCT, REG_VC_FIELD_CURRENT_SAFE_BAND_PCT, 0),
     (CH_CURRENT_PROTECTION_MODE, REG_VC_FIELD_CURRENT_PROTECTION_MODE, 0),
     (CH_CURRENT_PROT_OUT_ACTION, REG_VC_FIELD_CURRENT_PROT_OUT_ACTION, 0),
     (CH_CURRENT_LIMIT_THRESHOLD, REG_VC_FIELD_CURRENT_LIMIT_THRESHOLD, 0),
     (CH_AUTO_DERATE_STEP, REG_VC_FIELD_AUTO_DERATE_STEP, 0),
     (CH_CFG_OUTPUT_ENABLED, REG_VC_FIELD_CFG_OUTPUT_ENABLED, 0),
     (CH_OUTPUT_CAL_K, REG_VC_FIELD_OUTPUT_CAL_K, 0),
     (CH_OUTPUT_CAL_B, REG_VC_FIELD_OUTPUT_CAL_B, 0),
     (CH_MEASURED_V_CAL_K, REG_VC_FIELD_MEASURED_V_CAL_K, 0),
     (CH_MEASURED_V_CAL_B, REG_VC_FIELD_MEASURED_V_CAL_B, 0),
     (CH_MEASURED_I_CAL_K, REG_VC_FIELD_MEASURED_I_CAL_K, 0),
     (CH_MEASURED_I_CAL_B, REG_VC_FIELD_MEASURED_I_CAL_B, 0),
     (CH_OUTPUT_CAL_K_EXP, REG_VC_FIELD_OUTPUT_CAL_K_EXP, 0),
     (CH_MEASURED_V_CAL_K_EXP, REG_VC_FIELD_MEASURED_V_CAL_K_EXP, 0),
     (CH_MEASURED_I_CAL_K_EXP, REG_VC_FIELD_MEASURED_I_CAL_K_EXP, 0),
     (CH_CAL_OUTPUT_ENABLE, REG_VC_FIELD_CAL_OUTPUT_ENABLE, 0),
     (CH_CAL_DAC_CODE, REG_VC_FIELD_CAL_DAC_CODE, 0),
     (CH_CAL_SAMPLE_CMD, REG_VC_FIELD_CAL_SAMPLE_CMD, 0),
     (CH_CAL_COMMIT_CMD, REG_VC_FIELD_CAL_COMMIT_CMD, 0)]"

definition wire_at :: "(u16 \<times> ('d, 's, 'm) wire_reg) list \<Rightarrow> u16 \<Rightarrow> ('d, 's, 'm) wire_reg" where
  "wire_at view off = (case map_of view off of None \<Rightarrow> unmapped_wire | Some w \<Rightarrow> w)"

definition ch_wire_at :: "(u16 \<times> u16 \<times> nat) list \<Rightarrow> u16 \<Rightarrow> ('d, 's, 'm) wire_reg" where
  "ch_wire_at view off = (case map_of view off of None \<Rightarrow> unmapped_wire | Some p \<Rightarrow> ch_wire p)"

subsection \<open>Reading and writing a wire register\<close>

definition wire_desc ::
    "fw_build \<Rightarrow> ('d, 's, 'm) wire_reg \<Rightarrow> u8 \<Rightarrow> bool \<Rightarrow> ('d, 's, 'm) fw_descriptor option" where
  "wire_desc B wire ch channel =
     (if channel then reg_vc_channel_handle (cat B) ch (wire_ordinal wire) else wire_handle wire)"

definition drop_latch :: "('d, 's, 'm) firmware \<Rightarrow> ('d, 's, 'm) firmware" where
  "drop_latch s = s\<lparr>word_latch := (word_latch s)\<lparr>latch_valid := False\<rparr>\<rparr>"

definition read_wire ::
    "fw_build \<Rightarrow> ('d, 's, 'm) wire_reg \<Rightarrow> u8 \<Rightarrow> bool \<Rightarrow> ('d, 's, 'm) firmware \<Rightarrow>
     (reg_status \<times> u16 option \<times> ('d, 's, 'm) firmware) option" where
  "read_wire B wire ch channel s =
     (if \<not> wire_mapped wire then Some (REG_OK, Some 0, s)
      else
        (case wire_desc B wire ch channel of
           None \<Rightarrow> Some (REG_OK, Some 0, s)
         | Some desc \<Rightarrow>
             if (desc_type desc = REG_S32 \<or> desc_type desc = REG_U32) \<and> wire_word wire = 1 \<and>
                latch_valid (word_latch s) \<and> latch_id (word_latch s) = desc_id desc
             then Some (REG_OK, Some (ucast (latch_value (word_latch s))), drop_latch s)
             else do {
               (status, value) \<leftarrow> reg_read_descriptor (Some desc) s;
               Some (if status = REG_WRITE_ONLY then (REG_OK, Some 0, s)
                     else if status \<noteq> REG_OK then (status, None, s)
                     else case desc_type desc of
                       REG_S16 \<Rightarrow> (REG_OK, Some (value_u16 value), drop_latch s)
                     | REG_U16 \<Rightarrow> (REG_OK, Some (value_u16 value), drop_latch s)
                     | REG_ENUM \<Rightarrow> (REG_OK, Some (value_u16 value), drop_latch s)
                     | REG_BOOL \<Rightarrow> (REG_OK, Some (if ucast value \<noteq> (0 :: u8) then 1 else 0), drop_latch s)
                     | _ \<Rightarrow>
                         if wire_word wire = 0
                         then (REG_OK, Some (ucast (drop_bit 16 value)),
                               s\<lparr>word_latch := \<lparr>latch_id = desc_id desc, latch_value = value,
                                                 latch_valid = True\<rparr>\<rparr>)
                         else (REG_OK, Some (ucast value), drop_latch s))
             }))"

definition write_wire ::
    "fw_build \<Rightarrow> ('d, 's, 'm) wire_reg \<Rightarrow> u8 \<Rightarrow> bool \<Rightarrow> u16 \<Rightarrow> 'd k_wait \<Rightarrow> ('d, 's, 'm) firmware \<Rightarrow>
     (reg_status \<times> ('d, 's, 'm) firmware) option" where
  "write_wire B wire ch channel reg t s =
     (if \<not> wire_mapped wire then Some (REG_INVALID_VALUE, s)
      else
        (case wire_desc B wire ch channel of
           None \<Rightarrow> Some (REG_UNSUPPORTED, s)
         | Some desc \<Rightarrow> reg_write_descriptor (Some desc) (value_of_u16 reg) t s))"

subsection \<open>The system block\<close>

definition vc_reg_read_sys_input ::
    "fw_build \<Rightarrow> u16 \<Rightarrow> ('d, 's, 'm) firmware \<Rightarrow> (reg_status \<times> u16 option \<times> ('d, 's, 'm) firmware) option" where
  "vc_reg_read_sys_input B off s =
     (if CH_BLOCK_SIZE \<le> off then Some (REG_INVALID_ARGUMENT, None, s)
      else read_wire B (wire_at (sys_input_view B) off) 0 False s)"

definition vc_reg_read_sys_holding ::
    "fw_build \<Rightarrow> 's settings_api \<Rightarrow> 'm modbus_api \<Rightarrow> u16 \<Rightarrow> ('d, 's, 'm) firmware \<Rightarrow>
     (reg_status \<times> u16 option \<times> ('d, 's, 'm) firmware) option" where
  "vc_reg_read_sys_holding B z A off s =
     (if CH_BLOCK_SIZE \<le> off then Some (REG_INVALID_ARGUMENT, None, s)
      else read_wire B (wire_at (sys_holding_view B z A) off) 0 False s)"

definition vc_reg_write_sys_holding ::
    "fw_build \<Rightarrow> 's settings_api \<Rightarrow> 'm modbus_api \<Rightarrow> u16 \<Rightarrow> u16 \<Rightarrow> 'd k_wait \<Rightarrow> ('d, 's, 'm) firmware \<Rightarrow>
     (reg_status \<times> ('d, 's, 'm) firmware) option" where
  "vc_reg_write_sys_holding B z A off val t s =
     (if CH_BLOCK_SIZE \<le> off then Some (REG_INVALID_ARGUMENT, s)
      else write_wire B (wire_at (sys_holding_view B z A) off) 0 False val t s)"

subsection \<open>A channel block\<close>

text \<open>A read whose status is ignored, into a variable that was 0.\<close>

definition read_local ::
    "fw_build \<Rightarrow> ('d, 's, 'm) wire_reg \<Rightarrow> u8 \<Rightarrow> bool \<Rightarrow> ('d, 's, 'm) firmware \<Rightarrow>
     (u16 \<times> ('d, 's, 'm) firmware) option" where
  "read_local B wire ch channel s = do {
     (_, reg, s1) \<leftarrow> read_wire B wire ch channel s;
     Some (case reg of None \<Rightarrow> 0 | Some v \<Rightarrow> v, s1)
   }"

definition vc_reg_read_ch_input ::
    "fw_build \<Rightarrow> u8 \<Rightarrow> u16 \<Rightarrow> ('d, 's, 'm) firmware \<Rightarrow>
     (reg_status \<times> u16 option \<times> ('d, 's, 'm) firmware) option" where
  "vc_reg_read_ch_input B ch off s = do {
     (count, s1) \<leftarrow> read_local B (wire_at (sys_input_view B) SYS_SUPPORTED_CHANNELS) 0 False s;
     if unat count \<le> unat ch then Some (REG_UNSUPPORTED, None, s1)
     else if CH_BLOCK_SIZE \<le> off then Some (REG_INVALID_ARGUMENT, None, s1)
     else do {
       (caps, s2) \<leftarrow> read_local B (ch_wire_at ch_input_view CH_CAPABILITY_FLAGS) ch True s1;
       if \<not> ch_input_supported caps off then Some (REG_UNSUPPORTED, None, s2)
       else do {
         (mode, s3) \<leftarrow> read_local B (wire_at (sys_input_view B) SYS_ACTIVE_OPERATING_MODE) 0 False s2;
         if is_ch_cal_input_reg off \<and> vc_operating_mode_of_u16 mode \<noteq> VC_OPERATING_MODE_CALIBRATION
         then Some (REG_UNSUPPORTED, None, s3)
         else read_wire B (ch_wire_at ch_input_view off) ch True s3
       }
     }
   }"

definition vc_reg_read_ch_holding ::
    "fw_build \<Rightarrow> u8 \<Rightarrow> u16 \<Rightarrow> ('d, 's, 'm) firmware \<Rightarrow>
     (reg_status \<times> u16 option \<times> ('d, 's, 'm) firmware) option" where
  "vc_reg_read_ch_holding B ch off s = do {
     (count, s1) \<leftarrow> read_local B (wire_at (sys_input_view B) SYS_SUPPORTED_CHANNELS) 0 False s;
     if unat count \<le> unat ch then Some (REG_UNSUPPORTED, None, s1)
     else if CH_BLOCK_SIZE \<le> off then Some (REG_INVALID_ARGUMENT, None, s1)
     else do {
       (caps, s2) \<leftarrow> read_local B (ch_wire_at ch_input_view CH_CAPABILITY_FLAGS) ch True s1;
       if \<not> ch_holding_supported caps off then Some (REG_UNSUPPORTED, None, s2)
       else read_wire B (ch_wire_at ch_holding_view off) ch True s2
     }
   }"

text \<open>The switch over the calibration commands, when the system is in CALIBRATION.\<close>

definition write_cal_command ::
    "fw_build \<Rightarrow> u8 \<Rightarrow> u16 \<Rightarrow> u16 \<Rightarrow> 'd k_wait \<Rightarrow> ('d, 's, 'm) firmware \<Rightarrow>
     (reg_status \<times> ('d, 's, 'm) firmware) option" where
  "write_cal_command B ch off val t s =
     (let write = write_wire B (ch_wire_at ch_holding_view off) ch True val t s in
      if off = CH_CAL_OUTPUT_ENABLE then (if 1 < val then Some (REG_INVALID_VALUE, s) else write)
      else if off = CH_CAL_DAC_CODE then write
      else if off = CH_CAL_SAMPLE_CMD \<or> off = CH_CAL_COMMIT_CMD
      then (if val = CAL_COMMAND_NONE then Some (REG_OK, s)
            else if val \<noteq> CAL_COMMAND_EXECUTE then Some (REG_INVALID_VALUE, s)
            else write)
      else Some (REG_UNSUPPORTED, s))"

definition vc_reg_write_ch_holding ::
    "fw_build \<Rightarrow> u8 \<Rightarrow> u16 \<Rightarrow> u16 \<Rightarrow> 'd k_wait \<Rightarrow> ('d, 's, 'm) firmware \<Rightarrow>
     (reg_status \<times> ('d, 's, 'm) firmware) option" where
  "vc_reg_write_ch_holding B ch off val t s = do {
     (count, s1) \<leftarrow> read_local B (wire_at (sys_input_view B) SYS_SUPPORTED_CHANNELS) 0 False s;
     if unat count \<le> unat ch then Some (REG_UNSUPPORTED, s1)
     else do {
       (caps, s2) \<leftarrow> read_local B (ch_wire_at ch_input_view CH_CAPABILITY_FLAGS) ch True s1;
       if \<not> ch_holding_supported caps off then Some (REG_UNSUPPORTED, s2)
       else if off = CH_OUTPUT_ACTION \<or> off = CH_FAULT_CMD \<or> off = CH_PARAM_ACTION
       then write_wire B (ch_wire_at ch_holding_view off) ch True val t s2
       else do {
         (mode, s3) \<leftarrow> read_local B (wire_at (sys_input_view B) SYS_ACTIVE_OPERATING_MODE) 0 False s2;
         if is_ch_calibration_coefficient_reg off
         then write_wire B (ch_wire_at ch_holding_view off) ch True val t s3
         else if is_ch_cal_holding_reg off
         then (if vc_operating_mode_of_u16 mode \<noteq> VC_OPERATING_MODE_CALIBRATION
               then Some (REG_UNSUPPORTED, s3)
               else write_cal_command B ch off val t s3)
         else if CH_BLOCK_SIZE \<le> off then Some (REG_INVALID_ARGUMENT, s3)
         else write_wire B (ch_wire_at ch_holding_view off) ch True val t s3
       }
     }
   }"

subsection \<open>The extension block\<close>

text \<open>The catalog of the whole firmware; the order of its linker section does not matter (ids are distinct).\<close>

definition firmware_catalog ::
    "fw_build \<Rightarrow> 's settings_api \<Rightarrow> 'm modbus_api \<Rightarrow> ('d, 's, 'm) fw_descriptor list" where
  "firmware_catalog B z A =
     vc_catalog_channel_regs (cat B) @ vc_catalog_global_regs (cat B) @ sys_status_catalog B @ modbus_catalog B z A"

definition vc_reg_write_ext ::
    "fw_build \<Rightarrow> 's settings_api \<Rightarrow> 'm modbus_api \<Rightarrow> u16 \<Rightarrow> u16 \<Rightarrow> 'd k_wait \<Rightarrow> ('d, 's, 'm) firmware \<Rightarrow>
     (reg_status \<times> ('d, 's, 'm) firmware) option" where
  "vc_reg_write_ext B z A off val t s =
     (if off = EXT_CAL_UNLOCK
      then reg_write (firmware_catalog B z A) (REG_VC_GLOBAL_ID REG_VC_GLOBAL_FIELD_CAL_UNLOCK) (value_of_u16 val) t s
      else if off = EXT_CAL_EXIT
      then reg_write (firmware_catalog B z A) (REG_VC_GLOBAL_ID REG_VC_GLOBAL_FIELD_CAL_EXIT) (value_of_u16 val) t s
      else Some (REG_UNSUPPORTED, s))"

end
