(* ===== verification/Modbus_Adapter.thy ===== *)
theory Modbus_Adapter
  imports Modbus_Register
begin

text \<open>
  The Modbus front of the adapter, the other half of \<open>lib/modbus_adapter/modbus_adapter.c\<close>: the address
  space of the wire, the exception a register status becomes, the system parameter action, and the three
  requests the server calls.
\<close>

abbreviation (input) EXT_BLOCK_BASE :: u16 where "EXT_BLOCK_BASE \<equiv> 680"
abbreviation (input) EXT_BLOCK_END :: u16 where "EXT_BLOCK_END \<equiv> 759"

datatype vc_mb_result =
  VC_MB_OK | VC_MB_ILLEGAL_FUNCTION | VC_MB_ILLEGAL_ADDRESS | VC_MB_ILLEGAL_VALUE | VC_MB_DEVICE_FAILURE

subsection \<open>Addresses\<close>

text \<open>A decoded address: an offset in the system block, or a channel and an offset in its block.\<close>

datatype decoded = Sys_Reg u16 | Ch_Reg u8 u16

definition addr_decode :: "u16 \<Rightarrow> decoded option" where
  "addr_decode addr =
     (if addr < 40 then Some (Sys_Reg addr)
      else if 40 \<le> addr \<and> addr < 680
      then (let rel = addr - 40 in Some (Ch_Reg (ucast (rel div CH_BLOCK_SIZE)) (rel mod CH_BLOCK_SIZE)))
      else None)"

definition is_extension :: "u16 \<Rightarrow> bool" where
  "is_extension addr \<longleftrightarrow> EXT_BLOCK_BASE \<le> addr \<and> addr \<le> EXT_BLOCK_END"

fun reg_st_to_mb_result :: "reg_status \<Rightarrow> vc_mb_result" where
  "reg_st_to_mb_result REG_OK = VC_MB_OK"
| "reg_st_to_mb_result REG_NOT_FOUND = VC_MB_ILLEGAL_ADDRESS"
| "reg_st_to_mb_result REG_READ_ONLY = VC_MB_ILLEGAL_ADDRESS"
| "reg_st_to_mb_result REG_WRITE_ONLY = VC_MB_ILLEGAL_ADDRESS"
| "reg_st_to_mb_result REG_UNSUPPORTED = VC_MB_ILLEGAL_ADDRESS"
| "reg_st_to_mb_result REG_INVALID_ARGUMENT = VC_MB_ILLEGAL_VALUE"
| "reg_st_to_mb_result REG_INVALID_VALUE = VC_MB_ILLEGAL_VALUE"
| "reg_st_to_mb_result REG_BUSY = VC_MB_DEVICE_FAILURE"
| "reg_st_to_mb_result REG_IO_ERROR = VC_MB_DEVICE_FAILURE"

definition mb_read ::
    "(reg_status \<times> u16 option \<times> ('d, 's, 'm) firmware) option \<Rightarrow>
     (vc_mb_result \<times> u16 option \<times> ('d, 's, 'm) firmware) option" where
  "mb_read r = map_option (\<lambda>(st, reg, s). (reg_st_to_mb_result st, reg, s)) r"

definition mb_write ::
    "(reg_status \<times> ('d, 's, 'm) firmware) option \<Rightarrow> (vc_mb_result \<times> ('d, 's, 'm) firmware) option" where
  "mb_write r = map_option (\<lambda>(st, s). (reg_st_to_mb_result st, s)) r"

subsection \<open>The system parameter action\<close>

definition handle_sys_param_action ::
    "fw_build \<Rightarrow> 's settings_api \<Rightarrow> 'm modbus_api \<Rightarrow> u16 \<Rightarrow> 'd k_wait \<Rightarrow> ('d, 's, 'm) firmware \<Rightarrow>
     (vc_mb_result \<times> ('d, 's, 'm) firmware) option" where
  "handle_sys_param_action B z A val t s =
     (let delegate = (\<lambda>s. mb_write (vc_reg_write_sys_holding B z A SYS_PARAM_ACTION val t s)) in
      if val = SYS_PARAM_ACTION_SOFTWARE_RESET then
        (if CONFIG_SYS_RESET B then do {
           (st, s1) \<leftarrow> reg_write (firmware_catalog B z A) (REG_SYS_STATUS_ID REG_SYS_STATUS_FIELD_RESET)
                         (value_of_u16 1) t s;
           Some (if st = REG_OK then VC_MB_OK else VC_MB_DEVICE_FAILURE, s1)
         }
         else Some (VC_MB_DEVICE_FAILURE, s))
      else
        (case vc_param_action_of_u16 val of
           VC_PARAM_ACTION_LOAD \<Rightarrow>
             (case adapter_load_config B z (boot_cfg (adapter s)) s of
                (rc, candidate) \<Rightarrow>
                  if rc < 0 \<or> \<not> adapter_config_valid candidate then Some (VC_MB_DEVICE_FAILURE, s)
                  else delegate (set_boot candidate s))
         | VC_PARAM_ACTION_FACTORY_RESET \<Rightarrow>
             if CONFIG_SETTINGS B then
               (case adapter_save_config z (adapter_default_config B) s of
                  (rc, s1) \<Rightarrow>
                    if rc < 0 then Some (VC_MB_DEVICE_FAILURE, s1)
                    else delegate (set_boot (adapter_default_config B) s1))
             else delegate s
         | _ \<Rightarrow> delegate s))"

subsection \<open>The requests\<close>

definition vc_mb_input_rd ::
    "fw_build \<Rightarrow> u16 \<Rightarrow> ('d, 's, 'm) firmware \<Rightarrow>
     (vc_mb_result \<times> u16 option \<times> ('d, 's, 'm) firmware) option" where
  "vc_mb_input_rd B addr s =
     (case addr_decode addr of
        None \<Rightarrow> Some (VC_MB_ILLEGAL_ADDRESS, None, s)
      | Some (Sys_Reg off) \<Rightarrow> mb_read (vc_reg_read_sys_input B off s)
      | Some (Ch_Reg ch off) \<Rightarrow> mb_read (vc_reg_read_ch_input B ch off s))"

definition vc_mb_holding_rd ::
    "fw_build \<Rightarrow> 's settings_api \<Rightarrow> 'm modbus_api \<Rightarrow> u16 \<Rightarrow> ('d, 's, 'm) firmware \<Rightarrow>
     (vc_mb_result \<times> u16 option \<times> ('d, 's, 'm) firmware) option" where
  "vc_mb_holding_rd B z A addr s =
     (if is_extension addr then Some (VC_MB_OK, Some 0, s)
      else
        (case addr_decode addr of
           None \<Rightarrow> Some (VC_MB_ILLEGAL_ADDRESS, None, s)
         | Some (Sys_Reg off) \<Rightarrow> mb_read (vc_reg_read_sys_holding B z A off s)
         | Some (Ch_Reg ch off) \<Rightarrow> mb_read (vc_reg_read_ch_holding B ch off s)))"

definition vc_mb_holding_wr ::
    "fw_build \<Rightarrow> 's settings_api \<Rightarrow> 'm modbus_api \<Rightarrow> u16 \<Rightarrow> u16 \<Rightarrow> 'd k_wait \<Rightarrow> ('d, 's, 'm) firmware \<Rightarrow>
     (vc_mb_result \<times> ('d, 's, 'm) firmware) option" where
  "vc_mb_holding_wr B z A addr val t s =
     (if is_extension addr then mb_write (vc_reg_write_ext B z A (addr - EXT_BLOCK_BASE) val t s)
      else
        (case addr_decode addr of
           None \<Rightarrow> Some (VC_MB_ILLEGAL_ADDRESS, s)
         | Some (Sys_Reg off) \<Rightarrow>
             if off = SYS_PARAM_ACTION then handle_sys_param_action B z A val t s
             else mb_write (vc_reg_write_sys_holding B z A off val t s)
         | Some (Ch_Reg ch off) \<Rightarrow> mb_write (vc_reg_write_ch_holding B ch off val t s)))"

end
