(* ===== verification/Modbus_Props.thy ===== *)
theory Modbus_Props
  imports Modbus_Adapter Vc_Catalog_Props
begin

unbundle bit_operations_syntax

text \<open>
  The Modbus adapter: its address map, the two words of a 32-bit register, the agreement of its
  channel view with the catalog, and the settings of the serial line.
\<close>

subsection \<open>Addresses\<close>

lemma unat_channel_address:
  assumes "40 \<le> (addr :: u16)" and "addr < 680"
  shows "unat (ucast ((addr - 40) div 40) :: u8) = (unat addr - 40) div 40"
    and "unat ((addr - 40) mod 40) = (unat addr - 40) mod 40"
    and "40 \<le> unat addr" and "unat addr < 680"
proof -
  have b: "40 \<le> unat addr" "unat addr < 680"
    using assms by (simp_all add: word_le_nat_alt word_less_nat_alt)
  have s: "unat (addr - 40) = unat addr - 40" using assms(1) by (simp add: unat_sub)
  show "unat ((addr - 40) mod 40) = (unat addr - 40) mod 40" by (simp add: unat_mod s)
  have d: "unat ((addr - 40) div 40) = (unat addr - 40) div 40" by (simp add: unat_div s)
  have "(unat addr - 40) div 40 < 256" using b by (simp add: less_mult_imp_div_less)
  then show "unat (ucast ((addr - 40) div 40) :: u8) = (unat addr - 40) div 40"
    by (simp add: unsigned_ucast_eq d take_bit_nat_eq_self)
  show "40 \<le> unat addr" "unat addr < 680" by (fact b)+
qed

lemma channel_address:
  assumes "unat ch < 16" and "unat off < 40"
  shows "unat (40 + 40 * ucast (ch :: u8) + off :: u16) = 40 + 40 * unat ch + unat off"
proof -
  have "unat (ucast ch :: u16) = unat ch" by (simp add: unsigned_ucast_eq take_bit_nat_eq_self
        order_less_trans [OF unsigned_less])
  then have "unat (40 * ucast ch :: u16) = 40 * unat ch"
    using assms(1) by (subst unat_mult_lem [THEN iffD1]) simp_all
  then have "unat (40 + 40 * ucast ch :: u16) = 40 + 40 * unat ch"
    using assms(1) by (subst unat_add_lem [THEN iffD1]) simp_all
  then show ?thesis using assms by (subst unat_add_lem [THEN iffD1]) simp_all
qed

lemma decode_channel_address:
  assumes c: "unat ch < 16 \<and> unat off < 40"
  shows "addr_decode (40 + 40 * ucast ch + off) = Some (Ch_Reg ch off)"
proof -
  let ?a = "40 + 40 * ucast ch + off :: u16"
  have a: "unat ?a = 40 + 40 * unat ch + unat off" using channel_address c by blast
  then have r: "40 \<le> ?a" "?a < 680" using c by (simp_all add: word_le_nat_alt word_less_nat_alt)
  note u = unat_channel_address [OF r]
  have "ucast ((?a - 40) div 40) = ch" and "(?a - 40) mod 40 = off"
    using u(1,2) a c by (simp_all add: word_unat_eq_iff)
  then show "addr_decode ?a = Some (Ch_Reg ch off)"
    using r by (simp add: addr_decode_def Let_def not_less)
qed

text \<open>
  The address map. Every address is exactly one of: an offset of the system block (0 to 39), an
  offset of the block of one of 16 channels (40 to 679), the extension block (680 to 759), or
  illegal; and every channel and offset is the decoding of its own address.
\<close>

lemma modbus_address_map:
  shows "(case addr_decode addr of
      Some (Sys_Reg off) \<Rightarrow> unat addr < 40 \<and> off = addr \<and> \<not> is_extension addr
    | Some (Ch_Reg ch off) \<Rightarrow>
        unat ch < 16 \<and> unat off < 40 \<and> unat addr = 40 + 40 * unat ch + unat off \<and> \<not> is_extension addr
    | None \<Rightarrow> 680 \<le> unat addr \<and> (is_extension addr \<longleftrightarrow> unat addr < 760)) \<and>
    (unat ch < 16 \<and> unat off < 40 \<longrightarrow> addr_decode (40 + 40 * ucast ch + off) = Some (Ch_Reg ch off))"
proof (intro conjI impI)
  have ext: "is_extension addr \<longleftrightarrow> 680 \<le> unat addr \<and> unat addr < 760"
    by (simp add: is_extension_def word_le_nat_alt, linarith)
  show "case addr_decode addr of
      Some (Sys_Reg off) \<Rightarrow> unat addr < 40 \<and> off = addr \<and> \<not> is_extension addr
    | Some (Ch_Reg ch off) \<Rightarrow>
        unat ch < 16 \<and> unat off < 40 \<and> unat addr = 40 + 40 * unat ch + unat off \<and> \<not> is_extension addr
    | None \<Rightarrow> 680 \<le> unat addr \<and> (is_extension addr \<longleftrightarrow> unat addr < 760)"
  proof (cases "40 \<le> addr \<and> addr < 680")
    case True
    note u = unat_channel_address [OF True [THEN conjunct1] True [THEN conjunct2]]
    have "(unat addr - 40) div 40 < 16" using u(3,4) by (simp add: less_mult_imp_div_less)
    moreover have "40 * ((unat addr - 40) div 40) + (unat addr - 40) mod 40 = unat addr - 40"
      by (rule mult_div_mod_eq)
    moreover have "\<not> addr < 40" using True by (simp add: not_less)
    ultimately show ?thesis
      using u True ext by (simp add: addr_decode_def Let_def)
  next
    case False
    then show ?thesis
      using ext by (auto simp: addr_decode_def Let_def word_le_nat_alt word_less_nat_alt)
  qed
qed (rule decode_channel_address)

lemma modbus_address_map_witness: "addr_decode (40 + 40 * ucast (3 :: u8) + 7) = Some (Ch_Reg 3 7)"
  using modbus_address_map [of 0 3 7] by simp

subsection \<open>The two words of a 32-bit register\<close>

lemma REG_SYS_STATUS_ID_field [simp]: "ucast (REG_ID_FIELD (REG_SYS_STATUS_ID f)) = f"
  by (simp add: REG_SYS_STATUS_ID_def)

lemma halves: "push_bit 16 (ucast (ucast (drop_bit 16 v) :: u16)) OR ucast (ucast v :: u16) = (v :: u32)"
  by (rule bit_word_eqI) (auto simp: bit_simps)

text \<open>The value of a 32-bit system register, by the offset of its high word.\<close>

definition system_value :: "fw_build \<Rightarrow> u16 \<Rightarrow> ('d, 's, 'm) firmware \<Rightarrow> u32" where
  "system_value B off s =
     (if off = SYS_UPTIME_HI then word_of_int (uptime_ms s div 1000) else firmware_version B)"

definition system_desc :: "fw_build \<Rightarrow> u16 \<Rightarrow> ('d, 's, 'm) fw_descriptor" where
  "system_desc B off = (if off = SYS_UPTIME_HI then sys_status_uptime_reg else sys_status_firmware_version_reg B)"

lemma system_wires:
  assumes "off = SYS_UPTIME_HI \<or> off = SYS_FW_VERSION_HI"
  shows "wire_at (sys_input_view B) off = sys_wire (Some (system_desc B off)) 0"
    and "wire_at (sys_input_view B) (off + 1) = sys_wire (Some (system_desc B off)) 1"
  using assms by (auto simp: wire_at_def sys_input_view_def system_desc_def)

lemma system_desc_read:
  "desc_type (system_desc B off) = REG_U32"
  "reg_read_descriptor (Some (system_desc B off)) s = Some (REG_OK, system_value B off s)"
  by (simp_all add: system_desc_def sys_status_uptime_reg_def sys_status_firmware_version_reg_def
      REG_DESCRIPTOR_DEFINE_def reg_read_descriptor_def sys_uptime_reg_read_def reg_read_bound_value_def
      system_value_def)

lemma input_rd_sys:
  assumes "off < 40"
  shows "vc_mb_input_rd B off s = mb_read (read_wire B (wire_at (sys_input_view B) off) 0 False s)"
proof -
  have "\<not> 40 \<le> off" using assms by (simp add: not_le)
  with assms show ?thesis by (simp add: vc_mb_input_rd_def addr_decode_def vc_reg_read_sys_input_def)
qed

lemma read_wire_high:
  assumes "desc_type d = REG_U32" and "reg_read_descriptor (Some d) s = Some (REG_OK, v)"
  shows "read_wire B (sys_wire (Some d) 0) 0 False s =
    Some (REG_OK, Some (ucast (drop_bit 16 v)),
      s\<lparr>word_latch := \<lparr>latch_id = desc_id d, latch_value = v, latch_valid = True\<rparr>\<rparr>)"
  using assms by (simp add: read_wire_def sys_wire_def wire_desc_def)

lemma read_wire_low:
  assumes "desc_type d = REG_U32" and "word_latch s = \<lparr>latch_id = desc_id d, latch_value = v, latch_valid = True\<rparr>"
  shows "read_wire B (sys_wire (Some d) 1) 0 False s = Some (REG_OK, Some (ucast v), drop_latch s)"
  using assms by (simp add: read_wire_def sys_wire_def wire_desc_def)

lemma system_high_word:
  fixes s :: "('d, 's, 'm) firmware"
  assumes "off = SYS_UPTIME_HI \<or> off = SYS_FW_VERSION_HI"
  shows "vc_mb_input_rd B off s = Some (VC_MB_OK, Some (ucast (drop_bit 16 (system_value B off s))),
      s\<lparr>word_latch := \<lparr>latch_id = desc_id (system_desc B off :: ('d, 's, 'm) fw_descriptor),
         latch_value = system_value B off s, latch_valid = True\<rparr>\<rparr>)"
proof -
  have "off < 40" using assms by auto
  then show ?thesis
    by (simp add: input_rd_sys system_wires(1) [OF assms] mb_read_def read_wire_high [OF system_desc_read])
qed

text \<open>
  A 32-bit system register reads as one value. The high word of the uptime or of the firmware version
  latches the whole value: whatever else happens in between, short of another Modbus read, the low word read next
  completes the value of the moment of the first read.
\<close>

lemma system_words_are_one_value:
  assumes off: "off = SYS_UPTIME_HI \<or> off = SYS_FW_VERSION_HI"
    and hi: "vc_mb_input_rd B off (s :: ('a, 'b, 'c) firmware) = Some (st, Some h, s1)" and latch: "word_latch (s2 :: ('a, 'b, 'c) firmware) = word_latch s1"
  shows "st = VC_MB_OK \<and>
    (\<exists>l s3. vc_mb_input_rd B (off + 1) s2 = Some (VC_MB_OK, Some l, s3) \<and>
       push_bit 16 (ucast h) OR ucast l = system_value B off s)"
proof -
  let ?d = "system_desc B off :: ('a, 'b, 'c) fw_descriptor" and ?v = "system_value B off s"
  have lt: "off + 1 < 40" using off by auto
  have h: "st = VC_MB_OK" "h = ucast (drop_bit 16 ?v)"
    and w: "word_latch s2 = \<lparr>latch_id = desc_id ?d, latch_value = ?v, latch_valid = True\<rparr>"
    using hi latch by (auto simp: system_high_word [OF off])
  have "read_wire B (sys_wire (Some ?d) 1) 0 False s2 = Some (REG_OK, Some (ucast ?v), drop_latch s2)"
    by (rule read_wire_low [OF _ w]) (simp add: system_desc_read)
  then have "vc_mb_input_rd B (off + 1) s2 = Some (VC_MB_OK, Some (ucast ?v), drop_latch s2)"
    by (simp add: input_rd_sys [OF lt] system_wires(2) [OF off] mb_read_def)
  then show ?thesis using h halves [of ?v] by blast
qed

text \<open>A firmware to try the properties on: two channels, whose last fault was at \<open>stamp\<close>, after 70000 seconds.\<close>

definition bench_fw :: fw_build where
  "bench_fw =
    \<lparr>cat = bench_build, CONFIG_SETTINGS = True, CONFIG_MODBUS = True, CONFIG_SYS_RESET = True,
     CONFIG_SYS_RESET_DELAY_MS = 100, CONFIG_SYS_STATUS_HEARTBEAT_INTERVAL_MS = 500,
     CONFIG_SYS_STATUS_SENSOR_INTERVAL_MS = 2000, CONFIG_VC_MODBUS_UNIT_ID = 1,
     CONFIG_VC_MODBUS_BAUD_RATE = 115200, FW_VERSION_MAJOR = 1, FW_VERSION_MINOR = 2, FW_VERSION_PATCH = 3\<rparr>"

definition bench_firmware :: "u32 \<Rightarrow> (unit, nvs, unit) firmware" where
  "bench_firmware stamp =
    \<lparr>catalog_lifecycle = VC_CATALOG_RUNNING, catalog_active_operations = 0, catalog_quiesced = False,
     catalog_runtime = True,
     vc_memory = bench_runtime\<lparr>rt_ctrl := bench_controller\<lparr>channels :=
       map (\<lambda>ch. ch\<lparr>last_fault_timestamp := stamp\<rparr>) (channels bench_controller)\<rparr>\<rparr>,
     uptime_ms = 70000000, mb = True,
     adapter = \<lparr>active_cfg = adapter_default_config bench_fw, boot_cfg = adapter_default_config bench_fw\<rparr>,
     mb_iface = 0, modbus_state = (), word_latch = \<lparr>latch_id = 0, latch_value = 0, latch_valid = False\<rparr>,
     env_temperature = 0, env_humidity = 0, status_tick_count = 0, sys_run = False, reset_work = None\<rparr>"

definition bench_line :: "unit modbus_api" where
  "bench_line = \<lparr>modbus_disable = \<lambda>_ m. (0, m), modbus_init_server = \<lambda>_ _ _ m. (0, m),
     modbus_iface_get_by_name = \<lambda>_. 0\<rparr>"

lemma system_words_are_one_value_witness:
  "\<exists>st h s1 l s3. vc_mb_input_rd bench_fw SYS_UPTIME_HI (bench_firmware 0) = Some (st, Some h, s1) \<and>
     vc_mb_input_rd bench_fw SYS_UPTIME_LO (s1\<lparr>uptime_ms := 99000000\<rparr>) = Some (VC_MB_OK, Some l, s3) \<and>
     push_bit 16 (ucast h) OR ucast l = (70000 :: u32)"
proof -
  obtain st h s1 where hi: "vc_mb_input_rd bench_fw SYS_UPTIME_HI (bench_firmware 0) = Some (st, Some h, s1)"
    using system_high_word [of SYS_UPTIME_HI bench_fw "bench_firmware 0"] by simp
  show ?thesis
    using system_words_are_one_value [OF _ hi, of "s1\<lparr>uptime_ms := 99000000\<rparr>"] hi
    by (auto simp: system_value_def bench_firmware_def)
qed

subsection \<open>What a channel read looks at first\<close>

lemma drop_latch_simps [simp]:
  "vc_memory (drop_latch s) = vc_memory s" "catalog_lifecycle (drop_latch s) = catalog_lifecycle s"
  "catalog_runtime (drop_latch s) = catalog_runtime s" "drop_latch (drop_latch s) = drop_latch s"
  "latch_valid (word_latch (drop_latch s)) = False" "adapter (drop_latch s) = adapter s" "mb (drop_latch s) = mb s"
  by (simp_all add: drop_latch_def)

lemma catalog_up_drop_latch [simp]: "catalog_up C (drop_latch s) = catalog_up C s"
  by (simp add: catalog_up_def)

lemma global_handle:
  assumes "(field, r) \<in> set vc_global_regs"
  shows "VC_GLOBAL_HANDLE B field = Some (VC_GLOBAL_DESC_INIT (cat B) (field, r))"
  using ord_nth [OF assms] distinct_fst_eq [OF vc_global_regs_distinct _ assms]
  by (simp add: VC_GLOBAL_HANDLE_def vc_catalog_global_regs_def REG_VC_GLOBAL_ORD_def)

lemma VC_GLOBAL_DESC_INIT_simps [simp]:
  "desc_id (VC_GLOBAL_DESC_INIT B (f, r)) = REG_VC_GLOBAL_ID f"
  "desc_type (VC_GLOBAL_DESC_INIT B (f, r)) = fst r"
  "desc_access (VC_GLOBAL_DESC_INIT B (f, r)) = fst (snd r)"
  "desc_owner (VC_GLOBAL_DESC_INIT B (f, r)) = Some (vc_catalog_owner (kconf B))"
  "desc_value (VC_GLOBAL_DESC_INIT B (f, r)) = map_of (VC_GLOBAL_VALUE B) f"
  by (cases r; simp add: VC_GLOBAL_DESC_INIT_def)+

lemma is_global_global [simp]: "is_global (view_of (VC_GLOBAL_DESC_INIT B (f, r)))"
  by (simp add: is_global_def)

lemma up_running:
  "catalog_up C s \<Longrightarrow> catalog_lifecycle s = VC_CATALOG_RUNNING" "catalog_up C s \<Longrightarrow> catalog_runtime s"
  by (simp_all add: catalog_up_def)

lemma read_count:
  assumes "catalog_up (cat B) s"
  shows "read_local B (wire_at (sys_input_view B) SYS_SUPPORTED_CHANNELS) 0 False s =
    Some (word_of_nat (VC_MAX_CHANNELS (cat B)), drop_latch s)"
proof -
  have h: "VC_GLOBAL_HANDLE B REG_VC_GLOBAL_FIELD_SUPPORTED_CHANNELS =
      Some (VC_GLOBAL_DESC_INIT (cat B) (REG_VC_GLOBAL_FIELD_SUPPORTED_CHANNELS, REG_U16, REG_RO, REG_FIXED))"
    by (rule global_handle) (simp add: vc_global_regs_def)
  show ?thesis
    using up_running [OF assms]
    by (simp add: read_local_def wire_at_def sys_input_view_def sys_wire_def read_wire_def wire_desc_def h
        reg_read_descriptor_def vc_catalog_owner_def vc_catalog_read_def acquire_running VC_GLOBAL_VALUE_def
        reg_read_bound_value_def)
qed

lemma read_mode:
  assumes "catalog_up (cat B) s"
  shows "read_local B (wire_at (sys_input_view B) SYS_ACTIVE_OPERATING_MODE) 0 False s =
    Some (u16_of_vc_operating_mode (operating_mode (rt_ctrl (vc_memory s))), drop_latch s)"
proof -
  have h: "VC_GLOBAL_HANDLE B REG_VC_GLOBAL_FIELD_ACTIVE_OPERATING_MODE =
      Some (VC_GLOBAL_DESC_INIT (cat B) (REG_VC_GLOBAL_FIELD_ACTIVE_OPERATING_MODE, REG_ENUM, REG_RO, REG_RUNTIME_STATE))"
    by (rule global_handle) (simp add: vc_global_regs_def)
  show ?thesis
    using up_running [OF assms]
    by (simp add: read_local_def wire_at_def sys_input_view_def sys_wire_def read_wire_def wire_desc_def h
        reg_read_descriptor_def vc_catalog_owner_def vc_catalog_read_def acquire_running VC_GLOBAL_VALUE_def
        vc_read_global_switch_def)
qed

end
