(* ===== verification/Modbus_Channel_Props.thy ===== *)
theory Modbus_Channel_Props
  imports Modbus_Props
begin

text \<open>
  The channel blocks of Modbus against the catalog: a holding register reads exactly what its catalog
  register reads, and the two words of a 32-bit channel register are two reads of it.
\<close>

unbundle bit_operations_syntax

subsection \<open>The view and the schema\<close>

lemma holding_view_rows:
  "list_all (\<lambda>(off, field, w). off < 40 \<and> map_of ch_holding_view off = Some (field, w) \<and>
     (case map_of vc_regs field of Some (t, _) \<Rightarrow> t \<notin> {REG_U32, REG_S32} | None \<Rightarrow> False)) ch_holding_view"
  by (simp add: ch_holding_view_def vc_regs_def)

lemma holding_view_row:
  assumes "(off, field, w) \<in> set ch_holding_view"
  obtains type access category where "(field, type, access, category) \<in> set vc_regs"
    and "type \<notin> {REG_U32, REG_S32}" and "off < 40" and "map_of ch_holding_view off = Some (field, w)"
proof -
  have r: "off < 40" "map_of ch_holding_view off = Some (field, w)"
    "case map_of vc_regs field of Some (t, _) \<Rightarrow> t \<notin> {REG_U32, REG_S32} | None \<Rightarrow> False"
    using bspec [OF holding_view_rows [unfolded list_all_iff] assms] by simp_all
  then obtain row where m: "map_of vc_regs field = Some row" "fst row \<notin> {REG_U32, REG_S32}"
    by (auto split: option.splits)
  obtain type access category where row: "row = (type, access, category)" by (cases row)
  show thesis
    by (rule that [of type access category]) (use m r row map_of_SomeD [OF m(1)] in simp_all)
qed

text \<open>The capability the wire view asks for is one the catalog asks for too.\<close>

lemma holding_gates:
  "list_all (\<lambda>(off, field, w). vc_catalog_supported field caps \<longrightarrow> ch_holding_supported caps off) ch_holding_view"
  by (simp add: ch_holding_view_def vc_catalog_supported_def ch_holding_supported_def caps_all_def caps_any_def
      and_two_bits)

subsection \<open>Reading a channel register through the wire\<close>

lemma channel_wire_read:
  assumes c: "unat ch < VC_MAX_CHANNELS (cat B)" and f: "(field, type, access, category) \<in> set vc_regs"
    and n: "type \<notin> {REG_U32, REG_S32}"
    and h: "reg_handle_read (reg_vc_channel_handle (cat B) ch (REG_VC_ORD field)) s = Some (st, v)"
  shows "read_wire B (ch_wire (field, w)) ch True s =
    Some (if st = REG_WRITE_ONLY then (REG_OK, Some 0, s)
          else if st = REG_OK then (REG_OK, Some (value_u16 v), drop_latch s)
          else (st, None, s))"
  using h n row_facts(2) [OF f]
  by (cases type) (simp_all add: read_wire_def ch_wire_def wire_desc_def channel_handle [OF c f] reg_handle_read_def)

lemma ch_wire_at_mapped: "map_of view off = Some p \<Longrightarrow> ch_wire_at view off = ch_wire p"
  by (simp add: ch_wire_at_def)

lemma caps_row: "(REG_VC_FIELD_CAPABILITY_FLAGS, REG_U16, REG_RO, REG_FIXED) \<in> set vc_regs"
  by (simp add: vc_regs_def)

lemma read_caps:
  assumes up: "catalog_up (cat B) s" and c: "unat ch < VC_MAX_CHANNELS (cat B)"
  shows "read_local B (ch_wire_at ch_input_view CH_CAPABILITY_FLAGS) ch True s =
    Some (capabilities (channels (rt_ctrl (vc_memory s)) ! unat ch), drop_latch s)"
proof -
  let ?v = "value_of_u16 (capabilities (channels (rt_ctrl (vc_memory s)) ! unat ch))"
  have h: "reg_handle_read (reg_vc_channel_handle (cat B) ch (REG_VC_ORD REG_VC_FIELD_CAPABILITY_FLAGS)) s =
      Some (REG_OK, ?v)"
    by (simp add: read_channel_register [OF up c caps_row] register_reader_def VC_VALUE_def
        vc_catalog_supported_def Let_def)
  have "read_wire B (ch_wire (REG_VC_FIELD_CAPABILITY_FLAGS, 0)) ch True s =
      Some (REG_OK, Some (capabilities (channels (rt_ctrl (vc_memory s)) ! unat ch)), drop_latch s)"
    using channel_wire_read [OF c caps_row _ h, where w = 0] by simp
  then show ?thesis by (simp add: read_local_def ch_wire_at_def ch_input_view_def)
qed

lemma channel_in_range:
  assumes "catalog_up (cat B) s" and "unat ch < VC_MAX_CHANNELS (cat B)"
  shows "unat ch < 16" and "\<not> unat (word_of_nat (VC_MAX_CHANNELS (cat B)) :: u16) \<le> unat ch"
  using assms by (simp_all add: catalog_up_def unat_of_nat take_bit_nat_eq_self)

lemma address_of_channel:
  assumes "unat ch < 16" and "off < 40"
  shows "addr_decode (40 + 40 * ucast ch + off) = Some (Ch_Reg ch off)"
    and "\<not> is_extension (40 + 40 * ucast ch + off)"
proof -
  have c: "unat ch < 16 \<and> unat off < 40" using assms by (simp add: word_less_nat_alt)
  then show "addr_decode (40 + 40 * ucast ch + off) = Some (Ch_Reg ch off)"
    using decode_channel_address by blast
  show "\<not> is_extension (40 + 40 * ucast ch + off)"
    using channel_address [of ch off] c by (simp add: is_extension_def word_le_nat_alt)
qed

lemma holding_read:
  assumes up: "catalog_up (cat B) s" and c: "unat ch < VC_MAX_CHANNELS (cat B)"
    and view: "(off, field, w) \<in> set ch_holding_view"
    and h: "reg_handle_read (reg_vc_channel_handle (cat B) ch (REG_VC_ORD field)) s = Some (st, v)"
  shows "vc_mb_holding_rd B z A (40 + 40 * ucast ch + off) s = Some
    (if st = REG_OK then (VC_MB_OK, Some (value_u16 v), drop_latch s)
     else if st = REG_WRITE_ONLY \<and> ch_holding_supported (capabilities (channels (rt_ctrl (vc_memory s)) ! unat ch)) off
     then (VC_MB_OK, Some 0, drop_latch s)
     else (VC_MB_ILLEGAL_ADDRESS, None, drop_latch s))"
proof -
  let ?caps = "capabilities (channels (rt_ctrl (vc_memory s)) ! unat ch)"
  obtain type access category where row: "(field, type, access, category) \<in> set vc_regs"
    and n: "type \<notin> {REG_U32, REG_S32}" and off: "off < 40" and m: "map_of ch_holding_view off = Some (field, w)"
    using holding_view_row [OF view] by blast
  have up': "catalog_up (cat B) (drop_latch s)" using up by simp
  have h': "reg_handle_read (reg_vc_channel_handle (cat B) ch (REG_VC_ORD field)) (drop_latch s) = Some (st, v)"
    using h unfolding read_channel_register [OF up c row] read_channel_register [OF up' c row] by simp
  have st: "st \<in> {REG_OK, REG_WRITE_ONLY, REG_UNSUPPORTED}"
    and gate: "st = REG_OK \<longrightarrow> vc_catalog_supported field ?caps"
    using channel_reads_status [OF up c row h] by (auto split: if_splits)
  have "\<not> 40 \<le> off" using off by (simp add: not_le)
  then have 1: "vc_reg_read_ch_holding B ch off s =
      (if \<not> ch_holding_supported ?caps off then Some (REG_UNSUPPORTED, None, drop_latch s)
       else read_wire B (ch_wire (field, w)) ch True (drop_latch s))"
    using channel_in_range [OF up c]
    by (simp add: vc_reg_read_ch_holding_def read_count [OF up] read_caps [OF up' c] ch_wire_at_mapped [OF m])
  have "st = REG_OK \<longrightarrow> ch_holding_supported ?caps off"
    using bspec [OF holding_gates [unfolded list_all_iff] view] gate by simp
  then show ?thesis
    using st by (auto simp: vc_mb_holding_rd_def address_of_channel [OF channel_in_range(1) [OF up c] off] 1
        channel_wire_read [OF c row n h'] mb_read_def)
qed

text \<open>
  C19. Modbus reads the catalog. For every holding register of a channel block of a running system, a
  Modbus read at its address is the catalog's read of the register it is mapped to: the value when the
  catalog has one, an address exception when the catalog refuses. A write-only register reads 0 when
  the channel has its capability. The system is left as it was, with the word latch dropped.
\<close>

theorem modbus_reads_the_catalog:
  assumes up: "catalog_up (cat B) s" and c: "unat ch < VC_MAX_CHANNELS (cat B)"
    and view: "(off, field, w) \<in> set ch_holding_view"
    and h: "reg_handle_read (reg_vc_channel_handle (cat B) ch (REG_VC_ORD field)) s = Some (st, v)"
  shows "vc_mb_holding_rd B z A (40 + 40 * ucast ch + off) s = Some
    (if st = REG_OK then (VC_MB_OK, Some (value_u16 v), drop_latch s)
     else if st = REG_WRITE_ONLY \<and> ch_holding_supported (capabilities (channels (rt_ctrl (vc_memory s)) ! unat ch)) off
     then (VC_MB_OK, Some 0, drop_latch s)
     else (VC_MB_ILLEGAL_ADDRESS, None, drop_latch s))"
  using assms by (rule holding_read)

lemma modbus_reads_the_catalog_witness:
  "vc_mb_holding_rd bench_fw map_settings bench_line (40 + 40 * ucast (1 :: u8) + CH_AUTO_RETRY_DELAY) (bench_firmware 0) =
     Some (VC_MB_OK, Some 0, drop_latch (bench_firmware 0))"
proof -
  have up: "catalog_up (cat bench_fw) (bench_firmware 0)"
    by (simp add: catalog_up_def bench_fw_def bench_build_def bench_firmware_def bench_runtime_def bench_channels)
  have c: "unat (1 :: u8) < VC_MAX_CHANNELS (cat bench_fw)" by (simp add: bench_fw_def bench_build_def)
  have r: "reg_handle_read (reg_vc_channel_handle (cat bench_fw) 1 (REG_VC_ORD REG_VC_FIELD_AUTO_RETRY_DELAY))
      (bench_firmware 0) = Some (REG_OK, 0)"
    unfolding read_channel_register [OF up c bench_row]
    by (simp add: register_reader_def VC_VALUE_def supported_config Let_def bench_firmware_def bench_runtime_def
        bench_channels, simp add: eval_defs Let_def value_of_u16_def bench_defs)
  have v: "(CH_AUTO_RETRY_DELAY, REG_VC_FIELD_AUTO_RETRY_DELAY, 0) \<in> set ch_holding_view"
    by (simp add: ch_holding_view_def)
  show ?thesis using modbus_reads_the_catalog [OF up c v r] by (simp add: value_u16_def)
qed

subsection \<open>The two words of a channel register\<close>

lemma read_input_block:
  assumes up: "catalog_up (cat B) s" and c: "unat ch < VC_MAX_CHANNELS (cat B)"
    and off: "off < 12" and m: "map_of ch_input_view off = Some p"
    and caps: "ch_input_supported (capabilities (channels (rt_ctrl (vc_memory s)) ! unat ch)) off"
  shows "vc_mb_input_rd B (40 + 40 * ucast ch + off) s = mb_read (read_wire B (ch_wire p) ch True (drop_latch s))"
proof -
  have up': "catalog_up (cat B) (drop_latch s)" using up by simp
  have "off < 40" and n: "\<not> 40 \<le> off" "\<not> is_ch_cal_input_reg off"
    using off by (auto simp: word_less_nat_alt word_le_nat_alt is_ch_cal_input_reg_def)
  then show ?thesis
    using channel_in_range [OF up c] caps
    by (simp add: vc_mb_input_rd_def address_of_channel(1) vc_reg_read_ch_input_def read_count [OF up]
        read_caps [OF up' c] read_mode [OF up'] ch_wire_at_mapped [OF m])
qed

lemma stamp_row: "(REG_VC_FIELD_LAST_FAULT_TIMESTAMP, REG_U32, REG_RO, REG_RUNTIME_STATE) \<in> set vc_regs"
  by (simp add: vc_regs_def)

abbreviation fault_stamp :: "('d, 's, 'm) firmware \<Rightarrow> u8 \<Rightarrow> u32" where
  "fault_stamp s ch \<equiv> last_fault_timestamp (channels (rt_ctrl (vc_memory s)) ! unat ch)"

lemma stamp_wire:
  assumes up: "catalog_up (cat B) s" and c: "unat ch < VC_MAX_CHANNELS (cat B)"
    and l: "\<not> latch_valid (word_latch s)"
  shows "read_wire B (ch_wire (REG_VC_FIELD_LAST_FAULT_TIMESTAMP, 0)) ch True s =
      Some (REG_OK, Some (ucast (drop_bit 16 (fault_stamp s ch))),
        s\<lparr>word_latch := \<lparr>latch_id = REG_VC_ID ch REG_VC_FIELD_LAST_FAULT_TIMESTAMP,
          latch_value = fault_stamp s ch, latch_valid = True\<rparr>\<rparr>)"
    and "read_wire B (ch_wire (REG_VC_FIELD_LAST_FAULT_TIMESTAMP, 1)) ch True s =
      Some (REG_OK, Some (ucast (fault_stamp s ch)), drop_latch s)"
proof -
  have "reg_read_descriptor (Some (VC_DESC_INIT (kconf (cat B)) ch
      (REG_VC_FIELD_LAST_FAULT_TIMESTAMP, REG_U32, REG_RO, REG_RUNTIME_STATE))) s = Some (REG_OK, fault_stamp s ch)"
    using read_channel_register [OF up c stamp_row]
    by (simp add: reg_handle_read_def channel_handle [OF c stamp_row] register_reader_def VC_VALUE_def
        vc_catalog_supported_def Let_def)
  then show "read_wire B (ch_wire (REG_VC_FIELD_LAST_FAULT_TIMESTAMP, 0)) ch True s =
      Some (REG_OK, Some (ucast (drop_bit 16 (fault_stamp s ch))),
        s\<lparr>word_latch := \<lparr>latch_id = REG_VC_ID ch REG_VC_FIELD_LAST_FAULT_TIMESTAMP,
          latch_value = fault_stamp s ch, latch_valid = True\<rparr>\<rparr>)"
    and "read_wire B (ch_wire (REG_VC_FIELD_LAST_FAULT_TIMESTAMP, 1)) ch True s =
      Some (REG_OK, Some (ucast (fault_stamp s ch)), drop_latch s)"
    using l by (simp_all add: read_wire_def ch_wire_def wire_desc_def channel_handle [OF c stamp_row])
qed

text \<open>
  A 32-bit channel register is two values on the wire. A read of the high word of a channel's
  last fault time latches the value, but a read of the low word reads the count of channels, the
  capabilities and the mode first, each of which drops the latch: it gives the low word of the
  value of its own moment, whatever was latched.
\<close>

lemma channel_words_can_tear:
  assumes up: "catalog_up (cat B) s" and up2: "catalog_up (cat B) s2" and c: "unat ch < VC_MAX_CHANNELS (cat B)"
  shows "(\<exists>s1. vc_mb_input_rd B (40 + 40 * ucast ch + CH_LAST_FAULT_TIMESTAMP_HI) s =
        Some (VC_MB_OK, Some (ucast (drop_bit 16 (fault_stamp s ch))), s1) \<and>
      latch_valid (word_latch s1) \<and> latch_value (word_latch s1) = fault_stamp s ch) \<and>
    vc_mb_input_rd B (40 + 40 * ucast ch + CH_LAST_FAULT_TIMESTAMP_LO) s2 =
      Some (VC_MB_OK, Some (ucast (fault_stamp s2 ch)), drop_latch s2)"
proof (intro conjI)
  have m: "map_of ch_input_view CH_LAST_FAULT_TIMESTAMP_HI = Some (REG_VC_FIELD_LAST_FAULT_TIMESTAMP, 0)"
    "map_of ch_input_view CH_LAST_FAULT_TIMESTAMP_LO = Some (REG_VC_FIELD_LAST_FAULT_TIMESTAMP, 1)"
    by (simp_all add: ch_input_view_def)
  have d: "catalog_up (cat B) (drop_latch s)" "catalog_up (cat B) (drop_latch s2)" using up up2 by simp_all
  show "\<exists>s1. vc_mb_input_rd B (40 + 40 * ucast ch + CH_LAST_FAULT_TIMESTAMP_HI) s =
        Some (VC_MB_OK, Some (ucast (drop_bit 16 (fault_stamp s ch))), s1) \<and>
      latch_valid (word_latch s1) \<and> latch_value (word_latch s1) = fault_stamp s ch"
    by (subst read_input_block [OF up c _ m(1)])
      (simp_all add: ch_input_supported_def stamp_wire [OF d(1) c] mb_read_def)
  show "vc_mb_input_rd B (40 + 40 * ucast ch + CH_LAST_FAULT_TIMESTAMP_LO) s2 =
      Some (VC_MB_OK, Some (ucast (fault_stamp s2 ch)), drop_latch s2)"
    by (subst read_input_block [OF up2 c _ m(2)])
      (simp_all add: ch_input_supported_def stamp_wire [OF d(2) c] mb_read_def del: One_nat_def)
qed

lemma channel_words_can_tear_witness:
  "\<exists>h s1 l s3. vc_mb_input_rd bench_fw (40 + 40 * ucast (1 :: u8) + CH_LAST_FAULT_TIMESTAMP_HI)
        (bench_firmware 0x1ffff) = Some (VC_MB_OK, Some h, s1) \<and>
     vc_mb_input_rd bench_fw (40 + 40 * ucast (1 :: u8) + CH_LAST_FAULT_TIMESTAMP_LO)
        (bench_firmware 0x20000) = Some (VC_MB_OK, Some l, s3) \<and>
     push_bit 16 (ucast h) OR ucast l = (0x10000 :: u32)"
proof -
  have up: "catalog_up (cat bench_fw) (bench_firmware stamp)" for stamp
    by (simp add: catalog_up_def bench_fw_def bench_build_def bench_firmware_def bench_runtime_def bench_channels)
  have c: "unat (1 :: u8) < VC_MAX_CHANNELS (cat bench_fw)" by (simp add: bench_fw_def bench_build_def)
  have f: "fault_stamp (bench_firmware stamp) 1 = stamp" for stamp
    by (simp add: bench_firmware_def bench_channels)
  show ?thesis using channel_words_can_tear [OF up [of "0x1ffff"] up [of "0x20000"] c] 
    by (auto simp: f [simplified])
qed

end
