(* ===== verification/Modbus_Config_Props.thy ===== *)
theory Modbus_Config_Props
  imports Modbus_Props
begin

text \<open>
  The settings of the serial line: they are valid at every moment under every request, and a next-boot
  setting written over Modbus is the active one after the restart, and not before.
\<close>

subsection \<open>What leaves the adapter alone\<close>

lemma more_release [simp]: "vc_system.more (vc_catalog_release s) = vc_system.more s"
  by (simp add: vc_catalog_release_def Let_def)

lemma more_acquire: "vc_catalog_acquire s = (b, s1) \<Longrightarrow> vc_system.more s1 = vc_system.more s"
  by (auto simp: vc_catalog_acquire_def Let_def split: if_splits)

lemma catalog_write_more:
  "vc_catalog_write K desc v t s = Some (st, s') \<Longrightarrow> vc_system.more s' = vc_system.more s"
  by (auto simp: vc_catalog_write_def Let_def bind_eq_Some_conv
      split: prod.splits if_splits sum.splits dest!: more_acquire)

definition adapter_ok :: "('d, 's, 'm) firmware \<Rightarrow> bool" where
  "adapter_ok s \<longleftrightarrow>
     (mb s \<longrightarrow> adapter_config_valid (active_cfg (adapter s)) \<and> adapter_config_valid (boot_cfg (adapter s)))"

lemma adapter_ok_more:
  fixes s s' :: "('d, 's, 'm) firmware"
  shows "vc_system.more s' = vc_system.more s \<Longrightarrow> adapter_ok s' = adapter_ok s"
  by (cases s; cases s') (simp add: adapter_ok_def)

lemma adapter_ok_cong: "adapter s' = adapter s \<Longrightarrow> mb s' = mb s \<Longrightarrow> adapter_ok s' = adapter_ok s"
  by (simp add: adapter_ok_def)

lemma read_wire_frame:
  "read_wire B w ch c s = Some (st, r, s') \<Longrightarrow> adapter s' = adapter s \<and> mb s' = mb s"
  by (auto simp: read_wire_def drop_latch_def bind_eq_Some_conv split: if_splits option.splits reg_type.splits)

lemma read_local_frame:
  "read_local B w ch c s = Some (v, s') \<Longrightarrow> adapter s' = adapter s \<and> mb s' = mb s"
  by (auto simp: read_local_def bind_eq_Some_conv dest: read_wire_frame)

subsection \<open>The operations of the adapter keep it valid\<close>

lemma default_valid:
  "1 \<le> CONFIG_VC_MODBUS_UNIT_ID B \<Longrightarrow> CONFIG_VC_MODBUS_UNIT_ID B \<le> 247 \<Longrightarrow>
   adapter_config_valid (adapter_default_config B)"
  by (simp add: adapter_config_valid_def adapter_default_config_def baud_rate_to_code_def)

lemma ok_set_active: "adapter_ok s \<Longrightarrow> adapter_config_valid cfg \<Longrightarrow> adapter_ok (set_active cfg s)"
  by (simp add: adapter_ok_def set_active_def)

lemma ok_set_boot: "adapter_ok s \<Longrightarrow> adapter_config_valid cfg \<Longrightarrow> adapter_ok (set_boot cfg s)"
  by (simp add: adapter_ok_def set_boot_def)

lemma ok_modbus_state [simp]: "adapter_ok (s\<lparr>modbus_state := m\<rparr>) = adapter_ok s"
  by (simp add: adapter_ok_def)

lemma start_with_frame: "start_with A cfg s = (rc, s') \<Longrightarrow> adapter s' = adapter s \<and> mb s' = mb s"
  by (auto simp: start_with_def modbus_server_start_def split: prod.splits)

lemma ok_start_with: "start_with A cfg s = (rc, s') \<Longrightarrow> adapter_ok s' = adapter_ok s"
  using adapter_ok_cong start_with_frame by blast

lemma save_frame:
  "adapter_save_config z cfg s = (rc, s') \<Longrightarrow> adapter s' = adapter s \<and> mb s' = mb s"
  by (auto simp: adapter_save_config_def set_fw_nvs_def split: prod.splits)

lemma ok_save: "adapter_save_config z cfg s = (rc, s') \<Longrightarrow> adapter_ok s' = adapter_ok s"
  using adapter_ok_cong save_frame by blast

lemma ok_apply:
  assumes "adapter_ok s" and "adapter_config_valid cfg" and "modbus_adapter_apply_config A cfg s = (rc, s')"
  shows "adapter_ok s'"
proof -
  let ?s1 = "s\<lparr>modbus_state := snd (modbus_disable A (mb_iface s) (modbus_state s))\<rparr>"
  obtain ret s2 where s2: "start_with A cfg ?s1 = (ret, s2)" by fastforce
  obtain ret' s3 where s3: "start_with A (active_cfg (adapter s)) s2 = (ret', s3)" by fastforce
  have "adapter_ok s2" "adapter_ok s3" using ok_start_with [OF s2] ok_start_with [OF s3] assms(1) by simp_all
  then show ?thesis
    using assms s2 s3 by (auto simp: modbus_adapter_apply_config_def Let_def ok_set_active split: if_splits)
qed

lemma ok_set_slave_address:
  assumes "adapter_ok s" and "modbus_adapter_set_slave_address B A addr s = (rc, s')"
  shows "adapter_ok s'"
proof (cases "mb s \<and> \<not> (addr < 1 \<or> 247 < addr)")
  case True
  then have "1 \<le> addr" "addr \<le> 247" by (simp_all only: not_less de_Morgan_disj)
  with True have "adapter_config_valid ((active_cfg (adapter s))\<lparr>slave_address := addr\<rparr>)"
    using assms(1) by (simp add: adapter_ok_def adapter_config_valid_def)
  then show ?thesis
    using assms True ok_apply [OF assms(1)]
    by (auto simp: modbus_adapter_set_slave_address_def Let_def ok_set_active split: if_splits)
next
  case False
  then show ?thesis using assms by (auto simp: modbus_adapter_set_slave_address_def split: if_splits)
qed

lemma baud_codes: "\<not> (3 :: u16) < code \<Longrightarrow> code = 0 \<or> code = 1 \<or> code = 2 \<or> code = 3"
proof -
  assume "\<not> 3 < code"
  then have "unat code \<le> 3" by (simp add: not_less word_le_nat_alt)
  then have "unat code = 0 \<or> unat code = 1 \<or> unat code = 2 \<or> unat code = 3" by linarith
  then show ?thesis by (simp add: word_unat_eq_iff)
qed

lemma ok_set_baud:
  assumes "adapter_ok s" and "modbus_adapter_set_baud_rate_code B A code s = (rc, s')"
  shows "adapter_ok s'"
proof (cases "mb s \<and> \<not> VC_BAUD_RATE_38400 < code")
  case True
  then have "adapter_config_valid ((active_cfg (adapter s))\<lparr>baud_rate_code := code\<rparr>)"
    using assms(1) baud_codes [of code] by (auto simp: adapter_ok_def adapter_config_valid_def)
  then show ?thesis
    using assms True ok_apply [OF assms(1)]
    by (auto simp: modbus_adapter_set_baud_rate_code_def Let_def ok_set_active split: if_splits)
next
  case False
  then show ?thesis using assms by (auto simp: modbus_adapter_set_baud_rate_code_def split: if_splits)
qed

lemma ok_next_boot:
  assumes "adapter_ok s" and "adapter_write_next_boot_field B z field v s = (rc, s')"
  shows "adapter_ok s'"
  using assms
  by (auto simp: adapter_write_next_boot_field_def Let_def adapter_ok_def split: if_splits option.splits prod.splits
      dest!: save_frame)

lemma ok_config_save:
  assumes "adapter_ok s" and "modbus_adapter_config_save B z s = (rc, s')"
  shows "adapter_ok s'"
  using assms
  by (auto simp: modbus_adapter_config_save_def Let_def adapter_ok_def set_boot_def split: if_splits prod.splits
      dest!: save_frame)

lemma ok_config_load:
  assumes "adapter_ok s" and "modbus_adapter_config_load B z A garbage s = (rc, s')"
  shows "adapter_ok s'"
proof -
  obtain r c where l: "adapter_load_config B z garbage s = (r, c)" by fastforce
  obtain r1 s1 where a: "modbus_adapter_apply_config A c s = (r1, s1)" by fastforce
  have "adapter_config_valid c \<Longrightarrow> adapter_ok s1" by (rule ok_apply [OF assms(1) _ a])
  then show ?thesis
    using assms l a by (auto simp: modbus_adapter_config_load_def Let_def ok_set_boot split: if_splits)
qed

lemma ok_config_factory:
  assumes d: "adapter_config_valid (adapter_default_config B)"
    and "adapter_ok s" and "modbus_adapter_config_factory B z A s = (rc, s')"
  shows "adapter_ok s'"
proof -
  let ?c = "adapter_default_config B"
  obtain r s1 where sv: "adapter_save_config z ?c s = (r, s1)" by fastforce
  have s1: "adapter_ok s1" using ok_save [OF sv] assms(2) by simp
  obtain r2 s2 where a: "modbus_adapter_apply_config A ?c (set_boot ?c s1) = (r2, s2)" by fastforce
  obtain r3 s3 where a3: "modbus_adapter_apply_config A ?c s = (r3, s3)" by fastforce
  have "adapter_ok s2" "adapter_ok s3"
    using ok_apply [OF ok_set_boot [OF s1 d] d a] ok_apply [OF assms(2) d a3] by simp_all
  then show ?thesis
    using assms s1 sv a a3 by (auto simp: modbus_adapter_config_factory_def Let_def ok_set_active split: if_splits)
qed

lemma ok_modbus_reg_write:
  assumes d: "adapter_config_valid (adapter_default_config B)"
    and "adapter_ok s" and "modbus_reg_write B z A desc v t s = Some (st, s')"
  shows "adapter_ok s'"
proof -
  have "adapter_ok (snd (modbus_adapter_set_slave_address B A w s))"
    "adapter_ok (snd (modbus_adapter_set_baud_rate_code B A w s))"
    "adapter_ok (snd (adapter_write_next_boot_field B z f w s))"
    "adapter_ok (snd (modbus_adapter_config_save B z s))"
    "adapter_ok (snd (modbus_adapter_config_load B z A g s))"
    "adapter_ok (snd (modbus_adapter_config_factory B z A s))" for w f g
    using ok_set_slave_address ok_set_baud ok_next_boot ok_config_save ok_config_load ok_config_factory [OF d]
      assms(2) by (metis prod.collapse)+
  then show ?thesis
    using assms(2,3) by (auto simp: modbus_reg_write_def Let_def answer_errno_def split: if_splits)
qed

subsection \<open>Every register of the catalog\<close>

definition keeps_adapter :: "('d, 's, 'm) fw_descriptor \<Rightarrow> bool" where
  "keeps_adapter d \<longleftrightarrow>
     (\<forall>v t s st s'. reg_write_descriptor (Some d) v t s = Some (st, s') \<longrightarrow> adapter_ok s \<longrightarrow> adapter_ok s')"

lemma keeps_catalog:
  fixes d :: "('d, 's, 'm) fw_descriptor"
  assumes "desc_owner d = Some (vc_catalog_owner K)"
  shows "keeps_adapter d"
  unfolding keeps_adapter_def
proof (intro allI impI)
  fix v t and s s' :: "('d, 's, 'm) firmware" and st
  assume w: "reg_write_descriptor (Some d) v t s = Some (st, s')" and ok: "adapter_ok s"
  have "s' = s \<or> vc_catalog_write K (view_of d) v t s = Some (st, s')"
    using w assms by (simp add: reg_write_descriptor_def vc_catalog_owner_def split: if_splits)
  then show "adapter_ok s'" using ok adapter_ok_more catalog_write_more by blast
qed

lemma keeps_no_owner: "desc_owner d = None \<Longrightarrow> keeps_adapter d"
  by (simp add: keeps_adapter_def reg_write_descriptor_def)

lemma keeps_read_only: "desc_access d = REG_RO \<Longrightarrow> keeps_adapter d"
  by (simp add: keeps_adapter_def reg_write_descriptor_def)

lemma keeps_reset: "keeps_adapter (sys_status_reset_reg B)"
  by (auto simp: keeps_adapter_def reg_write_descriptor_def sys_status_reset_reg_def REG_DESCRIPTOR_DEFINE_def
      reset_reg_write_def sys_status_request_reset_def adapter_ok_def split: if_splits)

lemma status_read_only:
  "desc_access sys_status_uptime_reg = REG_RO" "desc_access (sys_status_firmware_version_reg B) = REG_RO"
  "desc_access sys_status_temperature_reg = REG_RO" "desc_access sys_status_humidity_reg = REG_RO"
  by (simp_all add: sys_status_uptime_reg_def sys_status_firmware_version_reg_def sys_status_temperature_reg_def
      sys_status_humidity_reg_def REG_DESCRIPTOR_DEFINE_def)

lemma keeps_status: "d \<in> set (sys_status_catalog B) \<Longrightarrow> keeps_adapter d"
  by (auto simp: sys_status_catalog_def status_read_only keeps_reset keeps_read_only split: if_splits)

lemma keeps_config:
  assumes "adapter_config_valid (adapter_default_config B)"
  shows "keeps_adapter (MODBUS_CONFIG_DESCRIPTOR B z A f a c)"
  using ok_modbus_reg_write [OF assms]
  by (auto simp: keeps_adapter_def MODBUS_CONFIG_DESCRIPTOR_def REG_DESCRIPTOR_DEFINE_def modbus_reg_owner_def
      reg_write_descriptor_def split: if_splits)

lemma keeps_channel: "d \<in> set (vc_catalog_channel_regs C) \<Longrightarrow> keeps_adapter d"
  by (auto simp: vc_catalog_channel_regs_def VC_DESC_INIT_def intro!: keeps_catalog split: prod.splits)

lemma keeps_global: "d \<in> set (vc_catalog_global_regs C) \<Longrightarrow> keeps_adapter d"
  by (auto simp: vc_catalog_global_regs_def VC_GLOBAL_DESC_INIT_def intro!: keeps_catalog split: prod.splits)

lemma keeps_protocol: "keeps_adapter modbus_protocol_major_reg" "keeps_adapter modbus_protocol_minor_reg"
  by (simp_all add: keeps_no_owner modbus_protocol_major_reg_def modbus_protocol_minor_reg_def
      REG_DESCRIPTOR_DEFINE_def)

lemma keeps_firmware_catalog:
  assumes "adapter_config_valid (adapter_default_config B)" and "d \<in> set (firmware_catalog B z A)"
  shows "keeps_adapter d"
  using assms(2) keeps_channel keeps_global keeps_status keeps_protocol keeps_config [OF assms(1)]
  by (auto simp: firmware_catalog_def modbus_catalog_def)

lemma reg_write_keeps:
  assumes "\<And>d. d \<in> set catalog \<Longrightarrow> keeps_adapter d"
    and "reg_write catalog i v t s = Some (st, s')" and "adapter_ok s"
  shows "adapter_ok s'"
  using assms by (auto simp: reg_write_def keeps_adapter_def split: option.splits dest!: reg_describe_Some)

lemma ok_reg_write:
  assumes "adapter_config_valid (adapter_default_config B)"
    and "reg_write (firmware_catalog B z A) i v t s = Some (st, s')" and "adapter_ok s"
  shows "adapter_ok s'"
  using keeps_firmware_catalog [OF assms(1)] assms(2,3) by (rule reg_write_keeps)

subsection \<open>Every request\<close>

lemma global_handle_in:
  "field \<in> fst ` set vc_global_regs \<Longrightarrow> VC_GLOBAL_HANDLE B field = Some d \<Longrightarrow> d \<in> set (vc_catalog_global_regs (cat B))"
  using ord_nth(1) [of field _ vc_global_regs]
  by (auto simp: VC_GLOBAL_HANDLE_def vc_catalog_global_regs_def REG_VC_GLOBAL_ORD_def)

lemma keeps_sys_holding:
  assumes "adapter_config_valid (adapter_default_config B)"
    and "wire_handle (wire_at (sys_holding_view B z A) off) = Some d"
  shows "keeps_adapter d"
  using assms(2)
  by (auto simp: wire_at_def sys_holding_view_def sys_wire_def unmapped_wire_def vc_global_regs_def
      split: if_splits option.splits intro: keeps_global [OF global_handle_in] keeps_config [OF assms(1)])

lemma keeps_channel_handle:
  assumes "reg_vc_channel_handle C ch ord = Some d" shows "keeps_adapter d"
proof -
  have "ord < length vc_regs" "unat ch < VC_MAX_CHANNELS C"
    and d: "d = vc_catalog_channel_regs C ! (ord * VC_MAX_CHANNELS C + unat ch)"
    using assms by (auto simp: reg_vc_channel_handle_def REG_VC_ORD_COUNT_def split: if_splits)
  then have "d = VC_DESC_INIT (kconf C) (word_of_nat (unat ch)) (vc_regs ! ord)"
    unfolding vc_catalog_channel_regs_def by (simp add: nth_concat_blocks)
  then show ?thesis by (intro keeps_catalog) (simp add: VC_DESC_INIT_def split: prod.splits)
qed

lemma ok_write_wire:
  assumes "write_wire B w ch channel reg t s = Some (st, s')" and "adapter_ok s"
    and "\<And>d. wire_desc B w ch channel = Some d \<Longrightarrow> keeps_adapter d"
  shows "adapter_ok s'"
  using assms by (auto simp: write_wire_def keeps_adapter_def split: if_splits option.splits)

lemma ok_write_sys:
  assumes "adapter_config_valid (adapter_default_config B)"
    and "vc_reg_write_sys_holding B z A off val t s = Some (st, s')" and "adapter_ok s"
  shows "adapter_ok s'"
  using assms(2,3)
  by (auto simp: vc_reg_write_sys_holding_def wire_desc_def split: if_splits
      elim!: ok_write_wire intro: keeps_sys_holding [OF assms(1)])

lemma ok_write_channel_wire:
  "write_wire B w ch True val t s = Some (st, s') \<Longrightarrow> adapter_ok s \<Longrightarrow> adapter_ok s'"
  by (erule ok_write_wire) (auto simp: wire_desc_def intro: keeps_channel_handle)

lemma ok_write_cal:
  "write_cal_command B ch off val t s = Some (st, s') \<Longrightarrow> adapter_ok s \<Longrightarrow> adapter_ok s'"
  by (auto simp: write_cal_command_def Let_def split: if_splits elim: ok_write_channel_wire)

lemma ok_read_local: "read_local B w ch c s = Some (v, s') \<Longrightarrow> adapter_ok s' = adapter_ok s"
  using adapter_ok_cong read_local_frame by blast

lemma ok_write_channel:
  assumes "vc_reg_write_ch_holding B ch off val t s = Some (st, s')" and "adapter_ok s"
  shows "adapter_ok s'"
proof -
  let ?through = "\<lambda>s. write_wire B (ch_wire_at ch_holding_view off) ch True val t s"
  obtain count s1 where 1: "read_local B (wire_at (sys_input_view B) SYS_SUPPORTED_CHANNELS) 0 False s = Some (count, s1)"
    using assms(1) by (auto simp: vc_reg_write_ch_holding_def bind_eq_Some_conv)
  then have ok1: "adapter_ok s1" using ok_read_local assms(2) by blast
  show ?thesis
  proof (cases "unat count \<le> unat ch")
    case True
    then show ?thesis using assms(1) ok1 by (simp add: vc_reg_write_ch_holding_def 1)
  next
    case False
    then obtain caps s2 where 2: "read_local B (ch_wire_at ch_input_view CH_CAPABILITY_FLAGS) ch True s1 = Some (caps, s2)"
      using assms(1) by (auto simp: vc_reg_write_ch_holding_def 1 bind_eq_Some_conv)
    then have ok2: "adapter_ok s2" using ok_read_local ok1 by blast
    show ?thesis
    proof (cases "\<not> ch_holding_supported caps off \<or> off = CH_OUTPUT_ACTION \<or> off = CH_FAULT_CMD \<or> off = CH_PARAM_ACTION")
      case True
      then have "(st, s') = (REG_UNSUPPORTED, s2) \<or> ?through s2 = Some (st, s')"
        using assms(1) False by (auto simp: vc_reg_write_ch_holding_def 1 2 split: if_splits)
      then show ?thesis using ok2 ok_write_channel_wire by blast
    next
      case mode: False
      then obtain mode s3 where 3: "read_local B (wire_at (sys_input_view B) SYS_ACTIVE_OPERATING_MODE) 0 False s2 = Some (mode, s3)"
        using assms(1) False by (auto simp: vc_reg_write_ch_holding_def 1 2 bind_eq_Some_conv)
      then have ok3: "adapter_ok s3" using ok_read_local ok2 by blast
      have "s' = s3 \<or> ?through s3 = Some (st, s') \<or> write_cal_command B ch off val t s3 = Some (st, s')"
        using assms(1) False mode by (auto simp: vc_reg_write_ch_holding_def 1 2 3 split: if_splits)
      then show ?thesis using ok3 ok_write_channel_wire ok_write_cal by blast
    qed
  qed
qed

lemma mb_write_Some: "mb_write r = Some (st, s') \<Longrightarrow> \<exists>st. r = Some (st, s')"
  by (auto simp: mb_write_def)

lemma mb_read_Some: "mb_read r = Some (st, v, s') \<Longrightarrow> \<exists>st. r = Some (st, v, s')"
  by (auto simp: mb_read_def)

lemma ok_param_action:
  assumes d: "adapter_config_valid (adapter_default_config B)"
    and w: "handle_sys_param_action B z A val t s = Some (st, s')" and ok: "adapter_ok s"
  shows "adapter_ok s'"
proof -
  let ?delegate = "\<lambda>s. mb_write (vc_reg_write_sys_holding B z A SYS_PARAM_ACTION val t s)"
  have delegate: "adapter_ok s1 \<Longrightarrow> ?delegate s1 = Some (r, s') \<Longrightarrow> adapter_ok s'" for s1 r
    using ok_write_sys [OF d] mb_write_Some by blast
  have boot: "adapter_config_valid c \<Longrightarrow> adapter_ok (set_boot c s)" for c by (rule ok_set_boot [OF ok])
  obtain rc c where l: "adapter_load_config B z (boot_cfg (adapter s)) s = (rc, c)" by fastforce
  obtain rs s1 where sv: "adapter_save_config z (adapter_default_config B) s = (rs, s1)" by fastforce
  have s1: "adapter_ok s1" "adapter_ok (set_boot (adapter_default_config B) s1)"
    using ok_save [OF sv] ok ok_set_boot [OF _ d] by simp_all
  show ?thesis
  proof (cases "val = SYS_PARAM_ACTION_SOFTWARE_RESET")
    case True
    then show ?thesis
      using w ok ok_reg_write [OF d] by (auto simp: handle_sys_param_action_def bind_eq_Some_conv split: if_splits)
  next
    case False
    then have "s' = s \<or> s' = s1 \<or> (\<exists>s0 r. adapter_ok s0 \<and> ?delegate s0 = Some (r, s'))"
      using w ok s1 boot [of c]
      by (auto simp: handle_sys_param_action_def Let_def l sv split: if_splits vc_param_action.splits)
    then show ?thesis using ok s1 delegate by blast
  qed
qed

lemma ok_holding_wr:
  assumes d: "adapter_config_valid (adapter_default_config B)"
    and w: "vc_mb_holding_wr B z A addr val t s = Some (st, s')" and ok: "adapter_ok s"
  shows "adapter_ok s'"
proof (cases "is_extension addr")
  case True
  then have "mb_write (vc_reg_write_ext B z A (addr - EXT_BLOCK_BASE) val t s) = Some (st, s')"
    using w by (simp add: vc_mb_holding_wr_def)
  from mb_write_Some [OF this] obtain r where "vc_reg_write_ext B z A (addr - EXT_BLOCK_BASE) val t s = Some (r, s')" ..
  then show ?thesis using ok ok_reg_write [OF d] by (auto simp: vc_reg_write_ext_def split: if_splits)
next
  case False
  show ?thesis
  proof (cases "addr_decode addr")
    case None
    then show ?thesis using w ok False by (simp add: vc_mb_holding_wr_def)
  next
    case (Some a)
    then show ?thesis
      using w ok False ok_param_action [OF d] ok_write_sys [OF d] ok_write_channel
      by (cases a) (auto simp: vc_mb_holding_wr_def split: if_splits dest!: mb_write_Some)
  qed
qed

lemma read_wire_ok: "read_wire B w ch c s = Some (st, r, s') \<Longrightarrow> adapter_ok s' = adapter_ok s"
  using adapter_ok_cong read_wire_frame by blast

lemma ok_read_ch_input:
  assumes "vc_reg_read_ch_input B ch off s = Some (st, v, s')" shows "adapter_ok s' = adapter_ok s"
  using assms
  by (auto simp: vc_reg_read_ch_input_def bind_eq_Some_conv split: if_splits dest!: ok_read_local read_wire_ok)

lemma ok_read_ch_holding:
  assumes "vc_reg_read_ch_holding B ch off s = Some (st, v, s')" shows "adapter_ok s' = adapter_ok s"
  using assms
  by (auto simp: vc_reg_read_ch_holding_def bind_eq_Some_conv split: if_splits dest!: ok_read_local read_wire_ok)

lemma ok_input_rd: "vc_mb_input_rd B addr s = Some (st, v, s') \<Longrightarrow> adapter_ok s' = adapter_ok s"
  by (auto simp: vc_mb_input_rd_def vc_reg_read_sys_input_def
      split: option.splits decoded.splits if_splits dest!: mb_read_Some ok_read_ch_input read_wire_ok)

lemma ok_holding_rd: "vc_mb_holding_rd B z A addr s = Some (st, v, s') \<Longrightarrow> adapter_ok s' = adapter_ok s"
  by (auto simp: vc_mb_holding_rd_def vc_reg_read_sys_holding_def
      split: option.splits decoded.splits if_splits dest!: mb_read_Some ok_read_ch_holding read_wire_ok)

lemma ok_init:
  assumes d: "adapter_config_valid (adapter_default_config B)" and i: "modbus_adapter_init B z A s = (rc, s')"
  shows "adapter_ok s'"
proof -
  obtain created s1 where c: "vc_mb_adapter_create B z s = (created, s1)" by fastforce
  have s1: "created \<Longrightarrow> adapter_ok s1"
    using c d by (auto simp: vc_mb_adapter_create_def Let_def adapter_ok_def set_active_def set_boot_def
        split: if_splits prod.splits dest!: save_frame)
  let ?s2 = "s1\<lparr>mb_iface := modbus_iface_get_by_name A (modbus_state s1)\<rparr>"
  obtain r s3 where w: "start_with A (active_cfg (adapter ?s2)) ?s2 = (r, s3)" by fastforce
  have "adapter_ok s3 = adapter_ok ?s2" "adapter_ok ?s2 = adapter_ok s1"
    using ok_start_with [OF w] by (simp_all add: adapter_ok_def)
  then show ?thesis
    using i c w s1
    by (cases created) (auto simp: modbus_adapter_init_def Let_def adapter_ok_def split: if_splits)
qed

subsection \<open>Histories\<close>

text \<open>
  What happens to the adapter: its start, the three requests of the server, a register write by id
  from anywhere, and any step of another part of the firmware.
\<close>

inductive modbus_step ::
    "fw_build \<Rightarrow> 's settings_api \<Rightarrow> 'm modbus_api \<Rightarrow> ('d, 's, 'm) firmware \<Rightarrow> ('d, 's, 'm) firmware \<Rightarrow> bool"
  for B z A where
  mb_start: "modbus_adapter_init B z A s = (rc, s') \<Longrightarrow> modbus_step B z A s s'"
| mb_input: "vc_mb_input_rd B addr s = Some (r, v, s') \<Longrightarrow> modbus_step B z A s s'"
| mb_holding: "vc_mb_holding_rd B z A addr s = Some (r, v, s') \<Longrightarrow> modbus_step B z A s s'"
| mb_holding_write: "vc_mb_holding_wr B z A addr val t s = Some (r, s') \<Longrightarrow> modbus_step B z A s s'"
| mb_register: "reg_write (firmware_catalog B z A) i v t s = Some (st, s') \<Longrightarrow> modbus_step B z A s s'"
| mb_elsewhere: "adapter s' = adapter s \<Longrightarrow> mb s' = mb s \<Longrightarrow> modbus_step B z A s s'"

lemma step_ok:
  assumes d: "adapter_config_valid (adapter_default_config B)"
    and "modbus_step B z A s s'" and ok: "adapter_ok s"
  shows "adapter_ok s'"
  using assms(2)
proof cases
  case mb_start
  then show ?thesis by (rule ok_init [OF d])
next
  case mb_input
  then show ?thesis using ok ok_input_rd by blast
next
  case mb_holding
  then show ?thesis using ok ok_holding_rd by blast
next
  case mb_holding_write
  then show ?thesis using ok ok_holding_wr [OF d] by blast
next
  case mb_register
  then show ?thesis using ok ok_reg_write [OF d] by blast
next
  case mb_elsewhere
  then show ?thesis using ok adapter_ok_cong by blast
qed

text \<open>
  C20. The serial line is always configured with a legal unit id and baud rate. Whatever the storage
  holds at the start and whatever is read, written, loaded, saved or reset afterwards, the active and the
  next-boot settings of a started adapter have an address in 1 to 247 and one of the four baud rate codes.
\<close>

theorem modbus_settings_always_valid:
  assumes unit_id: "1 \<le> CONFIG_VC_MODBUS_UNIT_ID B" "CONFIG_VC_MODBUS_UNIT_ID B \<le> 247"
    and run: "(modbus_step B z A)\<^sup>*\<^sup>* s0 s" and off: "\<not> mb s0" and on: "mb s"
  shows "adapter_config_valid (active_cfg (adapter s)) \<and> adapter_config_valid (boot_cfg (adapter s))"
proof -
  have "adapter_ok s"
    using run
  proof (induction rule: rtranclp_induct)
    case base
    then show ?case using off by (simp add: adapter_ok_def)
  next
    case (step s1 s2)
    then show ?case using step_ok [OF default_valid [OF unit_id]] by blast
  qed
  then show ?thesis using on by (simp add: adapter_ok_def)
qed

lemma modbus_settings_always_valid_witness:
  "\<exists>rc s. modbus_adapter_init bench_fw map_settings bench_line ((bench_firmware 0)\<lparr>mb := False\<rparr>) = (rc, s) \<and>
     adapter_config_valid (active_cfg (adapter s))"
proof -
  obtain rc s where i: "modbus_adapter_init bench_fw map_settings bench_line ((bench_firmware 0)\<lparr>mb := False\<rparr>) = (rc, s)"
    by fastforce
  have "mb s"
    using i by (auto simp: modbus_adapter_init_def vc_mb_adapter_create_def adapter_load_config_def bench_fw_def
        adapter_save_config_def map_settings_def Let_def start_with_def modbus_server_start_def bench_line_def
        set_active_def set_boot_def set_fw_nvs_def split: if_splits prod.splits)
  moreover have "(modbus_step bench_fw map_settings bench_line)\<^sup>*\<^sup>* ((bench_firmware 0)\<lparr>mb := False\<rparr>) s"
    using mb_start [OF i] by (rule r_into_rtranclp)
  ultimately show ?thesis
    using modbus_settings_always_valid [of bench_fw map_settings bench_line "(bench_firmware 0)\<lparr>mb := False\<rparr>" s] i
    by (auto simp: bench_fw_def)
qed

subsection \<open>The next boot\<close>

definition next_boot :: "u16 \<Rightarrow> u16 \<Rightarrow> mb_adapter_config \<Rightarrow> mb_adapter_config" where
  "next_boot addr val cfg =
     (if addr = SYS_SLAVE_ADDRESS then cfg\<lparr>slave_address := val\<rparr> else cfg\<lparr>baud_rate_code := val\<rparr>)"

lemma next_boot_request:
  assumes "addr = SYS_SLAVE_ADDRESS \<or> addr = SYS_BAUD_RATE_CODE"
  shows "vc_mb_holding_wr B z A addr val t s = mb_write (Some (answer_errno (adapter_write_next_boot_field B z
    (if addr = SYS_SLAVE_ADDRESS then REG_MODBUS_FIELD_NEXT_BOOT_SLAVE_ADDRESS
     else REG_MODBUS_FIELD_NEXT_BOOT_BAUD_RATE_CODE) val s)))"
  using assms
  by (elim disjE; simp add: vc_mb_holding_wr_def is_extension_def addr_decode_def vc_reg_write_sys_holding_def
      wire_at_def sys_holding_view_def sys_wire_def write_wire_def wire_desc_def MODBUS_CONFIG_DESCRIPTOR_def
      REG_DESCRIPTOR_DEFINE_def reg_write_descriptor_def modbus_reg_owner_def modbus_reg_write_def REG_MODBUS_ID_def
      Let_def mb_write_def)

lemma answer_ok: "mb_write (Some (answer_errno r)) = Some (VC_MB_OK, s') \<Longrightarrow> r = (0, s')"
  by (cases r) (auto simp: mb_write_def answer_errno_def errno_to_reg_status_def split: if_splits)

text \<open>
  C21. A next-boot setting is the setting of the next boot. When a Modbus write to the slave address or
  the baud rate register succeeds, the line keeps its active settings, and as long as nothing else
  writes the adapter's key in the storage, the next start takes the new setting, with the other one
  as it was set for the next boot, as both its active and its next-boot settings.
\<close>

theorem next_boot_settings_survive:
  assumes settings: "zephyr_settings z lookup"
    and addr: "addr = SYS_SLAVE_ADDRESS \<or> addr = SYS_BAUD_RATE_CODE"
    and wr: "vc_mb_holding_wr B z A addr val t s = Some (VC_MB_OK, s1)"
    and nvs: "lookup (fw_nvs s2) ''mb/cfg'' = lookup (fw_nvs s1) ''mb/cfg''"
  shows "active_cfg (adapter s1) = active_cfg (adapter s) \<and> modbus_state s1 = modbus_state s \<and>
    (\<exists>s3. vc_mb_adapter_create B z s2 = (True, s3) \<and>
       active_cfg (adapter s3) = next_boot addr val (boot_cfg (adapter s)) \<and>
       boot_cfg (adapter s3) = active_cfg (adapter s3))"
proof -
  let ?cfg = "next_boot addr val (boot_cfg (adapter s))"
  obtain rc s' where sv: "adapter_save_config z ?cfg s = (rc, s')" by fastforce
  have "CONFIG_SETTINGS B" and valid: "adapter_config_valid ?cfg" and rc: "rc = 0"
    and s1: "s1 = s'\<lparr>adapter := (adapter s')\<lparr>boot_cfg := ?cfg\<rparr>\<rparr>"
    using answer_ok [OF wr [unfolded next_boot_request [OF addr]]] addr sv
    by (auto simp: adapter_write_next_boot_field_def next_boot_def Let_def split: if_splits prod.splits)
  have "lookup (fw_nvs s1) ''mb/cfg'' = Some (Stored_Mb (slave_address ?cfg) (baud_rate_code ?cfg))"
    using sv rc zephyr_settings.save_one [OF settings]
    by (auto simp: s1 adapter_save_config_def fw_nvs_def set_fw_nvs_def split: prod.splits)
  then have "settings_load_key z ''mb/cfg'' 4 (fw_nvs s2) =
      (0, Some (Stored_Mb (slave_address ?cfg) (baud_rate_code ?cfg)))"
    using nvs by (intro zephyr_settings.load_key [OF settings]) simp_all
  then have "adapter_load_config B z c (set_boot d (s2\<lparr>mb := True\<rparr>)) = (0, ?cfg)" for c d
    using \<open>CONFIG_SETTINGS B\<close> by (simp add: adapter_load_config_def fw_nvs_def set_boot_def)
  then have "vc_mb_adapter_create B z s2 =
      (True, set_active ?cfg (set_boot ?cfg (set_boot (adapter_default_config B) (s2\<lparr>mb := True\<rparr>))))"
    using valid by (simp add: vc_mb_adapter_create_def Let_def)
  moreover have "adapter s' = adapter s" "modbus_state s' = modbus_state s"
    using sv by (auto simp: adapter_save_config_def set_fw_nvs_def split: prod.splits)
  ultimately show ?thesis by (simp add: s1 set_active_def set_boot_def)
qed

lemma next_boot_settings_survive_witness:
  "\<exists>s1 s3. vc_mb_holding_wr bench_fw map_settings bench_line SYS_SLAVE_ADDRESS 17 (Wait_Events [] [])
        (bench_firmware 0) = Some (VC_MB_OK, s1) \<and>
     vc_mb_adapter_create bench_fw map_settings ((bench_firmware 0)\<lparr>vc_memory := vc_memory s1\<rparr>) = (True, s3) \<and>
     slave_address (active_cfg (adapter s3)) = 17"
proof -
  obtain s1 where w: "vc_mb_holding_wr bench_fw map_settings bench_line SYS_SLAVE_ADDRESS 17 (Wait_Events [] [])
      (bench_firmware 0) = Some (VC_MB_OK, s1)"
    by (simp add: next_boot_request adapter_write_next_boot_field_def Let_def bench_fw_def bench_firmware_def
        adapter_config_valid_def adapter_default_config_def baud_rate_to_code_def adapter_save_config_def
        map_settings_def mb_write_def answer_errno_def errno_to_reg_status_def)
  have z: "zephyr_settings map_settings (\<lambda>s. s)" by unfold_locales
  show ?thesis
    using next_boot_settings_survive [OF z _ w, of "(bench_firmware 0)\<lparr>vc_memory := vc_memory s1\<rparr>"] w
    by (auto simp: fw_nvs_def next_boot_def)
qed

end
