(* ===== verification/Board_Io.thy ===== *)
theory Board_Io
  imports Vc_Channel_Api
begin

text \<open>
  The pins and buses behind a channel driver. They belong to Zephyr and to the chips, so each function is
  a parameter: \<open>'h\<close> is the state of the hardware of one channel. The locale states what the
  drivers rely on: a GPIO of the microcontroller takes the level it is set to, an SPI write that the
  converter latches is the code that was sent, and neither touches the other.
\<close>

record 'h board_io =
  spi_is_ready :: bool
  spi_write :: "u16 \<Rightarrow> 'h \<Rightarrow> int \<times> 'h"
  gpio_is_ready :: bool
  gpio_pin_set :: "bool \<Rightarrow> 'h \<Rightarrow> int \<times> 'h"
  gpio_configure_inactive :: "'h \<Rightarrow> 'h"
  adc_is_ready :: bool
  start_conversion :: "u8 \<Rightarrow> 'h \<Rightarrow> 'h"

locale board_pins =
  fixes io :: "'h board_io"
    and line :: "'h \<Rightarrow> bool"
    and code :: "'h \<Rightarrow> u16"
  assumes gpio_set: "gpio_pin_set io b h = (rc, h') \<Longrightarrow> line h' = b \<and> code h' = code h"
    and gpio_inactive: "\<not> line (gpio_configure_inactive io h) \<and> code (gpio_configure_inactive io h) = code h"
    and spi_latch: "spi_write io v h = (rc, h') \<Longrightarrow> line h' = line h \<and> (code h' = v \<or> code h' = code h)"
    and adc_start: "line (start_conversion io c h) = line h \<and> code (start_conversion io c h) = code h"
begin

lemma set_line: "line (snd (gpio_pin_set io b h)) = b" and set_code: "code (snd (gpio_pin_set io b h)) = code h"
  using gpio_set by (metis prod.collapse)+

lemma write_line: "line (snd (spi_write io v h)) = line h"
  using spi_latch by (metis prod.collapse)

lemma write_code: "code (snd (spi_write io v h)) = v \<or> code (snd (spi_write io v h)) = code h"
  using spi_latch by (metis prod.collapse)

end

text \<open>A board that behaves so: the enable line, the code the converter holds, the running conversion.\<close>

record pins =
  enable_level :: bool
  dac_code :: u16
  converting :: "u8 option"

definition plain_board :: "pins board_io" where
  "plain_board =
    \<lparr>spi_is_ready = True, spi_write = \<lambda>v h. (0, h\<lparr>dac_code := v\<rparr>),
     gpio_is_ready = True, gpio_pin_set = \<lambda>b h. (0, h\<lparr>enable_level := b\<rparr>),
     gpio_configure_inactive = \<lambda>h. h\<lparr>enable_level := False\<rparr>,
     adc_is_ready = True, start_conversion = \<lambda>c h. h\<lparr>converting := Some c\<rparr>\<rparr>"

interpretation plain: board_pins plain_board enable_level dac_code
  by unfold_locales (auto simp: plain_board_def)

end
