(* ===== verification/Ads1232.thy ===== *)
theory Ads1232
  imports Board_Io
begin

text \<open>
  The 24-bit converter of the HVB boards, \<open>drivers/sensor/ads1232/ads1232.c\<close>: the bit-banged transfer, the
  blocking read and the interrupt-driven read. The chip behind the pins is not part of the
  repository: its pins are a parameter, \<open>'p\<close> its state, and the locale states what its data sheet says of a
  transfer. The mutex makes each operation one step.

  The pending sequence always writes the one buffer of its caller, so the pointer to it is a flag and the
  conversion is the result of the work handler.
\<close>

unbundle bit_operations_syntax

abbreviation (input) EBUSY :: int where "EBUSY \<equiv> 16"
abbreviation (input) ETIMEDOUT :: int where "ETIMEDOUT \<equiv> 116"

text \<open>Levels are logical, except \<open>dout\<close>, which is the raw level of the pin shared with DRDY.\<close>

record 'p ads1232_io =
  set_sclk :: "bool \<Rightarrow> 'p \<Rightarrow> 'p"
  set_a0 :: "bool \<Rightarrow> 'p \<Rightarrow> 'p"
  set_a1 :: "bool \<Rightarrow> 'p \<Rightarrow> 'p"
  set_gain0 :: "bool \<Rightarrow> 'p \<Rightarrow> 'p"
  set_gain1 :: "bool \<Rightarrow> 'p \<Rightarrow> 'p"
  set_pwdn :: "bool \<Rightarrow> 'p \<Rightarrow> 'p"
  drdy :: "'p \<Rightarrow> bool"
  dout :: "'p \<Rightarrow> bool"
  sleep_1ms :: "'p \<Rightarrow> 'p"

record ads1232_config =
  has_a0 :: bool
  has_a1 :: bool
  has_gain0 :: bool
  has_gain1 :: bool
  init_gain :: int
  runtime_gain :: bool

record 'p ads1232_data =
  async_work :: bool
  async_signal :: bool
  async_seq :: bool
  async_ch :: bool
  drdy_interrupt :: bool
  ads_pins :: 'p

datatype adc_gain = ADC_GAIN_1 | ADC_GAIN_2

subsection \<open>Gain and channel\<close>

definition ads1232_int_to_gain :: "int \<Rightarrow> adc_gain" where
  "ads1232_int_to_gain g = (if g = 2 then ADC_GAIN_2 else ADC_GAIN_1)"

definition ads1232_set_gain_gpios :: "ads1232_config \<Rightarrow> 'p ads1232_io \<Rightarrow> adc_gain \<Rightarrow> 'p \<Rightarrow> 'p" where
  "ads1232_set_gain_gpios cfg io gain p =
     (if \<not> has_gain0 cfg \<or> \<not> has_gain1 cfg then p
      else set_gain1 io False (set_gain0 io (gain = ADC_GAIN_2) p))"

definition ads1232_channel_setup ::
    "ads1232_config \<Rightarrow> 'p ads1232_io \<Rightarrow> u8 \<Rightarrow> adc_gain \<Rightarrow> 'p \<Rightarrow> int \<times> 'p" where
  "ads1232_channel_setup cfg io ch gain p =
     (if 1 < ch then (- EINVAL, p)
      else (0, if runtime_gain cfg then ads1232_set_gain_gpios cfg io gain p else p))"

subsection \<open>The transfer\<close>

text \<open>One turn of the loop over the data bits, then the loop, then the whole transfer.\<close>

definition shift_bit :: "'p ads1232_io \<Rightarrow> s32 \<times> 'p \<Rightarrow> s32 \<times> 'p" where
  "shift_bit io vp =
     (case vp of (v, p) \<Rightarrow>
        let p1 = set_sclk io True p
        in (push_bit 1 v OR (if dout io p1 then 1 else 0), set_sclk io False p1))"

definition ads1232_bitbang_read :: "'p ads1232_io \<Rightarrow> 'p \<Rightarrow> s32 \<times> 'p" where
  "ads1232_bitbang_read io p =
     (let (v, p1) = (shift_bit io ^^ 24) (0, p);
          p2 = set_sclk io False (set_sclk io True p1)
      in (if v AND 0x800000 \<noteq> 0 then v OR 0xFF000000 else v, p2))"

subsection \<open>The blocking read\<close>

fun wait_drdy :: "'p ads1232_io \<Rightarrow> nat \<Rightarrow> 'p \<Rightarrow> nat \<times> 'p" where
  "wait_drdy io 0 p = (0, p)"
| "wait_drdy io (Suc timeout) p =
     (if drdy io p then (Suc timeout, p) else wait_drdy io timeout (sleep_1ms io p))"

definition ads1232_read_one ::
    "ads1232_config \<Rightarrow> 'p ads1232_io \<Rightarrow> bool \<Rightarrow> 'p \<Rightarrow> (int + s32) \<times> 'p" where
  "ads1232_read_one cfg io ch p =
     (let p1 = (if has_a0 cfg then set_a0 io ch p else p);
          (timeout, p2) = wait_drdy io 420 p1
      in if timeout = 0 then (Inl (- ETIMEDOUT), p2)
         else case ads1232_bitbang_read io p2 of (v, p3) \<Rightarrow> (Inr v, p3))"

text \<open>The buffer as the list of the values written; an error leaves the rest of it as it was.\<close>

definition ads1232_read ::
    "ads1232_config \<Rightarrow> 'p ads1232_io \<Rightarrow> u8 \<Rightarrow> nat \<Rightarrow> 'p ads1232_data \<Rightarrow> int \<times> s32 list \<times> 'p ads1232_data" where
  "ads1232_read cfg io chans buffer_size d =
     (if chans = 0 \<or> chans AND NOT 3 \<noteq> 0 then (- EINVAL, [], d)
      else if buffer_size < 4 * ((if chans AND 1 \<noteq> 0 then 1 else 0) + (if chans AND 2 \<noteq> 0 then 1 else 0))
      then (- ENOMEM, [], d)
      else
        let second = (\<lambda>buf p.
              if chans AND 2 \<noteq> 0 then
                (case ads1232_read_one cfg io True p of
                   (Inl e, p1) \<Rightarrow> (e, buf, d\<lparr>ads_pins := p1\<rparr>)
                 | (Inr v, p1) \<Rightarrow> (0, buf @ [v], d\<lparr>ads_pins := p1\<rparr>))
              else (0, buf, d\<lparr>ads_pins := p\<rparr>))
        in if chans AND 1 \<noteq> 0 then
             (case ads1232_read_one cfg io False (ads_pins d) of
                (Inl e, p1) \<Rightarrow> (e, [], d\<lparr>ads_pins := p1\<rparr>)
              | (Inr v, p1) \<Rightarrow> second [v] p1)
           else second [] (ads_pins d))"

subsection \<open>The interrupt-driven read\<close>

text \<open>The handler's result: the conversion it wrote, if any, and whether it raised a signal.\<close>

definition ads1232_async_work_handler ::
    "'p ads1232_io \<Rightarrow> 'p ads1232_data \<Rightarrow> s32 option \<times> bool \<times> 'p ads1232_data" where
  "ads1232_async_work_handler io d =
     (let d1 = d\<lparr>async_work := False\<rparr> in
      if async_seq d1 then
        (case ads1232_bitbang_read io (ads_pins d1) of (v, p) \<Rightarrow>
           (Some v, async_signal d1, d1\<lparr>ads_pins := p, async_seq := False, async_signal := False\<rparr>))
      else (None, async_signal d1, d1))"

text \<open>The edge of DRDY reaches the handler only while its interrupt is armed.\<close>

definition ads1232_drdy_isr :: "'p ads1232_data \<Rightarrow> 'p ads1232_data" where
  "ads1232_drdy_isr d = (if drdy_interrupt d then d\<lparr>drdy_interrupt := False, async_work := True\<rparr> else d)"

definition ads1232_read_async ::
    "ads1232_config \<Rightarrow> 'p ads1232_io \<Rightarrow> u8 \<Rightarrow> nat \<Rightarrow> bool \<Rightarrow> 'p ads1232_data \<Rightarrow> int \<times> 'p ads1232_data" where
  "ads1232_read_async cfg io chans buffer_size async d =
     (if chans = 0 \<or> chans AND NOT 3 \<noteq> 0 then (- EINVAL, d)
      else if chans AND 3 = 3 then (- ENOTSUP, d)
      else if buffer_size < 4 then (- ENOMEM, d)
      else if async_seq d then (- EBUSY, d)
      else
        let ch = (chans AND 1 = 0);
            p1 = (if has_a0 cfg then set_a0 io ch (ads_pins d) else ads_pins d);
            p2 = (if drdy io p1 then snd (ads1232_bitbang_read io p1) else p1);
            d1 = d\<lparr>ads_pins := p2, async_ch := ch, async_signal := async, async_seq := True,
                    drdy_interrupt := True\<rparr>
        in (0, if drdy io p2 then d1\<lparr>drdy_interrupt := False, async_work := True\<rparr> else d1))"

subsection \<open>Start\<close>

text \<open>The three results are those of the configurations of SCLK, PWDN and DRDY; an optional pin may be absent.\<close>

definition ads1232_init ::
    "ads1232_config \<Rightarrow> 'p ads1232_io \<Rightarrow> bool \<Rightarrow> int \<Rightarrow> int \<Rightarrow> int \<Rightarrow> 'p ads1232_data \<Rightarrow>
     int \<times> 'p ads1232_data" where
  "ads1232_init cfg io port_ready sclk_rc pwdn_rc drdy_rc d =
     (let d1 = d\<lparr>async_work := False, async_signal := False, async_seq := False, async_ch := False\<rparr> in
      if \<not> port_ready then (- ENODEV, d1)
      else if sclk_rc < 0 then (sclk_rc, d1)
      else let p1 = set_sclk io False (ads_pins d1) in
      if pwdn_rc < 0 then (pwdn_rc, d1\<lparr>ads_pins := p1\<rparr>)
      else let p2 = set_pwdn io False p1 in
      if drdy_rc < 0 then (drdy_rc, d1\<lparr>ads_pins := p2\<rparr>)
      else
        let p3 = (if has_gain0 cfg then set_gain0 io False p2 else p2);
            p4 = (if has_gain1 cfg then set_gain1 io False p3 else p3);
            p5 = (if has_a0 cfg then set_a0 io False p4 else p4);
            p6 = (if has_a1 cfg then set_a1 io False p5 else p5);
            p7 = set_pwdn io False (set_pwdn io True (set_pwdn io False (set_pwdn io True p6)))
        in (0, d1\<lparr>ads_pins := ads1232_set_gain_gpios cfg io (ads1232_int_to_gain (init_gain cfg)) p7\<rparr>))"

subsection \<open>What the chip does on a clock\<close>

text \<open>
  A rising clock puts the next bit of the conversion on the pin, most significant first; after the last
  the pin is high. \<open>clocks\<close> counts the rising clocks.
\<close>

locale ads1232_chip =
  fixes io :: "'p ads1232_io"
    and pending :: "'p \<Rightarrow> bool list"
    and clocks :: "'p \<Rightarrow> nat"
  assumes rise_bit: "pending p = b # bs \<Longrightarrow> dout io (set_sclk io True p) = b \<and> pending (set_sclk io True p) = bs"
    and rise_end: "pending p = [] \<Longrightarrow> pending (set_sclk io True p) = []"
    and rise_clock: "clocks (set_sclk io True p) = clocks p + 1"
    and fall: "pending (set_sclk io False p) = pending p \<and> clocks (set_sclk io False p) = clocks p"

end
