(* ===== verification/Ad5541.thy ===== *)
theory Ad5541
  imports Board_Io
begin

text \<open>The 16-bit converter of the HVB boards, \<open>drivers/dac/ad5541/ad5541.c\<close>.\<close>

unbundle bit_operations_syntax

definition ad5541_channel_setup :: "u8 \<Rightarrow> u8 \<Rightarrow> int" where
  "ad5541_channel_setup ch resolution =
     (if ch \<noteq> 0 then - ENOTSUP else if resolution \<noteq> 16 then - ENOTSUP else 0)"

definition ad5541_write_value :: "'h board_io \<Rightarrow> u8 \<Rightarrow> u32 \<Rightarrow> 'h \<Rightarrow> int \<times> 'h" where
  "ad5541_write_value io channel v h =
     (if channel \<noteq> 0 then (- ENOTSUP, h) else spi_write io (ucast (v AND 0xFFFF)) h)"

definition ad5541_init :: "'h board_io \<Rightarrow> int" where
  "ad5541_init io = (if \<not> spi_is_ready io then - ENODEV else 0)"

text \<open>A code is sent whole: the mask and the narrowing do not change a 16-bit value.\<close>

lemma ad5541_sends_code: "ad5541_write_value io 0 (ucast (c :: u16)) h = spi_write io c h"
proof -
  have mask: "(0xFFFF :: u32) = mask 16" by (simp add: mask_eq_exp_minus_1)
  have "(ucast (ucast c AND (0xFFFF :: u32)) :: u16) = c"
    unfolding mask by (rule bit_word_eqI) (auto simp: bit_simps)
  then show ?thesis by (simp add: ad5541_write_value_def)
qed

end
