(* ===== verification/Hvb_Vc_Channel.thy ===== *)
theory Hvb_Vc_Channel
  imports Ad5541
begin

text \<open>
  The channel driver of the HVB boards, \<open>drivers/voltage_control/hvb_vc_channel/hvb_vc_channel.c\<close>: a
  bounded code to the converter, the enable line, and a sampling loop that alternates between the voltage
  and the current input of the ADC. \<open>device_is_ready\<close> of the converter is the result of its
  initialisation.

  The poll work item of the loop is \<open>hvb_poll\<close>: submitted and waiting for the ADC's signal, or queued with
  its result, or neither. A cancelled item that is already queued still runs; an item that is queued
  is not submitted again.
\<close>

unbundle bit_operations_syntax

abbreviation (input) ADC_CH_CURRENT :: u8 where "ADC_CH_CURRENT \<equiv> 1"
abbreviation (input) ADC_CH_VOLTAGE :: u8 where "ADC_CH_VOLTAGE \<equiv> 2"

record hvb_vc_config =
  hvb_max_raw_dac :: u16
  hvb_capabilities :: u16
  hvb_channel_index :: u8
  CONFIG_ADC_ASYNC :: bool

datatype hvb_adc_phase = ADC_PHASE_VOLTAGE | ADC_PHASE_CURRENT

datatype work_poll = Poll_Idle | Poll_Waiting | Poll_Queued int

record 'h hvb_vc_data =
  hvb_channel :: u8
  hvb_meas :: vc_channel_buffer
  hvb_meas_cb :: bool
  hvb_notified :: nat
  hvb_poll :: work_poll
  adc_channels :: u8
  adc_buf :: s32
  adc_phase :: hvb_adc_phase
  hvb_sampling_active :: bool
  hvb_hw :: 'h

subsection \<open>Output and enable\<close>

definition hvb_vc_set_output ::
    "hvb_vc_config \<Rightarrow> 'h board_io \<Rightarrow> 'h hvb_vc_data \<Rightarrow> u16 \<Rightarrow> int \<times> 'h hvb_vc_data" where
  "hvb_vc_set_output cfg io d c =
     (if hvb_max_raw_dac cfg < c then (- EINVAL, d)
      else case ad5541_write_value io 0 (ucast c) (hvb_hw d) of (rc, h) \<Rightarrow> (rc, d\<lparr>hvb_hw := h\<rparr>))"

definition hvb_vc_set_enable :: "'h board_io \<Rightarrow> 'h hvb_vc_data \<Rightarrow> bool \<Rightarrow> int \<times> 'h hvb_vc_data" where
  "hvb_vc_set_enable io d enable =
     (case gpio_pin_set io enable (hvb_hw d) of (rc, h) \<Rightarrow> (rc, d\<lparr>hvb_hw := h\<rparr>))"

subsection \<open>The sampling loop\<close>

definition hvb_vc_notify_meas :: "'h hvb_vc_data \<Rightarrow> 'h hvb_vc_data" where
  "hvb_vc_notify_meas d = (if hvb_meas_cb d then d\<lparr>hvb_notified := hvb_notified d + 1\<rparr> else d)"

definition k_work_poll_submit :: "work_poll \<Rightarrow> work_poll" where
  "k_work_poll_submit p = (case p of Poll_Queued r \<Rightarrow> Poll_Queued r | _ \<Rightarrow> Poll_Waiting)"

definition k_work_poll_cancel :: "work_poll \<Rightarrow> work_poll" where
  "k_work_poll_cancel p = (case p of Poll_Waiting \<Rightarrow> Poll_Idle | _ \<Rightarrow> p)"

definition hvb_vc_submit_read :: "'h board_io \<Rightarrow> u8 \<Rightarrow> 'h hvb_vc_data \<Rightarrow> 'h hvb_vc_data" where
  "hvb_vc_submit_read io adc_ch d =
     d\<lparr>adc_channels := adc_ch, hvb_hw := start_conversion io adc_ch (hvb_hw d),
       hvb_poll := k_work_poll_submit (hvb_poll d)\<rparr>"

definition hvb_vc_start_next_cycle ::
    "hvb_vc_config \<Rightarrow> 'h board_io \<Rightarrow> 'h hvb_vc_data \<Rightarrow> 'h hvb_vc_data" where
  "hvb_vc_start_next_cycle cfg io d =
     (if hvb_capabilities cfg AND CH_CAP_VOLTAGE_MEASUREMENT \<noteq> 0
      then hvb_vc_submit_read io ADC_CH_VOLTAGE (d\<lparr>adc_phase := ADC_PHASE_VOLTAGE\<rparr>)
      else hvb_vc_submit_read io ADC_CH_CURRENT (d\<lparr>adc_phase := ADC_PHASE_CURRENT\<rparr>))"

text \<open>The handler with the result the item was queued with; the item may be submitted again from here.\<close>

definition hvb_vc_poll_handler ::
    "hvb_vc_config \<Rightarrow> 'h board_io \<Rightarrow> int \<Rightarrow> u32 \<Rightarrow> 'h hvb_vc_data \<Rightarrow> 'h hvb_vc_data" where
  "hvb_vc_poll_handler cfg io poll_result now d0 =
     (let d = d0\<lparr>hvb_poll := Poll_Idle\<rparr>; raw = adc_buf d in
      if poll_result \<noteq> 0
      then (if hvb_sampling_active d then hvb_vc_start_next_cycle cfg io d else d)
      else case adc_phase d of
        ADC_PHASE_VOLTAGE \<Rightarrow>
          let d1 = hvb_vc_notify_meas
                (d\<lparr>hvb_meas := vc_channel_buffer_publish_voltage (hvb_meas d) raw now\<rparr>) in
          if hvb_capabilities cfg AND CH_CAP_CURRENT_MEASUREMENT \<noteq> 0
          then hvb_vc_submit_read io ADC_CH_CURRENT (d1\<lparr>adc_phase := ADC_PHASE_CURRENT\<rparr>)
          else if hvb_sampling_active d1 then hvb_vc_start_next_cycle cfg io d1 else d1
      | ADC_PHASE_CURRENT \<Rightarrow>
          let d1 = hvb_vc_notify_meas
                (d\<lparr>hvb_meas := vc_channel_buffer_publish_current (hvb_meas d) raw now\<rparr>) in
          if hvb_sampling_active d1 then hvb_vc_start_next_cycle cfg io d1 else d1)"

definition hvb_vc_start_sampling ::
    "hvb_vc_config \<Rightarrow> 'h board_io \<Rightarrow> 'h hvb_vc_data \<Rightarrow> int \<times> 'h hvb_vc_data" where
  "hvb_vc_start_sampling cfg io d =
     (if \<not> CONFIG_ADC_ASYNC cfg then (0, d)
      else if hvb_capabilities cfg AND (CH_CAP_VOLTAGE_MEASUREMENT OR CH_CAP_CURRENT_MEASUREMENT) = 0 then (0, d)
      else (0, hvb_vc_start_next_cycle cfg io (d\<lparr>hvb_sampling_active := True\<rparr>)))"

definition hvb_vc_stop_sampling :: "hvb_vc_config \<Rightarrow> 'h hvb_vc_data \<Rightarrow> int \<times> 'h hvb_vc_data" where
  "hvb_vc_stop_sampling cfg d =
     (if \<not> CONFIG_ADC_ASYNC cfg then (0, d)
      else (0, d\<lparr>hvb_sampling_active := False, hvb_poll := k_work_poll_cancel (hvb_poll d)\<rparr>))"

definition hvb_vc_get_capabilities :: "hvb_vc_config \<Rightarrow> 'h hvb_vc_data \<Rightarrow> u16" where
  "hvb_vc_get_capabilities cfg d = hvb_capabilities cfg"

definition hvb_vc_set_meas_callback :: "'h hvb_vc_data \<Rightarrow> int \<times> 'h hvb_vc_data" where
  "hvb_vc_set_meas_callback d = (0, d\<lparr>hvb_meas_cb := True\<rparr>)"

definition hvb_vc_hw_api :: "hvb_vc_config \<Rightarrow> 'h board_io \<Rightarrow> 'h hvb_vc_data vc_channel_api" where
  "hvb_vc_hw_api cfg io =
    \<lparr> set_output = Some (hvb_vc_set_output cfg io), set_enable = Some (hvb_vc_set_enable io),
      start_sampling = Some (hvb_vc_start_sampling cfg io), stop_sampling = Some (hvb_vc_stop_sampling cfg),
      get_capabilities = Some (hvb_vc_get_capabilities cfg), set_meas_callback = Some hvb_vc_set_meas_callback,
      get_dt_defaults = None \<rparr>"

definition hvb_vc_init :: "hvb_vc_config \<Rightarrow> 'h board_io \<Rightarrow> 'h hvb_vc_data \<Rightarrow> int \<times> 'h hvb_vc_data" where
  "hvb_vc_init cfg io d =
     (if ad5541_init io \<noteq> 0 then (- ENODEV, d)
      else if ad5541_channel_setup 0 16 < 0 then (ad5541_channel_setup 0 16, d)
      else if hvb_capabilities cfg AND (CH_CAP_VOLTAGE_MEASUREMENT OR CH_CAP_CURRENT_MEASUREMENT) \<noteq> 0 \<and>
              \<not> adc_is_ready io
      then (- ENODEV, d)
      else if \<not> gpio_is_ready io then (- ENODEV, d)
      else
        let d1 = d\<lparr>hvb_hw := gpio_configure_inactive io (hvb_hw d), hvb_channel := hvb_channel_index cfg\<rparr>
        in (0, if CONFIG_ADC_ASYNC cfg then d1\<lparr>hvb_poll := Poll_Idle\<rparr> else d1))"

subsection \<open>The driver is a channel driver\<close>

sublocale board_pins \<subseteq> hvb: vc_channel_driver
  "hvb_vc_set_output cfg io" "hvb_vc_set_enable io" "\<lambda>d. line (hvb_hw d)" "\<lambda>d. True" for cfg
  by unfold_locales
    (auto simp: hvb_vc_set_output_def hvb_vc_set_enable_def ad5541_sends_code split: prod.splits
      dest: gpio_set spi_latch)

end
