(* ===== verification/Lvb_Vc_Channel.thy ===== *)
theory Lvb_Vc_Channel
  imports Board_Io
begin

text \<open>
  The channel driver of the LVB boards, \<open>drivers/voltage_control/lvb_vc_channel/lvb_vc_channel.c\<close>: no
  output to set, an enable line, and a timer that takes one reading of each input per period and publishes
  the mean of \<open>oversample_count\<close> readings. A reading is the return code of the ADC and the
  value it left in the buffer; the sums of 64 bits are undefined (\<open>None\<close>) where C overflows, as is
  the division by a count of 0.
\<close>

record lvb_vc_config =
  calib_current_b :: s16
  lvb_capabilities :: u16
  lvb_channel_index :: u8
  sample_rate_ms :: u16
  oversample_count :: u8
  default_output_disabled :: bool

record 'h lvb_vc_data =
  lvb_meas_cb :: bool
  lvb_notified :: nat
  lvb_meas :: vc_channel_buffer
  lvb_timer :: bool
  lvb_sampling_active :: bool
  v_accum :: int
  i_accum :: int
  sample_count :: u8
  lvb_hw :: 'h

type_synonym reading = "int \<times> s16"

definition lvb_vc_set_output :: "'h lvb_vc_data \<Rightarrow> u16 \<Rightarrow> int \<times> 'h lvb_vc_data" where
  "lvb_vc_set_output d c = (- ENOTSUP, d)"

definition lvb_vc_set_enable :: "'h board_io \<Rightarrow> 'h lvb_vc_data \<Rightarrow> bool \<Rightarrow> int \<times> 'h lvb_vc_data" where
  "lvb_vc_set_enable io d enable =
     (case gpio_pin_set io enable (lvb_hw d) of (rc, h) \<Rightarrow> (rc, d\<lparr>lvb_hw := h\<rparr>))"

definition accumulate :: "reading \<Rightarrow> int \<Rightarrow> int option" where
  "accumulate r acc = (if fst r = 0 then int64 (acc + sint (snd r)) else Some acc)"

definition lvb_vc_sample_work_fn ::
    "lvb_vc_config \<Rightarrow> reading \<Rightarrow> reading \<Rightarrow> u32 \<Rightarrow> 'h lvb_vc_data \<Rightarrow> 'h lvb_vc_data option" where
  "lvb_vc_sample_work_fn cfg v i now d =
     (if \<not> lvb_sampling_active d then Some d
      else do {
        va \<leftarrow> accumulate v (v_accum d);
        ia \<leftarrow> accumulate i (i_accum d);
        let d1 = d\<lparr>v_accum := va, i_accum := ia, sample_count := sample_count d + 1\<rparr>;
        if oversample_count cfg \<le> sample_count d1
        then (if oversample_count cfg = 0 then None
              else
                let n = uint (oversample_count cfg);
                    m = vc_channel_buffer_publish_current
                          (vc_channel_buffer_publish_voltage (lvb_meas d1) (word_of_int (c_div va n)) now)
                          (word_of_int (c_div ia n)) now
                in Some (d1\<lparr>lvb_meas := m,
                            lvb_notified := lvb_notified d1 + (if lvb_meas_cb d1 then 1 else 0),
                            v_accum := 0, i_accum := 0, sample_count := 0\<rparr>))
        else Some d1
      })"

definition lvb_vc_start_sampling :: "'h lvb_vc_data \<Rightarrow> int \<times> 'h lvb_vc_data" where
  "lvb_vc_start_sampling d =
     (0, d\<lparr>lvb_sampling_active := True, v_accum := 0, i_accum := 0, sample_count := 0, lvb_timer := True\<rparr>)"

definition lvb_vc_stop_sampling :: "'h lvb_vc_data \<Rightarrow> int \<times> 'h lvb_vc_data" where
  "lvb_vc_stop_sampling d = (0, d\<lparr>lvb_sampling_active := False, lvb_timer := False\<rparr>)"

definition lvb_vc_get_capabilities :: "lvb_vc_config \<Rightarrow> 'h lvb_vc_data \<Rightarrow> u16" where
  "lvb_vc_get_capabilities cfg d = lvb_capabilities cfg"

definition lvb_vc_set_meas_callback :: "'h lvb_vc_data \<Rightarrow> int \<times> 'h lvb_vc_data" where
  "lvb_vc_set_meas_callback d = (0, d\<lparr>lvb_meas_cb := True\<rparr>)"

definition lvb_get_dt_defaults ::
    "lvb_vc_config \<Rightarrow> 'h lvb_vc_data \<Rightarrow> vc_channel_config \<Rightarrow> vc_channel_cal_config \<Rightarrow>
     int \<times> vc_channel_config \<times> vc_channel_cal_config" where
  "lvb_get_dt_defaults cfg d cfg_out cal =
     (0, if default_output_disabled cfg then cfg_out\<lparr>configured_output_enabled := False\<rparr> else cfg_out,
      cal\<lparr>measured_current_calib_b := calib_current_b cfg\<rparr>)"

definition lvb_vc_hw_api :: "lvb_vc_config \<Rightarrow> 'h board_io \<Rightarrow> 'h lvb_vc_data vc_channel_api" where
  "lvb_vc_hw_api cfg io =
    \<lparr> set_output = Some lvb_vc_set_output, set_enable = Some (lvb_vc_set_enable io),
      start_sampling = Some lvb_vc_start_sampling, stop_sampling = Some lvb_vc_stop_sampling,
      get_capabilities = Some (lvb_vc_get_capabilities cfg), set_meas_callback = Some lvb_vc_set_meas_callback,
      get_dt_defaults = Some (lvb_get_dt_defaults cfg) \<rparr>"

text \<open>The two inputs may be on different converters.\<close>

definition lvb_vc_init ::
    "lvb_vc_config \<Rightarrow> 'h board_io \<Rightarrow> bool \<Rightarrow> bool \<Rightarrow> 'h lvb_vc_data \<Rightarrow> int \<times> 'h lvb_vc_data" where
  "lvb_vc_init cfg io voltage_ready current_ready d =
     (if \<not> gpio_is_ready io then (- ENODEV, d)
      else
        let d1 = d\<lparr>lvb_hw := gpio_configure_inactive io (lvb_hw d)\<rparr> in
        if \<not> voltage_ready then (- ENODEV, d1)
        else if \<not> current_ready then (- ENODEV, d1)
        else (0, d1\<lparr>lvb_timer := False\<rparr>))"

subsection \<open>The driver is a channel driver\<close>

sublocale board_pins \<subseteq> lvb: vc_channel_driver
  lvb_vc_set_output "lvb_vc_set_enable io" "\<lambda>d. line (lvb_hw d)" "\<lambda>d. True"
  by unfold_locales
    (auto simp: lvb_vc_set_output_def lvb_vc_set_enable_def split: prod.splits dest: gpio_set)

end
