(* ===== verification/Driver_Props.thy ===== *)
theory Driver_Props
  imports Hvb_Vc_Channel Lvb_Vc_Channel
begin

text \<open>
  What the channel drivers promise: the code on the converter of an HVB channel stays in its range and the
  enable line is the one commanded, the sampling loop reads the input its phase says and never stalls, and
  an LVB channel publishes the mean of its readings.
\<close>

unbundle bit_operations_syntax

subsection \<open>Histories of an HVB channel\<close>

datatype hvb_event =
    Hvb_Output u16
  | Hvb_Enable bool
  | Hvb_Start
  | Hvb_Stop
  | Hvb_Callback
  | Hvb_Converted s32
  | Hvb_Timeout
  | Hvb_Handler u32

definition wake_poll :: "int \<Rightarrow> work_poll \<Rightarrow> work_poll" where
  "wake_poll r p = (case p of Poll_Waiting \<Rightarrow> Poll_Queued r | _ \<Rightarrow> p)"

definition hvb_step :: "hvb_vc_config \<Rightarrow> 'h board_io \<Rightarrow> hvb_event \<Rightarrow> 'h hvb_vc_data \<Rightarrow> 'h hvb_vc_data" where
  "hvb_step cfg io e d =
     (case e of
        Hvb_Output c \<Rightarrow> snd (hvb_vc_set_output cfg io d c)
      | Hvb_Enable b \<Rightarrow> snd (hvb_vc_set_enable io d b)
      | Hvb_Start \<Rightarrow> snd (hvb_vc_start_sampling cfg io d)
      | Hvb_Stop \<Rightarrow> snd (hvb_vc_stop_sampling cfg d)
      | Hvb_Callback \<Rightarrow> snd (hvb_vc_set_meas_callback d)
      | Hvb_Converted raw \<Rightarrow> d\<lparr>adc_buf := raw, hvb_poll := wake_poll 0 (hvb_poll d)\<rparr>
      | Hvb_Timeout \<Rightarrow> d\<lparr>hvb_poll := wake_poll (- EAGAIN) (hvb_poll d)\<rparr>
      | Hvb_Handler now \<Rightarrow>
          (case hvb_poll d of Poll_Queued r \<Rightarrow> hvb_vc_poll_handler cfg io r now d | _ \<Rightarrow> d))"

definition commanded :: "hvb_event \<Rightarrow> bool \<Rightarrow> bool" where
  "commanded e b = (case e of Hvb_Enable b' \<Rightarrow> b' | _ \<Rightarrow> b)"

definition reads :: "hvb_vc_config \<Rightarrow> 'h hvb_vc_data \<Rightarrow> bool" where
  "reads cfg d \<longleftrightarrow>
     (if adc_phase d = ADC_PHASE_VOLTAGE
      then adc_channels d = ADC_CH_VOLTAGE \<and> hvb_capabilities cfg AND CH_CAP_VOLTAGE_MEASUREMENT \<noteq> 0
      else adc_channels d = ADC_CH_CURRENT \<and> hvb_capabilities cfg AND CH_CAP_CURRENT_MEASUREMENT \<noteq> 0)"

definition sampling_ok :: "hvb_vc_config \<Rightarrow> 'h hvb_vc_data \<Rightarrow> bool" where
  "sampling_ok cfg d \<longleftrightarrow>
     (hvb_poll d \<noteq> Poll_Idle \<longrightarrow> reads cfg d) \<and>
     (hvb_sampling_active d \<longrightarrow> hvb_poll d \<noteq> Poll_Idle \<and>
        hvb_capabilities cfg AND (CH_CAP_VOLTAGE_MEASUREMENT OR CH_CAP_CURRENT_MEASUREMENT) \<noteq> 0)"

lemma can_measure:
  "caps AND (CH_CAP_VOLTAGE_MEASUREMENT OR CH_CAP_CURRENT_MEASUREMENT) \<noteq> 0 \<Longrightarrow>
   caps AND CH_CAP_VOLTAGE_MEASUREMENT = 0 \<Longrightarrow> caps AND CH_CAP_CURRENT_MEASUREMENT \<noteq> 0"
  using bit.conj_disj_distrib [of caps CH_CAP_VOLTAGE_MEASUREMENT CH_CAP_CURRENT_MEASUREMENT] by auto

lemma submit_busy [simp]: "k_work_poll_submit p \<noteq> Poll_Idle"
  by (simp add: k_work_poll_submit_def split: work_poll.split)

lemma next_cycle_ok:
  assumes "hvb_capabilities cfg AND (CH_CAP_VOLTAGE_MEASUREMENT OR CH_CAP_CURRENT_MEASUREMENT) \<noteq> 0"
  shows "sampling_ok cfg (hvb_vc_start_next_cycle cfg io d)"
  using assms can_measure [OF assms]
  by (simp add: hvb_vc_start_next_cycle_def hvb_vc_submit_read_def sampling_ok_def reads_def)

lemma sampling_ok_fields:
  assumes "sampling_ok cfg d"
    and "hvb_poll d' = hvb_poll d" "adc_phase d' = adc_phase d" "adc_channels d' = adc_channels d"
    and "hvb_sampling_active d' = hvb_sampling_active d"
  shows "sampling_ok cfg d'"
  using assms by (simp add: sampling_ok_def reads_def)

lemma notify_fields [simp]:
  "hvb_poll (hvb_vc_notify_meas d) = hvb_poll d" "adc_phase (hvb_vc_notify_meas d) = adc_phase d"
  "adc_channels (hvb_vc_notify_meas d) = adc_channels d" "hvb_hw (hvb_vc_notify_meas d) = hvb_hw d"
  "hvb_sampling_active (hvb_vc_notify_meas d) = hvb_sampling_active d"
  by (simp_all add: hvb_vc_notify_meas_def)

lemma idle_ok: "hvb_poll d = Poll_Idle \<Longrightarrow> \<not> hvb_sampling_active d \<Longrightarrow> sampling_ok cfg d"
  by (simp add: sampling_ok_def)

lemma handler_ok:
  assumes "sampling_ok cfg d"
  shows "sampling_ok cfg (hvb_vc_poll_handler cfg io r now d)"
proof -
  have can: "hvb_sampling_active d \<Longrightarrow>
      hvb_capabilities cfg AND (CH_CAP_VOLTAGE_MEASUREMENT OR CH_CAP_CURRENT_MEASUREMENT) \<noteq> 0"
    using assms by (simp add: sampling_ok_def)
  have current: "hvb_capabilities cfg AND CH_CAP_CURRENT_MEASUREMENT \<noteq> 0 \<Longrightarrow> hvb_sampling_active d' = hvb_sampling_active d \<Longrightarrow>
      sampling_ok cfg (hvb_vc_submit_read io ADC_CH_CURRENT (d'\<lparr>adc_phase := ADC_PHASE_CURRENT\<rparr>))" for d'
    using can by (simp add: hvb_vc_submit_read_def sampling_ok_def reads_def)
  show ?thesis
    unfolding hvb_vc_poll_handler_def Let_def
    using can by (simp add: next_cycle_ok idle_ok current split: hvb_adc_phase.split)
qed

lemma step_sampling_ok:
  assumes "sampling_ok cfg d"
  shows "sampling_ok cfg (hvb_step cfg io e d)"
proof (cases e)
  case (Hvb_Handler now)
  then show ?thesis using assms handler_ok [OF assms] by (simp add: hvb_step_def split: work_poll.split)
next
  case Hvb_Start
  then show ?thesis using assms by (auto simp: hvb_step_def hvb_vc_start_sampling_def intro: next_cycle_ok)
next
  case Hvb_Stop
  then show ?thesis
    using assms by (cases "CONFIG_ADC_ASYNC cfg"; cases "hvb_poll d";
        simp add: hvb_step_def hvb_vc_stop_sampling_def sampling_ok_def reads_def k_work_poll_cancel_def)
qed (use assms in \<open>auto simp: hvb_step_def hvb_vc_set_output_def hvb_vc_set_enable_def
      hvb_vc_set_meas_callback_def wake_poll_def sampling_ok_def reads_def split: prod.splits work_poll.splits\<close>)

subsection \<open>The output of an HVB channel\<close>

context board_pins
begin

lemma submit_pins:
  "line (hvb_hw (hvb_vc_submit_read io c d)) = line (hvb_hw d)"
  "code (hvb_hw (hvb_vc_submit_read io c d)) = code (hvb_hw d)"
  by (simp_all add: hvb_vc_submit_read_def adc_start)

lemma next_cycle_pins:
  "line (hvb_hw (hvb_vc_start_next_cycle cfg io d)) = line (hvb_hw d)"
  "code (hvb_hw (hvb_vc_start_next_cycle cfg io d)) = code (hvb_hw d)"
  by (simp_all add: hvb_vc_start_next_cycle_def submit_pins)

lemma handler_pins:
  "line (hvb_hw (hvb_vc_poll_handler cfg io r now d)) = line (hvb_hw d)"
  "code (hvb_hw (hvb_vc_poll_handler cfg io r now d)) = code (hvb_hw d)"
  by (simp_all add: hvb_vc_poll_handler_def Let_def submit_pins next_cycle_pins split: hvb_adc_phase.split)

lemma step_pins:
  "line (hvb_hw (hvb_step cfg io e d)) = commanded e (line (hvb_hw d))"
  "code (hvb_hw d) \<le> hvb_max_raw_dac cfg \<Longrightarrow> code (hvb_hw (hvb_step cfg io e d)) \<le> hvb_max_raw_dac cfg"
proof -
  show "line (hvb_hw (hvb_step cfg io e d)) = commanded e (line (hvb_hw d))"
    by (cases e) (simp_all add: hvb_step_def commanded_def hvb.enable_line_set_en hvb.enable_line_set_out
        hvb_vc_start_sampling_def hvb_vc_stop_sampling_def hvb_vc_set_meas_callback_def next_cycle_pins
        handler_pins split: work_poll.split)
  assume le: "code (hvb_hw d) \<le> hvb_max_raw_dac cfg"
  show "code (hvb_hw (hvb_step cfg io e d)) \<le> hvb_max_raw_dac cfg"
  proof (cases e)
    case (Hvb_Output c)
    then show ?thesis
      using le write_code [of c "hvb_hw d"]
      by (auto simp: hvb_step_def hvb_vc_set_output_def ad5541_sends_code split: prod.splits)
  next
    case (Hvb_Enable b)
    then show ?thesis
      using le set_code [of b "hvb_hw d"] by (auto simp: hvb_step_def hvb_vc_set_enable_def split: prod.splits)
  qed (use le in \<open>simp_all add: hvb_step_def hvb_vc_start_sampling_def hvb_vc_stop_sampling_def
        hvb_vc_set_meas_callback_def next_cycle_pins handler_pins split: work_poll.split\<close>)
qed

lemma run_pins:
  assumes "sampling_ok cfg d" and "code (hvb_hw d) \<le> hvb_max_raw_dac cfg"
  shows "line (hvb_hw (fold (hvb_step cfg io) es d)) = fold commanded es (line (hvb_hw d)) \<and>
    code (hvb_hw (fold (hvb_step cfg io) es d)) \<le> hvb_max_raw_dac cfg \<and>
    sampling_ok cfg (fold (hvb_step cfg io) es d)"
  using assms by (induction es arbitrary: d) (simp_all add: step_pins step_sampling_ok)

lemma init_pins:
  assumes "hvb_vc_init cfg io d = (0, d0)" and "hvb_poll d = Poll_Idle" and "\<not> hvb_sampling_active d"
  shows "\<not> line (hvb_hw d0)" and "code (hvb_hw d0) = code (hvb_hw d)" and "sampling_ok cfg d0"
  using assms gpio_inactive by (auto simp: hvb_vc_init_def Let_def intro!: idle_ok split: if_splits)

end


definition bench_hvb :: "pins hvb_vc_data" where
  "bench_hvb =
    \<lparr>hvb_channel = 0,
     hvb_meas = \<lparr>channel_id = 0, buf_raw_voltage = 0, voltage_timestamp_ms = 0, buf_raw_current = 0,
       current_timestamp_ms = 0\<rparr>,
     hvb_meas_cb = False, hvb_notified = 0, hvb_poll = Poll_Idle, adc_channels = 0, adc_buf = 0,
     adc_phase = ADC_PHASE_VOLTAGE, hvb_sampling_active = False,
     hvb_hw = \<lparr>enable_level = True, dac_code = 0, converting = None\<rparr>\<rparr>"


subsection \<open>The mean of an LVB channel\<close>

fun lvb_samples ::
    "lvb_vc_config \<Rightarrow> (reading \<times> reading \<times> u32) list \<Rightarrow> 'h lvb_vc_data \<Rightarrow> 'h lvb_vc_data option" where
  "lvb_samples cfg [] d = Some d"
| "lvb_samples cfg ((v, i, now) # rs) d =
     Option.bind (lvb_vc_sample_work_fn cfg v i now d) (lvb_samples cfg rs)"

definition reading_value :: "reading \<Rightarrow> int" where
  "reading_value r = (if fst r = 0 then sint (snd r) else 0)"

lemma reading_value_bound: "\<bar>reading_value r\<bar> \<le> 32768"
  using sint16_range [of "snd r"] by (auto simp: reading_value_def)

lemma accumulate_reading:
  assumes "\<bar>acc\<bar> \<le> 32768 * 255"
  shows "accumulate r acc = Some (acc + reading_value r)"
proof -
  have "\<bar>acc + reading_value r\<bar> \<le> 32768 * 256" using assms reading_value_bound [of r] by linarith
  then have "int64_ok (acc + reading_value r)" by (intro int64_okI) simp
  then show ?thesis by (cases "fst r = 0") (simp_all add: accumulate_def reading_value_def)
qed

lemma unat8: "unat (w :: u8) < 256"
  by (rule order.strict_trans2 [OF unsigned_less]) simp

lemma lvb_samples_append:
  fixes d :: "'h lvb_vc_data"
  shows "lvb_samples cfg (xs @ ys) d = Option.bind (lvb_samples cfg xs d) (lvb_samples cfg ys)"
proof (induction xs arbitrary: d)
  case (Cons r xs)
  have "lvb_samples cfg (xs @ ys) = (\<lambda>d :: 'h lvb_vc_data. Option.bind (lvb_samples cfg xs d) (lvb_samples cfg ys))"
    by (rule ext) (rule Cons.IH)
  then show ?case by (cases r) simp
qed simp

abbreviation volts :: "(reading \<times> reading \<times> u32) list \<Rightarrow> int" where
  "volts rs \<equiv> sum_list (map (\<lambda>r. reading_value (fst r)) rs)"

abbreviation amps :: "(reading \<times> reading \<times> u32) list \<Rightarrow> int" where
  "amps rs \<equiv> sum_list (map (\<lambda>r. reading_value (fst (snd r))) rs)"

lemma sum_bound: "\<bar>sum_list (map (\<lambda>r. reading_value (f r)) rs)\<bar> \<le> 32768 * int (length rs)"
proof (induction rs)
  case (Cons r rs)
  then show ?case using reading_value_bound [of "f r"] by (simp add: algebra_simps)
qed simp

text \<open>Fewer readings than a mean needs are only added up.\<close>

lemma short_of_a_mean:
  assumes "lvb_sampling_active d" and "unat (sample_count d) + length rs < unat (oversample_count cfg)"
    and "\<bar>v_accum d\<bar> \<le> 32768 * uint (sample_count d)" and "\<bar>i_accum d\<bar> \<le> 32768 * uint (sample_count d)"
  shows "lvb_samples cfg rs d = Some (d\<lparr>v_accum := v_accum d + volts rs, i_accum := i_accum d + amps rs,
    sample_count := sample_count d + word_of_nat (length rs)\<rparr>)"
  using assms
proof (induction rs arbitrary: d)
  case Nil
  then show ?case by simp
next
  case (Cons r rs)
  obtain v i now where r: "r = (v, i, now)" by (cases r)
  have lt: "unat (oversample_count cfg) < 256" by (rule unat8)
  have sc: "unat (sample_count d + 1) = unat (sample_count d) + 1"
    using Cons.prems(2) lt by (subst unat_add_lem [THEN iffD1]) simp_all
  have le: "\<not> oversample_count cfg \<le> sample_count d + 1"
    using Cons.prems(2) sc by (simp add: word_le_nat_alt)
  have "unat (sample_count d) \<le> 254" using Cons.prems(2) lt by simp
  then have "int (unat (sample_count d)) \<le> 254" by linarith
  then have sb: "uint (sample_count d) \<le> 254" by simp
  have su: "uint (sample_count d + 1) = uint (sample_count d) + 1" using arg_cong [OF sc, of int] by simp
  have b: "\<bar>v_accum d\<bar> \<le> 32768 * 255" "\<bar>i_accum d\<bar> \<le> 32768 * 255"
    using Cons.prems(3,4) sb by linarith+
  let ?d = "d\<lparr>v_accum := v_accum d + reading_value v, i_accum := i_accum d + reading_value i,
      sample_count := sample_count d + 1\<rparr>"
  have 1: "lvb_vc_sample_work_fn cfg v i now d = Some ?d"
    using Cons.prems(1) le by (simp add: lvb_vc_sample_work_fn_def accumulate_reading [OF b(1)]
        accumulate_reading [OF b(2)] Let_def)
  have "\<bar>v_accum ?d\<bar> \<le> 32768 * uint (sample_count ?d)" "\<bar>i_accum ?d\<bar> \<le> 32768 * uint (sample_count ?d)"
    using Cons.prems(3,4) reading_value_bound [of v] reading_value_bound [of i] by (simp_all add: su)
  then have "lvb_samples cfg rs ?d = Some (?d\<lparr>v_accum := v_accum ?d + volts rs, i_accum := i_accum ?d + amps rs,
      sample_count := sample_count ?d + word_of_nat (length rs)\<rparr>)"
    using Cons.prems(1,2) sc by (intro Cons.IH) simp_all
  then show ?case by (simp add: r 1 algebra_simps)
qed

lemma mean_fits:
  assumes "0 < n" and "\<bar>s\<bar> \<le> 32768 * n"
  shows "sint (word_of_int (c_div s n) :: s32) = c_div s n \<and> \<bar>c_div s n\<bar> \<le> 32768"
proof -
  have "c_div s n \<le> c_div (32768 * n) n" "c_div (- (32768 * n)) n \<le> c_div s n"
    using assms by (intro c_div_mono; simp)+
  moreover have "c_div (32768 * n) n = 32768" "c_div (- (32768 * n)) n = - 32768"
    using assms(1) by (simp_all add: c_div_def sgn_mult)
  ultimately have b: "\<bar>c_div s n\<bar> \<le> 32768" by simp
  then show ?thesis by (simp add: signed_of_int signed_take_bit_int_eq_self)
qed

text \<open>
  An LVB channel publishes means. From the start of a round, the readings before the last change no
  measurement, and the last publishes at its time, for each input, the sum of the readings that the ADC
  delivered divided by the number of readings of the round, and calls the channel once. The mean is
  that of a signed 16-bit quantity, no sum overflows, and a new round begins.
\<close>

lemma lvb_publishes_the_mean:
  assumes n: "length rs + 1 = unat (oversample_count cfg)"
    and d: "lvb_sampling_active d" "v_accum d = 0" "i_accum d = 0" "sample_count d = 0"
  shows "\<exists>d1 d2. lvb_samples cfg rs d = Some d1 \<and> lvb_meas d1 = lvb_meas d \<and> lvb_notified d1 = lvb_notified d \<and>
    lvb_samples cfg (rs @ [(v, i, now)]) d = Some d2 \<and>
    sint (buf_raw_voltage (lvb_meas d2)) = c_div (volts (rs @ [(v, i, now)])) (int (length rs) + 1) \<and>
    sint (buf_raw_current (lvb_meas d2)) = c_div (amps (rs @ [(v, i, now)])) (int (length rs) + 1) \<and>
    \<bar>sint (buf_raw_voltage (lvb_meas d2))\<bar> \<le> 32768 \<and> \<bar>sint (buf_raw_current (lvb_meas d2))\<bar> \<le> 32768 \<and>
    voltage_timestamp_ms (lvb_meas d2) = now \<and> current_timestamp_ms (lvb_meas d2) = now \<and>
    lvb_notified d2 = lvb_notified d + (if lvb_meas_cb d then 1 else 0) \<and>
    lvb_sampling_active d2 \<and> v_accum d2 = 0 \<and> i_accum d2 = 0 \<and> sample_count d2 = 0"
proof -
  let ?n = "oversample_count cfg" and ?rs = "rs @ [(v, i, now)]"
  let ?d1 = "d\<lparr>v_accum := volts rs, i_accum := amps rs, sample_count := word_of_nat (length rs)\<rparr>"
  have 1: "lvb_samples cfg rs d = Some ?d1" using short_of_a_mean [of d rs cfg] n d by simp
  have lt: "length rs < 255" using n unat8 [of ?n] by simp
  have sc: "unat (word_of_nat (length rs) + 1 :: u8) = length rs + 1"
    using lt by (subst unat_add_lem [THEN iffD1]) (simp_all add: unat_of_nat take_bit_nat_eq_self)
  have le: "?n \<le> word_of_nat (length rs) + 1" using n sc by (simp add: word_le_nat_alt)
  have nz: "?n \<noteq> 0" using n by auto
  have u: "uint ?n = int (length rs) + 1" using arg_cong [OF n, of int] by simp
  have b: "\<bar>volts rs\<bar> \<le> 32768 * 255" "\<bar>amps rs\<bar> \<le> 32768 * 255"
    using sum_bound [of fst rs] sum_bound [of "\<lambda>r. fst (snd r)" rs] lt by simp_all
  let ?v = "volts rs + reading_value v" and ?i = "amps rs + reading_value i"
  define m where "m = vc_channel_buffer_publish_current (vc_channel_buffer_publish_voltage (lvb_meas d)
      (word_of_int (c_div ?v (uint ?n))) now) (word_of_int (c_div ?i (uint ?n))) now"
  let ?d2 = "?d1\<lparr>lvb_meas := m, lvb_notified := lvb_notified d + (if lvb_meas_cb d then 1 else 0),
      v_accum := 0, i_accum := 0, sample_count := 0\<rparr>"
  have 2: "lvb_samples cfg ?rs d = Some ?d2"
    using d(1) le nz by (simp add: lvb_samples_append 1 lvb_vc_sample_work_fn_def accumulate_reading [OF b(1)]
        accumulate_reading [OF b(2)] Let_def m_def)
  have s: "\<bar>?v\<bar> \<le> 32768 * (int (length rs) + 1)" "\<bar>?i\<bar> \<le> 32768 * (int (length rs) + 1)"
    using sum_bound [of fst ?rs] sum_bound [of "\<lambda>r. fst (snd r)" ?rs] by simp_all
  have m: "sint (buf_raw_voltage m) = c_div ?v (int (length rs) + 1)" "sint (buf_raw_current m) = c_div ?i (int (length rs) + 1)"
    "\<bar>c_div ?v (int (length rs) + 1)\<bar> \<le> 32768" "\<bar>c_div ?i (int (length rs) + 1)\<bar> \<le> 32768"
    "voltage_timestamp_ms m = now" "current_timestamp_ms m = now"
    using mean_fits [OF _ s(1)] mean_fits [OF _ s(2)]
    by (simp_all add: m_def u vc_channel_buffer_publish_current_def vc_channel_buffer_publish_voltage_def)
  show ?thesis by (intro exI [of _ ?d1] exI [of _ ?d2]) (simp add: 1 2 m d(1))
qed

lemma lvb_publishes_the_mean_witness:
  "\<exists>d. lvb_samples \<lparr>calib_current_b = 0, lvb_capabilities = 0x1D, lvb_channel_index = 0, sample_rate_ms = 30,
        oversample_count = 3, default_output_disabled = False\<rparr>
      [((0, 7), (0, 1), 30), ((0, 9), (- 5, 100), 60), ((0, - 30), (0, 4), 90)]
      (snd (lvb_vc_start_sampling
        \<lparr>lvb_meas_cb = True, lvb_notified = 0,
         lvb_meas = \<lparr>channel_id = 0, buf_raw_voltage = 0, voltage_timestamp_ms = 0, buf_raw_current = 0,
           current_timestamp_ms = 0\<rparr>,
         lvb_timer = False, lvb_sampling_active = False, v_accum = 0, i_accum = 0, sample_count = 0,
         lvb_hw = ()\<rparr>)) = Some d \<and>
     sint (buf_raw_voltage (lvb_meas d)) = - 4 \<and> sint (buf_raw_current (lvb_meas d)) = 1"
  using lvb_publishes_the_mean [of "[((0, 7), (0, 1), 30), ((0, 9), (- 5, 100), 60)]"
      "\<lparr>calib_current_b = 0, lvb_capabilities = 0x1D, lvb_channel_index = 0, sample_rate_ms = 30,
        oversample_count = 3, default_output_disabled = False\<rparr>"
      "snd (lvb_vc_start_sampling
        \<lparr>lvb_meas_cb = True, lvb_notified = 0,
         lvb_meas = \<lparr>channel_id = 0, buf_raw_voltage = 0, voltage_timestamp_ms = 0, buf_raw_current = 0,
           current_timestamp_ms = 0\<rparr>,
         lvb_timer = False, lvb_sampling_active = False, v_accum = 0, i_accum = 0, sample_count = 0,
         lvb_hw = ()\<rparr>)" "(0, - 30)" "(0, 4)" 90]
  by (auto simp: lvb_vc_start_sampling_def reading_value_def c_div_def)

end
