(* ===== verification/Ads1232_Props.thy ===== *)
theory Ads1232_Props
  imports Ads1232 Driver_Props
begin

text \<open>
  The converter's transfer reads the number the chip holds, and what becomes of a conversion that
  is late: with the sampling loop of the HVB channel it is published for the wrong input.
\<close>

unbundle bit_operations_syntax

subsection \<open>The transfer\<close>

definition number :: "bool list \<Rightarrow> nat" where
  "number bs = fold (\<lambda>b n. 2 * n + (if b then 1 else 0)) bs 0"

definition twos_complement :: "bool list \<Rightarrow> int" where
  "twos_complement bs = int (number bs) - (if hd bs then 2 ^ length bs else 0)"

lemma number_snoc: "number (bs @ [b]) = 2 * number bs + (if b then 1 else 0)"
  by (simp add: number_def)

lemma number_bound: "number bs < 2 ^ length bs"
proof (induction bs rule: rev_induct)
  case Nil
  then show ?case by (simp add: number_def)
next
  case (snoc b bs)
  then show ?case by (simp add: number_snoc)
qed

lemma number_ones: "number (replicate k True) + 1 = 2 ^ k"
proof (induction k)
  case (Suc k)
  have "replicate (Suc k) True = replicate k True @ [True]" by (simp add: replicate_append_same)
  then show ?case using Suc by (simp only: number_snoc) simp
qed (simp add: number_def)

text \<open>The first bit is the sign.\<close>

lemma number_sign: "bs \<noteq> [] \<Longrightarrow> hd bs \<longleftrightarrow> 2 ^ (length bs - 1) \<le> number bs"
proof (induction bs rule: rev_induct)
  case Nil
  then show ?case by simp
next
  case (snoc b bs)
  show ?case
  proof (cases "bs = []")
    case True
    then show ?thesis by (simp add: number_def)
  next
    case False
    then obtain k where k: "length bs = Suc k" by (cases bs) auto
    have "hd bs \<longleftrightarrow> 2 ^ k \<le> number bs" using snoc.IH False k by simp
    moreover have "2 ^ Suc k \<le> 2 * number bs + c \<longleftrightarrow> 2 ^ k \<le> number bs" if "c \<le> 1" for c :: nat
      using that by (cases "2 ^ k \<le> number bs") auto
    ultimately show ?thesis using False k by (simp add: number_snoc hd_append)
  qed
qed

context ads1232_chip
begin

lemma shift_steps:
  assumes "k \<le> length (pending p)"
  shows "fst ((shift_bit io ^^ k) (0, p)) = word_of_nat (number (take k (pending p))) \<and>
    pending (snd ((shift_bit io ^^ k) (0, p))) = drop k (pending p) \<and>
    clocks (snd ((shift_bit io ^^ k) (0, p))) = clocks p + k"
  using assms
proof (induction k)
  case 0
  then show ?case by (simp add: number_def)
next
  case (Suc k)
  obtain v q where vq: "(shift_bit io ^^ k) (0, p) = (v, q)" by fastforce
  have lt: "k < length (pending p)" using Suc.prems by simp
  have IH: "v = word_of_nat (number (take k (pending p)))" "pending q = pending p ! k # drop (Suc k) (pending p)"
    "clocks q = clocks p + k"
    using Suc vq lt by (simp_all add: Cons_nth_drop_Suc)
  note r = rise_bit [OF IH(2)]
  have "number (take (Suc k) (pending p)) = 2 * number (take k (pending p)) + (if pending p ! k then 1 else 0)"
    using lt by (simp add: take_Suc_conv_app_nth number_snoc)
  moreover have "(shift_bit io ^^ Suc k) (0, p) =
      (push_bit 1 v OR (if pending p ! k then 1 else 0), set_sclk io False (set_sclk io True q))"
    using r by (simp add: vq) (simp add: shift_bit_def Let_def)
  ultimately show ?case
    using r IH(1,3) by (simp add: fall rise_clock or_one_eq push_bit_eq_mult del: funpow.simps)
qed

end

lemma sign_extend:
  assumes "n < 2 ^ 24"
  shows "sint (if (word_of_nat n :: s32) AND 0x800000 \<noteq> 0 then word_of_nat n OR 0xFF000000 else (word_of_nat n :: s32)) =
    int n - (if 2 ^ 23 \<le> n then 2 ^ 24 else 0)"
proof -
  let ?v = "word_of_nat n :: s32"
  have "?v AND 0x800000 \<noteq> 0 \<longleftrightarrow> bit ?v 23"
    using and_exp_eq_0_iff_not_bit [of ?v 23] by simp
  also have "\<dots> \<longleftrightarrow> bit n 23" by (simp add: bit_of_nat_iff)
  also have "\<dots> \<longleftrightarrow> odd (n div 2 ^ 23)" by (simp only: bit_iff_odd)
  also have "n div 2 ^ 23 = (if 2 ^ 23 \<le> n then 1 else 0)"
    using assms by (auto intro: div_nat_eqI)
  finally have neg: "?v AND 0x800000 \<noteq> 0 \<longleftrightarrow> 2 ^ 23 \<le> n" by simp
  show ?thesis
  proof (cases "2 ^ 23 \<le> n")
    case False
    then show ?thesis using neg by (simp add: signed_of_nat signed_take_bit_int_eq_self)
  next
    case True
    have m: "(0xFF000000 :: s32) = NOT (mask 24)" by (simp add: mask_eq_exp_minus_1)
    have "take_bit 24 n = n" using assms by (simp add: take_bit_nat_eq_self)
    then have high: "\<not> bit n i" if "24 \<le> i" for i
      using that by (metis bit_take_bit_iff not_le)
    have "?v OR 0xFF000000 = ?v + 0xFF000000"
      unfolding m by (rule disjunctive_add [symmetric]) (auto simp: bit_simps high not_less)
    also have "\<dots> = word_of_int (int n - 2 ^ 24)" by simp
    finally have v: "?v OR 0xFF000000 = word_of_int (int n - 2 ^ 24)" .
    have small: "- (2 ^ 31) \<le> int n - 2 ^ 24" "int n - 2 ^ 24 < 2 ^ 31" using assms by simp_all
    have "sint (word_of_int x :: s32) = x" if "- (2 ^ 31) \<le> x" "x < 2 ^ 31" for x
      using that by (simp add: signed_of_int signed_take_bit_int_eq_self)
    note this [OF small]
    then show ?thesis unfolding v using True neg by (simp only: if_True not_False_eq_True)
  qed
qed

text \<open>
  C25. A transfer reads the conversion. On any chip that shifts out its 24 bits as the data sheet says, the
  bit-banged read gives the two's complement number of these bits as a 32-bit value, and uses exactly
  25 clocks: one per bit and the one that releases the pin, never the 26th, which would start a calibration.
\<close>

theorem ads1232_transfer_decodes:
  assumes chip: "ads1232_chip io pending clocks" and bits: "length (pending p) = 24"
  shows "sint (fst (ads1232_bitbang_read io p)) = twos_complement (pending p) \<and>
    pending (snd (ads1232_bitbang_read io p)) = [] \<and>
    clocks (snd (ads1232_bitbang_read io p)) = clocks p + 25"
proof -
  obtain v q where vq: "(shift_bit io ^^ 24) (0, p) = (v, q)" by fastforce
  have s: "v = word_of_nat (number (pending p))" "pending q = []" "clocks q = clocks p + 24"
    using ads1232_chip.shift_steps [OF chip, of 24 p] bits vq by simp_all
  have n: "number (pending p) < 2 ^ 24" using number_bound [of "pending p"] bits by simp
  have sign: "hd (pending p) \<longleftrightarrow> 2 ^ 23 \<le> number (pending p)"
    using number_sign [of "pending p"] bits by fastforce
  have "sint (fst (ads1232_bitbang_read io p)) = twos_complement (pending p)"
    unfolding ads1232_bitbang_read_def vq Let_def prod.case fst_conv s(1) twos_complement_def
    using sign_extend [OF n] sign bits by (simp only:)
  then show ?thesis
    using s by (simp add: ads1232_bitbang_read_def vq Let_def ads1232_chip.fall [OF chip]
        ads1232_chip.rise_end [OF chip] ads1232_chip.rise_clock [OF chip])
qed

text \<open>A chip to try it on: the bits it holds, its pin, the selected input, the clocks it has seen.\<close>

record sim_chip =
  sim_bits :: "bool list"
  sim_dout :: bool
  sim_input :: bool
  sim_clocks :: nat

definition sim_io :: "sim_chip ads1232_io" where
  "sim_io =
    \<lparr>set_sclk = \<lambda>b p. if b then p\<lparr>sim_dout := (sim_bits p = [] \<or> hd (sim_bits p)), sim_bits := tl (sim_bits p),
         sim_clocks := sim_clocks p + 1\<rparr> else p,
     set_a0 = \<lambda>b p. p\<lparr>sim_input := b\<rparr>, set_a1 = \<lambda>_ p. p, set_gain0 = \<lambda>_ p. p, set_gain1 = \<lambda>_ p. p,
     set_pwdn = \<lambda>_ p. p, drdy = \<lambda>p. length (sim_bits p) = 24, dout = sim_dout, sleep_1ms = \<lambda>p. p\<rparr>"

interpretation sim: ads1232_chip sim_io sim_bits sim_clocks
  by unfold_locales (auto simp: sim_io_def)

lemma ads1232_transfer_decodes_witness:
  "sint (fst (ads1232_bitbang_read sim_io
    \<lparr>sim_bits = replicate 22 True @ [False, True], sim_dout = True, sim_input = False, sim_clocks = 0\<rparr>)) = - 3"
proof -
  let ?p = "\<lparr>sim_bits = replicate 22 True @ [False, True], sim_dout = True, sim_input = False, sim_clocks = 0\<rparr>"
  have "length (sim_bits ?p) = 24" by simp
  moreover have "number ((replicate 22 True @ [False]) @ [True]) = 2 ^ 24 - 3"
    unfolding number_snoc using number_ones [of 22] by simp
  then have "twos_complement (sim_bits ?p) = - 3" by (simp add: twos_complement_def)
  ultimately show ?thesis using ads1232_transfer_decodes [OF sim.ads1232_chip_axioms, of ?p] by presburger
qed

end
