(* ===== verification/Board_Props.thy ===== *)
theory Board_Props
  imports Ads1232_Props Vc_Channel_Props
begin

text \<open>
  The layers of an HVB board put together: the sampling loop over the ADS1232 driver, and the protection
  of a channel over the pins of its driver.
\<close>

unbundle bit_operations_syntax

subsection \<open>The sampling loop over the converter\<close>

text \<open>
  The board whose converter is an ADS1232: \<open>adc_read_async\<close> with the channel's buffer and signal, its result
  ignored as the channel driver ignores it. The work handler of the converter fills the buffer and raises
  the signal the poll item waits for.
\<close>

definition adc_board ::
    "ads1232_config \<Rightarrow> 'p ads1232_io \<Rightarrow> 'p ads1232_data board_io \<Rightarrow> 'p ads1232_data board_io" where
  "adc_board acfg chip base =
     base\<lparr>start_conversion := \<lambda>c a. snd (ads1232_read_async acfg chip c 4 True a)\<rparr>"

definition adc_complete :: "'p ads1232_io \<Rightarrow> 'p ads1232_data hvb_vc_data \<Rightarrow> 'p ads1232_data hvb_vc_data" where
  "adc_complete chip d =
     (case ads1232_async_work_handler chip (hvb_hw d) of (conversion, raised, a) \<Rightarrow>
        d\<lparr>hvb_hw := a, adc_buf := (case conversion of None \<Rightarrow> adc_buf d | Some v \<Rightarrow> v),
          hvb_poll := (if raised then wake_poll 0 (hvb_poll d) else hvb_poll d)\<rparr>)"

lemma busy_read_async:
  "async_seq a \<Longrightarrow> snd (ads1232_read_async acfg chip c n s a) = a"
  by (simp add: ads1232_read_async_def)

text \<open>
  C24. A late conversion is published for the wrong input. When the current conversion of a channel with both
  inputs has not arrived in time, the restart of the loop for the voltage is refused by the converter as
  busy, its input stays where it was and the pending sequence stays; the conversion that then arrives
  is the one of the current input, and the loop publishes it as the voltage.
\<close>

theorem late_current_is_published_as_voltage:
  assumes caps: "hvb_capabilities cfg AND CH_CAP_VOLTAGE_MEASUREMENT \<noteq> 0"
    and loop: "hvb_sampling_active d" "adc_phase d = ADC_PHASE_CURRENT"
    and pending: "async_seq (hvb_hw d)" "async_signal (hvb_hw d)"
  shows "hvb_hw (hvb_vc_poll_handler cfg (adc_board acfg chip base) (- EAGAIN) t d) = hvb_hw d \<and>
    buf_raw_voltage (hvb_meas (hvb_vc_poll_handler cfg (adc_board acfg chip base) 0 now
        (adc_complete chip (hvb_vc_poll_handler cfg (adc_board acfg chip base) (- EAGAIN) t d)))) =
      fst (ads1232_bitbang_read chip (ads_pins (hvb_hw d))) \<and>
    buf_raw_current (hvb_meas (hvb_vc_poll_handler cfg (adc_board acfg chip base) 0 now
        (adc_complete chip (hvb_vc_poll_handler cfg (adc_board acfg chip base) (- EAGAIN) t d)))) =
      buf_raw_current (hvb_meas d)"
proof -
  let ?io = "adc_board acfg chip base"
  define e where "e = hvb_vc_poll_handler cfg ?io (- EAGAIN) t d"
  have e: "hvb_hw e = hvb_hw d" "adc_phase e = ADC_PHASE_VOLTAGE" "hvb_meas e = hvb_meas d"
    using caps loop pending
    by (simp_all add: e_def hvb_vc_poll_handler_def hvb_vc_start_next_cycle_def hvb_vc_submit_read_def adc_board_def
        busy_read_async)
  have c: "adc_buf (adc_complete chip e) = fst (ads1232_bitbang_read chip (ads_pins (hvb_hw d)))"
    "adc_phase (adc_complete chip e) = ADC_PHASE_VOLTAGE" "hvb_meas (adc_complete chip e) = hvb_meas d"
    using pending e by (simp_all add: adc_complete_def ads1232_async_work_handler_def Let_def split: prod.splits)
  have m: "hvb_meas (hvb_vc_submit_read io ch x) = hvb_meas x" "hvb_meas (hvb_vc_start_next_cycle cfg io x) = hvb_meas x"
    "hvb_meas (hvb_vc_notify_meas x) = hvb_meas x" for io ch and x :: "'a ads1232_data hvb_vc_data"
    by (simp_all add: hvb_vc_submit_read_def hvb_vc_start_next_cycle_def hvb_vc_notify_meas_def)
  have "hvb_meas (hvb_vc_poll_handler cfg ?io 0 now (adc_complete chip e)) =
      vc_channel_buffer_publish_voltage (hvb_meas d) (fst (ads1232_bitbang_read chip (ads_pins (hvb_hw d)))) now"
    using c by (simp add: hvb_vc_poll_handler_def Let_def m)
  then show ?thesis unfolding e_def [symmetric] using e by (simp add: vc_channel_buffer_publish_voltage_def)
qed

text \<open>A channel that waits for its current conversion, minus three, on the chip of the tests.\<close>

definition late_channel :: "sim_chip ads1232_data hvb_vc_data" where
  "late_channel =
    \<lparr>hvb_channel = 0,
     hvb_meas = \<lparr>channel_id = 0, buf_raw_voltage = 100000, voltage_timestamp_ms = 0, buf_raw_current = 0,
       current_timestamp_ms = 0\<rparr>,
     hvb_meas_cb = False, hvb_notified = 0, hvb_poll = Poll_Queued (- EAGAIN), adc_channels = ADC_CH_CURRENT,
     adc_buf = 100000, adc_phase = ADC_PHASE_CURRENT, hvb_sampling_active = True,
     hvb_hw = \<lparr>async_work = False, async_signal = True, async_seq = True, async_ch = False, drdy_interrupt = True,
       ads_pins = \<lparr>sim_bits = replicate 22 True @ [False, True], sim_dout = True, sim_input = False,
         sim_clocks = 0\<rparr>\<rparr>\<rparr>"

definition full_board :: "sim_chip ads1232_data board_io" where
  "full_board = adc_board
     \<lparr>has_a0 = True, has_a1 = False, has_gain0 = False, has_gain1 = False, init_gain = 1, runtime_gain = False\<rparr> sim_io
     \<lparr>spi_is_ready = True, spi_write = \<lambda>_ a. (0, a), gpio_is_ready = True, gpio_pin_set = \<lambda>_ a. (0, a),
      gpio_configure_inactive = \<lambda>a. a, adc_is_ready = True, start_conversion = \<lambda>_ a. a\<rparr>"

lemma late_current_is_published_as_voltage_witness:
  "buf_raw_voltage (hvb_meas (hvb_vc_poll_handler
      \<lparr>hvb_max_raw_dac = 100, hvb_capabilities = 0x1F, hvb_channel_index = 1, CONFIG_ADC_ASYNC = True\<rparr> full_board 0 9
      (adc_complete sim_io (hvb_vc_poll_handler
        \<lparr>hvb_max_raw_dac = 100, hvb_capabilities = 0x1F, hvb_channel_index = 1, CONFIG_ADC_ASYNC = True\<rparr> full_board
        (- EAGAIN) 5 late_channel)))) =
    fst (ads1232_bitbang_read sim_io (ads_pins (hvb_hw late_channel)))"
proof -
  let ?cfg = "\<lparr>hvb_max_raw_dac = 100, hvb_capabilities = 0x1F, hvb_channel_index = 1, CONFIG_ADC_ASYNC = True\<rparr>"
  have "hvb_capabilities ?cfg AND CH_CAP_VOLTAGE_MEASUREMENT \<noteq> 0" "hvb_sampling_active late_channel"
    "adc_phase late_channel = ADC_PHASE_CURRENT" "async_seq (hvb_hw late_channel)" "async_signal (hvb_hw late_channel)"
    by (simp_all add: late_channel_def)
  from late_current_is_published_as_voltage [OF this] show ?thesis unfolding full_board_def by blast
qed

subsection \<open>Protection at the pins\<close>

lemma protection_disables_into:
  assumes "cal_ok (cal_config ch)"
    and "a \<in> {VC_OUTPUT_ACTION_DISABLE_IMMEDIATE, VC_OUTPUT_ACTION_DISABLE_FORCE} \<or>
         \<not> channel_has_cap ch CH_CAP_RAW_OUTPUT_DRIVE"
  shows "apply_protection_action ch a = Some
    (let c = disable_into (if a = VC_OUTPUT_ACTION_DISABLE_FORCE \<or> \<not> channel_has_cap ch CH_CAP_RAW_OUTPUT_DRIVE
          then VC_CHANNEL_SMF_DISABLED_SAFE else VC_CHANNEL_SMF_DISABLED_HV_ON)
        (ch\<lparr>last_protection_output_action := a\<rparr>) in c\<lparr>dev := driven_dev c\<rparr>)"
proof -
  let ?c = "ch\<lparr>last_protection_output_action := a\<rparr>"
  have "cal_ok (cal_config (disable_into s ?c))" for s
    using assms(1) by (simp add: disable_into_def)
  then show ?thesis
    using assms(2)
    by (cases "channel_has_cap ch CH_CAP_RAW_OUTPUT_DRIVE")
       (auto simp: apply_protection_action_def Let_def channel_has_cap_def)
qed

lemma disabled_demand:
  "cal_output_enabled ch = 0 \<Longrightarrow> hw_demand (disable_into s ch) = Some (s = VC_CHANNEL_SMF_DISABLED_HV_ON, 0)"
  by (simp add: hw_demand_def disable_into_def)

text \<open>The device at the end of a trip: commanded to code 0, and to an open line unless the action keeps it closed.\<close>

lemma trip_commands:
  assumes "cal_ok (cal_config ch)" and "\<not> ramping ch" and "active_fault_cause ch = 0"
    and "current_protection_mode (config ch) = VC_PROTECTION_MODE_APPLY_OUTPUT_ACTION"
    and "current_protection_output_action (config ch)
           \<in> {VC_OUTPUT_ACTION_DISABLE_IMMEDIATE, VC_OUTPUT_ACTION_DISABLE_FORCE} \<or>
         \<not> channel_has_cap ch CH_CAP_RAW_OUTPUT_DRIVE"
    and "over_current ch raw" and "cal_output_enabled ch = 0"
    and "dev ch = Some d" and "dev_api d = Some a"
  shows "\<exists>ch'. vc_channel_consume_current ch raw = Some ch' \<and> \<not> output_enabled ch' \<and>
    smf ch' = VC_CHANNEL_SMF_FAULT_LATCHED \<and> dev ch' = Some (d\<lparr>dev_data := drive_device a
      (\<not> (current_protection_output_action (config ch) = VC_OUTPUT_ACTION_DISABLE_FORCE \<or>
          \<not> channel_has_cap ch CH_CAP_RAW_OUTPUT_DRIVE)) 0 (dev_data d)\<rparr>)"
proof -
  let ?c = "ch\<lparr>raw_adc_current := raw,
               measured_current := clamp_int16 (exact_current (cal_config ch) raw)\<rparr>"
  let ?f = "?c\<lparr>fault_history_cause := fault_history_cause ch OR VC_FAULT_CURRENT,
               active_fault_cause := VC_FAULT_CURRENT, last_fault_timestamp := uptime_ref ch\<rparr>"
  let ?a = "current_protection_output_action (config ch)"
  let ?s = "if ?a = VC_OUTPUT_ACTION_DISABLE_FORCE \<or> \<not> channel_has_cap ch CH_CAP_RAW_OUTPUT_DRIVE
    then VC_CHANNEL_SMF_DISABLED_SAFE else VC_CHANNEL_SMF_DISABLED_HV_ON"
  let ?g = "disable_into ?s (?f\<lparr>last_protection_output_action := ?a\<rparr>)"
  have r: "vc_channel_consume_current ch raw =
      tick_current_protection ?c \<bind> (\<lambda>c. Some (update_status_bits c))"
    using assms by (simp add: consume_current_exact Let_def)
  have over: "\<not> sint (clamp_int16 (exact_current (cal_config ch) raw)) \<le> sint (current_limit_threshold (config ch))"
    using assms(6) unfolding over_current_def clamp_int16_sint by linarith
  have t: "tick_current_protection ?c =
      apply_protection_action ?f ?a \<bind> (\<lambda>c. Some (c\<lparr>smf := VC_CHANNEL_SMF_FAULT_LATCHED\<rparr>))"
    using assms(2-4) over by (simp add: tick_current_protection_def Let_def)
  have p: "apply_protection_action ?f ?a = Some (?g\<lparr>dev := driven_dev ?g\<rparr>)"
    using protection_disables_into [of ?f ?a] assms(1,5) by (simp add: channel_has_cap_def Let_def)
  have "dev ?g = Some d" using assms(8) by (simp add: disable_into_def)
  from driven_dev_some [OF this assms(9)]
  have dd: "driven_dev ?g = Some (d\<lparr>dev_data := drive_device a (?s = VC_CHANNEL_SMF_DISABLED_HV_ON) 0 (dev_data d)\<rparr>)"
    using disabled_demand [of "?f\<lparr>last_protection_output_action := ?a\<rparr>"] assms(7) by simp
  show ?thesis unfolding r t p by (simp add: dd) (simp add: disable_into_def)
qed


text \<open>The bench channel with an HVB driver on a plain board behind it, at code 500 with its line closed.\<close>

definition bench_hvb_channel :: "pins hvb_vc_data vc_channel" where
  "bench_hvb_channel =
     (blank_channel kconfig_defaults)
       \<lparr>capabilities := 0x1F,
        config := (vc_channel_default_config kconfig_defaults)
          \<lparr>current_limit_threshold := 1000,
           current_protection_mode := VC_PROTECTION_MODE_APPLY_OUTPUT_ACTION\<rparr>,
        output_enabled := True,
        dev := Some \<lparr>dev_api = Some (hvb_vc_hw_api
            \<lparr>hvb_max_raw_dac = 60000, hvb_capabilities = 0x1F, hvb_channel_index = 0, CONFIG_ADC_ASYNC = True\<rparr> plain_board),
          dev_data = bench_hvb\<lparr>hvb_hw := \<lparr>enable_level = True, dac_code = 500, converting = None\<rparr>\<rparr>\<rparr>\<rparr>"


end
