(* ===== verification/Shell_Console.thy ===== *)
theory Shell_Console
  imports Modbus_Register
begin

text \<open>
  What the console commands share: the numbers of the C library that they parse and print, and the console a
  command runs on. A command talks to the rest of the firmware only through the register catalog, so the
  console is written over any catalog and any state \<open>'s\<close>.

  A C string is a HOL string; none contains the terminator. \<open>unsigned long\<close> and \<open>long\<close> are the 32-bit types of
  the boards' microcontrollers.
\<close>

subsection \<open>Reading numbers\<close>

definition is_space :: "char \<Rightarrow> bool" where
  "is_space c \<longleftrightarrow> c = CHR '' '' \<or> (9 \<le> (of_char c :: nat) \<and> (of_char c :: nat) \<le> 13)"

definition digit_value :: "char \<Rightarrow> nat option" where
  "digit_value c =
     (let n = (of_char c :: nat) in
      if 48 \<le> n \<and> n \<le> 57 then Some (n - 48)
      else if 65 \<le> n \<and> n \<le> 90 then Some (n - 55)
      else if 97 \<le> n \<and> n \<le> 122 then Some (n - 87)
      else None)"

definition is_digit :: "nat \<Rightarrow> char \<Rightarrow> bool" where
  "is_digit base c = (case digit_value c of None \<Rightarrow> False | Some d \<Rightarrow> d < base)"

fun take_digits :: "nat \<Rightarrow> nat \<Rightarrow> string \<Rightarrow> nat \<times> string" where
  "take_digits base acc [] = (acc, [])"
| "take_digits base acc (c # cs) =
     (if is_digit base c then take_digits base (acc * base + the (digit_value c)) cs else (acc, c # cs))"

definition scan_base :: "nat \<Rightarrow> string \<Rightarrow> nat \<times> string" where
  "scan_base base s =
     (if (base = 0 \<or> base = 16) \<and> 3 \<le> length s \<and> s ! 0 = CHR ''0'' \<and> (s ! 1 = CHR ''x'' \<or> s ! 1 = CHR ''X'') \<and>
         is_digit 16 (s ! 2)
      then (16, drop 2 s)
      else if base = 0 then (if take 1 s = ''0'' then 8 else 10, s)
      else (base, s))"

text \<open>Sign, magnitude and rest of the number at the front of a string, if there is one.\<close>

definition scan_int :: "nat \<Rightarrow> string \<Rightarrow> (bool \<times> nat \<times> string) option" where
  "scan_int base s =
     (let s1 = dropWhile is_space s;
          neg = (take 1 s1 = ''-'');
          s2 = (if neg \<or> take 1 s1 = ''+'' then drop 1 s1 else s1);
          (b, s3) = scan_base base s2
      in if s3 \<noteq> [] \<and> is_digit b (hd s3)
         then (case take_digits b 0 s3 of (n, rest) \<Rightarrow> Some (neg, n, rest)) else None)"

definition strtoul :: "string \<Rightarrow> nat \<Rightarrow> u32 \<times> string" where
  "strtoul s base =
     (case scan_int base s of
        None \<Rightarrow> (0, s)
      | Some (neg, n, rest) \<Rightarrow>
          (if 2 ^ 32 \<le> n then - 1 else if neg then - word_of_nat n else word_of_nat n, rest))"

definition strtol :: "string \<Rightarrow> nat \<Rightarrow> s32 \<times> string" where
  "strtol s base =
     (case scan_int base s of
        None \<Rightarrow> (0, s)
      | Some (neg, n, rest) \<Rightarrow>
          (if neg then (if 2 ^ 31 < n then word_of_int (- (2 ^ 31)) else - word_of_nat n)
           else if 2 ^ 31 \<le> n then word_of_int (2 ^ 31 - 1) else word_of_nat n, rest))"

subsection \<open>Printing numbers\<close>

definition digit_char :: "nat \<Rightarrow> char" where
  "digit_char d = char_of (if d < 10 then 48 + d else 87 + d)"

fun digits :: "nat \<Rightarrow> nat \<Rightarrow> string" where
  "digits base n = (if base < 2 \<or> n < base then [digit_char n] else digits base (n div base) @ [digit_char (n mod base)])"

declare digits.simps [simp del]

definition fmt_u :: "nat \<Rightarrow> string" where "fmt_u n = digits 10 n"

definition fmt_d :: "int \<Rightarrow> string" where
  "fmt_d i = (if i < 0 then ''-'' @ fmt_u (nat (- i)) else fmt_u (nat i))"

definition fmt_0x :: "nat \<Rightarrow> nat \<Rightarrow> string" where
  "fmt_0x w n = replicate (w - length (digits 16 n)) CHR ''0'' @ digits 16 n"

definition fmt_left :: "nat \<Rightarrow> string \<Rightarrow> string" where
  "fmt_left w s = s @ replicate (w - length s) CHR '' ''"

abbreviation newline :: string where "newline \<equiv> [char_of (10 :: nat)]"

subsection \<open>Bounded buffers\<close>

text \<open>The C expression for the room wraps around when the buffer is full beyond its size; it never is.\<close>

definition strncat :: "string \<Rightarrow> string \<Rightarrow> nat \<Rightarrow> string" where
  "strncat buf s len = buf @ take (len - length buf - 1) s"

definition drop_comma :: "string \<Rightarrow> string" where
  "drop_comma buf = (if buf \<noteq> [] \<and> last buf = CHR '','' then butlast buf else buf)"

subsection \<open>The console\<close>

text \<open>
  What a command sees of the world besides its arguments. Between two of its accesses the other threads may
  run: \<open>con_between\<close> holds what they do to the state before each access. Each write hands its timeout to the
  catalog; what happens within it is the next entry of \<open>con_waits\<close>, and a write beyond the entries does not
  return. \<open>con_keys\<close> are the results of polling for a key. Everything printed is appended to \<open>con_out\<close>.
  \<open>initialized\<close> is the static variable of the voltage-control shell.
\<close>

datatype shell_timeout = SHELL_CMD_TIMEOUT | SHELL_PARAM_TIMEOUT | MB_SHELL_TIMEOUT | K_NO_WAIT

record ('s, 't) console =
  initialized :: bool
  con_sys :: 's
  con_between :: "('s \<Rightarrow> 's) list"
  con_waits :: "(shell_timeout \<Rightarrow> 't) list"
  con_keys :: "bool list"
  con_out :: string

type_synonym ('s, 't) sh_result = "(int \<times> ('s, 't) console) option"

definition others_run :: "('s, 't) console \<Rightarrow> ('s, 't) console" where
  "others_run c =
     (case con_between c of [] \<Rightarrow> c | f # fs \<Rightarrow> c\<lparr>con_sys := f (con_sys c), con_between := fs\<rparr>)"

definition shell_fprintf :: "string \<Rightarrow> ('s, 't) console \<Rightarrow> ('s, 't) console" where
  "shell_fprintf s c = c\<lparr>con_out := con_out c @ s\<rparr>"

definition shell_print :: "string \<Rightarrow> ('s, 't) console \<Rightarrow> ('s, 't) console" where
  "shell_print s c = shell_fprintf (s @ newline) c"

abbreviation (input) shell_error :: "string \<Rightarrow> ('s, 't) console \<Rightarrow> ('s, 't) console" where
  "shell_error \<equiv> shell_print"

definition print_lines :: "string list \<Rightarrow> ('s, 't) console \<Rightarrow> ('s, 't) console" where
  "print_lines ls c = fold shell_print ls c"

text \<open>A read of a register, and a run of reads that fill a structure and end at the first that fails.\<close>

definition sh_read ::
    "('s, 't) reg_descriptor list \<Rightarrow> reg_id_t \<Rightarrow> ('s, 't) console \<Rightarrow> (reg_status \<times> reg_value \<times> ('s, 't) console) option" where
  "sh_read catalog i c =
     map_option (\<lambda>(st, v). (st, v, others_run c)) (reg_read catalog i (con_sys (others_run c)))"

fun read_regs ::
    "('s, 't) reg_descriptor list \<Rightarrow> (reg_id_t \<times> (reg_value \<Rightarrow> 'a \<Rightarrow> 'a)) list \<Rightarrow> 'a \<Rightarrow> ('s, 't) console \<Rightarrow>
     ((int + 'a) \<times> ('s, 't) console) option" where
  "read_regs catalog [] a c = Some (Inr a, c)"
| "read_regs catalog ((i, set_member) # rs) a c =
     (case sh_read catalog i c of
        None \<Rightarrow> None
      | Some (st, v, c1) \<Rightarrow> if st \<noteq> REG_OK then Some (Inl (- EIO), c1) else read_regs catalog rs (set_member v a) c1)"

definition sh_write ::
    "('s, 't) reg_descriptor list \<Rightarrow> reg_id_t \<Rightarrow> u16 \<Rightarrow> shell_timeout \<Rightarrow> ('s, 't) console \<Rightarrow>
     (reg_status \<times> ('s, 't) console) option" where
  "sh_write catalog i v timeout c =
     (case con_waits c of
        [] \<Rightarrow> None
      | w # ws \<Rightarrow>
          let c1 = others_run (c\<lparr>con_waits := ws\<rparr>) in
          map_option (\<lambda>(st, s). (st, c1\<lparr>con_sys := s\<rparr>)) (reg_write catalog i (value_of_u16 v) (w timeout) (con_sys c1)))"

text \<open>Argument \<open>i\<close> of a command; there is none beyond \<open>argc\<close>.\<close>

definition arg :: "string list \<Rightarrow> nat \<Rightarrow> string option" where
  "arg argv i = (if i < length argv then Some (argv ! i) else None)"

text \<open>A loop whose body returns from the command with a result other than 0.\<close>

fun sh_for :: "('i \<Rightarrow> ('s, 't) console \<Rightarrow> ('s, 't) sh_result) \<Rightarrow> 'i list \<Rightarrow> ('s, 't) console \<Rightarrow> ('s, 't) sh_result" where
  "sh_for body [] c = Some (0, c)"
| "sh_for body (i # is) c = do {
     (ret, c1) \<leftarrow> body i c;
     if ret \<noteq> 0 then Some (ret, c1) else sh_for body is c1
   }"

text \<open>
  The registered commands: path of names, handler, mandatory and optional number of arguments, the command's
  own name counted. Without numbers the shell passes on whatever it gets.
\<close>

record ('s, 't) shell_cmd =
  cmd_path :: "string list"
  cmd_handler :: "string list \<Rightarrow> ('s, 't) console \<Rightarrow> ('s, 't) sh_result"
  cmd_args :: "(nat \<times> nat) option"

subsection \<open>What is printed is read back\<close>

lemma digit_value_char [simp]: "d < 36 \<Longrightarrow> digit_value (digit_char d) = Some d"
  by (simp add: digit_value_def digit_char_def Let_def)

lemma is_digit_char [simp]: "base \<le> 36 \<Longrightarrow> d < base \<Longrightarrow> is_digit base (digit_char d)"
  by (simp add: is_digit_def)

lemma digits_Suc: "2 \<le> base \<Longrightarrow> base \<le> n \<Longrightarrow> digits base n = digits base (n div base) @ [digit_char (n mod base)]"
  by (subst digits.simps) simp

lemma digits_small: "n < base \<Longrightarrow> digits base n = [digit_char n]"
  by (subst digits.simps) simp

lemma digits_are_digits: "2 \<le> base \<Longrightarrow> base \<le> 36 \<Longrightarrow> c \<in> set (digits base n) \<Longrightarrow> is_digit base c"
proof (induction n rule: less_induct)
  case (less n)
  show ?case
  proof (cases "n < base")
    case True
    then show ?thesis using less.prems by (simp add: digits_small)
  next
    case False
    then show ?thesis
      using less.prems less.IH [of "n div base"] digits_Suc [of base n] by auto
  qed
qed

lemma digits_not_empty [simp]: "digits base n \<noteq> []"
  by (subst digits.simps) simp

lemma take_digits_append:
  "\<forall>c\<in>set xs. is_digit base c \<Longrightarrow> take_digits base acc (xs @ ys) = take_digits base (fst (take_digits base acc xs)) ys"
  by (induction xs arbitrary: acc) auto

lemma take_digits_digits:
  assumes "2 \<le> base" "base \<le> 36"
  shows "take_digits base 0 (digits base n) = (n, [])"
proof (induction n rule: less_induct)
  case (less n)
  show ?case
  proof (cases "n < base")
    case True
    then show ?thesis using assms by (simp add: digits_small)
  next
    case False
    have IH: "take_digits base 0 (digits base (n div base)) = (n div base, [])"
      using less.IH [of "n div base"] assms False by simp
    have all: "\<forall>c\<in>set (digits base (n div base)). is_digit base c"
      using digits_are_digits [OF assms] by blast
    have "take_digits base 0 (digits base n) = take_digits base (n div base) [digit_char (n mod base)]"
      using digits_Suc [of base n] assms False by (simp add: take_digits_append [OF all] IH)
    also have "n mod base < 36" using assms mod_less_divisor [of base n] by linarith
    then have "take_digits base (n div base) [digit_char (n mod base)] = (n, [])" using assms by simp
    finally show ?thesis .
  qed
qed

lemma digit_not_special:
  assumes "is_digit base c" shows "\<not> is_space c" "c \<noteq> CHR ''-''" "c \<noteq> CHR ''+''"
  using assms by (auto simp: is_digit_def digit_value_def is_space_def Let_def split: if_splits)

lemma dropWhile_hd: "s \<noteq> [] \<Longrightarrow> \<not> P (hd s) \<Longrightarrow> dropWhile P s = s"
  by (cases s) auto

lemma scan_decimal:
  assumes "s = digits 10 n"
  shows "scan_int 10 s = Some (False, n, [])" "scan_int 10 (CHR ''-'' # s) = Some (True, n, [])"
proof -
  have ne: "s \<noteq> []" using assms by simp
  have d: "is_digit 10 (hd s)" using digits_are_digits [of 10 "hd s" n] ne assms by simp
  note sp = digit_not_special [OF d]
  have t: "take_digits 10 0 s = (n, [])" using take_digits_digits [of 10 n] assms by simp
  have m: "\<not> is_space CHR ''-''" by (simp add: is_space_def)
  have h: "take 1 s \<noteq> ''-''" "take 1 s \<noteq> ''+''" using sp ne by (cases s; auto)+
  show "scan_int 10 s = Some (False, n, [])"
    using ne d sp(1) h by (simp add: scan_int_def scan_base_def dropWhile_hd Let_def t)
  show "scan_int 10 (CHR ''-'' # s) = Some (True, n, [])"
    using ne d by (simp add: scan_int_def scan_base_def m Let_def t)
qed

lemma digit_char_0: "digit_char 0 = CHR ''0''"
  by code_simp

lemma digit_char_not_0: "0 < d \<Longrightarrow> d < 36 \<Longrightarrow> digit_char d \<noteq> CHR ''0''"
  by (metis digit_char_0 digit_value_char less_nat_zero_code less_trans option.inject)

text \<open>A decimal print has no leading zero, so base 0 reads it as decimal too.\<close>

lemma digits_hd: "0 < n \<Longrightarrow> hd (digits 10 n) \<noteq> CHR ''0''"
proof (induction n rule: less_induct)
  case (less n)
  show ?case
  proof (cases "n < 10")
    case True
    then show ?thesis using less.prems digit_char_not_0 [of n] by (simp add: digits_small)
  next
    case False
    then show ?thesis using less.IH [of "n div 10"] digits_Suc [of 10 n] by (simp add: hd_append)
  qed
qed

lemma scan_base_digits: "scan_base 0 (digits 10 n) = (if n = 0 then 8 else 10, digits 10 n)"
proof (cases "n = 0")
  case True
  then show ?thesis by (simp add: scan_base_def digits_small digit_char_0)
next
  case False
  then have "digits 10 n ! 0 \<noteq> CHR ''0''" using digits_hd [of n] by (simp add: hd_conv_nth)
  moreover from this have "take 1 (digits 10 n) \<noteq> ''0''" by (cases "digits 10 n") auto
  ultimately show ?thesis using False by (simp add: scan_base_def)
qed

lemma take_digits_zero: "take_digits 8 0 (digits 10 0) = (0, [])"
  by (simp add: digits_small is_digit_def digit_value_def digit_char_def)

lemma scan_auto:
  assumes "s = digits 10 n"
  shows "scan_int 0 s = Some (False, n, [])" "scan_int 0 (CHR ''-'' # s) = Some (True, n, [])"
proof -
  have ne: "s \<noteq> []" using assms by simp
  have d: "is_digit 10 (hd s)" using digits_are_digits [of 10 "hd s" n] ne assms by simp
  note sp = digit_not_special [OF d]
  have z: "n = 0 \<Longrightarrow> is_digit 8 (hd s)" using assms by (simp add: digits_small is_digit_def digit_value_def digit_char_def)
  have t: "take_digits 10 0 s = (n, [])" "n = 0 \<Longrightarrow> take_digits 8 0 s = (0, [])"
    using take_digits_digits [of 10 n] take_digits_zero assms by simp_all
  have m: "\<not> is_space CHR ''-''" by (simp add: is_space_def)
  have h: "take 1 s \<noteq> ''-''" "take 1 s \<noteq> ''+''" using sp ne by (cases s; auto)+
  have b: "scan_base 0 s = (if n = 0 then 8 else 10, s)" using scan_base_digits assms by simp
  show "scan_int 0 s = Some (False, n, [])"
    using ne d z t sp(1) h by (cases "n = 0"; simp add: scan_int_def b dropWhile_hd Let_def)
  show "scan_int 0 (CHR ''-'' # s) = Some (True, n, [])"
    using ne d z t by (cases "n = 0"; simp add: scan_int_def b m Let_def)
qed

lemma strtoul_auto_fmt_u: "n < 2 ^ 32 \<Longrightarrow> strtoul (fmt_u n) 0 = (word_of_nat n, [])"
  by (simp add: strtoul_def fmt_u_def scan_auto)

lemma strtoul_auto_fmt_d:
  assumes "- (2 ^ 32) < i" "i < 2 ^ 32"
  shows "strtoul (fmt_d i) 0 = (word_of_int i, [])"
proof -
  have "nat i < 4294967296" "nat (- i) < 4294967296" using assms by simp_all
  then show ?thesis by (cases "i < 0") (simp_all add: strtoul_def fmt_d_def fmt_u_def scan_auto not_le)
qed

lemma strtoul_fmt_u: "n < 2 ^ 32 \<Longrightarrow> strtoul (fmt_u n) 10 = (word_of_nat n, [])"
  by (simp add: strtoul_def fmt_u_def scan_decimal)

text \<open>The decimal print of a 32-bit signed number is what \<open>strtol\<close> reads back, whole.\<close>

lemma strtol_fmt_d:
  assumes "- (2 ^ 31) \<le> i" "i < 2 ^ 31"
  shows "strtol (fmt_d i) 10 = (word_of_int i, [])"
proof (cases "i < 0")
  case True
  have "\<not> 2 ^ 31 < nat (- i)" using assms(1) by simp
  moreover have "- word_of_nat (nat (- i)) = (word_of_int i :: s32)"
    using True by simp
  ultimately show ?thesis using True by (simp add: strtol_def fmt_d_def fmt_u_def scan_decimal)
next
  case False
  have "\<not> 2 ^ 31 \<le> nat i" using assms(2) by simp
  moreover have "word_of_nat (nat i) = (word_of_int i :: s32)" using False by simp
  ultimately show ?thesis using False by (simp add: strtol_def fmt_d_def fmt_u_def scan_decimal)
qed

end
