(* ===== verification/Vc_Shell_Base.thy ===== *)
theory Vc_Shell_Base
  imports Shell_Console
begin

text \<open>
  The first half of \<open>lib/voltage_control/vc_shell.c\<close>: the snapshots and configurations that the commands
  read from the catalog, the words they print and parse, the field tables, and the layout of the output.
\<close>

unbundle bit_operations_syntax

type_synonym ('s, 't) catalog = "('s, 't) reg_descriptor list"

definition vc_shell_init :: "('s, 't) console \<Rightarrow> ('s, 't) console" where
  "vc_shell_init c = c\<lparr>initialized := True\<rparr>"

definition CTX_CHECK ::
    "(('s, 't) console \<Rightarrow> ('s, 't) sh_result) \<Rightarrow> ('s, 't) console \<Rightarrow> ('s, 't) sh_result" where
  "CTX_CHECK command c =
     (if \<not> initialized c then Some (- ENODEV, shell_error ''vc not initialized'' c) else command c)"

subsection \<open>Snapshots\<close>

text \<open>The members of \<open>union reg_value\<close>: \<open>u16\<close> and \<open>s16\<close> are the low half, \<open>u32\<close> and \<open>s32\<close> the whole.\<close>

definition read_system_snapshot ::
    "('s, 't) catalog \<Rightarrow> ('s, 't) console \<Rightarrow> ((int + vc_system_snapshot) \<times> ('s, 't) console) option" where
  "read_system_snapshot catalog c = read_regs catalog
     [(REG_MODBUS_ID REG_MODBUS_FIELD_PROTOCOL_MAJOR, \<lambda>v. snap_protocol_major_update (\<lambda>_. value_u16 v)),
      (REG_MODBUS_ID REG_MODBUS_FIELD_PROTOCOL_MINOR, \<lambda>v. snap_protocol_minor_update (\<lambda>_. value_u16 v)),
      (REG_VC_GLOBAL_ID REG_VC_GLOBAL_FIELD_VARIANT_ID, \<lambda>v. snap_variant_id_update (\<lambda>_. value_u16 v)),
      (REG_VC_GLOBAL_ID REG_VC_GLOBAL_FIELD_CAPABILITY_FLAGS, \<lambda>v. snap_system_capability_flags_update (\<lambda>_. value_u16 v)),
      (REG_VC_GLOBAL_ID REG_VC_GLOBAL_FIELD_SUPPORTED_CHANNELS, \<lambda>v. snap_supported_channel_count_update (\<lambda>_. value_u16 v)),
      (REG_VC_GLOBAL_ID REG_VC_GLOBAL_FIELD_ACTIVE_CHANNEL_MASK, \<lambda>v. snap_active_channel_mask_update (\<lambda>_. value_u16 v)),
      (REG_VC_GLOBAL_ID REG_VC_GLOBAL_FIELD_ACTIVE_OPERATING_MODE,
         \<lambda>v. snap_active_operating_mode_update (\<lambda>_. vc_operating_mode_of_u16 (value_u16 v))),
      (REG_VC_GLOBAL_ID REG_VC_GLOBAL_FIELD_STATUS, \<lambda>v. snap_system_status_update (\<lambda>_. value_u16 v)),
      (REG_VC_GLOBAL_ID REG_VC_GLOBAL_FIELD_FAULT_CAUSE, \<lambda>v. snap_system_fault_cause_update (\<lambda>_. value_u16 v)),
      (REG_VC_GLOBAL_ID REG_VC_GLOBAL_FIELD_CAL_WATCHDOG_REMAINING_S,
         \<lambda>v. snap_cal_watchdog_remaining_ms_update (\<lambda>_. ucast (value_u16 v) * 1000))]
     \<lparr>snap_protocol_major = 0, snap_protocol_minor = 0, snap_variant_id = 0, snap_system_capability_flags = 0,
      snap_supported_channel_count = 0, snap_active_channel_mask = 0,
      snap_active_operating_mode = VC_OPERATING_MODE_NORMAL, snap_system_status = 0, snap_system_fault_cause = 0,
      snap_cal_watchdog_remaining_ms = 0\<rparr> c"

abbreviation zero_channel_snapshot :: vc_channel_snapshot where
  "zero_channel_snapshot \<equiv>
    \<lparr>snap_measured_voltage = 0, snap_measured_current = 0, snap_operational_target_voltage = 0, snap_status_bits = 0,
     snap_active_fault_cause = 0, snap_fault_history_cause = 0,
     snap_last_protection_output_action = VC_OUTPUT_ACTION_NONE, snap_auto_retry_count = 0,
     snap_auto_cooldown_remaining = 0, snap_last_fault_timestamp = 0, snap_channel_capability_flags = 0,
     snap_raw_adc_voltage = 0, snap_raw_adc_current = 0, snap_raw_dac_readback = 0, snap_cal_output_enabled = 0\<rparr>"

text \<open>What is read after the capabilities, as far as the channel has them.\<close>

definition channel_snapshot_regs :: "u8 \<Rightarrow> u16 \<Rightarrow> (reg_id_t \<times> (reg_value \<Rightarrow> vc_channel_snapshot \<Rightarrow> vc_channel_snapshot)) list"
  where
  "channel_snapshot_regs ch caps =
     (if caps AND CH_CAP_VOLTAGE_MEASUREMENT \<noteq> 0
      then [(REG_VC_ID ch REG_VC_FIELD_MEASURED_VOLTAGE, \<lambda>v. snap_measured_voltage_update (\<lambda>_. value_u16 v)),
            (REG_VC_ID ch REG_VC_FIELD_RAW_ADC_VOLTAGE, \<lambda>v. snap_raw_adc_voltage_update (\<lambda>_. v))] else []) @
     (if caps AND CH_CAP_CURRENT_MEASUREMENT \<noteq> 0
      then [(REG_VC_ID ch REG_VC_FIELD_MEASURED_CURRENT, \<lambda>v. snap_measured_current_update (\<lambda>_. value_u16 v)),
            (REG_VC_ID ch REG_VC_FIELD_RAW_ADC_CURRENT, \<lambda>v. snap_raw_adc_current_update (\<lambda>_. v))] else []) @
     [(REG_VC_ID ch REG_VC_FIELD_OPER_TARGET_VOLTAGE, \<lambda>v. snap_operational_target_voltage_update (\<lambda>_. value_u16 v)),
      (REG_VC_ID ch REG_VC_FIELD_STATUS_BITS, \<lambda>v. snap_status_bits_update (\<lambda>_. value_u16 v)),
      (REG_VC_ID ch REG_VC_FIELD_ACTIVE_FAULT_CAUSE, \<lambda>v. snap_active_fault_cause_update (\<lambda>_. value_u16 v)),
      (REG_VC_ID ch REG_VC_FIELD_FAULT_HISTORY_CAUSE, \<lambda>v. snap_fault_history_cause_update (\<lambda>_. value_u16 v)),
      (REG_VC_ID ch REG_VC_FIELD_LAST_PROT_OUT_ACTION,
         \<lambda>v. snap_last_protection_output_action_update (\<lambda>_. vc_output_action_of_u16 (value_u16 v))),
      (REG_VC_ID ch REG_VC_FIELD_AUTO_RETRY_COUNT, \<lambda>v. snap_auto_retry_count_update (\<lambda>_. value_u16 v)),
      (REG_VC_ID ch REG_VC_FIELD_AUTO_COOLDOWN_REMAINING, \<lambda>v. snap_auto_cooldown_remaining_update (\<lambda>_. value_u16 v)),
      (REG_VC_ID ch REG_VC_FIELD_LAST_FAULT_TIMESTAMP, \<lambda>v. snap_last_fault_timestamp_update (\<lambda>_. v))] @
     (if caps AND CH_CAP_RAW_OUTPUT_DRIVE \<noteq> 0
      then [(REG_VC_ID ch REG_VC_FIELD_CAL_DAC_CODE, \<lambda>v. snap_raw_dac_readback_update (\<lambda>_. value_u16 v)),
            (REG_VC_ID ch REG_VC_FIELD_CAL_OUTPUT_ENABLE, \<lambda>v. snap_cal_output_enabled_update (\<lambda>_. value_u16 v))] else [])"

definition read_channel_snapshot ::
    "('s, 't) catalog \<Rightarrow> u8 \<Rightarrow> ('s, 't) console \<Rightarrow> ((int + vc_channel_snapshot) \<times> ('s, 't) console) option" where
  "read_channel_snapshot catalog ch c = do {
     (r, c1) \<leftarrow> read_regs catalog
       [(REG_VC_ID ch REG_VC_FIELD_CAPABILITY_FLAGS, \<lambda>v. snap_channel_capability_flags_update (\<lambda>_. value_u16 v))]
       zero_channel_snapshot c;
     case r of
       Inl e \<Rightarrow> Some (Inl e, c1)
     | Inr s \<Rightarrow> read_regs catalog (channel_snapshot_regs ch (snap_channel_capability_flags s)) s c1
   }"

subsection \<open>Configurations\<close>

definition read_system_config ::
    "('s, 't) catalog \<Rightarrow> ('s, 't) console \<Rightarrow> ((int + vc_system_config) \<times> ('s, 't) console) option" where
  "read_system_config catalog c = read_regs catalog
     [(REG_VC_GLOBAL_ID REG_VC_GLOBAL_FIELD_OPERATING_MODE,
         \<lambda>v. sys_operating_mode_update (\<lambda>_. vc_operating_mode_of_u16 (value_u16 v))),
      (REG_VC_GLOBAL_ID REG_VC_GLOBAL_FIELD_STARTUP_CHANNEL_POLICY, \<lambda>v. startup_channel_policy_update (\<lambda>_. value_u16 v))]
     \<lparr>sys_operating_mode = VC_OPERATING_MODE_NORMAL, startup_channel_policy = 0\<rparr> c"

definition channel_config_regs :: "u8 \<Rightarrow> u16 \<Rightarrow> (reg_id_t \<times> (reg_value \<Rightarrow> vc_channel_config \<Rightarrow> vc_channel_config)) list" where
  "channel_config_regs ch caps =
     (if caps AND CH_CAP_RAW_OUTPUT_DRIVE \<noteq> 0
      then [(REG_VC_ID ch REG_VC_FIELD_CFG_TARGET_VOLTAGE, \<lambda>v. configured_target_voltage_update (\<lambda>_. value_u16 v)),
            (REG_VC_ID ch REG_VC_FIELD_RAMP_UP_STEP, \<lambda>v. ramp_up_step_update (\<lambda>_. value_u16 v)),
            (REG_VC_ID ch REG_VC_FIELD_RAMP_UP_INTERVAL, \<lambda>v. ramp_up_interval_update (\<lambda>_. value_u16 v)),
            (REG_VC_ID ch REG_VC_FIELD_RAMP_DOWN_STEP, \<lambda>v. ramp_down_step_update (\<lambda>_. value_u16 v)),
            (REG_VC_ID ch REG_VC_FIELD_RAMP_DOWN_INTERVAL, \<lambda>v. ramp_down_interval_update (\<lambda>_. value_u16 v))]
      else if caps AND CH_CAP_OUTPUT_ENABLE \<noteq> 0
      then [(REG_VC_ID ch REG_VC_FIELD_CFG_OUTPUT_ENABLED, \<lambda>v. configured_output_enabled_update (\<lambda>_. value_u16 v \<noteq> 0))]
      else []) @
     [(REG_VC_ID ch REG_VC_FIELD_RECOVERY_POLICY_MODE,
         \<lambda>v. recovery_policy_mode_update (\<lambda>_. vc_recovery_policy_mode_of_u16 (value_u16 v))),
      (REG_VC_ID ch REG_VC_FIELD_AUTO_RETRY_DELAY, \<lambda>v. auto_retry_delay_update (\<lambda>_. value_u16 v)),
      (REG_VC_ID ch REG_VC_FIELD_AUTO_RETRY_MAX_COUNT, \<lambda>v. auto_retry_max_count_update (\<lambda>_. value_u16 v)),
      (REG_VC_ID ch REG_VC_FIELD_AUTO_RETRY_WINDOW, \<lambda>v. auto_retry_window_update (\<lambda>_. value_u16 v)),
      (REG_VC_ID ch REG_VC_FIELD_CURRENT_SAFE_BAND_PCT, \<lambda>v. current_safe_band_pct_update (\<lambda>_. value_u16 v))] @
     (if caps AND CH_CAP_CURRENT_MEASUREMENT \<noteq> 0
      then [(REG_VC_ID ch REG_VC_FIELD_CURRENT_PROTECTION_MODE,
               \<lambda>v. current_protection_mode_update (\<lambda>_. vc_protection_mode_of_u16 (value_u16 v))),
            (REG_VC_ID ch REG_VC_FIELD_CURRENT_PROT_OUT_ACTION,
               \<lambda>v. current_protection_output_action_update (\<lambda>_. vc_output_action_of_u16 (value_u16 v))),
            (REG_VC_ID ch REG_VC_FIELD_CURRENT_LIMIT_THRESHOLD, \<lambda>v. current_limit_threshold_update (\<lambda>_. value_u16 v))]
      else []) @
     (if caps AND (CH_CAP_RAW_OUTPUT_DRIVE OR CH_CAP_VOLTAGE_MEASUREMENT) = CH_CAP_RAW_OUTPUT_DRIVE OR CH_CAP_VOLTAGE_MEASUREMENT
      then [(REG_VC_ID ch REG_VC_FIELD_AUTO_DERATE_STEP, \<lambda>v. auto_derate_step_update (\<lambda>_. value_u16 v))] else [])"

text \<open>The capabilities alone, then the members they call for.\<close>

definition read_caps :: "('s, 't) catalog \<Rightarrow> u8 \<Rightarrow> ('s, 't) console \<Rightarrow> ((int + u16) \<times> ('s, 't) console) option" where
  "read_caps catalog ch = read_regs catalog [(REG_VC_ID ch REG_VC_FIELD_CAPABILITY_FLAGS, \<lambda>v _. value_u16 v)] 0"

definition read_with_caps ::
    "('s, 't) catalog \<Rightarrow> (u8 \<Rightarrow> u16 \<Rightarrow> (reg_id_t \<times> (reg_value \<Rightarrow> 'a \<Rightarrow> 'a)) list) \<Rightarrow> 'a \<Rightarrow> u8 \<Rightarrow> ('s, 't) console \<Rightarrow>
     ((int + 'a \<times> u16) \<times> ('s, 't) console) option" where
  "read_with_caps catalog regs zero ch c = do {
     (r, c1) \<leftarrow> read_caps catalog ch c;
     case r of
       Inl e \<Rightarrow> Some (Inl e, c1)
     | Inr caps \<Rightarrow> do {
         (r2, c2) \<leftarrow> read_regs catalog (regs ch caps) zero c1;
         Some (case r2 of Inl e \<Rightarrow> (Inl e, c2) | Inr a \<Rightarrow> (Inr (a, caps), c2))
       }
   }"

definition read_channel_config ::
    "('s, 't) catalog \<Rightarrow> u8 \<Rightarrow> ('s, 't) console \<Rightarrow> ((int + vc_channel_config \<times> u16) \<times> ('s, 't) console) option" where
  "read_channel_config catalog = read_with_caps catalog channel_config_regs
     \<lparr>configured_target_voltage = 0, configured_output_enabled = False, ramp_up_step = 0, ramp_up_interval = 0,
      ramp_down_step = 0, ramp_down_interval = 0, recovery_policy_mode = VC_RECOVERY_MANUAL_LATCH, auto_retry_delay = 0,
      auto_retry_max_count = 0, auto_retry_window = 0, current_safe_band_pct = 0,
      current_protection_mode = VC_PROTECTION_MODE_DISABLED, current_protection_output_action = VC_OUTPUT_ACTION_NONE,
      current_limit_threshold = 0, auto_derate_step = 0\<rparr>"

definition cal_config_regs :: "u8 \<Rightarrow> u16 \<Rightarrow> (reg_id_t \<times> (reg_value \<Rightarrow> vc_channel_cal_config \<Rightarrow> vc_channel_cal_config)) list"
  where
  "cal_config_regs ch caps =
     (if caps AND CH_CAP_RAW_OUTPUT_DRIVE \<noteq> 0
      then [(REG_VC_ID ch REG_VC_FIELD_OUTPUT_CAL_K, \<lambda>v. output_calib_k_update (\<lambda>_. value_u16 v)),
            (REG_VC_ID ch REG_VC_FIELD_OUTPUT_CAL_B, \<lambda>v. output_calib_b_update (\<lambda>_. value_u16 v)),
            (REG_VC_ID ch REG_VC_FIELD_OUTPUT_CAL_K_EXP, \<lambda>v. output_calib_k_exp_update (\<lambda>_. value_u16 v))] else []) @
     (if caps AND CH_CAP_VOLTAGE_MEASUREMENT \<noteq> 0
      then [(REG_VC_ID ch REG_VC_FIELD_MEASURED_V_CAL_K, \<lambda>v. measured_voltage_calib_k_update (\<lambda>_. value_u16 v)),
            (REG_VC_ID ch REG_VC_FIELD_MEASURED_V_CAL_B, \<lambda>v. measured_voltage_calib_b_update (\<lambda>_. value_u16 v)),
            (REG_VC_ID ch REG_VC_FIELD_MEASURED_V_CAL_K_EXP, \<lambda>v. measured_voltage_calib_k_exp_update (\<lambda>_. value_u16 v))] else []) @
     (if caps AND CH_CAP_CURRENT_MEASUREMENT \<noteq> 0
      then [(REG_VC_ID ch REG_VC_FIELD_MEASURED_I_CAL_K, \<lambda>v. measured_current_calib_k_update (\<lambda>_. value_u16 v)),
            (REG_VC_ID ch REG_VC_FIELD_MEASURED_I_CAL_B, \<lambda>v. measured_current_calib_b_update (\<lambda>_. value_u16 v)),
            (REG_VC_ID ch REG_VC_FIELD_MEASURED_I_CAL_K_EXP, \<lambda>v. measured_current_calib_k_exp_update (\<lambda>_. value_u16 v))] else [])"

definition read_cal_config ::
    "('s, 't) catalog \<Rightarrow> u8 \<Rightarrow> ('s, 't) console \<Rightarrow> ((int + vc_channel_cal_config \<times> u16) \<times> ('s, 't) console) option" where
  "read_cal_config catalog = read_with_caps catalog cal_config_regs
     \<lparr>output_calib_k = 0, output_calib_b = 0, measured_voltage_calib_k = 0, measured_voltage_calib_b = 0,
      measured_current_calib_k = 0, measured_current_calib_b = 0, output_calib_k_exp = 0,
      measured_voltage_calib_k_exp = 0, measured_current_calib_k_exp = 0\<rparr>"

end
