(* ===== verification/Vc_Shell_Text.thy ===== *)
theory Vc_Shell_Text
  imports Vc_Shell_Base
begin

text \<open>
  The words of \<open>lib/voltage_control/vc_shell.c\<close>: what the commands print for an enumerator or a bit mask, what
  they accept for one, the names of the fields, and the layout of a snapshot or configuration on the console.
\<close>

unbundle bit_operations_syntax

subsection \<open>Words for values\<close>

definition mode_str :: "vc_operating_mode \<Rightarrow> string" where
  "mode_str m = (case m of
     VC_OPERATING_MODE_NORMAL \<Rightarrow> ''NORMAL''
   | VC_OPERATING_MODE_AUTOMATIC \<Rightarrow> ''AUTO''
   | VC_OPERATING_MODE_CALIBRATION \<Rightarrow> ''CAL''
   | _ \<Rightarrow> ''?'')"

definition recovery_str :: "vc_recovery_policy_mode \<Rightarrow> string" where
  "recovery_str m = (case m of
     VC_RECOVERY_MANUAL_LATCH \<Rightarrow> ''MANUAL''
   | VC_RECOVERY_AUTO_RETRY \<Rightarrow> ''AUTO_RETRY''
   | VC_RECOVERY_AUTO_DERATE_RETRY \<Rightarrow> ''DERATE_RETRY''
   | VC_RECOVERY_NEVER_RETRY \<Rightarrow> ''NEVER''
   | _ \<Rightarrow> ''?'')"

definition prot_str :: "vc_protection_mode \<Rightarrow> string" where
  "prot_str m = (case m of
     VC_PROTECTION_MODE_DISABLED \<Rightarrow> ''OFF''
   | VC_PROTECTION_MODE_FLAG_ONLY \<Rightarrow> ''FLAG''
   | VC_PROTECTION_MODE_APPLY_OUTPUT_ACTION \<Rightarrow> ''APPLY''
   | _ \<Rightarrow> ''?'')"

definition action_str :: "vc_output_action \<Rightarrow> string" where
  "action_str a = (case a of
     VC_OUTPUT_ACTION_NONE \<Rightarrow> ''NONE''
   | VC_OUTPUT_ACTION_ENABLE \<Rightarrow> ''ENABLE''
   | VC_OUTPUT_ACTION_DISABLE_GRACEFUL \<Rightarrow> ''GRACEFUL''
   | VC_OUTPUT_ACTION_DISABLE_IMMEDIATE \<Rightarrow> ''IMMEDIATE''
   | VC_OUTPUT_ACTION_DISABLE_FORCE \<Rightarrow> ''FORCE''
   | _ \<Rightarrow> ''?'')"

text \<open>The names of the set bits, each with a comma, into a buffer of \<open>len\<close> bytes.\<close>

definition flag_names :: "(u16 \<times> string) list \<Rightarrow> u16 \<Rightarrow> nat \<Rightarrow> string" where
  "flag_names table bits len =
     fold (\<lambda>(flag, name) buf. if bits AND flag \<noteq> 0 then strncat buf name len else buf) table []"

definition fault_str :: "u16 \<Rightarrow> nat \<Rightarrow> string" where
  "fault_str cause len =
     (if cause = 0 then take len ''none''
      else drop_comma (flag_names
        [(VC_FAULT_CURRENT, ''I,''), (VC_FAULT_MEASUREMENT, ''MEAS,''), (VC_FAULT_HARDWARE, ''HW,''),
         (VC_FAULT_INTERLOCK, ''LOCK,''), (VC_FAULT_RETRY_EXHAUST, ''RETRY,''), (VC_FAULT_CFG_INVALID, ''CFG,''),
         (VC_FAULT_STALE, ''STALE,'')] cause len))"

definition caps_str :: "u16 \<Rightarrow> nat \<Rightarrow> string" where
  "caps_str caps len =
     drop_comma (flag_names
       [(CH_CAP_OUTPUT_ENABLE, ''O,''), (CH_CAP_RAW_OUTPUT_DRIVE, ''R,''), (CH_CAP_VOLTAGE_MEASUREMENT, ''V,''),
        (CH_CAP_CURRENT_MEASUREMENT, ''I,''), (CH_CAP_HARDWARE_STATUS, ''H,'')] caps len)"

subsection \<open>Words of commands\<close>

text \<open>\<open>None\<close> is the result \<open>-EINVAL\<close>.\<close>

definition parse_mode :: "string \<Rightarrow> vc_operating_mode option" where
  "parse_mode s =
     (if s = ''normal'' then Some VC_OPERATING_MODE_NORMAL
      else if s = ''auto'' then Some VC_OPERATING_MODE_AUTOMATIC
      else None)"

fun u16_of_vc_param_action :: "vc_param_action \<Rightarrow> u16" where
  "u16_of_vc_param_action VC_PARAM_ACTION_NONE = 0"
| "u16_of_vc_param_action VC_PARAM_ACTION_SAVE = 1"
| "u16_of_vc_param_action VC_PARAM_ACTION_LOAD = 2"
| "u16_of_vc_param_action VC_PARAM_ACTION_FACTORY_RESET = 3"
| "u16_of_vc_param_action (VC_PARAM_ACTION_OTHER v) = v"

definition parse_param :: "string \<Rightarrow> vc_param_action option" where
  "parse_param s =
     (if s = ''save'' then Some VC_PARAM_ACTION_SAVE
      else if s = ''load'' then Some VC_PARAM_ACTION_LOAD
      else if s = ''reset'' then Some VC_PARAM_ACTION_FACTORY_RESET
      else None)"

definition parse_fault_cmd :: "string \<Rightarrow> vc_channel_fault_command option" where
  "parse_fault_cmd s =
     (if s = ''clear'' then Some VC_CHANNEL_FAULT_COMMAND_CLEAR_ACTIVE
      else if s = ''clear-history'' then Some VC_CHANNEL_FAULT_COMMAND_CLEAR_HISTORY
      else None)"

definition parse_channel ::
    "('s, 't) catalog \<Rightarrow> string \<Rightarrow> ('s, 't) console \<Rightarrow> ((int + u8) \<times> ('s, 't) console) option" where
  "parse_channel catalog s c =
     (case strtoul s 10 of (v, rest) \<Rightarrow>
        if rest \<noteq> [] then Some (Inl (- EINVAL), shell_error (''invalid channel: '' @ s) c)
        else do {
          (r, c1) \<leftarrow> read_system_snapshot catalog c;
          case r of
            Inl _ \<Rightarrow> Some (Inl (- EIO), shell_error ''voltage control unavailable'' c1)
          | Inr sys \<Rightarrow>
              Some (if ucast (snap_supported_channel_count sys) \<le> v
                    then (Inl (- EINVAL), shell_error (''channel '' @ fmt_u (unat v) @ '' out of range (0..'' @
                            fmt_d (uint (snap_supported_channel_count sys) - 1) @ '')'') c1)
                    else (Inr (ucast v), c1))
        })"

subsection \<open>Field names\<close>

definition sys_fields :: "(string \<times> vc_config_field) list" where
  "sys_fields = [(''mode'', VC_FIELD_OPERATING_MODE), (''startup_policy'', VC_FIELD_STARTUP_CHANNEL_POLICY)]"

definition ch_fields :: "(string \<times> vc_config_field) list" where
  "ch_fields =
    [(''target'', VC_FIELD_CONFIGURED_TARGET_VOLTAGE), (''startup'', VC_FIELD_CONFIGURED_OUTPUT_ENABLED),
     (''ramp_up_step'', VC_FIELD_RAMP_UP_STEP), (''ramp_up_int'', VC_FIELD_RAMP_UP_INTERVAL),
     (''ramp_dn_step'', VC_FIELD_RAMP_DOWN_STEP), (''ramp_dn_int'', VC_FIELD_RAMP_DOWN_INTERVAL),
     (''recovery'', VC_FIELD_RECOVERY_POLICY_MODE), (''retry_delay'', VC_FIELD_AUTO_RETRY_DELAY),
     (''retry_max'', VC_FIELD_AUTO_RETRY_MAX_COUNT), (''retry_window'', VC_FIELD_AUTO_RETRY_WINDOW),
     (''safe_band'', VC_FIELD_CURRENT_SAFE_BAND_PCT), (''prot_mode'', VC_FIELD_CURRENT_PROTECTION_MODE),
     (''prot_action'', VC_FIELD_CURRENT_PROT_OUT_ACTION), (''i_limit'', VC_FIELD_CURRENT_LIMIT_THRESHOLD),
     (''derate_step'', VC_FIELD_AUTO_DERATE_STEP)]"

definition cal_fields :: "(string \<times> vc_cal_field) list" where
  "cal_fields =
    [(''out_cal_k'', VC_CAL_FIELD_OUTPUT_K), (''out_cal_b'', VC_CAL_FIELD_OUTPUT_B),
     (''out_cal_k_exp'', VC_CAL_FIELD_OUTPUT_K_EXP), (''v_cal_k'', VC_CAL_FIELD_MEASURED_V_K),
     (''v_cal_b'', VC_CAL_FIELD_MEASURED_V_B), (''v_cal_k_exp'', VC_CAL_FIELD_MEASURED_V_K_EXP),
     (''i_cal_k'', VC_CAL_FIELD_MEASURED_I_K), (''i_cal_b'', VC_CAL_FIELD_MEASURED_I_B),
     (''i_cal_k_exp'', VC_CAL_FIELD_MEASURED_I_K_EXP)]"

text \<open>The search of a table, and what is printed when the name is not in it.\<close>

definition lookup_name ::
    "string \<Rightarrow> (string \<times> 'f) list \<Rightarrow> string \<Rightarrow> ('s, 't) console \<Rightarrow> 'f option \<times> ('s, 't) console" where
  "lookup_name what table name c =
     (case find (\<lambda>e. name = fst e) table of
        Some e \<Rightarrow> (Some (snd e), c)
      | None \<Rightarrow>
          (None, shell_fprintf newline
            (fold (\<lambda>e. shell_fprintf ('' '' @ fst e)) table
              (shell_fprintf ''available:'' (shell_error (''unknown '' @ what @ '': '' @ name) c)))))"

definition lookup_cal_field :: "string \<Rightarrow> ('s, 't) console \<Rightarrow> vc_cal_field option \<times> ('s, 't) console" where
  "lookup_cal_field = lookup_name ''cal field'' cal_fields"

definition lookup_field ::
    "(string \<times> vc_config_field) list \<Rightarrow> string \<Rightarrow> ('s, 't) console \<Rightarrow> vc_config_field option \<times> ('s, 't) console" where
  "lookup_field = lookup_name ''field''"

definition channel_config_id :: "u8 \<Rightarrow> vc_config_field \<Rightarrow> reg_id_t" where
  "channel_config_id ch field = (case field of
     VC_FIELD_CONFIGURED_TARGET_VOLTAGE \<Rightarrow> REG_VC_ID ch REG_VC_FIELD_CFG_TARGET_VOLTAGE
   | VC_FIELD_CONFIGURED_OUTPUT_ENABLED \<Rightarrow> REG_VC_ID ch REG_VC_FIELD_CFG_OUTPUT_ENABLED
   | VC_FIELD_RAMP_UP_STEP \<Rightarrow> REG_VC_ID ch REG_VC_FIELD_RAMP_UP_STEP
   | VC_FIELD_RAMP_UP_INTERVAL \<Rightarrow> REG_VC_ID ch REG_VC_FIELD_RAMP_UP_INTERVAL
   | VC_FIELD_RAMP_DOWN_STEP \<Rightarrow> REG_VC_ID ch REG_VC_FIELD_RAMP_DOWN_STEP
   | VC_FIELD_RAMP_DOWN_INTERVAL \<Rightarrow> REG_VC_ID ch REG_VC_FIELD_RAMP_DOWN_INTERVAL
   | VC_FIELD_RECOVERY_POLICY_MODE \<Rightarrow> REG_VC_ID ch REG_VC_FIELD_RECOVERY_POLICY_MODE
   | VC_FIELD_AUTO_RETRY_DELAY \<Rightarrow> REG_VC_ID ch REG_VC_FIELD_AUTO_RETRY_DELAY
   | VC_FIELD_AUTO_RETRY_MAX_COUNT \<Rightarrow> REG_VC_ID ch REG_VC_FIELD_AUTO_RETRY_MAX_COUNT
   | VC_FIELD_AUTO_RETRY_WINDOW \<Rightarrow> REG_VC_ID ch REG_VC_FIELD_AUTO_RETRY_WINDOW
   | VC_FIELD_CURRENT_SAFE_BAND_PCT \<Rightarrow> REG_VC_ID ch REG_VC_FIELD_CURRENT_SAFE_BAND_PCT
   | VC_FIELD_CURRENT_PROTECTION_MODE \<Rightarrow> REG_VC_ID ch REG_VC_FIELD_CURRENT_PROTECTION_MODE
   | VC_FIELD_CURRENT_PROT_OUT_ACTION \<Rightarrow> REG_VC_ID ch REG_VC_FIELD_CURRENT_PROT_OUT_ACTION
   | VC_FIELD_CURRENT_LIMIT_THRESHOLD \<Rightarrow> REG_VC_ID ch REG_VC_FIELD_CURRENT_LIMIT_THRESHOLD
   | VC_FIELD_AUTO_DERATE_STEP \<Rightarrow> REG_VC_ID ch REG_VC_FIELD_AUTO_DERATE_STEP
   | _ \<Rightarrow> 0)"

definition cal_config_id :: "u8 \<Rightarrow> vc_cal_field \<Rightarrow> reg_id_t" where
  "cal_config_id ch field = (case field of
     VC_CAL_FIELD_OUTPUT_K \<Rightarrow> REG_VC_ID ch REG_VC_FIELD_OUTPUT_CAL_K
   | VC_CAL_FIELD_OUTPUT_B \<Rightarrow> REG_VC_ID ch REG_VC_FIELD_OUTPUT_CAL_B
   | VC_CAL_FIELD_OUTPUT_K_EXP \<Rightarrow> REG_VC_ID ch REG_VC_FIELD_OUTPUT_CAL_K_EXP
   | VC_CAL_FIELD_MEASURED_V_K \<Rightarrow> REG_VC_ID ch REG_VC_FIELD_MEASURED_V_CAL_K
   | VC_CAL_FIELD_MEASURED_V_B \<Rightarrow> REG_VC_ID ch REG_VC_FIELD_MEASURED_V_CAL_B
   | VC_CAL_FIELD_MEASURED_V_K_EXP \<Rightarrow> REG_VC_ID ch REG_VC_FIELD_MEASURED_V_CAL_K_EXP
   | VC_CAL_FIELD_MEASURED_I_K \<Rightarrow> REG_VC_ID ch REG_VC_FIELD_MEASURED_I_CAL_K
   | VC_CAL_FIELD_MEASURED_I_B \<Rightarrow> REG_VC_ID ch REG_VC_FIELD_MEASURED_I_CAL_B
   | VC_CAL_FIELD_MEASURED_I_K_EXP \<Rightarrow> REG_VC_ID ch REG_VC_FIELD_MEASURED_I_CAL_K_EXP)"

subsection \<open>Writes\<close>

fun reg_status_name :: "reg_status \<Rightarrow> string" where
  "reg_status_name REG_OK = ''ok''"
| "reg_status_name REG_NOT_FOUND = ''not_found''"
| "reg_status_name REG_INVALID_ARGUMENT = ''invalid_argument''"
| "reg_status_name REG_INVALID_VALUE = ''invalid_value''"
| "reg_status_name REG_READ_ONLY = ''read_only''"
| "reg_status_name REG_WRITE_ONLY = ''write_only''"
| "reg_status_name REG_UNSUPPORTED = ''unsupported''"
| "reg_status_name REG_BUSY = ''busy''"
| "reg_status_name REG_IO_ERROR = ''io_error''"

definition write_register ::
    "('s, 't) catalog \<Rightarrow> reg_id_t \<Rightarrow> u16 \<Rightarrow> shell_timeout \<Rightarrow> ('s, 't) console \<Rightarrow> ('s, 't) sh_result" where
  "write_register catalog i input timeout c = do {
     (status, c1) \<leftarrow> (if i = 0 then Some (REG_INVALID_ARGUMENT, c) else sh_write catalog i input timeout c);
     Some (if status \<noteq> REG_OK then (- EIO, shell_error (''error: '' @ reg_status_name status) c1) else (0, c1))
   }"

definition write_command ::
    "('s, 't) catalog \<Rightarrow> reg_id_t \<Rightarrow> u16 \<Rightarrow> ('s, 't) console \<Rightarrow> ('s, 't) sh_result" where
  "write_command catalog i input = write_register catalog i input SHELL_CMD_TIMEOUT"

definition write_param ::
    "('s, 't) catalog \<Rightarrow> reg_id_t \<Rightarrow> u16 \<Rightarrow> ('s, 't) console \<Rightarrow> ('s, 't) sh_result" where
  "write_param catalog i input = write_register catalog i input SHELL_PARAM_TIMEOUT"

subsection \<open>Layout\<close>

text \<open>A 16-bit number as \<open>%d\<close> prints it after the integer promotion of its type.\<close>

abbreviation (input) u16_d :: "u16 \<Rightarrow> string" where "u16_d w \<equiv> fmt_d (uint w)"
abbreviation (input) s16_d :: "s16 \<Rightarrow> string" where "s16_d w \<equiv> fmt_d (sint w)"
abbreviation (input) u8_d :: "u8 \<Rightarrow> string" where "u8_d w \<equiv> fmt_d (uint w)"
abbreviation (input) u16_04x :: "u16 \<Rightarrow> string" where "u16_04x w \<equiv> fmt_0x 4 (unat w)"
abbreviation (input) s32_d :: "s32 \<Rightarrow> string" where "s32_d w \<equiv> fmt_d (sint w)"
abbreviation (input) s32_08x :: "s32 \<Rightarrow> string" where "s32_08x w \<equiv> fmt_0x 8 (unat w)"

definition print_sys_oneliner :: "vc_system_snapshot \<Rightarrow> ('s, 't) console \<Rightarrow> ('s, 't) console" where
  "print_sys_oneliner s =
     shell_print (''SYS: mode='' @ fmt_left 6 (mode_str (snap_active_operating_mode s)) @
       '' channels='' @ u16_d (snap_supported_channel_count s) @
       '' active=0x'' @ u16_04x (snap_active_channel_mask s) @
       '' fault='' @ fault_str (snap_system_fault_cause s) 48)"

definition print_ch_oneliner :: "u8 \<Rightarrow> vc_channel_snapshot \<Rightarrow> ('s, 't) console \<Rightarrow> ('s, 't) console" where
  "print_ch_oneliner ch s =
     shell_fprintf
       (''CH'' @ u8_d ch @ '':'' @
        (if snap_channel_capability_flags s AND CH_CAP_VOLTAGE_MEASUREMENT \<noteq> 0
         then '' V='' @ s16_d (snap_measured_voltage s) else []) @
        (if snap_channel_capability_flags s AND CH_CAP_CURRENT_MEASUREMENT \<noteq> 0
         then '' I='' @ s16_d (snap_measured_current s) else []) @
        '' target='' @ s16_d (snap_operational_target_voltage s) @
        '' fault='' @ fault_str (snap_active_fault_cause s) 48 @ newline)"

definition print_ch_config :: "u8 \<Rightarrow> vc_channel_config \<Rightarrow> u16 \<Rightarrow> ('s, 't) console \<Rightarrow> ('s, 't) console" where
  "print_ch_config ch cfg caps = print_lines
     ([''Channel '' @ u8_d ch @ '' Configuration''] @
      (if caps AND CH_CAP_RAW_OUTPUT_DRIVE \<noteq> 0
       then [''  target:       '' @ s16_d (configured_target_voltage cfg),
             ''  ramp_up:      step='' @ u16_d (ramp_up_step cfg) @ '' interval='' @ u16_d (ramp_up_interval cfg),
             ''  ramp_down:    step='' @ u16_d (ramp_down_step cfg) @ '' interval='' @ u16_d (ramp_down_interval cfg)]
       else if caps AND CH_CAP_OUTPUT_ENABLE \<noteq> 0
       then [''  startup:      '' @ (if configured_output_enabled cfg then ''on'' else ''off'')]
       else [''  startup:      locked-on'']) @
      [''  recovery:     '' @ recovery_str (recovery_policy_mode cfg),
       ''  retry:        delay='' @ u16_d (auto_retry_delay cfg) @ '' max='' @ u16_d (auto_retry_max_count cfg) @
         '' window='' @ u16_d (auto_retry_window cfg),
       ''  safe_band:    '' @ u16_d (current_safe_band_pct cfg) @ ''%''] @
      (if caps AND CH_CAP_CURRENT_MEASUREMENT \<noteq> 0
       then [''  protection:   mode='' @ prot_str (current_protection_mode cfg) @
               '' action='' @ action_str (current_protection_output_action cfg) @
               '' limit='' @ s16_d (current_limit_threshold cfg)]
       else []) @
      (if caps AND (CH_CAP_RAW_OUTPUT_DRIVE OR CH_CAP_VOLTAGE_MEASUREMENT) = CH_CAP_RAW_OUTPUT_DRIVE OR CH_CAP_VOLTAGE_MEASUREMENT
       then [''  derate_step:  '' @ u16_d (auto_derate_step cfg)] else []))"

definition print_sys_config :: "vc_system_config \<Rightarrow> ('s, 't) console \<Rightarrow> ('s, 't) console" where
  "print_sys_config cfg = print_lines
     [''System Configuration'', ''  mode:           '' @ mode_str (sys_operating_mode cfg),
      ''  startup_policy: '' @ u16_d (startup_channel_policy cfg)]"

definition print_cal_config :: "u8 \<Rightarrow> vc_channel_cal_config \<Rightarrow> u16 \<Rightarrow> ('s, 't) console \<Rightarrow> ('s, 't) console" where
  "print_cal_config ch cal caps = print_lines
     ([''Channel '' @ u8_d ch @ '' Calibration Config''] @
      (if caps AND CH_CAP_RAW_OUTPUT_DRIVE \<noteq> 0
       then [''  out_cal:  k='' @ u16_d (output_calib_k cal) @ '' exp='' @ s16_d (output_calib_k_exp cal) @
               '' b='' @ s16_d (output_calib_b cal)] else []) @
      (if caps AND CH_CAP_VOLTAGE_MEASUREMENT \<noteq> 0
       then [''  v_cal:    k='' @ u16_d (measured_voltage_calib_k cal) @ '' exp='' @ s16_d (measured_voltage_calib_k_exp cal) @
               '' b='' @ s16_d (measured_voltage_calib_b cal)] else []) @
      (if caps AND CH_CAP_CURRENT_MEASUREMENT \<noteq> 0
       then [''  i_cal:    k='' @ u16_d (measured_current_calib_k cal) @ '' exp='' @ s16_d (measured_current_calib_k_exp cal) @
               '' b='' @ s16_d (measured_current_calib_b cal)] else []))"

end
