(* ===== verification/Vc_Shell.thy ===== *)
theory Vc_Shell
  imports Vc_Shell_Text
begin

text \<open>
  The commands of \<open>lib/voltage_control/vc_shell.c\<close>. A command gets its arguments as a list whose head is its
  own name and returns 0 or a negative error number. It is \<open>None\<close> where it does not return: a write that stays
  blocked, a watch without the key that ends it, or an argument read beyond the list.
\<close>

unbundle bit_operations_syntax

subsection \<open>Top level\<close>

definition channel_list :: "vc_system_snapshot \<Rightarrow> u8 list" where
  "channel_list sys = map word_of_nat [0..<unat (snap_supported_channel_count sys)]"

text \<open>Read a snapshot of a channel and print it; a failed read ends the command.\<close>

definition show_channel ::
    "('s, 't) catalog \<Rightarrow> (u8 \<Rightarrow> vc_channel_snapshot \<Rightarrow> ('s, 't) console \<Rightarrow> ('s, 't) console) \<Rightarrow> u8 \<Rightarrow>
     ('s, 't) console \<Rightarrow> ('s, 't) sh_result" where
  "show_channel catalog show ch c = do {
     (r, c1) \<leftarrow> read_channel_snapshot catalog ch c;
     Some (case r of Inl _ \<Rightarrow> (- EIO, c1) | Inr snap \<Rightarrow> (0, show ch snap c1))
   }"

definition cmd_status :: "('s, 't) catalog \<Rightarrow> string list \<Rightarrow> ('s, 't) console \<Rightarrow> ('s, 't) sh_result" where
  "cmd_status catalog argv = CTX_CHECK (\<lambda>c. do {
     (r, c1) \<leftarrow> read_system_snapshot catalog c;
     case r of
       Inl _ \<Rightarrow> Some (- EIO, c1)
     | Inr sys \<Rightarrow> sh_for (show_channel catalog print_ch_oneliner) (channel_list sys) (print_sys_oneliner sys c1)
   })"

definition cmd_mode :: "('s, 't) catalog \<Rightarrow> string list \<Rightarrow> ('s, 't) console \<Rightarrow> ('s, 't) sh_result" where
  "cmd_mode catalog argv = CTX_CHECK (\<lambda>c. do {
     a1 \<leftarrow> arg argv 1;
     case parse_mode a1 of
       None \<Rightarrow> Some (- EINVAL,
         shell_error ''usage: vc mode <normal|auto>  (use: vc cal unlock to enter calibration)'' c)
     | Some m \<Rightarrow> write_command catalog (REG_VC_GLOBAL_ID REG_VC_GLOBAL_FIELD_OPERATING_MODE) (u16_of_vc_operating_mode m) c
   })"

definition cmd_param :: "('s, 't) catalog \<Rightarrow> string list \<Rightarrow> ('s, 't) console \<Rightarrow> ('s, 't) sh_result" where
  "cmd_param catalog argv = CTX_CHECK (\<lambda>c. do {
     a1 \<leftarrow> arg argv 1;
     case parse_param a1 of
       None \<Rightarrow> Some (- EINVAL, shell_error ''usage: vc param <save|load|reset>'' c)
     | Some action \<Rightarrow> do {
         (ret, c1) \<leftarrow> write_param catalog (REG_VC_GLOBAL_ID REG_VC_GLOBAL_FIELD_PARAM_ACTION)
           (u16_of_vc_param_action action) c;
         if ret \<noteq> 0 then Some (ret, c1)
         else do {
           (r, c2) \<leftarrow> read_system_snapshot catalog c1;
           case r of
             Inl _ \<Rightarrow> Some (- EIO, c2)
           | Inr sys \<Rightarrow> do {
               (ret2, c3) \<leftarrow> sh_for (\<lambda>i. write_param catalog (REG_VC_ID i REG_VC_FIELD_PARAM_ACTION)
                 (u16_of_vc_param_action action)) (channel_list sys) c2;
               Some (if ret2 \<noteq> 0 then (ret2, c3) else (0, shell_print ''OK'' c3))
             }
         }
       }
   })"

subsection \<open>System\<close>

definition cmd_sys_status :: "('s, 't) catalog \<Rightarrow> string list \<Rightarrow> ('s, 't) console \<Rightarrow> ('s, 't) sh_result" where
  "cmd_sys_status catalog argv = CTX_CHECK (\<lambda>c. do {
     (r, c1) \<leftarrow> read_system_snapshot catalog c;
     Some (case r of
       Inl _ \<Rightarrow> (- EIO, c1)
     | Inr sys \<Rightarrow> (0, print_lines
         [''Protocol:    '' @ u16_d (snap_protocol_major sys) @ ''.'' @ u16_d (snap_protocol_minor sys),
          ''Variant:     '' @ u16_d (snap_variant_id sys),
          ''Caps:        0x'' @ u16_04x (snap_system_capability_flags sys),
          ''Channels:    '' @ u16_d (snap_supported_channel_count sys),
          ''Active:      0x'' @ u16_04x (snap_active_channel_mask sys),
          ''Mode:        '' @ mode_str (snap_active_operating_mode sys),
          ''Status:      0x'' @ u16_04x (snap_system_status sys),
          ''Fault:       '' @ fault_str (snap_system_fault_cause sys) 48] c1))
   })"

definition cmd_sys_config :: "('s, 't) catalog \<Rightarrow> string list \<Rightarrow> ('s, 't) console \<Rightarrow> ('s, 't) sh_result" where
  "cmd_sys_config catalog argv = CTX_CHECK (\<lambda>c. do {
     (r, c1) \<leftarrow> read_system_config catalog c;
     Some (case r of Inl _ \<Rightarrow> (- EIO, c1) | Inr cfg \<Rightarrow> (0, print_sys_config cfg c1))
   })"

definition print_ok :: "int \<times> ('s, 't) console \<Rightarrow> int \<times> ('s, 't) console" where
  "print_ok r = (case r of (ret, c) \<Rightarrow> (ret, if ret = 0 then shell_print ''OK'' c else c))"

definition cmd_sys_param :: "('s, 't) catalog \<Rightarrow> string list \<Rightarrow> ('s, 't) console \<Rightarrow> ('s, 't) sh_result" where
  "cmd_sys_param catalog argv = CTX_CHECK (\<lambda>c. do {
     a1 \<leftarrow> arg argv 1;
     case parse_param a1 of
       None \<Rightarrow> Some (- EINVAL, shell_error ''usage: vc sys param <save|load|reset>'' c)
     | Some action \<Rightarrow> map_option print_ok
         (write_param catalog (REG_VC_GLOBAL_ID REG_VC_GLOBAL_FIELD_PARAM_ACTION) (u16_of_vc_param_action action) c)
   })"

definition cmd_sys_set :: "('s, 't) catalog \<Rightarrow> string list \<Rightarrow> ('s, 't) console \<Rightarrow> ('s, 't) sh_result" where
  "cmd_sys_set catalog argv = CTX_CHECK (\<lambda>c. do {
     a1 \<leftarrow> arg argv 1;
     case lookup_field sys_fields a1 c of
       (None, c1) \<Rightarrow> Some (- EINVAL, c1)
     | (Some field, c1) \<Rightarrow> do {
         a2 \<leftarrow> arg argv 2;
         write_command catalog
           (REG_VC_GLOBAL_ID (if field = VC_FIELD_OPERATING_MODE then REG_VC_GLOBAL_FIELD_OPERATING_MODE
                              else REG_VC_GLOBAL_FIELD_STARTUP_CHANNEL_POLICY))
           (ucast (fst (strtoul a2 0))) c1
       }
   })"

subsection \<open>Channels\<close>

definition cmd_ch_status :: "('s, 't) catalog \<Rightarrow> u8 \<Rightarrow> ('s, 't) console \<Rightarrow> ('s, 't) sh_result" where
  "cmd_ch_status catalog ch = CTX_CHECK (\<lambda>c. do {
     (r, c1) \<leftarrow> read_channel_snapshot catalog ch c;
     Some (case r of
       Inl _ \<Rightarrow> (- EIO, shell_error (''failed to read channel '' @ fmt_u (unat ch)) c1)
     | Inr snap \<Rightarrow> (0, print_lines
         ([''Channel '' @ u8_d ch @ '' Status'',
           ''  caps:         ['' @ caps_str (snap_channel_capability_flags snap) 24 @ '']'',
           ''  enabled:      '' @ (if snap_status_bits snap AND 0x0002 \<noteq> 0 then ''yes'' else ''no''),
           ''  target:       '' @ s16_d (snap_operational_target_voltage snap)] @
          (if snap_channel_capability_flags snap AND CH_CAP_VOLTAGE_MEASUREMENT \<noteq> 0
           then [''  voltage:      '' @ s16_d (snap_measured_voltage snap)] else []) @
          (if snap_channel_capability_flags snap AND CH_CAP_CURRENT_MEASUREMENT \<noteq> 0
           then [''  current:      '' @ s16_d (snap_measured_current snap)] else []) @
          [''  status_bits:  0x'' @ u16_04x (snap_status_bits snap),
           ''  fault:        '' @ fault_str (snap_active_fault_cause snap) 48,
           ''  fault_hist:   '' @ fault_str (snap_fault_history_cause snap) 48]) c1))
   })"

text \<open>The subcommands of a channel, after its number has been parsed.\<close>

definition ch_config :: "('s, 't) catalog \<Rightarrow> u8 \<Rightarrow> ('s, 't) console \<Rightarrow> ('s, 't) sh_result" where
  "ch_config catalog ch c = do {
     (r, c1) \<leftarrow> read_channel_config catalog ch c;
     Some (case r of Inl _ \<Rightarrow> (- EIO, c1) | Inr (cfg, caps) \<Rightarrow> (0, print_ch_config ch cfg caps c1))
   }"

definition ch_disable :: "('s, 't) catalog \<Rightarrow> u8 \<Rightarrow> string list \<Rightarrow> ('s, 't) console \<Rightarrow> ('s, 't) sh_result" where
  "ch_disable catalog ch argv c =
     write_command catalog (REG_VC_ID ch REG_VC_FIELD_OUTPUT_ACTION)
       (u16_of_vc_output_action
         (if 3 < length argv \<and> argv ! 3 = ''imd'' then VC_OUTPUT_ACTION_DISABLE_IMMEDIATE
          else if 3 < length argv \<and> argv ! 3 = ''frc'' then VC_OUTPUT_ACTION_DISABLE_FORCE
          else VC_OUTPUT_ACTION_DISABLE_GRACEFUL)) c"

definition ch_target :: "('s, 't) catalog \<Rightarrow> u8 \<Rightarrow> string list \<Rightarrow> ('s, 't) console \<Rightarrow> ('s, 't) sh_result" where
  "ch_target catalog ch argv c =
     (case arg argv 3 of
        None \<Rightarrow> Some (- EINVAL, shell_error (''usage: vc ch '' @ u8_d ch @ '' target <voltage>'') c)
      | Some a3 \<Rightarrow> write_command catalog (REG_VC_ID ch REG_VC_FIELD_CFG_TARGET_VOLTAGE) (ucast (fst (strtoul a3 0))) c)"

definition ch_set :: "('s, 't) catalog \<Rightarrow> u8 \<Rightarrow> string list \<Rightarrow> ('s, 't) console \<Rightarrow> ('s, 't) sh_result" where
  "ch_set catalog ch argv c =
     (if length argv < 5
      then Some (- EINVAL, shell_error (''usage: vc ch '' @ u8_d ch @ '' set <field> <value>'') c)
      else case lookup_field ch_fields (argv ! 3) c of
        (None, c1) \<Rightarrow> Some (- EINVAL, c1)
      | (Some field, c1) \<Rightarrow>
          write_command catalog (channel_config_id ch field) (ucast (fst (strtoul (argv ! 4) 0))) c1)"

definition ch_fault :: "('s, 't) catalog \<Rightarrow> u8 \<Rightarrow> string list \<Rightarrow> ('s, 't) console \<Rightarrow> ('s, 't) sh_result" where
  "ch_fault catalog ch argv c =
     (case arg argv 3 of
        None \<Rightarrow> Some (- EINVAL, shell_error (''usage: vc ch '' @ u8_d ch @ '' fault <clear|clear-history>'') c)
      | Some a3 \<Rightarrow>
          (case parse_fault_cmd a3 of
             None \<Rightarrow> Some (- EINVAL, shell_error ''expected: clear, clear-history'' c)
           | Some cmd \<Rightarrow>
               write_command catalog (REG_VC_ID ch REG_VC_FIELD_FAULT_CMD) (u16_of_vc_channel_fault_command cmd) c))"

definition ch_param :: "('s, 't) catalog \<Rightarrow> u8 \<Rightarrow> string list \<Rightarrow> ('s, 't) console \<Rightarrow> ('s, 't) sh_result" where
  "ch_param catalog ch argv c =
     (case arg argv 3 of
        None \<Rightarrow> Some (- EINVAL, shell_error (''usage: vc ch '' @ u8_d ch @ '' param <save|load|reset>'') c)
      | Some a3 \<Rightarrow>
          (case parse_param a3 of
             None \<Rightarrow> Some (- EINVAL, shell_error ''expected: save, load, reset'' c)
           | Some action \<Rightarrow> map_option print_ok
               (write_param catalog (REG_VC_ID ch REG_VC_FIELD_PARAM_ACTION) (u16_of_vc_param_action action) c)))"

definition cmd_ch :: "('s, 't) catalog \<Rightarrow> string list \<Rightarrow> ('s, 't) console \<Rightarrow> ('s, 't) sh_result" where
  "cmd_ch catalog argv = CTX_CHECK (\<lambda>c.
     if length argv < 3
     then Some (- EINVAL, shell_error ''usage: vc ch <n> <status|config|enable|disable|target|set|fault|param>'' c)
     else do {
       (r, c1) \<leftarrow> parse_channel catalog (argv ! 1) c;
       case r of
         Inl _ \<Rightarrow> Some (- EINVAL, c1)
       | Inr ch \<Rightarrow>
           let sub = argv ! 2 in
           if sub = ''status'' then cmd_ch_status catalog ch c1
           else if sub = ''config'' then ch_config catalog ch c1
           else if sub = ''enable''
           then write_command catalog (REG_VC_ID ch REG_VC_FIELD_OUTPUT_ACTION)
                  (u16_of_vc_output_action VC_OUTPUT_ACTION_ENABLE) c1
           else if sub = ''disable'' then ch_disable catalog ch argv c1
           else if sub = ''target'' then ch_target catalog ch argv c1
           else if sub = ''set'' then ch_set catalog ch argv c1
           else if sub = ''fault'' then ch_fault catalog ch argv c1
           else if sub = ''param'' then ch_param catalog ch argv c1
           else Some (- EINVAL,
             shell_print ''subcommands: status config enable disable target set fault param''
               (shell_error (''unknown: vc ch '' @ u8_d ch @ '' '' @ sub) c1))
     })"

subsection \<open>Calibration session\<close>

definition cal_unlock :: "('s, 't) catalog \<Rightarrow> ('s, 't) console \<Rightarrow> ('s, 't) sh_result" where
  "cal_unlock catalog c = do {
     (ret, c1) \<leftarrow> write_command catalog (REG_VC_GLOBAL_ID REG_VC_GLOBAL_FIELD_CAL_UNLOCK) CAL_UNLOCK_STEP1 c;
     if ret \<noteq> 0 then Some (ret, c1)
     else do {
       (ret2, c2) \<leftarrow> write_command catalog (REG_VC_GLOBAL_ID REG_VC_GLOBAL_FIELD_CAL_UNLOCK) CAL_UNLOCK_STEP2 c1;
       if ret2 \<noteq> 0 then Some (ret2, c2)
       else do {
         (ret3, c3) \<leftarrow> write_command catalog (REG_VC_GLOBAL_ID REG_VC_GLOBAL_FIELD_OPERATING_MODE)
           (u16_of_vc_operating_mode VC_OPERATING_MODE_CALIBRATION) c2;
         Some (ret3, if ret3 = 0 then print_lines
           [''Calibration session started.'',
            ''  vc cal status              -- session overview'',
            ''  vc cal <ch> output on      -- enable output'',
            ''  vc cal <ch> dac <code>     -- set raw DAC code'',
            ''  vc cal <ch> sample         -- read raw ADC (blocking)'',
            ''  vc cal <ch> set <fld> <v>  -- adjust cal coefficients'',
            ''  vc cal <ch> commit         -- save to NVS'',
            ''  vc cal exit                -- end session''] c3 else c3)
       }
     }
   }"

definition cal_exit :: "('s, 't) catalog \<Rightarrow> ('s, 't) console \<Rightarrow> ('s, 't) sh_result" where
  "cal_exit catalog c = do {
     (ret, c1) \<leftarrow> write_command catalog (REG_VC_GLOBAL_ID REG_VC_GLOBAL_FIELD_CAL_EXIT) 1 c;
     Some (ret, if ret = 0 then shell_print ''exited calibration mode'' c1 else c1)
   }"

definition raw_measurements :: "vc_channel_snapshot \<Rightarrow> string" where
  "raw_measurements snap =
     (if snap_channel_capability_flags snap AND CH_CAP_VOLTAGE_MEASUREMENT \<noteq> 0
      then '' raw_v='' @ s32_d (snap_raw_adc_voltage snap) @ '' (0x'' @ s32_08x (snap_raw_adc_voltage snap) @ '')'' else []) @
     (if snap_channel_capability_flags snap AND CH_CAP_CURRENT_MEASUREMENT \<noteq> 0
      then '' raw_i='' @ s32_d (snap_raw_adc_current snap) @ '' (0x'' @ s32_08x (snap_raw_adc_current snap) @ '')'' else [])"

definition dac_readback :: "vc_channel_snapshot \<Rightarrow> string" where
  "dac_readback snap =
     ''dac='' @ fmt_u (unat (snap_raw_dac_readback snap)) @ '' (0x'' @ u16_04x (snap_raw_dac_readback snap) @ '')''"

definition on_off :: "vc_channel_snapshot \<Rightarrow> string" where
  "on_off snap = (if snap_cal_output_enabled snap \<noteq> 0 then ''ON'' else ''OFF'')"

definition print_cal_status :: "u8 \<Rightarrow> vc_channel_snapshot \<Rightarrow> ('s, 't) console \<Rightarrow> ('s, 't) console" where
  "print_cal_status i snap = shell_fprintf
     (''  CH'' @ u8_d i @ '':'' @
      (if snap_channel_capability_flags snap AND CH_CAP_RAW_OUTPUT_DRIVE \<noteq> 0
       then '' out='' @ on_off snap @ '' '' @ dac_readback snap else []) @
      raw_measurements snap @ newline)"

definition cal_status :: "('s, 't) catalog \<Rightarrow> ('s, 't) console \<Rightarrow> ('s, 't) sh_result" where
  "cal_status catalog c = do {
     (r, c1) \<leftarrow> read_system_snapshot catalog c;
     case r of
       Inl _ \<Rightarrow> Some (- EIO, c1)
     | Inr sys \<Rightarrow>
         let remaining_s = (snap_cal_watchdog_remaining_ms sys + 999) div 1000 in
         sh_for (show_channel catalog print_cal_status) (channel_list sys)
           (shell_print (''Cal status  mode='' @ mode_str (snap_active_operating_mode sys) @ ''  timeout_in='' @
              fmt_u (unat remaining_s) @ ''s'') c1)
   }"

subsection \<open>Watching\<close>

text \<open>The pauses of one round, each followed by a poll for a key.\<close>

fun watch_pause :: "nat \<Rightarrow> ('s, 't) console \<Rightarrow> (bool \<times> ('s, 't) console) option" where
  "watch_pause 0 c = Some (False, c)"
| "watch_pause (Suc n) c =
     (case con_keys c of
        [] \<Rightarrow> None
      | key # keys \<Rightarrow>
          let c1 = c\<lparr>con_keys := keys\<rparr> in if key then Some (True, c1) else watch_pause n c1)"

partial_function (option) watch_loop ::
    "(('s, 't) console \<Rightarrow> ('s, 't) sh_result) \<Rightarrow> nat \<Rightarrow> ('s, 't) console \<Rightarrow> ('s, 't) sh_result" where
  "watch_loop show_round pauses c = Option.bind (show_round c) (\<lambda>(ret, c1).
     if ret \<noteq> 0 then Some (ret, c1)
     else Option.bind (watch_pause pauses c1) (\<lambda>(key, c2).
       if key then Some (0, shell_print ''stopped'' c2) else watch_loop show_round pauses c2))"

text \<open>Channel (as an \<open>int8_t\<close>) and interval from the arguments after the command's own name, if any.\<close>

definition watch_args :: "vc_system_snapshot \<Rightarrow> int \<Rightarrow> string list \<Rightarrow> u8 \<times> int" where
  "watch_args sys default_ms args =
     (let (ch, interval_ms) =
        (case args of
           [] \<Rightarrow> (- 1, default_ms)
         | a # rest \<Rightarrow>
             let v = fst (strtoul a 10) in
             if v < ucast (snap_supported_channel_count sys)
             then (ucast v, case rest of [] \<Rightarrow> default_ms | b # _ \<Rightarrow> sint (fst (strtoul b 10)))
             else (- 1, sint v))
      in (ch, if interval_ms < 100 then 100 else interval_ms))"

definition print_cal_watch :: "u8 \<Rightarrow> vc_channel_snapshot \<Rightarrow> ('s, 't) console \<Rightarrow> ('s, 't) console" where
  "print_cal_watch i snap c =
     (if snap_channel_capability_flags snap AND
           (CH_CAP_RAW_OUTPUT_DRIVE OR CH_CAP_VOLTAGE_MEASUREMENT OR CH_CAP_CURRENT_MEASUREMENT) = 0 then c
      else shell_fprintf
        (''CH'' @ u8_d i @ '':'' @
         (if snap_channel_capability_flags snap AND CH_CAP_RAW_OUTPUT_DRIVE \<noteq> 0
          then '' '' @ dac_readback snap @ '' out='' @ on_off snap else []) @
         raw_measurements snap @ newline) c)"

definition cal_watch :: "('s, 't) catalog \<Rightarrow> string list \<Rightarrow> ('s, 't) console \<Rightarrow> ('s, 't) sh_result" where
  "cal_watch catalog argv c = do {
     (r, c1) \<leftarrow> read_system_snapshot catalog c;
     case r of
       Inl _ \<Rightarrow> Some (- EIO, c1)
     | Inr sys \<Rightarrow>
         let (watch_ch, interval_ms) = watch_args sys 1000 (drop 2 argv);
             from = (if 0 \<le> sint watch_ch then watch_ch else 0);
             upto = (if 0 \<le> sint watch_ch then watch_ch + 1 else ucast (snap_supported_channel_count sys)) in
         watch_loop
           (sh_for (show_channel catalog print_cal_watch) (map word_of_nat [unat from..<unat upto]))
           (nat (interval_ms div 50))
           (shell_print (''cal watch'' @ (if 0 \<le> sint watch_ch then [] else '' all'') @ ''  interval='' @
              fmt_d interval_ms @ ''ms  (any key to stop)'') c1)
   }"

definition print_watch :: "u8 \<Rightarrow> vc_channel_snapshot \<Rightarrow> ('s, 't) console \<Rightarrow> ('s, 't) console" where
  "print_watch i snap c =
     (if snap_channel_capability_flags snap AND (CH_CAP_VOLTAGE_MEASUREMENT OR CH_CAP_CURRENT_MEASUREMENT) \<noteq> 0
      then print_ch_oneliner i snap c else c)"

definition cmd_watch :: "('s, 't) catalog \<Rightarrow> int \<Rightarrow> string list \<Rightarrow> ('s, 't) console \<Rightarrow> ('s, 't) sh_result" where
  "cmd_watch catalog default_ms argv = CTX_CHECK (\<lambda>c. do {
     (r, c1) \<leftarrow> read_system_snapshot catalog c;
     case r of
       Inl _ \<Rightarrow> Some (- EIO, c1)
     | Inr sys \<Rightarrow>
         let (watch_ch, interval_ms) = watch_args sys default_ms (drop 1 argv) in
         watch_loop
           (if 0 \<le> sint watch_ch then show_channel catalog print_ch_oneliner watch_ch
            else sh_for (show_channel catalog print_watch) (channel_list sys))
           (nat (interval_ms div 50))
           (shell_print (''watching'' @ (if 0 \<le> sint watch_ch then [] else '' all'') @ '' interval='' @
              fmt_d interval_ms @ ''ms (press any key to stop)'') c1)
   })"

subsection \<open>Calibration of a channel\<close>

definition cal_output :: "('s, 't) catalog \<Rightarrow> u8 \<Rightarrow> string list \<Rightarrow> ('s, 't) console \<Rightarrow> ('s, 't) sh_result" where
  "cal_output catalog ch argv c =
     (case arg argv 3 of
        None \<Rightarrow> Some (- EINVAL, shell_error (''usage: vc cal '' @ u8_d ch @ '' output <on|off>'') c)
      | Some a3 \<Rightarrow>
          if a3 \<noteq> ''on'' \<and> a3 \<noteq> ''off'' then Some (- EINVAL, shell_error ''expected: on, off'' c)
          else do {
            (ret, c1) \<leftarrow> write_command catalog (REG_VC_ID ch REG_VC_FIELD_CAL_OUTPUT_ENABLE)
              (if a3 = ''on'' then 1 else 0) c;
            Some (ret, if ret = 0 \<and> a3 = ''on''
                       then shell_print (''hint: vc cal '' @ u8_d ch @ '' dac <code>'') c1 else c1)
          })"

definition cal_dac :: "('s, 't) catalog \<Rightarrow> u8 \<Rightarrow> string list \<Rightarrow> ('s, 't) console \<Rightarrow> ('s, 't) sh_result" where
  "cal_dac catalog ch argv c =
     (case arg argv 3 of
        None \<Rightarrow> Some (- EINVAL, shell_error (''usage: vc cal '' @ u8_d ch @ '' dac <code>'') c)
      | Some a3 \<Rightarrow>
          let raw = fst (strtoul a3 0) in
          if 65535 < raw
          then Some (- EINVAL, shell_error (''dac code out of range (0'' @ map char_of [226, 128, 147 :: nat] @ ''65535)'') c)
          else do {
            (ret, c1) \<leftarrow> write_command catalog (REG_VC_ID ch REG_VC_FIELD_CAL_DAC_CODE) (ucast raw) c;
            Some (ret, if ret = 0 then shell_print (''hint: vc cal '' @ u8_d ch @ '' sample'') c1 else c1)
          })"

definition cal_sample :: "('s, 't) catalog \<Rightarrow> u8 \<Rightarrow> ('s, 't) console \<Rightarrow> ('s, 't) sh_result" where
  "cal_sample catalog ch c = do {
     (ret, c1) \<leftarrow> write_command catalog (REG_VC_ID ch REG_VC_FIELD_CAL_SAMPLE_CMD) CAL_COMMAND_EXECUTE c;
     if ret \<noteq> 0 then Some (ret, c1)
     else do {
       (r, c2) \<leftarrow> read_channel_snapshot catalog ch c1;
       Some (case r of
         Inl _ \<Rightarrow> (- EIO, c2)
       | Inr snap \<Rightarrow> (0, print_lines
           ((if snap_channel_capability_flags snap AND CH_CAP_RAW_OUTPUT_DRIVE \<noteq> 0 then [''  '' @ dac_readback snap] else []) @
            (if snap_channel_capability_flags snap AND CH_CAP_VOLTAGE_MEASUREMENT \<noteq> 0
             then [''  raw_v='' @ s32_d (snap_raw_adc_voltage snap) @ '' (0x'' @ s32_08x (snap_raw_adc_voltage snap) @ '')''] else []) @
            (if snap_channel_capability_flags snap AND CH_CAP_CURRENT_MEASUREMENT \<noteq> 0
             then [''  raw_i='' @ s32_d (snap_raw_adc_current snap) @ '' (0x'' @ s32_08x (snap_raw_adc_current snap) @ '')''] else []) @
            [''hint: vc cal '' @ u8_d ch @ '' set <field> <val>  or  vc cal '' @ u8_d ch @ '' commit'']) c2))
     }
   }"

definition cal_commit :: "('s, 't) catalog \<Rightarrow> u8 \<Rightarrow> ('s, 't) console \<Rightarrow> ('s, 't) sh_result" where
  "cal_commit catalog ch c = do {
     (ret, c1) \<leftarrow> write_command catalog (REG_VC_ID ch REG_VC_FIELD_CAL_COMMIT_CMD) CAL_COMMAND_EXECUTE c;
     Some (ret, shell_print
       (if ret = 0 then ''hint: vc cal exit  (or continue with next channel)''
        else ''hint: vc cal '' @ u8_d ch @ '' output off  +  vc cal '' @ u8_d ch @ '' dac 0'') c1)
   }"

definition cal_config_cmd :: "('s, 't) catalog \<Rightarrow> u8 \<Rightarrow> ('s, 't) console \<Rightarrow> ('s, 't) sh_result" where
  "cal_config_cmd catalog ch c = do {
     (r, c1) \<leftarrow> read_cal_config catalog ch c;
     Some (case r of Inl _ \<Rightarrow> (- EIO, c1) | Inr (cal, caps) \<Rightarrow> (0, print_cal_config ch cal caps c1))
   }"

definition cal_set :: "('s, 't) catalog \<Rightarrow> u8 \<Rightarrow> string list \<Rightarrow> ('s, 't) console \<Rightarrow> ('s, 't) sh_result" where
  "cal_set catalog ch argv c =
     (if length argv < 5
      then Some (- EINVAL, shell_error (''usage: vc cal '' @ u8_d ch @ '' set <field> <value>'') c)
      else case lookup_cal_field (argv ! 3) c of
        (None, c1) \<Rightarrow> Some (- EINVAL, c1)
      | (Some field, c1) \<Rightarrow>
          (case strtol (argv ! 4) 10 of (val, rest) \<Rightarrow>
             if rest \<noteq> [] then Some (- EINVAL, shell_error (''invalid value: '' @ argv ! 4) c1)
             else write_command catalog (cal_config_id ch field) (ucast val) c1))"

definition cal_channel :: "('s, 't) catalog \<Rightarrow> string list \<Rightarrow> ('s, 't) console \<Rightarrow> ('s, 't) sh_result" where
  "cal_channel catalog argv c = do {
     (r, c1) \<leftarrow> parse_channel catalog (argv ! 1) c;
     case r of
       Inl _ \<Rightarrow> Some (- EINVAL, shell_error ''usage: vc cal <unlock|exit|status|watch|<ch> <subcmd>>'' c1)
     | Inr ch \<Rightarrow>
         if length argv < 3
         then Some (- EINVAL, shell_error (''usage: vc cal '' @ u8_d ch @ '' <output|dac|sample|commit|config|set>'') c1)
         else
           let sub = argv ! 2 in
           if sub = ''output'' then cal_output catalog ch argv c1
           else if sub = ''dac'' then cal_dac catalog ch argv c1
           else if sub = ''sample'' then cal_sample catalog ch c1
           else if sub = ''commit'' then cal_commit catalog ch c1
           else if sub = ''config'' then cal_config_cmd catalog ch c1
           else if sub = ''set'' then cal_set catalog ch argv c1
           else Some (- EINVAL, shell_print ''subcommands: output dac sample commit config set''
             (shell_error (''unknown cal subcommand: '' @ sub) c1))
   }"

definition cmd_cal :: "('s, 't) catalog \<Rightarrow> string list \<Rightarrow> ('s, 't) console \<Rightarrow> ('s, 't) sh_result" where
  "cmd_cal catalog argv = CTX_CHECK (\<lambda>c.
     if length argv < 2
     then Some (- EINVAL, shell_error ''usage: vc cal <unlock|exit|status|watch|<ch> <subcmd>>'' c)
     else if argv ! 1 = ''unlock'' then cal_unlock catalog c
     else if argv ! 1 = ''exit'' then cal_exit catalog c
     else if argv ! 1 = ''status'' then cal_status catalog c
     else if argv ! 1 = ''watch'' then cal_watch catalog argv c
     else cal_channel catalog argv c)"

subsection \<open>Registration\<close>

definition vc_commands :: "('s, 't) catalog \<Rightarrow> int \<Rightarrow> ('s, 't) shell_cmd list" where
  "vc_commands catalog default_ms =
    [\<lparr>cmd_path = [''vc'', ''sys'', ''status''], cmd_handler = cmd_sys_status catalog, cmd_args = None\<rparr>,
     \<lparr>cmd_path = [''vc'', ''sys'', ''config''], cmd_handler = cmd_sys_config catalog, cmd_args = None\<rparr>,
     \<lparr>cmd_path = [''vc'', ''sys'', ''param''], cmd_handler = cmd_sys_param catalog, cmd_args = Some (2, 0)\<rparr>,
     \<lparr>cmd_path = [''vc'', ''sys'', ''set''], cmd_handler = cmd_sys_set catalog, cmd_args = Some (3, 0)\<rparr>,
     \<lparr>cmd_path = [''vc'', ''status''], cmd_handler = cmd_status catalog, cmd_args = None\<rparr>,
     \<lparr>cmd_path = [''vc'', ''mode''], cmd_handler = cmd_mode catalog, cmd_args = Some (2, 0)\<rparr>,
     \<lparr>cmd_path = [''vc'', ''param''], cmd_handler = cmd_param catalog, cmd_args = Some (2, 0)\<rparr>,
     \<lparr>cmd_path = [''vc'', ''ch''], cmd_handler = cmd_ch catalog, cmd_args = Some (3, 2)\<rparr>,
     \<lparr>cmd_path = [''vc'', ''cal''], cmd_handler = cmd_cal catalog, cmd_args = Some (2, 4)\<rparr>,
     \<lparr>cmd_path = [''vc'', ''watch''], cmd_handler = cmd_watch catalog default_ms, cmd_args = Some (1, 2)\<rparr>]"

end
