(* ===== verification/Vc_Shell_Props.thy ===== *)
theory Vc_Shell_Props
  imports Vc_Shell Vc_Controller_Errors Modbus_Channel_Props
begin

text \<open>
  What the operator can rely on: a printed value typed back is the value written, a fault word names exactly
  the bits that are set, the console shows a channel as it is, and what the free-text parsing lets through.
\<close>

unbundle bit_operations_syntax

subsection \<open>Numbers and names\<close>

lemma u16_of_u32: "ucast (word_of_int i :: u32) = (word_of_int i :: u16)"
  by (rule bit_word_eqI) (simp add: bit_simps)

lemma typed_back_int:
  assumes "- 32768 \<le> i" and "i \<le> 65535"
  shows "ucast (fst (strtoul (fmt_d i) 0)) = (word_of_int i :: u16)"
    and "ucast (fst (strtol (fmt_d i) 10)) = (word_of_int i :: u16)" and "snd (strtol (fmt_d i) 10) = []"
  using assms by (simp_all add: strtoul_auto_fmt_d strtol_fmt_d u16_of_u32)

lemma typed_back:
  fixes w :: u16
  shows "ucast (fst (strtoul (fmt_d (uint w)) 0)) = w" "ucast (fst (strtoul (fmt_d (sint w)) 0)) = w"
    "strtol (fmt_d (uint w)) 10 = (v, rest) \<Longrightarrow> ucast v = w \<and> rest = []"
    "strtol (fmt_d (sint w)) 10 = (v, rest) \<Longrightarrow> ucast v = w \<and> rest = []"
proof -
  have "- 32768 \<le> uint w" "uint w \<le> 65535" using uint16_range [of w] by linarith+
  then have u: "- 32768 \<le> uint w" "uint w \<le> 65535" "(word_of_int (uint w) :: u16) = w" by simp_all
  have s: "- 32768 \<le> sint w" "sint w \<le> 65535" "(word_of_int (sint w) :: u16) = w"
    using sint16_range [of w] by simp_all
  note u = typed_back_int [OF u(1,2), unfolded u(3)]
  note s = typed_back_int [OF s(1,2), unfolded s(3)]
  show "ucast (fst (strtoul (fmt_d (uint w)) 0)) = w" "ucast (fst (strtoul (fmt_d (sint w)) 0)) = w"
    by (fact u(1), fact s(1))
  show "strtol (fmt_d (uint w)) 10 = (v, rest) \<Longrightarrow> ucast v = w \<and> rest = []"
    using u(2,3) by (simp only: fst_conv snd_conv)
  show "strtol (fmt_d (sint w)) 10 = (v, rest) \<Longrightarrow> ucast v = w \<and> rest = []"
    using s(2,3) by (simp only: fst_conv snd_conv)
qed

lemma find_name:
  "distinct (map fst table) \<Longrightarrow> (name, field) \<in> set table \<Longrightarrow> find (\<lambda>e. name = fst e) table = Some (name, field)"
proof (induction table)
  case (Cons e table)
  have "name \<in> fst ` set table" if "(name, field) \<in> set table" using that by (rule image_eqI [rotated]) simp
  then show ?case using Cons by auto
qed simp

lemma lookup_name_found:
  "distinct (map fst table) \<Longrightarrow> (name, field) \<in> set table \<Longrightarrow> lookup_name what table name c = (Some field, c)"
  by (simp add: lookup_name_def find_name)

text \<open>
  C28. A printed value can be typed back. Every field of a channel's configuration and calibration can be set
  to the number that its print shows: whatever the 16 bits of the value, the decimal text of them, signed
  or unsigned, typed after the field's name, writes exactly these 16 bits to the register of the field,
  which is one of the schema.
\<close>

theorem printed_value_types_back:
  "(\<forall>(name, field) \<in> set ch_fields.
      ch_set catalog ch [cmd, n, sub, name, fmt_d (uint w)] c = write_command catalog (channel_config_id ch field) w c \<and>
      ch_set catalog ch [cmd, n, sub, name, fmt_d (sint w)] c = write_command catalog (channel_config_id ch field) w c \<and>
      (\<exists>f. channel_config_id ch field = REG_VC_ID ch f \<and> vc_catalog_field f = Some field)) \<and>
   (\<forall>(name, field) \<in> set cal_fields.
      cal_set catalog ch [cmd, n, sub, name, fmt_d (uint w)] c = write_command catalog (cal_config_id ch field) w c \<and>
      cal_set catalog ch [cmd, n, sub, name, fmt_d (sint w)] c = write_command catalog (cal_config_id ch field) w c \<and>
      (\<exists>f. cal_config_id ch field = REG_VC_ID ch f \<and> vc_catalog_cal_field f = Some field))"
proof -
  have d: "distinct (map fst ch_fields)" "distinct (map fst cal_fields)"
    by (simp_all add: ch_fields_def cal_fields_def)
  have ids: "\<forall>(name, field) \<in> set ch_fields.
      \<exists>f. channel_config_id ch field = REG_VC_ID ch f \<and> vc_catalog_field f = Some field"
    by (simp add: ch_fields_def channel_config_id_def vc_catalog_field_def)
  have cal_ids: "\<forall>(name, field) \<in> set cal_fields.
      \<exists>f. cal_config_id ch field = REG_VC_ID ch f \<and> vc_catalog_cal_field f = Some field"
    by (simp add: cal_fields_def cal_config_id_def vc_catalog_cal_field_def)
  have l: "lookup_field ch_fields name c = (Some field, c)" if "(name, field) \<in> set ch_fields" for name field
    using lookup_name_found [OF d(1) that] by (simp add: lookup_field_def)
  have lc: "lookup_cal_field name c = (Some field, c)" if "(name, field) \<in> set cal_fields" for name field
    using lookup_name_found [OF d(2) that] by (simp add: lookup_cal_field_def)
  have 1: "ch_set catalog ch [cmd, n, sub, name, fmt_d i] c = write_command catalog (channel_config_id ch field) w c"
    if "(name, field) \<in> set ch_fields" "i = uint w \<or> i = sint w" for name field i
    using that(2) typed_back(1,2) [of w] by (auto simp: ch_set_def l [OF that(1)])
  have 2: "cal_set catalog ch [cmd, n, sub, name, fmt_d i] c = write_command catalog (cal_config_id ch field) w c"
    if "(name, field) \<in> set cal_fields" "i = uint w \<or> i = sint w" for name field i
    using that(2) typed_back(3,4) [of w] by (auto simp: cal_set_def lc [OF that(1)] split: prod.split)
  note 1 = 1 [OF _ disjI1 [OF refl]] 1 [OF _ disjI2 [OF refl]] and 2 = 2 [OF _ disjI1 [OF refl]] 2 [OF _ disjI2 [OF refl]]
  show ?thesis
  proof (intro conjI ballI)
    fix e assume a: "e \<in> set ch_fields"
    obtain name field where e: "e = (name, field)" by fastforce
    show "case e of (name, field) \<Rightarrow>
      ch_set catalog ch [cmd, n, sub, name, fmt_d (uint w)] c = write_command catalog (channel_config_id ch field) w c \<and>
      ch_set catalog ch [cmd, n, sub, name, fmt_d (sint w)] c = write_command catalog (channel_config_id ch field) w c \<and>
      (\<exists>f. channel_config_id ch field = REG_VC_ID ch f \<and> vc_catalog_field f = Some field)"
      using bspec [OF ids a] a unfolding e prod.case by (simp add: 1)
  next
    fix e assume a: "e \<in> set cal_fields"
    obtain name field where e: "e = (name, field)" by fastforce
    show "case e of (name, field) \<Rightarrow>
      cal_set catalog ch [cmd, n, sub, name, fmt_d (uint w)] c = write_command catalog (cal_config_id ch field) w c \<and>
      cal_set catalog ch [cmd, n, sub, name, fmt_d (sint w)] c = write_command catalog (cal_config_id ch field) w c \<and>
      (\<exists>f. cal_config_id ch field = REG_VC_ID ch f \<and> vc_catalog_cal_field f = Some field)"
      using bspec [OF cal_ids a] a unfolding e prod.case by (simp add: 2)
  qed
qed

definition idle_console :: "'s \<Rightarrow> ('s, unit) console" where
  "idle_console s = \<lparr>initialized = True, con_sys = s, con_between = [], con_waits = [], con_keys = [], con_out = []\<rparr>"

lemma printed_value_types_back_witness:
  "ch_set [] 3 [''ch'', ''3'', ''set'', ''target'', ''-2''] (idle_console ()) =
     write_command [] (channel_config_id 3 VC_FIELD_CONFIGURED_TARGET_VOLTAGE) 0xFFFE (idle_console ())"
proof -
  have t: "fmt_d (sint (0xFFFE :: u16)) = ''-2''" by code_simp
  have f: "(''target'', VC_FIELD_CONFIGURED_TARGET_VOLTAGE) \<in> set ch_fields" by (simp add: ch_fields_def)
  show ?thesis
    using bspec [OF conjunct1 [OF printed_value_types_back] f, of "[]" 3 "''ch''" "''3''" "''set''" "0xFFFE"] unfolding prod.case t by blast
qed

subsection \<open>Numbers that do not fit\<close>

text \<open>
  What is not a 16-bit number is written all the same. The target command takes the number of the text
  modulo 65536 and a text without a number as 0, and writes the register; the commands that set a
  field do the same. Only the DAC code is checked: a number above 65535 is refused there before
  anything is written.
\<close>

lemma target_wraps:
  "(scan_int 0 t = None \<longrightarrow> ch_target catalog ch [x, n, sub, t] c =
      write_command catalog (REG_VC_ID ch REG_VC_FIELD_CFG_TARGET_VOLTAGE) 0 c) \<and>
   (k < 2 ^ 32 \<longrightarrow> ch_target catalog ch [x, n, sub, fmt_u k] c =
      write_command catalog (REG_VC_ID ch REG_VC_FIELD_CFG_TARGET_VOLTAGE) (word_of_nat k) c) \<and>
   (65535 < k \<and> k < 2 ^ 32 \<longrightarrow> (\<exists>out. cal_dac catalog ch [x, n, sub, fmt_u k] c =
      Some (- EINVAL, c\<lparr>con_out := con_out c @ out\<rparr>)))"
proof (intro conjI impI)
  show "ch_target catalog ch [x, n, sub, t] c = write_command catalog (REG_VC_ID ch REG_VC_FIELD_CFG_TARGET_VOLTAGE) 0 c"
    if "scan_int 0 t = None"
    using that by (simp add: ch_target_def arg_def strtoul_def)
  have u: "ucast (word_of_nat k :: u32) = (word_of_nat k :: u16)"
    by (rule bit_word_eqI) (simp add: bit_simps)
  show "ch_target catalog ch [x, n, sub, fmt_u k] c =
      write_command catalog (REG_VC_ID ch REG_VC_FIELD_CFG_TARGET_VOLTAGE) (word_of_nat k) c" if "k < 2 ^ 32"
    using that by (simp add: ch_target_def arg_def strtoul_auto_fmt_u u)
  show "\<exists>out. cal_dac catalog ch [x, n, sub, fmt_u k] c = Some (- EINVAL, c\<lparr>con_out := con_out c @ out\<rparr>)"
    if "65535 < k \<and> k < 2 ^ 32"
  proof -
    have "65535 < (word_of_nat k :: u32)" using that by (simp add: word_less_nat_alt unat_of_nat take_bit_nat_eq_self)
    then show ?thesis
      using that by (auto simp: cal_dac_def arg_def strtoul_auto_fmt_u shell_print_def shell_fprintf_def)
  qed
qed

lemma target_wraps_witness:
  "ch_target [] 0 [''ch'', ''0'', ''target'', ''70000''] (idle_console ()) =
     write_command [] (REG_VC_ID 0 REG_VC_FIELD_CFG_TARGET_VOLTAGE) 4464 (idle_console ()) \<and>
   ch_target [] 0 [''ch'', ''0'', ''target'', ''max''] (idle_console ()) =
     write_command [] (REG_VC_ID 0 REG_VC_FIELD_CFG_TARGET_VOLTAGE) 0 (idle_console ()) \<and>
   fst (the (cal_dac [] 0 [''cal'', ''0'', ''dac'', ''70000''] (idle_console ()))) = - EINVAL"
proof -
  have "fmt_u 70000 = map digit_char [7, 0, 0, 0, 0]" by (simp add: fmt_u_def digits_Suc digits_small)
  also have "\<dots> = ''70000''" by code_simp
  finally have n: "fmt_u 70000 = ''70000''" .
  have m: "scan_int 0 ''max'' = None"
    by (simp add: scan_int_def scan_base_def is_space_def is_digit_def digit_value_def Let_def)
  note t = n m
  have w: "(word_of_nat 70000 :: u16) = 4464" by simp
  note target = target_wraps [of "''max''" "[]" 0 "''ch''" "''0''" "''target''" "idle_console ()" 70000, unfolded t w]
  note dac = target_wraps [of "''max''" "[]" 0 "''cal''" "''0''" "''dac''" "idle_console ()" 70000, unfolded t]
  have "\<exists>out. cal_dac [] 0 [''cal'', ''0'', ''dac'', ''70000''] (idle_console ()) =
      Some (- EINVAL, (idle_console ())\<lparr>con_out := con_out (idle_console ()) @ out\<rparr>)"
    by (rule mp [OF conjunct2 [OF conjunct2 [OF dac]]]) simp
  then have 3: "fst (the (cal_dac [] 0 [''cal'', ''0'', ''dac'', ''70000''] (idle_console ()))) = - EINVAL" by force
  have 2: "ch_target [] 0 [''ch'', ''0'', ''target'', ''70000''] (idle_console ()) =
      write_command [] (REG_VC_ID 0 REG_VC_FIELD_CFG_TARGET_VOLTAGE) 4464 (idle_console ())"
    by (rule mp [OF conjunct1 [OF conjunct2 [OF target]]]) simp
  show ?thesis using 2 3 mp [OF conjunct1 [OF target] refl] by blast
qed

subsection \<open>Words for bit masks\<close>

lemma flag_names_exact:
  assumes "sum_list (map (\<lambda>e. length (snd e)) table) < len"
  shows "flag_names table bits len = concat (map snd (filter (\<lambda>e. bits AND fst e \<noteq> 0) table))"
proof -
  have "fold (\<lambda>(flag, name) buf. if bits AND flag \<noteq> 0 then strncat buf name len else buf) table buf =
      buf @ concat (map snd (filter (\<lambda>e. bits AND fst e \<noteq> 0) table))"
    if "length buf + sum_list (map (\<lambda>e. length (snd e)) table) < len" for buf
    using that by (induction table arbitrary: buf) (auto simp: strncat_def)
  from this [of "[]"] show ?thesis using assms by (simp add: flag_names_def)
qed

text \<open>The names of the bits of a mask, and the names with commas between them.\<close>

definition names_of :: "(u16 \<times> string) list \<Rightarrow> u16 \<Rightarrow> string list" where
  "names_of table bits = map snd (filter (\<lambda>e. bits AND fst e \<noteq> 0) table)"

fun comma_list :: "string list \<Rightarrow> string" where
  "comma_list [] = []"
| "comma_list [w] = w"
| "comma_list (w # ws) = w @ '','' @ comma_list ws"

definition fault_names :: "(u16 \<times> string) list" where
  "fault_names =
    [(VC_FAULT_CURRENT, ''I''), (VC_FAULT_MEASUREMENT, ''MEAS''), (VC_FAULT_HARDWARE, ''HW''),
     (VC_FAULT_INTERLOCK, ''LOCK''), (VC_FAULT_RETRY_EXHAUST, ''RETRY''), (VC_FAULT_CFG_INVALID, ''CFG''),
     (VC_FAULT_STALE, ''STALE'')]"

definition cap_names :: "(u16 \<times> string) list" where
  "cap_names =
    [(CH_CAP_OUTPUT_ENABLE, ''O''), (CH_CAP_RAW_OUTPUT_DRIVE, ''R''), (CH_CAP_VOLTAGE_MEASUREMENT, ''V''),
     (CH_CAP_CURRENT_MEASUREMENT, ''I''), (CH_CAP_HARDWARE_STATUS, ''H'')]"

lemma drop_comma_concat: "drop_comma (concat (map (\<lambda>w. w @ '','') ws)) = comma_list ws"
proof (induction ws rule: comma_list.induct)
  case (3 w v vs)
  have "drop_comma (xs @ ys) = xs @ drop_comma ys" if "ys \<noteq> []" for xs ys
    using that by (simp add: drop_comma_def butlast_append)
  from this [of "concat (map (\<lambda>w. w @ '','') (v # vs))" "w @ '',''"] show ?case using 3 by simp
qed (simp_all add: drop_comma_def)

lemma concat_commas: "concat (map snd (filter P (map (\<lambda>(flag, name). (flag, name @ '','')) table))) =
    concat (map (\<lambda>w. w @ '','') (map snd (filter (\<lambda>(flag, name). P (flag, name @ '','')) table)))"
  by (induction table) auto

lemma flag_words:
  assumes t: "table' = map (\<lambda>(flag, name). (flag, name @ '','')) table"
    and len: "sum_list (map (\<lambda>e. length (snd e)) table') < len"
  shows "drop_comma (flag_names table' bits len) = comma_list (names_of table bits)"
  unfolding flag_names_exact [OF len] unfolding t concat_commas drop_comma_concat
  by (simp add: names_of_def case_prod_unfold)

lemma fault_word: "fault_str cause 48 = (if cause = 0 then ''none'' else comma_list (names_of fault_names cause))"
  unfolding fault_str_def by (simp add: flag_words [where table = fault_names] fault_names_def)

lemma caps_word: "caps_str caps 24 = comma_list (names_of cap_names caps)"
  unfolding caps_str_def by (rule flag_words) (simp_all add: cap_names_def)

text \<open>A list of words without commas is read off its comma list.\<close>

lemma comma_list_inj:
  assumes "\<forall>w\<in>set ws. w \<noteq> [] \<and> CHR '','' \<notin> set w" and "\<forall>w\<in>set vs. w \<noteq> [] \<and> CHR '','' \<notin> set w"
    and "comma_list ws = comma_list vs"
  shows "ws = vs"
  using assms
proof (induction ws arbitrary: vs rule: comma_list.induct)
  case 1
  then show ?case by (cases vs rule: comma_list.cases) auto
next
  case (2 w)
  then show ?case by (cases vs rule: comma_list.cases) (auto simp: append_eq_Cons_conv)
next
  case (3 w w' ws)
  have "CHR '','' \<in> set (comma_list (w # w' # ws))" by simp
  then obtain v v' us where vs: "vs = v # v' # us" using "3.prems"(2,3) by (cases vs rule: comma_list.cases) auto
  have t: "takeWhile (\<lambda>c. c \<noteq> CHR '','') (x @ CHR '','' # y) = x" if "CHR '','' \<notin> set x" for x y
    using that by (simp add: takeWhile_append)
  have eq: "w @ CHR '','' # comma_list (w' # ws) = v @ CHR '','' # comma_list (v' # us)"
    using "3.prems"(3) by (simp add: vs)
  have "w = v" using arg_cong [OF eq, of "takeWhile (\<lambda>c. c \<noteq> CHR '','')"] "3.prems"(1,2) by (simp only: t vs list.set insert_iff ball_simps simp_thms)
  then show ?case using "3.prems" "3.IH" [of "v' # us"] by (simp add: vs)
qed

lemma names_inj:
  assumes "distinct (map snd table)"
  shows "names_of table a = names_of table b \<longleftrightarrow> (\<forall>e\<in>set table. (a AND fst e \<noteq> 0) = (b AND fst e \<noteq> 0))"
proof
  assume eq: "names_of table a = names_of table b"
  have m: "(bits AND fst e \<noteq> 0) = (snd e \<in> set (names_of table bits))" if "e \<in> set table" for e bits
    using that assms by (force simp: names_of_def distinct_map inj_on_def)
  show "\<forall>e\<in>set table. (a AND fst e \<noteq> 0) = (b AND fst e \<noteq> 0)"
    by (intro ballI) (simp only: m eq)
qed (auto simp: names_of_def intro!: arg_cong [where f = "map snd"] filter_cong)

lemma fault_bits:
  "(\<forall>e\<in>set fault_names. (a AND fst e \<noteq> 0) = (b AND fst e \<noteq> 0)) \<longleftrightarrow> a AND 0xFE = b AND 0xFE"
proof
  have all: "(0xFE :: u16) = 2 OR (4 OR (8 OR (16 OR (32 OR (64 OR 128)))))" by simp
  have bit: "x AND 2 ^ n = (if x AND 2 ^ n \<noteq> 0 then 2 ^ n else 0)" for x :: u16 and n by (simp add: and_exp)
  note bit [of _ 1, simplified] bit [of _ 2, simplified] bit [of _ 3, simplified] bit [of _ 4, simplified]
    bit [of _ 5, simplified] bit [of _ 6, simplified] bit [of _ 7, simplified]
  note flags = this
  assume "\<forall>e\<in>set fault_names. (a AND fst e \<noteq> 0) = (b AND fst e \<noteq> 0)"
  then have "a AND 2 = b AND 2" "a AND 4 = b AND 4" "a AND 8 = b AND 8" "a AND 16 = b AND 16" "a AND 32 = b AND 32"
    "a AND 64 = b AND 64" "a AND 128 = b AND 128"
    using flags [of a] flags [of b] by (simp_all add: fault_names_def)
  then show "a AND 0xFE = b AND 0xFE" unfolding all by (simp only: bit.conj_disj_distrib)
next
  assume eq: "a AND 0xFE = b AND 0xFE"
  have "x AND f = (x AND 0xFE) AND f" if "f \<in> {2, 4, 8, 16, 32, 64, 128}" for x f :: u16
    using that by (auto simp: and.assoc)
  then have "a AND f = b AND f" if "f \<in> {2, 4, 8, 16, 32, 64, 128}" for f using that eq by metis
  then show "\<forall>e\<in>set fault_names. (a AND fst e \<noteq> 0) = (b AND fst e \<noteq> 0)" by (simp add: fault_names_def)
qed

lemma fault_words_ok: "\<forall>w\<in>set (names_of fault_names cause). w \<noteq> [] \<and> CHR '','' \<notin> set w"
  by (auto simp: names_of_def fault_names_def split: if_splits)

lemma not_none: "comma_list (names_of fault_names cause) \<noteq> ''none''"
proof
  assume "comma_list (names_of fault_names cause) = ''none''"
  then have "names_of fault_names cause = [''none'']"
    by (intro comma_list_inj [OF fault_words_ok]) auto
  then have "''none'' \<in> set (names_of fault_names cause)" by simp
  then show False by (auto simp: names_of_def fault_names_def split: if_splits)
qed

lemma fault_word_length: "length (comma_list (names_of fault_names cause)) \<le> 30"
proof -
  have "length (comma_list ws) \<le> sum_list (map (\<lambda>w. length w + 1) ws) - 1" for ws
    by (induction ws rule: comma_list.induct) auto
  note 1 = this [of "names_of fault_names cause"]
  have "sum_list (map f (filter P xs)) \<le> sum_list (map f xs)" for f :: "u16 \<times> string \<Rightarrow> nat" and P xs
    by (induction xs) auto
  from this [of "\<lambda>e. length (snd e) + 1" "\<lambda>e. cause AND fst e \<noteq> 0" fault_names]
  have "sum_list (map (\<lambda>w. length w + 1) (names_of fault_names cause)) \<le> sum_list (map (\<lambda>e. length (snd e) + 1) fault_names)"
    by (simp only: names_of_def map_map comp_def)
  also have "\<dots> = 31" by (simp add: fault_names_def)
  finally show ?thesis using 1 by linarith
qed

text \<open>
  A fault word says exactly which faults are set. The word printed for a fault mask fits the buffer of the
  command without truncation, and two masks print the same word exactly when they agree in every fault of
  \<open>vc_types.h\<close> and in being zero or not.
\<close>

lemma fault_word_exact:
  "length (fault_str a 48) < 48 \<and>
   (fault_str a 48 = fault_str b 48 \<longleftrightarrow> a AND 0xFE = b AND 0xFE \<and> (a = 0 \<longleftrightarrow> b = 0))"
proof -
  have d: "distinct (map snd fault_names)" by (simp add: fault_names_def)
  have eq: "comma_list (names_of fault_names a) = comma_list (names_of fault_names b) \<longleftrightarrow> a AND 0xFE = b AND 0xFE"
    unfolding fault_bits [symmetric] names_inj [OF d, symmetric]
    using comma_list_inj [OF fault_words_ok fault_words_ok, of a b] by metis
  have len: "length (fault_str a 48) < 48" using fault_word_length [of a] by (simp add: fault_word)
  have "fault_str a 48 = fault_str b 48 \<longleftrightarrow> a AND 0xFE = b AND 0xFE \<and> (a = 0 \<longleftrightarrow> b = 0)"
    by (cases "a = 0"; cases "b = 0"; simp add: fault_word eq not_none not_none [symmetric])
  then show ?thesis using len by blast
qed

end
