(* ===== verification/Vc_Shell_Reads.thy ===== *)
theory Vc_Shell_Reads
  imports Vc_Shell Modbus_Channel_Props
begin

text \<open>
  What the console shows: the reads of the shell as an interface of one channel, the snapshot and the
  configurations they give, and the firmware's catalog as that interface.
\<close>

unbundle bit_operations_syntax

subsection \<open>Runs of reads\<close>

lemma value_u16_0 [simp]: "value_u16 0 = 0"
  by (simp add: value_u16_def)

lemma others_idle [simp]: "con_between c = [] \<Longrightarrow> others_run c = c"
  by (simp add: others_run_def)

lemma read_regs_ok:
  assumes "con_between c = []" and "\<forall>(i, f) \<in> set rs. reg_read catalog i (con_sys c) = Some (REG_OK, val i)"
  shows "read_regs catalog rs a c = Some (Inr (fold (\<lambda>(i, f). f (val i)) rs a), c)"
  using assms by (induction rs arbitrary: a) (auto simp: sh_read_def)

subsection \<open>One channel as the shell sees it\<close>

text \<open>
  What a channel shows: its snapshot without what its capabilities lack, with the newest raw values, and with
  the retry counter of the register, which is always 0. Enumerators cross the catalog as their numbers.
\<close>

definition visible_snapshot :: "'d vc_channel \<Rightarrow> vc_channel_snapshot" where
  "visible_snapshot k =
     (let v = capabilities k AND CH_CAP_VOLTAGE_MEASUREMENT \<noteq> 0; i = capabilities k AND CH_CAP_CURRENT_MEASUREMENT \<noteq> 0;
          r = capabilities k AND CH_CAP_RAW_OUTPUT_DRIVE \<noteq> 0
      in (vc_channel_get_snapshot k)
        \<lparr>snap_measured_voltage := (if v then measured_voltage k else 0),
         snap_measured_current := (if i then measured_current k else 0),
         snap_auto_retry_count := 0,
         snap_last_protection_output_action :=
           vc_output_action_of_u16 (u16_of_vc_output_action (last_protection_output_action k)),
         snap_raw_adc_voltage := (if v then case meas k of Some b \<Rightarrow> buf_raw_voltage b | None \<Rightarrow> raw_adc_voltage k else 0),
         snap_raw_adc_current := (if i then case meas k of Some b \<Rightarrow> buf_raw_current b | None \<Rightarrow> raw_adc_current k else 0),
         snap_raw_dac_readback := (if r then raw_dac_readback k else 0),
         snap_cal_output_enabled := (if r then cal_output_enabled k else 0)\<rparr>)"

definition visible_config :: "'d vc_channel \<Rightarrow> vc_channel_config" where
  "visible_config k =
     (let cfg = config k; i = capabilities k AND CH_CAP_CURRENT_MEASUREMENT \<noteq> 0;
          r = capabilities k AND CH_CAP_RAW_OUTPUT_DRIVE \<noteq> 0;
          oe = capabilities k AND CH_CAP_OUTPUT_ENABLE \<noteq> 0; v = capabilities k AND CH_CAP_VOLTAGE_MEASUREMENT \<noteq> 0
      in \<lparr>configured_target_voltage = (if r then configured_target_voltage cfg else 0),
          configured_output_enabled = (\<not> r \<and> oe \<and> configured_output_enabled cfg),
          ramp_up_step = (if r then ramp_up_step cfg else 0), ramp_up_interval = (if r then ramp_up_interval cfg else 0),
          ramp_down_step = (if r then ramp_down_step cfg else 0),
          ramp_down_interval = (if r then ramp_down_interval cfg else 0),
          recovery_policy_mode =
            vc_recovery_policy_mode_of_u16 (u16_of_vc_recovery_policy_mode (recovery_policy_mode cfg)),
          auto_retry_delay = auto_retry_delay cfg, auto_retry_max_count = auto_retry_max_count cfg,
          auto_retry_window = auto_retry_window cfg, current_safe_band_pct = current_safe_band_pct cfg,
          current_protection_mode =
            (if i then vc_protection_mode_of_u16 (u16_of_vc_protection_mode (current_protection_mode cfg))
             else VC_PROTECTION_MODE_DISABLED),
          current_protection_output_action =
            (if i then vc_output_action_of_u16 (u16_of_vc_output_action (current_protection_output_action cfg))
             else VC_OUTPUT_ACTION_NONE),
          current_limit_threshold = (if i then current_limit_threshold cfg else 0),
          auto_derate_step = (if r \<and> v then auto_derate_step cfg else 0)\<rparr>)"

definition visible_cal_config :: "'d vc_channel \<Rightarrow> vc_channel_cal_config" where
  "visible_cal_config k =
     (let cal = cal_config k; i = capabilities k AND CH_CAP_CURRENT_MEASUREMENT \<noteq> 0;
          r = capabilities k AND CH_CAP_RAW_OUTPUT_DRIVE \<noteq> 0; v = capabilities k AND CH_CAP_VOLTAGE_MEASUREMENT \<noteq> 0
      in \<lparr>output_calib_k = (if r then output_calib_k cal else 0), output_calib_b = (if r then output_calib_b cal else 0),
          measured_voltage_calib_k = (if v then measured_voltage_calib_k cal else 0),
          measured_voltage_calib_b = (if v then measured_voltage_calib_b cal else 0),
          measured_current_calib_k = (if i then measured_current_calib_k cal else 0),
          measured_current_calib_b = (if i then measured_current_calib_b cal else 0),
          output_calib_k_exp = (if r then output_calib_k_exp cal else 0),
          measured_voltage_calib_k_exp = (if v then measured_voltage_calib_k_exp cal else 0),
          measured_current_calib_k_exp = (if i then measured_current_calib_k_exp cal else 0)\<rparr>)"

text \<open>
  The interface: as long as \<open>up\<close> holds of the state, every readable register of the channel that the
  capabilities admit reads REG_OK with the value of the channel \<open>chan\<close>.
\<close>

locale shell_channel =
  fixes catalog :: "('s, 't) reg_descriptor list"
    and ch :: u8
    and up :: "'s \<Rightarrow> bool"
    and chan :: "'s \<Rightarrow> 'd vc_channel"
  assumes channel_read: "up s \<Longrightarrow> field \<in> set (map fst (vc_read_switch :: (u16 \<times> ('d vc_channel \<Rightarrow> reg_value)) list)) \<Longrightarrow>
      vc_catalog_supported field (capabilities (chan s)) \<Longrightarrow>
      reg_read catalog (REG_VC_ID ch field) s = Some (REG_OK, the (map_of vc_read_switch field) (chan s))"
begin

lemma read_at:
  assumes "con_between c = []" and "up (con_sys c)"
    and "map_of (vc_read_switch :: (u16 \<times> ('d vc_channel \<Rightarrow> reg_value)) list) field = Some rd"
    and "vc_catalog_supported field (capabilities (chan (con_sys c)))"
  shows "sh_read catalog (REG_VC_ID ch field) c = Some (REG_OK, rd (chan (con_sys c)), c)"
proof -
  have "field \<in> set (map fst (vc_read_switch :: (u16 \<times> ('d vc_channel \<Rightarrow> reg_value)) list))"
    using assms(3) by (metis map_of_eq_None_iff option.distinct(1) list.set_map)
  then show ?thesis using channel_read [OF assms(2) _ assms(4)] assms(1,3) by (simp add: sh_read_def)
qed

lemmas read_field = read_at [unfolded vc_catalog_supported_def vc_read_switch_def]

lemma shows_snapshot:
  assumes c: "con_between c = []" "up (con_sys c)"
  shows "read_channel_snapshot catalog ch c = Some (Inr (visible_snapshot (chan (con_sys c))), c)"
proof -
  note r = read_field [OF c]
  show ?thesis
    unfolding read_channel_snapshot_def channel_snapshot_regs_def visible_snapshot_def Let_def vc_channel_get_snapshot_def
    by (cases "meas (chan (con_sys c))") (simp_all add: r vc_channel_buffer_read_def)
qed

lemma shows_caps:
  "con_between c = [] \<Longrightarrow> up (con_sys c) \<Longrightarrow>
   read_caps catalog ch c = Some (Inr (capabilities (chan (con_sys c))), c)"
  by (simp add: read_caps_def read_field)

lemma shows_config:
  assumes c: "con_between c = []" "up (con_sys c)"
  shows "read_channel_config catalog ch c =
    Some (Inr (visible_config (chan (con_sys c)), capabilities (chan (con_sys c))), c)"
proof -
  note r = read_field [OF c]
  show ?thesis
    unfolding read_channel_config_def read_with_caps_def channel_config_regs_def visible_config_def Let_def
    by (simp add: r shows_caps [OF c] value_of_bool_u16 and_two_bits)
qed

lemma shows_cal_config:
  assumes c: "con_between c = []" "up (con_sys c)"
  shows "read_cal_config catalog ch c =
    Some (Inr (visible_cal_config (chan (con_sys c)), capabilities (chan (con_sys c))), c)"
proof -
  note r = read_field [OF c]
  show ?thesis
    unfolding read_cal_config_def read_with_caps_def cal_config_regs_def visible_cal_config_def Let_def
    by (simp add: r shows_caps [OF c])
qed

end

subsection \<open>The firmware's catalog\<close>

lemma readable_fields:
  fixes k :: "'d vc_channel"
  assumes "field \<in> set (map fst (vc_read_switch :: (u16 \<times> ('d vc_channel \<Rightarrow> reg_value)) list))"
  shows "case map_of vc_regs field of None \<Rightarrow> False | Some (type, access, category) \<Rightarrow>
    access \<noteq> REG_WO \<and> register_reader type field k = (REG_OK, the (map_of vc_read_switch field) k)"
  using assms
  apply (simp only: vc_read_switch_def list.simps fst_conv set_simps insert_iff empty_iff simp_thms)
  apply (elim disjE; hypsubst; simp add: vc_regs_def register_reader_def VC_VALUE_def vc_read_switch_def)
  done

lemma describe_in_firmware:
  assumes "VC_MAX_CHANNELS (cat B) \<le> VC_PROTOCOL_MAX_CHANNELS"
    and "unat ch < VC_MAX_CHANNELS (cat B)" and "(field, r) \<in> set vc_regs"
  shows "reg_describe (firmware_catalog B z A) (REG_VC_ID ch field) = Some (VC_DESC_INIT (kconf (cat B)) ch (field, r))"
  by (simp add: reg_describe_def firmware_catalog_def find_append describe_row [OF refl assms, simplified])

lemma firmware_channel_read:
  fixes s :: "('d, 's, 'm) firmware"
  assumes up: "catalog_up (cat B) s" and c: "unat ch < VC_MAX_CHANNELS (cat B)"
    and f: "field \<in> set (map fst (vc_read_switch :: (u16 \<times> ('d vc_channel \<Rightarrow> reg_value)) list))"
    and sup: "vc_catalog_supported field (capabilities (channels (rt_ctrl (vc_memory s)) ! unat ch))"
  shows "reg_read (firmware_catalog B z A) (REG_VC_ID ch field) s =
    Some (REG_OK, the (map_of vc_read_switch field) (channels (rt_ctrl (vc_memory s)) ! unat ch))"
proof -
  obtain type access category where row: "map_of vc_regs field = Some (type, access, category)" and a: "access \<noteq> REG_WO"
    and v: "register_reader type field (channels (rt_ctrl (vc_memory s)) ! unat ch) =
      (REG_OK, the (map_of vc_read_switch field) (channels (rt_ctrl (vc_memory s)) ! unat ch))"
    using readable_fields [OF f, of "channels (rt_ctrl (vc_memory s)) ! unat ch"] by (auto split: option.splits)
  note r = map_of_SomeD [OF row]
  have n: "VC_MAX_CHANNELS (cat B) \<le> VC_PROTOCOL_MAX_CHANNELS" using up by (simp add: catalog_up_def)
  have "reg_read (firmware_catalog B z A) (REG_VC_ID ch field) s =
      reg_handle_read (reg_vc_channel_handle (cat B) ch (REG_VC_ORD field)) s"
    by (simp add: reg_read_def describe_in_firmware [OF n c r] reg_handle_read_def channel_handle [OF c r])
  then show ?thesis by (simp add: read_channel_register [OF up c r] Let_def a sup v)
qed

interpretation fw: shell_channel "firmware_catalog B z A" ch
    "\<lambda>s. catalog_up (cat B) s \<and> unat ch < VC_MAX_CHANNELS (cat B)"
    "\<lambda>s. channels (rt_ctrl (vc_memory s)) ! unat ch"
  by unfold_locales (elim conjE, rule firmware_channel_read)


definition bench_console :: "((unit, nvs, unit) firmware, unit k_wait) console" where
  "bench_console = \<lparr>initialized = True, con_sys = bench_firmware 7, con_between = [], con_waits = [], con_keys = [], con_out = []\<rparr>"


end
