(* ===== verification/Vc_Shell_Live.thy ===== *)
theory Vc_Shell_Live
  imports Vc_Shell_Reads
begin

text \<open>
  The commands of the console that show the system: an interface of the two snapshots they read, the loops over
  the channels, and the watch, which goes on until a key is pressed.
\<close>

unbundle bit_operations_syntax

subsection \<open>Printing\<close>

definition only_prints :: "(('s, 't) console \<Rightarrow> ('s, 't) console) \<Rightarrow> bool" where
  "only_prints p \<longleftrightarrow> (\<forall>c. \<exists>out. p c = shell_fprintf out c)"

lemma only_prints_fprintf [simp]: "only_prints (shell_fprintf out)"
  by (auto simp: only_prints_def)

lemma shell_fprintf_fprintf [simp]: "shell_fprintf b (shell_fprintf a c) = shell_fprintf (a @ b) c"
  by (simp add: shell_fprintf_def)

lemma shell_fprintf_Nil [simp]: "shell_fprintf [] c = c"
  by (simp add: shell_fprintf_def)

lemma prints_nothing [simp]: "\<exists>out. c = shell_fprintf out c"
  by (rule exI [of _ "[]"]) simp

lemma prints_something [simp]:
  "\<exists>out. shell_fprintf a c = shell_fprintf out c"
  "\<exists>keys out. shell_fprintf a (c\<lparr>con_keys := ks\<rparr>) = shell_fprintf out (c\<lparr>con_keys := keys\<rparr>)"
  by blast+

lemma shell_fprintf_fields [simp]:
  "con_sys (shell_fprintf out c) = con_sys c" "con_between (shell_fprintf out c) = con_between c"
  "con_keys (shell_fprintf out c) = con_keys c" "initialized (shell_fprintf out c) = initialized c"
  "(shell_fprintf out c)\<lparr>con_keys := ks\<rparr> = shell_fprintf out (c\<lparr>con_keys := ks\<rparr>)"
  by (simp_all add: shell_fprintf_def)

lemma only_prints_print [simp]: "only_prints (shell_print out)"
  by (auto simp: only_prints_def shell_print_def)

lemma print_lines_fprintf: "\<exists>out. print_lines ls c = shell_fprintf out c"
proof (induction ls arbitrary: c)
  case Nil
  show ?case by (rule exI [of _ "[]"]) (simp add: print_lines_def)
next
  case (Cons l ls)
  obtain out where "print_lines ls (shell_print l c) = shell_fprintf out (shell_print l c)" using Cons by blast
  then show ?case by (auto simp: print_lines_def shell_print_def)
qed

lemma only_prints_lines [simp]: "only_prints (print_lines ls)"
  using print_lines_fprintf by (auto simp: only_prints_def)

lemma only_prints_shows [simp]:
  "only_prints (print_sys_oneliner sys)" "only_prints (print_ch_oneliner ch snap)"
  "only_prints (print_cal_status ch snap)" "only_prints (print_cal_watch ch snap)" "only_prints (print_watch ch snap)"
proof -
  show "only_prints (print_sys_oneliner sys)" "only_prints (print_cal_status ch snap)"
    by (auto simp: only_prints_def print_sys_oneliner_def print_cal_status_def shell_print_def)
  show one: "only_prints (print_ch_oneliner ch snap)"
    by (auto simp: only_prints_def print_ch_oneliner_def shell_print_def)
  show "only_prints (print_cal_watch ch snap)" "only_prints (print_watch ch snap)"
    using one by (auto simp: only_prints_def print_cal_watch_def print_watch_def)
qed

subsection \<open>Waiting for a key\<close>

lemma watch_pause_keys:
  "watch_pause n c =
    (if True \<in> set (take n (con_keys c)) then Some (True, c\<lparr>con_keys := tl (dropWhile Not (con_keys c))\<rparr>)
     else if length (con_keys c) < n then None
     else Some (False, c\<lparr>con_keys := drop n (con_keys c)\<rparr>))"
proof (induction n c rule: watch_pause.induct)
  case (2 n c)
  show ?case
  proof (cases "con_keys c")
    case (Cons key keys)
    then show ?thesis using 2 by (cases key) (simp_all add: Let_def)
  qed simp
qed simp

text \<open>A loop whose round prints and whose pauses are at least one returns exactly when a key comes.\<close>

lemma watch_loop_keys:
  assumes round: "\<And>keys out. \<exists>more. show_round (shell_fprintf out (c\<lparr>con_keys := keys\<rparr>)) =
      Some (0, shell_fprintf more (shell_fprintf out (c\<lparr>con_keys := keys\<rparr>)))"
    and pauses: "0 < pauses"
  shows "if True \<in> set keys
    then \<exists>more rest. watch_loop show_round pauses (shell_fprintf out (c\<lparr>con_keys := keys\<rparr>)) =
      Some (0, shell_fprintf more (shell_fprintf out (c\<lparr>con_keys := rest\<rparr>)))
    else watch_loop show_round pauses (shell_fprintf out (c\<lparr>con_keys := keys\<rparr>)) = None"
proof (induction "length keys" arbitrary: keys out rule: less_induct)
  case less
  obtain more where r: "show_round (shell_fprintf out (c\<lparr>con_keys := keys\<rparr>)) =
      Some (0, shell_fprintf more (shell_fprintf out (c\<lparr>con_keys := keys\<rparr>)))" using round by blast
  note unfold = watch_loop.simps [of show_round pauses "shell_fprintf out (c\<lparr>con_keys := keys\<rparr>)"] 
  consider (key) "True \<in> set (take pauses keys)"
    | (over) "True \<notin> set (take pauses keys)" "length keys < pauses"
    | (on) "True \<notin> set (take pauses keys)" "pauses \<le> length keys" by linarith
  then show ?case
  proof cases
    case key
    then have "True \<in> set keys" by (meson in_set_takeD)
    then show ?thesis using key by (auto simp: unfold r watch_pause_keys shell_print_def)
  next
    case over
    then show ?thesis by (simp add: unfold r watch_pause_keys)
  next
    case on
    then have shorter: "length (drop pauses keys) < length keys" using pauses by simp
    have "True \<in> set keys \<longleftrightarrow> True \<in> set (drop pauses keys)"
      using on(1) by (metis append_take_drop_id in_set_conv_decomp set_append Un_iff)
    moreover have "watch_loop show_round pauses (shell_fprintf out (c\<lparr>con_keys := keys\<rparr>)) =
        watch_loop show_round pauses (shell_fprintf (out @ more) (c\<lparr>con_keys := drop pauses keys\<rparr>))"
      using on by (simp add: unfold r watch_pause_keys)
    ultimately show ?thesis using less [OF shorter, of "out @ more"] by (simp split: if_splits) (blast intro: refl)
  qed
qed

subsection \<open>The system as the shell sees it\<close>

text \<open>A watch returns 0 when a key comes, and only prints; it does not return otherwise.\<close>

abbreviation stops_at_a_key :: "('s, 't) sh_result \<Rightarrow> ('s, 't) console \<Rightarrow> bool" where
  "stops_at_a_key r c \<equiv>
     (if True \<in> set (con_keys c) then \<exists>keys out. r = Some (0, shell_fprintf out (c\<lparr>con_keys := keys\<rparr>)) else r = None)"

text \<open>
  The interface: as long as \<open>up\<close> holds, the two snapshots can be read, of the system and of every channel it
  counts, and reading them changes nothing.
\<close>

locale shell_snapshots =
  fixes catalog :: "('s, 't) catalog"
    and up :: "'s \<Rightarrow> bool"
    and system_of :: "'s \<Rightarrow> vc_system_snapshot"
    and channel_of :: "u8 \<Rightarrow> 's \<Rightarrow> vc_channel_snapshot"
  assumes reads_system: "con_between c = [] \<Longrightarrow> up (con_sys c) \<Longrightarrow>
      read_system_snapshot catalog c = Some (Inr (system_of (con_sys c)), c)"
    and reads_channel: "con_between c = [] \<Longrightarrow> up (con_sys c) \<Longrightarrow>
      unat ch < unat (snap_supported_channel_count (system_of (con_sys c))) \<Longrightarrow>
      read_channel_snapshot catalog ch c = Some (Inr (channel_of ch (con_sys c)), c)"
    and few_channels: "up s \<Longrightarrow> unat (snap_supported_channel_count (system_of s)) \<le> VC_PROTOCOL_MAX_CHANNELS"
begin

lemma shows_one:
  assumes c: "con_between c = []" "up (con_sys c)" "unat ch < unat (snap_supported_channel_count (system_of (con_sys c)))"
    and p: "\<And>snap. only_prints (show ch snap)"
  obtains out where "show_channel catalog show ch c = Some (0, shell_fprintf out c)"
  using p [of "channel_of ch (con_sys c)"] that
  by (auto simp: show_channel_def reads_channel [OF c] only_prints_def)

lemma shows_all:
  assumes "con_between c = []" "up (con_sys c)"
    and "\<forall>ch\<in>set chs. unat ch < unat (snap_supported_channel_count (system_of (con_sys c)))"
    and "\<And>ch snap. only_prints (show ch snap)"
  shows "\<exists>out. sh_for (show_channel catalog show) chs c = Some (0, shell_fprintf out c)"
  using assms
proof (induction chs arbitrary: c)
  case (Cons ch chs)
  have ch: "unat ch < unat (snap_supported_channel_count (system_of (con_sys c)))" using Cons.prems(3) by simp
  obtain out where "show_channel catalog show ch c = Some (0, shell_fprintf out c)"
    by (rule shows_one [OF Cons.prems(1,2) ch Cons.prems(4)])
  moreover obtain more where "sh_for (show_channel catalog show) chs (shell_fprintf out c) =
      Some (0, shell_fprintf more (shell_fprintf out c))"
    using Cons.IH [of "shell_fprintf out c"] Cons.prems by auto
  ultimately show ?case by simp
qed simp

lemma channels_counted:
  "up (con_sys c) \<Longrightarrow> \<forall>ch\<in>set (channel_list (system_of (con_sys c))).
     unat ch < unat (snap_supported_channel_count (system_of (con_sys c)))"
  using few_channels [of "con_sys c"] by (auto simp: channel_list_def unat_of_nat)

lemma status_returns:
  assumes "initialized c" "con_between c = []" "up (con_sys c)"
  shows "\<exists>out. cmd_status catalog argv c = Some (0, shell_fprintf out c)"
proof -
  obtain out where out: "print_sys_oneliner (system_of (con_sys c)) c = shell_fprintf out c"
    using only_prints_shows(1) by (auto simp: only_prints_def)
  have "\<exists>more. sh_for (show_channel catalog print_ch_oneliner) (channel_list (system_of (con_sys c)))
      (shell_fprintf out c) = Some (0, shell_fprintf more (shell_fprintf out c))"
    using shows_all [of "shell_fprintf out c"] channels_counted [OF assms(3)] assms(2,3) by simp
  then show ?thesis using assms by (auto simp: cmd_status_def CTX_CHECK_def reads_system out)
qed

lemma watch_args_ok:
  assumes "up (con_sys c)" and w: "watch_args (system_of (con_sys c)) default_ms args = (ch, interval)"
  shows "100 \<le> interval" and "0 \<le> sint ch \<Longrightarrow> unat ch < unat (snap_supported_channel_count (system_of (con_sys c)))"
proof -
  let ?n = "snap_supported_channel_count (system_of (con_sys c))"
  show "100 \<le> interval" using w by (auto simp: watch_args_def Let_def split: list.splits if_splits prod.splits)
  have "unat (ucast v :: u8) < unat ?n" if "v < (ucast ?n :: u32)" for v
  proof -
    have n: "unat v < unat ?n"
      using that few_channels [OF assms(1)] by (simp add: word_less_nat_alt unsigned_ucast_eq take_bit_nat_eq_self)
    then have "unat v < 16" using few_channels [OF assms(1)] by simp
    then show ?thesis using n by (simp add: unsigned_ucast_eq take_bit_nat_eq_self)
  qed
  then show "unat ch < unat ?n" if "0 \<le> sint ch"
    using w that by (auto simp: watch_args_def Let_def split: list.splits if_splits prod.splits)
qed

lemma watch_stops:
  assumes c: "con_between c = []" "up (con_sys c)" and i: "100 \<le> interval"
    and round: "\<And>d. con_between d = [] \<Longrightarrow> con_sys d = con_sys c \<Longrightarrow>
      \<exists>more. show_round d = Some (0, shell_fprintf more d)"
  shows "stops_at_a_key (watch_loop show_round (nat (interval div 50)) (shell_print title c)) c"
proof -
  have pauses: "0 < nat (interval div 50)" using i by simp
  have "\<exists>more. show_round (shell_fprintf out (c\<lparr>con_keys := keys\<rparr>)) =
      Some (0, shell_fprintf more (shell_fprintf out (c\<lparr>con_keys := keys\<rparr>)))" for keys out
    by (rule round) (use c in simp_all)
  from watch_loop_keys [OF this pauses, of "con_keys c" "title @ newline"]
  show ?thesis by (auto simp: shell_print_def)
qed

lemma cmd_watch_stops:
  assumes "initialized c" "con_between c = []" "up (con_sys c)"
  shows "stops_at_a_key (cmd_watch catalog default_ms argv c) c"
proof -
  let ?sys = "system_of (con_sys c)"
  obtain ch interval where w: "watch_args ?sys default_ms (drop 1 argv) = (ch, interval)" by (cases "watch_args ?sys default_ms (drop 1 argv)")
  note ok = watch_args_ok [OF assms(3) w]
  have round: "\<exists>more. (if 0 \<le> sint ch then show_channel catalog print_ch_oneliner ch
      else sh_for (show_channel catalog print_watch) (channel_list ?sys)) d = Some (0, shell_fprintf more d)"
    if d: "con_between d = []" "con_sys d = con_sys c" for d
  proof (cases "0 \<le> sint ch")
    case True
    obtain out where "show_channel catalog print_ch_oneliner ch d = Some (0, shell_fprintf out d)"
      by (rule shows_one [of d ch print_ch_oneliner]) (use d assms(3) ok(2) [OF True] in simp_all)
    then show ?thesis using True by auto
  next
    case False
    then show ?thesis using shows_all [of d "channel_list ?sys" print_watch] channels_counted [OF assms(3)] d assms(3) by simp
  qed
  show ?thesis
    using watch_stops [OF assms(2,3) ok(1) round] assms
    by (simp add: cmd_watch_def CTX_CHECK_def reads_system w [simplified] cong: if_cong)
qed

end

subsection \<open>The firmware's catalog\<close>

lemma REG_MODBUS_ID_module [simp]: "REG_ID_MODULE (REG_MODBUS_ID f) = 3"
  by (simp add: REG_MODBUS_ID_def)

lemma global_not_channel: "REG_VC_GLOBAL_ID f = REG_VC_ID REG_GLOBAL_INSTANCE f"
  by (simp add: REG_VC_GLOBAL_ID_def REG_VC_ID_def)

lemma not_a_channel_register:
  fixes C :: catalog_build
  assumes "VC_MAX_CHANNELS C \<le> VC_PROTOCOL_MAX_CHANNELS"
    and i: "REG_ID_MODULE i \<noteq> 2 \<or> ucast (REG_ID_INSTANCE i) = REG_GLOBAL_INSTANCE"
  shows "find (\<lambda>d :: (('d, 's, 'z) vc_system_scheme, 'd k_wait) reg_descriptor. desc_id d = i)
      (vc_catalog_channel_regs C) = None"
proof -
  have "desc_id d \<noteq> i" if d: "d \<in> set (vc_catalog_channel_regs C)"
    for d :: "(('d, 's, 'z) vc_system_scheme, 'd k_wait) reg_descriptor"
  proof
    assume "desc_id d = i"
    moreover obtain row ch where "d = VC_DESC_INIT (kconf C) (word_of_nat ch) row" and ch: "ch < VC_MAX_CHANNELS C"
      using d by (auto simp: channel_regs_map)
    ultimately have "i = REG_VC_ID (word_of_nat ch) (fst row)" by (cases row) simp
    then have "(word_of_nat ch :: u8) = word_of_nat 255" using i by simp
    from word8_of_nat_inj [OF this] ch assms(1) show False by simp
  qed
  then show ?thesis by (simp add: find_None_iff)
qed

lemma find_global:
  fixes f :: "reg_row \<Rightarrow> (('d, 's, 'z) vc_system_scheme, 'd k_wait) reg_descriptor"
  assumes f: "f = VC_GLOBAL_DESC_INIT C" and r: "row \<in> set vc_global_regs"
  shows "find (\<lambda>d. desc_id d = desc_id (f row)) (vc_catalog_global_regs C) = Some (f row)"
proof -
  have "inj_on (\<lambda>y. desc_id (f y)) (set vc_global_regs)"
    using vc_global_regs_distinct by (auto simp: f inj_on_def global_not_channel dest: eq_key_imp_eq_value)
  then have "find (\<lambda>d. desc_id d = desc_id (f row)) (map f vc_global_regs) = Some (f row)"
    by (rule find_map_inj [OF r])
  then show ?thesis by (simp add: vc_catalog_global_regs_def f)
qed

lemma describe_global:
  assumes "VC_MAX_CHANNELS (cat B) \<le> VC_PROTOCOL_MAX_CHANNELS" and "(field, r) \<in> set vc_global_regs"
  shows "reg_describe (firmware_catalog B z A) (REG_VC_GLOBAL_ID field) = Some (VC_GLOBAL_DESC_INIT (cat B) (field, r))"
  by (simp add: reg_describe_def firmware_catalog_def find_append not_a_channel_register [OF assms(1)]
      find_global [OF refl assms(2), simplified])

lemma other_modules:
  "REG_VC_GLOBAL_ID f \<noteq> REG_MODBUS_ID g" "REG_SYS_STATUS_ID f \<noteq> REG_MODBUS_ID g"
  "REG_MODBUS_ID f = REG_MODBUS_ID g \<longleftrightarrow> f = g"
proof -
  show "REG_VC_GLOBAL_ID f \<noteq> REG_MODBUS_ID g"
  proof
    assume "REG_VC_GLOBAL_ID f = REG_MODBUS_ID g"
    then have "REG_ID_MODULE (REG_VC_GLOBAL_ID f) = REG_ID_MODULE (REG_MODBUS_ID g)" by (rule arg_cong)
    then show False by simp
  qed
  show "REG_SYS_STATUS_ID f \<noteq> REG_MODBUS_ID g"
  proof
    assume "REG_SYS_STATUS_ID f = REG_MODBUS_ID g"
    then have "REG_ID_MODULE (REG_SYS_STATUS_ID f) = REG_ID_MODULE (REG_MODBUS_ID g)" by (rule arg_cong)
    then show False by (simp add: REG_SYS_STATUS_ID_def)
  qed
  have id: "ucast (REG_ID_FIELD (REG_MODBUS_ID f)) = f" for f by (simp add: REG_MODBUS_ID_def)
  show "REG_MODBUS_ID f = REG_MODBUS_ID g \<longleftrightarrow> f = g" by (metis id)
qed

lemma describe_modbus:
  assumes "VC_MAX_CHANNELS (cat B) \<le> VC_PROTOCOL_MAX_CHANNELS"
  shows "reg_describe (firmware_catalog B z A) (REG_MODBUS_ID f) =
    find (\<lambda>d. desc_id d = REG_MODBUS_ID f) (modbus_catalog B z A)"
proof -
  have g: "find (\<lambda>d. desc_id d = REG_MODBUS_ID f) (vc_catalog_global_regs C) = None" for C :: catalog_build
    by (auto simp: find_None_iff vc_catalog_global_regs_def other_modules)
  have s: "find (\<lambda>d. desc_id d = REG_MODBUS_ID f) (sys_status_catalog B) = None"
    by (auto simp: find_None_iff sys_status_catalog_def other_modules REG_DESCRIPTOR_DEFINE_def sys_status_uptime_reg_def
        sys_status_firmware_version_reg_def sys_status_temperature_reg_def sys_status_humidity_reg_def
        sys_status_reset_reg_def split: if_splits)
  show ?thesis
    by (simp add: reg_describe_def firmware_catalog_def find_append not_a_channel_register [OF assms] g s)
qed

lemmas modbus_descriptors = modbus_catalog_def modbus_protocol_major_reg_def modbus_protocol_minor_reg_def
  MODBUS_CONFIG_DESCRIPTOR_def REG_DESCRIPTOR_DEFINE_def other_modules

lemma describe_protocol:
  assumes "VC_MAX_CHANNELS (cat B) \<le> VC_PROTOCOL_MAX_CHANNELS"
  shows "reg_describe (firmware_catalog B z A) (REG_MODBUS_ID REG_MODBUS_FIELD_PROTOCOL_MAJOR) =
      Some modbus_protocol_major_reg"
    and "reg_describe (firmware_catalog B z A) (REG_MODBUS_ID REG_MODBUS_FIELD_PROTOCOL_MINOR) =
      Some modbus_protocol_minor_reg"
  by (simp_all add: describe_modbus [OF assms] modbus_descriptors)

text \<open>The status and the fault cause of the system are registers that always read 0.\<close>

definition visible_system :: "fw_build \<Rightarrow> ('d, 's, 'm) firmware \<Rightarrow> vc_system_snapshot" where
  "visible_system B s =
     \<lparr>snap_protocol_major = VC_PROTOCOL_MAJOR, snap_protocol_minor = VC_PROTOCOL_MINOR,
      snap_variant_id = word_of_int (CONFIG_VC_VARIANT_ID (kconf (cat B))),
      snap_system_capability_flags = vc_capability_flags (cat B),
      snap_supported_channel_count = word_of_nat (VC_MAX_CHANNELS (cat B)),
      snap_active_channel_mask = vc_active_channel_mask (cat B),
      snap_active_operating_mode =
        vc_operating_mode_of_u16 (u16_of_vc_operating_mode (operating_mode (rt_ctrl (vc_memory s)))),
      snap_system_status = 0, snap_system_fault_cause = 0,
      snap_cal_watchdog_remaining_ms =
        ucast (ucast ((cal_watchdog_ms (rt_ctrl (vc_memory s)) + 999) div 1000) :: u16) * 1000\<rparr>"

lemma firmware_shows_system:
  fixes c :: "(('d, 's, 'm) firmware, 'd k_wait) console"
  assumes c: "con_between c = []" and up: "catalog_up (cat B) (con_sys c)"
  shows "read_system_snapshot (firmware_catalog B z A) c = Some (Inr (visible_system B (con_sys c)), c)"
proof -
  have n: "VC_MAX_CHANNELS (cat B) \<le> VC_PROTOCOL_MAX_CHANNELS" using up by (simp add: catalog_up_def)
  have global: "reg_read (firmware_catalog B z A) (REG_VC_GLOBAL_ID field) (con_sys c) =
      reg_read_descriptor (Some (VC_GLOBAL_DESC_INIT (cat B) (field, r))) (con_sys c)"
    if "(field, r) \<in> set vc_global_regs" for field r
    by (simp add: reg_read_def describe_global [OF n that])
  have protocol: "reg_read (firmware_catalog B z A) (REG_MODBUS_ID REG_MODBUS_FIELD_PROTOCOL_MAJOR) (con_sys c) =
      Some (REG_OK, value_of_u16 VC_PROTOCOL_MAJOR)"
    "reg_read (firmware_catalog B z A) (REG_MODBUS_ID REG_MODBUS_FIELD_PROTOCOL_MINOR) (con_sys c) =
      Some (REG_OK, value_of_u16 VC_PROTOCOL_MINOR)"
    by (simp_all add: reg_read_def describe_protocol [OF n] modbus_protocol_major_reg_def modbus_protocol_minor_reg_def
        REG_DESCRIPTOR_DEFINE_def reg_read_descriptor_def reg_read_bound_value_def)
  note rd = reg_read_descriptor_def vc_catalog_owner_def vc_catalog_read_def acquire_running [OF up_running(1) [OF up]]
    VC_GLOBAL_VALUE_def vc_read_global_switch_def reg_read_bound_value_def
  have row: "(REG_VC_GLOBAL_FIELD_VARIANT_ID, REG_U16, REG_RO, REG_FIXED) \<in> set vc_global_regs"
    "(REG_VC_GLOBAL_FIELD_CAPABILITY_FLAGS, REG_U16, REG_RO, REG_FIXED) \<in> set vc_global_regs"
    "(REG_VC_GLOBAL_FIELD_SUPPORTED_CHANNELS, REG_U16, REG_RO, REG_FIXED) \<in> set vc_global_regs"
    "(REG_VC_GLOBAL_FIELD_ACTIVE_CHANNEL_MASK, REG_U16, REG_RO, REG_FIXED) \<in> set vc_global_regs"
    "(REG_VC_GLOBAL_FIELD_ACTIVE_OPERATING_MODE, REG_ENUM, REG_RO, REG_RUNTIME_STATE) \<in> set vc_global_regs"
    "(REG_VC_GLOBAL_FIELD_STATUS, REG_U16, REG_RO, REG_RUNTIME_STATE) \<in> set vc_global_regs"
    "(REG_VC_GLOBAL_FIELD_FAULT_CAUSE, REG_U16, REG_RO, REG_RUNTIME_STATE) \<in> set vc_global_regs"
    "(REG_VC_GLOBAL_FIELD_CAL_WATCHDOG_REMAINING_S, REG_U16, REG_RO, REG_RUNTIME_STATE) \<in> set vc_global_regs"
    by (simp_all add: vc_global_regs_def)
  have reads: "reg_read (firmware_catalog B z A) (REG_VC_GLOBAL_ID REG_VC_GLOBAL_FIELD_VARIANT_ID) (con_sys c) =
      Some (REG_OK, value_of_u16 (word_of_int (CONFIG_VC_VARIANT_ID (kconf (cat B)))))"
    "reg_read (firmware_catalog B z A) (REG_VC_GLOBAL_ID REG_VC_GLOBAL_FIELD_CAPABILITY_FLAGS) (con_sys c) =
      Some (REG_OK, value_of_u16 (vc_capability_flags (cat B)))"
    "reg_read (firmware_catalog B z A) (REG_VC_GLOBAL_ID REG_VC_GLOBAL_FIELD_SUPPORTED_CHANNELS) (con_sys c) =
      Some (REG_OK, value_of_u16 (word_of_nat (VC_MAX_CHANNELS (cat B))))"
    "reg_read (firmware_catalog B z A) (REG_VC_GLOBAL_ID REG_VC_GLOBAL_FIELD_ACTIVE_CHANNEL_MASK) (con_sys c) =
      Some (REG_OK, value_of_u16 (vc_active_channel_mask (cat B)))"
    "reg_read (firmware_catalog B z A) (REG_VC_GLOBAL_ID REG_VC_GLOBAL_FIELD_ACTIVE_OPERATING_MODE) (con_sys c) =
      Some (REG_OK, value_of_u16 (u16_of_vc_operating_mode (operating_mode (rt_ctrl (vc_memory (con_sys c))))))"
    "reg_read (firmware_catalog B z A) (REG_VC_GLOBAL_ID REG_VC_GLOBAL_FIELD_STATUS) (con_sys c) = Some (REG_OK, 0)"
    "reg_read (firmware_catalog B z A) (REG_VC_GLOBAL_ID REG_VC_GLOBAL_FIELD_FAULT_CAUSE) (con_sys c) = Some (REG_OK, 0)"
    "reg_read (firmware_catalog B z A) (REG_VC_GLOBAL_ID REG_VC_GLOBAL_FIELD_CAL_WATCHDOG_REMAINING_S) (con_sys c) =
      Some (REG_OK, value_of_u16 (ucast ((cal_watchdog_ms (rt_ctrl (vc_memory (con_sys c))) + 999) div 1000)))"
    using up_running(2) [OF up] by (simp_all add: global [OF row(1)] global [OF row(2)] global [OF row(3)]
        global [OF row(4)] global [OF row(5)] global [OF row(6)] global [OF row(7)] global [OF row(8)] rd)
  show ?thesis
    using c by (simp add: read_system_snapshot_def sh_read_def reads protocol visible_system_def)
qed

interpretation fw_sys: shell_snapshots "firmware_catalog B z A :: ('d, 's, 'm) fw_descriptor list"
    "catalog_up (cat B)" "visible_system B" "\<lambda>ch s. visible_snapshot (channels (rt_ctrl (vc_memory s)) ! unat ch)"
proof unfold_locales
  have count: "unat (snap_supported_channel_count (visible_system B s)) = VC_MAX_CHANNELS (cat B)"
    if "catalog_up (cat B) s" for s :: "('d, 's, 'm) firmware"
    using that by (simp add: visible_system_def catalog_up_def unat_of_nat take_bit_nat_eq_self)
  fix c :: "(('d, 's, 'm) firmware, 'd k_wait) console" and ch :: u8 and s :: "('d, 's, 'm) firmware"
  show "con_between c = [] \<Longrightarrow> catalog_up (cat B) (con_sys c) \<Longrightarrow>
      read_system_snapshot (firmware_catalog B z A) c = Some (Inr (visible_system B (con_sys c)), c)"
    by (rule firmware_shows_system)
  show "con_between c = [] \<Longrightarrow> catalog_up (cat B) (con_sys c) \<Longrightarrow>
      unat ch < unat (snap_supported_channel_count (visible_system B (con_sys c))) \<Longrightarrow>
      read_channel_snapshot (firmware_catalog B z A) ch c =
        Some (Inr (visible_snapshot (channels (rt_ctrl (vc_memory (con_sys c))) ! unat ch)), c)"
    by (rule fw.shows_snapshot) (simp_all add: count)
  show "catalog_up (cat B) s \<Longrightarrow>
      unat (snap_supported_channel_count (visible_system B s)) \<le> VC_PROTOCOL_MAX_CHANNELS"
    by (simp add: count catalog_up_def)
qed



end
