(* ===== verification/Mb_Shell.thy ===== *)
theory Mb_Shell
  imports Shell_Console
begin

text \<open>
  The consoles of the Modbus adapter and of the system status: \<open>lib/modbus_adapter/modbus_adapter_shell.c\<close> and
  \<open>lib/sys_status/sys_status_shell.c\<close>. As in the voltage-control shell a command gets its arguments with its own
  name first. A command is also \<open>None\<close> where it would print a variable that no read has set.
\<close>

unbundle bit_operations_syntax

subsection \<open>Registers of the adapter\<close>

definition read_u16 ::
    "('s, 't) reg_descriptor list \<Rightarrow> u16 \<Rightarrow> ('s, 't) console \<Rightarrow> ((int + u16) \<times> ('s, 't) console) option" where
  "read_u16 catalog field c = do {
     (st, v, c1) \<leftarrow> sh_read catalog (REG_MODBUS_ID field) c;
     Some (if st \<noteq> REG_OK then Inl (- EIO) else Inr (value_u16 v), c1)
   }"

definition write_u16 ::
    "('s, 't) reg_descriptor list \<Rightarrow> u16 \<Rightarrow> u16 \<Rightarrow> ('s, 't) console \<Rightarrow> ('s, 't) sh_result" where
  "write_u16 catalog field input c = do {
     (st, c1) \<leftarrow> sh_write catalog (REG_MODBUS_ID field) input MB_SHELL_TIMEOUT c;
     Some (if st = REG_OK then 0 else - EIO, c1)
   }"

definition baud_code_to_hz :: "u16 \<Rightarrow> nat" where
  "baud_code_to_hz code =
     (if code = VC_BAUD_RATE_9600 then 9600
      else if code = VC_BAUD_RATE_19200 then 19200
      else if code = VC_BAUD_RATE_38400 then 38400
      else if code = VC_BAUD_RATE_115200 then 115200
      else 0)"

subsection \<open>Status\<close>

text \<open>The read of the next-boot settings, in a build that has settings: both, or nothing.\<close>

definition read_next_boot ::
    "('s, 't) reg_descriptor list \<Rightarrow> ('s, 't) console \<Rightarrow> ((u16 \<times> u16) option \<times> ('s, 't) console) option" where
  "read_next_boot catalog c = do {
     (r1, c1) \<leftarrow> read_u16 catalog REG_MODBUS_FIELD_NEXT_BOOT_SLAVE_ADDRESS c;
     case r1 of
       Inl _ \<Rightarrow> Some (None, c1)
     | Inr slave \<Rightarrow> do {
         (r2, c2) \<leftarrow> read_u16 catalog REG_MODBUS_FIELD_NEXT_BOOT_BAUD_RATE_CODE c1;
         Some (case r2 of Inl _ \<Rightarrow> None | Inr baud \<Rightarrow> Some (slave, baud), c2)
       }
   }"

definition settings_text :: "u16 \<Rightarrow> u16 \<Rightarrow> string" where
  "settings_text slave baud =
     ''slave='' @ fmt_u (unat slave) @ '' baud='' @ fmt_u (unat baud) @ '' ('' @ fmt_u (baud_code_to_hz baud) @ '' Hz)''"

definition cmd_mb_status ::
    "bool \<Rightarrow> ('s, 't) reg_descriptor list \<Rightarrow> string list \<Rightarrow> ('s, 't) console \<Rightarrow> ('s, 't) sh_result" where
  "cmd_mb_status config_settings catalog argv c = do {
     (r1, c1) \<leftarrow> read_u16 catalog REG_MODBUS_FIELD_ACTIVE_SLAVE_ADDRESS c;
     case r1 of
       Inl ret \<Rightarrow> Some (ret, c1)
     | Inr slave \<Rightarrow> do {
         (r2, c2) \<leftarrow> read_u16 catalog REG_MODBUS_FIELD_ACTIVE_BAUD_RATE_CODE c1;
         case r2 of
           Inl _ \<Rightarrow> Some (0, c2)
         | Inr baud \<Rightarrow> do {
             (boot, c3) \<leftarrow>
               (let c' = print_lines [''Modbus Adapter'', ''  active:    '' @ settings_text slave baud] c2
                in if config_settings then read_next_boot catalog c' else Some (None, c'));
             Some (0, case boot of
               None \<Rightarrow> shell_print ''  next boot: volatile defaults'' c3
             | Some (boot_slave, boot_baud) \<Rightarrow>
                 shell_print (''  next boot: '' @ settings_text boot_slave boot_baud @
                   (if slave \<noteq> boot_slave \<or> baud \<noteq> boot_baud
                    then '' '' @ map char_of [226, 128, 148 :: nat] @ '' restart required'' else [])) c3)
           }
       }
   }"

subsection \<open>Settings\<close>

definition cmd_mb_set_slave ::
    "('s, 't) reg_descriptor list \<Rightarrow> string list \<Rightarrow> ('s, 't) console \<Rightarrow> ('s, 't) sh_result" where
  "cmd_mb_set_slave catalog argv c = do {
     a1 \<leftarrow> arg argv 1;
     let val = fst (strtoul a1 10);
     if val < 1 \<or> 247 < val then Some (- EINVAL, shell_error ''slave address must be 1-247'' c)
     else do {
       (ret, c1) \<leftarrow> write_u16 catalog REG_MODBUS_FIELD_ACTIVE_SLAVE_ADDRESS (ucast val) c;
       Some (if ret < 0 then (- EIO, shell_error (''failed to set slave address: '' @ fmt_d ret) c1)
             else (0, shell_print (''slave address set to '' @ fmt_u (unat val)) c1))
     }
   }"

definition cmd_mb_set_baud ::
    "('s, 't) reg_descriptor list \<Rightarrow> string list \<Rightarrow> ('s, 't) console \<Rightarrow> ('s, 't) sh_result" where
  "cmd_mb_set_baud catalog argv c = do {
     a1 \<leftarrow> arg argv 1;
     let val = fst (strtoul a1 10);
     if (ucast val :: u16) \<notin> {VC_BAUD_RATE_115200, VC_BAUD_RATE_9600, VC_BAUD_RATE_19200, VC_BAUD_RATE_38400}
     then Some (- EINVAL,
       shell_error ''baud rate code must be 0 (115200), 1 (9600), 2 (19200), or 3 (38400)'' c)
     else do {
       (ret, c1) \<leftarrow> write_u16 catalog REG_MODBUS_FIELD_ACTIVE_BAUD_RATE_CODE (ucast val) c;
       Some (if ret < 0 then (- EIO, shell_error (''failed to set baud rate: '' @ fmt_d ret) c1)
             else (0, shell_print (''baud rate set to '' @ fmt_u (unat val) @ '' ('' @
                    fmt_u (baud_code_to_hz (ucast val)) @ '' Hz)'') c1))
     }
   }"

definition cmd_mb_save ::
    "('s, 't) reg_descriptor list \<Rightarrow> string list \<Rightarrow> ('s, 't) console \<Rightarrow> ('s, 't) sh_result" where
  "cmd_mb_save catalog argv c = do {
     (ret, c1) \<leftarrow> write_u16 catalog REG_MODBUS_FIELD_CONFIG_SAVE 1 c;
     Some (if ret < 0 then (- EIO, shell_error (''save failed: '' @ fmt_d ret) c1)
           else (0, shell_print ''config saved'' c1))
   }"

text \<open>The two commands that print the active settings afterwards, without a look at the results of the reads.\<close>

definition print_active ::
    "('s, 't) reg_descriptor list \<Rightarrow> string \<Rightarrow> ('s, 't) console \<Rightarrow> ('s, 't) sh_result" where
  "print_active catalog title c = do {
     (r1, c1) \<leftarrow> read_u16 catalog REG_MODBUS_FIELD_ACTIVE_SLAVE_ADDRESS c;
     (r2, c2) \<leftarrow> read_u16 catalog REG_MODBUS_FIELD_ACTIVE_BAUD_RATE_CODE c1;
     case (r1, r2) of
       (Inr slave, Inr baud) \<Rightarrow> Some (0, shell_print (title @ '': slave='' @ fmt_u (unat slave) @ '' baud='' @
         fmt_u (baud_code_to_hz baud) @ '' Hz'') c2)
     | _ \<Rightarrow> None
   }"

definition cmd_mb_load ::
    "('s, 't) reg_descriptor list \<Rightarrow> string list \<Rightarrow> ('s, 't) console \<Rightarrow> ('s, 't) sh_result" where
  "cmd_mb_load catalog argv c = do {
     (ret, c1) \<leftarrow> write_u16 catalog REG_MODBUS_FIELD_CONFIG_LOAD 1 c;
     if ret < 0 then Some (- EIO, shell_error (''load failed: '' @ fmt_d ret) c1)
     else print_active catalog ''config loaded'' c1
   }"

definition cmd_mb_factory ::
    "('s, 't) reg_descriptor list \<Rightarrow> string list \<Rightarrow> ('s, 't) console \<Rightarrow> ('s, 't) sh_result" where
  "cmd_mb_factory catalog argv c = do {
     (ret, c1) \<leftarrow> write_u16 catalog REG_MODBUS_FIELD_CONFIG_FACTORY 1 c;
     if ret < 0 then Some (- EIO, shell_error (''factory reset failed: '' @ fmt_d ret) c1)
     else print_active catalog ''factory reset'' c1
   }"

definition mb_commands :: "bool \<Rightarrow> ('s, 't) reg_descriptor list \<Rightarrow> ('s, 't) shell_cmd list" where
  "mb_commands config_settings catalog =
    [\<lparr>cmd_path = [''mb'', ''set'', ''slave''], cmd_handler = cmd_mb_set_slave catalog, cmd_args = Some (2, 0)\<rparr>,
     \<lparr>cmd_path = [''mb'', ''set'', ''baud''], cmd_handler = cmd_mb_set_baud catalog, cmd_args = Some (2, 0)\<rparr>,
     \<lparr>cmd_path = [''mb'', ''status''], cmd_handler = cmd_mb_status config_settings catalog, cmd_args = None\<rparr>,
     \<lparr>cmd_path = [''mb'', ''save''], cmd_handler = cmd_mb_save catalog, cmd_args = None\<rparr>,
     \<lparr>cmd_path = [''mb'', ''load''], cmd_handler = cmd_mb_load catalog, cmd_args = None\<rparr>,
     \<lparr>cmd_path = [''mb'', ''factory''], cmd_handler = cmd_mb_factory catalog, cmd_args = None\<rparr>]"

subsection \<open>System status\<close>

text \<open>Tenths: the quotient truncated towards zero, and the last digit of the magnitude.\<close>

definition tenths_text :: "int \<Rightarrow> string" where
  "tenths_text t = fmt_d (sgn t * (\<bar>t\<bar> div 10)) @ ''.'' @ fmt_u (nat (\<bar>t\<bar> mod 10))"

definition read_status ::
    "('s, 't) reg_descriptor list \<Rightarrow> u16 \<Rightarrow> ('s, 't) console \<Rightarrow> (u32 option \<times> ('s, 't) console) option" where
  "read_status catalog field c = do {
     (st, v, c1) \<leftarrow> sh_read catalog (REG_SYS_STATUS_ID field) c;
     Some (if st = REG_OK then Some v else None, c1)
   }"

definition print_environment ::
    "('s, 't) reg_descriptor list \<Rightarrow> ('s, 't) console \<Rightarrow> ('s, 't) console option" where
  "print_environment catalog c = do {
     (r1, c1) \<leftarrow> read_status catalog REG_SYS_STATUS_FIELD_BOARD_TEMPERATURE c;
     case r1 of
       None \<Rightarrow> Some c1
     | Some temp \<Rightarrow> do {
         (r2, c2) \<leftarrow> read_status catalog REG_SYS_STATUS_FIELD_BOARD_HUMIDITY c1;
         Some (case r2 of
           None \<Rightarrow> c2
         | Some humidity \<Rightarrow> print_lines
             [''temp:    '' @ tenths_text (sint (ucast temp :: s16)) @ '' C'',
              ''humid:   '' @ tenths_text (uint (ucast humidity :: u16)) @ '' %RH''] c2)
       }
   }"

definition cmd_ss ::
    "bool \<Rightarrow> ('s, 't) reg_descriptor list \<Rightarrow> string list \<Rightarrow> ('s, 't) console \<Rightarrow> ('s, 't) sh_result" where
  "cmd_ss config_sys_status catalog argv c = do {
     (r1, c1) \<leftarrow> read_status catalog REG_SYS_STATUS_FIELD_UPTIME c;
     case r1 of
       None \<Rightarrow> Some (- EIO, c1)
     | Some uptime \<Rightarrow> do {
         (r2, c2) \<leftarrow> read_status catalog REG_SYS_STATUS_FIELD_FW_VERSION c1;
         case r2 of
           None \<Rightarrow> Some (- EIO, c2)
         | Some version \<Rightarrow> do {
             c3 \<leftarrow>
               (let c' = shell_print (''uptime:  '' @ fmt_u (unat uptime) @ '' s'') c2
                in if config_sys_status then print_environment catalog c' else Some c');
             Some (0, shell_print (''fw:      '' @ fmt_u (unat (drop_bit 24 version AND 0xff)) @ ''.'' @
               fmt_u (unat (drop_bit 16 version AND 0xff)) @ ''.'' @ fmt_u (unat (version AND 0xffff))) c3)
           }
       }
   }"

definition cmd_ss_reset ::
    "('s, 't) reg_descriptor list \<Rightarrow> string list \<Rightarrow> ('s, 't) console \<Rightarrow> ('s, 't) sh_result" where
  "cmd_ss_reset catalog argv c = do {
     (st, c1) \<leftarrow> sh_write catalog (REG_SYS_STATUS_ID REG_SYS_STATUS_FIELD_RESET) 1 K_NO_WAIT c;
     Some (if st = REG_OK then (0, shell_print ''system reset requested'' c1) else (- EIO, c1))
   }"

text \<open>The build without the reset has no subcommand.\<close>

definition ss_commands :: "bool \<Rightarrow> bool \<Rightarrow> ('s, 't) reg_descriptor list \<Rightarrow> ('s, 't) shell_cmd list" where
  "ss_commands config_sys_status config_sys_reset catalog =
     (if config_sys_reset
      then [\<lparr>cmd_path = [''ss'', ''reset''], cmd_handler = cmd_ss_reset catalog, cmd_args = None\<rparr>] else []) @
     [\<lparr>cmd_path = [''ss''], cmd_handler = cmd_ss config_sys_status catalog, cmd_args = None\<rparr>]"

end
