(* ===== verification/Mb_Shell_Props.thy ===== *)
theory Mb_Shell_Props
  imports Mb_Shell Vc_Shell_Live
begin

text \<open>
  What the small consoles do to the firmware: the settings of the serial line that \<open>mb set\<close> changes, and the
  temperatures that \<open>ss\<close> prints.
\<close>

unbundle bit_operations_syntax

subsection \<open>Tenths\<close>

lemma fmt_d_inj:
  assumes "- (2 ^ 31) \<le> a" "a < 2 ^ 31" "- (2 ^ 31) \<le> b" "b < 2 ^ 31"
  shows "fmt_d a = fmt_d b \<longleftrightarrow> a = b"
proof
  assume "fmt_d a = fmt_d b"
  then have "(word_of_int a :: s32) = word_of_int b"
    using strtol_fmt_d [of a] strtol_fmt_d [of b] assms by simp
  then have "sint (word_of_int a :: s32) = sint (word_of_int b :: s32)" by simp
  then show "a = b" using assms by (simp add: signed_of_int signed_take_bit_int_eq_self)
qed simp

lemma digit_fmt: "d < 10 \<Longrightarrow> fmt_u d = [digit_char d]"
  by (simp add: fmt_u_def digits_small)

lemma digit_char_inj: "a < 10 \<Longrightarrow> b < 10 \<Longrightarrow> digit_char a = digit_char b \<longleftrightarrow> a = b"
  by (rule iffI, drule arg_cong [of _ _ digit_value]) simp_all

lemma tenths_text_eq:
  assumes "\<bar>a\<bar> < 2 ^ 31" "\<bar>b\<bar> < 2 ^ 31"
  shows "tenths_text a = tenths_text b \<longleftrightarrow> sgn a * (\<bar>a\<bar> div 10) = sgn b * (\<bar>b\<bar> div 10) \<and> \<bar>a\<bar> mod 10 = \<bar>b\<bar> mod 10"
proof -
  have d: "nat (\<bar>x\<bar> mod 10) < 10" for x :: int by (simp add: nat_less_iff)
  have r: "- (2 ^ 31) \<le> sgn x * (\<bar>x\<bar> div 10) \<and> sgn x * (\<bar>x\<bar> div 10) < 2 ^ 31" if "\<bar>x\<bar> < 2 ^ 31" for x :: int
    using that by (cases x "0 :: int" rule: linorder_cases) auto
  show ?thesis
    using r [OF assms(1)] r [OF assms(2)] digit_char_inj [OF d d]
    by (simp add: tenths_text_def digit_fmt [OF d] fmt_d_inj nat_eq_iff)
qed

lemma sign_and_digits:
  fixes a b p q r t :: int
  assumes "\<bar>a\<bar> = 10 * p + r" "\<bar>b\<bar> = 10 * q + t" "0 \<le> r" "r < 10" "0 \<le> t" "t < 10" "0 \<le> p" "0 \<le> q"
  shows "sgn a * p = sgn b * q \<and> r = t \<longleftrightarrow> a = b \<or> (a = - b \<and> \<bar>a\<bar> < 10)"
proof
  assume h: "sgn a * p = sgn b * q \<and> r = t"
  have "p = q"
    using h assms
    by (cases a "0 :: int" rule: linorder_cases; cases b "0 :: int" rule: linorder_cases;
        simp only: sgn_pos sgn_neg sgn_0; linarith)
  then have ab: "\<bar>a\<bar> = \<bar>b\<bar>" using h assms by simp
  show "a = b \<or> (a = - b \<and> \<bar>a\<bar> < 10)"
  proof (cases "a = b")
    case False
    then have "a = - b" "a \<noteq> 0" using ab by linarith+
    then have "sgn b * p = 0" using h \<open>p = q\<close> by (simp add: sgn_minus)
    then have "p = 0" using \<open>a = - b\<close> \<open>a \<noteq> 0\<close> by (simp add: sgn_0_0)
    then show ?thesis using \<open>a = - b\<close> assms by simp
  qed simp
next
  assume "a = b \<or> (a = - b \<and> \<bar>a\<bar> < 10)"
  then have ab: "\<bar>a\<bar> = \<bar>b\<bar>" by auto
  then have "10 * p + r = 10 * q + t" using assms(1,2) by simp
  then have pq: "p = q \<and> r = t" using assms(3-8) by presburger
  show "sgn a * p = sgn b * q \<and> r = t"
  proof (cases "a = b")
    case False
    then have "\<bar>a\<bar> < 10" using \<open>a = b \<or> (a = - b \<and> \<bar>a\<bar> < 10)\<close> by blast
    then have "p = 0" using assms by linarith
    then show ?thesis using pq by simp
  qed (use pq in simp)
qed

text \<open>
  C40. Temperatures just below zero lose their sign. The text that the status command prints for a temperature
  determines the temperature, except between -0.9 and 0.9 degrees: there a negative value prints like
  the positive one of the same magnitude, and nowhere else do two values share a text.
\<close>

theorem temperature_text_ambiguous:
  "tenths_text (sint (v :: s16)) = tenths_text (sint (w :: s16)) \<longleftrightarrow>
     v = w \<or> (sint v = - sint w \<and> \<bar>sint v\<bar> < 10)"
proof -
  have r: "\<bar>sint x\<bar> < 2 ^ 31" for x :: s16 using sint16_range [of x] by (auto simp: abs_less_iff)
  have q: "sgn a * (\<bar>a\<bar> div 10) = sgn b * (\<bar>b\<bar> div 10) \<and> \<bar>a\<bar> mod 10 = \<bar>b\<bar> mod 10 \<longleftrightarrow>
      a = b \<or> (a = - b \<and> \<bar>a\<bar> < 10)" for a b :: int
    by (rule sign_and_digits) simp_all
  have s: "sint v = sint w \<longleftrightarrow> v = w" by (rule word_eq_iff_signed [symmetric])
  show ?thesis unfolding tenths_text_eq [OF r r] q s ..
qed

lemma temperature_text_ambiguous_example: "tenths_text (- 5) = ''0.5''"
  by code_simp

subsection \<open>Settings of the serial line\<close>

lemma REG_MODBUS_ID_field [simp]: "ucast (REG_ID_FIELD (REG_MODBUS_ID f)) = f"
  by (simp add: REG_MODBUS_ID_def)

lemma adapter_write:
  assumes "VC_MAX_CHANNELS (cat B) \<le> VC_PROTOCOL_MAX_CHANNELS"
  shows "reg_write (firmware_catalog B z A) (REG_MODBUS_ID REG_MODBUS_FIELD_ACTIVE_SLAVE_ADDRESS) (value_of_u16 w) t s =
      Some (answer_errno (modbus_adapter_set_slave_address B A w s))"
    and "reg_write (firmware_catalog B z A) (REG_MODBUS_ID REG_MODBUS_FIELD_ACTIVE_BAUD_RATE_CODE) (value_of_u16 w) t s =
      Some (answer_errno (modbus_adapter_set_baud_rate_code B A w s))"
  by (simp_all add: reg_write_def describe_modbus [OF assms] modbus_descriptors reg_write_descriptor_def
      modbus_reg_owner_def modbus_reg_write_def)

lemma apply_config_result:
  "modbus_adapter_apply_config A cfg s = (ret, s') \<Longrightarrow> mb s \<Longrightarrow>
   if ret = 0 then adapter s' = (adapter s)\<lparr>active_cfg := cfg\<rparr> else adapter s' = adapter s"
  by (auto simp: modbus_adapter_apply_config_def start_with_def modbus_server_start_def set_active_def Let_def
      split: prod.splits if_splits)

lemma set_slave_result:
  "modbus_adapter_set_slave_address B A w s = (ret, s') \<Longrightarrow>
   if ret = 0 then w \<noteq> 0 \<and> w \<le> 247 \<and> adapter s' = (adapter s)\<lparr>active_cfg := (active_cfg (adapter s))\<lparr>slave_address := w\<rparr>\<rparr>
   else adapter s' = adapter s"
  using apply_config_result [of A "(active_cfg (adapter s))\<lparr>slave_address := w\<rparr>" s ret s']
  by (auto simp: modbus_adapter_set_slave_address_def set_active_def not_less Let_def split: if_splits)

lemma set_baud_result:
  "modbus_adapter_set_baud_rate_code B A w s = (ret, s') \<Longrightarrow>
   if ret = 0 then w \<le> 3 \<and> adapter s' = (adapter s)\<lparr>active_cfg := (active_cfg (adapter s))\<lparr>baud_rate_code := w\<rparr>\<rparr>
   else adapter s' = adapter s"
  using apply_config_result [of A "(active_cfg (adapter s))\<lparr>baud_rate_code := w\<rparr>" s ret s']
  by (auto simp: modbus_adapter_set_baud_rate_code_def set_active_def not_less Let_def split: if_splits)

lemma answer_errno_OK: "fst (answer_errno r) = REG_OK \<longleftrightarrow> fst r = 0"
  by (simp add: answer_errno_def errno_to_reg_status_def)

text \<open>A write of the adapter's console, alone on the system.\<close>

lemma console_write:
  assumes n: "VC_MAX_CHANNELS (cat B) \<le> VC_PROTOCOL_MAX_CHANNELS"
    and alone: "con_between c = []" and waits: "con_waits c = w # ws"
  shows "write_u16 (firmware_catalog B z A) REG_MODBUS_FIELD_ACTIVE_SLAVE_ADDRESS v c =
      (case modbus_adapter_set_slave_address B A v (con_sys c) of
         (ret, s) \<Rightarrow> Some (if ret = 0 then 0 else - EIO, c\<lparr>con_waits := ws, con_sys := s\<rparr>))"
    and "write_u16 (firmware_catalog B z A) REG_MODBUS_FIELD_ACTIVE_BAUD_RATE_CODE v c =
      (case modbus_adapter_set_baud_rate_code B A v (con_sys c) of
         (ret, s) \<Rightarrow> Some (if ret = 0 then 0 else - EIO, c\<lparr>con_waits := ws, con_sys := s\<rparr>))"
  using alone waits
  by (simp_all add: write_u16_def sh_write_def adapter_write [OF n] answer_errno_def errno_to_reg_status_def Let_def
      split: prod.splits)

lemma number_of_text:
  assumes "k < 2 ^ 32"
  shows "unat (word_of_nat k :: u32) = k" and "(ucast (word_of_nat k :: u32) :: u16) = word_of_nat k"
  using assms
  by (simp add: unat_of_nat take_bit_nat_eq_self) (rule bit_word_eqI, simp add: bit_simps)

lemma small_u16: "(word_of_nat k :: u16) \<in> {0, 1, 2, 3} \<longleftrightarrow> k mod 65536 \<le> 3"
proof -
  have "(word_of_nat k :: u16) \<in> {0, 1, 2, 3} \<longleftrightarrow> unat (word_of_nat k :: u16) \<in> {0, 1, 2, 3}"
    by (auto simp: word_unat_eq_iff)
  also have "\<dots> \<longleftrightarrow> k mod 65536 \<in> {0, 1, 2, 3}" by (simp add: unat_of_nat take_bit_eq_mod)
  also have "\<dots> \<longleftrightarrow> k mod 65536 \<le> 3" by auto
  finally show ?thesis .
qed

text \<open>What a setting command leaves: the result, and the settings of the adapter.\<close>

definition setting_done :: "(mb_adapter_config \<Rightarrow> mb_adapter_config) \<Rightarrow> bool \<Rightarrow>
    (('d, 's, 'm) firmware, 'd k_wait) console \<Rightarrow> (('d, 's, 'm) firmware, 'd k_wait) sh_result \<Rightarrow> bool" where
  "setting_done change legal c res =
     (case res of
        None \<Rightarrow> False
      | Some (r, c') \<Rightarrow>
          if r = 0
          then legal \<and> adapter (con_sys c') = (adapter (con_sys c))\<lparr>active_cfg := change (active_cfg (adapter (con_sys c)))\<rparr>
          else r < 0 \<and> adapter (con_sys c') = adapter (con_sys c))"

lemma con_sys_print [simp]: "con_sys (shell_print out c) = con_sys c"
  by (simp add: shell_print_def)

lemma set_slave_console:
  assumes n: "VC_MAX_CHANNELS (cat B) \<le> VC_PROTOCOL_MAX_CHANNELS" and k: "k < 2 ^ 32"
    and alone: "con_between c = []" and waits: "con_waits c = w # ws"
  shows "setting_done (\<lambda>cfg. cfg\<lparr>slave_address := word_of_nat k\<rparr>) (1 \<le> k \<and> k \<le> 247) c
    (cmd_mb_set_slave (firmware_catalog B z A) [x, fmt_u k] c)"
proof -
  have range: "(word_of_nat k :: u32) < 1 \<or> 247 < (word_of_nat k :: u32) \<longleftrightarrow> k < 1 \<or> 247 < k"
    unfolding word_less_nat_alt number_of_text(1) [OF k] by simp
  obtain ret s where m: "modbus_adapter_set_slave_address B A (word_of_nat k) (con_sys c) = (ret, s)" by fastforce
  note cmd = cmd_mb_set_slave_def arg_def strtoul_fmt_u [OF k] Let_def number_of_text [OF k]
    console_write(1) [OF n alone waits] m
  show ?thesis
  proof (cases "k < 1 \<or> 247 < k")
    case True
    then have "(word_of_nat k :: u32) < 1 \<or> 247 < (word_of_nat k :: u32)" using range by blast
    then show ?thesis by (auto simp: cmd setting_done_def)
  next
    case False
    then have "\<not> ((word_of_nat k :: u32) < 1 \<or> 247 < (word_of_nat k :: u32))" using range by blast
    then show ?thesis using set_slave_result [OF m] False by (cases "ret = 0") (simp_all add: cmd setting_done_def)
  qed
qed

lemma set_baud_console:
  assumes n: "VC_MAX_CHANNELS (cat B) \<le> VC_PROTOCOL_MAX_CHANNELS" and k: "k < 2 ^ 32"
    and alone: "con_between c = []" and waits: "con_waits c = w # ws"
  shows "setting_done (\<lambda>cfg. cfg\<lparr>baud_rate_code := word_of_nat k\<rparr>) (k mod 65536 \<le> 3) c
    (cmd_mb_set_baud (firmware_catalog B z A) [x, fmt_u k] c)"
proof -
  obtain ret s where m: "modbus_adapter_set_baud_rate_code B A (word_of_nat k) (con_sys c) = (ret, s)" by fastforce
  note cmd = cmd_mb_set_baud_def arg_def strtoul_fmt_u [OF k] Let_def number_of_text [OF k]
    console_write(2) [OF n alone waits] m
  show ?thesis
  proof (cases "(word_of_nat k :: u16) \<in> {0, 1, 2, 3}")
    case True
    then show ?thesis
      using set_baud_result [OF m] small_u16 [of k] by (cases "ret = 0") (simp_all add: cmd setting_done_def)
  next
    case False
    then show ?thesis by (simp add: cmd setting_done_def)
  qed
qed

text \<open>
  The console sets the serial line. Typing a number after \<open>mb set slave\<close> or \<open>mb set baud\<close>, alone on the
  system, always ends. It returns 0 only when the setting is legal and has become the active one, with the other
  left alone, and a negative number when the settings are as before. A slave address is legal between 1 and
  247; a baud rate code is the number typed modulo 65536, and legal between 0 and 3.
\<close>

lemma mb_set_takes_effect:
  assumes "VC_MAX_CHANNELS (cat B) \<le> VC_PROTOCOL_MAX_CHANNELS" and "k < 2 ^ 32"
    and "con_between c = []" and "con_waits c = w # ws"
  shows "setting_done (\<lambda>cfg. cfg\<lparr>slave_address := word_of_nat k\<rparr>) (1 \<le> k \<and> k \<le> 247) c
      (cmd_mb_set_slave (firmware_catalog B z A) [x, fmt_u k] c) \<and>
    setting_done (\<lambda>cfg. cfg\<lparr>baud_rate_code := word_of_nat k\<rparr>) (k mod 65536 \<le> 3) c
      (cmd_mb_set_baud (firmware_catalog B z A) [x, fmt_u k] c)"
  using set_slave_console [OF assms] set_baud_console [OF assms] ..

lemma mb_set_takes_effect_witness:
  "case cmd_mb_set_slave (firmware_catalog bench_fw map_settings bench_line) [''slave'', fmt_u 7]
      (bench_console\<lparr>con_waits := [\<lambda>_. undefined]\<rparr>) of
     None \<Rightarrow> False | Some (r, c') \<Rightarrow> if r = 0 then slave_address (active_cfg (adapter (con_sys c'))) = 7 else r < 0"
proof -
  have n: "VC_MAX_CHANNELS (cat bench_fw) \<le> VC_PROTOCOL_MAX_CHANNELS" by (simp add: bench_fw_def bench_build_def)
  have c: "con_between (bench_console\<lparr>con_waits := [\<lambda>_. undefined]\<rparr>) = []"
    "con_waits (bench_console\<lparr>con_waits := [\<lambda>_. undefined]\<rparr>) = (\<lambda>_. undefined) # []"
    by (simp_all add: bench_console_def)
  have k: "(7 :: nat) < 2 ^ 32" by simp
  show ?thesis
    using conjunct1 [OF mb_set_takes_effect [OF n k c, of map_settings bench_line "''slave''"]]
    by (auto simp: setting_done_def split: option.splits if_splits)
qed

end
