(* ===== verification/Topology.thy ===== *)
theory Topology
  imports Shell_Console
begin

text \<open>
  The topology of the host tools: \<open>tools/psb_modbus_core/topology_config.h\<close>, \<open>topology_rules.h\<close> and
  \<open>topology_rules.cpp\<close>. A configuration names serial buses, the boards on them and groups of channels; the
  rules are the operations that change it. An operation returns the text of an error, empty when it was
  done, and the configuration, which it changes only when it was done.
\<close>

record board_config =
  nickname :: string
  slave_id :: int
  channel_aliases :: "string list"

record bus_config =
  bus_name :: string
  port :: string
  baud_rate :: int
  boards :: "board_config list"

record group_channel_ref =
  board_nickname :: string
  channel_index :: int
  ref_alias :: string

record group_config =
  group_name :: string
  members :: "group_channel_ref list"

record topology =
  buses :: "bus_config list"
  groups :: "group_config list"

definition defaultChannelAlias :: "int \<Rightarrow> string" where
  "defaultChannelAlias channel = ''CH'' @ fmt_d channel"

definition totalBoardCount :: "topology \<Rightarrow> nat" where
  "totalBoardCount topo = sum_list (map (\<lambda>bus. length (boards bus)) (buses topo))"

definition singleBoard :: "string \<Rightarrow> int \<Rightarrow> int \<Rightarrow> string \<Rightarrow> topology" where
  "singleBoard p baud slave nick =
    \<lparr>buses = [\<lparr>bus_name = ''bus1'', port = p, baud_rate = baud,
        boards = [\<lparr>nickname = nick, slave_id = slave, channel_aliases = []\<rparr>]\<rparr>],
     groups = []\<rparr>"

subsection \<open>Questions\<close>

definition boardNicknameInUse :: "topology \<Rightarrow> string \<Rightarrow> bool" where
  "boardNicknameInUse topo nick = list_ex (\<lambda>bus. list_ex (\<lambda>board. nickname board = nick) (boards bus)) (buses topo)"

definition slaveIdInUse :: "bus_config \<Rightarrow> int \<Rightarrow> bool" where
  "slaveIdInUse bus slave = list_ex (\<lambda>board. slave_id board = slave) (boards bus)"

definition groupNameInUse :: "topology \<Rightarrow> string \<Rightarrow> bool" where
  "groupNameInUse topo name = list_ex (\<lambda>grp. group_name grp = name) (groups topo)"

definition boardChannelId :: "string \<Rightarrow> int \<Rightarrow> string" where
  "boardChannelId nick channel = nick @ ''/'' @ defaultChannelAlias channel"

definition refers_to :: "string \<Rightarrow> int \<Rightarrow> group_channel_ref \<Rightarrow> bool" where
  "refers_to nick channel ref \<longleftrightarrow> board_nickname ref = nick \<and> channel_index ref = channel"

text \<open>The position of the first element with a property; the code returns -1 for none.\<close>

definition first_index :: "('a \<Rightarrow> bool) \<Rightarrow> 'a list \<Rightarrow> nat option" where
  "first_index P xs = (if list_ex P xs then Some (length (takeWhile (\<lambda>x. \<not> P x) xs)) else None)"

lemma first_index_Some:
  assumes "first_index P xs = Some i"
  shows "i < length xs" and "P (xs ! i)" and "\<forall>j < i. \<not> P (xs ! j)"
proof -
  have e: "list_ex P xs" and i: "i = length (takeWhile (\<lambda>x. \<not> P x) xs)"
    using assms by (simp_all add: first_index_def split: if_splits)
  have "takeWhile (\<lambda>x. \<not> P x) xs \<noteq> xs" using e by (auto simp: list_ex_iff takeWhile_eq_all_conv)
  then show l: "i < length xs"
    using i length_takeWhile_le [of "\<lambda>x. \<not> P x" xs] takeWhile_eq_take [of "\<lambda>x. \<not> P x" xs]
    by (metis le_neq_implies_less order_refl take_all)
  show "P (xs ! i)" using nth_length_takeWhile [of "\<lambda>x. \<not> P x" xs] l i by auto
  show "\<forall>j < i. \<not> P (xs ! j)"
    using i by (metis nth_mem set_takeWhileD takeWhile_nth)
qed

lemma first_index_None: "first_index P xs = None \<longleftrightarrow> (\<forall>x\<in>set xs. \<not> P x)"
  by (auto simp: first_index_def list_ex_iff)

definition findGroupForBoardChannel :: "topology \<Rightarrow> string \<Rightarrow> int \<Rightarrow> nat option" where
  "findGroupForBoardChannel topo nick channel =
     first_index (\<lambda>grp. list_ex (refers_to nick channel) (members grp)) (groups topo)"

definition groupAliasInUse :: "group_config \<Rightarrow> string \<Rightarrow> nat option \<Rightarrow> bool" where
  "groupAliasInUse grp alias except =
     list_ex (\<lambda>i. Some i \<noteq> except \<and> ref_alias (members grp ! i) = alias) [0..<length (members grp)]"

subsection \<open>Operations\<close>

type_synonym topology_result = "string \<times> topology"

definition quoted :: "string \<Rightarrow> string" where
  "quoted s = char_of (34 :: nat) # s @ [char_of (34 :: nat)]"

text \<open>An index from the user is an \<open>int\<close>; it is valid below the size of its vector.\<close>

definition valid_index :: "int \<Rightarrow> 'a list \<Rightarrow> bool" where
  "valid_index i xs \<longleftrightarrow> 0 \<le> i \<and> i < int (length xs)"

definition drop_at :: "int \<Rightarrow> 'a list \<Rightarrow> 'a list" where
  "drop_at i xs = take (nat i) xs @ drop (Suc (nat i)) xs"

definition set_boards :: "nat \<Rightarrow> board_config list \<Rightarrow> topology \<Rightarrow> topology" where
  "set_boards i bs topo = topo\<lparr>buses := (buses topo)[i := (buses topo ! i)\<lparr>boards := bs\<rparr>]\<rparr>"

definition set_members :: "nat \<Rightarrow> group_channel_ref list \<Rightarrow> topology \<Rightarrow> topology" where
  "set_members i ms topo = topo\<lparr>groups := (groups topo)[i := (groups topo ! i)\<lparr>members := ms\<rparr>]\<rparr>"

definition addBus :: "topology \<Rightarrow> string \<Rightarrow> string \<Rightarrow> int \<Rightarrow> topology_result" where
  "addBus topo name p baud =
     (if p = [] then (''port required'', topo)
      else case find (\<lambda>bus. port bus = p) (buses topo) of
        Some bus \<Rightarrow> (''port already in use by bus '' @ quoted (bus_name bus), topo)
      | None \<Rightarrow>
          ([], topo\<lparr>buses := buses topo @
             [\<lparr>bus_name = (if name = [] then ''bus'' @ fmt_u (length (buses topo) + 1) else name), port = p,
               baud_rate = baud, boards = []\<rparr>]\<rparr>))"

definition removeBus :: "topology \<Rightarrow> int \<Rightarrow> topology_result" where
  "removeBus topo i =
     (if \<not> valid_index i (buses topo) then (''invalid bus index'', topo)
      else ([], topo\<lparr>buses := drop_at i (buses topo)\<rparr>))"

definition addBoard :: "topology \<Rightarrow> int \<Rightarrow> string \<Rightarrow> int \<Rightarrow> topology_result" where
  "addBoard topo i nick slave =
     (if \<not> valid_index i (buses topo) then (''invalid bus index'', topo)
      else if nick = [] then (''nickname required'', topo)
      else if slave < 0 \<or> 247 < slave then (''slave ID must be 0-247'', topo)
      else if boardNicknameInUse topo nick then (''nickname '' @ quoted nick @ '' already in use'', topo)
      else if slaveIdInUse (buses topo ! nat i) slave
      then (''slave ID '' @ fmt_d slave @ '' already used on this bus'', topo)
      else ([], set_boards (nat i)
        (boards (buses topo ! nat i) @ [\<lparr>nickname = nick, slave_id = slave, channel_aliases = []\<rparr>]) topo))"

text \<open>
  The search over all boards: a later match replaces an earlier one, and a board with the new name ends it. The
  result is whether the board was found, or \<open>None\<close> for the error.
\<close>

fun find_board_to_rename :: "string \<Rightarrow> string \<Rightarrow> bool \<Rightarrow> board_config list \<Rightarrow> bool option" where
  "find_board_to_rename previous nick seen [] = Some seen"
| "find_board_to_rename previous nick seen (board # bs) =
     (if nickname board = previous then find_board_to_rename previous nick True bs
      else if nickname board = nick then None
      else find_board_to_rename previous nick seen bs)"

definition all_boards :: "topology \<Rightarrow> board_config list" where
  "all_boards topo = concat (map boards (buses topo))"

text \<open>The last board with the name gets the new one.\<close>

fun rename_last :: "string \<Rightarrow> string \<Rightarrow> board_config list \<Rightarrow> board_config list" where
  "rename_last previous nick [] = []"
| "rename_last previous nick (board # bs) =
     (if nickname board = previous \<and> (\<forall>b\<in>set bs. nickname b \<noteq> previous) then board\<lparr>nickname := nick\<rparr> # bs
      else board # rename_last previous nick bs)"

fun rename_in_buses :: "string \<Rightarrow> string \<Rightarrow> bus_config list \<Rightarrow> bus_config list" where
  "rename_in_buses previous nick [] = []"
| "rename_in_buses previous nick (bus # bs) =
     (if (\<exists>b\<in>set (boards bus). nickname b = previous) \<and>
         (\<forall>later\<in>set bs. \<forall>b\<in>set (boards later). nickname b \<noteq> previous)
      then bus\<lparr>boards := rename_last previous nick (boards bus)\<rparr> # bs
      else bus # rename_in_buses previous nick bs)"

definition rename_ref :: "string \<Rightarrow> string \<Rightarrow> group_channel_ref \<Rightarrow> group_channel_ref" where
  "rename_ref previous nick ref =
     (if board_nickname ref = previous then ref\<lparr>board_nickname := nick\<rparr> else ref)"

definition renameBoard :: "topology \<Rightarrow> string \<Rightarrow> string \<Rightarrow> topology_result" where
  "renameBoard topo previous nick =
     (if nick = [] then (''nickname required'', topo)
      else case find_board_to_rename previous nick False (all_boards topo) of
        None \<Rightarrow> (''nickname '' @ quoted nick @ '' already in use'', topo)
      | Some False \<Rightarrow> (''board '' @ quoted previous @ '' not found'', topo)
      | Some True \<Rightarrow>
          ([], topo\<lparr>buses := rename_in_buses previous nick (buses topo),
                groups := map (\<lambda>grp. grp\<lparr>members := map (rename_ref previous nick) (members grp)\<rparr>) (groups topo)\<rparr>))"

definition removeBoard :: "topology \<Rightarrow> int \<Rightarrow> int \<Rightarrow> topology_result" where
  "removeBoard topo i j =
     (if \<not> valid_index i (buses topo) then (''invalid bus index'', topo)
      else if \<not> valid_index j (boards (buses topo ! nat i)) then (''invalid board index'', topo)
      else ([], set_boards (nat i) (drop_at j (boards (buses topo ! nat i))) topo))"

definition addGroup :: "topology \<Rightarrow> string \<Rightarrow> topology_result" where
  "addGroup topo name =
     (if name = [] then (''group name required'', topo)
      else if groupNameInUse topo name then (''group name '' @ quoted name @ '' already in use'', topo)
      else ([], topo\<lparr>groups := groups topo @ [\<lparr>group_name = name, members = []\<rparr>]\<rparr>))"

definition renameGroup :: "topology \<Rightarrow> int \<Rightarrow> string \<Rightarrow> topology_result" where
  "renameGroup topo i name =
     (if \<not> valid_index i (groups topo) then (''invalid group index'', topo)
      else if name = [] then (''group name required'', topo)
      else if list_ex (\<lambda>k. int k \<noteq> i \<and> group_name (groups topo ! k) = name) [0..<length (groups topo)]
      then (''group name '' @ quoted name @ '' already in use'', topo)
      else ([], topo\<lparr>groups := (groups topo)[nat i := (groups topo ! nat i)\<lparr>group_name := name\<rparr>]\<rparr>))"

definition removeGroup :: "topology \<Rightarrow> int \<Rightarrow> topology_result" where
  "removeGroup topo i =
     (if \<not> valid_index i (groups topo) then (''invalid group index'', topo)
      else ([], topo\<lparr>groups := drop_at i (groups topo)\<rparr>))"

definition addChannelToGroup :: "topology \<Rightarrow> int \<Rightarrow> string \<Rightarrow> int \<Rightarrow> string \<Rightarrow> topology_result" where
  "addChannelToGroup topo i nick channel alias =
     (if \<not> valid_index i (groups topo) then (''invalid group index'', topo)
      else if nick = [] then (''board required'', topo)
      else if channel < 0 then (''invalid channel index'', topo)
      else
        let final_alias = (if alias = [] then defaultChannelAlias channel else alias); grp = groups topo ! nat i in
        case findGroupForBoardChannel topo nick channel of
          Some g \<Rightarrow> (boardChannelId nick channel @ '' already assigned to group '' @ group_name (groups topo ! g), topo)
        | None \<Rightarrow>
            if groupAliasInUse grp final_alias None
            then (''alias '' @ quoted final_alias @ '' already in use in group '' @ group_name grp, topo)
            else ([], set_members (nat i)
              (members grp @ [\<lparr>board_nickname = nick, channel_index = channel, ref_alias = final_alias\<rparr>]) topo))"

definition renameGroupChannelAlias :: "topology \<Rightarrow> int \<Rightarrow> int \<Rightarrow> string \<Rightarrow> topology_result" where
  "renameGroupChannelAlias topo i j alias =
     (if \<not> valid_index i (groups topo) then (''invalid group index'', topo)
      else
        let grp = groups topo ! nat i in
        if \<not> valid_index j (members grp) then (''invalid channel index'', topo)
        else
          let ref = members grp ! nat j;
              final_alias = (if alias = [] then defaultChannelAlias (channel_index ref) else alias)
          in if groupAliasInUse grp final_alias (Some (nat j))
             then (''alias '' @ quoted final_alias @ '' already in use in group '' @ group_name grp, topo)
             else ([], set_members (nat i) ((members grp)[nat j := ref\<lparr>ref_alias := final_alias\<rparr>]) topo))"

definition renameGroupChannelAliasForBoardChannel ::
    "topology \<Rightarrow> string \<Rightarrow> int \<Rightarrow> string \<Rightarrow> topology_result" where
  "renameGroupChannelAliasForBoardChannel topo nick channel alias =
     (case findGroupForBoardChannel topo nick channel of
        None \<Rightarrow> (boardChannelId nick channel @ '' is not assigned to a group'', topo)
      | Some i \<Rightarrow>
          (case first_index (refers_to nick channel) (members (groups topo ! i)) of
             None \<Rightarrow> (boardChannelId nick channel @ '' is not assigned to a group'', topo)
           | Some j \<Rightarrow> renameGroupChannelAlias topo (int i) (int j) alias))"

definition removeChannelFromGroup :: "topology \<Rightarrow> int \<Rightarrow> int \<Rightarrow> topology_result" where
  "removeChannelFromGroup topo i j =
     (if \<not> valid_index i (groups topo) then (''invalid group index'', topo)
      else if \<not> valid_index j (members (groups topo ! nat i)) then (''invalid channel index'', topo)
      else ([], set_members (nat i) (drop_at j (members (groups topo ! nat i))) topo))"

subsection \<open>Lookups of the tools\<close>

record live_board_info =
  live_nickname :: string
  num_channels :: int

definition availableGroupChannels :: "topology \<Rightarrow> live_board_info list \<Rightarrow> group_channel_ref list" where
  "availableGroupChannels topo live =
     concat (map (\<lambda>board. map (\<lambda>k. \<lparr>board_nickname = live_nickname board, channel_index = int k,
           ref_alias = defaultChannelAlias (int k)\<rparr>)
         (filter (\<lambda>k. findGroupForBoardChannel topo (live_nickname board) (int k) = None)
            [0..<nat (num_channels board)])) live)"

record board_endpoint =
  end_port :: string
  end_baud_rate :: int
  end_slave_id :: int
  end_nickname :: string

definition endpoint :: "bus_config \<Rightarrow> board_config \<Rightarrow> board_endpoint" where
  "endpoint bus board =
    \<lparr>end_port = port bus, end_baud_rate = baud_rate bus, end_slave_id = slave_id board, end_nickname = nickname board\<rparr>"

definition resolveBoardEndpoint :: "topology \<Rightarrow> string \<Rightarrow> string + board_endpoint" where
  "resolveBoardEndpoint topo nick =
     (if nick \<noteq> [] then
        (case find (\<lambda>bus. list_ex (\<lambda>board. nickname board = nick) (boards bus)) (buses topo) of
           None \<Rightarrow> Inl (''no board named '' @ [char_of (39 :: nat)] @ nick @ [char_of (39 :: nat)])
         | Some bus \<Rightarrow> Inr (endpoint bus (the (find (\<lambda>board. nickname board = nick) (boards bus)))))
      else if totalBoardCount topo = 1 then
        (case find (\<lambda>bus. boards bus \<noteq> []) (buses topo) of
           None \<Rightarrow> Inl ''topology has no boards configured''
         | Some bus \<Rightarrow> Inr (endpoint bus (hd (boards bus))))
      else if 1 < totalBoardCount topo
      then Inl (''topology has '' @ fmt_u (totalBoardCount topo) @ '' boards; specify one with --board <nickname>'')
      else Inl ''topology has no boards configured'')"

end
