(* ===== verification/Topology_Props.thy ===== *)
theory Topology_Props
  imports Topology
begin

text \<open>
  What the rules keep: names, ports and slave ids stay unique over every sequence of operations, and a refused
  operation changes nothing.
\<close>

subsection \<open>Operations as one type\<close>

datatype topology_op =
  Add_Bus string string int
| Remove_Bus int
| Add_Board int string int
| Rename_Board string string
| Remove_Board int int
| Add_Group string
| Rename_Group int string
| Remove_Group int
| Add_Channel int string int string
| Rename_Alias int int string
| Rename_Alias_For string int string
| Remove_Channel int int

fun topology_step :: "topology_op \<Rightarrow> topology \<Rightarrow> topology_result" where
  "topology_step (Add_Bus name p baud) topo = addBus topo name p baud"
| "topology_step (Remove_Bus i) topo = removeBus topo i"
| "topology_step (Add_Board i nick slave) topo = addBoard topo i nick slave"
| "topology_step (Rename_Board previous nick) topo = renameBoard topo previous nick"
| "topology_step (Remove_Board i j) topo = removeBoard topo i j"
| "topology_step (Add_Group name) topo = addGroup topo name"
| "topology_step (Rename_Group i name) topo = renameGroup topo i name"
| "topology_step (Remove_Group i) topo = removeGroup topo i"
| "topology_step (Add_Channel i nick channel alias) topo = addChannelToGroup topo i nick channel alias"
| "topology_step (Rename_Alias i j alias) topo = renameGroupChannelAlias topo i j alias"
| "topology_step (Rename_Alias_For nick channel alias) topo =
     renameGroupChannelAliasForBoardChannel topo nick channel alias"
| "topology_step (Remove_Channel i j) topo = removeChannelFromGroup topo i j"

definition topology_run :: "topology_op list \<Rightarrow> topology \<Rightarrow> topology" where
  "topology_run ops topo = fold (\<lambda>op t. snd (topology_step op t)) ops topo"

abbreviation no_topology :: topology where
  "no_topology \<equiv> \<lparr>buses = [], groups = []\<rparr>"

subsection \<open>The order they keep\<close>

definition unique :: "string list \<Rightarrow> bool" where
  "unique names \<longleftrightarrow> distinct names \<and> [] \<notin> set names"

fun nicknames :: "bus_config list \<Rightarrow> string list" where
  "nicknames [] = []"
| "nicknames (bus # bs) = map nickname (boards bus) @ nicknames bs"

definition slaves_ok :: "bus_config \<Rightarrow> bool" where
  "slaves_ok bus \<longleftrightarrow> distinct (map slave_id (boards bus)) \<and> (\<forall>b\<in>set (boards bus). 0 \<le> slave_id b \<and> slave_id b \<le> 247)"

definition topology_ok :: "topology \<Rightarrow> bool" where
  "topology_ok topo \<longleftrightarrow>
     unique (map port (buses topo)) \<and> unique (nicknames (buses topo)) \<and>
     (\<forall>bus\<in>set (buses topo). slaves_ok bus) \<and> unique (map group_name (groups topo)) \<and>
     (\<forall>grp\<in>set (groups topo). unique (map ref_alias (members grp)))"

definition assignments :: "topology \<Rightarrow> (string \<times> int) list" where
  "assignments topo =
     map (\<lambda>ref. (board_nickname ref, channel_index ref)) (concat (map members (groups topo)))"

subsection \<open>Lists taken apart\<close>

lemma valid_split:
  assumes "valid_index i xs"
  obtains pre x post where "xs = pre @ x # post" and "length pre = nat i"
proof -
  have i: "nat i < length xs" using assms by (auto simp: valid_index_def)
  show thesis by (rule that [of "take (nat i) xs" "xs ! nat i" "drop (Suc (nat i)) xs"])
      (use i in \<open>simp_all add: id_take_nth_drop [symmetric]\<close>)
qed

lemma at_split:
  assumes "length pre = n"
  shows "(pre @ x # post) ! n = x" and "(pre @ x # post)[n := y] = pre @ y # post"
    and "take n (pre @ x # post) = pre" and "drop (Suc n) (pre @ x # post) = post"
  using assms by auto

lemma drop_at_split: "length pre = nat i \<Longrightarrow> drop_at i (pre @ x # post) = pre @ post"
  by (simp add: drop_at_def)

lemma nicknames_append [simp]: "nicknames (xs @ ys) = nicknames xs @ nicknames ys"
  by (induction xs) simp_all

lemma set_nicknames: "set (nicknames bs) = (\<Union>bus\<in>set bs. nickname ` set (boards bus))"
  by (induction bs) simp_all

lemma in_use:
  "boardNicknameInUse topo nick \<longleftrightarrow> nick \<in> set (nicknames (buses topo))"
  "slaveIdInUse bus slave \<longleftrightarrow> slave \<in> set (map slave_id (boards bus))"
  "groupNameInUse topo name \<longleftrightarrow> name \<in> set (map group_name (groups topo))"
  by (auto simp: boardNicknameInUse_def slaveIdInUse_def groupNameInUse_def set_nicknames list_ex_iff)

lemma alias_in_use: "groupAliasInUse grp alias None \<longleftrightarrow> alias \<in> set (map ref_alias (members grp))"
  unfolding in_set_conv_nth by (auto simp: groupAliasInUse_def list_ex_iff)

text \<open>"Some other element", as the rules say it with indices.\<close>

lemma other_in_use:
  assumes "xs = pre @ x # post"
  shows "list_ex (\<lambda>k. k \<noteq> length pre \<and> f (xs ! k) = a) [0..<length xs] \<longleftrightarrow> a \<in> f ` set (pre @ post)"
proof
  assume "list_ex (\<lambda>k. k \<noteq> length pre \<and> f (xs ! k) = a) [0..<length xs]"
  then obtain i where "i < length xs" "i \<noteq> length pre" "f (xs ! i) = a" by (auto simp: list_ex_iff)
  then show "a \<in> f ` set (pre @ post)"
    by (cases "i < length pre") (auto simp: assms nth_append nth_Cons' intro!: imageI)
next
  assume "a \<in> f ` set (pre @ post)"
  then consider j where "j < length pre" "f (pre ! j) = a" | j where "j < length post" "f (post ! j) = a"
    by (auto simp: in_set_conv_nth)
  then show "list_ex (\<lambda>k. k \<noteq> length pre \<and> f (xs ! k) = a) [0..<length xs]"
  proof cases
    case 1
    then show ?thesis unfolding list_ex_iff by (intro bexI [of _ j]) (simp_all add: assms nth_append)
  next
    case 2
    then show ?thesis unfolding list_ex_iff
      by (intro bexI [of _ "Suc (length pre + j)"]) (auto simp: assms nth_append)
  qed
qed

lemma other_alias_in_use:
  assumes "members grp = pre @ ref # post"
  shows "groupAliasInUse grp alias (Some (length pre)) \<longleftrightarrow> alias \<in> set (map ref_alias (pre @ post))"
  using other_in_use [OF assms, of ref_alias "alias"] by (simp add: groupAliasInUse_def image_Un)

lemma default_alias_not_empty [simp]: "defaultChannelAlias channel \<noteq> []"
  by (simp add: defaultChannelAlias_def)

subsection \<open>Every operation\<close>

lemma unique_append [simp]:
  "unique (xs @ ys) \<longleftrightarrow> unique xs \<and> unique ys \<and> set xs \<inter> set ys = {}"
  "unique (x # xs) \<longleftrightarrow> x \<noteq> [] \<and> x \<notin> set xs \<and> unique xs" "unique []"
  by (auto simp: unique_def)

lemma find_port_None: "find (\<lambda>bus. port bus = p) bs = None \<longleftrightarrow> p \<notin> port ` set bs"
  by (auto simp: find_None_iff)

lemma ok_add_bus: "topology_ok topo \<Longrightarrow> topology_ok (snd (addBus topo name p baud))"
  by (auto simp: addBus_def topology_ok_def slaves_ok_def find_port_None split: option.split)

lemma ok_remove_bus: "topology_ok topo \<Longrightarrow> topology_ok (snd (removeBus topo i))"
proof (cases "valid_index i (buses topo)")
  case True
  obtain pre bus post where "buses topo = pre @ bus # post" "length pre = nat i" by (rule valid_split [OF True])
  then show "topology_ok topo \<Longrightarrow> topology_ok (snd (removeBus topo i))"
    using True by (auto simp: removeBus_def topology_ok_def drop_at_split)
qed (simp add: removeBus_def)

text \<open>Changing the boards of one bus.\<close>

lemma ok_set_boards:
  assumes "topology_ok topo" and b: "buses topo = pre @ bus # post" "length pre = n"
    and "slaves_ok (bus\<lparr>boards := bs\<rparr>)" and "unique (map nickname bs)"
    and "set (map nickname bs) \<inter> set (nicknames (pre @ post)) = {}"
  shows "topology_ok (set_boards n bs topo)"
  using assms by (auto simp: topology_ok_def set_boards_def  b at_split [OF b(2)])

lemma ok_add_board: "topology_ok topo \<Longrightarrow> topology_ok (snd (addBoard topo i nick slave))"
proof (cases "valid_index i (buses topo) \<and> nick \<noteq> [] \<and> \<not> (slave < 0 \<or> 247 < slave) \<and>
    \<not> boardNicknameInUse topo nick \<and> \<not> slaveIdInUse (buses topo ! nat i) slave")
  case True
  assume ok: "topology_ok topo"
  obtain pre bus post where b: "buses topo = pre @ bus # post" "length pre = nat i" using True by (blast elim: valid_split)
  have "topology_ok (set_boards (nat i)
      (boards bus @ [\<lparr>nickname = nick, slave_id = slave, channel_aliases = []\<rparr>]) topo)"
    by (rule ok_set_boards [OF ok b])
      (use ok True in \<open>auto simp: topology_ok_def b  slaves_ok_def in_use at_split [OF b(2)]\<close>)
  then show ?thesis using True by (simp add: addBoard_def b at_split [OF b(2)])
qed (auto simp: addBoard_def)

lemma ok_remove_board: "topology_ok topo \<Longrightarrow> topology_ok (snd (removeBoard topo i j))"
proof (cases "valid_index i (buses topo) \<and> valid_index j (boards (buses topo ! nat i))")
  case True
  assume ok: "topology_ok topo"
  obtain pre bus post where b: "buses topo = pre @ bus # post" "length pre = nat i" using True by (blast elim: valid_split)
  obtain pre2 board post2 where c: "boards bus = pre2 @ board # post2" "length pre2 = nat j"
    by (rule valid_split [of j "boards bus"]) (use True in \<open>simp add: b at_split [OF b(2)]\<close>)
  have old: "slaves_ok bus" "unique (nicknames (pre @ bus # post))" using ok by (simp_all add: topology_ok_def b)
  have "topology_ok (set_boards (nat i) (pre2 @ post2) topo)"
  proof (rule ok_set_boards [OF ok b])
    show "slaves_ok (bus\<lparr>boards := pre2 @ post2\<rparr>)" using old(1) by (simp add: slaves_ok_def c)
    show "unique (map nickname (pre2 @ post2))" using old(2) by (simp add: c) blast
    show "set (map nickname (pre2 @ post2)) \<inter> set (nicknames (pre @ post)) = {}" using old(2) by (simp add: c) blast
  qed
  then show ?thesis using True by (simp add: removeBoard_def b c at_split [OF b(2)] drop_at_split [OF c(2)])
qed (auto simp: removeBoard_def)

lemma ok_add_group: "topology_ok topo \<Longrightarrow> topology_ok (snd (addGroup topo name))"
  by (auto simp: addGroup_def topology_ok_def in_use)

lemma ok_remove_group: "topology_ok topo \<Longrightarrow> topology_ok (snd (removeGroup topo i))"
proof (cases "valid_index i (groups topo)")
  case True
  obtain pre grp post where "groups topo = pre @ grp # post" "length pre = nat i" by (rule valid_split [OF True])
  then show "topology_ok topo \<Longrightarrow> topology_ok (snd (removeGroup topo i))"
    using True by (auto simp: removeGroup_def topology_ok_def drop_at_split)
qed (simp add: removeGroup_def)

lemma ok_set_members:
  assumes "topology_ok topo" and g: "groups topo = pre @ grp # post" "length pre = n"
    and "unique (map ref_alias ms)"
  shows "topology_ok (set_members n ms topo)"
  using assms by (auto simp: topology_ok_def set_members_def  g at_split [OF g(2)])

lemma ok_add_channel: "topology_ok topo \<Longrightarrow> topology_ok (snd (addChannelToGroup topo i nick channel alias))"
proof (cases "valid_index i (groups topo)")
  case True
  assume ok: "topology_ok topo"
  obtain pre grp post where g: "groups topo = pre @ grp # post" "length pre = nat i" by (rule valid_split [OF True])
  have "topology_ok (set_members (nat i) (members grp @ [\<lparr>board_nickname = nick, channel_index = channel, ref_alias = a\<rparr>]) topo)"
    if "\<not> groupAliasInUse grp a None" "a \<noteq> []" for a
    by (rule ok_set_members [OF ok g]) (use ok that in \<open>auto simp: topology_ok_def g alias_in_use\<close>)
  then show ?thesis using ok True by (simp add: addChannelToGroup_def g at_split [OF g(2)] Let_def split: option.split)
qed (simp add: addChannelToGroup_def)

lemma ok_remove_channel: "topology_ok topo \<Longrightarrow> topology_ok (snd (removeChannelFromGroup topo i j))"
proof (cases "valid_index i (groups topo) \<and> valid_index j (members (groups topo ! nat i))")
  case True
  assume ok: "topology_ok topo"
  obtain pre grp post where g: "groups topo = pre @ grp # post" "length pre = nat i" using True by (blast elim: valid_split)
  obtain pre2 ref post2 where c: "members grp = pre2 @ ref # post2" "length pre2 = nat j"
    by (rule valid_split [of j "members grp"]) (use True in \<open>simp add: g at_split [OF g(2)]\<close>)
  have "topology_ok (set_members (nat i) (pre2 @ post2) topo)"
    by (rule ok_set_members [OF ok g]) (use ok in \<open>auto simp: topology_ok_def g c\<close>)
  then show ?thesis using True by (simp add: removeChannelFromGroup_def g c at_split [OF g(2)] drop_at_split [OF c(2)])
qed (auto simp: removeChannelFromGroup_def)

lemma ok_rename_alias: "topology_ok topo \<Longrightarrow> topology_ok (snd (renameGroupChannelAlias topo i j alias))"
proof (cases "valid_index i (groups topo) \<and> valid_index j (members (groups topo ! nat i))")
  case True
  assume ok: "topology_ok topo"
  obtain pre grp post where g: "groups topo = pre @ grp # post" "length pre = nat i" using True by (blast elim: valid_split)
  obtain pre2 ref post2 where c: "members grp = pre2 @ ref # post2" "length pre2 = nat j"
    by (rule valid_split [of j "members grp"]) (use True in \<open>simp add: g at_split [OF g(2)]\<close>)
  have "topology_ok (set_members (nat i) (pre2 @ ref\<lparr>ref_alias := a\<rparr> # post2) topo)"
    if "\<not> groupAliasInUse grp a (Some (nat j))" "a \<noteq> []" for a
    by (rule ok_set_members [OF ok g])
      (use ok that other_alias_in_use [OF c(1), of a] in \<open>auto simp: topology_ok_def g c\<close>)
  then show ?thesis
    using ok True by (simp add: renameGroupChannelAlias_def g c at_split [OF g(2)] at_split [OF c(2)] Let_def)
qed (auto simp: renameGroupChannelAlias_def Let_def)

lemma ok_rename_alias_for:
  "topology_ok topo \<Longrightarrow> topology_ok (snd (renameGroupChannelAliasForBoardChannel topo nick channel alias))"
  by (simp add: renameGroupChannelAliasForBoardChannel_def ok_rename_alias split: option.split)

lemma ok_rename_group: "topology_ok topo \<Longrightarrow> topology_ok (snd (renameGroup topo i name))"
proof (cases "valid_index i (groups topo)")
  case True
  assume ok: "topology_ok topo"
  obtain pre grp post where g: "groups topo = pre @ grp # post" "length pre = nat i" by (rule valid_split [OF True])
  have i: "(int k \<noteq> i) = (k \<noteq> length pre)" for k using True g(2) by (auto simp: valid_index_def)
  have new: "topology_ok (topo\<lparr>groups := pre @ grp\<lparr>group_name := name\<rparr> # post\<rparr>)"
    if "name \<noteq> []" "name \<notin> group_name ` set (pre @ post)"
    using ok that by (auto simp: topology_ok_def g)
  show ?thesis
    using ok True new other_in_use [OF g(1), of group_name name] by (simp add: renameGroup_def i) (simp add: g at_split [OF g(2)])
qed (simp add: renameGroup_def)

lemma unique_distinct: "unique names \<Longrightarrow> distinct names"
  by (simp add: unique_def)

text \<open>Where nicknames are unique, renaming a board replaces its name and no other.\<close>

definition renamed :: "string \<Rightarrow> string \<Rightarrow> string \<Rightarrow> string" where
  "renamed previous nick name = (if name = previous then nick else name)"

lemma renamed_none: "previous \<notin> set names \<Longrightarrow> map (renamed previous nick) names = names"
  by (auto simp: renamed_def intro!: map_idI)

lemma unique_renamed:
  assumes "unique names" and "nick \<noteq> []" and "nick = previous \<or> nick \<notin> set names"
  shows "unique (map (renamed previous nick) names)"
proof -
  have "inj_on (renamed previous nick) (set names)" using assms(3) by (auto simp: inj_on_def renamed_def)
  then show ?thesis using assms by (auto simp: unique_def distinct_map renamed_def)
qed

lemma rename_last_names:
  "distinct (map nickname bs) \<Longrightarrow> map nickname (rename_last previous nick bs) = map (renamed previous nick) (map nickname bs)"
  "map slave_id (rename_last previous nick bs) = map slave_id bs"
proof (induction bs)
  case (Cons board bs)
  case 1
  then show ?case using Cons renamed_none [of previous "map nickname bs" nick]
    by (auto simp: renamed_def image_iff)
next
  case (Cons board bs)
  case 2
  then show ?case using Cons by simp
qed simp_all

lemma rename_in_buses_names:
  "distinct (nicknames bs) \<Longrightarrow> nicknames (rename_in_buses previous nick bs) = map (renamed previous nick) (nicknames bs)"
proof (induction bs)
  case (Cons bus bs)
  have d: "distinct (map nickname (boards bus))" "distinct (nicknames bs)" using Cons.prems by simp_all
  have disj: "set (map nickname (boards bus)) \<inter> set (nicknames bs) = {}" using Cons.prems by simp
  show ?case
  proof (cases "previous \<in> set (map nickname (boards bus))")
    case True
    then have later: "previous \<notin> set (nicknames bs)" using disj by blast
    then have "\<forall>later\<in>set bs. \<forall>b\<in>set (boards later). nickname b \<noteq> previous" by (auto simp: set_nicknames)
    moreover have "\<exists>b\<in>set (boards bus). nickname b = previous" using True by auto
    ultimately show ?thesis using rename_last_names(1) [OF d(1)] renamed_none [OF later] by simp
  next
    case False
    then have "\<not> (\<exists>b\<in>set (boards bus). nickname b = previous)" by auto
    then show ?thesis using Cons.IH [OF d(2)] renamed_none [OF False] by simp
  qed
qed simp

lemma rename_in_buses_rest:
  "map port (rename_in_buses previous nick bs) = map port bs"
  "map (\<lambda>bus. map slave_id (boards bus)) (rename_in_buses previous nick bs) = map (\<lambda>bus. map slave_id (boards bus)) bs"
  by (induction bs) (simp_all add: rename_last_names(2))

lemma slaves_ok_ids:
  "(\<forall>bus\<in>set bs. slaves_ok bus) \<longleftrightarrow>
     (\<forall>ids\<in>set (map (\<lambda>bus. map slave_id (boards bus)) bs). distinct ids \<and> (\<forall>slave\<in>set ids. 0 \<le> slave \<and> slave \<le> 247))"
  by (simp add: slaves_ok_def)

lemma find_board_to_rename_names:
  "find_board_to_rename previous nick seen bs = Some r \<Longrightarrow> nick = previous \<or> nick \<notin> nickname ` set bs"
  by (induction bs arbitrary: seen) (auto split: if_splits)

lemma ref_alias_rename_ref [simp]: "ref_alias (rename_ref previous nick ref) = ref_alias ref"
  by (simp add: rename_ref_def)

lemma ok_rename_board: "topology_ok topo \<Longrightarrow> topology_ok (snd (renameBoard topo previous nick))"
proof (cases "nick \<noteq> [] \<and> find_board_to_rename previous nick False (all_boards topo) = Some True")
  case True
  assume ok: "topology_ok topo"
  have nick: "nick = previous \<or> nick \<notin> set (nicknames (buses topo))"
    using find_board_to_rename_names [of previous nick False "all_boards topo" True] True
    by (auto simp: all_boards_def set_nicknames)
  have "unique (nicknames (rename_in_buses previous nick (buses topo)))"
    using ok True nick
    by (simp add: topology_ok_def rename_in_buses_names [OF unique_distinct] unique_renamed del: unique_def)
  moreover have "topology_ok topo \<Longrightarrow> \<forall>bus\<in>set (rename_in_buses previous nick (buses topo)). slaves_ok bus"
    by (simp only: slaves_ok_ids rename_in_buses_rest topology_ok_def) (elim conjE, assumption)
  ultimately have "topology_ok (topo\<lparr>buses := rename_in_buses previous nick (buses topo),
      groups := map (\<lambda>grp. grp\<lparr>members := map (rename_ref previous nick) (members grp)\<rparr>) (groups topo)\<rparr>)"
    using ok by (simp add: topology_ok_def rename_in_buses_rest comp_def)
  then show ?thesis using True by (simp add: renameBoard_def)
qed (auto simp: renameBoard_def split: option.split bool.split)

lemma ok_step: "topology_ok topo \<Longrightarrow> topology_ok (snd (topology_step op topo))"
  by (cases op) (simp_all add: ok_add_bus ok_remove_bus ok_add_board ok_rename_board ok_remove_board ok_add_group
      ok_rename_group ok_remove_group ok_add_channel ok_rename_alias ok_rename_alias_for ok_remove_channel)

lemma ok_run: "topology_ok topo \<Longrightarrow> topology_ok (topology_run ops topo)"
  unfolding topology_run_def by (induction ops arbitrary: topo) (simp_all add: ok_step)

lemma refused_step: "fst (topology_step op topo) = [] \<or> snd (topology_step op topo) = topo"
  by (cases op) (auto simp: addBus_def removeBus_def addBoard_def renameBoard_def removeBoard_def addGroup_def
      renameGroup_def removeGroup_def addChannelToGroup_def renameGroupChannelAlias_def
      renameGroupChannelAliasForBoardChannel_def removeChannelFromGroup_def Let_def split: option.split bool.split)

text \<open>
  C31. Whatever operations run on an empty topology, ports, nicknames, group names and the aliases within a
  group stay unique and not empty, and on a bus the slave ids stay unique and within 0 to 247; an operation that
  answers with an error changes nothing.
\<close>
theorem topology_rules_keep_order:
  "topology_ok (topology_run ops no_topology) \<and>
   (fst (topology_step op topo) = [] \<or> snd (topology_step op topo) = topo)"
  by (intro conjI ok_run refused_step) (simp add: topology_ok_def)

subsection \<open>One group for a channel\<close>

definition refs_of :: "topology \<Rightarrow> group_channel_ref list" where
  "refs_of topo = concat (map members (groups topo))"

definition assignment :: "group_channel_ref \<Rightarrow> string \<times> int" where
  "assignment ref = (board_nickname ref, channel_index ref)"

lemma assignments_refs: "assignments topo = map assignment (refs_of topo)"
  by (simp add: assignments_def refs_of_def assignment_def)

lemma assignments_groups [simp]:
  "assignments (topo\<lparr>groups := pre @ grp # post\<rparr>) =
     map assignment (concat (map members pre)) @ map assignment (members grp) @ map assignment (concat (map members post))"
  "assignments (topo\<lparr>buses := bs\<rparr>) = assignments topo"
  by (simp_all add: assignments_refs refs_of_def)

lemma find_group_None: "findGroupForBoardChannel topo nick channel = None \<longleftrightarrow> (nick, channel) \<notin> set (assignments topo)"
  by (auto simp: findGroupForBoardChannel_def first_index_None assignments_def refers_to_def list_ex_iff)

text \<open>A board is renamed to a nickname that no group mentions.\<close>

fun fresh_rename :: "topology_op \<Rightarrow> topology \<Rightarrow> bool" where
  "fresh_rename (Rename_Board previous nick) topo \<longleftrightarrow> nick = previous \<or> list_all (\<lambda>ref. board_nickname ref \<noteq> nick) (refs_of topo)"
| "fresh_rename op topo \<longleftrightarrow> True"

fun fresh_renames :: "topology_op list \<Rightarrow> topology \<Rightarrow> bool" where
  "fresh_renames [] topo \<longleftrightarrow> True"
| "fresh_renames (op # ops) topo \<longleftrightarrow> fresh_rename op topo \<and> fresh_renames ops (snd (topology_step op topo))"

lemma distinct_drop_at: "distinct xs \<Longrightarrow> distinct (drop_at i xs)"
  by (simp add: drop_at_def set_take_disj_set_drop_if_distinct)

text \<open>The operations that leave the assignments as they are.\<close>

lemma assignments_same:
  "assignments (snd (addBus topo name p baud)) = assignments topo"
  "assignments (snd (removeBus topo i)) = assignments topo"
  "assignments (snd (addBoard topo i nick slave)) = assignments topo"
  "assignments (snd (removeBoard topo i j)) = assignments topo"
  "assignments (snd (addGroup topo name)) = assignments topo"
  by (simp_all add: addBus_def removeBus_def addBoard_def removeBoard_def addGroup_def set_boards_def assignments_def
      split: option.split)

lemma assignments_rename_group: "assignments (snd (renameGroup topo i name)) = assignments topo"
proof (cases "valid_index i (groups topo)")
  case True
  obtain pre grp post where g: "groups topo = pre @ grp # post" "length pre = nat i" by (rule valid_split [OF True])
  show ?thesis by (simp add: renameGroup_def g at_split [OF g(2)] assignments_def)
qed (simp add: renameGroup_def)

lemma assignments_rename_alias: "assignments (snd (renameGroupChannelAlias topo i j alias)) = assignments topo"
proof (cases "valid_index i (groups topo) \<and> valid_index j (members (groups topo ! nat i))")
  case True
  obtain pre grp post where g: "groups topo = pre @ grp # post" "length pre = nat i" using True by (blast elim: valid_split)
  obtain pre2 ref post2 where c: "members grp = pre2 @ ref # post2" "length pre2 = nat j"
    by (rule valid_split [of j "members grp"]) (use True in \<open>simp add: g at_split [OF g(2)]\<close>)
  show ?thesis
    by (simp add: renameGroupChannelAlias_def Let_def set_members_def assignments_def g c at_split [OF g(2)] at_split [OF c(2)])
qed (auto simp: renameGroupChannelAlias_def Let_def)

lemma assignments_rename_alias_for:
  "assignments (snd (renameGroupChannelAliasForBoardChannel topo nick channel alias)) = assignments topo"
  by (simp add: renameGroupChannelAliasForBoardChannel_def assignments_rename_alias split: option.split)

lemmas assignments_kept = assignments_same assignments_rename_group assignments_rename_alias assignments_rename_alias_for

text \<open>The operations that change them.\<close>

lemma distinct_remove_group:
  assumes "distinct (assignments topo)"
  shows "distinct (assignments (snd (removeGroup topo i)))"
proof (cases "valid_index i (groups topo)")
  case True
  obtain pre grp post where g: "groups topo = pre @ grp # post" "length pre = nat i" by (rule valid_split [OF True])
  show ?thesis using assms by (simp add: removeGroup_def assignments_refs refs_of_def g drop_at_split [OF g(2)]) blast
qed (simp add: assms removeGroup_def)

lemma distinct_remove_channel:
  assumes "distinct (assignments topo)"
  shows "distinct (assignments (snd (removeChannelFromGroup topo i j)))"
proof (cases "valid_index i (groups topo) \<and> valid_index j (members (groups topo ! nat i))")
  case True
  obtain pre grp post where g: "groups topo = pre @ grp # post" "length pre = nat i" using True by (blast elim: valid_split)
  obtain pre2 ref post2 where c: "members grp = pre2 @ ref # post2" "length pre2 = nat j"
    by (rule valid_split [of j "members grp"]) (use True in \<open>simp add: g at_split [OF g(2)]\<close>)
  show ?thesis
    using assms True
    by (simp add: removeChannelFromGroup_def set_members_def assignments_def g c at_split [OF g(2)] drop_at_split [OF c(2)])
qed (auto simp: assms removeChannelFromGroup_def)

lemma distinct_add_channel:
  assumes "distinct (assignments topo)"
  shows "distinct (assignments (snd (addChannelToGroup topo i nick channel alias)))"
proof (cases "valid_index i (groups topo) \<and> (nick, channel) \<notin> set (assignments topo)")
  case True
  obtain pre grp post where g: "groups topo = pre @ grp # post" "length pre = nat i" using True by (blast elim: valid_split)
  have "distinct (assignments (set_members (nat i)
      (members grp @ [\<lparr>board_nickname = nick, channel_index = channel, ref_alias = a\<rparr>]) topo))" for a
    using assms True by (simp add: set_members_def assignments_def g at_split [OF g(2)])
  then show ?thesis
    using assms by (simp add: addChannelToGroup_def Let_def g at_split [OF g(2)] split: option.split)
next
  case False
  then show ?thesis
    using assms find_group_None [of topo nick channel] by (auto simp: addChannelToGroup_def Let_def split: option.split)
qed

lemma assignments_rename_board:
  "renameBoard topo previous nick = ([], topo') \<Longrightarrow>
   assignments topo' = map (map_prod (renamed previous nick) id) (assignments topo)"
  by (auto simp: renameBoard_def assignments_def rename_ref_def renamed_def map_concat comp_def split: option.splits bool.splits if_splits
      intro!: arg_cong [where f = concat])

lemma distinct_rename_board:
  assumes "distinct (assignments topo)" and "nick = previous \<or> (\<forall>channel. (nick, channel) \<notin> set (assignments topo))"
  shows "distinct (assignments (snd (renameBoard topo previous nick)))"
proof (cases "fst (renameBoard topo previous nick) = []")
  case True
  have "inj_on (map_prod (renamed previous nick) id) (set (assignments topo))"
    using assms(2) by (auto simp: inj_on_def renamed_def split: if_splits)
  moreover obtain topo' where "renameBoard topo previous nick = ([], topo')" using True by (cases "renameBoard topo previous nick") auto
  ultimately show ?thesis using assms assignments_rename_board [of topo previous nick topo'] by (simp add: distinct_map)
next
  case False
  then show ?thesis using refused_step [of "Rename_Board previous nick" topo] assms by simp
qed

lemma fresh_rename_assignments:
  "fresh_rename (Rename_Board previous nick) topo \<longleftrightarrow>
     nick = previous \<or> (\<forall>channel. (nick, channel) \<notin> set (assignments topo))"
  by (auto simp: assignments_refs assignment_def list_all_iff)

lemma distinct_step:
  "fresh_rename op topo \<Longrightarrow> distinct (assignments topo) \<Longrightarrow> distinct (assignments (snd (topology_step op topo)))"
  by (cases op) (simp_all add: assignments_kept distinct_remove_group distinct_remove_channel distinct_add_channel
      fresh_rename_assignments distinct_rename_board del: fresh_rename.simps)

lemma distinct_run: "fresh_renames ops topo \<Longrightarrow> distinct (assignments topo) \<Longrightarrow> distinct (assignments (topology_run ops topo))"
  unfolding topology_run_def by (induction ops arbitrary: topo) (simp_all add: distinct_step)

text \<open>
  As long as boards are renamed only to nicknames that no group mentions, a channel of a board is assigned to
  at most one group, and once within it, after every sequence of operations on an empty topology.
\<close>
lemma one_group_per_channel:
  "fresh_renames ops no_topology \<Longrightarrow> distinct (assignments (topology_run ops no_topology))"
  by (rule distinct_run) (simp_all add: assignments_def)

lemma one_group_per_channel_witness:
  "distinct (assignments (topology_run [Add_Bus ''b'' ''COM1'' 115200, Add_Board 0 ''old'' 1, Add_Group ''g'',
      Add_Channel 0 ''old'' 0 ''x'', Rename_Board ''old'' ''new'', Add_Channel 0 ''new'' 0 ''y'', Add_Channel 0 ''new'' 1 ''y'']
     no_topology)) \<and>
   assignments (topology_run [Add_Bus ''b'' ''COM1'' 115200, Add_Board 0 ''old'' 1, Add_Group ''g'',
      Add_Channel 0 ''old'' 0 ''x'', Rename_Board ''old'' ''new'', Add_Channel 0 ''new'' 0 ''y'', Add_Channel 0 ''new'' 1 ''y'']
     no_topology) = [(''new'', 0), (''new'', 1)]"
  by (rule conjI, rule one_group_per_channel) code_simp+

text \<open>
  Removing a board leaves the channels that groups mention, so another board renamed to its nickname takes them
  over and can have a channel in two places.
\<close>

lemma rename_assigns_twice:
  "assignments (topology_run [Add_Bus ''b'' ''COM1'' 115200, Add_Board 0 ''p'' 1, Add_Board 0 ''q'' 2, Add_Group ''g'',
      Add_Channel 0 ''p'' 0 ''x'', Add_Channel 0 ''q'' 0 ''y'', Remove_Board 0 0, Rename_Board ''q'' ''p''] no_topology) =
   [(''p'', 0), (''p'', 0)]"
  by code_simp

end
