(* ===== verification/Topology_File.thy ===== *)
theory Topology_File
  imports Topology
begin

text \<open>
  The topology file: \<open>TopologyConfig::load\<close> and \<open>save\<close> of \<open>tools/psb_modbus_core/topology_config.cpp\<close>. The toml++
  library, which is not part of the repository, is a parameter: its parser, its printer, and the conversion of a node that
  is not an integer to one. A node of a document is a tree; a table holds each key once.
\<close>

datatype toml =
  Toml_String string
| Toml_Integer int
| Toml_Array "toml list"
| Toml_Table "(string \<times> toml) list"
| Toml_Scalar string

record toml_lib =
  parse_text :: "string \<Rightarrow> toml option"
  print_text :: "toml \<Rightarrow> string"
  scalar_int :: "toml \<Rightarrow> int option"

fun as_table :: "toml \<Rightarrow> (string \<times> toml) list option" where
  "as_table (Toml_Table t) = Some t"
| "as_table _ = None"

fun as_array :: "toml option \<Rightarrow> toml list option" where
  "as_array (Some (Toml_Array ts)) = Some ts"
| "as_array _ = None"

fun string_or :: "string \<Rightarrow> toml option \<Rightarrow> string" where
  "string_or dflt (Some (Toml_String s)) = s"
| "string_or dflt _ = dflt"

fun int_or :: "toml_lib \<Rightarrow> int \<Rightarrow> toml option \<Rightarrow> int" where
  "int_or L dflt (Some (Toml_Integer i)) = (if - (2 ^ 31) \<le> i \<and> i < 2 ^ 31 then i else dflt)"
| "int_or L dflt (Some t) = (case scalar_int L t of None \<Rightarrow> dflt | Some i \<Rightarrow> i)"
| "int_or L dflt None = dflt"

subsection \<open>Load\<close>

definition load_board :: "toml_lib \<Rightarrow> (string \<times> toml) list \<Rightarrow> board_config" where
  "load_board L t =
    \<lparr>nickname = string_or [] (map_of t ''nickname''), slave_id = int_or L 1 (map_of t ''slave_id''),
     channel_aliases = (case as_array (map_of t ''channel_aliases'') of
        None \<Rightarrow> [] | Some nodes \<Rightarrow> map (\<lambda>n. string_or [] (Some n)) nodes)\<rparr>"

text \<open>The elements of an array that are tables.\<close>

definition tables :: "toml option \<Rightarrow> (string \<times> toml) list list" where
  "tables node = (case as_array node of None \<Rightarrow> [] | Some nodes \<Rightarrow> List.map_filter as_table nodes)"

definition load_bus :: "toml_lib \<Rightarrow> nat \<Rightarrow> (string \<times> toml) list \<Rightarrow> bus_config" where
  "load_bus L k t =
    \<lparr>bus_name = string_or (''bus'' @ fmt_u k) (map_of t ''name''), port = string_or [] (map_of t ''port''),
     baud_rate = int_or L 115200 (map_of t ''baud_rate''),
     boards = map (load_board L) (tables (map_of t ''board''))\<rparr>"

text \<open>The number of a bus without a name counts the nodes that are not tables too.\<close>

fun load_buses :: "toml_lib \<Rightarrow> nat \<Rightarrow> toml list \<Rightarrow> bus_config list" where
  "load_buses L k [] = []"
| "load_buses L k (node # nodes) =
     (case as_table node of None \<Rightarrow> load_buses L (k + 1) nodes
      | Some t \<Rightarrow> load_bus L (k + 1) t # load_buses L (k + 1) nodes)"

definition load_ref :: "toml_lib \<Rightarrow> (string \<times> toml) list \<Rightarrow> group_channel_ref" where
  "load_ref L t =
    (let channel = int_or L 0 (map_of t ''channel''); alias = string_or [] (map_of t ''alias'')
     in \<lparr>board_nickname = string_or [] (map_of t ''board''), channel_index = channel,
         ref_alias = (if alias = [] then defaultChannelAlias channel else alias)\<rparr>)"

definition load_group :: "toml_lib \<Rightarrow> (string \<times> toml) list \<Rightarrow> group_config" where
  "load_group L t =
    \<lparr>group_name = string_or [] (map_of t ''name''), members = map (load_ref L) (tables (map_of t ''channel''))\<rparr>"

text \<open>The files that can be read, with their text; the result of a failed parse is nothing.\<close>

definition load :: "toml_lib \<Rightarrow> (string \<Rightarrow> string option) \<Rightarrow> string \<Rightarrow> topology option" where
  "load L files path =
     (case files path of
        None \<Rightarrow> None
      | Some text \<Rightarrow>
          (case parse_text L text of
             Some (Toml_Table t) \<Rightarrow>
               (case as_array (map_of t ''bus'') of
                  None \<Rightarrow> None
                | Some nodes \<Rightarrow>
                    Some \<lparr>buses = load_buses L 0 nodes, groups = map (load_group L) (tables (map_of t ''group''))\<rparr>)
           | _ \<Rightarrow> None))"

subsection \<open>Save\<close>

text \<open>Each function gives the entries of its table.\<close>

definition save_board :: "board_config \<Rightarrow> (string \<times> toml) list" where
  "save_board board =
     [(''nickname'', Toml_String (nickname board)), (''slave_id'', Toml_Integer (slave_id board))] @
     (if channel_aliases board \<noteq> []
      then [(''channel_aliases'', Toml_Array (map Toml_String (channel_aliases board)))] else [])"

abbreviation array_of :: "('a \<Rightarrow> (string \<times> toml) list) \<Rightarrow> 'a list \<Rightarrow> toml" where
  "array_of f xs \<equiv> Toml_Array (map (\<lambda>x. Toml_Table (f x)) xs)"

definition save_bus :: "bus_config \<Rightarrow> (string \<times> toml) list" where
  "save_bus bus =
     [(''name'', Toml_String (bus_name bus)), (''port'', Toml_String (port bus)),
      (''baud_rate'', Toml_Integer (baud_rate bus)), (''board'', array_of save_board (boards bus))]"

definition save_ref :: "group_channel_ref \<Rightarrow> (string \<times> toml) list" where
  "save_ref ref =
     [(''board'', Toml_String (board_nickname ref)), (''channel'', Toml_Integer (channel_index ref)),
      (''alias'', Toml_String (if ref_alias ref = [] then defaultChannelAlias (channel_index ref) else ref_alias ref))]"

definition save_group :: "group_config \<Rightarrow> (string \<times> toml) list" where
  "save_group grp =
     [(''name'', Toml_String (group_name grp)), (''channel'', array_of save_ref (members grp))]"

definition save_root :: "topology \<Rightarrow> toml" where
  "save_root topo = Toml_Table
     ((''bus'', array_of save_bus (buses topo)) #
      (if groups topo \<noteq> [] then [(''group'', array_of save_group (groups topo))] else []))"

text \<open>Whether the directory could be made and the file opened is the answer of the file system.\<close>

definition save ::
    "toml_lib \<Rightarrow> bool \<Rightarrow> bool \<Rightarrow> string \<Rightarrow> topology \<Rightarrow> (string \<Rightarrow> string option) \<Rightarrow> bool \<times> (string \<Rightarrow> string option)" where
  "save L made opened path topo files =
     (if \<not> made then (False, files)
      else if \<not> opened then (False, files)
      else (True, files(path \<mapsto> print_text L (save_root topo))))"

definition defaultPath :: "string \<Rightarrow> string" where
  "defaultPath home = home @ ''/.psb_demo_app/topology.toml''"

definition lastSingleConnectPath :: "string \<Rightarrow> string" where
  "lastSingleConnectPath home = home @ ''/.psb_demo_app/last_single.toml''"

subsection \<open>What the file keeps\<close>

text \<open>The integers of a configuration are C++ \<open>int\<close>s.\<close>

definition c_int :: "int \<Rightarrow> bool" where
  "c_int i \<longleftrightarrow> - (2 ^ 31) \<le> i \<and> i < 2 ^ 31"

definition ints_ok :: "topology \<Rightarrow> bool" where
  "ints_ok topo \<longleftrightarrow>
     list_all (\<lambda>bus. c_int (baud_rate bus) \<and> list_all (\<lambda>board. c_int (slave_id board)) (boards bus)) (buses topo) \<and>
     list_all (\<lambda>grp. list_all (\<lambda>ref. c_int (channel_index ref)) (members grp)) (groups topo)"

definition with_alias :: "group_channel_ref \<Rightarrow> group_channel_ref" where
  "with_alias ref = (if ref_alias ref = [] then ref\<lparr>ref_alias := defaultChannelAlias (channel_index ref)\<rparr> else ref)"

definition with_aliases :: "topology \<Rightarrow> topology" where
  "with_aliases topo =
     topo\<lparr>groups := map (\<lambda>grp. grp\<lparr>members := map with_alias (members grp)\<rparr>) (groups topo)\<rparr>"

text \<open>What the library documents of its printer and its parser, for documents whose strings are UTF-8.\<close>

definition parses_back :: "toml_lib \<Rightarrow> toml \<Rightarrow> bool" where
  "parses_back L doc \<longleftrightarrow> parse_text L (print_text L doc) = Some doc"

lemma tables_array_of [simp]: "tables (Some (array_of f xs)) = map f xs"
  by (induction xs) (simp_all add: tables_def)

lemma load_save_board: "c_int (slave_id board) \<Longrightarrow> load_board L (save_board board) = board"
  by (simp add: load_board_def save_board_def c_int_def comp_def)

lemma load_save_bus:
  assumes "c_int (baud_rate bus)" and "list_all (\<lambda>board. c_int (slave_id board)) (boards bus)"
  shows "load_bus L k (save_bus bus) = bus"
proof -
  have "map (load_board L \<circ> save_board) (boards bus) = boards bus"
    using assms(2) by (intro map_idI) (simp add: load_save_board list_all_iff)
  then show ?thesis using assms(1) by (simp add: load_bus_def save_bus_def c_int_def)
qed

lemma load_save_buses:
  "list_all (\<lambda>bus. c_int (baud_rate bus) \<and> list_all (\<lambda>board. c_int (slave_id board)) (boards bus)) bs \<Longrightarrow>
   load_buses L k (map (\<lambda>bus. Toml_Table (save_bus bus)) bs) = bs"
  by (induction bs arbitrary: k) (simp_all add: load_save_bus)

lemma load_save_ref: "c_int (channel_index ref) \<Longrightarrow> load_ref L (save_ref ref) = with_alias ref"
  by (simp add: load_ref_def save_ref_def c_int_def with_alias_def defaultChannelAlias_def Let_def)

lemma load_save_group:
  assumes "list_all (\<lambda>ref. c_int (channel_index ref)) (members grp)"
  shows "load_group L (save_group grp) = grp\<lparr>members := map with_alias (members grp)\<rparr>"
  using assms by (simp add: load_group_def save_group_def load_save_ref list_all_iff)


text \<open>A rack with one board, one channel of it in a group, and a library that knows one document.\<close>

definition one_board :: topology where
  "one_board = (singleBoard ''COM3'' 115200 1 ''hv'')
     \<lparr>groups := [\<lparr>group_name = ''g'', members = [\<lparr>board_nickname = ''hv'', channel_index = 2, ref_alias = []\<rparr>]\<rparr>]\<rparr>"

definition one_document_lib :: "toml \<Rightarrow> toml_lib" where
  "one_document_lib doc =
    \<lparr>parse_text = (\<lambda>text. if text = ''doc'' then Some doc else None),
     print_text = (\<lambda>d. if d = doc then ''doc'' else []), scalar_int = (\<lambda>_. None)\<rparr>"


end
