(* ===== verification/Host_Messages.thy ===== *)
theory Host_Messages
  imports Shell_Console
begin

text \<open>
  Small parts the host tools share: the message centre of \<open>tools/psb_modbus_core/message_log.cpp\<close>, the rule for "this channel is
  on" of \<open>channel_policy.h\<close> and the names of boards of \<open>board_catalog.h\<close>. A call of the message centre holds its mutex from
  start to end, so it is one step; the time is an argument, and the 64-bit counters are natural numbers.
\<close>

datatype message_severity = Debug | Info | Success | Warning | Error

record message_record =
  sequence :: nat
  action_id :: nat
  severity :: message_severity
  source :: string
  message_text :: string
  timestamp :: nat

record message_center =
  capacity :: nat
  next_action :: nat
  next_sequence :: nat
  records :: "message_record list"
  current :: "message_record option"

definition new_message_center :: "nat \<Rightarrow> message_center" where
  "new_message_center limit = \<lparr>capacity = max limit 1, next_action = 1, next_sequence = 1, records = [], current = None\<rparr>"

text \<open>The oldest records go while there are more than the capacity.\<close>

function trim :: "nat \<Rightarrow> message_record list \<Rightarrow> message_record list" where
  "trim limit rs = (if limit < length rs then trim limit (tl rs) else rs)"
  by pat_completeness auto
termination by (relation "measure (\<lambda>(_, rs). length rs)") auto

declare trim.simps [simp del]

definition appendLocked :: "message_record \<Rightarrow> message_center \<Rightarrow> message_center" where
  "appendLocked r m = m
     \<lparr>next_sequence := next_sequence m + 1,
      records := trim (capacity m) (records m @ [r\<lparr>sequence := next_sequence m\<rparr>])\<rparr>"

definition put_message :: "nat \<Rightarrow> message_severity \<Rightarrow> string \<Rightarrow> string \<Rightarrow> nat \<Rightarrow> message_center \<Rightarrow> message_center" where
  "put_message action sev src message now m =
    (let m1 = appendLocked
       \<lparr>sequence = 0, action_id = action, severity = sev, source = src, message_text = message, timestamp = now\<rparr> m
     in m1\<lparr>current := Some (last (records m1))\<rparr>)"

definition beginAction :: "string \<Rightarrow> string \<Rightarrow> nat \<Rightarrow> message_center \<Rightarrow> nat \<times> message_center" where
  "beginAction src message now m =
    (let action = next_action m; m1 = m\<lparr>next_action := action + 1, current := None\<rparr>
     in (action, if message = [] then m1 else put_message action Info src message now m1))"

definition publish :: "nat \<Rightarrow> message_severity \<Rightarrow> string \<Rightarrow> string \<Rightarrow> nat \<Rightarrow> message_center \<Rightarrow> message_center" where
  "publish action sev src message now m = put_message action sev src message now m"

definition clearStatus :: "nat \<Rightarrow> string \<Rightarrow> message_center \<Rightarrow> message_center" where
  "clearStatus action src m =
     (case current m of
        Some r \<Rightarrow> if action_id r = action \<and> source r = src then m\<lparr>current := None\<rparr> else m
      | None \<Rightarrow> m)"

definition clearLog :: "message_center \<Rightarrow> message_center" where
  "clearLog m = m\<lparr>records := []\<rparr>"

subsection \<open>Policy and names\<close>

definition channelIsOn :: "bool \<Rightarrow> bool \<Rightarrow> bool \<Rightarrow> bool \<Rightarrow> bool" where
  "channelIsOn output_enable raw_drive enable_active drive_nonzero =
     (if output_enable \<and> raw_drive then enable_active \<and> drive_nonzero
      else if output_enable then enable_active
      else if raw_drive then drive_nonzero
      else False)"

definition variantName :: "int \<Rightarrow> string" where
  "variantName i = (if i = 1 then ''jw_hvb'' else if i = 2 then ''jw_lvb'' else ''unknown (id='' @ fmt_d i @ '')'')"

definition variantFamily :: "int \<Rightarrow> string" where
  "variantFamily i = (if i = 1 then ''HVB family'' else if i = 2 then ''LVB family'' else ''unknown family'')"

definition hwRevisionLabel :: "int \<Rightarrow> string" where
  "hwRevisionLabel r =
     (if 0 \<le> r \<and> r < 26 then ''rev '' @ [char_of (65 + nat r)] else ''rev #'' @ fmt_d r)"

text \<open>The names of the enumerations of \<open>types.h\<close>; a number that is none of the enumeration has the name "?".\<close>

definition name_in :: "(nat \<times> string) list \<Rightarrow> u16 \<Rightarrow> string" where
  "name_in names x = (case map_of names (unat x) of None \<Rightarrow> ''?'' | Some s \<Rightarrow> s)"

definition opModeName :: "u16 \<Rightarrow> string" where
  "opModeName = name_in [(0, ''Normal''), (1, ''Automatic''), (2, ''Calibration'')]"

definition outputActionName :: "u16 \<Rightarrow> string" where
  "outputActionName = name_in [(0, ''None''), (1, ''Enable''), (2, ''DisableGraceful''), (3, ''DisableImmediate''), (4, ''ForceZero'')]"

definition faultCommandName :: "u16 \<Rightarrow> string" where
  "faultCommandName = name_in [(0, ''None''), (1, ''ClearActive''), (2, ''ClearHistory'')]"

definition protectionModeName :: "u16 \<Rightarrow> string" where
  "protectionModeName = name_in [(0, ''Disabled''), (1, ''FlagOnly''), (2, ''ApplyAction'')]"

definition recoveryPolicyName :: "u16 \<Rightarrow> string" where
  "recoveryPolicyName = name_in [(0, ''ManualLatch''), (1, ''AutoRetry''), (2, ''AutoDerate''), (3, ''NeverRetry'')]"

definition paramActionName :: "u16 \<Rightarrow> string" where
  "paramActionName = name_in [(0, ''None''), (1, ''Save''), (2, ''Load''), (3, ''FactoryReset''), (255, ''SoftwareReset'')]"

subsection \<open>The log is bounded and in order\<close>

lemma trim_drop: "trim limit rs = drop (length rs - limit) rs"
proof (induction limit rs rule: trim.induct)
  case (1 limit rs)
  show ?case
  proof (cases "limit < length rs")
    case True
    then have "length rs - limit = Suc (length (tl rs) - limit)" by simp
    then show ?thesis using 1 [OF True] True by (subst trim.simps) (simp add: drop_Suc)
  next
    case False
    then show ?thesis by (subst trim.simps) simp
  qed
qed

datatype message_op =
  Begin_Action string string nat
| Publish nat message_severity string string nat
| Clear_Status nat string
| Clear_Log

fun message_step :: "message_op \<Rightarrow> message_center \<Rightarrow> message_center" where
  "message_step (Begin_Action src message now) m = snd (beginAction src message now m)"
| "message_step (Publish action sev src message now) m = publish action sev src message now m"
| "message_step (Clear_Status action src) m = clearStatus action src m"
| "message_step Clear_Log m = clearLog m"

definition message_run :: "message_op list \<Rightarrow> message_center \<Rightarrow> message_center" where
  "message_run ops m = fold message_step ops m"

definition log_ok :: "message_center \<Rightarrow> bool" where
  "log_ok m \<longleftrightarrow> 0 < capacity m \<and> length (records m) \<le> capacity m \<and> 0 < next_sequence m \<and>
     map sequence (records m) = [next_sequence m - length (records m)..<next_sequence m] \<and>
     length (records m) < next_sequence m"

lemma put_message_log:
  "records (put_message action sev src message now m) = trim (capacity m) (records m @
     [\<lparr>sequence = next_sequence m, action_id = action, severity = sev, source = src, message_text = message, timestamp = now\<rparr>])"
  "next_sequence (put_message action sev src message now m) = Suc (next_sequence m)"
  "capacity (put_message action sev src message now m) = capacity m"
  "next_action (put_message action sev src message now m) = next_action m"
  by (simp_all add: put_message_def appendLocked_def Let_def)

lemma upt_trim:
  assumes "n < k" and "n \<le> c" and "0 < c"
  shows "drop (Suc n - c) [k - n..<Suc k] = [Suc k - min (Suc n) c..<Suc k]"
  using assms by (cases "c = n") (simp_all add: drop_upt min_def Suc_diff_le del: upt_Suc)

lemma put_message_ok:
  assumes "log_ok m"
  shows "log_ok (put_message action sev src message now m)"
proof -
  let ?n = "length (records m)" and ?k = "next_sequence m" and ?c = "capacity m"
  let ?r = "\<lparr>sequence = ?k, action_id = action, severity = sev, source = src, message_text = message, timestamp = now\<rparr>"
  have m: "map sequence (records m) = [?k - ?n..<?k]" "?n < ?k" "?n \<le> ?c" "0 < ?c" using assms by (simp_all add: log_ok_def)
  have "map sequence (records m @ [?r]) = [?k - ?n..<Suc ?k]" using m(1) by simp
  then have "map sequence (drop (Suc ?n - ?c) (records m @ [?r])) = [Suc ?k - min (Suc ?n) ?c..<Suc ?k]"
    by (simp only: drop_map [symmetric] upt_trim [OF m(2-4)])
  moreover have "length (drop (Suc ?n - ?c) (records m @ [?r])) = min (Suc ?n) ?c" by simp
  ultimately show ?thesis
    using m unfolding log_ok_def put_message_log trim_drop by (simp del: upt_Suc drop_append)
qed

lemma message_step_ok: "log_ok m \<Longrightarrow> log_ok (message_step op m)"
proof (cases op)
  case (Begin_Action src message now)
  assume ok: "log_ok m"
  then have "log_ok (m\<lparr>next_action := a, current := None\<rparr>)" for a by (simp add: log_ok_def)
  then show ?thesis using Begin_Action by (simp add: beginAction_def Let_def put_message_ok)
next
  case (Publish action sev src message now)
  then show "log_ok m \<Longrightarrow> ?thesis" by (simp add: publish_def put_message_ok)
qed (simp_all add: clearStatus_def clearLog_def log_ok_def split: option.split)

lemma message_step_capacity: "capacity (message_step op m) = capacity m"
  by (cases op) (auto simp: beginAction_def publish_def clearStatus_def clearLog_def Let_def put_message_log split: option.split)

lemma message_run_ok: "log_ok m \<Longrightarrow> log_ok (message_run ops m) \<and> capacity (message_run ops m) = capacity m"
  unfolding message_run_def by (induction ops arbitrary: m) (simp_all add: message_step_ok message_step_capacity)

text \<open>
  C40. Whatever the tools do with it, the message centre holds at most as many records as its capacity, which is at
  least one, with consecutive sequence numbers that end at the last one given, so it always has the newest records
  and nothing is lost among them; and a status is cleared only by the action and the source that set it.
\<close>
theorem message_log_keeps_the_newest:
  "let m = message_run ops (new_message_center limit) in
     length (records m) \<le> max limit 1 \<and>
     map sequence (records m) = [next_sequence m - length (records m)..<next_sequence m] \<and>
     current (clearStatus action src m) =
       (case current m of None \<Rightarrow> None | Some r \<Rightarrow> if (action_id r, source r) = (action, src) then None else Some r)"
proof -
  let ?m = "message_run ops (new_message_center limit)"
  have "log_ok (new_message_center limit)" by (simp add: new_message_center_def log_ok_def)
  then have "log_ok ?m \<and> capacity ?m = max limit 1"
    using message_run_ok by (metis message_center.select_convs(1) new_message_center_def)
  then show ?thesis by (auto simp: Let_def log_ok_def clearStatus_def split: option.split)
qed

end
