(* ===== verification/Host_Bus.thy ===== *)
theory Host_Bus
  imports Shell_Console Modbus_Adapter "HOL-Library.AList"
begin

text \<open>
  The serial bus of the host tools: \<open>tools/psb_modbus_core/psb_serial_bus.cpp\<close>. The Modbus master library, which is
  not part of the repository, is a parameter: it opens a port, and it is polled for a request until the request is no
  longer processing. The type \<open>'w\<close> is what is at the other end of the line.
\<close>

unbundle bit_operations_syntax

datatype modbus_request =
  Read_Holding u16 u16
| Read_Input u16 u16
| Write_Single u16 u16

datatype modbus_status = Processing | Good "u16 list" | Bad string

text \<open>A poll gets the response timeout of the port and the unit.\<close>

record 'w modbus_lib =
  create_client :: "string \<Rightarrow> int \<Rightarrow> nat \<Rightarrow> 'w \<Rightarrow> bool \<times> 'w"
  poll :: "nat \<Rightarrow> u8 \<Rightarrow> modbus_request \<Rightarrow> 'w \<Rightarrow> modbus_status \<times> 'w"

record test_board =
  input_regs :: "u16 list option"
  holding_regs :: "u16 list option"
  max_addr :: int

text \<open>The open port is its response timeout.\<close>

record 'w serial_bus =
  bus_port :: "nat option"
  bus_connected :: bool
  bus_error :: string
  last_slave :: int
  test_boards :: "(int \<times> test_board) list"
  line :: 'w

definition new_bus :: "'w \<Rightarrow> 'w serial_bus" where
  "new_bus w = \<lparr>bus_port = None, bus_connected = False, bus_error = [], last_slave = 0, test_boards = [], line = w\<rparr>"

subsection \<open>Connection\<close>

definition bus_disconnect :: "'w serial_bus \<Rightarrow> 'w serial_bus" where
  "bus_disconnect b = b\<lparr>bus_port := None, bus_connected := False\<rparr>"

definition bus_connect :: "'w modbus_lib \<Rightarrow> string \<Rightarrow> int \<Rightarrow> nat \<Rightarrow> 'w serial_bus \<Rightarrow> bool \<times> 'w serial_bus" where
  "bus_connect L name baud timeout b =
    (let b1 = bus_disconnect b; (opened, w) = create_client L name baud timeout (line b1); b2 = b1\<lparr>line := w\<rparr>
     in if opened then (True, b2\<lparr>bus_port := Some timeout, bus_connected := True\<rparr>)
        else (False, b2\<lparr>bus_error := ''failed to create RTU client port''\<rparr>))"

definition bus_isConnected :: "'w serial_bus \<Rightarrow> bool" where
  "bus_isConnected b \<longleftrightarrow> bus_connected b \<or> test_boards b \<noteq> []"

definition bus_attachTestArrays ::
    "int \<Rightarrow> u16 list option \<Rightarrow> u16 list option \<Rightarrow> int \<Rightarrow> 'w serial_bus \<Rightarrow> 'w serial_bus" where
  "bus_attachTestArrays slave inputs holdings limit b =
     b\<lparr>test_boards := AList.update slave \<lparr>input_regs = inputs, holding_regs = holdings, max_addr = limit\<rparr>
         (test_boards b)\<rparr>"

definition bus_detachTestArrays :: "int \<Rightarrow> 'w serial_bus \<Rightarrow> 'w serial_bus" where
  "bus_detachTestArrays slave b = b\<lparr>test_boards := AList.delete slave (test_boards b)\<rparr>"

subsection \<open>Transactions\<close>

text \<open>The loop around a request; \<open>None\<close> if the library never stops processing.\<close>

partial_function (option) run_request ::
    "'w modbus_lib \<Rightarrow> nat \<Rightarrow> u8 \<Rightarrow> modbus_request \<Rightarrow> 'w \<Rightarrow> ((string + u16 list) \<times> 'w) option" where
  "run_request L timeout unit req w =
     (case poll L timeout unit req w of
        (Processing, w1) \<Rightarrow> run_request L timeout unit req w1
      | (Good vs, w1) \<Rightarrow> Some (Inr vs, w1)
      | (Bad e, w1) \<Rightarrow> Some (Inl e, w1))"

text \<open>A response timeout for one request, with the old one put back afterwards.\<close>

definition with_timeout ::
    "int \<Rightarrow> ('w serial_bus \<Rightarrow> ('a \<times> 'w serial_bus) option) \<Rightarrow> 'w serial_bus \<Rightarrow> ('a \<times> 'w serial_bus) option" where
  "with_timeout override body b =
     (case bus_port b of
        None \<Rightarrow> body b
      | Some saved \<Rightarrow>
          if 0 \<le> override then do {
            (r, b1) \<leftarrow> body (b\<lparr>bus_port := Some (nat override)\<rparr>);
            Some (r, b1\<lparr>bus_port := Some saved\<rparr>)
          }
          else body b)"

definition request :: "'w modbus_lib \<Rightarrow> u8 \<Rightarrow> modbus_request \<Rightarrow> 'w serial_bus \<Rightarrow> (u16 list option \<times> 'w serial_bus) option" where
  "request L unit req b = do {
     (r, w) \<leftarrow> run_request L (the (bus_port b)) unit req (line b);
     Some (case r of
       Inl e \<Rightarrow> (None, b\<lparr>line := w, bus_error := ''Modbus error: '' @ e\<rparr>)
     | Inr vs \<Rightarrow> (Some vs, b\<lparr>line := w\<rparr>))
   }"

definition test_range :: "u16 \<Rightarrow> u16 \<Rightarrow> test_board \<Rightarrow> bool" where
  "test_range addr count tb \<longleftrightarrow> unat addr + unat count \<le> unat (word_of_int (max_addr tb) :: u16)"

definition bus_readRegsInternal ::
    "'w modbus_lib \<Rightarrow> bool \<Rightarrow> int \<Rightarrow> u16 \<Rightarrow> u16 \<Rightarrow> int \<Rightarrow> 'w serial_bus \<Rightarrow> (u16 list option \<times> 'w serial_bus) option" where
  "bus_readRegsInternal L holding slave addr count override b =
     (case map_of (test_boards b) slave of
        Some tb \<Rightarrow>
          (case if holding then holding_regs tb else input_regs tb of
             Some src \<Rightarrow>
               if test_range addr count tb then Some (Some (take (unat count) (drop (unat addr) src)), b)
               else Some (None, b\<lparr>bus_error := ''test: address out of range''\<rparr>)
           | None \<Rightarrow> Some (None, b\<lparr>bus_error := ''test: address out of range''\<rparr>))
      | None \<Rightarrow>
          if \<not> bus_connected b \<or> bus_port b = None then Some (None, b\<lparr>bus_error := ''not connected''\<rparr>)
          else with_timeout override
            (request L (word_of_int slave) (if holding then Read_Holding addr count else Read_Input addr count))
            (b\<lparr>last_slave := slave\<rparr>))"

text \<open>Single-register writes one after the other; the first that fails ends them.\<close>

fun write_each :: "'w modbus_lib \<Rightarrow> u8 \<Rightarrow> u16 \<Rightarrow> u16 list \<Rightarrow> 'w serial_bus \<Rightarrow> (bool \<times> 'w serial_bus) option" where
  "write_each L unit addr [] b = Some (True, b)"
| "write_each L unit addr (v # vs) b = do {
     (r, b1) \<leftarrow> request L unit (Write_Single addr v) b;
     if r = None then Some (False, b1) else write_each L unit (addr + 1) vs b1
   }"

definition bus_writeRegs ::
    "'w modbus_lib \<Rightarrow> int \<Rightarrow> u16 \<Rightarrow> u16 list \<Rightarrow> int \<Rightarrow> 'w serial_bus \<Rightarrow> (bool \<times> 'w serial_bus) option" where
  "bus_writeRegs L slave addr values override b =
     (case map_of (test_boards b) slave of
        Some tb \<Rightarrow>
          (case holding_regs tb of
             Some arr \<Rightarrow>
               if test_range addr (word_of_nat (length values)) tb
               then Some (True, b\<lparr>test_boards := AList.update slave (tb\<lparr>holding_regs :=
                 Some (take (unat addr) arr @ values @ drop (unat addr + length values) arr)\<rparr>) (test_boards b)\<rparr>)
               else Some (False, b\<lparr>bus_error := ''test: address out of range''\<rparr>)
           | None \<Rightarrow> Some (False, b\<lparr>bus_error := ''test: address out of range''\<rparr>))
      | None \<Rightarrow>
          if \<not> bus_connected b \<or> bus_port b = None then Some (False, b\<lparr>bus_error := ''not connected''\<rparr>)
          else with_timeout override (write_each L (word_of_int slave) addr values) (b\<lparr>last_slave := slave\<rparr>))"

text \<open>The ports of a machine that can be a serial line to a board.\<close>

definition scanPorts :: "bool \<Rightarrow> string list \<Rightarrow> string list" where
  "scanPorts windows ports =
     filter (\<lambda>p. if windows then take 3 p = ''COM''
                 else take 11 p = ''/dev/ttyUSB'' \<or> take 11 p = ''/dev/ttyACM'') ports"

end
