(* ===== verification/Host_Session.thy ===== *)
theory Host_Session
  imports Host_Bus
begin

text \<open>
  A board as the host tools see it: \<open>tools/psb_modbus_core/psb_board_session.cpp\<close> with the structures of \<open>types.h\<close> and
  the helpers of \<open>register_map.h\<close>. A session has a slave address and shares a serial bus; a function of the session
  gives its result and the session after it, or \<open>None\<close> when the Modbus library never ends a request. An
  enumeration of the host is its number, as the code casts registers to it without a check.
\<close>

unbundle bit_operations_syntax

subsection \<open>Register map\<close>

definition sysAddr :: "u16 \<Rightarrow> u16" where
  "sysAddr off = 0 + off"

definition chAddr :: "int \<Rightarrow> u16 \<Rightarrow> u16" where
  "chAddr ch off = word_of_int (40 + ch * 40) + off"

definition extAddr :: "u16 \<Rightarrow> u16" where
  "extAddr off = EXT_BLOCK_BASE + off"

definition uint32FromRegs :: "u16 \<Rightarrow> u16 \<Rightarrow> u32" where
  "uint32FromRegs hi lo = push_bit 16 (ucast hi) OR ucast lo"

definition int32FromRegs :: "u16 \<Rightarrow> u16 \<Rightarrow> s32" where
  "int32FromRegs hi lo = ucast (push_bit 16 (ucast hi :: u32) OR ucast lo)"

definition formatFwVersion :: "u32 \<Rightarrow> string" where
  "formatFwVersion packed = ''v'' @ fmt_u (unat (drop_bit 24 packed AND 0xFF)) @ ''.'' @
     fmt_u (unat (drop_bit 16 packed AND 0xFF)) @ ''.'' @ fmt_u (unat (packed AND 0xFFFF))"

definition protocolCompatible :: "int \<Rightarrow> int \<Rightarrow> bool" where
  "protocolCompatible major minor \<longleftrightarrow> major = uint (VC_PROTOCOL_MAJOR :: u16) \<and> uint (VC_PROTOCOL_MINOR :: u16) \<le> minor"

subsection \<open>Structures\<close>

record system_info =
  protoMajor :: int
  protoMinor :: int
  variantId :: int
  boardHwRevision :: int
  sysCapFlags :: u16
  supportedChannels :: int
  activeChMask :: u16
  boardTempRaw :: s16
  boardHumidityRaw :: u16
  uptimeSec :: u32
  fwVersion :: u32
  activeOpMode :: u16
  sysStatus :: u16
  faultCause :: u16
  currentUnitExp :: s16

record channel_info =
  voltageRaw :: s16
  currentRaw :: s16
  operationalTargetVoltageRaw :: s16
  info_status :: u16
  activeFault :: u16
  faultHistory :: u16
  lastProtOutputAction :: u16
  retryCount :: int
  cooldownSec :: int
  lastFaultTimestamp :: u32
  chCapFlags :: u16
  rawAdcVoltage :: s32
  rawAdcCurrent :: s32

record system_config_host =
  operatingMode :: u16
  startupChannelPolicy :: u16
  slaveAddr :: u16
  baudRateCode :: u16

record channel_config_host =
  configuredTargetVRaw :: s16
  outputEnabledCfg :: bool
  outputAction :: u16
  faultCommand :: u16
  rampUpStepRaw :: u16
  rampUpInterval :: u16
  rampDownStepRaw :: u16
  rampDownInterval :: u16
  recoveryPolicyMode :: u16
  autoRetryDelay :: u16
  autoRetryMaxCount :: u16
  autoRetryWindow :: u16
  currentSafeBandPct :: u16
  iProtMode :: u16
  iProtOutputAction :: u16
  iLimitThresholdRaw :: s16
  derateStepRaw :: u16

record channel_cal_config_host =
  outCalK :: u16
  outCalKExp :: s16
  outCalB :: s16
  measVCalK :: u16
  measVCalKExp :: s16
  measVCalB :: s16
  measICalK :: u16
  measICalKExp :: s16
  measICalB :: s16

record calibration_snapshot =
  snap_enabled :: bool
  rawDacCode :: u16
  snap_adc_voltage :: s32
  snap_adc_current :: s32

definition new_system_info :: system_info where
  "new_system_info =
    \<lparr>protoMajor = 0, protoMinor = 0, variantId = 0, boardHwRevision = 0, sysCapFlags = 0, supportedChannels = 0,
     activeChMask = 0, boardTempRaw = 0, boardHumidityRaw = 0, uptimeSec = 0, fwVersion = 0, activeOpMode = 0,
     sysStatus = 0, faultCause = 0, currentUnitExp = - 10\<rparr>"

definition new_channel_info :: channel_info where
  "new_channel_info =
    \<lparr>voltageRaw = 0, currentRaw = 0, operationalTargetVoltageRaw = 0, info_status = 0, activeFault = 0,
     faultHistory = 0, lastProtOutputAction = 0, retryCount = 0, cooldownSec = 0, lastFaultTimestamp = 0,
     chCapFlags = 0, rawAdcVoltage = 0, rawAdcCurrent = 0\<rparr>"

definition new_system_config :: system_config_host where
  "new_system_config = \<lparr>operatingMode = 0, startupChannelPolicy = 0, slaveAddr = 1, baudRateCode = 0\<rparr>"

definition new_channel_config :: channel_config_host where
  "new_channel_config =
    \<lparr>configuredTargetVRaw = 0, outputEnabledCfg = False, outputAction = 0, faultCommand = 0, rampUpStepRaw = 0,
     rampUpInterval = 0, rampDownStepRaw = 0, rampDownInterval = 0, recoveryPolicyMode = 0, autoRetryDelay = 0,
     autoRetryMaxCount = 0, autoRetryWindow = 0, currentSafeBandPct = 10, iProtMode = 0, iProtOutputAction = 0,
     iLimitThresholdRaw = 0, derateStepRaw = 0\<rparr>"

definition new_channel_cal_config :: channel_cal_config_host where
  "new_channel_cal_config =
    \<lparr>outCalK = 1, outCalKExp = 0, outCalB = 0, measVCalK = 1, measVCalKExp = 0, measVCalB = 0, measICalK = 1,
     measICalKExp = 0, measICalB = 0\<rparr>"

definition new_calibration_snapshot :: calibration_snapshot where
  "new_calibration_snapshot = \<lparr>snap_enabled = False, rawDacCode = 0, snap_adc_voltage = 0, snap_adc_current = 0\<rparr>"

datatype action_context = Host_Context | Protection_Context

definition isValidOutputAction :: "u16 \<Rightarrow> action_context \<Rightarrow> bool" where
  "isValidOutputAction action ctx =
     (if action = 0 \<or> action = 2 \<or> action = 3 then True
      else if action = 1 then ctx = Host_Context
      else if action = 4 then ctx = Protection_Context
      else False)"

subsection \<open>Session\<close>

record 'w session =
  session_bus :: "'w serial_bus option"
  session_slave :: int
  verified :: bool
  error_text :: string
  unit_exp :: s16

definition new_session :: "'w serial_bus option \<Rightarrow> int \<Rightarrow> 'w session" where
  "new_session b slave = \<lparr>session_bus = b, session_slave = slave, verified = False, error_text = [], unit_exp = - 10\<rparr>"

definition session_disconnect :: "'w session \<Rightarrow> 'w session" where
  "session_disconnect s = s\<lparr>verified := False\<rparr>"

definition rebind :: "int \<Rightarrow> 'w session \<Rightarrow> 'w session" where
  "rebind slave s = s\<lparr>session_slave := slave, verified := False\<rparr>"

definition session_attachTestArrays :: "u16 list option \<Rightarrow> u16 list option \<Rightarrow> int \<Rightarrow> 'w session \<Rightarrow> 'w session option" where
  "session_attachTestArrays inputs holdings limit s =
     (case session_bus s of
        None \<Rightarrow> None
      | Some b \<Rightarrow> Some (s\<lparr>session_bus := Some (bus_attachTestArrays (session_slave s) inputs holdings limit b),
          verified := True\<rparr>))"

definition session_detachTestArrays :: "'w session \<Rightarrow> 'w session option" where
  "session_detachTestArrays s =
     (case session_bus s of
        None \<Rightarrow> None
      | Some b \<Rightarrow> Some (s\<lparr>session_bus := Some (bus_detachTestArrays (session_slave s) b), verified := False\<rparr>))"

definition checkConnected :: "'w session \<Rightarrow> bool \<times> 'w session" where
  "checkConnected s =
     (if (case session_bus s of None \<Rightarrow> True | Some b \<Rightarrow> \<not> bus_isConnected b)
      then (False, s\<lparr>error_text := ''not connected''\<rparr>) else (True, s))"

text \<open>The result of a function that starts with the check; \<open>x\<close> where the check fails.\<close>

definition if_connected :: "'a \<Rightarrow> ('w session \<Rightarrow> ('a \<times> 'w session) option) \<Rightarrow> 'w session \<Rightarrow> ('a \<times> 'w session) option" where
  "if_connected x body s = (case checkConnected s of (ok, s1) \<Rightarrow> if \<not> ok then Some (x, s1) else body s1)"

definition readRegsInternal ::
    "'w modbus_lib \<Rightarrow> bool \<Rightarrow> u16 \<Rightarrow> u16 \<Rightarrow> int \<Rightarrow> 'w session \<Rightarrow> (u16 list option \<times> 'w session) option" where
  "readRegsInternal L holding addr count override = if_connected None (\<lambda>s. do {
     (r, b) \<leftarrow> bus_readRegsInternal L holding (session_slave s) addr count override (the (session_bus s));
     Some (r, s\<lparr>session_bus := Some b, error_text := (if r = None then bus_error b else error_text s)\<rparr>)
   })"

definition writeRegsInternal ::
    "'w modbus_lib \<Rightarrow> u16 \<Rightarrow> u16 list \<Rightarrow> int \<Rightarrow> 'w session \<Rightarrow> (bool \<times> 'w session) option" where
  "writeRegsInternal L addr values override = if_connected False (\<lambda>s. do {
     (ok, b) \<leftarrow> bus_writeRegs L (session_slave s) addr values override (the (session_bus s));
     Some (ok, s\<lparr>session_bus := Some b, error_text := (if \<not> ok then bus_error b else error_text s)\<rparr>)
   })"

text \<open>A buffer of zeros that a read has filled from its start.\<close>

definition reg_at :: "u16 list \<Rightarrow> u16 \<Rightarrow> u16" where
  "reg_at buf off = (if unat off < length buf then buf ! unat off else 0)"

definition verifyProtocol :: "'w modbus_lib \<Rightarrow> int \<Rightarrow> 'w session \<Rightarrow> (bool \<times> 'w session) option" where
  "verifyProtocol L override s = do {
     (r, s1) \<leftarrow> readRegsInternal L False (sysAddr 0) 2 override s;
     Some (case r of
       None \<Rightarrow> (False, s1\<lparr>error_text := ''no response from board '' @ map char_of [226, 128, 148 :: nat] @
         '' check baud rate, slave ID, and cabling'', verified := False\<rparr>)
     | Some buf \<Rightarrow>
         let protoMajor = uint (reg_at buf 0); protoMinor = uint (reg_at buf 1)
         in if protoMajor < 1 \<or> 15 < protoMajor
            then (False, s1\<lparr>error_text := ''unexpected protocol version '' @ fmt_d protoMajor @ '' '' @
              map char_of [226, 128, 148 :: nat] @ '' check baud rate and slave ID'', verified := False\<rparr>)
            else if \<not> protocolCompatible protoMajor protoMinor
            then (False, s1\<lparr>error_text := ''firmware protocol v'' @ fmt_d protoMajor @ ''.'' @ fmt_d protoMinor @
              '' is incompatible with this tool (requires v'' @ fmt_u (unat (VC_PROTOCOL_MAJOR :: u16)) @ ''.'' @
              fmt_u (unat (VC_PROTOCOL_MINOR :: u16)) @ '' or newer, same major version)'', verified := False\<rparr>)
            else (True, s1\<lparr>verified := True\<rparr>))
   }"

end
