(* ===== verification/Host_Reads.thy ===== *)
theory Host_Reads
  imports Host_Session
begin

text \<open>
  What a session reads: the system and channel reads of \<open>tools/psb_modbus_core/psb_board_session.cpp\<close>. A function that
  fills a structure gets the structure and gives the new one; the fields it does not read are left.
\<close>

unbundle bit_operations_syntax

abbreviation has_cap :: "u16 \<Rightarrow> u16 \<Rightarrow> bool" where
  "has_cap caps cap \<equiv> caps AND cap \<noteq> 0"

subsection \<open>System\<close>

definition readSystemStatus ::
    "'w modbus_lib \<Rightarrow> system_info \<Rightarrow> int \<Rightarrow> 'w session \<Rightarrow> ((bool \<times> system_info) \<times> 'w session) option" where
  "readSystemStatus L info override = if_connected (False, info) (\<lambda>s. do {
     (r, s1) \<leftarrow> readRegsInternal L False (sysAddr SYS_BOARD_TEMPERATURE) 9 override s;
     Some (case r of
       None \<Rightarrow> ((False, info), s1)
     | Some buf \<Rightarrow> ((True, info
         \<lparr>boardTempRaw := ucast (reg_at buf (SYS_BOARD_TEMPERATURE - SYS_BOARD_TEMPERATURE)),
          boardHumidityRaw := reg_at buf (SYS_BOARD_HUMIDITY - SYS_BOARD_TEMPERATURE),
          uptimeSec := uint32FromRegs (reg_at buf (SYS_UPTIME_HI - SYS_BOARD_TEMPERATURE))
            (reg_at buf (SYS_UPTIME_LO - SYS_BOARD_TEMPERATURE)),
          activeOpMode := reg_at buf (SYS_ACTIVE_OPERATING_MODE - SYS_BOARD_TEMPERATURE),
          sysStatus := reg_at buf (SYS_STATUS - SYS_BOARD_TEMPERATURE),
          faultCause := reg_at buf (SYS_FAULT_CAUSE - SYS_BOARD_TEMPERATURE)\<rparr>), s1))
   })"

definition readSystemInfo ::
    "'w modbus_lib \<Rightarrow> system_info \<Rightarrow> 'w session \<Rightarrow> (system_info \<times> 'w session) option" where
  "readSystemInfo L info = if_connected info (\<lambda>s. do {
     (r, s1) \<leftarrow> readRegsInternal L False (sysAddr 0) 17 (- 1) s;
     Some (case r of
       None \<Rightarrow> (info, s1)
     | Some buf \<Rightarrow>
         let major = uint (reg_at buf SYS_PROTOCOL_MAJOR); minor = uint (reg_at buf SYS_PROTOCOL_MINOR);
             ex = (if 3 < major \<or> major = 3 \<and> 2 \<le> minor then ucast (reg_at buf SYS_CURRENT_UNIT_EXP) else - 10)
         in (\<lparr>protoMajor = major, protoMinor = minor, variantId = uint (reg_at buf SYS_VARIANT_ID),
              boardHwRevision = uint (reg_at buf SYS_BOARD_HW_REVISION),
              sysCapFlags = reg_at buf SYS_CAPABILITY_FLAGS,
              supportedChannels = uint (reg_at buf SYS_SUPPORTED_CHANNELS),
              activeChMask = reg_at buf SYS_ACTIVE_CHANNEL_MASK,
              boardTempRaw = ucast (reg_at buf SYS_BOARD_TEMPERATURE),
              boardHumidityRaw = reg_at buf SYS_BOARD_HUMIDITY,
              uptimeSec = uint32FromRegs (reg_at buf SYS_UPTIME_HI) (reg_at buf SYS_UPTIME_LO),
              fwVersion = uint32FromRegs (reg_at buf SYS_FW_VERSION_HI) (reg_at buf SYS_FW_VERSION_LO),
              activeOpMode = reg_at buf SYS_ACTIVE_OPERATING_MODE, sysStatus = reg_at buf SYS_STATUS,
              faultCause = reg_at buf SYS_FAULT_CAUSE, currentUnitExp = ex\<rparr>, s1\<lparr>unit_exp := ex\<rparr>))
   })"

definition readSystemConfig :: "'w modbus_lib \<Rightarrow> 'w session \<Rightarrow> (system_config_host \<times> 'w session) option" where
  "readSystemConfig L = if_connected new_system_config (\<lambda>s. do {
     (r, s1) \<leftarrow> readRegsInternal L True (sysAddr 0) 4 (- 1) s;
     Some (case r of
       None \<Rightarrow> new_system_config
     | Some buf \<Rightarrow>
         \<lparr>operatingMode = reg_at buf SYS_OPERATING_MODE, startupChannelPolicy = reg_at buf SYS_STARTUP_CHANNEL_POLICY,
          slaveAddr = reg_at buf SYS_SLAVE_ADDRESS, baudRateCode = reg_at buf SYS_BAUD_RATE_CODE\<rparr>, s1)
   })"

subsection \<open>Channel status\<close>

text \<open>The fields that the first nine input registers of a channel give.\<close>

definition runtime_fields :: "u16 list \<Rightarrow> u16 \<Rightarrow> channel_info \<Rightarrow> channel_info" where
  "runtime_fields buf caps info = info
     \<lparr>info_status := reg_at buf CH_STATUS_BITS, activeFault := reg_at buf CH_ACTIVE_FAULT_CAUSE,
      faultHistory := reg_at buf CH_FAULT_HISTORY_CAUSE, lastProtOutputAction := reg_at buf CH_LAST_PROT_OUT_ACTION,
      retryCount := uint (reg_at buf CH_AUTO_RETRY_COUNT), cooldownSec := uint (reg_at buf CH_AUTO_COOLDOWN_REMAINING),
      lastFaultTimestamp := uint32FromRegs (reg_at buf CH_LAST_FAULT_TIMESTAMP_HI) (reg_at buf CH_LAST_FAULT_TIMESTAMP_LO),
      operationalTargetVoltageRaw := ucast (reg_at buf CH_OPER_TARGET_VOLTAGE), chCapFlags := caps\<rparr>"

text \<open>One measurement register, where the channel has it; a read that fails leaves the field.\<close>

definition read_measurement ::
    "'w modbus_lib \<Rightarrow> bool \<Rightarrow> u16 \<Rightarrow> int \<Rightarrow> (s16 \<Rightarrow> channel_info \<Rightarrow> channel_info) \<Rightarrow> channel_info \<Rightarrow>
     'w session \<Rightarrow> (channel_info \<times> 'w session) option" where
  "read_measurement L present addr override upd info s =
     (if present then do {
        (r, s1) \<leftarrow> readRegsInternal L False addr 1 override s;
        Some (case r of None \<Rightarrow> info | Some buf \<Rightarrow> upd (ucast (reg_at buf 0)) info, s1)
      }
      else Some (info, s))"

abbreviation set_voltage :: "s16 \<Rightarrow> channel_info \<Rightarrow> channel_info" where
  "set_voltage v info \<equiv> info\<lparr>voltageRaw := v\<rparr>"

abbreviation set_current :: "s16 \<Rightarrow> channel_info \<Rightarrow> channel_info" where
  "set_current v info \<equiv> info\<lparr>currentRaw := v\<rparr>"

definition readChannelStatus ::
    "'w modbus_lib \<Rightarrow> int \<Rightarrow> u16 \<Rightarrow> channel_info \<Rightarrow> int \<Rightarrow> 'w session \<Rightarrow> ((bool \<times> channel_info) \<times> 'w session) option" where
  "readChannelStatus L ch caps info override = if_connected (False, info) (\<lambda>s.
     let base = chAddr ch 0; hasV = has_cap caps CH_CAP_VOLTAGE_MEASUREMENT; hasI = has_cap caps CH_CAP_CURRENT_MEASUREMENT
     in if hasV \<and> hasI then do {
          (r, s1) \<leftarrow> readRegsInternal L False base 12 override s;
          Some (case r of
            None \<Rightarrow> ((False, info), s1)
          | Some buf \<Rightarrow> ((True, (runtime_fields buf caps info)
              \<lparr>voltageRaw := ucast (reg_at buf CH_MEASURED_VOLTAGE), currentRaw := ucast (reg_at buf CH_MEASURED_CURRENT)\<rparr>), s1))
        }
        else do {
          (r, s1) \<leftarrow> readRegsInternal L False base 9 override s;
          case r of
            None \<Rightarrow> Some ((False, info), s1)
          | Some buf \<Rightarrow> do {
              (info1, s2) \<leftarrow> read_measurement L hasV (base + CH_MEASURED_VOLTAGE) override set_voltage
                (runtime_fields buf caps info) s1;
              (info2, s3) \<leftarrow> read_measurement L hasI (base + CH_MEASURED_CURRENT) override set_current info1 s2;
              Some ((True, info2), s3)
            }
        })"

definition readChannelCapabilities ::
    "'w modbus_lib \<Rightarrow> int \<Rightarrow> int \<Rightarrow> 'w session \<Rightarrow> (u16 option \<times> 'w session) option" where
  "readChannelCapabilities L ch override = if_connected None (\<lambda>s. do {
     (r, s1) \<leftarrow> readRegsInternal L False (chAddr ch CH_CAPABILITY_FLAGS) 1 override s;
     Some (map_option (\<lambda>buf. reg_at buf 0) r, s1)
   })"

text \<open>The runtime registers with the capabilities, if the caller has none, or without.\<close>

definition read_runtime ::
    "'w modbus_lib \<Rightarrow> u16 \<Rightarrow> u16 \<Rightarrow> channel_info \<Rightarrow> 'w session \<Rightarrow> ((u16 \<times> channel_info) \<times> 'w session) option" where
  "read_runtime L base caps info s =
     (if caps = 0 then do {
        (r, s1) \<leftarrow> readRegsInternal L False base 10 (- 1) s;
        Some (case r of
          Some buf \<Rightarrow> (let caps1 = reg_at buf CH_CAPABILITY_FLAGS in (caps1, runtime_fields buf caps1 info))
        | None \<Rightarrow> (chCapFlags info, info), s1)
      }
      else do {
        (r, s1) \<leftarrow> readRegsInternal L False base 9 (- 1) s;
        Some (case r of Some buf \<Rightarrow> (caps, runtime_fields buf caps info) | None \<Rightarrow> (caps, info), s1)
      })"

definition readChannelInfo ::
    "'w modbus_lib \<Rightarrow> int \<Rightarrow> u16 \<Rightarrow> channel_info \<Rightarrow> 'w session \<Rightarrow> (channel_info \<times> 'w session) option" where
  "readChannelInfo L ch caps info = if_connected info (\<lambda>s. do {
     let base = chAddr ch 0;
     ((caps1, info1), s1) \<leftarrow> read_runtime L base caps info s;
     let hasV = has_cap caps1 CH_CAP_VOLTAGE_MEASUREMENT;
     let hasI = has_cap caps1 CH_CAP_CURRENT_MEASUREMENT;
     if hasV \<and> hasI then do {
       (r, s2) \<leftarrow> readRegsInternal L False (base + CH_MEASURED_VOLTAGE) 2 (- 1) s1;
       Some (case r of None \<Rightarrow> info1
         | Some m \<Rightarrow> info1\<lparr>voltageRaw := ucast (reg_at m 0), currentRaw := ucast (reg_at m 1)\<rparr>, s2)
     }
     else do {
       (info2, s2) \<leftarrow> read_measurement L hasV (base + CH_MEASURED_VOLTAGE) (- 1) set_voltage info1 s1;
       read_measurement L hasI (base + CH_MEASURED_CURRENT) (- 1) set_current info2 s2
     }
   })"

subsection \<open>Channel configuration\<close>

definition readChannelOutputBlock ::
    "'w modbus_lib \<Rightarrow> int \<Rightarrow> u16 \<Rightarrow> channel_config_host \<Rightarrow> 'w session \<Rightarrow> (channel_config_host \<times> 'w session) option" where
  "readChannelOutputBlock L ch caps cfg = if_connected cfg (\<lambda>s. do {
     let base = chAddr ch 0;
     if has_cap caps CH_CAP_RAW_OUTPUT_DRIVE then do {
       (r, s1) \<leftarrow> readRegsInternal L True base 8 (- 1) s;
       Some (case r of
         None \<Rightarrow> cfg
       | Some buf \<Rightarrow> cfg\<lparr>outputAction := reg_at buf CH_OUTPUT_ACTION, faultCommand := reg_at buf CH_FAULT_CMD,
           configuredTargetVRaw := ucast (reg_at buf CH_CFG_TARGET_VOLTAGE), rampUpStepRaw := reg_at buf CH_RAMP_UP_STEP,
           rampUpInterval := reg_at buf CH_RAMP_UP_INTERVAL, rampDownStepRaw := reg_at buf CH_RAMP_DOWN_STEP,
           rampDownInterval := reg_at buf CH_RAMP_DOWN_INTERVAL\<rparr>, s1)
     }
     else do {
       (r, s1) \<leftarrow> readRegsInternal L True base 3 (- 1) s;
       Some (case r of
         None \<Rightarrow> cfg
       | Some buf \<Rightarrow> cfg\<lparr>outputAction := reg_at buf CH_OUTPUT_ACTION, faultCommand := reg_at buf CH_FAULT_CMD\<rparr>, s1)
     }
   })"

definition readChannelRecoveryBlock ::
    "'w modbus_lib \<Rightarrow> int \<Rightarrow> channel_config_host \<Rightarrow> 'w session \<Rightarrow> (channel_config_host \<times> 'w session) option" where
  "readChannelRecoveryBlock L ch cfg = if_connected cfg (\<lambda>s. do {
     (r, s1) \<leftarrow> readRegsInternal L True (chAddr ch 0 + CH_RECOVERY_POLICY_MODE) 5 (- 1) s;
     Some (case r of
       None \<Rightarrow> cfg
     | Some buf \<Rightarrow> cfg
         \<lparr>recoveryPolicyMode := reg_at buf (CH_RECOVERY_POLICY_MODE - CH_RECOVERY_POLICY_MODE),
          autoRetryDelay := reg_at buf (CH_AUTO_RETRY_DELAY - CH_RECOVERY_POLICY_MODE),
          autoRetryMaxCount := reg_at buf (CH_AUTO_RETRY_MAX_COUNT - CH_RECOVERY_POLICY_MODE),
          autoRetryWindow := reg_at buf (CH_AUTO_RETRY_WINDOW - CH_RECOVERY_POLICY_MODE),
          currentSafeBandPct := reg_at buf (CH_CURRENT_SAFE_BAND_PCT - CH_RECOVERY_POLICY_MODE)\<rparr>, s1)
   })"

definition readChannelProtectionBlock ::
    "'w modbus_lib \<Rightarrow> int \<Rightarrow> u16 \<Rightarrow> channel_config_host \<Rightarrow> 'w session \<Rightarrow> (channel_config_host \<times> 'w session) option" where
  "readChannelProtectionBlock L ch caps cfg = if_connected cfg (\<lambda>s.
     if \<not> has_cap caps CH_CAP_CURRENT_MEASUREMENT then Some (cfg, s)
     else do {
       (r, s1) \<leftarrow> readRegsInternal L True (chAddr ch 0 + CH_CURRENT_PROTECTION_MODE) 3 (- 1) s;
       Some (case r of
         None \<Rightarrow> cfg
       | Some buf \<Rightarrow> cfg\<lparr>iProtMode := reg_at buf 0, iProtOutputAction := reg_at buf 1,
           iLimitThresholdRaw := ucast (reg_at buf 2)\<rparr>, s1)
     })"

definition readChannelDerateBlock ::
    "'w modbus_lib \<Rightarrow> int \<Rightarrow> u16 \<Rightarrow> channel_config_host \<Rightarrow> 'w session \<Rightarrow> (channel_config_host \<times> 'w session) option" where
  "readChannelDerateBlock L ch caps cfg = if_connected cfg (\<lambda>s.
     if \<not> (has_cap caps CH_CAP_RAW_OUTPUT_DRIVE \<and> has_cap caps CH_CAP_VOLTAGE_MEASUREMENT) then Some (cfg, s)
     else do {
       (r, s1) \<leftarrow> readRegsInternal L True (chAddr ch 0 + CH_AUTO_DERATE_STEP) 1 (- 1) s;
       Some (case r of None \<Rightarrow> cfg | Some buf \<Rightarrow> cfg\<lparr>derateStepRaw := reg_at buf 0\<rparr>, s1)
     })"

definition readChannelOutputEnabledBlock ::
    "'w modbus_lib \<Rightarrow> int \<Rightarrow> u16 \<Rightarrow> channel_config_host \<Rightarrow> 'w session \<Rightarrow> (channel_config_host \<times> 'w session) option" where
  "readChannelOutputEnabledBlock L ch caps cfg = if_connected cfg (\<lambda>s.
     if \<not> (\<not> has_cap caps CH_CAP_RAW_OUTPUT_DRIVE \<and> has_cap caps CH_CAP_OUTPUT_ENABLE) then Some (cfg, s)
     else do {
       (r, s1) \<leftarrow> readRegsInternal L True (chAddr ch 0 + CH_CFG_OUTPUT_ENABLED) 1 (- 1) s;
       Some (case r of None \<Rightarrow> cfg | Some buf \<Rightarrow> cfg\<lparr>outputEnabledCfg := reg_at buf 0 \<noteq> 0\<rparr>, s1)
     })"

text \<open>The capabilities of a caller that has none are read first, and are 0 if that fails.\<close>

definition acquire_caps :: "'w modbus_lib \<Rightarrow> int \<Rightarrow> u16 \<Rightarrow> 'w session \<Rightarrow> (u16 \<times> 'w session) option" where
  "acquire_caps L ch caps s =
     (if caps = 0 then do {
        (r, s1) \<leftarrow> readRegsInternal L False (chAddr ch 0 + CH_CAPABILITY_FLAGS) 1 (- 1) s;
        Some (case r of None \<Rightarrow> 0 | Some buf \<Rightarrow> reg_at buf 0, s1)
      }
      else Some (caps, s))"

definition readChannelConfig ::
    "'w modbus_lib \<Rightarrow> int \<Rightarrow> u16 \<Rightarrow> channel_config_host \<Rightarrow> 'w session \<Rightarrow> (channel_config_host \<times> 'w session) option" where
  "readChannelConfig L ch caps cfg = if_connected cfg (\<lambda>s. do {
     (caps1, s1) \<leftarrow> acquire_caps L ch caps s;
     (cfg1, s2) \<leftarrow> readChannelOutputBlock L ch caps1 cfg s1;
     (cfg2, s3) \<leftarrow> readChannelRecoveryBlock L ch cfg1 s2;
     (cfg3, s4) \<leftarrow> readChannelProtectionBlock L ch caps1 cfg2 s3;
     (cfg4, s5) \<leftarrow> readChannelDerateBlock L ch caps1 cfg3 s4;
     readChannelOutputEnabledBlock L ch caps1 cfg4 s5
   })"

subsection \<open>Calibration\<close>

text \<open>One mantissa with its offset, and its exponent.\<close>

definition read_pair ::
    "'w modbus_lib \<Rightarrow> bool \<Rightarrow> u16 \<Rightarrow> u16 \<Rightarrow> (u16 \<Rightarrow> s16 \<Rightarrow> channel_cal_config_host \<Rightarrow> channel_cal_config_host) \<Rightarrow>
     (s16 \<Rightarrow> channel_cal_config_host \<Rightarrow> channel_cal_config_host) \<Rightarrow> channel_cal_config_host \<Rightarrow>
     'w session \<Rightarrow> (channel_cal_config_host \<times> 'w session) option" where
  "read_pair L present addr exp_addr set_kb set_exp cal s =
     (if present then do {
        (r, s1) \<leftarrow> readRegsInternal L True addr 2 (- 1) s;
        let cal1 = (case r of None \<Rightarrow> cal | Some buf \<Rightarrow> set_kb (reg_at buf 0) (ucast (reg_at buf 1)) cal);
        (r2, s2) \<leftarrow> readRegsInternal L True exp_addr 1 (- 1) s1;
        Some (case r2 of None \<Rightarrow> cal1 | Some buf \<Rightarrow> set_exp (ucast (reg_at buf 0)) cal1, s2)
      }
      else Some (cal, s))"

definition readChannelCalConfig ::
    "'w modbus_lib \<Rightarrow> int \<Rightarrow> u16 \<Rightarrow> channel_cal_config_host \<Rightarrow> 'w session \<Rightarrow> (channel_cal_config_host \<times> 'w session) option" where
  "readChannelCalConfig L ch caps cal = if_connected cal (\<lambda>s. do {
     let base = chAddr ch 0;
     (caps1, s1) \<leftarrow> acquire_caps L ch caps s;
     let haveDrive = has_cap caps1 CH_CAP_RAW_OUTPUT_DRIVE;
     let haveV = has_cap caps1 CH_CAP_VOLTAGE_MEASUREMENT;
     let haveI = has_cap caps1 CH_CAP_CURRENT_MEASUREMENT;
     if haveDrive \<and> haveV \<and> haveI then do {
       (r, s2) \<leftarrow> readRegsInternal L True (base + CH_OUTPUT_CAL_K) 9 (- 1) s1;
       Some (case r of
         None \<Rightarrow> cal
       | Some buf \<Rightarrow> cal
           \<lparr>outCalK := reg_at buf 0, outCalB := ucast (reg_at buf 1), measVCalK := reg_at buf 2,
            measVCalB := ucast (reg_at buf 3), measICalK := reg_at buf 4, measICalB := ucast (reg_at buf 5),
            outCalKExp := ucast (reg_at buf 6), measVCalKExp := ucast (reg_at buf 7),
            measICalKExp := ucast (reg_at buf 8)\<rparr>, s2)
     }
     else do {
       (cal1, s2) \<leftarrow> read_pair L haveDrive (base + CH_OUTPUT_CAL_K) (base + CH_OUTPUT_CAL_K_EXP)
         (\<lambda>k b c. c\<lparr>outCalK := k, outCalB := b\<rparr>) (\<lambda>e c. c\<lparr>outCalKExp := e\<rparr>) cal s1;
       (cal2, s3) \<leftarrow> read_pair L haveV (base + CH_MEASURED_V_CAL_K) (base + CH_MEASURED_V_CAL_K_EXP)
         (\<lambda>k b c. c\<lparr>measVCalK := k, measVCalB := b\<rparr>) (\<lambda>e c. c\<lparr>measVCalKExp := e\<rparr>) cal1 s2;
       read_pair L haveI (base + CH_MEASURED_I_CAL_K) (base + CH_MEASURED_I_CAL_K_EXP)
         (\<lambda>k b c. c\<lparr>measICalK := k, measICalB := b\<rparr>) (\<lambda>e c. c\<lparr>measICalKExp := e\<rparr>) cal2 s3
     }
   })"

definition readCalibrationSnapshot ::
    "'w modbus_lib \<Rightarrow> int \<Rightarrow> 'w session \<Rightarrow> (calibration_snapshot \<times> 'w session) option" where
  "readCalibrationSnapshot L ch = if_connected new_calibration_snapshot (\<lambda>s. do {
     (r, s1) \<leftarrow> readRegsInternal L False (chAddr ch CH_RAW_ADC_VOLTAGE_HI) 4 (- 1) s;
     case r of
       None \<Rightarrow> Some (new_calibration_snapshot, s1)
     | Some ibuf \<Rightarrow> do {
         let snap = new_calibration_snapshot
           \<lparr>snap_adc_voltage := int32FromRegs (reg_at ibuf 0) (reg_at ibuf 1),
            snap_adc_current := int32FromRegs (reg_at ibuf 2) (reg_at ibuf 3)\<rparr>;
         (r2, s2) \<leftarrow> readRegsInternal L True (chAddr ch CH_CAL_OUTPUT_ENABLE) 4 (- 1) s1;
         Some (case r2 of
           None \<Rightarrow> snap
         | Some hbuf \<Rightarrow> snap\<lparr>snap_enabled := reg_at hbuf 0 \<noteq> 0, rawDacCode := reg_at hbuf 1\<rparr>, s2)
       }
   })"

end
