(* ===== verification/Host_Writes.thy ===== *)
theory Host_Writes
  imports Host_Session
begin

text \<open>
  What a session writes: the system, channel and calibration writes of \<open>tools/psb_modbus_core/psb_board_session.cpp\<close>, and
  the connection of \<open>psb_modbus_client.cpp\<close>, the client with one session on a bus of its own.
\<close>

unbundle bit_operations_syntax

type_synonym 'w session_write = "'w session \<Rightarrow> (bool \<times> 'w session) option"

subsection \<open>System\<close>

definition writeOperatingMode :: "'w modbus_lib \<Rightarrow> u16 \<Rightarrow> 'w session_write" where
  "writeOperatingMode L m = writeRegsInternal L (sysAddr SYS_OPERATING_MODE) [m] (- 1)"

definition writeStartupChannelPolicy :: "'w modbus_lib \<Rightarrow> u16 \<Rightarrow> 'w session_write" where
  "writeStartupChannelPolicy L policy = writeRegsInternal L (sysAddr SYS_STARTUP_CHANNEL_POLICY) [policy] (- 1)"

definition writeSlaveAddress :: "'w modbus_lib \<Rightarrow> u16 \<Rightarrow> 'w session_write" where
  "writeSlaveAddress L a = writeRegsInternal L (sysAddr SYS_SLAVE_ADDRESS) [a] (- 1)"

definition writeBaudRateCode :: "'w modbus_lib \<Rightarrow> u16 \<Rightarrow> 'w session_write" where
  "writeBaudRateCode L code = writeRegsInternal L (sysAddr SYS_BAUD_RATE_CODE) [code] (- 1)"

text \<open>A negative scope is the system.\<close>

definition sendParamAction :: "'w modbus_lib \<Rightarrow> int \<Rightarrow> u16 \<Rightarrow> 'w session_write" where
  "sendParamAction L scope action =
     writeRegsInternal L (if scope < 0 then sysAddr SYS_PARAM_ACTION else chAddr scope CH_PARAM_ACTION) [action] (- 1)"

subsection \<open>Channel\<close>

definition writeConfiguredTargetVoltage :: "'w modbus_lib \<Rightarrow> int \<Rightarrow> s16 \<Rightarrow> 'w session_write" where
  "writeConfiguredTargetVoltage L ch raw = writeRegsInternal L (chAddr ch CH_CFG_TARGET_VOLTAGE) [ucast raw] (- 1)"

definition writeOutputEnabled :: "'w modbus_lib \<Rightarrow> int \<Rightarrow> bool \<Rightarrow> 'w session_write" where
  "writeOutputEnabled L ch enabled =
     writeRegsInternal L (chAddr ch CH_CFG_OUTPUT_ENABLED) [if enabled then 1 else 0] (- 1)"

definition sendOutputAction :: "'w modbus_lib \<Rightarrow> int \<Rightarrow> u16 \<Rightarrow> 'w session_write" where
  "sendOutputAction L ch action s =
     (if \<not> isValidOutputAction action Host_Context
      then Some (False, s\<lparr>error_text := ''invalid output action for host context''\<rparr>)
      else writeRegsInternal L (chAddr ch CH_OUTPUT_ACTION) [action] (- 1) s)"

definition sendChannelFaultCommand :: "'w modbus_lib \<Rightarrow> int \<Rightarrow> u16 \<Rightarrow> 'w session_write" where
  "sendChannelFaultCommand L ch cmd = writeRegsInternal L (chAddr ch CH_FAULT_CMD) [cmd] (- 1)"

definition writeRampUp :: "'w modbus_lib \<Rightarrow> int \<Rightarrow> u16 \<Rightarrow> u16 \<Rightarrow> 'w session_write" where
  "writeRampUp L ch step_raw interval = writeRegsInternal L (chAddr ch CH_RAMP_UP_STEP) [step_raw, interval] (- 1)"

definition writeRampDown :: "'w modbus_lib \<Rightarrow> int \<Rightarrow> u16 \<Rightarrow> u16 \<Rightarrow> 'w session_write" where
  "writeRampDown L ch step_raw interval = writeRegsInternal L (chAddr ch CH_RAMP_DOWN_STEP) [step_raw, interval] (- 1)"

definition writeChannelRecovery :: "'w modbus_lib \<Rightarrow> int \<Rightarrow> u16 \<Rightarrow> int \<Rightarrow> int \<Rightarrow> int \<Rightarrow> 'w session_write" where
  "writeChannelRecovery L ch policy delay limit window =
     writeRegsInternal L (chAddr ch CH_RECOVERY_POLICY_MODE)
       [policy, word_of_int delay, word_of_int limit, word_of_int window] (- 1)"

definition writeChannelSafeBand :: "'w modbus_lib \<Rightarrow> int \<Rightarrow> u16 \<Rightarrow> 'w session_write" where
  "writeChannelSafeBand L ch pct = writeRegsInternal L (chAddr ch CH_CURRENT_SAFE_BAND_PCT) [pct] (- 1)"

definition writeCurrentProtection :: "'w modbus_lib \<Rightarrow> int \<Rightarrow> u16 \<Rightarrow> u16 \<Rightarrow> s16 \<Rightarrow> 'w session_write" where
  "writeCurrentProtection L ch mode action threshold s =
     (if \<not> isValidOutputAction action Protection_Context
      then Some (False, s\<lparr>error_text := ''invalid output action for protection context''\<rparr>)
      else writeRegsInternal L (chAddr ch CH_CURRENT_PROTECTION_MODE) [mode, action, ucast threshold] (- 1) s)"

definition writeDerateStep :: "'w modbus_lib \<Rightarrow> int \<Rightarrow> u16 \<Rightarrow> 'w session_write" where
  "writeDerateStep L ch step_raw = writeRegsInternal L (chAddr ch CH_AUTO_DERATE_STEP) [step_raw] (- 1)"

definition writeCalibrationOutput :: "'w modbus_lib \<Rightarrow> int \<Rightarrow> u16 \<Rightarrow> s16 \<Rightarrow> 'w session_write" where
  "writeCalibrationOutput L ch k b = writeRegsInternal L (chAddr ch CH_OUTPUT_CAL_K) [k, ucast b] (- 1)"

definition writeCalibrationMeasV :: "'w modbus_lib \<Rightarrow> int \<Rightarrow> u16 \<Rightarrow> s16 \<Rightarrow> 'w session_write" where
  "writeCalibrationMeasV L ch k b = writeRegsInternal L (chAddr ch CH_MEASURED_V_CAL_K) [k, ucast b] (- 1)"

definition writeCalibrationMeasI :: "'w modbus_lib \<Rightarrow> int \<Rightarrow> u16 \<Rightarrow> s16 \<Rightarrow> 'w session_write" where
  "writeCalibrationMeasI L ch k b = writeRegsInternal L (chAddr ch CH_MEASURED_I_CAL_K) [k, ucast b] (- 1)"

definition writeCalibrationOutputExp :: "'w modbus_lib \<Rightarrow> int \<Rightarrow> s16 \<Rightarrow> 'w session_write" where
  "writeCalibrationOutputExp L ch e = writeRegsInternal L (chAddr ch CH_OUTPUT_CAL_K_EXP) [ucast e] (- 1)"

definition writeCalibrationMeasVExp :: "'w modbus_lib \<Rightarrow> int \<Rightarrow> s16 \<Rightarrow> 'w session_write" where
  "writeCalibrationMeasVExp L ch e = writeRegsInternal L (chAddr ch CH_MEASURED_V_CAL_K_EXP) [ucast e] (- 1)"

definition writeCalibrationMeasIExp :: "'w modbus_lib \<Rightarrow> int \<Rightarrow> s16 \<Rightarrow> 'w session_write" where
  "writeCalibrationMeasIExp L ch e = writeRegsInternal L (chAddr ch CH_MEASURED_I_CAL_K_EXP) [ucast e] (- 1)"

subsection \<open>Calibration mode\<close>

definition unlockCalibrationStep :: "'w modbus_lib \<Rightarrow> u16 \<Rightarrow> 'w session_write" where
  "unlockCalibrationStep L v = writeRegsInternal L (extAddr EXT_CAL_UNLOCK) [v] (- 1)"

definition enterCalibrationMode :: "'w modbus_lib \<Rightarrow> 'w session_write" where
  "enterCalibrationMode L = writeOperatingMode L 2"

definition exitCalibrationMode :: "'w modbus_lib \<Rightarrow> 'w session_write" where
  "exitCalibrationMode L = writeRegsInternal L (extAddr EXT_CAL_EXIT) [1] (- 1)"

definition writeCalibrationOutputEnable :: "'w modbus_lib \<Rightarrow> int \<Rightarrow> bool \<Rightarrow> 'w session_write" where
  "writeCalibrationOutputEnable L ch enable =
     writeRegsInternal L (chAddr ch CH_CAL_OUTPUT_ENABLE) [if enable then 1 else 0] (- 1)"

definition writeRawDacCode :: "'w modbus_lib \<Rightarrow> int \<Rightarrow> u16 \<Rightarrow> 'w session_write" where
  "writeRawDacCode L ch code = writeRegsInternal L (chAddr ch CH_CAL_DAC_CODE) [code] (- 1)"

definition sendCalibrationSampleCommand :: "'w modbus_lib \<Rightarrow> int \<Rightarrow> 'w session_write" where
  "sendCalibrationSampleCommand L ch = writeRegsInternal L (chAddr ch CH_CAL_SAMPLE_CMD) [CAL_COMMAND_EXECUTE] 2000"

definition sendCalibrationCommitCommand :: "'w modbus_lib \<Rightarrow> int \<Rightarrow> 'w session_write" where
  "sendCalibrationCommitCommand L ch = writeRegsInternal L (chAddr ch CH_CAL_COMMIT_CMD) [CAL_COMMAND_EXECUTE] (- 1)"

definition writeReg16 :: "'w modbus_lib \<Rightarrow> u16 \<Rightarrow> u16 \<Rightarrow> 'w session_write" where
  "writeReg16 L addr v = writeRegsInternal L addr [v] (- 1)"

subsection \<open>Client\<close>

text \<open>The session of the client shares the client's bus; it is replaced at each attempt to connect.\<close>

definition new_client :: "'w \<Rightarrow> 'w session" where
  "new_client w = new_session (Some (new_bus w)) 1"

definition client_connect :: "'w modbus_lib \<Rightarrow> string \<Rightarrow> int \<Rightarrow> int \<Rightarrow> nat \<Rightarrow> 'w session_write" where
  "client_connect L name baud slave timeout s =
     (case bus_connect L name baud timeout (the (session_bus s)) of
        (False, b) \<Rightarrow> Some (False, new_session (Some b) slave)
      | (True, b) \<Rightarrow> do {
          (ok, s1) \<leftarrow> verifyProtocol L (- 1) (new_session (Some b) slave);
          Some (if \<not> ok then (False, s1\<lparr>session_bus := map_option bus_disconnect (session_bus s1)\<rparr>) else (True, s1))
        })"

definition client_disconnect :: "'w session \<Rightarrow> 'w session" where
  "client_disconnect s = session_disconnect (s\<lparr>session_bus := map_option bus_disconnect (session_bus s)\<rparr>)"

definition client_lastError :: "'w session \<Rightarrow> string" where
  "client_lastError s =
     (case session_bus s of
        Some b \<Rightarrow> if \<not> bus_isConnected b \<and> bus_error b \<noteq> [] then bus_error b else error_text s
      | None \<Rightarrow> error_text s)"

end
