(* ===== verification/Host_Props.thy ===== *)
theory Host_Props
  imports Host_Reads Host_Writes Vc_Shell_Reads
begin

text \<open>
  From the host's call to the channel's value: the registers of a board as an interface that the reads of a session use,
  the firmware's Modbus handlers as that interface, and what a write of several registers leaves behind when one of
  them is refused.
\<close>

unbundle bit_operations_syntax

subsection \<open>The Modbus server in between\<close>

text \<open>
  A register handler gives a result, a value and the state after it. The server of the board reads the registers of
  a request in ascending order and answers with an exception at the first that is refused.
\<close>

type_synonym 'w reg_handler = "u16 \<Rightarrow> 'w \<Rightarrow> (vc_mb_result \<times> u16 option \<times> 'w) option"

fun read_each :: "'w reg_handler \<Rightarrow> u16 \<Rightarrow> nat \<Rightarrow> 'w \<Rightarrow> (u16 list option \<times> 'w) option" where
  "read_each rd a 0 w = Some (Some [], w)"
| "read_each rd a (Suc n) w = do {
     (r, v, w1) \<leftarrow> rd a w;
     if r \<noteq> VC_MB_OK then Some (None, w1)
     else do {
       (vs, w2) \<leftarrow> read_each rd (a + 1) n w1;
       Some (map_option ((#) (the v)) vs, w2)
     }
   }"

text \<open>What the host's library documents over a line without errors to a board with these handlers at the unit.\<close>

definition serves ::
    "'w modbus_lib \<Rightarrow> u8 \<Rightarrow> 'w reg_handler \<Rightarrow> 'w reg_handler \<Rightarrow> (u16 \<Rightarrow> u16 \<Rightarrow> 'w \<Rightarrow> (vc_mb_result \<times> 'w) option) \<Rightarrow> bool" where
  "serves L unit rd_in rd_hold wr \<longleftrightarrow>
     (\<forall>timeout a n w.
        (\<forall>vs w1. read_each rd_in a (unat n) w = Some (Some vs, w1) \<longrightarrow>
           run_request L timeout unit (Read_Input a n) w = Some (Inr vs, w1)) \<and>
        (\<forall>vs w1. read_each rd_hold a (unat n) w = Some (Some vs, w1) \<longrightarrow>
           run_request L timeout unit (Read_Holding a n) w = Some (Inr vs, w1)) \<and>
        (\<forall>r w1. wr a n w = Some (r, w1) \<longrightarrow>
           (\<exists>e vs. run_request L timeout unit (Write_Single a n) w =
              Some (if r = VC_MB_OK then Inr vs else Inl e, w1))))"

text \<open>A session whose bus has an open port, with the board at its other end in the state \<open>w\<close>.\<close>

definition linked :: "u8 \<Rightarrow> 'w \<Rightarrow> 'w session \<Rightarrow> bool" where
  "linked unit w s \<longleftrightarrow>
     (case session_bus s of
        None \<Rightarrow> False
      | Some b \<Rightarrow> bus_connected b \<and> bus_port b \<noteq> None \<and> map_of (test_boards b) (session_slave s) = None \<and>
          word_of_int (session_slave s) = unit \<and> line b = w)"

definition after :: "'w \<Rightarrow> 'w session \<Rightarrow> 'w session" where
  "after w s = s\<lparr>session_bus := map_option (\<lambda>b. b\<lparr>last_slave := session_slave s, line := w\<rparr>) (session_bus s)\<rparr>"

lemma after_after [simp]: "after w2 (after w1 s) = after w2 s"
  by (cases "session_bus s") (simp_all add: after_def)

lemma linked_after [simp]: "linked unit w s \<Longrightarrow> linked unit w1 (after w1 s)"
  by (auto simp: linked_def after_def split: option.splits)

lemma if_connected_linked [simp]: "linked unit w s \<Longrightarrow> if_connected x body s = body s"
  by (auto simp: if_connected_def checkConnected_def linked_def bus_isConnected_def split: option.splits)

lemma read_block:
  assumes "linked unit w s"
    and "run_request L (the (bus_port (the (session_bus s)))) unit
      (if holding then Read_Holding addr n else Read_Input addr n) w = Some (Inr vs, w1)"
  shows "readRegsInternal L holding addr n (- 1) s = Some (Some vs, after w1 s)"
proof -
  obtain b where b: "session_bus s = Some b" "bus_connected b" "bus_port b \<noteq> None"
    "map_of (test_boards b) (session_slave s) = None" "word_of_int (session_slave s) = unit" "line b = w"
    using assms(1) by (auto simp: linked_def split: option.splits)
  then obtain t where t: "bus_port b = Some t" by blast
  have "bus_readRegsInternal L holding (session_slave s) addr n (- 1) b =
      Some (Some vs, b\<lparr>last_slave := session_slave s, line := w1\<rparr>)"
    using b t assms(2) by (simp add: bus_readRegsInternal_def with_timeout_def request_def)
  then show ?thesis
    by (simp only: readRegsInternal_def if_connected_linked [OF assms(1)] b(1)) (simp add: after_def b(1))
qed

subsection \<open>The registers of one channel\<close>

text \<open>The holding registers that the tools read, where the capabilities admit them.\<close>

definition holding_gate :: "u16 \<Rightarrow> u16 \<Rightarrow> bool" where
  "holding_gate caps off \<longleftrightarrow> off \<le> CH_MEASURED_I_CAL_K_EXP \<and>
     (case map_of ch_holding_view off of None \<Rightarrow> False | Some (field, w) \<Rightarrow> vc_catalog_supported field caps)"

definition holding_value :: "'d vc_channel \<Rightarrow> u16 \<Rightarrow> u16" where
  "holding_value k off =
     (case map_of ch_holding_view off of
        None \<Rightarrow> 0
      | Some (field, w) \<Rightarrow> (case map_of vc_read_switch field of None \<Rightarrow> 0 | Some rd \<Rightarrow> value_u16 (rd k)))"

text \<open>
  The interface of a board: its handlers, the channel behind a block of registers, and the state that a read leaves. Every
  register of the block that the capabilities admit reads the value of the channel, and no read changes the channel.
\<close>

locale channel_registers =
  fixes rd_in :: "'w reg_handler" and rd_hold :: "'w reg_handler"
    and ch :: int
    and up :: "'w \<Rightarrow> bool"
    and chan :: "'w \<Rightarrow> 'd vc_channel"
    and settle :: "'w \<Rightarrow> 'w"
  assumes holding_law: "up w \<Longrightarrow> holding_gate (capabilities (chan w)) off \<Longrightarrow>
      rd_hold (chAddr ch off) w = Some (VC_MB_OK, Some (holding_value (chan w) off), settle w)"
    and caps_law: "up w \<Longrightarrow>
      rd_in (chAddr ch CH_CAPABILITY_FLAGS) w = Some (VC_MB_OK, Some (capabilities (chan w)), settle w)"
    and settle_law: "up w \<Longrightarrow> up (settle w)" "chan (settle w) = chan w" "settle (settle w) = settle w"
begin

lemma chAddr_Suc: "chAddr ch off + 1 = chAddr ch (off + 1)"
  by (simp add: chAddr_def)

lemma read_each_block:
  "up w \<Longrightarrow> list_all (\<lambda>i. holding_gate (capabilities (chan w)) (off + of_nat i)) [0..<n] \<Longrightarrow>
   read_each rd_hold (chAddr ch off) n w =
     Some (Some (map (\<lambda>i. holding_value (chan w) (off + of_nat i)) [0..<n]), if n = 0 then w else settle w)"
proof (induction n arbitrary: off w)
  case (Suc n)
  have g: "list_all (\<lambda>i. holding_gate (capabilities (chan w)) (off + 1 + of_nat i)) [0..<n]"
    unfolding list_all_iff
  proof
    fix i
    assume "i \<in> set [0..<n]"
    then have "Suc i \<in> set [0..<Suc n]" by auto
    from bspec [OF Suc.prems(2) [unfolded list_all_iff] this]
    show "holding_gate (capabilities (chan w)) (off + 1 + of_nat i)" by (simp add: add.assoc)
  qed
  have h: "holding_gate (capabilities (chan w)) off" using bspec [OF Suc.prems(2) [unfolded list_all_iff], of 0] by (cases n) auto
  have "map (\<lambda>i. holding_value (chan w) (off + of_nat i)) [0..<Suc n] =
      holding_value (chan w) off # map (\<lambda>i. holding_value (chan w) (off + 1 + of_nat i)) [0..<n]"
    by (simp add: upt_conv_Cons map_Suc_upt [symmetric] comp_def add.assoc del: upt_Suc map_Suc_upt)
  then show ?case
    using Suc.IH [of "settle w" "off + 1"] Suc.prems g
    by (simp add: holding_law [OF Suc.prems(1) h] chAddr_Suc settle_law del: upt_Suc)
qed simp

lemma hold_block:
  assumes "serves L unit rd_in rd_hold wr" and "linked unit w s" and "up w" and "n \<noteq> 0"
    and "offs = map (\<lambda>i. off + of_nat i) [0..<unat n]" and "list_all (holding_gate (capabilities (chan w))) offs"
  shows "readRegsInternal L True (chAddr ch off) n (- 1) s =
    Some (Some (map (holding_value (chan w)) offs), after (settle w) s)"
proof (rule read_block [OF assms(2)])
  have "unat n \<noteq> 0" using assms(4) by (simp add: unat_eq_zero)
  then show "run_request L (the (bus_port (the (session_bus s)))) unit
      (if True then Read_Holding (chAddr ch off) n else Read_Input (chAddr ch off) n) w =
    Some (Inr (map (holding_value (chan w)) offs), settle w)"
    using assms(1,5,6) read_each_block [OF assms(3), of off "unat n"] by (simp add: serves_def list_all_iff comp_def)
qed

lemma caps_block:
  assumes "serves L unit rd_in rd_hold wr" and "linked unit w s" and "up w"
  shows "readRegsInternal L False (chAddr ch CH_CAPABILITY_FLAGS) 1 (- 1) s =
    Some (Some [capabilities (chan w)], after (settle w) s)"
proof (rule read_block [OF assms(2)])
  have "read_each rd_in (chAddr ch CH_CAPABILITY_FLAGS) (unat (1 :: u16)) w = Some (Some [capabilities (chan w)], settle w)"
    using caps_law [OF assms(3)] by (simp add: numeral_eq_Suc)
  then show "run_request L (the (bus_port (the (session_bus s)))) unit
      (if False then Read_Holding (chAddr ch CH_CAPABILITY_FLAGS) 1 else Read_Input (chAddr ch CH_CAPABILITY_FLAGS) 1) w =
    Some (Inr [capabilities (chan w)], settle w)"
    using assms(1) by (simp add: serves_def)
qed

lemma chAddr_0: "chAddr ch 0 + off = chAddr ch off"
  by (simp add: chAddr_def)

end

text \<open>The registers one by one.\<close>

lemma config_gates [simp]:
  "holding_gate caps 0" "holding_gate caps 1" "holding_gate caps 2"
  "holding_gate caps 3 \<longleftrightarrow> has_cap caps CH_CAP_RAW_OUTPUT_DRIVE" "holding_gate caps 4 \<longleftrightarrow> has_cap caps CH_CAP_RAW_OUTPUT_DRIVE"
  "holding_gate caps 5 \<longleftrightarrow> has_cap caps CH_CAP_RAW_OUTPUT_DRIVE" "holding_gate caps 6 \<longleftrightarrow> has_cap caps CH_CAP_RAW_OUTPUT_DRIVE"
  "holding_gate caps 7 \<longleftrightarrow> has_cap caps CH_CAP_RAW_OUTPUT_DRIVE"
  "holding_gate caps 8" "holding_gate caps 9" "holding_gate caps 10" "holding_gate caps 11" "holding_gate caps 12"
  "holding_gate caps 13 \<longleftrightarrow> has_cap caps CH_CAP_CURRENT_MEASUREMENT"
  "holding_gate caps 14 \<longleftrightarrow> has_cap caps CH_CAP_CURRENT_MEASUREMENT"
  "holding_gate caps 15 \<longleftrightarrow> has_cap caps CH_CAP_CURRENT_MEASUREMENT"
  "holding_gate caps 16 \<longleftrightarrow> has_cap caps CH_CAP_RAW_OUTPUT_DRIVE \<and> has_cap caps CH_CAP_VOLTAGE_MEASUREMENT"
  "holding_gate caps 17 \<longleftrightarrow> \<not> has_cap caps CH_CAP_RAW_OUTPUT_DRIVE \<and> has_cap caps CH_CAP_OUTPUT_ENABLE"
  by (simp_all add: holding_gate_def ch_holding_view_def vc_catalog_supported_def and_two_bits word_le_nat_alt)

lemma cal_gates [simp]:
  "holding_gate caps 20 \<longleftrightarrow> has_cap caps CH_CAP_RAW_OUTPUT_DRIVE" "holding_gate caps 21 \<longleftrightarrow> has_cap caps CH_CAP_RAW_OUTPUT_DRIVE"
  "holding_gate caps 22 \<longleftrightarrow> has_cap caps CH_CAP_VOLTAGE_MEASUREMENT" "holding_gate caps 23 \<longleftrightarrow> has_cap caps CH_CAP_VOLTAGE_MEASUREMENT"
  "holding_gate caps 24 \<longleftrightarrow> has_cap caps CH_CAP_CURRENT_MEASUREMENT" "holding_gate caps 25 \<longleftrightarrow> has_cap caps CH_CAP_CURRENT_MEASUREMENT"
  "holding_gate caps 26 \<longleftrightarrow> has_cap caps CH_CAP_RAW_OUTPUT_DRIVE" "holding_gate caps 27 \<longleftrightarrow> has_cap caps CH_CAP_VOLTAGE_MEASUREMENT"
  "holding_gate caps 28 \<longleftrightarrow> has_cap caps CH_CAP_CURRENT_MEASUREMENT"
  by (simp_all add: holding_gate_def ch_holding_view_def vc_catalog_supported_def and_two_bits word_le_nat_alt)

lemma values_at [simp]:
  "holding_value k 0 = 0" "holding_value k 1 = 0" "holding_value k 2 = 0"
  "holding_value k 3 = configured_target_voltage (config k)" "holding_value k 4 = ramp_up_step (config k)"
  "holding_value k 5 = ramp_up_interval (config k)" "holding_value k 6 = ramp_down_step (config k)"
  "holding_value k 7 = ramp_down_interval (config k)"
  "holding_value k 8 = u16_of_vc_recovery_policy_mode (recovery_policy_mode (config k))"
  "holding_value k 9 = auto_retry_delay (config k)" "holding_value k 10 = auto_retry_max_count (config k)"
  "holding_value k 11 = auto_retry_window (config k)" "holding_value k 12 = current_safe_band_pct (config k)"
  "holding_value k 13 = u16_of_vc_protection_mode (current_protection_mode (config k))"
  "holding_value k 14 = u16_of_vc_output_action (current_protection_output_action (config k))"
  "holding_value k 15 = current_limit_threshold (config k)" "holding_value k 16 = auto_derate_step (config k)"
  "holding_value k 17 \<noteq> 0 \<longleftrightarrow> configured_output_enabled (config k)"
  by (simp_all add: holding_value_def ch_holding_view_def vc_read_switch_def value_of_bool_u16)

lemma cal_values_at [simp]:
  "holding_value k 20 = output_calib_k (cal_config k)" "holding_value k 21 = output_calib_b (cal_config k)"
  "holding_value k 22 = measured_voltage_calib_k (cal_config k)" "holding_value k 23 = measured_voltage_calib_b (cal_config k)"
  "holding_value k 24 = measured_current_calib_k (cal_config k)" "holding_value k 25 = measured_current_calib_b (cal_config k)"
  "holding_value k 26 = output_calib_k_exp (cal_config k)" "holding_value k 27 = measured_voltage_calib_k_exp (cal_config k)"
  "holding_value k 28 = measured_current_calib_k_exp (cal_config k)"
  by (simp_all add: holding_value_def ch_holding_view_def vc_read_switch_def)

subsection \<open>What the host should see\<close>

text \<open>The structures of the host filled from a channel: the fields of its capabilities, the others as they were.\<close>

definition host_config :: "'d vc_channel \<Rightarrow> channel_config_host \<Rightarrow> channel_config_host" where
  "host_config k cfg =
    (let c = config k; r = has_cap (capabilities k) CH_CAP_RAW_OUTPUT_DRIVE; v = has_cap (capabilities k) CH_CAP_VOLTAGE_MEASUREMENT;
         i = has_cap (capabilities k) CH_CAP_CURRENT_MEASUREMENT; oe = has_cap (capabilities k) CH_CAP_OUTPUT_ENABLE;
         cfg1 = cfg\<lparr>outputAction := 0, faultCommand := 0,
           recoveryPolicyMode := u16_of_vc_recovery_policy_mode (recovery_policy_mode c),
           autoRetryDelay := auto_retry_delay c, autoRetryMaxCount := auto_retry_max_count c,
           autoRetryWindow := auto_retry_window c, currentSafeBandPct := current_safe_band_pct c\<rparr>;
         cfg2 = (if r then cfg1\<lparr>configuredTargetVRaw := configured_target_voltage c, rampUpStepRaw := ramp_up_step c,
           rampUpInterval := ramp_up_interval c, rampDownStepRaw := ramp_down_step c,
           rampDownInterval := ramp_down_interval c\<rparr> else cfg1);
         cfg3 = (if i then cfg2\<lparr>iProtMode := u16_of_vc_protection_mode (current_protection_mode c),
           iProtOutputAction := u16_of_vc_output_action (current_protection_output_action c),
           iLimitThresholdRaw := current_limit_threshold c\<rparr> else cfg2);
         cfg4 = (if r \<and> v then cfg3\<lparr>derateStepRaw := auto_derate_step c\<rparr> else cfg3)
     in if \<not> r \<and> oe then cfg4\<lparr>outputEnabledCfg := configured_output_enabled c\<rparr> else cfg4)"

definition host_cal_config :: "'d vc_channel \<Rightarrow> channel_cal_config_host \<Rightarrow> channel_cal_config_host" where
  "host_cal_config k cal =
    (let c = cal_config k; r = has_cap (capabilities k) CH_CAP_RAW_OUTPUT_DRIVE; v = has_cap (capabilities k) CH_CAP_VOLTAGE_MEASUREMENT;
         i = has_cap (capabilities k) CH_CAP_CURRENT_MEASUREMENT;
         cal1 = (if r then cal\<lparr>outCalK := output_calib_k c, outCalB := output_calib_b c, outCalKExp := output_calib_k_exp c\<rparr>
                 else cal);
         cal2 = (if v then cal1\<lparr>measVCalK := measured_voltage_calib_k c, measVCalB := measured_voltage_calib_b c,
                   measVCalKExp := measured_voltage_calib_k_exp c\<rparr> else cal1)
     in if i then cal2\<lparr>measICalK := measured_current_calib_k c, measICalB := measured_current_calib_b c,
          measICalKExp := measured_current_calib_k_exp c\<rparr> else cal2)"

context channel_registers
begin

lemma reads_output_block:
  assumes h: "serves L unit rd_in rd_hold wr" "linked unit w s" "up w"
  shows "readChannelOutputBlock L ch (capabilities (chan w)) cfg s =
    Some (let c = config (chan w); cfg1 = cfg\<lparr>outputAction := 0, faultCommand := 0\<rparr>
      in if has_cap (capabilities (chan w)) CH_CAP_RAW_OUTPUT_DRIVE
         then cfg1\<lparr>configuredTargetVRaw := configured_target_voltage c, rampUpStepRaw := ramp_up_step c,
           rampUpInterval := ramp_up_interval c, rampDownStepRaw := ramp_down_step c, rampDownInterval := ramp_down_interval c\<rparr>
         else cfg1, after (settle w) s)"
proof -
  have 8: "readRegsInternal L True (chAddr ch 0) 8 (- 1) s =
      Some (Some (map (holding_value (chan w)) [0, 1, 2, 3, 4, 5, 6, 7]), after (settle w) s)"
    if "has_cap (capabilities (chan w)) CH_CAP_RAW_OUTPUT_DRIVE"
    using that by (intro hold_block [OF h]) (simp_all add: upt_rec)
  have 3: "readRegsInternal L True (chAddr ch 0) 3 (- 1) s =
      Some (Some (map (holding_value (chan w)) [0, 1, 2]), after (settle w) s)"
    by (intro hold_block [OF h]) (simp_all add: upt_rec)
  show ?thesis
    using 8 3 by (simp add: readChannelOutputBlock_def if_connected_linked [OF h(2)] Let_def reg_at_def)
qed

text \<open>One block of the configuration: the read of \<open>n\<close> registers gives the values at \<open>offs\<close>, and the board settles.\<close>

lemma reads_recovery_block:
  assumes h: "serves L unit rd_in rd_hold wr" "linked unit w s" "up w"
  shows "readChannelRecoveryBlock L ch cfg s =
    Some (let c = config (chan w) in cfg\<lparr>recoveryPolicyMode := u16_of_vc_recovery_policy_mode (recovery_policy_mode c),
      autoRetryDelay := auto_retry_delay c, autoRetryMaxCount := auto_retry_max_count c,
      autoRetryWindow := auto_retry_window c, currentSafeBandPct := current_safe_band_pct c\<rparr>, after (settle w) s)"
proof -
  have "readRegsInternal L True (chAddr ch 8) 5 (- 1) s =
      Some (Some (map (holding_value (chan w)) [8, 9, 10, 11, 12]), after (settle w) s)"
    by (intro hold_block [OF h]) (simp_all add: upt_rec)
  then show ?thesis
    by (simp add: readChannelRecoveryBlock_def if_connected_linked [OF h(2)] chAddr_0 Let_def reg_at_def)
qed

lemma reads_protection_block:
  assumes h: "serves L unit rd_in rd_hold wr" "linked unit w s" "up w"
  shows "readChannelProtectionBlock L ch (capabilities (chan w)) cfg s =
    Some (if has_cap (capabilities (chan w)) CH_CAP_CURRENT_MEASUREMENT
      then let c = config (chan w) in (cfg\<lparr>iProtMode := u16_of_vc_protection_mode (current_protection_mode c),
        iProtOutputAction := u16_of_vc_output_action (current_protection_output_action c),
        iLimitThresholdRaw := current_limit_threshold c\<rparr>, after (settle w) s)
      else (cfg, s))"
proof -
  have "readRegsInternal L True (chAddr ch 13) 3 (- 1) s =
      Some (Some (map (holding_value (chan w)) [13, 14, 15]), after (settle w) s)"
    if "has_cap (capabilities (chan w)) CH_CAP_CURRENT_MEASUREMENT"
    using that by (intro hold_block [OF h]) (simp_all add: upt_rec)
  then show ?thesis
    by (simp add: readChannelProtectionBlock_def if_connected_linked [OF h(2)] chAddr_0 Let_def reg_at_def)
qed

lemma reads_one:
  assumes h: "serves L unit rd_in rd_hold wr" "linked unit w s" "up w" and "holding_gate (capabilities (chan w)) off"
  shows "readRegsInternal L True (chAddr ch off) 1 (- 1) s = Some (Some [holding_value (chan w) off], after (settle w) s)"
  using hold_block [OF h, of 1 "[off]" off] assms(4) by simp

lemma reads_derate_block:
  assumes h: "serves L unit rd_in rd_hold wr" "linked unit w s" "up w"
  shows "readChannelDerateBlock L ch (capabilities (chan w)) cfg s =
    Some (if has_cap (capabilities (chan w)) CH_CAP_RAW_OUTPUT_DRIVE \<and> has_cap (capabilities (chan w)) CH_CAP_VOLTAGE_MEASUREMENT
      then (cfg\<lparr>derateStepRaw := auto_derate_step (config (chan w))\<rparr>, after (settle w) s) else (cfg, s))"
  using reads_one [OF h, of 16]
  by (simp add: readChannelDerateBlock_def if_connected_linked [OF h(2)] chAddr_0 reg_at_def)

lemma reads_output_enabled_block:
  assumes h: "serves L unit rd_in rd_hold wr" "linked unit w s" "up w"
  shows "readChannelOutputEnabledBlock L ch (capabilities (chan w)) cfg s =
    Some (if \<not> has_cap (capabilities (chan w)) CH_CAP_RAW_OUTPUT_DRIVE \<and> has_cap (capabilities (chan w)) CH_CAP_OUTPUT_ENABLE
      then (cfg\<lparr>outputEnabledCfg := configured_output_enabled (config (chan w))\<rparr>, after (settle w) s) else (cfg, s))"
  using reads_one [OF h, of 17]
  by (simp add: readChannelOutputEnabledBlock_def if_connected_linked [OF h(2)] chAddr_0 reg_at_def)

lemma acquires_caps:
  assumes h: "serves L unit rd_in rd_hold wr" "linked unit w s" "up w" and "caps = 0 \<or> caps = capabilities (chan w)"
  shows "acquire_caps L ch caps s = Some (capabilities (chan w), if caps = 0 then after (settle w) s else s)"
  using caps_block [OF h] assms(4) by (auto simp: acquire_caps_def chAddr_0 reg_at_def)

lemma reads_config:
  assumes h: "serves L unit rd_in rd_hold wr" "linked unit w s" "up w" and c: "caps = 0 \<or> caps = capabilities (chan w)"
  shows "readChannelConfig L ch caps cfg s = Some (host_config (chan w) cfg, after (settle w) s)"
proof -
  let ?s0 = "if caps = 0 then after (settle w) s else s" and ?w0 = "if caps = 0 then settle w else w"
  have s0: "linked unit ?w0 ?s0" "up ?w0" "chan ?w0 = chan w" "settle ?w0 = settle w" "after w1 ?s0 = after w1 s" for w1
    using h settle_law by auto
  have s1: "linked unit (settle w) (after (settle w) s)" "up (settle w)" using h settle_law by auto
  note out = reads_output_block [OF h(1) s0(1,2), unfolded s0(3-5)]
  note blocks = reads_recovery_block [OF h(1) s1, unfolded settle_law(2,3)]
    reads_protection_block [OF h(1) s1, unfolded settle_law(2,3)]
    reads_derate_block [OF h(1) s1, unfolded settle_law(2,3)]
    reads_output_enabled_block [OF h(1) s1, unfolded settle_law(2,3)]
  show ?thesis
    unfolding readChannelConfig_def if_connected_linked [OF h(2)] acquires_caps [OF h c]
    by (simp add: out blocks host_config_def Let_def)
qed

lemma reads_pair:
  assumes h: "serves L unit rd_in rd_hold wr" "linked unit w s" "up w"
    and g: "present \<longleftrightarrow> holding_gate (capabilities (chan w)) off" "holding_gate (capabilities (chan w)) (off + 1) = present"
      "holding_gate (capabilities (chan w)) exp_off = present"
  shows "read_pair L present (chAddr ch off) (chAddr ch exp_off) set_kb set_exp cal s =
    Some (if present then (set_exp (holding_value (chan w) exp_off)
        (set_kb (holding_value (chan w) off) (holding_value (chan w) (off + 1)) cal), after (settle w) s) else (cal, s))"
proof (cases present)
  case True
  have 2: "readRegsInternal L True (chAddr ch off) 2 (- 1) s =
      Some (Some (map (holding_value (chan w)) [off, off + 1]), after (settle w) s)"
    using True g by (intro hold_block [OF h]) (simp_all add: upt_rec)
  have s1: "linked unit (settle w) (after (settle w) s)" "up (settle w)" using h settle_law by auto
  show ?thesis
    using True g 2 reads_one [OF h(1) s1, of exp_off] by (simp add: read_pair_def settle_law reg_at_def Let_def)
qed (simp add: read_pair_def)

lemma reads_cal_config:
  assumes h: "serves L unit rd_in rd_hold wr" "linked unit w s" "up w" and c: "caps = 0 \<or> caps = capabilities (chan w)"
  shows "\<exists>s1. readChannelCalConfig L ch caps cal s = Some (host_cal_config (chan w) cal, s1) \<and> s1 \<in> {s, after (settle w) s}"
proof -
  let ?s0 = "if caps = 0 then after (settle w) s else s" and ?w0 = "if caps = 0 then settle w else w"
  have s0: "linked unit ?w0 ?s0" "up ?w0" "chan ?w0 = chan w" "settle ?w0 = settle w" "after w1 ?s0 = after w1 s" for w1
    using h settle_law by auto
  have s1: "linked unit (settle w) (after (settle w) s)" "up (settle w)" using h settle_law by auto
  have 9: "readRegsInternal L True (chAddr ch 20) 9 (- 1) ?s0 =
      Some (Some (map (holding_value (chan w)) [20, 21, 22, 23, 24, 25, 26, 27, 28]), after (settle w) s)"
    if "has_cap (capabilities (chan w)) CH_CAP_RAW_OUTPUT_DRIVE" "has_cap (capabilities (chan w)) CH_CAP_VOLTAGE_MEASUREMENT"
      "has_cap (capabilities (chan w)) CH_CAP_CURRENT_MEASUREMENT"
    using that hold_block [OF h(1) s0(1,2), of 9 "[20, 21, 22, 23, 24, 25, 26, 27, 28]" 20, unfolded s0(3-5)] by (simp add: upt_rec)
  note first = reads_pair [OF h(1) s0(1,2), unfolded s0(3-5)]
  note then_ = reads_pair [OF h(1) s1, unfolded settle_law(2,3)]
  show ?thesis
    unfolding readChannelCalConfig_def if_connected_linked [OF h(2)] acquires_caps [OF h c]
    by (simp add: 9 first then_ reads_pair [OF h] chAddr_0 host_cal_config_def Let_def reg_at_def)
qed

end

subsection \<open>The firmware as that board\<close>

lemma chAddr_channel: "chAddr (uint (c :: u8)) off = 40 + 40 * ucast c + off"
proof -
  have "(word_of_int (40 + x * 40) :: u16) = 40 + 40 * word_of_int x" for x by simp
  then show ?thesis unfolding chAddr_def ucast_eq by (simp only:)
qed

lemma holding_rows:
  "list_all (\<lambda>(off, field, w). off \<le> 28 \<longrightarrow>
     (case map_of vc_regs field of None \<Rightarrow> False | Some (t, access, category) \<Rightarrow>
        if access = REG_WO then map_of (vc_read_switch :: (u16 \<times> ('d vc_channel \<Rightarrow> reg_value)) list) field = None
        else field \<in> set (map fst (vc_read_switch :: (u16 \<times> ('d vc_channel \<Rightarrow> reg_value)) list)))) ch_holding_view"
  by (simp add: ch_holding_view_def vc_regs_def vc_read_switch_def word_le_nat_alt)

lemma firmware_holding:
  fixes s :: "('d, 's, 'm) firmware" and ch :: u8
  assumes up: "catalog_up (cat B) s" and c: "unat ch < VC_MAX_CHANNELS (cat B)"
    and g: "holding_gate (capabilities (channels (rt_ctrl (vc_memory s)) ! unat ch)) off"
  shows "vc_mb_holding_rd B z A (chAddr (uint ch) off) s =
    Some (VC_MB_OK, Some (holding_value (channels (rt_ctrl (vc_memory s)) ! unat ch) off), drop_latch s)"
proof -
  let ?k = "channels (rt_ctrl (vc_memory s)) ! unat ch"
  obtain field w where m: "map_of ch_holding_view off = Some (field, w)" and o: "off \<le> 28"
    and sup: "vc_catalog_supported field (capabilities ?k)"
    using g by (auto simp: holding_gate_def split: option.splits)
  have view: "(off, field, w) \<in> set ch_holding_view" using m by (rule map_of_SomeD)
  obtain t access category where row: "map_of vc_regs field = Some (t, access, category)"
    and a: "if access = REG_WO then map_of (vc_read_switch :: (u16 \<times> ('d vc_channel \<Rightarrow> reg_value)) list) field = None
        else field \<in> set (map fst (vc_read_switch :: (u16 \<times> ('d vc_channel \<Rightarrow> reg_value)) list))"
    using bspec [OF holding_rows [unfolded list_all_iff] view] o by (auto split: option.splits)
  have gate: "ch_holding_supported (capabilities ?k) off"
    using bspec [OF holding_gates [unfolded list_all_iff] view] sup by simp
  note reg = read_channel_register [OF up c map_of_SomeD [OF row]]
  show ?thesis
  proof (cases "access = REG_WO")
    case True
    then show ?thesis
      using holding_read [OF up c view reg [unfolded Let_def, simplified True, simplified]] gate a
      by (simp add: chAddr_channel holding_value_def m True)
  next
    case False
    then have f: "field \<in> set (map fst (vc_read_switch :: (u16 \<times> ('d vc_channel \<Rightarrow> reg_value)) list))" using a by simp
    have v: "register_reader t field ?k = (REG_OK, the (map_of vc_read_switch field) ?k)"
      using readable_fields [OF f, of ?k] row by simp
    have "map_of (vc_read_switch :: (u16 \<times> ('d vc_channel \<Rightarrow> reg_value)) list) field \<noteq> None"
      using f by (simp add: map_of_eq_None_iff)
    then obtain rd where rd: "map_of (vc_read_switch :: (u16 \<times> ('d vc_channel \<Rightarrow> reg_value)) list) field = Some rd" by blast
    have "reg_handle_read (reg_vc_channel_handle (cat B) ch (REG_VC_ORD field)) s = Some (REG_OK, rd ?k)"
      by (simp add: reg Let_def False sup v rd)
    from holding_read [OF up c view this] show ?thesis by (simp add: chAddr_channel holding_value_def m rd)
  qed
qed

lemma firmware_caps:
  fixes ch :: u8
  assumes up: "catalog_up (cat B) s" and c: "unat ch < VC_MAX_CHANNELS (cat B)"
  shows "vc_mb_input_rd B (chAddr (uint ch) CH_CAPABILITY_FLAGS) s =
    Some (VC_MB_OK, Some (capabilities (channels (rt_ctrl (vc_memory s)) ! unat ch)), drop_latch s)"
proof -
  let ?k = "channels (rt_ctrl (vc_memory s)) ! unat ch"
  have up': "catalog_up (cat B) (drop_latch s)" using up by simp
  have m: "map_of ch_input_view CH_CAPABILITY_FLAGS = Some (REG_VC_FIELD_CAPABILITY_FLAGS, 0)" by (simp add: ch_input_view_def)
  have h: "reg_handle_read (reg_vc_channel_handle (cat B) ch (REG_VC_ORD REG_VC_FIELD_CAPABILITY_FLAGS)) (drop_latch s) =
      Some (REG_OK, value_of_u16 (capabilities ?k))"
    by (simp add: read_channel_register [OF up' c caps_row] register_reader_def VC_VALUE_def vc_catalog_supported_def Let_def)
  show ?thesis
    unfolding chAddr_channel
    by (subst read_input_block [OF up c _ m])
      (use channel_wire_read [OF c caps_row _ h, where w = 0] in \<open>simp_all add: ch_input_supported_def mb_read_def\<close>)
qed

interpretation board: channel_registers "vc_mb_input_rd B" "vc_mb_holding_rd B z A" "uint (ch :: u8)"
    "\<lambda>s. catalog_up (cat B) s \<and> unat ch < VC_MAX_CHANNELS (cat B)"
    "\<lambda>s. channels (rt_ctrl (vc_memory s)) ! unat ch" drop_latch
proof (unfold_locales, goal_cases)
  case (1 s off)
  then show ?case by (elim conjE) (rule firmware_holding)
next
  case (2 s)
  then show ?case by (elim conjE) (rule firmware_caps)
next
  case (3 s)
  then show ?case by simp
next
  case (4 s)
  show ?case by simp
next
  case (5 s)
  show ?case by (simp add: drop_latch_def)
qed

text \<open>
  C29. The host reads what the channel has. Over a line that answers as the server of a running board does, the
  configuration and the calibration that a session reads are those of the channel: every field the channel has the
  capability for has the channel's value, every other field is as the caller gave it, commands read 0, and
  nothing of the board changes but its word latch. It makes no difference whether the caller knows the
  capabilities or the session reads them first.
\<close>

theorem host_reads_the_configuration:
  fixes s :: "('d, 's, 'm) firmware" and ch :: u8
  assumes "serves L unit (vc_mb_input_rd B) (vc_mb_holding_rd B z A) wr" and "linked unit s h"
    and "catalog_up (cat B) s" and "unat ch < VC_MAX_CHANNELS (cat B)"
    and "caps \<in> {0, capabilities (channels (rt_ctrl (vc_memory s)) ! unat ch)}"
  shows "let k = channels (rt_ctrl (vc_memory s)) ! unat ch in
    readChannelConfig L (uint ch) caps cfg h = Some (host_config k cfg, after (drop_latch s) h) \<and>
    (\<exists>h1. readChannelCalConfig L (uint ch) caps cal h = Some (host_cal_config k cal, h1) \<and>
      h1 \<in> {h, after (drop_latch s) h})"
proof -
  have up: "catalog_up (cat B) s \<and> unat ch < VC_MAX_CHANNELS (cat B)" using assms by simp
  have c: "caps = 0 \<or> caps = capabilities (channels (rt_ctrl (vc_memory s)) ! unat ch)" using assms by simp
  show ?thesis
    unfolding Let_def
    using board.reads_config [OF assms(1,2) up c] board.reads_cal_config [OF assms(1,2) up c] by blast
qed

text \<open>A library and a line as the law has them, for any handlers.\<close>

definition served_lib ::
    "'w reg_handler \<Rightarrow> 'w reg_handler \<Rightarrow> (u16 \<Rightarrow> u16 \<Rightarrow> 'w \<Rightarrow> (vc_mb_result \<times> 'w) option) \<Rightarrow> 'w modbus_lib" where
  "served_lib rd_in rd_hold wr =
    \<lparr>create_client = (\<lambda>_ _ _ w. (True, w)),
     poll = (\<lambda>timeout unit req w.
       case req of
         Read_Input a n \<Rightarrow>
           (case read_each rd_in a (unat n) w of
              Some (Some vs, w1) \<Rightarrow> (Good vs, w1) | Some (None, w1) \<Rightarrow> (Bad ''exception'', w1) | None \<Rightarrow> (Bad ''timeout'', w))
       | Read_Holding a n \<Rightarrow>
           (case read_each rd_hold a (unat n) w of
              Some (Some vs, w1) \<Rightarrow> (Good vs, w1) | Some (None, w1) \<Rightarrow> (Bad ''exception'', w1) | None \<Rightarrow> (Bad ''timeout'', w))
       | Write_Single a v \<Rightarrow>
           (case wr a v w of
              Some (r, w1) \<Rightarrow> (if r = VC_MB_OK then Good [v] else Bad ''exception'', w1) | None \<Rightarrow> (Bad ''timeout'', w)))\<rparr>"

lemma served_lib_serves: "serves (served_lib rd_in rd_hold wr) unit rd_in rd_hold wr"
proof -
  have run: "poll L timeout unit req w = (Good vs, w1) \<Longrightarrow> run_request L timeout unit req w = Some (Inr vs, w1)"
    "poll L timeout unit req w = (Bad e, w1) \<Longrightarrow> run_request L timeout unit req w = Some (Inl e, w1)"
    for L :: "'a modbus_lib" and timeout req w vs w1 e
    by (simp_all add: run_request.simps)
  show ?thesis
    unfolding serves_def
  proof (intro allI conjI impI, goal_cases)
    case (1 timeout a n w vs w1)
    then show ?case by (intro run) (simp add: served_lib_def)
  next
    case (2 timeout a n w vs w1)
    then show ?case by (intro run) (simp add: served_lib_def)
  next
    case (3 timeout a n w r w1)
    then show ?case by (cases "r = VC_MB_OK") (auto simp: served_lib_def intro!: run)
  qed
qed

definition open_session :: "'w \<Rightarrow> 'w session" where
  "open_session w = new_session (Some ((new_bus w)\<lparr>bus_port := Some 500, bus_connected := True\<rparr>)) 1"

lemma linked_open: "linked 1 w (open_session w)"
  by (simp add: linked_def open_session_def new_session_def new_bus_def)

lemma host_reads_the_configuration_witness:
  "\<exists>cfg h. readChannelConfig (served_lib (vc_mb_input_rd bench_fw) (vc_mb_holding_rd bench_fw map_settings bench_line)
        (\<lambda>_ _ _. None)) 1 0 new_channel_config (open_session (bench_firmware 7)) = Some (cfg, h) \<and>
     autoRetryDelay cfg = auto_retry_delay (config (channels (rt_ctrl (vc_memory (bench_firmware 7))) ! 1))"
proof -
  have up: "catalog_up (cat bench_fw) (bench_firmware 7)"
    by (simp add: catalog_up_def bench_fw_def bench_build_def bench_firmware_def bench_runtime_def bench_channels)
  have c: "unat (1 :: u8) < VC_MAX_CHANNELS (cat bench_fw)" by (simp add: bench_fw_def bench_build_def)
  from host_reads_the_configuration [OF served_lib_serves linked_open up c, of 0 map_settings bench_line "\<lambda>_ _ _. None"]
  show ?thesis by (auto simp: Let_def host_config_def)
qed

subsection \<open>Writes of several registers\<close>

text \<open>What a board does with writes one after the other: how many it took, and the state it is in.\<close>

fun write_run :: "(u16 \<Rightarrow> u16 \<Rightarrow> 'w \<Rightarrow> (vc_mb_result \<times> 'w) option) \<Rightarrow> u16 \<Rightarrow> u16 list \<Rightarrow> 'w \<Rightarrow> (nat \<times> 'w) option" where
  "write_run wr a [] w = Some (0, w)"
| "write_run wr a (v # vs) w = do {
     (r, w1) \<leftarrow> wr a v w;
     if r \<noteq> VC_MB_OK then Some (0, w1)
     else do {
       (k, w2) \<leftarrow> write_run wr (a + 1) vs w1;
       Some (Suc k, w2)
     }
   }"

lemma write_each_run:
  assumes "serves L unit rd_in rd_hold wr"
  shows "write_run wr a vs (line b) = Some (k, w1) \<Longrightarrow>
    \<exists>e. write_each L unit a vs b = Some (k = length vs, b\<lparr>line := w1, bus_error := e\<rparr>)"
proof (induction vs arbitrary: a b k)
  case Nil
  then show ?case by (auto intro!: exI [of _ "bus_error b"])
next
  case (Cons v vs)
  then obtain r w where wr: "wr a v (line b) = Some (r, w)" by (auto split: bind_splits)
  then obtain e out where run: "run_request L (the (bus_port b)) unit (Write_Single a v) (line b) =
      Some (if r = VC_MB_OK then Inr out else Inl e, w)"
    using assms unfolding serves_def by blast
  show ?case
  proof (cases "r = VC_MB_OK")
    case True
    then obtain k' where k: "write_run wr (a + 1) vs w = Some (k', w1)" "k = Suc k'"
      using Cons.prems wr by (auto split: bind_splits)
    then obtain e' where "write_each L unit (a + 1) vs (b\<lparr>line := w\<rparr>) =
        Some (k' = length vs, b\<lparr>line := w, line := w1, bus_error := e'\<rparr>)"
      using Cons.IH [of "a + 1" "b\<lparr>line := w\<rparr>" k'] by auto
    then show ?thesis using True run k by (auto simp: request_def)
  next
    case False
    then show ?thesis using Cons.prems wr run by (auto simp: request_def)
  qed
qed

lemma write_regs_run:
  assumes "serves L unit rd_in rd_hold wr" and "linked unit w h" and "write_run wr addr vs w = Some (k, w1)"
  shows "\<exists>h1. writeRegsInternal L addr vs override h = Some (k = length vs, h1) \<and> linked unit w1 h1 \<and>
    bus_port (the (session_bus h1)) = bus_port (the (session_bus h))"
proof -
  obtain b t where b: "session_bus h = Some b" "bus_connected b" "bus_port b = Some t"
    "map_of (test_boards b) (session_slave h) = None" "word_of_int (session_slave h) = unit" "line b = w"
    using assms(2) by (auto simp: linked_def split: option.splits)
  let ?b = "\<lambda>t. b\<lparr>last_slave := session_slave h, bus_port := Some t\<rparr>"
  have run: "\<exists>e. write_each L unit addr vs (?b t') = Some (k = length vs, (?b t')\<lparr>line := w1, bus_error := e\<rparr>)" for t'
    using write_each_run [OF assms(1), of addr vs "?b t'"] assms(3) b(6) by simp
  have t: "b\<lparr>last_slave := session_slave h\<rparr> = ?b t" using b(3) by simp
  have "\<exists>b1. bus_writeRegs L (session_slave h) addr vs override b = Some (k = length vs, b1) \<and> bus_connected b1 \<and>
      bus_port b1 = Some t \<and> test_boards b1 = test_boards b \<and> line b1 = w1"
    using run [of "nat override"] run [of t] b(2-5)
    by (auto simp: bus_writeRegs_def with_timeout_def t [symmetric])
  then obtain b1 where b1: "bus_writeRegs L (session_slave h) addr vs override b = Some (k = length vs, b1)"
    "bus_connected b1" "bus_port b1 = Some t" "test_boards b1 = test_boards b" "line b1 = w1" by blast
  then show ?thesis
    by (simp only: writeRegsInternal_def if_connected_linked [OF assms(2)] b(1)) (use b in \<open>simp add: linked_def\<close>)
qed

text \<open>
  C30. A write of several registers is a sequence of writes of one. Over such a line it succeeds exactly when the board
  takes every register, and when the board refuses one, the registers before it keep what was written. Either way
  the session is still linked and the response timeout of the port is the one it had, also when the call had one of
  its own.
\<close>

theorem host_write_stops_at_the_refusal:
  assumes "serves L unit rd_in rd_hold wr" and "linked unit w h" and "write_run wr addr vs w = Some (k, w1)"
  shows "\<exists>h1. writeRegsInternal L addr vs override h = Some (k = length vs, h1) \<and> linked unit w1 h1 \<and>
    bus_port (the (session_bus h1)) = bus_port (the (session_bus h))"
  using assms by (rule write_regs_run)

lemma host_write_stops_at_the_refusal_witness:
  "let wr = \<lambda>a v w. if a < 2 then Some (VC_MB_OK, w(a := v)) else Some (VC_MB_ILLEGAL_ADDRESS, w) in
   \<exists>h1. writeRegsInternal (served_lib (\<lambda>_ _. None) (\<lambda>_ _. None) wr) 0 [7, 8, 9] 2000 (open_session (\<lambda>_. 0)) =
     Some (False, h1) \<and> linked 1 ((\<lambda>_. 0)(0 := 7, 1 := 8)) h1"
proof -
  let ?wr = "\<lambda>(a :: u16) (v :: u16) (w :: u16 \<Rightarrow> u16).
      if a < 2 then Some (VC_MB_OK, w(a := v)) else Some (VC_MB_ILLEGAL_ADDRESS, w)"
  have "write_run ?wr 0 [7, 8, 9] (\<lambda>_. 0) = Some (2, (\<lambda>_. 0)(0 := 7, 1 := 8))" by (simp add: numeral_2_eq_2)
  from host_write_stops_at_the_refusal [OF served_lib_serves linked_open this, of "\<lambda>_ _. None" "\<lambda>_ _. None" 2000]
  show ?thesis by (auto simp: Let_def)
qed

end
