(* ===== verification/Application.thy ===== *)
theory Application
  imports Vc_Shell_Base Modbus_Config_Props
begin

text \<open>
  The program that runs on the board: the facade \<open>lib/voltage_control/vc.c\<close>, \<open>main\<close> of
  \<open>applications/psb_controller/src/main.c\<close>, and the parts of \<open>lib/sys_status/sys_status.c\<close> and
  \<open>sys_reset.c\<close> that run at start-up, in a timer and in a delayed work item. The devices, the
  creation of a thread and the reboot are parameters.
\<close>

subsection \<open>Starting and stopping the runtime\<close>

text \<open>What the devicetree and the build give to \<open>vc_runtime_create_static\<close> and to \<open>main\<close>.\<close>

record ('d, 's) app_build =
  app_nodes :: "'d dt_channel list"
  app_buffers :: "vc_channel_buffer list"
  app_storage :: "'s vc_storage_backend option"
  CONFIG_UI_MODBUS_RTU :: bool
  CONFIG_VC_SHELL :: bool

text \<open>
  The whole function around the construction in \<open>Vc_Runtime\<close>: the guard of the lifecycle, the counters
  that are cleared, and the publication. \<open>thread\<close> is whether the kernel gives a thread. The result is
  whether a pointer is returned.
\<close>

definition vc_runtime_create ::
    "fw_build \<Rightarrow> ('d, 's) app_build \<Rightarrow> bool \<Rightarrow> ('d, 's, 'm) firmware \<Rightarrow> (bool \<times> ('d, 's, 'm) firmware) option" where
  "vc_runtime_create B P thread s =
     (if catalog_lifecycle s \<noteq> VC_CATALOG_STOPPED then Some (False, s)
      else
        let s1 = s\<lparr>catalog_lifecycle := VC_CATALOG_STARTING, catalog_active_operations := 0,
                   catalog_quiesced := False\<rparr> in do {
          rt \<leftarrow> vc_runtime_create_static (kconf (fw_build.cat B)) (app_nodes P) (app_buffers P) (app_storage P)
                 (fw_nvs s1) (uptime_ms s1);
          let s2 = s1\<lparr>vc_memory := rt\<rparr>;
          Some (if \<not> thread then (False, s2\<lparr>catalog_lifecycle := VC_CATALOG_STOPPED\<rparr>)
                else (True, s2\<lparr>catalog_runtime := True, catalog_lifecycle := VC_CATALOG_RUNNING\<rparr>))
        })"

text \<open>
  \<open>vc_runtime_destroy\<close> waits twice. For the operations in the catalog to leave: each of them releases once;
  \<open>before\<close> is what the worker and the drivers do meanwhile. Then for the worker to end: \<open>after\<close> is what runs
  until it has. The result is \<open>None\<close> where the caller is still blocked.
\<close>

definition wait_quiesced :: "('d, 's, 'm) firmware \<Rightarrow> ('d, 's, 'm) firmware option" where
  "wait_quiesced s =
     (if catalog_active_operations s = 0 then Some s
      else
        let s1 = (vc_catalog_release ^^ unat (catalog_active_operations s)) s in
        if catalog_quiesced s1 then Some (s1\<lparr>catalog_quiesced := False\<rparr>) else None)"

definition vc_runtime_destroy ::
    "fw_build \<Rightarrow> 'd rt_event list \<Rightarrow> 'd rt_event list \<Rightarrow> ('d, 's, 'm) firmware \<Rightarrow> ('d, 's, 'm) firmware option" where
  "vc_runtime_destroy B before after s =
     (if catalog_lifecycle s \<noteq> VC_CATALOG_RUNNING then Some s
      else
        let K = kconf (fw_build.cat B) in do {
          rt1 \<leftarrow> rt_execs K before (vc_memory s);
          s1 \<leftarrow> wait_quiesced (s\<lparr>catalog_lifecycle := VC_CATALOG_STOPPING, vc_memory := rt1\<rparr>);
          rt2 \<leftarrow> rt_execs K (Rt_Stop # after) (vc_memory s1);
          if rt_phase rt2 = Worker_Stopped
          then Some (s1\<lparr>catalog_runtime := False, vc_memory := rt2, catalog_lifecycle := VC_CATALOG_STOPPED\<rparr>)
          else None
        })"

subsection \<open>The facade\<close>

text \<open>
  The program: the console it prints on, which holds the state of the firmware, and whether the pointer
  \<open>g_ctx.runtime\<close> is set. A context pointer is a \<open>bool\<close> too: there is one context.
\<close>

record ('d, 's, 'm) application =
  app_console :: "(('d, 's, 'm) firmware, 'd k_wait) console"
  ctx_runtime :: bool

abbreviation app_fw :: "('d, 's, 'm) application \<Rightarrow> ('d, 's, 'm) firmware" where
  "app_fw a \<equiv> con_sys (app_console a)"

definition set_fw :: "('d, 's, 'm) firmware \<Rightarrow> ('d, 's, 'm) application \<Rightarrow> ('d, 's, 'm) application" where
  "set_fw s a = a\<lparr>app_console := (app_console a)\<lparr>con_sys := s\<rparr>\<rparr>"

definition printk :: "string \<Rightarrow> ('d, 's, 'm) application \<Rightarrow> ('d, 's, 'm) application" where
  "printk s a = a\<lparr>app_console := shell_fprintf s (app_console a)\<rparr>"

definition init_from_runtime :: "bool \<Rightarrow> ('d, 's, 'm) application \<Rightarrow> bool \<times> ('d, 's, 'm) application" where
  "init_from_runtime rt a = (if \<not> rt then (False, a) else (True, a\<lparr>ctx_runtime := True\<rparr>))"

definition vc_init ::
    "fw_build \<Rightarrow> ('d, 's) app_build \<Rightarrow> bool \<Rightarrow> ('d, 's, 'm) application \<Rightarrow> (bool \<times> ('d, 's, 'm) application) option" where
  "vc_init B P thread a = do {
     (rt, s) \<leftarrow> vc_runtime_create B P thread (app_fw a);
     Some (init_from_runtime rt (set_fw s a))
   }"

definition vc_destroy ::
    "fw_build \<Rightarrow> 'd rt_event list \<Rightarrow> 'd rt_event list \<Rightarrow> bool \<Rightarrow> ('d, 's, 'm) application \<Rightarrow>
     ('d, 's, 'm) application option" where
  "vc_destroy B before after ctx a =
     (if \<not> ctx then Some a
      else do {
        s \<leftarrow> (if ctx_runtime a then vc_runtime_destroy B before after (app_fw a) else Some (app_fw a));
        Some ((set_fw s a)\<lparr>ctx_runtime := False\<rparr>)
      })"

definition vc_ctx_start ::
    "bool \<Rightarrow> ('d, 's, 'm) application \<Rightarrow> (vc_status \<times> ('d, 's, 'm) application) option" where
  "vc_ctx_start ctx a =
     (if \<not> ctx \<or> \<not> ctx_runtime a then Some (VC_ERR_INVALID_VALUE, a)
      else do {
        (st, rt) \<leftarrow> vc_runtime_start_sampling (vc_memory (app_fw a));
        Some (st, set_fw ((app_fw a)\<lparr>vc_memory := rt\<rparr>) a)
      })"

subsection \<open>The application\<close>

definition main ::
    "fw_build \<Rightarrow> ('d, 's) app_build \<Rightarrow> 's settings_api \<Rightarrow> 'm modbus_api \<Rightarrow> bool \<Rightarrow> ('d, 's, 'm) application \<Rightarrow>
     (int \<times> ('d, 's, 'm) application) option" where
  "main B P z A thread a = do {
     (ctx, a1) \<leftarrow> vc_init B P thread a;
     if \<not> ctx then Some (0, printk (''Failed to init vc'' @ newline) a1)
     else do {
       (st, a2) \<leftarrow> vc_ctx_start ctx a1;
       if st \<noteq> VC_OK
       then Some (0, printk (''Failed to start vc: '' @ fmt_d (vc_status_code st) @ newline) a2)
       else
         let (ret, a3) =
           (if CONFIG_UI_MODBUS_RTU P
            then (case modbus_adapter_init B z A (app_fw a2) of (ret, s) \<Rightarrow> (ret, set_fw s a2))
            else (0, a2)) in
         if ret < 0 then Some (0, a3)
         else
           let a4 = (if CONFIG_VC_SHELL P then a3\<lparr>app_console := vc_shell_init (app_console a3)\<rparr> else a3) in
           Some (0, printk (''psb_controller ready'' @ newline) a4)
     }
   }"

subsection \<open>The status service\<close>

text \<open>The semaphore that holds at most one unit, the period of the timer once started, and the thread.\<close>

record status_service =
  wake_sem :: nat
  sys_status_timer :: "u32 option"
  sys_status_thread :: bool

definition sys_status_timer_handler :: "status_service \<Rightarrow> status_service" where
  "sys_status_timer_handler v = v\<lparr>wake_sem := min 1 (wake_sem v + 1)\<rparr>"

text \<open>The sensor's bus: whether it is ready, and a write of bytes to an address.\<close>

record 'b i2c_bus =
  i2c_ready :: bool
  i2c_write :: "u8 list \<Rightarrow> u8 \<Rightarrow> 'b \<Rightarrow> int \<times> 'b"

abbreviation (input) SHT3XD_CMD_BREAK :: nat where "SHT3XD_CMD_BREAK \<equiv> 0x3093"
abbreviation (input) SHT3XD_I2C_ADDR :: u8 where "SHT3XD_I2C_ADDR \<equiv> 0x44"

definition sht31_pre_init :: "'b i2c_bus \<Rightarrow> 'b \<Rightarrow> int \<times> 'b" where
  "sht31_pre_init bus b =
     (if \<not> i2c_ready bus then (- ENODEV, b)
      else
        let cmd = [of_nat (SHT3XD_CMD_BREAK div 256), of_nat (SHT3XD_CMD_BREAK mod 256)] in
        (0, snd (i2c_write bus cmd SHT3XD_I2C_ADDR b)))"

definition sys_status_init ::
    "fw_build \<Rightarrow> bool \<Rightarrow> ('d, 's, 'm) firmware \<Rightarrow> status_service \<Rightarrow> int \<times> ('d, 's, 'm) firmware \<times> status_service" where
  "sys_status_init B gpio_ready s v =
     (if \<not> gpio_ready then (- ENODEV, s, v)
      else (0, s\<lparr>sys_run := False\<rparr>,
            \<lparr>wake_sem = 0, sys_status_timer = Some (CONFIG_SYS_STATUS_HEARTBEAT_INTERVAL_MS B),
             sys_status_thread = True\<rparr>))"

text \<open>
  The thread takes the semaphore and makes one pass of its loop; without a unit it is blocked. An event is
  an expiry of the timer, or a turn of the thread with what the sensor answers in it.
\<close>

datatype status_event = Timer_Expires | Thread_Runs sht3x

fun status_step ::
    "fw_build \<Rightarrow> status_event \<Rightarrow> ('d, 's, 'm) firmware \<times> status_service \<Rightarrow> ('d, 's, 'm) firmware \<times> status_service" where
  "status_step B Timer_Expires (s, v) = (s, if sys_status_timer v = None then v else sys_status_timer_handler v)"
| "status_step B (Thread_Runs e) (s, v) =
     (if sys_status_thread v \<and> 0 < wake_sem v
      then (sys_status_worker B e s, v\<lparr>wake_sem := wake_sem v - 1\<rparr>) else (s, v))"

subsection \<open>The reset\<close>

text \<open>\<open>sys_reboot\<close> is the kernel's. The work item runs when its deadline has passed.\<close>

definition sys_status_platform_reset ::
    "(('d, 's, 'm) firmware \<Rightarrow> ('d, 's, 'm) firmware) \<Rightarrow> ('d, 's, 'm) firmware \<Rightarrow> ('d, 's, 'm) firmware" where
  "sys_status_platform_reset sys_reboot s = sys_reboot s"

definition reset_work_handler ::
    "(('d, 's, 'm) firmware \<Rightarrow> ('d, 's, 'm) firmware) \<Rightarrow> ('d, 's, 'm) firmware \<Rightarrow> ('d, 's, 'm) firmware" where
  "reset_work_handler sys_reboot s = sys_status_platform_reset sys_reboot s"

definition system_work_queue ::
    "(('d, 's, 'm) firmware \<Rightarrow> ('d, 's, 'm) firmware) \<Rightarrow> ('d, 's, 'm) firmware \<Rightarrow> ('d, 's, 'm) firmware" where
  "system_work_queue sys_reboot s =
     (case reset_work s of
        Some deadline \<Rightarrow> if deadline \<le> uptime_ms s then reset_work_handler sys_reboot (s\<lparr>reset_work := None\<rparr>) else s
      | None \<Rightarrow> s)"

subsection \<open>Heartbeats and restarts\<close>

text \<open>However the timer and the thread interleave, the thread makes at most one pass for each expiry.\<close>

lemma status_thread_bounded:
  assumes "wake_sem v \<le> 1"
  shows "case fold (status_step B) es (s, v) of (s', v') \<Rightarrow> wake_sem v' \<le> 1 \<and>
    uint (status_tick_count s') \<le> uint (status_tick_count s) + int (wake_sem v) + int (length (filter (\<lambda>e. e = Timer_Expires) es))
      - int (wake_sem v')"
  using assms
proof (induction es arbitrary: s v)
  case (Cons e es)
  have count: "status_tick_count (sys_status_worker B x s) = status_tick_count s + 1" for x
    by (simp add: sys_status_worker_def read_environment_def Let_def)
  have "uint (status_tick_count s + 1) \<le> uint (status_tick_count s) + 1"
    by (metis uint_1 uint_add_le)
  then have more: "uint (status_tick_count (sys_status_worker B x s)) \<le> uint (status_tick_count s) + 1" for x
    by (simp add: count)
  show ?case
  proof (cases e)
    case Timer_Expires
    show ?thesis
    proof (cases "sys_status_timer v")
      case None
      then show ?thesis using Cons.IH [of v s] Cons.prems Timer_Expires by (auto split: prod.splits)
    next
      case (Some p)
      have "wake_sem (sys_status_timer_handler v) \<le> 1" "wake_sem (sys_status_timer_handler v) \<le> wake_sem v + 1"
        by (simp_all add: sys_status_timer_handler_def)
      then show ?thesis
        using Cons.IH [of "sys_status_timer_handler v" s] Timer_Expires Some by (auto split: prod.splits)
    qed
  next
    case (Thread_Runs x)
    show ?thesis
    proof (cases "sys_status_thread v \<and> 0 < wake_sem v")
      case True
      then show ?thesis
        using Cons.IH [of "v\<lparr>wake_sem := wake_sem v - 1\<rparr>" "sys_status_worker B x s"] more [of x] Cons.prems Thread_Runs
        by (auto split: prod.splits)
    next
      case False
      then show ?thesis using Cons.IH [of v s] Cons.prems Thread_Runs by (auto split: prod.splits)
    qed
  qed
qed simp

text \<open>Once destroyed, the runtime answers no register, and it can be created again.\<close>

lemma destroyed_is_stopped:
  assumes "vc_runtime_destroy B before after s = Some s'" and "catalog_lifecycle s = VC_CATALOG_RUNNING"
  shows "catalog_lifecycle s' = VC_CATALOG_STOPPED" and "\<not> catalog_runtime s'" and "vc_catalog_acquire s' = (False, s')"
  using assms by (auto simp: vc_runtime_destroy_def Let_def vc_catalog_acquire_def split: bind_splits if_splits)

subsection \<open>The program comes up, or says why not\<close>

lemma app_fw_simps [simp]:
  "app_fw (set_fw s a) = s" "ctx_runtime (set_fw s a) = ctx_runtime a" "app_fw (printk t a) = app_fw a"
  "con_out (app_console (set_fw s a)) = con_out (app_console a)"
  "con_out (app_console (printk t a)) = con_out (app_console a) @ t"
  "initialized (app_console (printk t a)) = initialized (app_console a)"
  by (simp_all add: set_fw_def printk_def shell_fprintf_def)

text \<open>The Modbus adapter leaves everything of the voltage-control system but the settings it stores.\<close>

lemma modbus_init_frame:
  assumes i: "modbus_adapter_init B z A s = (rc, s')"
  shows "channels (rt_ctrl (vc_memory s')) = channels (rt_ctrl (vc_memory s))"
    and "catalog_lifecycle s' = catalog_lifecycle s" and "catalog_runtime s' = catalog_runtime s"
proof -
  obtain created s1 where c: "vc_mb_adapter_create B z s = (created, s1)" by fastforce
  have s1: "channels (rt_ctrl (vc_memory s1)) = channels (rt_ctrl (vc_memory s)) \<and>
      catalog_lifecycle s1 = catalog_lifecycle s \<and> catalog_runtime s1 = catalog_runtime s"
    using c by (auto simp: vc_mb_adapter_create_def adapter_save_config_def Let_def set_active_def set_boot_def
        set_fw_nvs_def split: if_splits prod.splits)
  have "channels (rt_ctrl (vc_memory s')) = channels (rt_ctrl (vc_memory s1)) \<and>
      catalog_lifecycle s' = catalog_lifecycle s1 \<and> catalog_runtime s' = catalog_runtime s1"
    using i c by (cases created) (auto simp: modbus_adapter_init_def Let_def start_with_def modbus_server_start_def
        split: if_splits prod.splits)
  then show "channels (rt_ctrl (vc_memory s')) = channels (rt_ctrl (vc_memory s))"
    "catalog_lifecycle s' = catalog_lifecycle s" "catalog_runtime s' = catalog_runtime s" using s1 by simp_all
qed

lemma modbus_init_started:
  assumes i: "modbus_adapter_init B z A s = (rc, s')" and rc: "0 \<le> rc"
  shows "mb s'"
proof -
  obtain created s1 where c: "vc_mb_adapter_create B z s = (created, s1)" by fastforce
  have "mb s1"
    using c by (auto simp: vc_mb_adapter_create_def adapter_save_config_def Let_def set_active_def set_boot_def
        set_fw_nvs_def split: if_splits prod.splits)
  then show ?thesis
    using i c rc by (cases created) (auto simp: modbus_adapter_init_def Let_def start_with_def modbus_server_start_def
        split: if_splits prod.splits)
qed

text \<open>What holds of the firmware from the moment the runtime is published.\<close>

definition control_up :: "fw_build \<Rightarrow> ('d, 's, 'm) firmware \<Rightarrow> bool" where
  "control_up B s \<longleftrightarrow>
     catalog_lifecycle s = VC_CATALOG_RUNNING \<and> catalog_runtime s \<and>
     list_all (channel_ok (kconf (fw_build.cat B))) (channels (rt_ctrl (vc_memory s)))"

lemma init_and_start:
  assumes K: "kconfig_in_range (kconf (fw_build.cat B))" and z: "zephyr_settings z lookup"
    and n: "nodes_ok (kconf (fw_build.cat B)) (app_nodes P)"
    and store: "app_storage P = Some (vc_settings_storage z m)" and s: "coefficients_ok lookup (fw_nvs (app_fw a))"
    and off: "catalog_lifecycle (app_fw a) = VC_CATALOG_STOPPED"
  obtains a1 st a2 where "vc_init B P True a = Some (True, a1)" and "vc_ctx_start True a1 = Some (st, a2)"
    and "control_up B (app_fw a2)" and "con_out (app_console a2) = con_out (app_console a)"
    and "initialized (app_console a2) = initialized (app_console a)"
proof -
  let ?K = "kconf (fw_build.cat B)"
  have nv: "fw_nvs ((app_fw a)\<lparr>catalog_lifecycle := VC_CATALOG_STARTING, catalog_active_operations := 0,
      catalog_quiesced := False\<rparr>) = fw_nvs (app_fw a)" by (simp add: fw_nvs_def)
  obtain rt where rt: "vc_runtime_create_static ?K (app_nodes P) (app_buffers P) (app_storage P)
      (fw_nvs (app_fw a)) (uptime_ms (app_fw a)) = Some rt" and ok: "rt_ok ?K z lookup m rt"
    unfolding store by (rule create_ok [OF K z n s])
  obtain rt1 where r1: "rt_exec ?K Rt_Start_Sampling rt = Some rt1" "rt_ok ?K z lookup m rt1"
    using zephyr_settings.rt_exec_ok [OF z K ok] by blast
  obtain st where st: "vc_runtime_start_sampling rt = Some (st, rt1)"
    using r1(1) by auto
  let ?s = "(app_fw a)\<lparr>catalog_active_operations := 0, catalog_quiesced := False, vc_memory := rt, catalog_runtime := True,
      catalog_lifecycle := VC_CATALOG_RUNNING\<rparr>"
  let ?a1 = "(set_fw ?s a)\<lparr>ctx_runtime := True\<rparr>"
  show thesis
  proof (rule that)
    show "vc_init B P True a = Some (True, ?a1)"
      using rt by (simp add: vc_init_def vc_runtime_create_def off nv init_from_runtime_def Let_def set_fw_def)
    show "vc_ctx_start True ?a1 = Some (st, set_fw ((app_fw ?a1)\<lparr>vc_memory := rt1\<rparr>) ?a1)"
      using st by (simp add: vc_ctx_start_def set_fw_def)
    show "control_up B (app_fw (set_fw ((app_fw ?a1)\<lparr>vc_memory := rt1\<rparr>) ?a1))"
      using r1(2) by (simp add: control_up_def set_fw_def rt_ok_def controller_ok_def)
  qed (simp_all add: set_fw_def)
qed

lemma control_up_modbus:
  "modbus_adapter_init B z A s = (rc, s') \<Longrightarrow> control_up B s \<Longrightarrow> control_up B s'"
  by (simp add: control_up_def modbus_init_frame)


definition bench_app :: "(unit, nvs) app_build" where
  "bench_app = \<lparr>app_nodes = [bench_node 0, bench_node 1], app_buffers = [],
     app_storage = Some (vc_settings_storage map_settings 2), CONFIG_UI_MODBUS_RTU = True, CONFIG_VC_SHELL = True\<rparr>"

definition bench_reset :: "(unit, nvs, unit) application" where
  "bench_reset = \<lparr>app_console = \<lparr>initialized = False,
     con_sys = set_fw_nvs empty_nvs ((bench_firmware 0)\<lparr>catalog_lifecycle := VC_CATALOG_STOPPED,
       catalog_runtime := False, mb := False\<rparr>),
     con_between = [], con_waits = [], con_keys = [], con_out = []\<rparr>, ctx_runtime = False\<rparr>"

lemma bench_app_ok:
  "nodes_ok kconfig_defaults (app_nodes bench_app)" "coefficients_ok (\<lambda>s. s) (fw_nvs (app_fw bench_reset))"
  "catalog_lifecycle (app_fw bench_reset) = VC_CATALOG_STOPPED" "kconf (fw_build.cat bench_fw) = kconfig_defaults"
  "app_storage bench_app = Some (vc_settings_storage map_settings 2)"
  by (simp_all add: bench_app_def bench_reset_def nodes_ok_def bench_node_def driver_defaults_ok_def coefficients_ok_def
      fw_nvs_def set_fw_nvs_def empty_nvs_def cal_of_def bench_fw_def bench_build_def)


end
