(* ===== verification/Tui_Session.thy ===== *)
theory Tui_Session
  imports Host_Reads Host_Writes Host_Messages
begin

text \<open>
  A board as the terminal program keeps it: the data that its tables show (\<open>ScannedData\<close> of
  \<open>tools/psb_demo_app/tui/tui_format.h\<close>), the scan when it connects and the poll after that
  (\<open>board_session.h\<close>), and the sweep over slave addresses of the set-up wizard (\<open>wizard_scan.h\<close>). The
  events that wake the screen are left out. A time is an argument in milliseconds, and a count of
  consecutive failures is an integer: at the fastest poll it would take years to overflow.
\<close>

unbundle bit_operations_syntax

subsection \<open>The data of a board\<close>

abbreviation (input) MAX_CHANNELS :: nat where "MAX_CHANNELS \<equiv> 16"
abbreviation (input) kChannelOfflineThreshold :: int where "kChannelOfflineThreshold \<equiv> 5"
abbreviation (input) kPollTimeoutMs :: int where "kPollTimeoutMs \<equiv> 300"
abbreviation (input) kScanProbeTimeoutMs :: int where "kScanProbeTimeoutMs \<equiv> 200"

record scanned_data =
  sysInfo :: system_info
  chInfo :: "channel_info list"
  sysCfg :: system_config_host
  chCfg :: "channel_config_host list"
  chLoaded :: "bool list"
  chDetailLoaded :: "bool list"
  scanProgress :: int
  chPollFailCount :: "int list"
  chOffline :: "bool list"
  data_valid :: bool
  lastSysUpdate :: int

definition new_scanned_data :: scanned_data where
  "new_scanned_data =
    \<lparr>sysInfo = new_system_info, chInfo = replicate MAX_CHANNELS new_channel_info, sysCfg = new_system_config,
     chCfg = replicate MAX_CHANNELS new_channel_config, chLoaded = replicate MAX_CHANNELS False,
     chDetailLoaded = replicate MAX_CHANNELS False, scanProgress = 0, chPollFailCount = replicate MAX_CHANNELS 0,
     chOffline = replicate MAX_CHANNELS False, data_valid = False, lastSysUpdate = 0\<rparr>"

definition numChannels :: "scanned_data \<Rightarrow> nat" where
  "numChannels d =
     (let n = supportedChannels (sysInfo d) in if 0 < n \<and> n \<le> int MAX_CHANNELS then nat n else 0)"

definition sysStale :: "scanned_data \<Rightarrow> int \<Rightarrow> int \<Rightarrow> bool" where
  "sysStale d threshold now \<longleftrightarrow> threshold < now - lastSysUpdate d"

definition allChannelsLoaded :: "scanned_data \<Rightarrow> bool" where
  "allChannelsLoaded d \<longleftrightarrow> numChannels d \<noteq> 0 \<and> list_all ((!) (chLoaded d)) [0..<numChannels d]"

definition shouldPollChannel :: "int \<Rightarrow> int \<Rightarrow> bool" where
  "shouldPollChannel ch n \<longleftrightarrow> 0 \<le> ch \<and> ch < n"

definition rebuildChannelTitles :: "string list \<Rightarrow> nat \<Rightarrow> string list" where
  "rebuildChannelTitles titles n =
     take 1 (titles @ [[]]) @ map (\<lambda>ch. ''CH'' @ fmt_u ch) [0..<n]"

text \<open>The first \<open>n\<close> entries of a staged copy replace those of the table in one step.\<close>

definition publish_staged :: "nat \<Rightarrow> 'a list \<Rightarrow> 'a list \<Rightarrow> 'a list" where
  "publish_staged n staging old = map (\<lambda>i. if i < n then staging ! i else old ! i) [0..<length old]"

subsection \<open>The scan at connect time\<close>

text \<open>A read is made again when the error of the session is another one after it.\<close>

definition readWithRetry ::
    "('w session \<Rightarrow> ('a \<times> 'w session) option) \<Rightarrow> 'w session \<Rightarrow> ('a \<times> 'w session) option" where
  "readWithRetry fn s = do {
     (result, s1) \<leftarrow> fn s;
     if error_text s1 \<noteq> error_text s then fn s1 else Some (result, s1)
   }"

fun retry_caps :: "'w modbus_lib \<Rightarrow> int \<Rightarrow> nat \<Rightarrow> channel_info \<Rightarrow> 'w session \<Rightarrow> (channel_info \<times> 'w session) option" where
  "retry_caps L ch 0 info s = Some (info, s)"
| "retry_caps L ch (Suc attempts) info s =
     (if chCapFlags info = 0 then do {
        (info1, s1) \<leftarrow> readChannelInfo L ch 0 new_channel_info s;
        retry_caps L ch attempts info1 s1
      }
      else Some (info, s))"

definition scan_channel ::
    "'w modbus_lib \<Rightarrow> int \<Rightarrow> 'w session \<Rightarrow> ((channel_info \<times> channel_config_host) \<times> 'w session) option" where
  "scan_channel L ch s = do {
     (info, s1) \<leftarrow> readWithRetry (readChannelInfo L ch 0 new_channel_info) s;
     (info1, s2) \<leftarrow> retry_caps L ch 2 info s1;
     let caps = chCapFlags info1;
     (cfg1, s3) \<leftarrow> readChannelOutputBlock L ch caps new_channel_config s2;
     (cfg2, s4) \<leftarrow> readChannelProtectionBlock L ch caps cfg1 s3;
     (cfg3, s5) \<leftarrow> readChannelOutputEnabledBlock L ch caps cfg2 s4;
     Some ((info1, cfg3), s5)
   }"

fun scan_channels ::
    "'w modbus_lib \<Rightarrow> nat list \<Rightarrow> scanned_data \<times> channel_info list \<times> channel_config_host list \<Rightarrow> 'w session \<Rightarrow>
     ((scanned_data \<times> channel_info list \<times> channel_config_host list) \<times> 'w session) option" where
  "scan_channels L [] st s = Some (st, s)"
| "scan_channels L (ch # chs) (d, infos, cfgs) s = do {
     ((info, cfg), s1) \<leftarrow> scan_channel L (int ch) s;
     ((ok, status), s2) \<leftarrow> readSystemStatus L (sysInfo d) (- 1) s1;
     scan_channels L chs
       (d\<lparr>scanProgress := int ch + 1, sysInfo := status\<rparr>, infos[ch := info], cfgs[ch := cfg]) s2
   }"

text \<open>\<open>aborted\<close> is what the flag of the user says after the system has been read.\<close>

definition doFullScan ::
    "'w modbus_lib \<Rightarrow> bool \<Rightarrow> int \<Rightarrow> scanned_data \<Rightarrow> 'w session \<Rightarrow> (scanned_data \<times> 'w session) option" where
  "doFullScan L aborted now d s = do {
     let d0 = d\<lparr>chLoaded := replicate MAX_CHANNELS False, chDetailLoaded := replicate MAX_CHANNELS False\<rparr>;
     (info, s1) \<leftarrow> readWithRetry (readSystemInfo L new_system_info) s;
     (cfg, s2) \<leftarrow> readWithRetry (readSystemConfig L) s1;
     let d1 = d0\<lparr>sysInfo := info, lastSysUpdate := now, sysCfg := cfg, data_valid := \<not> aborted, scanProgress := 0\<rparr>;
     let n = numChannels d1;
     ((d2, infos, cfgs), s3) \<leftarrow> scan_channels L [0..<n]
       (d1, replicate MAX_CHANNELS new_channel_info, replicate MAX_CHANNELS new_channel_config) s2;
     Some (d2\<lparr>chInfo := publish_staged n infos (chInfo d2), chCfg := publish_staged n cfgs (chCfg d2),
              chLoaded := publish_staged n (replicate MAX_CHANNELS True) (chLoaded d2)\<rparr>, s3)
   }"

subsection \<open>The poll\<close>

text \<open>The two reads of one channel: its capabilities while they are unknown, then its status.\<close>

definition poll_channel ::
    "'w modbus_lib \<Rightarrow> int \<Rightarrow> channel_info \<Rightarrow> 'w session \<Rightarrow> ((bool \<times> channel_info) \<times> 'w session) option" where
  "poll_channel L ch info s = do {
     (info1, s1) \<leftarrow>
       (if chCapFlags info = 0 then do {
          (r, s1) \<leftarrow> readChannelCapabilities L ch kPollTimeoutMs s;
          Some (case r of
            Some caps \<Rightarrow> if caps \<noteq> 0 then info\<lparr>chCapFlags := caps\<rparr> else info
          | None \<Rightarrow> info, s1)
        }
        else Some (info, s));
     readChannelStatus L ch (chCapFlags info1) info1 kPollTimeoutMs s1
   }"

definition count_answer :: "nat \<Rightarrow> bool \<Rightarrow> scanned_data \<times> nat list \<Rightarrow> scanned_data \<times> nat list" where
  "count_answer ch ok = (\<lambda>(d, newlyOffline).
     if ok then (d\<lparr>chPollFailCount := (chPollFailCount d)[ch := 0], chOffline := (chOffline d)[ch := False]\<rparr>, newlyOffline)
     else
       let k = chPollFailCount d ! ch + 1; d1 = d\<lparr>chPollFailCount := (chPollFailCount d)[ch := k]\<rparr>
       in if kChannelOfflineThreshold < k \<and> \<not> chOffline d1 ! ch
          then (d1\<lparr>chOffline := (chOffline d1)[ch := True]\<rparr>, newlyOffline @ [ch])
          else (d1, newlyOffline))"

text \<open>
  The sweep ends where work is waiting; \<open>pending\<close> is the answer of \<open>hasPendingWork\<close> before each channel.
\<close>

fun poll_channels ::
    "'w modbus_lib \<Rightarrow> (nat \<Rightarrow> bool) \<Rightarrow> nat \<Rightarrow> nat list \<Rightarrow> scanned_data \<times> channel_info list \<times> nat list \<Rightarrow> 'w session \<Rightarrow>
     ((scanned_data \<times> channel_info list \<times> nat list) \<times> 'w session) option" where
  "poll_channels L pending n [] st s = Some (st, s)"
| "poll_channels L pending n (ch # chs) (d, staging, newlyOffline) s =
     (if pending ch then Some ((d, staging, newlyOffline), s)
      else if \<not> shouldPollChannel (int ch) (int n) then poll_channels L pending n chs (d, staging, newlyOffline) s
      else do {
        ((ok, info), s1) \<leftarrow> poll_channel L (int ch) (staging ! ch) s;
        let (d1, newly1) = count_answer ch ok (d, newlyOffline);
        poll_channels L pending n chs (d1, staging[ch := info], newly1) s1
      })"

record polled_board =
  board_data :: scanned_data
  board_messages :: message_center
  board_statusMsg :: string

definition doPollScan ::
    "'w modbus_lib \<Rightarrow> (nat \<Rightarrow> bool) \<Rightarrow> int \<Rightarrow> polled_board \<Rightarrow> 'w session \<Rightarrow> (polled_board \<times> 'w session) option" where
  "doPollScan L pending now b s = do {
     let d = board_data b;
     let n = numChannels d;
     ((ok, info), s1) \<leftarrow> readSystemStatus L (sysInfo d) kPollTimeoutMs s;
     let d1 = d\<lparr>sysInfo := info, lastSysUpdate := if ok then now else lastSysUpdate d\<rparr>;
     ((d2, staging, newlyOffline), s2) \<leftarrow> poll_channels L pending n [0..<n] (d1, chInfo d, []) s1;
     let d3 = d2\<lparr>chInfo := publish_staged n staging (chInfo d2)\<rparr>;
     Some (case newlyOffline of
       [] \<Rightarrow> b\<lparr>board_data := d3\<rparr>
     | ch # _ \<Rightarrow>
         let (action, m1) = beginAction ''board'' [] (nat now) (board_messages b);
             m2 = publish action Error ''board''
               (''Error: CH'' @ fmt_u ch @ '' not responding - marked offline'') (nat now) m1
         in \<lparr>board_data = d3, board_messages = m2, board_statusMsg = []\<rparr>, s2)
   }"

subsection \<open>The sweep over addresses\<close>

record discovered_board =
  found_slaveId :: int
  found_variant :: string
  found_fwVersion :: u32

fun scan_ids ::
    "'w modbus_lib \<Rightarrow> int list \<Rightarrow> 'w serial_bus \<Rightarrow> (discovered_board list \<times> 'w serial_bus) option" where
  "scan_ids L [] b = Some ([], b)"
| "scan_ids L (i # is) b = do {
     (ok, probe) \<leftarrow> verifyProtocol L kScanProbeTimeoutMs (new_session (Some b) i);
     if \<not> ok then scan_ids L is (the (session_bus probe))
     else do {
       (info, probe1) \<leftarrow> readSystemInfo L new_system_info probe;
       (boards, b1) \<leftarrow> scan_ids L is (the (session_bus probe1));
       Some (\<lparr>found_slaveId = i, found_variant = variantName (variantId info), found_fwVersion = fwVersion info\<rparr> # boards, b1)
     }
   }"

definition scanBus ::
    "'w modbus_lib \<Rightarrow> int \<Rightarrow> int \<Rightarrow> 'w serial_bus \<Rightarrow> (discovered_board list \<times> 'w serial_bus) option" where
  "scanBus L startId endId b = scan_ids L [startId..endId] b"

subsection \<open>The sweep finds the boards that are there\<close>

text \<open>
  A line on which a request always has the same answer, whatever was asked before, and a bus whose port is open.
\<close>

definition steady :: "'w modbus_lib \<Rightarrow> (u8 \<Rightarrow> modbus_request \<Rightarrow> string + u16 list) \<Rightarrow> bool" where
  "steady L answers \<longleftrightarrow> (\<forall>timeout unit req w. run_request L timeout unit req w = Some (answers unit req, w))"

definition open_port :: "nat \<Rightarrow> 'w serial_bus \<Rightarrow> bool" where
  "open_port timeout b \<longleftrightarrow> bus_connected b \<and> bus_port b = Some timeout \<and> test_boards b = []"

definition answered :: "string + u16 list \<Rightarrow> u16 list option" where
  "answered a = (case a of Inl e \<Rightarrow> None | Inr vs \<Rightarrow> Some vs)"

lemma steady_read:
  assumes L: "steady L answers" and b: "session_bus s = Some b" "open_port t b"
  obtains s1 b1 where "readRegsInternal L False addr n ov s =
      Some (answered (answers (word_of_int (session_slave s)) (Read_Input addr n)), s1)"
    and "session_bus s1 = Some b1" and "open_port t b1" and "session_slave s1 = session_slave s"
proof -
  let ?a = "answers (word_of_int (session_slave s)) (Read_Input addr n)"
  have L': "run_request L x u r w = Some (answers u r, w)" for x u r w using L by (simp add: steady_def)
  have b': "bus_connected b" "bus_port b = Some t" "test_boards b = []" using b(2) by (simp_all add: open_port_def)
  have "\<exists>b1. bus_readRegsInternal L False (session_slave s) addr n ov b = Some (answered ?a, b1) \<and> open_port t b1"
    by (cases ?a) (simp_all add: bus_readRegsInternal_def b' with_timeout_def request_def L' answered_def open_port_def)
  then obtain b1 where b1: "bus_readRegsInternal L False (session_slave s) addr n ov b = Some (answered ?a, b1)"
    "open_port t b1" by blast
  have r: "readRegsInternal L False addr n ov s = Some (answered ?a, s\<lparr>session_bus := Some b1,
      error_text := (if answered ?a = None then bus_error b1 else error_text s)\<rparr>)"
    by (simp add: readRegsInternal_def if_connected_def checkConnected_def b(1) bus_isConnected_def b'(1) b1)
  show thesis by (rule that [OF r _ b1(2)]) simp_all
qed

text \<open>What a board says of itself at the first two input registers, and what is reported of one that is compatible.\<close>

definition speaks :: "string + u16 list \<Rightarrow> bool" where
  "speaks a = (case answered a of
     None \<Rightarrow> False
   | Some buf \<Rightarrow> 1 \<le> uint (reg_at buf 0) \<and> uint (reg_at buf 0) \<le> 15 \<and>
       protocolCompatible (uint (reg_at buf 0)) (uint (reg_at buf 1)))"

definition introduces :: "int \<Rightarrow> string + u16 list \<Rightarrow> discovered_board" where
  "introduces i a =
     (let buf = (case answered a of None \<Rightarrow> [] | Some buf \<Rightarrow> buf)
      in \<lparr>found_slaveId = i, found_variant = variantName (uint (reg_at buf SYS_VARIANT_ID)),
          found_fwVersion = uint32FromRegs (reg_at buf SYS_FW_VERSION_HI) (reg_at buf SYS_FW_VERSION_LO)\<rparr>)"

lemma probe_answer:
  assumes L: "steady L answers" and b: "session_bus s = Some b" "open_port t b"
  obtains s1 b1 where "verifyProtocol L ov s = Some (speaks (answers (word_of_int (session_slave s)) (Read_Input 0 2)), s1)"
    and "session_bus s1 = Some b1" and "open_port t b1" and "session_slave s1 = session_slave s"
proof -
  obtain s1 b1 where r: "readRegsInternal L False (sysAddr 0) 2 ov s =
      Some (answered (answers (word_of_int (session_slave s)) (Read_Input (sysAddr 0) 2)), s1)"
    and s1: "session_bus s1 = Some b1" "open_port t b1" "session_slave s1 = session_slave s"
    by (rule steady_read [OF L b])
  let ?a = "answered (answers (word_of_int (session_slave s)) (Read_Input 0 2))"
  have "\<exists>s2. verifyProtocol L ov s = Some (speaks (answers (word_of_int (session_slave s)) (Read_Input 0 2)), s2) \<and>
      session_bus s2 = session_bus s1 \<and> session_slave s2 = session_slave s1"
  proof (cases ?a)
    case None
    then show ?thesis using r by (simp add: verifyProtocol_def sysAddr_def speaks_def)
  next
    case (Some buf)
    then show ?thesis using r by (auto simp: verifyProtocol_def sysAddr_def speaks_def Let_def)
  qed
  then show thesis using that s1 by auto
qed

lemma info_answer:
  assumes L: "steady L answers" and b: "session_bus s = Some b" "open_port t b"
  obtains info s1 b1 where "readSystemInfo L new_system_info s = Some (info, s1)"
    and "\<lparr>found_slaveId = session_slave s, found_variant = variantName (variantId info), found_fwVersion = fwVersion info\<rparr> =
      introduces (session_slave s) (answers (word_of_int (session_slave s)) (Read_Input 0 17))"
    and "session_bus s1 = Some b1" and "open_port t b1"
proof -
  obtain s1 b1 where r: "readRegsInternal L False (sysAddr 0) 17 (- 1) s =
      Some (answered (answers (word_of_int (session_slave s)) (Read_Input (sysAddr 0) 17)), s1)"
    and s1: "session_bus s1 = Some b1" "open_port t b1" "session_slave s1 = session_slave s"
    by (rule steady_read [OF L b])
  have c: "checkConnected s = (True, s)"
    using b by (simp add: checkConnected_def bus_isConnected_def open_port_def)
  let ?a = "answered (answers (word_of_int (session_slave s)) (Read_Input 0 17))"
  show thesis
  proof (cases ?a)
    case None
    then have "readSystemInfo L new_system_info s = Some (new_system_info, s1)"
      using r by (simp add: readSystemInfo_def if_connected_def c sysAddr_def)
    then show thesis
      by (rule that) (use None s1 in \<open>simp_all add: introduces_def new_system_info_def reg_at_def uint32FromRegs_def\<close>)
  next
    case (Some buf)
    then obtain info e where "readSystemInfo L new_system_info s = Some (info, s1\<lparr>unit_exp := e\<rparr>)"
      and "variantId info = uint (reg_at buf SYS_VARIANT_ID)"
      and "fwVersion info = uint32FromRegs (reg_at buf SYS_FW_VERSION_HI) (reg_at buf SYS_FW_VERSION_LO)"
      using r by (simp add: readSystemInfo_def if_connected_def c sysAddr_def Let_def)
    then show thesis
      by (intro that [of info "s1\<lparr>unit_exp := e\<rparr>" b1]) (use Some s1 in \<open>simp_all add: introduces_def\<close>)
  qed
qed

lemma scan_ids_found:
  assumes L: "steady L answers" and "open_port t b"
  shows "\<exists>b1. scan_ids L is b =
      Some (map (\<lambda>i. introduces i (answers (word_of_int i) (Read_Input 0 17)))
        (filter (\<lambda>i. speaks (answers (word_of_int i) (Read_Input 0 2))) is), b1) \<and> open_port t b1"
  using assms(2)
proof (induction "is" arbitrary: b)
  case (Cons i "is")
  let ?s = "new_session (Some b) i"
  have s: "session_bus ?s = Some b" "session_slave ?s = i" by (simp_all add: new_session_def)
  obtain s1 b1 where v: "verifyProtocol L 200 ?s = Some (speaks (answers (word_of_int i) (Read_Input 0 2)), s1)"
    and s1: "session_bus s1 = Some b1" "open_port t b1" "session_slave s1 = i"
    by (rule probe_answer [OF L s(1) Cons.prems, unfolded s(2)])
  obtain info s2 b2 where f: "readSystemInfo L new_system_info s1 = Some (info, s2)"
    and d: "\<lparr>found_slaveId = i, found_variant = variantName (variantId info), found_fwVersion = fwVersion info\<rparr> =
      introduces i (answers (word_of_int i) (Read_Input 0 17))"
    and s2: "session_bus s2 = Some b2" "open_port t b2"
    by (rule info_answer [OF L s1(1,2), unfolded s1(3)])
  show ?case
    using Cons.IH [OF s1(2)] Cons.IH [OF s2(2)] v f d s1(1) s2(1) by auto
qed simp

text \<open>
  A sweep of the set-up wizard finds the boards on the line and nothing else. Over a line whose answers do not
  depend on what was asked before, it always ends, and it reports exactly the addresses of the range that speak a
  compatible protocol, in ascending order and each with its own variant and firmware version; the short timeout of
  the probes is gone afterwards.
\<close>

lemma scan_finds_the_boards:
  assumes "steady L answers" and "open_port timeout b"
  shows "\<exists>b1. scanBus L startId endId b =
      Some (map (\<lambda>i. introduces i (answers (word_of_int i) (Read_Input 0 17)))
        (filter (\<lambda>i. speaks (answers (word_of_int i) (Read_Input 0 2))) [startId..endId]), b1) \<and> bus_port b1 = Some timeout"
  unfolding scanBus_def using scan_ids_found [OF assms, of "[startId..endId]"] by (auto simp: open_port_def)

text \<open>A line with one board, at address 3.\<close>

definition lone_board :: "u8 \<Rightarrow> modbus_request \<Rightarrow> string + u16 list" where
  "lone_board unit req =
     (if unit = 3 then Inr [VC_PROTOCOL_MAJOR, VC_PROTOCOL_MINOR, 1] else Inl ''timeout'')"

definition lone_line :: "unit modbus_lib" where
  "lone_line = \<lparr>create_client = \<lambda>_ _ _ w. (True, w),
     poll = \<lambda>_ unit req w. (case lone_board unit req of Inl e \<Rightarrow> Bad e | Inr vs \<Rightarrow> Good vs, w)\<rparr>"

lemma lone_steady: "steady lone_line lone_board"
  unfolding steady_def
  by (subst run_request.simps) (simp add: lone_line_def lone_board_def)

lemma scan_finds_the_boards_witness:
  "\<exists>b1. scanBus lone_line 2 4 ((new_bus ())\<lparr>bus_port := Some 3000, bus_connected := True\<rparr>) =
     Some ([\<lparr>found_slaveId = 3, found_variant = ''jw_hvb'', found_fwVersion = 0\<rparr>], b1) \<and> bus_port b1 = Some 3000"
proof -
  have "open_port 3000 ((new_bus ())\<lparr>bus_port := Some 3000, bus_connected := True\<rparr>)"
    by (simp add: open_port_def new_bus_def)
  moreover have "[2..4 :: int] = [2, 3, 4]" by (simp add: upto.simps)
  ultimately show ?thesis
    using scan_finds_the_boards [OF lone_steady, of 3000 "(new_bus ())\<lparr>bus_port := Some 3000, bus_connected := True\<rparr>" 2 4]
    by (simp add: lone_board_def speaks_def answered_def reg_at_def introduces_def protocolCompatible_def variantName_def
        uint32FromRegs_def)
qed

subsection \<open>A silent channel goes offline\<close>

text \<open>
  The abstract health of a channel is its failures in a row and its mark; an answer clears both. What the
  sweeps of a history say of a channel is whether it answered, or nothing where they ended before it.
\<close>

definition health :: "scanned_data \<Rightarrow> nat \<Rightarrow> int \<times> bool" where
  "health d ch = (chPollFailCount d ! ch, chOffline d ! ch)"

fun health_step :: "bool \<Rightarrow> int \<times> bool \<Rightarrow> int \<times> bool" where
  "health_step ok (k, offline) = (if ok then (0, False) else (k + 1, offline \<or> kChannelOfflineThreshold < k + 1))"

fun sweep_answers :: "'w modbus_lib \<Rightarrow> (nat \<Rightarrow> bool) \<Rightarrow> nat list \<Rightarrow> channel_info list \<Rightarrow> 'w session \<Rightarrow> bool list" where
  "sweep_answers L pending [] infos s = []"
| "sweep_answers L pending (ch # chs) infos s =
     (if pending ch then []
      else case poll_channel L (int ch) (infos ! ch) s of
        None \<Rightarrow> []
      | Some ((ok, _), s1) \<Rightarrow> ok # sweep_answers L pending chs infos s1)"

definition cycle_answers :: "'w modbus_lib \<Rightarrow> (nat \<Rightarrow> bool) \<Rightarrow> scanned_data \<Rightarrow> 'w session \<Rightarrow> nat \<Rightarrow> bool option" where
  "cycle_answers L pending d s =
     (case readSystemStatus L (sysInfo d) kPollTimeoutMs s of
        None \<Rightarrow> Map.empty
      | Some (_, s1) \<Rightarrow> map_of (zip [0..<numChannels d] (sweep_answers L pending [0..<numChannels d] (chInfo d) s1)))"

definition table_ok :: "scanned_data \<Rightarrow> bool" where
  "table_ok d \<longleftrightarrow> length (chInfo d) = MAX_CHANNELS \<and> length (chPollFailCount d) = MAX_CHANNELS \<and> length (chOffline d) = MAX_CHANNELS"

lemma count_answer_health:
  assumes "count_answer ch ok (d, newly) = (d', newly')" and "table_ok d" and "ch < MAX_CHANNELS"
  shows "table_ok d'" and "sysInfo d' = sysInfo d" and "chInfo d' = chInfo d"
    and "health d' i = (if i = ch then health_step ok (health d ch) else health d i)"
  using assms by (auto simp: count_answer_def table_ok_def health_def Let_def split: if_splits)

lemma poll_channels_health:
  assumes "poll_channels L pending n chs (d, staging, newly) s = Some ((d', staging', newly'), s')"
    and "table_ok d" and "distinct chs" and "\<forall>ch\<in>set chs. ch < n \<and> staging ! ch = infos ! ch" and "n \<le> MAX_CHANNELS"
  shows "table_ok d' \<and> sysInfo d' = sysInfo d \<and> chInfo d' = chInfo d \<and>
    (\<forall>i. health d' i = (case map_of (zip chs (sweep_answers L pending chs infos s)) i of
        None \<Rightarrow> health d i | Some ok \<Rightarrow> health_step ok (health d i)))"
  using assms(1-4)
proof (induction chs arbitrary: d staging newly s)
  case (Cons ch chs)
  show ?case
  proof (cases "pending ch")
    case False
    have ch: "ch < n" "staging ! ch = infos ! ch" using Cons.prems(4) by auto
    then have "shouldPollChannel (int ch) (int n)" by (simp add: shouldPollChannel_def)
    then obtain ok info s1 where r: "poll_channel L (int ch) (infos ! ch) s = Some ((ok, info), s1)"
      using Cons.prems(1) False ch(2) by (auto split: bind_splits)
    obtain d1 newly1 where c: "count_answer ch ok (d, newly) = (d1, newly1)" by fastforce
    have rest: "poll_channels L pending n chs (d1, staging[ch := info], newly1) s1 = Some ((d', staging', newly'), s')"
      using Cons.prems(1) False \<open>shouldPollChannel (int ch) (int n)\<close> r c ch(2) by simp
    have "ch < MAX_CHANNELS" using ch assms(5) by simp
    note h = count_answer_health [OF c Cons.prems(2) this]
    have "\<forall>i\<in>set chs. i < n \<and> staging[ch := info] ! i = infos ! i"
      using Cons.prems(3,4) by (metis distinct.simps(2) list.set_intros(2) nth_list_update_neq)
    note ih = Cons.IH [OF rest h(1) _ this]
    have "map_of (zip chs as) ch = None" for as :: "bool list"
      using Cons.prems(3) by (auto simp: map_of_eq_None_iff dest: set_zip_leftD)
    then show ?thesis
      using ih Cons.prems(3) False r h by (auto split: option.splits)
  qed (use Cons.prems in auto)
qed simp

lemma status_keeps_channels:
  assumes "readSystemStatus L info ov s = Some ((ok, info'), s1)"
  shows "supportedChannels info' = supportedChannels info"
  using assms by (auto simp: readSystemStatus_def if_connected_def split: bind_splits if_splits prod.splits option.splits)

lemma poll_scan_health:
  assumes p: "doPollScan L pending now b s = Some (b', s')" and t: "table_ok (board_data b)"
  shows "table_ok (board_data b') \<and> numChannels (board_data b') = numChannels (board_data b) \<and>
    (\<forall>i. health (board_data b') i = (case cycle_answers L pending (board_data b) s i of
        None \<Rightarrow> health (board_data b) i | Some ok \<Rightarrow> health_step ok (health (board_data b) i)))"
proof -
  let ?d = "board_data b"
  obtain ok info s1 where r: "readSystemStatus L (sysInfo ?d) 300 s = Some ((ok, info), s1)"
    using p by (auto simp: doPollScan_def Let_def split: bind_splits)
  define upd where "upd = (if ok then now else lastSysUpdate ?d)"
  let ?d1 = "?d\<lparr>sysInfo := info, lastSysUpdate := upd\<rparr>"
  obtain d2 staging newly s2 where c: "poll_channels L pending (numChannels ?d) [0..<numChannels ?d]
      (?d1, chInfo ?d, []) s1 = Some ((d2, staging, newly), s2)"
    and d': "board_data b' = d2\<lparr>chInfo := publish_staged (numChannels ?d) staging (chInfo d2)\<rparr>"
    using p r unfolding upd_def by (auto simp: doPollScan_def Let_def split: bind_splits list.splits prod.splits)
  have n: "numChannels ?d \<le> MAX_CHANNELS" by (auto simp: numChannels_def Let_def)
  have t1: "table_ok ?d1" using t by (simp add: table_ok_def)
  have "table_ok d2 \<and> sysInfo d2 = info \<and> chInfo d2 = chInfo ?d \<and>
      (\<forall>i. health d2 i = (case cycle_answers L pending ?d s i of
          None \<Rightarrow> health ?d1 i | Some ok \<Rightarrow> health_step ok (health ?d1 i)))"
    using poll_channels_health [OF c t1 _ _ n, of "chInfo ?d"] r by (simp add: cycle_answers_def)
  moreover have "health ?d1 i = health ?d i" for i by (simp add: health_def)
  ultimately have d2: "table_ok d2" "sysInfo d2 = info"
    "health d2 i = (case cycle_answers L pending ?d s i of
        None \<Rightarrow> health ?d i | Some ok \<Rightarrow> health_step ok (health ?d i))" for i
    by (simp_all split: option.split)
  have "table_ok (board_data b')" "health (board_data b') i = health d2 i" for i
    using d' d2(1) by (simp_all add: table_ok_def publish_staged_def health_def)
  moreover have "numChannels (board_data b') = numChannels ?d"
    using d' d2(2) status_keeps_channels [OF r] by (simp add: numChannels_def)
  ultimately show ?thesis using d2(3) by simp
qed

inductive polled ::
    "'w modbus_lib \<Rightarrow> polled_board \<Rightarrow> 'w session \<Rightarrow> (nat \<Rightarrow> bool option) list \<Rightarrow> polled_board \<Rightarrow> 'w session \<Rightarrow> bool"
  for L b0 s0 where
  poll_start: "polled L b0 s0 [] b0 s0"
| poll_cycle: "polled L b0 s0 history b s \<Longrightarrow> doPollScan L pending now b s = Some (b', s') \<Longrightarrow>
    polled L b0 s0 (history @ [cycle_answers L pending (board_data b) s]) b' s'"

definition silent_polls :: "(nat \<Rightarrow> bool option) list \<Rightarrow> nat \<Rightarrow> nat" where
  "silent_polls history ch =
     length (takeWhile (\<lambda>a. a = Some False) (rev (filter (\<lambda>a. a \<noteq> None) (map (\<lambda>f. f ch) history))))"

lemma silent_polls_snoc:
  "silent_polls [] ch = 0"
  "silent_polls (history @ [f]) ch =
     (case f ch of None \<Rightarrow> silent_polls history ch | Some True \<Rightarrow> 0 | Some False \<Rightarrow> Suc (silent_polls history ch))"
  by (auto simp: silent_polls_def split: option.splits bool.splits)

lemma polled_health:
  assumes "polled L b0 s0 history b s" and "table_ok (board_data b0)" and "health (board_data b0) ch = (0, False)"
  shows "table_ok (board_data b) \<and>
    health (board_data b) ch = (int (silent_polls history ch), kChannelOfflineThreshold < int (silent_polls history ch))"
  using assms
proof (induction rule: polled.induct)
  case (poll_cycle history b s pending now b' s')
  then show ?case
    using poll_scan_health [OF poll_cycle.hyps(2)] by (auto simp: silent_polls_snoc split: option.splits bool.splits)
qed (simp add: silent_polls_snoc)

text \<open>
  C37. A channel is shown offline exactly while its last six polls have failed. However the sweeps are cut short by
  waiting work and whatever the line does, the mark of a channel is set if and only if none of the last six sweeps that
  reached it got its status; one answer clears the mark, and a sweep that did not reach the channel leaves it.
\<close>

theorem offline_after_six_silent_polls:
  assumes "polled L b0 s0 history b s" and "table_ok (board_data b0)" and "health (board_data b0) ch = (0, False)"
  shows "chOffline (board_data b) ! ch \<longleftrightarrow> 6 \<le> silent_polls history ch"
  using polled_health [OF assms] by (auto simp: health_def)

text \<open>A board of one channel without capabilities, on a line where nothing answers.\<close>

definition dead_line :: "unit modbus_lib" where
  "dead_line = \<lparr>create_client = \<lambda>_ _ _ w. (True, w), poll = \<lambda>_ _ _ w. (Bad ''timeout'', w)\<rparr>"

definition one_channel :: polled_board where
  "one_channel = \<lparr>board_data = new_scanned_data\<lparr>sysInfo := new_system_info\<lparr>supportedChannels := 1\<rparr>\<rparr>,
     board_messages = new_message_center 10, board_statusMsg = []\<rparr>"

definition on_open_port :: "'w session \<Rightarrow> bool" where
  "on_open_port s \<longleftrightarrow> (\<exists>b. session_bus s = Some b \<and> open_port 3000 b)"

lemma dead_steady: "steady dead_line (\<lambda>_ _. Inl ''timeout'')"
  unfolding steady_def by (subst run_request.simps) (simp add: dead_line_def)

lemma dead_read:
  assumes "on_open_port s"
  shows "checkConnected s = (True, s)"
    and "\<exists>s1. readRegsInternal dead_line False addr n ov s = Some (None, s1) \<and> on_open_port s1"
proof -
  obtain b where b: "session_bus s = Some b" "open_port 3000 b" using assms by (auto simp: on_open_port_def)
  then show "checkConnected s = (True, s)" by (simp add: checkConnected_def bus_isConnected_def open_port_def)
  show "\<exists>s1. readRegsInternal dead_line False addr n ov s = Some (None, s1) \<and> on_open_port s1"
    by (rule steady_read [OF dead_steady b, of addr n ov]) (auto simp: on_open_port_def answered_def)
qed

lemma dead_poll_channel:
  assumes "on_open_port s" and "chCapFlags info = 0"
  shows "\<exists>s1. poll_channel dead_line ch info s = Some ((False, info), s1) \<and> on_open_port s1"
proof -
  obtain s1 where s1: "readRegsInternal dead_line False (chAddr ch CH_CAPABILITY_FLAGS) 1 300 s = Some (None, s1)"
    "on_open_port s1" using dead_read(2) [OF assms(1)] by blast
  obtain s2 where s2: "readRegsInternal dead_line False (chAddr ch 0) 9 300 s1 = Some (None, s2)" "on_open_port s2"
    using dead_read(2) [OF s1(2)] by blast
  show ?thesis
    using assms(2) s1 s2 dead_read(1) [OF assms(1)] dead_read(1) [OF s1(2)]
    by (simp add: poll_channel_def readChannelCapabilities_def readChannelStatus_def if_connected_def Let_def)
qed

lemma dead_poll:
  assumes s: "on_open_port s" and b: "numChannels (board_data b) = 1" "chCapFlags (chInfo (board_data b) ! 0) = 0"
    "table_ok (board_data b)"
  shows "\<exists>b' s'. doPollScan dead_line (\<lambda>_. False) now b s = Some (b', s') \<and> on_open_port s' \<and>
    numChannels (board_data b') = 1 \<and> chCapFlags (chInfo (board_data b') ! 0) = 0 \<and> table_ok (board_data b') \<and>
    cycle_answers dead_line (\<lambda>_. False) (board_data b) s 0 = Some False"
proof -
  obtain s1 where s1: "readRegsInternal dead_line False (sysAddr SYS_BOARD_TEMPERATURE) 9 300 s = Some (None, s1)" "on_open_port s1"
    using dead_read(2) [OF s] by blast
  have st: "readSystemStatus dead_line (sysInfo (board_data b)) 300 s = Some ((False, sysInfo (board_data b)), s1)"
    using s1 dead_read(1) [OF s] by (simp add: readSystemStatus_def if_connected_def)
  obtain s2 where s2: "poll_channel dead_line 0 (chInfo (board_data b) ! 0) s1 =
      Some ((False, chInfo (board_data b) ! 0), s2)" "on_open_port s2"
    using dead_poll_channel [OF s1(2) b(2)] by blast
  have a: "cycle_answers dead_line (\<lambda>_. False) (board_data b) s 0 = Some False"
    using s2 by (simp add: cycle_answers_def st b(1))
  obtain d2 newly where c: "count_answer 0 False ((board_data b)\<lparr>sysInfo := sysInfo (board_data b),
      lastSysUpdate := lastSysUpdate (board_data b)\<rparr>, []) = (d2, newly)" by fastforce
  have t: "table_ok ((board_data b)\<lparr>sysInfo := sysInfo (board_data b), lastSysUpdate := lastSysUpdate (board_data b)\<rparr>)"
    using b(3) by (simp add: table_ok_def)
  note h = count_answer_health [OF c t]
  have "\<exists>b'. doPollScan dead_line (\<lambda>_. False) now b s = Some (b', s2) \<and> chInfo (board_data b') ! 0 = chInfo (board_data b) ! 0"
    using s2 c h(3) b(3)
    by (cases newly) (auto simp: doPollScan_def st b(1) shouldPollChannel_def publish_staged_def table_ok_def Let_def
        split: prod.splits)
  then obtain b' where b': "doPollScan dead_line (\<lambda>_. False) now b s = Some (b', s2)"
    "chInfo (board_data b') ! 0 = chInfo (board_data b) ! 0" by blast
  show ?thesis using poll_scan_health [OF b'(1) b(3)] b' s2(2) a b(1,2) by auto
qed

lemma dead_run:
  "\<exists>history b s. polled dead_line one_channel s0 history b s \<and> silent_polls history 0 = k \<and> on_open_port s \<and>
     numChannels (board_data b) = 1 \<and> chCapFlags (chInfo (board_data b) ! 0) = 0 \<and> table_ok (board_data b)"
  if "on_open_port s0"
proof (induction k)
  case 0
  have "numChannels (board_data one_channel) = 1" "chCapFlags (chInfo (board_data one_channel) ! 0) = 0"
    "table_ok (board_data one_channel)"
    by (simp_all add: one_channel_def numChannels_def new_scanned_data_def new_channel_info_def table_ok_def)
  then show ?case using that polled.poll_start [of dead_line one_channel s0] silent_polls_snoc(1) by blast
next
  case (Suc k)
  then obtain history b s where r: "polled dead_line one_channel s0 history b s" "silent_polls history 0 = k" "on_open_port s"
    "numChannels (board_data b) = 1" "chCapFlags (chInfo (board_data b) ! 0) = 0" "table_ok (board_data b)" by blast
  from dead_poll [OF r(3-6), of 0] obtain b' s' where
    p: "doPollScan dead_line (\<lambda>_. False) 0 b s = Some (b', s')" "on_open_port s'" "numChannels (board_data b') = 1"
      "chCapFlags (chInfo (board_data b') ! 0) = 0" "table_ok (board_data b')"
      "cycle_answers dead_line (\<lambda>_. False) (board_data b) s 0 = Some False" by blast
  have "silent_polls (history @ [cycle_answers dead_line (\<lambda>_. False) (board_data b) s]) 0 = Suc k"
    by (simp add: silent_polls_snoc p(6) r(2))
  then show ?case using polled.poll_cycle [OF r(1) p(1)] p(2-5) by blast
qed

lemma offline_after_six_silent_polls_witness:
  "\<exists>history b s. polled dead_line one_channel (new_session (Some ((new_bus ())\<lparr>bus_port := Some 3000, bus_connected := True\<rparr>)) 1)
     history b s \<and> silent_polls history 0 = 6 \<and> chOffline (board_data b) ! 0"
proof -
  let ?s0 = "new_session (Some ((new_bus ())\<lparr>bus_port := Some 3000, bus_connected := True\<rparr>)) 1"
  have "on_open_port ?s0" by (simp add: on_open_port_def new_session_def open_port_def new_bus_def)
  from dead_run [OF this, of 6] obtain history b s where
    r: "polled dead_line one_channel ?s0 history b s" "silent_polls history 0 = 6" by blast
  have "table_ok (board_data one_channel)" "health (board_data one_channel) 0 = (0, False)"
    by (simp_all add: one_channel_def new_scanned_data_def table_ok_def health_def)
  from offline_after_six_silent_polls [OF r(1) this] show ?thesis using r by auto
qed

subsection \<open>What a connect scan leaves\<close>

text \<open>A failure that leaves the error text as it was is not noticed, and the read is not made again.\<close>

lemma same_error_is_not_retried:
  assumes "fn s = Some (r, s1)" and "error_text s1 = error_text s"
  shows "readWithRetry fn s = Some (r, s1)"
  using assms by (simp add: readWithRetry_def)

lemma scan_channels_frame:
  assumes "scan_channels L chs (d, infos, cfgs) s = Some ((d', infos', cfgs'), s')"
  shows "numChannels d' = numChannels d" and "chLoaded d' = chLoaded d"
  using assms
proof (induction chs arbitrary: d infos cfgs s)
  case (Cons ch chs)
  case 1
  then show ?case using Cons.IH(1) by (auto simp: numChannels_def dest!: status_keeps_channels split: bind_splits)
  case 2
  then show ?case using Cons.IH(2) by (auto split: bind_splits)
qed simp_all

text \<open>The gate after a scan asks for nothing but a number of channels in range.\<close>

lemma full_scan_gate:
  assumes "doFullScan L aborted now d s = Some (d', s')"
  shows "allChannelsLoaded d' \<longleftrightarrow> numChannels d' \<noteq> 0"
proof -
  obtain info s1 where r1: "readWithRetry (readSystemInfo L new_system_info) s = Some (info, s1)"
    using assms by (auto simp: doFullScan_def Let_def split: bind_splits)
  obtain cfg s2 where r2: "readWithRetry (readSystemConfig L) s1 = Some (cfg, s2)"
    using assms r1 by (auto simp: doFullScan_def Let_def split: bind_splits)
  define d1 where "d1 = d\<lparr>chLoaded := replicate MAX_CHANNELS False, chDetailLoaded := replicate MAX_CHANNELS False,
    sysInfo := info, lastSysUpdate := now, sysCfg := cfg, data_valid := \<not> aborted, scanProgress := 0\<rparr>"
  have "doFullScan L aborted now d s = do {
     ((d2, infos, cfgs), s3) \<leftarrow> scan_channels L [0..<numChannels d1]
       (d1, replicate MAX_CHANNELS new_channel_info, replicate MAX_CHANNELS new_channel_config) s2;
     Some (d2\<lparr>chInfo := publish_staged (numChannels d1) infos (chInfo d2),
       chCfg := publish_staged (numChannels d1) cfgs (chCfg d2),
       chLoaded := publish_staged (numChannels d1) (replicate MAX_CHANNELS True) (chLoaded d2)\<rparr>, s3)
   }"
    by (simp only: doFullScan_def Let_def r1 r2 d1_def Option.bind.simps prod.case)
  then obtain d2 infos cfgs s3 where
    c: "scan_channels L [0..<numChannels d1]
      (d1, replicate MAX_CHANNELS new_channel_info, replicate MAX_CHANNELS new_channel_config) s2 = Some ((d2, infos, cfgs), s3)"
    and d': "d' = d2\<lparr>chInfo := publish_staged (numChannels d1) infos (chInfo d2),
       chCfg := publish_staged (numChannels d1) cfgs (chCfg d2),
       chLoaded := publish_staged (numChannels d1) (replicate MAX_CHANNELS True) (chLoaded d2)\<rparr>"
    using assms by (auto split: bind_splits)
  have "numChannels d' = numChannels d1" "length (chLoaded d2) = MAX_CHANNELS"
    using scan_channels_frame [OF c] d' by (simp_all add: numChannels_def d1_def)
  moreover have "numChannels d1 \<le> MAX_CHANNELS" by (auto simp: numChannels_def Let_def)
  ultimately show ?thesis by (auto simp: allChannelsLoaded_def d' publish_staged_def list_all_iff)
qed

end
