(* ===== verification/Tui_Switcher.thy ===== *)
theory Tui_Switcher
  imports Topology
begin

text \<open>
  Which dashboard the terminal program shows: the lists of boards and groups with their selections
  (\<open>tools/psb_demo_app/tui/board_switcher.h\<close>), the choice of a group after the groups have been rebuilt
  (\<open>group_view_selection.h\<close>), and the small rules about tabs, ports and inputs of \<open>tui_policy.h\<close> and
  \<open>group_alias_status.h\<close>. A dashboard is a value of type \<open>'a\<close> for a board and \<open>'g\<close> for a group; the drawing
  and the toolkit are left out.
\<close>

subsection \<open>The state\<close>

text \<open>
  \<open>mainSelected\<close> is the focused slot: 0 the menu bar, 1 the groups, 2 the boards, 3 the visible content.
\<close>

record ('a, 'g) switcher =
  boardNames :: "string list"
  boardDashboards :: "'a list"
  boardLocalIdx :: int
  groupNames :: "string list"
  groupDashboards :: "'g list"
  groupLocalIdx :: int
  showingGroup :: bool
  mainSelected :: int
  visibleContentIdx :: int

definition makeBoardSwitcher :: "(string \<times> 'a) list \<Rightarrow> ('a, 'g) switcher" where
  "makeBoardSwitcher bs =
    \<lparr>boardNames = map fst bs, boardDashboards = map snd bs, boardLocalIdx = 0, groupNames = [], groupDashboards = [],
     groupLocalIdx = 0, showingGroup = False, mainSelected = (if 1 < length bs then 2 else 3), visibleContentIdx = 0\<rparr>"

text \<open>What each frame derives from the focus before it draws.\<close>

definition render_switcher :: "('a, 'g) switcher \<Rightarrow> ('a, 'g) switcher" where
  "render_switcher w =
    (let showing = (if mainSelected w = 1 then True else if mainSelected w = 2 then False
                    else if mainSelected w = 3 then visibleContentIdx w = 1 else showingGroup w)
     in w\<lparr>showingGroup := showing, visibleContentIdx := if showing then 1 else 0\<rparr>)"

definition showsSwitcherSection :: "('a, 'g) switcher \<Rightarrow> bool" where
  "showsSwitcherSection w \<longleftrightarrow> groupNames w \<noteq> [] \<or> 1 < length (boardNames w)"

subsection \<open>Boards\<close>

definition attachBoard :: "string \<Rightarrow> 'a \<Rightarrow> ('a, 'g) switcher \<Rightarrow> ('a, 'g) switcher" where
  "attachBoard nick dashboard w =
     w\<lparr>boardNames := boardNames w @ [nick], boardDashboards := boardDashboards w @ [dashboard]\<rparr>"

text \<open>The selection after the entry at \<open>removed\<close> has gone from a list that has now \<open>count\<close> entries.\<close>

definition shift_selection :: "int \<Rightarrow> int \<Rightarrow> int \<Rightarrow> int" where
  "shift_selection removed count i =
     (let i1 = (if removed < i then i - 1 else i) in if count \<le> i1 then max 0 (count - 1) else i1)"

definition detachBoard :: "string \<Rightarrow> ('a, 'g) switcher \<Rightarrow> ('a, 'g) switcher" where
  "detachBoard nick w =
     (case first_index (\<lambda>n. n = nick) (boardNames w) of
        None \<Rightarrow> w
      | Some i \<Rightarrow> w\<lparr>boardNames := drop_at (int i) (boardNames w),
          boardDashboards := drop_at (int i) (boardDashboards w),
          boardLocalIdx := shift_selection (int i) (int (length (boardNames w)) - 1) (boardLocalIdx w)\<rparr>)"

definition switcher_renameBoard :: "string \<Rightarrow> string \<Rightarrow> ('a, 'g) switcher \<Rightarrow> ('a, 'g) switcher" where
  "switcher_renameBoard previous nick w =
     (case first_index (\<lambda>n. n = previous) (boardNames w) of
        None \<Rightarrow> w
      | Some i \<Rightarrow> w\<lparr>boardNames := (boardNames w)[i := nick]\<rparr>)"

subsection \<open>Groups\<close>

definition attachGroup :: "string \<Rightarrow> 'g \<Rightarrow> ('a, 'g) switcher \<Rightarrow> ('a, 'g) switcher" where
  "attachGroup name dashboard w =
     w\<lparr>groupNames := groupNames w @ [name], groupDashboards := groupDashboards w @ [dashboard]\<rparr>"

definition detachGroup :: "string \<Rightarrow> ('a, 'g) switcher \<Rightarrow> ('a, 'g) switcher" where
  "detachGroup name w =
     (case first_index (\<lambda>n. n = name) (groupNames w) of
        None \<Rightarrow> w
      | Some i \<Rightarrow>
          let wasShowingThis = (showingGroup w \<and> groupLocalIdx w = int i); names = drop_at (int i) (groupNames w)
          in w\<lparr>groupNames := names, groupDashboards := drop_at (int i) (groupDashboards w),
               groupLocalIdx := shift_selection (int i) (int (length (groupNames w)) - 1) (groupLocalIdx w),
               mainSelected := if wasShowingThis \<or> names = [] then 2 else mainSelected w\<rparr>)"

definition reconcileGroupViewAfterReplacement ::
    "string list \<Rightarrow> string list \<Rightarrow> bool \<Rightarrow> int \<Rightarrow> ('a, 'g) switcher \<Rightarrow> ('a, 'g) switcher" where
  "reconcileGroupViewAfterReplacement oldGroups newGroups wasShowingGroup oldGroupIdx w =
     (let count = int (length newGroups) in
      if newGroups = []
      then w\<lparr>groupLocalIdx := 0, showingGroup := False, visibleContentIdx := 0, mainSelected := 3\<rparr>
      else if \<not> wasShowingGroup
      then w\<lparr>groupLocalIdx := min (groupLocalIdx w) (count - 1), showingGroup := False, visibleContentIdx := 0\<rparr>
      else
        let oldName = (if valid_index oldGroupIdx oldGroups then oldGroups ! nat oldGroupIdx else []);
            i = (case first_index (\<lambda>n. n = oldName) newGroups of
                   Some k \<Rightarrow> int k
                 | None \<Rightarrow> min (max 0 oldGroupIdx) (count - 1))
        in w\<lparr>groupLocalIdx := i, showingGroup := True, visibleContentIdx := 1, mainSelected := 3\<rparr>)"

definition replaceGroups :: "(string \<times> 'g) list \<Rightarrow> ('a, 'g) switcher \<Rightarrow> ('a, 'g) switcher" where
  "replaceGroups gs w =
     reconcileGroupViewAfterReplacement (groupNames w) (map fst gs) (showingGroup w) (groupLocalIdx w)
       (w\<lparr>groupNames := map fst gs, groupDashboards := map snd gs\<rparr>)"

subsection \<open>Jumps\<close>

text \<open>The tab of the board is the second result; it is given to the first board of the name, if there is one.\<close>

definition jumpToBoard :: "string \<Rightarrow> int \<Rightarrow> ('a, 'g) switcher \<Rightarrow> ('a, 'g) switcher \<times> int" where
  "jumpToBoard nick channel w =
     ((case first_index (\<lambda>n. n = nick) (boardNames w) of None \<Rightarrow> w | Some i \<Rightarrow> w\<lparr>boardLocalIdx := int i\<rparr>)
        \<lparr>showingGroup := False, visibleContentIdx := 0, mainSelected := 3\<rparr>,
      max 0 (min (1 + channel) 16))"

definition jumpToGroup :: "string \<Rightarrow> ('a, 'g) switcher \<Rightarrow> ('a, 'g) switcher" where
  "jumpToGroup name w =
     (case first_index (\<lambda>n. n = name) (groupNames w) of None \<Rightarrow> w | Some i \<Rightarrow> w\<lparr>groupLocalIdx := int i\<rparr>)
       \<lparr>showingGroup := True, visibleContentIdx := 1, mainSelected := 3\<rparr>"

subsection \<open>Tabs, ports and inputs\<close>

definition selectedPortIndex :: "string list \<Rightarrow> string \<Rightarrow> int" where
  "selectedPortIndex ports selected =
     (if ports = [] then - 1
      else case first_index (\<lambda>p. p = selected) ports of None \<Rightarrow> 0 | Some i \<Rightarrow> int i)"

text \<open>Whether it changed anything, the titles and the active tab.\<close>

definition reconcileDisconnectedTabs :: "bool \<Rightarrow> string list \<Rightarrow> int \<Rightarrow> bool \<times> string list \<times> int" where
  "reconcileDisconnectedTabs connected titles active =
     (if connected then (False, titles, active)
      else if titles = [''Monitor''] \<and> active = 0 then (False, titles, active)
      else (True, [''Monitor''], 0))"

definition groupAliasSaveStatus :: "string \<Rightarrow> string" where
  "groupAliasSaveStatus err = (if err = [] then ''OK: group alias saved'' else ''Error: '' @ err)"

definition syncGroupAliasInput :: "bool \<Rightarrow> string \<Rightarrow> string \<Rightarrow> bool \<Rightarrow> string \<times> string \<Rightarrow> string \<times> string" where
  "syncGroupAliasInput grouped membershipKey membershipAlias inputFocused = (\<lambda>(inputAlias, lastMembershipKey).
     if \<not> grouped then ([], [])
     else if lastMembershipKey \<noteq> membershipKey \<or> inputAlias = [] \<or> \<not> inputFocused \<and> inputAlias \<noteq> membershipAlias
     then (membershipAlias, membershipKey)
     else (inputAlias, lastMembershipKey))"

subsection \<open>The selection stays on its entry\<close>

definition in_menu :: "int \<Rightarrow> 'a list \<Rightarrow> bool" where
  "in_menu i xs \<longleftrightarrow> 0 \<le> i \<and> i < max 1 (int (length xs))"

definition switcher_ok :: "('a, 'g) switcher \<Rightarrow> bool" where
  "switcher_ok w \<longleftrightarrow> length (boardDashboards w) = length (boardNames w) \<and> length (groupDashboards w) = length (groupNames w) \<and>
     in_menu (boardLocalIdx w) (boardNames w) \<and> in_menu (groupLocalIdx w) (groupNames w) \<and> visibleContentIdx w \<in> {0, 1}"

definition selected_board :: "('a, 'g) switcher \<Rightarrow> (string \<times> 'a) option" where
  "selected_board w =
     (if valid_index (boardLocalIdx w) (boardNames w)
      then Some (boardNames w ! nat (boardLocalIdx w), boardDashboards w ! nat (boardLocalIdx w)) else None)"

definition selected_group :: "('a, 'g) switcher \<Rightarrow> (string \<times> 'g) option" where
  "selected_group w =
     (if valid_index (groupLocalIdx w) (groupNames w)
      then Some (groupNames w ! nat (groupLocalIdx w), groupDashboards w ! nat (groupLocalIdx w)) else None)"

lemma drop_at_nth:
  assumes "i < length xs" and "j < length xs - 1"
  shows "drop_at (int i) xs ! j = xs ! (if j < i then j else Suc j)"
  using assms by (simp add: drop_at_def nth_append min_def)

lemma length_drop_at: "i < length xs \<Longrightarrow> length (drop_at (int i) xs) = length xs - 1"
  by (simp add: drop_at_def)

text \<open>Where the selection goes when the entry \<open>i\<close> is dropped.\<close>

lemma shift_in_menu:
  assumes "i < length xs" and "in_menu j xs"
  shows "in_menu (shift_selection (int i) (int (length xs) - 1) j) (drop_at (int i) xs)"
  using assms by (auto simp: in_menu_def shift_selection_def length_drop_at Let_def)

lemma shift_same_entry:
  assumes "i < length xs" and "valid_index j xs" and "j \<noteq> int i"
  shows "valid_index (shift_selection (int i) (int (length xs) - 1) j) (drop_at (int i) xs)"
    and "length ys = length xs \<Longrightarrow>
      drop_at (int i) ys ! nat (shift_selection (int i) (int (length xs) - 1) j) = ys ! nat j"
proof -
  let ?k = "shift_selection (int i) (int (length xs) - 1) j"
  have k: "?k = (if int i < j then j - 1 else j)"
    using assms by (auto simp: shift_selection_def valid_index_def Let_def)
  then show "valid_index ?k (drop_at (int i) xs)"
    using assms by (auto simp: valid_index_def length_drop_at)
  assume ys: "length ys = length xs"
  have "nat ?k < length ys - 1" using k assms ys by (auto simp: valid_index_def)
  then show "drop_at (int i) ys ! nat ?k = ys ! nat j"
    using k assms ys by (auto simp: drop_at_nth valid_index_def nat_diff_distrib Suc_nat_eq_nat_zadd1)
qed

lemma detachBoard_ok: "switcher_ok w \<Longrightarrow> switcher_ok (detachBoard nick w)"
  by (auto simp: detachBoard_def switcher_ok_def length_drop_at shift_in_menu dest!: first_index_Some(1) split: option.split)

lemma detachGroup_ok: "switcher_ok w \<Longrightarrow> switcher_ok (detachGroup name w)"
  by (auto simp: detachGroup_def switcher_ok_def length_drop_at shift_in_menu Let_def dest!: first_index_Some(1) split: option.split)

lemma replaceGroups_ok: "switcher_ok w \<Longrightarrow> switcher_ok (replaceGroups gs w)"
  by (auto simp: replaceGroups_def reconcileGroupViewAfterReplacement_def switcher_ok_def in_menu_def Let_def
      dest!: first_index_Some(1) split: option.split)

lemma other_switcher_ok:
  "switcher_ok w \<Longrightarrow> switcher_ok (attachBoard nick a w)" "switcher_ok w \<Longrightarrow> switcher_ok (attachGroup name g w)"
  "switcher_ok w \<Longrightarrow> switcher_ok (switcher_renameBoard p nick w)" "switcher_ok w \<Longrightarrow> switcher_ok (fst (jumpToBoard nick c w))"
  "switcher_ok w \<Longrightarrow> switcher_ok (jumpToGroup name w)" "switcher_ok w \<Longrightarrow> switcher_ok (render_switcher w)"
  "switcher_ok (makeBoardSwitcher bs)"
  by (auto simp: attachBoard_def attachGroup_def switcher_renameBoard_def jumpToBoard_def jumpToGroup_def render_switcher_def
      makeBoardSwitcher_def switcher_ok_def in_menu_def Let_def dest!: first_index_Some(1) split: option.split)

text \<open>
  C38. Nothing but the user moves the selection. When a board is removed while another is selected, the same board
  stays selected with its own dashboard; when the groups are rebuilt while a group is shown that is still among them,
  the group of that name is shown; and every selection stays within its list.
\<close>

theorem selection_stays_on_its_entry:
  assumes ok: "switcher_ok w"
  shows "switcher_ok (detachBoard nick w) \<and> switcher_ok (replaceGroups gs w) \<and>
    (\<forall>n d. selected_board w = Some (n, d) \<longrightarrow> n \<noteq> nick \<longrightarrow> selected_board (detachBoard nick w) = Some (n, d)) \<and>
    (\<forall>n d. showingGroup w \<longrightarrow> selected_group w = Some (n, d) \<longrightarrow> n \<in> fst ` set gs \<longrightarrow>
      showingGroup (replaceGroups gs w) \<and> map_option fst (selected_group (replaceGroups gs w)) = Some n)"
proof (intro conjI allI impI)
  fix n d
  assume sel: "selected_board w = Some (n, d)" and n: "n \<noteq> nick"
  have v: "valid_index (boardLocalIdx w) (boardNames w)" and nd: "n = boardNames w ! nat (boardLocalIdx w)"
    "d = boardDashboards w ! nat (boardLocalIdx w)" using sel by (auto simp: selected_board_def split: if_splits)
  have len: "length (boardDashboards w) = length (boardNames w)" using ok by (simp add: switcher_ok_def)
  show "selected_board (detachBoard nick w) = Some (n, d)"
  proof (cases "first_index (\<lambda>n. n = nick) (boardNames w)")
    case None
    then show ?thesis using sel by (simp add: detachBoard_def)
  next
    case (Some i)
    note i = first_index_Some [OF Some]
    have "boardLocalIdx w \<noteq> int i" using i(2) nd(1) n by auto
    note s = shift_same_entry [OF i(1) v this]
    show ?thesis by (simp add: detachBoard_def Some selected_board_def s(1) s(2) [OF refl] s(2) [OF len] nd)
  qed
next
  fix n d
  assume shown: "showingGroup w" and sel: "selected_group w = Some (n, d)" and n: "n \<in> fst ` set gs"
  have v: "valid_index (groupLocalIdx w) (groupNames w)" and nd: "groupNames w ! nat (groupLocalIdx w) = n"
    using sel by (auto simp: selected_group_def split: if_splits)
  obtain i where i: "first_index (\<lambda>k. k = n) (map fst gs) = Some i"
    using n first_index_None [of "\<lambda>k. k = n" "map fst gs"] by auto
  have gs: "gs \<noteq> []" using n by auto
  show "showingGroup (replaceGroups gs w)"
    by (simp add: replaceGroups_def reconcileGroupViewAfterReplacement_def gs shown Let_def)
  have "groupLocalIdx (replaceGroups gs w) = int i" "groupNames (replaceGroups gs w) = map fst gs"
    by (simp_all add: replaceGroups_def reconcileGroupViewAfterReplacement_def gs shown v nd i Let_def)
  then show "map_option fst (selected_group (replaceGroups gs w)) = Some n"
    using first_index_Some(1,2) [OF i] by (simp add: selected_group_def valid_index_def)
qed (simp_all add: ok detachBoard_ok replaceGroups_ok)

lemma selection_stays_on_its_entry_witness:
  "let w = (makeBoardSwitcher [(''a'', 1), (''b'', 2), (''c'', 3 :: nat)] :: (nat, nat) switcher)\<lparr>boardLocalIdx := 2\<rparr>
   in selected_board (detachBoard ''a'' w) = Some (''c'', 3)"
proof -
  let ?w = "(makeBoardSwitcher [(''a'', 1), (''b'', 2), (''c'', 3 :: nat)] :: (nat, nat) switcher)\<lparr>boardLocalIdx := 2\<rparr>"
  have "switcher_ok ?w" by (simp add: makeBoardSwitcher_def switcher_ok_def in_menu_def)
  moreover have "selected_board ?w = Some (''c'', 3)" by (simp add: makeBoardSwitcher_def selected_board_def valid_index_def)
  ultimately show ?thesis using selection_stays_on_its_entry [of ?w "''a''" "[]"] by (simp add: Let_def)
qed

end
