(* ===== verification/Tui_Live.thy ===== *)
theory Tui_Live
  imports Tui_Switcher
begin

text \<open>
  The threads and objects of the running terminal program: \<open>Runtime\<close> and the functions around it in
  \<open>tools/psb_demo_app/tui/main.cpp\<close>. Each serial bus has a worker thread that runs the work items of its queue and
  polls its boards; the user-interface thread creates and destroys boards and buses while they run. A pointer
  is a natural number. A step that goes through a pointer to a destroyed object has no result.

  A step is what a thread does without another looking in between: a handler of the user interface, one work item, or
  the poll of one board. What a work item or a poll does on the line is modelled in \<open>Tui_Session\<close>; here only the
  objects matter that it goes through.
\<close>

subsection \<open>Objects\<close>

record live_board =
  lb_name :: string
  lb_port :: string
  lb_worker :: nat

text \<open>
  A work item: the removal of a board, which sets a shared flag at its end; anything that goes through a board, as its
  connection and the writes of its dashboard do; or one that goes through the bus only, as a scan does.
\<close>

datatype work_item =
  Item_Remove nat nat
| Item_Board nat
| Item_Bus

text \<open>\<open>bw_polling\<close> is what is left of the snapshot of the boards that the thread goes through.\<close>

record bus_worker =
  bw_boards :: "nat list"
  bw_queue :: "work_item list"
  bw_polling :: "nat list"

record pending_removal =
  pr_bw :: nat
  pr_board :: nat
  pr_done :: nat

text \<open>
  The vectors of the workers and the boards own their objects; the dashboards of the groups hold pointers to the boards
  of their rows. A flag that has been set is in \<open>rt_flags\<close>.
\<close>

record live =
  rt_workers :: "(nat \<times> bus_worker) list"
  rt_boards :: "(nat \<times> live_board) list"
  rt_pending :: "pending_removal list"
  rt_flags :: "nat list"
  rt_next :: nat
  rt_topo :: topology
  rt_switcher :: "(nat, nat list) switcher"

abbreviation worker_at :: "live \<Rightarrow> nat \<Rightarrow> bus_worker option" where
  "worker_at s \<equiv> map_of (rt_workers s)"

abbreviation board_at :: "live \<Rightarrow> nat \<Rightarrow> live_board option" where
  "board_at s \<equiv> map_of (rt_boards s)"

definition upd_worker :: "nat \<Rightarrow> (bus_worker \<Rightarrow> bus_worker) \<Rightarrow> live \<Rightarrow> live" where
  "upd_worker w f s = s\<lparr>rt_workers := map (\<lambda>(p, bw). (p, if p = w then f bw else bw)) (rt_workers s)\<rparr>"

definition push_item :: "work_item \<Rightarrow> bus_worker \<Rightarrow> bus_worker" where
  "push_item it bw = bw\<lparr>bw_queue := bw_queue bw @ [it]\<rparr>"

subsection \<open>Group dashboards\<close>

text \<open>A group's dashboard is bound to the boards that have the names of its channels.\<close>

definition group_rows :: "(nat \<times> live_board) list \<Rightarrow> group_config \<Rightarrow> nat list" where
  "group_rows bs g =
     map fst (filter (\<lambda>(p, b). list_ex (\<lambda>ref. board_nickname ref = lb_name b) (members g)) bs)"

definition refreshGroupDashboards :: "live \<Rightarrow> live" where
  "refreshGroupDashboards s = s\<lparr>rt_switcher :=
     replaceGroups (map (\<lambda>g. (group_name g, group_rows (rt_boards s) g)) (groups (rt_topo s))) (rt_switcher s)\<rparr>"

subsection \<open>The worker thread\<close>

text \<open>The board of an item must be there when the item runs.\<close>

definition run_item :: "nat \<Rightarrow> work_item \<Rightarrow> live \<Rightarrow> live option" where
  "run_item w it s =
     (case it of
        Item_Remove b f \<Rightarrow>
          Some ((upd_worker w (\<lambda>bw. bw\<lparr>bw_boards := remove1 b (bw_boards bw)\<rparr>) s)\<lparr>rt_flags := f # rt_flags s\<rparr>)
      | Item_Board b \<Rightarrow> if board_at s b = None then None else Some s
      | Item_Bus \<Rightarrow> Some s)"

text \<open>
  The next step of the loop of \<open>runBusWorkerLoop\<close>: go on with the snapshot, or run the next item of the queue, or
  take the next snapshot.
\<close>

definition runBusWorkerLoop :: "nat \<Rightarrow> live \<Rightarrow> live option" where
  "runBusWorkerLoop w s =
     (case worker_at s w of
        None \<Rightarrow> Some s
      | Some bw \<Rightarrow>
          (case bw_polling bw of
             b # bs \<Rightarrow>
               if board_at s b = None then None else Some (upd_worker w (\<lambda>bw. bw\<lparr>bw_polling := bs\<rparr>) s)
           | [] \<Rightarrow>
               (case bw_queue bw of
                  it # its \<Rightarrow> run_item w it (upd_worker w (\<lambda>bw. bw\<lparr>bw_queue := its\<rparr>) s)
                | [] \<Rightarrow> Some (upd_worker w (\<lambda>bw. bw\<lparr>bw_polling := bw_boards bw\<rparr>) s))))"

subsection \<open>Removal\<close>

definition removeBoardLive :: "nat \<Rightarrow> live \<Rightarrow> live" where
  "removeBoardLive board s =
     (case find (\<lambda>(w, bw). board \<in> set (bw_boards bw)) (rt_workers s) of
        None \<Rightarrow> s
      | Some (w, _) \<Rightarrow>
          let f = rt_next s
          in (upd_worker w (push_item (Item_Remove board f)) s)
               \<lparr>rt_next := rt_next s + 1,
                rt_pending := rt_pending s @ [\<lparr>pr_bw = w, pr_board = board, pr_done = f\<rparr>]\<rparr>)"

text \<open>The first board of the name goes from each bus of the topology, and a bus without boards goes too.\<close>

definition forget_board :: "string \<Rightarrow> topology \<Rightarrow> topology" where
  "forget_board nick topo = topo\<lparr>buses := filter (\<lambda>bus. boards bus \<noteq> [])
     (map (\<lambda>bus. bus\<lparr>boards :=
        (case first_index (\<lambda>b. nickname b = nick) (boards bus) of
           None \<Rightarrow> boards bus | Some i \<Rightarrow> drop_at (int i) (boards bus))\<rparr>) (buses topo))\<rparr>"

text \<open>The thread that is told to stop ends its snapshot and empties its queue before it can be joined.\<close>

fun run_queue :: "nat \<Rightarrow> work_item list \<Rightarrow> live \<Rightarrow> live option" where
  "run_queue w [] s = Some s"
| "run_queue w (it # its) s = run_item w it s \<bind> run_queue w its"

definition join_worker :: "nat \<Rightarrow> bus_worker \<Rightarrow> live \<Rightarrow> live option" where
  "join_worker w bw s =
     (if list_ex (\<lambda>b. board_at s b = None) (bw_polling bw) then None
      else do {
        s1 \<leftarrow> run_queue w (bw_queue bw) s;
        Some (s1\<lparr>rt_workers := filter (\<lambda>(p, _). p \<noteq> w) (rt_workers s1)\<rparr>)
      })"

definition drain_one :: "pending_removal \<Rightarrow> pending_removal list \<Rightarrow> live \<Rightarrow> live option" where
  "drain_one pr others s = do {
     b \<leftarrow> board_at s (pr_board pr);
     let s1 = s\<lparr>rt_switcher := detachBoard (lb_name b) (rt_switcher s), rt_topo := forget_board (lb_name b) (rt_topo s),
                rt_boards := filter (\<lambda>(p, _). p \<noteq> pr_board pr) (rt_boards s)\<rparr>;
     bw \<leftarrow> worker_at s1 (pr_bw pr);
     if bw_boards bw = [] \<and> \<not> list_ex (\<lambda>q. pr_bw q = pr_bw pr) others then join_worker (pr_bw pr) bw s1
     else Some s1
   }"

text \<open>The removals whose flag is set are finished one by one; \<open>kept\<close> are those before that still wait.\<close>

fun drain_loop :: "pending_removal list \<Rightarrow> pending_removal list \<Rightarrow> live \<Rightarrow> live option" where
  "drain_loop kept [] s = Some (s\<lparr>rt_pending := kept\<rparr>)"
| "drain_loop kept (pr # rest) s =
     (if pr_done pr \<notin> set (rt_flags s) then drain_loop (kept @ [pr]) rest s
      else drain_one pr (kept @ rest) s \<bind> drain_loop kept rest)"

definition drainPendingRemovals :: "live \<Rightarrow> live option" where
  "drainPendingRemovals s = do {
     s1 \<leftarrow> drain_loop [] (rt_pending s) s;
     Some (if list_ex (\<lambda>pr. pr_done pr \<in> set (rt_flags s)) (rt_pending s) then refreshGroupDashboards s1 else s1)
   }"

subsection \<open>New boards\<close>

text \<open>A worker object for a bus, with its thread.\<close>

definition new_worker :: "live \<Rightarrow> nat \<times> live" where
  "new_worker s = (rt_next s, s\<lparr>rt_workers := rt_workers s @ [(rt_next s, \<lparr>bw_boards = [], bw_queue = [], bw_polling = []\<rparr>)],
     rt_next := rt_next s + 1\<rparr>)"

text \<open>A board on a worker, with the items that are queued for it at once.\<close>

definition add_board :: "nat \<Rightarrow> string \<Rightarrow> board_config \<Rightarrow> (nat \<Rightarrow> work_item list) \<Rightarrow> live \<Rightarrow> live" where
  "add_board w p cfg items s =
    (let b = rt_next s; s1 = upd_worker w (\<lambda>bw. bw\<lparr>bw_boards := bw_boards bw @ [b], bw_queue := bw_queue bw @ items b\<rparr>) s
     in s1\<lparr>rt_next := b + 1, rt_boards := rt_boards s1 @ [(b, \<lparr>lb_name = nickname cfg, lb_port = p, lb_worker = w\<rparr>)]\<rparr>)"

definition attach_board :: "nat \<Rightarrow> string \<Rightarrow> board_config \<Rightarrow> live \<Rightarrow> live" where
  "attach_board w p cfg s =
    (let s1 = add_board w p cfg (\<lambda>b. [Item_Board b]) s
     in s1\<lparr>rt_switcher := attachBoard (nickname cfg) (rt_next s) (rt_switcher s1)\<rparr>)"

text \<open>Every worker with a board on it is asked for the port of its first board.\<close>

fun worker_on_port :: "string \<Rightarrow> (nat \<times> bus_worker) list \<Rightarrow> live \<Rightarrow> nat option option" where
  "worker_on_port p [] s = Some None"
| "worker_on_port p ((w, bw) # ws) s =
     (case bw_boards bw of
        [] \<Rightarrow> worker_on_port p ws s
      | b # _ \<Rightarrow> do {
          lb \<leftarrow> board_at s b;
          if lb_port lb = p then Some (Some w) else worker_on_port p ws s
        })"

fun runs_on :: "string \<Rightarrow> nat list \<Rightarrow> live \<Rightarrow> bool option" where
  "runs_on nick [] s = Some False"
| "runs_on nick (b # bs) s = do {
     lb \<leftarrow> board_at s b;
     if lb_name lb = nick then Some True else runs_on nick bs s
   }"

fun apply_boards :: "string \<Rightarrow> board_config list \<Rightarrow> nat option \<Rightarrow> live \<Rightarrow> live option" where
  "apply_boards p [] existing s = Some s"
| "apply_boards p (cfg # cfgs) existing s =
     (case existing of
        Some w \<Rightarrow> do {
          bw \<leftarrow> worker_at s w;
          running \<leftarrow> runs_on (nickname cfg) (bw_boards bw) s;
          apply_boards p cfgs existing (if running then s else attach_board w p cfg s)
        }
      | None \<Rightarrow>
          let (w, s1) = new_worker s in apply_boards p cfgs (Some w) (attach_board w p cfg s1))"

fun applyNewBoardsLive :: "bus_config list \<Rightarrow> live \<Rightarrow> live option" where
  "applyNewBoardsLive [] s = Some s"
| "applyNewBoardsLive (bus # bs) s = do {
     existing \<leftarrow> worker_on_port (port bus) (rt_workers s) s;
     s1 \<leftarrow> apply_boards (port bus) (boards bus) existing s;
     applyNewBoardsLive bs s1
   }"

definition removeGoneBoardsLive :: "topology \<Rightarrow> live \<Rightarrow> live" where
  "removeGoneBoardsLive topo s =
     fold removeBoardLive (map fst (filter (\<lambda>(_, b). \<not> boardNicknameInUse topo (lb_name b)) (rt_boards s))) s"

text \<open>The wizard's Apply.\<close>

definition onMidSessionFinish :: "topology \<Rightarrow> live \<Rightarrow> live option" where
  "onMidSessionFinish topo s = do {
     s1 \<leftarrow> applyNewBoardsLive (buses topo) (removeGoneBoardsLive topo s);
     Some (refreshGroupDashboards (s1\<lparr>rt_topo := topo\<rparr>))
   }"

subsection \<open>Start\<close>

definition build_bus :: "bus_config \<Rightarrow> live \<Rightarrow> live" where
  "build_bus bus s =
     (let (w, s1) = new_worker s in fold (\<lambda>cfg. add_board w (port bus) cfg (\<lambda>_. [])) (boards bus) s1)"

text \<open>Each thread starts with a pass over its boards that connects them.\<close>

definition buildRuntime :: "topology \<Rightarrow> live" where
  "buildRuntime topo =
    (let s0 = \<lparr>rt_workers = [], rt_boards = [], rt_pending = [], rt_flags = [], rt_next = 0, rt_topo = topo,
               rt_switcher = makeBoardSwitcher []\<rparr>;
         s1 = fold build_bus (buses topo) s0;
         s2 = s1\<lparr>rt_workers := map (\<lambda>(w, bw). (w, bw\<lparr>bw_polling := bw_boards bw\<rparr>)) (rt_workers s1),
                 rt_switcher := makeBoardSwitcher (map (\<lambda>(p, b). (lb_name b, p)) (rt_boards s1))\<rparr>
     in refreshGroupDashboards s2)"

subsection \<open>Runs\<close>

text \<open>
  What can happen: the Remove button of a board, something else in its dashboard that queues an item, one frame of the user
  interface, the wizard's Apply, a scan over a live bus, or a step of a worker thread. A board that is gone has no dashboard.
\<close>

datatype live_event =
  Click_Remove nat
| Click_Other nat
| Frame
| Apply topology
| Scan nat
| Worker nat

definition postWrite_item :: "nat \<Rightarrow> live \<Rightarrow> live option" where
  "postWrite_item b s =
     (case board_at s b of
        None \<Rightarrow> Some s
      | Some lb \<Rightarrow> if worker_at s (lb_worker lb) = None then None
          else Some (upd_worker (lb_worker lb) (push_item (Item_Board b)) s))"

fun live_exec :: "live_event \<Rightarrow> live \<Rightarrow> live option" where
  "live_exec (Click_Remove b) s = Some (removeBoardLive b s)"
| "live_exec (Click_Other b) s = postWrite_item b s"
| "live_exec Frame s = drainPendingRemovals s"
| "live_exec (Apply topo) s = onMidSessionFinish topo s"
| "live_exec (Scan w) s = Some (upd_worker w (push_item Item_Bus) s)"
| "live_exec (Worker w) s = runBusWorkerLoop w s"

fun live_execs :: "live_event list \<Rightarrow> live \<Rightarrow> live option" where
  "live_execs [] s = Some s"
| "live_execs (e # es) s = live_exec e s \<bind> live_execs es"

end
