(* ===== verification/Tui_Live_Props.thy ===== *)
theory Tui_Live_Props
  imports Tui_Live
begin

text \<open>
  The terminal program never goes through a pointer to something it has destroyed, whatever the order of the threads,
  as long as nothing more is asked of a board whose removal is on its way; and it does where that happens.
\<close>

subsection \<open>The invariant\<close>

fun touched :: "work_item \<Rightarrow> nat set" where
  "touched (Item_Remove b f) = {b}"
| "touched (Item_Board b) = {b}"
| "touched Item_Bus = {}"

text \<open>No item that goes through a board stands behind the removal of the board.\<close>

fun orderly :: "work_item list \<Rightarrow> bool" where
  "orderly [] \<longleftrightarrow> True"
| "orderly (Item_Remove b f # q) \<longleftrightarrow> b \<notin> \<Union> (touched ` set q) \<and> orderly q"
| "orderly (it # q) \<longleftrightarrow> orderly q"

definition item_ok :: "pending_removal list \<Rightarrow> nat set \<Rightarrow> nat \<Rightarrow> nat set \<Rightarrow> work_item \<Rightarrow> bool" where
  "item_ok P F w bs it \<longleftrightarrow> touched it \<subseteq> bs \<and>
     (\<forall>b f. it = Item_Remove b f \<longrightarrow> f \<notin> F \<and> \<lparr>pr_bw = w, pr_board = b, pr_done = f\<rparr> \<in> set P)"

definition worker_ok :: "pending_removal list \<Rightarrow> live \<Rightarrow> nat \<Rightarrow> bus_worker \<Rightarrow> bool" where
  "worker_ok P s w bw \<longleftrightarrow>
     distinct (bw_boards bw) \<and> set (bw_polling bw) \<subseteq> set (bw_boards bw) \<and> orderly (bw_queue bw) \<and>
     (\<forall>b\<in>set (bw_boards bw). \<exists>lb. board_at s b = Some lb \<and> lb_worker lb = w) \<and>
     (\<forall>it\<in>set (bw_queue bw). item_ok P (set (rt_flags s)) w (set (bw_boards bw)) it)"

definition board_ok :: "pending_removal list \<Rightarrow> live \<Rightarrow> nat \<Rightarrow> live_board \<Rightarrow> bool" where
  "board_ok P s b lb \<longleftrightarrow>
     (\<exists>bw. worker_at s (lb_worker lb) = Some bw \<and> (b \<in> set (bw_boards bw) \<or> b \<in> pr_board ` set P))"

definition removal_ok :: "live \<Rightarrow> pending_removal \<Rightarrow> bool" where
  "removal_ok s pr \<longleftrightarrow>
     (\<exists>lb bw. board_at s (pr_board pr) = Some lb \<and> lb_worker lb = pr_bw pr \<and> worker_at s (pr_bw pr) = Some bw \<and>
        (if pr_done pr \<in> set (rt_flags s) then pr_board pr \<notin> set (bw_boards bw)
         else Item_Remove (pr_board pr) (pr_done pr) \<in> set (bw_queue bw)))"

definition memory_ok :: "pending_removal list \<Rightarrow> live \<Rightarrow> bool" where
  "memory_ok P s \<longleftrightarrow>
     distinct (map fst (rt_workers s)) \<and> (\<forall>w\<in>dom (worker_at s). w < rt_next s) \<and> (\<forall>b\<in>dom (board_at s). b < rt_next s) \<and>
     (\<forall>f\<in>set (rt_flags s). f < rt_next s) \<and> (\<forall>pr\<in>set P. pr_done pr < rt_next s) \<and>
     distinct (map pr_board P) \<and> distinct (map pr_done P) \<and>
     (\<forall>w bw. worker_at s w = Some bw \<longrightarrow> worker_ok P s w bw) \<and>
     (\<forall>b lb. board_at s b = Some lb \<longrightarrow> board_ok P s b lb) \<and>
     (\<forall>pr\<in>set P. removal_ok s pr)"

definition live_ok :: "live \<Rightarrow> bool" where
  "live_ok s \<longleftrightarrow> memory_ok (rt_pending s) s \<and> distinct (map fst (rt_boards s)) \<and>
     (\<forall>rows\<in>set (groupDashboards (rt_switcher s)). set rows \<subseteq> dom (board_at s))"

subsection \<open>The vectors as maps\<close>

lemma map_of_upd_all: "map_of (map (\<lambda>(p, x). (p, if p = w then f x else x)) xs) = (\<lambda>v. if v = w then map_option f (map_of xs v) else map_of xs v)"
  by (induction xs) auto

lemma map_of_filter_ne: "map_of (filter (\<lambda>(p, _). p \<noteq> w) xs) = (map_of xs)(w := None)"
  by (induction xs) auto

lemma upd_worker_simps [simp]:
  "worker_at (upd_worker w f s) v = (if v = w then map_option f (worker_at s v) else worker_at s v)"
  "rt_boards (upd_worker w f s) = rt_boards s" "rt_pending (upd_worker w f s) = rt_pending s"
  "rt_flags (upd_worker w f s) = rt_flags s" "rt_next (upd_worker w f s) = rt_next s"
  "rt_switcher (upd_worker w f s) = rt_switcher s" "rt_topo (upd_worker w f s) = rt_topo s"
  "map fst (rt_workers (upd_worker w f s)) = map fst (rt_workers s)"
  "dom (worker_at (upd_worker w f s)) = dom (worker_at s)"
  by (auto simp: upd_worker_def map_of_upd_all case_prod_beta comp_def split: if_splits)

lemma push_item_simps [simp]:
  "bw_boards (push_item it bw) = bw_boards bw" "bw_polling (push_item it bw) = bw_polling bw"
  "bw_queue (push_item it bw) = bw_queue bw @ [it]"
  by (simp_all add: push_item_def)

lemma find_Some_map_of:
  assumes "find P xs = Some (w, x)" and "distinct (map fst xs)"
  shows "map_of xs w = Some x" and "P (w, x)"
  using assms by (auto simp: find_Some_iff)

lemma orderly_snoc:
  "orderly (q @ [it]) \<longleftrightarrow> orderly q \<and> (\<forall>b f. Item_Remove b f \<in> set q \<longrightarrow> b \<notin> touched it)"
proof (induction q rule: orderly.induct)
  case 1
  then show ?case by (cases it) auto
qed auto

lemma orderly_tl: "orderly (it # q) \<Longrightarrow> orderly q"
  by (cases it) auto

text \<open>The invariant taken apart and put together.\<close>

lemma memoryD:
  assumes "memory_ok P s"
  shows "distinct (map fst (rt_workers s))" and "worker_at s w = Some bw \<Longrightarrow> w < rt_next s"
    and "board_at s b = Some lb \<Longrightarrow> b < rt_next s" and "f \<in> set (rt_flags s) \<Longrightarrow> f < rt_next s"
    and "pr \<in> set P \<Longrightarrow> pr_done pr < rt_next s" and "distinct (map pr_board P)" and "distinct (map pr_done P)"
    and "worker_at s w = Some bw \<Longrightarrow> worker_ok P s w bw" and "board_at s b = Some lb \<Longrightarrow> board_ok P s b lb"
    and "pr \<in> set P \<Longrightarrow> removal_ok s pr"
  using assms unfolding memory_ok_def by blast+

lemma memoryI:
  assumes "distinct (map fst (rt_workers s))" and "\<And>w bw. worker_at s w = Some bw \<Longrightarrow> w < rt_next s"
    and "\<And>b lb. board_at s b = Some lb \<Longrightarrow> b < rt_next s" and "\<And>f. f \<in> set (rt_flags s) \<Longrightarrow> f < rt_next s"
    and "\<And>pr. pr \<in> set P \<Longrightarrow> pr_done pr < rt_next s" and "distinct (map pr_board P)" and "distinct (map pr_done P)"
    and "\<And>w bw. worker_at s w = Some bw \<Longrightarrow> worker_ok P s w bw" and "\<And>b lb. board_at s b = Some lb \<Longrightarrow> board_ok P s b lb"
    and "\<And>pr. pr \<in> set P \<Longrightarrow> removal_ok s pr"
  shows "memory_ok P s"
  using assms unfolding memory_ok_def by blast

lemma workerD:
  assumes "worker_ok P s w bw"
  shows "distinct (bw_boards bw)" and "set (bw_polling bw) \<subseteq> set (bw_boards bw)" and "orderly (bw_queue bw)"
    and "b \<in> set (bw_boards bw) \<Longrightarrow> \<exists>lb. board_at s b = Some lb \<and> lb_worker lb = w"
    and "it \<in> set (bw_queue bw) \<Longrightarrow> item_ok P (set (rt_flags s)) w (set (bw_boards bw)) it"
  using assms unfolding worker_ok_def by blast+

lemma workerI:
  assumes "distinct (bw_boards bw)" and "set (bw_polling bw) \<subseteq> set (bw_boards bw)" and "orderly (bw_queue bw)"
    and "\<And>b. b \<in> set (bw_boards bw) \<Longrightarrow> \<exists>lb. board_at s b = Some lb \<and> lb_worker lb = w"
    and "\<And>it. it \<in> set (bw_queue bw) \<Longrightarrow> item_ok P (set (rt_flags s)) w (set (bw_boards bw)) it"
  shows "worker_ok P s w bw"
  using assms unfolding worker_ok_def by blast

lemma removalE:
  assumes "removal_ok s pr"
  obtains lb bw where "board_at s (pr_board pr) = Some lb" and "lb_worker lb = pr_bw pr" and "worker_at s (pr_bw pr) = Some bw"
    and "if pr_done pr \<in> set (rt_flags s) then pr_board pr \<notin> set (bw_boards bw)
      else Item_Remove (pr_board pr) (pr_done pr) \<in> set (bw_queue bw)"
  using assms unfolding removal_ok_def by blast

text \<open>A board is on no other worker than its own.\<close>

lemma on_one_worker:
  assumes "memory_ok P s" and "worker_at s w = Some bw" and "b \<in> set (bw_boards bw)" and "worker_at s v = Some bv"
    and "b \<in> set (bw_boards bv)"
  shows "v = w"
  using workerD(4) [OF memoryD(8) [OF assms(1,2)] assms(3)] workerD(4) [OF memoryD(8) [OF assms(1,4)] assms(5)] by auto

lemma item_ok_mono:
  "item_ok P F w bs it \<Longrightarrow> set P \<subseteq> set P' \<Longrightarrow> bs \<subseteq> bs' \<Longrightarrow> item_ok P' F w bs' it"
  unfolding item_ok_def by blast

subsection \<open>Requests of the user\<close>

lemma removal_is_pending:
  assumes "memory_ok P s" and "worker_at s w = Some bw" and "Item_Remove b f \<in> set (bw_queue bw)"
  shows "b \<in> pr_board ` set P"
proof -
  have "\<lparr>pr_bw = w, pr_board = b, pr_done = f\<rparr> \<in> set P"
    using workerD(5) [OF memoryD(8) [OF assms(1,2)] assms(3)] by (simp add: item_ok_def)
  then show ?thesis by force
qed

text \<open>The worker \<open>w\<close> keeps its boards and the removals of its queue.\<close>

lemma upd_memory_ok:
  assumes m: "memory_ok P s" and w: "worker_at s w = Some bw" and f: "worker_ok P (upd_worker w f s) w (f bw)"
    and q: "\<And>b g. Item_Remove b g \<in> set (bw_queue bw) \<Longrightarrow> Item_Remove b g \<in> set (bw_queue (f bw))"
    and b: "set (bw_boards (f bw)) = set (bw_boards bw)"
  shows "memory_ok P (upd_worker w f s)"
proof (rule memoryI, goal_cases)
  case (8 v bv)
  show ?case
  proof (cases "v = w")
    case True
    then show ?thesis using 8 f w by simp
  next
    case False
    then have "worker_ok P s v bv" using 8 memoryD(8) [OF m] by simp
    then show ?thesis by (simp add: worker_ok_def)
  qed
next
  case (9 c lb)
  then have "board_ok P s c lb" using memoryD(9) [OF m] by simp
  then show ?case using w b by (auto simp: board_ok_def)
next
  case (10 pr)
  then have "removal_ok s pr" by (rule memoryD(10) [OF m])
  then show ?case
    using w b q by (elim removalE, cases "pr_bw pr = w") (auto simp: removal_ok_def split: if_splits)
qed (use memoryD(1-7) [OF m] w in \<open>auto split: if_splits\<close>)

text \<open>An item that goes through a board of the worker which is not being removed.\<close>

lemma push_memory_ok:
  assumes m: "memory_ok P s" and w: "worker_at s w = Some bw"
    and it: "item_ok P (set (rt_flags s)) w (set (bw_boards bw)) it" "\<forall>b\<in>touched it. b \<notin> pr_board ` set P"
  shows "memory_ok P (upd_worker w (push_item it) s)"
proof (rule upd_memory_ok [OF m w], rule workerI)
  note k = workerD [OF memoryD(8) [OF m w]]
  show "orderly (bw_queue (push_item it bw))"
    using k(3) it(2) removal_is_pending [OF m w] by (auto simp: orderly_snoc)
  show "item_ok P (set (rt_flags (upd_worker w (push_item it) s))) w (set (bw_boards (push_item it bw))) jt"
    if "jt \<in> set (bw_queue (push_item it bw))" for jt using that it(1) k(5) by auto
qed (use workerD [OF memoryD(8) [OF m w]] in auto)

lemma post_ok:
  assumes m: "memory_ok P s" and b: "b \<notin> pr_board ` set P" and lb: "board_at s b = Some lb"
  shows "\<exists>bw. worker_at s (lb_worker lb) = Some bw" and "memory_ok P (upd_worker (lb_worker lb) (push_item (Item_Board b)) s)"
proof -
  obtain bw where w: "worker_at s (lb_worker lb) = Some bw" "b \<in> set (bw_boards bw)"
    using memoryD(9) [OF m lb] b unfolding board_ok_def by blast
  then show "\<exists>bw. worker_at s (lb_worker lb) = Some bw" by blast
  show "memory_ok P (upd_worker (lb_worker lb) (push_item (Item_Board b)) s)"
    by (rule push_memory_ok [OF m w(1)]) (use w(2) b in \<open>simp_all add: item_ok_def\<close>)
qed

text \<open>A removal is queued and noted, unless there is one already.\<close>

lemma removeBoardLive_cases:
  assumes m: "memory_ok P s"
  obtains "removeBoardLive b s = s"
  | w bw where "worker_at s w = Some bw" and "b \<in> set (bw_boards bw)" and "removeBoardLive b s =
      (upd_worker w (push_item (Item_Remove b (rt_next s))) s)\<lparr>rt_next := rt_next s + 1,
        rt_pending := rt_pending s @ [\<lparr>pr_bw = w, pr_board = b, pr_done = rt_next s\<rparr>]\<rparr>"
proof (cases "find (\<lambda>(w, bw). b \<in> set (bw_boards bw)) (rt_workers s)")
  case None
  then show thesis using that(1) by (simp add: removeBoardLive_def)
next
  case (Some e)
  then obtain w bw where e: "e = (w, bw)" by fastforce
  show thesis
    using find_Some_map_of [OF Some [unfolded e] memoryD(1) [OF m]] Some e
    by (intro that(2) [of w bw]) (simp_all add: removeBoardLive_def Let_def)
qed

lemma worker_ok_frame:
  assumes "worker_ok P s w bw" and "rt_boards s' = rt_boards s" and "rt_flags s' = rt_flags s" and "set P \<subseteq> set P'"
  shows "worker_ok P' s' w bw"
  using workerD [OF assms(1)] assms(2,3) item_ok_mono [OF _ assms(4) subset_refl] by (intro workerI) auto

lemma removeBoardLive_ok:
  assumes m: "memory_ok (rt_pending s) s" and b: "b \<notin> pr_board ` set (rt_pending s)"
  shows "memory_ok (rt_pending (removeBoardLive b s)) (removeBoardLive b s)"
    and "rt_boards (removeBoardLive b s) = rt_boards s" and "rt_switcher (removeBoardLive b s) = rt_switcher s"
    and "set (map pr_board (rt_pending (removeBoardLive b s))) \<subseteq> insert b (pr_board ` set (rt_pending s))"
proof -
  note cases = removeBoardLive_cases [OF m, of b]
  show "rt_boards (removeBoardLive b s) = rt_boards s" "rt_switcher (removeBoardLive b s) = rt_switcher s"
    "set (map pr_board (rt_pending (removeBoardLive b s))) \<subseteq> insert b (pr_board ` set (rt_pending s))"
    by (rule cases; auto)+
  show "memory_ok (rt_pending (removeBoardLive b s)) (removeBoardLive b s)"
  proof (rule cases)
    assume "removeBoardLive b s = s"
    then show ?thesis using m by simp
  next
    fix w bw
    assume w: "worker_at s w = Some bw" and on: "b \<in> set (bw_boards bw)" and r: "removeBoardLive b s =
      (upd_worker w (push_item (Item_Remove b (rt_next s))) s)\<lparr>rt_next := rt_next s + 1,
        rt_pending := rt_pending s @ [\<lparr>pr_bw = w, pr_board = b, pr_done = rt_next s\<rparr>]\<rparr>"
    let ?f = "rt_next s" and ?P = "rt_pending s" and ?s = "removeBoardLive b s"
    let ?pr = "\<lparr>pr_bw = w, pr_board = b, pr_done = ?f\<rparr>" and ?it = "Item_Remove b (rt_next s)"
    have P: "rt_pending ?s = ?P @ [?pr]" and W: "worker_at ?s v = (if v = w then Some (push_item ?it bw) else worker_at s v)"
      and B: "rt_boards ?s = rt_boards s" and F: "rt_flags ?s = rt_flags s" and N: "rt_next ?s = rt_next s + 1" for v
      using r w by simp_all
    have fresh: "?f \<notin> set (rt_flags s)" using memoryD(4) [OF m, of ?f] by auto
    note k = workerD [OF memoryD(8) [OF m w]]
    have new: "worker_ok (?P @ [?pr]) ?s w (push_item ?it bw)"
    proof (rule workerI)
      show "orderly (bw_queue (push_item ?it bw))" using k(3) b removal_is_pending [OF m w] by (auto simp: orderly_snoc)
      fix jt
      assume "jt \<in> set (bw_queue (push_item ?it bw))"
      then show "item_ok (?P @ [?pr]) (set (rt_flags ?s)) w (set (bw_boards (push_item ?it bw))) jt"
        using item_ok_mono [OF k(5), of jt "?P @ [?pr]"] on fresh F by (auto simp: item_ok_def)
    qed (use k B in auto)
    show ?thesis
      unfolding P
    proof (rule memoryI, goal_cases)
      case (8 v bv)
      show ?case
      proof (cases "v = w")
        case True
        then show ?thesis using 8 W new by simp
      next
        case False
        then have "worker_ok ?P s v bv" using 8 W memoryD(8) [OF m] by simp
        then show ?thesis by (rule worker_ok_frame) (use B F in auto)
      qed
    next
      case (9 c lb)
      then have "board_ok ?P s c lb" using memoryD(9) [OF m] B by simp
      then show ?case using W w by (auto simp: board_ok_def)
    next
      case (10 pr)
      show ?case
      proof (cases "pr = ?pr")
        case True
        then show ?thesis using W k(4) [OF on] B F fresh by (auto simp: removal_ok_def)
      next
        case False
        then have "removal_ok s pr" using 10 memoryD(10) [OF m] by auto
        then show ?thesis
          using W w B F by (elim removalE, cases "pr_bw pr = w") (auto simp: removal_ok_def split: if_splits)
      qed
    next
      case 7
      then show ?case using memoryD(5,7) [OF m] by force
    next
      case (2 v bv)
      then show ?case using memoryD(2) [OF m] W w N by (fastforce split: if_splits)
    next
      case (5 pr)
      then show ?case using memoryD(5) [OF m] N by (auto simp: less_Suc_eq)
    next
      case (3 c lb)
      then show ?case using memoryD(3) [OF m, of c lb] B N by simp
    next
      case (4 f)
      then show ?case using memoryD(4) [OF m, of f] F N by simp
    next
      case 1
      then show ?case using memoryD(1) [OF m] r by simp
    next
      case 6
      then show ?case using memoryD(6) [OF m] b by auto
    qed
  qed
qed

subsection \<open>Steps of a worker\<close>

lemma same_removal:
  assumes "memory_ok P s" and "pr \<in> set P" and "pr' \<in> set P" and "pr_done pr = pr_done pr' \<or> pr_board pr = pr_board pr'"
  shows "pr = pr'"
  using memoryD(6,7) [OF assms(1)] assms(2-4) by (auto simp: distinct_map inj_on_def)

lemma remove_step_ok:
  assumes m: "memory_ok P s" and w: "worker_at s w = Some bw" and p: "bw_polling bw = []" and q: "bw_queue bw = Item_Remove b f # its"
  defines "s' \<equiv> (upd_worker w (\<lambda>bw. bw\<lparr>bw_boards := remove1 b (bw_boards bw)\<rparr>)
      (upd_worker w (\<lambda>bw. bw\<lparr>bw_queue := its\<rparr>) s))\<lparr>rt_flags := f # rt_flags s\<rparr>"
  shows "memory_ok P s'"
proof -
  let ?pr = "\<lparr>pr_bw = w, pr_board = b, pr_done = f\<rparr>" and ?bw = "bw\<lparr>bw_queue := its, bw_boards := remove1 b (bw_boards bw)\<rparr>"
  note k = workerD [OF memoryD(8) [OF m w]]
  have it: "item_ok P (set (rt_flags s)) w (set (bw_boards bw)) (Item_Remove b f)" using k(5) q by simp
  then have pr: "?pr \<in> set P" and bin: "b \<in> set (bw_boards bw)" and f: "f \<notin> set (rt_flags s)" by (simp_all add: item_ok_def)
  have W: "worker_at s' v = (if v = w then Some ?bw else worker_at s v)" and B: "rt_boards s' = rt_boards s"
    and F: "rt_flags s' = f # rt_flags s" and N: "rt_next s' = rt_next s" and L: "map fst (rt_workers s') = map fst (rt_workers s)" for v
    using w by (simp_all add: s'_def)
  have boards: "set (remove1 b (bw_boards bw)) = set (bw_boards bw) - {b}" using k(1) by simp
  have its: "item_ok P (insert f (set (rt_flags s))) w (set (bw_boards bw) - {b}) it" if "it \<in> set its" for it
  proof -
    have o: "item_ok P (set (rt_flags s)) w (set (bw_boards bw)) it" and nb: "b \<notin> touched it"
      using k(3,5) q that by auto
    have "g \<noteq> f" if "it = Item_Remove c g" for c g
    proof
      assume "g = f"
      then have "\<lparr>pr_bw = w, pr_board = c, pr_done = f\<rparr> \<in> set P" using o that by (simp add: item_ok_def)
      then have "c = b" using same_removal [OF m _ pr] by fastforce
      then show False using nb that by simp
    qed
    then show ?thesis using o nb by (auto simp: item_ok_def)
  qed
  show ?thesis
  proof (rule memoryI, goal_cases)
    case (8 v bv)
    show ?case
    proof (cases "v = w")
      case True
      then have "bv = ?bw" using 8 W by simp
      moreover have "worker_ok P s' w ?bw"
        by (rule workerI) (use k p q its boards orderly_tl [of "Item_Remove b f" its] B F in auto)
      ultimately show ?thesis using True by simp
    next
      case False
      then have v: "worker_at s v = Some bv" using 8 W by simp
      note kv = workerD [OF memoryD(8) [OF m v]]
      show ?thesis
      proof (rule workerI)
        fix it
        assume "it \<in> set (bw_queue bv)"
        then have o: "item_ok P (set (rt_flags s)) v (set (bw_boards bv)) it" by (rule kv(5))
        have "g \<noteq> f" if "it = Item_Remove c g" for c g
        proof
          assume "g = f"
          then have "\<lparr>pr_bw = v, pr_board = c, pr_done = f\<rparr> \<in> set P" using o that by (simp add: item_ok_def)
          then show False using same_removal [OF m _ pr] False by fastforce
        qed
        then show "item_ok P (set (rt_flags s')) v (set (bw_boards bv)) it" using o F by (auto simp: item_ok_def)
      qed (use kv B in auto)
    qed
  next
    case (9 c lb)
    then have "board_ok P s c lb" using memoryD(9) [OF m] B by simp
    then show ?case
      using W w boards pr unfolding board_ok_def by (cases "c = b") (force split: if_splits)+
  next
    case (10 pr2)
    show ?case
    proof (cases "pr2 = ?pr")
      case True
      then show ?thesis using W k(4) [OF bin] B F boards by (auto simp: removal_ok_def)
    next
      case False
      then have ne: "pr_done pr2 \<noteq> f" "pr_board pr2 \<noteq> b" using same_removal [OF m 10 pr] by auto
      have "removal_ok s pr2" using 10 by (rule memoryD(10) [OF m])
      then show ?thesis
        using W w B F ne q boards by (elim removalE, cases "pr_bw pr2 = w") (auto simp: removal_ok_def split: if_splits)
    qed
  next
    case (4 g)
    then show ?case using memoryD(4) [OF m, of g] memoryD(5) [OF m pr] F N by auto
  qed (use memoryD(1-3,5-7) [OF m] W w B N L in \<open>auto split: if_splits\<close>)
qed

lemma worker_step_ok:
  assumes m: "memory_ok P s"
  shows "\<exists>s'. runBusWorkerLoop w s = Some s' \<and> memory_ok P s' \<and> rt_boards s' = rt_boards s \<and>
    rt_pending s' = rt_pending s \<and> rt_switcher s' = rt_switcher s"
proof (cases "worker_at s w")
  case None
  then show ?thesis using m by (simp add: runBusWorkerLoop_def)
next
  case (Some bw)
  note k = workerD [OF memoryD(8) [OF m Some]]
  show ?thesis
  proof (cases "bw_polling bw")
    case (Cons b bs)
    then have "board_at s b \<noteq> None" using k(2,4) by fastforce
    moreover have "memory_ok P (upd_worker w (\<lambda>bw. bw\<lparr>bw_polling := bs\<rparr>) s)"
      by (rule upd_memory_ok [OF m Some], rule workerI) (use k Cons in auto)
    ultimately show ?thesis using Some Cons by (auto simp: runBusWorkerLoop_def)
  next
    case poll: Nil
    show ?thesis
    proof (cases "bw_queue bw")
      case Nil
      have "memory_ok P (upd_worker w (\<lambda>bw. bw\<lparr>bw_polling := bw_boards bw\<rparr>) s)"
        by (rule upd_memory_ok [OF m Some], rule workerI) (use k in auto)
      then show ?thesis using Some poll Nil by (simp add: runBusWorkerLoop_def)
    next
      case (Cons it its)
      show ?thesis
      proof (cases it)
        case (Item_Remove b f)
        then show ?thesis
          using remove_step_ok [OF m Some poll] Cons Some poll by (simp add: runBusWorkerLoop_def run_item_def)
      next
        case (Item_Board b)
        have "item_ok P (set (rt_flags s)) w (set (bw_boards bw)) it" using k(5) Cons by simp
        then have "b \<in> set (bw_boards bw)" using Item_Board by (simp add: item_ok_def)
        then have "board_at s b \<noteq> None" using k(4) by fastforce
        moreover have "memory_ok P (upd_worker w (\<lambda>bw. bw\<lparr>bw_queue := its\<rparr>) s)"
          by (rule upd_memory_ok [OF m Some], rule workerI) (use k Cons Item_Board in auto)
        ultimately show ?thesis using Some poll Cons Item_Board by (simp add: runBusWorkerLoop_def run_item_def)
      next
        case Item_Bus
        have "memory_ok P (upd_worker w (\<lambda>bw. bw\<lparr>bw_queue := its\<rparr>) s)"
          by (rule upd_memory_ok [OF m Some], rule workerI) (use k Cons Item_Bus in auto)
        then show ?thesis using Some poll Cons Item_Bus by (simp add: runBusWorkerLoop_def run_item_def)
      qed
    qed
  qed
qed

subsection \<open>One frame\<close>

lemma memory_frame [simp]:
  "memory_ok P (s\<lparr>rt_pending := x\<rparr>) = memory_ok P s" "memory_ok P (s\<lparr>rt_switcher := w\<rparr>) = memory_ok P s"
  "memory_ok P (s\<lparr>rt_topo := t\<rparr>) = memory_ok P s"
  by (simp_all add: memory_ok_def worker_ok_def board_ok_def removal_ok_def)

text \<open>A board whose removal has been confirmed is on no worker.\<close>

lemma confirmed_is_off:
  assumes m: "memory_ok P s" and pr: "pr \<in> set P" "pr_done pr \<in> set (rt_flags s)" and v: "worker_at s v = Some bv"
  shows "pr_board pr \<notin> set (bw_boards bv)"
proof
  assume on: "pr_board pr \<in> set (bw_boards bv)"
  obtain lb bw where "board_at s (pr_board pr) = Some lb" "lb_worker lb = pr_bw pr" "worker_at s (pr_bw pr) = Some bw"
    "pr_board pr \<notin> set (bw_boards bw)"
    using memoryD(10) [OF m pr(1)] pr(2) by (elim removalE) auto
  then show False using workerD(4) [OF memoryD(8) [OF m v] on] v on by auto
qed

lemma destroy_board_ok:
  assumes m: "memory_ok (kept @ pr # rest) s" and f: "pr_done pr \<in> set (rt_flags s)"
  shows "memory_ok (kept @ rest) (s\<lparr>rt_boards := filter (\<lambda>(p, _). p \<noteq> pr_board pr) (rt_boards s)\<rparr>)" (is "memory_ok _ ?s")
proof -
  let ?P = "kept @ pr # rest" and ?b = "pr_board pr"
  have B: "board_at ?s = (board_at s)(?b := None)" by (simp add: map_of_filter_ne)
  have others: "pr_board q \<noteq> ?b" if "q \<in> set (kept @ rest)" for q
    using memoryD(6) [OF m] that by (force simp: image_iff)
  show ?thesis
  proof (rule memoryI, goal_cases)
    case (8 v bv)
    then have v: "worker_at s v = Some bv" by simp
    note k = workerD [OF memoryD(8) [OF m v]]
    have off: "?b \<notin> set (bw_boards bv)" by (rule confirmed_is_off [OF m _ f v]) simp
    show ?case
    proof (rule workerI)
      fix it
      assume "it \<in> set (bw_queue bv)"
      then have "item_ok ?P (set (rt_flags s)) v (set (bw_boards bv)) it" by (rule k(5))
      then show "item_ok (kept @ rest) (set (rt_flags ?s)) v (set (bw_boards bv)) it"
        using off by (auto simp: item_ok_def)
    qed (use k off B in auto)
  next
    case (9 c lb)
    then have c: "c \<noteq> ?b" "board_at s c = Some lb" using B by (auto split: if_splits)
    then show ?case using memoryD(9) [OF m c(2)] by (auto simp: board_ok_def)
  next
    case (10 q)
    then have "removal_ok s q" using memoryD(10) [OF m, of q] by auto
    then show ?case using others [OF 10] B by (elim removalE) (auto simp: removal_ok_def)
  next
    case (3 c lb)
    then show ?case using memoryD(3) [OF m] B by (auto split: if_splits)
  next
    case (5 q)
    then show ?case using memoryD(5) [OF m, of q] by auto
  qed (use memoryD(1,2,4,6,7) [OF m] in auto)
qed

lemma destroy_worker_ok:
  assumes m: "memory_ok P s" and w: "worker_at s w = Some bw" and e: "bw_boards bw = []"
    and P: "\<not> list_ex (\<lambda>q. pr_bw q = w) P"
  shows "memory_ok P (s\<lparr>rt_workers := filter (\<lambda>(p, _). p \<noteq> w) (rt_workers s)\<rparr>)" (is "memory_ok _ ?s")
    and "join_worker w bw s = Some (s\<lparr>rt_workers := filter (\<lambda>(p, _). p \<noteq> w) (rt_workers s)\<rparr>)"
proof -
  have W: "worker_at ?s = (worker_at s)(w := None)" by (simp add: map_of_filter_ne)
  note k = workerD [OF memoryD(8) [OF m w]]
  have bus: "it = Item_Bus" if "it \<in> set (bw_queue bw)" for it
    using k(5) [OF that] e by (cases it) (auto simp: item_ok_def)
  have "run_queue w q s = Some s" if "\<forall>it\<in>set q. it = Item_Bus" for q
    using that by (induction q) (simp_all add: run_item_def)
  then show "join_worker w bw s = Some ?s"
    using k(2) e bus by (simp add: join_worker_def)
  show "memory_ok P ?s"
  proof (rule memoryI, goal_cases)
    case (8 v bv)
    then have "worker_ok P s v bv" using W memoryD(8) [OF m] by (auto split: if_splits)
    then show ?case by (rule worker_ok_frame) simp_all
  next
    case (9 c lb)
    then have c: "board_at s c = Some lb" by simp
    obtain bv where bv: "worker_at s (lb_worker lb) = Some bv" "c \<in> set (bw_boards bv) \<or> c \<in> pr_board ` set P"
      using memoryD(9) [OF m c] by (auto simp: board_ok_def)
    have "lb_worker lb \<noteq> w"
    proof
      assume l: "lb_worker lb = w"
      then obtain q where q: "q \<in> set P" "pr_board q = c" using bv w e by auto
      have "pr_bw q = w" using memoryD(10) [OF m q(1)] q(2) c l by (elim removalE) auto
      then show False using P q(1) by (auto simp: list_ex_iff)
    qed
    then show ?case using bv W by (auto simp: board_ok_def)
  next
    case (10 q)
    then have "pr_bw q \<noteq> w" using P by (auto simp: list_ex_iff)
    then show ?case using memoryD(10) [OF m 10] W by (elim removalE) (auto simp: removal_ok_def)
  next
    case 1
    have "map fst (filter (\<lambda>(p, _). p \<noteq> w) xs) = filter (\<lambda>p. p \<noteq> w) (map fst xs)" for xs :: "(nat \<times> bus_worker) list"
      by (induction xs) auto
    then show ?case using memoryD(1) [OF m] by simp
  next
    case (2 v bv)
    then show ?case using memoryD(2) [OF m] W by (auto split: if_splits)
  qed (use memoryD(3-7) [OF m] in auto)
qed

lemma drain_one_ok:
  assumes m: "memory_ok (kept @ pr # rest) s" and f: "pr_done pr \<in> set (rt_flags s)"
  shows "\<exists>s'. drain_one pr (kept @ rest) s = Some s' \<and> memory_ok (kept @ rest) s' \<and> rt_flags s' = rt_flags s \<and>
    rt_boards s' = filter (\<lambda>(p, _). p \<noteq> pr_board pr) (rt_boards s) \<and>
    groupDashboards (rt_switcher s') = groupDashboards (rt_switcher s)"
proof -
  obtain lb bw where b: "board_at s (pr_board pr) = Some lb" and w: "worker_at s (pr_bw pr) = Some bw"
    using memoryD(10) [OF m, of pr] by (auto elim: removalE)
  define s1 where "s1 = s\<lparr>rt_switcher := detachBoard (lb_name lb) (rt_switcher s),
      rt_topo := forget_board (lb_name lb) (rt_topo s),
      rt_boards := filter (\<lambda>(p, _). p \<noteq> pr_board pr) (rt_boards s)\<rparr>"
  have "s1 = (s\<lparr>rt_boards := filter (\<lambda>(p, _). p \<noteq> pr_board pr) (rt_boards s)\<rparr>)
      \<lparr>rt_switcher := detachBoard (lb_name lb) (rt_switcher s), rt_topo := forget_board (lb_name lb) (rt_topo s)\<rparr>"
    by (simp add: s1_def)
  then have m1: "memory_ok (kept @ rest) s1" using destroy_board_ok [OF m f] by simp
  have w1: "worker_at s1 (pr_bw pr) = Some bw" using w by (simp add: s1_def)
  have d: "drain_one pr (kept @ rest) s =
      (if bw_boards bw = [] \<and> \<not> list_ex (\<lambda>q. pr_bw q = pr_bw pr) (kept @ rest) then join_worker (pr_bw pr) bw s1 else Some s1)"
    using b w by (simp add: drain_one_def s1_def Let_def)
  have s1: "rt_flags s1 = rt_flags s" "rt_boards s1 = filter (\<lambda>(p, _). p \<noteq> pr_board pr) (rt_boards s)"
    "groupDashboards (rt_switcher s1) = groupDashboards (rt_switcher s)"
    by (simp_all add: s1_def detachBoard_def split: option.split)
  show ?thesis
  proof (cases "bw_boards bw = [] \<and> \<not> list_ex (\<lambda>q. pr_bw q = pr_bw pr) (kept @ rest)")
    case True
    then show ?thesis using d s1 destroy_worker_ok [OF m1 w1, of] by auto
  next
    case False
    then show ?thesis using d s1 m1 by auto
  qed
qed

lemma drain_loop_ok:
  assumes "memory_ok (kept @ rest) s"
  shows "\<exists>s'. drain_loop kept rest s = Some s' \<and> memory_ok (rt_pending s') s' \<and>
    groupDashboards (rt_switcher s') = groupDashboards (rt_switcher s) \<and>
    (distinct (map fst (rt_boards s)) \<longrightarrow> distinct (map fst (rt_boards s'))) \<and>
    (\<not> list_ex (\<lambda>pr. pr_done pr \<in> set (rt_flags s)) rest \<longrightarrow> rt_boards s' = rt_boards s)"
  using assms
proof (induction rest arbitrary: kept s)
  case (Cons pr rest)
  show ?case
  proof (cases "pr_done pr \<in> set (rt_flags s)")
    case False
    then show ?thesis using Cons.IH [of "kept @ [pr]" s] Cons.prems by auto
  next
    case True
    obtain s1 where s1: "drain_one pr (kept @ rest) s = Some s1" "memory_ok (kept @ rest) s1"
      "rt_boards s1 = filter (\<lambda>(p, _). p \<noteq> pr_board pr) (rt_boards s)"
      "groupDashboards (rt_switcher s1) = groupDashboards (rt_switcher s)"
      using drain_one_ok [OF Cons.prems True] by blast
    have "map fst (filter (\<lambda>(p, _). p \<noteq> b) xs) = filter (\<lambda>p. p \<noteq> b) (map fst xs)" for b and xs :: "(nat \<times> live_board) list"
      by (induction xs) auto
    then show ?thesis using Cons.IH [OF s1(2)] s1 True by auto
  qed
qed simp

lemma refresh_rows:
  "\<forall>rows\<in>set (groupDashboards (rt_switcher (refreshGroupDashboards s))). set rows \<subseteq> dom (board_at (refreshGroupDashboards s))"
  by (auto simp: refreshGroupDashboards_def replaceGroups_def reconcileGroupViewAfterReplacement_def group_rows_def Let_def
      dom_map_of_conv_image_fst)

lemma refresh_simps [simp]:
  "rt_pending (refreshGroupDashboards s) = rt_pending s" "rt_boards (refreshGroupDashboards s) = rt_boards s"
  "memory_ok P (refreshGroupDashboards s) = memory_ok P s"
  by (simp_all add: refreshGroupDashboards_def)

lemma drain_ok:
  assumes "live_ok s"
  shows "\<exists>s'. drainPendingRemovals s = Some s' \<and> live_ok s'"
proof -
  have m: "memory_ok ([] @ rt_pending s) s" "distinct (map fst (rt_boards s))" using assms by (simp_all add: live_ok_def)
  obtain s1 where s1: "drain_loop [] (rt_pending s) s = Some s1" "memory_ok (rt_pending s1) s1"
    "groupDashboards (rt_switcher s1) = groupDashboards (rt_switcher s)" "distinct (map fst (rt_boards s1))"
    "\<not> list_ex (\<lambda>pr. pr_done pr \<in> set (rt_flags s)) (rt_pending s) \<longrightarrow> rt_boards s1 = rt_boards s"
    using drain_loop_ok [OF m(1)] m(2) by blast
  show ?thesis
  proof (cases "list_ex (\<lambda>pr. pr_done pr \<in> set (rt_flags s)) (rt_pending s)")
    case True
    then have "drainPendingRemovals s = Some (refreshGroupDashboards s1)" by (simp add: drainPendingRemovals_def s1(1))
    then show ?thesis using refresh_rows s1(2,4) by (simp add: live_ok_def)
  next
    case False
    then have "drainPendingRemovals s = Some s1" by (simp add: drainPendingRemovals_def s1(1))
    then show ?thesis using s1 False assms by (simp add: live_ok_def)
  qed
qed

subsection \<open>New boards\<close>

lemma new_worker_ok:
  assumes m: "memory_ok P s" and n: "new_worker s = (w, s')"
  shows "memory_ok P s'" and "worker_at s' w \<noteq> None" and "rt_boards s' = rt_boards s" and "rt_pending s' = rt_pending s"
    and "rt_switcher s' = rt_switcher s" and "rt_next s \<le> rt_next s'"
proof -
  let ?bw = "\<lparr>bw_boards = [], bw_queue = [], bw_polling = []\<rparr>"
  have s': "w = rt_next s" "rt_workers s' = rt_workers s @ [(w, ?bw)]" "rt_next s' = rt_next s + 1" "rt_flags s' = rt_flags s"
    and same: "rt_boards s' = rt_boards s" "rt_pending s' = rt_pending s" "rt_switcher s' = rt_switcher s"
    using n by (auto simp: new_worker_def)
  have fresh: "worker_at s w = None" using memoryD(2) [OF m, of w] s'(1) by (cases "worker_at s w") auto
  have W: "worker_at s' v = (if v = w then Some ?bw else worker_at s v)" for v
    using fresh by (simp add: s'(2) map_add_def split: option.split)
  show "worker_at s' w \<noteq> None" using W by simp
  show "rt_boards s' = rt_boards s" "rt_pending s' = rt_pending s" "rt_switcher s' = rt_switcher s" by (fact same)+
  show "rt_next s \<le> rt_next s'" using s'(3) by simp
  show "memory_ok P s'"
  proof (rule memoryI, goal_cases)
    case (8 v bv)
    show ?case
    proof (cases "v = w")
      case True
      then show ?thesis using 8 W by (auto simp: worker_ok_def)
    next
      case False
      then have "worker_ok P s v bv" using 8 W memoryD(8) [OF m] by simp
      then show ?thesis by (rule worker_ok_frame) (use same s'(4) in auto)
    qed
  next
    case (9 c lb)
    then have "board_ok P s c lb" using memoryD(9) [OF m] same by simp
    then show ?case using W fresh by (auto simp: board_ok_def)
  next
    case (10 pr)
    then show ?case using memoryD(10) [OF m 10] W fresh same s'(4) by (elim removalE) (auto simp: removal_ok_def)
  next
    case 1
    then show ?case using memoryD(1) [OF m] fresh s'(2) by (auto simp: map_of_eq_None_iff)
  next
    case (2 v bv)
    then show ?case using memoryD(2) [OF m, of v] W s'(1,3) by (auto split: if_splits)
  next
    case (3 c lb)
    then show ?case using memoryD(3) [OF m, of c lb] same s'(3) by simp
  next
    case (4 g)
    then show ?case using memoryD(4) [OF m, of g] s'(3,4) by simp
  next
    case (5 pr)
    then show ?case using memoryD(5) [OF m, of pr] s'(3) by simp
  qed (use memoryD(6,7) [OF m] in auto)
qed

lemma add_board_ok:
  assumes m: "memory_ok P s" and w: "worker_at s w = Some bw" and items: "set (items (rt_next s)) \<subseteq> {Item_Board (rt_next s)}"
    and d: "distinct (map fst (rt_boards s))"
  shows "memory_ok P (add_board w p cfg items s)" and "worker_at (add_board w p cfg items s) w \<noteq> None"
    and "distinct (map fst (rt_boards (add_board w p cfg items s)))" and "dom (board_at s) \<subseteq> dom (board_at (add_board w p cfg items s))"
    and "rt_pending (add_board w p cfg items s) = rt_pending s" and "rt_switcher (add_board w p cfg items s) = rt_switcher s"
proof -
  let ?s = "add_board w p cfg items s" and ?b = "rt_next s"
  let ?lb = "\<lparr>lb_name = nickname cfg, lb_port = p, lb_worker = w\<rparr>"
  let ?bw = "bw\<lparr>bw_boards := bw_boards bw @ [?b], bw_queue := bw_queue bw @ items ?b\<rparr>"
  have fresh: "board_at s ?b = None" using memoryD(3) [OF m, of ?b] by (cases "board_at s ?b") auto
  have W: "worker_at ?s v = (if v = w then Some ?bw else worker_at s v)" for v
    using w by (simp add: add_board_def Let_def)
  have Bs: "rt_boards ?s = rt_boards s @ [(?b, ?lb)]" by (simp add: add_board_def Let_def)
  have B: "board_at ?s c = (if c = ?b then Some ?lb else board_at s c)" for c
    using fresh by (simp add: Bs map_add_def split: option.split)
  have F: "rt_flags ?s = rt_flags s" and N: "rt_next ?s = ?b + 1" and L: "map fst (rt_workers ?s) = map fst (rt_workers s)"
    by (simp_all add: add_board_def Let_def)
  show "worker_at ?s w \<noteq> None" using W by simp
  show "distinct (map fst (rt_boards ?s))" using d fresh by (auto simp: Bs map_of_eq_None_iff)
  show "dom (board_at s) \<subseteq> dom (board_at ?s)" by (auto simp: B)
  show "rt_pending ?s = rt_pending s" "rt_switcher ?s = rt_switcher s" by (simp_all add: add_board_def Let_def)
  note k = workerD [OF memoryD(8) [OF m w]]
  have new: "?b \<notin> set (bw_boards bw)" using k(4) fresh by fastforce
  have old: "b \<noteq> ?b" if "Item_Remove b f \<in> set (bw_queue bw)" for b f
    using k(5) [OF that] new by (auto simp: item_ok_def)
  have bw: "worker_ok P ?s w ?bw"
  proof (rule workerI)
    have "orderly (bw_queue bw @ q)" if "set q \<subseteq> {Item_Board ?b}" for q
      using that
    proof (induction q rule: rev_induct)
      case (snoc it q)
      then have "Item_Remove b f \<in> set (bw_queue bw @ q) \<Longrightarrow> b \<noteq> ?b" for b f using old by auto
      then show ?case using snoc orderly_snoc [of "bw_queue bw @ q" it] by auto
    qed (use k(3) in simp)
    then show "orderly (bw_queue ?bw)" using items by simp
    fix it
    assume "it \<in> set (bw_queue ?bw)"
    then consider "it \<in> set (bw_queue bw)" | "it = Item_Board ?b" using items by auto
    then show "item_ok P (set (rt_flags ?s)) w (set (bw_boards ?bw)) it"
    proof cases
      case 1
      then show ?thesis using item_ok_mono [OF k(5) [OF 1] subset_refl, of "set (bw_boards ?bw)"] F by auto
    next
      case 2
      then show ?thesis by (simp add: item_ok_def)
    qed
  qed (use k new B fresh in \<open>auto split: if_splits\<close>)
  show "memory_ok P ?s"
  proof (rule memoryI, goal_cases)
    case (8 v bv)
    show ?case
    proof (cases "v = w")
      case True
      then show ?thesis using 8 W bw by simp
    next
      case False
      then have v: "worker_ok P s v bv" using 8 W memoryD(8) [OF m] by simp
      have "\<exists>lb. board_at ?s b = Some lb \<and> lb_worker lb = v" if "b \<in> set (bw_boards bv)" for b
        using workerD(4) [OF v that] B fresh by auto
      then show ?thesis using workerD(1-3,5) [OF v] F by (intro workerI) auto
    qed
  next
    case (9 c lb)
    show ?case
    proof (cases "c = ?b")
      case True
      then show ?thesis using 9 B W by (auto simp: board_ok_def)
    next
      case False
      then have "board_ok P s c lb" using 9 B memoryD(9) [OF m] by simp
      then show ?thesis using W w by (auto simp: board_ok_def)
    qed
  next
    case (10 pr)
    then have "removal_ok s pr" by (rule memoryD(10) [OF m])
    moreover have "pr_board pr \<noteq> ?b" using calculation fresh by (elim removalE) auto
    ultimately show ?case
      using W w B F by (elim removalE, cases "pr_bw pr = w") (auto simp: removal_ok_def split: if_splits)
  next
    case 1
    then show ?case using memoryD(1) [OF m] L by simp
  next
    case (2 v bv)
    then show ?case using memoryD(2) [OF m] W w N by (fastforce split: if_splits)
  next
    case (3 c lb)
    then show ?case using memoryD(3) [OF m, of c lb] B N by (auto split: if_splits)
  next
    case (4 g)
    then show ?case using memoryD(4) [OF m, of g] F N by simp
  next
    case (5 pr)
    then show ?case using memoryD(5) [OF m, of pr] N by simp
  qed (use memoryD(6,7) [OF m] in auto)
qed

text \<open>What holds between the boards that Apply adds; the dashboards of the groups are rebuilt at its end.\<close>

definition adding_ok :: "live \<Rightarrow> bool" where
  "adding_ok s \<longleftrightarrow> memory_ok (rt_pending s) s \<and> distinct (map fst (rt_boards s))"

lemma attach_board_ok:
  assumes "adding_ok s" and "worker_at s w \<noteq> None"
  shows "adding_ok (attach_board w p cfg s)" and "worker_at (attach_board w p cfg s) w \<noteq> None"
proof -
  obtain bw where w: "worker_at s w = Some bw" using assms(2) by blast
  have m: "memory_ok (rt_pending s) s" and d: "distinct (map fst (rt_boards s))"
    using assms(1) by (simp_all add: adding_ok_def)
  note a = add_board_ok [OF m w _ d, of "\<lambda>b. [Item_Board b]" p cfg, simplified]
  show "adding_ok (attach_board w p cfg s)" using a by (simp add: adding_ok_def attach_board_def Let_def)
  show "worker_at (attach_board w p cfg s) w \<noteq> None" using a(2) by (simp add: attach_board_def Let_def)
qed

lemma runs_on_defined: "\<forall>b\<in>set bs. board_at s b \<noteq> None \<Longrightarrow> \<exists>r. runs_on nick bs s = Some r"
  by (induction bs) auto

lemma apply_boards_ok:
  "adding_ok s \<Longrightarrow> (\<forall>w. existing = Some w \<longrightarrow> worker_at s w \<noteq> None) \<Longrightarrow>
   \<exists>s'. apply_boards p cfgs existing s = Some s' \<and> adding_ok s'"
proof (induction cfgs arbitrary: existing s)
  case (Cons cfg cfgs)
  show ?case
  proof (cases existing)
    case None
    obtain w s1 where n: "new_worker s = (w, s1)" by fastforce
    have m: "memory_ok (rt_pending s) s" using Cons.prems(1) by (simp add: adding_ok_def)
    have "adding_ok s1" "worker_at s1 w \<noteq> None"
      using new_worker_ok [OF m n] Cons.prems(1) by (simp_all add: adding_ok_def)
    note a = attach_board_ok [OF this, of p cfg]
    then show ?thesis using Cons.IH [OF a(1), of "Some w"] None n by simp
  next
    case (Some w)
    then obtain bw where w: "worker_at s w = Some bw" using Cons.prems(2) by blast
    have m: "memory_ok (rt_pending s) s" using Cons.prems(1) by (simp add: adding_ok_def)
    have "\<forall>b\<in>set (bw_boards bw). board_at s b \<noteq> None" using workerD(4) [OF memoryD(8) [OF m w]] by fastforce
    from runs_on_defined [OF this] obtain r where r: "runs_on (nickname cfg) (bw_boards bw) s = Some r" by blast
    have "worker_at s w \<noteq> None" using w by simp
    note a = attach_board_ok [OF Cons.prems(1) this, of p cfg]
    show ?thesis
      using Cons.IH [OF Cons.prems(1), of existing] Cons.IH [OF a(1), of existing] a(2) Some w r Cons.prems(2) by (cases r) simp_all
  qed
qed simp

lemma worker_on_port_ok:
  assumes m: "memory_ok P s" and "set ws \<subseteq> set (rt_workers s)"
  shows "\<exists>r. worker_on_port p ws s = Some r \<and> (\<forall>w. r = Some w \<longrightarrow> worker_at s w \<noteq> None)"
  using assms(2)
proof (induction ws)
  case (Cons e ws)
  obtain w bw where e: "e = (w, bw)" by fastforce
  have w: "worker_at s w = Some bw" using Cons.prems e memoryD(1) [OF m] by simp
  show ?case
  proof (cases "bw_boards bw")
    case Nil
    then show ?thesis using Cons e by simp
  next
    case (Cons b bs)
    then obtain lb where "board_at s b = Some lb" using workerD(4) [OF memoryD(8) [OF m w], of b] by auto
    then show ?thesis using Cons e w Cons.prems Cons.IH by (cases "lb_port lb = p") auto
  qed
qed simp

lemma applyNewBoardsLive_ok: "adding_ok s \<Longrightarrow> \<exists>s'. applyNewBoardsLive bs s = Some s' \<and> adding_ok s'"
proof (induction bs arbitrary: s)
  case (Cons bus bs)
  have "memory_ok (rt_pending s) s" using Cons.prems by (simp add: adding_ok_def)
  from worker_on_port_ok [OF this subset_refl, of "port bus"] obtain r where
    r: "worker_on_port (port bus) (rt_workers s) s = Some r" "\<forall>w. r = Some w \<longrightarrow> worker_at s w \<noteq> None" by blast
  from apply_boards_ok [OF Cons.prems r(2), of "port bus" "boards bus"] obtain s1 where
    s1: "apply_boards (port bus) (boards bus) r s = Some s1" "adding_ok s1" by blast
  then show ?case using Cons.IH [OF s1(2)] r(1) by simp
qed simp

lemma removeGone_ok:
  assumes "memory_ok (rt_pending s) s" and "distinct bs" and "\<forall>b\<in>set bs. b \<notin> pr_board ` set (rt_pending s)"
  shows "memory_ok (rt_pending (fold removeBoardLive bs s)) (fold removeBoardLive bs s) \<and>
    rt_boards (fold removeBoardLive bs s) = rt_boards s"
  using assms
proof (induction bs arbitrary: s)
  case (Cons b bs)
  have b: "b \<notin> pr_board ` set (rt_pending s)" using Cons.prems(3) by simp
  note r = removeBoardLive_ok [OF Cons.prems(1) b]
  have "\<forall>c\<in>set bs. c \<notin> pr_board ` set (rt_pending (removeBoardLive b s))"
    using r(4) Cons.prems(2,3) by auto
  then show ?case using Cons.IH [OF r(1)] Cons.prems(2) r(2) by simp
qed simp

lemma apply_ok:
  assumes l: "live_ok s"
    and gone: "\<forall>(b, lb)\<in>set (rt_boards s). boardNicknameInUse topo (lb_name lb) \<or> b \<notin> pr_board ` set (rt_pending s)"
  shows "\<exists>s'. onMidSessionFinish topo s = Some s' \<and> live_ok s'"
proof -
  let ?bs = "map fst (filter (\<lambda>(_, b). \<not> boardNicknameInUse topo (lb_name b)) (rt_boards s))"
  have m: "memory_ok (rt_pending s) s" and d: "distinct (map fst (rt_boards s))" using l by (simp_all add: live_ok_def)
  have "distinct ?bs" using d by (simp add: distinct_map_filter)
  moreover have "\<forall>b\<in>set ?bs. b \<notin> pr_board ` set (rt_pending s)" using gone by fastforce
  ultimately have "adding_ok (removeGoneBoardsLive topo s)"
    using removeGone_ok [OF m] d unfolding adding_ok_def removeGoneBoardsLive_def by simp
  from applyNewBoardsLive_ok [OF this, of "buses topo"] obtain s1 where
    s1: "applyNewBoardsLive (buses topo) (removeGoneBoardsLive topo s) = Some s1" "adding_ok s1" by blast
  then show ?thesis
    using refresh_rows [of "s1\<lparr>rt_topo := topo\<rparr>"] by (simp add: onMidSessionFinish_def live_ok_def adding_ok_def)
qed

subsection \<open>Start\<close>

lemma build_boards_ok:
  "adding_ok s \<Longrightarrow> worker_at s w \<noteq> None \<Longrightarrow> adding_ok (fold (\<lambda>cfg. add_board w p cfg (\<lambda>_. [])) cfgs s)"
proof (induction cfgs arbitrary: s)
  case (Cons cfg cfgs)
  obtain bw where w: "worker_at s w = Some bw" using Cons.prems(2) by blast
  have m: "memory_ok (rt_pending s) s" "distinct (map fst (rt_boards s))" using Cons.prems(1) by (simp_all add: adding_ok_def)
  note a = add_board_ok [OF m(1) w _ m(2), of "\<lambda>_. []" p cfg, simplified]
  have "adding_ok (add_board w p cfg (\<lambda>_. []) s)" using a by (simp add: adding_ok_def)
  then show ?case using Cons.IH a(2) by simp
qed simp

lemma build_bus_ok:
  assumes "adding_ok s" shows "adding_ok (build_bus bus s)"
proof -
  obtain w s1 where n: "new_worker s = (w, s1)" by fastforce
  have m: "memory_ok (rt_pending s) s" "distinct (map fst (rt_boards s))" using assms by (simp_all add: adding_ok_def)
  have "adding_ok s1" "worker_at s1 w \<noteq> None" using new_worker_ok [OF m(1) n] m(2) by (simp_all add: adding_ok_def)
  then show ?thesis using n build_boards_ok by (simp add: build_bus_def)
qed

lemma buildRuntime_ok: "live_ok (buildRuntime topo)"
proof -
  let ?s0 = "\<lparr>rt_workers = [], rt_boards = [], rt_pending = [], rt_flags = [], rt_next = 0, rt_topo = topo,
               rt_switcher = makeBoardSwitcher []\<rparr>"
  define s1 where "s1 = fold build_bus (buses topo) ?s0"
  define s2 where "s2 = s1\<lparr>rt_workers := map (\<lambda>(w, bw). (w, bw\<lparr>bw_polling := bw_boards bw\<rparr>)) (rt_workers s1)\<rparr>"
  have "memory_ok [] ?s0" by (simp add: memory_ok_def)
  then have "adding_ok ?s0" by (simp add: adding_ok_def)
  moreover have "adding_ok (fold build_bus bs s)" if "adding_ok s" for bs s using that by (induction bs arbitrary: s) (auto simp: build_bus_ok)
  ultimately have "adding_ok s1" unfolding s1_def by blast
  then have m: "memory_ok (rt_pending s1) s1" and d: "distinct (map fst (rt_boards s1))" by (simp_all add: adding_ok_def)
  have map_all: "map_of (map (\<lambda>(w, bw). (w, f bw)) xs) w = map_option f (map_of xs w)"
    for f :: "bus_worker \<Rightarrow> bus_worker" and xs :: "(nat \<times> bus_worker) list" and w by (induction xs) auto
  have W: "worker_at s2 w = map_option (\<lambda>bw. bw\<lparr>bw_polling := bw_boards bw\<rparr>) (worker_at s1 w)" for w
    by (simp add: s2_def map_all)
  have same: "rt_boards s2 = rt_boards s1" "rt_flags s2 = rt_flags s1" "rt_next s2 = rt_next s1" "rt_pending s2 = rt_pending s1"
    "map fst (rt_workers s2) = map fst (rt_workers s1)" by (simp_all add: s2_def case_prod_beta comp_def)
  have "memory_ok (rt_pending s2) s2"
  proof (rule memoryI, goal_cases)
    case (8 w bv)
    then obtain bw where bw: "worker_at s1 w = Some bw" "bv = bw\<lparr>bw_polling := bw_boards bw\<rparr>" using W by auto
    note k = workerD [OF memoryD(8) [OF m bw(1)]]
    show ?case by (rule workerI) (use k bw(2) same in auto)
  next
    case (9 c lb)
    then have "board_ok (rt_pending s1) s1 c lb" using memoryD(9) [OF m] same by simp
    then show ?case using W same by (auto simp: board_ok_def)
  next
    case (10 pr)
    then have "removal_ok s1 pr" using memoryD(10) [OF m] same by simp
    then show ?case using W same by (elim removalE) (auto simp: removal_ok_def)
  next
    case (2 w bv)
    then show ?case using memoryD(2) [OF m, of w] W same by (cases "worker_at s1 w") auto
  qed (use memoryD(1,3-7) [OF m] same in auto)
  moreover have "buildRuntime topo = refreshGroupDashboards (s2\<lparr>rt_switcher :=
      makeBoardSwitcher (map (\<lambda>(p, b). (lb_name b, p)) (rt_boards s1))\<rparr>)"
    unfolding buildRuntime_def Let_def s1_def [symmetric] by (simp add: s2_def)
  ultimately show ?thesis
    using refresh_rows [of "s2\<lparr>rt_switcher := makeBoardSwitcher (map (\<lambda>(p, b). (lb_name b, p)) (rt_boards s1))\<rparr>"] d same
    by (simp add: live_ok_def)
qed

subsection \<open>No step goes through a dead pointer\<close>

text \<open>An event asks nothing more of a board whose removal is on its way.\<close>

fun considerate :: "live_event \<Rightarrow> live \<Rightarrow> bool" where
  "considerate (Click_Remove b) s \<longleftrightarrow> b \<notin> pr_board ` set (rt_pending s)"
| "considerate (Click_Other b) s \<longleftrightarrow> b \<notin> pr_board ` set (rt_pending s)"
| "considerate (Apply topo) s \<longleftrightarrow>
     list_all (\<lambda>(b, lb). boardNicknameInUse topo (lb_name lb) \<or> b \<notin> pr_board ` set (rt_pending s)) (rt_boards s)"
| "considerate _ s \<longleftrightarrow> True"

fun considerate_run :: "live_event list \<Rightarrow> live \<Rightarrow> bool" where
  "considerate_run [] s \<longleftrightarrow> True"
| "considerate_run (e # es) s \<longleftrightarrow>
     considerate e s \<and> (case live_exec e s of None \<Rightarrow> True | Some s' \<Rightarrow> considerate_run es s')"

lemma live_step_ok:
  assumes l: "live_ok s" and c: "considerate e s"
  shows "\<exists>s'. live_exec e s = Some s' \<and> live_ok s'"
proof -
  have m: "memory_ok (rt_pending s) s" and d: "distinct (map fst (rt_boards s))"
    and r: "\<forall>rows\<in>set (groupDashboards (rt_switcher s)). set rows \<subseteq> dom (board_at s)"
    using l by (simp_all add: live_ok_def)
  show ?thesis
  proof (cases e)
    case (Click_Remove b)
    then have b: "b \<notin> pr_board ` set (rt_pending s)" using c by simp
    show ?thesis using removeBoardLive_ok [OF m b] d r Click_Remove by (simp add: live_ok_def)
  next
    case (Click_Other b)
    show ?thesis
    proof (cases "board_at s b")
      case None
      then show ?thesis using Click_Other l by (simp add: postWrite_item_def)
    next
      case (Some lb)
      have b: "b \<notin> pr_board ` set (rt_pending s)" using c Click_Other by simp
      show ?thesis using post_ok [OF m b Some] Some Click_Other d r by (auto simp: postWrite_item_def live_ok_def)
    qed
  next
    case Frame
    then show ?thesis using drain_ok [OF l] by simp
  next
    case (Apply topo)
    then show ?thesis using apply_ok [OF l, of topo] c by (simp add: list_all_iff)
  next
    case (Scan w)
    have "memory_ok (rt_pending s) (upd_worker w (push_item Item_Bus) s)"
    proof (cases "worker_at s w")
      case None
      then have "upd_worker w (push_item Item_Bus) s = s"
        by (auto simp: upd_worker_def map_of_eq_None_iff intro!: live.equality map_idI split: prod.splits) force
      then show ?thesis using m by simp
    next
      case (Some bw)
      show ?thesis by (rule push_memory_ok [OF m Some]) (simp_all add: item_ok_def)
    qed
    then show ?thesis using Scan d r by (simp add: live_ok_def)
  next
    case (Worker w)
    then show ?thesis using worker_step_ok [OF m, of w] d r by (auto simp: live_ok_def)
  qed
qed

lemma live_run_ok:
  "live_ok s \<Longrightarrow> considerate_run es s \<Longrightarrow> \<exists>s'. live_execs es s = Some s' \<and> live_ok s'"
proof (induction es arbitrary: s)
  case (Cons e es)
  then show ?case using live_step_ok [of s e] by (auto split: option.splits)
qed simp


text \<open>One bus with two boards, of which one is removed, and the second Remove that the code admits.\<close>

definition bench_topology :: topology where
  "bench_topology =
    \<lparr>buses = [\<lparr>bus_name = ''bus1'', port = ''/dev/ttyUSB0'', baud_rate = 115200,
        boards = [\<lparr>nickname = ''a'', slave_id = 1, channel_aliases = []\<rparr>,
                  \<lparr>nickname = ''b'', slave_id = 2, channel_aliases = []\<rparr>]\<rparr>],
     groups = [\<lparr>group_name = ''g'', members = [\<lparr>board_nickname = ''b'', channel_index = 0, ref_alias = []\<rparr>]\<rparr>]\<rparr>"


text \<open>The same board removed twice before the frame: the second removal goes through the destroyed board.\<close>

lemma second_remove_uses_freed_board:
  "live_execs [Worker 0, Worker 0, Click_Remove 1, Click_Remove 1, Worker 0, Worker 0, Frame] (buildRuntime bench_topology) = None"
  by code_simp

text \<open>A write that is queued behind the removal runs after the board has been destroyed.\<close>

lemma late_write_uses_freed_board:
  "live_execs [Worker 0, Worker 0, Click_Remove 1, Click_Other 1, Worker 0, Frame, Worker 0] (buildRuntime bench_topology) = None"
  by code_simp

end
