(* ===== verification/Factory_Worker.thy ===== *)
theory Factory_Worker
  imports Host_Reads Host_Writes
begin

text \<open>
  The worker of the calibration station, \<open>CalibrationWorker.cpp\<close> of
  \<open>tools/factory/07_instrumental_cal/psb_factory_tool/gui\<close>: the sweep over the codes of a converter and the quick
  operations. A function takes the client (its session on the bus), and gives the signals it emits and the client after
  it; \<open>None\<close> when it never returns. The fits and the meter readings, which are floating point, are not part of it, and
  the codes of a sweep are taken to be far below the bounds of \<open>int\<close>.
\<close>

subsection \<open>Data\<close>

record sweep_config =
  dacMin :: int
  dacMax :: int
  stepSize :: int
  settlementMs :: int
  cooldownMs :: int

definition new_sweep_config :: sweep_config where
  "new_sweep_config = \<lparr>dacMin = 0, dacMax = 4000, stepSize = 800, settlementMs = 200, cooldownMs = 100\<rparr>"

record sweep_point =
  dacCode :: int
  adcV :: s32
  adcI :: s32

record channel_cal_data =
  cal_ch :: int
  hasOut :: bool
  hasMeasV :: bool
  hasMeasI :: bool
  needsCal :: bool
  points :: "sweep_point list"
  coeffsWritten :: bool
  committed :: bool

definition new_cal_data :: channel_cal_data where
  "new_cal_data =
    \<lparr>cal_ch = 0, hasOut = False, hasMeasV = False, hasMeasI = False, needsCal = False, points = [],
     coeffsWritten = False, committed = False\<rparr>"

datatype cal_signal =
  Step_Complete int int int s32 s32
| Sweep_Complete channel_cal_data
| Sweep_Failed string
| Sweep_Aborted
| Ports_Scanned "string list"
| Connect_Result bool string system_info "u16 list"
| Disconnect_Done
| Unlock_Result bool string "u16 list" "channel_cal_config_host list"
| Exit_Cal_Done bool
| Write_Coeffs_Done int bool string
| Commit_Done int bool string
| Safe_All_Done

subsection \<open>Quick operations\<close>

definition doScanPorts :: "bool \<Rightarrow> string list \<Rightarrow> cal_signal" where
  "doScanPorts windows ports = Ports_Scanned (scanPorts windows ports)"

fun read_all_caps :: "'w modbus_lib \<Rightarrow> int list \<Rightarrow> 'w session \<Rightarrow> (u16 list \<times> 'w session) option" where
  "read_all_caps L [] s = Some ([], s)"
| "read_all_caps L (ch # chs) s = do {
     (info, s1) \<leftarrow> readChannelInfo L ch 0 new_channel_info s;
     (caps, s2) \<leftarrow> read_all_caps L chs s1;
     Some (chCapFlags info # caps, s2)
   }"

definition doConnect :: "'w modbus_lib \<Rightarrow> string \<Rightarrow> int \<Rightarrow> int \<Rightarrow> 'w session \<Rightarrow> (cal_signal \<times> 'w session) option" where
  "doConnect L port baud slaveId s = do {
     (ok, s1) \<leftarrow> client_connect L port baud slaveId 500 s;
     if ok then do {
       (info, s2) \<leftarrow> readSystemInfo L new_system_info s1;
       (caps, s3) \<leftarrow> read_all_caps L [0..supportedChannels info - 1] s2;
       Some (Connect_Result True [] info caps, s3)
     }
     else Some (Connect_Result False (client_lastError s1) new_system_info [], s1)
   }"

definition doDisconnect :: "'w session \<Rightarrow> cal_signal \<times> 'w session" where
  "doDisconnect s = (Disconnect_Done, client_disconnect s)"

text \<open>The rest of a chain of writes runs only after a write that succeeded.\<close>

definition and_then :: "'w session_write \<Rightarrow> 'w session_write \<Rightarrow> 'w session_write" where
  "and_then f g s = do {
     (ok, s1) \<leftarrow> f s;
     if ok then g s1 else Some (False, s1)
   }"

definition when_has :: "bool \<Rightarrow> 'w session_write \<Rightarrow> 'w session_write" where
  "when_has present f s = (if present then f s else Some (True, s))"

fun read_stored ::
    "'w modbus_lib \<Rightarrow> int list \<Rightarrow> 'w session \<Rightarrow> ((u16 \<times> channel_cal_config_host) list \<times> 'w session) option" where
  "read_stored L [] s = Some ([], s)"
| "read_stored L (ch # chs) s = do {
     (info, s1) \<leftarrow> readChannelInfo L ch 0 new_channel_info s;
     (cal, s2) \<leftarrow> readChannelCalConfig L ch (chCapFlags info) new_channel_cal_config s1;
     (rest, s3) \<leftarrow> read_stored L chs s2;
     Some ((chCapFlags info, cal) # rest, s3)
   }"

definition doUnlockAndEnter :: "'w modbus_lib \<Rightarrow> int \<Rightarrow> 'w session \<Rightarrow> (cal_signal \<times> 'w session) option" where
  "doUnlockAndEnter L numChannels s = do {
     (ok, s1) \<leftarrow> and_then (unlockCalibrationStep L CAL_UNLOCK_STEP1)
       (and_then (unlockCalibrationStep L CAL_UNLOCK_STEP2) (enterCalibrationMode L)) s;
     if ok then do {
       (stored, s2) \<leftarrow> read_stored L [0..numChannels - 1] s1;
       Some (Unlock_Result True [] (map fst stored) (map snd stored), s2)
     }
     else Some (Unlock_Result False (client_lastError s1) [] [], s1)
   }"

definition doExitCalMode :: "'w modbus_lib \<Rightarrow> 'w session \<Rightarrow> (cal_signal \<times> 'w session) option" where
  "doExitCalMode L s = do {
     (ok, s1) \<leftarrow> exitCalibrationMode L s;
     Some (Exit_Cal_Done ok, s1)
   }"

definition doWriteCoefficients ::
    "'w modbus_lib \<Rightarrow> int \<Rightarrow> bool \<Rightarrow> bool \<Rightarrow> bool \<Rightarrow> u16 \<times> s16 \<Rightarrow> u16 \<times> s16 \<Rightarrow> u16 \<times> s16 \<Rightarrow> 'w session \<Rightarrow>
     (cal_signal \<times> 'w session) option" where
  "doWriteCoefficients L ch out measV measI kb_out kb_measV kb_measI s = do {
     (ok, s1) \<leftarrow> and_then (when_has out (writeCalibrationOutput L ch (fst kb_out) (snd kb_out)))
       (and_then (when_has measV (writeCalibrationMeasV L ch (fst kb_measV) (snd kb_measV)))
         (when_has measI (writeCalibrationMeasI L ch (fst kb_measI) (snd kb_measI)))) s;
     Some (Write_Coeffs_Done ch ok (if ok then [] else client_lastError s1), s1)
   }"

definition doCommitChannel :: "'w modbus_lib \<Rightarrow> int \<Rightarrow> 'w session \<Rightarrow> (cal_signal \<times> 'w session) option" where
  "doCommitChannel L ch s = do {
     (ok, s1) \<leftarrow> sendCalibrationCommitCommand L ch s;
     Some (Commit_Done ch ok (if ok then [] else client_lastError s1), s1)
   }"

text \<open>The output action \<open>DisableImmediate\<close> is 3. No result is looked at.\<close>

abbreviation (input) DisableImmediate :: u16 where "DisableImmediate \<equiv> 3"

fun safe_channels :: "'w modbus_lib \<Rightarrow> int list \<Rightarrow> 'w session \<Rightarrow> 'w session option" where
  "safe_channels L [] s = Some s"
| "safe_channels L (ch # chs) s = do {
     (_, s1) \<leftarrow> writeConfiguredTargetVoltage L ch 0 s;
     (_, s2) \<leftarrow> sendOutputAction L ch DisableImmediate s1;
     safe_channels L chs s2
   }"

definition doSafeAll :: "'w modbus_lib \<Rightarrow> int \<Rightarrow> 'w session \<Rightarrow> (cal_signal \<times> 'w session) option" where
  "doSafeAll L numChannels s = do {
     s1 \<leftarrow> safe_channels L [0..numChannels - 1] s;
     Some (Safe_All_Done, s1)
   }"

subsection \<open>The sweep\<close>

text \<open>
  \<open>runSweep\<close> clears the abort flag first, and another thread may set it at any time after that: \<open>seen k\<close> is what the
  \<open>k\<close>-th look at the flag finds. \<open>rest ms\<close> is what the board does while the worker sleeps. How the loop ends:
\<close>

datatype sweep_end = Swept | Failed | Aborted

definition safeOff :: "'w modbus_lib \<Rightarrow> int \<Rightarrow> 'w session \<Rightarrow> 'w session option" where
  "safeOff L ch s = do {
     (_, s1) \<leftarrow> writeRawDacCode L ch 0 s;
     (_, s2) \<leftarrow> writeCalibrationOutputEnable L ch False s1;
     Some s2
   }"

definition rest_session :: "(int \<Rightarrow> 'w \<Rightarrow> 'w) \<Rightarrow> int \<Rightarrow> 'w session \<Rightarrow> 'w session" where
  "rest_session rest ms s = s\<lparr>session_bus := map_option (\<lambda>b. b\<lparr>line := rest ms (line b)\<rparr>) (session_bus s)\<rparr>"

text \<open>One code: the signals, the point if there is one, how many times the flag was looked at, and whether to go on.\<close>

definition sweep_step ::
    "'w modbus_lib \<Rightarrow> (nat \<Rightarrow> bool) \<Rightarrow> (int \<Rightarrow> 'w \<Rightarrow> 'w) \<Rightarrow> int \<Rightarrow> sweep_config \<Rightarrow> int \<Rightarrow> int \<Rightarrow> int \<Rightarrow> nat \<Rightarrow> 'w session \<Rightarrow>
     ((cal_signal list \<times> sweep_point option \<times> nat \<times> sweep_end) \<times> 'w session) option" where
  "sweep_step L seen rest ch cfg count i dac k s = do {
     (ok, s1) \<leftarrow> writeRawDacCode L ch (word_of_int dac) s;
     if \<not> ok then Some (([Sweep_Failed (client_lastError s1)], None, k, Failed), s1)
     else
       let s2 = rest_session rest (settlementMs cfg) s1 in
       if seen k then Some (([], None, k + 1, Aborted), s2)
       else do {
         (ok, s3) \<leftarrow> sendCalibrationSampleCommand L ch s2;
         if \<not> ok then Some (([Sweep_Failed (client_lastError s3)], None, k + 1, Failed), s3)
         else
           let s4 = rest_session rest (cooldownMs cfg) s3 in
           if seen (k + 1) then Some (([], None, k + 2, Aborted), s4)
           else do {
             (snap, s5) \<leftarrow> readCalibrationSnapshot L ch s4;
             Some (([Step_Complete i count dac (snap_adc_voltage snap) (snap_adc_current snap)],
               Some \<lparr>dacCode = dac, adcV = snap_adc_voltage snap, adcI = snap_adc_current snap\<rparr>, k + 2, Swept), s5)
           }
       }
   }"

text \<open>A step size that is not positive makes the loop run for ever.\<close>

partial_function (option) sweep_loop ::
    "'w modbus_lib \<Rightarrow> (nat \<Rightarrow> bool) \<Rightarrow> (int \<Rightarrow> 'w \<Rightarrow> 'w) \<Rightarrow> int \<Rightarrow> sweep_config \<Rightarrow> int \<Rightarrow> int \<Rightarrow> int \<Rightarrow> nat \<Rightarrow> 'w session \<Rightarrow>
     ((cal_signal list \<times> sweep_point list \<times> nat \<times> sweep_end) \<times> 'w session) option" where
  "sweep_loop L seen rest ch cfg count i dac k s =
     (if dacMax cfg < dac then Some (([], [], k, Swept), s)
      else if seen k then Some (([], [], k + 1, Aborted), s)
      else do {
        ((sigs, pt, k1, how), s1) \<leftarrow> sweep_step L seen rest ch cfg count i dac (k + 1) s;
        case pt of
          None \<Rightarrow> Some ((sigs, [], k1, how), s1)
        | Some p \<Rightarrow> do {
            ((sigs2, pts, k2, how2), s2) \<leftarrow> sweep_loop L seen rest ch cfg count (i + 1) (dac + stepSize cfg) k1 s1;
            Some ((sigs @ sigs2, p # pts, k2, how2), s2)
          }
      })"

text \<open>C truncates the division; a step size of 0 is undefined there.\<close>

definition runSweep ::
    "'w modbus_lib \<Rightarrow> (nat \<Rightarrow> bool) \<Rightarrow> (int \<Rightarrow> 'w \<Rightarrow> 'w) \<Rightarrow> int \<Rightarrow> sweep_config \<Rightarrow> bool \<Rightarrow> bool \<Rightarrow> bool \<Rightarrow> 'w session \<Rightarrow>
     (cal_signal list \<times> 'w session) option" where
  "runSweep L seen rest ch cfg out measV measI s = do {
     (enabled, s1) \<leftarrow> when_has (out \<or> measV \<or> measI) (writeCalibrationOutputEnable L ch True) s;
     if \<not> enabled then Some ([Sweep_Failed (client_lastError s1)], s1)
     else if stepSize cfg = 0 then None
     else do {
       let count = c_div (dacMax cfg - dacMin cfg) (stepSize cfg) + 1;
       ((sigs, pts, k, how), s2) \<leftarrow> sweep_loop L seen rest ch cfg count 0 (dacMin cfg) 0 s1;
       s3 \<leftarrow> safeOff L ch s2;
       let data = new_cal_data\<lparr>cal_ch := ch, hasOut := out, hasMeasV := measV, hasMeasI := measI,
         needsCal := (out \<or> measV \<or> measI), points := pts\<rparr>;
       Some (sigs @ (if how = Failed then (if seen k then [Sweep_Aborted] else [])
                     else if \<not> seen k then [Sweep_Complete data]
                     else if seen (k + 1) then [Sweep_Aborted] else []), s3)
     }
   }"

end
