(* ===== verification/Factory_Board.thy ===== *)
theory Factory_Board
  imports Factory_Worker Host_Props Vc_Runtime_Queue
begin

text \<open>
  The board at the other end of the calibration station: what a write of the station does to the controller while the
  worker thread ticks and the drivers publish, for any interleaving of them, and the firmware's handlers as the board of
  a sweep. The station is the only client.
\<close>

subsection \<open>The controller during a session\<close>

text \<open>
  Either the session goes on and the channel \<open>i\<close> has the converter, or it has ended and no channel is energised.
\<close>

definition captive :: "nat \<Rightarrow> nat \<Rightarrow> ('d, 's) vc_controller \<Rightarrow> bool" where
  "captive n i ctrl \<longleftrightarrow> channel_count ctrl = n \<and> i < n \<and>
     (if operating_mode ctrl = VC_OPERATING_MODE_CALIBRATION
      then channel_has_cap (channels ctrl ! i) CH_CAP_RAW_OUTPUT_DRIVE
      else hot ctrl = {})"

text \<open>What happens without a command: ticks, and what the drivers publish.\<close>

definition background :: "'d ctl_event \<Rightarrow> bool" where
  "background e \<longleftrightarrow> (case e of Ctl_Tick _ \<Rightarrow> True | Ctl_Driver _ _ \<Rightarrow> True | _ \<Rightarrow> False)"

text \<open>The commands of a sweep on a channel.\<close>

definition sweep_command :: "u8 \<Rightarrow> 'd ctl_event \<Rightarrow> bool" where
  "sweep_command ch e \<longleftrightarrow>
     e \<in> {Ctl_Cal_Output ch True, Ctl_Cal_Output ch False, Ctl_Cal_Sample ch} \<union> range (Ctl_Cal_Raw_Dac ch)"

definition same_capabilities :: "('d, 's) vc_controller \<Rightarrow> ('d, 's) vc_controller \<Rightarrow> bool" where
  "same_capabilities c c' \<longleftrightarrow> channel_count c' = channel_count c \<and> operating_mode c' = operating_mode c \<and>
     map capabilities (channels c') = map capabilities (channels c)"

lemma same_capabilities_refl [simp]: "same_capabilities c c"
  by (simp add: same_capabilities_def)

lemma same_capabilities_on_channel:
  assumes "on_channel ctrl ch f = Some (st, ctrl')"
    and "\<And>c st c'. f c = Some (st, c') \<Longrightarrow> capabilities c' = capabilities c"
  shows "same_capabilities ctrl ctrl'"
  using assms(1) by (auto simp: on_channel_def same_capabilities_def list_eq_iff_nth_eq nth_list_update
      dest!: assms(2) split: if_splits bind_splits)

lemma same_capabilities_watchdog:
  assumes "watchdog_on_ok K r = Some (st, ctrl')" and "\<And>st c. r = Some (st, c) \<Longrightarrow> same_capabilities ctrl c"
  shows "same_capabilities ctrl ctrl'"
  using assms by (auto simp: watchdog_on_ok_def cal_watchdog_reset_def same_capabilities_def
      split: bind_splits if_splits)

lemma sweep_command_frame:
  assumes "sweep_command ch e" and "ctl_exec K e ctrl = Some (st, ctrl')"
  shows "same_capabilities ctrl ctrl'"
proof -
  have 1: "vc_channel_cal_set_output_enable c b = Some (s, c') \<Longrightarrow> capabilities c' = capabilities c"
    for c c' :: "'a vc_channel" and s b
    by (auto simp: vc_channel_cal_set_output_enable_def dest!: apply_hw_Some split: if_splits bind_splits)
  have 2: "vc_channel_cal_set_raw_dac K c code = Some (s, c') \<Longrightarrow> capabilities c' = capabilities c"
    for c c' :: "'a vc_channel" and s code
    by (auto simp: vc_channel_cal_set_raw_dac_def dest!: apply_hw_Some split: if_splits bind_splits)
  have 3: "vc_channel_cal_sample c = (s, c') \<Longrightarrow> capabilities c' = capabilities c" for c c' :: "'a vc_channel" and s
    by (simp add: vc_channel_cal_sample_def Let_def split_beta split: if_splits) (auto simp: prod_eq_iff)
  have w: "same_capabilities ctrl ctrl'" if "watchdog_on_ok K (on_channel ctrl ch f) = Some (st, ctrl')"
    and "\<And>c s c'. f c = Some (s, c') \<Longrightarrow> capabilities c' = capabilities c" for f
    using that(1) by (rule same_capabilities_watchdog) (erule same_capabilities_on_channel, erule that(2))
  show ?thesis
    using assms unfolding sweep_command_def
    by (auto simp: vc_controller_channel_cal_output_enable_def vc_controller_channel_cal_raw_dac_def
        vc_controller_channel_cal_sample_def split: if_splits elim!: w dest: 1 2 3)
qed

lemma captive_same:
  assumes "captive n i ctrl" and "same_capabilities ctrl ctrl'" and "hot ctrl' = {} \<or> operating_mode ctrl = VC_OPERATING_MODE_CALIBRATION"
    and "length (channels ctrl) = channel_count ctrl"
  shows "captive n i ctrl'"
proof -
  have "length (channels ctrl') = length (channels ctrl)"
    using assms(2) map_eq_imp_length_eq by (fastforce simp: same_capabilities_def)
  moreover have "map capabilities (channels ctrl') ! i = map capabilities (channels ctrl) ! i"
    using assms(2) by (simp add: same_capabilities_def)
  ultimately have "capabilities (channels ctrl' ! i) = capabilities (channels ctrl ! i)"
    using assms(1,4) by (simp add: captive_def)
  then show ?thesis using assms by (auto simp: captive_def same_capabilities_def channel_has_cap_def)
qed

lemma tick_captive:
  assumes K: "kconfig_in_range K" and ok: "controller_ok K ctrl" and c: "captive n i ctrl"
    and r: "vc_controller_tick K ctrl dt = Some ctrl'"
  shows "captive n i ctrl'"
proof (cases "operating_mode ctrl = VC_OPERATING_MODE_CALIBRATION")
  case False
  obtain cs where a: "all_channels (\<lambda>ch. vc_channel_run K ch dt (sys_cfg ctrl)) ctrl = Some (ctrl\<lparr>channels := cs\<rparr>)"
    by (rule all_channels_ok [OF ok good_run [OF K]])
  have "hot ctrl' \<subseteq> hot ctrl" using calm_tick [OF K ok r] by (simp add: calm_def)
  then show ?thesis using a r c False by (auto simp: vc_controller_tick_def captive_def)
next
  case True
  show ?thesis
  proof (cases "cal_watchdog_ms ctrl \<le> dt")
    case False
    then have "ctrl' = ctrl\<lparr>cal_watchdog_ms := cal_watchdog_ms ctrl - dt\<rparr>" using r True by (simp add: vc_controller_tick_def)
    then show ?thesis using c by (simp add: captive_def)
  next
    case expired: True
    let ?m = "pre_cal_mode ctrl"
    have m: "?m \<in> {VC_OPERATING_MODE_NORMAL, VC_OPERATING_MODE_AUTOMATIC}" using ok by (simp add: controller_ok_def)
    then have m3: "?m \<in> {VC_OPERATING_MODE_NORMAL, VC_OPERATING_MODE_AUTOMATIC, VC_OPERATING_MODE_CALIBRATION}" by auto
    have ne: "?m \<noteq> operating_mode ctrl" using m True by auto
    obtain st where e: "vc_controller_set_operating_mode K ctrl ?m = Some (st, ctrl')"
      using r True expired by (auto simp: vc_controller_tick_def vc_controller_cal_exit_def)
    show ?thesis
    proof (cases "mode_refusal ctrl ?m = VC_OK")
      case False
      then show ?thesis using e c by (simp add: vc_controller_set_operating_mode_def Let_def)
    next
      case ref: True
      have e': "enter_mode K ctrl ?m = Some ctrl'"
        using e ne ref True by (simp add: vc_controller_set_operating_mode_def Let_def)
      have "channel_count ctrl' = channel_count ctrl"
        by (rule enter_mode_ok [OF ok m3 ne]) (use e' in auto)
      then show ?thesis
        using hot_enter_mode(2,3) [OF ok m3 ne e'] m True c by (auto simp: captive_def)
    qed
  qed
qed

lemma driver_captive:
  assumes K: "kconfig_in_range K" and ok: "controller_ok K ctrl" and l: "loads_ok ctrl" and c: "captive n i ctrl"
    and r: "ctl_exec K (Ctl_Driver ch ev) ctrl = Some (st, ctrl')"
  shows "captive n i ctrl'"
proof -
  have "capabilities y = capabilities x" if "driver_event ev" "map_option (Pair VC_OK) (channel_exec K ev x) = Some (s, y)"
    for x y :: "'a vc_channel" and s
    using that by (cases ev) auto
  then have same: "same_capabilities ctrl ctrl'"
    using r by (auto split: if_splits intro: same_capabilities_on_channel)
  have "hot ctrl' \<subseteq> hot ctrl" using calm_exec [OF K ok l _ r] by (simp add: calm_def)
  then show ?thesis
    using captive_same [OF c same] c ok by (auto simp: captive_def controller_ok_def split: if_splits)
qed

lemma calm_background:
  assumes "kconfig_in_range K" and "controller_ok K ctrl" and "loads_ok ctrl" and "background e"
    and "ctl_exec K e ctrl = Some (st, ctrl')"
  shows "hot ctrl' \<subseteq> hot ctrl"
proof -
  have "calm_event e" using assms(4) by (cases e) (simp_all add: background_def)
  then show ?thesis using calm_exec [OF assms(1-3) _ assms(5)] by (simp add: calm_def)
qed

lemma background_captive:
  assumes K: "kconfig_in_range K" and ok: "controller_ok K ctrl" and l: "loads_ok ctrl" and c: "captive n i ctrl"
    and e: "background e" and r: "ctl_exec K e ctrl = Some (st, ctrl')"
  shows "captive n i ctrl'"
proof (cases e)
  case (Ctl_Tick dt)
  then show ?thesis using tick_captive [OF K ok c] r by auto
next
  case (Ctl_Driver ch ev)
  then show ?thesis using driver_captive [OF K ok l c] r by blast
qed (use e in \<open>simp_all add: background_def\<close>)

lemma sweep_command_captive:
  assumes K: "kconfig_in_range K" and ok: "controller_ok K ctrl" and l: "loads_ok ctrl" and c: "captive n i ctrl"
    and e: "sweep_command ch e" and r: "ctl_exec K e ctrl = Some (st, ctrl')"
  shows "captive n i ctrl'"
proof -
  have "hot ctrl' = {} \<or> operating_mode ctrl = VC_OPERATING_MODE_CALIBRATION"
  proof (cases "operating_mode ctrl = VC_OPERATING_MODE_CALIBRATION")
    case False
    then have "ctrl' = ctrl"
      using e r by (auto simp: sweep_command_def vc_controller_channel_cal_output_enable_def
          vc_controller_channel_cal_raw_dac_def vc_controller_channel_cal_sample_def split: if_splits)
    then show ?thesis using False c by (simp add: captive_def)
  qed simp
  then show ?thesis using captive_same [OF c sweep_command_frame [OF e r]] ok by (simp add: controller_ok_def)
qed

text \<open>The channels that are energised after a command of the sweep, at most, with those that were before.\<close>

definition heated :: "'d ctl_event \<Rightarrow> bool \<Rightarrow> nat set \<Rightarrow> nat set" where
  "heated e accepted H =
     (case e of
        Ctl_Cal_Output ch on \<Rightarrow> if \<not> on then H - {unat ch} else if accepted then insert (unat ch) H else H
      | _ \<Rightarrow> H)"

lemma heated_mono: "H \<subseteq> H' \<Longrightarrow> heated e accepted H \<subseteq> heated e accepted H'"
  by (auto simp: heated_def split: ctl_event.split)

lemma refused_enable_cold:
  assumes "vc_controller_channel_cal_output_enable K ctrl ch True = Some (st, ctrl')" and "st \<noteq> VC_OK" and "unat ch \<notin> hot ctrl"
  shows "unat ch \<notin> hot ctrl'"
  using assms
  by (auto simp: vc_controller_channel_cal_output_enable_def watchdog_on_ok_def on_channel_def
      vc_channel_cal_set_output_enable_def hot_def nth_list_update split: if_splits bind_splits)

lemma disable_cold:
  assumes ok: "controller_ok K ctrl" and c: "captive n (unat ch) ctrl"
    and r: "vc_controller_channel_cal_output_enable K ctrl ch False = Some (st, ctrl')"
  shows "unat ch \<notin> hot ctrl'"
proof -
  have i: "unat ch < length (channels ctrl)" using c ok by (simp add: captive_def controller_ok_def)
  then have cal: "cal_ok (cal_config (channels ctrl ! unat ch))"
    using controller_channel_ok [OF ok i] by simp
  show ?thesis
  proof (cases "operating_mode ctrl = VC_OPERATING_MODE_CALIBRATION")
    case False
    then show ?thesis using r c
      by (auto simp: vc_controller_channel_cal_output_enable_def captive_def split: if_splits)
  next
    case True
    then have "channel_has_cap (channels ctrl ! unat ch) CH_CAP_RAW_OUTPUT_DRIVE" "channel_valid ctrl ch"
      using c by (simp_all add: captive_def channel_valid_def)
    then show ?thesis using r i cal True
      by (auto simp: vc_controller_channel_cal_output_enable_def watchdog_on_ok_def on_channel_def cal_watchdog_reset_def
          vc_channel_cal_set_output_enable_def hot_def energised_def nth_list_update split: if_splits bind_splits)
  qed
qed

lemma sweep_command_hot:
  assumes K: "kconfig_in_range K" and ok: "controller_ok K ctrl" and l: "loads_ok ctrl"
    and c: "captive n (unat ch) ctrl" and e: "sweep_command ch e" and r: "ctl_exec K e ctrl = Some (st, ctrl')"
  shows "hot ctrl' \<subseteq> heated e (st = VC_OK) (hot ctrl)"
proof -
  consider "e = Ctl_Cal_Output ch True" | "e = Ctl_Cal_Output ch False" | "calm_event e" "\<And>H a. heated e a H = H"
    using e by (auto simp: sweep_command_def heated_def)
  then show ?thesis
  proof cases
    case 1
    then have r': "vc_controller_channel_cal_output_enable K ctrl ch True = Some (st, ctrl')" using r by simp
    show ?thesis using hot_cal_output [OF ok r'] refused_enable_cold [OF r'] 1 by (auto simp: heated_def)
  next
    case 2
    then have r': "vc_controller_channel_cal_output_enable K ctrl ch False = Some (st, ctrl')" using r by simp
    have "hot ctrl' \<subseteq> hot ctrl" using calm_exec [OF K ok l _ r] 2 by (simp add: calm_def)
    then show ?thesis using disable_cold [OF ok c r'] 2 by (auto simp: heated_def)
  next
    case 3
    then show ?thesis using calm_exec [OF K ok l _ r] by (simp add: calm_def)
  qed
qed

subsection \<open>A write through the queue\<close>

text \<open>What ticks and drivers keep of a sound controller.\<close>

definition steady ::
    "kconfig \<Rightarrow> 's settings_api \<Rightarrow> ('s \<Rightarrow> string \<Rightarrow> stored option) \<Rightarrow> nat \<Rightarrow> (('d, 's) vc_controller \<Rightarrow> bool) \<Rightarrow> bool" where
  "steady K z lookup m P \<longleftrightarrow>
     (\<forall>e ctrl st ctrl'. background e \<longrightarrow> controller_ok K ctrl \<longrightarrow> store_ok z lookup m ctrl \<longrightarrow> P ctrl \<longrightarrow>
        ctl_exec K e ctrl = Some (st, ctrl') \<longrightarrow> P ctrl')"

text \<open>What a command makes of it, when it is dispatched and when a calibration sample is refused before it waits.\<close>

definition turns ::
    "kconfig \<Rightarrow> 's settings_api \<Rightarrow> ('s \<Rightarrow> string \<Rightarrow> stored option) \<Rightarrow> nat \<Rightarrow> vc_runtime_command \<Rightarrow>
     (('d, 's) vc_controller \<Rightarrow> bool) \<Rightarrow> (vc_status \<Rightarrow> ('d, 's) vc_controller \<Rightarrow> bool) \<Rightarrow> bool" where
  "turns K z lookup m cmd P Q \<longleftrightarrow>
     (\<forall>ctrl st ctrl'. controller_ok K ctrl \<longrightarrow> store_ok z lookup m ctrl \<longrightarrow> P ctrl \<longrightarrow>
        (ctl_exec K (command_event cmd) ctrl = Some (st, ctrl') \<longrightarrow> Q st ctrl') \<and>
        (is_sample cmd \<longrightarrow> st \<noteq> VC_OK \<longrightarrow> Q st ctrl))"

fun unattended :: "'d rt_event \<Rightarrow> bool" where
  "unattended (Rt_Worker _) = True"
| "unattended (Rt_Driver _ _) = True"
| "unattended _ = False"

definition quiet :: "('d, 's) vc_runtime \<Rightarrow> bool" where
  "quiet rt \<longleftrightarrow> command_queue rt = [] \<and> rt_phase rt \<in> {Worker_Waiting, Worker_Draining} \<and> \<not> stop_requested rt \<and>
     (\<forall>t \<ge> rt_tickets rt. rt_results rt t = None)"

text \<open>One command is on its way through the runtime, or it has been answered.\<close>

definition serving ::
    "nat \<Rightarrow> vc_runtime_command \<Rightarrow> (('d, 's) vc_controller \<Rightarrow> bool) \<Rightarrow> (vc_status \<Rightarrow> ('d, 's) vc_controller \<Rightarrow> bool) \<Rightarrow>
     ('d, 's) vc_runtime \<Rightarrow> bool" where
  "serving t cmd P Q rt \<longleftrightarrow> \<not> stop_requested rt \<and> rt_tickets rt = Suc t \<and> (\<forall>t' > t. rt_results rt t' = None) \<and>
     (command_queue rt = [(t, cmd)] \<and> rt_phase rt \<in> {Worker_Waiting, Worker_Draining} \<and> rt_results rt t = None \<and>
        P (rt_ctrl rt) \<or>
      command_queue rt = [] \<and> rt_results rt t = None \<and> P (rt_ctrl rt) \<and>
        (\<exists>ch. cmd = VC_RUNTIME_CMD_CALIBRATION_SAMPLE ch \<and>
           (rt_phase rt = Worker_Latching t ch \<or> (\<exists>w. rt_phase rt = Worker_Sampling t w \<and> wait_channel w = ch))) \<or>
      command_queue rt = [] \<and> rt_phase rt \<in> {Worker_Waiting, Worker_Draining} \<and>
        (\<exists>st. rt_results rt t = Some st \<and> Q st (rt_ctrl rt)))"

lemma steadyD:
  "steady K z lookup m P \<Longrightarrow> background e \<Longrightarrow> rt_ok K z lookup m rt \<Longrightarrow> P (rt_ctrl rt) \<Longrightarrow>
   ctl_exec K e (rt_ctrl rt) = Some (st, ctrl') \<Longrightarrow> P ctrl'"
  by (auto simp: steady_def rt_ok_def)

lemma turnsD:
  assumes "turns K z lookup m cmd P Q" and "rt_ok K z lookup m rt" and "P (rt_ctrl rt)"
  shows "ctl_exec K (command_event cmd) (rt_ctrl rt) = Some (st, ctrl') \<Longrightarrow> Q st ctrl'"
    and "is_sample cmd \<Longrightarrow> st \<noteq> VC_OK \<Longrightarrow> Q st (rt_ctrl rt)"
  using assms by (auto simp: turns_def rt_ok_def)

lemma quiet_step:
  assumes P: "steady K z lookup m P" and ok: "rt_ok K z lookup m rt" and q: "quiet rt" and p: "P (rt_ctrl rt)"
    and e: "unattended e" and r: "rt_exec K e rt = Some rt'"
  shows "quiet rt' \<and> P (rt_ctrl rt') \<and> rt_tickets rt' = rt_tickets rt"
proof (cases e)
  case (Rt_Worker now)
  show ?thesis
  proof (cases "rt_phase rt = Worker_Waiting")
    case True
    then show ?thesis using r q p Rt_Worker by (auto simp: vc_runtime_worker_def quiet_def)
  next
    case False
    then have "rt_phase rt = Worker_Draining" "command_queue rt = []" using q by (simp_all add: quiet_def)
    then obtain ctrl where "vc_controller_tick K (rt_ctrl rt) (word_of_int now - last_tick rt) = Some ctrl"
      "rt' = rt\<lparr>rt_ctrl := ctrl, last_tick := word_of_int now, rt_phase := Worker_Waiting\<rparr>"
      using r q Rt_Worker by (auto simp: vc_runtime_worker_def worker_tick_def quiet_def Let_def split: bind_splits)
    then show ?thesis using q steadyD [OF P _ ok p, of "Ctl_Tick _"] by (simp add: quiet_def background_def)
  qed
next
  case (Rt_Driver ch ev)
  then obtain st ctrl where "ctl_exec K (Ctl_Driver ch ev) (rt_ctrl rt) = Some (st, ctrl)" "rt' = rt\<lparr>rt_ctrl := ctrl\<rparr>"
    using r by (auto simp del: ctl_exec.simps split: bind_splits)
  then show ?thesis using q steadyD [OF P _ ok p, of "Ctl_Driver ch ev"] by (simp add: quiet_def background_def)
qed (use e in simp_all)

lemma serving_worker:
  assumes P: "steady K z lookup m P" and Q: "\<And>st. steady K z lookup m (Q st)" and T: "turns K z lookup m cmd P Q"
    and ok: "rt_ok K z lookup m rt" and s: "serving t cmd P Q rt" and r: "vc_runtime_worker K now rt = Some rt'"
  shows "serving t cmd P Q rt'"
proof -
  consider (waits) "rt_phase rt = Worker_Waiting"
    | (takes) "rt_phase rt = Worker_Draining" "command_queue rt = [(t, cmd)]" "rt_results rt t = None" "P (rt_ctrl rt)"
    | (ticks) st where "rt_phase rt = Worker_Draining" "command_queue rt = []" "rt_results rt t = Some st" "Q st (rt_ctrl rt)"
    | (latches) ch where "rt_phase rt = Worker_Latching t ch" "cmd = VC_RUNTIME_CMD_CALIBRATION_SAMPLE ch" "P (rt_ctrl rt)"
        "command_queue rt = []"
    | (samples) w where "rt_phase rt = Worker_Sampling t w"
    using s by (auto simp: serving_def)
  then show ?thesis
  proof cases
    case waits
    then show ?thesis using r s by (auto simp: vc_runtime_worker_def serving_def)
  next
    case takes
    then obtain d where d: "vc_runtime_dispatch_command K (rt_ctrl rt) cmd now = Some d"
      using r by (auto simp: vc_runtime_worker_def split: bind_splits)
    show ?thesis
    proof (cases "is_sample cmd")
      case False
      then obtain st c where c: "ctl_exec K (command_event cmd) (rt_ctrl rt) = Some (st, c)" "d = Dispatch_Done st c"
        using d by (auto simp: dispatch_command dispatched_Some)
      then show ?thesis
        using r takes d s turnsD(1) [OF T ok takes(4) c(1)]
        by (auto simp: vc_runtime_worker_def Let_def answer_def serving_def)
    next
      case True
      then obtain ch where ch: "cmd = VC_RUNTIME_CMD_CALIBRATION_SAMPLE ch" by (cases cmd) auto
      then have f: "vc_runtime_cal_sample_fresh K (rt_ctrl rt) ch now = Some d" using d by simp
      have "d = Dispatch_Latch ch' \<Longrightarrow> ch' = ch" "d = Dispatch_Wait w \<Longrightarrow> wait_channel w = ch" for ch' w
        using f by (auto simp: vc_runtime_cal_sample_fresh_def Let_def split: if_splits option.splits)
      then show ?thesis
        using r takes d s ch sample_dispatch_ctrl [of K "rt_ctrl rt" ch now] f turnsD(2) [OF T ok takes(4) True]
        by (cases d) (auto simp: vc_runtime_worker_def Let_def answer_def serving_def)
    qed
  next
    case ticks
    then obtain ctrl where "vc_controller_tick K (rt_ctrl rt) (word_of_int now - last_tick rt) = Some ctrl"
      "rt' = rt\<lparr>rt_ctrl := ctrl, last_tick := word_of_int now, rt_phase := Worker_Waiting\<rparr>"
      using r s by (auto simp: vc_runtime_worker_def worker_tick_def serving_def Let_def split: bind_splits)
    then show ?thesis
      using s ticks steadyD [OF Q _ ok ticks(4), of "Ctl_Tick _"] by (auto simp: serving_def background_def)
  next
    case latches
    then obtain st c where c: "vc_controller_channel_cal_sample K (rt_ctrl rt) ch = Some (st, c)"
      "rt' = answer t st (rt\<lparr>rt_ctrl := c\<rparr>)"
      using r by (auto simp: vc_runtime_worker_def split: bind_splits)
    then show ?thesis
      using s latches turnsD(1) [OF T ok latches(3), of st c] by (auto simp: serving_def answer_def)
  next
    case samples
    then show ?thesis
      using r s by (auto simp: vc_runtime_worker_def serving_def split: if_splits option.splits)
  qed
qed

lemma serving_step:
  assumes P: "steady K z lookup m P" and Q: "\<And>st. steady K z lookup m (Q st)" and T: "turns K z lookup m cmd P Q"
    and ok: "rt_ok K z lookup m rt" and s: "serving t cmd P Q rt" and e: "unattended e" and r: "rt_exec K e rt = Some rt'"
  shows "serving t cmd P Q rt'"
proof (cases e)
  case (Rt_Worker now)
  then show ?thesis using serving_worker [OF P Q T ok s] r by simp
next
  case (Rt_Driver ch ev)
  then obtain st ctrl where c: "ctl_exec K (Ctl_Driver ch ev) (rt_ctrl rt) = Some (st, ctrl)" "rt' = rt\<lparr>rt_ctrl := ctrl\<rparr>"
    using r by (auto simp del: ctl_exec.simps split: bind_splits)
  have b: "background (Ctl_Driver ch ev)" by (simp add: background_def)
  have "P (rt_ctrl rt) \<Longrightarrow> P ctrl" "Q st' (rt_ctrl rt) \<Longrightarrow> Q st' ctrl" for st'
    using steadyD [OF P b ok _ c(1)] steadyD [OF Q b ok _ c(1)] by blast+
  then show ?thesis using s c(2) by (auto simp: serving_def)
qed (use e in simp_all)

lemma quiet_run:
  assumes K: "kconfig_in_range K" and z: "zephyr_settings z lookup" and P: "steady K z lookup m P"
  shows "rt_ok K z lookup m rt \<Longrightarrow> quiet rt \<Longrightarrow> P (rt_ctrl rt) \<Longrightarrow> list_all unattended es \<Longrightarrow>
    \<exists>rt'. rt_execs K es rt = Some rt' \<and> rt_ok K z lookup m rt' \<and> quiet rt' \<and> P (rt_ctrl rt')"
proof (induction es arbitrary: rt)
  case (Cons e es)
  obtain rt1 where 1: "rt_exec K e rt = Some rt1" "rt_ok K z lookup m rt1"
    using zephyr_settings.rt_exec_ok [OF z K Cons.prems(1)] by blast
  have "quiet rt1 \<and> P (rt_ctrl rt1)" using quiet_step [OF P Cons.prems(1-3) _ 1(1)] Cons.prems(4) by simp
  then show ?case using Cons.IH [OF 1(2)] Cons.prems(4) 1(1) by simp
qed simp

lemma serving_run:
  assumes K: "kconfig_in_range K" and z: "zephyr_settings z lookup" and P: "steady K z lookup m P"
    and Q: "\<And>st. steady K z lookup m (Q st)" and T: "turns K z lookup m cmd P Q"
  shows "rt_ok K z lookup m rt \<Longrightarrow> serving t cmd P Q rt \<Longrightarrow> list_all unattended es \<Longrightarrow>
    rt_execs K es rt = Some rt' \<Longrightarrow> rt_ok K z lookup m rt' \<and> serving t cmd P Q rt'"
proof (induction es arbitrary: rt)
  case (Cons e es)
  obtain rt1 where 1: "rt_exec K e rt = Some rt1" "rt_ok K z lookup m rt1"
    using zephyr_settings.rt_exec_ok [OF z K Cons.prems(1)] by blast
  show ?case
    using Cons.IH [OF 1(2) serving_step [OF P Q T Cons.prems(1,2) _ 1(1)]] Cons.prems(3,4) 1(1) by simp
qed simp

text \<open>A command put into a quiet runtime is answered, if it is, with what it makes of the controller then.\<close>

lemma submit_law:
  assumes K: "kconfig_in_range K" and z: "zephyr_settings z lookup" and P: "steady K z lookup m P"
    and Q: "\<And>st. steady K z lookup m (Q st)" and T: "turns K z lookup m cmd P Q"
    and ok: "rt_ok K z lookup m rt" "quiet rt" "P (rt_ctrl rt)"
    and u: "list_all unattended es" "list_all unattended fs"
    and r: "vc_runtime_submit_command K rt cmd (Wait_Events es fs) = Some (st, rt')"
  shows "rt_ok K z lookup m rt' \<and> quiet rt' \<and> Q st (rt_ctrl rt')"
proof -
  obtain rt1 where 1: "rt_execs K es rt = Some rt1" "rt_ok K z lookup m rt1" "quiet rt1" "P (rt_ctrl rt1)"
    using quiet_run [OF K z P ok u(1)] by blast
  obtain rt2 where 2: "msgq_put K cmd rt1 = Some rt2" and 3: "rt_execs K fs rt2 = Some rt'"
    and 4: "rt_results rt' (rt_tickets rt1) = Some st"
    using r 1(1) by (auto simp: vc_runtime_submit_command_def split: bind_splits)
  have "rt_ok K z lookup m rt2" "serving (rt_tickets rt1) cmd P Q rt2"
    using 1(2-4) 2 by (auto simp: msgq_put_def rt_ok_def serving_def quiet_def split: if_splits)
  from serving_run [OF K z P Q T this u(2) 3] show ?thesis using 4 by (auto simp: serving_def quiet_def)
qed

subsection \<open>A write through Modbus\<close>

lemma reg_st_OK [simp]: "reg_st_to_mb_result st = VC_MB_OK \<longleftrightarrow> st = REG_OK"
  by (cases st) simp_all

lemma mode_through_the_register:
  "controller_ok K ctrl \<Longrightarrow>
   vc_operating_mode_of_u16 (u16_of_vc_operating_mode (operating_mode ctrl)) = VC_OPERATING_MODE_CALIBRATION \<longleftrightarrow>
   operating_mode ctrl = VC_OPERATING_MODE_CALIBRATION"
  by (auto simp: vc_operating_mode_of_u16_def controller_ok_def)

text \<open>The values that the adapter passes on, of the commands of a calibration.\<close>

definition passed_on :: "u16 \<Rightarrow> u16 \<Rightarrow> bool" where
  "passed_on off v \<longleftrightarrow>
     (off = CH_CAL_OUTPUT_ENABLE \<longrightarrow> v \<le> 1) \<and> (off \<in> {CH_CAL_SAMPLE_CMD, CH_CAL_COMMIT_CMD} \<longrightarrow> v = CAL_COMMAND_EXECUTE)"

lemma write_channel_wire:
  assumes up: "catalog_up (cat B) s" and c: "unat ch < VC_MAX_CHANNELS (cat B)"
    and view: "(off, field, 0) \<in> set ch_holding_view" and row: "(field, type, access, category) \<in> set vc_regs"
    and rw: "access \<noteq> REG_RO" and cmd: "vc_channel_write_command ch field v = Inr cmd"
    and sup: "vc_catalog_supported field (capabilities (channels (rt_ctrl (vc_memory s)) ! unat ch))"
  shows "write_wire B (ch_wire_at ch_holding_view off) ch True v t s = submit_register (kconf (cat B)) (Inr cmd) t s"
proof -
  have m: "map_of ch_holding_view off = Some (field, 0)"
    by (rule holding_view_row [OF view]) simp
  have "reg_handle_write (reg_vc_channel_handle (cat B) ch (REG_VC_ORD field)) (value_of_u16 v) t s =
      submit_register (kconf (cat B)) (Inr cmd) t s"
    using rw sup cmd by (simp add: write_channel_register [OF up c row])
  then show ?thesis
    by (simp add: write_wire_def ch_wire_at_mapped [OF m] ch_wire_def wire_desc_def channel_handle [OF c row]
        reg_handle_write_def)
qed

lemma holding_write:
  assumes up: "catalog_up (cat B) s" and c: "unat ch < VC_MAX_CHANNELS (cat B)"
    and view: "(off, field, 0) \<in> set ch_holding_view" and row: "(field, type, access, category) \<in> set vc_regs"
    and rw: "access \<noteq> REG_RO" and cmd: "vc_channel_write_command ch field v = Inr cmd" and v: "passed_on off v"
    and ok: "controller_ok K (rt_ctrl (vc_memory s))"
    and which: "off \<in> set [CH_OUTPUT_ACTION, CH_CFG_TARGET_VOLTAGE, CH_CAL_OUTPUT_ENABLE, CH_CAL_DAC_CODE, CH_CAL_SAMPLE_CMD]"
  defines "refused \<equiv> \<not> vc_catalog_supported field (capabilities (channels (rt_ctrl (vc_memory s)) ! unat ch)) \<or>
      is_ch_cal_holding_reg off \<and> operating_mode (rt_ctrl (vc_memory s)) \<noteq> VC_OPERATING_MODE_CALIBRATION"
  shows "refused \<Longrightarrow> \<exists>r. vc_mb_holding_wr B z A (40 + 40 * ucast ch + off) v t s = Some (r, drop_latch s) \<and> r \<noteq> VC_MB_OK"
    and "\<not> refused \<Longrightarrow> vc_mb_holding_wr B z A (40 + 40 * ucast ch + off) v t s =
      mb_write (submit_register (kconf (cat B)) (Inr cmd) t (drop_latch s))"
proof -
  let ?caps = "capabilities (channels (rt_ctrl (vc_memory s)) ! unat ch)"
  have off: "off < 40" and m: "map_of ch_holding_view off = Some (field, 0)"
    by (rule holding_view_row [OF view], simp)+
  have up': "catalog_up (cat B) (drop_latch s)" using up by simp
  have n: "\<not> 40 \<le> off" using off by (simp add: not_le)
  have gate: "vc_catalog_supported field ?caps \<Longrightarrow> ch_holding_supported ?caps off"
    using bspec [OF holding_gates [unfolded list_all_iff] view] by simp
  note decode = address_of_channel [OF channel_in_range(1) [OF up c] off]
  note locals = read_count [OF up] read_caps [OF up' c] read_mode [OF up']
  have sent: "write_wire B (ch_wire_at ch_holding_view off) ch True v t (drop_latch s) =
      submit_register (kconf (cat B)) (Inr cmd) t (drop_latch s)" if "vc_catalog_supported field ?caps"
    using write_channel_wire [OF up' c view row rw cmd, of t] that by simp
  have held: "write_wire B (ch_wire_at ch_holding_view off) ch True v t (drop_latch s) = Some (REG_UNSUPPORTED, drop_latch s)"
    if "\<not> vc_catalog_supported field ?caps"
    using write_channel_register [OF up' c row, of "value_of_u16 v" t] that rw
    by (simp add: write_wire_def ch_wire_at_mapped [OF m] ch_wire_def wire_desc_def channel_handle [OF c row]
        reg_handle_write_def)
  note defs = vc_reg_write_ch_holding_def locals write_cal_command_def passed_on_def mode_through_the_register [OF ok]
    is_ch_calibration_coefficient_reg_def is_ch_cal_holding_reg_def word_le_nat_alt word_less_nat_alt
  have body: "vc_reg_write_ch_holding B ch off v t s =
      (if \<not> ch_holding_supported ?caps off then Some (REG_UNSUPPORTED, drop_latch s)
       else if is_ch_cal_holding_reg off \<and> operating_mode (rt_ctrl (vc_memory s)) \<noteq> VC_OPERATING_MODE_CALIBRATION
       then Some (REG_UNSUPPORTED, drop_latch s)
       else write_wire B (ch_wire_at ch_holding_view off) ch True v t (drop_latch s))"
  proof -
    consider "off = 0" | "off = 3" | "off = 30" | "off = 31" | "off = 32" using which by auto
    then show ?thesis
      using channel_in_range(2) [OF up c] v by cases (simp_all add: defs not_le)
  qed
  show "\<exists>r. vc_mb_holding_wr B z A (40 + 40 * ucast ch + off) v t s = Some (r, drop_latch s) \<and> r \<noteq> VC_MB_OK" if refused
    using that held by (auto simp: vc_mb_holding_wr_def decode body mb_write_def refused_def)
  show "vc_mb_holding_wr B z A (40 + 40 * ucast ch + off) v t s =
      mb_write (submit_register (kconf (cat B)) (Inr cmd) t (drop_latch s))" if "\<not> refused"
    using that gate sent by (auto simp: vc_mb_holding_wr_def decode body refused_def)
qed

subsection \<open>The board on the desk\<close>

text \<open>
  A board and how many times the station has waited for it. In the \<open>k\<close>-th wait, \<open>fst (script k)\<close> is what the worker and the
  drivers do before a command is put, or while the station sleeps, and \<open>snd (script k)\<close> what they do until it is answered.
\<close>

type_synonym ('d, 's, 'm) desk = "('d, 's, 'm) firmware \<times> nat"

type_synonym 'd script = "nat \<Rightarrow> 'd rt_event list \<times> 'd rt_event list"

definition desk_wr ::
    "fw_build \<Rightarrow> 's settings_api \<Rightarrow> 'm modbus_api \<Rightarrow> 'd script \<Rightarrow> u16 \<Rightarrow> u16 \<Rightarrow> ('d, 's, 'm) desk \<Rightarrow>
     (vc_mb_result \<times> ('d, 's, 'm) desk) option" where
  "desk_wr B z A script a v w =
     map_option (\<lambda>(r, s). (r, s, Suc (snd w)))
       (vc_mb_holding_wr B z A a v (Wait_Events (fst (script (snd w))) (snd (script (snd w)))) (fst w))"

definition desk_rd :: "('d, 's, 'm) firmware reg_handler \<Rightarrow> ('d, 's, 'm) desk reg_handler" where
  "desk_rd rd a w = map_option (\<lambda>(r, v, s). (r, v, s, snd w)) (rd a (fst w))"

definition desk_rest :: "fw_build \<Rightarrow> 'd script \<Rightarrow> int \<Rightarrow> ('d, 's, 'm) desk \<Rightarrow> ('d, 's, 'm) desk" where
  "desk_rest B script ms w =
     ((fst w)\<lparr>vc_memory := the (rt_execs (kconf (cat B)) (fst (script (snd w))) (vc_memory (fst w)))\<rparr>, Suc (snd w))"

text \<open>Under the script the worker gets to every command that it finds; nothing else is asked of the interleaving.\<close>

definition attentive ::
    "kconfig \<Rightarrow> 's settings_api \<Rightarrow> ('s \<Rightarrow> string \<Rightarrow> stored option) \<Rightarrow> nat \<Rightarrow> ('d, 's) vc_runtime itself \<Rightarrow> 'd script \<Rightarrow> bool" where
  "attentive K z lookup m T script \<longleftrightarrow>
     (\<forall>k. list_all unattended (fst (script k)) \<and> list_all unattended (snd (script k)) \<and>
        (\<forall>(rt :: ('d, 's) vc_runtime) cmd. rt_ok K z lookup m rt \<and> quiet rt \<longrightarrow>
           vc_runtime_submit_command K rt cmd (Wait_Events (fst (script k)) (snd (script k))) \<noteq> None))"

definition desk_ok ::
    "fw_build \<Rightarrow> 's settings_api \<Rightarrow> ('s \<Rightarrow> string \<Rightarrow> stored option) \<Rightarrow> nat \<Rightarrow> (('d, 's) vc_controller \<Rightarrow> bool) \<Rightarrow>
     ('d, 's, 'm) desk \<Rightarrow> bool" where
  "desk_ok B z lookup m P w \<longleftrightarrow>
     catalog_up (cat B) (fst w) \<and> rt_ok (kconf (cat B)) z lookup m (vc_memory (fst w)) \<and> quiet (vc_memory (fst w)) \<and>
     P (rt_ctrl (vc_memory (fst w)))"

abbreviation desk_ctrl :: "('d, 's, 'm) desk \<Rightarrow> ('d, 's) vc_controller" where
  "desk_ctrl w \<equiv> rt_ctrl (vc_memory (fst w))"

lemma catalog_up_memory:
  assumes "catalog_up B s" and "controller_ok K (rt_ctrl rt)" and "channel_count (rt_ctrl rt) = VC_MAX_CHANNELS B"
  shows "catalog_up B (s\<lparr>vc_memory := rt\<rparr>)"
  using assms by (simp add: catalog_up_def controller_ok_def)

text \<open>A write: refused at the wire, the board as it was, or a command that has gone through the runtime.\<close>

lemma desk_write:
  fixes w :: "('d, 's, 'm) desk"
  assumes K: "kconfig_in_range (kconf (cat B))" and z: "zephyr_settings z lookup"
    and P: "steady (kconf (cat B)) z lookup m P" and Q: "\<And>st. steady (kconf (cat B)) z lookup m (Q st)"
    and T: "turns (kconf (cat B)) z lookup m cmd P Q" and n: "\<And>st ctrl. Q st ctrl \<Longrightarrow> channel_count ctrl = VC_MAX_CHANNELS (cat B)"
    and script: "attentive (kconf (cat B)) z lookup m TYPE(('d, 's) vc_runtime) script"
    and ok: "desk_ok B z lookup m P w" and c: "unat ch < VC_MAX_CHANNELS (cat B)"
    and view: "(off, field, 0) \<in> set ch_holding_view" and row: "(field, type, access, category) \<in> set vc_regs"
    and rw: "access \<noteq> REG_RO" and cmd: "vc_channel_write_command ch field v = Inr cmd" and v: "passed_on off v"
    and which: "off \<in> set [CH_OUTPUT_ACTION, CH_CFG_TARGET_VOLTAGE, CH_CAL_OUTPUT_ENABLE, CH_CAL_DAC_CODE, CH_CAL_SAMPLE_CMD]"
  obtains (refused) r w1 where "desk_wr B z A script (chAddr (uint ch) off) v w = Some (r, w1)" and "r \<noteq> VC_MB_OK"
      and "desk_ok B z lookup m P w1" and "desk_ctrl w1 = desk_ctrl w"
      and "\<not> vc_catalog_supported field (capabilities (channels (desk_ctrl w) ! unat ch)) \<or>
        is_ch_cal_holding_reg off \<and> operating_mode (desk_ctrl w) \<noteq> VC_OPERATING_MODE_CALIBRATION"
  | (served) r w1 st where "desk_wr B z A script (chAddr (uint ch) off) v w = Some (r, w1)"
      and "r = VC_MB_OK \<longleftrightarrow> st = VC_OK" and "desk_ok B z lookup m (Q st) w1"
proof -
  obtain s k where w: "w = (s, k)" by (cases w)
  have up: "catalog_up (cat B) s" and rt: "rt_ok (kconf (cat B)) z lookup m (vc_memory s)" "quiet (vc_memory s)"
    "P (rt_ctrl (vc_memory s))"
    using ok by (simp_all add: desk_ok_def w)
  have ctl: "controller_ok (kconf (cat B)) (rt_ctrl (vc_memory s))" using rt(1) by (simp add: rt_ok_def)
  have u: "list_all unattended (fst (script k))" "list_all unattended (snd (script k))"
    using script by (simp_all add: attentive_def)
  note hw = holding_write [OF up c view row rw cmd v ctl which, of z A "Wait_Events (fst (script k)) (snd (script k))"]
  show thesis
  proof (cases "\<not> vc_catalog_supported field (capabilities (channels (rt_ctrl (vc_memory s)) ! unat ch)) \<or>
      is_ch_cal_holding_reg off \<and> operating_mode (rt_ctrl (vc_memory s)) \<noteq> VC_OPERATING_MODE_CALIBRATION")
    case True
    obtain r where "vc_mb_holding_wr B z A (40 + 40 * ucast ch + off) v (Wait_Events (fst (script k)) (snd (script k))) s =
        Some (r, drop_latch s)" "r \<noteq> VC_MB_OK"
      using hw(1) [OF True] by blast
    then show thesis
      using True ok by (intro refused [of r "(drop_latch s, Suc k)"]) (simp_all add: desk_wr_def w chAddr_channel desk_ok_def)
  next
    case False
    obtain st rt' where sub: "vc_runtime_submit_command (kconf (cat B)) (vc_memory s) cmd
        (Wait_Events (fst (script k)) (snd (script k))) = Some (st, rt')"
      using script rt(1,2) by (fastforce simp: attentive_def)
    have after: "rt_ok (kconf (cat B)) z lookup m rt' \<and> quiet rt' \<and> Q st (rt_ctrl rt')"
      by (rule submit_law [OF K z P Q T rt u sub])
    have "catalog_up (cat B) ((drop_latch s)\<lparr>vc_memory := rt'\<rparr>)"
      using up after n by (intro catalog_up_memory) (auto simp: rt_ok_def)
    then show thesis
      using hw(2) [OF False] sub after
      by (intro served [of "reg_st_to_mb_result (vc_status_to_reg st)" "((drop_latch s)\<lparr>vc_memory := rt'\<rparr>, Suc k)" st])
        (simp_all add: desk_wr_def w chAddr_channel desk_ok_def submit_register_def mb_write_def)
  qed
qed

text \<open>Sleeping: the board runs on its own.\<close>

lemma desk_rests:
  fixes w :: "('d, 's, 'm) desk"
  assumes K: "kconfig_in_range (kconf (cat B))" and z: "zephyr_settings z lookup"
    and P: "steady (kconf (cat B)) z lookup m P" and n: "\<And>ctrl. P ctrl \<Longrightarrow> channel_count ctrl = VC_MAX_CHANNELS (cat B)"
    and script: "attentive (kconf (cat B)) z lookup m TYPE(('d, 's) vc_runtime) script"
    and ok: "desk_ok B z lookup m P w"
  shows "desk_ok B z lookup m P (desk_rest B script ms w)"
proof -
  have "list_all unattended (fst (script (snd w)))" using script by (simp add: attentive_def)
  then obtain rt where rt: "rt_execs (kconf (cat B)) (fst (script (snd w))) (vc_memory (fst w)) = Some rt"
    "rt_ok (kconf (cat B)) z lookup m rt" "quiet rt" "P (rt_ctrl rt)"
    using quiet_run [OF K z P, of "vc_memory (fst w)"] ok by (auto simp: desk_ok_def)
  have "catalog_up (cat B) ((fst w)\<lparr>vc_memory := rt\<rparr>)"
    using rt n ok by (intro catalog_up_memory) (auto simp: rt_ok_def desk_ok_def)
  then show ?thesis using rt by (simp add: desk_rest_def desk_ok_def)
qed

text \<open>Reading: no read of a channel's registers is undefined, and none changes the runtime.\<close>

definition only_reads :: "('d, 's, 'm) firmware \<Rightarrow> ('d, 's, 'm) firmware \<Rightarrow> bool" where
  "only_reads s s' \<longleftrightarrow> vc_memory s' = vc_memory s \<and> catalog_lifecycle s' = catalog_lifecycle s \<and> catalog_runtime s' = catalog_runtime s"

lemma channel_read_defined:
  assumes up: "catalog_up B s" and c: "unat channel < VC_MAX_CHANNELS B" and row: "(field, type, access, category) \<in> set vc_regs"
  obtains st v where "reg_handle_read (reg_vc_channel_handle B channel (REG_VC_ORD field)) s = Some (st, v)"
proof -
  have "\<exists>p. reg_handle_read (reg_vc_channel_handle B channel (REG_VC_ORD field)) s = Some p"
    by (simp add: read_channel_register [OF up c row] Let_def)
  then show thesis using that by force
qed

lemma read_wire_total:
  fixes ch :: u8
  assumes up: "catalog_up (cat B) s" and c: "unat ch < VC_MAX_CHANNELS (cat B)"
    and row: "(field, type, access, category) \<in> set vc_regs"
  obtains st v s' where "read_wire B (ch_wire (field, w)) ch True s = Some (st, v, s')" and "only_reads s s'"
proof -
  obtain st v where h: "reg_handle_read (reg_vc_channel_handle (cat B) ch (REG_VC_ORD field)) s = Some (st, v)"
    by (rule channel_read_defined [OF up c row])
  then have r: "reg_read_descriptor (Some (VC_DESC_INIT (kconf (cat B)) ch (field, type, access, category))) s = Some (st, v)"
    by (simp add: reg_handle_read_def channel_handle [OF c row])
  have "\<exists>st v s'. read_wire B (ch_wire (field, w)) ch True s = Some (st, v, s') \<and> only_reads s s'"
    using r by (simp add: read_wire_def ch_wire_def wire_desc_def channel_handle [OF c row] only_reads_def drop_latch_def
        split: reg_type.split)
  then show thesis using that by blast
qed

lemma input_total:
  fixes ch :: u8
  assumes up: "catalog_up (cat B) s" and c: "unat ch < VC_MAX_CHANNELS (cat B)" and off: "off < 40"
    and m: "map_of ch_input_view off = Some (field, w)" and row: "(field, type, access, category) \<in> set vc_regs"
  obtains r v s' where "vc_mb_input_rd B (40 + 40 * ucast ch + off) s = Some (r, v, s')" and "only_reads s s'"
proof -
  have up': "catalog_up (cat B) (drop_latch s)" using up by simp
  obtain st v s' where r: "read_wire B (ch_wire (field, w)) ch True (drop_latch s) = Some (st, v, s')" "only_reads (drop_latch s) s'"
    by (rule read_wire_total [OF up' c row])
  have "\<exists>r v s'. vc_mb_input_rd B (40 + 40 * ucast ch + off) s = Some (r, v, s') \<and> only_reads s s'"
    using channel_in_range [OF up c] off r
    by (auto simp: vc_mb_input_rd_def address_of_channel(1) vc_reg_read_ch_input_def read_count [OF up]
        read_caps [OF up' c] read_mode [OF up'] ch_wire_at_mapped [OF m] mb_read_def only_reads_def)
  then show thesis using that by blast
qed

lemma holding_total:
  fixes ch :: u8
  assumes up: "catalog_up (cat B) s" and c: "unat ch < VC_MAX_CHANNELS (cat B)"
    and view: "(off, field, w) \<in> set ch_holding_view" and row: "(field, type, access, category) \<in> set vc_regs"
  obtains r v s' where "vc_mb_holding_rd B z A (40 + 40 * ucast ch + off) s = Some (r, v, s')" and "only_reads s s'"
proof -
  obtain st v where h: "reg_handle_read (reg_vc_channel_handle (cat B) ch (REG_VC_ORD field)) s = Some (st, v)"
    by (rule channel_read_defined [OF up c row])
  have "\<exists>r v s'. vc_mb_holding_rd B z A (40 + 40 * ucast ch + off) s = Some (r, v, s') \<and> only_reads s s'"
    unfolding holding_read [OF up c view h] by (auto simp: only_reads_def)
  then show thesis using that by blast
qed

lemma desk_ok_reads: "only_reads (fst w) s' \<Longrightarrow> desk_ok B z lookup m P w \<Longrightarrow> desk_ok B z lookup m P (s', k)"
  by (simp add: desk_ok_def only_reads_def catalog_up_def)

text \<open>What the station's commands on a channel make of the set of energised channels.\<close>

definition within :: "nat \<Rightarrow> nat \<Rightarrow> nat set \<Rightarrow> ('d, 's) vc_controller \<Rightarrow> bool" where
  "within n i H ctrl \<longleftrightarrow> captive n i ctrl \<and> hot ctrl \<subseteq> H"

lemma steady_within:
  assumes "kconfig_in_range K" and "zephyr_settings z lookup"
  shows "steady K z lookup m (within n i H)"
  using background_captive [OF assms(1)] calm_background [OF assms(1)] zephyr_settings.store_ok_loads_ok [OF assms(2)]
  unfolding steady_def within_def by blast

lemma turns_within:
  assumes K: "kconfig_in_range K" and z: "zephyr_settings z lookup" and e: "sweep_command ch (command_event cmd :: 'd ctl_event)"
  shows "turns K z lookup m cmd (within n (unat ch) H :: ('d, 's) vc_controller \<Rightarrow> bool)
    (\<lambda>st. within n (unat ch) (heated (command_event cmd :: 'd ctl_event) (st = VC_OK) H))"
  unfolding turns_def within_def
proof (intro allI impI conjI, goal_cases)
  case (1 ctrl st ctrl')
  then show ?case
    using sweep_command_captive [OF K _ _ _ e] zephyr_settings.store_ok_loads_ok [OF z] by blast
next
  case (2 ctrl st ctrl')
  have "hot ctrl' \<subseteq> heated (command_event cmd :: 'd ctl_event) (st = VC_OK) (hot ctrl)"
    using sweep_command_hot [OF K _ _ _ e] zephyr_settings.store_ok_loads_ok [OF z] 2 by blast
  then show ?case using heated_mono 2(3) by blast
next
  case (3 ctrl st ctrl')
  then show ?case by simp
next
  case (4 ctrl st ctrl')
  then have "heated (command_event cmd :: 'd ctl_event) (st = VC_OK) H = H" by (cases cmd) (simp_all add: heated_def)
  then show ?case using 4 by simp
qed

text \<open>The board while the station works on the channel \<open>ch\<close>.\<close>

abbreviation station_ok ::
    "fw_build \<Rightarrow> 's settings_api \<Rightarrow> ('s \<Rightarrow> string \<Rightarrow> stored option) \<Rightarrow> nat \<Rightarrow> u8 \<Rightarrow> ('d, 's, 'm) desk \<Rightarrow> bool" where
  "station_ok B z lookup m ch \<equiv> desk_ok B z lookup m (captive (VC_MAX_CHANNELS (cat B)) (unat ch))"

lemma desk_ok_within:
  "desk_ok B z lookup m (within n i H) w \<longleftrightarrow> desk_ok B z lookup m (captive n i) w \<and> hot (desk_ctrl w) \<subseteq> H"
  by (auto simp: desk_ok_def within_def)

lemma station_write:
  fixes w :: "('d, 's, 'm) desk"
  assumes K: "kconfig_in_range (kconf (cat B))" and z: "zephyr_settings z lookup"
    and script: "attentive (kconf (cat B)) z lookup m TYPE(('d, 's) vc_runtime) script"
    and ok: "station_ok B z lookup m ch w"
    and view: "(off, field, 0) \<in> set ch_holding_view" and row: "(field, type, access, category) \<in> set vc_regs"
    and rw: "access \<noteq> REG_RO" and cmd: "vc_channel_write_command ch field v = Inr cmd" and v: "passed_on off v"
    and which: "off \<in> set [CH_CAL_OUTPUT_ENABLE, CH_CAL_DAC_CODE, CH_CAL_SAMPLE_CMD]"
    and e: "sweep_command ch (command_event cmd :: 'd ctl_event)"
    and gate: "off = CH_CAL_OUTPUT_ENABLE \<longrightarrow> field = REG_VC_FIELD_CAL_OUTPUT_ENABLE"
      "off \<noteq> CH_CAL_OUTPUT_ENABLE \<longrightarrow> (\<forall>a H. heated (command_event cmd :: 'd ctl_event) a H = H)"
  obtains r w1 where "desk_wr B z A script (chAddr (uint ch) off) v w = Some (r, w1)" and "station_ok B z lookup m ch w1"
    and "hot (desk_ctrl w1) \<subseteq> heated (command_event cmd :: 'd ctl_event) (r = VC_MB_OK) (hot (desk_ctrl w))"
proof -
  let ?n = "VC_MAX_CHANNELS (cat B)" and ?H = "hot (desk_ctrl w)" and ?e = "command_event cmd :: 'd ctl_event"
  have c: "unat ch < VC_MAX_CHANNELS (cat B)" using ok by (simp add: desk_ok_def captive_def)
  have ok': "desk_ok B z lookup m (within ?n (unat ch) ?H) w" using ok by (simp add: desk_ok_within)
  have n: "channel_count ctrl = ?n" if "within ?n (unat ch) (heated ?e (st = VC_OK) ?H) ctrl" for st and ctrl :: "('d, 's) vc_controller"
    using that by (simp add: within_def captive_def)
  have which': "off \<in> set [CH_OUTPUT_ACTION, CH_CFG_TARGET_VOLTAGE, CH_CAL_OUTPUT_ENABLE, CH_CAL_DAC_CODE, CH_CAL_SAMPLE_CMD]"
    using which by auto
  show thesis
  proof (rule desk_write [where A = A, OF K z steady_within [OF K z] steady_within [OF K z] turns_within [OF K z e] n script ok' c view row rw
        cmd v which'], goal_cases)
    case (2 r w1)
    have "?H \<subseteq> heated ?e (r = VC_MB_OK) ?H"
    proof (cases "off = CH_CAL_OUTPUT_ENABLE")
      case False
      then show ?thesis using gate(2) by simp
    next
      case True
      have "?H = {}" if "operating_mode (desk_ctrl w) \<noteq> VC_OPERATING_MODE_CALIBRATION"
        using ok that by (simp add: desk_ok_def captive_def)
      moreover have "operating_mode (desk_ctrl w) \<noteq> VC_OPERATING_MODE_CALIBRATION"
        using 2(5) ok True gate(1)
        by (auto simp: desk_ok_def captive_def channel_has_cap_def vc_catalog_supported_def split: if_splits)
      ultimately show ?thesis by simp
    qed
    then show thesis using 2 that [of r w1] by (simp add: desk_ok_within)
  next
    case (3 r w1 st)
    then show thesis using that [of r w1] by (simp add: desk_ok_within)
  qed simp
qed

end
