(* ===== verification/Factory_Props.thy ===== *)
theory Factory_Props
  imports Factory_Board
begin

text \<open>
  The sweep of the calibration station over a board, as an interface of the board and the firmware as that board: a sweep
  returns and leaves its channel without a calibration output, however it ends; and what \<open>SAFE ALL\<close> does during a
  calibration.
\<close>

subsection \<open>The line\<close>

text \<open>A line without errors, as \<open>serves\<close> has it, on which a read that the board refuses is answered too.\<close>

definition answers ::
    "'w modbus_lib \<Rightarrow> u8 \<Rightarrow> 'w reg_handler \<Rightarrow> 'w reg_handler \<Rightarrow> (u16 \<Rightarrow> u16 \<Rightarrow> 'w \<Rightarrow> (vc_mb_result \<times> 'w) option) \<Rightarrow> bool" where
  "answers L unit rd_in rd_hold wr \<longleftrightarrow> serves L unit rd_in rd_hold wr \<and>
     (\<forall>timeout a n w w1.
        (read_each rd_in a (unat n) w = Some (None, w1) \<longrightarrow>
           (\<exists>e. run_request L timeout unit (Read_Input a n) w = Some (Inl e, w1))) \<and>
        (read_each rd_hold a (unat n) w = Some (None, w1) \<longrightarrow>
           (\<exists>e. run_request L timeout unit (Read_Holding a n) w = Some (Inl e, w1))))"

lemma served_lib_answers: "answers (served_lib rd_in rd_hold wr) unit rd_in rd_hold wr"
  unfolding answers_def
  by (intro conjI served_lib_serves allI impI) (simp_all add: served_lib_def run_request.simps)

lemma any_block:
  assumes a: "answers L unit rd_in rd_hold wr" and l: "linked unit w s"
    and r: "read_each (if holding then rd_hold else rd_in) addr (unat n) w = Some (r, w1)"
  shows "\<exists>s1. readRegsInternal L holding addr n (- 1) s = Some (r, s1) \<and> linked unit w1 s1"
proof (cases r)
  case (Some vs)
  have "run_request L (the (bus_port (the (session_bus s)))) unit
      (if holding then Read_Holding addr n else Read_Input addr n) w = Some (Inr vs, w1)"
    using a r Some by (auto simp: answers_def serves_def split: if_splits)
  from read_block [OF l this] show ?thesis using l Some by auto
next
  case None
  obtain b t where b: "session_bus s = Some b" "bus_connected b" "bus_port b = Some t"
    "map_of (test_boards b) (session_slave s) = None" "word_of_int (session_slave s) = unit" "line b = w"
    using l by (auto simp: linked_def split: option.splits)
  obtain e where "run_request L t unit (if holding then Read_Holding addr n else Read_Input addr n) w = Some (Inl e, w1)"
    using a r None unfolding answers_def by (auto split: if_splits) metis+
  then have "bus_readRegsInternal L holding (session_slave s) addr n (- 1) b =
      Some (None, b\<lparr>last_slave := session_slave s, line := w1, bus_error := ''Modbus error: '' @ e\<rparr>)"
    using b by (simp add: bus_readRegsInternal_def with_timeout_def request_def)
  then show ?thesis
    by (simp only: readRegsInternal_def if_connected_linked [OF l] b(1)) (use b None in \<open>simp add: linked_def\<close>)
qed

lemma write_one:
  assumes a: "answers L unit rd_in rd_hold wr" and l: "linked unit w s" and r: "wr addr v w = Some (r, w1)"
  shows "\<exists>s1. writeRegsInternal L addr [v] override s = Some (r = VC_MB_OK, s1) \<and> linked unit w1 s1"
proof -
  have "write_run wr addr [v] w = Some (if r = VC_MB_OK then 1 else 0, w1)" using r by simp
  moreover have "serves L unit rd_in rd_hold wr" using a by (simp add: answers_def)
  ultimately show ?thesis using write_regs_run [of L unit rd_in rd_hold wr w s addr "[v]" _ w1 override] l by fastforce
qed

lemma linked_rest: "linked unit w s \<Longrightarrow> linked unit (rest ms w) (rest_session rest ms s)"
  by (auto simp: linked_def rest_session_def split: option.splits)

subsection \<open>A board that can be swept\<close>

text \<open>The codes that a sweep should visit from the code \<open>dac\<close> on.\<close>

definition codes_from :: "sweep_config \<Rightarrow> int \<Rightarrow> int list" where
  "codes_from cfg dac = filter (\<lambda>c. stepSize cfg dvd c - dac) [dac..dacMax cfg]"

lemma codes_from_step:
  assumes "0 < stepSize cfg" and "dac \<le> dacMax cfg"
  shows "codes_from cfg dac = dac # codes_from cfg (dac + stepSize cfg)"
proof -
  let ?k = "stepSize cfg"
  have split: "[dac + 1..dacMax cfg] = [dac + 1..min (dac + ?k - 1) (dacMax cfg)] @ [dac + ?k..dacMax cfg]"
  proof (cases "dac + ?k \<le> dacMax cfg")
    case True
    then show ?thesis using assms upto_split1 [of "dac + 1" "dac + ?k" "dacMax cfg"] by simp
  next
    case False
    then have "min (dac + ?k - 1) (dacMax cfg) = dacMax cfg" by simp
    then show ?thesis using False by simp
  qed
  have "filter (\<lambda>c. ?k dvd c - dac) [dac + 1..min (dac + ?k - 1) (dacMax cfg)] = []"
    using zdvd_not_zless by (auto simp: filter_empty_conv)
  moreover have "?k dvd c - dac \<longleftrightarrow> ?k dvd c - (dac + ?k)" for c
  proof -
    have e: "c - dac = c - (dac + ?k) + ?k" by simp
    show ?thesis by (subst e) (simp only: dvd_add_triv_right_iff)
  qed
  ultimately show ?thesis
    using assms by (simp add: codes_from_def upto_rec1 [of dac] split)
qed

text \<open>
  The interface: the handlers of a board, what it does while the station sleeps, and which of its channels are energised.
  No register of the channel that a sweep uses leaves the board undefined, switching the calibration output off leaves the
  channel cold, and switching it on heats no other channel.
\<close>

locale sweep_board =
  fixes rd_in :: "'w reg_handler" and rd_hold :: "'w reg_handler"
    and wr :: "u16 \<Rightarrow> u16 \<Rightarrow> 'w \<Rightarrow> (vc_mb_result \<times> 'w) option"
    and rest :: "int \<Rightarrow> 'w \<Rightarrow> 'w" and ch :: u8
    and up :: "'w \<Rightarrow> bool" and energy :: "'w \<Rightarrow> nat set"
  assumes input_law: "up w \<Longrightarrow> off \<in> {12, 13, 14, 15} \<Longrightarrow>
      \<exists>r v w1. rd_in (chAddr (uint ch) off) w = Some (r, v, w1) \<and> up w1 \<and> energy w1 = energy w"
    and hold_law: "up w \<Longrightarrow> off \<in> {30, 31, 32, 33} \<Longrightarrow>
      \<exists>r v w1. rd_hold (chAddr (uint ch) off) w = Some (r, v, w1) \<and> up w1 \<and> energy w1 = energy w"
    and drive_law: "up w \<Longrightarrow> off = CH_CAL_DAC_CODE \<or> off = CH_CAL_SAMPLE_CMD \<and> v = CAL_COMMAND_EXECUTE \<Longrightarrow>
      \<exists>r w1. wr (chAddr (uint ch) off) v w = Some (r, w1) \<and> up w1 \<and> energy w1 \<subseteq> energy w"
    and enable_law: "up w \<Longrightarrow> \<exists>r w1. wr (chAddr (uint ch) CH_CAL_OUTPUT_ENABLE) 1 w = Some (r, w1) \<and> up w1 \<and>
      energy w1 \<subseteq> (if r = VC_MB_OK then insert (unat ch) (energy w) else energy w)"
    and disable_law: "up w \<Longrightarrow> \<exists>r w1. wr (chAddr (uint ch) CH_CAL_OUTPUT_ENABLE) 0 w = Some (r, w1) \<and> up w1 \<and>
      energy w1 \<subseteq> energy w - {unat ch}"
    and rest_law: "up w \<Longrightarrow> up (rest ms w) \<and> energy (rest ms w) \<subseteq> energy w"
begin

definition at :: "u8 \<Rightarrow> nat set \<Rightarrow> 'w session \<Rightarrow> bool" where
  "at unit H s \<longleftrightarrow> (\<exists>w. linked unit w s \<and> up w \<and> energy w \<subseteq> H)"

lemma read_each_ends:
  assumes "\<And>w off. up w \<Longrightarrow> off \<in> set offs \<Longrightarrow> \<exists>r v w1. rd (chAddr (uint ch) off) w = Some (r, v, w1) \<and> up w1 \<and> energy w1 = energy w"
  shows "offs = map (\<lambda>i. off + of_nat i) [0..<n] \<Longrightarrow> up w \<Longrightarrow>
    \<exists>vs w1. read_each rd (chAddr (uint ch) off) n w = Some (vs, w1) \<and> up w1 \<and> energy w1 = energy w"
  using assms
proof (induction n arbitrary: off w offs)
  case (Suc n)
  have o: "offs = off # map (\<lambda>i. off + 1 + of_nat i) [0..<n]"
    using Suc.prems(1) by (simp add: upt_conv_Cons map_Suc_upt [symmetric] comp_def add.assoc del: upt_Suc map_Suc_upt)
  obtain r v w1 where 1: "rd (chAddr (uint ch) off) w = Some (r, v, w1)" "up w1" "energy w1 = energy w"
    using Suc.prems(3) [OF Suc.prems(2), of off] o by auto
  have suc: "chAddr (uint ch) off + 1 = chAddr (uint ch) (off + 1)" by (simp add: chAddr_def)
  have p: "\<exists>r v w1. rd (chAddr (uint ch) off') w' = Some (r, v, w1) \<and> up w1 \<and> energy w1 = energy w'"
    if "up w'" "off' \<in> set (map (\<lambda>i. off + 1 + of_nat i) [0..<n])" for w' off'
    using Suc.prems(3) [of w' off'] that o by simp
  obtain vs w2 where "read_each rd (chAddr (uint ch) (off + 1)) n w1 = Some (vs, w2)" "up w2" "energy w2 = energy w1"
    using Suc.IH [OF refl 1(2) p] by blast
  then show ?case using 1 suc by simp
qed simp

lemma reads:
  assumes a: "answers L unit rd_in rd_hold wr" and s: "at unit H s"
  shows "\<exists>r s1. readRegsInternal L False (chAddr (uint ch) 12) 4 (- 1) s = Some (r, s1) \<and> at unit H s1"
    and "\<exists>r s1. readRegsInternal L True (chAddr (uint ch) 30) 4 (- 1) s = Some (r, s1) \<and> at unit H s1"
proof -
  obtain w where w: "linked unit w s" "up w" "energy w \<subseteq> H" using s by (auto simp: at_def)
  have m: "[12, 13, 14, 15] = map (\<lambda>i. (12 :: u16) + of_nat i) [0..<4]" "[30, 31, 32, 33] = map (\<lambda>i. (30 :: u16) + of_nat i) [0..<4]"
    by (simp_all add: upt_rec)
  obtain vs w1 where "read_each rd_in (chAddr (uint ch) 12) 4 w = Some (vs, w1)" "up w1" "energy w1 = energy w"
    using read_each_ends [where rd = rd_in, OF _ m(1) w(2)] input_law by auto
  then show "\<exists>r s1. readRegsInternal L False (chAddr (uint ch) 12) 4 (- 1) s = Some (r, s1) \<and> at unit H s1"
    using any_block [OF a w(1), of False "chAddr (uint ch) 12" 4 vs w1] w(3) by (simp add: at_def) metis
  obtain vs w1 where "read_each rd_hold (chAddr (uint ch) 30) 4 w = Some (vs, w1)" "up w1" "energy w1 = energy w"
    using read_each_ends [where rd = rd_hold, OF _ m(2) w(2)] hold_law by auto
  then show "\<exists>r s1. readRegsInternal L True (chAddr (uint ch) 30) 4 (- 1) s = Some (r, s1) \<and> at unit H s1"
    using any_block [OF a w(1), of True "chAddr (uint ch) 30" 4 vs w1] w(3) by (simp add: at_def) metis
qed

lemma snapshot_ends:
  assumes a: "answers L unit rd_in rd_hold wr" and s: "at unit H s"
  shows "\<exists>snap s1. readCalibrationSnapshot L (uint ch) s = Some (snap, s1) \<and> at unit H s1"
proof -
  obtain w where "linked unit w s" using s by (auto simp: at_def)
  note live = if_connected_linked [OF this]
  obtain r s1 where 1: "readRegsInternal L False (chAddr (uint ch) 12) 4 (- 1) s = Some (r, s1)" "at unit H s1"
    using reads(1) [OF a s] by blast
  obtain r2 s2 where 2: "readRegsInternal L True (chAddr (uint ch) 30) 4 (- 1) s1 = Some (r2, s2)" "at unit H s2"
    using reads(2) [OF a 1(2)] by blast
  show ?thesis unfolding readCalibrationSnapshot_def live using 1 2 by (cases r) (auto simp: Let_def split: option.split)
qed

lemma drives:
  assumes a: "answers L unit rd_in rd_hold wr" and s: "at unit H s"
  shows "\<exists>ok s1. writeRawDacCode L (uint ch) code s = Some (ok, s1) \<and> at unit H s1"
    and "\<exists>ok s1. sendCalibrationSampleCommand L (uint ch) s = Some (ok, s1) \<and> at unit H s1"
proof -
  obtain w where w: "linked unit w s" "up w" "energy w \<subseteq> H" using s by (auto simp: at_def)
  obtain r w1 where 1: "wr (chAddr (uint ch) CH_CAL_DAC_CODE) code w = Some (r, w1)" "up w1" "energy w1 \<subseteq> energy w"
    using drive_law [OF w(2), of CH_CAL_DAC_CODE code] by blast
  show "\<exists>ok s1. writeRawDacCode L (uint ch) code s = Some (ok, s1) \<and> at unit H s1"
    using write_one [OF a w(1) 1(1)] 1 w(3) unfolding writeRawDacCode_def at_def by blast
  obtain r w1 where 2: "wr (chAddr (uint ch) CH_CAL_SAMPLE_CMD) CAL_COMMAND_EXECUTE w = Some (r, w1)" "up w1" "energy w1 \<subseteq> energy w"
    using drive_law [OF w(2), of CH_CAL_SAMPLE_CMD CAL_COMMAND_EXECUTE] by blast
  show "\<exists>ok s1. sendCalibrationSampleCommand L (uint ch) s = Some (ok, s1) \<and> at unit H s1"
    using write_one [OF a w(1) 2(1)] 2 w(3) unfolding sendCalibrationSampleCommand_def at_def by blast
qed

lemma switches:
  assumes a: "answers L unit rd_in rd_hold wr" and s: "at unit H s"
  shows "\<exists>ok s1. writeCalibrationOutputEnable L (uint ch) True s = Some (ok, s1) \<and>
      at unit (if ok then insert (unat ch) H else H) s1"
    and "\<exists>ok s1. writeCalibrationOutputEnable L (uint ch) False s = Some (ok, s1) \<and> at unit (H - {unat ch}) s1"
proof -
  obtain w where w: "linked unit w s" "up w" "energy w \<subseteq> H" using s by (auto simp: at_def)
  obtain r w1 where 1: "wr (chAddr (uint ch) CH_CAL_OUTPUT_ENABLE) 1 w = Some (r, w1)" "up w1"
    "energy w1 \<subseteq> (if r = VC_MB_OK then insert (unat ch) (energy w) else energy w)"
    using enable_law [OF w(2)] by blast
  have h: "energy w1 \<subseteq> (if r = VC_MB_OK then insert (unat ch) H else H)" using 1(3) w(3) by (auto split: if_splits)
  obtain s1 where "writeRegsInternal L (chAddr (uint ch) CH_CAL_OUTPUT_ENABLE) [1] (- 1) s = Some (r = VC_MB_OK, s1)" "linked unit w1 s1"
    using write_one [OF a w(1) 1(1)] by blast
  then show "\<exists>ok s1. writeCalibrationOutputEnable L (uint ch) True s = Some (ok, s1) \<and>
      at unit (if ok then insert (unat ch) H else H) s1"
    using 1(2) h unfolding writeCalibrationOutputEnable_def at_def by auto
  obtain r w1 where 2: "wr (chAddr (uint ch) CH_CAL_OUTPUT_ENABLE) 0 w = Some (r, w1)" "up w1" "energy w1 \<subseteq> energy w - {unat ch}"
    using disable_law [OF w(2)] by blast
  obtain s1 where "writeRegsInternal L (chAddr (uint ch) CH_CAL_OUTPUT_ENABLE) [0] (- 1) s = Some (r = VC_MB_OK, s1)" "linked unit w1 s1"
    using write_one [OF a w(1) 2(1)] by blast
  moreover have "energy w1 \<subseteq> H - {unat ch}" using 2(3) w(3) by blast
  ultimately show "\<exists>ok s1. writeCalibrationOutputEnable L (uint ch) False s = Some (ok, s1) \<and> at unit (H - {unat ch}) s1"
    using 2(2) unfolding writeCalibrationOutputEnable_def at_def by auto
qed

lemma rests: "at unit H s \<Longrightarrow> at unit H (rest_session rest ms s)"
  unfolding at_def using linked_rest rest_law by (metis subset_trans)

lemma sweep_step_ends:
  assumes a: "answers L unit rd_in rd_hold wr" and s: "at unit H s"
  shows "\<exists>sigs pt k1 how s1. sweep_step L seen rest (uint ch) cfg count i dac k s = Some ((sigs, pt, k1, how), s1) \<and>
    at unit H s1 \<and> (\<forall>d. Sweep_Complete d \<notin> set sigs) \<and>
    (how = Aborted \<longrightarrow> (\<exists>j < k1. seen j)) \<and> (if pt = None then how \<noteq> Swept else dacCode (the pt) = dac)"
proof -
  obtain ok1 s1 where 1: "writeRawDacCode L (uint ch) (word_of_int dac) s = Some (ok1, s1)" "at unit H s1"
    using drives(1) [OF a s] by blast
  note r1 = rests [OF 1(2), of "settlementMs cfg"]
  obtain ok2 s2 where 2: "sendCalibrationSampleCommand L (uint ch) (rest_session rest (settlementMs cfg) s1) = Some (ok2, s2)"
    "at unit H s2"
    using drives(2) [OF a r1] by blast
  note r2 = rests [OF 2(2), of "cooldownMs cfg"]
  obtain snap s3 where 3: "readCalibrationSnapshot L (uint ch) (rest_session rest (cooldownMs cfg) s2) = Some (snap, s3)"
    "at unit H s3"
    using snapshot_ends [OF a r2] by blast
  show ?thesis using 1 2 3 r1 r2 by (auto simp: sweep_step_def Let_def)
qed

lemma sweep_loop_ends:
  assumes a: "answers L unit rd_in rd_hold wr" and pos: "0 < stepSize cfg"
  shows "at unit H s \<Longrightarrow>
    \<exists>sigs pts k1 how s1. sweep_loop L seen rest (uint ch) cfg count i dac k s = Some ((sigs, pts, k1, how), s1) \<and>
      at unit H s1 \<and> (\<forall>d. Sweep_Complete d \<notin> set sigs) \<and>
      (how = Aborted \<longrightarrow> (\<exists>j < k1. seen j)) \<and> (how = Swept \<longrightarrow> map dacCode pts = codes_from cfg dac)"
proof (induction "nat (dacMax cfg + 1 - dac)" arbitrary: i dac k s rule: less_induct)
  case less
  show ?case
  proof (cases "dacMax cfg < dac \<or> seen k")
    case True
    then show ?thesis using less.prems by (subst sweep_loop.simps) (auto simp: codes_from_def)
  next
    case False
    obtain sigs pt k1 how s1 where 1: "sweep_step L seen rest (uint ch) cfg count i dac (k + 1) s = Some ((sigs, pt, k1, how), s1)"
      "at unit H s1" "\<forall>d. Sweep_Complete d \<notin> set sigs" "how = Aborted \<longrightarrow> (\<exists>j < k1. seen j)" "if pt = None then how \<noteq> Swept else dacCode (the pt) = dac"
      using sweep_step_ends [OF a less.prems] by blast
    show ?thesis
    proof (cases pt)
      case None
      then show ?thesis using 1 False by (subst sweep_loop.simps) auto
    next
      case (Some p)
      have "nat (dacMax cfg + 1 - (dac + stepSize cfg)) < nat (dacMax cfg + 1 - dac)" using False pos by simp
      then obtain sigs2 pts k2 how2 s2 where
        2: "sweep_loop L seen rest (uint ch) cfg count (i + 1) (dac + stepSize cfg) k1 s1 = Some ((sigs2, pts, k2, how2), s2)"
        "at unit H s2" "\<forall>d. Sweep_Complete d \<notin> set sigs2" "how2 = Aborted \<longrightarrow> (\<exists>j < k2. seen j)" "how2 = Swept \<longrightarrow> map dacCode pts = codes_from cfg (dac + stepSize cfg)"
        using less.hyps 1(2) by blast
      then show ?thesis
        using 1 False Some codes_from_step [OF pos, of dac] by (subst sweep_loop.simps) auto
    qed
  qed
qed

lemma safe_off:
  assumes a: "answers L unit rd_in rd_hold wr" and s: "at unit H s"
  shows "\<exists>s1. safeOff L (uint ch) s = Some s1 \<and> at unit (H - {unat ch}) s1"
proof -
  obtain ok1 s1 where 1: "writeRawDacCode L (uint ch) 0 s = Some (ok1, s1)" "at unit H s1" using drives(1) [OF a s] by blast
  show ?thesis using switches(2) [OF a 1(2)] 1(1) by (auto simp: safeOff_def)
qed

text \<open>A sweep returns; it leaves the channel cold unless the output was never switched on, and heats no other.\<close>

lemma sweep_is_safe:
  assumes a: "answers L unit rd_in rd_hold wr" and s: "at unit H s" and pos: "0 < stepSize cfg" and flag: "mono seen"
  shows "\<exists>sigs s1. runSweep L seen rest (uint ch) cfg out measV measI s = Some (sigs, s1) \<and>
    (at unit (H - {unat ch}) s1 \<or> at unit H s1 \<and> (\<exists>e. sigs = [Sweep_Failed e])) \<and>
    (\<forall>d. Sweep_Complete d \<in> set sigs \<longrightarrow> map dacCode (points d) = codes_from cfg (dacMin cfg))"
proof -
  obtain enabled s1 where 1: "when_has (out \<or> measV \<or> measI) (writeCalibrationOutputEnable L (uint ch) True) s = Some (enabled, s1)"
    "at unit (if enabled then insert (unat ch) H else H) s1"
  proof (cases "out \<or> measV \<or> measI")
    case True
    then show thesis using switches(1) [OF a s] that by (auto simp: when_has_def)
  next
    case False
    have "at unit (insert (unat ch) H) s" using s by (auto simp: at_def)
    then show thesis using False that [of True s] by (simp add: when_has_def)
  qed
  show ?thesis
  proof (cases enabled)
    case False
    then show ?thesis using 1 by (simp add: runSweep_def)
  next
    case True
    have on: "at unit (insert (unat ch) H) s1" using 1(2) True by simp
    let ?count = "c_div (dacMax cfg - dacMin cfg) (stepSize cfg) + 1"
    obtain sigs pts k how s2 where
      2: "sweep_loop L seen rest (uint ch) cfg ?count 0 (dacMin cfg) 0 s1 = Some ((sigs, pts, k, how), s2)"
      "at unit (insert (unat ch) H) s2" "\<forall>d. Sweep_Complete d \<notin> set sigs"
      "how = Aborted \<longrightarrow> (\<exists>j < k. seen j)" "how = Swept \<longrightarrow> map dacCode pts = codes_from cfg (dacMin cfg)"
      using sweep_loop_ends [OF a pos on] by blast
    obtain s3 where 3: "safeOff L (uint ch) s2 = Some s3" "at unit (insert (unat ch) H - {unat ch}) s3"
      using safe_off [OF a 2(2)] by blast
    have "how = Aborted \<Longrightarrow> seen k" using 2(4) monoD [OF flag] by (auto dest: less_imp_le)
    then have "\<not> seen k \<Longrightarrow> how \<noteq> Failed \<Longrightarrow> how = Swept" by (cases how) auto
    then show ?thesis using 1 2 3 True pos by (auto simp: runSweep_def Let_def new_cal_data_def)
  qed
qed

end

subsection \<open>The firmware as that board\<close>

lemma station_input:
  fixes w :: "('d, 's, 'm) desk"
  assumes ok: "station_ok B z lookup m ch w" and m: "map_of ch_input_view off = Some (field, i)" and off: "off < 40"
    and row: "(field, type, access, category) \<in> set vc_regs"
  shows "\<exists>r v w1. desk_rd (vc_mb_input_rd B) (chAddr (uint ch) off) w = Some (r, v, w1) \<and> station_ok B z lookup m ch w1 \<and>
    hot (desk_ctrl w1) = hot (desk_ctrl w)"
proof -
  have up: "catalog_up (cat B) (fst w)" and c: "unat ch < VC_MAX_CHANNELS (cat B)"
    using ok by (simp_all add: desk_ok_def captive_def)
  obtain r v s' where "vc_mb_input_rd B (40 + 40 * ucast ch + off) (fst w) = Some (r, v, s')" "only_reads (fst w) s'"
    by (rule input_total [OF up c off m row])
  then show ?thesis
    using desk_ok_reads [OF _ ok] by (auto simp: desk_rd_def chAddr_channel only_reads_def)
qed

lemma station_hold:
  fixes w :: "('d, 's, 'm) desk"
  assumes ok: "station_ok B z lookup m ch w" and view: "(off, field, i) \<in> set ch_holding_view"
    and row: "(field, type, access, category) \<in> set vc_regs"
  shows "\<exists>r v w1. desk_rd (vc_mb_holding_rd B z A) (chAddr (uint ch) off) w = Some (r, v, w1) \<and>
    station_ok B z lookup m ch w1 \<and> hot (desk_ctrl w1) = hot (desk_ctrl w)"
proof -
  have up: "catalog_up (cat B) (fst w)" and c: "unat ch < VC_MAX_CHANNELS (cat B)"
    using ok by (simp_all add: desk_ok_def captive_def)
  obtain r v s' where "vc_mb_holding_rd B z A (40 + 40 * ucast ch + off) (fst w) = Some (r, v, s')" "only_reads (fst w) s'"
    by (rule holding_total [OF up c view row])
  then show ?thesis
    using desk_ok_reads [OF _ ok] by (auto simp: desk_rd_def chAddr_channel only_reads_def)
qed

text \<open>The rows of the registers that a sweep uses.\<close>

lemma sweep_rows:
  "map_of ch_input_view 12 = Some (REG_VC_FIELD_RAW_ADC_VOLTAGE, 0)" "map_of ch_input_view 13 = Some (REG_VC_FIELD_RAW_ADC_VOLTAGE, 1)"
  "map_of ch_input_view 14 = Some (REG_VC_FIELD_RAW_ADC_CURRENT, 0)" "map_of ch_input_view 15 = Some (REG_VC_FIELD_RAW_ADC_CURRENT, 1)"
  "(REG_VC_FIELD_RAW_ADC_VOLTAGE, REG_S32, REG_RO, REG_MEASUREMENT_RAW) \<in> set vc_regs"
  "(REG_VC_FIELD_RAW_ADC_CURRENT, REG_S32, REG_RO, REG_MEASUREMENT_RAW) \<in> set vc_regs"
  "(30, REG_VC_FIELD_CAL_OUTPUT_ENABLE, 0) \<in> set ch_holding_view" "(31, REG_VC_FIELD_CAL_DAC_CODE, 0) \<in> set ch_holding_view"
  "(32, REG_VC_FIELD_CAL_SAMPLE_CMD, 0) \<in> set ch_holding_view" "(33, REG_VC_FIELD_CAL_COMMIT_CMD, 0) \<in> set ch_holding_view"
  "(REG_VC_FIELD_CAL_OUTPUT_ENABLE, REG_U16, REG_RW, REG_COMMAND) \<in> set vc_regs"
  "(REG_VC_FIELD_CAL_DAC_CODE, REG_U16, REG_RW, REG_RUNTIME_STATE) \<in> set vc_regs"
  "(REG_VC_FIELD_CAL_SAMPLE_CMD, REG_U16, REG_WO, REG_COMMAND) \<in> set vc_regs"
  "(REG_VC_FIELD_CAL_COMMIT_CMD, REG_U16, REG_WO, REG_COMMAND) \<in> set vc_regs"
  by (simp_all add: ch_input_view_def ch_holding_view_def vc_regs_def)

lemma sweep_commands:
  "vc_channel_write_command ch REG_VC_FIELD_CAL_OUTPUT_ENABLE 0 = Inr (VC_RUNTIME_CMD_CALIBRATION_OUTPUT_ENABLE ch False)"
  "vc_channel_write_command ch REG_VC_FIELD_CAL_OUTPUT_ENABLE 1 = Inr (VC_RUNTIME_CMD_CALIBRATION_OUTPUT_ENABLE ch True)"
  "vc_channel_write_command ch REG_VC_FIELD_CAL_DAC_CODE v = Inr (VC_RUNTIME_CMD_CALIBRATION_RAW_DAC ch (ucast v))"
  "vc_channel_write_command ch REG_VC_FIELD_CAL_SAMPLE_CMD CAL_COMMAND_EXECUTE = Inr (VC_RUNTIME_CMD_CALIBRATION_SAMPLE ch)"
  by (simp_all add: vc_channel_write_command_def vc_catalog_field_def vc_catalog_cal_field_def)

definition station ::
    "fw_build \<Rightarrow> 's settings_api \<Rightarrow> ('s \<Rightarrow> string \<Rightarrow> stored option) \<Rightarrow> nat \<Rightarrow> 'd script \<Rightarrow> u8 \<Rightarrow> ('d, 's, 'm) desk \<Rightarrow> bool" where
  "station B z lookup m script ch w \<longleftrightarrow>
     kconfig_in_range (kconf (cat B)) \<and> zephyr_settings z lookup \<and>
     attentive (kconf (cat B)) z lookup m TYPE(('d, 's) vc_runtime) script \<and> station_ok B z lookup m ch w"

lemma stationD:
  fixes w :: "('d, 's, 'm) desk"
  assumes "station B z lookup m script ch w"
  shows "kconfig_in_range (kconf (cat B))" and "zephyr_settings z lookup"
    and "attentive (kconf (cat B)) z lookup m TYPE(('d, 's) vc_runtime) script" and "station_ok B z lookup m ch w"
  using assms by (simp_all add: station_def)

interpretation desk: sweep_board "desk_rd (vc_mb_input_rd B)" "desk_rd (vc_mb_holding_rd B z A)" "desk_wr B z A script"
    "desk_rest B script" ch "station B z lookup m script ch" "\<lambda>w. hot (desk_ctrl w)"
proof (unfold_locales, goal_cases)
  case (1 w off)
  then have ok: "station_ok B z lookup m ch w" by (simp add: station_def)
  from 1(2) consider "off = 12" | "off = 13" | "off = 14" | "off = 15" by blast
  then show ?case
    using station_input [OF ok sweep_rows(1) _ sweep_rows(5)] station_input [OF ok sweep_rows(2) _ sweep_rows(5)]
      station_input [OF ok sweep_rows(3) _ sweep_rows(6)] station_input [OF ok sweep_rows(4) _ sweep_rows(6)] 1(1)
    by cases (simp_all add: station_def)
next
  case (2 w off)
  then have ok: "station_ok B z lookup m ch w" by (simp add: station_def)
  from 2(2) consider "off = 30" | "off = 31" | "off = 32" | "off = 33" by blast
  then show ?case
    using station_hold [OF ok sweep_rows(7) sweep_rows(11), of A] station_hold [OF ok sweep_rows(8) sweep_rows(12), of A]
      station_hold [OF ok sweep_rows(9) sweep_rows(13), of A] station_hold [OF ok sweep_rows(10) sweep_rows(14), of A] 2(1)
    by cases (simp_all add: station_def)
next
  case (3 w off v)
  note h = stationD [OF 3(1)]
  from 3(2) show ?case
  proof (elim disjE conjE)
    assume off: "off = CH_CAL_DAC_CODE"
    show ?thesis
      by (rule station_write [where A = A and v = v, OF h sweep_rows(8,12) _ sweep_commands(3) _ _ _ _])
        (use 3(1) in \<open>auto simp: off station_def passed_on_def sweep_command_def heated_def\<close>)
  next
    assume off: "off = CH_CAL_SAMPLE_CMD" "v = CAL_COMMAND_EXECUTE"
    show ?thesis
      by (rule station_write [where A = A, OF h sweep_rows(9,13) _ sweep_commands(4) _ _ _ _])
        (use 3(1) in \<open>auto simp: off station_def passed_on_def sweep_command_def heated_def\<close>)
  qed
next
  case (4 w)
  note h = stationD [OF 4]
  show ?case
    by (rule station_write [where A = A, OF h sweep_rows(7,11) _ sweep_commands(2) _ _ _ _])
      (use 4 in \<open>auto simp: station_def passed_on_def sweep_command_def heated_def\<close>)
next
  case (5 w)
  note h = stationD [OF 5]
  show ?case
    by (rule station_write [where A = A, OF h sweep_rows(7,11) _ sweep_commands(1) _ _ _ _])
      (use 5 in \<open>auto simp: station_def passed_on_def sweep_command_def heated_def\<close>)
next
  case (6 w ms)
  note h = stationD [OF 6]
  have "desk_ok B z lookup m (within (VC_MAX_CHANNELS (cat B)) (unat ch) (hot (desk_ctrl w))) w"
    using h(4) by (simp add: desk_ok_within)
  from desk_rests [OF h(1,2) steady_within [OF h(1,2)] _ h(3) this, of ms] show ?case
    using 6 by (simp add: desk_ok_within station_def within_def captive_def)
qed


subsection \<open>An attentive board\<close>

text \<open>A worker that is scheduled twice when the command is there, and twice again after the longest wait of a sample.\<close>

definition prompt_script :: "kconfig \<Rightarrow> 'd script" where
  "prompt_script K k =
     (let t = int k * 2 * CONFIG_VC_CAL_SAMPLE_TIMEOUT_MS K; late = t + CONFIG_VC_CAL_SAMPLE_TIMEOUT_MS K
      in ([], map Rt_Worker [t, t, late, late]))"

text \<open>How far a command has come: not taken, or taken with no deadline after \<open>d\<close>.\<close>

definition taken_by_then :: "int \<Rightarrow> ('d, 's) vc_runtime \<Rightarrow> bool" where
  "taken_by_then d rt \<longleftrightarrow> command_queue rt = [] \<and> (\<forall>t w. rt_phase rt = Worker_Sampling t w \<longrightarrow> wait_deadline w \<le> d)"

abbreviation (input) any_ctrl :: "('d, 's) vc_controller \<Rightarrow> bool" where "any_ctrl \<equiv> \<lambda>_. True"

abbreviation (input) any_answer :: "vc_status \<Rightarrow> ('d, 's) vc_controller \<Rightarrow> bool" where "any_answer \<equiv> \<lambda>_ _. True"

lemma serving_any:
  assumes K: "kconfig_in_range K" and z: "zephyr_settings z lookup" and ok: "rt_ok K z lookup m rt"
    and s: "serving t cmd any_ctrl any_answer rt"
  obtains rt' where "vc_runtime_worker K now rt = Some rt'" and "rt_ok K z lookup m rt'" and "serving t cmd any_ctrl any_answer rt'"
proof -
  obtain rt' where r: "vc_runtime_worker K now rt = Some rt'" "rt_ok K z lookup m rt'"
    using zephyr_settings.worker_ok [OF z K ok] by blast
  have "serving t cmd any_ctrl any_answer rt'"
    by (rule serving_worker [OF _ _ _ ok s r(1)]) (simp_all add: steady_def turns_def)
  then show thesis using that r by blast
qed

lemma worker_takes:
  assumes s: "serving t cmd any_ctrl any_answer rt" and r: "vc_runtime_worker K now rt = Some rt'"
    and q: "rt_phase rt = Worker_Draining \<or> taken_by_then (now + CONFIG_VC_CAL_SAMPLE_TIMEOUT_MS K) rt"
  shows "taken_by_then (now + CONFIG_VC_CAL_SAMPLE_TIMEOUT_MS K) rt'"
proof (cases "rt_phase rt = Worker_Draining \<and> command_queue rt \<noteq> []")
  case True
  then have q: "command_queue rt = [(t, cmd)]" using s by (auto simp: serving_def)
  obtain d where d: "vc_runtime_dispatch_command K (rt_ctrl rt) cmd now = Some d"
    using r True q by (auto simp: vc_runtime_worker_def split: bind_splits)
  have "wait_deadline w = now + CONFIG_VC_CAL_SAMPLE_TIMEOUT_MS K" if "d = Dispatch_Wait w" for w
  proof (cases "is_sample cmd")
    case True
    then obtain ch where "cmd = VC_RUNTIME_CMD_CALIBRATION_SAMPLE ch" by (cases cmd) auto
    then show ?thesis using d that
      by (auto simp: vc_runtime_cal_sample_fresh_def Let_def begin_wait_def split_beta split: if_splits option.splits)
  next
    case False
    then show ?thesis using d that by (auto simp: dispatch_command dispatched_Some)
  qed
  then show ?thesis
    using r True q d by (cases d) (auto simp: vc_runtime_worker_def Let_def answer_def taken_by_then_def)
next
  case False
  then show ?thesis using r q
    by (auto simp: vc_runtime_worker_def worker_tick_def answer_def taken_by_then_def Let_def serving_def
        split: rt_phase.splits list.splits option.splits if_splits bind_splits)
qed

lemma worker_finishes:
  assumes s: "serving t cmd any_ctrl any_answer rt" and q: "taken_by_then d rt" and d: "d \<le> now"
    and r: "vc_runtime_worker K now rt = Some rt'"
  shows "taken_by_then d rt' \<and> (rt_results rt t \<noteq> None \<longrightarrow> rt_results rt' t \<noteq> None) \<and>
    (rt_results rt t = None \<longrightarrow> rt_results rt' t \<noteq> None \<or> (\<exists>ch. rt_phase rt' = Worker_Latching t ch)) \<and>
    ((\<exists>ch. rt_phase rt = Worker_Latching t ch) \<longrightarrow> rt_results rt' t \<noteq> None)"
  using s q d r
  by (auto simp: vc_runtime_worker_def worker_tick_def answer_def taken_by_then_def Let_def serving_def
      split: rt_phase.splits list.splits option.splits if_splits bind_splits)

lemma prompt_attentive:
  fixes T :: "('d, 's) vc_runtime itself"
  assumes K: "kconfig_in_range K" and z: "zephyr_settings z lookup"
  shows "attentive K z lookup m T (prompt_script K)"
proof -
  have "vc_runtime_submit_command K rt cmd (Wait_Events (fst (prompt_script K k)) (snd (prompt_script K k))) \<noteq> None"
    if ok: "rt_ok K z lookup m rt" and q: "quiet rt" for rt :: "('d, 's) vc_runtime" and cmd k
  proof -
    let ?T = "CONFIG_VC_CAL_SAMPLE_TIMEOUT_MS K" let ?now = "int k * 2 * ?T" let ?t = "rt_tickets rt"
    obtain rt0 where put: "msgq_put K cmd rt = Some rt0" using q K by (auto simp: msgq_put_def quiet_def kconfig_in_range_def)
    then have s0: "serving ?t cmd any_ctrl any_answer rt0" and o0: "rt_ok K z lookup m rt0"
      using q ok by (auto simp: msgq_put_def serving_def quiet_def rt_ok_def split: if_splits rt_phase.splits)
    obtain rt1 where 1: "vc_runtime_worker K ?now rt0 = Some rt1" "rt_ok K z lookup m rt1" "serving ?t cmd any_ctrl any_answer rt1"
      by (rule serving_any [OF K z o0 s0])
    obtain rt2 where 2: "vc_runtime_worker K ?now rt1 = Some rt2" "rt_ok K z lookup m rt2" "serving ?t cmd any_ctrl any_answer rt2"
      by (rule serving_any [OF K z 1(2,3)])
    obtain rt3 where 3: "vc_runtime_worker K (?now + ?T) rt2 = Some rt3" "rt_ok K z lookup m rt3" "serving ?t cmd any_ctrl any_answer rt3"
      by (rule serving_any [OF K z 2(2,3)])
    obtain rt4 where 4: "vc_runtime_worker K (?now + ?T) rt3 = Some rt4" by (rule serving_any [OF K z 3(2,3)])
    have "rt_phase rt1 = Worker_Draining \<or> taken_by_then (?now + ?T) rt1"
    proof (cases "rt_phase rt0 = Worker_Draining")
      case True
      then show ?thesis using worker_takes [OF s0 1(1)] by simp
    next
      case False
      then have "rt_phase rt0 = Worker_Waiting" using put q by (auto simp: msgq_put_def quiet_def split: if_splits)
      then show ?thesis using 1(1) by (auto simp: vc_runtime_worker_def)
    qed
    then have d2: "taken_by_then (?now + ?T) rt2" by (rule worker_takes [OF 1(3) 2(1)])
    note f3 = worker_finishes [OF 2(3) d2 order_refl 3(1)]
    note f4 = worker_finishes [OF 3(3) conjunct1 [OF f3] order_refl 4]
    have "rt_results rt4 ?t \<noteq> None" using f3 f4 by (cases "rt_results rt2 ?t"; cases "rt_results rt3 ?t") auto
    then show ?thesis
      using put 1(1) 2(1) 3(1) 4 by (auto simp: vc_runtime_submit_command_def prompt_script_def Let_def)
  qed
  then show ?thesis by (auto simp: attentive_def prompt_script_def Let_def)
qed

subsection \<open>A bench in calibration\<close>

definition bench_calibration :: "(unit, nvs) vc_controller" where
  "bench_calibration = bench_controller\<lparr>operating_mode := VC_OPERATING_MODE_CALIBRATION, cal_watchdog_ms := 300000\<rparr>"

definition bench_desk :: "(unit, nvs, unit) desk" where
  "bench_desk = ((bench_firmware 7)\<lparr>vc_memory := bench_runtime\<lparr>rt_ctrl := bench_calibration\<rparr>\<rparr>, 0)"

lemma bench_calibration_ok:
  obtains m where "controller_ok kconfig_defaults bench_calibration" and "store_ok map_settings (\<lambda>s. s) m bench_calibration"
    and "hot bench_calibration = {}"
proof -
  obtain m where "controller_ok kconfig_defaults bench_controller" "store_ok map_settings (\<lambda>s. s) m bench_controller"
    "hot bench_controller = {}"
    by (rule booted_ok [OF kconfig_defaults_in_range bench_booted])
  then show thesis
    by (intro that [of m]) (simp_all add: bench_calibration_def controller_ok_def store_ok_def hot_def)
qed

lemma bench_capable: "channel_has_cap (channels bench_controller ! 1) CH_CAP_RAW_OUTPUT_DRIVE"
  by (simp add: eval_defs Let_def channel_has_cap_def)

lemma bench_station:
  obtains m where "station_ok bench_fw map_settings (\<lambda>s. s) m 1 bench_desk"
proof -
  obtain m where m: "controller_ok kconfig_defaults bench_calibration" "store_ok map_settings (\<lambda>s. s) m bench_calibration"
    by (rule bench_calibration_ok)
  then have "station_ok bench_fw map_settings (\<lambda>s. s) m 1 bench_desk"
    using bench_channels bench_capable
    by (simp add: desk_ok_def bench_desk_def captive_def bench_fw_def bench_build_def bench_runtime_def rt_ok_def quiet_def
        catalog_up_def bench_firmware_def bench_calibration_def)
  then show thesis by (rule that)
qed


subsection \<open>Safe all\<close>

text \<open>As long as the session goes on, exactly the channels \<open>H\<close> are energised.\<close>

definition still :: "nat \<Rightarrow> nat set \<Rightarrow> ('d, 's) vc_controller \<Rightarrow> bool" where
  "still n H ctrl \<longleftrightarrow> channel_count ctrl = n \<and> (operating_mode ctrl = VC_OPERATING_MODE_CALIBRATION \<longrightarrow> hot ctrl = H)"

lemma hot_same:
  assumes "on_channel ctrl ch f = Some (st, ctrl')" and "\<And>c s c'. f c = Some (s, c') \<Longrightarrow> energised c' = energised c"
  shows "hot ctrl' = hot ctrl \<and> operating_mode ctrl' = operating_mode ctrl \<and> channel_count ctrl' = channel_count ctrl"
  using assms(1) by (auto simp: on_channel_def hot_def nth_list_update dest!: assms(2) split: if_splits bind_splits)

lemma tick_in_session:
  assumes K: "kconfig_in_range K" and ok: "controller_ok K ctrl" and r: "vc_controller_tick K ctrl dt = Some ctrl'"
  shows "channel_count ctrl' = channel_count ctrl"
    and "operating_mode ctrl' = VC_OPERATING_MODE_CALIBRATION \<Longrightarrow>
      operating_mode ctrl = VC_OPERATING_MODE_CALIBRATION \<and> hot ctrl' = hot ctrl"
proof -
  have "channel_count ctrl' = channel_count ctrl \<and> (operating_mode ctrl' = VC_OPERATING_MODE_CALIBRATION \<longrightarrow>
      operating_mode ctrl = VC_OPERATING_MODE_CALIBRATION \<and> hot ctrl' = hot ctrl)"
  proof (cases "operating_mode ctrl = VC_OPERATING_MODE_CALIBRATION")
    case False
    obtain cs where "all_channels (\<lambda>ch. vc_channel_run K ch dt (sys_cfg ctrl)) ctrl = Some (ctrl\<lparr>channels := cs\<rparr>)"
      by (rule all_channels_ok [OF ok good_run [OF K]])
    then show ?thesis using False r by (auto simp: vc_controller_tick_def)
  next
    case True
    let ?m = "pre_cal_mode ctrl"
    have m: "?m \<in> {VC_OPERATING_MODE_NORMAL, VC_OPERATING_MODE_AUTOMATIC}" using ok by (simp add: controller_ok_def)
    then have m3: "?m \<in> {VC_OPERATING_MODE_NORMAL, VC_OPERATING_MODE_AUTOMATIC, VC_OPERATING_MODE_CALIBRATION}"
      and ne: "?m \<noteq> operating_mode ctrl" using True by auto
    show ?thesis
    proof (cases "cal_watchdog_ms ctrl \<le> dt")
      case False
      then have "ctrl' = ctrl\<lparr>cal_watchdog_ms := cal_watchdog_ms ctrl - dt\<rparr>" using r True by (simp add: vc_controller_tick_def)
      then show ?thesis using True by simp
    next
      case expired: True
      have "mode_refusal ctrl ?m = VC_OK" using m True by (auto simp: mode_refusal_def)
      then have e: "enter_mode K ctrl ?m = Some ctrl'"
        using r True expired ne
        by (auto simp: vc_controller_tick_def vc_controller_cal_exit_def vc_controller_set_operating_mode_def Let_def)
      have "channel_count ctrl' = channel_count ctrl" by (rule enter_mode_ok [OF ok m3 ne]) (use e in auto)
      then show ?thesis using hot_enter_mode(3) [OF ok m3 ne e] m True by auto
    qed
  qed
  then show "channel_count ctrl' = channel_count ctrl"
    and "operating_mode ctrl' = VC_OPERATING_MODE_CALIBRATION \<Longrightarrow>
      operating_mode ctrl = VC_OPERATING_MODE_CALIBRATION \<and> hot ctrl' = hot ctrl" by simp_all
qed

lemma steady_still: assumes K: "kconfig_in_range K" shows "steady K z lookup m (still n H)"
  unfolding steady_def
proof (intro allI impI)
  fix e st and ctrl ctrl' :: "('d, 's) vc_controller"
  assume e: "background e" and ok: "controller_ok K ctrl" and s: "still n H ctrl" and r: "ctl_exec K e ctrl = Some (st, ctrl')"
  show "still n H ctrl'"
  proof (cases e)
    case (Ctl_Driver ch ev)
    have "energised y = energised x" if "driver_event ev" "map_option (Pair VC_OK) (channel_exec K ev x) = Some (s, y)"
      for x y :: "'d vc_channel" and s
      using that by (cases ev) (auto simp: energised_def)
    then show ?thesis using r s Ctl_Driver hot_same [of ctrl ch] by (fastforce simp: still_def split: if_splits)
  next
    case (Ctl_Tick dt)
    then have t: "vc_controller_tick K ctrl dt = Some ctrl'" using r by auto
    show ?thesis using tick_in_session [OF K ok t] s by (auto simp: still_def)
  qed (use e in \<open>simp_all add: background_def\<close>)
qed

text \<open>The two commands of \<open>SAFE ALL\<close>.\<close>

lemma still_target:
  assumes K: "kconfig_in_range K"
  shows "turns K z lookup m (VC_RUNTIME_CMD_SET_CHANNEL_FIELD ch VC_FIELD_CONFIGURED_TARGET_VOLTAGE 0)
    (still n H :: ('d, 's) vc_controller \<Rightarrow> bool) (\<lambda>_. still n H)"
proof -
  have e: "energised y = energised x" if "vc_channel_set_field K x VC_FIELD_CONFIGURED_TARGET_VOLTAGE 0 = Some (s, y)"
    for x y :: "'d vc_channel" and s
    using that by (auto simp: commit_channel_def energised_def dest!: apply_hw_Some split: if_splits bind_splits)
  have "still n H ctrl'" if s: "still n H ctrl"
    and r: "vc_controller_channel_set_field K ctrl ch VC_FIELD_CONFIGURED_TARGET_VOLTAGE 0 = Some (st, ctrl')"
    for ctrl ctrl' :: "('d, 's) vc_controller" and st
  proof (cases "channel_valid ctrl ch")
    case False
    then show ?thesis using r s by (simp add: vc_controller_channel_set_field_def)
  next
    case True
    then have o: "on_channel ctrl ch (\<lambda>c. vc_channel_set_field K c VC_FIELD_CONFIGURED_TARGET_VOLTAGE 0) = Some (st, ctrl')"
      using r by (simp add: vc_controller_channel_set_field_def split_beta bind_eq_Some_conv cong: option.case_cong)
    show ?thesis using hot_same [OF o e] s by (simp add: still_def)
  qed
  then show ?thesis by (auto simp: turns_def)
qed

lemma still_action: "turns K z lookup m (VC_RUNTIME_CMD_OUTPUT_ACTION ch a) (still n H) (\<lambda>_. still n H)"
  unfolding turns_def
  by (auto simp: still_def vc_controller_channel_output_action_def on_channel_def split: if_splits bind_splits)

lemma safe_rows:
  "(3, REG_VC_FIELD_CFG_TARGET_VOLTAGE, 0) \<in> set ch_holding_view" "(0, REG_VC_FIELD_OUTPUT_ACTION, 0) \<in> set ch_holding_view"
  "(REG_VC_FIELD_CFG_TARGET_VOLTAGE, REG_S16, REG_RW, REG_CONFIG) \<in> set vc_regs"
  "(REG_VC_FIELD_OUTPUT_ACTION, REG_ENUM, REG_WO, REG_COMMAND) \<in> set vc_regs"
  "vc_channel_write_command ch REG_VC_FIELD_CFG_TARGET_VOLTAGE 0 =
     Inr (VC_RUNTIME_CMD_SET_CHANNEL_FIELD ch VC_FIELD_CONFIGURED_TARGET_VOLTAGE 0)"
  "vc_channel_write_command ch REG_VC_FIELD_OUTPUT_ACTION a = Inr (VC_RUNTIME_CMD_OUTPUT_ACTION ch (vc_output_action_of_u16 a))"
  by (simp_all add: ch_holding_view_def vc_regs_def vc_channel_write_command_def vc_catalog_field_def vc_catalog_cal_field_def)

lemma safe_writes:
  fixes w :: "('d, 's, 'm) desk" and ch :: u8
  assumes K: "kconfig_in_range (kconf (cat B))" and z: "zephyr_settings z lookup"
    and script: "attentive (kconf (cat B)) z lookup m TYPE(('d, 's) vc_runtime) script"
    and ok: "desk_ok B z lookup m (still (VC_MAX_CHANNELS (cat B)) H) w" and c: "unat ch < VC_MAX_CHANNELS (cat B)"
  shows "\<exists>r w1. desk_wr B z A script (chAddr (uint ch) 3) 0 w = Some (r, w1) \<and> desk_ok B z lookup m (still (VC_MAX_CHANNELS (cat B)) H) w1"
    and "\<exists>r w1. desk_wr B z A script (chAddr (uint ch) 0) a w = Some (r, w1) \<and> desk_ok B z lookup m (still (VC_MAX_CHANNELS (cat B)) H) w1"
proof -
  note st = steady_still [OF K]
  have n: "still (VC_MAX_CHANNELS (cat B)) H ctrl \<Longrightarrow> channel_count ctrl = VC_MAX_CHANNELS (cat B)" for ctrl :: "('d, 's) vc_controller"
    by (simp add: still_def)
  show "\<exists>r w1. desk_wr B z A script (chAddr (uint ch) 3) 0 w = Some (r, w1) \<and> desk_ok B z lookup m (still (VC_MAX_CHANNELS (cat B)) H) w1"
    by (rule desk_write [where A = A, OF K z st st still_target [OF K] n script ok c safe_rows(1,3) _ safe_rows(5)])
      (auto simp: passed_on_def)
  show "\<exists>r w1. desk_wr B z A script (chAddr (uint ch) 0) a w = Some (r, w1) \<and> desk_ok B z lookup m (still (VC_MAX_CHANNELS (cat B)) H) w1"
    by (rule desk_write [where A = A and v = a, OF K z st st still_action n script ok c safe_rows(2,4) _ safe_rows(6)])
      (auto simp: passed_on_def)
qed

lemma safe_channels_still:
  fixes w :: "('d, 's, 'm) desk"
  assumes K: "kconfig_in_range (kconf (cat B))" and z: "zephyr_settings z lookup"
    and script: "attentive (kconf (cat B)) z lookup m TYPE(('d, 's) vc_runtime) script"
    and line: "answers L unit (desk_rd (vc_mb_input_rd B)) (desk_rd (vc_mb_holding_rd B z A)) (desk_wr B z A script)"
  shows "linked unit w h \<Longrightarrow> desk_ok B z lookup m (still (VC_MAX_CHANNELS (cat B)) H) w \<Longrightarrow>
    \<forall>ch \<in> set chs. 0 \<le> ch \<and> ch < int (VC_MAX_CHANNELS (cat B)) \<Longrightarrow>
    \<exists>h1 w1. safe_channels L chs h = Some h1 \<and> linked unit w1 h1 \<and> desk_ok B z lookup m (still (VC_MAX_CHANNELS (cat B)) H) w1"
proof (induction chs arbitrary: h w)
  case (Cons i chs)
  let ?ok = "desk_ok B z lookup m (still (VC_MAX_CHANNELS (cat B)) H) :: ('d, 's, 'm) desk \<Rightarrow> bool"
  have "VC_MAX_CHANNELS (cat B) \<le> 16" using Cons.prems(2) by (simp add: desk_ok_def catalog_up_def)
  then have i: "uint (word_of_int i :: u8) = i" using Cons.prems(3) by (simp add: unsigned_of_int take_bit_int_eq_self)
  then have c: "unat (word_of_int i :: u8) < VC_MAX_CHANNELS (cat B)" using Cons.prems(3) by (simp add: unat_eq_nat_uint nat_less_iff)
  obtain r1 w1 where 1: "desk_wr B z A script (chAddr i 3) 0 w = Some (r1, w1)" "?ok w1"
    using safe_writes(1) [OF K z script Cons.prems(2) c, of A] i by auto
  obtain h1 where h1: "writeConfiguredTargetVoltage L i 0 h = Some (r1 = VC_MB_OK, h1)" "linked unit w1 h1"
    using write_one [OF line Cons.prems(1) 1(1)] by (auto simp: writeConfiguredTargetVoltage_def)
  obtain r2 w2 where 2: "desk_wr B z A script (chAddr i 0) DisableImmediate w1 = Some (r2, w2)" "?ok w2"
    using safe_writes(2) [OF K z script 1(2) c, of A DisableImmediate] i by auto
  obtain h2 where h2: "sendOutputAction L i DisableImmediate h1 = Some (r2 = VC_MB_OK, h2)" "linked unit w2 h2"
    using write_one [OF line h1(2) 2(1)] by (auto simp: sendOutputAction_def isValidOutputAction_def)
  show ?case using Cons.IH [OF h2(2) 2(2)] Cons.prems(3) h1(1) h2(1) by simp
qed auto

text \<open>
  C34. \<open>SAFE ALL\<close> does not end a calibration output. Sent to a board during a calibration, to all of its channels, the operation
  returns and reports that it is done; if the calibration has not ended on its own by then, exactly the channels
  that were energised still are, for every interleaving of the worker thread and the drivers. The firmware takes no output
  action in CALIBRATION, and the operation does not look at the answers.
\<close>

theorem safe_all_leaves_the_calibration_output:
  fixes w :: "('d, 's, 'm) desk"
  assumes K: "kconfig_in_range (kconf (cat B))" and z: "zephyr_settings z lookup"
    and script: "attentive (kconf (cat B)) z lookup m TYPE(('d, 's) vc_runtime) script"
    and line: "answers L unit (desk_rd (vc_mb_input_rd B)) (desk_rd (vc_mb_holding_rd B z A)) (desk_wr B z A script)"
    and l: "linked unit w h" and ok: "desk_ok B z lookup m (\<lambda>ctrl. operating_mode ctrl = VC_OPERATING_MODE_CALIBRATION) w"
  shows "\<exists>h1 w1. doSafeAll L (int (VC_MAX_CHANNELS (cat B))) h = Some (Safe_All_Done, h1) \<and> linked unit w1 h1 \<and>
    (operating_mode (desk_ctrl w1) = VC_OPERATING_MODE_CALIBRATION \<longrightarrow> hot (desk_ctrl w1) = hot (desk_ctrl w))"
proof -
  have "desk_ok B z lookup m (still (VC_MAX_CHANNELS (cat B)) (hot (desk_ctrl w))) w"
    using ok by (simp add: desk_ok_def still_def catalog_up_def)
  from safe_channels_still [OF K z script line l this, of "[0..int (VC_MAX_CHANNELS (cat B)) - 1]"]
  obtain h1 w1 where "safe_channels L [0..int (VC_MAX_CHANNELS (cat B)) - 1] h = Some h1" "linked unit w1 h1"
    "desk_ok B z lookup m (still (VC_MAX_CHANNELS (cat B)) (hot (desk_ctrl w))) w1" by auto
  then show ?thesis by (intro exI [of _ h1] exI [of _ w1]) (simp add: doSafeAll_def desk_ok_def still_def)
qed

text \<open>The bench with its second channel on.\<close>

definition bench_driven :: "(unit, nvs, unit) desk" where
  "bench_driven =
     (let c = bench_calibration\<lparr>channels := (channels bench_calibration)[1 := (channels bench_calibration ! 1)\<lparr>cal_output_enabled := 1\<rparr>]\<rparr>
      in ((bench_firmware 7)\<lparr>vc_memory := bench_runtime\<lparr>rt_ctrl := c\<rparr>\<rparr>, 0))"

lemma bench_driven_ok:
  obtains m where "desk_ok bench_fw map_settings (\<lambda>s. s) m (\<lambda>ctrl. operating_mode ctrl = VC_OPERATING_MODE_CALIBRATION) bench_driven"
    and "hot (desk_ctrl bench_driven) = {1}"
proof -
  obtain m where m: "controller_ok kconfig_defaults bench_calibration" "store_ok map_settings (\<lambda>s. s) m bench_calibration"
    and cold: "hot bench_calibration = {}"
    by (rule bench_calibration_ok)
  have len: "length (channels bench_calibration) = 2" using bench_channels by (simp add: bench_calibration_def)
  have "channel_ok kconfig_defaults (channels bench_calibration ! 1)" using m(1) len by (simp add: controller_ok_def list_all_length)
  then have "channel_ok kconfig_defaults ((channels bench_calibration ! 1)\<lparr>cal_output_enabled := 1\<rparr>)" by (simp add: channel_ok_def)
  then have "controller_ok kconfig_defaults (desk_ctrl bench_driven)"
    using m(1) len by (simp add: controller_ok_def bench_driven_def Let_def list_all_length nth_list_update)
  moreover have "hot (desk_ctrl bench_driven) = {1}"
    using cold len by (auto simp: bench_driven_def Let_def hot_def nth_list_update energised_def split: if_splits)
  ultimately show thesis
    using m(2) bench_channels
    by (intro that [of m]) (simp_all add: desk_ok_def bench_driven_def bench_fw_def bench_build_def bench_runtime_def rt_ok_def
        quiet_def catalog_up_def bench_firmware_def bench_calibration_def Let_def store_ok_def)
qed

lemma safe_all_leaves_the_calibration_output_witness:
  "\<exists>h1 w1. doSafeAll (served_lib (desk_rd (vc_mb_input_rd bench_fw)) (desk_rd (vc_mb_holding_rd bench_fw map_settings bench_line))
        (desk_wr bench_fw map_settings bench_line (prompt_script kconfig_defaults))) 2 (open_session bench_driven) =
      Some (Safe_All_Done, h1) \<and> linked 1 w1 h1 \<and>
      (operating_mode (desk_ctrl w1) = VC_OPERATING_MODE_CALIBRATION \<longrightarrow> hot (desk_ctrl w1) = {1})"
proof -
  obtain m where ok: "desk_ok bench_fw map_settings (\<lambda>s. s) m (\<lambda>ctrl. operating_mode ctrl = VC_OPERATING_MODE_CALIBRATION) bench_driven"
    and hot: "hot (desk_ctrl bench_driven) = {1}"
    by (rule bench_driven_ok)
  have K: "kconfig_in_range (kconf (cat bench_fw))" "kconf (cat bench_fw) = kconfig_defaults" "VC_MAX_CHANNELS (cat bench_fw) = 2"
    by (simp_all add: bench_fw_def bench_build_def kconfig_defaults_in_range)
  show ?thesis
    using safe_all_leaves_the_calibration_output [OF K(1) nvs.zephyr_settings_axioms
        prompt_attentive [OF K(1) nvs.zephyr_settings_axioms] served_lib_answers linked_open ok, of bench_line]
    by (simp add: K(2,3) hot)
qed

end
