(* ===== verification/Gui_Worker.thy ===== *)
theory Gui_Worker
  imports Host_Reads Host_Writes Host_Messages
begin

text \<open>
  The worker thread of the window client, \<open>tools/psb_demo_app/gui/modbus_worker.cpp\<close>. A slot takes the worker and gives the
  signals it emits, in order, and the worker after it; \<open>None\<close> when it never returns. The map that a signal carries is a
  list of keys and values; its entries in volts, amperes, degrees and per cent, which are floating point, are left out,
  and so is the log of frames, which only observes. Counters are far from the bounds of \<open>int\<close>.
\<close>

unbundle bit_operations_syntax

subsection \<open>Data\<close>

abbreviation (input) WORKER_MAX_CH :: nat where "WORKER_MAX_CH \<equiv> 16"
abbreviation (input) gui_offline_threshold :: int where "gui_offline_threshold \<equiv> 5"
abbreviation (input) gui_poll_timeout :: int where "gui_poll_timeout \<equiv> 300"

datatype qvalue = QInt int | QBool bool | QStr string

type_synonym qmap = "(string \<times> qvalue) list"

datatype gui_signal =
  Connected bool string
| Disconnected
| System_Info_Ready qmap
| Channel_Info_Ready int qmap
| System_Config_Ready qmap
| Channel_Config_Ready int qmap
| Operation_Complete bool string
| Gui_Ports_Scanned "string list"
| Raw_Hex_Result string

record 'w gui_worker =
  gui_client :: "'w session"
  cachedSysInfo :: system_info
  cachedChInfo :: "channel_info list"
  cachedChConfig :: "channel_config_host list"
  gui_channelCount :: int
  chFailCount :: "int list"
  gui_chOffline :: "bool list"

definition new_gui_worker :: "'w \<Rightarrow> 'w gui_worker" where
  "new_gui_worker w =
    \<lparr>gui_client = new_client w, cachedSysInfo = new_system_info, cachedChInfo = replicate WORKER_MAX_CH new_channel_info,
     cachedChConfig = replicate WORKER_MAX_CH new_channel_config, gui_channelCount = 0,
     chFailCount = replicate WORKER_MAX_CH 0, gui_chOffline = replicate WORKER_MAX_CH False\<rparr>"

type_synonym 'w gui_slot = "'w gui_worker \<Rightarrow> (gui_signal list \<times> 'w gui_worker) option"

text \<open>A call of the client, which the worker owns.\<close>

definition on_client :: "('w session \<Rightarrow> ('a \<times> 'w session) option) \<Rightarrow> 'w gui_worker \<Rightarrow> ('a \<times> 'w gui_worker) option" where
  "on_client f g = do {
     (x, s) \<leftarrow> f (gui_client g);
     Some (x, g\<lparr>gui_client := s\<rparr>)
   }"

definition gui_isConnected :: "'w gui_worker \<Rightarrow> bool" where
  "gui_isConnected g = verified (gui_client g)"

definition gui_channel :: "int \<Rightarrow> bool" where
  "gui_channel ch \<longleftrightarrow> 0 \<le> ch \<and> ch < int WORKER_MAX_CH"

subsection \<open>Maps\<close>

abbreviation (input) qu16 :: "u16 \<Rightarrow> qvalue" where "qu16 v \<equiv> QInt (uint v)"
abbreviation (input) qs16 :: "s16 \<Rightarrow> qvalue" where "qs16 v \<equiv> QInt (sint v)"
abbreviation (input) qflag :: "u16 \<Rightarrow> u16 \<Rightarrow> qvalue" where "qflag bits b \<equiv> QBool (has_cap bits b)"

definition systemInfoToMap :: "system_info \<Rightarrow> qmap" where
  "systemInfoToMap info =
    [(''protoMajor'', QInt (protoMajor info)), (''protoMinor'', QInt (protoMinor info)),
     (''variantId'', QInt (variantId info)), (''variantName'', QStr (variantName (variantId info))),
     (''variantFamily'', QStr (variantFamily (variantId info))),
     (''boardHwRevision'', QInt (boardHwRevision info)),
     (''boardHwRevisionLabel'', QStr (hwRevisionLabel (boardHwRevision info))),
     (''supportedChannels'', QInt (supportedChannels info)), (''activeChMask'', qu16 (activeChMask info)),
     (''uptimeSec'', QInt (uint (uptimeSec info))), (''fwVersion'', QInt (uint (fwVersion info))),
     (''fwVersionStr'', QStr (formatFwVersion (fwVersion info))),
     (''activeOpMode'', qu16 (activeOpMode info)), (''sysStatus'', qu16 (sysStatus info)),
     (''faultCause'', qu16 (faultCause info)), (''sysCapFlags'', qu16 (sysCapFlags info)),
     (''capAutoMode'', qflag (sysCapFlags info) SYS_CAP_AUTOMATIC_MODE),
     (''capEnvSensor'', qflag (sysCapFlags info) SYS_CAP_ENV_SENSOR)]"

text \<open>The bits of the status register as the host names them.\<close>

abbreviation (input) OUTPUT_DRIVE_NONZERO :: u16 where "OUTPUT_DRIVE_NONZERO \<equiv> 0x0001"
abbreviation (input) OUTPUT_ENABLE_ACTIVE :: u16 where "OUTPUT_ENABLE_ACTIVE \<equiv> 0x0002"

definition channelInfoToMap :: "bool \<Rightarrow> channel_info \<Rightarrow> qmap" where
  "channelInfoToMap offline info =
    (let st = info_status info; fault = activeFault info; caps = chCapFlags info;
         capOutEn = has_cap caps CH_CAP_OUTPUT_ENABLE; capRawDrive = has_cap caps CH_CAP_RAW_OUTPUT_DRIVE
     in
    [(''offline'', QBool offline),
     (''voltageRaw'', qs16 (voltageRaw info)), (''currentRaw'', qs16 (currentRaw info)),
     (''operationalTargetVRaw'', qs16 (operationalTargetVoltageRaw info)),
     (''status'', qu16 st), (''activeFault'', qu16 fault), (''faultHistory'', qu16 (faultHistory info)),
     (''lastProtOutputAction'', qu16 (lastProtOutputAction info)), (''retryCount'', QInt (retryCount info)),
     (''cooldownSec'', QInt (cooldownSec info)), (''lastFaultTimestamp'', QInt (uint (lastFaultTimestamp info))),
     (''chCapFlags'', qu16 caps),
     (''statusOutDrive'', qflag st OUTPUT_DRIVE_NONZERO), (''statusOutEn'', qflag st OUTPUT_ENABLE_ACTIVE),
     (''statusRamping'', qflag st 0x0004), (''statusActiveFault'', qflag st 0x0008),
     (''statusFaultHistory'', qflag st 0x0010), (''statusCooldown'', qflag st 0x0020),
     (''statusMeasStale'', qflag st 0x0040),
     (''faultILimit'', qflag fault VC_FAULT_CURRENT), (''faultMeasInvalid'', qflag fault VC_FAULT_MEASUREMENT),
     (''faultHw'', qflag fault VC_FAULT_HARDWARE), (''faultInterlock'', qflag fault VC_FAULT_INTERLOCK),
     (''faultRetryExhausted'', qflag fault VC_FAULT_RETRY_EXHAUST), (''faultConfigInvalid'', qflag fault VC_FAULT_CFG_INVALID),
     (''faultMeasStale'', qflag fault VC_FAULT_STALE),
     (''capOutEn'', QBool capOutEn), (''capRawDrive'', QBool capRawDrive),
     (''capVoltageMeas'', qflag caps CH_CAP_VOLTAGE_MEASUREMENT), (''capCurrentMeas'', qflag caps CH_CAP_CURRENT_MEASUREMENT),
     (''isOn'', QBool (channelIsOn capOutEn capRawDrive (has_cap st OUTPUT_ENABLE_ACTIVE) (has_cap st OUTPUT_DRIVE_NONZERO)))])"

definition systemConfigToMap :: "system_config_host \<Rightarrow> qmap" where
  "systemConfigToMap cfg =
    [(''operatingMode'', qu16 (operatingMode cfg)), (''startupChannelPolicy'', qu16 (startupChannelPolicy cfg)),
     (''slaveAddr'', qu16 (slaveAddr cfg)), (''baudRateCode'', qu16 (baudRateCode cfg))]"

definition channelConfigToMap :: "channel_config_host \<Rightarrow> qmap" where
  "channelConfigToMap cfg =
    [(''configuredTargetVRaw'', qs16 (configuredTargetVRaw cfg)), (''outputEnabledCfg'', QBool (outputEnabledCfg cfg)),
     (''outputAction'', qu16 (outputAction cfg)), (''faultCommand'', qu16 (faultCommand cfg)),
     (''rampUpStepRaw'', qu16 (rampUpStepRaw cfg)), (''rampUpInterval'', qu16 (rampUpInterval cfg)),
     (''rampDownStepRaw'', qu16 (rampDownStepRaw cfg)), (''rampDownInterval'', qu16 (rampDownInterval cfg)),
     (''recoveryPolicyMode'', qu16 (recoveryPolicyMode cfg)), (''autoRetryDelay'', qu16 (autoRetryDelay cfg)),
     (''autoRetryMaxCount'', qu16 (autoRetryMaxCount cfg)), (''autoRetryWindow'', qu16 (autoRetryWindow cfg)),
     (''currentSafeBandPct'', qu16 (currentSafeBandPct cfg)), (''iProtMode'', qu16 (iProtMode cfg)),
     (''iProtOutputAction'', qu16 (iProtOutputAction cfg)), (''iLimitThresholdRaw'', qs16 (iLimitThresholdRaw cfg)),
     (''derateStepRaw'', qu16 (derateStepRaw cfg))]"

definition calConfigToMap :: "channel_cal_config_host \<Rightarrow> qmap" where
  "calConfigToMap cal =
    [(''outCalK'', qu16 (outCalK cal)), (''outCalKExp'', qs16 (outCalKExp cal)), (''outCalB'', qs16 (outCalB cal)),
     (''measVCalK'', qu16 (measVCalK cal)), (''measVCalKExp'', qs16 (measVCalKExp cal)), (''measVCalB'', qs16 (measVCalB cal)),
     (''measICalK'', qu16 (measICalK cal)), (''measICalKExp'', qs16 (measICalKExp cal)), (''measICalB'', qs16 (measICalB cal))]"

subsection \<open>Connection\<close>

definition gui_doConnect :: "'w modbus_lib \<Rightarrow> string \<Rightarrow> int \<Rightarrow> int \<Rightarrow> nat \<Rightarrow> 'w gui_slot" where
  "gui_doConnect L port baud slaveId timeout g = do {
     (ok, g1) \<leftarrow> on_client (client_connect L port baud slaveId timeout) g;
     Some ([Connected ok (if ok then [] else client_lastError (gui_client g1))], g1)
   }"

definition gui_doDisconnect :: "'w gui_slot" where
  "gui_doDisconnect g =
     Some ([Disconnected], g\<lparr>gui_channelCount := 0, gui_client := client_disconnect (gui_client g)\<rparr>)"

definition gui_doScanPorts :: "bool \<Rightarrow> string list \<Rightarrow> 'w gui_slot" where
  "gui_doScanPorts windows ports g = Some ([Gui_Ports_Scanned (scanPorts windows ports)], g)"

subsection \<open>Reads\<close>

definition doRefreshSystemInfo :: "'w modbus_lib \<Rightarrow> 'w gui_slot" where
  "doRefreshSystemInfo L g = do {
     (info, g1) \<leftarrow> on_client (readSystemInfo L (cachedSysInfo g)) g;
     let g2 = g1\<lparr>cachedSysInfo := info\<rparr>;
     let n = supportedChannels info;
     Some (if protoMajor info < 1 \<or> n < 1 \<or> int WORKER_MAX_CH < n
       then let err = client_lastError (gui_client g2);
                err = (if err = [] then ''invalid channel count '' @ fmt_d n else err)
            in ([Operation_Complete False (''Channel discovery failed: '' @ err)], g2\<lparr>gui_channelCount := 0\<rparr>)
       else ([System_Info_Ready (systemInfoToMap info)], g2\<lparr>gui_channelCount := n\<rparr>))
   }"

text \<open>The cached values of a channel.\<close>

abbreviation gui_info :: "int \<Rightarrow> 'w gui_worker \<Rightarrow> channel_info" where "gui_info ch g \<equiv> cachedChInfo g ! nat ch"
abbreviation gui_caps :: "int \<Rightarrow> 'w gui_worker \<Rightarrow> u16" where "gui_caps ch g \<equiv> chCapFlags (gui_info ch g)"
abbreviation gui_config :: "int \<Rightarrow> 'w gui_worker \<Rightarrow> channel_config_host" where "gui_config ch g \<equiv> cachedChConfig g ! nat ch"

definition set_info :: "int \<Rightarrow> channel_info \<Rightarrow> 'w gui_worker \<Rightarrow> 'w gui_worker" where
  "set_info ch info g = g\<lparr>cachedChInfo := (cachedChInfo g)[nat ch := info]\<rparr>"

definition set_config :: "int \<Rightarrow> channel_config_host \<Rightarrow> 'w gui_worker \<Rightarrow> 'w gui_worker" where
  "set_config ch cfg g = g\<lparr>cachedChConfig := (cachedChConfig g)[nat ch := cfg]\<rparr>"

definition info_signal :: "int \<Rightarrow> 'w gui_worker \<Rightarrow> gui_signal" where
  "info_signal ch g = Channel_Info_Ready ch (channelInfoToMap (gui_channel ch \<and> gui_chOffline g ! nat ch) (gui_info ch g))"

definition config_signal :: "int \<Rightarrow> 'w gui_worker \<Rightarrow> gui_signal" where
  "config_signal ch g = Channel_Config_Ready ch (channelConfigToMap (gui_config ch g))"

fun reread_info :: "'w modbus_lib \<Rightarrow> int \<Rightarrow> nat \<Rightarrow> 'w gui_worker \<Rightarrow> (unit \<times> 'w gui_worker) option" where
  "reread_info L ch 0 g = Some ((), g)"
| "reread_info L ch (Suc attempts) g =
     (if gui_caps ch g = 0 then do {
        (info, g1) \<leftarrow> on_client (readChannelInfo L ch 0 (gui_info ch g)) g;
        reread_info L ch attempts (set_info ch info g1)
      }
      else Some ((), g))"

definition doRefreshChannelInfo :: "'w modbus_lib \<Rightarrow> int \<Rightarrow> 'w gui_slot" where
  "doRefreshChannelInfo L ch g =
     (if \<not> gui_channel ch then Some ([], g)
      else do {
        (info, g1) \<leftarrow> on_client (readChannelInfo L ch 0 (gui_info ch g)) g;
        (_, g2) \<leftarrow> reread_info L ch 2 (set_info ch info g1);
        Some (if \<not> gui_isConnected g2 then ([Operation_Complete False ''Read failed''], g2)
              else ([info_signal ch g2], g2))
      })"

definition doReadSystemConfig :: "'w modbus_lib \<Rightarrow> 'w gui_slot" where
  "doReadSystemConfig L g = do {
     (cfg, g1) \<leftarrow> on_client (readSystemConfig L) g;
     Some (if \<not> gui_isConnected g1 then ([Operation_Complete False ''Read failed''], g1)
           else ([System_Config_Ready (systemConfigToMap cfg)], g1))
   }"

definition mergeCalConfig :: "'w modbus_lib \<Rightarrow> int \<Rightarrow> qmap \<Rightarrow> 'w gui_worker \<Rightarrow> (qmap \<times> 'w gui_worker) option" where
  "mergeCalConfig L ch m g =
     (if \<not> has_cap (sysCapFlags (cachedSysInfo g)) SYS_CAP_CALIBRATION_MODE then Some (m, g)
      else do {
        (cal, g1) \<leftarrow> on_client (readChannelCalConfig L ch (gui_caps ch g) new_channel_cal_config) g;
        Some (if \<not> gui_isConnected g1 then m else m @ calConfigToMap cal, g1)
      })"

definition doReadChannelConfig :: "'w modbus_lib \<Rightarrow> int \<Rightarrow> 'w gui_slot" where
  "doReadChannelConfig L ch g =
     (if \<not> gui_channel ch then Some ([], g)
      else do {
        (cfg, g1) \<leftarrow> on_client (readChannelConfig L ch (gui_caps ch g) (gui_config ch g)) g;
        let g2 = set_config ch cfg g1;
        if \<not> gui_isConnected g2 then Some ([Operation_Complete False ''Read failed''], g2)
        else do {
          (m, g3) \<leftarrow> mergeCalConfig L ch (channelConfigToMap cfg) g2;
          Some ([Channel_Config_Ready ch m], g3)
        }
      })"

subsection \<open>Narrow refreshes after a write\<close>

text \<open>The status of the channel, which every refresh reads first; whether the read succeeded is not looked at.\<close>

definition reread_status :: "'w modbus_lib \<Rightarrow> int \<Rightarrow> 'w gui_worker \<Rightarrow> (unit \<times> 'w gui_worker) option" where
  "reread_status L ch g = do {
     ((_, info), g1) \<leftarrow> on_client (readChannelStatus L ch (gui_caps ch g) (gui_info ch g) (- 1)) g;
     Some ((), set_info ch info g1)
   }"

definition refreshChannelStatus :: "'w modbus_lib \<Rightarrow> int \<Rightarrow> 'w gui_slot" where
  "refreshChannelStatus L ch g =
     (if \<not> gui_channel ch then Some ([], g)
      else do {
        (_, g1) \<leftarrow> reread_status L ch g;
        Some ([info_signal ch g1], g1)
      })"

text \<open>The refreshes of one block of the configuration differ in the block; \<open>block caps cfg\<close> reads it into \<open>cfg\<close>.\<close>

definition refresh_block ::
    "'w modbus_lib \<Rightarrow> (u16 \<Rightarrow> channel_config_host \<Rightarrow> 'w session \<Rightarrow> (channel_config_host \<times> 'w session) option) \<Rightarrow> int \<Rightarrow>
     'w gui_slot" where
  "refresh_block L block ch g =
     (if \<not> gui_channel ch then Some ([], g)
      else do {
        (_, g1) \<leftarrow> reread_status L ch g;
        (cfg, g2) \<leftarrow> on_client (block (gui_caps ch g1) (gui_config ch g1)) g1;
        let g3 = set_config ch cfg g2;
        Some ([info_signal ch g3, config_signal ch g3], g3)
      })"

definition refreshChannelOutput :: "'w modbus_lib \<Rightarrow> int \<Rightarrow> 'w gui_slot" where
  "refreshChannelOutput L ch = refresh_block L (readChannelOutputBlock L ch) ch"

definition refreshChannelOutputEnabled :: "'w modbus_lib \<Rightarrow> int \<Rightarrow> 'w gui_slot" where
  "refreshChannelOutputEnabled L ch = refresh_block L (readChannelOutputEnabledBlock L ch) ch"

definition refreshChannelProtection :: "'w modbus_lib \<Rightarrow> int \<Rightarrow> 'w gui_slot" where
  "refreshChannelProtection L ch = refresh_block L (readChannelProtectionBlock L ch) ch"

definition refreshChannelRecovery :: "'w modbus_lib \<Rightarrow> int \<Rightarrow> 'w gui_slot" where
  "refreshChannelRecovery L ch = refresh_block L (\<lambda>_. readChannelRecoveryBlock L ch) ch"

definition refreshChannelDerate :: "'w modbus_lib \<Rightarrow> int \<Rightarrow> 'w gui_slot" where
  "refreshChannelDerate L ch = refresh_block L (readChannelDerateBlock L ch) ch"

definition refreshChannelFull :: "'w modbus_lib \<Rightarrow> int \<Rightarrow> 'w gui_slot" where
  "refreshChannelFull L ch g =
     (if \<not> gui_channel ch then Some ([], g)
      else do {
        (_, g1) \<leftarrow> reread_status L ch g;
        (cfg, g2) \<leftarrow> on_client (readChannelConfig L ch (gui_caps ch g1) (gui_config ch g1)) g1;
        let g3 = set_config ch cfg g2;
        (m, g4) \<leftarrow> mergeCalConfig L ch (channelConfigToMap cfg) g3;
        Some ([info_signal ch g3, Channel_Config_Ready ch m], g4)
      })"

definition refreshSystemConfig :: "'w modbus_lib \<Rightarrow> 'w gui_slot" where
  "refreshSystemConfig L g = do {
     (cfg, g1) \<leftarrow> on_client (readSystemConfig L) g;
     Some (if \<not> gui_isConnected g1 then [] else [System_Config_Ready (systemConfigToMap cfg)], g1)
   }"

subsection \<open>Writes\<close>

text \<open>A write, the refresh after it if it succeeded, and the report; the error text is the one after the refresh.\<close>

definition confirmed :: "'w session_write \<Rightarrow> 'w gui_slot \<Rightarrow> 'w gui_slot" where
  "confirmed f refresh g = do {
     (ok, g1) \<leftarrow> on_client f g;
     (sigs, g2) \<leftarrow> (if ok then refresh g1 else Some ([], g1));
     Some (sigs @ [Operation_Complete ok (if ok then ''OK'' else client_lastError (gui_client g2))], g2)
   }"

abbreviation no_refresh :: "'w gui_slot" where "no_refresh g \<equiv> Some ([], g)"

definition doWriteOperatingMode :: "'w modbus_lib \<Rightarrow> int \<Rightarrow> 'w gui_slot" where
  "doWriteOperatingMode L mode = confirmed (writeOperatingMode L (word_of_int mode)) (refreshSystemConfig L)"

definition doWriteStartupChannelPolicy :: "'w modbus_lib \<Rightarrow> int \<Rightarrow> 'w gui_slot" where
  "doWriteStartupChannelPolicy L policy =
     confirmed (writeStartupChannelPolicy L (word_of_int policy)) (refreshSystemConfig L)"

definition doWriteSlaveAddress :: "'w modbus_lib \<Rightarrow> int \<Rightarrow> 'w gui_slot" where
  "doWriteSlaveAddress L addr = confirmed (writeSlaveAddress L (word_of_int addr)) (refreshSystemConfig L)"

definition doWriteBaudRate :: "'w modbus_lib \<Rightarrow> int \<Rightarrow> 'w gui_slot" where
  "doWriteBaudRate L code = confirmed (writeBaudRateCode L (word_of_int code)) (refreshSystemConfig L)"

definition doSendOutputAction :: "'w modbus_lib \<Rightarrow> int \<Rightarrow> int \<Rightarrow> 'w gui_slot" where
  "doSendOutputAction L ch action = confirmed (sendOutputAction L ch (word_of_int action)) (refreshChannelStatus L ch)"

definition doSendFaultCmd :: "'w modbus_lib \<Rightarrow> int \<Rightarrow> int \<Rightarrow> 'w gui_slot" where
  "doSendFaultCmd L ch cmd = confirmed (sendChannelFaultCommand L ch (word_of_int cmd)) (refreshChannelStatus L ch)"

definition doWriteTargetVoltage :: "'w modbus_lib \<Rightarrow> int \<Rightarrow> int \<Rightarrow> 'w gui_slot" where
  "doWriteTargetVoltage L ch raw =
     confirmed (writeConfiguredTargetVoltage L ch (word_of_int raw)) (refreshChannelOutput L ch)"

definition doWriteOutputEnabled :: "'w modbus_lib \<Rightarrow> int \<Rightarrow> bool \<Rightarrow> 'w gui_slot" where
  "doWriteOutputEnabled L ch enabled = confirmed (writeOutputEnabled L ch enabled) (refreshChannelOutputEnabled L ch)"

definition doWriteRampUp :: "'w modbus_lib \<Rightarrow> int \<Rightarrow> int \<Rightarrow> int \<Rightarrow> 'w gui_slot" where
  "doWriteRampUp L ch step interval =
     confirmed (writeRampUp L ch (word_of_int step) (word_of_int interval)) (refreshChannelOutput L ch)"

definition doWriteRampDown :: "'w modbus_lib \<Rightarrow> int \<Rightarrow> int \<Rightarrow> int \<Rightarrow> 'w gui_slot" where
  "doWriteRampDown L ch step interval =
     confirmed (writeRampDown L ch (word_of_int step) (word_of_int interval)) (refreshChannelOutput L ch)"

definition doWriteChannelRecovery :: "'w modbus_lib \<Rightarrow> int \<Rightarrow> int \<Rightarrow> int \<Rightarrow> int \<Rightarrow> int \<Rightarrow> 'w gui_slot" where
  "doWriteChannelRecovery L ch policy delay max_count window =
     confirmed (writeChannelRecovery L ch (word_of_int policy) delay max_count window) (refreshChannelRecovery L ch)"

definition doWriteChannelSafeBand :: "'w modbus_lib \<Rightarrow> int \<Rightarrow> int \<Rightarrow> 'w gui_slot" where
  "doWriteChannelSafeBand L ch pct = confirmed (writeChannelSafeBand L ch (word_of_int pct)) (refreshChannelRecovery L ch)"

definition doWriteCurrentProtection :: "'w modbus_lib \<Rightarrow> int \<Rightarrow> int \<Rightarrow> int \<Rightarrow> int \<Rightarrow> 'w gui_slot" where
  "doWriteCurrentProtection L ch mode action threshold =
     confirmed (writeCurrentProtection L ch (word_of_int mode) (word_of_int action) (word_of_int threshold))
       (refreshChannelProtection L ch)"

definition doWriteDerateStep :: "'w modbus_lib \<Rightarrow> int \<Rightarrow> int \<Rightarrow> 'w gui_slot" where
  "doWriteDerateStep L ch step = confirmed (writeDerateStep L ch (word_of_int step)) (refreshChannelDerate L ch)"

definition doWriteCalOutput :: "'w modbus_lib \<Rightarrow> int \<Rightarrow> int \<Rightarrow> int \<Rightarrow> 'w gui_slot" where
  "doWriteCalOutput L ch k b = confirmed (writeCalibrationOutput L ch (word_of_int k) (word_of_int b)) no_refresh"

definition doWriteCalMeasV :: "'w modbus_lib \<Rightarrow> int \<Rightarrow> int \<Rightarrow> int \<Rightarrow> 'w gui_slot" where
  "doWriteCalMeasV L ch k b = confirmed (writeCalibrationMeasV L ch (word_of_int k) (word_of_int b)) no_refresh"

definition doWriteCalMeasI :: "'w modbus_lib \<Rightarrow> int \<Rightarrow> int \<Rightarrow> int \<Rightarrow> 'w gui_slot" where
  "doWriteCalMeasI L ch k b = confirmed (writeCalibrationMeasI L ch (word_of_int k) (word_of_int b)) no_refresh"

definition doExitCalibrationMode :: "'w modbus_lib \<Rightarrow> 'w gui_slot" where
  "doExitCalibrationMode L = confirmed (exitCalibrationMode L) no_refresh"

text \<open>After a software reset the board reboots, and nothing is read back.\<close>

definition doSendParamAction :: "'w modbus_lib \<Rightarrow> int \<Rightarrow> int \<Rightarrow> 'w gui_slot" where
  "doSendParamAction L scope action =
     confirmed (sendParamAction L scope (word_of_int action))
       (if action = 255 then no_refresh
        else if 0 \<le> scope then refreshChannelFull L scope else refreshSystemConfig L)"

subsection \<open>Raw registers\<close>

text \<open>Four hexadecimal digits in capitals for each word, eight words in a line.\<close>

definition capital :: "char \<Rightarrow> char" where
  "capital c = (if 97 \<le> (of_char c :: nat) then char_of ((of_char c :: nat) - 32) else c)"

definition hex_words :: "u16 list \<Rightarrow> string" where
  "hex_words ws = concat (map (\<lambda>(i, v). (if i = 0 then [] else '' '') @ map capital (fmt_0x 4 (unat v)) @
     (if i mod 8 = 7 then newline else [])) (enumerate 0 ws))"

text \<open>A negative count is an assertion of the vector; the count of a request has 16 bits, the buffer has it all.\<close>

definition raw_read :: "'w modbus_lib \<Rightarrow> bool \<Rightarrow> int \<Rightarrow> int \<Rightarrow> 'w gui_slot" where
  "raw_read L holding addr count g =
     (if count < 0 then None
      else do {
        (r, g1) \<leftarrow> on_client (readRegsInternal L holding (word_of_int addr) (word_of_int count) (- 1)) g;
        Some (case r of
          None \<Rightarrow> ([Raw_Hex_Result (''Error: '' @ client_lastError (gui_client g1))], g1)
        | Some buf \<Rightarrow> ([Raw_Hex_Result (hex_words (take (nat count) (buf @ replicate (nat count - length buf) 0)))], g1))
      })"

definition doRawReadFc04 :: "'w modbus_lib \<Rightarrow> int \<Rightarrow> int \<Rightarrow> 'w gui_slot" where
  "doRawReadFc04 L addr count = raw_read L False addr count"

definition doRawReadFc03 :: "'w modbus_lib \<Rightarrow> int \<Rightarrow> int \<Rightarrow> 'w gui_slot" where
  "doRawReadFc03 L addr count = raw_read L True addr count"

definition doRawWriteFc06 :: "'w modbus_lib \<Rightarrow> int \<Rightarrow> int \<Rightarrow> 'w gui_slot" where
  "doRawWriteFc06 L addr v g = do {
     (ok, g1) \<leftarrow> on_client (writeReg16 L (word_of_int addr) (word_of_int v)) g;
     Some ([Raw_Hex_Result (if ok then ''OK'' else ''Error: '' @ client_lastError (gui_client g1))], g1)
   }"

subsection \<open>The poll\<close>

text \<open>The reads of one channel: its capabilities while they are unknown, then its status.\<close>

definition gui_read_channel :: "'w modbus_lib \<Rightarrow> int \<Rightarrow> 'w gui_worker \<Rightarrow> (bool \<times> 'w gui_worker) option" where
  "gui_read_channel L ch g = do {
     (_, g1) \<leftarrow>
       (if gui_caps ch g = 0 then do {
          (r, g1) \<leftarrow> on_client (readChannelCapabilities L ch gui_poll_timeout) g;
          Some ((), case r of
            Some caps \<Rightarrow> if caps \<noteq> 0 then set_info ch ((gui_info ch g1)\<lparr>chCapFlags := caps\<rparr>) g1 else g1
          | None \<Rightarrow> g1)
        }
        else Some ((), g));
     ((ok, info), g2) \<leftarrow> on_client (readChannelStatus L ch (gui_caps ch g1) (gui_info ch g1) gui_poll_timeout) g1;
     Some (ok, set_info ch info g2)
   }"

definition gui_count_answer :: "int \<Rightarrow> bool \<Rightarrow> 'w gui_worker \<Rightarrow> 'w gui_worker" where
  "gui_count_answer ch ok g =
     (if ok then g\<lparr>chFailCount := (chFailCount g)[nat ch := 0], gui_chOffline := (gui_chOffline g)[nat ch := False]\<rparr>
      else
        let k = chFailCount g ! nat ch + 1; g1 = g\<lparr>chFailCount := (chFailCount g)[nat ch := k]\<rparr>
        in if gui_offline_threshold \<le> k then g1\<lparr>gui_chOffline := (gui_chOffline g1)[nat ch := True]\<rparr> else g1)"

text \<open>The channels of the mask; the flag is False where the client turned out not to be connected.\<close>

fun gui_poll_channels :: "'w modbus_lib \<Rightarrow> u16 \<Rightarrow> int list \<Rightarrow> 'w gui_worker \<Rightarrow> (bool \<times> 'w gui_worker) option" where
  "gui_poll_channels L active [] g = Some (True, g)"
| "gui_poll_channels L active (ch # chs) g =
     (if \<not> bit active (nat ch) then gui_poll_channels L active chs g
      else do {
        (ok, g1) \<leftarrow> gui_read_channel L ch g;
        let g2 = gui_count_answer ch ok g1;
        if \<not> gui_isConnected g2 then Some (False, g2) else gui_poll_channels L active chs g2
      })"

definition doPollStatus :: "'w modbus_lib \<Rightarrow> 'w gui_slot" where
  "doPollStatus L g =
     (if \<not> gui_isConnected g \<or> gui_channelCount g = 0 then Some ([], g)
      else do {
        ((_, info), g1) \<leftarrow> on_client (readSystemStatus L (cachedSysInfo g) gui_poll_timeout) g;
        let g2 = g1\<lparr>cachedSysInfo := info\<rparr>;
        if \<not> gui_isConnected g2 then Some ([], g2)
        else do {
          let active = activeChMask info;
          let chs = [0..gui_channelCount g - 1];
          (up, g3) \<leftarrow> gui_poll_channels L active chs g2;
          Some (if \<not> up then []
            else System_Info_Ready (systemInfoToMap info) #
              map (\<lambda>ch. info_signal ch g3) (filter (\<lambda>ch. bit active (nat ch)) chs), g3)
        }
      })"

end
