(* ===== verification/Gui_Backend.thy ===== *)
theory Gui_Backend
  imports Gui_Worker
begin

text \<open>
  The window's side of the worker, \<open>tools/psb_demo_app/gui/modbus_backend.cpp\<close>, and the two threads together. The window
  posts slots to the event loop of the worker's thread, and the worker's signals are posted to the event loop of the
  window's: two queues, each first in first out. A step is one turn of a loop, a slot that the user calls or a
  timer. The log of frames and the timestamp of messages, which is the argument \<open>now\<close>, only observe.
\<close>

subsection \<open>Posted slots\<close>

datatype gui_call =
  Do_Connect string int int nat
| Do_Disconnect
| Do_Scan_Ports
| Do_Refresh_System_Info
| Do_Refresh_Channel_Info int
| Do_Read_System_Config
| Do_Read_Channel_Config int
| Do_Send_Output_Action int int
| Do_Send_Fault_Cmd int int
| Do_Write_Target_Voltage int int
| Do_Write_Output_Enabled int bool
| Do_Write_Operating_Mode int
| Do_Write_Startup_Channel_Policy int
| Do_Write_Slave_Address int
| Do_Write_Baud_Rate int
| Do_Write_Ramp_Up int int int
| Do_Write_Ramp_Down int int int
| Do_Write_Channel_Recovery int int int int int
| Do_Write_Channel_Safe_Band int int
| Do_Write_Current_Protection int int int int
| Do_Write_Derate_Step int int
| Do_Write_Cal_Output int int int
| Do_Write_Cal_Meas_V int int int
| Do_Write_Cal_Meas_I int int int
| Do_Exit_Calibration_Mode
| Do_Send_Param_Action int int
| Do_Raw_Read_Fc04 int int
| Do_Raw_Read_Fc03 int int
| Do_Raw_Write_Fc06 int int
| Do_Poll_Status

text \<open>The ports that the machine has at that moment are an argument.\<close>

fun gui_exec :: "'w modbus_lib \<Rightarrow> bool \<Rightarrow> string list \<Rightarrow> gui_call \<Rightarrow> 'w gui_slot" where
  "gui_exec L windows ports (Do_Connect port baud slave timeout) = gui_doConnect L port baud slave timeout"
| "gui_exec L windows ports Do_Disconnect = gui_doDisconnect"
| "gui_exec L windows ports Do_Scan_Ports = gui_doScanPorts windows ports"
| "gui_exec L windows ports Do_Refresh_System_Info = doRefreshSystemInfo L"
| "gui_exec L windows ports (Do_Refresh_Channel_Info ch) = doRefreshChannelInfo L ch"
| "gui_exec L windows ports Do_Read_System_Config = doReadSystemConfig L"
| "gui_exec L windows ports (Do_Read_Channel_Config ch) = doReadChannelConfig L ch"
| "gui_exec L windows ports (Do_Send_Output_Action ch a) = doSendOutputAction L ch a"
| "gui_exec L windows ports (Do_Send_Fault_Cmd ch c) = doSendFaultCmd L ch c"
| "gui_exec L windows ports (Do_Write_Target_Voltage ch raw) = doWriteTargetVoltage L ch raw"
| "gui_exec L windows ports (Do_Write_Output_Enabled ch b) = doWriteOutputEnabled L ch b"
| "gui_exec L windows ports (Do_Write_Operating_Mode m) = doWriteOperatingMode L m"
| "gui_exec L windows ports (Do_Write_Startup_Channel_Policy p) = doWriteStartupChannelPolicy L p"
| "gui_exec L windows ports (Do_Write_Slave_Address a) = doWriteSlaveAddress L a"
| "gui_exec L windows ports (Do_Write_Baud_Rate c) = doWriteBaudRate L c"
| "gui_exec L windows ports (Do_Write_Ramp_Up ch s i) = doWriteRampUp L ch s i"
| "gui_exec L windows ports (Do_Write_Ramp_Down ch s i) = doWriteRampDown L ch s i"
| "gui_exec L windows ports (Do_Write_Channel_Recovery ch p d m w) = doWriteChannelRecovery L ch p d m w"
| "gui_exec L windows ports (Do_Write_Channel_Safe_Band ch p) = doWriteChannelSafeBand L ch p"
| "gui_exec L windows ports (Do_Write_Current_Protection ch m a t) = doWriteCurrentProtection L ch m a t"
| "gui_exec L windows ports (Do_Write_Derate_Step ch s) = doWriteDerateStep L ch s"
| "gui_exec L windows ports (Do_Write_Cal_Output ch k b) = doWriteCalOutput L ch k b"
| "gui_exec L windows ports (Do_Write_Cal_Meas_V ch k b) = doWriteCalMeasV L ch k b"
| "gui_exec L windows ports (Do_Write_Cal_Meas_I ch k b) = doWriteCalMeasI L ch k b"
| "gui_exec L windows ports Do_Exit_Calibration_Mode = doExitCalibrationMode L"
| "gui_exec L windows ports (Do_Send_Param_Action scope a) = doSendParamAction L scope a"
| "gui_exec L windows ports (Do_Raw_Read_Fc04 a n) = doRawReadFc04 L a n"
| "gui_exec L windows ports (Do_Raw_Read_Fc03 a n) = doRawReadFc03 L a n"
| "gui_exec L windows ports (Do_Raw_Write_Fc06 a v) = doRawWriteFc06 L a v"
| "gui_exec L windows ports Do_Poll_Status = doPollStatus L"

subsection \<open>The window\<close>

abbreviation (input) GUI_MAX_CHANNELS :: nat where "GUI_MAX_CHANNELS \<equiv> 16"

datatype gui_notify =
  Connected_Changed | Ports_Changed | Selected_Port_Changed | Baud_Rate_Changed | Slave_Id_Changed | Poll_Interval_Changed
| Sys_Info_Changed | Channel_Data_Changed | Sys_Config_Changed | Status_Message_Changed | Raw_Hex_Ready string
| Channel_Config_Updated int

record gui_backend =
  gui_connected :: bool
  selectedPort :: string
  gui_baud :: int
  gui_slaveId :: int
  pollInterval :: int
  gui_ports :: "string list"
  sysInfo :: qmap
  chInfo :: "qmap list"
  sysConfig :: qmap
  chConfig :: "qmap list"
  gui_messages :: message_center
  statusMessage :: string
  poll_running :: bool
  clear_running :: bool
  posted :: "gui_call list"
  notified :: "gui_notify list"

definition post_call :: "gui_call \<Rightarrow> gui_backend \<Rightarrow> gui_backend" where
  "post_call c b = b\<lparr>posted := posted b @ [c]\<rparr>"

definition emit_to_qml :: "gui_notify \<Rightarrow> gui_backend \<Rightarrow> gui_backend" where
  "emit_to_qml n b = b\<lparr>notified := notified b @ [n]\<rparr>"

definition gui_shownCount :: "gui_backend \<Rightarrow> int" where
  "gui_shownCount b =
     (if \<not> gui_connected b then 0
      else let n = (case map_of (sysInfo b) ''supportedChannels'' of Some (QInt n) \<Rightarrow> n | _ \<Rightarrow> 0)
        in if 1 \<le> n \<and> n \<le> int GUI_MAX_CHANNELS then n else 0)"

definition channelInfoList :: "gui_backend \<Rightarrow> qmap list" where
  "channelInfoList b = map (\<lambda>i. chInfo b ! i) [0..<nat (gui_shownCount b)]"

definition channelConfigList :: "gui_backend \<Rightarrow> qmap list" where
  "channelConfigList b = map (\<lambda>i. chConfig b ! i) [0..<nat (gui_shownCount b)]"

subsection \<open>Status line\<close>

abbreviation (input) check_mark :: string where "check_mark \<equiv> map char_of [226, 156, 147 :: nat]"
abbreviation (input) cross_mark :: string where "cross_mark \<equiv> map char_of [226, 156, 151 :: nat]"
abbreviation (input) long_dash :: string where "long_dash \<equiv> map char_of [226, 128, 148 :: nat]"

definition setStatusAs :: "nat \<Rightarrow> message_severity \<Rightarrow> string \<Rightarrow> gui_backend \<Rightarrow> gui_backend" where
  "setStatusAs now sev msg b =
     (let (action, m) = beginAction ''gui'' [] now (gui_messages b);
          m1 = publish action sev ''gui'' msg now m
      in emit_to_qml Status_Message_Changed
        (b\<lparr>gui_messages := m1, statusMessage := (case current m1 of Some r \<Rightarrow> message_text r | None \<Rightarrow> [])\<rparr>))"

definition starts_with :: "string \<Rightarrow> string \<Rightarrow> bool" where
  "starts_with p s \<longleftrightarrow> take (length p) s = p"

definition status_severity :: "string \<Rightarrow> message_severity" where
  "status_severity msg =
     (if starts_with ''Error:'' msg \<or> starts_with cross_mark msg then Error
      else if starts_with ''Warning:'' msg then Warning
      else if starts_with check_mark msg \<or> starts_with ''Connected'' msg \<or> starts_with ''Disconnected'' msg then Success
      else Info)"

definition setStatus :: "nat \<Rightarrow> string \<Rightarrow> gui_backend \<Rightarrow> gui_backend" where
  "setStatus now msg b =
     (if msg = []
      then emit_to_qml Status_Message_Changed
        (b\<lparr>gui_messages := snd (beginAction ''gui'' [] now (gui_messages b)), statusMessage := []\<rparr>)
      else setStatusAs now (status_severity msg) msg b)"

subsection \<open>Slots of the user\<close>

definition setSelectedPort :: "string \<Rightarrow> gui_backend \<Rightarrow> gui_backend" where
  "setSelectedPort p b = (if selectedPort b \<noteq> p then emit_to_qml Selected_Port_Changed (b\<lparr>selectedPort := p\<rparr>) else b)"

definition setBaudRate :: "int \<Rightarrow> gui_backend \<Rightarrow> gui_backend" where
  "setBaudRate r b = (if gui_baud b \<noteq> r then emit_to_qml Baud_Rate_Changed (b\<lparr>gui_baud := r\<rparr>) else b)"

definition setSlaveId :: "int \<Rightarrow> gui_backend \<Rightarrow> gui_backend" where
  "setSlaveId i b = (if gui_slaveId b \<noteq> i then emit_to_qml Slave_Id_Changed (b\<lparr>gui_slaveId := i\<rparr>) else b)"

definition setPollIntervalMs :: "int \<Rightarrow> gui_backend \<Rightarrow> gui_backend" where
  "setPollIntervalMs ms b = (if pollInterval b \<noteq> ms then emit_to_qml Poll_Interval_Changed (b\<lparr>pollInterval := ms\<rparr>) else b)"

definition connectToDevice :: "nat \<Rightarrow> gui_backend \<Rightarrow> gui_backend" where
  "connectToDevice now b =
     (let b1 = setStatus now ''Connecting...'' b
      in post_call (Do_Connect (selectedPort b1) (gui_baud b1) (gui_slaveId b1) 3000) b1)"

definition disconnectFromDevice :: "gui_backend \<Rightarrow> gui_backend" where
  "disconnectFromDevice b = post_call Do_Disconnect (b\<lparr>poll_running := False\<rparr>)"

definition gui_scanPorts :: "gui_backend \<Rightarrow> gui_backend" where
  "gui_scanPorts b = post_call Do_Scan_Ports b"

definition refreshChannels :: "gui_backend \<Rightarrow> gui_backend" where
  "refreshChannels b = fold (\<lambda>ch. post_call (Do_Refresh_Channel_Info ch)) [0..gui_shownCount b - 1] b"

definition refreshAll :: "gui_backend \<Rightarrow> gui_backend" where
  "refreshAll b = (if \<not> gui_connected b then b else refreshChannels (post_call Do_Refresh_System_Info b))"

definition pollTick :: "gui_backend \<Rightarrow> gui_backend" where
  "pollTick b = (if \<not> gui_connected b then b else post_call Do_Poll_Status b)"

text \<open>The slots that post one slot of the worker and do nothing else.\<close>

datatype gui_command =
  WriteOperatingMode int | WriteStartupChannelPolicy int | WriteSlaveAddress int | WriteBaudRate int
| SaveSystem | LoadSystem | FactoryResetSystem | SoftwareReset
| SendOutputAction int int | SendFaultCmd int int | WriteTargetVoltage int int | WriteOutputEnabled int bool
| WriteRampUp int int int | WriteRampDown int int int | WriteChannelRecovery int int int int int
| WriteChannelSafeBand int int | WriteCurrentProtection int int int int | WriteDerateStep int int
| WriteCalOutput int int int | WriteCalMeasV int int int | WriteCalMeasI int int int | ExitCalibrationMode
| SaveChannel int | LoadChannel int | FactoryResetChannel int
| RawReadFc04 int int | RawReadFc03 int int | RawWriteFc06 int int

fun command_call :: "gui_command \<Rightarrow> gui_call" where
  "command_call (WriteOperatingMode m) = Do_Write_Operating_Mode m"
| "command_call (WriteStartupChannelPolicy p) = Do_Write_Startup_Channel_Policy p"
| "command_call (WriteSlaveAddress a) = Do_Write_Slave_Address a"
| "command_call (WriteBaudRate c) = Do_Write_Baud_Rate c"
| "command_call SaveSystem = Do_Send_Param_Action (- 1) 1"
| "command_call LoadSystem = Do_Send_Param_Action (- 1) 2"
| "command_call FactoryResetSystem = Do_Send_Param_Action (- 1) 3"
| "command_call SoftwareReset = Do_Send_Param_Action (- 1) 255"
| "command_call (SendOutputAction ch a) = Do_Send_Output_Action ch a"
| "command_call (SendFaultCmd ch c) = Do_Send_Fault_Cmd ch c"
| "command_call (WriteTargetVoltage ch raw) = Do_Write_Target_Voltage ch raw"
| "command_call (WriteOutputEnabled ch e) = Do_Write_Output_Enabled ch e"
| "command_call (WriteRampUp ch s i) = Do_Write_Ramp_Up ch s i"
| "command_call (WriteRampDown ch s i) = Do_Write_Ramp_Down ch s i"
| "command_call (WriteChannelRecovery ch p d m w) = Do_Write_Channel_Recovery ch p d m w"
| "command_call (WriteChannelSafeBand ch pct) = Do_Write_Channel_Safe_Band ch pct"
| "command_call (WriteCurrentProtection ch m a t) = Do_Write_Current_Protection ch m a t"
| "command_call (WriteDerateStep ch s) = Do_Write_Derate_Step ch s"
| "command_call (WriteCalOutput ch k b) = Do_Write_Cal_Output ch k b"
| "command_call (WriteCalMeasV ch k b) = Do_Write_Cal_Meas_V ch k b"
| "command_call (WriteCalMeasI ch k b) = Do_Write_Cal_Meas_I ch k b"
| "command_call ExitCalibrationMode = Do_Exit_Calibration_Mode"
| "command_call (SaveChannel ch) = Do_Send_Param_Action ch 1"
| "command_call (LoadChannel ch) = Do_Send_Param_Action ch 2"
| "command_call (FactoryResetChannel ch) = Do_Send_Param_Action ch 3"
| "command_call (RawReadFc04 a n) = Do_Raw_Read_Fc04 a n"
| "command_call (RawReadFc03 a n) = Do_Raw_Read_Fc03 a n"
| "command_call (RawWriteFc06 a v) = Do_Raw_Write_Fc06 a v"

subsection \<open>Signals of the worker\<close>

definition onConnected :: "nat \<Rightarrow> bool \<Rightarrow> string \<Rightarrow> gui_backend \<Rightarrow> gui_backend" where
  "onConnected now ok err b =
     (let b1 = b\<lparr>gui_connected := ok\<rparr>;
          b2 = (if ok
            then (setStatus now (''Connected '' @ long_dash @ '' discovering channels...'')
              (post_call Do_Read_System_Config (post_call Do_Refresh_System_Info b1)))\<lparr>poll_running := True\<rparr>
            else setStatus now (''Error: '' @ err) b1)
      in emit_to_qml Connected_Changed b2)"

definition onDisconnected :: "nat \<Rightarrow> gui_backend \<Rightarrow> gui_backend" where
  "onDisconnected now b =
     emit_to_qml Channel_Data_Changed (emit_to_qml Connected_Changed (setStatus now ''Disconnected'' (b\<lparr>gui_connected := False\<rparr>)))"

definition onSysInfoReady :: "nat \<Rightarrow> qmap \<Rightarrow> gui_backend \<Rightarrow> gui_backend" where
  "onSysInfoReady now info b =
     (let b1 = emit_to_qml Sys_Info_Changed (b\<lparr>sysInfo := info\<rparr>);
          n = gui_shownCount b1;
          b2 = fold (\<lambda>ch b. post_call (Do_Read_Channel_Config ch) (post_call (Do_Refresh_Channel_Info ch) b)) [0..n - 1] b1;
          b3 = (if 0 < n
            then setStatus now (''Connected '' @ long_dash @ '' '' @ fmt_d n @ '' channel'' @ (if 1 < n then ''s'' else [])) b2
            else b2)
      in emit_to_qml Channel_Data_Changed b3)"

definition onChInfoReady :: "int \<Rightarrow> qmap \<Rightarrow> gui_backend \<Rightarrow> gui_backend" where
  "onChInfoReady ch info b =
     (if ch < 0 \<or> int GUI_MAX_CHANNELS \<le> ch then b
      else emit_to_qml Channel_Data_Changed (b\<lparr>chInfo := (chInfo b)[nat ch := info]\<rparr>))"

definition onSysConfigReady :: "qmap \<Rightarrow> gui_backend \<Rightarrow> gui_backend" where
  "onSysConfigReady cfg b = emit_to_qml Sys_Config_Changed (b\<lparr>sysConfig := cfg\<rparr>)"

definition onChConfigReady :: "int \<Rightarrow> qmap \<Rightarrow> gui_backend \<Rightarrow> gui_backend" where
  "onChConfigReady ch cfg b =
     (if ch < 0 \<or> int GUI_MAX_CHANNELS \<le> ch then b
      else emit_to_qml (Channel_Config_Updated ch)
        (emit_to_qml Channel_Data_Changed (b\<lparr>chConfig := (chConfig b)[nat ch := cfg]\<rparr>)))"

definition onOperationComplete :: "nat \<Rightarrow> bool \<Rightarrow> string \<Rightarrow> gui_backend \<Rightarrow> gui_backend" where
  "onOperationComplete now ok msg b =
     (if ok then (setStatusAs now Success (check_mark @ '' '' @ msg) b)\<lparr>clear_running := True\<rparr>
      else setStatusAs now Error (cross_mark @ '' '' @ msg) (b\<lparr>clear_running := False\<rparr>))"

definition onPortsScanned :: "string list \<Rightarrow> gui_backend \<Rightarrow> gui_backend" where
  "onPortsScanned ports b =
     (let b1 = b\<lparr>gui_ports := ports\<rparr>;
          b2 = (if ports \<noteq> [] \<and> selectedPort b1 = [] then b1\<lparr>selectedPort := hd ports\<rparr> else b1);
          b3 = emit_to_qml Ports_Changed b2
      in if ports \<noteq> [] \<and> selectedPort b3 = [] then emit_to_qml Selected_Port_Changed b3 else b3)"

definition onRawHexResult :: "string \<Rightarrow> gui_backend \<Rightarrow> gui_backend" where
  "onRawHexResult hex b = emit_to_qml (Raw_Hex_Ready hex) b"

fun deliver :: "nat \<Rightarrow> gui_signal \<Rightarrow> gui_backend \<Rightarrow> gui_backend" where
  "deliver now (Connected ok err) = onConnected now ok err"
| "deliver now Disconnected = onDisconnected now"
| "deliver now (System_Info_Ready info) = onSysInfoReady now info"
| "deliver now (Channel_Info_Ready ch info) = onChInfoReady ch info"
| "deliver now (System_Config_Ready cfg) = onSysConfigReady cfg"
| "deliver now (Channel_Config_Ready ch cfg) = onChConfigReady ch cfg"
| "deliver now (Operation_Complete ok msg) = onOperationComplete now ok msg"
| "deliver now (Gui_Ports_Scanned ports) = onPortsScanned ports"
| "deliver now (Raw_Hex_Result hex) = onRawHexResult hex"

definition new_gui_backend :: gui_backend where
  "new_gui_backend = gui_scanPorts
     \<lparr>gui_connected = False, selectedPort = [], gui_baud = 115200, gui_slaveId = 1, pollInterval = 1000, gui_ports = [],
      sysInfo = [], chInfo = replicate GUI_MAX_CHANNELS [], sysConfig = [], chConfig = replicate GUI_MAX_CHANNELS [],
      gui_messages = new_message_center 500, statusMessage = [], poll_running = False, clear_running = False,
      posted = [], notified = []\<rparr>"

subsection \<open>The two threads\<close>

record 'w gui =
  gui_worker_of :: "'w gui_worker"
  gui_backend_of :: gui_backend
  gui_signals :: "gui_signal list"

datatype gui_event =
  User_Port string | User_Baud int | User_Slave int | User_Interval int
| User_Connect | User_Disconnect | User_Scan | User_Refresh | User_Command gui_command
| Poll_Timer | Clear_Timer
| Window_Turn
| Worker_Turn "string list"

abbreviation on_backend :: "(gui_backend \<Rightarrow> gui_backend) \<Rightarrow> 'w gui \<Rightarrow> 'w gui option" where
  "on_backend f x \<equiv> Some (x\<lparr>gui_backend_of := f (gui_backend_of x)\<rparr>)"

text \<open>One turn; a loop with nothing posted waits, and so does a timer that is stopped.\<close>

fun gui_step :: "'w modbus_lib \<Rightarrow> bool \<Rightarrow> nat \<Rightarrow> gui_event \<Rightarrow> 'w gui \<Rightarrow> 'w gui option" where
  "gui_step L windows now (User_Port p) x = on_backend (setSelectedPort p) x"
| "gui_step L windows now (User_Baud r) x = on_backend (setBaudRate r) x"
| "gui_step L windows now (User_Slave i) x = on_backend (setSlaveId i) x"
| "gui_step L windows now (User_Interval ms) x = on_backend (setPollIntervalMs ms) x"
| "gui_step L windows now User_Connect x = on_backend (connectToDevice now) x"
| "gui_step L windows now User_Disconnect x = on_backend disconnectFromDevice x"
| "gui_step L windows now User_Scan x = on_backend gui_scanPorts x"
| "gui_step L windows now User_Refresh x = on_backend refreshAll x"
| "gui_step L windows now (User_Command c) x = on_backend (post_call (command_call c)) x"
| "gui_step L windows now Poll_Timer x =
     (if poll_running (gui_backend_of x) then on_backend pollTick x else Some x)"
| "gui_step L windows now Clear_Timer x =
     (if clear_running (gui_backend_of x) then on_backend (\<lambda>b. setStatus now [] (b\<lparr>clear_running := False\<rparr>)) x else Some x)"
| "gui_step L windows now Window_Turn x =
     (case gui_signals x of
        [] \<Rightarrow> Some x
      | sig # sigs \<Rightarrow> on_backend (deliver now sig) (x\<lparr>gui_signals := sigs\<rparr>))"
| "gui_step L windows now (Worker_Turn ports) x =
     (case posted (gui_backend_of x) of
        [] \<Rightarrow> Some x
      | c # cs \<Rightarrow> do {
          (sigs, g) \<leftarrow> gui_exec L windows ports c (gui_worker_of x);
          Some (x\<lparr>gui_worker_of := g, gui_backend_of := (gui_backend_of x)\<lparr>posted := cs\<rparr>, gui_signals := gui_signals x @ sigs\<rparr>)
        })"

text \<open>A session of the window: turns in the order in which they happen, each with the time of its messages.\<close>

fun gui_run :: "'w modbus_lib \<Rightarrow> bool \<Rightarrow> (nat \<times> gui_event) list \<Rightarrow> 'w gui \<Rightarrow> 'w gui option" where
  "gui_run L windows [] x = Some x"
| "gui_run L windows ((now, e) # es) x = do {
     x1 \<leftarrow> gui_step L windows now e x;
     gui_run L windows es x1
   }"

definition new_gui :: "'w \<Rightarrow> 'w gui" where
  "new_gui w = \<lparr>gui_worker_of = new_gui_worker w, gui_backend_of = new_gui_backend, gui_signals = []\<rparr>"

end
