(* ===== verification/Gui_Props.thy ===== *)
theory Gui_Props
  imports Gui_Backend Host_Props
begin

text \<open>
  The window and its worker together: the worker's arrays and its offline marks in every state that turns of the two
  threads reach, and the connection that the window shows.
\<close>

unbundle bit_operations_syntax

subsection \<open>Reads and writes leave the connection\<close>

named_theorems same_link

lemma checkConnected_link: "checkConnected s = (ok, s1) \<Longrightarrow> verified s1 = verified s"
  by (auto simp: checkConnected_def split: if_split_asm)

lemma if_connected_link:
  assumes "if_connected x body s = Some (r, s1)" and "\<And>t t1 r. body t = Some (r, t1) \<Longrightarrow> verified t1 = verified t"
  shows "verified s1 = verified s"
  using assms by (auto simp: if_connected_def dest: checkConnected_link split: prod.split_asm if_split_asm)

lemma regs_link [same_link]:
  "readRegsInternal L holding addr n t s = Some (r, s1) \<Longrightarrow> verified s1 = verified s"
  "writeRegsInternal L addr vs t s = Some (ok, s1) \<Longrightarrow> verified s1 = verified s"
  unfolding readRegsInternal_def writeRegsInternal_def
  by (erule if_connected_link; auto split: bind_splits prod.split_asm)+

lemma system_link [same_link]:
  "readSystemStatus L info t s = Some (r, s1) \<Longrightarrow> verified s1 = verified s"
  "readSystemInfo L info s = Some (i, s1) \<Longrightarrow> verified s1 = verified s"
  "readSystemConfig L s = Some (c, s1) \<Longrightarrow> verified s1 = verified s"
  unfolding readSystemStatus_def readSystemInfo_def readSystemConfig_def
  by (erule if_connected_link; auto dest!: same_link simp: Let_def split: bind_splits prod.split_asm option.split_asm)+

lemma measurement_link [same_link]:
  "read_measurement L present addr t upd info s = Some (i, s1) \<Longrightarrow> verified s1 = verified s"
  by (auto simp: read_measurement_def dest!: same_link split: bind_splits prod.split_asm if_split_asm)

lemma runtime_link [same_link]: "read_runtime L base caps info s = Some (r, s1) \<Longrightarrow> verified s1 = verified s"
  by (auto simp: read_runtime_def dest!: same_link split: bind_splits prod.split_asm if_split_asm)

lemma channel_link [same_link]:
  "readChannelStatus L ch caps info t s = Some (r, s1) \<Longrightarrow> verified s1 = verified s"
  "readChannelCapabilities L ch t s = Some (c, s1) \<Longrightarrow> verified s1 = verified s"
  "readChannelInfo L ch caps info s = Some (i, s1) \<Longrightarrow> verified s1 = verified s"
  unfolding readChannelStatus_def readChannelCapabilities_def readChannelInfo_def
  by (erule if_connected_link;
      auto dest!: same_link simp: Let_def split: bind_splits prod.split_asm option.split_asm if_split_asm)+

lemma block_link [same_link]:
  "readChannelOutputBlock L ch caps cfg s = Some (c, s1) \<Longrightarrow> verified s1 = verified s"
  "readChannelRecoveryBlock L ch cfg s = Some (c, s1) \<Longrightarrow> verified s1 = verified s"
  "readChannelProtectionBlock L ch caps cfg s = Some (c, s1) \<Longrightarrow> verified s1 = verified s"
  "readChannelDerateBlock L ch caps cfg s = Some (c, s1) \<Longrightarrow> verified s1 = verified s"
  "readChannelOutputEnabledBlock L ch caps cfg s = Some (c, s1) \<Longrightarrow> verified s1 = verified s"
  unfolding readChannelOutputBlock_def readChannelRecoveryBlock_def readChannelProtectionBlock_def
    readChannelDerateBlock_def readChannelOutputEnabledBlock_def
  by (erule if_connected_link; auto dest!: same_link simp: Let_def split: bind_splits prod.split_asm if_split_asm)+

lemma pair_link [same_link]:
  "read_pair L present addr a2 set_kb set_exp cal s = Some (c, s1) \<Longrightarrow> verified s1 = verified s"
  "acquire_caps L ch caps s = Some (k, s1) \<Longrightarrow> verified s1 = verified s"
  by (auto simp: read_pair_def acquire_caps_def Let_def dest!: same_link split: bind_splits prod.split_asm if_split_asm)

lemma config_link [same_link]:
  "readChannelConfig L ch caps cfg s = Some (c, s1) \<Longrightarrow> verified s1 = verified s"
  "readChannelCalConfig L ch caps cal s = Some (k, s1) \<Longrightarrow> verified s1 = verified s"
  unfolding readChannelConfig_def readChannelCalConfig_def
  by (erule if_connected_link; auto dest!: same_link simp: Let_def split: bind_splits prod.split_asm if_split_asm)+

lemma write_link [same_link]:
  "sendOutputAction L ch a s = Some (ok, s1) \<Longrightarrow> verified s1 = verified s"
  "writeCurrentProtection L ch m a t s = Some (ok, s1) \<Longrightarrow> verified s1 = verified s"
  by (auto simp: sendOutputAction_def writeCurrentProtection_def dest!: same_link split: if_split_asm)

lemma connect_link: "client_connect L port baud slave t s = Some (ok, s1) \<Longrightarrow> verified s1 = ok"
  by (auto simp: client_connect_def verifyProtocol_def new_session_def Let_def split: bind_splits prod.split_asm bool.split_asm
      if_split_asm option.split_asm dest!: same_link)

subsection \<open>Slots\<close>

text \<open>The arrays of the worker have their sixteen entries, and a channel is marked offline from the fifth silence on.\<close>

definition gui_worker_ok :: "'w gui_worker \<Rightarrow> bool" where
  "gui_worker_ok g \<longleftrightarrow> length (cachedChInfo g) = WORKER_MAX_CH \<and> length (cachedChConfig g) = WORKER_MAX_CH \<and>
     length (chFailCount g) = WORKER_MAX_CH \<and> 0 \<le> gui_channelCount g \<and> gui_channelCount g \<le> int WORKER_MAX_CH \<and>
     gui_chOffline g = map (\<lambda>k. gui_offline_threshold \<le> k) (chFailCount g)"

text \<open>A slot that reads or writes keeps the worker in order and the connection as it was.\<close>

definition slot_keeps :: "('w gui_worker \<Rightarrow> ('a \<times> 'w gui_worker) option) \<Rightarrow> bool" where
  "slot_keeps f \<longleftrightarrow> (\<forall>g x g1. f g = Some (x, g1) \<longrightarrow> gui_isConnected g1 = gui_isConnected g \<and>
     (gui_worker_ok g \<longrightarrow> gui_worker_ok g1))"

lemma slot_keepsD:
  "slot_keeps f \<Longrightarrow> f g = Some (x, g1) \<Longrightarrow>
    gui_isConnected g1 = gui_isConnected g \<and> (gui_worker_ok g \<longrightarrow> gui_worker_ok g1)"
  unfolding slot_keeps_def by blast

lemma keeps_client [intro]:
  assumes "\<And>s x s1. f s = Some (x, s1) \<Longrightarrow> verified s1 = verified s"
  shows "slot_keeps (on_client f)"
  using assms by (auto simp: slot_keeps_def on_client_def gui_isConnected_def gui_worker_ok_def split: bind_splits prod.split_asm)

lemma set_keeps [simp]:
  "gui_isConnected (set_info ch i g) = gui_isConnected g" "gui_worker_ok (set_info ch i g) = gui_worker_ok g"
  "gui_isConnected (set_config ch c g) = gui_isConnected g" "gui_worker_ok (set_config ch c g) = gui_worker_ok g"
  "gui_isConnected (g\<lparr>cachedSysInfo := si\<rparr>) = gui_isConnected g" "gui_worker_ok (g\<lparr>cachedSysInfo := si\<rparr>) = gui_worker_ok g"
  "gui_isConnected (g\<lparr>gui_channelCount := n\<rparr>) = gui_isConnected g"
  "gui_worker_ok g \<Longrightarrow> 0 \<le> n \<Longrightarrow> n \<le> 16 \<Longrightarrow> gui_worker_ok (g\<lparr>gui_channelCount := n\<rparr>)"
  by (simp_all add: set_info_def set_config_def gui_isConnected_def gui_worker_ok_def)

text \<open>The calls of the client that the slots make.\<close>

lemma client_keeps:
  "slot_keeps (on_client (readSystemStatus L i t))" "slot_keeps (on_client (readSystemInfo L i))"
  "slot_keeps (on_client (readSystemConfig L))" "slot_keeps (on_client (readChannelStatus L ch caps info t))"
  "slot_keeps (on_client (readChannelCapabilities L ch t))" "slot_keeps (on_client (readChannelInfo L ch caps info))"
  "slot_keeps (on_client (readChannelConfig L ch caps cfg))" "slot_keeps (on_client (readChannelCalConfig L ch caps cal))"
  "slot_keeps (on_client (readRegsInternal L holding addr n t))" "slot_keeps (on_client (writeReg16 L addr v))"
  unfolding writeReg16_def by (rule keeps_client, erule same_link)+

lemmas client_keepsD = client_keeps [THEN slot_keepsD]

lemma status_keeps: "slot_keeps (reread_status L ch)" "slot_keeps (reread_info L ch n)"
proof -
  show "slot_keeps (reread_status L ch)"
    by (auto simp: slot_keeps_def reread_status_def dest!: client_keepsD split: bind_splits prod.split_asm)
  have "reread_info L ch n g = Some (x, g1) \<Longrightarrow> gui_isConnected g1 = gui_isConnected g \<and> (gui_worker_ok g \<longrightarrow> gui_worker_ok g1)"
    for g x g1
    by (induction n arbitrary: g) (auto dest!: client_keepsD split: bind_splits prod.split_asm if_split_asm)
  then show "slot_keeps (reread_info L ch n)" unfolding slot_keeps_def by blast
qed

lemma merge_keeps: "slot_keeps (mergeCalConfig L ch m)"
  by (auto simp: slot_keeps_def mergeCalConfig_def dest!: client_keepsD split: bind_splits prod.split_asm if_split_asm)

lemmas helper_keepsD = client_keepsD status_keeps [THEN slot_keepsD] merge_keeps [THEN slot_keepsD]

lemma read_slots_keep:
  "slot_keeps (doRefreshSystemInfo L)" "slot_keeps (doRefreshChannelInfo L ch)" "slot_keeps (doReadSystemConfig L)"
  "slot_keeps (doReadChannelConfig L ch)" "slot_keeps (refreshChannelStatus L ch)" "slot_keeps (refreshChannelFull L ch)"
  "slot_keeps (refreshSystemConfig L)" "slot_keeps (raw_read L holding addr n)" "slot_keeps (doRawWriteFc06 L addr v)"
  unfolding doRefreshSystemInfo_def doRefreshChannelInfo_def doReadSystemConfig_def doReadChannelConfig_def
    refreshChannelStatus_def refreshChannelFull_def refreshSystemConfig_def raw_read_def doRawWriteFc06_def slot_keeps_def
  by ((auto simp: Let_def not_less dest!: helper_keepsD split: bind_splits prod.split_asm if_split_asm option.split_asm; fail)+)

lemma refresh_keeps:
  assumes "\<And>caps cfg. slot_keeps (on_client (block caps cfg))"
  shows "slot_keeps (refresh_block L block ch)"
  unfolding slot_keeps_def refresh_block_def
  by (auto simp: Let_def dest!: helper_keepsD assms [THEN slot_keepsD] split: bind_splits prod.split_asm if_split_asm)

lemma refresh_slots_keep:
  "slot_keeps (refreshChannelOutput L ch)" "slot_keeps (refreshChannelOutputEnabled L ch)"
  "slot_keeps (refreshChannelProtection L ch)" "slot_keeps (refreshChannelRecovery L ch)" "slot_keeps (refreshChannelDerate L ch)"
  unfolding refreshChannelOutput_def refreshChannelOutputEnabled_def refreshChannelProtection_def refreshChannelRecovery_def
    refreshChannelDerate_def
  by (rule refresh_keeps, rule keeps_client, erule same_link)+

lemma confirmed_keeps:
  assumes "\<And>s x s1. f s = Some (x, s1) \<Longrightarrow> verified s1 = verified s" and "slot_keeps refresh"
  shows "slot_keeps (confirmed f refresh)"
proof -
  have "slot_keeps (on_client f)" using assms(1) by (rule keeps_client)
  then show ?thesis using assms(2)
    unfolding slot_keeps_def confirmed_def by (auto split: bind_splits prod.split_asm if_split_asm)
qed

lemma no_refresh_keeps: "slot_keeps (\<lambda>g. Some ([], g))"
  by (simp add: slot_keeps_def)

lemmas refreshes = refresh_slots_keep read_slots_keep no_refresh_keeps

lemma write_slots_keep:
  "slot_keeps (doWriteOperatingMode L m)" "slot_keeps (doWriteStartupChannelPolicy L p)" "slot_keeps (doWriteSlaveAddress L a)"
  "slot_keeps (doWriteBaudRate L c)" "slot_keeps (doSendOutputAction L ch a)" "slot_keeps (doSendFaultCmd L ch c)"
  "slot_keeps (doWriteTargetVoltage L ch raw)" "slot_keeps (doWriteOutputEnabled L ch e)" "slot_keeps (doWriteRampUp L ch s i)"
  "slot_keeps (doWriteRampDown L ch s i)" "slot_keeps (doWriteChannelRecovery L ch p d n w)"
  "slot_keeps (doWriteChannelSafeBand L ch pct)" "slot_keeps (doWriteCurrentProtection L ch m a t)"
  "slot_keeps (doWriteDerateStep L ch s)" "slot_keeps (doWriteCalOutput L ch k b)" "slot_keeps (doWriteCalMeasV L ch k b)"
  "slot_keeps (doWriteCalMeasI L ch k b)" "slot_keeps (doExitCalibrationMode L)"
  unfolding doWriteOperatingMode_def doWriteStartupChannelPolicy_def doWriteSlaveAddress_def doWriteBaudRate_def
    doSendOutputAction_def doSendFaultCmd_def doWriteTargetVoltage_def doWriteOutputEnabled_def doWriteRampUp_def
    doWriteRampDown_def doWriteChannelRecovery_def doWriteChannelSafeBand_def doWriteCurrentProtection_def doWriteDerateStep_def
    doWriteCalOutput_def doWriteCalMeasV_def doWriteCalMeasI_def doExitCalibrationMode_def
    writeOperatingMode_def writeStartupChannelPolicy_def writeSlaveAddress_def writeBaudRateCode_def sendChannelFaultCommand_def
    writeConfiguredTargetVoltage_def writeOutputEnabled_def writeRampUp_def writeRampDown_def writeChannelRecovery_def
    writeChannelSafeBand_def writeDerateStep_def writeCalibrationOutput_def writeCalibrationMeasV_def writeCalibrationMeasI_def
    exitCalibrationMode_def
  by (rule confirmed_keeps, erule same_link, rule refreshes)+

lemma param_slot_keeps: "slot_keeps (doSendParamAction L scope a)"
  unfolding doSendParamAction_def sendParamAction_def
  by (rule confirmed_keeps, erule same_link) (simp add: refreshes)

subsection \<open>The poll\<close>

lemma count_keeps [simp]: "gui_isConnected (gui_count_answer ch ok g) = gui_isConnected g"
  by (simp add: gui_count_answer_def gui_isConnected_def Let_def)

lemma count_ok: "gui_worker_ok g \<Longrightarrow> gui_worker_ok (gui_count_answer ch ok g)"
proof -
  assume g: "gui_worker_ok g"
  then have "map (\<lambda>k. 5 \<le> k) ((chFailCount g)[nat ch := k]) = (gui_chOffline g)[nat ch := 5 \<le> k]" for k
    by (simp add: gui_worker_ok_def map_update)
  moreover have "\<not> 5 \<le> chFailCount g ! nat ch + 1 \<Longrightarrow> (gui_chOffline g)[nat ch := False] = gui_chOffline g"
    using g by (cases "nat ch < length (gui_chOffline g)") (auto simp: gui_worker_ok_def list_update_same_conv list_update_beyond)
  ultimately show ?thesis using g by (auto simp: gui_count_answer_def gui_worker_ok_def Let_def)
qed

lemma read_channel_keeps: "slot_keeps (gui_read_channel L ch)"
  unfolding slot_keeps_def gui_read_channel_def
  by (auto dest!: client_keepsD split: bind_splits prod.split_asm if_split_asm option.split_asm)

lemma poll_channels_keep: "slot_keeps (gui_poll_channels L active chs)"
proof -
  have "gui_poll_channels L active chs g = Some (x, g1) \<Longrightarrow>
      gui_isConnected g1 = gui_isConnected g \<and> (gui_worker_ok g \<longrightarrow> gui_worker_ok g1)" for g x g1
    by (induction chs arbitrary: g)
      (auto simp: Let_def count_ok dest!: read_channel_keeps [THEN slot_keepsD] split: bind_splits prod.split_asm if_split_asm)
  then show ?thesis unfolding slot_keeps_def by blast
qed

lemma poll_keeps: "slot_keeps (doPollStatus L)"
  unfolding slot_keeps_def doPollStatus_def
  by (auto simp: Let_def dest!: client_keepsD poll_channels_keep [THEN slot_keepsD]
      split: bind_splits prod.split_asm if_split_asm)

text \<open>All slots but the two that open and close the connection.\<close>

definition connection_call :: "gui_call \<Rightarrow> bool" where
  "connection_call c \<longleftrightarrow> (case c of Do_Connect _ _ _ _ \<Rightarrow> True | Do_Disconnect \<Rightarrow> True | _ \<Rightarrow> False)"

lemma slots_keep:
  assumes "\<not> connection_call c"
  shows "slot_keeps (gui_exec L windows ports c)"
proof -
  have "slot_keeps (gui_doScanPorts windows ports)" by (simp add: slot_keeps_def gui_doScanPorts_def)
  then show ?thesis
    using assms
    by (cases c) (simp_all add: connection_call_def read_slots_keep write_slots_keep param_slot_keeps poll_keeps doRawReadFc04_def doRawReadFc03_def)
qed

text \<open>No slot but these two reports a connection.\<close>

definition about_connection :: "gui_signal \<Rightarrow> bool" where
  "about_connection sig \<longleftrightarrow> (case sig of Connected _ _ \<Rightarrow> True | Disconnected \<Rightarrow> True | _ \<Rightarrow> False)"

definition quiet_slot :: "'w gui_slot \<Rightarrow> bool" where
  "quiet_slot f \<longleftrightarrow> (\<forall>g sigs g1. f g = Some (sigs, g1) \<longrightarrow> list_all (\<lambda>sig. \<not> about_connection sig) sigs)"

lemma signals_quiet [simp]:
  "\<not> about_connection (info_signal ch g)" "\<not> about_connection (config_signal ch g)"
  "\<not> about_connection (System_Info_Ready i)" "\<not> about_connection (System_Config_Ready c)"
  "\<not> about_connection (Channel_Info_Ready ch i)" "\<not> about_connection (Channel_Config_Ready ch c)"
  "\<not> about_connection (Operation_Complete ok m)" "\<not> about_connection (Gui_Ports_Scanned ps)"
  "\<not> about_connection (Raw_Hex_Result h)"
  by (simp_all add: about_connection_def info_signal_def config_signal_def)

lemma read_slots_quiet:
  "quiet_slot (doRefreshSystemInfo L)" "quiet_slot (doRefreshChannelInfo L ch)" "quiet_slot (doReadSystemConfig L)"
  "quiet_slot (doReadChannelConfig L ch)" "quiet_slot (refreshChannelStatus L ch)" "quiet_slot (refreshChannelFull L ch)"
  "quiet_slot (refreshSystemConfig L)" "quiet_slot (raw_read L holding addr n)" "quiet_slot (doRawWriteFc06 L addr v)"
  "quiet_slot (doPollStatus L)" "quiet_slot (refresh_block L block ch)" "quiet_slot (\<lambda>g. Some ([], g))"
  unfolding doRefreshSystemInfo_def doRefreshChannelInfo_def doReadSystemConfig_def doReadChannelConfig_def
    refreshChannelStatus_def refreshChannelFull_def refreshSystemConfig_def raw_read_def doRawWriteFc06_def doPollStatus_def
    refresh_block_def quiet_slot_def
  by ((auto simp: Let_def list_all_iff split: bind_splits prod.split_asm if_split_asm option.split_asm; fail)+)

lemma confirmed_quiet: "quiet_slot refresh \<Longrightarrow> quiet_slot (confirmed f refresh)"
  by (auto simp: quiet_slot_def confirmed_def split: bind_splits prod.split_asm if_split_asm)

lemmas confirmed_slots =
  doWriteOperatingMode_def doWriteStartupChannelPolicy_def doWriteSlaveAddress_def doWriteBaudRate_def
  doSendOutputAction_def doSendFaultCmd_def doWriteTargetVoltage_def doWriteOutputEnabled_def doWriteRampUp_def
  doWriteRampDown_def doWriteChannelRecovery_def doWriteChannelSafeBand_def doWriteCurrentProtection_def doWriteDerateStep_def
  doWriteCalOutput_def doWriteCalMeasV_def doWriteCalMeasI_def doExitCalibrationMode_def doSendParamAction_def

lemma slots_quiet:
  assumes "\<not> connection_call c"
  shows "quiet_slot (gui_exec L windows ports c)"
proof -
  have "quiet_slot (gui_doScanPorts windows ports)" by (simp add: quiet_slot_def gui_doScanPorts_def)
  moreover have "quiet_slot (refreshChannelOutput L ch)" "quiet_slot (refreshChannelOutputEnabled L ch)"
    "quiet_slot (refreshChannelProtection L ch)" "quiet_slot (refreshChannelRecovery L ch)" "quiet_slot (refreshChannelDerate L ch)"
    for ch
    unfolding refreshChannelOutput_def refreshChannelOutputEnabled_def refreshChannelProtection_def
      refreshChannelRecovery_def refreshChannelDerate_def by (rule read_slots_quiet)+
  ultimately show ?thesis
    using assms
    by (cases c) (simp_all add: connection_call_def read_slots_quiet doRawReadFc04_def doRawReadFc03_def confirmed_slots confirmed_quiet)
qed

subsection \<open>The connection that the window shows\<close>

text \<open>What the window will show once the signals that wait are delivered.\<close>

definition shown_after :: "gui_signal list \<Rightarrow> bool \<Rightarrow> bool" where
  "shown_after sigs c = fold (\<lambda>sig c. case sig of Connected ok _ \<Rightarrow> ok | Disconnected \<Rightarrow> False | _ \<Rightarrow> c) sigs c"

lemma shown_after_append: "shown_after (xs @ ys) c = shown_after ys (shown_after xs c)"
  by (simp add: shown_after_def)

lemma shown_after_quiet: "list_all (\<lambda>sig. \<not> about_connection sig) sigs \<Longrightarrow> shown_after sigs c = c"
  unfolding shown_after_def by (induction sigs) (auto simp: about_connection_def split: gui_signal.splits)

text \<open>Posting, notifying and the status line leave the connection and the length of the arrays.\<close>

definition same_view :: "gui_backend \<Rightarrow> gui_backend \<Rightarrow> bool" where
  "same_view b1 b \<longleftrightarrow> gui_connected b1 = gui_connected b \<and> length (chInfo b1) = length (chInfo b) \<and>
     length (chConfig b1) = length (chConfig b)"

lemma view_simps [simp]:
  "gui_connected (post_call c b) = gui_connected b" "chInfo (post_call c b) = chInfo b" "chConfig (post_call c b) = chConfig b"
  "gui_connected (emit_to_qml n b) = gui_connected b" "chInfo (emit_to_qml n b) = chInfo b" "chConfig (emit_to_qml n b) = chConfig b"
  "gui_connected (setStatusAs now sev msg b) = gui_connected b" "chInfo (setStatusAs now sev msg b) = chInfo b"
  "chConfig (setStatusAs now sev msg b) = chConfig b"
  "gui_connected (setStatus now msg b) = gui_connected b" "chInfo (setStatus now msg b) = chInfo b"
  "chConfig (setStatus now msg b) = chConfig b"
  by (simp_all add: post_call_def emit_to_qml_def setStatusAs_def setStatus_def Let_def split: prod.split)

lemma fold_view:
  assumes "\<And>x b. same_view (f x b) b"
  shows "same_view (fold f xs b) b"
  using assms by (induction xs arbitrary: b) (simp_all add: same_view_def)

lemma deliver_connected: "gui_connected (deliver now sig b) = shown_after [sig] (gui_connected b)"
proof (cases sig)
  case (System_Info_Ready info)
  have "same_view (fold (\<lambda>ch b. post_call (Do_Read_Channel_Config ch) (post_call (Do_Refresh_Channel_Info ch) b)) chs b0) b0"
    for chs b0 by (rule fold_view) (simp add: same_view_def)
  then show ?thesis using System_Info_Ready by (simp add: onSysInfoReady_def shown_after_def same_view_def Let_def)
qed (simp_all add: onConnected_def onDisconnected_def onChInfoReady_def onSysConfigReady_def onChConfigReady_def
    onOperationComplete_def onPortsScanned_def onRawHexResult_def shown_after_def Let_def)

lemma deliver_arrays:
  "length (chInfo (deliver now sig b)) = length (chInfo b) \<and> length (chConfig (deliver now sig b)) = length (chConfig b)"
proof (cases sig)
  case (System_Info_Ready info)
  have "same_view (fold (\<lambda>ch b. post_call (Do_Read_Channel_Config ch) (post_call (Do_Refresh_Channel_Info ch) b)) chs b0) b0"
    for chs b0 by (rule fold_view) (simp add: same_view_def)
  then show ?thesis using System_Info_Ready by (simp add: onSysInfoReady_def same_view_def Let_def)
qed (simp_all add: onConnected_def onDisconnected_def onChInfoReady_def onSysConfigReady_def onChConfigReady_def
    onOperationComplete_def onPortsScanned_def onRawHexResult_def Let_def)

text \<open>What every turn keeps.\<close>

definition gui_inv :: "'w gui \<Rightarrow> bool" where
  "gui_inv x \<longleftrightarrow> gui_worker_ok (gui_worker_of x) \<and> length (chInfo (gui_backend_of x)) = GUI_MAX_CHANNELS \<and>
     length (chConfig (gui_backend_of x)) = GUI_MAX_CHANNELS \<and>
     shown_after (gui_signals x) (gui_connected (gui_backend_of x)) = gui_isConnected (gui_worker_of x)"

lemma worker_turn:
  assumes inv: "gui_worker_ok g" "shown_after sigs0 c = gui_isConnected g"
    and r: "gui_exec L windows ports call g = Some (sigs, g1)"
  shows "gui_worker_ok g1 \<and> shown_after (sigs0 @ sigs) c = gui_isConnected g1"
proof (cases "connection_call call")
  case False
  have "gui_isConnected g1 = gui_isConnected g" "gui_worker_ok g1" "list_all (\<lambda>sig. \<not> about_connection sig) sigs"
    using slot_keepsD [OF slots_keep [OF False] r] slots_quiet [OF False] r inv unfolding quiet_slot_def by blast+
  then show ?thesis using inv by (simp add: shown_after_append shown_after_quiet)
next
  case True
  show ?thesis
  proof (cases call)
    case (Do_Connect port baud slave t)
    then show ?thesis using r inv
      by (auto simp: gui_doConnect_def on_client_def gui_worker_ok_def gui_isConnected_def shown_after_append shown_after_def
          dest!: connect_link split: bind_splits prod.split_asm)
  next
    case Do_Disconnect
    then show ?thesis using r inv
      by (auto simp: gui_doDisconnect_def gui_worker_ok_def gui_isConnected_def client_disconnect_def session_disconnect_def
          shown_after_append shown_after_def)
  qed (use True in \<open>simp_all add: connection_call_def\<close>)
qed

lemma user_view:
  "same_view (setSelectedPort p b) b" "same_view (setBaudRate r b) b" "same_view (setSlaveId i b) b"
  "same_view (setPollIntervalMs ms b) b" "same_view (connectToDevice now b) b" "same_view (disconnectFromDevice b) b"
  "same_view (gui_scanPorts b) b" "same_view (refreshAll b) b" "same_view (pollTick b) b" "same_view (post_call c b) b"
  "same_view (setStatus now [] (b\<lparr>clear_running := False\<rparr>)) b"
proof -
  have "same_view (fold (\<lambda>ch. post_call (Do_Refresh_Channel_Info ch)) chs b0) b0" for chs b0
    by (rule fold_view) (simp add: same_view_def)
  then show "same_view (refreshAll b) b" by (simp add: refreshAll_def refreshChannels_def same_view_def)
qed (simp_all add: same_view_def setSelectedPort_def setBaudRate_def setSlaveId_def setPollIntervalMs_def connectToDevice_def
    disconnectFromDevice_def gui_scanPorts_def pollTick_def Let_def)

lemma same_view_inv: "gui_inv x \<Longrightarrow> same_view b (gui_backend_of x) \<Longrightarrow> x1 = x\<lparr>gui_backend_of := b\<rparr> \<Longrightarrow> gui_inv x1"
  by (simp add: gui_inv_def same_view_def)

lemma gui_step_inv:
  assumes inv: "gui_inv x" and r: "gui_step L windows now e x = Some x1"
  shows "gui_inv x1"
proof (cases e)
  case Window_Turn
  then show ?thesis
    using inv r shown_after_append [of "[hd (gui_signals x)]" "tl (gui_signals x)"]
    by (cases "gui_signals x") (auto simp: gui_inv_def deliver_connected deliver_arrays)
next
  case (Worker_Turn ports)
  show ?thesis
  proof (cases "posted (gui_backend_of x)")
    case (Cons c cs)
    then obtain sigs g where g: "gui_exec L windows ports c (gui_worker_of x) = Some (sigs, g)"
      "x1 = x\<lparr>gui_worker_of := g, gui_backend_of := (gui_backend_of x)\<lparr>posted := cs\<rparr>, gui_signals := gui_signals x @ sigs\<rparr>"
      using Worker_Turn r by (auto split: bind_splits)
    show ?thesis
      using worker_turn [of "gui_worker_of x" "gui_signals x" "gui_connected (gui_backend_of x)", OF _ _ g(1)] inv
      by (simp add: g(2) gui_inv_def)
  qed (use Worker_Turn inv r in simp)
next
  case Poll_Timer
  then have "x1 = x \<or> x1 = x\<lparr>gui_backend_of := pollTick (gui_backend_of x)\<rparr>" using r by (auto split: if_split_asm)
  then show ?thesis using inv same_view_inv [OF inv user_view(9)] by blast
next
  case Clear_Timer
  then have "x1 = x \<or> x1 = x\<lparr>gui_backend_of := setStatus now [] ((gui_backend_of x)\<lparr>clear_running := False\<rparr>)\<rparr>"
    using r by (auto split: if_split_asm)
  then show ?thesis using inv same_view_inv [OF inv user_view(11)] by blast
qed (use r in \<open>auto simp: user_view intro: same_view_inv [OF inv _ refl]\<close>)

lemma new_gui_inv: "gui_inv (new_gui w)"
  by (simp add: gui_inv_def new_gui_def gui_worker_ok_def new_gui_worker_def new_gui_backend_def gui_scanPorts_def
      gui_isConnected_def new_client_def new_session_def shown_after_def)

lemma gui_run_inv: "gui_run L windows es x = Some x1 \<Longrightarrow> gui_inv x \<Longrightarrow> gui_inv x1"
proof (induction es arbitrary: x)
  case (Cons p es)
  then obtain x2 where x2: "gui_step L windows (fst p) (snd p) x = Some x2" "gui_run L windows es x2 = Some x1"
    by (cases p) (auto split: bind_splits)
  show ?case by (rule Cons.IH [OF x2(2) gui_step_inv [OF Cons.prems(2) x2(1)]])
qed simp


text \<open>A machine without a port: the connection is tried, fails, and the window says so.\<close>

definition no_port :: "unit modbus_lib" where
  "no_port = (served_lib (\<lambda>_ w. None) (\<lambda>_ w. None) (\<lambda>_ _ w. None))\<lparr>create_client := (\<lambda>_ _ _ w. (False, w))\<rparr>"


subsection \<open>What the window does not tell\<close>

text \<open>Every answer to a poll makes the window read all channels again, configuration and all.\<close>

lemma fold_post: "fold (\<lambda>ch b. post_call (g ch) (post_call (f ch) b)) chs b = b\<lparr>posted := posted b @ concat (map (\<lambda>ch. [f ch, g ch]) chs)\<rparr>"
  by (induction chs arbitrary: b) (simp_all add: post_call_def)

lemma every_poll_reads_everything:
  assumes "gui_connected b" "map_of info ''supportedChannels'' = Some (QInt n)" "1 \<le> n" "n \<le> 16"
  shows "posted (deliver now (System_Info_Ready info) b) =
    posted b @ concat (map (\<lambda>ch. [Do_Refresh_Channel_Info ch, Do_Read_Channel_Config ch]) [0..n - 1])"
  using assms
  by (simp add: onSysInfoReady_def Let_def emit_to_qml_def gui_shownCount_def fold_post setStatus_def setStatusAs_def split: prod.split)

text \<open>The port that a scan selects is not announced.\<close>

lemma selected_port_unannounced:
  "list_all (\<lambda>p. p \<noteq> []) ports \<Longrightarrow> notified (deliver now (Gui_Ports_Scanned ports) b) = notified b @ [Ports_Changed]"
  by (cases ports) (simp_all add: onPortsScanned_def Let_def emit_to_qml_def)

text \<open>The timer of a success clears the error that came after it.\<close>

lemma error_left_to_the_timer:
  assumes "clear_running b" "0 < capacity (gui_messages b)"
  shows "statusMessage (deliver now (Connected False err) b) = ''Error: '' @ err"
    and "clear_running (deliver now (Connected False err) b)"
  using assms
  by (simp_all add: onConnected_def Let_def setStatus_def setStatusAs_def emit_to_qml_def publish_def put_message_def
      appendLocked_def trim_drop beginAction_def Suc_le_eq)

end
