(* ===== verification/Gui_Confirm.thy ===== *)
theory Gui_Confirm
  imports Gui_Worker Factory_Props
begin

text \<open>
  A setting typed into the window client and confirmed by it: what ticks and drivers leave of a channel's
  configuration, and the way of a target voltage from the window through the host library, the line, the Modbus handlers,
  the command queue and the controller to the channel, and back into the window.
\<close>

unbundle bit_operations_syntax

subsection \<open>What runs on its own leaves the configuration\<close>

definition settings :: "'d vc_channel \<Rightarrow> vc_channel_config \<times> u16" where
  "settings c = (config c, capabilities c)"

lemma settings_fields [simp]:
  "settings (c\<lparr>active_fault_cause := f\<rparr>) = settings c" "settings (c\<lparr>fault_history_cause := f\<rparr>) = settings c"
  "settings (c\<lparr>last_fault_timestamp := t\<rparr>) = settings c" "settings (c\<lparr>last_protection_output_action := a\<rparr>) = settings c"
  "settings (c\<lparr>smf := st\<rparr>) = settings c" "settings (c\<lparr>ramping := b\<rparr>) = settings c"
  "settings (c\<lparr>ramp_accum_ms := n\<rparr>) = settings c" "settings (c\<lparr>operational_target_voltage := v\<rparr>) = settings c"
  "settings (c\<lparr>cooldown_remaining_ms := n\<rparr>) = settings c" "settings (c\<lparr>recovering := b\<rparr>) = settings c"
  "settings (c\<lparr>recovery_target := v\<rparr>) = settings c" "settings (c\<lparr>output_enabled := b\<rparr>) = settings c"
  "settings (c\<lparr>ramp_to_disable := b\<rparr>) = settings c" "settings (c\<lparr>graceful_ramp_dest := v\<rparr>) = settings c"
  "settings (c\<lparr>raw_adc_voltage := r\<rparr>) = settings c" "settings (c\<lparr>measured_voltage := v\<rparr>) = settings c"
  "settings (c\<lparr>raw_adc_current := r\<rparr>) = settings c" "settings (c\<lparr>measured_current := v\<rparr>) = settings c"
  "settings (c\<lparr>last_consumed_voltage_ts := t\<rparr>) = settings c" "settings (c\<lparr>last_consumed_current_ts := t\<rparr>) = settings c"
  "settings (c\<lparr>uptime_ref := t\<rparr>) = settings c" "settings (c\<lparr>cal_output_enabled := e\<rparr>) = settings c"
  "settings (c\<lparr>raw_dac_readback := d\<rparr>) = settings c" "settings (c\<lparr>dev := dv\<rparr>) = settings c"
  "settings (c\<lparr>meas := m\<rparr>) = settings c" "settings (c\<lparr>status_bits := s\<rparr>) = settings c"
  "settings (c\<lparr>retry_timestamps_ms := ts\<rparr>) = settings c" "settings (c\<lparr>retry_timestamp_count := k\<rparr>) = settings c"
  by (simp_all add: settings_def)

lemma settings_simps [simp]:
  "settings (update_status_bits c) = settings c" "settings (finish_ramp c) = settings c"
  "settings (record_retry_attempt K c) = settings c" "settings (exhaust_retries c) = settings c"
  "settings (enter_cooldown c) = settings c" "settings (begin_graceful c) = settings c"
  "settings (disable_into st c) = settings c"
  by (simp_all add: update_status_bits_def finish_ramp_def record_retry_attempt_def exhaust_retries_def
      enter_cooldown_def begin_graceful_def disable_into_def Let_def)

lemma settings_apply_hw: "apply_hw c = Some c' \<Longrightarrow> settings c' = settings c"
  by (auto dest!: apply_hw_Some)

lemma settings_action: "apply_protection_action c a = Some c' \<Longrightarrow> settings c' = settings c"
  unfolding apply_protection_action_def Let_def
  by (drule settings_apply_hw) (simp split: vc_output_action.split)

lemma settings_protection: "tick_current_protection c = Some c' \<Longrightarrow> settings c' = settings c"
  unfolding tick_current_protection_def Let_def
  by (auto dest!: settings_action split: if_splits bind_splits)

lemma settings_ramp: "vc_channel_tick_ramp c dt sys = Some c' \<Longrightarrow> settings c' = settings c"
  unfolding vc_channel_tick_ramp_def Let_def
  by (auto dest!: settings_apply_hw split: if_split_asm bind_splits prod.split_asm)

lemma settings_retry: "attempt_retry K c = Some c' \<Longrightarrow> settings c' = settings c"
  unfolding attempt_retry_def Let_def
  by (auto dest!: settings_apply_hw split: if_split_asm bind_splits)

lemma settings_recovery: "tick_recovery K c sys dt = Some c' \<Longrightarrow> settings c' = settings c"
  unfolding tick_recovery_def Let_def
  by (auto dest!: settings_retry split: if_split_asm)

lemma settings_consume: "consume_measurements c = Some c' \<Longrightarrow> settings c' = settings c"
proof -
  have v: "vc_channel_consume_voltage c raw = Some c' \<Longrightarrow> settings c' = settings c" for c c' :: "'a vc_channel" and raw
    by (auto simp: vc_channel_consume_voltage_def split: bind_splits)
  have i: "vc_channel_consume_current c raw = Some c' \<Longrightarrow> settings c' = settings c" for c c' :: "'a vc_channel" and raw
    by (auto simp: vc_channel_consume_current_def Let_def dest!: settings_protection split: bind_splits if_split_asm)
  show "consume_measurements c = Some c' \<Longrightarrow> settings c' = settings c"
    by (auto simp: consume_measurements_def consume_if_new_voltage_def consume_if_new_current_def dest!: v i
        split: option.split_asm prod.split_asm if_split_asm bind_splits)
qed

lemma settings_run: "vc_channel_run K c dt sys = Some c' \<Longrightarrow> settings c' = settings c"
  by (auto simp: vc_channel_run_def dest!: settings_consume settings_ramp settings_recovery split: bind_splits)

lemma settings_output: "vc_channel_output_action c a = Some (st, c') \<Longrightarrow> settings c' = settings c"
  unfolding vc_channel_output_action_def Let_def
  by (auto simp: commit_channel_def dest!: settings_apply_hw split: if_split_asm bind_splits vc_output_action.split_asm)

lemma settings_reset: "vc_channel_reset_calibration c e = Some c' \<Longrightarrow> settings c' = settings c"
  by (auto simp: vc_channel_reset_calibration_def dest!: settings_apply_hw split: bind_splits)

lemma settings_auto_enable: "auto_enable c = Some c' \<Longrightarrow> settings c' = settings c"
  by (auto simp: auto_enable_def dest!: settings_output split: if_split_asm)

lemma settings_each:
  assumes "\<And>c c'. f c = Some c' \<Longrightarrow> settings c' = settings c"
  shows "each_channel f n cs = Some cs' \<Longrightarrow> map settings cs' = map settings cs"
  by (induction n arbitrary: cs cs') (use assms in \<open>auto simp: gr0_conv_Suc elim!: each_channel.elims split: bind_splits\<close>)

text \<open>Any property of the number of channels and their settings.\<close>

definition of_settings :: "nat \<Rightarrow> ((vc_channel_config \<times> u16) list \<Rightarrow> bool) \<Rightarrow> ('d, 's) vc_controller \<Rightarrow> bool" where
  "of_settings n F ctrl \<longleftrightarrow> channel_count ctrl = n \<and> F (map settings (channels ctrl))"

lemma when_all_settings:
  assumes "when_all b f ctrl = Some ctrl'" and "\<And>c c'. f c = Some c' \<Longrightarrow> settings c' = settings c"
  shows "of_settings n F ctrl' = of_settings n F ctrl"
  using assms(1) settings_each [of f, OF assms(2)]
  by (auto simp: when_all_def all_channels_def of_settings_def split: if_split_asm bind_splits)

lemma enter_mode_settings:
  assumes "enter_mode K ctrl m = Some ctrl'"
  shows "of_settings n F ctrl' = of_settings n F ctrl"
proof -
  have graceful: "map_option snd (vc_channel_output_action c VC_OUTPUT_ACTION_DISABLE_GRACEFUL) = Some c' \<Longrightarrow>
      settings c' = settings c" for c c' :: "'a vc_channel" by (auto dest: settings_output)
  have same: "of_settings n F (x\<lparr>pre_cal_mode := p\<rparr>) = of_settings n F x" "of_settings n F (cal_watchdog_reset K x) = of_settings n F x"
    "of_settings n F (x\<lparr>operating_mode := m\<rparr>) = of_settings n F x" "of_settings n F (x\<lparr>sys_cfg := y\<rparr>) = of_settings n F x"
    "of_settings n F (x\<lparr>cal_unlock_step := u, cal_unlocked := l\<rparr>) = of_settings n F x"
    for x :: "('a, 'b) vc_controller" and p y u l
    by (simp_all add: of_settings_def cal_watchdog_reset_def)
  obtain c1 c2 c3 c4 where
    1: "when_all (operating_mode ctrl = VC_OPERATING_MODE_CALIBRATION) (\<lambda>ch. vc_channel_reset_calibration ch False) ctrl = Some c1"
    and 2: "when_all (m = VC_OPERATING_MODE_NORMAL \<and> operating_mode ctrl = VC_OPERATING_MODE_AUTOMATIC)
      (\<lambda>ch. map_option snd (vc_channel_output_action ch VC_OUTPUT_ACTION_DISABLE_GRACEFUL)) c1 = Some c2"
    and 3: "when_all (m = VC_OPERATING_MODE_AUTOMATIC) auto_enable c2 = Some c3"
    and 4: "when_all (m = VC_OPERATING_MODE_CALIBRATION) (\<lambda>ch. vc_channel_reset_calibration ch True)
      (if m = VC_OPERATING_MODE_CALIBRATION then cal_watchdog_reset K (c3\<lparr>pre_cal_mode := operating_mode ctrl\<rparr>) else c3) = Some c4"
    and 5: "of_settings n F ctrl' = of_settings n F c4"
    using assms same(3-5) by (auto simp: enter_mode_def Let_def split: bind_splits if_split_asm)
  note e = when_all_settings [OF 1 settings_reset, where n = n and F = F] when_all_settings [OF 2 graceful, where n = n and F = F]
    when_all_settings [OF 3 settings_auto_enable, where n = n and F = F] when_all_settings [OF 4 settings_reset, where n = n and F = F]
  have "of_settings n F c4 = of_settings n F c3"
    using e(4) same(1,2) by (cases "m = VC_OPERATING_MODE_CALIBRATION") simp_all
  then show ?thesis using 5 e(1-3) by simp
qed

lemma on_channel_settings:
  assumes "on_channel ctrl ch f = Some (st, ctrl')" and "\<And>c s c'. f c = Some (s, c') \<Longrightarrow> settings c' = settings c"
  shows "of_settings n F ctrl' = of_settings n F ctrl"
proof -
  obtain c' where "f (channels ctrl ! unat ch) = Some (st, c')" "ctrl' = ctrl\<lparr>channels := (channels ctrl)[unat ch := c']\<rparr>"
    "unat ch < length (channels ctrl)"
    using assms(1) by (auto simp: on_channel_def split: if_split_asm bind_splits)
  then show ?thesis
    using assms(2) [of "channels ctrl ! unat ch" st c'] list_update_id [of "map settings (channels ctrl)" "unat ch"]
    by (simp add: of_settings_def map_update)
qed

lemma steady_settings: "steady K z lookup m (of_settings n F)"
  unfolding steady_def
proof (intro allI impI)
  fix e st and ctrl ctrl' :: "('d, 's) vc_controller"
  assume e: "background e" and s: "of_settings n F ctrl" and r: "ctl_exec K e ctrl = Some (st, ctrl')"
  show "of_settings n F ctrl'"
  proof (cases e)
    case (Ctl_Driver ch ev)
    have d: "driver_event ev \<Longrightarrow> map_option (Pair VC_OK) (channel_exec K ev c) = Some (s, c') \<Longrightarrow> settings c' = settings c"
      for c c' :: "'d vc_channel" and s by (cases ev) auto
    show ?thesis
    proof (cases "channel_valid ctrl ch \<and> driver_event ev")
      case True
      then have "on_channel ctrl ch (\<lambda>c. map_option (Pair VC_OK) (channel_exec K ev c)) = Some (st, ctrl')"
        using r Ctl_Driver by simp
      from on_channel_settings [OF this d] True s show ?thesis by simp
    next
      case False
      then show ?thesis using r s Ctl_Driver by (simp split: if_split_asm)
    qed
  next
    case (Ctl_Tick dt)
    then have t: "vc_controller_tick K ctrl dt = Some ctrl'" using r by auto
    show ?thesis
    proof (cases "operating_mode ctrl = VC_OPERATING_MODE_CALIBRATION")
      case True
      show ?thesis
      proof (cases "cal_watchdog_ms ctrl \<le> dt")
        case False
        then have "ctrl' = ctrl\<lparr>cal_watchdog_ms := cal_watchdog_ms ctrl - dt\<rparr>" using t True by (simp add: vc_controller_tick_def)
        then show ?thesis using s by (simp add: of_settings_def)
      next
        case expired: True
        then obtain st' where "vc_controller_set_operating_mode K ctrl (pre_cal_mode ctrl) = Some (st', ctrl')"
          using t True by (auto simp: vc_controller_tick_def vc_controller_cal_exit_def)
        then have "ctrl' = ctrl \<or> ctrl' = cal_watchdog_reset K ctrl \<or> enter_mode K ctrl (pre_cal_mode ctrl) = Some ctrl'"
          by (auto simp: vc_controller_set_operating_mode_def Let_def split: if_split_asm bind_splits)
        then show ?thesis
          using s enter_mode_settings [of K ctrl "pre_cal_mode ctrl" ctrl' n F] by (auto simp: of_settings_def cal_watchdog_reset_def)
      qed
    next
      case False
      then have a: "all_channels (\<lambda>ch. vc_channel_run K ch dt (sys_cfg ctrl)) ctrl = Some ctrl'"
        using t by (simp add: vc_controller_tick_def)
      have "each_channel (\<lambda>ch. vc_channel_run K ch dt (sys_cfg ctrl)) k cs = Some cs' \<Longrightarrow> map settings cs' = map settings cs"
        for k and cs cs' :: "'d vc_channel list"
        by (rule settings_each) (rule settings_run)
      then show ?thesis using a s by (auto simp: all_channels_def of_settings_def split: bind_splits)
    qed
  qed (use e in \<open>simp_all add: background_def\<close>)
qed

subsection \<open>A target voltage\<close>

text \<open>The capabilities of all channels, and what the channel \<open>i\<close> is set to.\<close>

abbreviation fitted :: "nat \<Rightarrow> u16 list \<Rightarrow> ('d, 's) vc_controller \<Rightarrow> bool" where
  "fitted n caps \<equiv> of_settings n (\<lambda>ss. map snd ss = caps)"

definition target_set :: "nat \<Rightarrow> u16 list \<Rightarrow> nat \<Rightarrow> s16 \<Rightarrow> vc_status \<Rightarrow> ('d, 's) vc_controller \<Rightarrow> bool" where
  "target_set n caps i v st = of_settings n (\<lambda>ss. map snd ss = caps \<and> (st = VC_OK \<longrightarrow> configured_target_voltage (fst (ss ! i)) = v))"

lemma target_turns:
  assumes i: "unat ch < n"
  shows "turns K z lookup m (VC_RUNTIME_CMD_SET_CHANNEL_FIELD ch VC_FIELD_CONFIGURED_TARGET_VOLTAGE v)
    (fitted n caps) (target_set n caps (unat ch) v)"
proof -
  have "target_set n caps (unat ch) v st ctrl'"
    if ok: "controller_ok K ctrl" and p: "fitted n caps ctrl"
      and r: "vc_controller_channel_set_field K ctrl ch VC_FIELD_CONFIGURED_TARGET_VOLTAGE v = Some (st, ctrl')"
    for ctrl ctrl' :: "('d, 's) vc_controller" and st
  proof -
    have n: "channel_count ctrl = n" "map capabilities (channels ctrl) = caps" "length (channels ctrl) = n"
      using p ok by (simp_all add: of_settings_def comp_def settings_def controller_ok_def)
    have valid: "channel_valid ctrl ch" using i n by (simp add: channel_valid_def)
    let ?c = "channels ctrl ! unat ch"
    obtain c1 where 1: "vc_channel_set_field K ?c VC_FIELD_CONFIGURED_TARGET_VOLTAGE v = Some (st, c1)"
      using r valid by (auto simp: vc_controller_channel_set_field_def on_channel_def
          simp del: vc_channel_set_field.simps split: if_split_asm bind_splits)
    have s1: "capabilities c1 = capabilities ?c" "st = VC_OK \<Longrightarrow> configured_target_voltage (config c1) = v"
      using 1 by (auto dest!: commit_config split: if_split_asm)
    obtain c2 where 2: "ctrl' = ctrl\<lparr>channels := (channels ctrl)[unat ch := c2]\<rparr>" "settings c2 = settings c1"
      using r valid 1 by (auto simp: vc_controller_channel_set_field_def on_channel_def
          simp del: vc_channel_set_field.simps dest!: settings_output split: if_split_asm bind_splits)
    have "capabilities c2 = caps ! unat ch" using n i 2(2) s1(1) by (auto simp: settings_def)
    then have "map capabilities ((channels ctrl)[unat ch := c2]) = caps" using n by (simp add: map_update)
    then show ?thesis
      using n i 2 s1(2) by (simp add: target_set_def of_settings_def comp_def settings_def)
  qed
  then show ?thesis by (auto simp: turns_def)
qed

subsection \<open>Reading it back\<close>

lemma status_rows:
  "list_all (\<lambda>(off, field, i). off < 40 \<and> map_of vc_regs field \<noteq> None) ch_input_view"
  by (simp add: ch_input_view_def vc_regs_def)

text \<open>A block of input registers is read to its end or to the first refusal; the runtime is as it was.\<close>

lemma status_block:
  fixes w :: "('d, 's, 'm) desk" and ch :: u8
  assumes c: "unat ch < VC_MAX_CHANNELS (cat B)"
  shows "list_all (\<lambda>i. off + of_nat i \<le> 15) [0..<n] \<Longrightarrow> desk_ok B z lookup m P w \<Longrightarrow>
    \<exists>r w1. read_each (desk_rd (vc_mb_input_rd B)) (chAddr (uint ch) off) n w = Some (r, w1) \<and> desk_ok B z lookup m P w1 \<and>
      vc_memory (fst w1) = vc_memory (fst w)"
proof (induction n arbitrary: off w)
  case (Suc n)
  have off: "off \<le> 15" using Suc.prems(1) by (simp add: upt_conv_Cons del: upt_Suc)
  then have "off \<in> set (map fst ch_input_view)" unfolding ch_input_view_def by simp unat_arith
  then obtain field i where m: "map_of ch_input_view off = Some (field, i)" by (auto simp: map_of_eq_None_iff dest: weak_map_of_SomeI)
  have row: "off < 40" "map_of vc_regs field \<noteq> None" using bspec [OF status_rows [unfolded list_all_iff] map_of_SomeD [OF m]] by simp_all
  then obtain type access category where f: "(field, type, access, category) \<in> set vc_regs" by (auto dest: map_of_SomeD)
  have up: "catalog_up (cat B) (fst w)" using Suc.prems(2) by (simp add: desk_ok_def)
  obtain r v s' where r: "vc_mb_input_rd B (40 + 40 * ucast ch + off) (fst w) = Some (r, v, s')" "only_reads (fst w) s'"
    by (rule input_total [OF up c row(1) m f])
  have ok: "desk_ok B z lookup m P (s', snd w)" by (rule desk_ok_reads [OF r(2) Suc.prems(2)])
  have suc: "chAddr (uint ch) off + 1 = chAddr (uint ch) (off + 1)" by (simp add: chAddr_def)
  have "list_all (\<lambda>i. off + 1 + of_nat i \<le> 15) [0..<n]"
    unfolding list_all_iff
  proof
    fix i
    assume "i \<in> set [0..<n]"
    then have "Suc i \<in> set [0..<Suc n]" by auto
    from bspec [OF Suc.prems(1) [unfolded list_all_iff] this] show "off + 1 + of_nat i \<le> 15" by (simp add: add.assoc)
  qed
  from Suc.IH [OF this ok] show ?case using r ok by (auto simp: desk_rd_def chAddr_channel suc only_reads_def)
qed simp

text \<open>The handlers on the desk read what the firmware's handlers read.\<close>

interpretation desk_channel: channel_registers "desk_rd (vc_mb_input_rd B)" "desk_rd (vc_mb_holding_rd B z A)" "uint (ch :: u8)"
    "\<lambda>w. catalog_up (cat B) (fst w) \<and> unat ch < VC_MAX_CHANNELS (cat B)"
    "\<lambda>w. channels (rt_ctrl (vc_memory (fst w))) ! unat ch" "map_prod drop_latch id"
proof (unfold_locales, goal_cases)
  case (5 w)
  show ?case by (simp add: drop_latch_def map_prod_def split_beta)
qed (auto simp: desk_rd_def firmware_holding firmware_caps)

definition on_desk ::
    "fw_build \<Rightarrow> 's settings_api \<Rightarrow> ('s \<Rightarrow> string \<Rightarrow> stored option) \<Rightarrow> nat \<Rightarrow> (('d, 's) vc_controller \<Rightarrow> bool) \<Rightarrow> u8 \<Rightarrow>
     ('d, 's) vc_runtime \<Rightarrow> ('d, 's, 'm) desk session \<Rightarrow> bool" where
  "on_desk B z lookup m P unit rt s \<longleftrightarrow> (\<exists>w. linked unit w s \<and> desk_ok B z lookup m P w \<and> vc_memory (fst w) = rt)"

lemma status_read:
  fixes ch :: u8 and s :: "('d, 's, 'm) desk session"
  assumes line: "answers L unit (desk_rd (vc_mb_input_rd B)) rd_hold wr" and c: "unat ch < VC_MAX_CHANNELS (cat B)"
    and s: "on_desk B z lookup m P unit rt s" and n: "unat off + unat n \<le> 16"
  shows "\<exists>r s1. readRegsInternal L False (chAddr (uint ch) off) n (- 1) s = Some (r, s1) \<and> on_desk B z lookup m P unit rt s1"
proof -
  obtain w where w: "linked unit w s" "desk_ok B z lookup m P w" "vc_memory (fst w) = rt" using s by (auto simp: on_desk_def)
  have "list_all (\<lambda>i. off + of_nat i \<le> 15) [0..<unat n]"
    unfolding list_all_iff
  proof
    fix i
    assume "i \<in> set [0..<unat n]"
    then have "unat off + i \<le> 15" using n by simp
    then have "unat (off + of_nat i) = unat off + i" by (simp add: unat_word_ariths unat_of_nat)
    then show "off + of_nat i \<le> 15" using \<open>unat off + i \<le> 15\<close> by (simp add: word_le_nat_alt)
  qed
  from status_block [OF c this w(2)] obtain r w1 where
    r: "read_each (desk_rd (vc_mb_input_rd B)) (chAddr (uint ch) off) (unat n) w = Some (r, w1)"
    "desk_ok B z lookup m P w1" "vc_memory (fst w1) = vc_memory (fst w)" by blast
  obtain s1 where s1: "readRegsInternal L False (chAddr (uint ch) off) n (- 1) s = Some (r, s1)" "linked unit w1 s1"
    using any_block [OF line w(1), of False "chAddr (uint ch) off" n r w1] r(1) by auto
  have "on_desk B z lookup m P unit rt s1" unfolding on_desk_def using s1(2) r(2,3) w(3) by (intro exI [of _ w1]) simp
  then show ?thesis using s1(1) by blast
qed

lemma readChannelStatus_ends:
  fixes ch :: u8 and s :: "('d, 's, 'm) desk session"
  assumes line: "answers L unit (desk_rd (vc_mb_input_rd B)) rd_hold wr" and c: "unat ch < VC_MAX_CHANNELS (cat B)"
    and s: "on_desk B z lookup m P unit rt s"
  shows "\<exists>ok info1 s1. readChannelStatus L (uint ch) (chCapFlags info) info (- 1) s = Some ((ok, info1), s1) \<and>
    on_desk B z lookup m P unit rt s1 \<and> chCapFlags info1 = chCapFlags info"
proof -
  have one: "\<exists>info1 s1. read_measurement L present (chAddr (uint ch) 0 + off) (- 1) upd info s = Some (info1, s1) \<and>
      on_desk B z lookup m P unit rt s1 \<and> chCapFlags info1 = chCapFlags info"
    if p: "on_desk B z lookup m P unit rt s" "\<And>v i. chCapFlags (upd v i) = chCapFlags i" "unat off + 1 \<le> 16" for present off upd info s
  proof (cases present)
    case True
    obtain r s1 where "readRegsInternal L False (chAddr (uint ch) off) 1 (- 1) s = Some (r, s1)" "on_desk B z lookup m P unit rt s1"
      using status_read [OF line c p(1), of off 1] p(3) by auto
    then show ?thesis using True p(2) by (cases r) (auto simp: read_measurement_def chAddr_def)
  qed (use p in \<open>simp add: read_measurement_def\<close>)
  obtain w where "linked unit w s" using s by (auto simp: on_desk_def)
  note live = if_connected_linked [OF this]
  have caps: "chCapFlags (runtime_fields buf (chCapFlags info) info) = chCapFlags info" for buf by (simp add: runtime_fields_def)
  obtain r s1 where 12: "readRegsInternal L False (chAddr (uint ch) 0) 12 (- 1) s = Some (r, s1)" "on_desk B z lookup m P unit rt s1"
    using status_read [OF line c s, of 0 12] by auto
  obtain r' s1' where 9: "readRegsInternal L False (chAddr (uint ch) 0) 9 (- 1) s = Some (r', s1')" "on_desk B z lookup m P unit rt s1'"
    using status_read [OF line c s, of 0 9] by auto
  show ?thesis
  proof (cases "has_cap (chCapFlags info) CH_CAP_VOLTAGE_MEASUREMENT \<and> has_cap (chCapFlags info) CH_CAP_CURRENT_MEASUREMENT")
    case True
    then show ?thesis using 12 caps by (cases r) (auto simp: readChannelStatus_def live Let_def runtime_fields_def)
  next
    case False
    show ?thesis
    proof (cases r')
      case None
      then show ?thesis using False 9 by (auto simp: readChannelStatus_def live Let_def)
    next
      case (Some buf)
      obtain i2 s2 where 2: "read_measurement L (has_cap (chCapFlags info) CH_CAP_VOLTAGE_MEASUREMENT) (chAddr (uint ch) 0 + CH_MEASURED_VOLTAGE)
          (- 1) set_voltage (runtime_fields buf (chCapFlags info) info) s1' = Some (i2, s2)"
        "on_desk B z lookup m P unit rt s2" "chCapFlags i2 = chCapFlags info"
        using one [OF 9(2), of set_voltage CH_MEASURED_VOLTAGE "has_cap (chCapFlags info) CH_CAP_VOLTAGE_MEASUREMENT" "runtime_fields buf (chCapFlags info) info"] caps by auto
      obtain i3 s3 where 3: "read_measurement L (has_cap (chCapFlags info) CH_CAP_CURRENT_MEASUREMENT) (chAddr (uint ch) 0 + CH_MEASURED_CURRENT)
          (- 1) set_current i2 s2 = Some (i3, s3)"
        "on_desk B z lookup m P unit rt s3" "chCapFlags i3 = chCapFlags i2"
        using one [OF 2(2), of set_current CH_MEASURED_CURRENT "has_cap (chCapFlags info) CH_CAP_CURRENT_MEASUREMENT" i2] by auto
      have "readChannelStatus L (uint ch) (chCapFlags info) info (- 1) s = Some ((True, i3), s3)"
        unfolding readChannelStatus_def live Let_def if_not_P [OF False] 9(1) Some by (simp add: 2(1) 3(1))
      then show ?thesis using 2 3 by auto
    qed
  qed
qed

lemma reread_status_ends:
  fixes ch :: u8 and g :: "('d, 's, 'm) desk gui_worker"
  assumes line: "answers L unit (desk_rd (vc_mb_input_rd B)) rd_hold wr" and c: "unat ch < VC_MAX_CHANNELS (cat B)"
    and s: "on_desk B z lookup m P unit rt (gui_client g)" and len: "unat ch < length (cachedChInfo g)"
  shows "\<exists>g1. reread_status L (uint ch) g = Some ((), g1) \<and> on_desk B z lookup m P unit rt (gui_client g1) \<and>
    gui_caps (uint ch) g1 = gui_caps (uint ch) g \<and> cachedChConfig g1 = cachedChConfig g \<and>
    length (cachedChInfo g1) = length (cachedChInfo g)"
proof -
  obtain ok info s1 where "readChannelStatus L (uint ch) (gui_caps (uint ch) g) (gui_info (uint ch) g) (- 1) (gui_client g) = Some ((ok, info), s1)"
    "on_desk B z lookup m P unit rt s1" "chCapFlags info = gui_caps (uint ch) g"
    using readChannelStatus_ends [OF line c s] by blast
  then show ?thesis using len by (simp add: reread_status_def on_client_def set_info_def)
qed

lemma target_write:
  fixes w :: "('d, 's, 'm) desk" and ch :: u8
  assumes K: "kconfig_in_range (kconf (cat B))" and z: "zephyr_settings z lookup"
    and script: "attentive (kconf (cat B)) z lookup m TYPE(('d, 's) vc_runtime) script"
    and ok: "desk_ok B z lookup m (fitted (VC_MAX_CHANNELS (cat B)) caps) w" and c: "unat ch < VC_MAX_CHANNELS (cat B)"
  shows "\<exists>r w1 st. desk_wr B z A script (chAddr (uint ch) CH_CFG_TARGET_VOLTAGE) v w = Some (r, w1) \<and> (r = VC_MB_OK \<longleftrightarrow> st = VC_OK) \<and>
    desk_ok B z lookup m (target_set (VC_MAX_CHANNELS (cat B)) caps (unat ch) v st) w1"
proof -
  have Q: "steady (kconf (cat B)) z lookup m (target_set (VC_MAX_CHANNELS (cat B)) caps (unat ch) v st)" for st
    unfolding target_set_def by (rule steady_settings)
  have n: "target_set (VC_MAX_CHANNELS (cat B)) caps (unat ch) v st ctrl \<Longrightarrow> channel_count ctrl = VC_MAX_CHANNELS (cat B)"
    for st and ctrl :: "('d, 's) vc_controller"
    by (simp add: target_set_def of_settings_def)
  have cmd: "vc_channel_write_command ch REG_VC_FIELD_CFG_TARGET_VOLTAGE v =
      Inr (VC_RUNTIME_CMD_SET_CHANNEL_FIELD ch VC_FIELD_CONFIGURED_TARGET_VOLTAGE v)"
    by (simp add: vc_channel_write_command_def vc_catalog_field_def)
  have refused: "desk_ok B z lookup m (fitted (VC_MAX_CHANNELS (cat B)) caps) w1 \<Longrightarrow>
      desk_ok B z lookup m (target_set (VC_MAX_CHANNELS (cat B)) caps (unat ch) v VC_ERR_INVALID_VALUE) w1"
    for w1 :: "('d, 's, 'm) desk" by (simp add: desk_ok_def target_set_def of_settings_def)
  have "REG_RW \<noteq> REG_RO" "passed_on CH_CFG_TARGET_VOLTAGE v"
    "CH_CFG_TARGET_VOLTAGE \<in> set [CH_OUTPUT_ACTION, CH_CFG_TARGET_VOLTAGE, CH_CAL_OUTPUT_ENABLE, CH_CAL_DAC_CODE, CH_CAL_SAMPLE_CMD]"
    by (simp_all add: passed_on_def)
  note written = desk_write [where A = A, OF K z steady_settings Q target_turns [OF c] n script ok c safe_rows(1,3) this(1) cmd this(2,3)]
  show ?thesis
  proof (rule written)
    fix r w1
    assume "desk_wr B z A script (chAddr (uint ch) CH_CFG_TARGET_VOLTAGE) v w = Some (r, w1)" "r \<noteq> VC_MB_OK"
      "desk_ok B z lookup m (fitted (VC_MAX_CHANNELS (cat B)) caps) w1"
    then show ?thesis using refused by (intro exI [of _ r] exI [of _ w1] exI [of _ VC_ERR_INVALID_VALUE]) simp
  next
    fix r w1 st
    assume "desk_wr B z A script (chAddr (uint ch) CH_CFG_TARGET_VOLTAGE) v w = Some (r, w1)" "r = VC_MB_OK \<longleftrightarrow> st = VC_OK"
      "desk_ok B z lookup m (target_set (VC_MAX_CHANNELS (cat B)) caps (unat ch) v st) w1"
    then show ?thesis by (intro exI [of _ r] exI [of _ w1] exI [of _ st]) simp
  qed
qed

text \<open>The block that is read after the write, and the signals that carry it.\<close>

lemma set_config_client [simp]: "gui_client (set_config ch cfg g) = gui_client g"
  by (simp add: set_config_def)

lemma refresh_block_runs:
  assumes "gui_channel ch" "reread_status L ch g = Some ((), g1)"
    and "block (gui_caps ch g1) (gui_config ch g1) (gui_client g1) = Some (cfg, s2)" "nat ch < length (cachedChConfig g1)"
  shows "refresh_block L block ch g = (let g2 = set_config ch cfg (g1\<lparr>gui_client := s2\<rparr>)
    in Some ([info_signal ch g2, Channel_Config_Ready ch (channelConfigToMap cfg)], g2))"
  using assms by (simp add: refresh_block_def on_client_def config_signal_def set_config_def Let_def)

lemma output_refresh:
  fixes ch :: u8 and g :: "('d, 's, 'm) desk gui_worker"
  assumes line: "answers L unit (desk_rd (vc_mb_input_rd B)) (desk_rd (vc_mb_holding_rd B z A)) wr"
    and c: "unat ch < VC_MAX_CHANNELS (cat B)" and n: "VC_MAX_CHANNELS (cat B) \<le> 16"
    and s: "on_desk B z lookup m P unit rt (gui_client g)"
    and len: "length (cachedChInfo g) = 16" "length (cachedChConfig g) = 16"
    and caps: "gui_caps (uint ch) g = capabilities (channels (rt_ctrl rt) ! unat ch)"
      "has_cap (gui_caps (uint ch) g) CH_CAP_RAW_OUTPUT_DRIVE"
  shows "\<exists>info cfg g1. refreshChannelOutput L (uint ch) g =
      Some ([Channel_Info_Ready (uint ch) info, Channel_Config_Ready (uint ch) (channelConfigToMap cfg)], g1) \<and>
    on_desk B z lookup m P unit rt (gui_client g1) \<and>
    configuredTargetVRaw cfg = configured_target_voltage (config (channels (rt_ctrl rt) ! unat ch))"
proof -
  have i: "unat ch < 16" using c n by simp
  obtain g1 where g1: "reread_status L (uint ch) g = Some ((), g1)" "on_desk B z lookup m P unit rt (gui_client g1)"
    "gui_caps (uint ch) g1 = gui_caps (uint ch) g" "cachedChConfig g1 = cachedChConfig g"
    using reread_status_ends [OF line c s] i len(1) by auto
  obtain w where w: "linked unit w (gui_client g1)" "desk_ok B z lookup m P w" "vc_memory (fst w) = rt"
    using g1(2) by (auto simp: on_desk_def)
  have serves: "serves L unit (desk_rd (vc_mb_input_rd B)) (desk_rd (vc_mb_holding_rd B z A)) wr"
    using line by (simp add: answers_def)
  have up: "catalog_up (cat B) (fst w) \<and> unat ch < VC_MAX_CHANNELS (cat B)" using w(2) c by (simp add: desk_ok_def)
  let ?k = "channels (rt_ctrl rt) ! unat ch"
  obtain cfg where b: "readChannelOutputBlock L (uint ch) (gui_caps (uint ch) g1) (gui_config (uint ch) g1) (gui_client g1) =
      Some (cfg, after (map_prod drop_latch id w) (gui_client g1))"
    and t: "configuredTargetVRaw cfg = configured_target_voltage (config ?k)"
    using desk_channel.reads_output_block [OF serves w(1) up] w(3) g1(3) caps by (simp add: Let_def)
  let ?g2 = "set_config (uint ch) cfg (g1\<lparr>gui_client := after (map_prod drop_latch id w) (gui_client g1)\<rparr>)"
  have "vc_memory (drop_latch (fst w)) = vc_memory (fst w)" by (simp add: drop_latch_def)
  then have on: "on_desk B z lookup m P unit rt (after (map_prod drop_latch id w) (gui_client g1))"
    unfolding on_desk_def using w by (intro exI [of _ "map_prod drop_latch id w"]) (simp add: desk_ok_def)
  have "int (unat ch) < int 16" using i by (simp only: of_nat_less_iff)
  then have "uint ch < 16" by simp
  then have "gui_channel (uint ch)" by (simp add: gui_channel_def)
  moreover have "nat (uint ch) < length (cachedChConfig g1)" using i len(2) g1(4) by simp
  ultimately have "refreshChannelOutput L (uint ch) g = Some ([info_signal (uint ch) ?g2,
      Channel_Config_Ready (uint ch) (channelConfigToMap cfg)], ?g2)"
    unfolding refreshChannelOutput_def using refresh_block_runs [where block = "readChannelOutputBlock L (uint ch)", OF _ g1(1) b]
    by (simp add: Let_def)
  moreover have "on_desk B z lookup m P unit rt (gui_client ?g2)" using on by simp
  ultimately show ?thesis using t unfolding info_signal_def by blast
qed


definition bench_ready :: "(unit, nvs, unit) desk" where
  "bench_ready = ((bench_firmware 7)\<lparr>vc_memory := bench_runtime\<lparr>rt_ctrl := bench_controller\<rparr>\<rparr>, 0)"

definition bench_window :: "(unit, nvs, unit) desk gui_worker" where
  "bench_window = (new_gui_worker bench_ready)
     \<lparr>gui_client := open_session bench_ready,
      cachedChInfo := replicate 16 (new_channel_info\<lparr>chCapFlags := capabilities (channels bench_controller ! 1)\<rparr>)\<rparr>"


end
