(* ===== verification/Spec2Isabelle.thy ===== *)
theory Spec2Isabelle
  imports Vc_Channel_Props Vc_Controller_Errors Vc_Catalog_Props Vc_Lifecycle
    Modbus_Channel_Props Modbus_Config_Props Board_Props Vc_Shell_Props Vc_Shell_Live
    Mb_Shell_Props Topology_Props Topology_File Host_Messages Host_Props
    Application Tui_Session Tui_Live_Props Factory_Props Gui_Props Gui_Confirm
begin

text \<open>
  A model of the firmware of a multi-channel power-supply controller (Zephyr RTOS, C) and of the core of its host
  tools (C++), and the theorems that make them correct. Paths are relative to \<open>src/\<close>.

  \<^bold>\<open>The program.\<close> A board has up to 16 voltage channels. A \<^emph>\<open>driver\<close> of
  \<open>drivers/voltage_control\<close> sets a channel's output and enable line and publishes its raw measurements.
  The \<^emph>\<open>channel\<close> (\<open>lib/voltage_control/vc_channel.c\<close>) is the domain logic over a driver: calibration,
  ramps, current protection, automatic recovery. The \<^emph>\<open>controller\<close> (\<open>vc_controller.c\<close>) owns all
  channels, the operating mode, the calibration session with its unlock and watchdog, and the parameter
  actions over a \<^emph>\<open>storage\<close> backend (\<open>vc_storage_settings.c\<close>). The \<^emph>\<open>runtime\<close> (\<open>vc_runtime.c\<close>) runs
  the controller in one worker thread that takes commands from a queue and ticks; its second half
  offers every value and command as a typed register of the \<^emph>\<open>catalog\<close> (\<open>lib/reg_store/reg_catalog.c\<close>).
  The \<^emph>\<open>Modbus adapter\<close> (\<open>lib/modbus_adapter\<close>) maps a 16-bit address space to the catalog and
  keeps the settings of the serial line; the \<^emph>\<open>system status\<close> module (\<open>lib/sys_status\<close>) contributes
  uptime, version, environment and reset. Shell consoles offer the same registers to a person. On a PC the library
  \<open>tools/psb_modbus_core\<close> speaks Modbus to the boards of a rack, one \<^emph>\<open>session\<close> for a board on a shared \<^emph>\<open>bus\<close>,
  and keeps the \<^emph>\<open>topology\<close> of the rack in a file. Three programs use it: a terminal client
  (\<open>tools/psb_demo_app/tui\<close>) that scans, polls and shows the boards, a thread for each bus, a window client
  (\<open>tools/psb_demo_app/gui\<close>) for one board, with a window and a worker thread, and a factory station
  (\<open>tools/factory/07_instrumental_cal\<close>) that calibrates them. On the board, \<open>main.c\<close> starts it all.

  \<^bold>\<open>Theories and what they model.\<close>
  \<^item> \<open>Prelude\<close>: integer widths, the division of C, error numbers, list facts.
  \<^item> \<open>Vc_Types\<close>: \<open>include/voltage_control/vc_types.h\<close>, the capability flags, the build options.
    \<open>Vc_Channel_Api\<close>: the driver vtable and the measurement buffer of \<open>vc_channel_api.h\<close>, with the
    interface \<open>vc_channel_driver\<close> (the enable line is where it was put).
  \<^item> \<open>Vc_Gain\<close>, \<open>Vc_Channel\<close>, \<open>Vc_Channel_Ops\<close>: \<open>vc_channel.c\<close>. A channel is a record with the fields of
    \<open>struct vc_channel\<close>; an operation takes and returns it, and is undefined (\<open>None\<close>) where the C code
    would overflow a 64-bit value, divide by zero, run past a table or need a driver entry that is missing.
    The other \<open>Vc_Channel_*\<close> theories: calibration arithmetic (\<open>_Voltage\<close>), invariant (\<open>_Inv\<close>),
    ramps (\<open>_Ramp\<close>), events (\<open>_Steps\<close>), progress (\<open>_Live\<close>), properties (\<open>_Props\<close>).
  \<^item> \<open>Vc_Storage\<close>: the storage vtable and \<open>vc_storage_settings.c\<close>. Zephyr's settings functions are the
    parameter \<open>settings_api\<close>; \<open>zephyr_settings\<close> states their documented behaviour, \<open>vc_storage\<close> the
    contract of a backend, which the settings backend keeps over any such functions; a map satisfies them.
  \<^item> \<open>Vc_Controller\<close>, \<open>Vc_Controller_Ops\<close>: \<open>vc_controller.c\<close>. \<open>_Steps\<close> and \<open>_Hot\<close> give its events,
    \<open>_Inv\<close> the invariant, \<open>_Props\<close> the session and mode properties, \<open>_Errors\<close> what a refusal leaves.
  \<^item> \<open>Vc_Runtime\<close>: the queue, the worker, the waiting calibration sample and the construction of
    \<open>vc_runtime.c\<close> as steps of threads. \<open>_Props\<close> shows that every run is a run of the controller, \<open>_Queue\<close>
    that commands are served in order and answered. \<open>Vc_Lifecycle\<close>: the acquire, release,
    create and destroy protocol at the grain of its atomic operations.
  \<^item> \<open>Reg_Catalog\<close>, \<open>Reg_Schema\<close>, \<open>Vc_Catalog\<close>: descriptors and the read and write paths, the \<open>.def\<close> lists
    of \<open>include/reg_store\<close>, the registers of the voltage-control service. \<open>Vc_Catalog_Props\<close>: handles
    are ids, reads are typed, written configuration reads back.
  \<^item> \<open>Sys_Status\<close>: \<open>lib/sys_status\<close> and the record \<open>firmware\<close> of the static state of all modules. \<open>Modbus_Config\<close>
    and \<open>Modbus_Adapter\<close>: \<open>modbus_adapter.c\<close>. \<open>Modbus_Register\<close>: \<open>modbus_register.c\<close> and
    \<open>modbus_view.def\<close>. Zephyr's Modbus server is the parameter \<open>modbus_api\<close>. \<open>Modbus_Props\<close>: addresses and
    32-bit system registers; \<open>Modbus_Channel_Props\<close>: the channel view agrees with the catalog;
    \<open>Modbus_Config_Props\<close>: the serial settings stay legal and survive a restart.
  \<^item> \<open>Board_Io\<close>, \<open>Ad5541\<close>, \<open>Hvb_Vc_Channel\<close>, \<open>Lvb_Vc_Channel\<close>: the pins and buses as a parameter with their
    documented behaviour (\<open>board_pins\<close>), the converter driver, the two channel drivers, each a
    \<open>vc_channel_driver\<close> over any such board. \<open>Driver_Props\<close>: bounded output, a sampling loop that does not
    stall, means.
  \<^item> \<open>Ads1232\<close>: \<open>drivers/sensor/ads1232\<close>, the bit-banged converter behind an HVB channel; its pins are the parameter
    \<open>ads1232_io\<close>, and \<open>ads1232_chip\<close> (in \<open>Ads1232_Props\<close>) states how the chip shifts its bits out. \<open>Board_Props\<close>
    composes channel, drivers and converter: what a trip does to the pins, what a late conversion becomes.
  \<^item> \<open>Shell_Console\<close>: the console of the Zephyr shell and the number parsing and printing of the C library (an
    \<open>unsigned long\<close> has 32 bits). A console holds the system, the output so far, the keys that will be polled, and
    what other threads do between two accesses to the catalog (\<open>con_between\<close>, \<open>con_waits\<close>).
    \<open>Vc_Shell_Base\<close>, \<open>Vc_Shell_Text\<close>, \<open>Vc_Shell\<close>: \<open>vc_shell.c\<close>. \<open>Vc_Shell_Props\<close>: names and numbers;
    \<open>Vc_Shell_Reads\<close>: the reads over the interface \<open>shell_channel\<close>, kept by the catalog of the whole firmware;
    \<open>Vc_Shell_Live\<close>: status and watch over the interface \<open>shell_snapshots\<close>. \<open>Mb_Shell\<close>: the consoles \<open>mb\<close>
    (\<open>modbus_adapter_shell.c\<close>) and \<open>ss\<close> (\<open>sys_status_shell.c\<close>); \<open>Mb_Shell_Props\<close>: what \<open>mb set\<close> does to the settings, which
    temperatures print alike.
  \<^item> \<open>Topology\<close>, \<open>Topology_File\<close>: \<open>topology_rules.cpp\<close> and \<open>topology_config.cpp\<close> of \<open>tools/psb_modbus_core\<close>. The TOML
    library is the parameter \<open>toml_lib\<close>. \<open>Topology_Props\<close>: what every sequence of operations keeps.
  \<^item> \<open>Host_Bus\<close>, \<open>Host_Session\<close>, \<open>Host_Reads\<close>, \<open>Host_Writes\<close>: \<open>psb_serial_bus.cpp\<close>, \<open>psb_board_session.cpp\<close> with \<open>types.h\<close> and
    \<open>register_map.h\<close>, and the connection of \<open>psb_modbus_client.cpp\<close>. The Modbus master library is the parameter
    \<open>modbus_lib\<close>, polled until a request is done. \<open>Host_Props\<close>: the interface \<open>channel_registers\<close> of a block of
    registers, kept by the firmware's Modbus handlers, and the law \<open>serves\<close> of the line and the server between
    the two; through them a host's call is followed down to the channel. \<open>Host_Messages\<close>: \<open>message_log.cpp\<close>,
    \<open>channel_policy.h\<close>, \<open>board_catalog.h\<close>, the names of \<open>types.h\<close>.
  \<^item> \<open>Application\<close>: \<open>main.c\<close>, the facade \<open>vc.c\<close>, creation and destruction of the runtime as whole functions, the start-up,
    timer and thread of the status module. What it is built with is \<open>app_build\<close>.
  \<^item> \<open>Tui_Session\<close>: the connect scan, the poll and the bus scan of \<open>board_session.h\<close> and \<open>wizard_scan.h\<close>.
    \<open>Tui_Switcher\<close>: the two menus of \<open>board_switcher.h\<close> and \<open>group_view_selection.h\<close>. \<open>Tui_Live\<close>: the bus threads of
    \<open>main.cpp\<close> with their queues, and boards that come and go while they run, as steps of threads over a heap of objects;
    \<open>Tui_Live_Props\<close>: its ownership invariant.
  \<^item> \<open>Factory_Worker\<close>: \<open>CalibrationWorker.cpp\<close>, the sweep and the quick operations of the factory station.
    \<open>Factory_Board\<close>: what ticks, drivers and one command of the station make of the controller, for every
    interleaving (\<open>steady\<close>, \<open>turns\<close>, \<open>submit_law\<close>), and the firmware's handlers as a desk whose script lets the other threads
    run while a command waits. \<open>Factory_Props\<close>: the interface \<open>sweep_board\<close> of the registers a sweep uses, kept by that
    desk, and what a sweep and \<open>SAFE ALL\<close> leave energised.
  \<^item> \<open>Gui_Worker\<close>, \<open>Gui_Backend\<close>: \<open>modbus_worker.cpp\<close> and \<open>modbus_backend.cpp\<close>, the two threads of the window client, joined by
    two queues of slots and signals. \<open>Gui_Props\<close>: what every order of their turns keeps. \<open>Gui_Confirm\<close>: ticks and drivers leave a
    channel's configuration, and a target voltage is followed from the window to the channel and back.

  \<^bold>\<open>What is shown.\<close> For a channel: the calibration arithmetic is monotone and saturates, the ramp reaches its
  target as its closed form says, protection trips exactly above the threshold, a retry log is the
  bounded log it stands for, and no operation is undefined from a well-formed state. For the controller: every
  history is defined, at most one channel is energised for calibration, calibration needs its unlock and ends
  with its watchdog, saved configurations come back. For the runtime: interleaved threads refine the
  controller, admitted commands are served in order and answered within a bound. For the registers: ids, handles,
  types, capability gates and the Modbus view agree, and the console shows a channel as it is. For the host: the
  configuration a session reads is the channel's, a write of several registers is the writes it consists of, the names
  and addresses of a topology stay unique, a saved topology loads back. For the start-up: it ends with the board up or with the failure printed.
  For the terminal client: a scan lists the boards that answer, a channel is offline from its sixth silent poll,
  selections stay on their entries, and no thread uses a board or worker that is gone. For the factory station: a sweep
  returns and leaves no output on, through every layer down to the channel. For the window client: the connection it
  shows is the worker's, and a setting it reports as written is what the channel is set to. Theorems that a behaviour is \<^emph>\<open>not\<close> as a comment
  or a document says are stated as what the code does.

  \<^bold>\<open>Conventions and bounds.\<close> Integers keep their width (\<open>u16\<close>, \<open>s16\<close>, ...); signed 64-bit arithmetic is checked.
  An access out of bounds is \<open>None\<close>, and the theorems show it is not reached. Loops are structural or
  terminate by a measure, but for the watch of the shell, which returns when a key comes (proved in \<open>Vc_Shell_Live\<close>), and
  the loop around the host's Modbus library, which returns when the library does (the law \<open>serves\<close>): both are
  \<open>partial_function\<close>s. No result depends on fuel. A waiting caller is given the events that happen
  while it waits (\<open>k_wait\<close>), so what other threads do is an argument and not an assumption.
  A mutex or a spinlock makes its critical section one step.

  \<^bold>\<open>Not modelled.\<close> The devices behind \<open>board_io\<close>; the screens of the terminal client (drawing, focus, dialogs, its
  launch and quit sequence), the Qt interface over the window client's data, and the command-line tool; the fits, tests
  and reports of the factory station, whose arithmetic is floating point, the host's conversions to units, its preferences and its access to files
  and environment; demos and tests; logging.
\<close>

end
